(* ===== verification/Go_Ops.thy ===== *)
theory Go_Ops
  imports Main
begin

text \<open>
  Operations on the outside world that can fail: an operation is a function of the world that
  returns its error or value and the new world, or \<^term>\<open>None\<close> when the process panics.
\<close>

type_synonym ('w, 'a) op = "'w \<Rightarrow> ((string + 'a) \<times> 'w) option"

definition ret :: "'a \<Rightarrow> ('w, 'a) op" where
  "ret a w = Some (Inr a, w)"

definition fail :: "string \<Rightarrow> ('w, 'a) op" where
  "fail e w = Some (Inl e, w)"

text \<open>\<^verbatim>\<open>if err != nil { return fmt.Errorf("...: %w", err) }\<close>, with the message that wraps the error.\<close>

definition chk :: "string \<Rightarrow> ('w, 'a) op \<Rightarrow> ('a \<Rightarrow> ('w, 'b) op) \<Rightarrow> ('w, 'b) op" where
  "chk msg m f w =
     (case m w of
        None \<Rightarrow> None
      | Some (Inl e, w') \<Rightarrow> Some (Inl (msg @ e), w')
      | Some (Inr a, w') \<Rightarrow> f a w')"

text \<open>The error is logged or dropped and the code goes on with both cases.\<close>

definition attempt :: "('w, 'a) op \<Rightarrow> (string + 'a \<Rightarrow> ('w, 'b) op) \<Rightarrow> ('w, 'b) op" where
  "attempt m f w = (case m w of None \<Rightarrow> None | Some (r, w') \<Rightarrow> f r w')"

fun for_each :: "('a \<Rightarrow> ('w, unit) op) \<Rightarrow> 'a list \<Rightarrow> ('w, unit) op" where
  "for_each f [] w = ret () w"
| "for_each f (x # xs) w = chk [] (f x) (\<lambda>_. for_each f xs) w"

fun for_all :: "('a \<Rightarrow> ('w, unit) op) \<Rightarrow> 'a list \<Rightarrow> ('w, unit) op" where
  "for_all f [] w = ret () w"
| "for_all f (x # xs) w = attempt (f x) (\<lambda>_. for_all f xs) w"

lemma chk_InrE:
  assumes "chk msg m f w = Some (Inr b, w'')"
  obtains a w' where "m w = Some (Inr a, w')" "f a w' = Some (Inr b, w'')"
  using assms by (auto simp: chk_def split: option.splits sum.splits)

lemma chk_SomeE:
  assumes "chk msg m f w = Some (r, w'')"
  obtains (err) e where "m w = Some (Inl e, w'')" "r = Inl (msg @ e)"
  | (ok) a w' where "m w = Some (Inr a, w')" "f a w' = Some (r, w'')"
  using assms by (auto simp: chk_def split: option.splits sum.splits)

lemma attemptE:
  assumes "attempt m f w = Some (r, w'')"
  obtains a w' where "m w = Some (a, w')" "f a w' = Some (r, w'')"
  using assms by (auto simp: attempt_def split: option.splits)

lemma ret_iff [simp]: "ret a w = Some (r, w') \<longleftrightarrow> r = Inr a \<and> w' = w"
  by (auto simp: ret_def)

lemma fail_iff [simp]: "fail e w = Some (r, w') \<longleftrightarrow> r = Inl e \<and> w' = w"
  by (auto simp: fail_def)

lemma chk_Inr: "m w = Some (Inr a, w') \<Longrightarrow> chk msg m f w = f a w'"
  by (simp add: chk_def)

lemma chk_Inl: "m w = Some (Inl e, w') \<Longrightarrow> chk msg m f w = Some (Inl (msg @ e), w')"
  by (simp add: chk_def)

lemma attempt_Some: "m w = Some (r, w') \<Longrightarrow> attempt m f w = f r w'"
  by (simp add: attempt_def)

end
