(* ===== verification/Go_Path.thy ===== *)
theory Go_Path
  imports Prelude
begin

text \<open>
  Go's \<^verbatim>\<open>path/filepath\<close> on a Unix system, as far as the sources use it:
  \<open>Clean\<close>, \<open>Join\<close>, \<open>Rel\<close>, \<open>Base\<close>, \<open>Dir\<close>, \<open>Ext\<close>. A path is read as the list of
  its cleaned elements (\<open>path_elems\<close>); the lemmas relate each function to that list.
\<close>

subsection \<open>Cleaning\<close>

abbreviation slash :: char where "slash \<equiv> CHR ''/''"

definition is_rooted :: "string \<Rightarrow> bool" where
  "is_rooted p = (case p of [] \<Rightarrow> False | c # _ \<Rightarrow> c = slash)"

text \<open>One element of the path: the accumulator holds the elements so far, last one first.\<close>

definition clean_elem :: "bool \<Rightarrow> string list \<Rightarrow> string \<Rightarrow> string list" where
  "clean_elem rooted acc e =
     (if e = [] \<or> e = ''.'' then acc
      else if e = ''..'' then
        (case acc of
           [] \<Rightarrow> if rooted then [] else [''..'']
         | x # xs \<Rightarrow> if x = ''..'' then ''..'' # acc else xs)
      else e # acc)"

definition clean_elems :: "bool \<Rightarrow> string list \<Rightarrow> string list" where
  "clean_elems rooted es = rev (foldl (clean_elem rooted) [] es)"

definition path_elems :: "string \<Rightarrow> string list" where
  "path_elems p = clean_elems (is_rooted p) (split_on slash p)"

definition unelems :: "bool \<Rightarrow> string list \<Rightarrow> string" where
  "unelems rooted es =
     (if rooted then slash # join [slash] es
      else if es = [] then ''.'' else join [slash] es)"

definition Clean :: "string \<Rightarrow> string" where
  "Clean p = unelems (is_rooted p) (path_elems p)"

definition PathJoin :: "string \<Rightarrow> string \<Rightarrow> string" where
  "PathJoin a b =
     (if a \<noteq> [] then Clean (a @ [slash] @ b) else if b \<noteq> [] then Clean b else [])"

text \<open>The shape of a cleaned path: proper elements, with \<^verbatim>\<open>..\<close> only in front, and not in a rooted path.\<close>

definition proper_elem :: "string \<Rightarrow> bool" where
  "proper_elem e \<longleftrightarrow> e \<noteq> [] \<and> e \<noteq> ''.'' \<and> slash \<notin> set e"

definition clean_list :: "bool \<Rightarrow> string list \<Rightarrow> bool" where
  "clean_list rooted es \<longleftrightarrow>
     (\<exists>n es'. es = replicate n ''..'' @ es' \<and> (\<forall>e \<in> set es'. proper_elem e \<and> e \<noteq> ''..'') \<and>
       (rooted \<longrightarrow> n = 0))"

lemma clean_listI:
  "\<forall>e \<in> set es'. proper_elem e \<and> e \<noteq> ''..'' \<Longrightarrow> (r \<Longrightarrow> n = 0) \<Longrightarrow>
   clean_list r (replicate n ''..'' @ es')"
  unfolding clean_list_def by blast

lemma clean_listE:
  assumes "clean_list r es"
  obtains n es' where "es = replicate n ''..'' @ es'"
    "\<forall>e \<in> set es'. proper_elem e \<and> e \<noteq> ''..''" "r \<longrightarrow> n = 0"
  using assms by (auto simp: clean_list_def)

lemma clean_list_Nil [simp]: "clean_list r []"
  using clean_listI [of "[]" r 0] by simp

lemma clean_list_rooted_iff:
  "clean_list True es \<longleftrightarrow> (\<forall>e \<in> set es. proper_elem e \<and> e \<noteq> ''..'')"
  by (auto simp: clean_list_def)

lemma proper_elem_dotdot [simp]: "proper_elem ''..''"
  by (simp add: proper_elem_def)

lemma clean_list_proper:
  assumes "clean_list r es" "e \<in> set es"
  shows "proper_elem e"
proof -
  obtain n es' where es: "es = replicate n ''..'' @ es'"
    "\<forall>e \<in> set es'. proper_elem e \<and> e \<noteq> ''..''"
    using assms(1) by (rule clean_listE)
  have "set es \<subseteq> {''..''} \<union> set es'" unfolding es(1) by auto
  with assms(2) have "e = ''..'' \<or> e \<in> set es'" by blast
  with es(2) show ?thesis by (elim disjE) simp_all
qed

lemma clean_list_snoc:
  assumes "clean_list r es" "proper_elem e" "e \<noteq> ''..''"
  shows "clean_list r (es @ [e])"
proof -
  obtain n es' where "es = replicate n ''..'' @ es'"
    "\<forall>e \<in> set es'. proper_elem e \<and> e \<noteq> ''..''" "r \<longrightarrow> n = 0"
    using assms(1) by (rule clean_listE)
  with assms(2,3) clean_listI [of "es' @ [e]" r n] show ?thesis by auto
qed

lemma clean_list_butlast:
  assumes "clean_list r (es @ [e])"
  shows "clean_list r es"
proof -
  obtain n es' where es: "es @ [e] = replicate n ''..'' @ es'"
    "\<forall>e \<in> set es'. proper_elem e \<and> e \<noteq> ''..''" "r \<longrightarrow> n = 0"
    using assms by (rule clean_listE)
  show ?thesis
  proof (cases es' rule: rev_cases)
    case Nil
    with es(1) have "es @ [e] = replicate n ''..''" by simp
    then have "butlast (es @ [e]) = butlast (replicate n ''..'')" by (rule arg_cong)
    then have "es = replicate (n - 1) ''..'' @ []"
      by (cases n) (simp_all add: replicate_append_same [symmetric])
    with clean_listI [of "[]" r "n - 1"] es(3) show ?thesis by simp
  next
    case (snoc ys y)
    with es(1) have "es = replicate n ''..'' @ ys" by simp
    moreover have "\<forall>e \<in> set ys. proper_elem e \<and> e \<noteq> ''..''" using es(2) snoc by simp
    ultimately show ?thesis using clean_listI [of ys r n] es(3) by metis
  qed
qed

lemma clean_list_dotdot:
  assumes "clean_list False es" "es = [] \<or> last es = ''..''"
  shows "clean_list False (es @ [''..''])"
proof -
  obtain n es' where es: "es = replicate n ''..'' @ es'"
    "\<forall>e \<in> set es'. proper_elem e \<and> e \<noteq> ''..''"
    using assms(1) by (rule clean_listE)
  have "es' = []"
  proof (rule ccontr)
    assume ne: "es' \<noteq> []"
    with es(1) assms(2) have "last es' = ''..''" by simp
    with ne es(2) show False by (metis last_in_set)
  qed
  with es(1) have eq: "es @ [''..''] = replicate (Suc n) ''..'' @ []"
    by (simp add: replicate_append_same)
  show ?thesis unfolding eq by (rule clean_listI) simp_all
qed

lemma clean_elem_invar:
  assumes "clean_list r (rev acc)" "slash \<notin> set e"
  shows "clean_list r (rev (clean_elem r acc e))"
proof (cases "e = ''..''")
  case True
  show ?thesis
  proof (cases acc)
    case Nil
    with True clean_list_dotdot [of "[]"] show ?thesis by (auto simp: clean_elem_def)
  next
    case (Cons x xs)
    have "\<not> r" if "x = ''..''"
      using assms(1) Cons that by (cases r) (auto simp: clean_list_rooted_iff)
    moreover have "clean_list r (rev xs)"
      using assms(1) Cons by (auto dest: clean_list_butlast)
    moreover have "clean_list False (rev acc @ [''..''])" if "x = ''..''" "\<not> r"
      using assms(1) Cons that by (intro clean_list_dotdot) auto
    ultimately show ?thesis using True Cons by (auto simp: clean_elem_def)
  qed
next
  case False
  with assms show ?thesis
    by (auto simp: clean_elem_def proper_elem_def intro: clean_list_snoc)
qed

lemma foldl_clean_elem_invar:
  "clean_list r (rev acc) \<Longrightarrow> \<forall>e \<in> set es. slash \<notin> set e \<Longrightarrow>
   clean_list r (rev (foldl (clean_elem r) acc es))"
  by (induction es arbitrary: acc) (auto intro: clean_elem_invar)

lemma path_elems_clean [go_path]: "clean_list (is_rooted p) (path_elems p)"
  unfolding path_elems_def clean_elems_def
  by (rule foldl_clean_elem_invar) (auto dest: split_on_no_sep)

lemma path_elems_proper: "e \<in> set (path_elems p) \<Longrightarrow> proper_elem e"
  using path_elems_clean by (rule clean_list_proper)

lemma path_elems_no_dotdot: "is_rooted p \<Longrightarrow> ''..'' \<notin> set (path_elems p)"
  using path_elems_clean [of p] by (auto simp: clean_list_rooted_iff)

subsection \<open>Cleaning a clean path changes nothing\<close>

lemma foldl_clean_elem_plain:
  "\<forall>e \<in> set es. proper_elem e \<and> e \<noteq> ''..'' \<Longrightarrow> foldl (clean_elem r) acc es = rev es @ acc"
  by (induction es arbitrary: acc) (auto simp: clean_elem_def proper_elem_def)

lemma foldl_clean_elem_dots:
  "\<forall>e \<in> set es. e = ''..'' \<Longrightarrow> \<forall>e \<in> set acc. e = ''..'' \<Longrightarrow>
   foldl (clean_elem False) acc es = es @ acc"
proof (induction es arbitrary: acc)
  case (Cons e es)
  then have "clean_elem False acc e = ''..'' # acc"
    by (auto simp: clean_elem_def split: list.splits)
  moreover have "es @ ''..'' # acc = ''..'' # es @ acc"
    using Cons.prems(1) by (induction es) auto
  ultimately show ?case using Cons by simp
qed simp

lemma clean_elems_clean:
  assumes "clean_list r es"
  shows "clean_elems r es = es"
proof -
  obtain n es' where es: "es = replicate n ''..'' @ es'"
    "\<forall>e \<in> set es'. proper_elem e \<and> e \<noteq> ''..''" "r \<longrightarrow> n = 0"
    using assms by (rule clean_listE)
  have "foldl (clean_elem r) [] (replicate n ''..'') = replicate n ''..''"
    using es(3) by (cases r) (simp_all add: foldl_clean_elem_dots)
  with es(1,2) show ?thesis
    by (simp add: clean_elems_def foldl_clean_elem_plain)
qed

lemma clean_elems_Nil [simp]: "clean_elems r [] = []"
  by (simp add: clean_elems_def)

lemma clean_elems_Cons_empty [simp]: "clean_elems r ([] # es) = clean_elems r es"
  by (simp add: clean_elems_def clean_elem_def)

lemma is_rooted_join:
  assumes "es \<noteq> []" "\<forall>e \<in> set es. proper_elem e"
  shows "\<not> is_rooted (join [slash] es)"
proof -
  from assms obtain c cs es' where es: "es = (c # cs) # es'" "c \<noteq> slash"
    by (cases es; cases "hd es") (auto simp: proper_elem_def)
  moreover obtain r where "join [slash] ((c # cs) # es') = (c # cs) @ r"
    using join_Cons_ex by blast
  ultimately show ?thesis by (simp add: is_rooted_def)
qed

lemma is_rooted_unelems:
  "\<forall>e \<in> set es. proper_elem e \<Longrightarrow> is_rooted (unelems r es) = r"
  using is_rooted_join [of es] by (auto simp: unelems_def is_rooted_def)

lemma path_elems_unelems:
  assumes "clean_list r es"
  shows "path_elems (unelems r es) = es"
proof -
  have pe: "\<forall>e \<in> set es. proper_elem e" using assms by (auto dest: clean_list_proper)
  then have ns: "\<forall>e \<in> set es. slash \<notin> set e" by (auto simp: proper_elem_def)
  show ?thesis
  proof (cases "es = []")
    case True
    then show ?thesis
      by (cases r) (auto simp: path_elems_def unelems_def is_rooted_def clean_elems_def clean_elem_def)
  next
    case False
    then have "split_on slash (join [slash] es) = es" using ns by (rule split_on_join)
    with False assms show ?thesis
      unfolding path_elems_def is_rooted_unelems [OF pe]
      by (cases r) (simp_all add: unelems_def clean_elems_clean)
  qed
qed

lemma path_elems_Clean [simp, go_path]: "path_elems (Clean p) = path_elems p"
  unfolding Clean_def by (rule path_elems_unelems) (rule path_elems_clean)

lemma is_rooted_Clean [simp, go_path]: "is_rooted (Clean p) = is_rooted p"
  unfolding Clean_def by (rule is_rooted_unelems) (auto dest: path_elems_proper)

lemma Clean_Clean [simp]: "Clean (Clean p) = Clean p"
proof -
  have "Clean (Clean p) = unelems (is_rooted (Clean p)) (path_elems (Clean p))" by (rule Clean_def)
  also have "\<dots> = Clean p" unfolding is_rooted_Clean path_elems_Clean by (rule Clean_def [symmetric])
  finally show ?thesis .
qed

lemma Clean_eq_iff:
  "Clean p = Clean q \<longleftrightarrow> is_rooted p = is_rooted q \<and> path_elems p = path_elems q"
proof
  assume eq: "Clean p = Clean q"
  have "is_rooted (Clean p) = is_rooted (Clean q)" "path_elems (Clean p) = path_elems (Clean q)"
    unfolding eq by (rule refl)+
  then show "is_rooted p = is_rooted q \<and> path_elems p = path_elems q" by simp
qed (simp add: Clean_def)

subsection \<open>Joining a proper element below a root\<close>

lemma is_rooted_append: "is_rooted a \<Longrightarrow> is_rooted (a @ b)"
  by (cases a) (auto simp: is_rooted_def)

lemma split_on_append_sep: "split_on c (a @ c # b) = split_on c a @ split_on c b"
proof (induction a)
  case (Cons x xs)
  then show ?case by (cases "split_on c xs") (auto split: list.splits)
qed simp

lemma path_elems_join_gen:
  "is_rooted a \<Longrightarrow>
   path_elems (a @ slash # b) = rev (foldl (clean_elem True) (rev (path_elems a)) (split_on slash b))"
  by (simp add: path_elems_def is_rooted_append split_on_append_sep clean_elems_def)

lemma path_elems_PathJoin [go_path]:
  assumes "is_rooted a" "proper_elem e" "e \<noteq> ''..''"
  shows "path_elems (PathJoin a e) = path_elems a @ [e]"
proof -
  from assms(1) have "a \<noteq> []" by (auto simp: is_rooted_def)
  moreover have "split_on slash e = [e]"
    using assms(2) by (simp add: split_on_id proper_elem_def)
  ultimately show ?thesis
    using assms by (simp add: PathJoin_def path_elems_join_gen clean_elem_def proper_elem_def)
qed

lemma is_rooted_PathJoin [simp]: "is_rooted a \<Longrightarrow> is_rooted (PathJoin a b)"
  by (auto simp: PathJoin_def is_rooted_append) (auto simp: is_rooted_def)

subsection \<open>Relative paths\<close>

fun strip_common :: "'a list \<Rightarrow> 'a list \<Rightarrow> 'a list \<times> 'a list" where
  "strip_common (x # xs) (y # ys) = (if x = y then strip_common xs ys else (x # xs, y # ys))"
| "strip_common xs ys = (xs, ys)"

text \<open>The elements of a cleaned path, as \<open>Rel\<close> compares them.\<close>

definition rel_elems :: "string \<Rightarrow> string list" where
  "rel_elems p = filter (\<lambda>e. e \<noteq> []) (split_on slash p)"

definition Rel :: "string \<Rightarrow> string \<Rightarrow> unit + string" where
  "Rel base targ =
     (let b = Clean base; t = Clean targ in
      if t = b then Inr ''.''
      else if is_rooted b \<noteq> is_rooted t then Inl ()
      else
        (case strip_common (if b = ''.'' then [] else rel_elems b) (rel_elems t) of
           (b', t') \<Rightarrow>
             if b' \<noteq> [] \<and> t' \<noteq> [] \<and> hd b' = ''..'' then Inl ()
             else Inr (join [slash] (replicate (length b') ''..'' @ t'))))"

lemma rel_elems_Clean_rooted [go_path]:
  assumes "is_rooted p"
  shows "rel_elems (Clean p) = path_elems p"
proof -
  have pe: "\<forall>e \<in> set (path_elems p). proper_elem e" by (auto dest: path_elems_proper)
  have fl: "filter (\<lambda>e. e \<noteq> []) (path_elems p) = path_elems p"
    using pe by (auto simp: proper_elem_def)
  show ?thesis
  proof (cases "path_elems p = []")
    case True
    with assms show ?thesis by (simp add: Clean_def unelems_def rel_elems_def)
  next
    case False
    have "split_on slash (join [slash] (path_elems p)) = path_elems p"
      using False pe by (intro split_on_join) (auto simp: proper_elem_def)
    with assms fl show ?thesis by (simp add: Clean_def unelems_def rel_elems_def)
  qed
qed

lemma strip_common_append: "strip_common xs (xs @ ys) = ([], ys)"
  by (induction xs) (auto elim: strip_common.elims)

lemma strip_common_eq:
  "strip_common xs ys = (xs', ys') \<Longrightarrow> \<exists>zs. xs = zs @ xs' \<and> ys = zs @ ys'"
proof (induction xs ys rule: strip_common.induct)
  case (1 x xs y ys)
  show ?case
  proof (cases "x = y")
    case True
    with 1 obtain zs where "xs = zs @ xs'" "ys = zs @ ys'" by auto
    with True show ?thesis by (intro exI [of _ "x # zs"]) simp
  next
    case False
    with 1 show ?thesis by simp
  qed
qed auto

lemma join_hd_slash:
  assumes "slash \<notin> set x"
  shows "join [slash] (x # xs) = ''..'' \<or> prefix ''../'' (join [slash] (x # xs)) \<longleftrightarrow> x = ''..''"
proof -
  define s where "s = join [slash] (x # xs)"
  have sp: "split_on slash s = x # (if xs = [] then [] else split_on slash (join [slash] xs))"
    unfolding s_def using assms by (cases xs) (auto simp: split_on_id split_on_append)
  have "x = ''..''" if "s = ''..''"
    using sp that by simp
  moreover have "x = ''..''" if "prefix ''../'' s"
  proof -
    from that obtain r where "s = ''..'' @ slash # r" by (auto simp: prefix_def)
    then have "split_on slash s = ''..'' # split_on slash r" by simp
    with sp show ?thesis by simp
  qed
  moreover have "s = ''..'' \<or> prefix ''../'' s" if "x = ''..''"
    unfolding s_def using that by (cases xs) auto
  ultimately show ?thesis unfolding s_def by blast
qed

text \<open>
  The test the code makes on a relative path: neither \<^verbatim>\<open>..\<close> nor starting with
  \<^verbatim>\<open>../\<close>. On absolute paths it says exactly that the base's elements are a prefix of
  the target's.
\<close>

definition rel_stays_below :: "string \<Rightarrow> string \<Rightarrow> bool" where
  "rel_stays_below root path =
     (case Rel root path of
        Inl _ \<Rightarrow> False
      | Inr rel \<Rightarrow> rel \<noteq> ''..'' \<and> \<not> HasPrefix rel (''..'' @ [slash]))"

lemma rel_stays_below_iff [go_path]:
  assumes "is_rooted root" "is_rooted path"
  shows "rel_stays_below root path \<longleftrightarrow> prefix (path_elems root) (path_elems path)"
proof (cases "Clean path = Clean root")
  case True
  then have "path_elems path = path_elems root" by (simp add: Clean_eq_iff)
  with True show ?thesis by (simp add: rel_stays_below_def Rel_def)
next
  case False
  obtain b' t' where st: "strip_common (path_elems root) (path_elems path) = (b', t')"
    by (cases "strip_common (path_elems root) (path_elems path)")
  then obtain zs where zs: "path_elems root = zs @ b'" "path_elems path = zs @ t'"
    using strip_common_eq by blast
  have nr: "Clean root \<noteq> ''.''"
    using assms(1) is_rooted_Clean [of root] by (auto simp: is_rooted_def)
  have nd: "b' \<noteq> [] \<Longrightarrow> hd b' \<noteq> ''..''"
    using path_elems_no_dotdot [OF assms(1)] zs(1) by (cases b') auto
  have rel: "Rel root path = Inr (join [slash] (replicate (length b') ''..'' @ t'))"
    using False assms nr nd st by (auto simp: Rel_def Let_def rel_elems_Clean_rooted)
  show ?thesis
  proof (cases b')
    case Nil
    with zs False assms obtain t ts where t': "t' = t # ts"
      by (cases t') (auto simp: Clean_eq_iff)
    have "t \<in> set (path_elems path)" using zs t' by simp
    then have "t \<noteq> ''..''" "slash \<notin> set t"
      using path_elems_no_dotdot [OF assms(2)] path_elems_proper by (auto simp: proper_elem_def)
    with join_hd_slash [of t ts] have "rel_stays_below root path"
      by (simp add: rel_stays_below_def rel Nil t')
    with Nil zs show ?thesis by simp
  next
    case (Cons b bs)
    have "\<not> rel_stays_below root path"
      using join_hd_slash [of "''..''" "replicate (length bs) ''..'' @ t'"]
      by (simp add: rel_stays_below_def rel Cons)
    moreover have "\<not> prefix (path_elems root) (path_elems path)"
    proof
      assume "prefix (path_elems root) (path_elems path)"
      then obtain ys where "zs @ t' = (zs @ b') @ ys"
        using zs by (auto simp: prefix_def)
      then have "t' = b' @ ys" by simp
      with st zs have "strip_common (zs @ b') (zs @ b' @ ys) = (b', b' @ ys)" by simp
      then show False using strip_common_append [of "zs @ b'" ys] Cons by simp
    qed
    ultimately show ?thesis by simp
  qed
qed

lemma rooted_elems: "is_rooted p \<Longrightarrow> \<forall>c \<in> set (path_elems p). proper_elem c \<and> c \<noteq> ''..''"
  using path_elems_clean [of p] by (simp add: clean_list_rooted_iff)

subsection \<open>Base, Dir, Ext\<close>

fun strip_trailing :: "string \<Rightarrow> string" where
  "strip_trailing s = rev (dropWhile (\<lambda>c. c = slash) (rev s))"

definition Base :: "string \<Rightarrow> string" where
  "Base p =
     (if p = [] then ''.''
      else let q = strip_trailing p in
        if q = [] then ''/'' else last (split_on slash q))"

definition Dir :: "string \<Rightarrow> string" where
  "Dir p = (case LastIndexByte p slash of
              None \<Rightarrow> Clean []
            | Some i \<Rightarrow> Clean (take (Suc i) p))"

definition Ext :: "string \<Rightarrow> string" where
  "Ext p = (let e = last (split_on slash p) in
            case LastIndexByte e CHR ''.'' of None \<Rightarrow> [] | Some i \<Rightarrow> drop i e)"

text \<open>
  What the file servers use of \<^verbatim>\<open>net/http\<close>: the cleaning and matching of request paths by the
  multiplexer, and the check for \<^verbatim>\<open>..\<close> elements in \<^verbatim>\<open>http.ServeFile\<close>.
\<close>

definition cleanPath :: "string \<Rightarrow> string" where
  "cleanPath p =
     (if p = [] then ''/''
      else let q = (if hd p = slash then p else slash # p); np = Clean q in
        if last p = slash \<and> np \<noteq> ''/'' then np @ ''/'' else np)"

definition containsDotDot :: "string \<Rightarrow> bool" where
  "containsDotDot v \<longleftrightarrow> ''..'' \<in> set (concat (map (split_on CHR 0x5C) (split_on slash v)))"

text \<open>
  The multiplexer compares the segments of the escaped path, each unescaped, with those of a
  pattern; a pattern that ends in a slash matches every path below it.
\<close>

definition hex_value :: "char \<Rightarrow> nat option" where
  "hex_value c =
     (if is_digit c then Some (of_char c - 48)
      else if in_range CHR ''a'' CHR ''f'' c then Some (of_char c - 87)
      else if in_range CHR ''A'' CHR ''F'' c then Some (of_char c - 55)
      else None)"

fun PathUnescape :: "string \<Rightarrow> string" where
  "PathUnescape (CHR ''%'' # a # b # cs) =
     (case (hex_value a, hex_value b) of
        (Some x, Some y) \<Rightarrow> char_of (16 * x + y) # PathUnescape cs
      | _ \<Rightarrow> CHR ''%'' # PathUnescape (a # b # cs))"
| "PathUnescape (c # cs) = c # PathUnescape cs"
| "PathUnescape [] = []"

definition route_segments :: "string \<Rightarrow> string list" where
  "route_segments p = map PathUnescape (split_on slash p)"

definition route_exact :: "string \<Rightarrow> string \<Rightarrow> bool" where
  "route_exact pat p \<longleftrightarrow> route_segments p = split_on slash pat"

definition route_subtree :: "string \<Rightarrow> string \<Rightarrow> bool" where
  "route_subtree pat p \<longleftrightarrow>
     (let ss = butlast (split_on slash pat); ps = route_segments p in
      length ss < length ps \<and> take (length ss) ps = ss)"

end
