(* ===== verification/Host_Ops.thy ===== *)
theory Host_Ops
  imports Go_Ops Go_Path
begin

text \<open>
  A program that runs on the host itself: it starts commands, reads and writes files, and has an
  environment. The host is one partner that is asked: an answer may depend on everything asked
  before, and the world of an operation is the log of the calls with their answers, the environment
  of the process, and the texts it has written to its output.
\<close>

datatype (plugins only: code size) hcmd =
    HRun "string list" "string option"
  | HRead string
  | HWrite string string nat
  | HAppend string string nat
  | HStat string
  | HMkdir string nat
  | HRemove string
  | HRemoveAll string
  | HRename string string
  | HUntar string
  | HEmit "string list"
  | HReadDir string
  | HGlob string
  | HChmod string nat
  | HSymlink string string
  | HLookPath string
  | HHostname
  | HStdin
  | HRandom nat
  | HBcrypt string
  | HHttp string string "(string \<times> string) list" "string option"
  | HListen string
  | HMeasure string
  | HCert string "string list"
  | HLdap "string list"
  | HSql string "string list"

text \<open>An answer: a text, names, a status with a body, or an error with what was printed before it.\<close>

datatype (plugins only: code size) hans =
    HOk string
  | HNames "string list"
  | HStatus nat string
  | HErr string string

type_synonym hlog = "(hcmd \<times> hans) list"

record host =
  hw_log :: hlog
  hw_env :: "string \<Rightarrow> string"
  hw_out :: "string list"

type_synonym 'a act = "(host, 'a) op"

text \<open>The machine and what its libraries compute.\<close>

record machine =
  answers :: "hlog \<Rightarrow> hcmd \<Rightarrow> hans"
  goos :: string
  goarch :: string
  pemEncode :: "string \<Rightarrow> string \<Rightarrow> string"

definition ask :: "machine \<Rightarrow> hcmd \<Rightarrow> hans act" where
  "ask M c w = (let a = answers M (hw_log w) c in Some (Inr a, w\<lparr>hw_log := hw_log w @ [(c, a)]\<rparr>))"

text \<open>Output and error of a command; the text of an answer that is no text is empty.\<close>

definition text_of :: "hans \<Rightarrow> string" where
  "text_of a = (case a of HOk t \<Rightarrow> t | HStatus _ t \<Rightarrow> t | HErr t _ \<Rightarrow> t | HNames _ \<Rightarrow> [])"

definition error_of :: "hans \<Rightarrow> string option" where
  "error_of a = (case a of HErr _ e \<Rightarrow> Some e | _ \<Rightarrow> None)"

definition failed :: "hans \<Rightarrow> bool" where
  "failed a = (case a of HErr _ _ \<Rightarrow> True | _ \<Rightarrow> False)"

definition call :: "machine \<Rightarrow> hcmd \<Rightarrow> string act" where
  "call M c = chk [] (ask M c) (\<lambda>a. case a of HErr _ e \<Rightarrow> fail e | _ \<Rightarrow> ret (text_of a))"

text \<open>\<^verbatim>\<open>exec.Command(args...)\<close>; an error is its output, a line break and the error, as most messages show it.\<close>

definition run_with :: "string \<Rightarrow> machine \<Rightarrow> string list \<Rightarrow> string option \<Rightarrow> string act" where
  "run_with sep M args stdin = chk [] (ask M (HRun args stdin)) (\<lambda>a. case a of
      HErr t e \<Rightarrow> fail (t @ sep @ e) | _ \<Rightarrow> ret (text_of a))"

definition exec :: "machine \<Rightarrow> string list \<Rightarrow> string option \<Rightarrow> string act" where
  "exec = run_with nl"

definition run :: "machine \<Rightarrow> string list \<Rightarrow> string act" where
  "run M args = call M (HRun args None)"

definition ignoring :: "'a act \<Rightarrow> 'b act \<Rightarrow> 'b act" where
  "ignoring m k = attempt m (\<lambda>_. k)"

fun run_all :: "machine \<Rightarrow> hcmd list \<Rightarrow> unit act" where
  "run_all M [] = ret ()"
| "run_all M (c # cs) = ignoring (call M c) (run_all M cs)"

definition say :: "string \<Rightarrow> unit act" where
  "say t w = Some (Inr (), w\<lparr>hw_out := hw_out w @ [t]\<rparr>)"

definition env :: "string \<Rightarrow> string act" where
  "env k w = Some (Inr (hw_env w k), w)"

definition setenv :: "string \<Rightarrow> string \<Rightarrow> unit act" where
  "setenv k v w = Some (Inr (), w\<lparr>hw_env := (hw_env w)(k := v)\<rparr>)"

definition succeeds :: "'a act \<Rightarrow> bool act" where
  "succeeds m = attempt m (\<lambda>r. ret (case r of Inl _ \<Rightarrow> False | Inr _ \<Rightarrow> True))"

definition or_else :: "'a \<Rightarrow> 'a act \<Rightarrow> 'a act" where
  "or_else d m = attempt m (\<lambda>r. ret (case r of Inl _ \<Rightarrow> d | Inr a \<Rightarrow> a))"

definition names :: "machine \<Rightarrow> hcmd \<Rightarrow> string list act" where
  "names M c = chk [] (ask M c) (\<lambda>a. case a of HNames ns \<Rightarrow> ret ns | HErr _ e \<Rightarrow> fail e | _ \<Rightarrow> ret [])"

text \<open>Numbers that the machine reports.\<close>

definition measure_of :: "machine \<Rightarrow> string \<Rightarrow> nat list act" where
  "measure_of M what =
     chk [] (names M (HMeasure what)) (\<lambda>ns. ret (map (\<lambda>t. case parse_nat t of None \<Rightarrow> 0 | Some n \<Rightarrow> n) ns))"

definition num :: "nat list \<Rightarrow> nat \<Rightarrow> nat" where
  "num ns i = (if i < length ns then ns ! i else 0)"

text \<open>A file that is written from its beginning, and a loop that tries until it succeeds.\<close>

definition create_file :: "machine \<Rightarrow> string \<Rightarrow> string \<Rightarrow> string \<Rightarrow> string \<Rightarrow> unit act" where
  "create_file M path data opening writing =
     chk opening (call M (HWrite path [] 438)) (\<lambda>_. chk writing (call M (HAppend path data 438)) (\<lambda>_. ret ()))"

fun poll :: "nat \<Rightarrow> bool act \<Rightarrow> bool act" where
  "poll 0 m = ret False"
| "poll (Suc n) m = chk [] m (\<lambda>ok. if ok then ret True else poll n m)"

definition sayln :: "string \<Rightarrow> unit act" where
  "sayln t = say (t @ nl)"

text \<open>A text of lines, each with its line break.\<close>

definition unlines :: "string list \<Rightarrow> string" where
  "unlines ls = concat (map (\<lambda>l. l @ nl) ls)"

definition getenv_or :: "string \<Rightarrow> string \<Rightarrow> string act" where
  "getenv_or v k = (if v = [] then env k else ret v)"

text \<open>\<^verbatim>\<open>%v\<close> of a list of words.\<close>

definition show_args :: "string list \<Rightarrow> string" where
  "show_args as = ''['' @ join '' '' as @ '']''"

subsection \<open>What an operation does and returns\<close>

text \<open>
  The operation returns, whatever the machine answers, it only makes calls of a set, and its outcome
  has a property. The log only grows.
\<close>

definition meets :: "(hcmd \<Rightarrow> bool) \<Rightarrow> (string + 'a \<Rightarrow> bool) \<Rightarrow> 'a act \<Rightarrow> bool" where
  "meets P Q m \<longleftrightarrow>
     (\<forall>w. \<exists>r w' xs. m w = Some (r, w') \<and> hw_log w' = hw_log w @ xs \<and> (\<forall>(c, a) \<in> set xs. P c) \<and> Q r)"

fun gives :: "('a \<Rightarrow> bool) \<Rightarrow> string + 'a \<Rightarrow> bool" where
  "gives Q (Inl e) = False"
| "gives Q (Inr a) = Q a"

lemma meetsE:
  assumes "meets P Q m" "m w = Some (r, w')"
  obtains xs where "hw_log w' = hw_log w @ xs" "\<And>c a. (c, a) \<in> set xs \<Longrightarrow> P c" "Q r"
proof -
  obtain r2 w2 xs where "m w = Some (r2, w2)" "hw_log w2 = hw_log w @ xs" "\<forall>(c, a) \<in> set xs. P c" "Q r2"
    using assms(1) unfolding meets_def by (elim allE [of _ w] exE conjE) blast
  then show thesis using assms(2) that by force
qed

lemma meets_returns: "meets P Q m \<Longrightarrow> m w \<noteq> None"
  unfolding meets_def by (elim allE [of _ w] exE conjE) simp

lemma meets_weaken: "meets P R m \<Longrightarrow> (\<And>r. R r \<Longrightarrow> Q r) \<Longrightarrow> meets P Q m"
  unfolding meets_def by metis

lemma meets_ret: "Q (Inr a) \<Longrightarrow> meets P Q (ret a)"
  by (simp add: meets_def ret_def)

lemma meets_fail: "Q (Inl e) \<Longrightarrow> meets P Q (fail e)"
  by (simp add: meets_def fail_def)

lemma meets_ask: "P c \<Longrightarrow> meets P (gives (\<lambda>_. True)) (ask M c)"
  by (simp add: meets_def ask_def Let_def)

lemma meets_attempt:
  assumes m: "meets P R m" and f: "\<And>r. R r \<Longrightarrow> meets P Q (f r)"
  shows "meets P Q (attempt m f)"
  unfolding meets_def
proof
  fix w
  obtain r w1 where a: "m w = Some (r, w1)" using meets_returns [OF m, of w] by auto
  obtain xs where xs: "hw_log w1 = hw_log w @ xs" "\<And>c a. (c, a) \<in> set xs \<Longrightarrow> P c" "R r"
    using meetsE [OF m a] by blast
  have fr: "meets P Q (f r)" using xs(3) by (rule f)
  obtain r2 w2 where b: "f r w1 = Some (r2, w2)" using meets_returns [OF fr, of w1] by auto
  obtain ys where "hw_log w2 = hw_log w1 @ ys" "\<And>c a. (c, a) \<in> set ys \<Longrightarrow> P c" "Q r2"
    using meetsE [OF fr b] by blast
  then show "\<exists>r w' xs. attempt m f w = Some (r, w') \<and> hw_log w' = hw_log w @ xs \<and> (\<forall>(c, a) \<in> set xs. P c) \<and> Q r"
    using a b xs by (intro exI [of _ r2] exI [of _ w2] exI [of _ "xs @ ys"]) (auto simp: attempt_def)
qed

lemma meets_chk:
  assumes "meets P R m" "\<And>e. R (Inl e) \<Longrightarrow> Q (Inl (msg @ e))" "\<And>a. R (Inr a) \<Longrightarrow> meets P Q (f a)"
  shows "meets P Q (chk msg m f)"
proof -
  have "chk msg m f = attempt m (\<lambda>r. case r of Inl e \<Rightarrow> fail (msg @ e) | Inr a \<Rightarrow> f a)"
    by (rule ext) (simp add: chk_def attempt_def fail_def split: option.splits sum.splits)
  then show ?thesis using assms by (auto intro!: meets_attempt [OF assms(1)] meets_fail split: sum.splits)
qed

text \<open>Operations whose outcome does not matter.\<close>

abbreviation does :: "(hcmd \<Rightarrow> bool) \<Rightarrow> 'a act \<Rightarrow> bool" where
  "does P \<equiv> meets P (\<lambda>_. True)"

lemma does_ret: "does P (ret a)" and does_fail: "does P (fail e)"
  by (simp_all add: meets_ret meets_fail)

lemma does_ask: "P c \<Longrightarrow> does P (ask M c)"
  by (rule meets_weaken [OF meets_ask]) simp_all

lemma does_chk: "does P m \<Longrightarrow> (\<And>a. does P (f a)) \<Longrightarrow> does P (chk msg m f)"
  by (rule meets_chk) simp_all

lemma does_call: "P c \<Longrightarrow> does P (call M c)"
  unfolding call_def by (auto intro!: does_chk does_ask does_ret does_fail split: hans.splits)

lemma does_run_with: "P (HRun args i) \<Longrightarrow> does P (run_with sep M args i)"
  unfolding run_with_def by (auto intro!: does_chk does_ask does_ret does_fail split: hans.splits)

lemma meets_ignoring: "does P m \<Longrightarrow> meets P Q k \<Longrightarrow> meets P Q (ignoring m k)"
  unfolding ignoring_def by (rule meets_attempt)

lemma does_run_all: "(\<And>c. c \<in> set cs \<Longrightarrow> P c) \<Longrightarrow> does P (run_all M cs)"
  by (induction cs) (auto intro!: does_ret meets_ignoring [OF does_call])

end
