(* ===== verification/Go_Net.thy ===== *)
theory Go_Net
  imports Prelude "HOL-Library.Word"
begin

text \<open>
  What the sources use of Go's \<^verbatim>\<open>net\<close>, \<^verbatim>\<open>net/http\<close> and \<^verbatim>\<open>encoding/json\<close>: IP address text,
  \<^verbatim>\<open>SplitHostPort\<close>, requests, responses, cookies, JSON values and the decoding of a JSON
  body into the string and boolean fields of a struct.
\<close>

definition is_alnum :: "char \<Rightarrow> bool" where
  "is_alnum c \<longleftrightarrow> is_upper c \<or> is_lower c \<or> is_digit c"

subsection \<open>IP addresses\<close>

type_synonym ipv4 = "32 word"

definition parse_octet :: "string \<Rightarrow> nat option" where
  "parse_octet s =
     (if length s > 3 \<or> (length s > 1 \<and> hd s = CHR ''0'') then None
      else case parse_nat s of None \<Rightarrow> None | Some n \<Rightarrow> if n \<le> 255 then Some n else None)"

definition ip4 :: "nat \<Rightarrow> nat \<Rightarrow> nat \<Rightarrow> nat \<Rightarrow> ipv4" where
  "ip4 a b c d = of_nat (a * 2^24 + b * 2^16 + c * 2^8 + d)"

text \<open>
  \<^verbatim>\<open>net.ParseIP\<close> on the text of a TCP peer address: \<^term>\<open>Some\<close> for a dotted quad,
  \<^term>\<open>None\<close> for IPv6 text (no IPv4 network contains it) and for anything else.
\<close>

definition ParseIPv4 :: "string \<Rightarrow> ipv4 option" where
  "ParseIPv4 s = (case split_on CHR ''.'' s of
     [a, b, c, d] \<Rightarrow> do {
       a \<leftarrow> parse_octet a; b \<leftarrow> parse_octet b; c \<leftarrow> parse_octet c; d \<leftarrow> parse_octet d;
       Some (ip4 a b c d) }
   | _ \<Rightarrow> None)"

definition is_hex :: "char \<Rightarrow> bool" where
  "is_hex c \<longleftrightarrow> is_digit c \<or> in_range CHR ''a'' CHR ''f'' c \<or> in_range CHR ''A'' CHR ''F'' c"

definition hex_field :: "string \<Rightarrow> bool" where
  "hex_field f \<longleftrightarrow> f \<noteq> [] \<and> length f \<le> 4 \<and> list_all is_hex f"

text \<open>The 16-bit fields a colon-separated run denotes; its last part may be a dotted quad.\<close>

definition ipv6_fields :: "bool \<Rightarrow> string \<Rightarrow> nat option" where
  "ipv6_fields quad_ok s =
     (if s = [] then Some 0
      else let fs = split_on CHR '':'' s in
        if list_all hex_field fs then Some (length fs)
        else if quad_ok \<and> list_all hex_field (butlast fs) \<and> ParseIPv4 (last fs) \<noteq> None
          then Some (length fs + 1)
        else None)"

text \<open>The text before and after the first double colon.\<close>

fun cut_dcolon :: "string \<Rightarrow> (string \<times> string) option" where
  "cut_dcolon (a # b # s) =
     (if a = CHR '':'' \<and> b = CHR '':'' then Some ([], s)
      else map_option (\<lambda>(x, y). (a # x, y)) (cut_dcolon (b # s)))"
| "cut_dcolon s = None"

definition is_ipv6 :: "string \<Rightarrow> bool" where
  "is_ipv6 s = (case cut_dcolon s of
     None \<Rightarrow> s \<noteq> [] \<and> ipv6_fields True s = Some 8
   | Some (a, b) \<Rightarrow>
       (case (ipv6_fields False a, ipv6_fields True b) of
          (Some m, Some n) \<Rightarrow> m + n \<le> 7
        | _ \<Rightarrow> False))"

text \<open>\<^verbatim>\<open>net.ParseIP(s) != nil\<close>\<close>

definition ParseIP :: "string \<Rightarrow> bool" where
  "ParseIP s \<longleftrightarrow> ParseIPv4 s \<noteq> None \<or> is_ipv6 s"

text \<open>\<^verbatim>\<open>net.SplitHostPort\<close>; \<^term>\<open>None\<close> is its error.\<close>

definition SplitHostPort :: "string \<Rightarrow> (string \<times> string) option" where
  "SplitHostPort hp = (case LastIndexByte hp CHR '':'' of
     None \<Rightarrow> None
   | Some i \<Rightarrow>
       if hp ! 0 = CHR ''['' then
         (case IndexByte hp CHR '']'' of
            None \<Rightarrow> None
          | Some e \<Rightarrow>
              if e + 1 \<noteq> i then None
              else if CHR ''['' \<in> set (drop 1 hp) \<or> CHR '']'' \<in> set (drop (e + 1) hp) then None
              else Some (take (e - 1) (drop 1 hp), drop (i + 1) hp))
       else if CHR '':'' \<in> set (take i hp) \<or> CHR ''['' \<in> set hp \<or> CHR '']'' \<in> set hp then None
       else Some (take i hp, drop (i + 1) hp))"

lemma LastIndexByte_None_iff [simp]: "LastIndexByte s c = None \<longleftrightarrow> c \<notin> set s"
  by (simp add: LastIndexByte_def)

lemma LastIndexByte_append: "c \<notin> set b \<Longrightarrow> LastIndexByte (a @ c # b) c = Some (length a)"
  using IndexByte_append [of c "rev b" "rev a"] by (simp add: LastIndexByte_def)

lemma SplitHostPort_plain:
  assumes "set host \<inter> {CHR '':'', CHR ''['', CHR '']''} = {}" "host \<noteq> []"
    and "set port \<inter> {CHR '':'', CHR ''['', CHR '']''} = {}"
  shows "SplitHostPort (host @ CHR '':'' # port) = Some (host, port)"
proof -
  have "(host @ CHR '':'' # port) ! 0 \<noteq> CHR ''[''"
    using assms(1,2) by (cases host) auto
  then show ?thesis
    using assms by (auto simp: SplitHostPort_def LastIndexByte_append)
qed

lemma SplitHostPort_no_colon: "CHR '':'' \<notin> set host \<Longrightarrow> SplitHostPort host = None"
  using LastIndexByte_None_iff [of host "CHR '':''"] by (simp add: SplitHostPort_def del: LastIndexByte_None_iff)

text \<open>\<^verbatim>\<open>strconv.Atoi\<close> with its range check; \<^term>\<open>None\<close> is an error.\<close>

definition AtoiErr :: "string \<Rightarrow> int option" where
  "AtoiErr s = (case parse_int s of
     None \<Rightarrow> None
   | Some i \<Rightarrow> if - (2^63) \<le> i \<and> i < 2^63 then Some i else None)"

text \<open>The value of \<^verbatim>\<open>strconv.Atoi\<close> when its error is dropped: 0 on a syntax error, the nearest bound out of range; and \<^verbatim>\<open>strconv.ParseBool\<close>.\<close>

definition Atoi :: "string \<Rightarrow> int" where
  "Atoi s = (case parse_int s of None \<Rightarrow> 0 | Some n \<Rightarrow> max (- (2^63)) (min n (2^63 - 1)))"

definition ParseBool :: "string \<Rightarrow> bool option" where
  "ParseBool s =
     (if s \<in> set [''1'', ''t'', ''T'', ''TRUE'', ''true'', ''True''] then Some True
      else if s \<in> set [''0'', ''f'', ''F'', ''FALSE'', ''false'', ''False''] then Some False
      else None)"

subsection \<open>JSON\<close>

datatype jval =
    JNull
  | JBool bool
  | JInt int
  | JStr string
  | JArr "jval list"
  | JObj "(string \<times> jval) list"

text \<open>
  \<^verbatim>\<open>json.Decode\<close> into a struct: an object member is stored into the field whose name equals its
  key up to case, later members overwrite earlier ones, \<^term>\<open>JNull\<close> leaves the zero value, and a
  value of another type is an error (\<^term>\<open>None\<close>).
\<close>

definition EqualFold :: "string \<Rightarrow> string \<Rightarrow> bool" where
  "EqualFold a b \<longleftrightarrow> ToLower a = ToLower b"

fun members_str :: "string \<Rightarrow> (string \<times> jval) list \<Rightarrow> string \<Rightarrow> string option" where
  "members_str field [] v = Some v"
| "members_str field ((k, j) # ms) v =
     (if EqualFold k field then
        (case j of JStr s \<Rightarrow> members_str field ms s
         | JNull \<Rightarrow> members_str field ms v
         | _ \<Rightarrow> None)
      else members_str field ms v)"

fun members_bool :: "string \<Rightarrow> (string \<times> jval) list \<Rightarrow> bool \<Rightarrow> bool option" where
  "members_bool field [] v = Some v"
| "members_bool field ((k, j) # ms) v =
     (if EqualFold k field then
        (case j of JBool b \<Rightarrow> members_bool field ms b
         | JNull \<Rightarrow> members_bool field ms v
         | _ \<Rightarrow> None)
      else members_bool field ms v)"

text \<open>The members of a decoded body: an object's, none for \<^verbatim>\<open>null\<close>; anything else is an error.\<close>

definition members_of :: "jval option \<Rightarrow> (string \<times> jval) list option" where
  "members_of body = (case body of
     Some (JObj ms) \<Rightarrow> Some ms
   | Some JNull \<Rightarrow> Some []
   | _ \<Rightarrow> None)"

definition field_str :: "string \<Rightarrow> jval option \<Rightarrow> string option" where
  "field_str field body = do { ms \<leftarrow> members_of body; members_str field ms [] }"

definition field_bool :: "string \<Rightarrow> jval option \<Rightarrow> bool option" where
  "field_bool field body = do { ms \<leftarrow> members_of body; members_bool field ms False }"

fun members_int :: "string \<Rightarrow> (string \<times> jval) list \<Rightarrow> int \<Rightarrow> int option" where
  "members_int field [] v = Some v"
| "members_int field ((k, j) # ms) v =
     (if EqualFold k field then
        (case j of JInt i \<Rightarrow> if - (2^63) \<le> i \<and> i < 2^63 then members_int field ms i else None
         | JNull \<Rightarrow> members_int field ms v
         | _ \<Rightarrow> None)
      else members_int field ms v)"

definition field_int :: "string \<Rightarrow> jval option \<Rightarrow> int option" where
  "field_int field body = do { ms \<leftarrow> members_of body; members_int field ms 0 }"

text \<open>The members of a map of texts.\<close>

fun text_members :: "(string \<times> jval) list \<Rightarrow> (string \<times> string) list option" where
  "text_members [] = Some []"
| "text_members ((k, j) # ms) = do {
     s \<leftarrow> (case j of JStr s \<Rightarrow> Some s | JNull \<Rightarrow> Some [] | _ \<Rightarrow> None);
     l \<leftarrow> text_members ms;
     Some ((k, s) # l) }"

subsection \<open>Requests and responses\<close>

record http_cookie =
  ck_Name :: string
  ck_Value :: string
  ck_Path :: string
  ck_Domain :: string
  ck_MaxAge :: int
  ck_HttpOnly :: bool
  ck_Secure :: bool
  ck_SameSite :: string

text \<open>
  Header names are canonical. The body is \<^term>\<open>None\<close> when it is not JSON; a query value is
  the first one of its name.
\<close>

record http_request =
  rq_Method :: string
  rq_Path :: string
  rq_Query :: "(string \<times> string) list"
  rq_Host :: string
  rq_RemoteAddr :: string
  rq_Header :: "(string \<times> string) list"
  rq_Cookies :: "(string \<times> string) list"
  rq_Body :: "jval option"

record http_response =
  rs_Code :: nat
  rs_Header :: "(string \<times> string) list"
  rs_Cookies :: "http_cookie list"
  rs_Body :: jval

text \<open>\<^verbatim>\<open>Header.Get\<close> and \<^verbatim>\<open>Query().Get\<close>: the first value, or the empty string.\<close>

definition first_value :: "(string \<times> string) list \<Rightarrow> string \<Rightarrow> string" where
  "first_value hs k = (case map_of hs k of None \<Rightarrow> [] | Some v \<Rightarrow> v)"

definition header_get :: "http_request \<Rightarrow> string \<Rightarrow> string" where
  "header_get r k = first_value (rq_Header r) k"

definition reply :: "nat \<Rightarrow> jval \<Rightarrow> http_response" where
  "reply code body = \<lparr>rs_Code = code, rs_Header = [(''Content-Type'', ''application/json'')],
     rs_Cookies = [], rs_Body = body\<rparr>"

definition reply_status :: "nat \<Rightarrow> http_response" where
  "reply_status code = \<lparr>rs_Code = code, rs_Header = [], rs_Cookies = [], rs_Body = JNull\<rparr>"

text \<open>\<^verbatim>\<open>http.Error\<close>\<close>

definition http_error :: "string \<Rightarrow> nat \<Rightarrow> http_response" where
  "http_error msg code = \<lparr>rs_Code = code,
     rs_Header = [(''Content-Type'', ''text/plain; charset=utf-8'')],
     rs_Cookies = [], rs_Body = JStr msg\<rparr>"

lemma rs_Code_reply [simp]:
  "rs_Code (reply c b) = c" "rs_Code (reply_status c) = c" "rs_Code (http_error m c) = c"
  by (simp_all add: reply_def reply_status_def http_error_def)

lemma rs_Body_reply [simp]: "rs_Body (reply c b) = b" "rs_Body (http_error m c) = JStr m"
  by (simp_all add: reply_def http_error_def)

end
