(* ===== verification/Path_Guard.thy ===== *)
theory Path_Guard
  imports Go_Path
begin

text \<open>
  The interface between the code that turns a caller-supplied name into a file-system path
  (\<^verbatim>\<open>childPath\<close> in the app service, \<^verbatim>\<open>safePath\<close> in the file manager) and the code
  that then creates or removes trees there. A guard maps a request to a path, or refuses
  it; \<open>base\<close> is the real directory it confines requests to, \<open>loc\<close> the real location of a
  path it returned.
\<close>

definition below :: "string \<Rightarrow> string \<Rightarrow> bool" where
  "below root p \<longleftrightarrow> is_rooted p \<and> prefix (path_elems root) (path_elems p)"

definition strictly_below :: "string \<Rightarrow> string \<Rightarrow> bool" where
  "strictly_below root p \<longleftrightarrow> is_rooted p \<and> strict_prefix (path_elems root) (path_elems p)"

lemma below_refl: "is_rooted r \<Longrightarrow> below r r"
  by (simp add: below_def)

lemma below_trans: "below r p \<Longrightarrow> below p q \<Longrightarrow> below r q"
  by (auto simp: below_def)

lemma strictly_below_below: "strictly_below r p \<Longrightarrow> below r p"
  by (auto simp: below_def strictly_below_def strict_prefix_def)

lemma strictly_below_trans: "strictly_below r p \<Longrightarrow> below p q \<Longrightarrow> strictly_below r q"
  by (auto simp: below_def strictly_below_def elim: prefix_order.less_le_trans)

lemma below_Clean [simp]: "below r (Clean p) = below r p" "below (Clean r) p = below r p"
  by (simp_all add: below_def)

text \<open>Paths given by their elements.\<close>

abbreviation plain_path :: "string list \<Rightarrow> bool" where
  "plain_path es \<equiv> \<forall>e \<in> set es. proper_elem e \<and> e \<noteq> ''..''"

lemma plain_path_clean: "plain_path es \<Longrightarrow> clean_list r es"
  using clean_listI [of es r 0] by simp

lemma path_elems_root [simp]: "plain_path es \<Longrightarrow> path_elems (unelems True es) = es"
  by (rule path_elems_unelems) (rule plain_path_clean)

lemma is_rooted_root [simp]: "is_rooted (unelems True es)"
  by (simp add: unelems_def is_rooted_def)

lemma unelems_path_elems: "is_rooted p \<Longrightarrow> unelems True (path_elems p) = Clean p"
  by (simp add: Clean_def)

lemma Clean_Join [simp]: "is_rooted a \<Longrightarrow> Clean (PathJoin a b) = PathJoin a b"
  by (cases a) (auto simp: PathJoin_def is_rooted_def)

lemma below_Join: "is_rooted a \<Longrightarrow> proper_elem e \<Longrightarrow> e \<noteq> ''..'' \<Longrightarrow> below r a \<Longrightarrow> below r (PathJoin a e)"
  by (simp add: below_def path_elems_PathJoin)

text \<open>The parent of a clean path.\<close>

lemma Dir_elems:
  assumes "is_rooted p" "Clean p = p"
  shows "is_rooted (Dir p) \<and> path_elems (Dir p) = butlast (path_elems p)"
proof (cases "path_elems p" rule: rev_cases)
  case Nil
  with assms have "p = ''/''" by (simp add: Clean_def unelems_def)
  then show ?thesis
    by (simp add: Dir_def LastIndexByte_def Clean_def path_elems_def is_rooted_def unelems_def
        clean_elems_def clean_elem_def)
next
  case (snoc es c)
  have pl: "plain_path (es @ [c])" using rooted_elems [OF assms(1)] snoc by simp
  have p: "p = unelems True (es @ [c])" using assms snoc by (simp add: Clean_def)
  have c: "slash \<notin> set c" using pl by (simp add: proper_elem_def)
  obtain a where a: "p = a @ slash # c" "a @ [slash] = unelems True es @ (if es = [] then [] else [slash])"
  proof (cases "es = []")
    case True
    with p that [of "[]"] show thesis by (simp add: unelems_def)
  next
    case False
    have "join [slash] (es @ [c]) = join [slash] es @ slash # c"
      using False by (induction es rule: induct_list012) (simp_all add: join_Cons)
    with p False that [of "slash # join [slash] es"] show thesis by (simp add: unelems_def)
  qed
  have "LastIndexByte p slash = Some (length a)"
    using c IndexByte_append [of slash "rev c" "rev a"] by (simp add: a(1) LastIndexByte_def)
  then have d: "Dir p = Clean (unelems True es @ (if es = [] then [] else [slash]))"
    using a by (simp add: Dir_def)
  have ple: "plain_path es" using pl by simp
  have "path_elems (unelems True es @ [slash]) = es"
    using path_elems_join_gen [of "unelems True es" "[]"] ple by (simp add: clean_elem_def)
  with d snoc ple show ?thesis by (auto simp: is_rooted_append)
qed

text \<open>The last element of a path, and a path that is joined from a directory and such an element.\<close>

lemma last_split_strip: "strip_trailing p \<noteq> [] \<Longrightarrow> last (split_on slash (strip_trailing p)) \<in> set (split_on slash p)"
proof -
  assume "strip_trailing p \<noteq> []"
  define q where "q = strip_trailing p"
  have "p = q @ rev (takeWhile (\<lambda>c. c = slash) (rev p))"
    unfolding q_def strip_trailing.simps by (metis rev_append rev_rev_ident takeWhile_dropWhile_id)
  moreover have "takeWhile (\<lambda>c. c = slash) (rev p) = replicate (length (takeWhile (\<lambda>c. c = slash) (rev p))) slash"
    by (rule replicate_length_same [symmetric]) (auto dest: set_takeWhileD)
  ultimately obtain k where p: "p = q @ replicate k slash" by (metis rev_replicate)
  have "set (split_on slash q) \<subseteq> set (split_on slash p)"
    by (cases k) (auto simp: p split_on_append_sep)
  moreover have "last (split_on slash q) \<in> set (split_on slash q)" by simp
  ultimately show ?thesis by (auto simp: q_def)
qed

lemma Base_last_element:
  "Base p = ''.'' \<or> Base p = ''/'' \<or> Base p \<in> set (split_on slash p) \<and> Base p \<noteq> [] \<and> slash \<notin> set (Base p)"
proof (cases "p = [] \<or> strip_trailing p = []")
  case True
  then show ?thesis by (auto simp: Base_def Let_def simp del: strip_trailing.simps)
next
  case False
  let ?q = "strip_trailing p"
  have b: "Base p = last (split_on slash ?q)" using False by (simp add: Base_def Let_def del: strip_trailing.simps)
  have "last ?q \<noteq> slash"
    using False hd_dropWhile [of "\<lambda>c. c = slash" "rev p"] by (simp add: last_rev)
  then have "last (split_on slash ?q) \<noteq> []"
  proof -
    have "?q = join [slash] (split_on slash ?q)" by (simp add: join_split_on del: strip_trailing.simps)
    moreover have "last s = slash" if "s = join [slash] es" "es \<noteq> []" "last es = []" "s \<noteq> []" for s es
      using that
    proof (induction es arbitrary: s rule: induct_list012)
      case (3 x y zs)
      then have "last (join [slash] (y # zs)) = slash \<or> join [slash] (y # zs) = []" by auto
      with 3 show ?case by (cases "join [slash] (y # zs) = []") (auto simp: last_append)
    qed auto
    ultimately show ?thesis using False \<open>last ?q \<noteq> slash\<close> split_on_nonempty by metis
  qed
  with False last_split_strip [of p] show ?thesis
    unfolding b using split_on_no_sep [of _ slash ?q] last_in_set split_on_nonempty by metis
qed

lemma PathJoin_Base_below:
  assumes "is_rooted d" "Base s \<noteq> ''..''"
  shows "below d (PathJoin d (Base s))"
proof -
  consider "Base s = ''.''" | "Base s = ''/''" | "proper_elem (Base s)"
    using Base_last_element [of s] by (auto simp: proper_elem_def)
  then show ?thesis
  proof cases
    case 3
    with assms show ?thesis by (simp add: below_def path_elems_PathJoin)
  next
    case 1
    have "path_elems (PathJoin d ''.'') = path_elems d"
      using assms(1) by (auto simp: PathJoin_def path_elems_join_gen clean_elem_def is_rooted_def)
    with 1 assms(1) show ?thesis by (simp add: below_def)
  next
    case 2
    have "path_elems (PathJoin d ''/'') = path_elems d"
      using assms(1) by (auto simp: PathJoin_def path_elems_join_gen clean_elem_def is_rooted_def)
    with 2 assms(1) show ?thesis by (simp add: below_def)
  qed
qed

locale path_guard =
  fixes guard :: "'env \<Rightarrow> string \<Rightarrow> 'err + string"
    and ok :: "'env \<Rightarrow> bool"
    and base :: "'env \<Rightarrow> string"
    and loc :: "'env \<Rightarrow> string \<Rightarrow> string"
  assumes guard_below: "ok e \<Longrightarrow> guard e x = Inr p \<Longrightarrow> below (base e) (loc e p)"
begin

text \<open>Whatever lies in a tree the guard handed out lies below the root.\<close>

lemma subtree_below:
  "ok e \<Longrightarrow> guard e x = Inr p \<Longrightarrow> below (loc e p) q \<Longrightarrow> below (base e) q"
  by (blast intro: guard_below below_trans)

text \<open>A path outside the root is in no tree the guard hands out, for any list of requests.\<close>

lemma outside_untouched:
  assumes "ok e" "\<not> below (base e) q"
  shows "\<forall>x \<in> set xs. \<forall>p. guard e x = Inr p \<longrightarrow> \<not> below (loc e p) q"
  using assms subtree_below by blast

end

locale strict_path_guard = path_guard +
  assumes guard_strict: "ok e \<Longrightarrow> guard e x = Inr p \<Longrightarrow> strictly_below (base e) (loc e p)"
begin

lemma subtree_strictly_below:
  "ok e \<Longrightarrow> guard e x = Inr p \<Longrightarrow> below (loc e p) q \<Longrightarrow> strictly_below (base e) q"
  by (blast intro: guard_strict strictly_below_trans)

text \<open>So removing a tree the guard handed out never removes the root itself.\<close>

lemma root_survives: "ok e \<Longrightarrow> guard e x = Inr p \<Longrightarrow> \<not> below (loc e p) (base e)"
  using subtree_strictly_below by (fastforce simp: strictly_below_def)

end

end
