(* ===== verification/Mounts.thy ===== *)
theory Mounts
  imports Host_Ops Go_Net Go_Path Path_Guard
begin

text \<open>
  \<^verbatim>\<open>internal/mounts/handler.go\<close> and \<^verbatim>\<open>cmd/mounts\<close>: the service that mounts remote storage below one
  directory of the host. It keeps a map from names to mounts, saves it after each change, and passes
  options to \<^verbatim>\<open>mount\<close> and \<^verbatim>\<open>rclone\<close> only when they are on a list. The JSON text of a value is a
  parameter.
\<close>

subsection \<open>Options\<close>

definition allowedNFSOptions :: "string list" where
  "allowedNFSOptions = [''ro'', ''rw'', ''soft'', ''hard'', ''intr'', ''nolock'', ''tcp'', ''udp'', ''noatime'', ''nodiratime'', ''relatime'']"

definition allowedNFSPrefixes :: "string list" where
  "allowedNFSPrefixes = [''nfsvers='', ''vers='', ''timeo='', ''retrans='', ''rsize='', ''wsize='', ''port='', ''mountport='', ''proto='', ''sec='']"

definition allowedSMBOptions :: "string list" where
  "allowedSMBOptions = [''ro'', ''rw'', ''noatime'', ''nodiratime'', ''guest'', ''noperm'', ''file_mode=0644'', ''dir_mode=0755'']"

definition allowedSMBPrefixes :: "string list" where
  "allowedSMBPrefixes = [''vers='', ''sec='', ''uid='', ''gid='', ''file_mode='', ''dir_mode='', ''iocharset='', ''domain='', ''workgroup='']"

definition allowedRcloneFlags :: "string list" where
  "allowedRcloneFlags = [''--read-only'', ''--no-modtime'', ''--no-checksum'']"

definition allowedRclonePrefixes :: "string list" where
  "allowedRclonePrefixes = [''--bwlimit='', ''--buffer-size='', ''--vfs-read-chunk-size='', ''--vfs-cache-max-age='',
     ''--vfs-cache-max-size='', ''--transfers='']"

definition option_allowed :: "string list \<Rightarrow> string list \<Rightarrow> string \<Rightarrow> bool" where
  "option_allowed allowed starts opt \<longleftrightarrow> opt \<in> set allowed \<or> list_ex (HasPrefix opt) starts"

text \<open>The loop over the parts: blanks are dropped, the first part that is not allowed is the error.\<close>

fun sanitize_parts :: "string \<Rightarrow> (string \<Rightarrow> bool) \<Rightarrow> string list \<Rightarrow> string + string list" where
  "sanitize_parts what ok [] = Inr []"
| "sanitize_parts what ok (p # ps) =
     (let opt = TrimSpace p in
      if opt = [] then sanitize_parts what ok ps
      else if \<not> ok opt then Inl (what @ '' '' @ dquote @ opt @ dquote @ '' not allowed'')
      else map_sum id (Cons opt) (sanitize_parts what ok ps))"

definition sanitizeMountOptions :: "string \<Rightarrow> string list \<Rightarrow> string list \<Rightarrow> string + string" where
  "sanitizeMountOptions raw allowed starts =
     (if raw = [] then Inr []
      else map_sum id (join '','') (sanitize_parts ''mount option'' (option_allowed allowed starts) (split_on (CHR '','') raw)))"

definition sanitizeRcloneFlags :: "string \<Rightarrow> string + string list" where
  "sanitizeRcloneFlags raw =
     (if raw = [] then Inr []
      else sanitize_parts ''rclone flag'' (option_allowed allowedRcloneFlags allowedRclonePrefixes) (split_on (CHR '' '') raw))"

subsection \<open>Data\<close>

type_synonym MountType = string

definition MountTypeSMB :: MountType where "MountTypeSMB = ''smb''"
definition MountTypeNFS :: MountType where "MountTypeNFS = ''nfs''"
definition MountTypeRclone :: MountType where "MountTypeRclone = ''rclone''"

record MountConfig =
  mcName :: string
  mcType :: MountType
  mcAddress :: string
  mcShare :: string
  mcUser :: string
  mcPassword :: string
  mcRemote :: string
  mcOptions :: string

record MountInfo =
  miName :: string
  miType :: MountType
  miAddress :: string
  miShare :: string
  miMountPath :: string
  miStatus :: string

definition decode_config :: "jval option \<Rightarrow> MountConfig option" where
  "decode_config b = do {
     n \<leftarrow> field_str ''name'' b; t \<leftarrow> field_str ''type'' b; a \<leftarrow> field_str ''address'' b; s \<leftarrow> field_str ''share'' b;
     u \<leftarrow> field_str ''user'' b; p \<leftarrow> field_str ''password'' b; r \<leftarrow> field_str ''remote'' b; os \<leftarrow> field_str ''options'' b;
     Some \<lparr>mcName = n, mcType = t, mcAddress = a, mcShare = s, mcUser = u, mcPassword = p, mcRemote = r, mcOptions = os\<rparr> }"

definition info_json :: "MountInfo \<Rightarrow> jval" where
  "info_json m = JObj [(''name'', JStr (miName m)), (''type'', JStr (miType m)), (''address'', JStr (miAddress m)),
     (''share'', JStr (miShare m)), (''mountPath'', JStr (miMountPath m)), (''status'', JStr (miStatus m))]"

definition decode_info :: "jval \<Rightarrow> MountInfo option" where
  "decode_info j = do {
     n \<leftarrow> field_str ''name'' (Some j); t \<leftarrow> field_str ''type'' (Some j); a \<leftarrow> field_str ''address'' (Some j);
     s \<leftarrow> field_str ''share'' (Some j); p \<leftarrow> field_str ''mountPath'' (Some j); st \<leftarrow> field_str ''status'' (Some j);
     Some \<lparr>miName = n, miType = t, miAddress = a, miShare = s, miMountPath = p, miStatus = st\<rparr> }"

text \<open>
  The map of the handler. Its values are pointers, and the map itself is nil once the state file holds
  \<^verbatim>\<open>null\<close>: then it can be read, but not written.
\<close>

type_synonym mounts = "(string \<times> MountInfo option) list option"

definition entries :: "mounts \<Rightarrow> (string \<times> MountInfo option) list" where
  "entries ms = (case ms of None \<Rightarrow> [] | Some es \<Rightarrow> es)"

record mounts_env =
  me_machine :: machine
  me_base :: string
  me_marshal :: "jval \<Rightarrow> string"
  me_unmarshal :: "string \<Rightarrow> jval option"

definition stateFile :: "mounts_env \<Rightarrow> string" where
  "stateFile E = PathJoin (me_base E) ''.mounts.json''"

definition pointer_json :: "MountInfo option \<Rightarrow> jval" where
  "pointer_json v = (case v of None \<Rightarrow> JNull | Some m \<Rightarrow> info_json m)"

definition decode_pointer :: "jval \<Rightarrow> MountInfo option option" where
  "decode_pointer j = (case j of JNull \<Rightarrow> Some None | _ \<Rightarrow> map_option Some (decode_info j))"

definition mounts_json :: "mounts \<Rightarrow> jval" where
  "mounts_json ms = (case ms of None \<Rightarrow> JNull
     | Some es \<Rightarrow> JObj (map (\<lambda>(k, v). (k, pointer_json v)) (sort_key fst es)))"

fun decode_entries :: "(string \<times> jval) list \<Rightarrow> (string \<times> MountInfo option) list \<Rightarrow> (string \<times> MountInfo option) list option" where
  "decode_entries [] acc = Some acc"
| "decode_entries ((k, j) # js) acc =
     (case decode_pointer j of None \<Rightarrow> None | Some v \<Rightarrow> decode_entries js (AList.update k v acc))"

definition decode_mounts :: "jval \<Rightarrow> mounts option" where
  "decode_mounts j = (case j of JNull \<Rightarrow> Some None | JObj js \<Rightarrow> map_option Some (decode_entries js []) | _ \<Rightarrow> None)"

subsection \<open>State\<close>

definition loadState :: "mounts_env \<Rightarrow> mounts \<Rightarrow> mounts act" where
  "loadState E ms = attempt (call (me_machine E) (HRead (stateFile E))) (\<lambda>r. ret (case r of
       Inl _ \<Rightarrow> ms
     | Inr t \<Rightarrow> (case Option.bind (me_unmarshal E t) decode_mounts of None \<Rightarrow> ms | Some ms' \<Rightarrow> ms')))"

definition saveState :: "mounts_env \<Rightarrow> mounts \<Rightarrow> unit act" where
  "saveState E ms = ignoring (call (me_machine E) (HWrite (stateFile E) (me_marshal E (mounts_json ms)) 420)) (ret ())"

definition NewHandler :: "mounts_env \<Rightarrow> mounts act" where
  "NewHandler E = ignoring (call (me_machine E) (HMkdir (me_base E) 493)) (loadState E (Some []))"

text \<open>A write to a nil map and a nil pointer that is followed are panics.\<close>

definition put_mount :: "string \<Rightarrow> MountInfo \<Rightarrow> mounts \<Rightarrow> mounts act" where
  "put_mount k m ms w = (case ms of None \<Rightarrow> None | Some es \<Rightarrow> ret (Some (AList.update k (Some m) es)) w)"

definition deref :: "MountInfo option \<Rightarrow> MountInfo act" where
  "deref v w = (case v of None \<Rightarrow> None | Some m \<Rightarrow> ret m w)"

subsection \<open>Commands\<close>

definition ensureCIFSModules :: "machine \<Rightarrow> unit act" where
  "ensureCIFSModules M = run_all M (map (\<lambda>m. HRun [''modprobe'', m] None) [''cifs'', ''cmac'', ''aes''])"

definition escape_commas :: "string \<Rightarrow> string" where
  "escape_commas s = concat (map (\<lambda>c. if c = CHR '','' then bslash @ '','' else [c]) s)"

definition credentials :: "MountConfig \<Rightarrow> string list" where
  "credentials cfg =
     (if mcUser cfg \<noteq> [] then [''username='' @ escape_commas (mcUser cfg)] else []) @
     (if mcPassword cfg \<noteq> [] then [''password='' @ escape_commas (mcPassword cfg)] else [])"

text \<open>The defaults: a version when no option starts with one, a guest when nothing else is said.\<close>

definition smb_defaults :: "MountConfig \<Rightarrow> string list \<Rightarrow> string list" where
  "smb_defaults cfg opts =
     (let opts = (if list_ex (\<lambda>x. HasPrefix x ''vers='') opts then opts else opts @ [''vers=3.0'']) in
      if opts = [''vers=3.0''] \<and> mcUser cfg = [] then opts @ [''guest''] else opts)"

definition smb_options :: "MountConfig \<Rightarrow> string + string list" where
  "smb_options cfg =
     map_sum id (\<lambda>s. smb_defaults cfg (credentials cfg @ (if s = [] then [] else [s])))
       (if mcOptions cfg = [] then Inr []
        else map_sum ((@) ''smb options: '') id (sanitizeMountOptions (mcOptions cfg) allowedSMBOptions allowedSMBPrefixes))"

definition mountSMB :: "machine \<Rightarrow> MountConfig \<Rightarrow> string \<Rightarrow> unit act" where
  "mountSMB M cfg mountPoint =
     chk [] (ensureCIFSModules M) (\<lambda>_. case smb_options cfg of
         Inl e \<Rightarrow> fail e
       | Inr opts \<Rightarrow> chk ''mount.cifs failed: ''
           (run_with '': '' M [''mount'', ''-t'', ''cifs'', ''//'' @ mcAddress cfg @ ''/'' @ mcShare cfg, mountPoint, ''-o'', join '','' opts] None)
           (\<lambda>_. ret ()))"

definition nfs_arguments :: "MountConfig \<Rightarrow> string \<Rightarrow> string + string list" where
  "nfs_arguments cfg mountPoint =
     (let args = [''mount'', ''-t'', ''nfs'', mcAddress cfg @ '':'' @ mcShare cfg, mountPoint] in
      if mcOptions cfg = [] then Inr args
      else map_sum ((@) ''nfs options: '') (\<lambda>s. if s = [] then args else args @ [''-o'', s])
        (sanitizeMountOptions (mcOptions cfg) allowedNFSOptions allowedNFSPrefixes))"

definition mountNFS :: "machine \<Rightarrow> MountConfig \<Rightarrow> string \<Rightarrow> unit act" where
  "mountNFS M cfg mountPoint = (case nfs_arguments cfg mountPoint of
       Inl e \<Rightarrow> fail e
     | Inr args \<Rightarrow> chk ''mount.nfs failed: '' (run_with '': '' M args None) (\<lambda>_. ret ()))"

definition remote_of :: "MountConfig \<Rightarrow> string" where
  "remote_of cfg = (if mcRemote cfg = [] then mcAddress cfg @ '':'' @ mcShare cfg else mcRemote cfg)"

definition rclone_command :: "string \<Rightarrow> string \<Rightarrow> string list" where
  "rclone_command remote mountPoint =
     [''rclone'', ''mount'', remote, mountPoint, ''--daemon'', ''--vfs-cache-mode'', ''full'', ''--allow-other'', ''--log-level'', ''INFO'']"

definition mountRclone :: "machine \<Rightarrow> MountConfig \<Rightarrow> string \<Rightarrow> unit act" where
  "mountRclone M cfg mountPoint =
     (case (if mcOptions cfg = [] then Inr [] else sanitizeRcloneFlags (mcOptions cfg)) of
        Inl e \<Rightarrow> fail (''rclone options: '' @ e)
      | Inr flags \<Rightarrow> chk ''rclone mount failed: '' (run_with '': '' M (rclone_command (remote_of cfg) mountPoint @ flags) None) (\<lambda>_. ret ()))"

definition unmount :: "machine \<Rightarrow> string \<Rightarrow> unit act" where
  "unmount M mountPoint =
     chk [] (ask M (HRun [''fusermount'', ''-u'', mountPoint] None)) (\<lambda>f. if \<not> failed f then ret () else
     chk [] (ask M (HRun [''umount'', mountPoint] None)) (\<lambda>a. if \<not> failed a then ret () else
     chk [] (ask M (HRun [''umount'', ''-l'', mountPoint] None)) (\<lambda>b. case error_of b of
         None \<Rightarrow> ret ()
       | Some e \<Rightarrow> fail (''umount failed: '' @ text_of a @ '' / lazy: '' @ text_of b @ '': '' @ e))))"

subsection \<open>Handlers\<close>

type_synonym mounts_handler = "mounts \<Rightarrow> http_request \<Rightarrow> (mounts \<times> http_response) act"

definition answer :: "mounts \<Rightarrow> http_response \<Rightarrow> (mounts \<times> http_response) act" where
  "answer ms resp = ret (ms, resp)"

fun deref_all :: "MountInfo option list \<Rightarrow> MountInfo list act" where
  "deref_all [] = ret []"
| "deref_all (v # vs) = chk [] (deref v) (\<lambda>m. chk [] (deref_all vs) (\<lambda>l. ret (m # l)))"

definition listMounts :: mounts_handler where
  "listMounts ms r = chk [] (deref_all (map snd (entries ms))) (\<lambda>l. answer ms (reply 200 (JArr (map info_json l))))"

definition getMount :: "string \<Rightarrow> mounts_handler" where
  "getMount name ms r = (case map_of (entries ms) name of
       None \<Rightarrow> answer ms (http_error ''mount not found'' 404)
     | Some v \<Rightarrow> answer ms (reply 200 (pointer_json v)))"

text \<open>The name must be its own base name.\<close>

definition mount_point :: "mounts_env \<Rightarrow> string \<Rightarrow> string + string" where
  "mount_point E name =
     (if name = [] then Inl ''name is required''
      else let safeName = Base name in
        if safeName \<noteq> name \<or> safeName = ''.'' \<or> safeName = ''..'' then Inl ''invalid mount name''
        else Inr (PathJoin (me_base E) name))"

definition mount_by_type :: "machine \<Rightarrow> MountConfig \<Rightarrow> string \<Rightarrow> unit act option" where
  "mount_by_type M cfg p =
     (if mcType cfg = MountTypeSMB then Some (mountSMB M cfg p)
      else if mcType cfg = MountTypeNFS then Some (mountNFS M cfg p)
      else if mcType cfg = MountTypeRclone then Some (mountRclone M cfg p)
      else None)"

definition info_of :: "MountConfig \<Rightarrow> string \<Rightarrow> MountInfo" where
  "info_of cfg mountPoint = \<lparr>miName = mcName cfg, miType = mcType cfg, miAddress = mcAddress cfg,
     miShare = mcShare cfg, miMountPath = mountPoint, miStatus = ''mounted''\<rparr>"

definition undo_mount :: "mounts_env \<Rightarrow> string \<Rightarrow> mounts \<Rightarrow> http_response \<Rightarrow> (mounts \<times> http_response) act" where
  "undo_mount E p ms resp = ignoring (call (me_machine E) (HRemove p)) (answer ms resp)"

definition mount_at :: "mounts_env \<Rightarrow> MountConfig \<Rightarrow> string \<Rightarrow> mounts \<Rightarrow> (mounts \<times> http_response) act" where
  "mount_at E cfg p ms =
     attempt (call (me_machine E) (HMkdir p 493)) (\<lambda>r. case r of
        Inl e \<Rightarrow> answer ms (http_error (''failed to create mount point: '' @ e) 500)
      | Inr _ \<Rightarrow> (case mount_by_type (me_machine E) cfg p of
          None \<Rightarrow> undo_mount E p ms (http_error ''unsupported mount type'' 400)
        | Some m \<Rightarrow> attempt m (\<lambda>r. case r of
            Inl e \<Rightarrow> undo_mount E p ms (http_error (''mount failed: '' @ e) 500)
          | Inr _ \<Rightarrow>
              chk [] (put_mount (mcName cfg) (info_of cfg p) ms) (\<lambda>ms.
              chk [] (saveState E ms) (\<lambda>_.
              answer ms (reply 201 (info_json (info_of cfg p))))))))"

definition createMount :: "mounts_env \<Rightarrow> mounts_handler" where
  "createMount E ms r = (case decode_config (rq_Body r) of
       None \<Rightarrow> answer ms (http_error ''invalid request body'' 400)
     | Some cfg \<Rightarrow> (case mount_point E (mcName cfg) of
         Inl e \<Rightarrow> answer ms (http_error e 400)
       | Inr p \<Rightarrow>
           if mcName cfg \<in> fst ` set (entries ms) then answer ms (http_error ''mount already exists'' 409)
           else mount_at E cfg p ms))"

definition removeMount :: "mounts_env \<Rightarrow> string \<Rightarrow> mounts_handler" where
  "removeMount E name ms r = (case map_of (entries ms) name of
       None \<Rightarrow> answer ms (http_error ''mount not found'' 404)
     | Some v \<Rightarrow>
         chk [] (deref v) (\<lambda>m.
         ignoring (unmount (me_machine E) (miMountPath m))
          (ignoring (call (me_machine E) (HRemove (miMountPath m)))
            (let ms' = map_option (AList.delete name) ms in
             chk [] (saveState E ms') (\<lambda>_.
             answer ms' (reply 200 (JObj [(''status'', JStr ''ok'')])))))))"

definition handleMounts :: "mounts_env \<Rightarrow> mounts_handler" where
  "handleMounts E ms r =
     (if rq_Method r = ''GET'' then listMounts ms r
      else if rq_Method r = ''POST'' then createMount E ms r
      else answer ms (http_error ''method not allowed'' 405))"

definition handleMountByName :: "mounts_env \<Rightarrow> mounts_handler" where
  "handleMountByName E ms r =
     (let name = TrimPrefix (rq_Path r) ''/api/mounts/'' in
      if name = [] then handleMounts E ms r
      else if rq_Method r = ''DELETE'' then removeMount E name ms r
      else if rq_Method r = ''GET'' then getMount name ms r
      else answer ms (http_error ''method not allowed'' 405))"

text \<open>The routes; \<^term>\<open>p\<close> is the path of the request as it was sent.\<close>

definition mounts_mux :: "mounts_env \<Rightarrow> string \<Rightarrow> mounts_handler" where
  "mounts_mux E p ms r =
     (if cleanPath p \<noteq> p then answer ms (reply_status 301)
      else if route_exact ''/api/mounts'' p then handleMounts E ms r
      else if route_exact ''/healthz'' p then answer ms (reply_status 200)
      else if route_subtree ''/api/mounts/'' p then handleMountByName E ms r
      else answer ms (http_error ''404 page not found'' 404))"

text \<open>The service from its start: the requests one after the other, as the lock orders them.\<close>

fun serve_mounts :: "mounts_env \<Rightarrow> (string \<times> http_request) list \<Rightarrow> mounts \<Rightarrow> (mounts \<times> http_response list) act" where
  "serve_mounts E [] ms = ret (ms, [])"
| "serve_mounts E ((p, r) # rs) ms =
     chk [] (mounts_mux E p ms r) (\<lambda>(ms, a). chk [] (serve_mounts E rs ms) (\<lambda>(ms, as). ret (ms, a # as)))"

definition mounts_main :: "mounts_env \<Rightarrow> (string \<times> http_request) list \<Rightarrow> (mounts \<times> http_response list) act" where
  "mounts_main E rs =
     ignoring (call (me_machine E) (HMkdir (me_base E) 493)) (chk [] (NewHandler E) (serve_mounts E rs))"

subsection \<open>What the service does to the host\<close>

definition valid_name :: "string \<Rightarrow> bool" where
  "valid_name k \<longleftrightarrow> k \<noteq> [] \<and> Base k = k \<and> k \<noteq> ''.'' \<and> k \<noteq> ''..''"

definition at_mount :: "mounts_env \<Rightarrow> string \<Rightarrow> bool" where
  "at_mount E p \<longleftrightarrow> (\<exists>k. valid_name k \<and> p = PathJoin (me_base E) k)"

lemma mount_point_Inr: "mount_point E k = Inr p \<longleftrightarrow> valid_name k \<and> p = PathJoin (me_base E) k"
  by (auto simp: mount_point_def valid_name_def Let_def)

interpretation mount_name: path_guard mount_point "\<lambda>E. is_rooted (me_base E)" me_base "\<lambda>_ p. p"
proof
  fix E name p
  assume "is_rooted (me_base E)" "mount_point E name = Inr p"
  then show "below (me_base E) p"
    using PathJoin_Base_below [of "me_base E" name] by (auto simp: mount_point_Inr valid_name_def)
qed

text \<open>An option that may reach \<^verbatim>\<open>mount.cifs\<close>: an allowed one, or credentials in which no comma stands bare.\<close>

definition smb_part :: "string \<Rightarrow> bool" where
  "smb_part x \<longleftrightarrow>
     (\<exists>u. x = ''username='' @ escape_commas u \<or> x = ''password='' @ escape_commas u) \<or>
     option_allowed allowedSMBOptions allowedSMBPrefixes x \<and> CHR '','' \<notin> set x"

definition nfs_part :: "string \<Rightarrow> bool" where
  "nfs_part x \<longleftrightarrow> option_allowed allowedNFSOptions allowedNFSPrefixes x \<and> CHR '','' \<notin> set x"

definition rclone_part :: "string \<Rightarrow> bool" where
  "rclone_part x \<longleftrightarrow> option_allowed allowedRcloneFlags allowedRclonePrefixes x"

definition mounting :: "string \<Rightarrow> string list \<Rightarrow> bool" where
  "mounting p args \<longleftrightarrow>
     (\<exists>src ps. args = [''mount'', ''-t'', ''cifs'', src, p, ''-o'', join '','' ps] \<and> list_all smb_part ps) \<or>
     (\<exists>src. args = [''mount'', ''-t'', ''nfs'', src, p]) \<or>
     (\<exists>src ps. args = [''mount'', ''-t'', ''nfs'', src, p, ''-o'', join '','' ps] \<and> list_all nfs_part ps) \<or>
     (\<exists>remote flags. args = rclone_command remote p @ flags \<and> list_all rclone_part flags)"

definition unmounting :: "string \<Rightarrow> string list \<Rightarrow> bool" where
  "unmounting p args \<longleftrightarrow> args \<in> {[''fusermount'', ''-u'', p], [''umount'', p], [''umount'', ''-l'', p]}"

definition mounts_call :: "mounts_env \<Rightarrow> hcmd \<Rightarrow> bool" where
  "mounts_call E c = (case c of
       HRead p \<Rightarrow> p = stateFile E
     | HWrite p _ _ \<Rightarrow> p = stateFile E
     | HMkdir p _ \<Rightarrow> p = me_base E \<or> at_mount E p
     | HRemove p \<Rightarrow> at_mount E p
     | HRun args i \<Rightarrow> i = None \<and>
         (args \<in> (\<lambda>m. [''modprobe'', m]) ` {''cifs'', ''cmac'', ''aes''} \<or>
          (\<exists>p. at_mount E p \<and> (mounting p args \<or> unmounting p args)))
     | _ \<Rightarrow> False)"

definition mount_ok :: "mounts_env \<Rightarrow> string \<times> MountInfo option \<Rightarrow> bool" where
  "mount_ok E e = (case e of (k, v) \<Rightarrow> valid_name k \<and>
     (\<exists>m. v = Some m \<and> miName m = k \<and> miType m \<in> {MountTypeSMB, MountTypeNFS, MountTypeRclone} \<and>
        miMountPath m = PathJoin (me_base E) k \<and> miStatus m = ''mounted''))"

definition mounts_ok :: "mounts_env \<Rightarrow> mounts \<Rightarrow> bool" where
  "mounts_ok E ms \<longleftrightarrow> ms \<noteq> None \<and> distinct (map fst (entries ms)) \<and> list_all (mount_ok E) (entries ms)"

lemma map_sum_Inr: "map_sum f g s = Inr y \<longleftrightarrow> (\<exists>x. s = Inr x \<and> y = g x)"
  by (cases s) auto

lemma sanitize_parts_ok:
  "sanitize_parts what ok ps = Inr xs \<Longrightarrow> x \<in> set xs \<Longrightarrow> ok x \<and> x \<noteq> [] \<and> (\<exists>p \<in> set ps. x = TrimSpace p)"
  by (induction ps arbitrary: xs) (auto simp: Let_def map_sum_Inr split: if_splits)

text \<open>The parts of a sanitized text are allowed, and no comma is left in them.\<close>

lemma sanitized_parts:
  assumes "sanitizeMountOptions raw allowed starts = Inr s" "s \<noteq> []"
  obtains ps where "s = join '','' ps" "\<And>x. x \<in> set ps \<Longrightarrow> option_allowed allowed starts x \<and> CHR '','' \<notin> set x"
proof -
  obtain ps where ps: "sanitize_parts ''mount option'' (option_allowed allowed starts) (split_on (CHR '','') raw) = Inr ps" "s = join '','' ps"
    using assms by (auto simp: sanitizeMountOptions_def map_sum_Inr split: if_splits)
  have "CHR '','' \<notin> set x" if "x \<in> set ps" for x
  proof -
    obtain p where p: "p \<in> set (split_on (CHR '','') raw)" "x = TrimSpace p" using sanitize_parts_ok [OF ps(1) \<open>x \<in> set ps\<close>] by blast
    then show ?thesis using split_on_no_sep [OF p(1)] TrimSpace_sublist [of p] by auto
  qed
  then show thesis using that [OF ps(2)] sanitize_parts_ok [OF ps(1)] by blast
qed

lemma join_append:
  assumes "b \<noteq> []"
  shows "a \<noteq> [] \<Longrightarrow> join sep (a @ b) = join sep a @ sep @ join sep b"
proof (induction a)
  case (Cons x a)
  then show ?case using assms by (cases "a = []") (simp_all add: join_Cons)
qed simp

lemma join_flat:
  assumes "ys \<noteq> []"
  shows "join sep (xs @ join sep ys # zs) = join sep (xs @ ys @ zs)"
proof -
  have one: "join sep (join sep ys # zs) = join sep (ys @ zs)"
    using assms by (cases "zs = []") (simp_all add: join_append join_Cons)
  show ?thesis using assms one by (cases "xs = []") (simp_all add: join_append)
qed

lemma smb_defaults_add: "\<exists>ds. smb_defaults cfg xs = xs @ ds \<and> set ds \<subseteq> {''vers=3.0'', ''guest''}"
proof -
  define v where "v = ''vers=3.0''"
  define g where "g = ''guest''"
  define h where "h = list_ex (\<lambda>x. HasPrefix x ''vers='') xs"
  define c where "c = ((if h then xs else xs @ [v]) = [v] \<and> mcUser cfg = [])"
  have "smb_defaults cfg xs = xs @ ((if h then [] else [v]) @ (if c then [g] else []))"
    unfolding smb_defaults_def Let_def v_def [symmetric] g_def [symmetric] h_def [symmetric] c_def [symmetric] by simp
  then show ?thesis unfolding v_def [symmetric] g_def [symmetric]
    by (intro exI [of _ "(if h then [] else [v]) @ (if c then [g] else [])"]) auto
qed

lemma smb_default_parts: "smb_part ''vers=3.0''" "smb_part ''guest''"
proof -
  have "option_allowed allowedSMBOptions allowedSMBPrefixes ''vers=3.0''" "option_allowed allowedSMBOptions allowedSMBPrefixes ''guest''"
    by code_simp+
  then show "smb_part ''vers=3.0''" "smb_part ''guest''" by (simp_all add: smb_part_def)
qed

lemma smb_options_parts:
  assumes "smb_options cfg = Inr opts"
  shows "\<exists>ps. join '','' opts = join '','' ps \<and> list_all smb_part ps"
proof -
  obtain s where s: "opts = smb_defaults cfg (credentials cfg @ (if s = [] then [] else [s]))"
    and r: "s = [] \<or> sanitizeMountOptions (mcOptions cfg) allowedSMBOptions allowedSMBPrefixes = Inr s"
  proof (cases "mcOptions cfg = []")
    case True
    then show thesis using assms that [of "[]"] by (simp add: smb_options_def)
  next
    case False
    then show thesis using assms that by (auto simp: smb_options_def map_sum_Inr)
  qed
  obtain ps where ps: "s = join '','' ps" "list_all smb_part ps"
  proof (cases "s = []")
    case False
    then have "sanitizeMountOptions (mcOptions cfg) allowedSMBOptions allowedSMBPrefixes = Inr s" using r by simp
    from this False obtain ps where "s = join '','' ps" "\<And>x. x \<in> set ps \<Longrightarrow> option_allowed allowedSMBOptions allowedSMBPrefixes x \<and> CHR '','' \<notin> set x"
      by (rule sanitized_parts) blast
    then show thesis using that by (auto simp: smb_part_def list_all_iff)
  qed (use that [of "[]"] in simp)
  obtain ds where o: "opts = credentials cfg @ (if s = [] then [] else [s]) @ ds" "set ds \<subseteq> {''vers=3.0'', ''guest''}"
    using smb_defaults_add [of cfg "credentials cfg @ (if s = [] then [] else [s])"] unfolding s append_assoc by (elim exE conjE)
  have d: "list_all smb_part ds"
    using o(2) smb_default_parts unfolding list_all_iff by blast
  have c: "list_all smb_part (credentials cfg)" by (auto simp: credentials_def smb_part_def)
  show ?thesis
  proof (cases "s = []")
    case True
    then show ?thesis using o(1) c d by (intro exI [of _ opts]) simp
  next
    case False
    then have "ps \<noteq> []" using ps(1) by auto
    then have "join '','' opts = join '','' (credentials cfg @ ps @ ds)" using False o(1) ps(1) join_flat by simp
    then show ?thesis using c d ps(2) by (intro exI [of _ "credentials cfg @ ps @ ds"]) simp
  qed
qed

lemma nfs_arguments_ok:
  assumes "nfs_arguments cfg p = Inr args"
  shows "mounting p args"
proof -
  define src where "src = mcAddress cfg @ '':'' @ mcShare cfg"
  obtain s where r: "s = [] \<or> sanitizeMountOptions (mcOptions cfg) allowedNFSOptions allowedNFSPrefixes = Inr s"
    and a: "args = [''mount'', ''-t'', ''nfs'', src, p] @ (if s = [] then [] else [''-o'', s])"
  proof (cases "mcOptions cfg = []")
    case True
    then show thesis using assms that [of "[]"] by (simp add: nfs_arguments_def src_def)
  next
    case False
    then obtain s where "sanitizeMountOptions (mcOptions cfg) allowedNFSOptions allowedNFSPrefixes = Inr s"
      "args = [''mount'', ''-t'', ''nfs'', src, p] @ (if s = [] then [] else [''-o'', s])"
      using assms by (auto simp: nfs_arguments_def Let_def src_def map_sum_Inr)
    then show thesis using that by blast
  qed
  show ?thesis
  proof (cases "s = []")
    case False
    then have "sanitizeMountOptions (mcOptions cfg) allowedNFSOptions allowedNFSPrefixes = Inr s" using r by simp
    from this False obtain ps where "s = join '','' ps" "list_all nfs_part ps"
      by (rule sanitized_parts) (auto simp: nfs_part_def list_all_iff)
    then show ?thesis using a False unfolding mounting_def by auto
  qed (use a in \<open>auto simp: mounting_def\<close>)
qed

lemma does_modules: "does (mounts_call E) (ensureCIFSModules M)"
  unfolding ensureCIFSModules_def by (rule does_run_all) (auto simp: mounts_call_def)

lemma smb_does:
  assumes "at_mount E p"
  shows "does (mounts_call E) (mountSMB M cfg p)"
  unfolding mountSMB_def
proof (rule does_chk [OF does_modules], cases "smb_options cfg")
  case (Inr opts)
  obtain ps where "join '','' opts = join '','' ps" "list_all smb_part ps" using smb_options_parts [OF Inr] by blast
  then have "mounting p [''mount'', ''-t'', ''cifs'', ''//'' @ mcAddress cfg @ ''/'' @ mcShare cfg, p, ''-o'', join '','' opts]"
    unfolding mounting_def by auto
  then have "mounts_call E (HRun [''mount'', ''-t'', ''cifs'', ''//'' @ mcAddress cfg @ ''/'' @ mcShare cfg, p, ''-o'', join '','' opts] None)"
    using assms by (auto simp: mounts_call_def)
  then show "does (mounts_call E) (case smb_options cfg of Inl e \<Rightarrow> fail e
       | Inr opts \<Rightarrow> chk ''mount.cifs failed: ''
           (run_with '': '' M [''mount'', ''-t'', ''cifs'', ''//'' @ mcAddress cfg @ ''/'' @ mcShare cfg, p, ''-o'', join '','' opts] None)
           (\<lambda>_. ret ()))"
    unfolding Inr sum.case by (intro does_chk does_run_with does_ret)
qed (simp add: does_fail)

lemma nfs_does: "at_mount E p \<Longrightarrow> does (mounts_call E) (mountNFS M cfg p)"
  unfolding mountNFS_def using nfs_arguments_ok [of cfg p]
  by (auto intro!: does_chk does_run_with does_ret does_fail exI [of _ p] simp: mounts_call_def split: sum.splits)

lemma rclone_does:
  assumes "at_mount E p"
  shows "does (mounts_call E) (mountRclone M cfg p)"
proof (cases "if mcOptions cfg = [] then Inr [] else sanitizeRcloneFlags (mcOptions cfg)")
  case (Inl e)
  then show ?thesis unfolding mountRclone_def by (simp add: does_fail)
next
  case (Inr flags)
  then have "list_all rclone_part flags"
    by (auto simp: sanitizeRcloneFlags_def list_all_iff rclone_part_def dest: sanitize_parts_ok split: if_splits)
  then have "mounts_call E (HRun (rclone_command (remote_of cfg) p @ flags) None)"
    using assms by (auto simp: mounts_call_def mounting_def)
  then show ?thesis unfolding mountRclone_def Inr sum.case by (intro does_chk does_run_with does_ret)
qed

lemma unmount_does: "at_mount E p \<Longrightarrow> does (mounts_call E) (unmount M p)"
  unfolding unmount_def
  by (auto intro!: does_chk does_ask does_ret does_fail exI [of _ p] simp: mounts_call_def unmounting_def split: option.splits)

lemma typed_does: "at_mount E p \<Longrightarrow> mount_by_type M cfg p = Some m \<Longrightarrow> does (mounts_call E) m"
  by (auto simp: mount_by_type_def smb_does nfs_does rclone_does split: if_splits)

lemma saveState_gives: "meets (mounts_call E) (gives (\<lambda>_. True)) (saveState E ms)"
  unfolding saveState_def by (intro meets_ignoring does_call meets_ret) (simp_all add: mounts_call_def)

lemma answer_gives: "mounts_ok E ms \<Longrightarrow> meets P (gives (\<lambda>(ms, a). mounts_ok E ms)) (answer ms resp)"
  by (simp add: answer_def meets_ret)

lemma put_mount_gives:
  assumes "mounts_ok E ms" "mount_ok E (k, Some m)"
  shows "meets P (gives (mounts_ok E)) (put_mount k m ms)"
proof -
  obtain es where ms: "ms = Some es" using assms(1) by (auto simp: mounts_ok_def)
  have "mounts_ok E (Some (AList.update k (Some m) es))"
    using assms set_alist_update_subset [of k "Some m" es] unfolding ms
    by (auto simp: mounts_ok_def entries_def list_all_iff distinct_update)
  then show ?thesis unfolding ms put_mount_def by (simp add: meets_def ret_def)
qed

abbreviation keeps_ok :: "mounts_env \<Rightarrow> (mounts \<times> http_response) act \<Rightarrow> bool" where
  "keeps_ok E \<equiv> meets (mounts_call E) (gives (\<lambda>(ms, a). mounts_ok E ms))"

lemma undo_keeps:
  assumes "at_mount E p" "mounts_ok E ms"
  shows "keeps_ok E (undo_mount E p ms resp)"
  unfolding undo_mount_def using assms by (auto intro!: meets_ignoring does_call answer_gives simp: mounts_call_def)

lemma done_keeps:
  assumes "mounts_ok E ms"
  shows "keeps_ok E (chk [] (saveState E ms) (\<lambda>_. answer ms resp))"
  by (rule meets_chk [OF saveState_gives]) (use assms in \<open>auto intro: answer_gives\<close>)

lemma mount_at_keeps:
  assumes ok: "mounts_ok E ms" and n: "valid_name (mcName cfg)" and p: "p = PathJoin (me_base E) (mcName cfg)"
  shows "keeps_ok E (mount_at E cfg p ms)"
proof -
  have at: "at_mount E p" using n p by (auto simp: at_mount_def)
  have mk: "does (mounts_call E) (call (me_machine E) (HMkdir p 493))" using at by (auto intro: does_call simp: mounts_call_def)
  have created: "keeps_ok E (chk [] (put_mount (mcName cfg) (info_of cfg p) ms) (\<lambda>ms. chk [] (saveState E ms) (\<lambda>_. answer ms resp)))"
    if "mount_by_type (me_machine E) cfg p = Some m" for m resp
  proof -
    have "mcType cfg \<in> {MountTypeSMB, MountTypeNFS, MountTypeRclone}" using that by (auto simp: mount_by_type_def split: if_splits)
    then have "mount_ok E (mcName cfg, Some (info_of cfg p))" using n p by (simp add: mount_ok_def info_of_def)
    with ok show ?thesis by (auto intro!: meets_chk [OF put_mount_gives] done_keeps)
  qed
  have typed: "keeps_ok E (case mount_by_type (me_machine E) cfg p of
          None \<Rightarrow> undo_mount E p ms bad
        | Some m \<Rightarrow> attempt m (\<lambda>r. case r of
            Inl e \<Rightarrow> undo_mount E p ms (err e)
          | Inr _ \<Rightarrow>
              chk [] (put_mount (mcName cfg) (info_of cfg p) ms) (\<lambda>ms.
              chk [] (saveState E ms) (\<lambda>_. answer ms good))))" for bad err good
  proof (cases "mount_by_type (me_machine E) cfg p")
    case None
    show ?thesis unfolding None option.case using at ok by (rule undo_keeps)
  next
    case (Some m)
    show ?thesis
      unfolding Some option.case
      by (rule meets_attempt [OF typed_does [OF at Some]]) (auto intro: undo_keeps [OF at ok] created [OF Some] split: sum.splits)
  qed
  show ?thesis
    unfolding mount_at_def by (rule meets_attempt [OF mk]) (auto intro: answer_gives [OF ok] typed split: sum.splits)
qed

lemma createMount_keeps:
  assumes "mounts_ok E ms"
  shows "keeps_ok E (createMount E ms r)"
proof (cases "decode_config (rq_Body r)")
  case (Some cfg)
  show ?thesis
  proof (cases "mount_point E (mcName cfg)")
    case (Inr p)
    then have "valid_name (mcName cfg)" "p = PathJoin (me_base E) (mcName cfg)" by (auto simp: mount_point_Inr)
    then show ?thesis unfolding createMount_def Some Inr option.case sum.case
      using mount_at_keeps [OF assms] answer_gives [OF assms] by (cases "mcName cfg \<in> fst ` set (entries ms)") simp_all
  qed (use Some assms in \<open>simp add: createMount_def answer_gives\<close>)
qed (use assms in \<open>simp add: createMount_def answer_gives\<close>)

lemma entry_ok:
  assumes "mounts_ok E ms" "map_of (entries ms) k = Some v"
  shows "mount_ok E (k, v)"
  using assms(1) map_of_SomeD [OF assms(2)] unfolding mounts_ok_def list_all_iff by blast

lemma removeMount_keeps:
  assumes ok: "mounts_ok E ms"
  shows "keeps_ok E (removeMount E name ms r)"
proof (cases "map_of (entries ms) name")
  case None
  with ok show ?thesis by (simp add: removeMount_def answer_gives)
next
  case (Some v)
  obtain m where v: "v = Some m" and p: "at_mount E (miMountPath m)"
    using entry_ok [OF ok Some] by (auto simp: mount_ok_def at_mount_def)
  have ok': "mounts_ok E (map_option (AList.delete name) ms)"
    using ok set_delete_subset [of name] by (cases ms) (auto simp: mounts_ok_def entries_def list_all_iff distinct_delete)
  have d: "meets (mounts_call E) (gives (\<lambda>x. x = m)) (deref v)" by (simp add: v meets_def deref_def ret_def)
  show ?thesis
    unfolding removeMount_def Some option.case Let_def
  proof (rule meets_chk [OF d])
    fix a
    assume "gives (\<lambda>x. x = m) (Inr a)"
    then have a: "at_mount E (miMountPath a)" using p by simp
    then show "keeps_ok E (ignoring (unmount (me_machine E) (miMountPath a)) (ignoring (call (me_machine E) (HRemove (miMountPath a)))
            (chk [] (saveState E (map_option (AList.delete name) ms)) (\<lambda>_. answer (map_option (AList.delete name) ms) (reply 200 (JObj [(''status'', JStr ''ok'')]))))))"
      using unmount_does done_keeps [OF ok'] by (auto intro!: meets_ignoring does_call simp: mounts_call_def)
  qed simp
qed

lemma deref_all_gives: "list_all (\<lambda>v. v \<noteq> None) vs \<Longrightarrow> meets P (gives (\<lambda>_. True)) (deref_all vs)"
proof (induction vs)
  case (Cons v vs)
  then obtain m where "v = Some m" by auto
  then have "meets P (gives (\<lambda>_. True)) (deref v)" by (simp add: meets_def deref_def ret_def)
  with Cons show ?case by (auto intro!: meets_chk meets_ret)
qed (simp add: meets_ret)

lemma listMounts_keeps: "mounts_ok E ms \<Longrightarrow> keeps_ok E (listMounts ms r)"
proof -
  assume ok: "mounts_ok E ms"
  then have "list_all (\<lambda>v. v \<noteq> None) (map snd (entries ms))" by (auto simp: mounts_ok_def list_all_iff mount_ok_def)
  from deref_all_gives [OF this] show ?thesis unfolding listMounts_def by (rule meets_chk) (use ok in \<open>auto intro: answer_gives\<close>)
qed

lemma mux_keeps: "mounts_ok E ms \<Longrightarrow> keeps_ok E (mounts_mux E p ms r)"
  unfolding mounts_mux_def handleMounts_def handleMountByName_def getMount_def Let_def
  by (auto intro!: answer_gives createMount_keeps removeMount_keeps listMounts_keeps split: option.splits)

lemma serve_keeps:
  "mounts_ok E ms \<Longrightarrow> meets (mounts_call E) (gives (\<lambda>(ms', as). mounts_ok E ms' \<and> length as = length rs)) (serve_mounts E rs ms)"
proof (induction rs arbitrary: ms)
  case Nil
  then show ?case by (simp add: meets_ret)
next
  case (Cons x rs)
  obtain p r where x: "x = (p, r)" by (cases x)
  show ?case
    unfolding x serve_mounts.simps
    by (rule meets_chk [OF mux_keeps [OF Cons.prems]])
      (auto intro!: meets_chk [OF Cons.IH] meets_ret)
qed

lemma no_mounts_ok: "mounts_ok E (Some [])"
  by (simp add: mounts_ok_def entries_def)

text \<open>
  C17: Whatever requests the mount service gets and whatever the host answers, it answers each of them
  and its map stays well formed: one entry for each name, filed under its own name, of one of the three
  types, with a valid name and the path of that name below the base directory.
\<close>

theorem mounts_stay_well_formed:
  assumes "mounts_ok E ms"
  shows "\<exists>ms' as w'. serve_mounts E rs ms w = Some (Inr (ms', as), w') \<and> mounts_ok E ms' \<and> length as = length rs"
proof -
  note k = serve_keeps [OF assms, of rs]
  obtain r w' where s: "serve_mounts E rs ms w = Some (r, w')" using meets_returns [OF k, of w] by auto
  then have "gives (\<lambda>(ms', as). mounts_ok E ms' \<and> length as = length rs) r" using meetsE [OF k] by blast
  with s show ?thesis by (cases r) auto
qed


subsection \<open>The state file\<close>

lemma members_str_other:
  "ToLower k \<notin> (ToLower \<circ> fst) ` set kvs \<Longrightarrow> members_str k (map (\<lambda>(k, v). (k, JStr v)) kvs) acc = Some acc"
  by (induction kvs) (auto simp: EqualFold_def)

lemma members_str_found:
  "distinct (map (ToLower \<circ> fst) kvs) \<Longrightarrow> (k, v) \<in> set kvs \<Longrightarrow>
   members_str k (map (\<lambda>(k, v). (k, JStr v)) kvs) acc = Some v"
proof (induction kvs arbitrary: acc)
  case (Cons x kvs)
  obtain k' v' where x: "x = (k', v')" by (cases x)
  show ?case
  proof (cases "x = (k, v)")
    case True
    then have "ToLower k \<notin> (ToLower \<circ> fst) ` set kvs" using Cons.prems by auto
    from members_str_other [OF this] show ?thesis using True by (simp add: EqualFold_def)
  next
    case False
    then have m: "(k, v) \<in> set kvs" using Cons.prems by auto
    then have "ToLower k' \<noteq> ToLower k" using Cons.prems(1) x by force
    with Cons.IH m Cons.prems x show ?thesis by (simp add: EqualFold_def)
  qed
qed simp

lemma decode_info_json: "decode_info (info_json m) = Some m"
proof -
  define ks where "ks = [''name'', ''type'', ''address'', ''share'', ''mountPath'', ''status'']"
  define vs where "vs = [miName m, miType m, miAddress m, miShare m, miMountPath m, miStatus m]"
  have j: "info_json m = JObj (map (\<lambda>(k, v). (k, JStr v)) (zip ks vs))"
    by (simp add: info_json_def ks_def vs_def)
  have l: "length ks = length vs" by (simp add: ks_def vs_def)
  have "distinct (map ToLower ks)" unfolding ks_def by code_simp
  then have d: "distinct (map (ToLower \<circ> fst) (zip ks vs))"
    unfolding map_map [symmetric] map_fst_zip [OF l] .
  have f: "field_str k (Some (info_json m)) = Some v" if "(k, v) \<in> set (zip ks vs)" for k v
    using members_str_found [OF d that] by (simp add: field_str_def members_of_def j)
  show ?thesis
    unfolding decode_info_def
    by (simp add: f [of "''name''" "miName m"] f [of "''type''" "miType m"] f [of "''address''" "miAddress m"]
        f [of "''share''" "miShare m"] f [of "''mountPath''" "miMountPath m"] f [of "''status''" "miStatus m"] ks_def vs_def)
qed

lemma decode_pointer_json: "decode_pointer (pointer_json v) = Some v"
proof (cases v)
  case (Some m)
  have "decode_pointer (info_json m) = map_option Some (decode_info (info_json m))" by (simp add: decode_pointer_def info_json_def)
  then show ?thesis by (simp add: Some pointer_json_def decode_info_json)
qed (simp add: pointer_json_def decode_pointer_def)

lemma decode_entries_json:
  "distinct (map fst acc @ map fst es) \<Longrightarrow>
   decode_entries (map (\<lambda>(k, v). (k, pointer_json v)) es) acc = Some (acc @ es)"
proof (induction es arbitrary: acc)
  case (Cons x es)
  obtain k v where x: "x = (k, v)" by (cases x)
  have "AList.update k v acc = acc @ [(k, v)]"
    using Cons.prems x by (induction acc) auto
  then show ?case using Cons by (simp add: x decode_pointer_json)
qed simp

text \<open>
  C19: A restart finds the mounts again: when the host returns the text that was saved, the new map has
  the same mount under each name.
\<close>

theorem restart_restores_mounts:
  assumes ok: "mounts_ok E ms" and codec: "me_unmarshal E (me_marshal E (mounts_json ms)) = Some (mounts_json ms)"
    and on_disk: "\<And>lg. answers (me_machine E) lg (HRead (stateFile E)) = HOk (me_marshal E (mounts_json ms))"
  shows "\<exists>ms' w'. NewHandler E w = Some (Inr ms', w') \<and> mounts_ok E ms' \<and> map_of (entries ms') = map_of (entries ms)"
proof -
  obtain es where ms: "ms = Some es" using ok by (auto simp: mounts_ok_def)
  define so where "so = sort_key fst es"
  have d: "distinct (map fst so)" "set so = set es"
    using ok unfolding so_def ms by (auto simp: mounts_ok_def entries_def distinct_map inj_on_def)
  then have same: "map_of so = map_of es"
    using ok unfolding ms by (intro map_of_eqI) (auto simp: mounts_ok_def entries_def map_of_eq_Some_iff intro!: ext)
  have ok': "mounts_ok E (Some so)" using ok d unfolding ms by (simp add: mounts_ok_def entries_def list_all_iff)
  have dec: "decode_mounts (mounts_json ms) = Some (Some so)"
    using decode_entries_json [of "[]" so] d by (simp add: ms mounts_json_def decode_mounts_def so_def)
  have read: "call (me_machine E) (HRead (stateFile E)) v = Some (Inr (me_marshal E (mounts_json ms)), v\<lparr>hw_log := hw_log v @ [(HRead (stateFile E), HOk (me_marshal E (mounts_json ms)))]\<rparr>)" for v
    by (simp add: call_def chk_def ask_def Let_def on_disk text_of_def ret_def)
  have load: "\<exists>w'. loadState E (Some []) v = Some (Inr (Some so), w')" for v
    by (simp add: loadState_def attempt_def read ret_def codec dec)
  obtain r w1 where "call (me_machine E) (HMkdir (me_base E) 493) w = Some (r, w1)"
    using meets_returns [OF does_call [of "\<lambda>_. True"]] by (metis not_None_eq surj_pair)
  then have "\<exists>w'. NewHandler E w = Some (Inr (Some so), w')"
    using load [of w1] by (simp add: NewHandler_def ignoring_def attempt_def)
  then show ?thesis using ok' same by (auto simp: ms entries_def)
qed

subsection \<open>Requests on a small host\<close>

definition quiet_mounts :: mounts_env where
  "quiet_mounts = \<lparr>me_machine = \<lparr>answers = (\<lambda>_ _. HOk []), goos = ''linux'', goarch = ''amd64'', pemEncode = (\<lambda>_ d. d)\<rparr>,
     me_base = ''/packalares/mounts'', me_marshal = (\<lambda>_. []), me_unmarshal = (\<lambda>_. None)\<rparr>"

definition mount_request :: "(string \<times> string) list \<Rightarrow> string \<times> http_request" where
  "mount_request kvs = (''/api/mounts'', \<lparr>rq_Method = ''POST'', rq_Path = ''/api/mounts'', rq_Query = [], rq_Host = [],
     rq_RemoteAddr = [], rq_Header = [], rq_Cookies = [], rq_Body = Some (JObj (map (\<lambda>(k, v). (k, JStr v)) kvs))\<rparr>)"

definition idle_host :: host where
  "idle_host = \<lparr>hw_log = [], hw_env = (\<lambda>_. []), hw_out = []\<rparr>"

definition nas_request :: "string \<times> http_request" where
  "nas_request = mount_request [(''name'', ''nas''), (''type'', ''nfs''), (''address'', ''10.0.0.2''), (''share'', ''/media''), (''options'', ''ro, soft'')]"

text \<open>The commands of a list of requests, and the codes of the answers.\<close>

definition commands_of :: "(string \<times> http_request) list \<Rightarrow> mounts \<Rightarrow> string list list" where
  "commands_of rs ms = (case serve_mounts quiet_mounts rs ms idle_host of None \<Rightarrow> []
     | Some (_, w) \<Rightarrow> concat (map (\<lambda>(c, _). case c of HRun args _ \<Rightarrow> [args] | _ \<Rightarrow> []) (hw_log w)))"

theorem mounts_stay_well_formed_witness:
  "\<exists>ms' as w'. serve_mounts quiet_mounts [nas_request] (Some []) idle_host = Some (Inr (ms', as), w') \<and>
     mounts_ok quiet_mounts ms' \<and> length as = 1"
  using mounts_stay_well_formed [OF no_mounts_ok, of quiet_mounts "[nas_request]" idle_host] by simp

lemma nas_commands:
  "commands_of [nas_request] (Some []) =
     [[''mount'', ''-t'', ''nfs'', ''10.0.0.2:/media'', ''/packalares/mounts/nas'', ''-o'', ''ro,soft'']]"
  by code_simp

lemma quiet_rooted: "is_rooted (me_base quiet_mounts)"
  by code_simp


text \<open>A host that kept the state file of one mount, as the only text its codec knows.\<close>

definition nas_mounts :: mounts where
  "nas_mounts = Some [(''nas'', Some \<lparr>miName = ''nas'', miType = ''nfs'', miAddress = ''10.0.0.2'', miShare = ''/media'',
     miMountPath = ''/packalares/mounts/nas'', miStatus = ''mounted''\<rparr>)]"

definition kept_mounts :: mounts_env where
  "kept_mounts = quiet_mounts\<lparr>me_marshal := (\<lambda>_. ''saved''),
     me_unmarshal := (\<lambda>t. if t = ''saved'' then Some (mounts_json nas_mounts) else None),
     me_machine := \<lparr>answers = (\<lambda>_ _. HOk ''saved''), goos = ''linux'', goarch = ''amd64'', pemEncode = (\<lambda>_ d. d)\<rparr>\<rparr>"

lemma nas_mounts_ok: "mounts_ok kept_mounts nas_mounts"
proof -
  have "Base ''nas'' = ''nas''" "PathJoin ''/packalares/mounts'' ''nas'' = ''/packalares/mounts/nas''" by code_simp+
  then show ?thesis
    by (simp add: mounts_ok_def nas_mounts_def entries_def mount_ok_def valid_name_def MountTypeNFS_def kept_mounts_def quiet_mounts_def)
qed

theorem restart_restores_mounts_witness:
  "\<exists>ms' w'. NewHandler kept_mounts idle_host = Some (Inr ms', w') \<and> mounts_ok kept_mounts ms' \<and>
     map_of (entries ms') = map_of (entries nas_mounts)"
  by (rule restart_restores_mounts [OF nas_mounts_ok]) (simp_all add: kept_mounts_def)

text \<open>A mount at the root of its directory, flags in the remote, a version that is overruled, a nil map.\<close>

lemma name_slash_mounts_over_base:
  "commands_of [mount_request [(''name'', ''/''), (''type'', ''nfs''), (''address'', ''10.0.0.2''), (''share'', ''/media'')]] (Some []) =
     [[''mount'', ''-t'', ''nfs'', ''10.0.0.2:/media'', ''/packalares/mounts'']]"
  by code_simp

lemma remote_is_a_flag:
  "commands_of [mount_request [(''name'', ''a''), (''type'', ''rclone''), (''remote'', ''--config=/tmp/x'')]] (Some []) =
     [[''rclone'', ''mount'', ''--config=/tmp/x'', ''/packalares/mounts/a'', ''--daemon'', ''--vfs-cache-mode'', ''full'',
       ''--allow-other'', ''--log-level'', ''INFO'']]"
  by code_simp

lemma version_is_overruled:
  "last (concat (commands_of [mount_request [(''name'', ''a''), (''type'', ''smb''), (''address'', ''h''), (''share'', ''s''),
     (''options'', ''ro,vers=2.0'')]] (Some []))) = ''ro,vers=2.0,vers=3.0''"
  by code_simp

lemma null_state_panics: "serve_mounts quiet_mounts [nas_request] None idle_host = None"
  by code_simp

end
