(* ===== verification/App_Types.thy ===== *)
theory App_Types
  imports Prelude
begin

text \<open>
  \<^verbatim>\<open>internal/appservice/types.go\<close> and the record of \<^verbatim>\<open>store.go\<close>: the data of the app service.
  Nil slices and empty slices are identified; times are seconds.
\<close>

datatype AppState =
    StatePending
  | StateDownloading
  | StateInstalling
  | StateInitializing
  | StateRunning
  | StateUpgrading
  | StateStopping
  | StateStopped
  | StateResuming
  | StateUninstalling
  | StateUninstalled
  | StateInstallFailed
  | StateUninstallFailed
  | StateResumeFailed
  | StateUpgradeFailed
  | StateStopFailed
  | StateFailed

datatype OpType = NoOp | OpInstall | OpUninstall | OpUpgrade | OpStop | OpResume | OpCancel

record Entrance =
  en_Name :: string
  en_Host :: string
  en_Port :: int
  en_Icon :: string
  en_Title :: string
  en_AuthLevel :: string
  en_Invisible :: bool
  en_URL :: string
  en_OpenMethod :: string

record SharedEntrance =
  se_Name :: string
  se_Host :: string
  se_Port :: int
  se_Title :: string
  se_Icon :: string
  se_AuthLevel :: string
  se_Invisible :: bool

record SysDataEntry =
  sd_DataType :: string
  sd_AppName :: string
  sd_Svc :: string
  sd_Port :: int
  sd_Group :: string
  sd_Version :: string
  sd_Ops :: "string list"

record ProviderEntry =
  pe_AppName :: string
  pe_ProviderName :: string

record Permission =
  AppData :: bool
  AppCache :: bool
  UserData :: "string list"
  SysData :: "SysDataEntry list"
  Provider :: "ProviderEntry list"

record ManifestEnv =
  me_EnvName :: string
  me_Type :: string
  me_Required :: bool
  me_Editable :: bool
  me_Description :: string
  me_Regex :: string

record MiddlewareDBEntry =
  db_Name :: string
  db_Distributed :: bool

record MiddlewarePostgres =
  mp_Username :: string
  mp_Password :: string
  mp_Standalone :: bool
  mp_Image :: string
  mp_Databases :: "MiddlewareDBEntry list"

record PostgresProvision =
  pp_Host :: string
  pp_Port :: string
  pp_Username :: string
  pp_Password :: string
  pp_DBName :: string
  pp_DataPath :: string
  pp_Mode :: string

record AppMetaData =
  md_Name :: string
  md_Icon :: string
  md_Description :: string
  md_AppID :: string
  md_Title :: string
  md_Version :: string

text \<open>The parts of the manifest the service reads; \<open>mf_Postgres\<close> is \<^verbatim>\<open>Middleware.Postgres\<close>.\<close>

record AppConfiguration =
  mf_Metadata :: AppMetaData
  mf_Entrances :: "Entrance list"
  mf_SharedEntrances :: "SharedEntrance list"
  mf_Permission :: Permission
  mf_Postgres :: "MiddlewarePostgres option"
  mf_Envs :: "ManifestEnv list"

record AppRecord =
  r_Name :: string
  r_AppID :: string
  r_Namespace :: string
  r_Owner :: string
  r_Icon :: string
  r_Title :: string
  r_Description :: string
  r_Version :: string
  r_ChartRef :: string
  r_RepoURL :: string
  r_Source :: string
  r_State :: AppState
  r_OpType :: OpType
  r_OpID :: int
  r_ReleaseName :: string
  r_Entrances :: "Entrance list"
  r_SharedEntrances :: "SharedEntrance list"
  r_Permission :: "Permission option"
  r_Values :: "(string \<times> string) list"
  r_CreatedAt :: int
  r_UpdatedAt :: int
  r_IsSysApp :: bool
  r_InternetBlocked :: bool
  r_PublicAccess :: bool
  r_RawAppName :: string

record InstallRequest =
  iq_Name :: string
  iq_RepoURL :: string
  iq_Source :: string
  iq_Version :: string
  iq_Values :: "(string \<times> string) list"

record UninstallRequest =
  uq_Name :: string
  uq_All :: bool
  uq_DeleteData :: bool
  uq_Wipe :: bool

record PodInfo =
  pod_Name :: string
  pod_Ready :: string
  pod_Status :: string
  pod_Age :: string

record AppInfo =
  ai_Name :: string
  ai_AppID :: string
  ai_Namespace :: string
  ai_Owner :: string
  ai_Icon :: string
  ai_Title :: string
  ai_Description :: string
  ai_Version :: string
  ai_State :: string
  ai_StatusMessage :: string
  ai_Source :: string
  ai_Entrances :: "Entrance list"
  ai_InternetBlocked :: bool
  ai_PublicAccess :: bool
  ai_CreatedAt :: int
  ai_UpdatedAt :: int

definition state_text :: "AppState \<Rightarrow> string" where
  "state_text s = (case s of
     StatePending \<Rightarrow> ''pending'' | StateDownloading \<Rightarrow> ''downloading'' | StateInstalling \<Rightarrow> ''installing''
   | StateInitializing \<Rightarrow> ''initializing'' | StateRunning \<Rightarrow> ''running'' | StateUpgrading \<Rightarrow> ''upgrading''
   | StateStopping \<Rightarrow> ''stopping'' | StateStopped \<Rightarrow> ''stopped'' | StateResuming \<Rightarrow> ''resuming''
   | StateUninstalling \<Rightarrow> ''uninstalling'' | StateUninstalled \<Rightarrow> ''uninstalled''
   | StateInstallFailed \<Rightarrow> ''installFailed'' | StateUninstallFailed \<Rightarrow> ''uninstallFailed''
   | StateResumeFailed \<Rightarrow> ''resumeFailed'' | StateUpgradeFailed \<Rightarrow> ''upgradeFailed''
   | StateStopFailed \<Rightarrow> ''stopFailed'' | StateFailed \<Rightarrow> ''failed'')"

end
