(* ===== verification/App_Store.thy ===== *)
theory App_Store
  imports App_Types
begin

text \<open>
  \<^verbatim>\<open>internal/appservice/store.go\<close>: the app store. Its map holds pointers, and the background
  jobs keep pointers to the same records, so records live in a heap (a list; an address is
  an index) and the map goes from names to addresses. \<open>disk\<close> is the content of the JSON file;
  a write may fail (the flag \<open>ok\<close> of an operation), which leaves the memory changed and the
  file as it was (a write that stops halfway and leaves a truncated file is not modelled).
\<close>

record store =
  heap :: "AppRecord list"
  s_apps :: "(string \<times> nat) list"
  disk :: "AppRecord list option"

datatype file_read = FileMissing | ReadFailed | CorruptJSON | JSONRecords "AppRecord option list"

fun load_records :: "AppRecord option list \<Rightarrow> store \<Rightarrow> store option" where
  "load_records [] s = Some s"
| "load_records (None # rs) s = None"
| "load_records (Some r # rs) s =
     load_records rs (s\<lparr>heap := heap s @ [r], s_apps := AList.update (r_Name r) (length (heap s)) (s_apps s)\<rparr>)"

text \<open>Outer \<^term>\<open>None\<close>: the panic on a null array element. \<^term>\<open>Inl ()\<close>: the read error.\<close>

definition NewAppStore :: "file_read \<Rightarrow> (unit + store) option" where
  "NewAppStore f =
     (let empty = \<lparr>heap = [], s_apps = [], disk = None\<rparr> in
      case f of
        FileMissing \<Rightarrow> Some (Inr empty)
      | ReadFailed \<Rightarrow> Some (Inl ())
      | CorruptJSON \<Rightarrow> Some (Inr empty)
      | JSONRecords rs \<Rightarrow> map_option Inr (load_records rs empty))"

definition save :: "bool \<Rightarrow> store \<Rightarrow> store \<times> bool" where
  "save ok s =
     (if ok then (s\<lparr>disk := Some (map (\<lambda>(n, a). heap s ! a) (s_apps s))\<rparr>, True) else (s, False))"

definition modify :: "nat \<Rightarrow> (AppRecord \<Rightarrow> AppRecord) \<Rightarrow> store \<Rightarrow> store" where
  "modify a f s = s\<lparr>heap := (heap s)[a := f (heap s ! a)]\<rparr>"

definition alloc :: "AppRecord \<Rightarrow> store \<Rightarrow> nat \<times> store" where
  "alloc r s = (length (heap s), s\<lparr>heap := heap s @ [r]\<rparr>)"

definition Put :: "bool \<Rightarrow> int \<Rightarrow> nat \<Rightarrow> store \<Rightarrow> store \<times> bool" where
  "Put ok now a s =
     (let s = modify a (\<lambda>r. r\<lparr>r_UpdatedAt := now\<rparr>) s
      in save ok (s\<lparr>s_apps := AList.update (r_Name (heap s ! a)) a (s_apps s)\<rparr>))"

definition Get :: "string \<Rightarrow> store \<Rightarrow> nat option" where
  "Get name s = map_of (s_apps s) name"

definition Delete :: "bool \<Rightarrow> string \<Rightarrow> store \<Rightarrow> store \<times> bool" where
  "Delete ok name s = save ok (s\<lparr>s_apps := AList.delete name (s_apps s)\<rparr>)"

definition List :: "store \<Rightarrow> nat list" where
  "List s = map snd (s_apps s)"

definition SetState :: "bool \<Rightarrow> int \<Rightarrow> string \<Rightarrow> AppState \<Rightarrow> OpType \<Rightarrow> store \<Rightarrow> store \<times> bool" where
  "SetState ok now name state op s = (case Get name s of
     None \<Rightarrow> (s, False)
   | Some a \<Rightarrow>
       save ok (modify a (\<lambda>r. r\<lparr>r_State := state, r_OpType := op, r_OpID := now, r_UpdatedAt := now\<rparr>) s))"

subsection \<open>The invariant\<close>

definition store_ok :: "store \<Rightarrow> bool" where
  "store_ok s \<longleftrightarrow> distinct (map fst (s_apps s)) \<and>
     list_all (\<lambda>(n, a). a < length (heap s) \<and> r_Name (heap s ! a) = n) (s_apps s)"

definition keeps_name :: "(AppRecord \<Rightarrow> AppRecord) \<Rightarrow> bool" where
  "keeps_name f \<longleftrightarrow> (\<forall>r. r_Name (f r) = r_Name r)"

lemma keeps_name_intros [simp]:
  "keeps_name (\<lambda>r. r\<lparr>r_UpdatedAt := t\<rparr>)"
  "keeps_name (\<lambda>r. r\<lparr>r_State := st\<rparr>)"
  "keeps_name (\<lambda>r. r\<lparr>r_State := st, r_OpType := op, r_OpID := i, r_UpdatedAt := t\<rparr>)"
  "keeps_name (\<lambda>r. r\<lparr>r_State := st, r_OpType := op, r_OpID := i\<rparr>)"
  by (simp_all add: keeps_name_def)

lemma name_update: "keeps_name f \<Longrightarrow> i < length h \<Longrightarrow> r_Name (h[a := f (h ! a)] ! i) = r_Name (h ! i)"
  by (cases "a = i") (auto simp: keeps_name_def)

lemma store_ok_modify: "store_ok s \<Longrightarrow> keeps_name f \<Longrightarrow> store_ok (modify a f s)"
  using name_update [of f _ "heap s" a]
  by (auto simp: store_ok_def modify_def list_all_iff split: prod.splits)

lemma store_ok_save: "store_ok s \<Longrightarrow> store_ok (fst (save ok s))"
  by (simp add: save_def store_ok_def)

lemma store_ok_update:
  "store_ok s \<Longrightarrow> a < length (heap s) \<Longrightarrow> store_ok (s\<lparr>s_apps := AList.update (r_Name (heap s ! a)) a (s_apps s)\<rparr>)"
  using set_alist_update_subset [of "r_Name (heap s ! a)" a "s_apps s"]
  by (auto simp: store_ok_def list_all_iff intro!: distinct_update)

lemma store_ok_Put: "store_ok s \<Longrightarrow> a < length (heap s) \<Longrightarrow> store_ok (fst (Put ok now a s))"
  unfolding Put_def Let_def
  by (intro store_ok_save store_ok_update store_ok_modify) (simp_all add: modify_def)

lemma store_ok_Delete: "store_ok s \<Longrightarrow> store_ok (fst (Delete ok name s))"
  using set_delete_subset [of name "s_apps s"]
  unfolding Delete_def by (intro store_ok_save) (auto simp: store_ok_def list_all_iff intro!: distinct_delete)

lemma store_ok_alloc: "store_ok s \<Longrightarrow> store_ok (snd (alloc r s))"
  by (auto simp: store_ok_def alloc_def list_all_iff nth_append)

lemma store_ok_SetState: "store_ok s \<Longrightarrow> store_ok (fst (SetState ok now name st op s))"
  by (auto simp: SetState_def intro!: store_ok_save store_ok_modify split: option.split)

lemma store_ok_load: "store_ok s \<Longrightarrow> load_records rs s = Some s' \<Longrightarrow> store_ok s'"
proof (induction rs s rule: load_records.induct)
  case (3 r rs s)
  have "store_ok (s\<lparr>heap := heap s @ [r], s_apps := AList.update (r_Name r) (length (heap s)) (s_apps s)\<rparr>)"
    using store_ok_update [OF store_ok_alloc [OF "3.prems"(1), of r], of "length (heap s)"]
    by (simp add: alloc_def)
  then show ?case using 3 by simp
qed auto

subsection \<open>What the store promises\<close>

text \<open>The record stored under a name.\<close>

definition record_of :: "store \<Rightarrow> string \<Rightarrow> AppRecord option" where
  "record_of s n = map_option ((!) (heap s)) (Get n s)"

lemma Get_SomeD: "store_ok s \<Longrightarrow> Get n s = Some a \<Longrightarrow> a < length (heap s) \<and> r_Name (heap s ! a) = n"
  by (auto simp: store_ok_def Get_def list_all_iff dest!: map_of_SomeD)

lemma record_of_Name: "store_ok s \<Longrightarrow> record_of s n = Some r \<Longrightarrow> r_Name r = n"
  by (auto simp: record_of_def dest: Get_SomeD)

lemma heap_save [simp]: "heap (fst (save ok s)) = heap s" "s_apps (fst (save ok s)) = s_apps s"
  by (simp_all add: save_def)

lemma heap_Put:
  "heap (fst (Put ok now a s)) = (heap s)[a := (heap s ! a)\<lparr>r_UpdatedAt := now\<rparr>]"
  by (simp add: Put_def Let_def modify_def)

lemma Get_Put:
  "a < length (heap s) \<Longrightarrow>
   Get n (fst (Put ok now a s)) = (if n = r_Name (heap s ! a) then Some a else Get n s)"
  by (simp add: Put_def Let_def modify_def Get_def map_of_update)

lemma Get_Delete: "Get n (fst (Delete ok m s)) = (if n = m then None else Get n s)"
  by (simp add: Delete_def Get_def map_of_delete)

lemma heap_Delete [simp]: "heap (fst (Delete ok m s)) = heap s"
  by (simp add: Delete_def)

lemma record_of_Put:
  assumes "store_ok s" "a < length (heap s)"
  shows "record_of (fst (Put ok now a s)) n =
    (if n = r_Name (heap s ! a) then Some ((heap s ! a)\<lparr>r_UpdatedAt := now\<rparr>) else record_of s n)"
proof (cases "n = r_Name (heap s ! a)")
  case False
  then have "Get n s \<noteq> Some a" using Get_SomeD [OF assms(1), of n a] by auto
  with False show ?thesis
    by (cases "Get n s") (auto simp: record_of_def Get_Put [OF assms(2)] heap_Put)
qed (simp add: record_of_def Get_Put [OF assms(2)] heap_Put assms(2))

lemma load_records_of:
  "load_records (map Some rs) s = Some s' \<Longrightarrow> store_ok s \<Longrightarrow>
   record_of s' n = (case map_of (rev (map (\<lambda>r. (r_Name r, r)) rs)) n of Some r \<Rightarrow> Some r | None \<Rightarrow> record_of s n)"
proof (induction rs arbitrary: s)
  case (Cons r rs)
  let ?s = "s\<lparr>heap := heap s @ [r], s_apps := AList.update (r_Name r) (length (heap s)) (s_apps s)\<rparr>"
  have ok: "store_ok ?s"
    using store_ok_update [OF store_ok_alloc [OF Cons.prems(2), of r], of "length (heap s)"]
    by (simp add: alloc_def)
  have "record_of ?s n = (if n = r_Name r then Some r else record_of s n)"
  proof (cases "n = r_Name r")
    case False
    have "Get n s = Some a \<Longrightarrow> a < length (heap s)" for a using Get_SomeD [OF Cons.prems(2)] by blast
    with False show ?thesis
      by (cases "Get n s") (auto simp: record_of_def Get_def map_of_update nth_append)
  qed (simp add: record_of_def Get_def map_of_update)
  moreover have "record_of s' n =
      (case map_of (rev (map (\<lambda>r. (r_Name r, r)) rs)) n of Some r \<Rightarrow> Some r | None \<Rightarrow> record_of ?s n)"
    using Cons.IH [OF _ ok] Cons.prems(1) by simp
  ultimately show ?case
    by (auto simp: map_add_def split: option.splits)
qed simp

lemma load_records_total: "load_records (map Some rs) s \<noteq> None"
  by (induction rs arbitrary: s) auto

lemma map_of_rev_distinct: "distinct (map fst xs) \<Longrightarrow> map_of (rev xs) n = map_of xs n"
proof (induction xs)
  case (Cons x xs)
  then have "fst x \<notin> dom (map_of xs)" by (simp add: dom_map_of_conv_image_fst)
  with Cons show ?case by (auto simp: map_add_def split: option.splits)
qed simp

lemma map_of_disk:
  assumes "store_ok s"
  shows "map_of (rev (map (\<lambda>r. (r_Name r, r)) (map (\<lambda>(n, a). heap s ! a) (s_apps s)))) n = record_of s n"
proof -
  have names: "map (\<lambda>r. (r_Name r, r)) (map (\<lambda>(n, a). heap s ! a) (s_apps s)) = map (\<lambda>(n, a). (n, heap s ! a)) (s_apps s)"
    using assms by (auto simp: store_ok_def list_all_iff)
  have "distinct (map fst (map (\<lambda>(n, a). (n, heap s ! a)) (s_apps s)))"
    using assms by (simp add: store_ok_def o_def split_def)
  then have "map_of (rev (map (\<lambda>(n, a). (n, heap s ! a)) (s_apps s))) n = map_of (map (\<lambda>(n, a). (n, heap s ! a)) (s_apps s)) n"
    by (rule map_of_rev_distinct)
  also have "\<dots> = record_of s n"
    by (simp add: record_of_def Get_def map_of_map)
  finally show ?thesis by (simp only: names)
qed

text \<open>
  After a put that reached the disk, a restart loads a store with the same record under
  every name, the put record included; a put whose write failed still changes the memory, so
  the two then differ.
\<close>
lemma Put_survives_restart:
  assumes "store_ok s" "a < length (heap s)"
  shows "(\<exists>s2. NewAppStore (JSONRecords (map Some (the (disk (fst (Put True now a s)))))) = Some (Inr s2) \<and>
      store_ok s2 \<and> record_of s2 n = record_of (fst (Put True now a s)) n)
    \<and> record_of (fst (Put ok now a s)) (r_Name (heap s ! a)) = Some ((heap s ! a)\<lparr>r_UpdatedAt := now\<rparr>)
    \<and> disk (fst (Put False now a s)) = disk s"
proof -
  let ?p = "fst (Put True now a s)"
  have ok: "store_ok ?p" by (rule store_ok_Put [OF assms])
  have d: "the (disk ?p) = map (\<lambda>(n, a). heap ?p ! a) (s_apps ?p)" by (simp add: Put_def save_def Let_def)
  have e: "store_ok \<lparr>heap = [], s_apps = [], disk = None\<rparr>" by (simp add: store_ok_def)
  obtain s2 where l: "load_records (map Some (the (disk ?p))) \<lparr>heap = [], s_apps = [], disk = None\<rparr> = Some s2"
    using load_records_total by fastforce
  have "record_of s2 n = record_of ?p n"
    using load_records_of [OF l e] map_of_disk [OF ok, of n]
    by (simp only: d [symmetric]) (simp add: record_of_def Get_def split: option.splits)
  then have "NewAppStore (JSONRecords (map Some (the (disk ?p)))) = Some (Inr s2) \<and>
      store_ok s2 \<and> record_of s2 n = record_of ?p n"
    using l store_ok_load [OF e l] by (simp add: NewAppStore_def Let_def)
  then have "\<exists>s2. NewAppStore (JSONRecords (map Some (the (disk ?p)))) = Some (Inr s2) \<and>
      store_ok s2 \<and> record_of s2 n = record_of ?p n" by blast
  moreover have "record_of (fst (Put ok now a s)) (r_Name (heap s ! a)) = Some ((heap s ! a)\<lparr>r_UpdatedAt := now\<rparr>)"
    by (simp add: record_of_Put [OF assms])
  moreover have "disk (fst (Put False now a s)) = disk s"
    by (simp add: Put_def Let_def save_def modify_def)
  ultimately show ?thesis by blast
qed

definition sample_record :: "string \<Rightarrow> AppState \<Rightarrow> AppRecord" where
  "sample_record n st = \<lparr>r_Name = n, r_AppID = n, r_Namespace = ''user-space-admin'', r_Owner = ''admin'', r_Icon = [],
     r_Title = [], r_Description = [], r_Version = [], r_ChartRef = n, r_RepoURL = [], r_Source = ''market'',
     r_State = st, r_OpType = OpInstall, r_OpID = 0, r_ReleaseName = n, r_Entrances = [], r_SharedEntrances = [],
     r_Permission = None, r_Values = [], r_CreatedAt = 0, r_UpdatedAt = 0, r_IsSysApp = False,
     r_InternetBlocked = False, r_PublicAccess = False, r_RawAppName = []\<rparr>"

lemma Put_survives_restart_witness:
  "record_of (fst (Put False 7 0 \<lparr>heap = [sample_record ''gitea'' StateRunning], s_apps = [(''gitea'', 0)], disk = None\<rparr>)) ''gitea'' =
     Some ((sample_record ''gitea'' StateRunning)\<lparr>r_UpdatedAt := 7\<rparr>)"
proof -
  let ?s = "\<lparr>heap = [sample_record ''gitea'' StateRunning], s_apps = [(''gitea'', 0)], disk = None\<rparr>"
  have ok: "store_ok ?s" by (simp add: store_ok_def sample_record_def)
  have a: "0 < length (heap ?s)" by simp
  have n: "r_Name (heap ?s ! 0) = ''gitea''" by (simp add: sample_record_def)
  from Put_survives_restart [OF ok a, THEN conjunct2, THEN conjunct1, of False 7] show ?thesis
    unfolding n by simp
qed

end
