(* ===== verification/Keyed_Store.thy ===== *)
theory Keyed_Store
  imports Prelude
begin

text \<open>
  The contract of a string-keyed store that several components rely on (the permission
  manager, the system server's application map, the app store, the per-app public hosts):
  what a lookup returns after a write or a deletion. The clients' facts about whole
  histories of operations are proved once, from the contract.
\<close>

datatype 'v store_op = Write string 'v | Remove string

fun op_key :: "'v store_op \<Rightarrow> string" where
  "op_key (Write k v) = k"
| "op_key (Remove k) = k"

fun op_val :: "'v store_op \<Rightarrow> 'v option" where
  "op_val (Write k v) = Some v"
| "op_val (Remove k) = None"

text \<open>The last operation of a history that concerns a key.\<close>

fun last_op :: "string \<Rightarrow> 'v store_op list \<Rightarrow> 'v store_op option" where
  "last_op k [] = None"
| "last_op k (x # xs) =
     (case last_op k xs of Some y \<Rightarrow> Some y | None \<Rightarrow> if op_key x = k then Some x else None)"

text \<open>A history of operations on a store, given its write and its removal.\<close>

fun store_step :: "(string \<Rightarrow> 'v \<Rightarrow> 's \<Rightarrow> 's) \<Rightarrow> (string \<Rightarrow> 's \<Rightarrow> 's) \<Rightarrow> 's \<Rightarrow> 'v store_op \<Rightarrow> 's" where
  "store_step put del s (Write k v) = put k v s"
| "store_step put del s (Remove k) = del k s"

definition store_run ::
    "(string \<Rightarrow> 'v \<Rightarrow> 's \<Rightarrow> 's) \<Rightarrow> (string \<Rightarrow> 's \<Rightarrow> 's) \<Rightarrow> 's \<Rightarrow> 'v store_op list \<Rightarrow> 's" where
  "store_run put del s xs = foldl (store_step put del) s xs"

locale keyed_store =
  fixes look :: "'s \<Rightarrow> string \<Rightarrow> 'v option"
    and put :: "string \<Rightarrow> 'v \<Rightarrow> 's \<Rightarrow> 's"
    and del :: "string \<Rightarrow> 's \<Rightarrow> 's"
  assumes look_put: "look (put k v s) j = (if j = k then Some v else look s j)"
    and look_del: "look (del k s) j = (if j = k then None else look s j)"
begin

lemma look_step:
  "look (store_step put del s x) j = (if op_key x = j then op_val x else look s j)"
  by (cases x) (auto simp: look_put look_del)

text \<open>Last write wins: a history of operations is read off its last operation on the key.\<close>

lemma look_run:
  "look (store_run put del s xs) k =
     (case last_op k xs of Some x \<Rightarrow> op_val x | None \<Rightarrow> look s k)"
  unfolding store_run_def
  by (induction xs arbitrary: s) (auto simp: look_step split: option.splits)

lemma look_put_same: "look (put k v s) k = Some v"
  by (simp add: look_put)

lemma look_del_same: "look (del k s) k = None"
  by (simp add: look_del)

lemma look_other: "j \<noteq> k \<Longrightarrow> look (put k v s) j = look s j" "j \<noteq> k \<Longrightarrow> look (del k s) j = look s j"
  by (simp_all add: look_put look_del)

end

end
