(* ===== verification/App_PublicDomains.thy ===== *)
theory App_PublicDomains
  imports App_Types Keyed_Store
begin

text \<open>
  \<^verbatim>\<open>internal/appservice/publicdomains.go\<close>: the hosts that bypass the login page, collected per
  app and written as one ConfigMap. The cluster is the field \<open>configmap\<close> (\<^term>\<open>None\<close> when it does
  not exist); the flag \<open>ok\<close> of an operation says whether the write to it succeeds.
\<close>

record pub_sync =
  byApp :: "(string \<times> string list) list"
  lastBody :: string
  configmap :: "string option"

definition NewPublicDomainSync :: "string option \<Rightarrow> pub_sync" where
  "NewPublicDomainSync cm = \<lparr>byApp = [], lastBody = [], configmap = cm\<rparr>"

fun uniq_loop :: "string list \<Rightarrow> string list \<Rightarrow> string list" where
  "uniq_loop [] out = out"
| "uniq_loop (h # hs) out =
     (let h = TrimSpace h in
      if h = [] then uniq_loop hs out
      else if h \<in> set out then uniq_loop hs out
      else uniq_loop hs (out @ [h]))"

definition uniqSorted :: "string list \<Rightarrow> string list" where
  "uniqSorted hosts = (if hosts = [] then [] else sort (uniq_loop hosts []))"

definition collectHosts :: "string \<Rightarrow> string \<Rightarrow> string \<Rightarrow> string list" where
  "collectHosts entranceName zone custom =
     (if zone \<noteq> [] then [entranceName @ ''.'' @ zone] else []) @
     (if custom \<noteq> [] then [entranceName @ ''.'' @ custom] else [])"

definition entrance_public :: "AppRecord \<Rightarrow> Entrance \<Rightarrow> bool" where
  "entrance_public r e =
     (let l = ToLower (en_AuthLevel e) in
      if l = ''public'' then True else if l = ''private'' then False else r_PublicAccess r)"

text \<open>\<open>zone\<close> and \<open>custom\<close> are \<^verbatim>\<open>USER_ZONE\<close> and \<^verbatim>\<open>CUSTOM_DOMAIN\<close>.\<close>

definition hostsForApp :: "string \<Rightarrow> string \<Rightarrow> AppRecord \<Rightarrow> string list" where
  "hostsForApp zone custom r =
     (if r_Entrances r = [] then
        (if r_PublicAccess r then collectHosts (r_Name r) zone custom else [])
      else concat (map (\<lambda>e. if entrance_public r e
                            then collectHosts (if en_Name e = [] then r_Name r else en_Name e) zone custom
                            else [])
                    (r_Entrances r)))"

definition merged :: "(string \<times> string list) list \<Rightarrow> string list" where
  "merged by = sort_uniq (filter (\<lambda>h. h \<noteq> []) (concat (map snd by)))"

definition newline :: char where
  "newline = CHR 0x0A"

definition flush :: "bool \<Rightarrow> pub_sync \<Rightarrow> pub_sync \<times> bool" where
  "flush ok s =
     (let body = join [newline] (merged (byApp s)) in
      if body = lastBody s then (s, True)
      else if \<not> ok then (s, False)
      else (s\<lparr>lastBody := body, configmap := Some body\<rparr>, True))"

definition set_hosts :: "string \<Rightarrow> string list \<Rightarrow> pub_sync \<Rightarrow> pub_sync" where
  "set_hosts app hs s = s\<lparr>byApp := AList.update app hs (byApp s)\<rparr>"

definition drop_hosts :: "string \<Rightarrow> pub_sync \<Rightarrow> pub_sync" where
  "drop_hosts app s = s\<lparr>byApp := AList.delete app (byApp s)\<rparr>"

definition Sync :: "bool \<Rightarrow> string \<Rightarrow> bool \<Rightarrow> string list \<Rightarrow> pub_sync \<Rightarrow> pub_sync \<times> bool" where
  "Sync ok appName enabled hosts s =
     flush ok (if enabled then set_hosts appName (uniqSorted hosts) s else drop_hosts appName s)"

definition reconcile_step :: "string \<Rightarrow> string \<Rightarrow> (string \<times> string list) list \<Rightarrow> AppRecord \<Rightarrow> (string \<times> string list) list" where
  "reconcile_step zone custom by r =
     (if r_State r = StateUninstalled then by
      else let hosts = hostsForApp zone custom r in
        if hosts = [] then by else AList.update (r_Name r) (uniqSorted hosts) by)"

definition Reconcile :: "bool \<Rightarrow> string \<Rightarrow> string \<Rightarrow> AppRecord list \<Rightarrow> pub_sync \<Rightarrow> pub_sync \<times> bool" where
  "Reconcile ok zone custom recs s =
     flush ok (s\<lparr>byApp := foldl (reconcile_step zone custom) [] recs\<rparr>)"

subsection \<open>The hosts of an app\<close>

interpretation host_store: keyed_store "\<lambda>s app. map_of (byApp s) app" set_hosts drop_hosts
  by unfold_locales (simp_all add: set_hosts_def drop_hosts_def map_of_update map_of_delete)

lemma uniq_loop_set: "set (uniq_loop hs out) = set out \<union> {h \<in> TrimSpace ` set hs. h \<noteq> []}"
  by (induction hs out rule: uniq_loop.induct) (auto simp: Let_def)

lemma uniq_loop_distinct: "distinct out \<Longrightarrow> distinct (uniq_loop hs out)"
  by (induction hs out rule: uniq_loop.induct) (auto simp: Let_def)

lemma uniqSorted: "sorted (uniqSorted hs)" "distinct (uniqSorted hs)"
  "set (uniqSorted hs) = {h \<in> TrimSpace ` set hs. h \<noteq> []}"
  by (simp_all add: uniqSorted_def uniq_loop_distinct uniq_loop_set)

lemma set_merged: "set (merged m) = {h. h \<noteq> [] \<and> (\<exists>x \<in> set m. h \<in> set (snd x))}"
  by (simp add: merged_def) auto

lemma set_collectHosts:
  "h \<in> set (collectHosts n zone custom) \<longleftrightarrow>
     (\<exists>d. h = n @ ''.'' @ d \<and> d \<noteq> [] \<and> (d = zone \<or> d = custom))"
  by (cases "zone = []"; cases "custom = []") (auto simp: collectHosts_def)

text \<open>
  Which hosts of an app are public: those of an entrance marked public; those of an
  entrance that is neither public nor private (or of an app without entrances) while the
  app's public-access switch is on; and never those of a private entrance unless another
  entrance of the app shares the name.
\<close>
lemma hostsForApp_policy:
  "h \<in> set (hostsForApp zone custom r) \<longleftrightarrow>
     (\<exists>n d. h = n @ ''.'' @ d \<and> d \<noteq> [] \<and> (d = zone \<or> d = custom) \<and>
        (if r_Entrances r = [] then r_PublicAccess r \<and> n = r_Name r
         else \<exists>e \<in> set (r_Entrances r). n = (if en_Name e = [] then r_Name r else en_Name e) \<and>
           ToLower (en_AuthLevel e) \<noteq> ''private'' \<and> (ToLower (en_AuthLevel e) = ''public'' \<or> r_PublicAccess r)))"
proof -
  have p: "entrance_public r e \<longleftrightarrow> ToLower (en_AuthLevel e) \<noteq> ''private'' \<and>
      (ToLower (en_AuthLevel e) = ''public'' \<or> r_PublicAccess r)" for e
    by (auto simp: entrance_public_def Let_def)
  show ?thesis
  proof (cases "r_Entrances r = []")
    case True
    then have "h \<in> set (hostsForApp zone custom r) \<longleftrightarrow>
        r_PublicAccess r \<and> h \<in> set (collectHosts (r_Name r) zone custom)"
      by (simp add: hostsForApp_def)
    also have "\<dots> \<longleftrightarrow> (\<exists>n d. h = n @ ''.'' @ d \<and> d \<noteq> [] \<and> (d = zone \<or> d = custom) \<and> r_PublicAccess r \<and> n = r_Name r)"
      unfolding set_collectHosts by blast
    finally show ?thesis using True by simp
  next
    case False
    let ?n = "\<lambda>e. if en_Name e = [] then r_Name r else en_Name e"
    from False have "h \<in> set (hostsForApp zone custom r) \<longleftrightarrow>
        (\<exists>e \<in> set (r_Entrances r). entrance_public r e \<and> h \<in> set (collectHosts (?n e) zone custom))"
      unfolding hostsForApp_def by (simp only: if_False set_concat set_map) (auto split: if_splits)
    also have "\<dots> \<longleftrightarrow> (\<exists>n d. h = n @ ''.'' @ d \<and> d \<noteq> [] \<and> (d = zone \<or> d = custom) \<and>
        (\<exists>e \<in> set (r_Entrances r). n = ?n e \<and> entrance_public r e))"
      unfolding set_collectHosts by blast
    finally show ?thesis using False unfolding p by simp
  qed
qed

subsection \<open>What is published\<close>

definition eligible_hosts :: "string \<Rightarrow> string \<Rightarrow> AppRecord list \<Rightarrow> string set" where
  "eligible_hosts zone custom recs =
     {h. h \<noteq> [] \<and> (\<exists>r \<in> set recs. r_State r \<noteq> StateUninstalled \<and> h \<in> TrimSpace ` set (hostsForApp zone custom r))}"

lemma dom_update_subset: "fst ` set (AList.update k v m) = insert k (fst ` set m)"
  using dom_update [of k v m] by simp

lemma set_update_distinct_key:
  "k \<notin> fst ` set m \<Longrightarrow> set (AList.update k v m) = insert (k, v) (set m)"
  by (induction m) auto

lemma reconcile_fold:
  assumes "distinct (map r_Name recs)" "fst ` set by \<inter> r_Name ` set recs = {}"
  shows "set (merged (foldl (reconcile_step zone custom) by recs)) = set (merged by) \<union> eligible_hosts zone custom recs"
  using assms
proof (induction recs arbitrary: "by")
  case (Cons r recs)
  let ?by = "reconcile_step zone custom by r"
  have keys: "fst ` set ?by \<subseteq> insert (r_Name r) (fst ` set by)"
    unfolding reconcile_step_def Let_def
    by (simp add: dom_update_subset subset_insertI)
  have m: "set (merged ?by) = set (merged by) \<union> eligible_hosts zone custom [r]"
  proof (cases "r_State r = StateUninstalled \<or> hostsForApp zone custom r = []")
    case True
    then have "?by = by" by (auto simp: reconcile_step_def Let_def)
    with True show ?thesis by (auto simp: eligible_hosts_def)
  next
    case False
    have fresh: "r_Name r \<notin> fst ` set by" using Cons.prems(2) by auto
    have "?by = AList.update (r_Name r) (uniqSorted (hostsForApp zone custom r)) by"
      using False by (simp add: reconcile_step_def)
    then have "set ?by = insert (r_Name r, uniqSorted (hostsForApp zone custom r)) (set by)"
      using set_update_distinct_key [OF fresh] by simp
    then have "set (merged ?by) = set (merged by) \<union> {h. h \<noteq> [] \<and> h \<in> set (uniqSorted (hostsForApp zone custom r))}"
      unfolding set_merged by auto
    also have "{h. h \<noteq> [] \<and> h \<in> set (uniqSorted (hostsForApp zone custom r))} = eligible_hosts zone custom [r]"
      using False unfolding eligible_hosts_def uniqSorted(3) by auto
    finally show ?thesis .
  qed
  have "fst ` set ?by \<inter> r_Name ` set recs = {}"
  proof -
    have "r_Name r \<notin> r_Name ` set recs" using Cons.prems(1) by simp
    moreover have "fst ` set by \<inter> r_Name ` set recs = {}"
      using Cons.prems(2) by (simp only: list.set image_insert) blast
    ultimately have "insert (r_Name r) (fst ` set by) \<inter> r_Name ` set recs = {}" by blast
    with Int_mono [OF keys order_refl, of "r_Name ` set recs"] show ?thesis by simp
  qed
  then have "set (merged (foldl (reconcile_step zone custom) ?by recs)) = set (merged ?by) \<union> eligible_hosts zone custom recs"
    using Cons.IH [of ?by] Cons.prems(1) by simp
  also have "\<dots> = set (merged by) \<union> eligible_hosts zone custom (r # recs)"
    unfolding m by (auto simp: eligible_hosts_def)
  finally show ?case by simp
qed (simp add: eligible_hosts_def)

lemma join_eq_Nil: "[] \<notin> set xs \<Longrightarrow> join sep xs = [] \<longleftrightarrow> xs = []"
  by (induction sep xs rule: join.induct) auto

text \<open>
  At startup, when some host is public, the ConfigMap becomes the sorted list without
  repetition of exactly the public hosts of the apps that are not uninstalled. When none is,
  nothing is written: the hosts of an earlier run stay published.
\<close>
lemma Reconcile_publishes:
  assumes "distinct (map r_Name recs)" "lastBody s = []"
  shows "(\<exists>hs. sorted hs \<and> distinct hs \<and> set hs = eligible_hosts zone custom recs \<and>
      configmap (fst (Reconcile True zone custom recs s)) =
        (if hs = [] then configmap s else Some (join [newline] hs)))
    \<and> snd (Reconcile True zone custom recs s)"
proof -
  let ?hs = "merged (foldl (reconcile_step zone custom) [] recs)"
  have set: "set ?hs = eligible_hosts zone custom recs"
    using reconcile_fold [OF assms(1), of "[]" zone custom] by (simp add: set_merged)
  have "[] \<notin> set ?hs" by (simp add: set_merged)
  then have "join [newline] ?hs = [] \<longleftrightarrow> ?hs = []" by (rule join_eq_Nil)
  then have cm: "configmap (fst (Reconcile True zone custom recs s)) = (if ?hs = [] then configmap s else Some (join [newline] ?hs))"
    "snd (Reconcile True zone custom recs s)"
    by (auto simp: Reconcile_def flush_def Let_def assms(2))
  moreover have "sorted ?hs" "distinct ?hs" by (simp_all add: merged_def)
  ultimately show ?thesis using set by blast
qed

definition sample_app_record :: "string \<Rightarrow> bool \<Rightarrow> AppRecord" where
  "sample_app_record n pub = \<lparr>r_Name = n, r_AppID = n, r_Namespace = [], r_Owner = [], r_Icon = [],
     r_Title = [], r_Description = [], r_Version = [], r_ChartRef = n, r_RepoURL = [], r_Source = [],
     r_State = StateRunning, r_OpType = OpInstall, r_OpID = 0, r_ReleaseName = n, r_Entrances = [], r_SharedEntrances = [],
     r_Permission = None, r_Values = [], r_CreatedAt = 0, r_UpdatedAt = 0, r_IsSysApp = False,
     r_InternetBlocked = False, r_PublicAccess = pub, r_RawAppName = []\<rparr>"

lemma Reconcile_publishes_witness:
  "configmap (fst (Reconcile True ''a.io'' [] [sample_app_record ''blog'' False] (NewPublicDomainSync (Some ''old.a.io'')))) =
     Some ''old.a.io''"
proof -
  have d: "distinct (map r_Name [sample_app_record ''blog'' False])" by simp
  have l: "lastBody (NewPublicDomainSync (Some ''old.a.io'')) = []" by (simp add: NewPublicDomainSync_def)
  have e: "eligible_hosts ''a.io'' [] [sample_app_record ''blog'' False] = {}"
    by (simp add: eligible_hosts_def hostsForApp_def sample_app_record_def)
  from Reconcile_publishes [OF d l, of "''a.io''" "[]"] show ?thesis
    by (auto simp: e NewPublicDomainSync_def)
qed

lemma hostsForApp_policy_witness:
  "''blog.a.io'' \<in> set (hostsForApp ''a.io'' [] (sample_app_record ''blog'' True))"
  using hostsForApp_policy [of "''blog.a.io''" "''a.io''" "[]" "sample_app_record ''blog'' True"]
  by (simp add: sample_app_record_def)

end
