(* ===== verification/App_Paths.thy ===== *)
theory App_Paths
  imports Path_Guard
begin

text \<open>
  \<^verbatim>\<open>internal/appservice/paths.go\<close>: the shape of app names, the confinement test
  \<^verbatim>\<open>withinRoot\<close> and the guarded join \<^verbatim>\<open>childPath\<close> whose result the uninstall path
  hands to \<^verbatim>\<open>os.RemoveAll\<close>.
\<close>

datatype name_error = NameRequired | NameTooLong string | NameInvalid string

definition lower_alnum :: "char \<Rightarrow> bool" where
  "lower_alnum c \<longleftrightarrow> is_lower c \<or> is_digit c"

text \<open>The regular expression \<^verbatim>\<open>^[a-z0-9]([-a-z0-9]*[a-z0-9])?$\<close>.\<close>

definition appNameRE :: "string \<Rightarrow> bool" where
  "appNameRE s =
     (case s of
        [] \<Rightarrow> False
      | c # cs \<Rightarrow> lower_alnum c \<and>
          (cs = [] \<or> (list_all (\<lambda>x. x = CHR ''-'' \<or> lower_alnum x) (butlast cs) \<and>
                      lower_alnum (last cs))))"

definition ValidateAppName :: "string \<Rightarrow> name_error + unit" where
  "ValidateAppName name =
     (if name = [] then Inl NameRequired
      else if length name > 63 then Inl (NameTooLong name)
      else if \<not> appNameRE name then Inl (NameInvalid name)
      else Inr ())"

definition withinRoot :: "string \<Rightarrow> string \<Rightarrow> bool" where
  "withinRoot path root =
     (let path = Clean path; root = Clean root in
      if path = root then True else rel_stays_below root path)"

datatype path_error = BadName name_error | OutsideRoot string

definition childPath :: "string \<Rightarrow> string \<Rightarrow> path_error + string" where
  "childPath root name =
     (case ValidateAppName name of
        Inl e \<Rightarrow> Inl (BadName e)
      | Inr _ \<Rightarrow>
          (let joined = PathJoin root name in
           if \<not> withinRoot joined root \<or> joined = Clean root then Inl (OutsideRoot name)
           else Inr joined))"

subsection \<open>Names\<close>

lemma lower_alnum_not [simp]: "\<not> lower_alnum CHR ''/''" "\<not> lower_alnum CHR ''.''"
  by (simp_all add: lower_alnum_def is_lower_def is_digit_def in_range_def)

lemma appNameRE_set: "appNameRE s \<Longrightarrow> x \<in> set s \<Longrightarrow> x = CHR ''-'' \<or> lower_alnum x"
proof (cases s)
  case (Cons c cs)
  assume a: "appNameRE s" "x \<in> set s"
  show ?thesis
  proof (cases cs rule: rev_cases)
    case (snoc ys y)
    with a Cons show ?thesis by (auto simp: appNameRE_def list_all_iff)
  qed (use a Cons in \<open>simp add: appNameRE_def\<close>)
qed (simp add: appNameRE_def)

lemma ValidateAppName_ok_iff:
  "ValidateAppName name = Inr () \<longleftrightarrow> appNameRE name \<and> length name \<le> 63"
  by (auto simp: ValidateAppName_def appNameRE_def)

lemma ValidateAppName_ok_proper:
  assumes "ValidateAppName name = Inr ()"
  shows "proper_elem name" "name \<noteq> ''..''"
proof -
  have a: "appNameRE name" using assms by (simp add: ValidateAppName_ok_iff)
  have dot: "CHR ''.'' \<notin> set name" and sl: "slash \<notin> set name"
    using appNameRE_set [OF a] by fastforce+
  from a have "name \<noteq> []" by (auto simp: appNameRE_def)
  with dot sl show "proper_elem name" by (auto simp: proper_elem_def)
  from dot show "name \<noteq> ''..''" by auto
qed

subsection \<open>Confinement\<close>

text \<open>
  On absolute paths, \<^verbatim>\<open>withinRoot\<close> holds exactly when the elements of the root,
  after cleaning, are a prefix of the elements of the path: the comparison is by path
  segment, never by raw string prefix, and \<^verbatim>\<open>..\<close> cannot defeat it.
\<close>
lemma withinRoot_iff_elems:
  assumes "is_rooted path" "is_rooted root"
  shows "withinRoot path root \<longleftrightarrow> prefix (path_elems root) (path_elems path)"
proof -
  have "rel_stays_below (Clean root) (Clean path) \<longleftrightarrow> prefix (path_elems root) (path_elems path)"
    using assms by (simp add: rel_stays_below_iff)
  moreover have "Clean path = Clean root \<Longrightarrow> path_elems path = path_elems root"
    by (simp add: Clean_eq_iff)
  ultimately show ?thesis by (auto simp: withinRoot_def)
qed

lemma withinRoot_iff_elems_witness:
  "\<not> withinRoot ''/tmp/charts/ollama-evil'' ''/tmp/charts/ollama''"
proof -
  have "is_rooted ''/tmp/charts/ollama-evil''" "is_rooted ''/tmp/charts/ollama''" by code_simp+
  then show ?thesis by (subst withinRoot_iff_elems) code_simp+
qed

lemma withinRoot_below: "is_rooted p \<Longrightarrow> is_rooted r \<Longrightarrow> withinRoot p r = below r p"
proof -
  assume a: "is_rooted p" "is_rooted r"
  have "rel_stays_below (Clean r) (Clean p) \<longleftrightarrow> prefix (path_elems r) (path_elems p)"
    using a by (simp add: rel_stays_below_iff)
  moreover have "Clean p = Clean r \<Longrightarrow> path_elems p = path_elems r"
    by (simp add: Clean_eq_iff)
  ultimately show ?thesis using a by (auto simp: withinRoot_def below_def)
qed

lemma childPath_eq:
  assumes "is_rooted root"
  shows "childPath root name =
    (case ValidateAppName name of Inl e \<Rightarrow> Inl (BadName e) | Inr _ \<Rightarrow> Inr (PathJoin root name))"
proof (cases "ValidateAppName name")
  case (Inr u)
  then have v: "proper_elem name" "name \<noteq> ''..''"
    using ValidateAppName_ok_proper [of name] by simp_all
  have e: "path_elems (PathJoin root name) = path_elems root @ [name]"
    using assms v by (rule path_elems_PathJoin)
  then have w: "withinRoot (PathJoin root name) root"
    using assms by (simp add: withinRoot_below below_def)
  have "PathJoin root name \<noteq> Clean root"
  proof
    assume "PathJoin root name = Clean root"
    then have "path_elems (PathJoin root name) = path_elems (Clean root)" by (rule arg_cong)
    with e show False by simp
  qed
  with w Inr show ?thesis by (simp add: childPath_def)
qed (simp add: childPath_def)

lemma childPath_InrD:
  assumes "is_rooted root" "childPath root name = Inr p"
  shows "ValidateAppName name = Inr ()" "p = PathJoin root name"
    "path_elems p = path_elems root @ [name]"
proof -
  from assms show v: "ValidateAppName name = Inr ()" and p: "p = PathJoin root name"
    by (auto simp: childPath_eq split: sum.splits)
  show "path_elems p = path_elems root @ [name]"
    unfolding p using assms(1) ValidateAppName_ok_proper [OF v] by (rule path_elems_PathJoin)
qed

interpretation child: strict_path_guard childPath is_rooted "\<lambda>r. r" "\<lambda>r p. p"
proof unfold_locales
  fix e x p assume a: "is_rooted e" "childPath e x = Inr p"
  have "is_rooted p" using childPath_InrD(2) [OF a] a(1) by simp
  then show "below e p" "strictly_below e p"
    using childPath_InrD(3) [OF a] by (simp_all add: below_def strictly_below_def strict_prefix_def)
qed

text \<open>
  C7: below an absolute root, \<^verbatim>\<open>childPath\<close> succeeds for exactly the valid app names,
  the path it returns is the root's elements followed by the name itself, and neither the
  root nor anything outside it lies in the tree at that path.
\<close>
theorem childPath_confined:
  assumes "is_rooted root"
  shows "((\<exists>p. childPath root name = Inr p) \<longleftrightarrow> ValidateAppName name = Inr ()) \<and>
    (\<forall>p. childPath root name = Inr p \<longrightarrow>
      path_elems p = path_elems root @ [name] \<and> \<not> below p root \<and>
      (\<forall>q. below p q \<longrightarrow> strictly_below root q))"
proof -
  have "(\<exists>p. childPath root name = Inr p) \<longleftrightarrow> ValidateAppName name = Inr ()"
    using assms by (auto simp: childPath_eq split: sum.splits)
  with assms show ?thesis
    using child.root_survives child.subtree_strictly_below childPath_InrD(3) by blast
qed

theorem childPath_confined_witness:
  "childPath ''/packalares/Apps/appdata'' ''gitea'' = Inr ''/packalares/Apps/appdata/gitea'' \<and>
   \<not> below ''/packalares/Apps/appdata/gitea'' ''/packalares/Apps/appdata''"
proof -
  have r: "is_rooted ''/packalares/Apps/appdata''" by code_simp
  have c: "childPath ''/packalares/Apps/appdata'' ''gitea'' = Inr ''/packalares/Apps/appdata/gitea''"
    by code_simp
  from childPath_confined [OF r, of "''gitea''"] c show ?thesis by blast
qed

end
