(* ===== verification/Go_Codec.thy ===== *)
theory Go_Codec
  imports Prelude
begin

text \<open>
  Go's unpadded \<^verbatim>\<open>base64.RawURLEncoding\<close> and \<^verbatim>\<open>base32.StdEncoding.WithPadding(NoPadding)\<close>, both
  as one codec between bytes and \<open>w\<close>-bit digits, and \<^verbatim>\<open>hex.EncodeToString\<close>. The decoders are
  shown to invert the encoders.
\<close>

subsection \<open>Bits\<close>

fun bits_of :: "nat \<Rightarrow> nat \<Rightarrow> bool list" where
  "bits_of 0 n = []"
| "bits_of (Suc w) n = bits_of w (n div 2) @ [odd n]"

definition val_of :: "bool list \<Rightarrow> nat" where
  "val_of bs = foldl (\<lambda>a b. 2 * a + of_bool b) 0 bs"

lemma length_bits_of [simp]: "length (bits_of w n) = w"
  by (induction w arbitrary: n) auto

lemma val_of_snoc: "val_of (bs @ [b]) = 2 * val_of bs + of_bool b"
  by (simp add: val_of_def)

lemma val_of_bits_of: "n < 2 ^ w \<Longrightarrow> val_of (bits_of w n) = n"
proof (induction w arbitrary: n)
  case (Suc w)
  then have "val_of (bits_of w (n div 2)) = n div 2" by simp
  then show ?case by (auto simp: val_of_snoc)
qed (simp add: val_of_def)

lemma bits_of_val_of: "length bs = w \<Longrightarrow> bits_of w (val_of bs) = bs"
proof (induction w arbitrary: bs)
  case (Suc w)
  then obtain cs b where "bs = cs @ [b]" "length cs = w" by (metis length_Suc_conv_rev)
  with Suc.IH show ?case by (auto simp: val_of_snoc)
qed simp

lemma val_of_less: "val_of bs < 2 ^ length bs"
proof (induction bs rule: rev_induct)
  case (snoc b bs)
  then show ?case by (cases b) (auto simp: val_of_snoc)
qed (simp add: val_of_def)

subsection \<open>Cutting into chunks\<close>

function chunks :: "nat \<Rightarrow> 'a list \<Rightarrow> 'a list list" where
  "chunks w xs = (if w = 0 \<or> length xs < w then [] else take w xs # chunks w (drop w xs))"
  by pat_completeness auto
termination by (relation "measure (\<lambda>(w, xs). length xs)") auto

declare chunks.simps [simp del]

lemma chunks_short: "length xs < w \<Longrightarrow> chunks w xs = []"
  by (simp add: chunks.simps)

lemma chunks_concat:
  "0 < w \<Longrightarrow> list_all (\<lambda>x. length x = w) xss \<Longrightarrow> length r < w \<Longrightarrow> chunks w (concat xss @ r) = xss"
proof (induction xss)
  case (Cons xs xss)
  then show ?case by (subst chunks.simps) auto
qed (simp add: chunks_short)

lemma concat_chunks: "0 < w \<Longrightarrow> length xs = k * w \<Longrightarrow> concat (chunks w xs) = xs"
proof (induction k arbitrary: xs)
  case (Suc k)
  then have "\<not> length xs < w" "length (drop w xs) = k * w" by auto
  with Suc show ?case by (subst chunks.simps) simp
qed (simp add: chunks.simps)

lemma chunks_length: "x \<in> set (chunks w xs) \<Longrightarrow> length x = w"
  by (induction w xs rule: chunks.induct) (subst (asm) chunks.simps, auto split: if_splits)

subsection \<open>Digits of \<open>w\<close> bits\<close>

definition to_digits :: "nat \<Rightarrow> nat list \<Rightarrow> nat list" where
  "to_digits w bytes =
     (let bs = concat (map (bits_of 8) bytes);
          pad = (w - length bs mod w) mod w
      in map val_of (chunks w (bs @ replicate pad False)))"

definition from_digits :: "nat \<Rightarrow> nat list \<Rightarrow> nat list" where
  "from_digits w ds = map val_of (chunks 8 (concat (map (bits_of w) ds)))"

lemma pad_length: "0 < w \<Longrightarrow> \<exists>k. n + (w - n mod w) mod w = k * w" for n w :: nat
proof -
  assume w: "0 < w"
  have "(n + (w - n mod w) mod w) mod w = (n mod w + (w - n mod w)) mod w"
    by (metis mod_add_eq mod_mod_trivial)
  also have "\<dots> = 0" using w by simp
  finally have "w dvd n + (w - n mod w) mod w" by auto
  then show ?thesis by (metis dvd_def mult.commute)
qed

lemma from_to_digits:
  assumes "0 < w" "w \<le> 8" "list_all (\<lambda>b. b < 256) bytes"
  shows "from_digits w (to_digits w bytes) = bytes"
proof -
  let ?bs = "concat (map (bits_of 8) bytes)"
  let ?pad = "(w - length ?bs mod w) mod w"
  obtain k where k: "length (?bs @ replicate ?pad False) = k * w"
    using pad_length [OF assms(1), of "length ?bs"] by auto
  have "map (bits_of w) (to_digits w bytes) = chunks w (?bs @ replicate ?pad False)"
    by (auto simp: to_digits_def Let_def bits_of_val_of chunks_length intro!: map_idI)
  then have "concat (map (bits_of w) (to_digits w bytes)) = ?bs @ replicate ?pad False"
    using concat_chunks [OF assms(1) k] by simp
  moreover have "?pad < w" using assms(1) by simp
  then have "length (replicate ?pad False) < 8" using assms(2) by (simp only: length_replicate)
  then have "chunks 8 (concat (map (bits_of 8) bytes) @ replicate ?pad False) = map (bits_of 8) bytes"
    by (intro chunks_concat) (auto simp: list_all_iff)
  ultimately have "from_digits w (to_digits w bytes) = map (val_of \<circ> bits_of 8) bytes"
    by (simp add: from_digits_def)
  also have "\<dots> = bytes"
    using assms(3) by (auto simp: list_all_iff val_of_bits_of intro!: map_idI)
  finally show ?thesis .
qed

lemma to_digits_less: "d \<in> set (to_digits w bytes) \<Longrightarrow> d < 2 ^ w"
  by (auto simp: to_digits_def Let_def dest!: chunks_length intro: val_of_less [THEN order_less_le_trans])

lemma chunks_count: "0 < w \<Longrightarrow> length xs = k * w \<Longrightarrow> length (chunks w xs) = k"
proof (induction k arbitrary: xs)
  case (Suc k)
  then have "\<not> length xs < w" "length (drop w xs) = k * w" by auto
  with Suc show ?case by (subst chunks.simps) simp
qed (simp add: chunks.simps)

subsection \<open>Alphabets\<close>

definition char_nat :: "char \<Rightarrow> nat" where
  "char_nat c = of_char c"

definition bytes_of :: "string \<Rightarrow> nat list" where
  "bytes_of s = map char_nat s"

definition string_of :: "nat list \<Rightarrow> string" where
  "string_of bs = map char_of bs"

lemma string_of_bytes_of [simp]: "string_of (bytes_of s) = s"
  by (simp add: string_of_def bytes_of_def char_nat_def o_def)

lemma char_nat_less: "char_nat c < 256"
  unfolding char_nat_def by (cases c) (simp add: of_char_def horner_sum_simps)

lemma bytes_of_less: "list_all (\<lambda>b. b < 256) (bytes_of s)"
  by (simp add: list_all_iff bytes_of_def char_nat_less)

definition base64_alphabet :: string where
  "base64_alphabet = ''ABCDEFGHIJKLMNOPQRSTUVWXYZabcdefghijklmnopqrstuvwxyz0123456789-_''"

definition base32_alphabet :: string where
  "base32_alphabet = ''ABCDEFGHIJKLMNOPQRSTUVWXYZ234567''"

text \<open>The digits of a text; \<^term>\<open>None\<close> when a character is not in the alphabet. The decoders
  skip line breaks.\<close>

fun digits_in :: "string \<Rightarrow> string \<Rightarrow> nat list option" where
  "digits_in alphabet [] = Some []"
| "digits_in alphabet (c # s) =
     (case IndexByte alphabet c of None \<Rightarrow> None
      | Some d \<Rightarrow> map_option (Cons d) (digits_in alphabet s))"

definition no_breaks :: "string \<Rightarrow> string" where
  "no_breaks s = filter (\<lambda>c. c \<noteq> CHR 0x0A \<and> c \<noteq> CHR 0x0D) s"

definition base64URLEncode :: "string \<Rightarrow> string" where
  "base64URLEncode s = map ((!) base64_alphabet) (to_digits 6 (bytes_of s))"

definition base64URLDecode :: "string \<Rightarrow> string option" where
  "base64URLDecode s = (case digits_in base64_alphabet (no_breaks s) of
     None \<Rightarrow> None
   | Some ds \<Rightarrow> if length ds mod 4 = 1 then None else Some (string_of (from_digits 6 ds)))"

definition base32Encode :: "string \<Rightarrow> string" where
  "base32Encode s = map ((!) base32_alphabet) (to_digits 5 (bytes_of s))"

text \<open>A last group of 1, 3 or 6 characters decodes to no byte, without an error.\<close>

definition base32Decode :: "string \<Rightarrow> string option" where
  "base32Decode s = (case digits_in base32_alphabet (no_breaks s) of
     None \<Rightarrow> None
   | Some ds \<Rightarrow>
       let k = length ds mod 8;
           ds = (if k = 1 \<or> k = 3 \<or> k = 6 then take (length ds - k) ds else ds)
       in Some (string_of (from_digits 5 ds)))"

lemma IndexByte_nth: "distinct xs \<Longrightarrow> i < length xs \<Longrightarrow> IndexByte xs (xs ! i) = Some i"
proof (induction xs arbitrary: i)
  case (Cons x xs)
  then show ?case by (cases i) auto
qed simp

lemma digits_in_nth:
  "distinct alphabet \<Longrightarrow> list_all (\<lambda>d. d < length alphabet) ds \<Longrightarrow>
   digits_in alphabet (map ((!) alphabet) ds) = Some ds"
  by (induction ds) (auto simp: IndexByte_nth)

lemma no_breaks_id: "CHR 0x0A \<notin> set s \<Longrightarrow> CHR 0x0D \<notin> set s \<Longrightarrow> no_breaks s = s"
  unfolding no_breaks_def by (induction s) auto

lemma base64_alphabet:
  "distinct base64_alphabet" "length base64_alphabet = 64" "CHR 0x0A \<notin> set base64_alphabet"
  "CHR 0x0D \<notin> set base64_alphabet" "CHR ''.'' \<notin> set base64_alphabet"
  by code_simp+

lemma base32_alphabet:
  "distinct base32_alphabet" "length base32_alphabet = 32" "CHR 0x0A \<notin> set base32_alphabet"
  "CHR 0x0D \<notin> set base32_alphabet"
  by code_simp+

lemma digits64_less: "list_all (\<lambda>d. d < length base64_alphabet) (to_digits 6 bs)"
  using to_digits_less [of _ 6 bs] unfolding base64_alphabet(2) by (simp add: list_all_iff)

lemma digits32_less: "list_all (\<lambda>d. d < length base32_alphabet) (to_digits 5 bs)"
  using to_digits_less [of _ 5 bs] unfolding base32_alphabet(2) by (simp add: list_all_iff)

lemma base64URLEncode_set: "set (base64URLEncode s) \<subseteq> set base64_alphabet"
  using to_digits_less [of _ 6 "bytes_of s"]
  by (auto simp: base64URLEncode_def base64_alphabet intro!: nth_mem)

lemma to_digits_length:
  assumes "0 < w"
  shows "\<exists>k. length (to_digits w bytes) = k \<and> 8 * length bytes \<le> k * w \<and> k * w < 8 * length bytes + w"
proof -
  let ?bs = "concat (map (bits_of 8) bytes)"
  let ?pad = "(w - length ?bs mod w) mod w"
  have len: "length ?bs = 8 * length bytes" by (induction bytes) auto
  obtain k where k: "length (?bs @ replicate ?pad False) = k * w"
    using pad_length [OF assms, of "length ?bs"] by auto
  then have "length (to_digits w bytes) = k"
    by (simp add: to_digits_def Let_def chunks_count [OF assms k])
  moreover have "k * w = 8 * length bytes + ?pad" using k len by simp
  moreover have "?pad < w" using assms by simp
  ultimately show ?thesis by auto
qed

lemma mod4_of_bytes: "8 * n \<le> k * 6 \<Longrightarrow> k * 6 < 8 * n + 6 \<Longrightarrow> k mod 4 \<noteq> 1" for n k :: nat
  by presburger

lemma mod8_of_bytes:
  assumes "8 * n \<le> k * 5" "k * 5 < 8 * n + 5"
  shows "k mod 8 \<noteq> 1 \<and> k mod 8 \<noteq> 3 \<and> k mod 8 \<noteq> (6::nat)"
proof -
  define q r where "q = k div 8" and "r = k mod 8"
  then have k: "k = 8 * q + r" by simp
  have "r \<noteq> 1" using assms le_less_linear [of n "5 * q"] by (auto simp: k)
  moreover have "r \<noteq> 3" using assms le_less_linear [of n "5 * q + 1"] by (auto simp: k)
  moreover have "r \<noteq> 6" using assms le_less_linear [of n "5 * q + 3"] by (auto simp: k)
  ultimately show ?thesis by (simp add: r_def)
qed

lemma base64URL_roundtrip: "base64URLDecode (base64URLEncode s) = Some s"
proof -
  have nb: "no_breaks (base64URLEncode s) = base64URLEncode s"
    using base64URLEncode_set [of s] base64_alphabet by (intro no_breaks_id) auto
  have d: "digits_in base64_alphabet (base64URLEncode s) = Some (to_digits 6 (bytes_of s))"
    unfolding base64URLEncode_def
    by (rule digits_in_nth [OF base64_alphabet(1) digits64_less])
  obtain k where "length (to_digits 6 (bytes_of s)) = k" "8 * length (bytes_of s) \<le> k * 6"
    "k * 6 < 8 * length (bytes_of s) + 6"
    using to_digits_length [of 6 "bytes_of s"] by auto
  then have "length (to_digits 6 (bytes_of s)) mod 4 \<noteq> 1"
    using mod4_of_bytes [of "length (bytes_of s)"] by blast
  then show ?thesis
    by (simp add: base64URLDecode_def nb d from_to_digits bytes_of_less)
qed

lemma base32_roundtrip: "base32Decode (base32Encode s) = Some s"
proof -
  have set: "set (base32Encode s) \<subseteq> set base32_alphabet"
    using to_digits_less [of _ 5 "bytes_of s"] by (auto simp: base32Encode_def base32_alphabet intro!: nth_mem)
  have nb: "no_breaks (base32Encode s) = base32Encode s"
    using set base32_alphabet by (intro no_breaks_id) auto
  have d: "digits_in base32_alphabet (base32Encode s) = Some (to_digits 5 (bytes_of s))"
    unfolding base32Encode_def
    by (rule digits_in_nth [OF base32_alphabet(1) digits32_less])
  obtain k where k: "length (to_digits 5 (bytes_of s)) = k" "8 * length (bytes_of s) \<le> k * 5"
    "k * 5 < 8 * length (bytes_of s) + 5"
    using to_digits_length [of 5 "bytes_of s"] by auto
  then have "k mod 8 \<noteq> 1 \<and> k mod 8 \<noteq> 3 \<and> k mod 8 \<noteq> 6"
    using mod8_of_bytes [of "length (bytes_of s)"] by blast
  then have keep: "(if k mod 8 = 1 \<or> k mod 8 = 3 \<or> k mod 8 = 6
      then take (k - k mod 8) (to_digits 5 (bytes_of s)) else to_digits 5 (bytes_of s)) = to_digits 5 (bytes_of s)"
    by simp
  have "from_digits 5 (to_digits 5 (bytes_of s)) = bytes_of s"
    by (rule from_to_digits) (simp_all add: bytes_of_less)
  then show ?thesis
    unfolding base32Decode_def nb d option.case Let_def k(1) keep by simp
qed

subsection \<open>Padded base64\<close>

definition base64Std_alphabet :: string where
  "base64Std_alphabet = ''ABCDEFGHIJKLMNOPQRSTUVWXYZabcdefghijklmnopqrstuvwxyz0123456789+/''"

definition StdEncode :: "string \<Rightarrow> string" where
  "StdEncode s =
     (let ds = to_digits 6 (bytes_of s)
      in map ((!) base64Std_alphabet) ds @ replicate ((4 - length ds mod 4) mod 4) CHR ''='')"

definition StdDecode :: "string \<Rightarrow> string option" where
  "StdDecode s =
     (let t = no_breaks s;
          u = (if suffix ''=='' t then take (length t - 2) t
               else if suffix ''='' t then take (length t - 1) t else t)
      in if length t mod 4 \<noteq> 0 then None
         else map_option (\<lambda>ds. string_of (from_digits 6 ds)) (digits_in base64Std_alphabet u))"

lemma base64Std_alphabet:
  "distinct base64Std_alphabet" "length base64Std_alphabet = 64" "CHR 0x0A \<notin> set base64Std_alphabet"
  "CHR 0x0D \<notin> set base64Std_alphabet" "CHR ''='' \<notin> set base64Std_alphabet"
  by code_simp+

lemma Std_roundtrip: "StdDecode (StdEncode s) = Some s"
proof -
  define ds where "ds = to_digits 6 (bytes_of s)"
  define e where "e = map ((!) base64Std_alphabet) ds"
  define n where "n = (4 - length ds mod 4) mod 4"
  have less: "list_all (\<lambda>d. d < length base64Std_alphabet) ds"
    using to_digits_less [of _ 6 "bytes_of s"] unfolding base64Std_alphabet(2) ds_def by (simp add: list_all_iff)
  then have set: "set e \<subseteq> set base64Std_alphabet"
    by (auto simp: e_def list_all_iff intro!: nth_mem)
  then have noeq: "CHR ''='' \<notin> set e" using base64Std_alphabet(5) by blast
  obtain k where "length ds = k" "8 * length (bytes_of s) \<le> k * 6" "k * 6 < 8 * length (bytes_of s) + 6"
    using to_digits_length [of 6 "bytes_of s"] unfolding ds_def by auto
  then have "length ds mod 4 \<noteq> 1" using mod4_of_bytes [of "length (bytes_of s)"] by blast
  moreover have "length ds mod 4 < 4" by simp
  ultimately consider "length ds mod 4 = 0" | "length ds mod 4 = 2" | "length ds mod 4 = 3" by linarith
  then have "(n = 0 \<or> n = 1 \<or> n = 2) \<and> (length ds mod 4 + n) mod 4 = 0"
    by cases (simp_all add: n_def)
  then have n: "n = 0 \<or> n = 1 \<or> n = 2" and len: "(length ds + n) mod 4 = 0"
    by (simp_all add: mod_add_left_eq)
  have e': "StdEncode s = e @ replicate n CHR ''=''"
    by (simp add: StdEncode_def Let_def ds_def e_def n_def)
  have nb: "no_breaks (e @ replicate n CHR ''='') = e @ replicate n CHR ''=''"
    using set base64Std_alphabet(3,4) by (intro no_breaks_id) auto
  have last: "e = [] \<or> last e \<noteq> CHR ''=''" using noeq by (metis last_in_set)
  have u: "(if suffix ''=='' (e @ replicate n CHR ''='') then take (length (e @ replicate n CHR ''='') - 2) (e @ replicate n CHR ''='')
     else if suffix ''='' (e @ replicate n CHR ''='') then take (length (e @ replicate n CHR ''='') - 1) (e @ replicate n CHR ''='')
     else e @ replicate n CHR ''='') = e"
  proof -
    have *: "\<not> suffix ''='' e" "\<not> suffix ''=='' e" "\<not> suffix ''=='' (e @ ''='')"
      using noeq by (auto simp: suffix_def append_eq_append_conv2 append_eq_Cons_conv)
    from n show ?thesis
      by (elim disjE) (use * in \<open>simp_all add: numeral_2_eq_2 suffix_def\<close>)
  qed
  have "digits_in base64Std_alphabet e = Some ds"
    unfolding e_def by (rule digits_in_nth [OF base64Std_alphabet(1) less])
  moreover have "from_digits 6 ds = bytes_of s"
    unfolding ds_def by (rule from_to_digits) (simp_all add: bytes_of_less)
  moreover have "length (e @ replicate n CHR ''='') mod 4 = 0" using len by (simp add: e_def)
  ultimately show ?thesis
    unfolding e' StdDecode_def nb Let_def u by simp
qed

subsection \<open>Hexadecimal\<close>

definition hex_digit :: "nat \<Rightarrow> char" where
  "hex_digit n = ''0123456789abcdef'' ! n"

definition hexEncode :: "string \<Rightarrow> string" where
  "hexEncode s = concat (map (\<lambda>b. [hex_digit (b div 16), hex_digit (b mod 16)]) (bytes_of s))"

lemma hex_digit_set: "n < 16 \<Longrightarrow> hex_digit n \<in> set ''0123456789abcdef''"
  unfolding hex_digit_def by (rule nth_mem) simp

lemma hexEncode_set: "set (hexEncode s) \<subseteq> set ''0123456789abcdef''"
proof
  fix c assume "c \<in> set (hexEncode s)"
  then obtain b where "b \<in> set (bytes_of s)" and c: "c = hex_digit (b div 16) \<or> c = hex_digit (b mod 16)"
    unfolding hexEncode_def by auto
  then have "b < 256" using bytes_of_less [of s] by (simp add: list_all_iff)
  then have "b div 16 < 16" "b mod 16 < 16" by auto
  then show "c \<in> set ''0123456789abcdef''" using c hex_digit_set by blast
qed

lemma length_hexEncode [simp]: "length (hexEncode s) = 2 * length s"
  by (simp add: hexEncode_def bytes_of_def length_concat o_def sum_list_triv)

lemma hexEncode_no_dot: "CHR ''.'' \<notin> set (hexEncode s)"
  using hexEncode_set [of s] by auto

subsection \<open>Quoting\<close>

text \<open>\<^verbatim>\<open>%q\<close> of a text whose characters beyond ASCII can be printed.\<close>

definition quoted_char :: "char \<Rightarrow> string" where
  "quoted_char c =
     (if c = CHR 0x22 \<or> c = CHR 0x5C then [CHR 0x5C, c]
      else if c = CHR 0x07 then CHR 0x5C # ''a'' else if c = CHR 0x08 then CHR 0x5C # ''b''
      else if c = CHR 0x0C then CHR 0x5C # ''f'' else if c = CHR 0x0A then CHR 0x5C # ''n''
      else if c = CHR 0x0D then CHR 0x5C # ''r'' else if c = CHR 0x09 then CHR 0x5C # ''t''
      else if c = CHR 0x0B then CHR 0x5C # ''v''
      else if (of_char c :: nat) < 32 \<or> c = CHR 0x7F then CHR 0x5C # ''x'' @ hexEncode [c]
      else [c])"

definition quoted :: "string \<Rightarrow> string" where
  "quoted s = dquote @ concat (map quoted_char s) @ dquote"

end
