(* ===== verification/App_Service.thy ===== *)
theory App_Service
  imports App_Store App_PublicDomains App_Paths Go_Net Go_Codec
begin

text \<open>
  \<^verbatim>\<open>internal/appservice/service.go\<close>: the life cycle of an app, with \<^verbatim>\<open>generated.go\<close>, the entrances of
  \<^verbatim>\<open>chartdownload.go\<close> and the two handlers of \<^verbatim>\<open>handler.go\<close> that change a record themselves.
  A background goroutine is a \<open>job\<close>; it holds the address of a record and advances by one phase
  at a time, so that requests, other jobs and the status loop can run in between. What a step
  learns from outside (the clock, file writes, Helm, the chart, Kubernetes) is the record \<open>io\<close>.
  Progress messages to the clients, the values injected into a chart, the pulling and purging of
  images, the network policies and the Application objects are effects on the outside that no
  record depends on and are left out. A change of a record's fields and the \<^verbatim>\<open>Put\<close> that follows it are one step.
\<close>

record service_config =
  sc_namespace :: string
  sc_owner :: string
  sc_md5 :: "string \<Rightarrow> string"
  sc_SYS_APPS :: string
  sc_USER_ZONE :: string
  sc_CUSTOM_DOMAIN :: string

record io =
  io_now :: int
  io_put :: bool
  io_del :: bool
  io_pub :: bool
  io_chart :: "(AppConfiguration option \<times> string \<times> string) option"
  io_inject :: bool
  io_helm :: bool
  io_deployments :: "int option"
  io_statefulsets :: "int option"

datatype job =
    InstallStart nat InstallRequest
  | InstallFetch nat InstallRequest
  | InstallInject nat
  | InstallHelm nat
  | UninstallRun nat UninstallRequest
  | UninstallFinish nat UninstallRequest
  | SuspendRun nat string
  | ResumeRun nat string

text \<open>
  \<open>sv_log\<close>: the states broadcast to the clients; \<open>sv_removed\<close>: the arguments of \<^verbatim>\<open>os.RemoveAll\<close>.
\<close>

record svc =
  sv_store :: store
  sv_pub :: pub_sync
  sv_log :: "(string \<times> AppState) list"
  sv_removed :: "string list"

datatype svc_error =
    InvalidName name_error
  | AppNameRequired
  | AlreadyInstalled string AppState
  | SaveFailed
  | AppNotFound string
  | SystemApp string
  | NotRunning string AppState
  | NotSuspended string AppState

subsection \<open>Helpers\<close>

definition env_names :: "string \<Rightarrow> string list" where
  "env_names env = (if env = [] then [] else filter (\<lambda>a. a \<noteq> []) (map TrimSpace (split_on CHR '','' env)))"

definition IsSysApp :: "service_config \<Rightarrow> string \<Rightarrow> bool" where
  "IsSysApp cfg name = list_ex (\<lambda>a. a = name) (env_names (sc_SYS_APPS cfg))"

text \<open>\<open>sc_md5\<close> is the hexadecimal MD5 digest.\<close>

definition Md5Short :: "service_config \<Rightarrow> string \<Rightarrow> string" where
  "Md5Short cfg s = take 8 (sc_md5 cfg s)"

definition entrance_of_manifest :: "string \<Rightarrow> string \<Rightarrow> string \<Rightarrow> Entrance \<Rightarrow> Entrance" where
  "entrance_of_manifest appName owner namespace e =
     (let h = (if en_Host e \<noteq> [] then en_Host e else appName @ ''-svc.'' @ namespace);
          url = ''http://'' @ replace_from 0 ''{{ .Values.bfl.username }}'' owner h
      in \<lparr>en_Name = (if en_Name e = [] then appName else en_Name e), en_Host = h, en_Port = en_Port e,
          en_Icon = (if HasPrefix (en_Icon e) ''http'' then ''/api/market/icons/'' @ appName @ ''.png'' else en_Icon e),
          en_Title = en_Title e, en_AuthLevel = en_AuthLevel e, en_Invisible = en_Invisible e,
          en_URL = (if en_Port e > 0 then url @ '':'' @ int_str (en_Port e) else url),
          en_OpenMethod = en_OpenMethod e\<rparr>)"

definition BuildEntrancesFromManifest :: "AppConfiguration \<Rightarrow> string \<Rightarrow> string \<Rightarrow> string \<Rightarrow> Entrance list" where
  "BuildEntrancesFromManifest m appName owner namespace =
     map (entrance_of_manifest appName owner namespace) (mf_Entrances m)"

definition rec_at :: "svc \<Rightarrow> nat \<Rightarrow> AppRecord" where
  "rec_at s a = heap (sv_store s) ! a"

definition put_rec :: "io \<Rightarrow> nat \<Rightarrow> (AppRecord \<Rightarrow> AppRecord) \<Rightarrow> svc \<Rightarrow> svc \<times> bool" where
  "put_rec io a f s =
     (case Put (io_put io) (io_now io) a (modify a f (sv_store s)) of (st, ok) \<Rightarrow> (s\<lparr>sv_store := st\<rparr>, ok))"

definition broadcast :: "string \<Rightarrow> AppState \<Rightarrow> svc \<Rightarrow> svc" where
  "broadcast name st s = s\<lparr>sv_log := sv_log s @ [(name, st)]\<rparr>"

text \<open>The common pattern: set the state, put (ignoring the error), broadcast.\<close>

definition enter :: "io \<Rightarrow> nat \<Rightarrow> AppState \<Rightarrow> svc \<Rightarrow> svc" where
  "enter io a st s =
     (let s = fst (put_rec io a (\<lambda>r. r\<lparr>r_State := st\<rparr>) s) in broadcast (r_Name (rec_at s a)) st s)"

definition publish :: "service_config \<Rightarrow> io \<Rightarrow> nat \<Rightarrow> svc \<Rightarrow> svc" where
  "publish cfg io a s =
     (let r = rec_at s a; hosts = hostsForApp (sc_USER_ZONE cfg) (sc_CUSTOM_DOMAIN cfg) r
      in s\<lparr>sv_pub := fst (Sync (io_pub io) (r_Name r) (hosts \<noteq> []) hosts (sv_pub s))\<rparr>)"

subsection \<open>Install\<close>

definition new_record :: "service_config \<Rightarrow> int \<Rightarrow> InstallRequest \<Rightarrow> AppRecord" where
  "new_record cfg now req =
     \<lparr>r_Name = iq_Name req,
      r_AppID = (if IsSysApp cfg (iq_Name req) then iq_Name req else Md5Short cfg (iq_Name req)),
      r_Namespace = sc_namespace cfg, r_Owner = sc_owner cfg, r_Icon = [], r_Title = [], r_Description = [],
      r_Version = iq_Version req, r_ChartRef = iq_Name req, r_RepoURL = iq_RepoURL req,
      r_Source = (if iq_Source req = [] then ''market'' else iq_Source req),
      r_State = StatePending, r_OpType = OpInstall, r_OpID = now, r_ReleaseName = iq_Name req,
      r_Entrances = [], r_SharedEntrances = [], r_Permission = None, r_Values = iq_Values req,
      r_CreatedAt = now, r_UpdatedAt = 0, r_IsSysApp = False, r_InternetBlocked = False,
      r_PublicAccess = False, r_RawAppName = []\<rparr>"

definition install_new ::
    "service_config \<Rightarrow> io \<Rightarrow> InstallRequest \<Rightarrow> svc \<Rightarrow> svc \<times> job list \<times> (svc_error + string \<times> int)" where
  "install_new cfg io req s =
     (case alloc (new_record cfg (io_now io) req) (sv_store s) of (a, st) \<Rightarrow>
      case Put (io_put io) (io_now io) a st of (st, ok) \<Rightarrow>
        if \<not> ok then (s\<lparr>sv_store := st\<rparr>, [], Inl SaveFailed)
        else (broadcast (iq_Name req) StatePending (s\<lparr>sv_store := st\<rparr>), [InstallStart a req],
              Inr (iq_Name req, io_now io)))"

definition Install ::
    "service_config \<Rightarrow> io \<Rightarrow> InstallRequest \<Rightarrow> svc \<Rightarrow> svc \<times> job list \<times> (svc_error + string \<times> int)" where
  "Install cfg io req s =
     (case ValidateAppName (iq_Name req) of
        Inl e \<Rightarrow> (s, [], Inl (InvalidName e))
      | Inr _ \<Rightarrow>
          (case Get (iq_Name req) (sv_store s) of
             Some a \<Rightarrow>
               let st = r_State (rec_at s a) in
               if st = StateRunning \<or> st = StateInstalling \<or> st = StateDownloading
                 then (s, [], Inl (AlreadyInstalled (iq_Name req) st))
               else install_new cfg io req (s\<lparr>sv_store := fst (Delete (io_del io) (iq_Name req) (sv_store s))\<rparr>)
           | None \<Rightarrow> install_new cfg io req s))"

text \<open>What the manifest and \<^verbatim>\<open>Chart.yaml\<close> add to the record.\<close>

definition with_manifest ::
    "service_config \<Rightarrow> InstallRequest \<Rightarrow> AppConfiguration option \<Rightarrow> string \<Rightarrow> string \<Rightarrow> AppRecord \<Rightarrow> AppRecord" where
  "with_manifest cfg req manifest chartVersion appVersion r =
     (let r = (case manifest of
          None \<Rightarrow> r
        | Some m \<Rightarrow>
            r\<lparr>r_Title := md_Title (mf_Metadata m),
              r_Icon := (if md_Icon (mf_Metadata m) \<noteq> [] then ''/api/market/icons/'' @ iq_Name req @ ''.png'' else r_Icon r),
              r_Description := md_Description (mf_Metadata m),
              r_Entrances := BuildEntrancesFromManifest m (iq_Name req) (sc_owner cfg) (sc_namespace cfg),
              r_Version := (if r_Version r = [] then md_Version (mf_Metadata m) else r_Version r),
              r_SharedEntrances := (if mf_SharedEntrances m \<noteq> [] then mf_SharedEntrances m else r_SharedEntrances r),
              r_Permission := Some (mf_Permission m)\<rparr>);
          r = (if r_Version r = [] \<and> appVersion \<noteq> [] then r\<lparr>r_Version := appVersion\<rparr> else r)
      in if r_Version r = [] \<and> chartVersion \<noteq> [] then r\<lparr>r_Version := chartVersion\<rparr> else r)"

definition fetch_chart :: "service_config \<Rightarrow> io \<Rightarrow> nat \<Rightarrow> InstallRequest \<Rightarrow> svc \<Rightarrow> svc \<times> job list" where
  "fetch_chart cfg io a req s = (case io_chart io of
     None \<Rightarrow> (enter io a StateInstallFailed s, [])
   | Some (manifest, chartVersion, appVersion) \<Rightarrow>
       (fst (put_rec io a (with_manifest cfg req manifest chartVersion appVersion) s), [InstallInject a]))"

definition inject_values :: "io \<Rightarrow> nat \<Rightarrow> svc \<Rightarrow> svc \<times> job list" where
  "inject_values io a s =
     (if \<not> io_inject io then (enter io a StateInstallFailed s, [])
      else (enter io a StateInstalling s, [InstallHelm a]))"

definition helm_install :: "service_config \<Rightarrow> io \<Rightarrow> nat \<Rightarrow> svc \<Rightarrow> svc \<times> job list" where
  "helm_install cfg io a s =
     (if \<not> io_helm io then (enter io a StateInstallFailed s, [])
      else
        let s = publish cfg io a (fst (put_rec io a (\<lambda>r. r\<lparr>r_State := StateRunning\<rparr>) s))
        in (broadcast (r_Name (rec_at s a)) StateRunning s, []))"

subsection \<open>Uninstall\<close>

definition Uninstall ::
    "service_config \<Rightarrow> io \<Rightarrow> UninstallRequest \<Rightarrow> svc \<Rightarrow> svc \<times> job list \<times> (svc_error + string \<times> int)" where
  "Uninstall cfg io req s =
     (case ValidateAppName (uq_Name req) of
        Inl e \<Rightarrow> (s, [], Inl (InvalidName e))
      | Inr _ \<Rightarrow>
          (case Get (uq_Name req) (sv_store s) of
             None \<Rightarrow> (s, [], Inl (AppNotFound (uq_Name req)))
           | Some a \<Rightarrow>
               if IsSysApp cfg (uq_Name req) then (s, [], Inl (SystemApp (uq_Name req)))
               else (case put_rec io a (\<lambda>r. r\<lparr>r_State := StateUninstalling, r_OpType := OpUninstall, r_OpID := io_now io\<rparr>) s of
                 (s, ok) \<Rightarrow> if \<not> ok then (s, [], Inl SaveFailed)
                            else (s, [UninstallRun a req], Inr (uq_Name req, io_now io)))))"

definition helm_uninstall :: "io \<Rightarrow> nat \<Rightarrow> UninstallRequest \<Rightarrow> svc \<Rightarrow> svc \<times> job list" where
  "helm_uninstall io a req s =
     (let s = broadcast (r_Name (rec_at s a)) StateUninstalling s in
      if \<not> io_helm io then (enter io a StateUninstallFailed s, [])
      else (s\<lparr>sv_pub := fst (Sync (io_pub io) (r_Name (rec_at s a)) False [] (sv_pub s))\<rparr>, [UninstallFinish a req]))"

definition wipe_bases :: "string list" where
  "wipe_bases = [''/packalares/Apps/appdata'', ''/packalares/Apps/appcache'']"

fun wipe_dirs :: "string list \<Rightarrow> string \<Rightarrow> string list" where
  "wipe_dirs [] name = []"
| "wipe_dirs (base # bs) name = (case childPath base name of
     Inl _ \<Rightarrow> wipe_dirs bs name
   | Inr dir \<Rightarrow> dir # wipe_dirs bs name)"

definition uninstall_finish :: "io \<Rightarrow> nat \<Rightarrow> UninstallRequest \<Rightarrow> svc \<Rightarrow> svc \<times> job list" where
  "uninstall_finish io a req s =
     (let s = (if uq_Wipe req then s\<lparr>sv_removed := sv_removed s @ wipe_dirs wipe_bases (uq_Name req)\<rparr> else s);
          s = enter io a StateUninstalled s
      in (if uq_DeleteData req then s\<lparr>sv_store := fst (Delete (io_del io) (uq_Name req) (sv_store s))\<rparr> else s, []))"

subsection \<open>Suspend and resume\<close>

definition Suspend ::
    "service_config \<Rightarrow> io \<Rightarrow> string \<Rightarrow> svc \<Rightarrow> svc \<times> job list \<times> (svc_error + string \<times> int)" where
  "Suspend cfg io name s =
     (if name = [] then (s, [], Inl AppNameRequired)
      else case Get name (sv_store s) of
        None \<Rightarrow> (s, [], Inl (AppNotFound name))
      | Some a \<Rightarrow>
          if IsSysApp cfg name then (s, [], Inl (SystemApp name))
          else if r_State (rec_at s a) \<noteq> StateRunning then (s, [], Inl (NotRunning name (r_State (rec_at s a))))
          else (case put_rec io a (\<lambda>r. r\<lparr>r_State := StateStopping, r_OpType := OpStop, r_OpID := io_now io\<rparr>) s of
            (s, ok) \<Rightarrow> if \<not> ok then (s, [], Inl SaveFailed)
                       else (broadcast name StateStopping s, [SuspendRun a name], Inr (name, io_now io))))"

definition Resume ::
    "io \<Rightarrow> string \<Rightarrow> svc \<Rightarrow> svc \<times> job list \<times> (svc_error + string \<times> int)" where
  "Resume io name s =
     (if name = [] then (s, [], Inl AppNameRequired)
      else case Get name (sv_store s) of
        None \<Rightarrow> (s, [], Inl (AppNotFound name))
      | Some a \<Rightarrow>
          if r_State (rec_at s a) \<noteq> StateStopped then (s, [], Inl (NotSuspended name (r_State (rec_at s a))))
          else (case put_rec io a (\<lambda>r. r\<lparr>r_State := StateResuming, r_OpType := OpResume, r_OpID := io_now io\<rparr>) s of
            (s, ok) \<Rightarrow> if \<not> ok then (s, [], Inl SaveFailed)
                       else (broadcast name StateResuming s, [ResumeRun a name], Inr (name, io_now io))))"

text \<open>Both scale the deployments and the stateful sets; \<^term>\<open>None\<close> is an error of the command.\<close>

definition scaled :: "io \<Rightarrow> bool" where
  "scaled io = (case (io_deployments io, io_statefulsets io) of
     (Some n1, Some n2) \<Rightarrow> n1 + n2 \<noteq> 0
   | _ \<Rightarrow> False)"

definition scale_done :: "io \<Rightarrow> nat \<Rightarrow> string \<Rightarrow> AppState \<Rightarrow> AppState \<Rightarrow> svc \<Rightarrow> svc \<times> job list" where
  "scale_done io a name good bad s =
     (let st = (if scaled io then good else bad) in
      (broadcast name st (fst (put_rec io a (\<lambda>r. r\<lparr>r_State := st\<rparr>) s)), []))"

definition suspend_run :: "io \<Rightarrow> nat \<Rightarrow> string \<Rightarrow> svc \<Rightarrow> svc \<times> job list" where
  "suspend_run io a name s = scale_done io a name StateStopped StateStopFailed s"

definition resume_run :: "io \<Rightarrow> nat \<Rightarrow> string \<Rightarrow> svc \<Rightarrow> svc \<times> job list" where
  "resume_run io a name s = scale_done io a name StateRunning StateResumeFailed s"

subsection \<open>A step of a job\<close>

fun job_step :: "service_config \<Rightarrow> io \<Rightarrow> job \<Rightarrow> svc \<Rightarrow> svc \<times> job list" where
  "job_step cfg io (InstallStart a req) s = (enter io a StateDownloading s, [InstallFetch a req])"
| "job_step cfg io (InstallFetch a req) s = fetch_chart cfg io a req s"
| "job_step cfg io (InstallInject a) s = inject_values io a s"
| "job_step cfg io (InstallHelm a) s = helm_install cfg io a s"
| "job_step cfg io (UninstallRun a req) s = helm_uninstall io a req s"
| "job_step cfg io (UninstallFinish a req) s = uninstall_finish io a req s"
| "job_step cfg io (SuspendRun a name) s = suspend_run io a name s"
| "job_step cfg io (ResumeRun a name) s = resume_run io a name s"

subsection \<open>The status loop\<close>

text \<open>The state a release's status gives to a record; \<^term>\<open>None\<close> when it stays as it is.\<close>

definition synced_state :: "AppState \<Rightarrow> string option \<Rightarrow> AppState option" where
  "synced_state st rel = (case rel of
     None \<Rightarrow>
       if st \<noteq> StateUninstalled \<and> st \<noteq> StateUninstalling \<and> st \<noteq> StateInstallFailed \<and> st \<noteq> StateUninstallFailed
         then Some StateUninstalled else None
   | Some status \<Rightarrow>
       if status = ''deployed'' then
         (if st \<noteq> StateRunning \<and> st \<noteq> StateUninstalling \<and> st \<noteq> StateStopped then Some StateRunning else None)
       else if status = ''failed'' then
         (if st = StateInstalling then Some StateInstallFailed else None)
       else if status = ''uninstalled'' then Some StateUninstalled
       else None)"

definition sync_record :: "io \<Rightarrow> (string \<times> string) list \<Rightarrow> svc \<Rightarrow> nat \<Rightarrow> svc" where
  "sync_record io releases s a =
     (case synced_state (r_State (rec_at s a)) (map_of (rev releases) (r_ReleaseName (rec_at s a))) of
        None \<Rightarrow> s
      | Some st \<Rightarrow> fst (put_rec io a (\<lambda>r. r\<lparr>r_State := st\<rparr>) s))"

text \<open>\<open>releases\<close>: name and status of every release; \<^term>\<open>None\<close> when listing them failed.\<close>

definition syncStatuses :: "io \<Rightarrow> (string \<times> string) list option \<Rightarrow> svc \<Rightarrow> svc" where
  "syncStatuses io releases s = (case releases of
     None \<Rightarrow> s
   | Some rs \<Rightarrow> foldl (sync_record io rs) s (List (sv_store s)))"

subsection \<open>Generated apps\<close>

definition generated_record :: "service_config \<Rightarrow> string \<Rightarrow> string \<Rightarrow> AppRecord" where
  "generated_record cfg repo appName =
     \<lparr>r_Name = appName, r_AppID = (if IsSysApp cfg appName then appName else Md5Short cfg appName),
      r_Namespace = sc_namespace cfg, r_Owner = sc_owner cfg, r_Icon = [], r_Title = [], r_Description = [],
      r_Version = [], r_ChartRef = appName, r_RepoURL = repo, r_Source = ''system'',
      r_State = StateInstalling, r_OpType = OpInstall, r_OpID = 0, r_ReleaseName = appName @ ''-'' @ sc_owner cfg,
      r_Entrances = [], r_SharedEntrances = [], r_Permission = None, r_Values = [],
      r_CreatedAt = 0, r_UpdatedAt = 0, r_IsSysApp = True, r_InternetBlocked = False,
      r_PublicAccess = False, r_RawAppName = []\<rparr>"

definition ensure_one :: "service_config \<Rightarrow> string \<Rightarrow> (string \<Rightarrow> io) \<Rightarrow> svc \<Rightarrow> string \<Rightarrow> svc" where
  "ensure_one cfg repo answers s appName =
     (let io = answers appName in
      case Get appName (sv_store s) of
        Some _ \<Rightarrow> s
      | None \<Rightarrow>
          (case alloc (generated_record cfg repo appName) (sv_store s) of (a, st) \<Rightarrow>
           case Put (io_put io) (io_now io) a st of (st, ok) \<Rightarrow>
             if \<not> ok then s\<lparr>sv_store := st\<rparr>
             else fst (put_rec io a (\<lambda>r. r\<lparr>r_State := (if io_helm io then StateRunning else StateInstallFailed)\<rparr>)
                         (s\<lparr>sv_store := st\<rparr>))))"

text \<open>The string is \<^verbatim>\<open>GENERATED_APPS\<close>.\<close>

definition EnsureGeneratedApps ::
    "service_config \<Rightarrow> string \<Rightarrow> (string \<Rightarrow> io) \<Rightarrow> string \<Rightarrow> svc \<Rightarrow> svc" where
  "EnsureGeneratedApps cfg repo answers env s = foldl (ensure_one cfg repo answers) s (env_names env)"

subsection \<open>Start\<close>

definition ReconcileDomains :: "service_config \<Rightarrow> io \<Rightarrow> svc \<Rightarrow> svc" where
  "ReconcileDomains cfg io s =
     s\<lparr>sv_pub := fst (Reconcile (io_pub io) (sc_USER_ZONE cfg) (sc_CUSTOM_DOMAIN cfg)
                       (map (rec_at s) (List (sv_store s))) (sv_pub s))\<rparr>"

subsection \<open>Listing\<close>

definition recordToInfo :: "AppRecord \<Rightarrow> AppInfo" where
  "recordToInfo r = \<lparr>ai_Name = r_Name r, ai_AppID = r_AppID r, ai_Namespace = r_Namespace r, ai_Owner = r_Owner r,
     ai_Icon = r_Icon r, ai_Title = r_Title r, ai_Description = r_Description r, ai_Version = r_Version r,
     ai_State = state_text (r_State r), ai_StatusMessage = [], ai_Source = r_Source r, ai_Entrances = r_Entrances r,
     ai_InternetBlocked = r_InternetBlocked r, ai_PublicAccess = r_PublicAccess r,
     ai_CreatedAt = r_CreatedAt r, ai_UpdatedAt = r_UpdatedAt r\<rparr>"

definition pod_override :: "AppInfo \<Rightarrow> PodInfo \<Rightarrow> AppInfo" where
  "pod_override info p =
     (let st = pod_Status p in
      if st = ''Pending'' then
        info\<lparr>ai_State := ''pending'', ai_StatusMessage := ''Pod pending (possibly insufficient resources)''\<rparr>
      else if st \<in> set [''CrashLoopBackOff'', ''Error'', ''OOMKilled''] then
        info\<lparr>ai_State := ''failed'', ai_StatusMessage := st\<rparr>
      else if st \<in> set [''ContainerCreating'', ''PodInitializing''] then
        info\<lparr>ai_State := ''starting'', ai_StatusMessage := st\<rparr>
      else if st = ''Terminating'' then info\<lparr>ai_State := ''stopping''\<rparr>
      else info)"

text \<open>\<open>pods\<close> gives the pods of a release in a namespace.\<close>

definition live_info :: "(string \<Rightarrow> string \<Rightarrow> PodInfo list) \<Rightarrow> AppRecord \<Rightarrow> AppInfo" where
  "live_info pods r =
     (let info = recordToInfo r in
      if ai_State info = ''running'' then
        (case pods (r_ReleaseName r) (r_Namespace r) of
           [] \<Rightarrow> info\<lparr>ai_State := ''pending'', ai_StatusMessage := ''No pods found''\<rparr>
         | ps \<Rightarrow> foldl pod_override info ps)
      else info)"

definition ListApps :: "(string \<Rightarrow> string \<Rightarrow> PodInfo list) \<Rightarrow> svc \<Rightarrow> AppInfo list" where
  "ListApps pods s =
     map (live_info pods) (filter (\<lambda>r. r_State r \<noteq> StateUninstalled) (map (rec_at s) (List (sv_store s))))"

definition GetApp :: "string \<Rightarrow> svc \<Rightarrow> svc_error + AppInfo" where
  "GetApp name s = (case Get name (sv_store s) of
     None \<Rightarrow> Inl (AppNotFound name)
   | Some a \<Rightarrow> Inr (recordToInfo (rec_at s a)))"

subsection \<open>The handlers that change a record\<close>

definition writeError :: "nat \<Rightarrow> string \<Rightarrow> http_response" where
  "writeError status message = reply status (JObj [(''code'', JInt (int status)), (''message'', JStr message)])"

text \<open>\<open>err\<close> is the text of the JSON decoder's error.\<close>

definition handlePublicAccess ::
    "service_config \<Rightarrow> io \<Rightarrow> string \<Rightarrow> http_request \<Rightarrow> svc \<Rightarrow> svc \<times> http_response" where
  "handlePublicAccess cfg io err r s =
     (if rq_Method r \<noteq> ''POST'' then (s, writeError 405 ''method not allowed'')
      else case do { n \<leftarrow> field_str ''name'' (rq_Body r); e \<leftarrow> field_bool ''enabled'' (rq_Body r); Some (n, e) } of
        None \<Rightarrow> (s, writeError 400 (''invalid request body: '' @ err))
      | Some (name, enabled) \<Rightarrow>
          (case Get name (sv_store s) of
             None \<Rightarrow> (s, writeError 404 (''app '' @ quoted name @ '' not found''))
           | Some a \<Rightarrow>
               let s = publish cfg io a (fst (put_rec io a (\<lambda>r. r\<lparr>r_PublicAccess := enabled\<rparr>) s));
                   pub = r_PublicAccess (rec_at s a)
               in (broadcast (r_Name (rec_at s a)) (r_State (rec_at s a)) s,
                   reply 200 (JObj [(''code'', JInt 200), (''publicAccess'', JBool pub),
                     (''message'', JStr (''public access '' @ (if enabled then ''enabled'' else ''disabled'') @ '' for '' @ name))]))))"

definition handleInternet ::
    "io \<Rightarrow> string \<Rightarrow> http_request \<Rightarrow> svc \<Rightarrow> svc \<times> http_response" where
  "handleInternet io err r s =
     (if rq_Method r \<noteq> ''POST'' then (s, writeError 405 ''method not allowed'')
      else case do { n \<leftarrow> field_str ''name'' (rq_Body r); b \<leftarrow> field_bool ''blocked'' (rq_Body r); Some (n, b) } of
        None \<Rightarrow> (s, writeError 400 (''invalid request body: '' @ err))
      | Some (name, blocked) \<Rightarrow>
          (case Get name (sv_store s) of
             None \<Rightarrow> (s, writeError 404 (''app '' @ quoted name @ '' not found''))
           | Some a \<Rightarrow>
               let s = fst (put_rec io a (\<lambda>r. r\<lparr>r_InternetBlocked := blocked\<rparr>) s)
               in (broadcast name (r_State (rec_at s a)) s,
                   reply 200 (JObj [(''code'', JInt 200),
                     (''message'', JStr (''internet '' @ (if blocked then ''blocked'' else ''allowed'') @ '' for '' @ name))]))))"

end
