(* ===== verification/App_Lifecycle.thy ===== *)
theory App_Lifecycle
  imports App_Service
begin

text \<open>
  The app service as a system: requests, phases of background jobs and rounds of the status
  loop in any order. Its invariant, and what each operation does to the record of its app.
\<close>

subsection \<open>Records through a step\<close>

lemma put_rec_other [simp]:
  "sv_pub (fst (put_rec io a f s)) = sv_pub s" "sv_log (fst (put_rec io a f s)) = sv_log s"
  "sv_removed (fst (put_rec io a f s)) = sv_removed s" "snd (put_rec io a f s) = io_put io"
  by (simp_all add: put_rec_def Put_def save_def Let_def split_def)

lemma sv_store_put_rec:
  "sv_store (fst (put_rec io a f s)) = fst (Put (io_put io) (io_now io) a (modify a f (sv_store s)))"
  by (simp add: put_rec_def split_def)

lemma broadcast_other [simp]:
  "sv_store (broadcast n st s) = sv_store s" "sv_pub (broadcast n st s) = sv_pub s"
  "sv_removed (broadcast n st s) = sv_removed s" "rec_at (broadcast n st s) b = rec_at s b"
  by (simp_all add: broadcast_def rec_at_def)

lemma publish_other [simp]:
  "sv_store (publish cfg io a s) = sv_store s" "sv_removed (publish cfg io a s) = sv_removed s"
  "sv_log (publish cfg io a s) = sv_log s" "rec_at (publish cfg io a s) b = rec_at s b"
  by (simp_all add: publish_def rec_at_def Let_def)

lemma length_heap_put_rec [simp]: "length (heap (sv_store (fst (put_rec io a f s)))) = length (heap (sv_store s))"
  by (simp add: sv_store_put_rec heap_Put modify_def)

lemma store_ok_put_rec:
  "store_ok (sv_store s) \<Longrightarrow> a < length (heap (sv_store s)) \<Longrightarrow> keeps_name f \<Longrightarrow> store_ok (sv_store (fst (put_rec io a f s)))"
  unfolding sv_store_put_rec by (intro store_ok_Put store_ok_modify) (simp_all add: modify_def)

lemma rec_at_put_rec:
  "a < length (heap (sv_store s)) \<Longrightarrow>
   rec_at (fst (put_rec io a f s)) b = (if b = a then (f (rec_at s a))\<lparr>r_UpdatedAt := io_now io\<rparr> else rec_at s b)"
  by (auto simp: rec_at_def sv_store_put_rec heap_Put modify_def)

lemma record_of_modify:
  assumes "store_ok s" "a < length (heap s)" "n \<noteq> r_Name (heap s ! a)"
  shows "record_of (modify a f s) n = record_of s n"
proof (cases "Get n s")
  case (Some b)
  then have "b \<noteq> a" using Get_SomeD [OF assms(1) Some] assms(3) by auto
  with Some show ?thesis by (simp add: record_of_def modify_def Get_def)
qed (simp add: record_of_def modify_def Get_def)

lemma record_of_put_rec:
  assumes "store_ok (sv_store s)" "a < length (heap (sv_store s))" "keeps_name f"
  shows "record_of (sv_store (fst (put_rec io a f s))) n =
    (if n = r_Name (rec_at s a) then Some ((f (rec_at s a))\<lparr>r_UpdatedAt := io_now io\<rparr>)
     else record_of (sv_store s) n)"
proof -
  let ?st = "modify a f (sv_store s)"
  have ok: "store_ok ?st" by (rule store_ok_modify [OF assms(1,3)])
  have l: "a < length (heap ?st)" using assms(2) by (simp add: modify_def)
  have h: "heap ?st ! a = f (rec_at s a)" using assms(2) by (simp add: modify_def rec_at_def)
  have nm: "r_Name (f (rec_at s a)) = r_Name (rec_at s a)" using assms(3) by (simp add: keeps_name_def)
  show ?thesis
    unfolding sv_store_put_rec record_of_Put [OF ok l] h nm
    using record_of_modify [OF assms(1,2)] by (auto simp: rec_at_def)
qed

lemma Get_put_rec:
  assumes "a < length (heap (sv_store s))" "keeps_name f"
  shows "Get n (sv_store (fst (put_rec io a f s))) = (if n = r_Name (rec_at s a) then Some a else Get n (sv_store s))"
proof -
  have l: "a < length (heap (modify a f (sv_store s)))" using assms(1) by (simp add: modify_def)
  have nm: "r_Name (f (rec_at s a)) = r_Name (rec_at s a)" using assms(2) by (simp add: keeps_name_def)
  have h: "heap (modify a f (sv_store s)) ! a = f (rec_at s a)" using assms(1) by (simp add: modify_def rec_at_def)
  show ?thesis
    unfolding sv_store_put_rec Get_Put [OF l] h nm by (simp add: Get_def modify_def)
qed

lemma keeps_name_service [simp]:
  "keeps_name (\<lambda>r. r\<lparr>r_PublicAccess := b\<rparr>)" "keeps_name (\<lambda>r. r\<lparr>r_InternetBlocked := b\<rparr>)"
  "keeps_name (with_manifest cfg req m cv av)"
  by (auto simp: keeps_name_def with_manifest_def Let_def split: option.split)

lemma r_State_with_manifest [simp]: "r_State (with_manifest cfg req m cv av r) = r_State r"
  by (auto simp: with_manifest_def Let_def split: option.split)

subsection \<open>The system\<close>

record sys =
  sy_svc :: svc
  sy_jobs :: "job list"

datatype sys_op =
    RequestInstall io InstallRequest
  | RequestUninstall io UninstallRequest
  | RequestSuspend io string
  | RequestResume io string
  | RequestPublicAccess io string http_request
  | RequestInternet io string http_request
  | RunJob io nat
  | SyncRound io "(string \<times> string) list option"
  | Startup "string \<Rightarrow> io" io string string

definition spawn :: "sys \<Rightarrow> svc \<times> job list \<times> 'x \<Rightarrow> sys" where
  "spawn S r = S\<lparr>sy_svc := fst r, sy_jobs := sy_jobs S @ fst (snd r)\<rparr>"

text \<open>The queue of jobs is a multiset in the program: \<^const>\<open>RunJob\<close> picks any of them.\<close>

fun sys_step :: "service_config \<Rightarrow> sys \<Rightarrow> sys_op \<Rightarrow> sys" where
  "sys_step cfg S (RequestInstall io req) = spawn S (Install cfg io req (sy_svc S))"
| "sys_step cfg S (RequestUninstall io req) = spawn S (Uninstall cfg io req (sy_svc S))"
| "sys_step cfg S (RequestSuspend io name) = spawn S (Suspend cfg io name (sy_svc S))"
| "sys_step cfg S (RequestResume io name) = spawn S (Resume io name (sy_svc S))"
| "sys_step cfg S (RequestPublicAccess io err r) = S\<lparr>sy_svc := fst (handlePublicAccess cfg io err r (sy_svc S))\<rparr>"
| "sys_step cfg S (RequestInternet io err r) = S\<lparr>sy_svc := fst (handleInternet io err r (sy_svc S))\<rparr>"
| "sys_step cfg S (RunJob io i) =
     (if i < length (sy_jobs S) then
        (case job_step cfg io (sy_jobs S ! i) (sy_svc S) of
           (s, js) \<Rightarrow> \<lparr>sy_svc = s, sy_jobs = take i (sy_jobs S) @ js @ drop (Suc i) (sy_jobs S)\<rparr>)
      else S)"
| "sys_step cfg S (SyncRound io rs) = S\<lparr>sy_svc := syncStatuses io rs (sy_svc S)\<rparr>"
| "sys_step cfg S (Startup answers io repo env) =
     S\<lparr>sy_svc := ReconcileDomains cfg io (EnsureGeneratedApps cfg repo answers env (sy_svc S))\<rparr>"

inductive app_reach :: "service_config \<Rightarrow> sys \<Rightarrow> bool" for cfg where
  app_start: "NewAppStore f = Some (Inr st) \<Longrightarrow>
    app_reach cfg \<lparr>sy_svc = \<lparr>sv_store = st, sv_pub = NewPublicDomainSync cm, sv_log = [], sv_removed = []\<rparr>, sy_jobs = []\<rparr>"
| app_next: "app_reach cfg S \<Longrightarrow> app_reach cfg (sys_step cfg S x)"

inductive_cases app_reachE: "app_reach cfg S"

subsection \<open>The invariant\<close>

fun job_addr :: "job \<Rightarrow> nat" where
  "job_addr (InstallStart a req) = a"
| "job_addr (InstallFetch a req) = a"
| "job_addr (InstallInject a) = a"
| "job_addr (InstallHelm a) = a"
| "job_addr (UninstallRun a req) = a"
| "job_addr (UninstallFinish a req) = a"
| "job_addr (SuspendRun a name) = a"
| "job_addr (ResumeRun a name) = a"

fun job_name_ok :: "job \<Rightarrow> bool" where
  "job_name_ok (UninstallRun a req) = (ValidateAppName (uq_Name req) = Inr ())"
| "job_name_ok (UninstallFinish a req) = (ValidateAppName (uq_Name req) = Inr ())"
| "job_name_ok _ = True"

definition wiped_ok :: "string \<Rightarrow> bool" where
  "wiped_ok p \<longleftrightarrow> (\<exists>base \<in> set wipe_bases. \<exists>name. ValidateAppName name = Inr () \<and> path_elems p = path_elems base @ [name])"

definition svc_ok :: "svc \<Rightarrow> bool" where
  "svc_ok s \<longleftrightarrow> store_ok (sv_store s) \<and> list_all wiped_ok (sv_removed s)"

definition jobs_ok :: "svc \<Rightarrow> job list \<Rightarrow> bool" where
  "jobs_ok s js \<longleftrightarrow> list_all (\<lambda>j. job_addr j < length (heap (sv_store s)) \<and> job_name_ok j) js"

text \<open>A step keeps the invariant, never shrinks the heap and yields good jobs.\<close>

definition good_step :: "svc \<Rightarrow> svc \<times> job list \<Rightarrow> bool" where
  "good_step s r \<longleftrightarrow> svc_ok (fst r) \<and> length (heap (sv_store s)) \<le> length (heap (sv_store (fst r))) \<and> jobs_ok (fst r) (snd r)"

lemma good_step_refl: "svc_ok s \<Longrightarrow> good_step s (s, [])"
  by (simp add: good_step_def jobs_ok_def)

lemma svc_ok_put_rec:
  "svc_ok s \<Longrightarrow> a < length (heap (sv_store s)) \<Longrightarrow> keeps_name f \<Longrightarrow> svc_ok (fst (put_rec io a f s))"
  by (simp add: svc_ok_def store_ok_put_rec)

lemma svc_ok_enter: "svc_ok s \<Longrightarrow> a < length (heap (sv_store s)) \<Longrightarrow> svc_ok (enter io a st s)"
  by (simp add: enter_def Let_def svc_ok_def store_ok_put_rec)

lemma enter_other [simp]:
  "sv_pub (enter io a st s) = sv_pub s" "sv_removed (enter io a st s) = sv_removed s"
  "length (heap (sv_store (enter io a st s))) = length (heap (sv_store s))"
  "sv_store (enter io a st s) = sv_store (fst (put_rec io a (\<lambda>r. r\<lparr>r_State := st\<rparr>) s))"
  by (simp_all add: enter_def Let_def)

lemma wipe_dirs_ok: "p \<in> set (wipe_dirs bs name) \<Longrightarrow> set bs \<subseteq> set wipe_bases \<Longrightarrow> wiped_ok p"
proof (induction bs)
  case (Cons b bs)
  show ?case
  proof (cases "childPath b name")
    case (Inr dir)
    have b: "b \<in> set wipe_bases" using Cons.prems(2) by simp
    then have "is_rooted b" by (auto simp: wipe_bases_def is_rooted_def)
    note this Inr
    from childPath_InrD [OF this] b have "wiped_ok dir" unfolding wiped_ok_def by blast
    with Cons Inr show ?thesis by auto
  qed (use Cons in simp)
qed simp

lemma svc_ok_broadcast [simp]: "svc_ok (broadcast n st s) = svc_ok s"
  by (simp add: svc_ok_def)

lemma svc_ok_publish [simp]: "svc_ok (publish cfg io a s) = svc_ok s"
  by (simp add: svc_ok_def)

lemma svc_ok_set_store: "svc_ok s \<Longrightarrow> store_ok st \<Longrightarrow> svc_ok (s\<lparr>sv_store := st\<rparr>)"
  by (simp add: svc_ok_def)

lemma svc_ok_set_pub [simp]: "svc_ok (s\<lparr>sv_pub := p\<rparr>) = svc_ok s"
  by (simp add: svc_ok_def)

lemma good_install_new:
  assumes "svc_ok s"
  shows "good_step s (fst (install_new cfg io req s), fst (snd (install_new cfg io req s)))"
proof -
  let ?n = "length (heap (sv_store s))"
  let ?st = "(sv_store s)\<lparr>heap := heap (sv_store s) @ [new_record cfg (io_now io) req]\<rparr>"
  have ok: "store_ok ?st" using store_ok_alloc [of "sv_store s"] assms by (simp add: svc_ok_def alloc_def)
  have "store_ok (fst (Put (io_put io) (io_now io) ?n ?st))" using ok by (rule store_ok_Put) simp
  moreover have "length (heap (fst (Put (io_put io) (io_now io) ?n ?st))) = Suc ?n" by (simp add: heap_Put)
  ultimately show ?thesis using assms
    by (simp add: good_step_def jobs_ok_def install_new_def alloc_def split_def svc_ok_def)
qed

lemma good_step_mono:
  "good_step s2 r \<Longrightarrow> length (heap (sv_store s)) \<le> length (heap (sv_store s2)) \<Longrightarrow> good_step s r"
  by (auto simp: good_step_def)

lemma good_Install:
  assumes "svc_ok s"
  shows "good_step s (fst (Install cfg io req s), fst (snd (Install cfg io req s)))"
proof -
  let ?s = "s\<lparr>sv_store := fst (Delete (io_del io) (iq_Name req) (sv_store s))\<rparr>"
  have "svc_ok ?s" using assms by (simp add: svc_ok_def store_ok_Delete)
  then have "good_step ?s (fst (install_new cfg io req ?s), fst (snd (install_new cfg io req ?s)))"
    by (rule good_install_new)
  then have "good_step s (fst (install_new cfg io req ?s), fst (snd (install_new cfg io req ?s)))"
    by (rule good_step_mono) simp
  then show ?thesis
    using good_install_new [OF assms] good_step_refl [OF assms]
    by (simp add: Install_def Let_def split: sum.split option.split)
qed

lemma Get_addr: "svc_ok s \<Longrightarrow> Get n (sv_store s) = Some a \<Longrightarrow> a < length (heap (sv_store s)) \<and> r_Name (rec_at s a) = n"
  by (auto simp: svc_ok_def rec_at_def dest: Get_SomeD)

lemma good_put_rec:
  "svc_ok s \<Longrightarrow> a < length (heap (sv_store s)) \<Longrightarrow> keeps_name f \<Longrightarrow> good_step s (fst (put_rec io a f s), [])"
  by (simp add: good_step_def jobs_ok_def svc_ok_put_rec)

lemma good_Uninstall:
  assumes "svc_ok s"
  shows "good_step s (fst (Uninstall cfg io req s), fst (snd (Uninstall cfg io req s)))"
proof -
  have "svc_ok (fst (put_rec io a (\<lambda>r. r\<lparr>r_State := StateUninstalling, r_OpType := OpUninstall, r_OpID := io_now io\<rparr>) s))"
    if "Get (uq_Name req) (sv_store s) = Some a" for a
    using Get_addr [OF assms that] assms by (simp add: svc_ok_put_rec)
  then show ?thesis using assms Get_addr [OF assms, of "uq_Name req"]
    by (auto simp: Uninstall_def good_step_def jobs_ok_def split_def split: sum.split option.split)
qed

lemma good_Suspend:
  assumes "svc_ok s"
  shows "good_step s (fst (Suspend cfg io name s), fst (snd (Suspend cfg io name s)))"
proof -
  have "svc_ok (fst (put_rec io a (\<lambda>r. r\<lparr>r_State := StateStopping, r_OpType := OpStop, r_OpID := io_now io\<rparr>) s))"
    if "Get name (sv_store s) = Some a" for a
    using Get_addr [OF assms that] assms by (simp add: svc_ok_put_rec)
  then show ?thesis using assms Get_addr [OF assms, of name]
    by (auto simp: Suspend_def good_step_def jobs_ok_def split_def split: option.split)
qed

lemma good_Resume:
  assumes "svc_ok s"
  shows "good_step s (fst (Resume io name s), fst (snd (Resume io name s)))"
proof -
  have "svc_ok (fst (put_rec io a (\<lambda>r. r\<lparr>r_State := StateResuming, r_OpType := OpResume, r_OpID := io_now io\<rparr>) s))"
    if "Get name (sv_store s) = Some a" for a
    using Get_addr [OF assms that] assms by (simp add: svc_ok_put_rec)
  then show ?thesis using assms Get_addr [OF assms, of name]
    by (auto simp: Resume_def good_step_def jobs_ok_def split_def split: option.split)
qed

lemma svc_ok_uninstall_finish:
  assumes "svc_ok s" "a < length (heap (sv_store s))"
  shows "svc_ok (fst (uninstall_finish io a req s))"
proof -
  let ?s = "if uq_Wipe req then s\<lparr>sv_removed := sv_removed s @ wipe_dirs wipe_bases (uq_Name req)\<rparr> else s"
  have "svc_ok ?s" using assms(1) wipe_dirs_ok by (auto simp: svc_ok_def list_all_iff)
  then have "svc_ok (enter io a StateUninstalled ?s)" using assms(2) by (intro svc_ok_enter) auto
  then show ?thesis
    by (simp add: uninstall_finish_def Let_def svc_ok_def store_ok_Delete del: enter_other(4))
qed

lemma good_job_step:
  assumes "svc_ok s" "job_addr j < length (heap (sv_store s))" "job_name_ok j"
  shows "good_step s (job_step cfg io j s)"
  using assms
proof (cases j)
  case (InstallStart a req)
  with assms show ?thesis by (simp add: good_step_def jobs_ok_def svc_ok_enter del: enter_other(4))
next
  case (InstallFetch a req)
  with assms show ?thesis
    by (auto simp: good_step_def jobs_ok_def fetch_chart_def svc_ok_enter svc_ok_put_rec
        simp del: enter_other(4) split: option.split)
next
  case (InstallInject a)
  with assms show ?thesis
    by (simp add: good_step_def jobs_ok_def inject_values_def svc_ok_enter del: enter_other(4))
next
  case (InstallHelm a)
  with assms show ?thesis
    by (simp add: good_step_def jobs_ok_def helm_install_def Let_def svc_ok_enter svc_ok_put_rec del: enter_other(4))
next
  case (UninstallRun a req)
  with assms show ?thesis
    by (simp add: good_step_def jobs_ok_def helm_uninstall_def Let_def svc_ok_enter del: enter_other(4))
next
  case (UninstallFinish a req)
  with assms show ?thesis
    using svc_ok_uninstall_finish [OF assms(1), of a io req]
    by (simp add: good_step_def jobs_ok_def) (simp add: uninstall_finish_def Let_def)
qed (simp_all add: good_step_def jobs_ok_def scale_done_def suspend_run_def resume_run_def Let_def svc_ok_put_rec)

lemma good_sync_record:
  assumes "svc_ok s" "a < length (heap (sv_store s))"
  shows "good_step s (sync_record io rs s a, [])"
  using assms good_step_refl by (auto simp: sync_record_def good_put_rec split: option.split)

lemma good_foldl:
  assumes "\<And>s x. x \<in> set xs \<Longrightarrow> svc_ok s \<Longrightarrow> N \<le> length (heap (sv_store s)) \<Longrightarrow> good_step s (f s x, [])"
    and "svc_ok s" "N \<le> length (heap (sv_store s))"
  shows "good_step s (foldl f s xs, [])"
  using assms
proof (induction xs arbitrary: s)
  case (Cons x xs)
  have 1: "good_step s (f s x, [])" using Cons.prems by simp
  then have m: "length (heap (sv_store s)) \<le> length (heap (sv_store (f s x)))" "svc_ok (f s x)"
    by (simp_all add: good_step_def)
  have "good_step (f s x) (foldl f (f s x) xs, [])"
  proof (rule Cons.IH)
    show "N \<le> length (heap (sv_store (f s x)))" using m(1) Cons.prems(3) by simp
  qed (use Cons.prems(1) m(2) in auto)
  with 1 show ?case using good_step_mono by (auto simp: good_step_def)
qed (simp add: good_step_refl)

lemma List_addr: "svc_ok s \<Longrightarrow> a \<in> set (List (sv_store s)) \<Longrightarrow> a < length (heap (sv_store s))"
  by (auto simp: svc_ok_def store_ok_def List_def list_all_iff)

lemma good_syncStatuses:
  assumes "svc_ok s"
  shows "good_step s (syncStatuses io rs s, [])"
proof (cases rs)
  case (Some r)
  have "good_step s (foldl (sync_record io r) s (List (sv_store s)), [])"
  proof (rule good_foldl [where N = "length (heap (sv_store s))"])
    fix t a assume "a \<in> set (List (sv_store s))" "svc_ok t" "length (heap (sv_store s)) \<le> length (heap (sv_store t))"
    then show "good_step t (sync_record io r t a, [])"
      using List_addr [OF assms] by (intro good_sync_record) (auto intro: less_le_trans)
  qed (simp_all add: assms)
  with Some show ?thesis by (simp add: syncStatuses_def)
qed (simp add: syncStatuses_def good_step_refl assms)

lemma good_ensure_one:
  assumes "svc_ok s"
  shows "good_step s (ensure_one cfg repo answers s n, [])"
proof (cases "Get n (sv_store s)")
  case None
  let ?io = "answers n"
  let ?n = "length (heap (sv_store s))"
  let ?st = "(sv_store s)\<lparr>heap := heap (sv_store s) @ [generated_record cfg repo n]\<rparr>"
  have ok: "store_ok ?st" using store_ok_alloc [of "sv_store s"] assms by (simp add: svc_ok_def alloc_def)
  let ?s = "s\<lparr>sv_store := fst (Put (io_put ?io) (io_now ?io) ?n ?st)\<rparr>"
  have "store_ok (fst (Put (io_put ?io) (io_now ?io) ?n ?st))" using ok by (rule store_ok_Put) simp
  then have s: "svc_ok ?s" using assms by (simp add: svc_ok_def)
  have l: "length (heap (sv_store ?s)) = Suc ?n" by (simp add: heap_Put)
  have "good_step ?s (fst (put_rec ?io ?n (\<lambda>r. r\<lparr>r_State := st\<rparr>) ?s), [])" for st
    by (rule good_put_rec [OF s]) (simp_all only: l, simp_all)
  then have "good_step s (fst (put_rec ?io ?n (\<lambda>r. r\<lparr>r_State := st\<rparr>) ?s), [])" for st
    by (rule good_step_mono) (simp only: l)
  moreover have "good_step s (?s, [])" using s l by (simp add: good_step_def jobs_ok_def)
  ultimately show ?thesis using None
    by (simp add: ensure_one_def alloc_def split_def Let_def)
qed (simp add: ensure_one_def good_step_refl assms)

lemma good_EnsureGeneratedApps: "svc_ok s \<Longrightarrow> good_step s (EnsureGeneratedApps cfg repo answers env s, [])"
  unfolding EnsureGeneratedApps_def by (rule good_foldl [where N = 0]) (simp_all add: good_ensure_one)

lemma good_handlePublicAccess:
  assumes "svc_ok s"
  shows "good_step s (fst (handlePublicAccess cfg io err r s), [])"
  using assms Get_addr [OF assms]
  by (auto simp: handlePublicAccess_def good_step_def jobs_ok_def svc_ok_put_rec Let_def split: option.split)

lemma good_handleInternet:
  assumes "svc_ok s"
  shows "good_step s (fst (handleInternet io err r s), [])"
  using assms Get_addr [OF assms]
  by (auto simp: handleInternet_def good_step_def jobs_ok_def svc_ok_put_rec Let_def split: option.split)

lemma jobs_ok_mono:
  "jobs_ok s js \<Longrightarrow> length (heap (sv_store s)) \<le> length (heap (sv_store s')) \<Longrightarrow> jobs_ok s' js"
  by (auto simp: jobs_ok_def list_all_iff)

lemma jobs_ok_append [simp]: "jobs_ok s (xs @ ys) \<longleftrightarrow> jobs_ok s xs \<and> jobs_ok s ys"
  by (simp add: jobs_ok_def)

definition sys_ok :: "sys \<Rightarrow> bool" where
  "sys_ok S \<longleftrightarrow> svc_ok (sy_svc S) \<and> jobs_ok (sy_svc S) (sy_jobs S)"

lemma sys_ok_svc: "sys_ok S \<Longrightarrow> svc_ok (sy_svc S)"
  by (simp add: sys_ok_def)

lemma sys_ok_spawn: "sys_ok S \<Longrightarrow> good_step (sy_svc S) (fst r, fst (snd r)) \<Longrightarrow> sys_ok (spawn S r)"
  by (auto simp: sys_ok_def spawn_def good_step_def elim: jobs_ok_mono)

lemma sys_ok_set: "sys_ok S \<Longrightarrow> good_step (sy_svc S) (s, []) \<Longrightarrow> sys_ok (S\<lparr>sy_svc := s\<rparr>)"
  by (auto simp: sys_ok_def good_step_def elim: jobs_ok_mono)

lemma sys_ok_RunJob:
  assumes "sys_ok S" "i < length (sy_jobs S)"
  shows "sys_ok (sys_step cfg S (RunJob io i))"
proof -
  let ?j = "sy_jobs S ! i" and ?r = "job_step cfg io (sy_jobs S ! i) (sy_svc S)"
  have j: "job_addr ?j < length (heap (sv_store (sy_svc S)))" "job_name_ok ?j"
    using assms by (simp_all add: sys_ok_def jobs_ok_def list_all_length)
  have g: "good_step (sy_svc S) (fst ?r, snd ?r)"
    using good_job_step [OF _ j] assms(1) by (simp add: sys_ok_def)
  have rest: "jobs_ok (sy_svc S) (take i (sy_jobs S))" "jobs_ok (sy_svc S) (drop (Suc i) (sy_jobs S))"
    using assms(1) by (auto simp: sys_ok_def jobs_ok_def list_all_iff dest: in_set_takeD in_set_dropD)
  then have "jobs_ok (fst ?r) (take i (sy_jobs S))" "jobs_ok (fst ?r) (drop (Suc i) (sy_jobs S))"
    using g jobs_ok_mono unfolding good_step_def by simp_all
  with g assms(2) show ?thesis by (simp add: sys_ok_def good_step_def split_def)
qed

lemma sys_ok_step: "sys_ok S \<Longrightarrow> sys_ok (sys_step cfg S x)"
proof (cases x)
  case (RunJob io i)
  assume "sys_ok S"
  with RunJob sys_ok_RunJob show ?thesis by (cases "i < length (sy_jobs S)") auto
next
  case (Startup answers io repo env)
  assume a: "sys_ok S"
  then have "good_step (sy_svc S) (EnsureGeneratedApps cfg repo answers env (sy_svc S), [])"
    by (simp add: sys_ok_def good_EnsureGeneratedApps)
  then have "good_step (sy_svc S) (ReconcileDomains cfg io (EnsureGeneratedApps cfg repo answers env (sy_svc S)), [])"
    by (simp add: good_step_def ReconcileDomains_def jobs_ok_def)
  with a Startup show ?thesis by (simp add: sys_ok_set)
qed (simp_all add: sys_ok_spawn sys_ok_set sys_ok_svc good_Install good_Uninstall good_Suspend good_Resume
      good_handlePublicAccess good_handleInternet good_syncStatuses)

lemma NewAppStore_ok: "NewAppStore f = Some (Inr st) \<Longrightarrow> store_ok st"
proof -
  have e: "store_ok \<lparr>heap = [], s_apps = [], disk = None\<rparr>" by (simp add: store_ok_def)
  assume "NewAppStore f = Some (Inr st)"
  then show ?thesis using e store_ok_load [OF e] by (cases f) (auto simp: NewAppStore_def Let_def)
qed

lemma app_reach_ok: "app_reach cfg S \<Longrightarrow> sys_ok S"
proof (induction rule: app_reach.induct)
  case (app_start f st cm)
  then show ?case by (simp add: sys_ok_def svc_ok_def jobs_ok_def NewAppStore_ok)
qed (rule sys_ok_step)


end
