(* ===== verification/App_Outcomes.thy ===== *)
theory App_Outcomes
  imports App_Lifecycle
begin

text \<open>
  What the operations of the app service do to the record of their app, from the request to
  the end of its background job, and what the status loop does to every record.
\<close>

subsection \<open>A job and its record\<close>

text \<open>The address \<open>a\<close> holds the record \<open>r\<close>, and the store has it under the name \<open>n\<close>.\<close>

definition linked :: "svc \<Rightarrow> nat \<Rightarrow> string \<Rightarrow> AppRecord \<Rightarrow> bool" where
  "linked s a n r \<longleftrightarrow> store_ok (sv_store s) \<and> a < length (heap (sv_store s)) \<and>
     Get n (sv_store s) = Some a \<and> rec_at s a = r"

lemma linked_record_of: "linked s a n r \<Longrightarrow> record_of (sv_store s) n = Some r"
  by (simp add: linked_def record_of_def rec_at_def)

lemma linked_name: "linked s a n r \<Longrightarrow> r_Name r = n"
  by (auto simp: linked_def rec_at_def dest: Get_SomeD)

lemma linked_rec_at: "linked s a n r \<Longrightarrow> rec_at s a = r"
  by (simp add: linked_def)

lemma linked_put_rec:
  assumes "linked s a n r" "keeps_name f"
  shows "linked (fst (put_rec io a f s)) a n ((f r)\<lparr>r_UpdatedAt := io_now io\<rparr>)"
  using assms linked_name [OF assms(1)]
  by (simp add: linked_def store_ok_put_rec rec_at_put_rec Get_put_rec)

lemma linked_broadcast [simp]: "linked (broadcast m st s) a n r = linked s a n r"
  by (simp add: linked_def)

lemma linked_publish [simp]: "linked (publish cfg io b s) a n r = linked s a n r"
  by (simp add: linked_def)

lemma linked_set_pub [simp]: "linked (s\<lparr>sv_pub := p\<rparr>) a n r = linked s a n r"
  by (simp add: linked_def rec_at_def)

lemma linked_enter:
  "linked s a n r \<Longrightarrow> linked (enter io a st s) a n (r\<lparr>r_State := st, r_UpdatedAt := io_now io\<rparr>)"
  unfolding enter_def Let_def linked_broadcast using linked_put_rec [of s a n r "\<lambda>r. r\<lparr>r_State := st\<rparr>"] by simp

lemma linked_of_Get:
  "store_ok (sv_store s) \<Longrightarrow> Get n (sv_store s) = Some a \<Longrightarrow> linked s a n (rec_at s a)"
  by (auto simp: linked_def dest: Get_SomeD)

fun run_jobs :: "service_config \<Rightarrow> io list \<Rightarrow> job list \<Rightarrow> svc \<Rightarrow> svc \<times> job list" where
  "run_jobs cfg [] js s = (s, js)"
| "run_jobs cfg (io # ios) [] s = (s, [])"
| "run_jobs cfg (io # ios) (j # js) s =
     (case job_step cfg io j s of (s', js') \<Rightarrow> run_jobs cfg ios (js' @ js) s')"

lemma run_jobs_done [simp]: "run_jobs cfg ios [] s = (s, [])"
  by (cases ios) simp_all

subsection \<open>Install\<close>

lemma new_record_name [simp]: "r_Name (new_record cfg t req) = iq_Name req"
  by (simp add: new_record_def)

lemma install_new_cases:
  assumes "store_ok (sv_store s)"
  shows "snd (snd (install_new cfg io req s)) = (if io_put io then Inr (iq_Name req, io_now io) else Inl SaveFailed)"
    and "record_of (sv_store (fst (install_new cfg io req s))) n =
      (if n = iq_Name req then Some ((new_record cfg (io_now io) req)\<lparr>r_UpdatedAt := io_now io\<rparr>)
       else record_of (sv_store s) n)"
    and "io_put io \<Longrightarrow> fst (snd (install_new cfg io req s)) = [InstallStart (length (heap (sv_store s))) req] \<and>
      linked (fst (install_new cfg io req s)) (length (heap (sv_store s))) (iq_Name req)
        ((new_record cfg (io_now io) req)\<lparr>r_UpdatedAt := io_now io\<rparr>)"
proof -
  let ?a = "length (heap (sv_store s))" and ?r = "new_record cfg (io_now io) req"
  let ?st = "snd (alloc ?r (sv_store s))"
  have ok: "store_ok ?st" by (rule store_ok_alloc [OF assms])
  have l: "?a < length (heap ?st)" by (simp add: alloc_def)
  have h: "heap ?st ! ?a = ?r" by (simp add: alloc_def)
  have old: "record_of ?st n = record_of (sv_store s) n" for n
  proof (cases "Get n (sv_store s)")
    case (Some b)
    with Get_SomeD [OF assms Some] show ?thesis by (simp add: record_of_def alloc_def Get_def nth_append)
  qed (simp add: record_of_def alloc_def Get_def)
  have put: "snd (Put ok t a st) = ok" for ok t a st by (simp add: Put_def save_def Let_def)
  show "snd (snd (install_new cfg io req s)) = (if io_put io then Inr (iq_Name req, io_now io) else Inl SaveFailed)"
    by (simp add: install_new_def alloc_def split_def put)
  have st: "sv_store (fst (install_new cfg io req s)) = fst (Put (io_put io) (io_now io) ?a ?st)"
    by (simp add: install_new_def alloc_def split_def put)
  show rec: "record_of (sv_store (fst (install_new cfg io req s))) n =
      (if n = iq_Name req then Some (?r\<lparr>r_UpdatedAt := io_now io\<rparr>) else record_of (sv_store s) n)" for n
    unfolding st record_of_Put [OF ok l] h old by simp
  show "fst (snd (install_new cfg io req s)) = [InstallStart ?a req] \<and>
      linked (fst (install_new cfg io req s)) ?a (iq_Name req) (?r\<lparr>r_UpdatedAt := io_now io\<rparr>)" if "io_put io"
  proof
    show "fst (snd (install_new cfg io req s)) = [InstallStart ?a req]"
      using that by (simp add: install_new_def alloc_def split_def put)
    have "Get (iq_Name req) (fst (Put (io_put io) (io_now io) ?a ?st)) = Some ?a"
      unfolding Get_Put [OF l] h by simp
    with store_ok_Put [OF ok l] h l st show "linked (fst (install_new cfg io req s)) ?a (iq_Name req) (?r\<lparr>r_UpdatedAt := io_now io\<rparr>)"
      by (simp add: linked_def rec_at_def heap_Put)
  qed
qed

text \<open>Whether the guards of \<^const>\<open>Install\<close> let a request through, and the state they leave.\<close>

definition installable :: "svc \<Rightarrow> string \<Rightarrow> bool" where
  "installable s n \<longleftrightarrow> ValidateAppName n = Inr () \<and>
     (\<forall>r. record_of (sv_store s) n = Some r \<longrightarrow> r_State r \<notin> {StateRunning, StateInstalling, StateDownloading})"

lemma Install_cases:
  assumes "store_ok (sv_store s)"
  obtains (refused) e where "\<not> installable s (iq_Name req)" "Install cfg io req s = (s, [], Inl e)"
  | (new) t where "installable s (iq_Name req)" "Install cfg io req s = install_new cfg io req t"
      "store_ok (sv_store t)" "sv_pub t = sv_pub s"
      "\<And>n. n \<noteq> iq_Name req \<Longrightarrow> record_of (sv_store t) n = record_of (sv_store s) n"
proof (cases "ValidateAppName (iq_Name req)")
  case (Inl e)
  then show ?thesis using refused [of "InvalidName e"] by (simp add: Install_def installable_def)
next
  case (Inr u)
  show ?thesis
  proof (cases "Get (iq_Name req) (sv_store s)")
    case None
    with Inr show ?thesis using new [of s] assms by (simp add: Install_def installable_def record_of_def)
  next
    case (Some a)
    let ?st = "r_State (rec_at s a)"
    have rec: "record_of (sv_store s) (iq_Name req) = Some (rec_at s a)" using Some by (simp add: record_of_def rec_at_def)
    show ?thesis
    proof (cases "?st \<in> {StateRunning, StateInstalling, StateDownloading}")
      case True
      with Inr Some rec show ?thesis
        using refused [of "AlreadyInstalled (iq_Name req) ?st"] by (auto simp: Install_def installable_def)
    next
      case False
      let ?t = "s\<lparr>sv_store := fst (Delete (io_del io) (iq_Name req) (sv_store s))\<rparr>"
      have "record_of (sv_store ?t) n = record_of (sv_store s) n" if "n \<noteq> iq_Name req" for n
        using that by (simp add: record_of_def Get_Delete)
      with False Inr Some rec assms show ?thesis
        using new [of ?t] by (auto simp: Install_def installable_def store_ok_Delete)
    qed
  qed
qed

text \<open>
  An install request is accepted exactly when the name is valid, the record can be saved
  and the app is not already running, installing or downloading; it then leaves a pending
  record made from the request and nothing else changes in the store. An app that is stopped,
  being stopped, resumed or uninstalled, or still pending, is thus replaced.
\<close>
lemma Install_accepts_iff:
  assumes "store_ok (sv_store s)"
  shows "((\<exists>x. snd (snd (Install cfg io req s)) = Inr x) \<longleftrightarrow>
      ValidateAppName (iq_Name req) = Inr () \<and> io_put io \<and>
      (\<forall>r. record_of (sv_store s) (iq_Name req) = Some r \<longrightarrow>
         r_State r \<notin> {StateRunning, StateInstalling, StateDownloading}))
    \<and> ((\<exists>x. snd (snd (Install cfg io req s)) = Inr x) \<longrightarrow>
        record_of (sv_store (fst (Install cfg io req s))) n =
          (if n = iq_Name req then Some ((new_record cfg (io_now io) req)\<lparr>r_UpdatedAt := io_now io\<rparr>)
           else record_of (sv_store s) n))"
  using assms
proof (cases rule: Install_cases [where req = req and cfg = cfg and io = io])
  case (refused e)
  then show ?thesis unfolding installable_def by auto
next
  case (new t)
  then show ?thesis using install_new_cases(1,2) [OF new(3)]
    by (simp add: installable_def)
qed

subsection \<open>To the end of the job\<close>

lemma linked_fetch:
  assumes "linked s a n r"
  shows "(if io_chart io = None then snd (fetch_chart cfg io a req s) = [] \<and>
        linked (fst (fetch_chart cfg io a req s)) a n (r\<lparr>r_State := StateInstallFailed, r_UpdatedAt := io_now io\<rparr>)
      else snd (fetch_chart cfg io a req s) = [InstallInject a] \<and>
        (\<exists>r'. linked (fst (fetch_chart cfg io a req s)) a n r' \<and> r_State r' = r_State r))"
proof (cases "io_chart io")
  case (Some x)
  obtain m cv av where x: "x = (m, cv, av)" by (cases x)
  have "linked (fst (fetch_chart cfg io a req s)) a n ((with_manifest cfg req m cv av r)\<lparr>r_UpdatedAt := io_now io\<rparr>)"
    using linked_put_rec [OF assms, of "with_manifest cfg req m cv av"] Some x by (simp add: fetch_chart_def)
  then show ?thesis using Some x by (auto simp: fetch_chart_def)
qed (use assms in \<open>simp add: fetch_chart_def linked_enter del: enter_other(4)\<close>)

lemma linked_inject:
  assumes "linked s a n r"
  shows "(if io_inject io then snd (inject_values io a s) = [InstallHelm a] else snd (inject_values io a s) = []) \<and>
    (\<exists>r'. linked (fst (inject_values io a s)) a n r' \<and>
      r_State r' = (if io_inject io then StateInstalling else StateInstallFailed))"
  using linked_enter [OF assms, of io StateInstalling] linked_enter [OF assms, of io StateInstallFailed]
  by (auto simp: inject_values_def simp del: enter_other(4))

lemma byApp_Sync:
  "map_of (byApp (fst (Sync ok n e hs p))) m = (if m = n then (if e then Some (uniqSorted hs) else None) else map_of (byApp p) m)"
  by (simp add: Sync_def flush_def Let_def set_hosts_def drop_hosts_def map_of_update map_of_delete)

lemma linked_helm_install:
  assumes "linked s a n r"
  shows "snd (helm_install cfg io a s) = [] \<and>
    (\<exists>r'. linked (fst (helm_install cfg io a s)) a n r' \<and>
      r_State r' = (if io_helm io then StateRunning else StateInstallFailed) \<and>
      (io_helm io \<longrightarrow> map_of (byApp (sv_pub (fst (helm_install cfg io a s)))) n =
        (let hs = hostsForApp (sc_USER_ZONE cfg) (sc_CUSTOM_DOMAIN cfg) r' in
         if hs = [] then None else Some (uniqSorted hs))))"
proof (cases "io_helm io")
  case True
  let ?s = "fst (put_rec io a (\<lambda>r. r\<lparr>r_State := StateRunning\<rparr>) s)" and ?r = "r\<lparr>r_State := StateRunning, r_UpdatedAt := io_now io\<rparr>"
  have l: "linked ?s a n ?r" using linked_put_rec [OF assms, of "\<lambda>r. r\<lparr>r_State := StateRunning\<rparr>"] by simp
  have "map_of (byApp (sv_pub (publish cfg io a ?s))) n = (let hs = hostsForApp (sc_USER_ZONE cfg) (sc_CUSTOM_DOMAIN cfg) ?r in
         if hs = [] then None else Some (uniqSorted hs))"
    using linked_name [OF l] by (simp add: publish_def Let_def linked_rec_at [OF l] byApp_Sync)
  moreover have "linked (fst (helm_install cfg io a s)) a n ?r" "snd (helm_install cfg io a s) = []"
    "sv_pub (fst (helm_install cfg io a s)) = sv_pub (publish cfg io a ?s)"
    using True l by (simp_all add: helm_install_def Let_def)
  moreover have "r_State ?r = StateRunning" by simp
  ultimately show ?thesis using True by metis
qed (use linked_enter [OF assms, of io StateInstallFailed] in \<open>auto simp: helm_install_def simp del: enter_other(4)\<close>)


subsection \<open>Uninstall\<close>

lemma linked_helm_uninstall:
  assumes "linked s a n r"
  shows "if io_helm io
    then snd (helm_uninstall io a req s) = [UninstallFinish a req] \<and> linked (fst (helm_uninstall io a req s)) a n r \<and>
      map_of (byApp (sv_pub (fst (helm_uninstall io a req s)))) n = None \<and>
      sv_removed (fst (helm_uninstall io a req s)) = sv_removed s
    else snd (helm_uninstall io a req s) = [] \<and>
      linked (fst (helm_uninstall io a req s)) a n (r\<lparr>r_State := StateUninstallFailed, r_UpdatedAt := io_now io\<rparr>) \<and>
      sv_removed (fst (helm_uninstall io a req s)) = sv_removed s"
proof -
  let ?s = "broadcast (r_Name (rec_at s a)) StateUninstalling s"
  have l: "linked ?s a n r" using assms by simp
  have "r_Name (rec_at s a) = n" using linked_name [OF assms] linked_rec_at [OF assms] by simp
  then show ?thesis
    using linked_enter [OF l, of io StateUninstallFailed] l
    by (simp add: helm_uninstall_def Let_def byApp_Sync del: enter_other(4))
qed

lemma linked_uninstall_finish:
  assumes "linked s a n r" "n = uq_Name req"
  shows "snd (uninstall_finish io a req s) = [] \<and>
    sv_pub (fst (uninstall_finish io a req s)) = sv_pub s \<and>
    sv_removed (fst (uninstall_finish io a req s)) =
      sv_removed s @ (if uq_Wipe req then wipe_dirs wipe_bases n else []) \<and>
    record_of (sv_store (fst (uninstall_finish io a req s))) n =
      (if uq_DeleteData req then None else Some (r\<lparr>r_State := StateUninstalled, r_UpdatedAt := io_now io\<rparr>))"
proof -
  let ?s = "if uq_Wipe req then s\<lparr>sv_removed := sv_removed s @ wipe_dirs wipe_bases (uq_Name req)\<rparr> else s"
  have l: "linked ?s a n r" using assms(1) by (simp add: linked_def rec_at_def)
  have "record_of (sv_store (enter io a StateUninstalled ?s)) n = Some (r\<lparr>r_State := StateUninstalled, r_UpdatedAt := io_now io\<rparr>)"
    by (rule linked_record_of [OF linked_enter [OF l]])
  then show ?thesis using assms(2)
    by (simp add: uninstall_finish_def Let_def record_of_def Get_Delete del: enter_other(4))
qed

lemma linked_Uninstall:
  assumes "store_ok (sv_store s)" "Uninstall cfg io req s = (s1, js, Inr x)"
  obtains a r where "js = [UninstallRun a req]" "linked s1 a (uq_Name req) r" "sv_removed s1 = sv_removed s"
    "ValidateAppName (uq_Name req) = Inr ()" "\<not> IsSysApp cfg (uq_Name req)"
proof (cases "ValidateAppName (uq_Name req)")
  case (Inr u)
  show ?thesis
  proof (cases "Get (uq_Name req) (sv_store s)")
    case (Some a)
    let ?f = "\<lambda>r. r\<lparr>r_State := StateUninstalling, r_OpType := OpUninstall, r_OpID := io_now io\<rparr>"
    have "linked (fst (put_rec io a ?f s)) a (uq_Name req) ((?f (rec_at s a))\<lparr>r_UpdatedAt := io_now io\<rparr>)"
      by (rule linked_put_rec [OF linked_of_Get [OF assms(1) Some]]) simp
    moreover have "js = [UninstallRun a req]" "s1 = fst (put_rec io a ?f s)" "\<not> IsSysApp cfg (uq_Name req)"
      using assms(2) Inr Some by (simp_all add: Uninstall_def split_def split: if_splits)
    moreover have "sv_removed s1 = sv_removed s" using calculation by simp
    ultimately show ?thesis using that Inr by simp
  qed (use assms(2) Inr in \<open>simp add: Uninstall_def\<close>)
qed (use assms(2) in \<open>simp add: Uninstall_def\<close>)

lemma wipe_dirs_both:
  "ValidateAppName n = Inr () \<Longrightarrow> wipe_dirs wipe_bases n = [PathJoin ''/packalares/Apps/appdata'' n, PathJoin ''/packalares/Apps/appcache'' n]"
  by (simp add: wipe_bases_def childPath_eq is_rooted_def)


subsection \<open>Suspend and resume\<close>

lemma record_State_put_rec:
  "linked s a n r \<Longrightarrow> keeps_name f \<Longrightarrow>
   record_of (sv_store (fst (put_rec io a f s))) n = Some ((f r)\<lparr>r_UpdatedAt := io_now io\<rparr>)"
  by (rule linked_record_of [OF linked_put_rec])

text \<open>
  A suspension is accepted exactly for an installed, running app that is not a system app
  (and whose record can be saved); the app is then stopping, and its job leaves it stopped if
  both kinds of workloads were scaled and there was at least one, and with a failed stop
  otherwise. A resumption mirrors this for a stopped app, system app or not.
\<close>
lemma suspend_resume_outcome:
  assumes "store_ok (sv_store s)"
  shows "((\<exists>x. snd (snd (Suspend cfg io0 n s)) = Inr x) \<longleftrightarrow>
      n \<noteq> [] \<and> map_option r_State (record_of (sv_store s) n) = Some StateRunning \<and> \<not> IsSysApp cfg n \<and> io_put io0)
    \<and> ((\<exists>x. snd (snd (Resume io0 n s)) = Inr x) \<longleftrightarrow>
      n \<noteq> [] \<and> map_option r_State (record_of (sv_store s) n) = Some StateStopped \<and> io_put io0)
    \<and> (\<forall>x s1 js. Suspend cfg io0 n s = (s1, js, Inr x) \<longrightarrow>
        map_option r_State (record_of (sv_store s1) n) = Some StateStopping \<and> snd (run_jobs cfg [io1] js s1) = [] \<and>
        map_option r_State (record_of (sv_store (fst (run_jobs cfg [io1] js s1))) n) =
          Some (if scaled io1 then StateStopped else StateStopFailed))
    \<and> (\<forall>x s1 js. Resume io0 n s = (s1, js, Inr x) \<longrightarrow>
        map_option r_State (record_of (sv_store s1) n) = Some StateResuming \<and> snd (run_jobs cfg [io1] js s1) = [] \<and>
        map_option r_State (record_of (sv_store (fst (run_jobs cfg [io1] js s1))) n) =
          Some (if scaled io1 then StateRunning else StateResumeFailed))"
proof (cases "Get n (sv_store s)")
  case None
  then show ?thesis by (simp add: Suspend_def Resume_def record_of_def)
next
  case (Some a)
  let ?r = "rec_at s a"
  let ?f = "\<lambda>r. r\<lparr>r_State := StateStopping, r_OpType := OpStop, r_OpID := io_now io0\<rparr>"
  let ?g = "\<lambda>r. r\<lparr>r_State := StateResuming, r_OpType := OpResume, r_OpID := io_now io0\<rparr>"
  have l: "linked s a n ?r" by (rule linked_of_Get [OF assms Some])
  have lf: "linked (fst (put_rec io0 a ?f s)) a n ((?f ?r)\<lparr>r_UpdatedAt := io_now io0\<rparr>)" by (rule linked_put_rec [OF l]) simp
  have lg: "linked (fst (put_rec io0 a ?g s)) a n ((?g ?r)\<lparr>r_UpdatedAt := io_now io0\<rparr>)" by (rule linked_put_rec [OF l]) simp
  have rec: "record_of (sv_store s) n = Some ?r" by (rule linked_record_of [OF l])
  have done_f: "record_of (sv_store (fst (put_rec io1 a (\<lambda>r. r\<lparr>r_State := st\<rparr>) (broadcast n m (fst (put_rec io0 a ?f s)))))) n =
      Some ((?f ?r)\<lparr>r_State := st, r_UpdatedAt := io_now io1\<rparr>)" for m st
    by (subst record_State_put_rec [where r = "(?f ?r)\<lparr>r_UpdatedAt := io_now io0\<rparr>"]) (simp_all add: lf)
  have done_g: "record_of (sv_store (fst (put_rec io1 a (\<lambda>r. r\<lparr>r_State := st\<rparr>) (broadcast n m (fst (put_rec io0 a ?g s)))))) n =
      Some ((?g ?r)\<lparr>r_State := st, r_UpdatedAt := io_now io1\<rparr>)" for m st
    by (subst record_State_put_rec [where r = "(?g ?r)\<lparr>r_UpdatedAt := io_now io0\<rparr>"]) (simp_all add: lg)
  have S: "Suspend cfg io0 n s = (s1, js, Inr x) \<Longrightarrow>
      s1 = broadcast n StateStopping (fst (put_rec io0 a ?f s)) \<and> js = [SuspendRun a n]" for s1 js x
    using Some by (simp add: Suspend_def split_def split: if_splits)
  have R: "Resume io0 n s = (s1, js, Inr x) \<Longrightarrow>
      s1 = broadcast n StateResuming (fst (put_rec io0 a ?g s)) \<and> js = [ResumeRun a n]" for s1 js x
    using Some by (simp add: Resume_def split_def split: if_splits)
  have accept: "(\<exists>x. snd (snd (Suspend cfg io0 n s)) = Inr x) \<longleftrightarrow>
      n \<noteq> [] \<and> r_State ?r = StateRunning \<and> \<not> IsSysApp cfg n \<and> io_put io0"
    "(\<exists>x. snd (snd (Resume io0 n s)) = Inr x) \<longleftrightarrow> n \<noteq> [] \<and> r_State ?r = StateStopped \<and> io_put io0"
    using Some by (auto simp: Suspend_def Resume_def split_def)
  have "map_option r_State (record_of (sv_store s1) n) = Some StateStopping \<and> snd (run_jobs cfg [io1] js s1) = [] \<and>
        map_option r_State (record_of (sv_store (fst (run_jobs cfg [io1] js s1))) n) =
          Some (if scaled io1 then StateStopped else StateStopFailed)"
    if "Suspend cfg io0 n s = (s1, js, Inr x)" for s1 js x
    using S [OF that] by (simp add: scale_done_def suspend_run_def resume_run_def Let_def done_f linked_record_of [OF lf])
  moreover have "map_option r_State (record_of (sv_store s1) n) = Some StateResuming \<and> snd (run_jobs cfg [io1] js s1) = [] \<and>
        map_option r_State (record_of (sv_store (fst (run_jobs cfg [io1] js s1))) n) =
          Some (if scaled io1 then StateRunning else StateResumeFailed)"
    if "Resume io0 n s = (s1, js, Inr x)" for s1 js x
    using R [OF that] by (simp add: scale_done_def suspend_run_def resume_run_def Let_def done_g linked_record_of [OF lg])
  ultimately show ?thesis using accept by (simp only: rec option.map option.inject) blast
qed

subsection \<open>The status loop\<close>

definition synced :: "io \<Rightarrow> (string \<times> string) list \<Rightarrow> AppRecord \<Rightarrow> AppRecord" where
  "synced io rs r = (case synced_state (r_State r) (map_of (rev rs) (r_ReleaseName r)) of
     None \<Rightarrow> r | Some st \<Rightarrow> r\<lparr>r_State := st, r_UpdatedAt := io_now io\<rparr>)"

lemma sync_record_effect:
  assumes "store_ok (sv_store s)" "a < length (heap (sv_store s))" "Get (r_Name (rec_at s a)) (sv_store s) = Some a"
  shows "store_ok (sv_store (sync_record io rs s a))"
    and "length (heap (sv_store (sync_record io rs s a))) = length (heap (sv_store s))"
    and "rec_at (sync_record io rs s a) b = (if b = a then synced io rs (rec_at s a) else rec_at s b)"
    and "Get m (sv_store (sync_record io rs s a)) = Get m (sv_store s)"
    and "sv_pub (sync_record io rs s a) = sv_pub s"
  using assms
  by (auto simp: sync_record_def synced_def store_ok_put_rec rec_at_put_rec Get_put_rec split: option.split)

lemma r_Name_synced [simp]: "r_Name (synced io rs r) = r_Name r"
  by (simp add: synced_def split: option.split)

lemma sync_fold:
  assumes "store_ok (sv_store s)" "distinct as"
    "\<forall>a \<in> set as. a < length (heap (sv_store s)) \<and> Get (r_Name (rec_at s a)) (sv_store s) = Some a"
  shows "rec_at (foldl (sync_record io rs) s as) b = (if b \<in> set as then synced io rs (rec_at s b) else rec_at s b) \<and>
    Get m (sv_store (foldl (sync_record io rs) s as)) = Get m (sv_store s) \<and>
    sv_pub (foldl (sync_record io rs) s as) = sv_pub s"
  using assms
proof (induction as arbitrary: s)
  case (Cons a as)
  have a: "a < length (heap (sv_store s))" "Get (r_Name (rec_at s a)) (sv_store s) = Some a" using Cons.prems(3) by simp_all
  note e = sync_record_effect [OF Cons.prems(1) a, where io = io and rs = rs]
  have "\<forall>c \<in> set as. c < length (heap (sv_store (sync_record io rs s a))) \<and>
      Get (r_Name (rec_at (sync_record io rs s a) c)) (sv_store (sync_record io rs s a)) = Some c"
    using Cons.prems by (simp add: e(2,3,4))
  then have "rec_at (foldl (sync_record io rs) (sync_record io rs s a) as) b =
      (if b \<in> set as then synced io rs (rec_at (sync_record io rs s a) b) else rec_at (sync_record io rs s a) b) \<and>
    Get m (sv_store (foldl (sync_record io rs) (sync_record io rs s a) as)) = Get m (sv_store (sync_record io rs s a)) \<and>
    sv_pub (foldl (sync_record io rs) (sync_record io rs s a) as) = sv_pub (sync_record io rs s a)"
    using Cons.prems by (intro Cons.IH) (simp_all add: e(1))
  then show ?case using Cons.prems(2) by (auto simp: e(3,4,5))
qed simp

lemma store_ok_addresses:
  assumes "store_ok st"
  shows "distinct (List st)" "a \<in> set (List st) \<Longrightarrow> a < length (heap st) \<and> Get (r_Name (heap st ! a)) st = Some a"
    "Get n st = Some a \<Longrightarrow> a \<in> set (List st)"
proof -
  have d: "distinct (map fst (s_apps st))" and p: "\<And>m b. (m, b) \<in> set (s_apps st) \<Longrightarrow> b < length (heap st) \<and> r_Name (heap st ! b) = m"
    using assms by (auto simp: store_ok_def list_all_iff)
  have "inj_on snd (set (s_apps st))"
  proof (rule inj_onI)
    fix x y assume "x \<in> set (s_apps st)" "y \<in> set (s_apps st)" "snd x = snd y"
    then show "x = y" using p [of "fst x" "snd x"] p [of "fst y" "snd x"] by (metis prod.collapse)
  qed
  then show "distinct (List st)" using d by (simp add: List_def distinct_map)
  show "a \<in> set (List st) \<Longrightarrow> a < length (heap st) \<and> Get (r_Name (heap st ! a)) st = Some a"
    using p d by (auto simp: List_def Get_def)
  show "Get n st = Some a \<Longrightarrow> a \<in> set (List st)"
    by (auto simp: List_def Get_def dest!: map_of_SomeD intro!: image_eqI)
qed

lemma syncStatuses_effect:
  assumes "store_ok (sv_store s)"
  shows "record_of (sv_store (syncStatuses io (Some rs) s)) n = map_option (synced io rs) (record_of (sv_store s) n)"
    and "sv_pub (syncStatuses io (Some rs) s) = sv_pub s"
proof -
  note f = sync_fold [OF assms store_ok_addresses(1) [OF assms], where io = io and rs = rs and m = n]
  have h: "\<forall>a \<in> set (List (sv_store s)). a < length (heap (sv_store s)) \<and> Get (r_Name (rec_at s a)) (sv_store s) = Some a"
    using store_ok_addresses(2) [OF assms] by (simp add: rec_at_def)
  have 1: "Get n (sv_store (syncStatuses io (Some rs) s)) = Get n (sv_store s)"
    and 2: "b \<in> set (List (sv_store s)) \<Longrightarrow> rec_at (syncStatuses io (Some rs) s) b = synced io rs (rec_at s b)" for b
    using f [OF h] by (simp_all add: syncStatuses_def)
  show "sv_pub (syncStatuses io (Some rs) s) = sv_pub s" using f [OF h] by (simp add: syncStatuses_def)
  show "record_of (sv_store (syncStatuses io (Some rs) s)) n = map_option (synced io rs) (record_of (sv_store s) n)"
    using 1 2 store_ok_addresses(3) [OF assms, of n]
    by (cases "Get n (sv_store s)") (simp_all add: record_of_def rec_at_def [symmetric])
qed

text \<open>
  A round of the status loop rewrites every record, and nothing else, according to the
  status of its Helm release: without a release it becomes uninstalled unless it is being
  uninstalled or has failed (un)installing; a deployed release makes it running unless it is
  stopped or being uninstalled; a failed one fails an installation in progress. The published
  public hosts are left alone, those of apps it marks uninstalled included.
\<close>
lemma syncStatuses_records:
  assumes "store_ok (sv_store s)" "record_of (sv_store s) n = Some r"
  shows "map_option r_State (record_of (sv_store (syncStatuses io (Some rs) s)) n) =
    Some (case map_of (rev rs) (r_ReleaseName r) of
        None \<Rightarrow> if r_State r \<in> {StateUninstalling, StateInstallFailed, StateUninstallFailed} then r_State r else StateUninstalled
      | Some status \<Rightarrow>
          if status = ''uninstalled'' then StateUninstalled
          else if status = ''deployed'' \<and> r_State r \<notin> {StateUninstalling, StateStopped} then StateRunning
          else if status = ''failed'' \<and> r_State r = StateInstalling then StateInstallFailed
          else r_State r)
    \<and> sv_pub (syncStatuses io (Some rs) s) = sv_pub s"
  using syncStatuses_effect [OF assms(1), of io rs] assms(2)
  by (simp add: synced_def synced_state_def split: option.split)

text \<open>
  A round during an installation, before Helm knows the release, marks the record uninstalled:
  a second installation of the app is then let through while the first one is still running.
\<close>
lemma status_round_reopens_install:
  assumes "store_ok (sv_store s)" "record_of (sv_store s) n = Some r" "ValidateAppName n = Inr ()"
    "r_State r \<in> {StatePending, StateDownloading, StateInstalling}" "map_of (rev rs) (r_ReleaseName r) = None"
  shows "map_option r_State (record_of (sv_store (syncStatuses io (Some rs) s)) n) = Some StateUninstalled
    \<and> installable (syncStatuses io (Some rs) s) n"
proof -
  have "record_of (sv_store (syncStatuses io (Some rs) s)) n = Some (r\<lparr>r_State := StateUninstalled, r_UpdatedAt := io_now io\<rparr>)"
    using syncStatuses_effect(1) [OF assms(1), of io rs n] assms by (auto simp: synced_def synced_state_def)
  then show ?thesis using assms(3) by (simp add: installable_def)
qed

text \<open>
  An app being uninstalled can be installed again. When the old job then ends it puts its own
  record back under the name: the record of the new installation is no longer in the store.
\<close>
lemma late_uninstall_replaces_record:
  assumes "a < length (heap (sv_store s))" "r_Name (rec_at s a) = uq_Name req" "\<not> uq_DeleteData req"
  shows "Get (uq_Name req) (sv_store (fst (uninstall_finish io a req s))) = Some a"
proof -
  let ?s = "if uq_Wipe req then s\<lparr>sv_removed := sv_removed s @ wipe_dirs wipe_bases (uq_Name req)\<rparr> else s"
  have "Get (uq_Name req) (sv_store (fst (put_rec io a (\<lambda>r. r\<lparr>r_State := StateUninstalled\<rparr>) ?s))) = Some a"
    using assms by (subst Get_put_rec) (simp_all add: rec_at_def)
  then show ?thesis using assms(3) by (simp add: uninstall_finish_def Let_def)
qed

subsection \<open>Public access\<close>

text \<open>
  The public-access switch sets the app's flag and publishes exactly the hosts that the
  per-entrance policy then gives, whatever the state of the app: switching it on for an app
  that is uninstalled publishes its hosts too. Other apps' published hosts do not change.
\<close>
lemma handlePublicAccess_publishes:
  assumes "store_ok (sv_store s)" "rq_Method q = ''POST''"
    "field_str ''name'' (rq_Body q) = Some n" "field_bool ''enabled'' (rq_Body q) = Some e"
    "record_of (sv_store s) n = Some r"
  shows "record_of (sv_store (fst (handlePublicAccess cfg io err q s))) n = Some (r\<lparr>r_PublicAccess := e, r_UpdatedAt := io_now io\<rparr>)
    \<and> map_of (byApp (sv_pub (fst (handlePublicAccess cfg io err q s)))) m =
      (if m = n then
         (let hs = hostsForApp (sc_USER_ZONE cfg) (sc_CUSTOM_DOMAIN cfg) (r\<lparr>r_PublicAccess := e\<rparr>)
          in if hs = [] then None else Some (uniqSorted hs))
       else map_of (byApp (sv_pub s)) m)"
proof -
  obtain a where a: "Get n (sv_store s) = Some a" "rec_at s a = r"
    using assms(5) by (auto simp: record_of_def rec_at_def)
  let ?s = "fst (put_rec io a (\<lambda>r. r\<lparr>r_PublicAccess := e\<rparr>) s)" and ?r = "r\<lparr>r_PublicAccess := e, r_UpdatedAt := io_now io\<rparr>"
  have l: "linked ?s a n ?r"
    using linked_put_rec [OF linked_of_Get [OF assms(1) a(1)], of "\<lambda>r. r\<lparr>r_PublicAccess := e\<rparr>"] a(2) by simp
  have h: "hostsForApp z c ?r = hostsForApp z c (r\<lparr>r_PublicAccess := e\<rparr>)" for z c
    by (simp add: hostsForApp_def entrance_public_def cong: if_cong)
  have nm: "r_Name r = n" using linked_name [OF l] by simp
  show ?thesis
    using linked_record_of [OF l] linked_rec_at [OF l] nm
    by (simp add: handlePublicAccess_def assms a(1) Let_def publish_def byApp_Sync h)
qed

subsection \<open>Concrete runs\<close>

definition sample_service :: service_config where
  "sample_service = \<lparr>sc_namespace = ''user-space-admin'', sc_owner = ''admin'', sc_md5 = (\<lambda>s. s @ ''0123456789''),
     sc_SYS_APPS = ''bfl'', sc_USER_ZONE = ''a.io'', sc_CUSTOM_DOMAIN = []\<rparr>"

definition sample_io :: io where
  "sample_io = \<lparr>io_now = 7, io_put = True, io_del = True, io_pub = True, io_chart = Some (None, [], []),
     io_inject = True, io_helm = True, io_deployments = Some 1, io_statefulsets = Some 0\<rparr>"

definition sample_svc :: "AppState \<Rightarrow> svc" where
  "sample_svc st = \<lparr>sv_store = \<lparr>heap = [sample_record ''gitea'' st], s_apps = [(''gitea'', 0)], disk = None\<rparr>,
     sv_pub = NewPublicDomainSync None, sv_log = [], sv_removed = []\<rparr>"

definition sample_install :: InstallRequest where
  "sample_install = \<lparr>iq_Name = ''gitea'', iq_RepoURL = [], iq_Source = [], iq_Version = [], iq_Values = []\<rparr>"

definition sample_uninstall :: UninstallRequest where
  "sample_uninstall = \<lparr>uq_Name = ''gitea'', uq_All = False, uq_DeleteData = False, uq_Wipe = True\<rparr>"

lemma sample_svc_ok: "store_ok (sv_store (sample_svc st))"
  by (simp add: sample_svc_def store_ok_def sample_record_def)

lemma sample_record_of: "record_of (sv_store (sample_svc st)) ''gitea'' = Some (sample_record ''gitea'' st)"
  by (simp add: sample_svc_def record_of_def Get_def)

lemma gitea_valid: "ValidateAppName ''gitea'' = Inr ()"
  by code_simp

lemma sample_record_fields [simp]: "r_State (sample_record n st) = st" "r_ReleaseName (sample_record n st) = n"
  "r_Entrances (sample_record n st) = []" "r_Name (sample_record n st) = n"
  by (simp_all add: sample_record_def)

lemma Install_accepts_iff_witness:
  "(\<exists>x. snd (snd (Install sample_service sample_io sample_install (sample_svc StateStopped))) = Inr x) \<and>
   (\<nexists>x. snd (snd (Install sample_service sample_io sample_install (sample_svc StateRunning))) = Inr x)"
  using Install_accepts_iff [OF sample_svc_ok, of sample_service sample_io sample_install StateStopped]
    Install_accepts_iff [OF sample_svc_ok, of sample_service sample_io sample_install StateRunning]
  by (simp add: sample_install_def sample_io_def gitea_valid sample_record_of)

lemma sample_Install: "\<exists>s1 js x. Install sample_service sample_io sample_install (sample_svc StateStopped) = (s1, js, Inr x)"
  by (simp add: Install_def sample_install_def gitea_valid sample_svc_def Get_def rec_at_def install_new_def alloc_def
      split_def Put_def save_def sample_io_def Let_def)



lemma suspend_resume_outcome_witness:
  "(\<exists>x. snd (snd (Suspend sample_service sample_io ''gitea'' (sample_svc StateRunning))) = Inr x) \<and>
   (\<nexists>x. snd (snd (Resume sample_io ''gitea'' (sample_svc StateRunning))) = Inr x)"
proof -
  have "env_names ''bfl'' = [''bfl'']" by code_simp
  then have "\<not> IsSysApp sample_service ''gitea''" by (simp add: IsSysApp_def sample_service_def)
  with suspend_resume_outcome [OF sample_svc_ok, of sample_service sample_io "''gitea''" StateRunning sample_io]
  show ?thesis by (simp add: sample_record_of) (simp add: sample_io_def)
qed

lemma syncStatuses_records_witness:
  "map_option r_State (record_of (sv_store (syncStatuses sample_io (Some []) (sample_svc StateDownloading))) ''gitea'')
     = Some StateUninstalled"
  using syncStatuses_records [OF sample_svc_ok sample_record_of, of sample_io "[]" StateDownloading] by simp

lemma handlePublicAccess_publishes_witness:
  "\<exists>q. map_of (byApp (sv_pub (fst (handlePublicAccess sample_service sample_io [] q (sample_svc StateUninstalled))))) ''gitea''
     = Some [''gitea.a.io'']"
proof -
  let ?q = "\<lparr>rq_Method = ''POST'', rq_Path = [], rq_Query = [], rq_Host = [], rq_RemoteAddr = [], rq_Header = [], rq_Cookies = [],
    rq_Body = Some (JObj [(''name'', JStr ''gitea''), (''enabled'', JBool True)])\<rparr>"
  have f: "field_str ''name'' (rq_Body ?q) = Some ''gitea''" "field_bool ''enabled'' (rq_Body ?q) = Some True" by code_simp+
  have h: "hostsForApp ''a.io'' [] ((sample_record ''gitea'' StateUninstalled)\<lparr>r_PublicAccess := True\<rparr>) = [''gitea.a.io'']"
    by (simp add: hostsForApp_def collectHosts_def)
  have u: "uniqSorted [''gitea.a.io''] = [''gitea.a.io'']" by code_simp
  have m: "rq_Method ?q = ''POST''" by simp
  have "map_of (byApp (sv_pub (fst (handlePublicAccess sample_service sample_io [] ?q (sample_svc StateUninstalled))))) ''gitea''
     = Some [''gitea.a.io'']"
    using handlePublicAccess_publishes [OF sample_svc_ok m f sample_record_of [of StateUninstalled],
        where cfg = sample_service and io = sample_io and err = "[]" and m = "''gitea''"]
    by (simp add: sample_service_def h u)
  then show ?thesis by blast
qed


end
