(* ===== verification/Pkg_Config.thy ===== *)
theory Pkg_Config
  imports Prelude
begin

text \<open>
  \<^verbatim>\<open>pkg/config/config.go\<close>: the configuration every service reads, with the priority
  config.yaml, environment variable, default. The parsed YAML document is a tree (reading
  the file and parsing it are the arguments \<open>read\<close> and \<open>parse\<close> of \<open>loadConfig\<close>); the
  environment is a function, with the empty string for an unset variable.
\<close>

datatype yaml =
    YNull
  | YStr string
  | YInt int
  | YBool bool
  | YList "yaml list"
  | YMap "(string \<times> yaml) list"

text \<open>\<^verbatim>\<open>fmt.Sprintf("%v", x)\<close>; a map prints in key order.\<close>

fun format_v :: "yaml \<Rightarrow> string" where
  "format_v YNull = ''<nil>''"
| "format_v (YStr s) = s"
| "format_v (YInt i) = int_str i"
| "format_v (YBool b) = (if b then ''true'' else ''false'')"
| "format_v (YList xs) = ''['' @ join '' '' (map format_v xs) @ '']''"
| "format_v (YMap kvs) =
     ''map['' @ join '' '' (map (\<lambda>(k, s). k @ '':'' @ s) (sort_key fst (map (\<lambda>(k, v). (k, format_v v)) kvs))) @ '']''"

record ctx =
  cx_yaml :: "(string \<times> yaml) list"
  cx_env :: "string \<Rightarrow> string"

definition loadConfig ::
    "(string \<Rightarrow> string option) \<Rightarrow> (string \<Rightarrow> (string \<times> yaml) list option) \<Rightarrow> (string \<Rightarrow> string) \<Rightarrow> (string \<times> yaml) list" where
  "loadConfig read parse environ =
     (case List.map_filter (\<lambda>p. if p = [] then None else do { d \<leftarrow> read p; parse d })
        [''/etc/packalares/config.yaml'', environ ''PACKALARES_CONFIG''] of
        [] \<Rightarrow> []
      | parsed # _ \<Rightarrow> parsed)"

fun walk :: "yaml \<Rightarrow> string list \<Rightarrow> yaml option" where
  "walk y [] = Some y"
| "walk y (part # parts) =
     (case y of
        YMap m \<Rightarrow> (case map_of m part of None \<Rightarrow> None | Some v \<Rightarrow> walk v parts)
      | _ \<Rightarrow> None)"

definition configGet :: "ctx \<Rightarrow> string \<Rightarrow> string" where
  "configGet cx key =
     (case walk (YMap (cx_yaml cx)) (split_on CHR ''.'' key) of None \<Rightarrow> [] | Some v \<Rightarrow> format_v v)"

definition configOr :: "ctx \<Rightarrow> string \<Rightarrow> string \<Rightarrow> string \<Rightarrow> string" where
  "configOr cx yamlKey envKey fallback =
     (if configGet cx yamlKey \<noteq> [] then configGet cx yamlKey
      else if cx_env cx envKey \<noteq> [] then cx_env cx envKey
      else fallback)"

subsection \<open>The settings\<close>

definition PlatformNamespace :: "ctx \<Rightarrow> string" where
  "PlatformNamespace cx = configOr cx ''system.namespaces.platform'' ''PLATFORM_NAMESPACE'' ''os-system''"

definition FrameworkNamespace :: "ctx \<Rightarrow> string" where
  "FrameworkNamespace cx = configOr cx ''system.namespaces.framework'' ''FRAMEWORK_NAMESPACE'' ''os-framework''"

definition UserNamespace :: "string \<Rightarrow> string" where
  "UserNamespace username = ''user-space-'' @ username"

definition MonitoringNamespace :: "ctx \<Rightarrow> string" where
  "MonitoringNamespace cx = configOr cx ''system.namespaces.monitoring'' ''MONITORING_NAMESPACE'' ''monitoring''"

definition APIGroup :: "ctx \<Rightarrow> string" where
  "APIGroup cx = configOr cx ''system.api_group'' ''API_GROUP'' ''packalares.io''"

definition TLSSecretName :: "ctx \<Rightarrow> string" where
  "TLSSecretName cx = configOr cx ''network.tls_secret_name'' ''TLS_SECRET_NAME'' ''zone-tls''"

definition Domain :: "ctx \<Rightarrow> string" where
  "Domain cx = configOr cx ''system.domain'' ''SYSTEM_DOMAIN'' ''olares.local''"

definition Username :: "ctx \<Rightarrow> string" where
  "Username cx =
     (let v = configOr cx ''user.name'' ''USERNAME'' [] in if v \<noteq> [] then v else cx_env cx ''OWNER'')"

definition Hostname :: "ctx \<Rightarrow> string" where
  "Hostname cx = configOr cx ''system.hostname'' ''HOSTNAME'' ''packalares''"

definition Timezone :: "ctx \<Rightarrow> string" where
  "Timezone cx = configOr cx ''system.timezone'' ''TZ'' ''UTC''"

definition UserZone :: "ctx \<Rightarrow> string" where
  "UserZone cx =
     (if configGet cx ''user.zone'' \<noteq> [] then configGet cx ''user.zone''
      else if cx_env cx ''USER_ZONE'' \<noteq> [] then cx_env cx ''USER_ZONE''
      else Username cx @ ''.'' @ Domain cx)"

definition ServiceDNS :: "string \<Rightarrow> string \<Rightarrow> string" where
  "ServiceDNS name namespace = name @ ''.'' @ namespace @ ''.svc.cluster.local''"

definition CitusDNS :: "ctx \<Rightarrow> string" where
  "CitusDNS cx = ServiceDNS ''citus-coordinator-svc'' (PlatformNamespace cx)"

definition CitusHost :: "ctx \<Rightarrow> string" where
  "CitusHost cx = configOr cx ''database.host'' ''PG_HOST'' (CitusDNS cx)"

definition CitusPort :: "ctx \<Rightarrow> string" where
  "CitusPort cx = configOr cx ''database.port'' ''PG_PORT'' ''5432''"

definition CitusPassword :: "ctx \<Rightarrow> string" where
  "CitusPassword cx = configOr cx ''database.password'' ''PG_PASSWORD'' []"

definition CitusUser :: "ctx \<Rightarrow> string" where
  "CitusUser cx = configOr cx ''database.user'' ''PG_USER'' ''packalares''"

definition KVRocksDNS :: "ctx \<Rightarrow> string" where
  "KVRocksDNS cx = ServiceDNS ''kvrocks-svc'' (PlatformNamespace cx)"

definition KVRocksHost :: "ctx \<Rightarrow> string" where
  "KVRocksHost cx = configOr cx ''redis.host'' ''KVROCKS_HOST'' (KVRocksDNS cx)"

definition KVRocksPort :: "ctx \<Rightarrow> string" where
  "KVRocksPort cx = configOr cx ''redis.port'' ''KVROCKS_PORT'' ''6379''"

definition NATSDns :: "ctx \<Rightarrow> string" where
  "NATSDns cx = ServiceDNS ''nats-svc'' (PlatformNamespace cx)"

definition NATSHost :: "ctx \<Rightarrow> string" where
  "NATSHost cx = configOr cx ''nats.host'' ''NATS_HOST'' (NATSDns cx)"

definition LLDAPHost :: "ctx \<Rightarrow> string" where
  "LLDAPHost cx = configOr cx ''lldap.host'' ''LLDAP_HOST'' (ServiceDNS ''lldap-svc'' (PlatformNamespace cx))"

definition LLDAPPort :: "ctx \<Rightarrow> string" where
  "LLDAPPort cx = configOr cx ''lldap.port'' ''LLDAP_PORT'' ''17170''"

definition InfisicalDNS :: "ctx \<Rightarrow> string" where
  "InfisicalDNS cx = ServiceDNS ''infisical-svc'' (PlatformNamespace cx)"

definition ChartRepoDNS :: "ctx \<Rightarrow> string" where
  "ChartRepoDNS cx = ServiceDNS ''chart-repo-service'' (FrameworkNamespace cx)"

definition ChartRepoURL :: "ctx \<Rightarrow> string" where
  "ChartRepoURL cx = configOr cx ''catalog.chart_repo_url'' ''CHART_REPO_URL'' (''http://'' @ ChartRepoDNS cx @ '':82/'')"

definition AuthDNS :: "ctx \<Rightarrow> string" where
  "AuthDNS cx = ServiceDNS ''auth-backend'' (FrameworkNamespace cx)"

definition BFLDNS :: "ctx \<Rightarrow> string" where
  "BFLDNS cx = ServiceDNS ''bfl'' (FrameworkNamespace cx)"

definition MonitorDNS :: "ctx \<Rightarrow> string" where
  "MonitorDNS cx = ServiceDNS ''monitoring-server'' (FrameworkNamespace cx)"

definition MarketDNS :: "ctx \<Rightarrow> string" where
  "MarketDNS cx = ServiceDNS ''market-backend'' (FrameworkNamespace cx)"

definition AppserviceDNS :: "ctx \<Rightarrow> string" where
  "AppserviceDNS cx = ServiceDNS ''app-service'' (FrameworkNamespace cx)"

definition SystemServerDNS :: "ctx \<Rightarrow> string" where
  "SystemServerDNS cx = ServiceDNS ''system-server'' (FrameworkNamespace cx)"

definition DesktopDNS :: "ctx \<Rightarrow> string" where
  "DesktopDNS cx = ServiceDNS ''desktop-svc'' (UserNamespace (Username cx))"

definition PrometheusDNS :: "ctx \<Rightarrow> string" where
  "PrometheusDNS cx = ServiceDNS ''prometheus-svc'' (MonitoringNamespace cx)"

definition PrometheusURL :: "ctx \<Rightarrow> string" where
  "PrometheusURL cx = configOr cx ''monitoring.prometheus_url'' ''PROMETHEUS_URL'' (''http://'' @ PrometheusDNS cx @ '':9090'')"

definition TailscaleEnabled :: "ctx \<Rightarrow> bool" where
  "TailscaleEnabled cx = (configGet cx ''network.tailscale.enabled'' = ''true'')"

definition TailscaleAuthKey :: "ctx \<Rightarrow> string" where
  "TailscaleAuthKey cx = configOr cx ''network.tailscale.auth_key'' ''TS_AUTH_KEY'' []"

definition DNSExposePort53 :: "ctx \<Rightarrow> bool" where
  "DNSExposePort53 cx = (configGet cx ''network.dns.expose_port_53'' = ''true'')"

definition DataPath :: "ctx \<Rightarrow> string" where
  "DataPath cx = configOr cx ''storage.data_path'' ''DATA_PATH'' ''/packalares/data''"

definition GPUEnabled :: "ctx \<Rightarrow> string" where
  "GPUEnabled cx = configOr cx ''gpu.enabled'' ''GPU_ENABLED'' ''auto''"

definition GPUSharing :: "ctx \<Rightarrow> bool" where
  "GPUSharing cx = (configGet cx ''gpu.sharing'' \<noteq> ''false'')"

definition APISubdomain :: "ctx \<Rightarrow> string" where
  "APISubdomain cx = ''api.'' @ UserZone cx"

definition AppSubdomain :: "ctx \<Rightarrow> string \<Rightarrow> string" where
  "AppSubdomain cx appName = appName @ ''.'' @ UserZone cx"

definition SystemSubdomains :: "ctx \<Rightarrow> (string \<times> string) list" where
  "SystemSubdomains cx =
     (let zone = UserZone cx in
      map (\<lambda>n. (n, n @ ''.'' @ zone))
        [''desktop'', ''market'', ''settings'', ''files'', ''dashboard'', ''auth'', ''api''])"

definition SplitZone :: "string \<Rightarrow> string \<times> string" where
  "SplitZone zone = (case SplitN2 zone CHR ''.'' of [a, b] \<Rightarrow> (a, b) | _ \<Rightarrow> (zone, []))"

subsection \<open>Properties\<close>

definition sample_ctx :: ctx where
  "sample_ctx = \<lparr>cx_yaml = [(''user'', YMap [(''name'', YStr ''admin''), (''zone'', YNull)])],
     cx_env = (\<lambda>_. [])\<rparr>"

text \<open>
  Without an explicit zone, the zone of a user whose name has no dot splits back into
  the user name and the domain, whatever the domain is; an app's host splits into the app's
  name and the zone.
\<close>
lemma UserZone_split:
  assumes "configGet cx ''user.zone'' = []" "cx_env cx ''USER_ZONE'' = []" "CHR ''.'' \<notin> set (Username cx)"
  shows "SplitZone (UserZone cx) = (Username cx, Domain cx)
    \<and> (CHR ''.'' \<notin> set a \<longrightarrow> SplitZone (AppSubdomain cx a) = (a, UserZone cx))"
  using assms by (simp add: UserZone_def SplitZone_def AppSubdomain_def)

lemma UserZone_split_witness:
  "SplitZone (UserZone (sample_ctx\<lparr>cx_yaml := [(''user'', YMap [(''name'', YStr ''admin'')])]\<rparr>)) = (''admin'', ''olares.local'')"
proof -
  let ?c = "sample_ctx\<lparr>cx_yaml := [(''user'', YMap [(''name'', YStr ''admin'')])]\<rparr>"
  have g: "configGet ?c ''user.zone'' = []" by (simp add: configGet_def)
  have u: "Username ?c = ''admin''" by (simp add: Username_def configOr_def configGet_def)
  have d: "Domain ?c = ''olares.local''" by (simp add: Domain_def configOr_def configGet_def sample_ctx_def)
  have e: "cx_env ?c ''USER_ZONE'' = []" by (simp add: sample_ctx_def)
  show ?thesis using UserZone_split [OF g e] by (simp add: u d)
qed

text \<open>
  A key that is present without a value (a YAML null) does not fall through to the
  environment and the default: the setting becomes the text \<^verbatim>\<open><nil>\<close>.
\<close>
lemma configOr_null:
  assumes "walk (YMap (cx_yaml cx)) (split_on CHR ''.'' key) = Some YNull"
  shows "configOr cx key envKey fallback = ''<nil>''"
  using assms by (simp add: configOr_def configGet_def)

lemma configOr_null_witness: "UserZone sample_ctx = ''<nil>''"
proof -
  have "walk (YMap (cx_yaml sample_ctx)) (split_on CHR ''.'' ''user.zone'') = Some YNull"
    by (simp add: sample_ctx_def)
  from configOr_null [OF this, of "''USER_ZONE''" "[]"] show ?thesis
    by (simp add: UserZone_def configOr_def sample_ctx_def split: if_splits)
qed

end
