(* ===== verification/Mk_Text.thy ===== *)
theory Mk_Text
  imports Prelude
begin

text \<open>
  The line readers of \<^verbatim>\<open>internal/market/handler.go\<close>: what the detail page shows of an app's chart is
  read from the chart's templates line by line, without a YAML parser. A file is its content, a
  reader is a fold of its step function over the scanned lines. Also \<open>cleanCategories\<close> and the removal
  of template directives from \<^verbatim>\<open>manifest.go\<close>.
\<close>

subsection \<open>Strings and lines\<close>

definition TrimCut :: "string \<Rightarrow> string \<Rightarrow> string" where
  "TrimCut s cs = rev (dropWhile (\<lambda>c. c \<in> set cs) (rev (dropWhile (\<lambda>c. c \<in> set cs) s)))"

definition quotes :: string where
  "quotes = [CHR 0x22, CHR 0x27]"

definition indent_of :: "string \<Rightarrow> nat" where
  "indent_of line = length (takeWhile (\<lambda>c. c = CHR '' '') line)"

text \<open>\<^verbatim>\<open>bufio.Scanner\<close> on lines: it stops for good at a line that does not fit its buffer.\<close>

definition dropCR :: "string \<Rightarrow> string" where
  "dropCR s = (if s \<noteq> [] \<and> last s = CHR 0x0D then butlast s else s)"

definition scan_lines :: "string \<Rightarrow> string list" where
  "scan_lines s =
     (let ls = split_on CHR 0x0A s;
          ls = (if last ls = [] then butlast ls else ls)
      in map dropCR (takeWhile (\<lambda>l. length l < 65536) ls))"

definition extractYAMLValue :: "string \<Rightarrow> string \<Rightarrow> string" where
  "extractYAMLValue line key =
     (case IndexStr line (key @ '':'') of
        None \<Rightarrow> []
      | Some i \<Rightarrow> TrimCut (TrimPrefix (TrimSpace (drop (i + length key + 1) line)) ''- '') quotes)"

subsection \<open>Volume mounts\<close>

record VolumeMount =
  vmMountPath :: string
  vmHostPath :: string
  vmName :: string

record vm_state =
  inVolumeMounts :: bool
  inVolumes :: bool
  section_indent :: nat
  curMountPath :: string
  curMountName :: string
  curVolName :: string
  curHostPath :: string
  rawMounts :: "(string \<times> string) list"
  hostPaths :: "(string \<times> string) list"

definition vm_init :: vm_state where
  "vm_init = \<lparr>inVolumeMounts = False, inVolumes = False, section_indent = 0, curMountPath = [], curMountName = [],
     curVolName = [], curHostPath = [], rawMounts = [], hostPaths = []\<rparr>"

definition flush_mount :: "vm_state \<Rightarrow> vm_state" where
  "flush_mount st =
     (if curMountPath st \<noteq> []
      then st\<lparr>rawMounts := rawMounts st @ [(curMountPath st, curMountName st)], curMountPath := [], curMountName := []\<rparr>
      else st)"

definition flush_volume :: "vm_state \<Rightarrow> vm_state" where
  "flush_volume st =
     (if curVolName st \<noteq> [] \<and> curHostPath st \<noteq> []
      then st\<lparr>hostPaths := AList.update (curVolName st) (curHostPath st) (hostPaths st)\<rparr> else st)"

definition vm_mount_line :: "vm_state \<Rightarrow> string \<Rightarrow> vm_state" where
  "vm_mount_line st trimmed =
     (let st = (if HasPrefix trimmed ''- mountPath:'' \<or> HasPrefix trimmed ''- name:'' then flush_mount st else st);
          st = (if Contains trimmed ''mountPath:''
                then st\<lparr>curMountPath := extractYAMLValue trimmed ''mountPath''\<rparr> else st)
      in if Contains trimmed ''name:'' \<and> \<not> Contains trimmed ''mountPath''
         then st\<lparr>curMountName := extractYAMLValue trimmed ''name''\<rparr> else st)"

definition vm_volume_line :: "vm_state \<Rightarrow> string \<Rightarrow> vm_state" where
  "vm_volume_line st trimmed =
     (let st = (if HasPrefix trimmed ''- name:''
                then (flush_volume st)\<lparr>curVolName := extractYAMLValue trimmed ''name'', curHostPath := []\<rparr> else st)
      in if Contains trimmed ''path:'' \<and> \<not> HasPrefix trimmed ''hostPath''
         then st\<lparr>curHostPath := extractYAMLValue trimmed ''path''\<rparr> else st)"

definition vm_step :: "vm_state \<Rightarrow> string \<Rightarrow> vm_state" where
  "vm_step st line =
     (let trimmed = TrimSpace line; lineIndent = indent_of line in
      if Contains trimmed ''volumeMounts:'' then
        st\<lparr>inVolumeMounts := True, inVolumes := False, section_indent := lineIndent\<rparr>
      else if Contains trimmed ''volumes:'' \<and> \<not> Contains trimmed ''volumeMounts'' then
        st\<lparr>inVolumes := True, inVolumeMounts := False, section_indent := lineIndent\<rparr>
      else if inVolumeMounts st \<and>
        (trimmed = [] \<or> lineIndent \<le> section_indent st \<and> \<not> HasPrefix trimmed ''-'' \<and>
          \<not> HasPrefix trimmed ''mountPath'' \<and> \<not> HasPrefix trimmed ''name'')
      then (flush_mount st)\<lparr>inVolumeMounts := False\<rparr>
      else
        let st = (if inVolumeMounts st then vm_mount_line st trimmed else st) in
        if inVolumes st then
          if trimmed = [] \<or> lineIndent \<le> section_indent st \<and> \<not> HasPrefix trimmed ''-'' \<and>
             \<not> HasPrefix trimmed ''name'' \<and> \<not> HasPrefix trimmed ''hostPath'' \<and> \<not> HasPrefix trimmed ''path'' \<and>
             \<not> HasPrefix trimmed ''type''
          then
            let st = flush_volume st in
            if trimmed \<noteq> [] \<and> lineIndent \<le> section_indent st then st\<lparr>inVolumes := False\<rparr> else st
          else vm_volume_line st trimmed
        else st)"

definition match_mount :: "(string \<times> string) list \<Rightarrow> string \<times> string \<Rightarrow> VolumeMount" where
  "match_mount hps rm =
     \<lparr>vmMountPath = fst rm,
      vmHostPath = (case map_of hps (snd rm) of None \<Rightarrow> [] | Some hp \<Rightarrow> hp),
      vmName = snd rm\<rparr>"

definition parseVolumeMountsFromYAML :: "string \<Rightarrow> VolumeMount list" where
  "parseVolumeMountsFromYAML content =
     (let st = flush_volume (flush_mount (foldl vm_step vm_init (scan_lines content)))
      in map (match_mount (hostPaths st)) (rawMounts st))"

text \<open>A file that cannot be opened (\<^term>\<open>None\<close>) gives nothing.\<close>

definition opened :: "(string \<Rightarrow> 'a list) \<Rightarrow> string option \<Rightarrow> 'a list" where
  "opened parse f = (case f of None \<Rightarrow> [] | Some content \<Rightarrow> parse content)"

definition parseAllVolumeMounts :: "string option list \<Rightarrow> VolumeMount list" where
  "parseAllVolumeMounts files = concat (map (opened parseVolumeMountsFromYAML) files)"

subsection \<open>Resources\<close>

record ResMap =
  rmCPU :: string
  rmMemory :: string
  rmGPU :: string

definition no_res :: ResMap where
  "no_res = \<lparr>rmCPU = [], rmMemory = [], rmGPU = []\<rparr>"

record ContainerResources =
  crContainer :: string
  crRequests :: ResMap
  crLimits :: ResMap

record res_state =
  curContainer :: string
  inResources :: bool
  inRequests :: bool
  inLimits :: bool
  curRequests :: ResMap
  curLimits :: ResMap
  resResults :: "ContainerResources list"

definition res_init :: res_state where
  "res_init = \<lparr>curContainer = [], inResources = False, inRequests = False, inLimits = False,
     curRequests = no_res, curLimits = no_res, resResults = []\<rparr>"

definition flush_container :: "res_state \<Rightarrow> res_state" where
  "flush_container st =
     (if curContainer st \<noteq> [] \<and> (curRequests st \<noteq> no_res \<or> curLimits st \<noteq> no_res)
      then st\<lparr>resResults := resResults st @
               [\<lparr>crContainer = curContainer st, crRequests = curRequests st, crLimits = curLimits st\<rparr>],
             curRequests := no_res, curLimits := no_res\<rparr>
      else st)"

definition res_values :: "string \<Rightarrow> ResMap \<Rightarrow> ResMap" where
  "res_values trimmed m =
     (let m = (if HasPrefix trimmed ''cpu:'' then m\<lparr>rmCPU := extractYAMLValue trimmed ''cpu''\<rparr> else m);
          m = (if HasPrefix trimmed ''memory:'' then m\<lparr>rmMemory := extractYAMLValue trimmed ''memory''\<rparr> else m)
      in if Contains trimmed ''nvidia.com/gpu'' then m\<lparr>rmGPU := extractYAMLValue trimmed ''nvidia.com/gpu''\<rparr> else m)"

definition res_container :: "res_state \<Rightarrow> string \<Rightarrow> string \<Rightarrow> res_state" where
  "res_container st line trimmed =
     (if HasPrefix trimmed ''- name:'' \<and> \<not> Contains trimmed ''mountPath'' \<and> 8 \<le> indent_of line \<and> indent_of line \<le> 16
      then (flush_container st)\<lparr>curContainer := extractYAMLValue trimmed ''name''\<rparr> else st)"

definition res_step :: "res_state \<Rightarrow> string \<Rightarrow> res_state" where
  "res_step st line =
     (let trimmed = TrimSpace line; st = res_container st line trimmed in
      if Contains trimmed ''resources:'' \<and> \<not> HasPrefix trimmed ''#'' then
        st\<lparr>inResources := True, inRequests := False, inLimits := False\<rparr>
      else if \<not> inResources st then st
      else if trimmed = ''requests:'' then st\<lparr>inRequests := True, inLimits := False\<rparr>
      else if trimmed = ''limits:'' then st\<lparr>inLimits := True, inRequests := False\<rparr>
      else if trimmed \<noteq> [] \<and> \<not> HasPrefix trimmed ''cpu'' \<and> \<not> HasPrefix trimmed ''memory'' \<and>
        \<not> HasPrefix trimmed ''nvidia'' \<and> \<not> HasPrefix trimmed ''requests'' \<and> \<not> HasPrefix trimmed ''limits'' \<and>
        indent_of line \<le> 10
      then st\<lparr>inResources := False, inRequests := False, inLimits := False\<rparr>
      else
        let st = (if inRequests st then st\<lparr>curRequests := res_values trimmed (curRequests st)\<rparr> else st)
        in if inLimits st then st\<lparr>curLimits := res_values trimmed (curLimits st)\<rparr> else st)"

definition parseResourcesFromYAML :: "string \<Rightarrow> ContainerResources list" where
  "parseResourcesFromYAML content =
     resResults (flush_container (foldl res_step res_init (scan_lines content)))"

definition parseAllResources :: "string option list \<Rightarrow> ContainerResources list" where
  "parseAllResources files = concat (map (opened parseResourcesFromYAML) files)"

subsection \<open>Environment variables\<close>

record ContainerEnvVar =
  evName :: string
  evValue :: string
  evFrom :: string

record env_state =
  inEnv :: bool
  inValueFrom :: bool
  curName :: string
  curValue :: string
  envResult :: "ContainerEnvVar list"

definition env_init :: env_state where
  "env_init = \<lparr>inEnv = False, inValueFrom = False, curName = [], curValue = [], envResult = []\<rparr>"

definition push_env :: "env_state \<Rightarrow> env_state" where
  "push_env st =
     (if curName st \<noteq> []
      then st\<lparr>envResult := envResult st @ [\<lparr>evName = curName st, evValue = curValue st, evFrom = []\<rparr>]\<rparr> else st)"

definition env_step :: "env_state \<Rightarrow> string \<Rightarrow> env_state" where
  "env_step st line =
     (let trimmed = TrimSpace line in
      if trimmed = ''env:'' then st\<lparr>inEnv := True\<rparr>
      else if trimmed = ''envFrom:'' then st\<lparr>inEnv := False\<rparr>
      else if HasPrefix trimmed ''- configMapRef:'' \<or> HasPrefix trimmed ''configMapRef:'' then st
      else if \<not> inEnv st then st
      else if trimmed \<noteq> [] \<and> indent_of line \<le> 8 \<and> \<not> HasPrefix trimmed ''-'' \<and> \<not> HasPrefix trimmed ''name:'' \<and>
        \<not> HasPrefix trimmed ''value''
      then (if curName st \<noteq> [] then (push_env st)\<lparr>inEnv := False, curName := [], curValue := []\<rparr>
            else st\<lparr>inEnv := False\<rparr>)
      else if HasPrefix trimmed ''- name:'' then
        (push_env st)\<lparr>curName := extractYAMLValue trimmed ''name'', curValue := [], inValueFrom := False\<rparr>
      else if HasPrefix trimmed ''value:'' \<and> \<not> inValueFrom st then
        st\<lparr>curValue := extractYAMLValue trimmed ''value''\<rparr>
      else if trimmed = ''valueFrom:'' then st\<lparr>inValueFrom := True\<rparr>
      else if inValueFrom st \<and> Contains trimmed ''fieldPath:'' then
        st\<lparr>curValue := [],
          envResult := envResult st @
            [\<lparr>evName = curName st, evValue = [], evFrom = ''fieldRef:'' @ extractYAMLValue trimmed ''fieldPath''\<rparr>],
          curName := [], inValueFrom := False\<rparr>
      else st)"

definition parseEnvVarsFromYAML :: "string \<Rightarrow> ContainerEnvVar list" where
  "parseEnvVarsFromYAML content = envResult (push_env (foldl env_step env_init (scan_lines content)))"

text \<open>The first variable of each name.\<close>

fun first_named :: "string list \<Rightarrow> ContainerEnvVar list \<Rightarrow> ContainerEnvVar list" where
  "first_named seen [] = []"
| "first_named seen (v # vs) =
     (if evName v \<in> set seen then first_named seen vs else v # first_named (evName v # seen) vs)"

definition parseAllEnvVars :: "string option list \<Rightarrow> ContainerEnvVar list" where
  "parseAllEnvVars files = first_named [] (concat (map (opened parseEnvVarsFromYAML) files))"

subsection \<open>Labels\<close>

record label_state =
  inPodLabels :: bool
  labelIndent :: nat
  labels :: "(string \<times> string) list"

definition label_step :: "label_state \<Rightarrow> string \<Rightarrow> label_state" where
  "label_step st line =
     (let trimmed = TrimSpace line; lineIndent = indent_of line in
      if trimmed = ''labels:'' \<and> 6 \<le> lineIndent then st\<lparr>inPodLabels := True, labelIndent := lineIndent\<rparr>
      else if \<not> inPodLabels st then st
      else if trimmed = [] \<or> lineIndent \<le> labelIndent st then st\<lparr>inPodLabels := False\<rparr>
      else if Contains trimmed '':'' \<and> \<not> HasPrefix trimmed ''#'' then
        (case SplitN2 trimmed CHR '':'' of
           [a, b] \<Rightarrow>
             let k = TrimSpace a; v = TrimCut (TrimSpace b) quotes in
             if k \<noteq> [] \<and> \<not> Contains k ''{{'' then st\<lparr>labels := AList.update k v (labels st)\<rparr> else st
         | _ \<Rightarrow> st)
      else st)"

definition parseLabelsFromYAML :: "string \<Rightarrow> (string \<times> string) list" where
  "parseLabelsFromYAML content =
     labels (foldl label_step \<lparr>inPodLabels = False, labelIndent = 0, labels = []\<rparr> (scan_lines content))"

definition parseAllLabels :: "string option list \<Rightarrow> (string \<times> string) list" where
  "parseAllLabels files =
     foldl (\<lambda>ls f. foldl (\<lambda>ls (k, v). AList.update k v ls) ls (opened parseLabelsFromYAML f)) [] files"

subsection \<open>Images\<close>

definition image_step :: "string list \<Rightarrow> string \<Rightarrow> string list" where
  "image_step images line =
     (let trimmed = TrimSpace line in
      if HasPrefix trimmed ''image:'' then
        (let val = TrimCut (TrimSpace (TrimPrefix trimmed ''image:'')) quotes in
         if val \<noteq> [] \<and> \<not> Contains val ''{{'' \<and> val \<notin> set images then images @ [val] else images)
      else images)"

definition parseAllImages :: "string option list \<Rightarrow> string list" where
  "parseAllImages files =
     foldl (\<lambda>images f. case f of None \<Rightarrow> images | Some content \<Rightarrow> foldl image_step images (scan_lines content)) [] files"

subsection \<open>Categories\<close>

text \<open>\<^verbatim>\<open>_v\d+$\<close>: the leftmost match, which is the last, because the rest holds digits only.\<close>

definition drop_version :: "string \<Rightarrow> string" where
  "drop_version c =
     (let ds = takeWhile is_digit (rev c); rest = dropWhile is_digit (rev c) in
      if ds \<noteq> [] \<and> HasPrefix rest ''v_'' then rev (drop 2 rest) else c)"

fun clean_loop :: "string list \<Rightarrow> string list \<Rightarrow> string list" where
  "clean_loop seen [] = []"
| "clean_loop seen (c # cs) =
     (let clean = TrimSpace (drop_version c) in
      if clean \<noteq> [] \<and> clean \<notin> set seen then clean # clean_loop (clean # seen) cs else clean_loop seen cs)"

definition cleanCategories :: "string list \<Rightarrow> string list" where
  "cleanCategories cats = clean_loop [] cats"

subsection \<open>Template directives\<close>

definition re_space :: "char \<Rightarrow> bool" where
  "re_space c \<longleftrightarrow> c \<in> set [CHR 0x09, CHR 0x0A, CHR 0x0C, CHR 0x0D, CHR 0x20]"

fun skip_dash :: "string \<Rightarrow> string" where
  "skip_dash [] = []"
| "skip_dash (c # cs) = (if c = CHR ''-'' then cs else c # cs)"

text \<open>What follows \<^verbatim>\<open>{{-?\s*kw\s*-?}}\<close> at the start of the text.\<close>

definition match_tag :: "string \<Rightarrow> string \<Rightarrow> string option" where
  "match_tag kw s =
     (if HasPrefix s ''{{'' then
        (let r = dropWhile re_space (skip_dash (drop 2 s)) in
         if HasPrefix r kw then
           (let r = skip_dash (dropWhile re_space (drop (length kw) r)) in
            if HasPrefix r ''}}'' then Some (drop 2 r) else None)
         else None)
      else None)"

fun after_end :: "string \<Rightarrow> string option" where
  "after_end s =
     (case match_tag ''end'' s of
        Some r \<Rightarrow> Some r
      | None \<Rightarrow> (case s of [] \<Rightarrow> None | _ # xs \<Rightarrow> after_end xs))"

declare after_end.simps [simp del]

lemma skip_dash_length: "length (skip_dash s) \<le> length s"
  by (cases s) auto

lemma match_tag_shorter: "match_tag kw s = Some r \<Longrightarrow> length r < length s"
proof -
  assume m: "match_tag kw s = Some r"
  let ?a = "dropWhile re_space (skip_dash (drop 2 s))"
  let ?b = "skip_dash (dropWhile re_space (drop (length kw) ?a))"
  have "HasPrefix s ''{{''" "r = drop 2 ?b"
    using m by (auto simp: match_tag_def Let_def split: if_splits)
  moreover have "length ?a \<le> length (drop 2 s)"
    using length_dropWhile_le skip_dash_length le_trans by blast
  moreover have "length ?b \<le> length ?a"
  proof -
    have "length ?b \<le> length (drop (length kw) ?a)"
      using length_dropWhile_le skip_dash_length le_trans by blast
    then show ?thesis by simp
  qed
  ultimately show ?thesis by (cases s) (auto simp: less_Suc_eq_le)
qed

lemma after_end_shorter: "after_end s = Some r \<Longrightarrow> length r < length s"
proof (induction s arbitrary: r rule: after_end.induct)
  case (1 s)
  show ?case
  proof (cases "match_tag ''end'' s")
    case None
    with 1 show ?thesis
      by (subst (asm) (2) after_end.simps) (auto split: list.splits intro: less_SucI)
  next
    case (Some q)
    with 1 have "q = r" by (simp add: after_end.simps [of s])
    with Some show ?thesis by (auto dest: match_tag_shorter)
  qed
qed

text \<open>\<^verbatim>\<open>templateElseBlockRE.ReplaceAll(data, nil)\<close>: from an else to the next end, whichever it belongs to.\<close>

function (sequential) strip_else :: "string \<Rightarrow> string" where
  "strip_else [] = []"
| "strip_else (c # cs) =
     (case match_tag ''else'' (c # cs) of
        None \<Rightarrow> c # strip_else cs
      | Some r \<Rightarrow> (case after_end r of None \<Rightarrow> c # strip_else cs | Some r' \<Rightarrow> strip_else r'))"
  by pat_completeness auto

termination
  by (relation "measure length") (auto dest!: match_tag_shorter after_end_shorter)

fun upto_close :: "string \<Rightarrow> (string \<times> string) option" where
  "upto_close s =
     (if HasPrefix s ''}}'' then Some ([], drop 2 s)
      else case s of [] \<Rightarrow> None | c # cs \<Rightarrow> map_option (\<lambda>(b, r). (c # b, r)) (upto_close cs))"

declare upto_close.simps [simp del]

lemma upto_close_shorter: "upto_close s = Some (b, r) \<Longrightarrow> length r < length s"
proof (induction s arbitrary: b r rule: upto_close.induct)
  case (1 s)
  then show ?case
    by (subst (asm) (2) upto_close.simps) (cases s; auto split: if_splits intro: less_SucI)
qed

text \<open>
  \<^verbatim>\<open>{{-?\s*.*?\s*-?}}\<close>: up to the next closing braces, when the text between them, without the
  dashes and the space around it, is on one line.
\<close>

definition one_line :: "string \<Rightarrow> bool" where
  "one_line body \<longleftrightarrow>
     (let b = dropWhile re_space (skip_dash body);
          b = dropWhile re_space (skip_dash (rev b))
      in CHR 0x0A \<notin> set b)"

function (sequential) strip_directives :: "string \<Rightarrow> string" where
  "strip_directives [] = []"
| "strip_directives (c # cs) =
     (if HasPrefix (c # cs) ''{{'' then
        (case upto_close (drop 2 (c # cs)) of
           None \<Rightarrow> c # strip_directives cs
         | Some (body, r) \<Rightarrow> if one_line body then strip_directives r else c # strip_directives cs)
      else c # strip_directives cs)"
  by pat_completeness auto

termination
  by (relation "measure length") (auto dest!: upto_close_shorter)

definition strip_BOM :: "string \<Rightarrow> string" where
  "strip_BOM data = TrimPrefix data [CHR 0xEF, CHR 0xBB, CHR 0xBF]"

definition cleaned_manifest :: "string \<Rightarrow> string" where
  "cleaned_manifest data = strip_directives (strip_else (strip_BOM data))"

end
