(* ===== verification/App_Charts.thy ===== *)
theory App_Charts
  imports Host_Ops Go_Net Go_Codec App_Types App_Paths Pkg_Config Mk_Text
begin

text \<open>
  The part of \<^verbatim>\<open>internal/appservice\<close> that works on the charts of apps and on the cluster: \<^verbatim>\<open>chartdownload.go\<close>,
  \<^verbatim>\<open>chartrewrite.go\<close>, \<^verbatim>\<open>imagepull.go\<close>, \<^verbatim>\<open>imagecleanup.go\<close>, \<^verbatim>\<open>helm.go\<close>, \<^verbatim>\<open>netpolicy.go\<close>, \<^verbatim>\<open>k8s.go\<close>, and the
  values that \<^verbatim>\<open>service.go\<close> gives to a chart. The operations are programs on the host (\<open>Host_Ops\<close>); in the
  answer to \<^term>\<open>HReadDir\<close> the name of a directory ends in a slash. Decoders, digests and the iteration
  order of a Go map are parameters; images are pulled in the order of their list, log lines are left out.
\<close>

text \<open>
  A YAML document is a \<^typ>\<open>yaml\<close>; a map whose keys are no strings is the map \<^verbatim>\<open>toStringMap\<close> makes of it.
  \<open>ah_index\<close>: the entries of a repository index in iteration order, each with the URLs of its versions;
  \<open>ah_scaled\<close>: \<^verbatim>\<open>int64(f * n)\<close> for the number that a text denotes; \<open>ah_age\<close>: the age of a creation time.
\<close>

record app_host =
  ah_machine :: machine
  ah_ctx :: ctx
  ah_namespace :: string
  ah_owner :: string
  ah_chartRepo :: string
  ah_yaml :: "string \<Rightarrow> (string \<times> yaml) list option"
  ah_yaml_text :: "(string \<times> yaml) list \<Rightarrow> string"
  ah_manifest :: "string \<Rightarrow> AppConfiguration"
  ah_index :: "string \<Rightarrow> (string \<times> string list list) list option"
  ah_chart_meta :: "string \<Rightarrow> (string \<times> string) option"
  ah_md5 :: "string \<Rightarrow> string"
  ah_set_order :: "string list \<Rightarrow> string list"
  ah_scaled :: "string \<Rightarrow> int \<Rightarrow> int option"
  ah_age :: "string \<Rightarrow> string"
  ah_json_text :: "jval \<Rightarrow> string"
  ah_json :: "string \<Rightarrow> jval option"

definition getenv :: "app_host \<Rightarrow> string \<Rightarrow> string" where
  "getenv A k = cx_env (ah_ctx A) k"

definition is_dir_entry :: "string \<Rightarrow> bool" where
  "is_dir_entry e \<longleftrightarrow> e \<noteq> [] \<and> last e = slash"

definition entry_name :: "string \<Rightarrow> string" where
  "entry_name e = TrimSuffix e ''/''"

definition not_exist :: "string \<Rightarrow> bool" where
  "not_exist e \<longleftrightarrow> HasSuffix e ''no such file or directory''"

text \<open>\<^verbatim>\<open>exec.Command(args...).Output()\<close>: the output, or \<^term>\<open>None\<close> with an error.\<close>

definition output_of :: "app_host \<Rightarrow> string list \<Rightarrow> string option act" where
  "output_of A args = attempt (run (ah_machine A) args) (\<lambda>r. ret (case r of Inl _ \<Rightarrow> None | Inr t \<Rightarrow> Some t))"

definition quietly :: "app_host \<Rightarrow> string list \<Rightarrow> unit act" where
  "quietly A args = ignoring (run (ah_machine A) args) (ret ())"

text \<open>The nonempty trimmed lines of a text.\<close>

definition nonblank_lines :: "string \<Rightarrow> string list" where
  "nonblank_lines t = filter (\<lambda>l. l \<noteq> []) (map TrimSpace (split_on (CHR 0x0A) (TrimSpace t)))"

subsection \<open>Values\<close>

text \<open>Missing keys are added, maps are merged, and everything else that is there stays.\<close>

fun deepMergeUnder :: "(string \<times> yaml) list \<Rightarrow> (string \<times> yaml) list \<Rightarrow> (string \<times> yaml) list" where
  "deepMergeUnder dst [] = dst"
| "deepMergeUnder dst ((key, srcVal) # src) =
     deepMergeUnder
       (case map_of dst key of
          None \<Rightarrow> AList.update key srcVal dst
        | Some dstVal \<Rightarrow>
            (case srcVal of
               YMap srcMap \<Rightarrow>
                 (case dstVal of
                    YMap dstMap \<Rightarrow> AList.update key (YMap (deepMergeUnder dstMap srcMap)) dst
                  | _ \<Rightarrow> dst)
             | _ \<Rightarrow> dst)) src"

definition injectValuesYaml :: "app_host \<Rightarrow> string \<Rightarrow> (string \<times> yaml) list \<Rightarrow> unit act" where
  "injectValuesYaml A chartDir overrides =
     (let valuesPath = PathJoin chartDir ''values.yaml''; M = ah_machine A in
      attempt (call M (HRead valuesPath)) (\<lambda>r.
      chk [] (case r of
          Inl e \<Rightarrow> if not_exist e then ret [] else fail (''read values.yaml: '' @ e)
        | Inr data \<Rightarrow> (case ah_yaml A data of None \<Rightarrow> fail ''parse values.yaml'' | Some m \<Rightarrow> ret m)) (\<lambda>existing.
      chk ''write values.yaml: '' (call M (HWrite valuesPath (ah_yaml_text A (deepMergeUnder existing overrides)) 420)) (\<lambda>_. ret ()))))"

definition no_subcharts :: "string list" where
  "no_subcharts = [''templates'', ''charts'', ''crds'', ''i18n'', ''ci'']"

fun find_subcharts :: "app_host \<Rightarrow> string \<Rightarrow> string list \<Rightarrow> string list act" where
  "find_subcharts A chartDir [] = ret []"
| "find_subcharts A chartDir (e # es) =
     (if \<not> is_dir_entry e \<or> entry_name e \<in> set no_subcharts then find_subcharts A chartDir es
      else chk [] (succeeds (call (ah_machine A) (HStat (PathJoin (PathJoin chartDir (entry_name e)) ''Chart.yaml'')))) (\<lambda>ok.
           chk [] (find_subcharts A chartDir es) (\<lambda>l. ret (if ok then entry_name e # l else l))))"

definition restructureSubcharts :: "app_host \<Rightarrow> string \<Rightarrow> unit act" where
  "restructureSubcharts A chartDir =
     (let M = ah_machine A; chartsSubdir = PathJoin chartDir ''charts'' in
      attempt (names M (HReadDir chartDir)) (\<lambda>r. case r of
         Inl _ \<Rightarrow> ret ()
       | Inr es \<Rightarrow>
           chk [] (find_subcharts A chartDir es) (\<lambda>subcharts.
           if subcharts = [] then ret ()
           else attempt (call M (HMkdir chartsSubdir 493)) (\<lambda>r. case r of
               Inl _ \<Rightarrow> ret ()
             | Inr _ \<Rightarrow> run_all M (map (\<lambda>n. HRename (PathJoin chartDir n) (PathJoin chartsSubdir n)) subcharts)))))"

subsection \<open>Download of a chart\<close>

definition chartCacheDir :: string where
  "chartCacheDir = ''/tmp/charts''"

definition NewChartDownloader :: "app_host \<Rightarrow> string" where
  "NewChartDownloader A = (let r = getenv A ''LOCAL_CHART_REPO'' in if r = [] then ''http://market-backend:6756'' else r)"

definition http_get :: "app_host \<Rightarrow> string \<Rightarrow> string \<Rightarrow> (nat \<Rightarrow> string) \<Rightarrow> string act" where
  "http_get A url failing status =
     chk [] (ask (ah_machine A) (HHttp ''GET'' url [] None)) (\<lambda>a. case a of
        HErr _ e \<Rightarrow> fail (failing @ e)
      | HStatus n body \<Rightarrow> if n \<noteq> 200 then fail (status n) else ret body
      | _ \<Rightarrow> ret (text_of a))"

text \<open>The first entry with a version and a URL whose name is the app's or starts with it and a dash.\<close>

fun chart_url :: "string \<Rightarrow> (string \<times> string list list) list \<Rightarrow> string option" where
  "chart_url appName [] = None"
| "chart_url appName ((entryName, versions) # es) =
     (if entryName = appName \<or> HasPrefix entryName (appName @ ''-'') then
        (case versions of (url # _) # _ \<Rightarrow> Some url | _ \<Rightarrow> chart_url appName es)
      else chart_url appName es)"

definition findChartInIndex :: "app_host \<Rightarrow> string \<Rightarrow> string \<Rightarrow> string act" where
  "findChartInIndex A repoURL appName =
     chk [] (http_get A (TrimSuffix repoURL ''/'' @ ''/charts/index.yaml'') ''fetch index.yaml: ''
               (\<lambda>n. ''index.yaml returned '' @ nat_str n)) (\<lambda>body.
     case ah_index A (take 10485760 body) of
       None \<Rightarrow> fail ''parse index.yaml''
     | Some es \<Rightarrow> (case chart_url appName es of
         None \<Rightarrow> fail (''chart '' @ quoted appName @ '' not found in repo index'')
       | Some url \<Rightarrow> ret url))"

definition downloadFile :: "app_host \<Rightarrow> string \<Rightarrow> string \<Rightarrow> unit act" where
  "downloadFile A url destPath =
     chk [] (http_get A url (''fetch '' @ url @ '': '') (\<lambda>n. ''download '' @ url @ '': status '' @ nat_str n)) (\<lambda>body.
     create_file (ah_machine A) destPath body (''create '' @ destPath @ '': '') (''write '' @ destPath @ '': ''))"

text \<open>
  The answer to \<^term>\<open>HUntar f\<close>: type, name and content of each entry, then the error that ended the
  reading, if one did.
\<close>

fun tar_entries :: "string list \<Rightarrow> (string \<times> string \<times> string) list \<times> string option" where
  "tar_entries (t # n # d # rest) = (case tar_entries rest of (es, e) \<Rightarrow> ((t, n, d) # es, e))"
| "tar_entries [e] = ([], Some e)"
| "tar_entries _ = ([], None)"

fun unpack_entries :: "machine \<Rightarrow> string \<Rightarrow> (string \<times> string \<times> string) list \<Rightarrow> unit act" where
  "unpack_entries M destDir [] = ret ()"
| "unpack_entries M destDir ((t, n, d) # es) =
     (let target = PathJoin destDir n in
      if \<not> withinRoot target destDir then unpack_entries M destDir es
      else chk [] (if t = ''5'' then chk [] (call M (HMkdir target 493)) (\<lambda>_. ret ())
                   else if t = ''0'' then
                     chk [] (call M (HMkdir (Dir target) 493)) (\<lambda>_. create_file M target d [] [])
                   else ret ()) (\<lambda>_. unpack_entries M destDir es))"

definition unpackTGZ :: "app_host \<Rightarrow> string \<Rightarrow> string \<Rightarrow> unit act" where
  "unpackTGZ A tgzPath destDir =
     chk [] (names (ah_machine A) (HUntar tgzPath)) (\<lambda>ns. case tar_entries ns of (es, e) \<Rightarrow>
     chk [] (unpack_entries (ah_machine A) destDir es) (\<lambda>_. case e of None \<Rightarrow> ret () | Some e \<Rightarrow> fail (''tar read: '' @ e)))"

fun first_chart_dir :: "app_host \<Rightarrow> string \<Rightarrow> string list \<Rightarrow> string act" where
  "first_chart_dir A destDir [] = fail (''no Chart.yaml found in '' @ destDir @ '' or its subdirectories'')"
| "first_chart_dir A destDir (e # es) =
     (if is_dir_entry e then
        (let subDir = PathJoin destDir (entry_name e) in
         chk [] (succeeds (call (ah_machine A) (HStat (PathJoin subDir ''Chart.yaml'')))) (\<lambda>ok.
         if ok then ret subDir else first_chart_dir A destDir es))
      else first_chart_dir A destDir es)"

definition findChartDir :: "app_host \<Rightarrow> string \<Rightarrow> string act" where
  "findChartDir A destDir =
     chk [] (succeeds (call (ah_machine A) (HStat (PathJoin destDir ''Chart.yaml'')))) (\<lambda>ok.
     if ok then ret destDir
     else chk [] (names (ah_machine A) (HReadDir destDir)) (first_chart_dir A destDir))"

text \<open>A step of the download; on an error the directory is removed again.\<close>

definition or_remove :: "machine \<Rightarrow> string \<Rightarrow> string \<Rightarrow> 'a act \<Rightarrow> ('a \<Rightarrow> 'b act) \<Rightarrow> 'b act" where
  "or_remove M dir msg m k = attempt m (\<lambda>r. case r of
       Inl e \<Rightarrow> ignoring (call M (HRemoveAll dir)) (fail (msg @ e))
     | Inr a \<Rightarrow> k a)"

definition name_message :: "name_error \<Rightarrow> string" where
  "name_message e = (case e of
     NameRequired \<Rightarrow> ''name is required''
   | NameTooLong n \<Rightarrow> ''name '' @ quoted n @ '' is too long (max 63 characters)''
   | NameInvalid n \<Rightarrow> ''invalid name '' @ quoted n @ '': expected lowercase alphanumerics and dashes'')"

definition path_message :: "path_error \<Rightarrow> string" where
  "path_message e = (case e of BadName n \<Rightarrow> name_message n | OutsideRoot n \<Rightarrow> ''invalid name '' @ quoted n)"

definition DownloadChartFromRepo :: "app_host \<Rightarrow> string \<Rightarrow> string \<Rightarrow> string \<Rightarrow> string act" where
  "DownloadChartFromRepo A chartRepoURL appName destDir =
     (let M = ah_machine A in
      if \<not> withinRoot destDir chartCacheDir \<or> Clean destDir = Clean chartCacheDir then
        fail (''refusing to use chart dir '' @ quoted destDir @ '' outside '' @ chartCacheDir)
      else case ValidateAppName appName of
        Inl e \<Rightarrow> fail (name_message e)
      | Inr _ \<Rightarrow>
          ignoring (call M (HRemoveAll destDir))
           (chk (''create chart dir '' @ destDir @ '': '') (call M (HMkdir destDir 493)) (\<lambda>_.
            or_remove M destDir (''find chart '' @ appName @ '' in repo index: '') (findChartInIndex A chartRepoURL appName) (\<lambda>url.
            let chartURL = (if HasPrefix url ''http'' then url else TrimSuffix chartRepoURL ''/'' @ ''/charts/'' @ url);
                tgzPath = PathJoin destDir (appName @ ''.tgz'') in
            or_remove M destDir (''download chart tgz '' @ appName @ '': '') (downloadFile A chartURL tgzPath) (\<lambda>_.
            or_remove M destDir (''unpack chart '' @ appName @ '': '') (unpackTGZ A tgzPath destDir) (\<lambda>_.
            ignoring (call M (HRemove tgzPath))
             (or_remove M destDir (''find chart dir for '' @ appName @ '': '') (findChartDir A destDir) ret)))))))"

definition DownloadChart :: "app_host \<Rightarrow> string \<Rightarrow> string act" where
  "DownloadChart A appName = (case childPath chartCacheDir appName of
       Inl e \<Rightarrow> fail (path_message e)
     | Inr destDir \<Rightarrow>
         chk (''chart '' @ appName @ '' not found in local catalog: '')
           (DownloadChartFromRepo A (ah_chartRepo A) appName destDir) ret)"

definition CleanupChart :: "app_host \<Rightarrow> string \<Rightarrow> unit act" where
  "CleanupChart A appName = (case childPath chartCacheDir appName of
       Inl _ \<Rightarrow> ret ()
     | Inr dir \<Rightarrow> ignoring (call (ah_machine A) (HRemoveAll dir)) (ret ()))"

definition olares_manifest_files :: "string list" where
  "olares_manifest_files = [''OlaresManifest.yaml'', ''TerminusManifest.yaml'']"

fun read_first :: "machine \<Rightarrow> string list \<Rightarrow> string option act" where
  "read_first M [] = ret None"
| "read_first M (p # ps) = attempt (call M (HRead p)) (\<lambda>r. case r of Inr d \<Rightarrow> ret (Some d) | Inl _ \<Rightarrow> read_first M ps)"

definition named_manifest :: "AppConfiguration \<Rightarrow> string \<Rightarrow> AppConfiguration" where
  "named_manifest m chartDir =
     (if md_Name (mf_Metadata m) = [] then m\<lparr>mf_Metadata := (mf_Metadata m)\<lparr>md_Name := Base chartDir\<rparr>\<rparr> else m)"

definition ParseOlaresManifest :: "app_host \<Rightarrow> string \<Rightarrow> AppConfiguration act" where
  "ParseOlaresManifest A chartDir =
     chk [] (read_first (ah_machine A) (map (PathJoin chartDir) olares_manifest_files)) (\<lambda>d. case d of
        None \<Rightarrow> fail (''no OlaresManifest.yaml or TerminusManifest.yaml in '' @ chartDir)
      | Some data \<Rightarrow> ret (named_manifest (ah_manifest A (cleaned_manifest data)) chartDir))"

definition ParseChartMetadata :: "app_host \<Rightarrow> string \<Rightarrow> (string \<times> string) act" where
  "ParseChartMetadata A chartDir =
     chk ''read Chart.yaml: '' (call (ah_machine A) (HRead (PathJoin chartDir ''Chart.yaml''))) (\<lambda>d.
     case ah_chart_meta A d of None \<Rightarrow> fail ''parse Chart.yaml'' | Some v \<Rightarrow> ret v)"

subsection \<open>Passwords and environment of an app\<close>

definition password_chars :: string where
  "password_chars = ''abcdefghijklmnopqrstuvwxyzABCDEFGHIJKLMNOPQRSTUVWXYZ0123456789''"

definition password_char :: "char \<Rightarrow> char" where
  "password_char b = password_chars ! (of_char b mod length password_chars)"

text \<open>Without random bytes: the digest of the name and the clock, which is asked as a measure.\<close>

definition generateAppPassword :: "app_host \<Rightarrow> string \<Rightarrow> string act" where
  "generateAppPassword A appName =
     attempt (call (ah_machine A) (HRandom 14)) (\<lambda>r. case r of
        Inr b \<Rightarrow> ret (map password_char b @ ''!A'')
      | Inl _ \<Rightarrow>
          chk [] (ask (ah_machine A) (HMeasure ''UnixNano'')) (\<lambda>t.
          ret (take 14 (ah_md5 A (appName @ text_of t)) @ ''!A'')))"

fun manifest_env :: "app_host \<Rightarrow> string \<Rightarrow> string \<Rightarrow> ManifestEnv list \<Rightarrow> (string \<times> string) list \<Rightarrow> (string \<times> string) list act" where
  "manifest_env A appName zone [] vars = ret vars"
| "manifest_env A appName zone (e # es) vars =
     (let k = me_EnvName e; go_on = manifest_env A appName zone es in
      if k \<in> fst ` set vars then go_on vars
      else if me_Type e = ''password'' then
        chk [] (generateAppPassword A (appName @ ''-'' @ k)) (\<lambda>p. go_on (AList.update k p vars))
      else if me_Type e = ''email'' then go_on (AList.update k (ah_owner A @ ''@'' @ zone) vars)
      else if me_Type e = ''string'' \<and> (Contains (ToUpper k) ''USER'' \<or> Contains (ToUpper k) ''NAME'')
        then go_on (AList.update k (ah_owner A) vars)
      else go_on vars)"

definition buildOlaresEnv :: "app_host \<Rightarrow> string \<Rightarrow> string \<Rightarrow> AppConfiguration option \<Rightarrow> (string \<times> string) list act" where
  "buildOlaresEnv A appName zone manifest =
     chk [] (generateAppPassword A appName) (\<lambda>admin.
     chk [] (generateAppPassword A (appName @ ''-unique'')) (\<lambda>unique.
     manifest_env A appName zone (case manifest of None \<Rightarrow> [] | Some m \<Rightarrow> mf_Envs m)
       [(''OLARES_USER_HUGGINGFACE_SERVICE'', getenv A ''OLARES_USER_HUGGINGFACE_SERVICE''),
        (''OLARES_USER_HUGGINGFACE_TOKEN'', getenv A ''OLARES_USER_HUGGINGFACE_TOKEN''),
        (''ADMIN_USERNAME'', ah_owner A), (''ADMIN_PASSWORD'', admin), (''UNIQUE_PASS'', unique),
        (''OLARES_USER_TIMEZONE'', getenv A ''TZ'')]))"

subsection \<open>The database of an app\<close>

definition psql :: "app_host \<Rightarrow> string list \<Rightarrow> string list" where
  "psql A args = [''kubectl'', ''exec'', ''-n'', ''os-system'', ''citus-coordinator-0'', ''--'', ''psql'', ''-U'', CitusUser (ah_ctx A),
     ''-d'', ''postgres''] @ args"

definition citusQuery :: "app_host \<Rightarrow> string \<Rightarrow> string act" where
  "citusQuery A sql =
     chk [] (ask (ah_machine A) (HRun (psql A [''-tAc'', sql]) None)) (\<lambda>a. case error_of a of
        Some e \<Rightarrow> fail (TrimSpace (text_of a) @ '' ('' @ e @ '')'')
      | None \<Rightarrow> ret (TrimSpace (text_of a)))"

definition citusExec :: "app_host \<Rightarrow> string \<Rightarrow> unit act" where
  "citusExec A sql =
     chk [] (ask (ah_machine A) (HRun (psql A [''-c'', sql]) None)) (\<lambda>a. case error_of a of
        Some e \<Rightarrow> fail (TrimSpace (text_of a) @ '' ('' @ e @ '')'')
      | None \<Rightarrow> ret ())"

definition sql_name :: "string \<Rightarrow> bool" where
  "sql_name n \<longleftrightarrow> list_all (\<lambda>c. is_alnum c \<or> c = CHR ''_'') n"

definition user_sql :: "string \<Rightarrow> string \<Rightarrow> string" where
  "user_sql u p =
     ''DO $$ BEGIN IF NOT EXISTS (SELECT FROM pg_roles WHERE rolname='' @ squote @ u @ squote @ '') THEN CREATE ROLE '' @
     dquote @ u @ dquote @ '' LOGIN PASSWORD '' @ squote @ p @ squote @ ''; ELSE ALTER ROLE '' @ dquote @ u @ dquote @
     '' PASSWORD '' @ squote @ p @ squote @ ''; END IF; END $$;''"

definition check_db_sql :: "string \<Rightarrow> string" where
  "check_db_sql db = ''SELECT 1 FROM pg_database WHERE datname='' @ squote @ db @ squote"

definition owner_sql :: "string \<Rightarrow> string \<Rightarrow> string" where
  "owner_sql db u = ''ALTER DATABASE '' @ dquote @ db @ dquote @ '' OWNER TO '' @ dquote @ u @ dquote"

definition create_db_sql :: "string \<Rightarrow> string \<Rightarrow> string" where
  "create_db_sql db u = ''CREATE DATABASE '' @ dquote @ db @ dquote @ '' OWNER '' @ dquote @ u @ dquote"

definition ensureCitusUserAndDB :: "app_host \<Rightarrow> string \<Rightarrow> string \<Rightarrow> string \<Rightarrow> unit act" where
  "ensureCitusUserAndDB A username password dbName =
     (if \<not> sql_name username then fail (''invalid name: '' @ username)
      else if \<not> sql_name dbName then fail (''invalid name: '' @ dbName)
      else
        chk (''create user '' @ username @ '': '') (citusExec A (user_sql username password)) (\<lambda>_.
        attempt (citusQuery A (check_db_sql dbName)) (\<lambda>r.
        if (case r of Inl _ \<Rightarrow> False | Inr out \<Rightarrow> TrimSpace out = ''1'')
          then ignoring (citusExec A (owner_sql dbName username)) (ret ())
        else chk (''create database '' @ dbName @ '': '') (citusExec A (create_db_sql dbName username)) (\<lambda>_. ret ()))))"

definition postgres_template :: "string \<Rightarrow> bool" where
  "postgres_template content \<longleftrightarrow>
     Contains content ''kind: Deployment'' \<and> Contains content ''image:'' \<and>
     (Contains content ''postgres:'' \<or> Contains content ''pgvector/pgvector:'' \<or> Contains content ''bitnami/postgresql:'')"

fun some_template :: "machine \<Rightarrow> string list \<Rightarrow> bool act" where
  "some_template M [] = ret False"
| "some_template M (t # ts) = attempt (call M (HRead t)) (\<lambda>r. case r of
       Inr content \<Rightarrow> if postgres_template content then ret True else some_template M ts
     | Inl _ \<Rightarrow> some_template M ts)"

definition hasPostgresTemplate :: "app_host \<Rightarrow> string \<Rightarrow> bool act" where
  "hasPostgresTemplate A chartDir =
     chk [] (or_else [] (names (ah_machine A) (HGlob (PathJoin (PathJoin chartDir ''templates'') ''*.yaml'')))) (some_template (ah_machine A))"

definition default_provision :: "app_host \<Rightarrow> string \<Rightarrow> PostgresProvision" where
  "default_provision A appName =
     (let cx = ah_ctx A in
      \<lparr>pp_Host = CitusHost cx, pp_Port = CitusPort cx, pp_Username = CitusUser cx, pp_Password = CitusPassword cx,
       pp_DBName = appName, pp_DataPath = ''/packalares/Apps/appcache/postgres/'' @ appName, pp_Mode = ''citus''\<rparr>)"

definition provisionPostgres :: "app_host \<Rightarrow> string \<Rightarrow> string \<Rightarrow> AppConfiguration option \<Rightarrow> PostgresProvision act" where
  "provisionPostgres A appName chartDir manifest =
     (let d = default_provision A appName in
      chk [] (hasPostgresTemplate A chartDir) (\<lambda>template.
      if template then ret (d\<lparr>pp_Mode := ''template''\<rparr>)
      else case Option.bind manifest mf_Postgres of
        None \<Rightarrow> ret d
      | Some pg \<Rightarrow>
          (let dbName = (case mp_Databases pg of e # _ \<Rightarrow> if db_Name e \<noteq> [] then db_Name e else appName | [] \<Rightarrow> appName);
               d = d\<lparr>pp_DBName := dbName\<rparr>;
               d = (if mp_Standalone pg then d\<lparr>pp_Mode := ''standalone''\<rparr> else d);
               pgUser = (if mp_Username pg = [] then appName else mp_Username pg) in
           chk [] (generateAppPassword A (appName @ ''-pg'')) (\<lambda>pgPass.
           attempt (ensureCitusUserAndDB A pgUser pgPass dbName) (\<lambda>r. case r of
              Inl _ \<Rightarrow> ret d
            | Inr _ \<Rightarrow> ret ((default_provision A appName)\<lparr>pp_Username := pgUser, pp_Password := pgPass, pp_DBName := dbName\<rparr>))))))"

subsection \<open>The values given to a chart\<close>

definition ystrs :: "(string \<times> string) list \<Rightarrow> yaml" where
  "ystrs kvs = YMap (map (\<lambda>(k, v). (k, YStr v)) kvs)"

definition server_values :: "string \<Rightarrow> string \<Rightarrow> string \<Rightarrow> string \<Rightarrow> string \<Rightarrow> string \<Rightarrow> yaml" where
  "server_values dbs host port user pass db =
     YMap [(''host'', YStr host), (''port'', YStr port), (''username'', YStr user), (''password'', YStr pass),
       (dbs, ystrs [(db, db)])]"

definition domain_step :: "string \<Rightarrow> string \<Rightarrow> (string \<times> string) list \<Rightarrow> Entrance \<Rightarrow> (string \<times> string) list" where
  "domain_step appName zone m e =
     (let eName = (if en_Name e = [] then appName else en_Name e) in AList.update eName (eName @ ''.'' @ zone) m)"

definition domainMap :: "string \<Rightarrow> string \<Rightarrow> AppConfiguration option \<Rightarrow> (string \<times> string) list" where
  "domainMap appName zone manifest =
     (let m = (case manifest of None \<Rightarrow> [] | Some c \<Rightarrow> foldl (domain_step appName zone) [] (mf_Entrances c)) in
      if appName \<in> fst ` set m then m else AList.update appName (appName @ ''.'' @ zone) m)"

definition other_databases :: "PostgresProvision \<Rightarrow> (string \<times> yaml) list" where
  "other_databases pg =
     (let db = pp_DBName pg in
      [(''mysql'', server_values ''databases'' (pp_Host pg) ''3306'' (pp_Username pg) (pp_Password pg) db),
       (''mongodb'', server_values ''databases'' [] ''27017'' [] [] db),
       (''mariadb'', server_values ''databases'' (pp_Host pg) ''3306'' (pp_Username pg) (pp_Password pg) db),
       (''minio'', server_values ''buckets'' [] ''9000'' [] [] db)])"

definition redis_values :: "app_host \<Rightarrow> yaml" where
  "redis_values A = ystrs [(''host'', KVRocksHost (ah_ctx A)), (''port'', KVRocksPort (ah_ctx A)), (''password'', getenv A ''REDIS_PASSWORD'')]"

definition userspace_values :: yaml where
  "userspace_values = ystrs [(''appData'', ''/packalares/Apps/appdata''), (''appCache'', ''/packalares/Apps/appcache''), (''userData'', ''/packalares/data'')]"

definition os_values :: "app_host \<Rightarrow> string \<Rightarrow> yaml" where
  "os_values A appID = ystrs [(''appKey'', appID), (''appSecret'', take 16 (ah_md5 A (appID @ ''secret'')))]"

definition postgres_values :: "PostgresProvision \<Rightarrow> yaml" where
  "postgres_values pg = server_values ''databases'' (pp_Host pg) (pp_Port pg) (pp_Username pg) (pp_Password pg) (pp_DBName pg)"

definition middleware_values :: "app_host \<Rightarrow> PostgresProvision \<Rightarrow> yaml" where
  "middleware_values A pg =
     YMap [(''postgres'', ystrs [(''host'', pp_Host pg), (''port'', pp_Port pg), (''username'', pp_Username pg),
              (''password'', pp_Password pg), (''dataPath'', pp_DataPath pg)]),
           (''redis'', redis_values A)]"

definition chart_values ::
    "app_host \<Rightarrow> string \<Rightarrow> string \<Rightarrow> string \<Rightarrow> AppConfiguration option \<Rightarrow> PostgresProvision \<Rightarrow> (string \<times> string) list \<Rightarrow> (string \<times> yaml) list" where
  "chart_values A appName appID zone manifest pg vars =
     [(''bfl'', ystrs [(''username'', ah_owner A)]), (''admin'', YStr (ah_owner A)), (''user'', ystrs [(''zone'', zone)]),
      (''domain'', ystrs (domainMap appName zone manifest)), (''namespace'', YStr (ah_namespace A)), (''sysVersion'', YStr ''1.12.0''),
      (''userspace'', userspace_values), (''os'', os_values A appID),
      (''dep'', YMap [(''namespace'', YStr (ah_namespace A)), (''middleware'', middleware_values A pg)]),
      (''postgres'', postgres_values pg), (''redis'', redis_values A), (''appName'', YStr appName), (''olaresEnv'', ystrs vars),
      (''sharedlib'', YStr ''/packalares/Apps/sharedlib''), (''downloadCdnURL'', YStr ''https://cdn.olares.com''),
      (''gpu'', YStr []), (''GPU'', YMap [])] @ other_databases pg"

definition subchart_values ::
    "app_host \<Rightarrow> string \<Rightarrow> string \<Rightarrow> string \<Rightarrow> AppConfiguration option \<Rightarrow> PostgresProvision \<Rightarrow> (string \<times> yaml) list" where
  "subchart_values A appName appID zone manifest pg =
     [(''domain'', ystrs (domainMap appName zone manifest)), (''admin'', YStr (ah_owner A)), (''namespace'', YStr (ah_namespace A)),
      (''bfl'', ystrs [(''username'', ah_owner A)]), (''user'', ystrs [(''zone'', zone)]), (''userspace'', userspace_values),
      (''postgres'', postgres_values pg), (''redis'', redis_values A),
      (''olaresEnv'', ystrs [(''OLARES_USER_HUGGINGFACE_SERVICE'', getenv A ''OLARES_USER_HUGGINGFACE_SERVICE''),
         (''OLARES_USER_HUGGINGFACE_TOKEN'', getenv A ''OLARES_USER_HUGGINGFACE_TOKEN'')]),
      (''sharedlib'', YStr ''/packalares/Apps/sharedlib''), (''downloadCdnURL'', YStr ''https://cdn.olares.com''),
      (''gpu'', YStr []), (''GPU'', YMap []), (''os'', os_values A appID)] @ other_databases pg"

fun inject_subcharts :: "app_host \<Rightarrow> string \<Rightarrow> (string \<times> yaml) list \<Rightarrow> string list \<Rightarrow> unit act" where
  "inject_subcharts A dir vals [] = ret ()"
| "inject_subcharts A dir vals (e # es) =
     (if is_dir_entry e then ignoring (injectValuesYaml A (PathJoin dir (entry_name e)) vals) (inject_subcharts A dir vals es)
      else inject_subcharts A dir vals es)"

subsection \<open>Helm\<close>

definition helm_run :: "app_host \<Rightarrow> string list \<Rightarrow> unit act" where
  "helm_run A args =
     chk (''helm '' @ hd args @ '': '') (run_with '': '' (ah_machine A) (''helm'' # args) None) (\<lambda>_. ret ())"

definition helm_set :: "(string \<times> string) list \<Rightarrow> string list" where
  "helm_set values = concat (map (\<lambda>(k, v). [''--set'', k @ ''='' @ v]) values)"

definition helm_version :: "string \<Rightarrow> string list" where
  "helm_version v = (if v = [] then [] else [''--version'', v])"

definition HelmInstall :: "app_host \<Rightarrow> string \<Rightarrow> string \<Rightarrow> (string \<times> string) list \<Rightarrow> string \<Rightarrow> unit act" where
  "HelmInstall A releaseName chartRef values version =
     helm_run A ([''install'', releaseName, chartRef, ''--namespace'', ah_namespace A, ''--create-namespace'', ''--wait'', ''--timeout'', ''10m''] @
       helm_version version @ helm_set values)"

definition InstallFromDir :: "app_host \<Rightarrow> string \<Rightarrow> string \<Rightarrow> string \<Rightarrow> unit act" where
  "InstallFromDir A releaseName chartDir namespace =
     helm_run A [''install'', releaseName, chartDir, ''--namespace'', namespace, ''--create-namespace'']"

definition HelmUninstall :: "app_host \<Rightarrow> string \<Rightarrow> unit act" where
  "HelmUninstall A releaseName = helm_run A [''uninstall'', releaseName, ''--namespace'', ah_namespace A]"

definition HelmUpgrade :: "app_host \<Rightarrow> string \<Rightarrow> string \<Rightarrow> (string \<times> string) list \<Rightarrow> string \<Rightarrow> unit act" where
  "HelmUpgrade A releaseName chartRef values version =
     helm_run A ([''upgrade'', releaseName, chartRef, ''--namespace'', ah_namespace A, ''--wait'', ''--timeout'', ''10m''] @
       helm_version version @ helm_set values)"

definition AddRepo :: "app_host \<Rightarrow> string \<Rightarrow> string \<Rightarrow> unit act" where
  "AddRepo A name url = helm_run A [''repo'', ''add'', name, url]"

definition UpdateRepo :: "app_host \<Rightarrow> string \<Rightarrow> unit act" where
  "UpdateRepo A name = helm_run A [''repo'', ''update'', name]"

record HelmRelease =
  hrName :: string
  hrNamespace :: string
  hrRevision :: string
  hrUpdated :: string
  hrStatus :: string
  hrChart :: string
  hrAppVersion :: string

definition decode_release :: "jval \<Rightarrow> HelmRelease option" where
  "decode_release j = do {
     n \<leftarrow> field_str ''name'' (Some j); ns \<leftarrow> field_str ''namespace'' (Some j); r \<leftarrow> field_str ''revision'' (Some j);
     u \<leftarrow> field_str ''updated'' (Some j); s \<leftarrow> field_str ''status'' (Some j); c \<leftarrow> field_str ''chart'' (Some j);
     v \<leftarrow> field_str ''app_version'' (Some j);
     Some \<lparr>hrName = n, hrNamespace = ns, hrRevision = r, hrUpdated = u, hrStatus = s, hrChart = c, hrAppVersion = v\<rparr> }"

fun decode_list :: "(jval \<Rightarrow> 'a option) \<Rightarrow> jval list \<Rightarrow> 'a list option" where
  "decode_list f [] = Some []"
| "decode_list f (j # js) = do { a \<leftarrow> f j; l \<leftarrow> decode_list f js; Some (a # l) }"

definition ListReleases :: "app_host \<Rightarrow> HelmRelease list act" where
  "ListReleases A =
     chk ''helm list: '' (run (ah_machine A) [''helm'', ''list'', ''--all-namespaces'', ''--output'', ''json'']) (\<lambda>out.
     case ah_json A out of
       Some (JArr js) \<Rightarrow> (case decode_list decode_release js of None \<Rightarrow> fail ''parse helm output'' | Some rs \<Rightarrow> ret rs)
     | Some JNull \<Rightarrow> ret []
     | _ \<Rightarrow> fail ''parse helm output'')"

text \<open>The image of a line of a manifest, without its quotes.\<close>

definition manifest_image :: "string \<Rightarrow> string option" where
  "manifest_image l =
     (let line = TrimSpace l in
      if HasPrefix line ''image:'' \<or> HasPrefix line ''- image:'' then
        (let img = TrimCut (TrimSpace (TrimPrefix (TrimPrefix line ''- image:'') ''image:'')) quotes in
         if img = [] then None else Some img)
      else None)"

definition GetImagesFromManifest :: "app_host \<Rightarrow> string \<Rightarrow> string list act" where
  "GetImagesFromManifest A releaseName =
     chk [] (output_of A [''helm'', ''get'', ''manifest'', releaseName, ''--namespace'', ah_namespace A]) (\<lambda>out. case out of
        None \<Rightarrow> ret []
      | Some t \<Rightarrow> ret (ah_set_order A (remdups (List.map_filter manifest_image (split_on (CHR 0x0A) t)))))"

subsection \<open>Images\<close>

definition image_first :: "string \<Rightarrow> bool" where
  "image_first s \<longleftrightarrow> s \<noteq> [] \<and> is_alnum (hd s) \<and> list_all (\<lambda>c. is_alnum c \<or> c = CHR ''-'' \<or> c = CHR ''.'') s"

definition image_part :: "string \<Rightarrow> bool" where
  "image_part s \<longleftrightarrow> s \<noteq> [] \<and> list_all (\<lambda>c. is_alnum c \<or> c = CHR ''-'' \<or> c = CHR ''.'' \<or> c = CHR ''_'') s"

definition image_suffix :: "string \<Rightarrow> bool" where
  "image_suffix s \<longleftrightarrow>
     (case s of [] \<Rightarrow> False
      | c # t \<Rightarrow>
          c = CHR '':'' \<and> image_part t \<and> is_alnum (hd t) \<or>
          HasPrefix s ''@sha256:'' \<and> length s = 72 \<and> list_all (\<lambda>c. is_digit c \<or> in_range CHR ''a'' CHR ''f'' c) (drop 8 s))"

text \<open>The regular expression \<open>imageRef\<close>: no part of the path holds a colon or an at sign.\<close>

definition imageRef :: "string \<Rightarrow> bool" where
  "imageRef s \<longleftrightarrow>
     (let path = takeWhile (\<lambda>c. c \<noteq> CHR '':'' \<and> c \<noteq> CHR ''@'') s; parts = split_on slash path in
      1 < length parts \<and> image_first (hd parts) \<and> list_all image_part (tl parts) \<and> image_suffix (drop (length path) s))"

definition looksLikeImage :: "string \<Rightarrow> bool" where
  "looksLikeImage s \<longleftrightarrow>
     (if s = [] \<or> Contains s ''{{'' then False
      else if slash \<in> set s then imageRef s
      else let name = hd (SplitN2 s (CHR '':'')) in name \<noteq> [] \<and> CHR '' '' \<notin> set name \<and> CHR ''='' \<notin> set name)"

definition normalizeImage :: "string \<Rightarrow> string" where
  "normalizeImage img =
     (if Contains img ''@sha256:'' then img else if CHR '':'' \<notin> set img then img @ '':latest'' else img)"

definition yaml_text :: "(string \<times> yaml) list \<Rightarrow> string \<Rightarrow> string" where
  "yaml_text m k = (case map_of m k of Some (YStr s) \<Rightarrow> s | _ \<Rightarrow> [])"

fun collectImages :: "(string \<times> yaml) list \<Rightarrow> string list" where
  "collectImages [] = []"
| "collectImages ((k, v) # m) =
     (case v of
        YStr s \<Rightarrow> if (k = ''image'' \<or> k = ''baseImage'') \<and> looksLikeImage s then [normalizeImage s] else []
      | YMap val \<Rightarrow>
          (if (k = ''image'' \<or> HasSuffix k ''Image'') \<and> yaml_text val ''repository'' \<noteq> [] then
             [normalizeImage (yaml_text val ''repository'' @ '':'' @
                (if yaml_text val ''tag'' = [] then ''latest'' else yaml_text val ''tag''))]
           else []) @ collectImages val
      | _ \<Rightarrow> []) @ collectImages m"

definition extractImagesFromValuesFile :: "app_host \<Rightarrow> string \<Rightarrow> string list act" where
  "extractImagesFromValuesFile A path = attempt (call (ah_machine A) (HRead path)) (\<lambda>r. ret (case r of
       Inl _ \<Rightarrow> []
     | Inr d \<Rightarrow> (case ah_yaml A d of None \<Rightarrow> [] | Some m \<Rightarrow> collectImages m)))"

text \<open>The images of a line: it is tried as a plain line and as an element of a list.\<close>

definition template_image :: "string \<Rightarrow> string list" where
  "template_image l =
     (let line = TrimSpace l in
      concat (map (\<lambda>pre.
        if HasPrefix line pre then
          (let img = TrimCut (TrimSpace (TrimPrefix line pre)) quotes in
           if Contains img ''{{'' then [] else if looksLikeImage img then [normalizeImage img] else [])
        else []) [''image:'', ''- image:'']))"

definition extractImagesFromTemplate :: "app_host \<Rightarrow> string \<Rightarrow> string list act" where
  "extractImagesFromTemplate A path = attempt (call (ah_machine A) (HRead path)) (\<lambda>r. ret (case r of
       Inl _ \<Rightarrow> []
     | Inr d \<Rightarrow> concat (map template_image (split_on (CHR 0x0A) d))))"

fun gather :: "('x \<Rightarrow> 'a list act) \<Rightarrow> 'x list \<Rightarrow> 'a list act" where
  "gather f [] = ret []"
| "gather f (x # xs) = chk [] (f x) (\<lambda>a. chk [] (gather f xs) (\<lambda>l. ret (a @ l)))"

definition dir_entries :: "app_host \<Rightarrow> string \<Rightarrow> string list act" where
  "dir_entries A d = or_else [] (names (ah_machine A) (HReadDir d))"

definition template_images_in :: "app_host \<Rightarrow> string \<Rightarrow> string list act" where
  "template_images_in A dir =
     chk [] (dir_entries A dir) (\<lambda>es.
     gather (\<lambda>e. extractImagesFromTemplate A (PathJoin dir e)) (filter (\<lambda>e. \<not> is_dir_entry e) es))"

definition subchart_dirs :: "app_host \<Rightarrow> string \<Rightarrow> string list act" where
  "subchart_dirs A chartDir =
     (let chartsDir = PathJoin chartDir ''charts'' in
      chk [] (dir_entries A chartsDir) (\<lambda>es. ret (map (\<lambda>e. PathJoin chartsDir (entry_name e)) (filter is_dir_entry es))))"

definition if_there :: "app_host \<Rightarrow> string \<Rightarrow> string list act" where
  "if_there A f = chk [] (succeeds (call (ah_machine A) (HStat f))) (\<lambda>ok. ret (if ok then [f] else []))"

definition findValuesFiles :: "app_host \<Rightarrow> string \<Rightarrow> string list act" where
  "findValuesFiles A chartDir =
     chk [] (if_there A (PathJoin chartDir ''values.yaml'')) (\<lambda>top.
     chk [] (subchart_dirs A chartDir) (\<lambda>subs.
     chk [] (gather (\<lambda>d. if_there A (PathJoin d ''values.yaml'')) subs) (\<lambda>l. ret (top @ l))))"

definition ExtractImagesFromChart :: "app_host \<Rightarrow> string \<Rightarrow> string list act" where
  "ExtractImagesFromChart A chartDir =
     chk [] (findValuesFiles A chartDir) (\<lambda>vfs.
     chk [] (gather (extractImagesFromValuesFile A) vfs) (\<lambda>a.
     chk [] (template_images_in A (PathJoin chartDir ''templates'')) (\<lambda>b.
     chk [] (subchart_dirs A chartDir) (\<lambda>subs.
     chk [] (gather (\<lambda>d. template_images_in A (PathJoin d ''templates'')) subs) (\<lambda>c.
     ret (ah_set_order A (remdups (a @ b @ c))))))))"

definition rendered_image :: "string \<Rightarrow> string list" where
  "rendered_image l =
     (let line = TrimSpace l in
      concat (map (\<lambda>pre.
        if HasPrefix line pre then
          (let img = TrimCut (TrimSpace (TrimPrefix line pre)) quotes in
           if img = [] \<or> Contains img ''{{'' then [] else [img])
        else []) [''image:'', ''- image:'']))"

definition ExtractImagesFromTemplateOutput :: "app_host \<Rightarrow> string \<Rightarrow> string \<Rightarrow> string list act" where
  "ExtractImagesFromTemplateOutput A chartDir namespace =
     chk [] (output_of A [''helm'', ''template'', ''extract-images'', chartDir, ''--namespace'', namespace]) (\<lambda>out. case out of
        None \<Rightarrow> ret []
      | Some t \<Rightarrow> ret (ah_set_order A (remdups (concat (map rendered_image (scan_lines t))))))"

definition CheckImageExists :: "app_host \<Rightarrow> string \<Rightarrow> bool act" where
  "CheckImageExists A img = succeeds (run (ah_machine A) [''crictl'', ''inspecti'', ''-q'', img])"

definition FilterMissingImages :: "app_host \<Rightarrow> string list \<Rightarrow> string list act" where
  "FilterMissingImages A images =
     gather (\<lambda>img. chk [] (CheckImageExists A img) (\<lambda>there. ret (if there then [] else [img]))) images"

definition pull_command :: "bool \<Rightarrow> string \<Rightarrow> string list" where
  "pull_command crictl img =
     (if crictl then [''crictl'', ''pull'', img] else [''ctr'', ''-n'', ''k8s.io'', ''images'', ''pull'', img])"

text \<open>The number of images that could not be pulled.\<close>

definition PullImagesWithProgress :: "app_host \<Rightarrow> string list \<Rightarrow> nat act" where
  "PullImagesWithProgress A images =
     (if images = [] then ret 0
      else
        chk [] (succeeds (call (ah_machine A) (HLookPath ''crictl''))) (\<lambda>crictl.
        chk [] (gather (\<lambda>img. chk [] (succeeds (run (ah_machine A) (pull_command crictl img))) (\<lambda>ok. ret [ok])) images) (\<lambda>oks.
        ret (length (filter Not oks)))))"

definition PullImagesForChart :: "app_host \<Rightarrow> string \<Rightarrow> nat act" where
  "PullImagesForChart A chartDir =
     chk [] (ExtractImagesFromChart A chartDir) (\<lambda>images.
     if images = [] then ret 0
     else chk [] (FilterMissingImages A images) (PullImagesWithProgress A))"

definition parseSizeString :: "app_host \<Rightarrow> string \<Rightarrow> int" where
  "parseSizeString A s0 =
     (let s = TrimSpace s0; digits = takeWhile (\<lambda>c. c = CHR ''.'' \<or> is_digit c) s;
          unit = ToUpper (drop (length digits) s);
          factor = (if unit \<in> set [''KB'', ''KIB'', ''K''] then 1024
            else if unit \<in> set [''MB'', ''MIB'', ''M''] then 1024 ^ 2
            else if unit \<in> set [''GB'', ''GIB'', ''G''] then 1024 ^ 3
            else if unit \<in> set [''TB'', ''TIB'', ''T''] then 1024 ^ 4 else 1)
      in if s = [] then 0 else case ah_scaled A digits factor of None \<Rightarrow> 0 | Some n \<Rightarrow> n)"

definition active_bytes :: "app_host \<Rightarrow> string \<Rightarrow> int" where
  "active_bytes A line =
     (if HasPrefix line ''REF'' \<or> TrimSpace line = [] then 0
      else case Fields line of _ # f # _ \<Rightarrow> parseSizeString A f | _ \<Rightarrow> 0)"

definition pollActiveDownloads :: "app_host \<Rightarrow> string \<Rightarrow> string \<Rightarrow> int act" where
  "pollActiveDownloads A ctrBin sock =
     chk [] (output_of A [ctrBin, ''-a'', sock, ''-n'', ''k8s.io'', ''content'', ''active'']) (\<lambda>out. case out of
        None \<Rightarrow> ret 0
      | Some t \<Rightarrow> ret (sum_list (map (active_bytes A) (scan_lines t))))"

subsection \<open>Removal of images\<close>

definition ctr :: "string list \<Rightarrow> string list" where
  "ctr args = [''ctr'', ''-a'', ''/run/containerd/containerd.sock'', ''-n'', ''k8s.io''] @ args"

text \<open>The image without its tag; and without its registry.\<close>

definition repo_prefix :: "string \<Rightarrow> string" where
  "repo_prefix img = (case LastIndexByte img (CHR '':'') of
       Some i \<Rightarrow> if 0 < i \<and> slash \<notin> set (drop i img) then take i img else img
     | None \<Rightarrow> img)"

definition repo_ref :: "string \<Rightarrow> string" where
  "repo_ref p = (case IndexByte p slash of
       Some i \<Rightarrow> if 0 < i \<and> CHR ''.'' \<in> set (take i p) then drop (i + 1) p else p
     | None \<Rightarrow> p)"

definition image_digests :: "string \<Rightarrow> string \<Rightarrow> string list" where
  "image_digests img out =
     filter (\<lambda>l. Contains l ''@sha256:'' \<and> HasPrefix l (repo_prefix img)) (map TrimSpace (split_on (CHR 0x0A) out))"

definition image_blobs :: "string \<Rightarrow> string \<Rightarrow> string list" where
  "image_blobs img out =
     concat (map (\<lambda>l. if Contains l (repo_ref (repo_prefix img)) then (case Fields l of f # _ \<Rightarrow> [f] | [] \<Rightarrow> []) else [])
       (split_on (CHR 0x0A) out))"

definition or_empty :: "app_host \<Rightarrow> string list \<Rightarrow> string act" where
  "or_empty A args = chk [] (ask (ah_machine A) (HRun args None)) (\<lambda>a. ret (text_of a))"

definition purge_image :: "app_host \<Rightarrow> string \<Rightarrow> unit act" where
  "purge_image A img =
     ignoring (quietly A [''crictl'', ''rmi'', img])
      (ignoring (quietly A (ctr [''images'', ''rm'', img]))
       (chk [] (or_empty A (ctr [''images'', ''ls'', ''-q''])) (\<lambda>ds.
        ignoring (for_all (\<lambda>l. quietly A (ctr [''images'', ''rm'', l])) (image_digests img ds))
         (chk [] (or_empty A (ctr [''content'', ''ls''])) (\<lambda>cs.
          for_all (\<lambda>b. quietly A (ctr [''content'', ''rm'', b])) (image_blobs img cs))))))"

definition purgeContainerImages :: "app_host \<Rightarrow> string list \<Rightarrow> unit act" where
  "purgeContainerImages A images = for_all (purge_image A) images"

end
