(* ===== verification/App_Cluster.thy ===== *)
theory App_Cluster
  imports App_Charts
begin

text \<open>
  What the app service does on the cluster: \<^verbatim>\<open>k8s.go\<close>, \<^verbatim>\<open>netpolicy.go\<close>, the host side of an
  installation and the credentials of \<^verbatim>\<open>service.go\<close>, the back ends of \<^verbatim>\<open>models.go\<close> and the directory
  client of \<^verbatim>\<open>lldap.go\<close>.
\<close>

subsection \<open>Kubernetes\<close>

definition kubectl_get :: "string \<Rightarrow> string \<Rightarrow> string \<Rightarrow> string \<Rightarrow> string list" where
  "kubectl_get kind namespace sel path =
     [''kubectl'', ''get'', kind, ''--namespace'', namespace, ''-l'', sel, ''-o'', ''jsonpath='' @ path]"

definition newline_text :: string where
  "newline_text = ''{'' @ dquote @ bslash @ ''n'' @ dquote @ ''}''"

definition selectors :: "string \<Rightarrow> string list" where
  "selectors releaseName = [''app.kubernetes.io/instance='' @ releaseName, ''app='' @ releaseName, ''io.kompose.service='' @ releaseName]"

definition pods_path :: string where
  "pods_path = ''{range .items[*]}{.metadata.name}|{.status.phase}|{.metadata.creationTimestamp}'' @ newline_text @ ''{end}''"

definition pod_of :: "app_host \<Rightarrow> string \<Rightarrow> PodInfo list" where
  "pod_of A line = (case split_on (CHR ''|'') line of
       n # st # created # _ \<Rightarrow> [\<lparr>pod_Name = n, pod_Ready = [], pod_Status = st, pod_Age = ah_age A created\<rparr>]
     | _ \<Rightarrow> [])"

fun pods_by :: "app_host \<Rightarrow> string \<Rightarrow> string list \<Rightarrow> PodInfo list act" where
  "pods_by A namespace [] = ret []"
| "pods_by A namespace (sel # sels) =
     chk [] (output_of A (kubectl_get ''pods'' namespace sel pods_path)) (\<lambda>out.
     let pods = (case out of None \<Rightarrow> [] | Some t \<Rightarrow> concat (map (pod_of A) (nonblank_lines t))) in
     if pods = [] then pods_by A namespace sels else ret pods)"

definition GetPodsForApp :: "app_host \<Rightarrow> string \<Rightarrow> string \<Rightarrow> PodInfo list act" where
  "GetPodsForApp A releaseName namespace = pods_by A namespace (selectors releaseName)"

definition images_path :: string where
  "images_path = ''{range .items[*]}{range .spec.containers[*]}{.image}'' @ newline_text @
     ''{end}{range .spec.initContainers[*]}{.image}'' @ newline_text @ ''{end}{end}''"

definition GetImagesForApp :: "app_host \<Rightarrow> string \<Rightarrow> string \<Rightarrow> string list act" where
  "GetImagesForApp A releaseName namespace =
     chk [] (gather (\<lambda>sel. chk [] (output_of A (kubectl_get ''pods'' namespace sel images_path)) (\<lambda>out.
              ret (case out of None \<Rightarrow> [] | Some t \<Rightarrow> nonblank_lines t))) (selectors releaseName)) (\<lambda>imgs.
     ret (ah_set_order A (remdups imgs)))"

definition names_path :: string where
  "names_path = ''{range .items[*]}{.metadata.name}'' @ newline_text @ ''{end}''"

text \<open>Scaling: the number of objects whose command succeeded.\<close>

definition scale :: "app_host \<Rightarrow> string \<Rightarrow> string \<Rightarrow> string \<Rightarrow> string \<Rightarrow> int \<Rightarrow> nat act" where
  "scale A kinds kind namespace labelSelector replicas =
     chk (''get '' @ kinds @ '': '') (run (ah_machine A) (kubectl_get kinds namespace labelSelector names_path)) (\<lambda>out.
     chk [] (gather (\<lambda>name. chk [] (succeeds (run (ah_machine A)
                [''kubectl'', ''scale'', kind, name, ''--namespace'', namespace, ''--replicas'', int_str replicas])) (\<lambda>ok. ret [ok]))
              (nonblank_lines out)) (\<lambda>oks.
     ret (length (filter id oks))))"

definition ScaleDeployment :: "app_host \<Rightarrow> string \<Rightarrow> string \<Rightarrow> int \<Rightarrow> nat act" where
  "ScaleDeployment A = scale A ''deployments'' ''deployment''"

definition ScaleStatefulSet :: "app_host \<Rightarrow> string \<Rightarrow> string \<Rightarrow> int \<Rightarrow> nat act" where
  "ScaleStatefulSet A = scale A ''statefulsets'' ''statefulset''"

definition ApplyManifest :: "app_host \<Rightarrow> string \<Rightarrow> unit act" where
  "ApplyManifest A manifest =
     chk ''kubectl apply: '' (run_with '': '' (ah_machine A) [''kubectl'', ''apply'', ''-f'', ''-''] (Some manifest)) (\<lambda>_. ret ())"

definition DeleteManifest :: "app_host \<Rightarrow> string \<Rightarrow> unit act" where
  "DeleteManifest A manifest =
     chk ''kubectl delete: '' (run_with '': '' (ah_machine A) [''kubectl'', ''delete'', ''-f'', ''-'', ''--ignore-not-found''] (Some manifest)) (\<lambda>_. ret ())"

definition CreateNamespace :: "app_host \<Rightarrow> string \<Rightarrow> unit act" where
  "CreateNamespace A name =
     chk ''generate namespace yaml: '' (run (ah_machine A) [''kubectl'', ''create'', ''namespace'', name, ''--dry-run=client'', ''-o'', ''yaml''])
       (ApplyManifest A)"

definition GetNamespaces :: "app_host \<Rightarrow> string list act" where
  "GetNamespaces A =
     chk [] (run (ah_machine A) [''kubectl'', ''get'', ''namespaces'', ''-o'', ''jsonpath='' @ names_path]) (\<lambda>out. ret (nonblank_lines out))"

definition orphan_resources :: "string list" where
  "orphan_resources = [''deployments'', ''services'', ''configmaps'', ''jobs'', ''pods'']"

definition DeleteOrphanedResources :: "app_host \<Rightarrow> string \<Rightarrow> string \<Rightarrow> unit act" where
  "DeleteOrphanedResources A releaseName namespace =
     for_all (\<lambda>(label, res). quietly A [''kubectl'', ''delete'', res, ''-n'', namespace, ''-l'', label, ''--ignore-not-found'', ''--force'', ''--grace-period=0''])
       (concat (map (\<lambda>label. map (Pair label) orphan_resources) [''app.kubernetes.io/instance='' @ releaseName, ''app='' @ releaseName]))"

subsection \<open>The Application object\<close>

definition present :: "string \<Rightarrow> string \<Rightarrow> (string \<times> jval) list" where
  "present k v = (if v = [] then [] else [(k, JStr v)])"

definition entrance_object :: "Entrance \<Rightarrow> jval" where
  "entrance_object e = JObj ([(''name'', JStr (en_Name e)), (''host'', JStr (en_Host e)), (''port'', JInt (en_Port e))] @
     present ''title'' (en_Title e) @ present ''icon'' (en_Icon e) @ present ''authLevel'' (en_AuthLevel e) @
     (if en_Invisible e then [(''invisible'', JBool True)] else []) @ present ''openMethod'' (en_OpenMethod e))"

definition shared_object :: "SharedEntrance \<Rightarrow> jval" where
  "shared_object e = JObj ([(''name'', JStr (se_Name e)), (''host'', JStr (se_Host e)), (''port'', JInt (se_Port e))] @
     present ''title'' (se_Title e) @ present ''icon'' (se_Icon e) @ present ''authLevel'' (se_AuthLevel e) @
     (if se_Invisible e then [(''invisible'', JBool True)] else []))"

definition list_field :: "string \<Rightarrow> jval list \<Rightarrow> (string \<times> jval) list" where
  "list_field k l = (if l = [] then [] else [(k, JArr l)])"

definition sysdata_object :: "SysDataEntry \<Rightarrow> jval" where
  "sysdata_object s = JObj ([(''dataType'', JStr (sd_DataType s)), (''appName'', JStr (sd_AppName s)), (''svc'', JStr (sd_Svc s)),
     (''port'', JInt (sd_Port s)), (''group'', JStr (sd_Group s)), (''version'', JStr (sd_Version s))] @
     list_field ''ops'' (map JStr (sd_Ops s)))"

definition provider_object :: "ProviderEntry \<Rightarrow> jval" where
  "provider_object p = JObj [(''appName'', JStr (pe_AppName p)), (''providerName'', JStr (pe_ProviderName p))]"

definition permission_object :: "Permission \<Rightarrow> jval" where
  "permission_object p = JObj ([(''appData'', JBool (AppData p)), (''appCache'', JBool (AppCache p))] @
     list_field ''userData'' (map JStr (UserData p)) @ list_field ''sysData'' (map sysdata_object (SysData p)) @
     list_field ''provider'' (map provider_object (Provider p)))"

text \<open>\<^verbatim>\<open>json.Marshal\<close> of an entrance: fields with \<^verbatim>\<open>omitempty\<close> are left out when they are empty.\<close>

definition entrance_json :: "Entrance \<Rightarrow> jval" where
  "entrance_json e = JObj ([(''name'', JStr (en_Name e)), (''host'', JStr (en_Host e)), (''port'', JInt (en_Port e))] @
     present ''icon'' (en_Icon e) @ present ''title'' (en_Title e) @ present ''authLevel'' (en_AuthLevel e) @
     (if en_Invisible e then [(''invisible'', JBool True)] else []) @ present ''url'' (en_URL e) @ present ''openMethod'' (en_OpenMethod e))"

definition buildApplicationObject :: "app_host \<Rightarrow> AppRecord \<Rightarrow> jval" where
  "buildApplicationObject A r =
     (let group = APIGroup (ah_ctx A); key = (\<lambda>k. ''applications.app.'' @ group @ ''/'' @ k) in
      JObj [(''apiVersion'', JStr (''app.'' @ group @ ''/v1alpha1'')), (''kind'', JStr ''Application''),
        (''metadata'', JObj [(''name'', JStr (r_ReleaseName r)), (''namespace'', JStr (r_Namespace r)),
          (''labels'', JObj [(key ''name'', JStr (r_Name r)), (key ''owner'', JStr (r_Owner r))]),
          (''annotations'', JObj [(key ''entrances'', JStr (ah_json_text A (JArr (map entrance_json (r_Entrances r))))),
             (key ''icon'', JStr (r_Icon r)), (key ''title'', JStr (r_Title r)), (key ''version'', JStr (r_Version r)),
             (key ''source'', JStr (r_Source r))])]),
        (''spec'', JObj ([(''name'', JStr (r_Name r)), (''appid'', JStr (r_AppID r)), (''namespace'', JStr (r_Namespace r)),
          (''owner'', JStr (r_Owner r)), (''isSysApp'', JBool (r_IsSysApp r)), (''icon'', JStr (r_Icon r)),
          (''description'', JStr (r_Description r)), (''entrances'', JArr (map entrance_object (r_Entrances r)))] @
          list_field ''sharedEntrances'' (map shared_object (r_SharedEntrances r)) @
          (case r_Permission r of None \<Rightarrow> [] | Some p \<Rightarrow> [(''permission'', permission_object p)]))),
        (''status'', JObj [(''state'', JStr (state_text (r_State r)))])])"

definition applyApplicationKubectl :: "app_host \<Rightarrow> jval \<Rightarrow> unit act" where
  "applyApplicationKubectl A obj =
     chk ''kubectl apply Application: '' (run_with '': '' (ah_machine A) [''kubectl'', ''apply'', ''-f'', ''-''] (Some (ah_json_text A obj))) (\<lambda>_. ret ())"

text \<open>The dynamic client: its requests are asked of the machine as requests to the cluster.\<close>

definition kube_request :: "app_host \<Rightarrow> string \<Rightarrow> string \<Rightarrow> string \<Rightarrow> string option \<Rightarrow> string act" where
  "kube_request A verb namespace name body =
     call (ah_machine A) (HHttp verb (''applications/'' @ namespace @ ''/'' @ name) [] body)"

definition with_version :: "jval \<Rightarrow> string \<Rightarrow> jval" where
  "with_version obj v = (case obj of
       JObj ms \<Rightarrow> JObj (map (\<lambda>(k, j). (k, if k = ''metadata'' then
           (case j of JObj md \<Rightarrow> JObj (AList.update ''resourceVersion'' (JStr v) md) | _ \<Rightarrow> j) else j)) ms)
     | _ \<Rightarrow> obj)"

text \<open>The answer to a read is the version of the object that is there.\<close>

definition applyApplicationDynamic :: "app_host \<Rightarrow> jval \<Rightarrow> string \<Rightarrow> string \<Rightarrow> unit act" where
  "applyApplicationDynamic A obj namespace name =
     attempt (kube_request A ''GET'' namespace name None) (\<lambda>r. case r of
        Inl _ \<Rightarrow> chk (''create Application '' @ name @ '': '') (kube_request A ''CREATE'' namespace name (Some (ah_json_text A obj))) (\<lambda>_. ret ())
      | Inr v \<Rightarrow> chk (''update Application '' @ name @ '': '')
          (kube_request A ''UPDATE'' namespace name (Some (ah_json_text A (with_version obj v)))) (\<lambda>_. ret ()))"

definition ApplyApplicationCRD :: "app_host \<Rightarrow> bool \<Rightarrow> AppRecord \<Rightarrow> unit act" where
  "ApplyApplicationCRD A dynamic r =
     (let obj = buildApplicationObject A r in
      if dynamic then applyApplicationDynamic A obj (r_Namespace r) (r_ReleaseName r) else applyApplicationKubectl A obj)"

definition DeleteApplicationCRD :: "app_host \<Rightarrow> bool \<Rightarrow> string \<Rightarrow> string \<Rightarrow> unit act" where
  "DeleteApplicationCRD A dynamic name namespace =
     (if dynamic then chk (''delete Application '' @ namespace @ ''/'' @ name @ '': '') (kube_request A ''DELETE'' namespace name None) (\<lambda>_. ret ())
      else chk ''kubectl delete application: ''
        (run_with '': '' (ah_machine A) [''kubectl'', ''delete'', ''application.app.'' @ APIGroup (ah_ctx A), name, ''--namespace'', namespace, ''--ignore-not-found''] None)
        (\<lambda>_. ret ()))"

subsection \<open>Services of an app\<close>

record PortInfo =
  poName :: string
  poPort :: int
  poTargetPort :: int
  poProtocol :: string

record ServiceInfo =
  siName :: string
  siClusterIP :: string
  siType :: string
  siPorts :: "PortInfo list"

text \<open>The last member of a name, the zero value when there is none.\<close>

definition member :: "string \<Rightarrow> jval \<Rightarrow> jval option" where
  "member k j = (case j of
       JObj ms \<Rightarrow> Some (case filter (\<lambda>(k', _). EqualFold k' k) ms of [] \<Rightarrow> JNull | xs \<Rightarrow> snd (last xs))
     | JNull \<Rightarrow> Some JNull
     | _ \<Rightarrow> None)"

definition elements :: "jval \<Rightarrow> jval list option" where
  "elements j = (case j of JArr xs \<Rightarrow> Some xs | JNull \<Rightarrow> Some [] | _ \<Rightarrow> None)"

definition int32_of :: "jval option \<Rightarrow> string \<Rightarrow> int option" where
  "int32_of j k = do { i \<leftarrow> field_int k j; if - (2 ^ 31) \<le> i \<and> i < 2 ^ 31 then Some i else None }"

text \<open>A \<^verbatim>\<open>json.Number\<close> takes a number, or a text that is one; any other text is an error. Only integers are modelled.\<close>

definition json_int :: "string \<Rightarrow> bool" where
  "json_int s \<longleftrightarrow>
     (let d = TrimPrefix s ''-'' in d \<noteq> [] \<and> list_all is_digit d \<and> (length d = 1 \<or> hd d \<noteq> CHR ''0''))"

definition number_of :: "jval \<Rightarrow> int option" where
  "number_of j = (case j of JInt i \<Rightarrow> Some i | JNull \<Rightarrow> Some 0 | JStr s \<Rightarrow> (if json_int s then parse_int s else None) | _ \<Rightarrow> None)"

definition to_int32 :: "int \<Rightarrow> int" where
  "to_int32 i = (i + 2 ^ 31) mod 2 ^ 32 - 2 ^ 31"

definition port_of :: "jval \<Rightarrow> PortInfo option" where
  "port_of j = do {
     n \<leftarrow> field_str ''name'' (Some j); p \<leftarrow> int32_of (Some j) ''port''; t \<leftarrow> Option.bind (member ''targetPort'' j) number_of;
     pr \<leftarrow> field_str ''protocol'' (Some j);
     Some \<lparr>poName = n, poPort = p, poTargetPort = to_int32 (max (- (2^63)) (min t (2^63 - 1))), poProtocol = pr\<rparr> }"

definition service_of :: "jval \<Rightarrow> ServiceInfo option" where
  "service_of j = do {
     md \<leftarrow> member ''metadata'' j; sp \<leftarrow> member ''spec'' j;
     n \<leftarrow> field_str ''name'' (Some md); ip \<leftarrow> field_str ''clusterIP'' (Some sp); t \<leftarrow> field_str ''type'' (Some sp);
     ps \<leftarrow> Option.bind (member ''ports'' sp) elements; ports \<leftarrow> decode_list port_of ps;
     Some \<lparr>siName = n, siClusterIP = ip, siType = t, siPorts = ports\<rparr> }"

text \<open>The name of the app is not used.\<close>

definition GetServicesForApp :: "app_host \<Rightarrow> string \<Rightarrow> string \<Rightarrow> ServiceInfo list act" where
  "GetServicesForApp A appName namespace =
     chk [] (output_of A [''kubectl'', ''get'', ''svc'', ''-n'', namespace, ''-l'', ''io.kompose.service'', ''-o'', ''json'']) (\<lambda>out.
     chk [] (case out of Some t \<Rightarrow> ret (Some t) | None \<Rightarrow> output_of A [''kubectl'', ''get'', ''svc'', ''-n'', namespace, ''-o'', ''json'']) (\<lambda>out.
     ret (case out of None \<Rightarrow> []
        | Some t \<Rightarrow> (case do { j \<leftarrow> ah_json A t; items \<leftarrow> Option.bind (member ''items'' j) elements; decode_list service_of items } of
            None \<Rightarrow> [] | Some l \<Rightarrow> l))))"

subsection \<open>Blocking the internet\<close>

definition iptablesChain :: string where
  "iptablesChain = ''PACKALARES-NET''"

definition iptables :: "string list \<Rightarrow> string list" where
  "iptables args = [''nsenter'', ''--target'', ''1'', ''--net'', ''--mount'', ''--'', ''/usr/sbin/iptables''] @ args"

definition hostIptables :: "app_host \<Rightarrow> string list \<Rightarrow> string act" where
  "hostIptables A args = or_empty A (iptables args)"

definition EnsureIptablesChain :: "app_host \<Rightarrow> unit act" where
  "EnsureIptablesChain A =
     chk [] (hostIptables A [''-N'', iptablesChain]) (\<lambda>_.
     chk [] (hostIptables A [''-C'', ''FORWARD'', ''-j'', iptablesChain]) (\<lambda>out.
     if Contains out ''No chain'' \<or> Contains out ''does a matching rule exist''
       then chk [] (hostIptables A [''-I'', ''FORWARD'', ''1'', ''-j'', iptablesChain]) (\<lambda>_. ret ())
     else ret ()))"

definition getPodIPs :: "app_host \<Rightarrow> string \<Rightarrow> string \<Rightarrow> string list act" where
  "getPodIPs A namespace releaseName =
     chk ''get pod IPs: '' (run (ah_machine A) (kubectl_get ''pods'' namespace (''app.kubernetes.io/instance='' @ releaseName)
         (''{range .items[*]}{.status.podIP}'' @ newline_text @ ''{end}''))) (\<lambda>out. ret (nonblank_lines out))"

definition pod_rules :: "string \<Rightarrow> string \<Rightarrow> string list list" where
  "pod_rules action ip =
     [[action, iptablesChain, ''-s'', ip, ''-d'', ''10.233.0.0/16'', ''-j'', ''ACCEPT''],
      [action, iptablesChain, ''-s'', ip, ''-d'', ''192.168.0.0/16'', ''-j'', ''ACCEPT''],
      [action, iptablesChain, ''-s'', ip, ''-j'', ''DROP'']]"

definition BlockAppInternet :: "app_host \<Rightarrow> string \<Rightarrow> string \<Rightarrow> unit act" where
  "BlockAppInternet A namespace releaseName =
     chk [] (EnsureIptablesChain A) (\<lambda>_.
     chk [] (getPodIPs A namespace releaseName) (\<lambda>ips.
     run_all (ah_machine A) (map (\<lambda>args. HRun (iptables args) None) (concat (map (pod_rules ''-A'') ips)))))"

definition UnblockAppInternet :: "app_host \<Rightarrow> string \<Rightarrow> string \<Rightarrow> unit act" where
  "UnblockAppInternet A namespace releaseName =
     chk [] (getPodIPs A namespace releaseName) (\<lambda>ips.
     run_all (ah_machine A) (map (\<lambda>args. HRun (iptables args) None)
       (concat (map (\<lambda>ip. concat (replicate 5 (pod_rules ''-D'' ip))) ips))))"

definition blocked_record :: "AppRecord \<Rightarrow> bool" where
  "blocked_record r \<longleftrightarrow> r_InternetBlocked r \<and> r_State r \<noteq> StateUninstalled \<and> r_State r \<noteq> StateStopped"

definition SyncInternetBlocks :: "app_host \<Rightarrow> AppRecord list \<Rightarrow> unit act" where
  "SyncInternetBlocks A records =
     chk [] (EnsureIptablesChain A) (\<lambda>_.
     chk [] (hostIptables A [''-F'', iptablesChain]) (\<lambda>_.
     for_all (\<lambda>r. BlockAppInternet A (r_Namespace r) (r_ReleaseName r)) (filter blocked_record records)))"

subsection \<open>The host side of an installation\<close>

text \<open>
  The three phases in which a job of \<open>App_Service\<close> asks the outside: the chart with its manifest, the
  values, and the release. \<open>dynamic\<close>: there is a client for the cluster.
\<close>

record fetched =
  fe_dir :: string
  fe_manifest :: "AppConfiguration option"
  fe_chartVersion :: string
  fe_appVersion :: string

definition fetch_host :: "app_host \<Rightarrow> string \<Rightarrow> fetched act" where
  "fetch_host A name =
     chk [] (DownloadChart A name) (\<lambda>dir.
     attempt (ParseOlaresManifest A dir) (\<lambda>m.
     attempt (ParseChartMetadata A dir) (\<lambda>v.
     ret \<lparr>fe_dir = dir, fe_manifest = (case m of Inl _ \<Rightarrow> None | Inr c \<Rightarrow> Some c),
          fe_chartVersion = (case v of Inl _ \<Rightarrow> [] | Inr (a, _) \<Rightarrow> a), fe_appVersion = (case v of Inl _ \<Rightarrow> [] | Inr (_, b) \<Rightarrow> b)\<rparr>)))"

definition inject_host :: "app_host \<Rightarrow> string \<Rightarrow> string \<Rightarrow> fetched \<Rightarrow> unit act" where
  "inject_host A name appID f =
     (let zone = UserZone (ah_ctx A); dir = fe_dir f; manifest = fe_manifest f in
      ignoring (CreateNamespace A (ah_namespace A))
       (chk [] (provisionPostgres A name dir manifest) (\<lambda>pg.
        chk [] (buildOlaresEnv A name zone manifest) (\<lambda>vars.
        chk [] (injectValuesYaml A dir (chart_values A name appID zone manifest pg vars)) (\<lambda>_.
        chk [] (restructureSubcharts A dir) (\<lambda>_.
        chk [] (dir_entries A (PathJoin dir ''charts'')) (\<lambda>es.
        inject_subcharts A (PathJoin dir ''charts'') (subchart_values A name appID zone manifest pg) es)))))))"

text \<open>Images are pulled before the release; images that cannot be pulled are left to the cluster.\<close>

definition pull_host :: "app_host \<Rightarrow> string \<Rightarrow> unit act" where
  "pull_host A dir =
     chk [] (ExtractImagesFromTemplateOutput A dir (ah_namespace A)) (\<lambda>rendered.
     if rendered = [] then chk [] (PullImagesForChart A dir) (\<lambda>_. ret ())
     else
       chk [] (ExtractImagesFromChart A dir) (\<lambda>static.
       chk [] (FilterMissingImages A (ah_set_order A (remdups (rendered @ static)))) (\<lambda>missing.
       if missing = [] then ret () else chk [] (PullImagesWithProgress A missing) (\<lambda>_. ret ()))))"

definition release_host :: "app_host \<Rightarrow> bool \<Rightarrow> AppRecord \<Rightarrow> string \<Rightarrow> unit act" where
  "release_host A dynamic r dir =
     chk [] (pull_host A dir) (\<lambda>_.
     ignoring (HelmUninstall A (r_ReleaseName r))
      (attempt (InstallFromDir A (r_ReleaseName r) dir (ah_namespace A)) (\<lambda>res. case res of
          Inl e \<Rightarrow> ignoring (HelmUninstall A (r_ReleaseName r)) (fail e)
        | Inr _ \<Rightarrow> ignoring (ApplyApplicationCRD A dynamic (r\<lparr>r_State := StateRunning\<rparr>)) (ret ()))))"

text \<open>All phases of one installation; a chart that was downloaded is removed at the end.\<close>

definition install_host :: "app_host \<Rightarrow> bool \<Rightarrow> AppRecord \<Rightarrow> unit act" where
  "install_host A dynamic r =
     chk [] (fetch_host A (r_Name r)) (\<lambda>f.
     attempt (chk [] (inject_host A (r_Name r) (r_AppID r) f) (\<lambda>_. release_host A dynamic r (fe_dir f))) (\<lambda>res.
     chk [] (CleanupChart A (r_Name r)) (\<lambda>_. case res of Inl e \<Rightarrow> fail e | Inr _ \<Rightarrow> ret ())))"

text \<open>Uninstalling: the release, what it left behind, the object, and the images once the pods are gone.\<close>

fun wait_gone :: "app_host \<Rightarrow> nat \<Rightarrow> string \<Rightarrow> string \<Rightarrow> unit act" where
  "wait_gone A 0 releaseName namespace = ret ()"
| "wait_gone A (Suc n) releaseName namespace =
     chk [] (GetPodsForApp A releaseName namespace) (\<lambda>pods. if pods = [] then ret () else wait_gone A n releaseName namespace)"

definition app_images :: "app_host \<Rightarrow> AppRecord \<Rightarrow> string list act" where
  "app_images A r =
     chk [] (GetImagesForApp A (r_ReleaseName r) (r_Namespace r)) (\<lambda>a.
     chk [] (GetImagesFromManifest A (r_ReleaseName r)) (\<lambda>b. ret (a @ filter (\<lambda>i. i \<notin> set a) b)))"

fun remove_bases :: "machine \<Rightarrow> string list \<Rightarrow> string \<Rightarrow> unit act" where
  "remove_bases M [] name = ret ()"
| "remove_bases M (base # bs) name = (case childPath base name of
       Inl _ \<Rightarrow> remove_bases M bs name
     | Inr dir \<Rightarrow> ignoring (call M (HRemoveAll dir)) (remove_bases M bs name))"

definition uninstall_host :: "app_host \<Rightarrow> bool \<Rightarrow> AppRecord \<Rightarrow> UninstallRequest \<Rightarrow> unit act" where
  "uninstall_host A dynamic r req =
     chk [] (app_images A r) (\<lambda>images.
     chk [] (HelmUninstall A (r_ReleaseName r)) (\<lambda>_.
     ignoring (DeleteOrphanedResources A (r_ReleaseName r) (r_Namespace r))
      (ignoring (DeleteApplicationCRD A dynamic (r_ReleaseName r) (r_Namespace r))
       (chk [] (wait_gone A 60 (r_ReleaseName r) (r_Namespace r)) (\<lambda>_.
        if uq_Wipe req then
          ignoring (purgeContainerImages A images)
            (remove_bases (ah_machine A) [''/packalares/Apps/appdata'', ''/packalares/Apps/appcache''] (uq_Name req))
        else ret ())))))"

subsection \<open>Credentials\<close>

record AppCredentials =
  crUsername :: string
  crEmail :: string
  crPassword :: string

text \<open>The members of a map that is decoded without a type: the last one of a name, case matters.\<close>

definition raw_member :: "string \<Rightarrow> jval \<Rightarrow> jval option" where
  "raw_member k j = (case j of JObj ms \<Rightarrow> map_of (rev ms) k | _ \<Rightarrow> None)"

definition raw_text :: "string \<Rightarrow> jval \<Rightarrow> string" where
  "raw_text k j = (case raw_member k j of Some (JStr s) \<Rightarrow> s | _ \<Rightarrow> [])"

definition credentials_for :: "string \<Rightarrow> string \<Rightarrow> string \<Rightarrow> string \<Rightarrow> AppCredentials" where
  "credentials_for loginType zone username password =
     (let email = (if zone \<noteq> [] \<and> username \<noteq> [] then username @ ''@'' @ zone else []) in
      if loginType = ''email'' then \<lparr>crUsername = [], crEmail = email, crPassword = password\<rparr>
      else if loginType = ''user-email'' then \<lparr>crUsername = username, crEmail = email, crPassword = password\<rparr>
      else \<lparr>crUsername = username, crEmail = [], crPassword = password\<rparr>)"

definition GetAppCredentials :: "app_host \<Rightarrow> string \<Rightarrow> string \<Rightarrow> AppCredentials act" where
  "GetAppCredentials A appName loginType =
     attempt (run (ah_machine A) [''helm'', ''get'', ''values'', appName, ''-n'', ah_namespace A, ''-a'', ''-o'', ''json'']) (\<lambda>r. case r of
        Inl _ \<Rightarrow> fail (''app '' @ appName @ '' not found or not installed'')
      | Inr out \<Rightarrow>
          (case ah_json A out of
             Some JNull \<Rightarrow> fail (''no credentials found for '' @ appName)
           | Some (JObj vals) \<Rightarrow>
               (case raw_member ''olaresEnv'' (JObj vals) of
                  Some (JObj vs) \<Rightarrow>
                    (let u = raw_text ''ADMIN_USERNAME'' (JObj vs); p = raw_text ''ADMIN_PASSWORD'' (JObj vs) in
                     if u = [] \<and> p = [] then fail (''no credentials configured for '' @ appName)
                     else ret (credentials_for loginType (UserZone (ah_ctx A)) u p))
                | _ \<Rightarrow> fail (''no credentials found for '' @ appName))
           | _ \<Rightarrow> fail ''parse values''))"

subsection \<open>Models\<close>

record ModelSpec =
  msName :: string
  msModelID :: string
  msBackend :: string
  msHFRepo :: string
  msHFRef :: string
  msGPUMemoryUtilization :: string
  msMaxModelLen :: string
  msTensorParallelSize :: int
  msTiktokenFiles :: string
  msStoragePath :: string
  msRequiredMemory :: string
  msRequiredCPU :: string
  msLimitedMemory :: string
  msLimitedCPU :: string

record InstalledModel =
  imName :: string
  imSize :: int
  imModified :: string

definition broadcastState :: "app_host \<Rightarrow> string \<Rightarrow> AppState \<Rightarrow> unit act" where
  "broadcastState A name st = ignoring (call (ah_machine A) (HEmit [name, state_text st])) (ret ())"

definition broadcastProgress :: "app_host \<Rightarrow> string \<Rightarrow> AppState \<Rightarrow> nat \<Rightarrow> nat \<Rightarrow> string \<Rightarrow> int \<Rightarrow> int \<Rightarrow> unit act" where
  "broadcastProgress A name st i n detail done_bytes all_bytes =
     ignoring (call (ah_machine A) (HEmit [name, state_text st, nat_str i, nat_str n, detail, int_str done_bytes, int_str all_bytes])) (ret ())"

definition or_default :: "string \<Rightarrow> string \<Rightarrow> string" where
  "or_default s d = (if s = [] then d else s)"

text \<open>Bytes per layer or file: total and completed of each, and the sums.\<close>

type_synonym amounts = "(string \<times> int \<times> int) list"

definition sum_total :: "amounts \<Rightarrow> int" where
  "sum_total m = sum_list (map (\<lambda>(_, t, _). t) m)"

definition sum_done :: "amounts \<Rightarrow> int" where
  "sum_done m = sum_list (map (\<lambda>(_, _, c). c) m)"

text \<open>
  Lines of a stream, up to the first that does not fit the buffer of 1 MiB; the flag is the error
  of the scanner.
\<close>

definition stream_lines :: "string \<Rightarrow> string list \<times> bool" where
  "stream_lines s =
     (let ls = split_on CHR 0x0A s; ls = (if last ls = [] then butlast ls else ls); ok = (\<lambda>l. length l < 1048576) in
      (map dropCR (takeWhile ok ls), \<not> list_all ok ls))"

definition OllamaURL :: "app_host \<Rightarrow> string" where
  "OllamaURL A = TrimSuffix (''http://ollama.'' @ ah_namespace A @ '':11434'') ''/''"

definition model_id :: "ModelSpec \<Rightarrow> string" where
  "model_id m = or_default (msModelID m) (msName m)"

fun pull_lines :: "app_host \<Rightarrow> ModelSpec \<Rightarrow> string list \<Rightarrow> amounts \<Rightarrow> unit act" where
  "pull_lines A m [] am = ret ()"
| "pull_lines A m (l # ls) am =
     (if l = [] then pull_lines A m ls am
      else case do { j \<leftarrow> ah_json A l; st \<leftarrow> field_str ''status'' (Some j); d \<leftarrow> field_str ''digest'' (Some j);
                     t \<leftarrow> field_int ''total'' (Some j); c \<leftarrow> field_int ''completed'' (Some j); e \<leftarrow> field_str ''error'' (Some j);
                     Some (st, d, t, c, e) } of
        None \<Rightarrow> pull_lines A m ls am
      | Some (st, d, t, c, e) \<Rightarrow>
          if e \<noteq> [] then fail (''ollama pull '' @ model_id m @ '': '' @ e)
          else
            (let am = (if d = [] then am else AList.update d (t, c) am);
                 detail = (if 12 < length d then st @ '' '' @ take 12 d else st)
             in chk [] (broadcastProgress A (msName m) StateDownloading 1 1 detail (sum_done am) (sum_total am)) (\<lambda>_. pull_lines A m ls am)))"

definition ollama_request :: "app_host \<Rightarrow> string \<Rightarrow> string \<Rightarrow> jval \<Rightarrow> string \<Rightarrow> string act" where
  "ollama_request A method path body what =
     chk [] (ask (ah_machine A) (HHttp method (OllamaURL A @ path) [(''Content-Type'', ''application/json'')] (Some (ah_json_text A body)))) (\<lambda>a. case a of
        HErr _ e \<Rightarrow> fail (what @ '': '' @ e)
      | HStatus n t \<Rightarrow> if n \<noteq> 200 then fail (what @ '': status '' @ nat_str n @ '': '' @ take 4096 t) else ret t
      | _ \<Rightarrow> ret (text_of a))"

definition OllamaInstall :: "app_host \<Rightarrow> ModelSpec \<Rightarrow> unit act" where
  "OllamaInstall A m =
     chk [] (ollama_request A ''POST'' ''/api/pull'' (JObj [(''name'', JStr (model_id m)), (''stream'', JBool True)]) (''ollama pull '' @ model_id m)) (\<lambda>body.
     case stream_lines body of (ls, too_long) \<Rightarrow>
     chk [] (pull_lines A m ls []) (\<lambda>_.
     if too_long then fail (''ollama pull '' @ model_id m @ '': read stream: bufio.Scanner: token too long'')
     else
       chk [] (broadcastState A (msName m) StateRunning) (\<lambda>_.
       broadcastProgress A (msName m) StateRunning 1 1 ''Model ready'' 0 0)))"

definition OllamaUninstall :: "app_host \<Rightarrow> ModelSpec \<Rightarrow> unit act" where
  "OllamaUninstall A m =
     chk [] (ollama_request A ''DELETE'' ''/api/delete'' (JObj [(''name'', JStr (model_id m))]) (''ollama delete '' @ model_id m)) (\<lambda>_. ret ())"

definition decode_model :: "jval \<Rightarrow> InstalledModel option" where
  "decode_model j = do { n \<leftarrow> field_str ''name'' (Some j); s \<leftarrow> field_int ''size'' (Some j); t \<leftarrow> field_str ''modified_at'' (Some j);
     Some \<lparr>imName = n, imSize = s, imModified = t\<rparr> }"

definition OllamaInstalledModels :: "app_host \<Rightarrow> InstalledModel list act" where
  "OllamaInstalledModels A =
     chk [] (http_get A (OllamaURL A @ ''/api/tags'') ''ollama tags: '' (\<lambda>n. ''ollama tags: status '' @ nat_str n)) (\<lambda>body.
     case do { j \<leftarrow> ah_json A body; ms \<leftarrow> Option.bind (member ''models'' j) elements; decode_list decode_model ms } of
       None \<Rightarrow> fail ''ollama tags decode'' | Some l \<Rightarrow> ret l)"

subsection \<open>Models served by vLLM\<close>

definition defaultModelStorageBase :: string where
  "defaultModelStorageBase = ''/packalares/data/Huggingface''"

definition vllmChartPath :: "app_host \<Rightarrow> string" where
  "vllmChartPath A = or_default (getenv A ''VLLM_CHART_PATH'') ''/usr/share/packalares/charts/vllm-model''"

definition parseResourceSize :: "app_host \<Rightarrow> string \<Rightarrow> int" where
  "parseResourceSize A s0 =
     (let s = TrimSpace s0;
          (t, m) = (if HasSuffix s ''Gi'' then (TrimSuffix s ''Gi'', 1024 ^ 3)
                    else if HasSuffix s ''Mi'' then (TrimSuffix s ''Mi'', 1024 ^ 2)
                    else if HasSuffix s ''Ki'' then (TrimSuffix s ''Ki'', 1024) else (s, 1))
      in if s = [] then 0 else case ah_scaled A t m of None \<Rightarrow> 0 | Some n \<Rightarrow> n)"

text \<open>Division rounded to the nearest integer, a half to the even one.\<close>

definition round_div :: "int \<Rightarrow> int \<Rightarrow> int" where
  "round_div a b = (let q = a div b; r = a mod b in if 2 * r < b \<or> 2 * r = b \<and> even q then q else q + 1)"

definition formatResourceSize :: "int \<Rightarrow> string" where
  "formatResourceSize bytes =
     (if 1024 ^ 3 \<le> bytes then (let n = round_div (10 * bytes) (1024 ^ 3) in int_str (n div 10) @ ''.'' @ int_str (n mod 10) @ '' GB'')
      else if 1024 ^ 2 \<le> bytes then int_str (round_div bytes (1024 ^ 2)) @ '' MB''
      else int_str bytes @ '' bytes'')"

text \<open>The first line of the key whose second field is a number.\<close>

fun available_memory :: "string list \<Rightarrow> int" where
  "available_memory [] = 0"
| "available_memory (l # ls) =
     (if HasPrefix l ''MemAvailable:'' then
        (case Fields l of
           _ # v # _ \<Rightarrow> (case AtoiErr v of Some n \<Rightarrow> n * 1024 | None \<Rightarrow> available_memory ls)
         | _ \<Rightarrow> available_memory ls)
      else available_memory ls)"

definition getAvailableMemory :: "app_host \<Rightarrow> int act" where
  "getAvailableMemory A = attempt (call (ah_machine A) (HRead ''/proc/meminfo'')) (\<lambda>r. ret (case r of
       Inl _ \<Rightarrow> 0 | Inr d \<Rightarrow> available_memory (split_on (CHR 0x0A) d)))"

text \<open>
  The answer to \<^term>\<open>HStat p\<close> is the mode of the file in decimal. A path has at most 4096 bytes, so no
  tree is deeper than 2048 directories.
\<close>

definition mode_of :: "string \<Rightarrow> nat" where
  "mode_of t = (case parse_nat t of None \<Rightarrow> 0 | Some n \<Rightarrow> n)"

fun copy_tree :: "nat \<Rightarrow> machine \<Rightarrow> string \<Rightarrow> string \<Rightarrow> unit act" where
  "copy_tree 0 M src dst = fail ''file name too long''"
| "copy_tree (Suc n) M src dst =
     chk [] (call M (HStat src)) (\<lambda>st.
     chk [] (call M (HMkdir dst (mode_of st))) (\<lambda>_.
     chk [] (names M (HReadDir src)) (\<lambda>es.
     for_each (\<lambda>e.
       let s = PathJoin src (entry_name e); d = PathJoin dst (entry_name e) in
       if is_dir_entry e then copy_tree n M s d
       else chk [] (call M (HRead s)) (\<lambda>data. chk [] (call M (HStat s)) (\<lambda>st. chk [] (call M (HWrite d data (mode_of st))) (\<lambda>_. ret ())))) es)))"

definition copyDir :: "machine \<Rightarrow> string \<Rightarrow> string \<Rightarrow> unit act" where
  "copyDir = copy_tree 2048"

definition resource_values :: "string \<Rightarrow> string \<Rightarrow> yaml" where
  "resource_values cpu mem = ystrs [(''cpu'', cpu), (''memory'', mem)]"

definition buildValues :: "app_host \<Rightarrow> ModelSpec \<Rightarrow> (string \<times> yaml) list" where
  "buildValues A m =
     (let reqMem = or_default (msRequiredMemory m) ''256Mi''; limMem = or_default (msLimitedMemory m) reqMem;
          reqCPU = or_default (msRequiredCPU m) ''500m''; limCPU = or_default (msLimitedCPU m) ''18'' in
      [(''model'', ystrs [(''name'', msName m), (''hfRepo'', msHFRepo m), (''hfRef'', or_default (msHFRef m) ''main''),
          (''doneName'', ''.done''), (''storagePath'', or_default (msStoragePath m) (PathJoin defaultModelStorageBase (msName m)))]),
       (''vllm'', YMap [(''gpuMemoryUtilization'', YStr (or_default (msGPUMemoryUtilization m) ''0.9'')),
          (''maxModelLen'', YStr (or_default (msMaxModelLen m) ''auto'')),
          (''tensorParallelSize'', YInt (if msTensorParallelSize m \<le> 0 then 1 else msTensorParallelSize m))]),
       (''hf'', ystrs [(''token'', getenv A ''OLARES_USER_HUGGINGFACE_TOKEN''),
          (''endpoint'', or_default (getenv A ''HF_ENDPOINT'') ''https://huggingface.co'')])] @
      (if msTiktokenFiles m = [] then []
       else [(''tiktoken'', YMap [(''enabled'', YBool True), (''files'', YStr (msTiktokenFiles m)), (''dir'', YStr ''/data/tiktoken'')])]) @
      [(''resources'', YMap [
          (''vllm'', YMap [(''requests'', resource_values reqCPU reqMem), (''limits'', resource_values limCPU limMem)]),
          (''downloader'', YMap [(''requests'', resource_values ''100m'' ''256Mi''), (''limits'', resource_values ''1'' ''1Gi'')])])])"

subsection \<open>Endpoints of OpenWebUI\<close>

definition splitNonEmpty :: "string \<Rightarrow> char \<Rightarrow> string list" where
  "splitNonEmpty s sep = filter (\<lambda>p. p \<noteq> []) (map TrimSpace (split_on sep s))"

definition getOpenWebUIEnv :: "app_host \<Rightarrow> string \<Rightarrow> string act" where
  "getOpenWebUIEnv A envName =
     chk [] (output_of A [''kubectl'', ''get'', ''deploy'', ''openwebui'', ''-n'', ah_namespace A, ''-o'',
       ''jsonpath={.spec.template.spec.containers[0].env[?(@.name=='' @ dquote @ envName @ dquote @ '')].value}'']) (\<lambda>out.
     ret (case out of None \<Rightarrow> [] | Some t \<Rightarrow> TrimSpace t))"

definition setOpenWebUIEnv :: "app_host \<Rightarrow> string \<Rightarrow> unit act" where
  "setOpenWebUIEnv A v =
     quietly A [''kubectl'', ''set'', ''env'', ''deploy/openwebui'', ''OPENAI_API_BASE_URLS='' @ v, ''-n'', ah_namespace A]"

text \<open>The new value of the variable; \<^term>\<open>None\<close>: the URL is there already.\<close>

definition with_endpoint :: "string \<Rightarrow> string \<Rightarrow> string option" where
  "with_endpoint current url =
     (let urls = splitNonEmpty current (CHR '';'') in if url \<in> set urls then None else Some (join '';'' (urls @ [url])))"

definition without_endpoint :: "string \<Rightarrow> string \<Rightarrow> string" where
  "without_endpoint current url = join '';'' (filter (\<lambda>u. u \<noteq> url) (splitNonEmpty current (CHR '';'')))"

definition addOpenWebUIEndpoint :: "app_host \<Rightarrow> string \<Rightarrow> unit act" where
  "addOpenWebUIEndpoint A url =
     chk [] (getOpenWebUIEnv A ''OPENAI_API_BASE_URLS'') (\<lambda>current.
     case with_endpoint current url of None \<Rightarrow> ret () | Some v \<Rightarrow> setOpenWebUIEnv A v)"

definition removeOpenWebUIEndpoint :: "app_host \<Rightarrow> string \<Rightarrow> unit act" where
  "removeOpenWebUIEndpoint A url =
     chk [] (getOpenWebUIEnv A ''OPENAI_API_BASE_URLS'') (\<lambda>current. setOpenWebUIEnv A (without_endpoint current url))"

definition vllm_url :: "app_host \<Rightarrow> string \<Rightarrow> string" where
  "vllm_url A releaseName = ''http://'' @ releaseName @ ''-api.'' @ ah_namespace A @ '':8000/v1''"

subsection \<open>Progress of a download\<close>

fun find_pod :: "app_host \<Rightarrow> nat \<Rightarrow> string \<Rightarrow> string act" where
  "find_pod A 0 releaseName = ret []"
| "find_pod A (Suc n) releaseName =
     chk [] (output_of A [''kubectl'', ''get'', ''pods'', ''-n'', ah_namespace A, ''-l'', ''app.kubernetes.io/instance='' @ releaseName,
        ''-o'', ''jsonpath={.items[0].metadata.name}'']) (\<lambda>out. case out of
        Some t \<Rightarrow> if t \<noteq> [] then ret (TrimSpace t) else find_pod A n releaseName
      | None \<Rightarrow> find_pod A n releaseName)"

definition after_last_slash :: "string \<Rightarrow> string" where
  "after_last_slash s = (case LastIndexByte s slash of None \<Rightarrow> s | Some i \<Rightarrow> drop (i + 1) s)"

fun download_lines :: "app_host \<Rightarrow> string \<Rightarrow> string list \<Rightarrow> amounts \<Rightarrow> unit act" where
  "download_lines A name [] am = ret ()"
| "download_lines A name (l # ls) am =
     (case do { j \<leftarrow> ah_json A l; st \<leftarrow> field_str ''status'' (Some j); f \<leftarrow> field_str ''file'' (Some j);
                c \<leftarrow> field_int ''completed'' (Some j); t \<leftarrow> field_int ''total'' (Some j); e \<leftarrow> field_str ''error'' (Some j);
                Some (f, t, c, e) } of
        None \<Rightarrow> download_lines A name ls am
      | Some (f, t, c, e) \<Rightarrow>
          if e \<noteq> [] then download_lines A name ls am
          else
            (let am = (if f \<noteq> [] \<and> 0 < t then AList.update f (t, c) am else am); n = nat_str (length am);
                 detail = ''Downloading '' @ after_last_slash f @ '' ('' @ n @ ''/'' @ n @ '' files)''
             in chk [] (broadcastProgress A name StateDownloading 1 1 detail (sum_done am) (sum_total am)) (\<lambda>_. download_lines A name ls am)))"

definition monitorDownload :: "app_host \<Rightarrow> ModelSpec \<Rightarrow> string \<Rightarrow> unit act" where
  "monitorDownload A m releaseName =
     chk [] (find_pod A 60 releaseName) (\<lambda>podName.
     if podName = [] then ret ()
     else chk [] (or_empty A [''kubectl'', ''logs'', ''-n'', ah_namespace A, podName, ''-c'', ''hf-downloader'', ''-f'']) (\<lambda>t.
          download_lines A (msName m) (fst (stream_lines t)) []))"

definition merged_images :: "string list \<Rightarrow> string list \<Rightarrow> string list" where
  "merged_images rendered static = (if rendered = [] then static else rendered @ filter (\<lambda>i. i \<notin> set rendered) static)"

definition deploy_model :: "app_host \<Rightarrow> ModelSpec \<Rightarrow> string \<Rightarrow> unit act" where
  "deploy_model A m tmpDir =
     (let chartDir = PathJoin tmpDir ''vllm-model''; releaseName = ''vllm-'' @ msName m in
      chk ''copy chart: '' (copyDir (ah_machine A) (vllmChartPath A) chartDir) (\<lambda>_.
      chk ''inject values: '' (injectValuesYaml A chartDir (buildValues A m)) (\<lambda>_.
      chk [] (broadcastProgress A (msName m) StateDownloading 2 4 ''Pre-pulling images...'' 0 0) (\<lambda>_.
      chk [] (ExtractImagesFromChart A chartDir) (\<lambda>static.
      chk [] (ExtractImagesFromTemplateOutput A chartDir (ah_namespace A)) (\<lambda>rendered.
      chk [] (FilterMissingImages A (merged_images rendered static)) (\<lambda>missing.
      chk [] (PullImagesWithProgress A missing) (\<lambda>_.
      chk [] (broadcastProgress A (msName m) StateInstalling 3 4 ''Installing helm release...'' 0 0) (\<lambda>_.
      chk ''helm install: '' (InstallFromDir A releaseName chartDir (ah_namespace A)) (\<lambda>_.
      chk [] (broadcastProgress A (msName m) StateDownloading 4 4 ''Downloading model...'' 0 0) (\<lambda>_.
      chk [] (monitorDownload A m releaseName) (\<lambda>_.
      chk [] (addOpenWebUIEndpoint A (vllm_url A releaseName)) (\<lambda>_.
      broadcastState A (msName m) StateRunning)))))))))))))"

text \<open>The answer to the measure of a temporary directory is the directory that was made.\<close>

definition VLLMInstall :: "app_host \<Rightarrow> ModelSpec \<Rightarrow> unit act" where
  "VLLMInstall A m =
     (if msHFRepo m = [] then fail (''vllm install '' @ msName m @ '': hfRepo is required'')
      else
        chk [] (if msRequiredMemory m = [] then ret None
          else chk [] (getAvailableMemory A) (\<lambda>avail.
            let need = parseResourceSize A (msRequiredMemory m) in
            ret (if 0 < need \<and> 0 < avail \<and> avail < need
              then Some (''insufficient memory: need '' @ formatResourceSize need @ '', available '' @ formatResourceSize avail) else None))) (\<lambda>short.
        case short of
          Some e \<Rightarrow> fail e
        | None \<Rightarrow>
            chk [] (broadcastProgress A (msName m) StateInstalling 1 3 ''Preparing chart...'' 0 0) (\<lambda>_.
            chk ''create temp dir: '' (call (ah_machine A) (HMeasure ''MkdirTemp vllm-chart-'')) (\<lambda>tmpDir.
            attempt (deploy_model A m tmpDir) (\<lambda>r.
            ignoring (call (ah_machine A) (HRemoveAll tmpDir)) (case r of Inl e \<Rightarrow> fail e | Inr _ \<Rightarrow> ret ()))))))"

text \<open>Where the data of a model lies, confined to the storage of models.\<close>

definition modelStoragePath :: "ModelSpec \<Rightarrow> string + string" where
  "modelStoragePath m =
     (if msStoragePath m = [] then
        (case childPath defaultModelStorageBase (msName m) of Inl e \<Rightarrow> Inl (path_message e) | Inr p \<Rightarrow> Inr p)
      else if \<not> withinRoot (msStoragePath m) defaultModelStorageBase \<or> Clean (msStoragePath m) = Clean defaultModelStorageBase then
        Inl (''storage path '' @ quoted (msStoragePath m) @ '' is outside '' @ defaultModelStorageBase)
      else Inr (msStoragePath m))"

definition vllm_images :: "string list" where
  "vllm_images = [''docker.io/vllm/vllm-openai:v0.17.1-cu130'', ''ghcr.io/packalares/hf-downloader:latest'']"

definition VLLMUninstall :: "app_host \<Rightarrow> ModelSpec \<Rightarrow> unit act" where
  "VLLMUninstall A m =
     (let releaseName = ''vllm-'' @ msName m in
      chk [] (HelmUninstall A releaseName) (\<lambda>_.
      chk [] (removeOpenWebUIEndpoint A (vllm_url A releaseName)) (\<lambda>_.
      chk [] (case modelStoragePath m of Inl _ \<Rightarrow> ret () | Inr p \<Rightarrow> ignoring (call (ah_machine A) (HRemoveAll p)) (ret ())) (\<lambda>_.
      purgeContainerImages A vllm_images))))"

definition downloader_state :: "app_host \<Rightarrow> string \<Rightarrow> string act" where
  "downloader_state A releaseName =
     chk [] (output_of A [''kubectl'', ''get'', ''pods'', ''-n'', ah_namespace A, ''-l'', ''app.kubernetes.io/instance='' @ releaseName, ''-o'',
        ''jsonpath={.items[0].status.containerStatuses[?(@.name=='' @ dquote @ ''hf-downloader'' @ dquote @ '')].state}'']) (\<lambda>out.
     ret (case out of Some t \<Rightarrow> if Contains t ''running'' \<or> Contains t ''waiting'' then ''downloading'' else ''ready'' | None \<Rightarrow> ''ready''))"

definition VLLMInstalledModels :: "app_host \<Rightarrow> InstalledModel list act" where
  "VLLMInstalledModels A =
     chk [] (ListReleases A) (\<lambda>rs.
     gather (\<lambda>r. chk [] (downloader_state A (hrName r)) (\<lambda>st.
         ret [\<lparr>imName = TrimPrefix (hrName r) ''vllm-'', imSize = 0, imModified = st\<rparr>]))
       (filter (\<lambda>r. Contains (hrChart r) ''vllm'') rs))"

subsection \<open>Model requests\<close>

text \<open>
  \<^verbatim>\<open>activeModelOps\<close> is the state; the goroutine of a request is \<open>model_job\<close>, which runs at some later
  time and takes its entry out when it ends.
\<close>

type_synonym model_ops = "(string \<times> string) list"

datatype model_op = ModelInstall | ModelUninstall

definition backend_install :: "app_host \<Rightarrow> ModelSpec \<Rightarrow> unit act option" where
  "backend_install A m =
     (if msBackend m = ''ollama'' then Some (OllamaInstall A m) else if msBackend m = ''vllm'' then Some (VLLMInstall A m) else None)"

definition backend_uninstall :: "app_host \<Rightarrow> ModelSpec \<Rightarrow> unit act option" where
  "backend_uninstall A m =
     (if msBackend m = ''ollama'' then Some (OllamaUninstall A m) else if msBackend m = ''vllm'' then Some (VLLMUninstall A m) else None)"

definition start_op :: "app_host \<Rightarrow> ModelSpec \<Rightarrow> AppState \<Rightarrow> string \<Rightarrow> unit act option \<Rightarrow> model_ops \<Rightarrow> model_ops act" where
  "start_op A m st unknown backend ops = (case ValidateAppName (msName m) of
       Inl e \<Rightarrow> fail (''model '' @ name_message e)
     | Inr _ \<Rightarrow> (case backend of
         None \<Rightarrow> fail (''unknown model backend '' @ quoted (msBackend m) @ unknown)
       | Some _ \<Rightarrow> chk [] (broadcastState A (msName m) st) (\<lambda>_. ret (AList.update (msName m) (state_text st) ops))))"

definition InstallModel :: "app_host \<Rightarrow> ModelSpec \<Rightarrow> model_ops \<Rightarrow> model_ops act" where
  "InstallModel A m = start_op A m StateDownloading '' (available: ollama, vllm)'' (backend_install A m)"

definition UninstallModel :: "app_host \<Rightarrow> ModelSpec \<Rightarrow> model_ops \<Rightarrow> model_ops act" where
  "UninstallModel A m = start_op A m StateUninstalling [] (backend_uninstall A m)"

definition model_job :: "app_host \<Rightarrow> model_op \<Rightarrow> ModelSpec \<Rightarrow> model_ops \<Rightarrow> model_ops act" where
  "model_job A op m ops =
     (let done_ops = AList.delete (msName m) ops in
      case op of
        ModelInstall \<Rightarrow> (case backend_install A m of
            None \<Rightarrow> ret done_ops
          | Some act \<Rightarrow> attempt act (\<lambda>r. case r of
              Inr _ \<Rightarrow> ret done_ops
            | Inl e \<Rightarrow> chk [] (broadcastState A (msName m) StateInstallFailed) (\<lambda>_.
                chk [] (broadcastProgress A (msName m) StateInstallFailed 1 1 (''Install failed: '' @ e) 0 0) (\<lambda>_. ret done_ops))))
      | ModelUninstall \<Rightarrow> (case backend_uninstall A m of
            None \<Rightarrow> ret done_ops
          | Some act \<Rightarrow> attempt act (\<lambda>r.
              chk [] (broadcastState A (msName m) (case r of Inl _ \<Rightarrow> StateUninstallFailed | Inr _ \<Rightarrow> StateUninstalled)) (\<lambda>_. ret done_ops))))"

definition models_of :: "string \<Rightarrow> InstalledModel list act \<Rightarrow> (string \<times> InstalledModel list) list act" where
  "models_of name m = attempt m (\<lambda>r. ret (case r of Inl _ \<Rightarrow> [] | Inr [] \<Rightarrow> [] | Inr l \<Rightarrow> [(name, l)]))"

definition active_models :: "model_ops \<Rightarrow> (string \<times> InstalledModel list) list" where
  "active_models ops = (if ops = [] then []
     else [(''_active'', map (\<lambda>(n, st). \<lparr>imName = n, imSize = 0, imModified = st\<rparr>) ops)])"

definition ListInstalledModels :: "app_host \<Rightarrow> model_ops \<Rightarrow> (string \<times> InstalledModel list) list act" where
  "ListInstalledModels A ops =
     chk [] (models_of ''ollama'' (OllamaInstalledModels A)) (\<lambda>a.
     chk [] (models_of ''vllm'' (VLLMInstalledModels A)) (\<lambda>b. ret (a @ b @ active_models ops)))"

subsection \<open>The user directory\<close>

text \<open>
  \<^verbatim>\<open>LLDAPClient\<close>: the state of an operation is the host and the token the client holds. A request that
  cannot be built is one that fails; the white space of a query is one blank.
\<close>

record lldap_client =
  lcHost :: string
  lcUsername :: string
  lcPassword :: string

type_synonym 'a lldap_op = "(host \<times> string, 'a) op"

definition on_host :: "'a act \<Rightarrow> 'a lldap_op" where
  "on_host m = (\<lambda>(w, token). case m w of None \<Rightarrow> None | Some (r, w') \<Rightarrow> Some (r, w', token))"

definition get_token :: "string lldap_op" where
  "get_token = (\<lambda>(w, token). Some (Inr token, w, token))"

definition put_token :: "string \<Rightarrow> unit lldap_op" where
  "put_token token = (\<lambda>(w, _). Some (Inr (), w, token))"

definition NewLLDAPClient :: "app_host \<Rightarrow> lldap_client" where
  "NewLLDAPClient A =
     (let host = getenv A ''LLDAP_HOST'' in
      \<lparr>lcHost = (if host = [] then ''http://'' @ LLDAPHost (ah_ctx A) @ '':'' @ LLDAPPort (ah_ctx A) else host),
       lcUsername = getenv A ''LLDAP_BIND_DN'', lcPassword = getenv A ''LLDAP_BIND_PASSWORD''\<rparr>)"

definition IsConfigured :: "lldap_client \<Rightarrow> bool" where
  "IsConfigured c \<longleftrightarrow> lcUsername c \<noteq> [] \<and> lcPassword c \<noteq> []"

definition jstrs :: "(string \<times> string) list \<Rightarrow> jval" where
  "jstrs ps = JObj (map (\<lambda>(k, v). (k, JStr v)) ps)"

definition lldap_post :: "app_host \<Rightarrow> lldap_client \<Rightarrow> string \<Rightarrow> (string \<times> string) list \<Rightarrow> jval \<Rightarrow> string \<Rightarrow> (nat \<times> string) lldap_op" where
  "lldap_post A c path headers body failing =
     on_host (chk [] (ask (ah_machine A) (HHttp ''POST'' (lcHost c @ path) ((''Content-Type'', ''application/json'') # headers)
                (Some (ah_json_text A body)))) (\<lambda>a. case a of
        HErr _ e \<Rightarrow> fail (failing @ e)
      | HStatus n t \<Rightarrow> ret (n, t)
      | _ \<Rightarrow> ret (200, text_of a)))"

definition bearer :: "string \<Rightarrow> (string \<times> string) list" where
  "bearer token = [(''Authorization'', ''Bearer '' @ token)]"

definition lldap_authenticate :: "app_host \<Rightarrow> lldap_client \<Rightarrow> unit lldap_op" where
  "lldap_authenticate A c =
     chk [] get_token (\<lambda>token.
     if token \<noteq> [] then ret ()
     else
       chk [] (lldap_post A c ''/auth/simple/login'' [] (jstrs [(''password'', lcPassword c), (''username'', lcUsername c)]) ''lldap auth: '') (\<lambda>(status, body).
       if status \<noteq> 200 then fail (''lldap auth status '' @ nat_str status @ '': '' @ body)
       else (case field_str ''token'' (ah_json A body) of
           None \<Rightarrow> fail ''lldap auth decode''
         | Some t \<Rightarrow> put_token t)))"

text \<open>The data of an answer, or its first error; no data is \<^term>\<open>None\<close>.\<close>

definition graphql_answer :: "app_host \<Rightarrow> string \<Rightarrow> string + jval option" where
  "graphql_answer A body =
     (case do { j \<leftarrow> ah_json A body; errs \<leftarrow> Option.bind (member ''errors'' j) elements;
                decode_list (\<lambda>e. field_str ''message'' (Some e)) errs } of
        None \<Rightarrow> Inl ''lldap graphql decode''
      | Some (e # _) \<Rightarrow> Inl (''lldap graphql error: '' @ e)
      | Some [] \<Rightarrow> Inr (case ah_json A body of
           Some (JObj ms) \<Rightarrow> (case filter (\<lambda>(k, _). EqualFold k ''data'') ms of [] \<Rightarrow> None | xs \<Rightarrow> Some (snd (last xs)))
         | _ \<Rightarrow> None))"

text \<open>
  A request that is refused with 401 calls itself again after a new login, however often: the model
  takes a number of rounds and has no result when they are used up.
\<close>

fun graphql :: "nat \<Rightarrow> app_host \<Rightarrow> lldap_client \<Rightarrow> string \<Rightarrow> jval \<Rightarrow> jval option lldap_op" where
  "graphql 0 A c query vars = (\<lambda>_. None)"
| "graphql (Suc n) A c query vars =
     chk [] (lldap_authenticate A c) (\<lambda>_.
     chk [] get_token (\<lambda>token.
     chk [] (lldap_post A c ''/api/graphql'' (bearer token) (JObj [(''query'', JStr query), (''variables'', vars)]) ''lldap graphql: '') (\<lambda>(status, body).
     if status = 401 then
       chk [] (put_token []) (\<lambda>_. chk [] (lldap_authenticate A c) (\<lambda>_. graphql n A c query vars))
     else if status \<noteq> 200 then fail (''lldap graphql status '' @ nat_str status @ '': '' @ body)
     else (case graphql_answer A body of Inl e \<Rightarrow> fail e | Inr d \<Rightarrow> ret d))))"

definition lldap_SetPassword :: "app_host \<Rightarrow> lldap_client \<Rightarrow> string \<Rightarrow> string \<Rightarrow> unit lldap_op" where
  "lldap_SetPassword A c userID password =
     chk [] get_token (\<lambda>token.
     chk [] (lldap_post A c ''/auth/simple/change_password'' (bearer token) (jstrs [(''password'', password), (''userId'', userID)]) []) (\<lambda>(status, body).
     if status \<noteq> 200 then fail (''set password status '' @ nat_str status @ '': '' @ body) else ret ()))"

definition create_user_query :: string where
  "create_user_query = ''mutation CreateUser($user: CreateUserInput!) { createUser(user: $user) { id } }''"

definition lldap_CreateUser :: "nat \<Rightarrow> app_host \<Rightarrow> lldap_client \<Rightarrow> string \<Rightarrow> string \<Rightarrow> string \<Rightarrow> string \<Rightarrow> unit lldap_op" where
  "lldap_CreateUser n A c uid email displayName password =
     chk (''create user '' @ uid @ '': '') (graphql n A c create_user_query
       (JObj [(''user'', jstrs [(''displayName'', displayName), (''email'', email), (''id'', uid)])])) (\<lambda>_.
     if password = [] then ret () else attempt (lldap_SetPassword A c uid password) (\<lambda>_. ret ()))"

definition lldap_DeleteUser :: "nat \<Rightarrow> app_host \<Rightarrow> lldap_client \<Rightarrow> string \<Rightarrow> unit lldap_op" where
  "lldap_DeleteUser n A c uid =
     chk [] (graphql n A c ''mutation DeleteUser($userId: String!) { deleteUser(userId: $userId) { ok } }'' (jstrs [(''userId'', uid)])) (\<lambda>_. ret ())"

definition get_user_query :: string where
  "get_user_query = ''query GetUser($userId: String!) { user(userId: $userId) { id email displayName } }''"

definition lldap_GetUser :: "nat \<Rightarrow> app_host \<Rightarrow> lldap_client \<Rightarrow> string \<Rightarrow> bool lldap_op" where
  "lldap_GetUser n A c uid = chk [] (graphql n A c get_user_query (jstrs [(''userId'', uid)])) (\<lambda>_. ret True)"

definition lldap_CreateGroup :: "nat \<Rightarrow> app_host \<Rightarrow> lldap_client \<Rightarrow> string \<Rightarrow> int lldap_op" where
  "lldap_CreateGroup n A c name =
     chk [] (graphql n A c ''mutation CreateGroup($name: String!) { createGroup(name: $name) { id } }'' (jstrs [(''name'', name)])) (\<lambda>data.
     case Option.bind (Option.bind data (member ''createGroup'')) (\<lambda>g. field_int ''id'' (Some g)) of
       None \<Rightarrow> fail ''unexpected end of JSON input''
     | Some i \<Rightarrow> ret i)"

definition add_member_query :: string where
  "add_member_query =
     ''mutation AddUserToGroup($userId: String!, $groupId: Int!) { addUserToGroup(userId: $userId, groupId: $groupId) { ok } }''"

definition lldap_AddUserToGroup :: "nat \<Rightarrow> app_host \<Rightarrow> lldap_client \<Rightarrow> string \<Rightarrow> int \<Rightarrow> unit lldap_op" where
  "lldap_AddUserToGroup n A c userID groupID =
     chk [] (graphql n A c add_member_query (JObj [(''groupId'', JInt groupID), (''userId'', JStr userID)])) (\<lambda>_. ret ())"

definition sync_group :: "nat \<Rightarrow> app_host \<Rightarrow> lldap_client \<Rightarrow> string \<Rightarrow> string \<Rightarrow> unit lldap_op" where
  "sync_group n A c uid groupName =
     chk [] (lldap_CreateGroup n A c groupName) (\<lambda>groupID. lldap_AddUserToGroup n A c uid groupID)"

definition SyncUser :: "nat \<Rightarrow> app_host \<Rightarrow> lldap_client \<Rightarrow> string \<Rightarrow> string \<Rightarrow> string \<Rightarrow> string \<Rightarrow> string list \<Rightarrow> unit lldap_op" where
  "SyncUser n A c uid email displayName password groups =
     attempt (lldap_GetUser n A c uid) (\<lambda>r.
     chk [] (if r = Inr True then ret () else lldap_CreateUser n A c uid email displayName password) (\<lambda>_.
     for_all (sync_group n A c uid) groups))"

end
