(* ===== verification/App_Host_Props.thy ===== *)
theory App_Host_Props
  imports App_Cluster App_Store
begin

text \<open>
  What the app service does to a chart, to the files of the host and to its models: the values it
  merges, the directories it writes and removes, the endpoints it adds and takes away again.
\<close>

named_theorems does_intros \<open>what an operation does, by its last step\<close>

subsection \<open>Merged values\<close>

text \<open>
  The keys of every map of a document are distinct, as in a Go map. The leaf at a path; and a path that
  the document leaves open: it meets no leaf on its way and is no map itself.
\<close>

fun distinct_keys :: "yaml \<Rightarrow> bool" where
  "distinct_keys (YMap m) \<longleftrightarrow> distinct (map fst m) \<and> list_all (\<lambda>(k, v). distinct_keys v) m"
| "distinct_keys _ \<longleftrightarrow> True"

fun leaf_at :: "string list \<Rightarrow> (string \<times> yaml) list \<Rightarrow> yaml option" where
  "leaf_at [] m = None"
| "leaf_at (k # ks) m = (case map_of m k of
       None \<Rightarrow> None
     | Some (YMap m') \<Rightarrow> leaf_at ks m'
     | Some v \<Rightarrow> if ks = [] then Some v else None)"

fun open_at :: "string list \<Rightarrow> (string \<times> yaml) list \<Rightarrow> bool" where
  "open_at [] m \<longleftrightarrow> False"
| "open_at (k # ks) m \<longleftrightarrow> (case map_of m k of
       None \<Rightarrow> True
     | Some (YMap m') \<Rightarrow> open_at ks m'
     | Some v \<Rightarrow> False)"

definition merged :: "yaml option \<Rightarrow> yaml option \<Rightarrow> yaml option" where
  "merged d s = (case d of
       None \<Rightarrow> s
     | Some (YMap dm) \<Rightarrow> (case s of Some (YMap sm) \<Rightarrow> Some (YMap (deepMergeUnder dm sm)) | _ \<Rightarrow> d)
     | _ \<Rightarrow> d)"

lemma merged_None [simp]: "merged d None = d"
  by (simp add: merged_def split: option.splits yaml.splits)

lemma deepMergeUnder_lookup:
  assumes "distinct (map fst src)"
  shows "map_of (deepMergeUnder dst src) k = merged (map_of dst k) (map_of src k)"
  using assms
proof (induction src arbitrary: dst)
  case (Cons x src)
  obtain key v where x: "x = (key, v)" by (cases x)
  define dst1 where "dst1 = (case map_of dst key of
          None \<Rightarrow> AList.update key v dst
        | Some dstVal \<Rightarrow>
            (case v of
               YMap srcMap \<Rightarrow>
                 (case dstVal of
                    YMap dstMap \<Rightarrow> AList.update key (YMap (deepMergeUnder dstMap srcMap)) dst
                  | _ \<Rightarrow> dst)
             | _ \<Rightarrow> dst))"
  have d1: "map_of dst1 = (map_of dst)(key := merged (map_of dst key) (Some v))"
    by (auto simp: dst1_def merged_def update_conv' fun_upd_idem split: option.splits yaml.splits)
  have "map_of (deepMergeUnder dst (x # src)) k = merged (map_of dst1 k) (map_of src k)"
    using Cons by (simp add: x dst1_def)
  moreover have "map_of src key = None" using Cons.prems by (simp add: x map_of_eq_None_iff)
  ultimately show ?case by (simp add: d1 x)
qed simp

lemma distinct_keys_lookup:
  "distinct_keys (YMap m) \<Longrightarrow> map_of m k = Some v \<Longrightarrow> distinct_keys v"
  by (auto dest!: map_of_SomeD simp: list_all_iff)

lemma open_no_leaf: "open_at p m \<Longrightarrow> leaf_at p m = None"
  by (induction p m rule: leaf_at.induct) (auto split: option.splits yaml.splits)

lemma deepMergeUnder_leaf:
  "distinct_keys (YMap src) \<Longrightarrow>
   leaf_at p (deepMergeUnder dst src) = (if open_at p dst then leaf_at p src else leaf_at p dst)"
proof (induction p arbitrary: dst src)
  case (Cons k ks)
  have l: "map_of (deepMergeUnder dst src) k = merged (map_of dst k) (map_of src k)"
    using Cons.prems by (intro deepMergeUnder_lookup) simp
  have ih: "leaf_at ks (deepMergeUnder dm sm) = (if open_at ks dm then leaf_at ks sm else leaf_at ks dm)"
    if "map_of src k = Some (YMap sm)" for dm sm
    using Cons.IH distinct_keys_lookup [OF Cons.prems that] by blast
  show ?case
    using l ih by (auto simp: merged_def open_no_leaf split: option.splits yaml.splits)
qed simp


subsection \<open>Calls of composed operations\<close>

lemmas [does_intros] = does_ret does_fail does_chk does_call does_ask does_run_with meets_ignoring

lemma does_attempt [does_intros]: "does P m \<Longrightarrow> (\<And>r. does P (f r)) \<Longrightarrow> does P (attempt m f)"
  by (rule meets_attempt)

lemma does_if [does_intros]: "(b \<Longrightarrow> does P m) \<Longrightarrow> (\<not> b \<Longrightarrow> does P k) \<Longrightarrow> does P (if b then m else k)"
  by simp

lemma does_sum [does_intros]:
  "(\<And>e. does P (f e)) \<Longrightarrow> (\<And>a. does P (g a)) \<Longrightarrow> does P (case r of Inl e \<Rightarrow> f e | Inr a \<Rightarrow> g a)"
  by (cases r) simp_all

lemma does_option [does_intros]:
  "does P m \<Longrightarrow> (\<And>a. does P (g a)) \<Longrightarrow> does P (case r of None \<Rightarrow> m | Some a \<Rightarrow> g a)"
  by (cases r) simp_all

lemma does_pair [does_intros]: "(\<And>a b. does P (g a b)) \<Longrightarrow> does P (case r of (a, b) \<Rightarrow> g a b)"
  by (cases r) simp_all

lemma does_answer [does_intros]:
  "(\<And>t. does P (f t)) \<Longrightarrow> (\<And>ns. does P (g ns)) \<Longrightarrow> (\<And>n t. does P (h n t)) \<Longrightarrow> (\<And>t e. does P (k t e)) \<Longrightarrow>
   does P (case a of HOk t \<Rightarrow> f t | HNames ns \<Rightarrow> g ns | HStatus n t \<Rightarrow> h n t | HErr t e \<Rightarrow> k t e)"
  by (cases a) simp_all

lemma does_succeeds [does_intros]: "does P m \<Longrightarrow> does P (succeeds m)"
  and does_or_else [does_intros]: "does P m \<Longrightarrow> does P (or_else d m)"
  by (auto simp: succeeds_def or_else_def intro!: does_intros)

lemma does_names [does_intros]: "P c \<Longrightarrow> does P (names M c)"
  unfolding names_def by (intro does_intros)

lemma does_run [does_intros]: "P (HRun args None) \<Longrightarrow> does P (run M args)"
  unfolding run_def by (rule does_call)

lemma does_output [does_intros]: "P (HRun args None) \<Longrightarrow> does P (output_of A args)"
  and does_quietly [does_intros]: "P (HRun args None) \<Longrightarrow> does P (quietly A args)"
  and does_or_empty [does_intros]: "P (HRun args None) \<Longrightarrow> does P (or_empty A args)"
  by (auto simp: output_of_def quietly_def or_empty_def intro!: does_intros)

lemma for_each_Cons: "for_each f (x # xs) = chk [] (f x) (\<lambda>_. for_each f xs)"
  and for_all_Cons: "for_all f (x # xs) = attempt (f x) (\<lambda>_. for_all f xs)"
  and for_each_Nil: "for_each f [] = ret ()" and for_all_Nil: "for_all f [] = ret ()"
  by (rule ext, simp)+

lemma does_for_all [does_intros]: "(\<And>x. x \<in> set xs \<Longrightarrow> does P (f x)) \<Longrightarrow> does P (for_all f xs)"
  by (induction xs) (auto simp: for_all_Cons for_all_Nil intro!: does_intros simp del: for_all.simps)

lemma does_gather [does_intros]: "(\<And>x. x \<in> set xs \<Longrightarrow> does P (f x)) \<Longrightarrow> does P (gather f xs)"
  by (induction xs) (auto intro!: does_intros)

lemma does_create_file [does_intros]:
  "P (HWrite p [] 438) \<Longrightarrow> P (HAppend p d 438) \<Longrightarrow> does P (create_file M p d opening writing)"
  unfolding create_file_def by (intro does_intros)

lemma does_http_get [does_intros]: "P (HHttp ''GET'' url [] None) \<Longrightarrow> does P (http_get A url failing status)"
  unfolding http_get_def by (intro does_intros)

lemma meets_or_remove:
  assumes "P (HRemoveAll dir)" "meets P R m" "\<And>a. R (Inr a) \<Longrightarrow> meets P Q (k a)" "\<And>e. Q (Inl e)"
  shows "meets P Q (or_remove M dir msg m k)"
  unfolding or_remove_def
  by (rule meets_attempt [OF assms(2)])
    (auto intro!: meets_ignoring does_call meets_fail assms(1,3,4) split: sum.splits)

lemma does_or_remove [does_intros]:
  "P (HRemoveAll dir) \<Longrightarrow> does P m \<Longrightarrow> (\<And>a. does P (k a)) \<Longrightarrow> does P (or_remove M dir msg m k)"
  by (rule meets_or_remove [where R = "\<lambda>_. True"]) simp_all

text \<open>Names of a directory, on a machine that answers with names of files.\<close>

definition file_name :: "string \<Rightarrow> bool" where
  "file_name e \<longleftrightarrow> proper_elem e \<and> e \<noteq> ''..''"

definition lists_names :: "machine \<Rightarrow> bool" where
  "lists_names M \<longleftrightarrow> (\<forall>xs d ns. answers M xs (HReadDir d) = HNames ns \<longrightarrow> (\<forall>e \<in> set ns. file_name (entry_name e)))"

lemma meets_names:
  assumes "lists_names M" "P (HReadDir d)"
  shows "meets P (\<lambda>r. \<forall>ns. r = Inr ns \<longrightarrow> (\<forall>e \<in> set ns. file_name (entry_name e))) (names M (HReadDir d))"
  using assms
  by (auto simp: meets_def names_def chk_def ask_def Let_def ret_def fail_def lists_names_def split: hans.splits)

subsection \<open>The files of an installation\<close>

text \<open>
  What an installation may do on the host: change files of its own directory, make directories in the
  cache of charts, run the four tools, ask and read.
\<close>

fun install_call :: "string \<Rightarrow> hcmd \<Rightarrow> bool" where
  "install_call dest (HRun args _) \<longleftrightarrow> args \<noteq> [] \<and> hd args \<in> {''helm'', ''kubectl'', ''crictl'', ''ctr''}"
| "install_call dest (HWrite p _ _) \<longleftrightarrow> below dest p"
| "install_call dest (HAppend p _ _) \<longleftrightarrow> below dest p"
| "install_call dest (HRemove p) \<longleftrightarrow> below dest p"
| "install_call dest (HRemoveAll p) \<longleftrightarrow> below dest p"
| "install_call dest (HRename p q) \<longleftrightarrow> below dest p \<and> below dest q"
| "install_call dest (HMkdir p _) \<longleftrightarrow> below chartCacheDir p"
| "install_call dest (HRead _) \<longleftrightarrow> True"
| "install_call dest (HStat _) \<longleftrightarrow> True"
| "install_call dest (HReadDir _) \<longleftrightarrow> True"
| "install_call dest (HGlob _) \<longleftrightarrow> True"
| "install_call dest (HUntar _) \<longleftrightarrow> True"
| "install_call dest (HLookPath _) \<longleftrightarrow> True"
| "install_call dest (HRandom _) \<longleftrightarrow> True"
| "install_call dest (HMeasure _) \<longleftrightarrow> True"
| "install_call dest (HHttp _ _ _ _) \<longleftrightarrow> True"
| "install_call dest _ \<longleftrightarrow> False"

abbreviation installs :: "string \<Rightarrow> 'a act \<Rightarrow> bool" where
  "installs dest \<equiv> does (install_call dest)"

lemma rooted_cache: "is_rooted chartCacheDir"
  by code_simp

definition app_dir :: "string \<Rightarrow> bool" where
  "app_dir dest \<longleftrightarrow> below chartCacheDir dest \<and> path_elems chartCacheDir \<noteq> path_elems dest"

lemma app_dir_rooted: "app_dir dest \<Longrightarrow> is_rooted dest"
  by (simp add: app_dir_def below_def)

lemma below_parent:
  assumes "app_dir dest" "below dest p" "Clean p = p"
  shows "below chartCacheDir (Dir p)"
proof -
  have p: "is_rooted p" using assms(2) by (simp add: below_def)
  have d: "is_rooted (Dir p)" "path_elems (Dir p) = butlast (path_elems p)" using Dir_elems [OF p assms(3)] by simp_all
  have "prefix (path_elems chartCacheDir) (path_elems p)" "path_elems p \<noteq> path_elems chartCacheDir"
    using assms(1,2) by (auto simp: app_dir_def below_def dest: prefix_order.order_trans prefix_order.antisym)
  then have "prefix (path_elems chartCacheDir) (butlast (path_elems p))"
    by (cases "path_elems p" rule: rev_cases) (auto simp: prefix_snoc)
  with d show ?thesis by (simp add: below_def)
qed

lemma unpack_installs: "app_dir dest \<Longrightarrow> installs dest (unpack_entries M dest es)"
proof (induction es)
  case (Cons x es)
  obtain t n d where x: "x = (t, n, d)" by (cases x)
  define target where "target = PathJoin dest n"
  have r: "is_rooted dest" using Cons.prems by (rule app_dir_rooted)
  have t: "is_rooted target" "Clean target = target" using r by (simp_all add: target_def)
  have b: "withinRoot target dest \<Longrightarrow> below dest target" using withinRoot_below [OF t(1) r] by simp
  have c: "below dest target \<Longrightarrow> below chartCacheDir target"
    using Cons.prems below_trans by (auto simp: app_dir_def)
  show ?case
    unfolding x unpack_entries.simps Let_def target_def [symmetric]
    using Cons b c below_parent [OF Cons.prems _ t(2)]
    by (intro does_intros) auto
qed (simp add: does_ret)

lemma findChartDir_below:
  assumes "is_rooted dest" "lists_names (ah_machine A)"
  shows "meets (install_call dest) (\<lambda>r. \<forall>d. r = Inr d \<longrightarrow> below dest d) (findChartDir A dest)"
proof -
  have "meets (install_call dest) (\<lambda>r. \<forall>d. r = Inr d \<longrightarrow> below dest d) (first_chart_dir A dest es)"
    if "\<forall>e \<in> set es. file_name (entry_name e)" for es
    using that
  proof (induction es)
    case (Cons e es)
    then have "below dest (PathJoin dest (entry_name e))"
      using assms(1) by (auto intro: below_Join below_refl simp: file_name_def)
    with Cons show ?case
      unfolding first_chart_dir.simps Let_def
      by (auto intro!: meets_chk [OF does_succeeds [OF does_call]] meets_ret)
  qed (simp add: meets_fail)
  then show ?thesis
    unfolding findChartDir_def
    using assms by (auto intro!: meets_chk [OF does_succeeds [OF does_call]] meets_chk [OF meets_names] meets_ret below_refl)
qed

lemma repo_chart_below:
  assumes "app_dir dest" "lists_names (ah_machine A)"
  shows "meets (install_call dest) (\<lambda>r. \<forall>d. r = Inr d \<longrightarrow> below dest d) (DownloadChartFromRepo A url name dest)"
proof -
  have r: "is_rooted dest" using assms(1) by (rule app_dir_rooted)
  have c: "install_call dest (HRemoveAll dest)" "install_call dest (HMkdir dest 493)"
    using assms(1) r by (auto simp: below_refl app_dir_def)
  have t: "below dest (PathJoin dest (name @ ''.tgz''))" if "ValidateAppName name = Inr ()"
  proof (rule below_Join [OF r])
    have "CHR ''.'' \<notin> set name" using that appNameRE_set by (fastforce simp: ValidateAppName_ok_iff)
    moreover have "slash \<notin> set (name @ ''.tgz'')"
      using ValidateAppName_ok_proper [OF that] by (auto simp: proper_elem_def)
    ultimately show "proper_elem (name @ ''.tgz'')" "name @ ''.tgz'' \<noteq> ''..''" by (auto simp: proper_elem_def)
  qed (rule below_refl [OF r])
  have f: "installs dest (findChartInIndex A url name)"
    unfolding findChartInIndex_def by (intro does_intros) simp
  have u: "installs dest (unpackTGZ A p dest)" for p
    unfolding unpackTGZ_def by (intro does_intros unpack_installs assms(1)) simp
  have d: "installs dest (downloadFile A u p)" if "below dest p" for u p
    unfolding downloadFile_def using that by (intro does_intros) simp_all
  show ?thesis
  proof (cases "ValidateAppName name")
    case (Inr v)
    then have tt: "below dest (PathJoin dest (name @ ''.tgz''))" using t by simp
    show ?thesis
      unfolding DownloadChartFromRepo_def Let_def Inr sum.case
      using tt
      by (auto intro!: meets_fail meets_ignoring [OF does_call] meets_chk [OF does_call] meets_or_remove [OF c(1) f]
          meets_or_remove [OF c(1) d] meets_or_remove [OF c(1) u] meets_or_remove [OF c(1) findChartDir_below [OF r assms(2)]]
          meets_ret c)
  qed (simp add: DownloadChartFromRepo_def Let_def meets_fail)
qed

lemma child_app_dir:
  assumes "childPath chartCacheDir name = Inr dest"
  shows "app_dir dest" "ValidateAppName name = Inr ()" "dest = PathJoin chartCacheDir name"
proof -
  note c = childPath_InrD [OF rooted_cache assms]
  then show "ValidateAppName name = Inr ()" "dest = PathJoin chartCacheDir name" by simp_all
  with c(3) rooted_cache show "app_dir dest" by (simp add: app_dir_def below_def)
qed

lemma DownloadChart_below:
  assumes "childPath chartCacheDir name = Inr dest" "lists_names (ah_machine A)"
  shows "meets (install_call dest) (\<lambda>r. \<forall>d. r = Inr d \<longrightarrow> below dest d) (DownloadChart A name)"
  unfolding DownloadChart_def assms(1) sum.case
  using repo_chart_below [OF child_app_dir(1) [OF assms(1)] assms(2)]
  by (rule meets_chk) (auto intro: meets_ret)

lemma read_first_installs: "installs dest (read_first M ps)"
  by (induction ps) (auto intro!: does_intros)

lemma fetch_host_below:
  assumes "childPath chartCacheDir name = Inr dest" "lists_names (ah_machine A)"
  shows "meets (install_call dest) (\<lambda>r. \<forall>f. r = Inr f \<longrightarrow> below dest (fe_dir f)) (fetch_host A name)"
proof -
  have p: "installs dest (ParseOlaresManifest A d)" "installs dest (ParseChartMetadata A d)" for d
    by (auto simp: ParseOlaresManifest_def ParseChartMetadata_def intro!: does_intros read_first_installs)
  show ?thesis
    unfolding fetch_host_def
    by (rule meets_chk [OF DownloadChart_below [OF assms]])
      (auto intro!: meets_attempt [OF p(1)] meets_attempt [OF p(2)] meets_ret)
qed

text \<open>Values and sub-charts.\<close>

lemma file_literals: "file_name ''charts''" "file_name ''values.yaml''" "file_name ''Chart.yaml''"
  by (simp_all add: file_name_def proper_elem_def)

lemma below_file: "below dest d \<Longrightarrow> file_name e \<Longrightarrow> below dest (PathJoin d e)"
  by (simp add: file_name_def below_def path_elems_PathJoin)

lemma inject_installs: "below dest d \<Longrightarrow> installs dest (injectValuesYaml A d vals)"
  unfolding injectValuesYaml_def Let_def
  by (intro does_intros) (auto intro: below_file file_literals)

lemma subcharts_inject_installs:
  "below dest d \<Longrightarrow> \<forall>e \<in> set es. file_name (entry_name e) \<Longrightarrow> installs dest (inject_subcharts A d vals es)"
  by (induction es) (auto intro!: does_intros inject_installs below_file)

lemma find_subcharts_below:
  "\<forall>e \<in> set es. file_name (entry_name e) \<Longrightarrow>
   meets (install_call dest) (\<lambda>r. \<forall>ns. r = Inr ns \<longrightarrow> (\<forall>n \<in> set ns. file_name n)) (find_subcharts A d es)"
proof (induction es)
  case (Cons e es)
  then have m: "meets (install_call dest) (\<lambda>r. \<forall>ns. r = Inr ns \<longrightarrow> (\<forall>n \<in> set ns. file_name n)) (find_subcharts A d es)"
    by simp
  show ?case
    unfolding find_subcharts.simps
    using Cons.prems m by (auto intro!: meets_chk [OF does_succeeds [OF does_call]] meets_chk [OF m] meets_ret split: if_splits)
qed (simp add: meets_ret)

lemma restructure_installs:
  assumes "app_dir dest" "below dest d" "lists_names (ah_machine A)"
  shows "installs dest (restructureSubcharts A d)"
proof -
  have c: "below dest (PathJoin d ''charts'')" using assms(2) file_literals(1) by (rule below_file)
  then have m: "install_call dest (HMkdir (PathJoin d ''charts'') 493)"
    using assms(1) below_trans by (auto simp: app_dir_def)
  have r: "installs dest (run_all M (map (\<lambda>n. HRename (PathJoin d n) (PathJoin (PathJoin d ''charts'') n)) ns))"
    if "\<forall>n \<in> set ns. file_name n" for M ns
    using that c assms(2) by (intro does_run_all) (auto intro!: below_file)
  have f: "installs dest (chk [] (find_subcharts A d es) (\<lambda>ns.
      if ns = [] then ret ()
      else attempt (call (ah_machine A) (HMkdir (PathJoin d ''charts'') 493)) (\<lambda>r. case r of
          Inl _ \<Rightarrow> ret ()
        | Inr _ \<Rightarrow> run_all (ah_machine A) (map (\<lambda>n. HRename (PathJoin d n) (PathJoin (PathJoin d ''charts'') n)) ns))))"
    if "\<forall>e \<in> set es. file_name (entry_name e)" for es
    by (rule meets_chk [OF find_subcharts_below [OF that]]) (use m r in \<open>auto intro!: does_intros\<close>)
  show ?thesis
    unfolding restructureSubcharts_def Let_def
    by (rule meets_attempt [OF meets_names [OF assms(3)]]) (use f in \<open>auto intro!: does_intros split: sum.splits\<close>)
qed

lemma chart_entries_names:
  "lists_names (ah_machine A) \<Longrightarrow>
   meets (install_call dest) (\<lambda>r. \<forall>es. r = Inr es \<longrightarrow> (\<forall>e \<in> set es. file_name (entry_name e))) (dir_entries A d)"
  unfolding dir_entries_def or_else_def
  by (rule meets_attempt [OF meets_names]) (auto intro!: meets_ret split: sum.splits)

lemma citus_installs: "installs dest (ensureCitusUserAndDB A u p d)"
  unfolding ensureCitusUserAndDB_def citusExec_def citusQuery_def
  by (intro does_intros) (simp_all add: psql_def)

lemma password_installs: "installs dest (generateAppPassword A n)"
  unfolding generateAppPassword_def by (intro does_intros) simp_all

lemma some_template_installs: "installs dest (some_template M ts)"
  by (induction ts) (auto intro!: does_intros)

lemma provision_installs: "installs dest (provisionPostgres A n d m)"
  unfolding provisionPostgres_def hasPostgresTemplate_def Let_def
  by (intro does_intros citus_installs password_installs some_template_installs) simp

lemma env_installs: "installs dest (buildOlaresEnv A n z m)"
proof -
  have "installs dest (manifest_env A n z es vars)" for es vars
    by (induction es arbitrary: vars) (auto simp: Let_def intro!: does_intros password_installs)
  then show ?thesis unfolding buildOlaresEnv_def by (intro does_intros password_installs)
qed

lemma namespace_installs: "installs dest (CreateNamespace A n)"
  unfolding CreateNamespace_def ApplyManifest_def by (intro does_intros) simp_all

lemma inject_host_installs:
  assumes "app_dir dest" "below dest (fe_dir f)" "lists_names (ah_machine A)"
  shows "installs dest (inject_host A n i f)"
proof -
  have c: "below dest (PathJoin (fe_dir f) ''charts'')" using assms(2) file_literals(1) by (rule below_file)
  have s: "installs dest (chk [] (dir_entries A (PathJoin (fe_dir f) ''charts'')) (inject_subcharts A (PathJoin (fe_dir f) ''charts'') vals))"
    for vals
    by (rule meets_chk [OF chart_entries_names [OF assms(3)]]) (auto intro: subcharts_inject_installs c)
  show ?thesis
    unfolding inject_host_def Let_def
    by (intro does_intros(3,6-) namespace_installs provision_installs env_installs inject_installs restructure_installs assms s)
qed

lemma image_list_installs:
  "installs dest (ExtractImagesFromTemplateOutput A d n)" "installs dest (ExtractImagesFromChart A d)"
  "installs dest (FilterMissingImages A images)" "installs dest (PullImagesWithProgress A images)"
proof -
  have f: "installs dest (extractImagesFromValuesFile A p)" "installs dest (extractImagesFromTemplate A p)"
      "installs dest (if_there A p)" "installs dest (dir_entries A p)" for p
    by (auto simp: extractImagesFromValuesFile_def extractImagesFromTemplate_def if_there_def dir_entries_def intro!: does_intros)
  have t: "installs dest (template_images_in A p)" "installs dest (subchart_dirs A p)" for p
    by (auto simp: template_images_in_def subchart_dirs_def Let_def intro!: does_intros f)
  show "installs dest (ExtractImagesFromTemplateOutput A d n)"
    unfolding ExtractImagesFromTemplateOutput_def by (intro does_intros) simp
  show "installs dest (ExtractImagesFromChart A d)"
    unfolding ExtractImagesFromChart_def findValuesFiles_def by (intro does_intros f t)
  show "installs dest (FilterMissingImages A images)"
    unfolding FilterMissingImages_def CheckImageExists_def by (intro does_intros) simp
  show "installs dest (PullImagesWithProgress A images)"
    unfolding PullImagesWithProgress_def pull_command_def by (intro does_intros) simp_all
qed

lemma helm_installs: "installs dest (HelmUninstall A n)" "installs dest (InstallFromDir A n d ns)"
  by (auto simp: HelmUninstall_def InstallFromDir_def helm_run_def intro!: does_intros)

lemma object_installs: "installs dest (ApplyApplicationCRD A dynamic r)"
  unfolding ApplyApplicationCRD_def Let_def applyApplicationDynamic_def kube_request_def applyApplicationKubectl_def
  by (intro does_intros) simp_all

lemma release_host_installs: "installs dest (release_host A dynamic r d)"
  unfolding release_host_def pull_host_def PullImagesForChart_def
  by (intro does_intros helm_installs object_installs image_list_installs)

lemma cleanup_installs: "childPath chartCacheDir name = Inr dest \<Longrightarrow> installs dest (CleanupChart A name)"
  using child_app_dir(1) [of name dest] by (auto simp: CleanupChart_def below_refl app_dir_rooted intro!: does_intros)

text \<open>
  C24: whatever the chart repository sends, an installation changes files only in the chart directory of
  its own app, makes directories only in the cache of charts, and beyond that only runs helm, kubectl,
  crictl and ctr. It always comes to an end, and for a name that is not valid it does nothing at all.
\<close>
theorem install_stays_in_its_directory:
  assumes "lists_names (ah_machine A)"
  shows "meets (\<lambda>c. ValidateAppName (r_Name r) = Inr () \<and> install_call (PathJoin chartCacheDir (r_Name r)) c)
           (\<lambda>res. \<forall>e. ValidateAppName (r_Name r) = Inl e \<longrightarrow> res = Inl (name_message e))
           (install_host A dynamic r)"
proof (cases "childPath chartCacheDir (r_Name r)")
  case (Inl e)
  then obtain n where n: "ValidateAppName (r_Name r) = Inl n" and e: "e = BadName n"
    using childPath_eq [OF rooted_cache] by (auto split: sum.splits)
  moreover have "install_host A dynamic r = fail (name_message n)"
    by (rule ext) (simp add: install_host_def fetch_host_def DownloadChart_def Inl e path_message_def chk_def fail_def)
  ultimately show ?thesis by (simp add: meets_fail)
next
  case (Inr dest)
  have i: "installs dest (inject_host A (r_Name r) (r_AppID r) f)" if "below dest (fe_dir f)" for f
    using child_app_dir(1) [OF Inr] that assms by (rule inject_host_installs)
  have "installs dest (install_host A dynamic r)"
    unfolding install_host_def
    by (rule meets_chk [OF fetch_host_below [OF Inr assms]])
      (auto intro!: does_intros i release_host_installs cleanup_installs Inr)
  then show ?thesis using child_app_dir(2,3) [OF Inr] by simp
qed

subsection \<open>The files of a model\<close>

lemma withinRoot_rooted:
  assumes "is_rooted r" "withinRoot p r"
  shows "is_rooted p"
proof (rule ccontr)
  assume "\<not> is_rooted p"
  then have "Clean p \<noteq> Clean r" "is_rooted (Clean r) \<noteq> is_rooted (Clean p)" using assms(1) is_rooted_Clean by metis+
  then have "\<not> withinRoot p r" by (simp add: withinRoot_def rel_stays_below_def Rel_def)
  with assms(2) show False by simp
qed

lemma rooted_models: "is_rooted defaultModelStorageBase"
  by code_simp

lemma modelStoragePath_strict:
  assumes "modelStoragePath m = Inr p"
  shows "strictly_below defaultModelStorageBase p"
proof (cases "msStoragePath m = []")
  case True
  with assms have "childPath defaultModelStorageBase (msName m) = Inr p"
    by (auto simp: modelStoragePath_def split: sum.splits)
  with rooted_models show ?thesis by (rule child.guard_strict)
next
  case False
  with assms have p: "withinRoot p defaultModelStorageBase" "Clean p \<noteq> Clean defaultModelStorageBase"
    by (auto simp: modelStoragePath_def split: if_splits)
  have r: "is_rooted p" using rooted_models p(1) by (rule withinRoot_rooted)
  have "below defaultModelStorageBase p" using withinRoot_below [OF r rooted_models] p(1) by simp
  moreover have "path_elems p \<noteq> path_elems defaultModelStorageBase"
    using p(2) r rooted_models by (simp add: Clean_eq_iff)
  ultimately show ?thesis by (auto simp: below_def strictly_below_def strict_prefix_def)
qed

text \<open>The guard takes the storage path of a request; the rest of the request is its environment.\<close>

interpretation model_guard: strict_path_guard "\<lambda>m x. modelStoragePath (m\<lparr>msStoragePath := x\<rparr>)" "\<lambda>_. True"
  "\<lambda>_. defaultModelStorageBase" "\<lambda>_ p. p"
  by unfold_locales (auto dest: modelStoragePath_strict intro: strictly_below_below)

fun removal_call :: "app_host \<Rightarrow> hcmd \<Rightarrow> bool" where
  "removal_call A (HRun args _) \<longleftrightarrow> args \<noteq> [] \<and> hd args \<in> {''helm'', ''kubectl'', ''crictl'', ''ctr''}"
| "removal_call A (HHttp method url _ _) \<longleftrightarrow> method = ''DELETE'' \<and> url = OllamaURL A @ ''/api/delete''"
| "removal_call A (HEmit _) \<longleftrightarrow> True"
| "removal_call A (HRemoveAll p) \<longleftrightarrow>
     strictly_below defaultModelStorageBase p \<and> (\<forall>q. below p q \<longrightarrow> strictly_below defaultModelStorageBase q)"
| "removal_call A _ \<longleftrightarrow> False"

lemma purge_removes: "does (removal_call A) (purgeContainerImages A images)"
  unfolding purgeContainerImages_def purge_image_def ctr_def by (intro does_intros) simp_all

lemma broadcast_removes: "does (removal_call A) (broadcastState A n st)"
  unfolding broadcastState_def by (intro does_intros) simp

lemma vllm_removes: "does (removal_call A) (VLLMUninstall A m)"
proof -
  have h: "does (removal_call A) (HelmUninstall A n)" for n
    unfolding HelmUninstall_def helm_run_def by (intro does_intros) simp
  have e: "does (removal_call A) (removeOpenWebUIEndpoint A u)" for u
    unfolding removeOpenWebUIEndpoint_def getOpenWebUIEnv_def setOpenWebUIEnv_def by (intro does_intros) simp_all
  have p: "removal_call A (HRemoveAll p)" if "modelStoragePath m = Inr p" for p
    using model_guard.guard_strict [where e = m and x = "msStoragePath m" and p = p]
      model_guard.subtree_strictly_below [where e = m and x = "msStoragePath m" and p = p] that by auto
  have d: "does (removal_call A) (case modelStoragePath m of Inl _ \<Rightarrow> ret () | Inr p \<Rightarrow> ignoring (call M (HRemoveAll p)) (ret ()))" for M
    using p by (cases "modelStoragePath m") (auto intro!: does_intros simp del: removal_call.simps)
  show ?thesis unfolding VLLMUninstall_def Let_def by (intro does_chk h e d purge_removes)
qed

text \<open>
  The job that uninstalls a model removes nothing but a directory strictly below the storage of
  models, whatever name and path the request gives; beyond that it only runs helm, kubectl, crictl and
  ctr or asks the Ollama server to delete. It always ends, and its entry is gone.
\<close>
lemma model_removal_confined:
  "meets (removal_call A) (gives (\<lambda>ops'. map_of ops' = (map_of ops)(msName m := None)))
     (model_job A ModelUninstall m ops)"
proof -
  let ?Q = "gives (\<lambda>ops'. map_of ops' = (map_of ops)(msName m := None))"
  have fin: "meets (removal_call A) ?Q (ret (AList.delete (msName m) ops))"
    by (rule meets_ret) (simp add: delete_conv')
  have o: "does (removal_call A) (OllamaUninstall A m)"
    unfolding OllamaUninstall_def ollama_request_def by (intro does_intros) simp
  have b: "meets (removal_call A) (gives (\<lambda>_. True)) (broadcastState A n st)" for n st
    unfolding broadcastState_def by (intro meets_ignoring does_call meets_ret) simp_all
  show ?thesis
  proof (cases "backend_uninstall A m")
    case (Some act)
    then have a: "does (removal_call A) act"
      using o vllm_removes by (auto simp: backend_uninstall_def split: if_splits)
    have f: "meets (removal_call A) ?Q (chk [] (broadcastState A (msName m) st) (\<lambda>_. ret (AList.delete (msName m) ops)))" for st
      by (rule meets_chk [OF b]) (simp_all add: fin)
    show ?thesis
      unfolding model_job_def Let_def Some option.case model_op.case
      by (rule meets_attempt [OF a]) (rule f)
  qed (use fin in \<open>simp add: model_job_def\<close>)
qed

subsection \<open>Endpoints\<close>

lemma TrimSpace_id:
  assumes "s \<noteq> []" "\<not> is_space (hd s)" "\<not> is_space (last s)"
  shows "TrimSpace s = s"
proof -
  have d: "dropWhile is_space t = t" if "t \<noteq> []" "\<not> is_space (hd t)" for t
    using that by (cases t) simp_all
  show ?thesis using assms by (simp add: TrimSpace_def d hd_rev)
qed

lemma TrimSpace_ends:
  assumes "TrimSpace s \<noteq> []"
  shows "\<not> is_space (hd (TrimSpace s))" "\<not> is_space (last (TrimSpace s))"
proof -
  define t where "t = dropWhile is_space s"
  define r where "r = dropWhile is_space (rev t)"
  have e: "TrimSpace s = rev r" by (simp add: TrimSpace_def t_def r_def)
  with assms have r: "r \<noteq> []" by simp
  then have "\<not> is_space (hd r)" unfolding r_def by (rule hd_dropWhile)
  with e r show "\<not> is_space (last (TrimSpace s))" by (simp add: last_rev)
  have "rev t = takeWhile is_space (rev t) @ r" by (simp add: r_def)
  then have "t = rev r @ rev (takeWhile is_space (rev t))" by (metis rev_append rev_rev_ident)
  then have "hd t = hd (rev r)" "t \<noteq> []" using r by (metis hd_append2 rev_is_Nil_conv, auto)
  moreover have "\<not> is_space (hd t)" using \<open>t \<noteq> []\<close> unfolding t_def by (rule hd_dropWhile)
  ultimately show "\<not> is_space (hd (TrimSpace s))" by (simp add: e)
qed

definition endpoint :: "string \<Rightarrow> bool" where
  "endpoint u \<longleftrightarrow> u \<noteq> [] \<and> CHR '';'' \<notin> set u \<and> TrimSpace u = u"

lemma splitNonEmpty_endpoints: "u \<in> set (splitNonEmpty s (CHR '';'')) \<Longrightarrow> endpoint u"
proof -
  assume "u \<in> set (splitNonEmpty s (CHR '';''))"
  then obtain x where x: "x \<in> set (split_on (CHR '';'') s)" "u = TrimSpace x" "u \<noteq> []"
    by (auto simp: splitNonEmpty_def)
  have "CHR '';'' \<notin> set x" using x(1) split_on_no_sep by metis
  with x show ?thesis
    using TrimSpace_sublist TrimSpace_ends [of x] by (auto simp: endpoint_def intro: TrimSpace_id)
qed

lemma splitNonEmpty_join:
  assumes "list_all endpoint us"
  shows "splitNonEmpty (join '';'' us) (CHR '';'') = us"
proof (cases "us = []")
  case True
  then show ?thesis by (simp add: splitNonEmpty_def TrimSpace_def)
next
  case False
  have "split_on (CHR '';'') (join '';'' us) = us"
    using assms False by (intro split_on_join) (auto simp: list_all_iff endpoint_def)
  moreover have "map TrimSpace us = us" "filter (\<lambda>p. p \<noteq> []) us = us"
    using assms by (auto simp: list_all_iff endpoint_def intro: map_idI)
  ultimately show ?thesis by (simp add: splitNonEmpty_def)
qed

lemma splitNonEmpty_all: "list_all endpoint (splitNonEmpty s (CHR '';''))"
  using splitNonEmpty_endpoints by (auto simp: list_all_iff)

lemma vllm_endpoint:
  assumes "ValidateAppName name = Inr ()" "CHR '';'' \<notin> set (ah_namespace A)"
  shows "endpoint (vllm_url A (''vllm-'' @ name))"
proof -
  have "\<not> lower_alnum CHR '';''" by code_simp
  then have "CHR '';'' \<notin> set name" using assms(1) appNameRE_set [of name "CHR '';''"] by (auto simp: ValidateAppName_ok_iff)
  moreover have "hd (vllm_url A r) = CHR ''h''" "last (vllm_url A r) = CHR ''1''" "vllm_url A r \<noteq> []" for r
    by (simp_all add: vllm_url_def)
  moreover have "\<not> is_space CHR ''h''" "\<not> is_space CHR ''1''" by code_simp+
  ultimately show ?thesis
    using assms(2) unfolding endpoint_def by (auto simp: vllm_url_def intro!: TrimSpace_id)
qed

text \<open>
  A model with a valid name is added to the endpoints of the chat front end once, behind those that
  are there; removing it takes exactly it out again, so that adding and removing leaves the other endpoints
  as they were.
\<close>
lemma endpoints_come_and_go:
  assumes "ValidateAppName name = Inr ()" "CHR '';'' \<notin> set (ah_namespace A)"
  shows "(case with_endpoint current (vllm_url A (''vllm-'' @ name)) of
       None \<Rightarrow> vllm_url A (''vllm-'' @ name) \<in> set (splitNonEmpty current (CHR '';''))
     | Some v \<Rightarrow>
         splitNonEmpty v (CHR '';'') = splitNonEmpty current (CHR '';'') @ [vllm_url A (''vllm-'' @ name)] \<and>
         splitNonEmpty (without_endpoint v (vllm_url A (''vllm-'' @ name))) (CHR '';'') = splitNonEmpty current (CHR '';'')) \<and>
     splitNonEmpty (without_endpoint current (vllm_url A (''vllm-'' @ name))) (CHR '';'') =
       filter (\<lambda>u. u \<noteq> vllm_url A (''vllm-'' @ name)) (splitNonEmpty current (CHR '';''))"
proof -
  define url where "url = vllm_url A (''vllm-'' @ name)"
  have u: "endpoint url" unfolding url_def using assms by (rule vllm_endpoint)
  have wo: "splitNonEmpty (without_endpoint s url) (CHR '';'') = filter (\<lambda>u. u \<noteq> url) (splitNonEmpty s (CHR '';''))" for s
    using splitNonEmpty_all [of s] unfolding without_endpoint_def by (intro splitNonEmpty_join) (auto simp: list_all_iff)
  have j: "splitNonEmpty (join '';'' (splitNonEmpty current (CHR '';'') @ [url])) (CHR '';'') = splitNonEmpty current (CHR '';'') @ [url]"
    using u splitNonEmpty_all [of current] by (intro splitNonEmpty_join) simp
  have "filter (\<lambda>u. u \<noteq> url) (splitNonEmpty current (CHR '';'')) = splitNonEmpty current (CHR '';'')"
    if "url \<notin> set (splitNonEmpty current (CHR '';''))"
    using that by (auto simp: filter_id_conv)
  then show ?thesis unfolding url_def [symmetric] by (simp add: with_endpoint_def Let_def wo j)
qed

subsection \<open>The chain of blocked pods\<close>

text \<open>
  The rules of the service's own chain after the commands of a log: a command that fails changes nothing.
  A packet takes the first rule that fits its source and destination; \<open>inside\<close> says in which networks
  the destination lies.
\<close>

fun chain_cmd :: "string list list \<Rightarrow> string list \<Rightarrow> string list list" where
  "chain_cmd rules (action # chain # rule) =
     (if chain \<noteq> iptablesChain then rules
      else if action = ''-A'' then rules @ [rule]
      else if action = ''-D'' then remove1 rule rules
      else if action = ''-F'' then [] else rules)"
| "chain_cmd rules _ = rules"

definition chain_step :: "string list list \<Rightarrow> hcmd \<times> hans \<Rightarrow> string list list" where
  "chain_step rules x = (case x of
       (HRun args _, a) \<Rightarrow>
         if failed a \<or> take 7 args \<noteq> iptables [] then rules else chain_cmd rules (drop 7 args)
     | _ \<Rightarrow> rules)"

definition chain_of :: "hlog \<Rightarrow> string list list" where
  "chain_of log = foldl chain_step [] log"

fun verdict :: "(string \<Rightarrow> bool) \<Rightarrow> string \<Rightarrow> string list list \<Rightarrow> string option" where
  "verdict inside ip [] = None"
| "verdict inside ip (rule # rules) =
     (if rule ! 1 = ip \<and> (rule ! 2 = ''-d'' \<longrightarrow> inside (rule ! 3)) then Some (last rule) else verdict inside ip rules)"

definition chain_rules :: "string \<Rightarrow> string list list" where
  "chain_rules ip = map (drop 2) (pod_rules ''-A'' ip)"

lemma chain_of_snoc [simp]: "chain_of (log @ [x]) = chain_step (chain_of log) x"
  by (simp add: chain_of_def)

lemma chain_step_iptables:
  "\<not> failed a \<Longrightarrow> chain_step rules (HRun (iptables args) i, a) = chain_cmd rules args"
  by (simp add: chain_step_def iptables_def)

definition tables_work :: "machine \<Rightarrow> bool" where
  "tables_work M \<longleftrightarrow> (\<forall>xs args. \<not> failed (answers M xs (HRun (iptables args) None)))"

lemma run_all_chain:
  "tables_work M \<Longrightarrow> \<exists>w'. run_all M (map (\<lambda>args. HRun (iptables args) None) cs) w = Some (Inr (), w') \<and>
     chain_of (hw_log w') = foldl chain_cmd (chain_of (hw_log w)) cs"
proof (induction cs arbitrary: w)
  case (Cons c cs)
  define a where "a = answers M (hw_log w) (HRun (iptables c) None)"
  define w1 where "w1 = w\<lparr>hw_log := hw_log w @ [(HRun (iptables c) None, a)]\<rparr>"
  have f: "\<not> failed a" using Cons.prems by (simp add: tables_work_def a_def)
  then have "\<exists>t. call M (HRun (iptables c) None) w = Some (Inr t, w1)"
    by (auto simp: call_def chk_def ask_def a_def w1_def failed_def ret_def Let_def split: hans.splits)
  moreover have "chain_of (hw_log w1) = chain_cmd (chain_of (hw_log w)) c"
    using f by (simp add: w1_def chain_step_iptables)
  ultimately show ?case
    using Cons.IH [OF Cons.prems, of w1] by (auto simp: ignoring_def attempt_def)
qed (simp add: ret_def)

lemma hostIptables_chain:
  "tables_work (ah_machine A) \<Longrightarrow> \<exists>out w'. hostIptables A args w = Some (Inr out, w') \<and>
     chain_of (hw_log w') = chain_cmd (chain_of (hw_log w)) args"
  by (auto simp: hostIptables_def or_empty_def chk_def ask_def ret_def Let_def tables_work_def chain_step_iptables)

lemma ensure_chain:
  assumes "tables_work (ah_machine A)"
  shows "\<exists>w'. EnsureIptablesChain A w = Some (Inr (), w') \<and> chain_of (hw_log w') = chain_of (hw_log w)"
proof -
  have n: "chain_cmd r [''-N'', iptablesChain] = r" "chain_cmd r [''-C'', ''FORWARD'', ''-j'', iptablesChain] = r"
      "chain_cmd r [''-I'', ''FORWARD'', ''1'', ''-j'', iptablesChain] = r" for r
    by (simp_all add: iptablesChain_def)
  obtain o1 w1 where 1: "hostIptables A [''-N'', iptablesChain] w = Some (Inr o1, w1)" "chain_of (hw_log w1) = chain_of (hw_log w)"
    using hostIptables_chain [OF assms] n(1) by metis
  obtain o2 w2 where 2: "hostIptables A [''-C'', ''FORWARD'', ''-j'', iptablesChain] w1 = Some (Inr o2, w2)" "chain_of (hw_log w2) = chain_of (hw_log w1)"
    using hostIptables_chain [OF assms] n(2) by metis
  obtain o3 w3 where 3: "hostIptables A [''-I'', ''FORWARD'', ''1'', ''-j'', iptablesChain] w2 = Some (Inr o3, w3)" "chain_of (hw_log w3) = chain_of (hw_log w2)"
    using hostIptables_chain [OF assms] n(3) by metis
  show ?thesis unfolding EnsureIptablesChain_def by (simp add: chk_def 1 2 3 ret_def)
qed

text \<open>The addresses of a release's pods, on a cluster that always answers the same.\<close>

definition pods_command :: "string \<Rightarrow> string \<Rightarrow> string list" where
  "pods_command namespace releaseName = kubectl_get ''pods'' namespace (''app.kubernetes.io/instance='' @ releaseName)
     (''{range .items[*]}{.status.podIP}'' @ newline_text @ ''{end}'')"

definition shows_pods :: "machine \<Rightarrow> (string \<Rightarrow> string \<Rightarrow> string) \<Rightarrow> bool" where
  "shows_pods M pods \<longleftrightarrow> (\<forall>xs ns rel. answers M xs (HRun (pods_command ns rel) None) = HOk (pods ns rel))"

lemma pods_command_chain: "chain_step r (HRun (pods_command ns rel) i, a) = r"
  by (simp add: chain_step_def pods_command_def kubectl_get_def iptables_def)

lemma getPodIPs_chain:
  assumes "shows_pods (ah_machine A) pods"
  shows "\<exists>w'. getPodIPs A ns rel w = Some (Inr (nonblank_lines (pods ns rel)), w') \<and> chain_of (hw_log w') = chain_of (hw_log w)"
  using assms
  unfolding getPodIPs_def pods_command_def [symmetric]
  by (simp add: run_def call_def chk_def ask_def ret_def Let_def shows_pods_def text_of_def pods_command_chain)

lemma foldl_append_rules: "foldl chain_cmd r (concat (map (pod_rules ''-A'') ips)) = r @ concat (map chain_rules ips)"
  by (induction ips arbitrary: r) (simp_all add: pod_rules_def chain_rules_def)

lemma block_chain:
  assumes "tables_work (ah_machine A)" "shows_pods (ah_machine A) pods"
  shows "\<exists>w'. BlockAppInternet A ns rel w = Some (Inr (), w') \<and>
     chain_of (hw_log w') = chain_of (hw_log w) @ concat (map chain_rules (nonblank_lines (pods ns rel)))"
proof -
  obtain w1 where 1: "EnsureIptablesChain A w = Some (Inr (), w1)" "chain_of (hw_log w1) = chain_of (hw_log w)"
    using ensure_chain [OF assms(1)] by metis
  obtain w2 where 2: "getPodIPs A ns rel w1 = Some (Inr (nonblank_lines (pods ns rel)), w2)" "chain_of (hw_log w2) = chain_of (hw_log w1)"
    using getPodIPs_chain [OF assms(2)] by metis
  show ?thesis
    using run_all_chain [OF assms(1), of "concat (map (pod_rules ''-A'') (nonblank_lines (pods ns rel)))" w2]
    by (simp add: BlockAppInternet_def chk_def 1 2 foldl_append_rules)
qed

definition pod_ips :: "(string \<Rightarrow> string \<Rightarrow> string) \<Rightarrow> AppRecord \<Rightarrow> string list" where
  "pod_ips pods r = nonblank_lines (pods (r_Namespace r) (r_ReleaseName r))"

lemma sync_chain:
  assumes "tables_work (ah_machine A)" "shows_pods (ah_machine A) pods"
  shows "\<exists>w'. SyncInternetBlocks A rs w = Some (Inr (), w') \<and>
     chain_of (hw_log w') = concat (map chain_rules (concat (map (pod_ips pods) (filter blocked_record rs))))"
proof -
  have b: "\<exists>w'. for_all (\<lambda>r. BlockAppInternet A (r_Namespace r) (r_ReleaseName r)) bs w = Some (Inr (), w') \<and>
     chain_of (hw_log w') = chain_of (hw_log w) @ concat (map chain_rules (concat (map (pod_ips pods) bs)))" for bs w
  proof (induction bs arbitrary: w)
    case (Cons r bs)
    obtain w1 where "BlockAppInternet A (r_Namespace r) (r_ReleaseName r) w = Some (Inr (), w1)"
        "chain_of (hw_log w1) = chain_of (hw_log w) @ concat (map chain_rules (pod_ips pods r))"
      using block_chain [OF assms] unfolding pod_ips_def by metis
    then show ?case using Cons.IH [of w1] by (auto simp: attempt_def)
  qed (simp add: ret_def)
  have f: "chain_cmd r [''-F'', iptablesChain] = []" for r by simp
  obtain w1 where 1: "EnsureIptablesChain A w = Some (Inr (), w1)" using ensure_chain [OF assms(1)] by metis
  obtain o2 w2 where 2: "hostIptables A [''-F'', iptablesChain] w1 = Some (Inr o2, w2)" "chain_of (hw_log w2) = []"
    using hostIptables_chain [OF assms(1)] f by metis
  show ?thesis using b [of "filter blocked_record rs" w2] by (simp add: SyncInternetBlocks_def chk_def 1 2)
qed

lemma verdict_append: "verdict inside ip (r1 @ r2) = (case verdict inside ip r1 of None \<Rightarrow> verdict inside ip r2 | Some v \<Rightarrow> Some v)"
  by (induction r1) auto

lemma verdict_chain:
  "verdict inside ip (concat (map chain_rules ips)) =
     (if ip \<notin> set ips then None
      else if inside ''10.233.0.0/16'' \<or> inside ''192.168.0.0/16'' then Some ''ACCEPT'' else Some ''DROP'')"
  by (induction ips) (auto simp: verdict_append chain_rules_def pod_rules_def)


subsection \<open>A host\<close>

text \<open>A host with the given answers, whose decoders find nothing but one chart and its values.\<close>

definition demo_config :: AppConfiguration where
  "demo_config = \<lparr>mf_Metadata = \<lparr>md_Name = [], md_Icon = [], md_Description = [], md_AppID = [], md_Title = [], md_Version = []\<rparr>,
     mf_Entrances = [], mf_SharedEntrances = [], mf_Permission = \<lparr>AppData = False, AppCache = False, UserData = [], SysData = [], Provider = []\<rparr>,
     mf_Postgres = Some \<lparr>mp_Username = [], mp_Password = [], mp_Standalone = False, mp_Image = [], mp_Databases = []\<rparr>, mf_Envs = []\<rparr>"

definition demo_host :: "(hlog \<Rightarrow> hcmd \<Rightarrow> hans) \<Rightarrow> app_host" where
  "demo_host answer = \<lparr>ah_machine = \<lparr>answers = answer, goos = ''linux'', goarch = ''amd64'', pemEncode = \<lambda>_ _. []\<rparr>,
     ah_ctx = sample_ctx, ah_namespace = ''user-space-admin'', ah_owner = ''admin'', ah_chartRepo = ''http://market'',
     ah_yaml = \<lambda>t. Some (if t = ''v'' then [(''postgres'', YMap [(''host'', YStr [])]), (''gpu'', YStr ''nvidia'')] else []),
     ah_yaml_text = \<lambda>_. [], ah_manifest = \<lambda>_. demo_config, ah_index = \<lambda>_. Some [], ah_chart_meta = \<lambda>_. None,
     ah_md5 = \<lambda>_. [], ah_set_order = \<lambda>l. l, ah_scaled = \<lambda>_ _. None, ah_age = \<lambda>_. [], ah_json_text = \<lambda>_. [], ah_json = \<lambda>_. None\<rparr>"

definition demo_world :: host where
  "demo_world = \<lparr>hw_log = [], hw_env = \<lambda>_. [], hw_out = []\<rparr>"

definition chart_answer :: "hlog \<Rightarrow> hcmd \<Rightarrow> hans" where
  "chart_answer xs c = (case c of
       HRead _ \<Rightarrow> HOk ''v''
     | HReadDir _ \<Rightarrow> HNames [''templates/'', ''values.yaml'']
     | HRun args _ \<Rightarrow> HOk (if take 3 args = [''kubectl'', ''get'', ''pods''] then ''10.233.64.7'' else [])
     | _ \<Rightarrow> HOk [])"

definition demo_values :: "(string \<times> yaml) list" where
  "demo_values = [(''postgres'', YMap [(''host'', YStr ''citus''), (''port'', YStr ''5432'')]), (''gpu'', YStr [])]"

definition demo_model :: "string \<Rightarrow> ModelSpec" where
  "demo_model path = \<lparr>msName = ''qwen'', msModelID = [], msBackend = ''vllm'', msHFRepo = ''q/q'', msHFRef = [], msGPUMemoryUtilization = [],
     msMaxModelLen = [], msTensorParallelSize = 1, msTiktokenFiles = [], msStoragePath = path, msRequiredMemory = [], msRequiredCPU = [],
     msLimitedMemory = [], msLimitedCPU = []\<rparr>"

lemma demo_machine [simp]: "answers (ah_machine (demo_host f)) = f" "ah_namespace (demo_host f) = ''user-space-admin''"
  "ah_yaml (demo_host f) ''v'' = Some [(''postgres'', YMap [(''host'', YStr [])]), (''gpu'', YStr ''nvidia'')]"
  by (simp_all add: demo_host_def)


lemma chart_answer_names: "lists_names (ah_machine (demo_host chart_answer))"
proof -
  have "file_name (entry_name ''templates/'')" "file_name (entry_name ''values.yaml'')" by code_simp+
  then show ?thesis by (simp add: lists_names_def chart_answer_def)
qed

theorem install_stays_in_its_directory_witness:
  "meets (\<lambda>c. ValidateAppName ''gitea'' = Inr () \<and> install_call (PathJoin chartCacheDir ''gitea'') c) (\<lambda>res. True)
     (install_host (demo_host chart_answer) False (sample_record ''gitea'' StateDownloading))"
proof -
  have n: "r_Name (sample_record ''gitea'' StateDownloading) = ''gitea''" by (simp add: sample_record_def)
  show ?thesis
    by (rule meets_weaken [OF install_stays_in_its_directory [OF chart_answer_names, of "sample_record ''gitea'' StateDownloading" False,
          unfolded n]]) simp
qed

lemma demo_name: "ValidateAppName ''qwen'' = Inr ()"
  by code_simp

lemma endpoints_come_and_go_witness:
  "with_endpoint ''http://o; '' ''http://vllm-qwen-api.user-space-admin:8000/v1'' =
     Some ''http://o;http://vllm-qwen-api.user-space-admin:8000/v1'' \<and>
   splitNonEmpty (without_endpoint ''http://o;http://vllm-qwen-api.user-space-admin:8000/v1''
     ''http://vllm-qwen-api.user-space-admin:8000/v1'') (CHR '';'') = [''http://o'']"
proof -
  have u: "vllm_url (demo_host chart_answer) (''vllm-'' @ ''qwen'') = ''http://vllm-qwen-api.user-space-admin:8000/v1''"
    by (simp add: vllm_url_def)
  have n: "CHR '';'' \<notin> set (ah_namespace (demo_host chart_answer))" by simp
  have w: "with_endpoint ''http://o; '' ''http://vllm-qwen-api.user-space-admin:8000/v1'' =
      Some ''http://o;http://vllm-qwen-api.user-space-admin:8000/v1''" by code_simp
  have s: "splitNonEmpty ''http://o; '' (CHR '';'') = [''http://o'']" by code_simp
  show ?thesis using endpoints_come_and_go [OF demo_name n, of "''http://o; ''"] unfolding u w s by simp
qed


subsection \<open>Where the code surprises\<close>

text \<open>
  A name with a dash is valid for an app and refused as the name of a database user, so such an app is
  given the account of the database's administrator.
\<close>

lemma hyphen_gets_admin:
  assumes "CHR ''-'' \<in> set name" "mf_Postgres m = Some pg" "mp_Username pg = []"
  shows "meets (\<lambda>_. True) (\<lambda>r. \<forall>p. r = Inr p \<longrightarrow> pp_Username p = CitusUser (ah_ctx A) \<and> pp_Password p = CitusPassword (ah_ctx A))
         (provisionPostgres A name dir (Some m))"
proof -
  have "\<not> (is_alnum CHR ''-'' \<or> CHR ''-'' = CHR ''_'')" by code_simp
  then have "\<not> sql_name name" using assms(1) by (auto simp: sql_name_def list_all_iff)
  then have e: "ensureCitusUserAndDB A name p db = fail (''invalid name: '' @ name)" for p db
    by (simp add: ensureCitusUserAndDB_def)
  have t: "does (\<lambda>_. True) (hasPostgresTemplate A dir)"
  proof -
    have "does (\<lambda>_. True) (some_template M ts)" for M ts
      by (induction ts) (auto intro!: does_intros)
    then show ?thesis unfolding hasPostgresTemplate_def by (intro does_intros) simp_all
  qed
  have g: "does (\<lambda>_. True) (generateAppPassword A n)" for n
    unfolding generateAppPassword_def by (intro does_intros) simp_all
  define d where "d = default_provision A name"
  have u: "pp_Username d = CitusUser (ah_ctx A)" "pp_Password d = CitusPassword (ah_ctx A)"
    by (simp_all add: d_def default_provision_def Let_def)
  have f: "attempt (fail x) k = k (Inl x)" for x :: string and k :: "string + unit \<Rightarrow> PostgresProvision act"
    by (rule ext) (simp add: attempt_def fail_def)
  show ?thesis
    unfolding provisionPostgres_def Let_def d_def [symmetric] assms(2,3) option.case bind.simps if_P [OF refl] e f
    using u by (auto intro!: meets_chk [OF t] meets_ret meets_chk [OF g])
qed

text \<open>An empty value of the chart is one of its leaves: no value of the platform takes its place.\<close>

lemma empty_leaf_stays:
  "distinct_keys (YMap vals) \<Longrightarrow> leaf_at p chart = Some (YStr []) \<Longrightarrow> leaf_at p (deepMergeUnder chart vals) = Some (YStr [])"
  using open_no_leaf [of p chart] by (auto simp: deepMergeUnder_leaf)

text \<open>An entry that only starts with the app's name and a dash is taken for the app.\<close>

lemma other_chart:
  "chart_url ''gitea'' [(''gitea-runner'', [[''runner.tgz'']]), (''gitea'', [[''gitea.tgz'']])] = Some ''runner.tgz''"
  by code_simp

text \<open>An image with a path and no tag is no image, so that no such image is ever given the tag \<^verbatim>\<open>latest\<close>.\<close>

lemma untagged_path_is_no_image:
  assumes "slash \<in> set s" "CHR '':'' \<notin> set s"
  shows "\<not> looksLikeImage s"
proof -
  define path where "path = takeWhile (\<lambda>c. c \<noteq> CHR '':'' \<and> c \<noteq> CHR ''@'') s"
  have "image_suffix t \<Longrightarrow> CHR '':'' \<in> set t" for t
    by (auto simp: image_suffix_def prefix_def split: list.splits)
  then have "\<not> image_suffix (drop (length path) s)" using assms(2) by (meson in_set_dropD)
  then have "\<not> imageRef s" by (simp add: imageRef_def Let_def path_def)
  then show ?thesis using assms(1) by (simp add: looksLikeImage_def)
qed

text \<open>The digests of an image are found by its beginning, which is that of other images as well.\<close>

lemma purge_takes_others:
  "image_digests ''redis:7'' (''redis-stack@sha256:00'' @ nl @ ''nginx@sha256:00'') = [''redis-stack@sha256:00'']"
  by code_simp

text \<open>The services of an app are all services of the namespace.\<close>

lemma services_of_any_app: "GetServicesForApp A appName namespace = GetServicesForApp A appName' namespace"
  by (simp add: GetServicesForApp_def)

lemma named_port_hides_service:
  "port_of (JObj [(''port'', JInt 80), (''targetPort'', JStr ''http'')]) = None"
  by code_simp

text \<open>The storage path of a request is confined when the model is removed, not when it is installed.\<close>

lemma any_path_is_mounted:
  "leaf_at [''model'', ''storagePath''] (buildValues A (demo_model ''/etc'')) = Some (YStr ''/etc'') \<and>
   modelStoragePath (demo_model ''/etc'') = Inl (''storage path '' @ quoted ''/etc'' @ '' is outside '' @ defaultModelStorageBase)"
proof -
  have "modelStoragePath (demo_model ''/etc'') = Inl (''storage path '' @ quoted ''/etc'' @ '' is outside '' @ defaultModelStorageBase)" by code_simp
  moreover have "map_of (buildValues A (demo_model ''/etc'')) ''model'' = Some (ystrs [(''name'', ''qwen''), (''hfRepo'', ''q/q''),
      (''hfRef'', ''main''), (''doneName'', ''.done''), (''storagePath'', ''/etc'')])"
    by (simp add: buildValues_def Let_def demo_model_def or_default_def)
  ultimately show ?thesis by (simp add: ystrs_def)
qed

text \<open>Rules are added once for every request and removed at most five times.\<close>

lemma sixth_block_stays:
  "verdict (\<lambda>_. False) ip (foldl chain_cmd [] (concat (replicate 6 (pod_rules ''-A'' ip)) @ concat (replicate 5 (pod_rules ''-D'' ip)))) = Some ''DROP''"
  by (simp add: eval_nat_numeral pod_rules_def)

text \<open>A directory that refuses every request is asked for ever.\<close>

lemma refused_for_ever:
  assumes "\<And>xs h b. answers (ah_machine A) xs (HHttp ''POST'' (lcHost c @ ''/api/graphql'') h b) = HStatus 401 []"
    and "\<And>xs h b. answers (ah_machine A) xs (HHttp ''POST'' (lcHost c @ ''/auth/simple/login'') h b) = HStatus 200 body"
    and "ah_json A body = Some (JObj [(''token'', JStr token)])"
  shows "graphql n A c query vars s = None"
proof (induction n arbitrary: s)
  case (Suc n)
  have f: "field_str ''token'' (Some (JObj [(''token'', JStr token)])) = Some token"
    by (simp add: field_str_def members_of_def EqualFold_def)
  have a: "\<exists>s'. lldap_authenticate A c s = Some (Inr (), s')" for s
    by (cases s) (auto simp: lldap_authenticate_def lldap_post_def chk_def on_host_def get_token_def put_token_def ask_def ret_def
        Let_def assms f)
  have p: "\<exists>s'. lldap_post A c ''/api/graphql'' h b e s = Some (Inr (401, []), s')" for h b e s
    by (cases s) (simp add: lldap_post_def on_host_def chk_def ask_def ret_def Let_def assms(1))
  have t: "get_token s = Some (Inr (snd s), s)" "put_token [] s = Some (Inr (), fst s, [])" for s
    by (cases s; simp add: get_token_def put_token_def)+
  obtain s1 where 1: "lldap_authenticate A c s = Some (Inr (), s1)" using a by blast
  obtain s2 where 2: "lldap_post A c ''/api/graphql'' (bearer (snd s1)) (JObj [(''query'', JStr query), (''variables'', vars)])
      ''lldap graphql: '' s1 = Some (Inr (401, []), s2)" using p by blast
  obtain s3 where 3: "lldap_authenticate A c (fst s2, []) = Some (Inr (), s3)" using a by blast
  show ?case unfolding graphql.simps by (simp only: chk_def 1 2 3 t option.case sum.case prod.case if_True Suc refl)
qed simp

text \<open>A group that cannot be created, as one that is there already, gets no member.\<close>

lemma no_member_of_old_group:
  "lldap_CreateGroup n A c groupName s = Some (Inl e, s') \<Longrightarrow> sync_group n A c uid groupName s = Some (Inl e, s')"
  by (simp add: sync_group_def chk_def)

end
