(* ===== verification/App_Socket.thy ===== *)
theory App_Socket
  imports Go_Net Pkg_Config App_Types
begin

text \<open>
  \<^verbatim>\<open>internal/appservice/websocket.go\<close>: the hub that sends every message to all connections, the life
  of one connection with its two goroutines, and who may open one. A connection is an address in a
  heap; a step of the system is one critical section of the hub, or one read or write of a connection.
  What the network does is in the step. A send on a closed channel and a second close of a channel
  panic: the step is \<^term>\<open>None\<close>.
\<close>

subsection \<open>Messages\<close>

text \<open>
  \<^verbatim>\<open>WSMessage\<close>: data that is built by the service, or raw JSON text; a raw text that is no JSON cannot
  be marshalled. \<open>json\<close> reads a JSON text.
\<close>

datatype ws_data = Built jval | RawMessage string

record WSMessage =
  wm_Type :: string
  wm_Data :: ws_data

definition marshal_message :: "(string \<Rightarrow> jval option) \<Rightarrow> WSMessage \<Rightarrow> jval option" where
  "marshal_message json m = do {
     d \<leftarrow> (case wm_Data m of Built j \<Rightarrow> Some j | RawMessage t \<Rightarrow> json t);
     Some (JObj [(''type'', JStr (wm_Type m)), (''data'', d)]) }"

definition app_state_message :: "string \<Rightarrow> AppState \<Rightarrow> WSMessage" where
  "app_state_message name st = \<lparr>wm_Type = ''app_state'',
     wm_Data = Built (JObj [(''name'', JStr name), (''state'', JStr (state_text st))])\<rparr>"

definition install_progress_message ::
    "string \<Rightarrow> AppState \<Rightarrow> int \<Rightarrow> int \<Rightarrow> string \<Rightarrow> int \<Rightarrow> int \<Rightarrow> WSMessage" where
  "install_progress_message name st step totalSteps detail bytesDownloaded bytesTotal = \<lparr>wm_Type = ''install_progress'',
     wm_Data = Built (JObj [(''bytesDownloaded'', JInt bytesDownloaded), (''bytesTotal'', JInt bytesTotal),
       (''detail'', JStr detail), (''name'', JStr name), (''state'', JStr (state_text st)), (''step'', JInt step),
       (''totalSteps'', JInt totalSteps)])\<rparr>"

definition alert_message :: "string \<Rightarrow> string \<Rightarrow> WSMessage" where
  "alert_message level text = \<lparr>wm_Type = ''alert'',
     wm_Data = Built (JObj [(''level'', JStr level), (''message'', JStr text)])\<rparr>"

text \<open>What is written on a connection.\<close>

datatype frame = Welcome | Ping int | Message jval

definition frame_json :: "frame \<Rightarrow> jval" where
  "frame_json f = (case f of
       Welcome \<Rightarrow> JObj [(''type'', JStr ''connected''), (''data'', JObj [(''version'', JStr ''1.0.0'')])]
     | Ping t \<Rightarrow> JObj [(''type'', JStr ''ping''), (''data'', JObj [(''timestamp'', JInt t)])]
     | Message j \<Rightarrow> j)"

subsection \<open>The hub\<close>

text \<open>
  The handler of a connection writes the welcome, reads, waits for its writer, and at last unregisters
  the client; the writer starts after the welcome.
\<close>

datatype phase = Welcoming | Reading | Waiting | Leaving | Gone

datatype writer = NoWriter | Writing | WriterDone

record wsClient =
  wc_send :: "jval list"
  wc_closed :: bool
  wc_sent :: "frame list"
  wc_phase :: phase
  wc_writer :: writer

record WSHub =
  hb_heap :: "wsClient list"
  hb_clients :: "nat list"

definition new_hub :: WSHub where
  "new_hub = \<lparr>hb_heap = [], hb_clients = []\<rparr>"

definition send_buffer :: nat where
  "send_buffer = 64"

definition client_at :: "WSHub \<Rightarrow> nat \<Rightarrow> wsClient" where
  "client_at h a = hb_heap h ! a"

definition set_client :: "nat \<Rightarrow> wsClient \<Rightarrow> WSHub \<Rightarrow> WSHub" where
  "set_client a c h = h\<lparr>hb_heap := (hb_heap h)[a := c]\<rparr>"

definition register :: "nat \<Rightarrow> WSHub \<Rightarrow> WSHub" where
  "register a h = h\<lparr>hb_clients := List.insert a (hb_clients h)\<rparr>"

definition unregister :: "nat \<Rightarrow> WSHub \<Rightarrow> WSHub option" where
  "unregister a h =
     (if a \<notin> set (hb_clients h) then Some h
      else if wc_closed (client_at h a) then None
      else Some (set_client a ((client_at h a)\<lparr>wc_closed := True\<rparr>) (h\<lparr>hb_clients := filter (\<lambda>b. b \<noteq> a) (hb_clients h)\<rparr>)))"

definition clientCount :: "WSHub \<Rightarrow> nat" where
  "clientCount h = length (hb_clients h)"

text \<open>\<^verbatim>\<open>select\<close> with a default: a full buffer drops the message.\<close>

definition try_send :: "jval \<Rightarrow> wsClient \<Rightarrow> wsClient option" where
  "try_send data c =
     (if wc_closed c then None
      else Some (if length (wc_send c) < send_buffer then c\<lparr>wc_send := wc_send c @ [data]\<rparr> else c))"

fun send_all :: "jval \<Rightarrow> nat list \<Rightarrow> WSHub \<Rightarrow> WSHub option" where
  "send_all data [] h = Some h"
| "send_all data (a # as) h = do {
     c \<leftarrow> try_send data (client_at h a);
     send_all data as (set_client a c h) }"

definition Broadcast :: "jval option \<Rightarrow> WSHub \<Rightarrow> WSHub option" where
  "Broadcast encoded h = (case encoded of None \<Rightarrow> Some h | Some data \<Rightarrow> send_all data (hb_clients h) h)"

subsection \<open>A connection\<close>

definition connect :: "WSHub \<Rightarrow> WSHub" where
  "connect h = register (length (hb_heap h)) (h\<lparr>hb_heap := hb_heap h @
     [\<lparr>wc_send = [], wc_closed = False, wc_sent = [], wc_phase = Welcoming, wc_writer = NoWriter\<rparr>]\<rparr>)"

definition send_welcome :: "bool \<Rightarrow> wsClient \<Rightarrow> wsClient" where
  "send_welcome ok c =
     (if wc_phase c \<noteq> Welcoming then c
      else if ok then c\<lparr>wc_sent := wc_sent c @ [Welcome], wc_phase := Reading, wc_writer := Writing\<rparr>
      else c\<lparr>wc_phase := Leaving\<rparr>)"

text \<open>The writer: it takes a message, or finds the channel closed and empty, or sends a ping.\<close>

definition write_frame :: "bool \<Rightarrow> frame \<Rightarrow> wsClient \<Rightarrow> wsClient" where
  "write_frame ok f c = (if ok then c\<lparr>wc_sent := wc_sent c @ [f]\<rparr> else c\<lparr>wc_writer := WriterDone\<rparr>)"

definition writer_receive :: "bool \<Rightarrow> wsClient \<Rightarrow> wsClient" where
  "writer_receive ok c =
     (if wc_writer c \<noteq> Writing then c
      else case wc_send c of
        [] \<Rightarrow> if wc_closed c then c\<lparr>wc_writer := WriterDone\<rparr> else c
      | m # ms \<Rightarrow> write_frame ok (Message m) (c\<lparr>wc_send := ms\<rparr>))"

definition writer_ping :: "int \<Rightarrow> bool \<Rightarrow> wsClient \<Rightarrow> wsClient" where
  "writer_ping now ok c = (if wc_writer c \<noteq> Writing then c else write_frame ok (Ping now) c)"

definition read_error :: "wsClient \<Rightarrow> wsClient" where
  "read_error c = (if wc_phase c = Reading then c\<lparr>wc_phase := Waiting\<rparr> else c)"

definition await_writer :: "wsClient \<Rightarrow> wsClient" where
  "await_writer c = (if wc_phase c = Waiting \<and> wc_writer c = WriterDone then c\<lparr>wc_phase := Leaving\<rparr> else c)"

definition leave :: "nat \<Rightarrow> WSHub \<Rightarrow> WSHub option" where
  "leave a h =
     (if wc_phase (client_at h a) \<noteq> Leaving then Some h
      else do { h' \<leftarrow> unregister a h; Some (set_client a ((client_at h' a)\<lparr>wc_phase := Gone\<rparr>) h') })"

subsection \<open>The system\<close>

datatype hub_op =
    Connect
  | Welcomed nat bool
  | Broadcasts "jval option"
  | Receives nat bool
  | Pings nat int bool
  | ReadFails nat
  | WriterAwaited nat
  | Leaves nat

definition on_client :: "nat \<Rightarrow> (wsClient \<Rightarrow> wsClient) \<Rightarrow> WSHub \<Rightarrow> WSHub" where
  "on_client a f h = set_client a (f (client_at h a)) h"

fun hub_step :: "hub_op \<Rightarrow> WSHub \<Rightarrow> WSHub option" where
  "hub_step Connect h = Some (connect h)"
| "hub_step (Welcomed a ok) h = Some (on_client a (send_welcome ok) h)"
| "hub_step (Broadcasts m) h = Broadcast m h"
| "hub_step (Receives a ok) h = Some (on_client a (writer_receive ok) h)"
| "hub_step (Pings a now ok) h = Some (on_client a (writer_ping now ok) h)"
| "hub_step (ReadFails a) h = Some (on_client a read_error h)"
| "hub_step (WriterAwaited a) h = Some (on_client a await_writer h)"
| "hub_step (Leaves a) h = (if a < length (hb_heap h) then leave a h else Some h)"

fun hub_run :: "hub_op list \<Rightarrow> WSHub \<Rightarrow> WSHub option" where
  "hub_run [] h = Some h"
| "hub_run (x # xs) h = do { h' \<leftarrow> hub_step x h; hub_run xs h' }"

subsection \<open>Metrics\<close>

definition redis_address :: "ctx \<Rightarrow> string" where
  "redis_address cx =
     (if cx_env cx ''REDIS_ADDR'' \<noteq> [] then cx_env cx ''REDIS_ADDR'' else KVRocksHost cx @ '':'' @ KVRocksPort cx)"

text \<open>One tick: \<open>metrics\<close> and \<open>weather\<close> are what the store answers, \<^term>\<open>None\<close> for an error.\<close>

definition push_metrics :: "(string \<Rightarrow> jval option) \<Rightarrow> string option \<Rightarrow> string option \<Rightarrow> WSHub \<Rightarrow> WSHub option" where
  "push_metrics json metrics weather h =
     (if clientCount h = 0 then Some h
      else case metrics of
        None \<Rightarrow> Some h
      | Some data \<Rightarrow> do {
          h' \<leftarrow> Broadcast (marshal_message json \<lparr>wm_Type = ''metrics'', wm_Data = RawMessage data\<rparr>) h;
          (case weather of
             None \<Rightarrow> Some h'
           | Some wData \<Rightarrow> Broadcast (marshal_message json \<lparr>wm_Type = ''weather'', wm_Data = RawMessage wData\<rparr>) h') })"

subsection \<open>Who may connect\<close>

definition sessionCookieName :: string where
  "sessionCookieName = ''packalares_session''"

text \<open>\<open>verify url cookie\<close>: the status the auth service answers, \<^term>\<open>None\<close> when the request fails.\<close>

definition verify_url :: "ctx \<Rightarrow> string" where
  "verify_url cx =
     (if cx_env cx ''AUTH_VERIFY_URL'' \<noteq> [] then cx_env cx ''AUTH_VERIFY_URL''
      else ''http://'' @ AuthDNS cx @ '':9091/api/verify'')"

definition verifySession :: "ctx \<Rightarrow> (string \<Rightarrow> string \<Rightarrow> nat option) \<Rightarrow> http_request \<Rightarrow> bool" where
  "verifySession cx verify r =
     (case map_of (rq_Cookies r) sessionCookieName of
        None \<Rightarrow> False
      | Some cookie \<Rightarrow> verify (verify_url cx) cookie = Some 200)"

definition isAllowedOrigin :: "string \<Rightarrow> string \<Rightarrow> string \<Rightarrow> bool" where
  "isAllowedOrigin host zone customDomain \<longleftrightarrow>
     (host = zone \<or> HasSuffix host (''.'' @ zone)) \<or>
     (customDomain \<noteq> [] \<and> (host = customDomain \<or> HasSuffix host (''.'' @ customDomain)))"

definition ws_handshake :: "ctx \<Rightarrow> http_request \<Rightarrow> bool" where
  "ws_handshake cx r =
     (let origin = header_get r ''Origin'' in
      if origin = [] then True
      else
        let host = TrimPrefix (TrimPrefix origin ''https://'') ''http://''; serverIP = cx_env cx ''SERVER_IP'' in
        isAllowedOrigin host (UserZone cx) (cx_env cx ''CUSTOM_DOMAIN'') \<or> (serverIP \<noteq> [] \<and> host = serverIP))"

text \<open>
  \<open>upgrade\<close> is the protocol handler of the WebSocket library: a status when it refuses the request
  before it asks for the handshake. A refused handshake is answered with 403; else the connection is open.
\<close>

definition AuthWebSocketHandler ::
    "ctx \<Rightarrow> (string \<Rightarrow> string \<Rightarrow> nat option) \<Rightarrow> (http_request \<Rightarrow> nat option) \<Rightarrow> http_request \<Rightarrow> http_response option" where
  "AuthWebSocketHandler cx verify upgrade r =
     (if \<not> verifySession cx verify r then Some (http_error ''Unauthorized'' 401)
      else case upgrade r of
        Some status \<Rightarrow> Some (reply_status status)
      | None \<Rightarrow> if ws_handshake cx r then None else Some (reply_status 403))"

subsection \<open>The invariant\<close>

definition offered :: "jval \<Rightarrow> wsClient \<Rightarrow> wsClient" where
  "offered data c = (if length (wc_send c) < send_buffer then c\<lparr>wc_send := wc_send c @ [data]\<rparr> else c)"

definition client_ok :: "bool \<Rightarrow> wsClient \<Rightarrow> bool" where
  "client_ok registered c \<longleftrightarrow>
     (registered \<longleftrightarrow> wc_phase c \<noteq> Gone) \<and> (wc_closed c \<longleftrightarrow> wc_phase c = Gone) \<and> length (wc_send c) \<le> send_buffer \<and>
     (wc_writer c = Writing \<longrightarrow> wc_phase c \<in> {Reading, Waiting}) \<and> (wc_phase c = Welcoming \<longrightarrow> wc_writer c = NoWriter)"

definition hub_ok :: "WSHub \<Rightarrow> bool" where
  "hub_ok h \<longleftrightarrow> distinct (hb_clients h) \<and> (\<forall>a \<in> set (hb_clients h). a < length (hb_heap h)) \<and>
     (\<forall>a < length (hb_heap h). client_ok (a \<in> set (hb_clients h)) (client_at h a))"

lemma client_at_set [simp]:
  "a < length (hb_heap h) \<Longrightarrow> client_at (set_client a c h) b = (if b = a then c else client_at h b)"
  by (auto simp: client_at_def set_client_def nth_list_update)

lemma set_client_other [simp]:
  "hb_clients (set_client a c h) = hb_clients h" "length (hb_heap (set_client a c h)) = length (hb_heap h)"
  by (simp_all add: set_client_def)

lemma set_client_out [simp]: "\<not> a < length (hb_heap h) \<Longrightarrow> set_client a c h = h"
  by (simp add: set_client_def list_update_beyond)

text \<open>A broadcast reaches every registered client, whatever the order.\<close>

lemma send_all_total:
  assumes "distinct as" "\<forall>a \<in> set as. a < length (hb_heap h) \<and> \<not> wc_closed (client_at h a)"
  shows "\<exists>h'. send_all data as h = Some h' \<and> hb_clients h' = hb_clients h \<and> length (hb_heap h') = length (hb_heap h) \<and>
     (\<forall>b. client_at h' b = (if b \<in> set as then offered data (client_at h b) else client_at h b))"
  using assms
proof (induction as arbitrary: h)
  case (Cons a as)
  let ?h = "set_client a (offered data (client_at h a)) h"
  have s: "send_all data (a # as) h = send_all data as ?h"
    using Cons.prems by (simp add: try_send_def offered_def)
  have "\<forall>b \<in> set as. b < length (hb_heap ?h) \<and> \<not> wc_closed (client_at ?h b)" using Cons.prems by auto
  with Cons.IH [of ?h] Cons.prems show ?case unfolding s by auto
qed simp

text \<open>
  A step of the system, seen by one client that is already there: a connection of its own.
\<close>

fun client_step :: "nat \<Rightarrow> hub_op \<Rightarrow> wsClient \<Rightarrow> wsClient" where
  "client_step a Connect c = c"
| "client_step a (Welcomed b ok) c = (if b = a then send_welcome ok c else c)"
| "client_step a (Broadcasts m) c = (case m of None \<Rightarrow> c | Some d \<Rightarrow> if wc_phase c = Gone then c else offered d c)"
| "client_step a (Receives b ok) c = (if b = a then writer_receive ok c else c)"
| "client_step a (Pings b now ok) c = (if b = a then writer_ping now ok c else c)"
| "client_step a (ReadFails b) c = (if b = a then read_error c else c)"
| "client_step a (WriterAwaited b) c = (if b = a then await_writer c else c)"
| "client_step a (Leaves b) c = (if b = a \<and> wc_phase c = Leaving then c\<lparr>wc_closed := True, wc_phase := Gone\<rparr> else c)"

definition new_client :: wsClient where
  "new_client = \<lparr>wc_send = [], wc_closed = False, wc_sent = [], wc_phase = Welcoming, wc_writer = NoWriter\<rparr>"

lemma client_ok_step:
  assumes "client_ok (wc_phase c \<noteq> Gone) c"
  shows "client_ok (wc_phase (client_step a x c) \<noteq> Gone) (client_step a x c)"
  using assms
  by (cases x)
    (auto simp: client_ok_def send_welcome_def offered_def writer_receive_def writer_ping_def write_frame_def read_error_def
        await_writer_def split: list.split option.split)

definition steps_to :: "hub_op \<Rightarrow> WSHub \<Rightarrow> WSHub \<Rightarrow> bool" where
  "steps_to x h h' \<longleftrightarrow> hub_step x h = Some h' \<and>
     length (hb_heap h') = length (hb_heap h) + (if x = Connect then 1 else 0) \<and>
     (\<forall>a < length (hb_heap h). client_at h' a = client_step a x (client_at h a)) \<and>
     (x = Connect \<longrightarrow> client_at h' (length (hb_heap h)) = new_client) \<and>
     distinct (hb_clients h') \<and>
     set (hb_clients h') = {a. a < length (hb_heap h') \<and> wc_phase (client_at h' a) \<noteq> Gone}"

lemma hub_ok_members:
  "hub_ok h \<longleftrightarrow> distinct (hb_clients h) \<and>
     set (hb_clients h) = {a. a < length (hb_heap h) \<and> wc_phase (client_at h a) \<noteq> Gone} \<and>
     (\<forall>a < length (hb_heap h). client_ok (wc_phase (client_at h a) \<noteq> Gone) (client_at h a))"
  by (auto simp: hub_ok_def client_ok_def)

lemma steps_to_ok:
  assumes "hub_ok h" "steps_to x h h'"
  shows "hub_ok h'"
proof -
  have "client_ok (wc_phase (client_at h' a) \<noteq> Gone) (client_at h' a)" if a: "a < length (hb_heap h')" for a
  proof (cases "a < length (hb_heap h)")
    case True
    then show ?thesis using assms client_ok_step by (simp add: hub_ok_members steps_to_def)
  next
    case False
    then have "x = Connect" "a = length (hb_heap h)"
      using a assms(2) by (auto simp: steps_to_def split: if_splits)
    then have "client_at h' a = new_client" using assms(2) by (simp add: steps_to_def)
    then show ?thesis by (simp add: client_ok_def new_client_def)
  qed
  with assms(2) show ?thesis by (simp add: hub_ok_members steps_to_def)
qed

text \<open>A step of a client's own goroutines neither comes nor goes.\<close>

lemma on_client_steps:
  assumes "hub_ok h" "hub_step x h = Some (on_client b f h)" "x \<noteq> Connect"
    and "\<And>a c. client_step a x c = (if a = b then f c else c)" "\<And>c. wc_phase (f c) = Gone \<longleftrightarrow> wc_phase c = Gone"
  shows "steps_to x h (on_client b f h)"
proof (cases "b < length (hb_heap h)")
  case True
  then show ?thesis using assms by (auto simp: steps_to_def on_client_def hub_ok_members)
next
  case False
  then show ?thesis using assms by (auto simp: steps_to_def on_client_def hub_ok_members)
qed

lemma gone_stays [simp]:
  "wc_phase (send_welcome ok c) = Gone \<longleftrightarrow> wc_phase c = Gone" "wc_phase (writer_receive ok c) = Gone \<longleftrightarrow> wc_phase c = Gone"
  "wc_phase (writer_ping now ok c) = Gone \<longleftrightarrow> wc_phase c = Gone" "wc_phase (read_error c) = Gone \<longleftrightarrow> wc_phase c = Gone"
  "wc_phase (await_writer c) = Gone \<longleftrightarrow> wc_phase c = Gone" "wc_phase (offered d c) = wc_phase c"
  by (auto simp: send_welcome_def writer_receive_def writer_ping_def write_frame_def read_error_def await_writer_def offered_def
      split: list.split)

lemma connect_steps: "hub_ok h \<Longrightarrow> steps_to Connect h (connect h)"
  by (auto simp: steps_to_def connect_def register_def hub_ok_members client_at_def nth_append new_client_def
      List.insert_def less_Suc_eq)

lemma broadcast_steps:
  assumes "hub_ok h"
  shows "\<exists>h'. steps_to (Broadcasts m) h h'"
proof (cases m)
  case None
  with assms show ?thesis
    by (intro exI [of _ h]) (auto simp: steps_to_def Broadcast_def hub_ok_members)
next
  case (Some d)
  have "\<forall>a \<in> set (hb_clients h). a < length (hb_heap h) \<and> \<not> wc_closed (client_at h a)"
    using assms by (auto simp: hub_ok_def client_ok_def)
  with assms obtain h' where h': "send_all d (hb_clients h) h = Some h'" "hb_clients h' = hb_clients h"
      "length (hb_heap h') = length (hb_heap h)"
      "\<And>b. client_at h' b = (if b \<in> set (hb_clients h) then offered d (client_at h b) else client_at h b)"
    using send_all_total [of "hb_clients h" h d] by (auto simp: hub_ok_def)
  show ?thesis
    using assms by (intro exI [of _ h']) (auto simp: steps_to_def Broadcast_def Some h' hub_ok_members)
qed

lemma leave_steps:
  assumes "hub_ok h"
  shows "\<exists>h'. steps_to (Leaves b) h h'"
proof (cases "b < length (hb_heap h) \<and> wc_phase (client_at h b) = Leaving")
  case True
  define h1 where "h1 = h\<lparr>hb_clients := filter (\<lambda>a. a \<noteq> b) (hb_clients h)\<rparr>"
  have h1: "client_at h1 = client_at h" "length (hb_heap h1) = length (hb_heap h)"
    by (auto simp: h1_def client_at_def)
  have m: "b \<in> set (hb_clients h)" "\<not> wc_closed (client_at h b)"
    using assms True by (auto simp: hub_ok_def client_ok_def)
  let ?h = "set_client b ((client_at h b)\<lparr>wc_closed := True, wc_phase := Gone\<rparr>)
      (set_client b ((client_at h b)\<lparr>wc_closed := True\<rparr>) h1)"
  have s: "hub_step (Leaves b) h = Some ?h"
    using True m h1 by (simp add: leave_def unregister_def h1_def [symmetric])
  show ?thesis
    using assms True h1 s
    by (intro exI [of _ ?h]) (auto simp: steps_to_def hub_ok_members h1_def)
next
  case False
  with assms show ?thesis
    by (intro exI [of _ h]) (auto simp: steps_to_def leave_def hub_ok_members)
qed

lemma own_steps:
  assumes "hub_ok h"
  shows "\<exists>h'. steps_to (Welcomed a ok) h h'" "\<exists>h'. steps_to (Receives a ok) h h'" "\<exists>h'. steps_to (Pings a now ok) h h'"
    "\<exists>h'. steps_to (ReadFails a) h h'" "\<exists>h'. steps_to (WriterAwaited a) h h'"
  using on_client_steps [OF assms, of "Welcomed a ok" a "send_welcome ok"] on_client_steps [OF assms, of "Receives a ok" a "writer_receive ok"]
    on_client_steps [OF assms, of "Pings a now ok" a "writer_ping now ok"] on_client_steps [OF assms, of "ReadFails a" a read_error]
    on_client_steps [OF assms, of "WriterAwaited a" a await_writer]
  by auto

lemma hub_step_total: "hub_ok h \<Longrightarrow> \<exists>h'. steps_to x h h'"
proof (cases x)
  case Connect
  assume "hub_ok h"
  with Connect connect_steps show ?thesis by auto
qed (auto simp: broadcast_steps leave_steps own_steps)

lemma hub_ok_new: "hub_ok new_hub"
  by (simp add: hub_ok_def new_hub_def)

lemma hub_run_append: "hub_run (xs @ ys) h = Option.bind (hub_run xs h) (hub_run ys)"
  by (induction xs arbitrary: h) (auto split: bind_split)

definition client_run :: "nat \<Rightarrow> hub_op list \<Rightarrow> wsClient" where
  "client_run a zs = foldl (\<lambda>c x. client_step a x c) new_client zs"

lemma hub_run_total:
  "\<exists>h. hub_run xs new_hub = Some h \<and> hub_ok h \<and>
     (\<forall>a < length (hb_heap h). \<exists>ys zs. xs = ys @ Connect # zs \<and> client_at h a = client_run a zs)"
proof (induction xs rule: rev_induct)
  case Nil
  show ?case by (simp add: hub_ok_new) (simp add: new_hub_def)
next
  case (snoc x xs)
  then obtain h where h: "hub_run xs new_hub = Some h" "hub_ok h"
      "\<And>a. a < length (hb_heap h) \<Longrightarrow> \<exists>ys zs. xs = ys @ Connect # zs \<and> client_at h a = client_run a zs" by blast
  obtain h' where h': "steps_to x h h'" using hub_step_total [OF h(2)] by blast
  have "\<exists>ys zs. xs @ [x] = ys @ Connect # zs \<and> client_at h' a = client_run a zs" if a: "a < length (hb_heap h')" for a
  proof (cases "a < length (hb_heap h)")
    case True
    then obtain ys zs where "xs = ys @ Connect # zs" "client_at h a = client_run a zs" using h(3) by blast
    then show ?thesis
      using True h' by (intro exI [of _ ys] exI [of _ "zs @ [x]"]) (simp add: steps_to_def client_run_def)
  next
    case False
    then have "x = Connect" "a = length (hb_heap h)" using a h' by (auto simp: steps_to_def split: if_splits)
    then show ?thesis
      using h' by (intro exI [of _ xs] exI [of _ "[]"]) (simp add: steps_to_def client_run_def)
  qed
  then show ?case
    using h(1) h' steps_to_ok [OF h(2) h'] by (intro exI [of _ h']) (simp add: hub_run_append steps_to_def)
qed

subsection \<open>What a connection gets\<close>

definition written :: "frame list \<Rightarrow> jval list" where
  "written fs = List.map_filter (\<lambda>f. case f of Message j \<Rightarrow> Some j | _ \<Rightarrow> None) fs"

definition broadcasts :: "hub_op list \<Rightarrow> jval list" where
  "broadcasts xs = List.map_filter (\<lambda>x. case x of Broadcasts m \<Rightarrow> m | _ \<Rightarrow> None) xs"

fun failed_write :: "nat \<Rightarrow> hub_op \<Rightarrow> bool" where
  "failed_write a (Welcomed b ok) \<longleftrightarrow> b = a \<and> \<not> ok"
| "failed_write a (Receives b ok) \<longleftrightarrow> b = a \<and> \<not> ok"
| "failed_write a (Pings b now ok) \<longleftrightarrow> b = a \<and> \<not> ok"
| "failed_write a _ \<longleftrightarrow> False"

lemma written_simps [simp]:
  "written [] = []" "written (fs @ [Message j]) = written fs @ [j]" "written (fs @ [Welcome]) = written fs"
  "written (fs @ [Ping t]) = written fs"
  by (simp_all add: written_def map_filter_def)

lemma broadcasts_simps [simp]:
  "broadcasts [] = []" "broadcasts (xs @ ys) = broadcasts xs @ broadcasts ys" "broadcasts [Broadcasts (Some d)] = [d]"
  "broadcasts [Broadcasts None] = []" "broadcasts [Connect] = []" "broadcasts [Welcomed a ok] = []"
  "broadcasts [Receives a ok] = []" "broadcasts [Pings a now ok] = []" "broadcasts [ReadFails a] = []"
  "broadcasts [WriterAwaited a] = []" "broadcasts [Leaves a] = []"
  by (simp_all add: broadcasts_def map_filter_def)

definition delivered :: "wsClient \<Rightarrow> jval list" where
  "delivered c = written (wc_sent c) @ wc_send c"

text \<open>The frames are a welcome and then no other; \<open>got\<close> is in the order of the broadcasts; \<open>failing\<close>: some write failed.\<close>

definition served_ok :: "bool \<Rightarrow> jval list \<Rightarrow> wsClient \<Rightarrow> bool" where
  "served_ok failing sent_all c \<longleftrightarrow>
     subseq (delivered c) sent_all \<and> (wc_phase c = Welcoming \<longrightarrow> wc_sent c = []) \<and>
     (wc_writer c = Writing \<longrightarrow> wc_sent c \<noteq> []) \<and>
     (wc_sent c \<noteq> [] \<longrightarrow> hd (wc_sent c) = Welcome \<and> Welcome \<notin> set (tl (wc_sent c))) \<and>
     (\<not> failing \<longrightarrow> wc_phase c \<notin> {Leaving, Gone} \<and> wc_writer c \<noteq> WriterDone \<and>
        (length sent_all \<le> send_buffer \<longrightarrow> delivered c = sent_all))"

lemma subseq_shorter: "subseq (xs @ [x] @ ys) zs \<Longrightarrow> subseq (xs @ ys) zs"
  by (rule subseq_order.trans) (auto intro: list_emb_append_mono)

lemma hd_snoc [simp]: "fs \<noteq> [] \<Longrightarrow> hd (fs @ [f]) = hd fs" "fs \<noteq> [] \<Longrightarrow> tl (fs @ [f]) = tl fs @ [f]"
  by simp_all

lemma served_write:
  assumes "served_ok failing sent_all c" "wc_writer c = Writing" "\<not> wc_closed c"
  shows "served_ok (failing \<or> \<not> ok) sent_all (writer_receive ok c)" "served_ok (failing \<or> \<not> ok) sent_all (writer_ping now ok c)"
  using assms
  by (auto simp: served_ok_def writer_receive_def writer_ping_def write_frame_def delivered_def intro: subseq_shorter
      split: list.split)

lemma served_broadcast:
  assumes "served_ok failing sent_all c"
  shows "served_ok failing (sent_all @ [d]) (if wc_phase c = Gone then c else offered d c)"
proof -
  have l: "length (wc_send c) \<le> length (delivered c)" "delivered c = sent_all \<longrightarrow> length (delivered c) = length sent_all"
    by (simp_all add: delivered_def)
  have o: "delivered (offered d c) = (if length (wc_send c) < send_buffer then delivered c @ [d] else delivered c)"
    by (simp add: offered_def delivered_def)
  have s: "subseq (delivered c @ [d]) (sent_all @ [d])" "subseq (delivered c) (sent_all @ [d])"
    using assms by (simp_all add: served_ok_def list_emb_append_mono subseq_rev_drop_many)
  have e: "wc_sent (offered d c) = wc_sent c" "wc_writer (offered d c) = wc_writer c"
    by (simp_all add: offered_def)
  show ?thesis using assms l s o e by (auto simp: served_ok_def)
qed

lemma served_mono: "served_ok failing sent_all c \<Longrightarrow> served_ok (failing \<or> g) sent_all c"
  by (simp add: served_ok_def)

lemma served_welcome:
  assumes "served_ok failing sent_all c" "wc_phase c = Welcoming"
  shows "served_ok (failing \<or> \<not> ok) sent_all (send_welcome ok c)"
proof -
  have "wc_sent c = []" using assms by (simp add: served_ok_def)
  with assms show ?thesis by (cases ok) (simp_all add: served_ok_def send_welcome_def delivered_def written_def map_filter_def)
qed

lemma served_step:
  assumes "served_ok failing sent_all c" "client_ok (wc_phase c \<noteq> Gone) c"
  shows "served_ok (failing \<or> failed_write a x) (sent_all @ broadcasts [x]) (client_step a x c)"
proof (cases x)
  case (Welcomed b ok)
  show ?thesis
  proof (cases "b = a \<and> wc_phase c = Welcoming")
    case True
    then show ?thesis using served_welcome [OF assms(1), of ok] by (simp add: Welcomed)
  next
    case False
    then have "client_step a x c = c" by (auto simp: Welcomed send_welcome_def)
    then show ?thesis using served_mono [OF assms(1)] by (simp add: Welcomed)
  qed
next
  case (Broadcasts m)
  with assms(1) served_broadcast [OF assms(1)] show ?thesis by (cases m) simp_all
next
  case (Receives b ok)
  have "wc_writer c = Writing \<Longrightarrow> \<not> wc_closed c" using assms(2) by (auto simp: client_ok_def)
  with assms(1) Receives served_write(1) [OF assms(1), of ok] show ?thesis
    by (cases "wc_writer c = Writing \<and> b = a") (auto simp: writer_receive_def served_ok_def)
next
  case (Pings b now ok)
  have "wc_writer c = Writing \<Longrightarrow> \<not> wc_closed c" using assms(2) by (auto simp: client_ok_def)
  with assms(1) Pings served_write(2) [OF assms(1), of ok now] show ?thesis
    by (cases "wc_writer c = Writing \<and> b = a") (auto simp: writer_ping_def served_ok_def)
qed (use assms in \<open>auto simp: served_ok_def client_ok_def read_error_def await_writer_def delivered_def\<close>)

lemma client_run_ok: "client_ok (wc_phase (client_run a zs) \<noteq> Gone) (client_run a zs)"
proof (induction zs rule: rev_induct)
  case (snoc x zs)
  then show ?case using client_ok_step by (simp add: client_run_def)
qed (simp add: client_run_def client_ok_def new_client_def)

lemma client_run_served: "served_ok (list_ex (failed_write a) zs) (broadcasts zs) (client_run a zs)"
proof (induction zs rule: rev_induct)
  case (snoc x zs)
  then show ?case using served_step [OF snoc client_run_ok, of a x] by (simp add: client_run_def)
qed (simp add: client_run_def served_ok_def new_client_def delivered_def)

text \<open>
  Whatever happens in whatever order, the hub never sends on a closed channel nor closes one twice;
  a connection is registered exactly until its handler has gone, no more than 64 messages wait for it,
  and its writer never meets a closed channel.
\<close>
lemma hub_never_panics:
  "\<exists>h. hub_run xs new_hub = Some h \<and> distinct (hb_clients h) \<and>
     (\<forall>a < length (hb_heap h). (a \<in> set (hb_clients h) \<longleftrightarrow> wc_phase (client_at h a) \<noteq> Gone) \<and>
        length (wc_send (client_at h a)) \<le> 64 \<and> \<not> (wc_writer (client_at h a) = Writing \<and> wc_closed (client_at h a)))"
proof -
  obtain h where h: "hub_run xs new_hub = Some h" "hub_ok h" using hub_run_total [of xs] by blast
  have "wc_writer (client_at h a) \<noteq> Writing \<or> \<not> wc_closed (client_at h a)" if "a < length (hb_heap h)" for a
    using h(2) that by (cases "wc_phase (client_at h a)") (auto simp: hub_ok_def client_ok_def)
  with h show ?thesis by (auto simp: hub_ok_def client_ok_def send_buffer_def)
qed


text \<open>
  A connection whose peer has gone stays registered until a write to it fails: the handler waits for the
  writer, which waits for the channel that only the end of the handler would close.
\<close>
lemma leaves_only_after_failed_write:
  assumes "hub_run xs new_hub = Some h" "a < length (hb_heap h)" "a \<notin> set (hb_clients h)"
  shows "list_ex (failed_write a) xs"
proof -
  obtain ys zs where z: "xs = ys @ Connect # zs" "client_at h a = client_run a zs" "wc_phase (client_at h a) = Gone"
    using hub_run_total [of xs] assms by (auto simp: hub_ok_def client_ok_def)
  with client_run_served [of a zs] show ?thesis by (auto simp: served_ok_def)
qed

definition sample_ops :: "hub_op list" where
  "sample_ops = [Broadcasts (Some JNull), Connect, Broadcasts (Some (JStr ''a'')), Welcomed 0 True, Connect,
     Receives 0 True, Pings 0 5 True, Broadcasts (Some (JStr ''b'')), Broadcasts None, ReadFails 0, WriterAwaited 0, Leaves 0]"

definition sample_hub :: WSHub where
  "sample_hub = the (hub_run sample_ops new_hub)"

lemma sample_run: "hub_run sample_ops new_hub = Some sample_hub"
  by code_simp

lemma hub_never_panics_witness:
  "length (wc_send (client_at sample_hub 0)) \<le> 64"
proof -
  have "0 < length (hb_heap sample_hub)" by code_simp
  then show ?thesis using hub_never_panics [of sample_ops] unfolding sample_run by blast
qed


text \<open>The peer of client 0 has gone, its handler waits, and the hub keeps it.\<close>

lemma gone_peer_stays: "wc_phase (client_at sample_hub 0) = Waiting \<and> 0 \<in> set (hb_clients sample_hub)"
  by code_simp

lemma slow_reader_loses_messages:
  "try_send m (c\<lparr>wc_closed := False, wc_send := replicate 64 j\<rparr>) = Some (c\<lparr>wc_closed := False, wc_send := replicate 64 j\<rparr>)"
  by (simp add: try_send_def send_buffer_def)

text \<open>An origin is accepted by its text: a scheme in the middle of it is dropped as well.\<close>

lemma any_subdomain_connects:
  "isAllowedOrigin (h @ ''.'' @ zone) zone custom" "custom \<noteq> [] \<Longrightarrow> isAllowedOrigin (h @ ''.'' @ custom) zone custom"
  by (simp_all add: isAllowedOrigin_def suffix_def)

end
