(* ===== verification/App_Api.thy ===== *)
theory App_Api
  imports App_Outcomes App_Host_Props App_Socket
begin

text \<open>
  \<^verbatim>\<open>internal/appservice/handler.go\<close>: the requests of the app service. Their state is the one of
  \<open>App_Lifecycle\<close> with its background jobs, the operations on models with theirs, and the host. What a
  request learns of the clock and of file writes is the \<open>io\<close> of its environment. The arithmetic of
  floating-point numbers, on their 64 bits, is a parameter; a broadcast is recorded in the service.
\<close>

record float_ops =
  fl_parse :: "jval \<Rightarrow> 64 word"
  fl_sub :: "64 word \<Rightarrow> 64 word \<Rightarrow> 64 word"
  fl_div :: "64 word \<Rightarrow> 64 word \<Rightarrow> 64 word"
  fl_mul :: "64 word \<Rightarrow> 64 word \<Rightarrow> 64 word"
  fl_positive :: "64 word \<Rightarrow> bool"
  fl_json :: "64 word \<Rightarrow> jval option"

text \<open>
  \<open>ae_err\<close>, \<open>ae_save_err\<close>: the texts of a decoder's error and of a failed write; \<open>ae_time\<close>: a time as
  JSON shows it; \<open>ae_verify\<close>, \<open>ae_upgrade\<close>: the auth service and the WebSocket library.
\<close>

record api_env =
  ae_cfg :: service_config
  ae_host :: app_host
  ae_io :: io
  ae_err :: string
  ae_save_err :: string
  ae_time :: "int \<Rightarrow> string"
  ae_float :: float_ops
  ae_verify :: "string \<Rightarrow> string \<Rightarrow> nat option"
  ae_upgrade :: "http_request \<Rightarrow> nat option"

record api =
  ap_sys :: sys
  ap_models :: model_ops
  ap_model_jobs :: "(model_op \<times> ModelSpec) list"
  ap_host :: host

type_synonym 'a api_op = "(api, 'a) op"

type_synonym api_handler = "http_request \<Rightarrow> http_response api_op"

definition on_the_host :: "'a act \<Rightarrow> 'a api_op" where
  "on_the_host m w = (case m (ap_host w) of None \<Rightarrow> None | Some (r, h) \<Rightarrow> Some (r, w\<lparr>ap_host := h\<rparr>))"

definition the_service :: "svc api_op" where
  "the_service w = Some (Inr (sy_svc (ap_sys w)), w)"

definition the_models :: "model_ops api_op" where
  "the_models w = Some (Inr (ap_models w), w)"

definition on_service :: "(svc \<Rightarrow> svc \<times> job list \<times> 'a) \<Rightarrow> 'a api_op" where
  "on_service f w = (let r = f (sy_svc (ap_sys w)) in Some (Inr (snd (snd r)), w\<lparr>ap_sys := spawn (ap_sys w) r\<rparr>))"

definition start_model :: "model_op \<Rightarrow> ModelSpec \<Rightarrow> (model_ops \<Rightarrow> model_ops act) \<Rightarrow> unit api_op" where
  "start_model op m f w =
     chk [] (on_the_host (f (ap_models w)))
       (\<lambda>ops w'. Some (Inr (), w'\<lparr>ap_models := ops, ap_model_jobs := ap_model_jobs w' @ [(op, m)]\<rparr>)) w"

subsection \<open>Bodies\<close>

text \<open>A field that is a map of texts: later members are added to it, \<^term>\<open>JNull\<close> empties it.\<close>

fun members_map :: "string \<Rightarrow> (string \<times> jval) list \<Rightarrow> (string \<times> string) list \<Rightarrow> (string \<times> string) list option" where
  "members_map field [] v = Some v"
| "members_map field ((k, j) # ms) v =
     (if EqualFold k field then
        (case j of
           JObj kvs \<Rightarrow> do { l \<leftarrow> text_members kvs; members_map field ms (foldl (\<lambda>m (k, s). AList.update k s m) v l) }
         | JNull \<Rightarrow> members_map field ms []
         | _ \<Rightarrow> None)
      else members_map field ms v)"

definition decode_install :: "jval option \<Rightarrow> InstallRequest option" where
  "decode_install b = do {
     n \<leftarrow> field_str ''name'' b; u \<leftarrow> field_str ''repoUrl'' b; s \<leftarrow> field_str ''source'' b; v \<leftarrow> field_str ''version'' b;
     ms \<leftarrow> members_of b; vs \<leftarrow> members_map ''values'' ms [];
     Some \<lparr>iq_Name = n, iq_RepoURL = u, iq_Source = s, iq_Version = v, iq_Values = vs\<rparr> }"

definition decode_uninstall :: "jval option \<Rightarrow> UninstallRequest option" where
  "decode_uninstall b = do {
     n \<leftarrow> field_str ''name'' b; a \<leftarrow> field_bool ''all'' b; d \<leftarrow> field_bool ''deleteData'' b; wi \<leftarrow> field_bool ''wipe'' b;
     Some \<lparr>uq_Name = n, uq_All = a, uq_DeleteData = d, uq_Wipe = wi\<rparr> }"

definition decode_suspend :: "jval option \<Rightarrow> string option" where
  "decode_suspend b = do { n \<leftarrow> field_str ''name'' b; a \<leftarrow> field_bool ''all'' b; Some n }"

definition decode_resume :: "jval option \<Rightarrow> string option" where
  "decode_resume b = field_str ''name'' b"

text \<open>The fields that no operation reads are decoded as well.\<close>

definition decode_spec :: "jval option \<Rightarrow> ModelSpec option" where
  "decode_spec b = do {
     n \<leftarrow> field_str ''name'' b; i \<leftarrow> field_str ''modelId'' b; be \<leftarrow> field_str ''backend'' b; _ \<leftarrow> field_str ''title'' b;
     hr \<leftarrow> field_str ''hfRepo'' b; hf \<leftarrow> field_str ''hfRef'' b; g \<leftarrow> field_str ''gpuMemoryUtilization'' b;
     l \<leftarrow> field_str ''maxModelLen'' b; t \<leftarrow> field_int ''tensorParallelSize'' b; ti \<leftarrow> field_str ''tiktokenFiles'' b;
     sp \<leftarrow> field_str ''storagePath'' b; rm \<leftarrow> field_str ''requiredMemory'' b; rc \<leftarrow> field_str ''requiredCpu'' b;
     _ \<leftarrow> field_str ''requiredGpu'' b; _ \<leftarrow> field_str ''requiredDisk'' b;
     lm \<leftarrow> field_str ''limitedMemory'' b; lc \<leftarrow> field_str ''limitedCPU'' b;
     Some \<lparr>msName = n, msModelID = i, msBackend = be, msHFRepo = hr, msHFRef = hf, msGPUMemoryUtilization = g,
       msMaxModelLen = l, msTensorParallelSize = t, msTiktokenFiles = ti, msStoragePath = sp,
       msRequiredMemory = rm, msRequiredCPU = rc, msLimitedMemory = lm, msLimitedCPU = lc\<rparr> }"

subsection \<open>Answers\<close>

text \<open>\<open>saving\<close> is the text of a failed write, \<open>verb\<close> what a system app cannot be.\<close>

definition error_text :: "string \<Rightarrow> string \<Rightarrow> svc_error \<Rightarrow> string" where
  "error_text saving verb e = (case e of
     InvalidName ne \<Rightarrow> ''app '' @ name_message ne
   | AppNameRequired \<Rightarrow> ''app name is required''
   | AlreadyInstalled n st \<Rightarrow> ''app '' @ quoted n @ '' is already installed (state: '' @ state_text st @ '')''
   | SaveFailed \<Rightarrow> saving
   | AppNotFound n \<Rightarrow> ''app '' @ quoted n @ '' not found''
   | SystemApp n \<Rightarrow> ''system app '' @ quoted n @ '' cannot be '' @ verb
   | NotRunning n st \<Rightarrow> ''app '' @ quoted n @ '' is not running (state: '' @ state_text st @ '')''
   | NotSuspended n st \<Rightarrow> ''app '' @ quoted n @ '' is not suspended (state: '' @ state_text st @ '')'')"

definition operation_reply :: "string \<Rightarrow> string \<Rightarrow> svc_error + string \<times> int \<Rightarrow> http_response" where
  "operation_reply saving verb res = (case res of
     Inl e \<Rightarrow> writeError 400 (error_text saving verb e)
   | Inr (uid, opID) \<Rightarrow> reply 200 (JObj [(''code'', JInt 200),
       (''data'', JObj [(''uid'', JStr uid), (''opID'', JStr (int_str opID))])]))"

definition info_json :: "(int \<Rightarrow> string) \<Rightarrow> AppInfo \<Rightarrow> jval" where
  "info_json time i = JObj (
     [(''name'', JStr (ai_Name i)), (''appID'', JStr (ai_AppID i)), (''namespace'', JStr (ai_Namespace i)),
      (''owner'', JStr (ai_Owner i))] @
     present ''icon'' (ai_Icon i) @ present ''title'' (ai_Title i) @ present ''description'' (ai_Description i) @
     present ''version'' (ai_Version i) @ [(''state'', JStr (ai_State i))] @ present ''statusMessage'' (ai_StatusMessage i) @
     [(''source'', JStr (ai_Source i))] @ list_field ''entrances'' (map entrance_json (ai_Entrances i)) @
     (if ai_InternetBlocked i then [(''internetBlocked'', JBool True)] else []) @
     (if ai_PublicAccess i then [(''publicAccess'', JBool True)] else []) @
     [(''createdAt'', JStr (time (ai_CreatedAt i))), (''updatedAt'', JStr (time (ai_UpdatedAt i)))])"

definition only :: "string \<Rightarrow> http_request \<Rightarrow> http_response api_op \<Rightarrow> http_response api_op" where
  "only m r k = (if rq_Method r \<noteq> m then ret (writeError 405 ''method not allowed'') else k)"

definition decoded :: "api_env \<Rightarrow> (jval option \<Rightarrow> 'a option) \<Rightarrow> http_request \<Rightarrow> ('a \<Rightarrow> http_response api_op) \<Rightarrow> http_response api_op" where
  "decoded E dec r k = (case dec (rq_Body r) of
     None \<Rightarrow> ret (writeError 400 (''invalid request body: '' @ ae_err E))
   | Some x \<Rightarrow> k x)"

subsection \<open>Operations on apps\<close>

definition handleInstall :: "api_env \<Rightarrow> api_handler" where
  "handleInstall E r = only ''POST'' r (decoded E decode_install r (\<lambda>req.
     chk [] (on_service (Install (ae_cfg E) (ae_io E) req)) (\<lambda>res.
     ret (operation_reply (''save app record: '' @ ae_save_err E) [] res))))"

definition handleUninstall :: "api_env \<Rightarrow> api_handler" where
  "handleUninstall E r = only ''POST'' r (decoded E decode_uninstall r (\<lambda>req.
     chk [] (on_service (Uninstall (ae_cfg E) (ae_io E) req)) (\<lambda>res.
     ret (operation_reply (ae_save_err E) ''uninstalled'' res))))"

definition handleSuspend :: "api_env \<Rightarrow> api_handler" where
  "handleSuspend E r = only ''POST'' r (decoded E decode_suspend r (\<lambda>name.
     chk [] (on_service (Suspend (ae_cfg E) (ae_io E) name)) (\<lambda>res.
     ret (operation_reply (ae_save_err E) ''suspended'' res))))"

definition handleResume :: "api_env \<Rightarrow> api_handler" where
  "handleResume E r = only ''POST'' r (decoded E decode_resume r (\<lambda>name.
     chk [] (on_service (Resume (ae_io E) name)) (\<lambda>res.
     ret (operation_reply (ae_save_err E) [] res))))"

definition handleStop :: "api_env \<Rightarrow> api_handler" where
  "handleStop E r = only ''POST'' r (decoded E decode_suspend r (\<lambda>name.
     chk [] (on_service (Suspend (ae_cfg E) (ae_io E) name)) (\<lambda>res.
     ret (operation_reply (ae_save_err E) ''suspended'' res))))"

definition handleStart :: "api_env \<Rightarrow> api_handler" where
  "handleStart E r = only ''POST'' r (decoded E decode_resume r (\<lambda>name.
     chk [] (on_service (Resume (ae_io E) name)) (\<lambda>res.
     ret (operation_reply (ae_save_err E) [] res))))"

text \<open>The pods of every running app are asked for, one app after the other.\<close>

fun list_live :: "app_host \<Rightarrow> AppRecord list \<Rightarrow> AppInfo list act" where
  "list_live A [] = ret []"
| "list_live A (r # rs) =
     chk [] (if ai_State (recordToInfo r) = ''running''
             then or_else [] (GetPodsForApp A (r_ReleaseName r) (r_Namespace r)) else ret []) (\<lambda>pods.
     chk [] (list_live A rs) (\<lambda>is. ret (live_info (\<lambda>_ _. pods) r # is)))"

definition listed_records :: "svc \<Rightarrow> AppRecord list" where
  "listed_records s = filter (\<lambda>r. r_State r \<noteq> StateUninstalled) (map (rec_at s) (List (sv_store s)))"

definition list_apps :: "api_env \<Rightarrow> AppInfo list api_op" where
  "list_apps E = chk [] the_service (\<lambda>s. on_the_host (list_live (ae_host E) (listed_records s)))"

definition handleListApps :: "api_env \<Rightarrow> api_handler" where
  "handleListApps E r = only ''GET'' r (chk [] (list_apps E) (\<lambda>apps.
     ret (reply 200 (JObj [(''code'', JInt 200), (''data'', JArr (map (info_json (ae_time E)) apps))]))))"

definition path_name :: "string \<Rightarrow> http_request \<Rightarrow> string" where
  "path_name route r = TrimSuffix (TrimPrefix (rq_Path r) route) ''/''"

definition handleGetApp :: "api_env \<Rightarrow> api_handler" where
  "handleGetApp E r = only ''GET'' r
     (let name = path_name ''/app-service/v1/app/'' r in
      if name = [] then ret (writeError 400 ''app name is required'')
      else chk [] the_service (\<lambda>s. case Get name (sv_store s) of
          None \<Rightarrow> ret (writeError 404 (error_text [] [] (AppNotFound name)))
        | Some a \<Rightarrow>
            let x = rec_at s a in
            chk [] (on_the_host (or_else [] (GetPodsForApp (ae_host E) (r_ReleaseName x) (r_Namespace x)))) (\<lambda>_.
            ret (reply 200 (JObj [(''code'', JInt 200), (''data'', info_json (ae_time E) (recordToInfo x))])))))"

definition credentials_json :: "AppCredentials \<Rightarrow> jval" where
  "credentials_json c = JObj ([(''username'', JStr (crUsername c))] @ present ''email'' (crEmail c) @
     [(''password'', JStr (crPassword c))])"

definition handleAppCredentials :: "api_env \<Rightarrow> api_handler" where
  "handleAppCredentials E r = only ''GET'' r
     (let name = path_name ''/app-service/v1/app-credentials/'' r in
      if name = [] then ret (writeError 400 ''app name required'')
      else attempt (on_the_host (GetAppCredentials (ae_host E) name (first_value (rq_Query r) ''loginType''))) (\<lambda>res.
        case res of
          Inl e \<Rightarrow> ret (writeError 404 e)
        | Inr creds \<Rightarrow> ret (reply 200 (credentials_json creds))))"

definition port_json :: "PortInfo \<Rightarrow> jval" where
  "port_json p = JObj (present ''name'' (poName p) @ [(''port'', JInt (poPort p))] @
     (if poTargetPort p \<noteq> 0 then [(''targetPort'', JInt (poTargetPort p))] else []) @ present ''protocol'' (poProtocol p))"

definition service_json :: "ServiceInfo \<Rightarrow> jval" where
  "service_json s = JObj ([(''name'', JStr (siName s))] @ present ''clusterIP'' (siClusterIP s) @ present ''type'' (siType s) @
     list_field ''ports'' (map port_json (siPorts s)))"

text \<open>A list of no services is \<^verbatim>\<open>null\<close>.\<close>

definition handleAppServices :: "api_env \<Rightarrow> api_handler" where
  "handleAppServices E r = only ''GET'' r
     (let name = path_name ''/app-service/v1/app-services/'' r in
      if name = [] then ret (writeError 400 ''app name required'')
      else chk [] (on_the_host (or_else [] (GetServicesForApp (ae_host E) name (sc_namespace (ae_cfg E))))) (\<lambda>svcs.
        ret (reply 200 (if svcs = [] then JNull else JArr (map service_json svcs)))))"

text \<open>The record of the app named in the body is found again for the commands on the host.\<close>

definition handleInternetRequest :: "api_env \<Rightarrow> api_handler" where
  "handleInternetRequest E r =
     chk [] (on_service (\<lambda>s. case handleInternet (ae_io E) (ae_err E) r s of (s', resp) \<Rightarrow> (s', [], resp))) (\<lambda>resp.
     if rs_Code resp \<noteq> 200 then ret resp
     else chk [] the_service (\<lambda>s.
       case do { n \<leftarrow> field_str ''name'' (rq_Body r); b \<leftarrow> field_bool ''blocked'' (rq_Body r); a \<leftarrow> Get n (sv_store s); Some (rec_at s a, b) } of
         None \<Rightarrow> ret resp
       | Some (x, blocked) \<Rightarrow>
           attempt (on_the_host ((if blocked then BlockAppInternet else UnblockAppInternet) (ae_host E) (r_Namespace x) (r_ReleaseName x)))
             (\<lambda>_. ret resp)))"

definition handlePublicAccessRequest :: "api_env \<Rightarrow> api_handler" where
  "handlePublicAccessRequest E r =
     on_service (\<lambda>s. case handlePublicAccess (ae_cfg E) (ae_io E) (ae_err E) r s of (s', resp) \<Rightarrow> (s', [], resp))"

subsection \<open>Operations on models\<close>

definition model_json :: "InstalledModel \<Rightarrow> jval" where
  "model_json m = JObj [(''name'', JStr (imName m)), (''size'', JInt (imSize m)), (''modified'', JStr (imModified m))]"

definition handleModelStatus :: "api_env \<Rightarrow> api_handler" where
  "handleModelStatus E r = only ''GET'' r
     (chk [] the_models (\<lambda>ops. attempt (on_the_host (ListInstalledModels (ae_host E) ops)) (\<lambda>res.
        case res of
          Inl e \<Rightarrow> ret (writeError 500 e)
        | Inr ms \<Rightarrow> ret (reply 200 (JObj (sort_key fst (map (\<lambda>(k, l). (k, JArr (map model_json l))) ms)))))))"

definition model_request :: "api_env \<Rightarrow> model_op \<Rightarrow> string \<Rightarrow> (ModelSpec \<Rightarrow> model_ops \<Rightarrow> model_ops act) \<Rightarrow> api_handler" where
  "model_request E op status f r = only ''POST'' r (decoded E decode_spec r (\<lambda>spec.
     if msName spec = [] then ret (writeError 400 ''model name is required'')
     else
       let spec = spec\<lparr>msBackend := or_default (msBackend spec) ''ollama''\<rparr> in
       attempt (start_model op spec (f spec)) (\<lambda>res. case res of
          Inl e \<Rightarrow> ret (writeError 400 e)
        | Inr _ \<Rightarrow> ret (reply 200 (JObj [(''name'', JStr (msName spec)), (''status'', JStr status)])))))"

definition handleModelInstall :: "api_env \<Rightarrow> api_handler" where
  "handleModelInstall E = model_request E ModelInstall ''installing'' (InstallModel (ae_host E))"

definition handleModelUninstall :: "api_env \<Rightarrow> api_handler" where
  "handleModelUninstall E = model_request E ModelUninstall ''uninstalling'' (UninstallModel (ae_host E))"

subsection \<open>The desktop\<close>

definition desktop_app :: "AppInfo \<Rightarrow> jval" where
  "desktop_app i = JObj [(''icon'', JStr (ai_Icon i)), (''name'', JStr (ai_Name i)), (''status'', JStr (ai_State i)),
     (''title'', JStr (ai_Title i)), (''url'', JStr (case ai_Entrances i of [] \<Rightarrow> [] | e # _ \<Rightarrow> en_URL e))]"

text \<open>The slice of apps starts as \<^verbatim>\<open>nil\<close>, which is \<^verbatim>\<open>null\<close>.\<close>

definition my_apps :: "AppInfo list \<Rightarrow> jval" where
  "my_apps apps = JObj [(''code'', JInt 200), (''data'', if apps = [] then JNull else JArr (map desktop_app apps))]"

definition bfl_user :: "jval \<Rightarrow> (string \<times> string \<times> bool) option" where
  "bfl_user j = do {
     d \<leftarrow> member ''data'' j; n \<leftarrow> field_str ''name'' (Some d); t \<leftarrow> field_str ''terminusName'' (Some d);
     _ \<leftarrow> field_str ''zone'' (Some d); wc \<leftarrow> field_bool ''wizard_complete'' (Some d);
     Some (n, t, wc) }"

text \<open>The answer of a GET is its body, whatever its status; at most 64 KiB are read.\<close>

definition get_json :: "app_host \<Rightarrow> string \<Rightarrow> jval option act" where
  "get_json A url = attempt (ask (ah_machine A) (HHttp ''GET'' url [] None)) (\<lambda>r. ret (case r of
       Inr (HErr _ _) \<Rightarrow> None
     | Inr a \<Rightarrow> ah_json A (take 65536 (text_of a))
     | Inl _ \<Rightarrow> None))"

definition handleServerInit :: "api_env \<Rightarrow> api_handler" where
  "handleServerInit E r =
     (let A = ae_host E;
          username = or_default (header_get r ''Remote-User'') (Username (ah_ctx A));
          zone = or_default (getenv A ''USER_ZONE'') (UserZone (ah_ctx A));
          bflURL = or_default (getenv A ''BFL_URL'') (''http://'' @ BFLDNS (ah_ctx A) @ '':80'')
      in
      chk [] (on_the_host (get_json A (bflURL @ ''/bfl/backend/v1/user-info''))) (\<lambda>body.
      let terminusName = (case Option.bind body bfl_user of
             Some (n, t, _) \<Rightarrow> if n \<noteq> [] then t else username @ ''@'' @ TrimPrefix zone (username @ ''.'')
           | None \<Rightarrow> username @ ''@'' @ TrimPrefix zone (username @ ''.''));
          wizardStatus = ''completed''
      in
      chk [] (list_apps E) (\<lambda>apps.
      ret (reply 200 (JObj [
        (''config'', JObj [(''apps'', JArr []), (''bgIndex'', JInt 0), (''dock'', JArr [])]),
        (''myApps'', my_apps apps),
        (''terminus'', JObj [(''avatar'', JStr []), (''did'', JStr []), (''loginBackground'', JStr []),
           (''osVersion'', JStr ''1.0.0''), (''selfhosted'', JBool True), (''terminusName'', JStr terminusName),
           (''wizardStatus'', JStr wizardStatus)])])))))"

definition handleServerMyApps :: "api_env \<Rightarrow> api_handler" where
  "handleServerMyApps E r = chk [] (list_apps E) (\<lambda>apps. ret (reply 200 (my_apps apps)))"

text \<open>
  A value that is decoded without a type and encoded again: the keys of an object are sorted, the last
  member of a name counts. Numbers up to \<^verbatim>\<open>2^53\<close> stay as they are.
\<close>

fun recoded :: "jval \<Rightarrow> jval" where
  "recoded (JArr js) = JArr (map recoded js)"
| "recoded (JObj ms) = JObj (sort_key fst (AList.clearjunk (rev (map (\<lambda>(k, j). (k, recoded j)) ms))))"
| "recoded j = j"

definition handleServerUpdateConfig :: api_handler where
  "handleServerUpdateConfig r =
     ret (reply 200 (case rq_Body r of Some (JObj ms) \<Rightarrow> recoded (JObj ms) | _ \<Rightarrow> JNull))"

definition handleUpgradeState :: api_handler where
  "handleUpgradeState r = ret (reply 200 (JObj [(''currentVersion'', JStr ''1.0.0''), (''latestVersion'', JStr ''1.0.0''),
     (''state'', JStr ''idle''), (''upgradeAvail'', JBool False)]))"

definition handleServerQuery :: api_handler where
  "handleServerQuery r = ret (reply 200 (JObj [(''code'', JInt 200), (''data'', JArr [])]))"

definition handleDevice :: api_handler where
  "handleDevice r = ret (reply 200 (JObj [(''status'', JStr ''ok'')]))"

subsection \<open>The cluster's load\<close>

definition QueryEscape :: "string \<Rightarrow> string" where
  "QueryEscape s = concat (map (\<lambda>c.
     if is_alnum c \<or> c \<in> {CHR ''-'', CHR ''_'', CHR ''.'', CHR ''~''} then [c]
     else if c = CHR '' '' then ''+''
     else CHR ''%'' # ToUpper (hexEncode [c])) s)"

definition metric_value :: "float_ops \<Rightarrow> jval \<Rightarrow> 64 word option" where
  "metric_value F j = do {
     d \<leftarrow> member ''data'' j; rs \<leftarrow> Option.bind (member ''result'' d) elements;
     vs \<leftarrow> decode_list (\<lambda>x. Option.bind (member ''value'' x) elements) rs;
     (case vs of (_ # v # _) # _ \<Rightarrow> Some (fl_parse F v) | _ \<Rightarrow> None) }"

definition query_metric :: "float_ops \<Rightarrow> app_host \<Rightarrow> string \<Rightarrow> 64 word act" where
  "query_metric F A q =
     chk [] (get_json A (PrometheusURL (ah_ctx A) @ ''/api/v1/query?query='' @ QueryEscape q)) (\<lambda>body.
     ret (case Option.bind body (metric_value F) of None \<Rightarrow> 0 | Some v \<Rightarrow> v))"

definition root_filesystem :: "string \<Rightarrow> string" where
  "root_filesystem what = ''node_filesystem_'' @ what @ ''_bytes{mountpoint='' @ dquote @ ''/'' @ dquote @
     '',fstype!='' @ dquote @ ''rootfs'' @ dquote @ ''}''"

definition idle_cpu :: string where
  "idle_cpu = ''node_cpu_seconds_total{mode='' @ dquote @ ''idle'' @ dquote @ ''}''"

definition load_json :: "float_ops \<Rightarrow> 64 word \<Rightarrow> 64 word \<Rightarrow> 64 word \<Rightarrow> jval option" where
  "load_json F ratio all used = do {
     a \<leftarrow> fl_json F ratio; b \<leftarrow> fl_json F all; c \<leftarrow> fl_json F used;
     Some (JObj [(''ratio'', a), (''total'', b), (''usage'', c)]) }"

definition used_ratio :: "float_ops \<Rightarrow> 64 word \<Rightarrow> 64 word \<Rightarrow> 64 word" where
  "used_ratio F used all = (if fl_positive F all then fl_div F used all else 0)"

definition zeros :: "string list \<Rightarrow> jval" where
  "zeros ks = JObj (map (\<lambda>k. (k, JInt 0)) ks)"

text \<open>A number that JSON cannot show leaves the body empty; the status was sent before.\<close>

definition handleMonitorCluster :: "api_env \<Rightarrow> api_handler" where
  "handleMonitorCluster E r =
     (let F = ae_float E; q = (\<lambda>t. on_the_host (query_metric F (ae_host E) t)) in
      chk [] (q (''1 - avg(rate('' @ idle_cpu @ ''[5m]))'')) (\<lambda>cpuRatio.
      chk [] (q (''count('' @ idle_cpu @ '')'')) (\<lambda>cpuCores.
      chk [] (q ''node_memory_MemTotal_bytes'') (\<lambda>memTotal.
      chk [] (q ''node_memory_MemAvailable_bytes'') (\<lambda>memAvail.
      chk [] (q (root_filesystem ''size'')) (\<lambda>diskTotal.
      chk [] (q (root_filesystem ''avail'')) (\<lambda>diskAvail.
      let memUsed = fl_sub F memTotal memAvail; diskUsed = fl_sub F diskTotal diskAvail in
      ret (case do {
             c \<leftarrow> load_json F cpuRatio cpuCores (fl_mul F cpuRatio cpuCores);
             d \<leftarrow> load_json F (used_ratio F diskUsed diskTotal) diskTotal diskUsed;
             m \<leftarrow> load_json F (used_ratio F memUsed memTotal) memTotal memUsed;
             Some (JObj [(''cpu'', c), (''disk'', d), (''gpu'', zeros [''ratio'', ''total'', ''usage'']), (''memory'', m),
               (''net'', zeros [''received'', ''transmitted''])]) } of
           Some j \<Rightarrow> reply 200 j
         | None \<Rightarrow> (reply_status 200)\<lparr>rs_Header := [(''Content-Type'', ''application/json'')]\<rparr>))))))))"

subsection \<open>Routes\<close>

definition handleHealthz :: api_handler where
  "handleHealthz r = ret ((reply_status 200)\<lparr>rs_Body := JStr ''ok''\<rparr>)"

text \<open>A connection that is opened is answered with 101.\<close>

definition handleWebSocket :: "api_env \<Rightarrow> api_handler" where
  "handleWebSocket E r =
     ret (case AuthWebSocketHandler (ah_ctx (ae_host E)) (ae_verify E) (ae_upgrade E) r of
       Some resp \<Rightarrow> resp | None \<Rightarrow> reply_status 101)"

definition api_routes :: "api_env \<Rightarrow> (string \<times> api_handler) list" where
  "api_routes E =
     [(''/app-service/v1/install'', handleInstall E), (''/app-service/v1/uninstall'', handleUninstall E),
      (''/app-service/v1/apps'', handleListApps E), (''/app-service/v1/suspend'', handleSuspend E),
      (''/app-service/v1/resume'', handleResume E), (''/app-service/v1/stop'', handleStop E),
      (''/app-service/v1/start'', handleStart E), (''/app-service/v1/internet'', handleInternetRequest E),
      (''/app-service/v1/public-access'', handlePublicAccessRequest E),
      (''/app-service/v1/models/status'', handleModelStatus E), (''/app-service/v1/models/install'', handleModelInstall E),
      (''/app-service/v1/models/uninstall'', handleModelUninstall E), (''/ws'', handleWebSocket E),
      (''/app-service/healthz'', handleHealthz), (''/app-service/v1/applications'', handleListApps E),
      (''/server/init'', handleServerInit E), (''/server/myApps'', handleServerMyApps E),
      (''/server/updateConfig'', handleServerUpdateConfig), (''/server/upgrade/state'', handleUpgradeState),
      (''/server/query'', handleServerQuery), (''/server/search'', handleServerQuery), (''/api/device'', handleDevice),
      (''/api/monitor/cluster'', handleMonitorCluster E)]"

definition api_subtrees :: "api_env \<Rightarrow> (string \<times> api_handler) list" where
  "api_subtrees E =
     [(''/app-service/v1/app/'', handleGetApp E), (''/app-service/v1/app-credentials/'', handleAppCredentials E),
      (''/app-service/v1/app-services/'', handleAppServices E), (''/server/uninstall/'', handleUninstall E)]"

text \<open>\<open>p\<close> is the escaped path; the path of a subtree without its slash is redirected.\<close>

definition api_mux :: "api_env \<Rightarrow> string \<Rightarrow> api_handler" where
  "api_mux E p r =
     (if cleanPath p \<noteq> p then ret (reply_status 301)
      else case List.find (\<lambda>(pat, _). route_exact pat p) (api_routes E) of
        Some (_, h) \<Rightarrow> h r
      | None \<Rightarrow>
          (case List.find (\<lambda>(pat, _). route_subtree pat p) (api_subtrees E) of
             Some (_, h) \<Rightarrow> h r
           | None \<Rightarrow>
               if list_ex (\<lambda>(pat, _). route_exact (butlast pat) p) (api_subtrees E) then ret (reply_status 301)
               else ret (http_error ''404 page not found'' 404)))"

subsection \<open>The service\<close>

datatype api_step =
    Request api_env string http_request
  | Background sys_op
  | ModelJob nat

text \<open>Any step of the life cycle may come between two requests, and any job of a model may run.\<close>

fun api_next :: "service_config \<Rightarrow> app_host \<Rightarrow> api_step \<Rightarrow> api \<Rightarrow> api option" where
  "api_next cfg A (Request E p r) w = map_option snd (api_mux (E\<lparr>ae_cfg := cfg, ae_host := A\<rparr>) p r w)"
| "api_next cfg A (Background x) w = Some (w\<lparr>ap_sys := sys_step cfg (ap_sys w) x\<rparr>)"
| "api_next cfg A (ModelJob i) w =
     (if i < length (ap_model_jobs w) then
        case ap_model_jobs w ! i of (op, m) \<Rightarrow>
          (case model_job A op m (ap_models w) (ap_host w) of
             None \<Rightarrow> None
           | Some (res, h) \<Rightarrow> Some (w\<lparr>ap_host := h, ap_models := (case res of Inl _ \<Rightarrow> ap_models w | Inr ops \<Rightarrow> ops),
               ap_model_jobs := take i (ap_model_jobs w) @ drop (Suc i) (ap_model_jobs w)\<rparr>))
      else Some w)"

fun api_run :: "service_config \<Rightarrow> app_host \<Rightarrow> api_step list \<Rightarrow> api \<Rightarrow> api option" where
  "api_run cfg A [] w = Some w"
| "api_run cfg A (x # xs) w = do { w' \<leftarrow> api_next cfg A x w; api_run cfg A xs w' }"

subsection \<open>What a request does\<close>

text \<open>Every answer is a response, and the state before and after it are related; \<open>returns\<close>: or an error.\<close>

definition replies :: "(api \<Rightarrow> api \<Rightarrow> bool) \<Rightarrow> 'a api_op \<Rightarrow> bool" where
  "replies R m \<longleftrightarrow> (\<forall>w. \<exists>a w'. m w = Some (Inr a, w') \<and> R w w')"

definition returns :: "(api \<Rightarrow> api \<Rightarrow> bool) \<Rightarrow> 'a api_op \<Rightarrow> bool" where
  "returns R m \<longleftrightarrow> (\<forall>w. \<exists>x w'. m w = Some (x, w') \<and> R w w')"

named_theorems api_intros \<open>what a request does, by its last step\<close>

text \<open>A relation that allows calls of the set \<open>P\<close> on the host.\<close>

locale api_contract =
  fixes R :: "api \<Rightarrow> api \<Rightarrow> bool" and P :: "hcmd \<Rightarrow> bool"
  assumes R_refl: "R w w"
    and R_trans: "R w w' \<Longrightarrow> R w' w'' \<Longrightarrow> R w w''"
    and R_host: "hw_log h = hw_log (ap_host w) @ xs \<Longrightarrow> \<forall>(c, a) \<in> set xs. P c \<Longrightarrow> R w (w\<lparr>ap_host := h\<rparr>)"
begin

lemma replies_ret [api_intros]: "replies R (ret a)"
  using R_refl by (simp add: replies_def ret_def)

lemma replies_service [api_intros]: "replies R the_service"
  using R_refl by (simp add: replies_def the_service_def)

lemma replies_models [api_intros]: "replies R the_models"
  using R_refl by (simp add: replies_def the_models_def)

lemma replies_then:
  assumes "replies R m" "\<And>a. replies R (f a)"
  shows "\<exists>b w2. (case m w of Some (Inr a, w1) \<Rightarrow> f a w1 | _ \<Rightarrow> None) = Some (Inr b, w2) \<and> R w w2"
proof -
  obtain a w1 where a: "m w = Some (Inr a, w1)" "R w w1" using assms(1) unfolding replies_def by metis
  obtain b w2 where b: "f a w1 = Some (Inr b, w2)" "R w1 w2" using assms(2) [of a] unfolding replies_def by metis
  show ?thesis using a(1) b(1) R_trans [OF a(2) b(2)] by simp
qed

lemma replies_chk [api_intros]:
  assumes "replies R m" "\<And>a. replies R (f a)"
  shows "replies R (chk msg m f)"
  unfolding replies_def
proof
  fix w
  obtain a w1 where "m w = Some (Inr a, w1)" using assms(1) unfolding replies_def by metis
  then show "\<exists>b w2. chk msg m f w = Some (Inr b, w2) \<and> R w w2"
    using replies_then [where m = m and f = f and w = w, OF assms] by (simp add: chk_def)
qed

lemma replies_attempt [api_intros]:
  assumes "returns R m" "\<And>r. replies R (f r)"
  shows "replies R (attempt m f)"
  unfolding replies_def
proof
  fix w
  obtain x w1 where a: "m w = Some (x, w1)" "R w w1" using assms(1) unfolding returns_def by metis
  obtain b w2 where b: "f x w1 = Some (Inr b, w2)" "R w1 w2" using assms(2) [of x] unfolding replies_def by metis
  show "\<exists>b w2. attempt m f w = Some (Inr b, w2) \<and> R w w2"
    using a(1) b(1) R_trans [OF a(2) b(2)] by (simp add: attempt_def)
qed

lemma host_related:
  assumes "meets P Q m"
  shows "\<exists>x h. m (ap_host w) = Some (x, h) \<and> Q x \<and> R w (w\<lparr>ap_host := h\<rparr>)"
proof -
  obtain r h where h: "m (ap_host w) = Some (r, h)" using meets_returns [OF assms, of "ap_host w"] by auto
  then obtain xs where xs: "hw_log h = hw_log (ap_host w) @ xs" "\<And>c a. (c, a) \<in> set xs \<Longrightarrow> P c" "Q r"
    using meetsE [OF assms h] by blast
  have "\<forall>(c, a) \<in> set xs. P c" using xs(2) by auto
  then show ?thesis using h xs(3) R_host [OF xs(1)] by simp
qed

lemma returns_host [api_intros]: "does P m \<Longrightarrow> returns R (on_the_host m)"
  unfolding returns_def on_the_host_def
proof
  fix w assume "does P m"
  from host_related [OF this, of w] obtain x h where "m (ap_host w) = Some (x, h)" "R w (w\<lparr>ap_host := h\<rparr>)" by metis
  then show "\<exists>x w'. (case m (ap_host w) of None \<Rightarrow> None | Some (r, h) \<Rightarrow> Some (r, w\<lparr>ap_host := h\<rparr>)) = Some (x, w') \<and> R w w'"
    by simp
qed

lemma replies_host [api_intros]: "meets P (gives (\<lambda>_. True)) m \<Longrightarrow> replies R (on_the_host m)"
  unfolding replies_def on_the_host_def
proof
  fix w assume "meets P (gives (\<lambda>_. True)) m"
  from host_related [OF this, of w] obtain x h where
    x: "m (ap_host w) = Some (x, h)" "gives (\<lambda>_. True) x" "R w (w\<lparr>ap_host := h\<rparr>)" by metis
  then show "\<exists>a w'. (case m (ap_host w) of None \<Rightarrow> None | Some (r, h) \<Rightarrow> Some (r, w\<lparr>ap_host := h\<rparr>)) = Some (Inr a, w') \<and> R w w'"
    by (cases x) simp_all
qed

lemma replies_only [api_intros]: "(rq_Method r = m \<Longrightarrow> replies R k) \<Longrightarrow> replies R (only m r k)"
  by (simp add: only_def replies_ret)

lemma replies_decoded [api_intros]: "(\<And>x. replies R (k x)) \<Longrightarrow> replies R (decoded E d r k)"
  by (simp add: decoded_def replies_ret split: option.split)

lemma replies_if [api_intros]: "(b \<Longrightarrow> replies R m) \<Longrightarrow> (\<not> b \<Longrightarrow> replies R k) \<Longrightarrow> replies R (if b then m else k)"
  by simp

lemma replies_option [api_intros]:
  "(x = None \<Longrightarrow> replies R m) \<Longrightarrow> (\<And>a. replies R (f a)) \<Longrightarrow> replies R (case x of None \<Rightarrow> m | Some a \<Rightarrow> f a)"
  by (cases x) simp_all

lemma replies_sum [api_intros]:
  "(\<And>e. replies R (f e)) \<Longrightarrow> (\<And>a. replies R (g a)) \<Longrightarrow> replies R (case x of Inl e \<Rightarrow> f e | Inr a \<Rightarrow> g a)"
  by (cases x) simp_all

lemma replies_pair [api_intros]: "(\<And>a b. replies R (f a b)) \<Longrightarrow> replies R (case x of (a, b) \<Rightarrow> f a b)"
  by (cases x) simp_all

end

subsection \<open>Requests that only read\<close>

fun reading :: "hcmd \<Rightarrow> bool" where
  "reading (HRun (tool # verb # _) None) \<longleftrightarrow> tool \<in> {''kubectl'', ''helm''} \<and> verb \<in> {''get'', ''list''}"
| "reading (HHttp m _ _ None) \<longleftrightarrow> m = ''GET''"
| "reading _ \<longleftrightarrow> False"

lemma meets_calls: "meets P Q m \<Longrightarrow> (\<And>c. P c \<Longrightarrow> P' c) \<Longrightarrow> meets P' Q m"
  unfolding meets_def by (metis (mono_tags, lifting) case_prodD case_prodI2)

lemma gives_or_else [does_intros]: "does P m \<Longrightarrow> meets P (gives (\<lambda>_. True)) (or_else d m)"
  unfolding or_else_def by (rule meets_attempt) (simp_all add: meets_ret)

lemma gives_chk:
  "meets P (gives (\<lambda>_. True)) m \<Longrightarrow> (\<And>a. meets P (gives (\<lambda>_. True)) (f a)) \<Longrightarrow> meets P (gives (\<lambda>_. True)) (chk msg m f)"
  by (rule meets_chk [where R = "gives (\<lambda>_. True)"]) auto

lemma pods_read: "does reading (GetPodsForApp A n ns)"
proof -
  have "does reading (pods_by A ns sels)" for sels
    by (induction sels) (auto simp: kubectl_get_def Let_def intro!: does_intros)
  then show ?thesis by (simp add: GetPodsForApp_def)
qed

lemma services_read: "does reading (GetServicesForApp A n ns)"
  unfolding GetServicesForApp_def by (intro does_intros) simp_all

lemma credentials_read: "does reading (GetAppCredentials A n t)"
  unfolding GetAppCredentials_def
  by (intro does_attempt does_run) (auto intro!: does_intros simp: Let_def split: sum.split option.split jval.split)

lemma models_read: "does reading (ListInstalledModels A ops)"
  unfolding ListInstalledModels_def models_of_def OllamaInstalledModels_def VLLMInstalledModels_def ListReleases_def downloader_state_def
  by (intro does_intros) (auto intro!: does_intros split: option.split jval.split)

lemma get_json_reads: "meets reading (gives (\<lambda>_. True)) (get_json A url)"
  unfolding get_json_def by (rule meets_attempt [OF does_ask]) (simp_all add: meets_ret)

lemma query_reads: "meets reading (gives (\<lambda>_. True)) (query_metric F A q)"
  unfolding query_metric_def by (intro gives_chk get_json_reads) (simp add: meets_ret)

lemma list_live_reads: "meets reading (gives (\<lambda>_. True)) (list_live A rs)"
  by (induction rs) (auto intro!: gives_chk gives_or_else pods_read meets_ret)

locale reading_contract = api_contract +
  assumes reads: "reading c \<Longrightarrow> P c"
begin

lemma meets_read: "meets reading Q m \<Longrightarrow> meets P Q m"
  by (rule meets_calls [where P = reading]) (simp_all add: reads)

lemma list_apps_replies [api_intros]: "replies R (list_apps E)"
  unfolding list_apps_def by (intro api_intros meets_read [OF list_live_reads])

lemma readers_reply [api_intros]:
  "replies R (handleListApps E r)" "replies R (handleGetApp E r)" "replies R (handleAppCredentials E r)"
  "replies R (handleAppServices E r)" "replies R (handleModelStatus E r)" "replies R (handleServerInit E r)"
  "replies R (handleServerMyApps E r)" "replies R (handleServerUpdateConfig r)" "replies R (handleUpgradeState r)"
  "replies R (handleServerQuery r)" "replies R (handleDevice r)" "replies R (handleMonitorCluster E r)"
  "replies R (handleHealthz r)" "replies R (handleWebSocket E r)"
  unfolding handleListApps_def handleGetApp_def handleAppCredentials_def handleAppServices_def handleModelStatus_def
    handleServerInit_def handleServerMyApps_def handleServerUpdateConfig_def handleUpgradeState_def handleServerQuery_def
    handleDevice_def handleMonitorCluster_def handleHealthz_def handleWebSocket_def Let_def
  by (intro api_intros meets_read [OF gives_or_else [OF pods_read]] meets_read [OF gives_or_else [OF services_read]]
      meets_read [OF credentials_read] meets_read [OF models_read] meets_read [OF get_json_reads] meets_read [OF query_reads])+

text \<open>Whatever the routes do, the multiplexer does: it is enough to look at the handlers that write.\<close>

lemma mux_replies:
  assumes "replies R (handleInstall E r)" "replies R (handleUninstall E r)" "replies R (handleSuspend E r)"
    "replies R (handleResume E r)" "replies R (handleStop E r)" "replies R (handleStart E r)"
    "replies R (handleInternetRequest E r)" "replies R (handlePublicAccessRequest E r)"
    "replies R (handleModelInstall E r)" "replies R (handleModelUninstall E r)"
  shows "replies R (api_mux E p r)"
proof -
  have h: "\<forall>(pat, h) \<in> set (api_routes E) \<union> set (api_subtrees E). replies R (h r)"
    using assms readers_reply by (simp add: api_routes_def api_subtrees_def)
  have f: "replies R (h r)" if "List.find t (api_routes E) = Some (pat, h) \<or> List.find t (api_subtrees E) = Some (pat, h)" for t pat h
  proof -
    have "(pat, h) \<in> set (api_routes E) \<union> set (api_subtrees E)"
      using that by (metis UnCI find_Some_iff nth_mem)
    with h show ?thesis by blast
  qed
  show ?thesis
    unfolding api_mux_def by (auto intro!: replies_ret f split: option.split)
qed

end

subsection \<open>The jobs of models end\<close>

abbreviation ends :: "'a act \<Rightarrow> bool" where
  "ends \<equiv> does (\<lambda>_. True)"

lemma broadcasts_end: "ends (broadcastState A n st)" "ends (broadcastProgress A n st i k d x y)"
  unfolding broadcastState_def broadcastProgress_def by (intro does_intros TrueI)+

lemma ollama_request_ends: "ends (ollama_request A method path b what)"
  unfolding ollama_request_def by (intro does_intros TrueI)

lemma pull_lines_end: "ends (pull_lines A m ls am)"
  by (induction ls arbitrary: am) (auto simp: Let_def intro!: does_intros broadcasts_end split: option.split)

lemma ollama_ends: "ends (OllamaInstall A m)" "ends (OllamaUninstall A m)"
  unfolding OllamaInstall_def OllamaUninstall_def
  by (intro does_intros ollama_request_ends pull_lines_end broadcasts_end)+

lemma does_for_each [does_intros]: "(\<And>x. x \<in> set xs \<Longrightarrow> does P (f x)) \<Longrightarrow> does P (for_each f xs)"
  by (induction xs) (auto simp: for_each_Cons for_each_Nil intro!: does_intros simp del: for_each.simps)

lemma copy_tree_ends: "ends (copy_tree n M src dst)"
proof (induction n arbitrary: src dst)
  case (Suc n)
  then show ?case unfolding copy_tree.simps Let_def by (intro does_intros TrueI)
qed (simp add: does_fail)

lemma find_pod_ends: "ends (find_pod A n r)"
  by (induction n) (auto intro!: does_intros split: option.split)

lemma download_lines_end: "ends (download_lines A name ls am)"
  by (induction ls arbitrary: am) (auto simp: Let_def intro!: does_intros broadcasts_end split: option.split)

lemma monitor_ends: "ends (monitorDownload A m r)"
  unfolding monitorDownload_def by (intro does_intros find_pod_ends download_lines_end TrueI)

lemma endpoint_ends: "ends (addOpenWebUIEndpoint A u)"
  unfolding addOpenWebUIEndpoint_def getOpenWebUIEnv_def setOpenWebUIEnv_def by (intro does_intros TrueI)

lemma memory_ends: "ends (getAvailableMemory A)"
  unfolding getAvailableMemory_def by (intro does_intros TrueI)

lemma inject_ends: "ends (injectValuesYaml A d vals)"
  unfolding injectValuesYaml_def Let_def by (intro does_intros TrueI)

lemma deploy_ends: "ends (deploy_model A m t)"
  unfolding deploy_model_def Let_def copyDir_def
  by (intro does_intros copy_tree_ends inject_ends broadcasts_end monitor_ends endpoint_ends
      meets_calls [OF image_list_installs(1) TrueI] meets_calls [OF image_list_installs(2) TrueI]
      meets_calls [OF image_list_installs(3) TrueI] meets_calls [OF image_list_installs(4) TrueI]
      meets_calls [OF helm_installs(2) TrueI])

lemma vllm_ends: "ends (VLLMInstall A m)"
  unfolding VLLMInstall_def Let_def by (intro does_intros memory_ends broadcasts_end deploy_ends TrueI)

lemma model_job_ends: "ends (model_job A op m ops)"
proof -
  have "ends act" if "backend_install A m = Some act \<or> backend_uninstall A m = Some act" for act
    using that ollama_ends vllm_ends meets_calls [OF vllm_removes TrueI]
    by (auto simp: backend_install_def backend_uninstall_def split: if_splits)
  then show ?thesis
    unfolding model_job_def Let_def
    by (cases op; cases "backend_install A m"; cases "backend_uninstall A m") (auto intro!: does_intros broadcasts_end)
qed

subsection \<open>Requests without POST\<close>

definition unchanged :: "api \<Rightarrow> api \<Rightarrow> bool" where
  "unchanged w w' \<longleftrightarrow> ap_sys w' = ap_sys w \<and> ap_models w' = ap_models w \<and> ap_model_jobs w' = ap_model_jobs w \<and>
     (\<exists>xs. hw_log (ap_host w') = hw_log (ap_host w) @ xs \<and> (\<forall>(c, a) \<in> set xs. reading c))"

interpretation readers: reading_contract unchanged reading
proof
  show "unchanged w w" for w by (simp add: unchanged_def)
  show "unchanged w w''" if u: "unchanged w w'" "unchanged w' w''" for w w' w''
  proof -
    obtain xs ys where "hw_log (ap_host w') = hw_log (ap_host w) @ xs" "\<forall>(c, a) \<in> set xs. reading c"
        "hw_log (ap_host w'') = hw_log (ap_host w') @ ys" "\<forall>(c, a) \<in> set ys. reading c"
      using u unfolding unchanged_def by blast
    then have "hw_log (ap_host w'') = hw_log (ap_host w) @ xs @ ys" "\<forall>(c, a) \<in> set (xs @ ys). reading c" by auto
    then show ?thesis using u unfolding unchanged_def by metis
  qed
qed (auto simp: unchanged_def)

lemma refused_writer:
  assumes "rq_Method r \<noteq> ''POST''" "\<And>s. fst (f s) = s" "\<And>s. fst (snd (f s)) = []"
  shows "replies unchanged (on_service f)"
  using assms readers.R_refl by (simp add: replies_def on_service_def spawn_def)

lemma writers_refuse:
  assumes "rq_Method r \<noteq> ''POST''"
  shows "replies unchanged (handleInternetRequest E r)" "replies unchanged (handlePublicAccessRequest E r)"
proof -
  show "replies unchanged (handlePublicAccessRequest E r)"
    unfolding handlePublicAccessRequest_def using assms by (intro refused_writer) (simp_all add: handlePublicAccess_def)
  have m: "on_service (\<lambda>s. case handleInternet (ae_io E) (ae_err E) r s of (s', resp) \<Rightarrow> (s', [], resp)) =
      ret (writeError 405 ''method not allowed'')"
    using assms by (intro ext) (simp add: on_service_def spawn_def handleInternet_def ret_def)
  have c: "rs_Code (writeError n t) = n" for n t by (simp add: writeError_def)
  show "replies unchanged (handleInternetRequest E r)"
    unfolding handleInternetRequest_def m using readers.R_refl
    by (simp add: replies_def chk_def ret_def c)
qed

text \<open>
  A request that is no POST is answered, whatever its path and body, and changes nothing: no record,
  no job and no operation on a model. On the host it only asks kubectl, helm and the services it reads from.
\<close>
lemma only_posts_change:
  assumes "rq_Method r \<noteq> ''POST''"
  shows "\<exists>resp w' xs. api_mux E p r w = Some (Inr resp, w') \<and> ap_sys w' = ap_sys w \<and> ap_models w' = ap_models w \<and>
     ap_model_jobs w' = ap_model_jobs w \<and> hw_log (ap_host w') = hw_log (ap_host w) @ xs \<and> (\<forall>(c, a) \<in> set xs. reading c)"
proof -
  have o: "replies unchanged (only ''POST'' r k)" for k
    using assms by (intro readers.replies_only) simp
  have "replies unchanged (api_mux E p r)"
    by (intro readers.mux_replies writers_refuse [OF assms])
      (simp_all add: handleInstall_def handleUninstall_def handleSuspend_def handleResume_def handleStop_def handleStart_def
        handleModelInstall_def handleModelUninstall_def model_request_def o)
  then show ?thesis unfolding replies_def unchanged_def by (elim allE [of _ w]) blast
qed

subsection \<open>Every history\<close>

definition good_model_job :: "model_op \<times> ModelSpec \<Rightarrow> bool" where
  "good_model_job j \<longleftrightarrow> ValidateAppName (msName (snd j)) = Inr () \<and> msBackend (snd j) \<in> {''ollama'', ''vllm''}"

definition api_ok :: "service_config \<Rightarrow> api \<Rightarrow> bool" where
  "api_ok cfg w \<longleftrightarrow> app_reach cfg (ap_sys w) \<and> list_all good_model_job (ap_model_jobs w)"

definition keeps_ok :: "service_config \<Rightarrow> api \<Rightarrow> api \<Rightarrow> bool" where
  "keeps_ok cfg w w' \<longleftrightarrow> (api_ok cfg w \<longrightarrow> api_ok cfg w')"

interpretation keeper: reading_contract "keeps_ok cfg" "\<lambda>_. True" for cfg
  by unfold_locales (auto simp: keeps_ok_def api_ok_def)

lemma keeps_service:
  assumes "\<And>S. \<exists>x. spawn S (f (sy_svc S)) = sys_step cfg S x"
  shows "replies (keeps_ok cfg) (on_service f)"
proof -
  have "keeps_ok cfg w (w\<lparr>ap_sys := spawn (ap_sys w) (f (sy_svc (ap_sys w)))\<rparr>)" for w
  proof -
    obtain x where "spawn (ap_sys w) (f (sy_svc (ap_sys w))) = sys_step cfg (ap_sys w) x" using assms by blast
    then show ?thesis by (auto simp: keeps_ok_def api_ok_def intro: app_next)
  qed
  then show ?thesis by (simp add: replies_def on_service_def Let_def)
qed

lemma requests_are_steps:
  "\<exists>x. spawn S (Install cfg io req (sy_svc S)) = sys_step cfg S x"
  "\<exists>x. spawn S (Uninstall cfg io ureq (sy_svc S)) = sys_step cfg S x"
  "\<exists>x. spawn S (Suspend cfg io name (sy_svc S)) = sys_step cfg S x"
  "\<exists>x. spawn S (Resume io name (sy_svc S)) = sys_step cfg S x"
  "\<exists>x. spawn S (case handleInternet io err r (sy_svc S) of (s', resp) \<Rightarrow> (s', [], resp)) = sys_step cfg S x"
  "\<exists>x. spawn S (case handlePublicAccess cfg io err r (sy_svc S) of (s', resp) \<Rightarrow> (s', [], resp)) = sys_step cfg S x"
proof -
  show "\<exists>x. spawn S (Install cfg io req (sy_svc S)) = sys_step cfg S x" by (rule exI [of _ "RequestInstall io req"]) simp
  show "\<exists>x. spawn S (Uninstall cfg io ureq (sy_svc S)) = sys_step cfg S x" by (rule exI [of _ "RequestUninstall io ureq"]) simp
  show "\<exists>x. spawn S (Suspend cfg io name (sy_svc S)) = sys_step cfg S x" by (rule exI [of _ "RequestSuspend io name"]) simp
  show "\<exists>x. spawn S (Resume io name (sy_svc S)) = sys_step cfg S x" by (rule exI [of _ "RequestResume io name"]) simp
  show "\<exists>x. spawn S (case handleInternet io err r (sy_svc S) of (s', resp) \<Rightarrow> (s', [], resp)) = sys_step cfg S x"
    by (rule exI [of _ "RequestInternet io err r"]) (simp add: spawn_def split_def)
  show "\<exists>x. spawn S (case handlePublicAccess cfg io err r (sy_svc S) of (s', resp) \<Rightarrow> (s', [], resp)) = sys_step cfg S x"
    by (rule exI [of _ "RequestPublicAccess io err r"]) (simp add: spawn_def split_def)
qed

lemma start_op_good:
  "meets (\<lambda>_. True) (\<lambda>res. \<forall>ops'. res = Inr ops' \<longrightarrow> ValidateAppName (msName m) = Inr () \<and> backend \<noteq> None)
     (start_op A m st u backend ops)"
  unfolding start_op_def
  by (auto intro!: meets_chk [OF broadcasts_end(1)] meets_fail meets_ret split: sum.split option.split)

lemma backends_known: "backend_install A m \<noteq> None \<or> backend_uninstall A m \<noteq> None \<Longrightarrow> msBackend m \<in> {''ollama'', ''vllm''}"
  by (auto simp: backend_install_def backend_uninstall_def split: if_splits)

lemma start_model_keeps:
  assumes "\<And>ops. meets (\<lambda>_. True) (\<lambda>res. \<forall>ops'. res = Inr ops' \<longrightarrow> good_model_job (op, m)) (f ops)"
  shows "returns (keeps_ok cfg) (start_model op m f)"
proof -
  have "\<exists>x w'. start_model op m f w = Some (x, w') \<and> keeps_ok cfg w w'" for w
  proof -
    obtain x h where x: "f (ap_models w) (ap_host w) = Some (x, h)" "\<forall>ops'. x = Inr ops' \<longrightarrow> good_model_job (op, m)"
      using keeper.host_related [where w = w and cfg = cfg, OF assms [of "ap_models w"]] by blast
    then show ?thesis
      by (cases x) (auto simp: start_model_def on_the_host_def chk_def keeps_ok_def api_ok_def)
  qed
  then show ?thesis by (simp add: returns_def)
qed

lemma model_requests_keep:
  "replies (keeps_ok cfg) (handleModelInstall E r)" "replies (keeps_ok cfg) (handleModelUninstall E r)"
proof -
  have i: "meets (\<lambda>_. True) (\<lambda>res. \<forall>ops'. res = Inr ops' \<longrightarrow> good_model_job (ModelInstall, m)) (InstallModel A m ops)" for A m ops
    unfolding InstallModel_def by (rule meets_weaken [OF start_op_good]) (use backends_known in \<open>auto simp: good_model_job_def\<close>)
  have u: "meets (\<lambda>_. True) (\<lambda>res. \<forall>ops'. res = Inr ops' \<longrightarrow> good_model_job (ModelUninstall, m)) (UninstallModel A m ops)" for A m ops
    unfolding UninstallModel_def by (rule meets_weaken [OF start_op_good]) (use backends_known in \<open>auto simp: good_model_job_def\<close>)
  show "replies (keeps_ok cfg) (handleModelInstall E r)" "replies (keeps_ok cfg) (handleModelUninstall E r)"
    unfolding handleModelInstall_def handleModelUninstall_def model_request_def Let_def
    by (intro api_intros start_model_keeps i u)+
qed

lemma internet_keeps: "replies (keeps_ok cfg) (handleInternetRequest E r)"
proof -
  have b: "ends ((if b then BlockAppInternet else UnblockAppInternet) A ns rel)" for b A ns rel
    by (auto simp: BlockAppInternet_def UnblockAppInternet_def EnsureIptablesChain_def hostIptables_def getPodIPs_def
        intro!: does_intros does_run_all)
  show ?thesis
    unfolding handleInternetRequest_def
    by (intro keeper.replies_chk keeper.replies_if keeper.replies_option keeper.replies_pair keeper.replies_attempt keeper.replies_ret
        keeper.replies_service keeper.returns_host b keeps_service requests_are_steps)
qed

lemma requests_keep:
  assumes "ae_cfg E = cfg"
  shows "replies (keeps_ok cfg) (api_mux E p r)"
proof -
  have s: "replies (keeps_ok cfg) (on_service (Install cfg io req))" "replies (keeps_ok cfg) (on_service (Uninstall cfg io ureq))"
      "replies (keeps_ok cfg) (on_service (Suspend cfg io name))" "replies (keeps_ok cfg) (on_service (Resume io name))"
      for io req ureq name
    by (intro keeps_service requests_are_steps)+
  show ?thesis
    by (rule keeper.mux_replies)
      (unfold handleInstall_def handleUninstall_def handleSuspend_def handleResume_def handleStop_def handleStart_def
        handlePublicAccessRequest_def assms,
       (intro keeper.replies_only keeper.replies_decoded keeper.replies_chk keeper.replies_ret s internet_keeps model_requests_keep
        keeps_service requests_are_steps)+)
qed

lemma api_next_keeps: "\<exists>w'. api_next cfg A x w = Some w' \<and> keeps_ok cfg w w'"
proof (cases x)
  case (Request E p r)
  have "replies (keeps_ok cfg) (api_mux (E\<lparr>ae_cfg := cfg, ae_host := A\<rparr>) p r)" by (rule requests_keep) simp
  then obtain a w' where "api_mux (E\<lparr>ae_cfg := cfg, ae_host := A\<rparr>) p r w = Some (Inr a, w')" "keeps_ok cfg w w'"
    unfolding replies_def by metis
  then show ?thesis by (simp add: Request)
next
  case (Background y)
  then show ?thesis by (auto simp: keeps_ok_def api_ok_def intro: app_next)
next
  case (ModelJob i)
  show ?thesis
  proof (cases "i < length (ap_model_jobs w)")
    case True
    obtain op m where j: "ap_model_jobs w ! i = (op, m)" by fastforce
    obtain res h where "model_job A op m (ap_models w) (ap_host w) = Some (res, h)"
      using meets_returns [OF model_job_ends, of A op m "ap_models w" "ap_host w"] by auto
    with True j show ?thesis
      by (auto simp: ModelJob keeps_ok_def api_ok_def list_all_iff dest: in_set_takeD in_set_dropD)
  qed (simp add: ModelJob keeps_ok_def)
qed


subsection \<open>Instances, and what the handlers do otherwise\<close>

definition demo_api_env :: api_env where
  "demo_api_env = \<lparr>ae_cfg = sample_service, ae_host = demo_host chart_answer, ae_io = sample_io, ae_err = ''EOF'', ae_save_err = [],
     ae_time = \<lambda>_. [], ae_float = \<lparr>fl_parse = \<lambda>_. 0, fl_sub = (-), fl_div = \<lambda>a b. a, fl_mul = (*), fl_positive = \<lambda>a. 0 < a,
     fl_json = \<lambda>_. None\<rparr>, ae_verify = \<lambda>_ _. None, ae_upgrade = \<lambda>_. None\<rparr>"

definition empty_service :: svc where
  "empty_service = \<lparr>sv_store = \<lparr>heap = [], s_apps = [], disk = None\<rparr>, sv_pub = NewPublicDomainSync None, sv_log = [], sv_removed = []\<rparr>"

definition demo_api :: api where
  "demo_api = \<lparr>ap_sys = \<lparr>sy_svc = empty_service, sy_jobs = []\<rparr>, ap_models = [], ap_model_jobs = [], ap_host = demo_world\<rparr>"

definition api_request :: "string \<Rightarrow> string \<Rightarrow> (string \<times> jval) list \<Rightarrow> http_request" where
  "api_request m p ms = \<lparr>rq_Method = m, rq_Path = p, rq_Query = [], rq_Host = [], rq_RemoteAddr = [], rq_Header = [],
     rq_Cookies = [], rq_Body = Some (JObj ms)\<rparr>"

lemma demo_reach: "app_reach sample_service (ap_sys demo_api)"
proof -
  have "NewAppStore FileMissing = Some (Inr \<lparr>heap = [], s_apps = [], disk = None\<rparr>)" by (simp add: NewAppStore_def Let_def)
  from app_start [OF this] show ?thesis by (simp add: demo_api_def empty_service_def)
qed

lemma only_posts_change_witness:
  "\<exists>resp w'. api_mux demo_api_env ''/app-service/v1/uninstall''
     (api_request ''DELETE'' ''/app-service/v1/uninstall'' [(''name'', JStr ''gitea'')]) demo_api = Some (Inr resp, w') \<and>
     ap_sys w' = ap_sys demo_api"
  using only_posts_change [of "api_request ''DELETE'' ''/app-service/v1/uninstall'' [(''name'', JStr ''gitea'')]" demo_api_env
      "''/app-service/v1/uninstall''" demo_api]
  by (auto simp: api_request_def)


text \<open>Whether the record could be saved and whether a rule was set is not in the answer.\<close>

lemma internet_answer_ignores_outcome:
  "snd (handleInternet (io\<lparr>io_put := False\<rparr>) err r s) = snd (handleInternet io err r s)"
  by (auto simp: handleInternet_def Let_def split: option.split)

lemma internet_request_answer:
  assumes "handleInternetRequest E r w = Some (res, w')"
  shows "res = Inr (snd (handleInternet (ae_io E) (ae_err E) r (sy_svc (ap_sys w))))"
  using assms
  by (auto simp: handleInternetRequest_def chk_def attempt_def on_service_def the_service_def on_the_host_def ret_def Let_def
      split: prod.splits if_splits option.splits)

text \<open>The name in the path of a request to uninstall is not read.\<close>

lemma uninstall_ignores_path:
  "api_mux E ''/server/uninstall/gitea'' r = handleUninstall E r"
proof -
  have c: "cleanPath ''/server/uninstall/gitea'' = ''/server/uninstall/gitea''" by code_simp
  have x: "list_all (\<lambda>pat. \<not> route_exact pat ''/server/uninstall/gitea'') (map fst (api_routes E))"
    unfolding api_routes_def list.map fst_conv by code_simp
  have n: "List.find (\<lambda>(pat, _). route_exact pat ''/server/uninstall/gitea'') (api_routes E) = None"
    using x by (auto simp: find_None_iff list_all_iff)
  have t: "\<not> route_subtree ''/app-service/v1/app/'' ''/server/uninstall/gitea''"
      "\<not> route_subtree ''/app-service/v1/app-credentials/'' ''/server/uninstall/gitea''"
      "\<not> route_subtree ''/app-service/v1/app-services/'' ''/server/uninstall/gitea''"
      "route_subtree ''/server/uninstall/'' ''/server/uninstall/gitea''" by code_simp+
  show ?thesis by (rule ext) (simp add: api_mux_def c n api_subtrees_def t)
qed

text \<open>A name that starts with a dash is an option of helm.\<close>

lemma credentials_name_is_argument:
  assumes "GetAppCredentials A n t h = Some (res, h')"
  shows "\<exists>a. hw_log h' = hw_log h @ [(HRun [''helm'', ''get'', ''values'', n, ''-n'', ah_namespace A, ''-a'', ''-o'', ''json''] None, a)]"
  using assms
  by (auto simp: GetAppCredentials_def attempt_def run_def call_def chk_def ask_def ret_def fail_def Let_def
      split: hans.splits option.splits jval.splits if_splits sum.splits)

text \<open>A metric that is no number leaves the answer empty, with status 200.\<close>

lemma no_number_no_body: "fl_json F c = None \<Longrightarrow> load_json F c n u = None"
  by (simp add: load_json_def)

text \<open>Whatever the wizard's state is, the desktop is told that it is completed.\<close>

lemma wizard_always_completed:
  assumes "handleServerInit E r w = Some (Inr resp, w')"
  shows "Option.bind (member ''terminus'' (rs_Body resp)) (member ''wizardStatus'') = Some (JStr ''completed'')"
proof -
  obtain c m t where b: "rs_Body resp = JObj [(''config'', c), (''myApps'', m), (''terminus'', JObj (t @ [(''wizardStatus'', JStr ''completed'')]))]"
    using assms
    by (fastforce simp: handleServerInit_def chk_def ret_def Let_def split: option.splits sum.splits)
  have "EqualFold ''config'' ''terminus'' = False" "EqualFold ''myApps'' ''terminus'' = False" "EqualFold ''terminus'' ''terminus'' = True"
    "EqualFold ''wizardStatus'' ''wizardStatus'' = True" by code_simp+
  moreover have "(case xs @ [x] of [] \<Rightarrow> JNull | a # l \<Rightarrow> snd (last (a # l))) = snd x" for xs and x :: "string \<times> jval"
    by (cases xs) simp_all
  ultimately show ?thesis unfolding b by (simp add: member_def)
qed

end
