(* ===== verification/Tapr.thy ===== *)
theory Tapr
  imports Host_Ops Go_Net Go_Codec Pkg_Config
begin

text \<open>
  \<^verbatim>\<open>internal/tapr\<close>, \<^verbatim>\<open>cmd/tapr\<close> and \<^verbatim>\<open>pkg/secrets\<close>: the gateway to the secrets in Infisical, the seeding of
  its database, the encryption of the keys, and the client that every service runs when it starts. Infisical
  and its database are asked like the host: a row that is found is \<^term>\<open>HNames\<close> of its column, none is an
  error. The white space of a statement is one blank.
\<close>

subsection \<open>Encryption\<close>

text \<open>AES in Galois/Counter mode on key, nonce and text, and the box of NaCl on text, nonce, public and secret key.\<close>

record ciphers =
  ci_seal :: "string \<Rightarrow> string \<Rightarrow> string \<Rightarrow> string"
  ci_open :: "string \<Rightarrow> string \<Rightarrow> string \<Rightarrow> string option"
  ci_box_seal :: "string \<Rightarrow> string \<Rightarrow> string \<Rightarrow> string \<Rightarrow> string"
  ci_box_open :: "string \<Rightarrow> string \<Rightarrow> string \<Rightarrow> string \<Rightarrow> string option"
  ci_pair :: "string \<Rightarrow> string \<Rightarrow> bool"

definition blockSizeBytes :: nat where
  "blockSizeBytes = 16"

definition aes_key :: "string \<Rightarrow> bool" where
  "aes_key k \<longleftrightarrow> length k \<in> {16, 24, 32}"

definition PadPasswordTo32 :: "string \<Rightarrow> string" where
  "PadPasswordTo32 password =
     (if length password \<ge> 32 then take 32 password else replicate (32 - length password) CHR ''0'' @ password)"

text \<open>Ciphertext, IV and tag, with the nonce that was drawn; \<^term>\<open>None\<close>: the key has another size.\<close>

definition gcm_encrypt :: "ciphers \<Rightarrow> string \<Rightarrow> string \<Rightarrow> string \<Rightarrow> (string \<times> string \<times> string) option" where
  "gcm_encrypt C nonce text secret =
     (if \<not> aes_key secret then None
      else let sealed = ci_seal C secret nonce text in
        Some (StdEncode (take (length text) sealed), StdEncode nonce, StdEncode (drop (length text) sealed)))"

definition Encrypt :: "machine \<Rightarrow> ciphers \<Rightarrow> string \<Rightarrow> string \<Rightarrow> (string \<times> string \<times> string) act" where
  "Encrypt M C text secret =
     chk [] (call M (HRandom blockSizeBytes)) (\<lambda>nonce.
     case gcm_encrypt C nonce text secret of
       None \<Rightarrow> fail (''crypto/aes: invalid key size '' @ nat_str (length secret))
     | Some r \<Rightarrow> ret r)"

text \<open>The outer \<^term>\<open>None\<close> is a panic: the mode was made for nonces of 16 bytes.\<close>

definition Decrypt :: "ciphers \<Rightarrow> string \<Rightarrow> string \<Rightarrow> string \<Rightarrow> string \<Rightarrow> (unit + string) option" where
  "Decrypt C ciphertext iv tag secret = (case StdDecode iv of
       None \<Rightarrow> Some (Inl ())
     | Some nonce \<Rightarrow>
         if \<not> aes_key secret then Some (Inl ())
         else (case StdDecode ciphertext of
             None \<Rightarrow> Some (Inl ())
           | Some c \<Rightarrow> (case StdDecode tag of
               None \<Rightarrow> Some (Inl ())
             | Some t \<Rightarrow>
                 if length nonce \<noteq> blockSizeBytes then None
                 else Some (case ci_open C secret nonce (c @ t) of None \<Rightarrow> Inl () | Some p \<Rightarrow> Inr p))))"

definition naclNonceSize :: nat where
  "naclNonceSize = 24"

text \<open>\<^verbatim>\<open>copy\<close> into an array: cut off, or filled with zeros.\<close>

definition into_array :: "nat \<Rightarrow> string \<Rightarrow> string" where
  "into_array n s = take n (s @ replicate n (CHR 0x00))"

definition base64Decode32 :: "string \<Rightarrow> string option" where
  "base64Decode32 s = map_option (into_array 32) (StdDecode s)"

definition box_encrypt :: "ciphers \<Rightarrow> string \<Rightarrow> string \<Rightarrow> string \<Rightarrow> string \<Rightarrow> (string \<times> string) option" where
  "box_encrypt C nonce text publicKey privateKey = do {
     pk \<leftarrow> base64Decode32 publicKey; sk \<leftarrow> base64Decode32 privateKey;
     Some (StdEncode (ci_box_seal C text nonce pk sk), StdEncode nonce) }"

definition EncryptAsymmetric :: "machine \<Rightarrow> ciphers \<Rightarrow> string \<Rightarrow> string \<Rightarrow> string \<Rightarrow> (string \<times> string) act" where
  "EncryptAsymmetric M C text publicKey privateKey =
     chk [] (call M (HRandom naclNonceSize)) (\<lambda>nonce.
     case box_encrypt C nonce text publicKey privateKey of
       None \<Rightarrow> fail ''illegal base64 data'' | Some r \<Rightarrow> ret r)"

definition DecryptAsymmetric :: "ciphers \<Rightarrow> string \<Rightarrow> string \<Rightarrow> string \<Rightarrow> string \<Rightarrow> string option" where
  "DecryptAsymmetric C ciphertext nonce publicKey privateKey = do {
     c \<leftarrow> StdDecode ciphertext; n \<leftarrow> StdDecode nonce;
     pk \<leftarrow> base64Decode32 publicKey; sk \<leftarrow> base64Decode32 privateKey;
     ci_box_open C c (into_array naclNonceSize n) pk sk }"

subsection \<open>The server\<close>

record tapr =
  tp_infisicalURL :: string
  tp_jwtSecret :: string
  tp_userID :: string
  tp_orgID :: string
  tp_sessionID :: string
  tp_publicKey :: string
  tp_privateKey :: string
  tp_password :: string
  tp_pgDSN :: string
  tp_authToken :: string

text \<open>
  \<open>te_sign\<close>: the JWT library's signature with HMAC-SHA256 of claims with a secret; \<open>te_url\<close>: the texts
  that \<^verbatim>\<open>http.NewRequest\<close> takes as a URL; \<open>te_order\<close>: the order in which a map is read; \<open>te_json\<close>,
  \<open>te_json_text\<close>: the codec.
\<close>

record tapr_env =
  te_machine :: machine
  te_ciphers :: ciphers
  te_sign :: "(string \<times> jval) list \<Rightarrow> string \<Rightarrow> string + string"
  te_url :: "string \<Rightarrow> bool"
  te_order :: "(string \<times> string) list \<Rightarrow> (string \<times> string) list"
  te_json :: "string \<Rightarrow> jval option"
  te_json_text :: "jval \<Rightarrow> string"

definition envOr :: "string \<Rightarrow> string \<Rightarrow> string act" where
  "envOr key fallback = chk [] (env key) (\<lambda>v. ret (if v \<noteq> [] then v else fallback))"

text \<open>A secret that is too short ends the process.\<close>

definition NewServer :: "tapr act" where
  "NewServer =
     chk [] (env ''JWT_AUTH_SECRET'') (\<lambda>jwtSecret.
     if length jwtSecret < 32 then
       fail (''FATAL: JWT_AUTH_SECRET is too short ('' @ nat_str (length jwtSecret) @ '' chars). Set a secret of at least 32 characters.'')
     else
       chk [] (env ''TAPR_AUTH_TOKEN'') (\<lambda>authToken.
       chk [] (envOr ''INFISICAL_URL'' ''http://localhost:4000'') (\<lambda>url.
       chk [] (env ''TAPR_USER_ID'') (\<lambda>u. chk [] (env ''TAPR_ORG_ID'') (\<lambda>g.
       chk [] (env ''TAPR_PUBLIC_KEY'') (\<lambda>pk. chk [] (env ''TAPR_PRIVATE_KEY'') (\<lambda>sk.
       chk [] (env ''TAPR_PASSWORD'') (\<lambda>pw. chk [] (env ''PG_DSN'') (\<lambda>dsn.
       ret \<lparr>tp_infisicalURL = url, tp_jwtSecret = jwtSecret, tp_userID = u, tp_orgID = g, tp_sessionID = [],
            tp_publicKey = pk, tp_privateKey = sk, tp_password = pw, tp_pgDSN = dsn, tp_authToken = authToken\<rparr>)))))))))"

definition unix_now :: "machine \<Rightarrow> int act" where
  "unix_now M = chk [] (measure_of M ''Unix'') (\<lambda>ns. ret (int (num ns 0)))"

definition issueToken :: "tapr_env \<Rightarrow> tapr \<Rightarrow> string act" where
  "issueToken E S =
     (if tp_jwtSecret S = [] then fail ''JWT_AUTH_SECRET not set''
      else
        chk [] (unix_now (te_machine E)) (\<lambda>iat.
        chk [] (unix_now (te_machine E)) (\<lambda>t.
        case te_sign E [(''userId'', JStr (tp_userID S)), (''authTokenType'', JStr ''accessToken''),
               (''tokenVersionId'', JStr (tp_sessionID S)), (''accessVersion'', JInt 1), (''organizationId'', JStr (tp_orgID S)),
               (''authMethod'', JStr ''email''), (''iat'', JInt iat), (''exp'', JInt (t + 24 * 3600))] (tp_jwtSecret S) of
          Inl e \<Rightarrow> fail e | Inr token \<Rightarrow> ret token)))"

subsection \<open>Requests to Infisical\<close>

text \<open>
  The status and the body of an answer. \<open>making\<close>, \<open>doing\<close>: what is put before the error of a request that
  cannot be made or that fails.
\<close>

definition bearer_header :: "string \<Rightarrow> (string \<times> string) list" where
  "bearer_header token = [(''Authorization'', ''Bearer '' @ token)]"

definition json_header :: "(string \<times> string) list" where
  "json_header = [(''Content-Type'', ''application/json'')]"

definition sent :: "tapr_env \<Rightarrow> hcmd \<Rightarrow> (nat \<times> string) act" where
  "sent E c = chk [] (ask (te_machine E) c) (\<lambda>a. case a of
      HErr _ e \<Rightarrow> fail e | HStatus n body \<Rightarrow> ret (n, body) | _ \<Rightarrow> ret (200, text_of a))"

definition infisical :: "tapr_env \<Rightarrow> string \<Rightarrow> string \<Rightarrow> string \<Rightarrow> string \<Rightarrow> (string \<times> string) list \<Rightarrow> string option \<Rightarrow> (nat \<times> string) act" where
  "infisical E making doing m url hs body =
     (if \<not> te_url E url then fail (making @ ''invalid URL'') else chk doing (sent E (HHttp m url hs body)) ret)"

text \<open>
  An answer is decoded as far as it goes: a member of another type keeps its zero value, and the error
  is only logged.
\<close>

definition loose_str :: "string \<Rightarrow> jval \<Rightarrow> string" where
  "loose_str k j = (case j of
       JObj ms \<Rightarrow> foldl (\<lambda>v (k', x). if EqualFold k' k then (case x of JStr s \<Rightarrow> s | _ \<Rightarrow> v) else v) [] ms
     | _ \<Rightarrow> [])"

definition loose_list :: "string \<Rightarrow> jval \<Rightarrow> jval list" where
  "loose_list k j = (case j of
       JObj ms \<Rightarrow> foldl (\<lambda>v (k', x). if EqualFold k' k then (case x of JArr xs \<Rightarrow> xs | JNull \<Rightarrow> [] | _ \<Rightarrow> v) else v) [] ms
     | _ \<Rightarrow> [])"

definition loose_obj :: "string \<Rightarrow> jval \<Rightarrow> jval" where
  "loose_obj k j = (case j of
       JObj ms \<Rightarrow> JObj (foldl (\<lambda>v (k', x). if EqualFold k' k then (case x of JObj xs \<Rightarrow> v @ xs | _ \<Rightarrow> v) else v) [] ms)
     | _ \<Rightarrow> JObj [])"

definition decoded_body :: "tapr_env \<Rightarrow> string \<Rightarrow> jval" where
  "decoded_body E body = (case te_json E body of None \<Rightarrow> JNull | Some j \<Rightarrow> j)"

definition project_name :: string where
  "project_name = ''packalares-system''"

fun workspace_id :: "jval list \<Rightarrow> string option" where
  "workspace_id [] = None"
| "workspace_id (w # ws) = (if loose_str ''name'' w = project_name then Some (loose_str ''id'' w) else workspace_id ws)"

definition getDefaultWorkspace :: "tapr_env \<Rightarrow> tapr \<Rightarrow> string \<Rightarrow> string act" where
  "getDefaultWorkspace E S token =
     chk [] (infisical E ''create workspace request: '' [] ''GET'' (tp_infisicalURL S @ ''/api/v1/workspace'') (bearer_header token) None) (\<lambda>(n, body).
     if n \<noteq> 200 then fail (''list workspaces: '' @ nat_str n @ '': '' @ take 1024 body)
     else (case workspace_id (loose_list ''workspaces'' (decoded_body E body)) of
         Some i \<Rightarrow> ret i
       | None \<Rightarrow> fail (''workspace '' @ squote @ project_name @ squote @ '' not found'')))"

definition getOrCreateDefaultWorkspace :: "tapr_env \<Rightarrow> tapr \<Rightarrow> string \<Rightarrow> string act" where
  "getOrCreateDefaultWorkspace E S token =
     attempt (getDefaultWorkspace E S token) (\<lambda>r. case r of
        Inr i \<Rightarrow> ret i
      | Inl _ \<Rightarrow>
          chk [] (infisical E ''create workspace request: '' ''create workspace: '' ''POST'' (tp_infisicalURL S @ ''/api/v2/workspace'')
             (bearer_header token @ json_header) (Some (te_json_text E (JObj [(''projectName'', JStr project_name)])))) (\<lambda>(n, body).
          if n \<noteq> 200 then fail (''create workspace: '' @ nat_str n @ '': '' @ take 1024 body)
          else ret (loose_str ''id'' (loose_obj ''project'' (decoded_body E body)))))"

definition secrets_of :: "jval \<Rightarrow> (string \<times> string) list" where
  "secrets_of j = foldl (\<lambda>m x. AList.update (loose_str ''secretKey'' x) (loose_str ''secretValue'' x) m) [] (loose_list ''secrets'' j)"

definition fetchAllSecrets :: "tapr_env \<Rightarrow> tapr \<Rightarrow> (string \<times> string) list act" where
  "fetchAllSecrets E S =
     chk [] (issueToken E S) (\<lambda>token.
     chk [] (getDefaultWorkspace E S token) (\<lambda>ws.
     chk [] (infisical E ''create secrets request: '' ''fetch secrets: '' ''GET''
        (tp_infisicalURL S @ ''/api/v3/secrets/raw?workspaceId='' @ ws @ ''&environment=prod&secretPath=/'') (bearer_header token) None) (\<lambda>(n, body).
     if n \<noteq> 200 then fail (''fetch secrets: '' @ nat_str n @ '': '' @ take 1024 body)
     else ret (secrets_of (decoded_body E body)))))"

definition secret_body :: "string \<Rightarrow> string \<Rightarrow> (string \<times> jval) list" where
  "secret_body ws value = [(''environment'', JStr ''prod''), (''secretPath'', JStr ''/''), (''secretValue'', JStr value)]"

text \<open>One secret: a name that makes no URL is skipped; the status of the PATCH is not read.\<close>

definition store_one :: "tapr_env \<Rightarrow> tapr \<Rightarrow> string \<Rightarrow> string \<Rightarrow> string \<times> string \<Rightarrow> unit act" where
  "store_one E S token ws kv = (case kv of (name, value) \<Rightarrow>
     (let url = tp_infisicalURL S @ ''/api/v3/secrets/raw/'' @ name; hs = bearer_header token @ json_header in
      if \<not> te_url E url then ret ()
      else
        chk (''store secret '' @ name @ '': '')
          (sent E (HHttp ''POST'' url hs (Some (te_json_text E (JObj (secret_body ws value @ [(''type'', JStr ''shared''), (''workspaceId'', JStr ws)])))))) (\<lambda>(n, _).
        if n \<ge> 400 then
          chk (''update secret '' @ name @ '': '')
            (sent E (HHttp ''PATCH'' url hs (Some (te_json_text E (JObj (secret_body ws value @ [(''workspaceId'', JStr ws)])))))) (\<lambda>_. ret ())
        else ret ())))"

definition storeSecrets :: "tapr_env \<Rightarrow> tapr \<Rightarrow> (string \<times> string) list \<Rightarrow> unit act" where
  "storeSecrets E S secrets =
     chk [] (issueToken E S) (\<lambda>token.
     chk [] (getOrCreateDefaultWorkspace E S token) (\<lambda>ws.
     for_each (store_one E S token ws) (te_order E secrets)))"

subsection \<open>Handlers\<close>

type_synonym tapr_handler = "http_request \<Rightarrow> http_response act"

definition requireAuth :: "tapr \<Rightarrow> tapr_handler \<Rightarrow> tapr_handler" where
  "requireAuth S h r =
     (if tp_authToken S = [] then h r
      else
        let auth = header_get r ''Authorization'' in
        if auth = [] \<or> auth \<noteq> ''Bearer '' @ tp_authToken S then ret (http_error ''unauthorized'' 401) else h r)"

definition secrets_json :: "(string \<times> string) list \<Rightarrow> jval" where
  "secrets_json m = JObj (map (\<lambda>(k, v). (k, JStr v)) (sort_key fst m))"

definition handleSecrets :: "tapr_env \<Rightarrow> tapr \<Rightarrow> tapr_handler" where
  "handleSecrets E S r =
     (if rq_Method r \<noteq> ''GET'' then ret (http_error ''method not allowed'' 405)
      else attempt (fetchAllSecrets E S) (\<lambda>res. ret (case res of
         Inl _ \<Rightarrow> http_error ''internal error'' 500
       | Inr secrets \<Rightarrow> reply 200 (secrets_json secrets))))"

definition handleGetSecret :: "tapr_env \<Rightarrow> tapr \<Rightarrow> tapr_handler" where
  "handleGetSecret E S r =
     (let key = TrimPrefix (rq_Path r) ''/secrets/'' in
      if key = [] then ret (http_error ''missing key'' 400)
      else attempt (fetchAllSecrets E S) (\<lambda>res. ret (case res of
         Inl _ \<Rightarrow> http_error ''internal error'' 500
       | Inr secrets \<Rightarrow> (case map_of secrets key of
           None \<Rightarrow> http_error ''not found'' 404
         | Some v \<Rightarrow> reply 200 (JObj [(''key'', JStr key), (''value'', JStr v)])))))"

definition decode_secrets :: "jval option \<Rightarrow> (string \<times> string) list option" where
  "decode_secrets b = do { ms \<leftarrow> members_of b; l \<leftarrow> text_members ms; Some (foldl (\<lambda>m (k, v). AList.update k v m) [] l) }"

definition handleStoreSecrets :: "tapr_env \<Rightarrow> tapr \<Rightarrow> tapr_handler" where
  "handleStoreSecrets E S r = (case decode_secrets (rq_Body r) of
       None \<Rightarrow> ret (http_error ''bad request'' 400)
     | Some secrets \<Rightarrow> attempt (storeSecrets E S secrets) (\<lambda>res. ret (case res of
         Inl _ \<Rightarrow> http_error ''internal error'' 500
       | Inr _ \<Rightarrow> reply 200 (JObj [(''status'', JStr ''ok'')]))))"

text \<open>The pattern with the method is the more specific one.\<close>

definition tapr_mux :: "tapr_env \<Rightarrow> tapr \<Rightarrow> string \<Rightarrow> tapr_handler" where
  "tapr_mux E S p r =
     (if cleanPath p \<noteq> p then ret (reply_status 301)
      else if route_exact ''/healthz'' p then ret ((reply_status 200)\<lparr>rs_Body := JStr ''ok''\<rparr>)
      else if route_exact ''/secrets'' p then
        requireAuth S (if rq_Method r = ''POST'' then handleStoreSecrets E S else handleSecrets E S) r
      else if route_subtree ''/secrets/'' p then requireAuth S (handleGetSecret E S) r
      else ret (http_error ''404 page not found'' 404))"

subsection \<open>Seeding the database\<close>

record SeedConfig =
  sd_PGDSN :: string
  sd_Email :: string
  sd_Username :: string
  sd_Password :: string
  sd_OrgName :: string
  sd_ProjectName :: string

record SeedResult =
  se_UserID :: string
  se_OrgID :: string
  se_SessionID :: string
  se_PublicKey :: string
  se_PrivateKey :: string

text \<open>The first row, when the query returns one; any error counts as none.\<close>

definition query_row :: "machine \<Rightarrow> string \<Rightarrow> string list \<Rightarrow> string option act" where
  "query_row M q args = attempt (ask M (HSql q args)) (\<lambda>r. ret (case r of Inr (HNames (x # _)) \<Rightarrow> Some x | _ \<Rightarrow> None))"

definition exec_sql :: "machine \<Rightarrow> string \<Rightarrow> string list \<Rightarrow> unit act" where
  "exec_sql M q args = chk [] (call M (HSql q args)) (\<lambda>_. ret ())"

text \<open>A UUID, and the time as the database takes it, are answers of the machine.\<close>

definition new_uuid :: "machine \<Rightarrow> string act" where
  "new_uuid M = chk [] (ask M (HMeasure ''uuid.New'')) (\<lambda>a. ret (text_of a))"

definition randomBytes :: "machine \<Rightarrow> nat \<Rightarrow> string act" where
  "randomBytes M n = or_else (replicate n (CHR 0x00)) (call M (HRandom n))"

definition slug_char :: "char \<Rightarrow> string" where
  "slug_char c =
     (if in_range CHR ''a'' CHR ''z'' c \<or> is_digit c \<or> c = CHR ''-'' then [c]
      else if in_range CHR ''A'' CHR ''Z'' c then [char_of (of_char c + 32 :: nat)]
      else if c = CHR '' '' then ''-'' else [])"

definition slugify :: "string \<Rightarrow> string" where
  "slugify s = concat (map slug_char s)"

definition select_org :: string where
  "select_org = ''SELECT id FROM organizations LIMIT 1''"

definition insert_org :: string where
  "insert_org = ''INSERT INTO organizations (id, name, slug, '' @ dquote @ ''createdAt'' @ dquote @ '', '' @ dquote @ ''updatedAt'' @ dquote @
     '') VALUES ($1, $2, $3, $4, $5)''"

definition select_user :: string where
  "select_user = ''SELECT id FROM users WHERE email = $1''"

definition insert_user :: string where
  "insert_user = ''INSERT INTO users (id, email, '' @ dquote @ ''firstName'' @ dquote @ '', '' @ dquote @ ''lastName'' @ dquote @ '', '' @
     dquote @ ''isAccepted'' @ dquote @ '', username, '' @ dquote @ ''superAdmin'' @ dquote @ '', '' @ dquote @ ''createdAt'' @ dquote @
     '', '' @ dquote @ ''updatedAt'' @ dquote @ '') VALUES ($1, $2, $3, $4, true, $5, true, $6, $7)''"

definition select_key :: string where
  "select_key = ''SELECT id FROM user_encryption_keys WHERE '' @ dquote @ ''userId'' @ dquote @ '' = $1''"

definition insert_key :: string where
  "insert_key = ''INSERT INTO user_encryption_keys (id, '' @ dquote @ ''userId'' @ dquote @ '', '' @ dquote @ ''publicKey'' @ dquote @ '', '' @
     dquote @ ''encryptedPrivateKey'' @ dquote @ '', iv, tag, salt, verifier, '' @ dquote @ ''encryptionVersion'' @ dquote @
     '') VALUES ($1, $2, $3, $4, $5, $6, $7, $8, 1)''"

definition update_key :: string where
  "update_key = ''UPDATE user_encryption_keys SET '' @ dquote @ ''publicKey'' @ dquote @ '' = $1, '' @ dquote @ ''encryptedPrivateKey'' @
     dquote @ '' = $2, iv = $3, tag = $4, salt = $5, verifier = $6 WHERE '' @ dquote @ ''userId'' @ dquote @ '' = $7''"

definition select_member :: string where
  "select_member = ''SELECT id FROM memberships WHERE '' @ dquote @ ''actorUserId'' @ dquote @ '' = $1 AND '' @ dquote @ ''scopeOrgId'' @
     dquote @ '' = $2''"

definition insert_member :: string where
  "insert_member = ''INSERT INTO memberships (id, scope, '' @ dquote @ ''actorUserId'' @ dquote @ '', '' @ dquote @ ''scopeOrgId'' @ dquote @
     '', '' @ dquote @ ''isActive'' @ dquote @ '', status, '' @ dquote @ ''createdAt'' @ dquote @ '', '' @ dquote @ ''updatedAt'' @ dquote @
     '') VALUES ($1, '' @ squote @ ''organization'' @ squote @ '', $2, $3, true, '' @ squote @ ''accepted'' @ squote @ '', $4, $5)''"

definition select_role :: string where
  "select_role = ''SELECT id FROM membership_roles WHERE '' @ dquote @ ''membershipId'' @ dquote @ '' = $1''"

definition insert_role :: string where
  "insert_role = ''INSERT INTO membership_roles (id, role, '' @ dquote @ ''isTemporary'' @ dquote @ '', '' @ dquote @ ''membershipId'' @ dquote @
     '', '' @ dquote @ ''createdAt'' @ dquote @ '', '' @ dquote @ ''updatedAt'' @ dquote @ '') VALUES ($1, '' @ squote @ ''admin'' @ squote @
     '', false, $2, $3, $4)''"

definition select_session :: string where
  "select_session = ''SELECT id FROM auth_token_sessions WHERE '' @ dquote @ ''userId'' @ dquote @ '' = $1 LIMIT 1''"

definition insert_session :: string where
  "insert_session = ''INSERT INTO auth_token_sessions (id, '' @ dquote @ ''userId'' @ dquote @ '', ip, '' @ dquote @ ''userAgent'' @ dquote @
     '', '' @ dquote @ ''accessVersion'' @ dquote @ '', '' @ dquote @ ''refreshVersion'' @ dquote @ '', '' @ dquote @ ''lastUsed'' @ dquote @
     '', '' @ dquote @ ''createdAt'' @ dquote @ '', '' @ dquote @ ''updatedAt'' @ dquote @ '') VALUES ($1, $2, '' @ squote @ ''127.0.0.1'' @ squote @
     '', '' @ squote @ ''packalares-tapr'' @ squote @ '', 1, 1, $3, $4, $5)''"

definition ensure_org :: "machine \<Rightarrow> SeedConfig \<Rightarrow> string \<Rightarrow> string act" where
  "ensure_org M c now = chk [] (query_row M select_org []) (\<lambda>r. case r of
       Some i \<Rightarrow> ret i
     | None \<Rightarrow> chk [] (new_uuid M) (\<lambda>i.
         chk ''create org: '' (exec_sql M insert_org [i, sd_OrgName c, slugify (sd_OrgName c), now, now]) (\<lambda>_. ret i)))"

definition ensure_user :: "machine \<Rightarrow> SeedConfig \<Rightarrow> string \<Rightarrow> string \<Rightarrow> string act" where
  "ensure_user M c fresh now = chk [] (query_row M select_user [sd_Email c]) (\<lambda>r. case r of
       Some i \<Rightarrow> ret i
     | None \<Rightarrow>
         chk ''create user: '' (exec_sql M insert_user [fresh, sd_Email c, sd_Username c, ''Admin'', sd_Username c, now, now]) (\<lambda>_. ret fresh))"

definition ensure_keys :: "machine \<Rightarrow> string \<Rightarrow> string list \<Rightarrow> unit act" where
  "ensure_keys M userID keys = chk [] (query_row M select_key [userID]) (\<lambda>r. case r of
       None \<Rightarrow> chk [] (new_uuid M) (\<lambda>i. chk ''create encryption keys: '' (exec_sql M insert_key ([i, userID] @ keys)) ret)
     | Some _ \<Rightarrow> chk ''create encryption keys: '' (exec_sql M update_key (keys @ [userID])) ret)"

definition ensure_membership :: "machine \<Rightarrow> string \<Rightarrow> string \<Rightarrow> string \<Rightarrow> unit act" where
  "ensure_membership M userID orgID now = chk [] (query_row M select_member [userID, orgID]) (\<lambda>r. case r of
       Some _ \<Rightarrow> ret ()
     | None \<Rightarrow> chk [] (new_uuid M) (\<lambda>i. chk ''create membership: '' (exec_sql M insert_member [i, userID, orgID, now, now]) ret))"

definition ensure_role :: "machine \<Rightarrow> string \<Rightarrow> string \<Rightarrow> string \<Rightarrow> unit act" where
  "ensure_role M userID orgID now = chk [] (query_row M select_member [userID, orgID]) (\<lambda>r. case r of
       None \<Rightarrow> ret ()
     | Some m \<Rightarrow> chk [] (query_row M select_role [m]) (\<lambda>r. case r of
         Some _ \<Rightarrow> ret ()
       | None \<Rightarrow> chk [] (new_uuid M) (\<lambda>i. ignoring (exec_sql M insert_role [i, m, now, now]) (ret ()))))"

definition ensure_session :: "machine \<Rightarrow> string \<Rightarrow> string \<Rightarrow> string act" where
  "ensure_session M userID now = chk [] (query_row M select_session [userID]) (\<lambda>r. case r of
       Some i \<Rightarrow> ret i
     | None \<Rightarrow> chk [] (new_uuid M) (\<lambda>i.
         chk ''create session: '' (exec_sql M insert_session [i, userID, now, now, now]) (\<lambda>_. ret i)))"

text \<open>Infisical is ready when it answers with 200, asked at most 120 times.\<close>

definition infisical_ready :: "machine \<Rightarrow> bool act" where
  "infisical_ready M = poll 120 (chk [] (ask M (HHttp ''GET'' ''http://localhost:8080/api/status'' [] None)) (\<lambda>a.
     ret (case a of HStatus n _ \<Rightarrow> n = 200 | _ \<Rightarrow> False)))"

definition seed_rows :: "machine \<Rightarrow> SeedConfig \<Rightarrow> string \<Rightarrow> string list \<Rightarrow> (string \<times> string \<times> string) act" where
  "seed_rows M c fresh keys =
     chk [] (ask M (HMeasure ''time.Now'')) (\<lambda>t. let now = text_of t in
     chk [] (ensure_org M c now) (\<lambda>orgID.
     chk [] (ensure_user M c fresh now) (\<lambda>userID.
     chk [] (ensure_keys M userID keys) (\<lambda>_.
     chk [] (ensure_membership M userID orgID now) (\<lambda>_.
     chk [] (ensure_role M userID orgID now) (\<lambda>_.
     chk [] (ensure_session M userID now) (\<lambda>sessionID.
     ret (userID, orgID, sessionID))))))))"

definition Seed :: "tapr_env \<Rightarrow> SeedConfig \<Rightarrow> SeedResult act" where
  "Seed E c =
     (let M = te_machine E in
      chk ''open db: '' (call M (HSql ''open'' [sd_PGDSN c])) (\<lambda>_.
      chk [] (infisical_ready M) (\<lambda>ready.
      if \<not> ready then fail ''infisical not ready after 4 minutes''
      else
        chk ''generate nacl keys: '' (names M (HMeasure ''box.GenerateKey'')) (\<lambda>ks.
        let publicKey = StdEncode (case ks of a # _ \<Rightarrow> a | [] \<Rightarrow> []); privateKey = StdEncode (case ks of _ # b # _ \<Rightarrow> b | _ \<Rightarrow> []) in
        chk ''encrypt private key: '' (Encrypt M (te_ciphers E) privateKey (PadPasswordTo32 (sd_Password c))) (\<lambda>(enc, iv, tag).
        chk [] (randomBytes M 32) (\<lambda>salt.
        chk [] (randomBytes M 128) (\<lambda>verifier.
        chk [] (new_uuid M) (\<lambda>fresh.
        chk [] (seed_rows M c fresh [publicKey, enc, iv, tag, hexEncode salt, hexEncode verifier]) (\<lambda>(userID, orgID, sessionID).
        ret \<lparr>se_UserID = userID, se_OrgID = orgID, se_SessionID = sessionID, se_PublicKey = publicKey, se_PrivateKey = privateKey\<rparr>)))))))))"

subsection \<open>Starting\<close>

definition seeded :: "tapr_env \<Rightarrow> tapr \<Rightarrow> tapr act" where
  "seeded E S =
     (if tp_userID S \<noteq> [] \<or> tp_pgDSN S = [] then ret S
      else
        chk [] (envOr ''ADMIN_EMAIL'' ''admin@packalares.local'') (\<lambda>email.
        chk [] (envOr ''ADMIN_USERNAME'' ''admin'') (\<lambda>user.
        chk ''seed: '' (Seed E \<lparr>sd_PGDSN = tp_pgDSN S, sd_Email = email, sd_Username = user, sd_Password = tp_password S,
            sd_OrgName = ''Packalares'', sd_ProjectName = project_name\<rparr>) (\<lambda>res.
        let S = S\<lparr>tp_userID := se_UserID res, tp_orgID := se_OrgID res, tp_sessionID := se_SessionID res,
              tp_publicKey := se_PublicKey res, tp_privateKey := se_PrivateKey res\<rparr> in
        attempt (issueToken E S) (\<lambda>t. case t of
          Inl _ \<Rightarrow> ret S
        | Inr token \<Rightarrow> chk [] (poll 30 (succeeds (getOrCreateDefaultWorkspace E S token))) (\<lambda>_. ret S))))))"

definition SeedAndStart :: "tapr_env \<Rightarrow> string \<Rightarrow> (string \<times> string) list \<Rightarrow> tapr act" where
  "SeedAndStart E listenAddr initialSecrets =
     chk [] NewServer (\<lambda>S.
     chk [] (seeded E S) (\<lambda>S.
     ignoring (if initialSecrets \<noteq> [] then storeSecrets E S initialSecrets else ret ())
      (chk [] (call (te_machine E) (HListen listenAddr)) (\<lambda>_. ret S))))"

definition tapr_main :: "tapr_env \<Rightarrow> tapr act" where
  "tapr_main E = chk [] (env ''LISTEN_ADDR'') (\<lambda>a. SeedAndStart E (if a = [] then '':8080'' else a) [])"

subsection \<open>The client\<close>

record secrets_client =
  sc_url :: string
  sc_authToken :: string

definition NewClient :: "ctx \<Rightarrow> secrets_client act" where
  "NewClient cx =
     chk [] (env ''TAPR_URL'') (\<lambda>url. chk [] (env ''TAPR_AUTH_TOKEN'') (\<lambda>token.
     ret \<lparr>sc_url = (if url = [] then ''http://tapr-svc.'' @ PlatformNamespace cx @ '':8080'' else url), sc_authToken = token\<rparr>))"

definition doRequest :: "tapr_env \<Rightarrow> secrets_client \<Rightarrow> string \<Rightarrow> string \<Rightarrow> (nat \<times> string) act" where
  "doRequest E c m url =
     (if \<not> te_url E url then fail ''invalid URL''
      else sent E (HHttp m url (if sc_authToken c \<noteq> [] then bearer_header (sc_authToken c) else []) None))"

definition LoadSecrets :: "tapr_env \<Rightarrow> secrets_client \<Rightarrow> (string \<times> string) list act" where
  "LoadSecrets E c =
     chk ''fetch secrets from tapr: '' (doRequest E c ''GET'' (sc_url c @ ''/secrets'')) (\<lambda>(n, body).
     if n \<noteq> 200 then fail (''tapr returned '' @ nat_str n @ '': '' @ take 1024 body)
     else (case decode_secrets (te_json E body) of None \<Rightarrow> fail ''decode secrets: '' | Some m \<Rightarrow> ret m))"

definition GetSecret :: "tapr_env \<Rightarrow> secrets_client \<Rightarrow> string \<Rightarrow> string act" where
  "GetSecret E c key =
     chk (''fetch secret '' @ key @ '': '') (doRequest E c ''GET'' (sc_url c @ ''/secrets/'' @ key)) (\<lambda>(n, body).
     if n = 404 then fail (''secret '' @ key @ '' not found'')
     else if n \<noteq> 200 then fail (''tapr returned '' @ nat_str n @ '': '' @ take 1024 body)
     else (case field_str ''value'' (te_json E body) of None \<Rightarrow> fail ''decode'' | Some v \<Rightarrow> ret v))"

text \<open>\<^verbatim>\<open>os.Setenv\<close> refuses other names and values; its error is ignored.\<close>

definition settable :: "string \<Rightarrow> string \<Rightarrow> bool" where
  "settable k v \<longleftrightarrow> k \<noteq> [] \<and> CHR ''='' \<notin> set k \<and> CHR 0x00 \<notin> set k \<and> CHR 0x00 \<notin> set v"

definition set_missing :: "string \<times> string \<Rightarrow> unit act" where
  "set_missing kv = (case kv of (k, v) \<Rightarrow> chk [] (env k) (\<lambda>old.
     if old = [] \<and> settable k v then setenv k v else ret ()))"

definition MustLoadSecrets :: "tapr_env \<Rightarrow> ctx \<Rightarrow> unit act" where
  "MustLoadSecrets E cx =
     chk [] (NewClient cx) (\<lambda>c.
     attempt (LoadSecrets E c) (\<lambda>r. case r of
        Inl e \<Rightarrow> sayln (''secrets: tapr unavailable ('' @ e @ ''), using env vars'')
      | Inr secrets \<Rightarrow>
          chk [] (for_each set_missing (te_order E secrets)) (\<lambda>_.
          sayln (''secrets: loaded '' @ nat_str (length secrets) @ '' secrets from tapr''))))"

subsection \<open>Round trips of the ciphers\<close>

lemma padded_key: "aes_key (PadPasswordTo32 p)"
  by (simp add: aes_key_def PadPasswordTo32_def)

text \<open>Keys are not longer than passwords: a password with a leading zero is the one without.\<close>

lemma padded_collision: "length p < 32 \<Longrightarrow> PadPasswordTo32 (CHR ''0'' # p) = PadPasswordTo32 p"
proof -
  assume l: "length p < 32"
  then obtain n where n: "32 - length p = Suc n" by (cases "32 - length p") auto
  then have "32 - length (CHR ''0'' # p) = n" by simp
  with n l show ?thesis by (auto simp: PadPasswordTo32_def replicate_app_Cons_same)
qed

definition gcm_laws :: "ciphers \<Rightarrow> bool" where
  "gcm_laws C \<longleftrightarrow> (\<forall>k n t. aes_key k \<and> length n = blockSizeBytes \<longrightarrow>
     ci_open C k n (ci_seal C k n t) = Some t \<and> length (ci_seal C k n t) = length t + 16)"

lemma private_key_roundtrip:
  assumes "gcm_laws C" "length nonce = blockSizeBytes"
  shows "\<exists>c iv tag. gcm_encrypt C nonce text (PadPasswordTo32 password) = Some (c, iv, tag) \<and>
     Decrypt C c iv tag (PadPasswordTo32 password) = Some (Inr text)"
  using assms padded_key [of password]
  by (auto simp: gcm_encrypt_def Decrypt_def gcm_laws_def Std_roundtrip Let_def)

lemma into_array_full: "length s = n \<Longrightarrow> into_array n s = s"
  by (simp add: into_array_def)

lemma box_roundtrip:
  assumes "\<forall>m n pa sa pb sb. ci_pair C pa sa \<and> ci_pair C pb sb \<longrightarrow> ci_box_open C (ci_box_seal C m n pb sa) n pa sb = Some m"
    and "ci_pair C pa sa" "ci_pair C pb sb" "length pa = 32" "length sa = 32" "length pb = 32" "length sb = 32"
    and "length nonce = naclNonceSize"
  shows "\<exists>c n. box_encrypt C nonce text (StdEncode pb) (StdEncode sa) = Some (c, n) \<and>
     DecryptAsymmetric C c n (StdEncode pa) (StdEncode sb) = Some text"
  using assms
  by (simp add: box_encrypt_def DecryptAsymmetric_def base64Decode32_def Std_roundtrip into_array_full)

text \<open>A text whose IV has another length than 16 bytes ends the process.\<close>

lemma odd_iv_panics:
  "length nonce \<noteq> blockSizeBytes \<Longrightarrow> aes_key k \<Longrightarrow> Decrypt C (StdEncode c) (StdEncode nonce) (StdEncode t) k = None"
  by (simp add: Decrypt_def Std_roundtrip)

subsection \<open>Access\<close>

text \<open>Without the token nothing is asked and nothing told but whether the server lives.\<close>

lemma tapr_needs_token:
  assumes "tp_authToken S \<noteq> []" "header_get r ''Authorization'' \<noteq> ''Bearer '' @ tp_authToken S"
  shows "\<exists>resp. tapr_mux E S p r w = Some (Inr resp, w) \<and> (rs_Code resp = 200 \<longrightarrow> rs_Body resp = JStr ''ok'')"
  using assms by (auto simp: tapr_mux_def requireAuth_def Let_def ret_def reply_status_def http_error_def)

lemma tapr_open_without_token: "tp_authToken S = [] \<Longrightarrow> requireAuth S h = h"
  by (rule ext) (simp add: requireAuth_def)

text \<open>An update that Infisical refuses counts as done.\<close>

lemma refused_update_is_ok:
  assumes "te_url E (tp_infisicalURL S @ ''/api/v3/secrets/raw/'' @ k)"
    and "\<And>xs m u hs b. answers (te_machine E) xs (HHttp m u hs b) = HStatus 403 []"
  shows "\<exists>w'. store_one E S token ws (k, v) w = Some (Inr (), w')"
  using assms by (simp add: store_one_def sent_def chk_def ask_def ret_def Let_def)

text \<open>A user that is configured has no session, which every token names.\<close>

lemma configured_user_has_no_session:
  assumes "NewServer w = Some (Inr S, w')" "tp_userID S \<noteq> []"
  shows "seeded E S w' = Some (Inr S, w')" "tp_sessionID S = []"
proof -
  show "seeded E S w' = Some (Inr S, w')" using assms(2) by (simp add: seeded_def ret_def)
  show "tp_sessionID S = []"
    using assms(1) by (auto simp: NewServer_def chk_def env_def envOr_def ret_def fail_def split: if_splits)
qed

subsection \<open>Seeding again\<close>

text \<open>
  The tables, as the queries see them; \<open>db_rows\<close> counts the rows that were made, roles apart. A row never
  goes away, and the first row of a key is the one that is found.
\<close>

record infisical_db =
  db_org :: "string option"
  db_user :: "string \<Rightarrow> string option"
  db_key :: "string \<Rightarrow> string option"
  db_member :: "string \<times> string \<Rightarrow> string option"
  db_role :: "string \<Rightarrow> string option"
  db_session :: "string \<Rightarrow> string option"
  db_rows :: nat

definition put_row :: "'k \<Rightarrow> string \<Rightarrow> ('k \<Rightarrow> string option) \<Rightarrow> 'k \<Rightarrow> string option" where
  "put_row k v m = (case m k of None \<Rightarrow> m(k := Some v) | Some _ \<Rightarrow> m)"

definition apply_sql :: "string \<Rightarrow> string list \<Rightarrow> infisical_db \<Rightarrow> infisical_db" where
  "apply_sql q args d =
     (if q = insert_org then d\<lparr>db_org := Some (case db_org d of None \<Rightarrow> args ! 0 | Some i \<Rightarrow> i), db_rows := Suc (db_rows d)\<rparr>
      else if q = insert_user then d\<lparr>db_user := put_row (args ! 1) (args ! 0) (db_user d), db_rows := Suc (db_rows d)\<rparr>
      else if q = insert_key then d\<lparr>db_key := put_row (args ! 1) (args ! 0) (db_key d), db_rows := Suc (db_rows d)\<rparr>
      else if q = insert_member then
        d\<lparr>db_member := put_row (args ! 1, args ! 2) (args ! 0) (db_member d), db_rows := Suc (db_rows d)\<rparr>
      else if q = insert_role then d\<lparr>db_role := put_row (args ! 1) (args ! 0) (db_role d)\<rparr>
      else if q = insert_session then d\<lparr>db_session := put_row (args ! 1) (args ! 0) (db_session d), db_rows := Suc (db_rows d)\<rparr>
      else d)"

definition sql_row :: "infisical_db \<Rightarrow> string \<Rightarrow> string list \<Rightarrow> string option" where
  "sql_row d q args =
     (if q = select_org then db_org d
      else if q = select_user then db_user d (args ! 0)
      else if q = select_key then db_key d (args ! 0)
      else if q = select_member then db_member d (args ! 0, args ! 1)
      else if q = select_role then db_role d (args ! 0)
      else if q = select_session then db_session d (args ! 0)
      else None)"

definition db_step :: "infisical_db \<Rightarrow> hcmd \<times> hans \<Rightarrow> infisical_db" where
  "db_step d x = (case x of (HSql q args, a) \<Rightarrow> if failed a then d else apply_sql q args d | _ \<Rightarrow> d)"

definition db_after :: "infisical_db \<Rightarrow> hlog \<Rightarrow> infisical_db" where
  "db_after d xs = foldl db_step d xs"

definition selects :: "string list" where
  "selects = [select_session, select_role, select_member, select_key, select_user, select_org]"

definition inserts :: "string list" where
  "inserts = [insert_session, insert_role, insert_member, insert_key, insert_user, insert_org]"

text \<open>The machine answers queries from the tables; other statements may fail or not.\<close>

definition database :: "infisical_db \<Rightarrow> machine \<Rightarrow> bool" where
  "database d M \<longleftrightarrow> (\<forall>xs q args. q \<in> set selects \<longrightarrow>
     answers M xs (HSql q args) = (case sql_row (db_after d xs) q args of
        Some i \<Rightarrow> HNames [i] | None \<Rightarrow> HErr [] ''sql: no rows in result set''))"

lemma statements: "distinct ([update_key, ''open''] @ inserts @ selects)"
  by code_simp

definition extends :: "infisical_db \<Rightarrow> infisical_db \<Rightarrow> bool" where
  "extends d d' \<longleftrightarrow> (\<forall>i. db_org d = Some i \<longrightarrow> db_org d' = Some i) \<and> db_user d \<subseteq>\<^sub>m db_user d' \<and> db_key d \<subseteq>\<^sub>m db_key d' \<and>
     db_member d \<subseteq>\<^sub>m db_member d' \<and> db_role d \<subseteq>\<^sub>m db_role d' \<and> db_session d \<subseteq>\<^sub>m db_session d'"

lemma extends_found:
  assumes "extends d d'"
  shows "db_org d = Some i \<Longrightarrow> db_org d' = Some i" "db_user d e = Some i \<Longrightarrow> db_user d' e = Some i"
    "db_key d u = Some i \<Longrightarrow> db_key d' u = Some i" "db_member d (u, g) = Some i \<Longrightarrow> db_member d' (u, g) = Some i"
    "db_session d u = Some i \<Longrightarrow> db_session d' u = Some i"
  using assms by (auto simp: extends_def map_le_def dom_def)

lemma extends_refl: "extends d d"
  by (simp add: extends_def)

lemma extends_trans: "extends d d' \<Longrightarrow> extends d' d'' \<Longrightarrow> extends d d''"
  by (auto simp: extends_def intro: map_le_trans)

lemma put_row_le: "m \<subseteq>\<^sub>m put_row k v m"
  by (auto simp: put_row_def map_le_def split: option.split)

lemma put_row_key: "put_row k v m k = Some (case m k of None \<Rightarrow> v | Some i \<Rightarrow> i)"
  by (auto simp: put_row_def split: option.split)

lemma db_step_extends: "extends d (db_step d x)"
  by (cases x; cases "fst x") (auto simp: db_step_def apply_sql_def extends_def put_row_le)

lemma db_after_append: "db_after d (xs @ ys) = db_after (db_after d xs) ys"
  by (simp add: db_after_def)

lemma db_after_extends: "extends d (db_after d xs)"
proof (induction xs arbitrary: d)
  case (Cons x xs)
  show ?case using extends_trans [OF db_step_extends Cons.IH] by (simp add: db_after_def)
qed (simp add: db_after_def extends_refl)

text \<open>The tables after the calls of a world, and an operation that makes no row.\<close>

definition tables :: "infisical_db \<Rightarrow> host \<Rightarrow> infisical_db" where
  "tables d w = db_after d (hw_log w)"

fun no_row :: "hcmd \<Rightarrow> bool" where
  "no_row (HSql q args) \<longleftrightarrow> q \<notin> set inserts"
| "no_row _ \<longleftrightarrow> True"

lemma apply_other: "q \<notin> set inserts \<Longrightarrow> apply_sql q args d = d"
  by (simp add: apply_sql_def inserts_def)

lemma no_row_step: "no_row c \<Longrightarrow> db_step d (c, a) = d"
  by (cases c) (auto simp: db_step_def apply_other)

lemma no_row_after: "\<forall>(c, a) \<in> set xs. no_row c \<Longrightarrow> db_after d xs = d"
  by (induction xs) (auto simp: db_after_def no_row_step)

lemma does_no_row:
  assumes "does no_row m" "m w = Some (r, w')"
  shows "tables d w' = tables d w"
proof -
  obtain xs where x: "hw_log w' = hw_log w @ xs" "\<And>c a. (c, a) \<in> set xs \<Longrightarrow> no_row c"
    by (rule meetsE [OF assms]) (rule that)
  then have "\<forall>(c, a) \<in> set xs. no_row c" by auto
  from no_row_after [OF this] show ?thesis unfolding tables_def x(1) db_after_append by simp
qed

lemma query_tables:
  assumes "database d M" "q \<in> set selects" "query_row M q args w = Some (r, w')"
  shows "r = Inr (sql_row (tables d w) q args)" "tables d w' = tables d w"
proof -
  have "q \<notin> set inserts" using assms(2) statements by auto
  then have "does no_row (query_row M q args)"
    unfolding query_row_def by (intro meets_attempt [OF does_ask] does_ret) simp
  then show "tables d w' = tables d w" using assms(3) by (rule does_no_row)
  have "answers M (hw_log w) (HSql q args) = (case sql_row (tables d w) q args of
        Some i \<Rightarrow> HNames [i] | None \<Rightarrow> HErr [] ''sql: no rows in result set'')"
    using assms(1,2) unfolding database_def tables_def by blast
  then show "r = Inr (sql_row (tables d w) q args)"
    using assms(3) by (cases "sql_row (tables d w) q args") (simp_all add: query_row_def attempt_def ask_def ret_def Let_def)
qed

lemma exec_sql_eq:
  "exec_sql M q args w = (let a = answers M (hw_log w) (HSql q args) in
     Some (case a of HErr _ e \<Rightarrow> Inl e | _ \<Rightarrow> Inr (), w\<lparr>hw_log := hw_log w @ [(HSql q args, a)]\<rparr>))"
  by (simp add: exec_sql_def call_def chk_def ask_def ret_def fail_def Let_def split: hans.split)

lemma exec_applied:
  assumes "exec_sql M q args w = Some (Inr (), w')"
  shows "tables d w' = apply_sql q args (tables d w)"
proof -
  define a where "a = answers M (hw_log w) (HSql q args)"
  have "hw_log w' = hw_log w @ [(HSql q args, a)]" "\<not> failed a"
    using assms by (auto simp: exec_sql_eq Let_def a_def failed_def split: hans.splits)
  then show ?thesis by (simp add: tables_def db_after_append db_after_def db_step_def)
qed

lemma uuid_tables: "new_uuid M w = Some (Inr i, w') \<Longrightarrow> tables d w' = tables d w"
  by (rule does_no_row [of "new_uuid M"]) (simp_all add: new_uuid_def does_chk does_ask does_ret)

lemma row_lookups:
  "sql_row d select_org as = db_org d" "sql_row d select_user [e] = db_user d e" "sql_row d select_key [u] = db_key d u"
  "sql_row d select_member [u, g] = db_member d (u, g)" "sql_row d select_role [m] = db_role d m"
  "sql_row d select_session [u] = db_session d u"
  using statements by (simp_all add: sql_row_def selects_def)

lemma row_inserts:
  "apply_sql insert_org (i # as) d = d\<lparr>db_org := Some (case db_org d of None \<Rightarrow> i | Some j \<Rightarrow> j), db_rows := Suc (db_rows d)\<rparr>"
  "apply_sql insert_user (i # e # as) d = d\<lparr>db_user := put_row e i (db_user d), db_rows := Suc (db_rows d)\<rparr>"
  "apply_sql insert_key (i # u # as) d = d\<lparr>db_key := put_row u i (db_key d), db_rows := Suc (db_rows d)\<rparr>"
  "apply_sql insert_member (i # u # g # as) d = d\<lparr>db_member := put_row (u, g) i (db_member d), db_rows := Suc (db_rows d)\<rparr>"
  "apply_sql insert_role (i # m # as) d = d\<lparr>db_role := put_row m i (db_role d)\<rparr>"
  "apply_sql insert_session (i # u # as) d = d\<lparr>db_session := put_row u i (db_session d), db_rows := Suc (db_rows d)\<rparr>"
  "apply_sql update_key as d = d"
  using statements by (simp_all add: apply_sql_def selects_def inserts_def split: option.split)

lemma query_then:
  assumes "database d M" "q \<in> set selects" "chk [] (query_row M q args) f w = Some (Inr b, w')"
  obtains w1 where "tables d w1 = tables d w" "f (sql_row (tables d w) q args) w1 = Some (Inr b, w')"
proof -
  obtain r w1 where q: "query_row M q args w = Some (Inr r, w1)" "f r w1 = Some (Inr b, w')" using assms(3) by (rule chk_InrE)
  with query_tables [OF assms(1,2) q(1)] show thesis using that [of w1] by simp
qed

lemma uuid_then:
  assumes "chk [] (new_uuid M) f w = Some (Inr b, w')"
  obtains i w1 where "tables d w1 = tables d w" "f i w1 = Some (Inr b, w')"
  using assms uuid_tables [of M w _ _ d] that by (auto elim!: chk_InrE)

lemma inserted:
  assumes "chk msg (exec_sql M q args) (\<lambda>_. ret i) w = Some (Inr g, w')"
  shows "g = i \<and> tables d w' = apply_sql q args (tables d w)"
  using assms exec_applied [of M q args w _ d] by (auto elim!: chk_InrE)

lemma inserted_unit:
  assumes "chk msg (exec_sql M q args) ret w = Some (Inr g, w')"
  shows "tables d w' = apply_sql q args (tables d w)"
  using assms exec_applied [of M q args w _ d] by (auto elim!: chk_InrE)

text \<open>
  Every step of the seeding, when it returns: what it found or made is in the tables then; what was there
  is found and no row is made.
\<close>

definition settles :: "infisical_db \<Rightarrow> (infisical_db \<Rightarrow> string option) \<Rightarrow> host \<Rightarrow> host \<Rightarrow> string \<Rightarrow> bool" where
  "settles d look w w' x \<longleftrightarrow> look (tables d w') = Some x \<and> extends (tables d w) (tables d w') \<and>
     (look (tables d w) \<noteq> None \<longrightarrow> look (tables d w) = Some x \<and> db_rows (tables d w') = db_rows (tables d w))"

lemma settles_found: "tables d w' = tables d w \<Longrightarrow> look (tables d w) = Some x \<Longrightarrow> settles d look w w' x"
  by (simp add: settles_def extends_refl)

lemma settles_made:
  "look (tables d w) = None \<Longrightarrow> look (tables d w') = Some x \<Longrightarrow> extends (tables d w) (tables d w') \<Longrightarrow> settles d look w w' x"
  by (simp add: settles_def)

lemma org_seeded:
  assumes d: "database d M" and r: "ensure_org M c now w = Some (Inr g, w')"
  shows "settles d db_org w w' g"
proof -
  obtain w1 where w1: "tables d w1 = tables d w" "(case db_org (tables d w) of Some i \<Rightarrow> ret i
     | None \<Rightarrow> chk [] (new_uuid M) (\<lambda>i.
         chk ''create org: '' (exec_sql M insert_org [i, sd_OrgName c, slugify (sd_OrgName c), now, now]) (\<lambda>_. ret i))) w1 = Some (Inr g, w')"
    by (rule query_then [OF d _ r [unfolded ensure_org_def]]) (simp_all add: selects_def row_lookups that)
  show ?thesis
  proof (cases "db_org (tables d w)")
    case None
    obtain i w2 where w2: "tables d w2 = tables d w1"
        "chk ''create org: '' (exec_sql M insert_org [i, sd_OrgName c, slugify (sd_OrgName c), now, now]) (\<lambda>_. ret i) w2 = Some (Inr g, w')"
      by (rule uuid_then [OF w1(2) [unfolded None option.case]]) (rule that)
    from inserted [OF w2(2), of d] show ?thesis
      using None w1(1) w2(1) by (intro settles_made) (simp_all add: row_inserts extends_def)
  qed (use w1 in \<open>simp add: settles_found\<close>)
qed

lemma user_seeded:
  assumes d: "database d M" and r: "ensure_user M c fresh now w = Some (Inr u, w')"
  shows "settles d (\<lambda>t. db_user t (sd_Email c)) w w' u"
proof -
  obtain w1 where w1: "tables d w1 = tables d w" "(case db_user (tables d w) (sd_Email c) of Some i \<Rightarrow> ret i
     | None \<Rightarrow> chk ''create user: '' (exec_sql M insert_user [fresh, sd_Email c, sd_Username c, ''Admin'', sd_Username c, now, now])
         (\<lambda>_. ret fresh)) w1 = Some (Inr u, w')"
    by (rule query_then [OF d _ r [unfolded ensure_user_def]]) (simp_all add: selects_def row_lookups that)
  show ?thesis
  proof (cases "db_user (tables d w) (sd_Email c)")
    case None
    from inserted [OF w1(2) [unfolded None option.case], of d] show ?thesis
      using None w1(1) by (intro settles_made) (simp_all add: row_inserts extends_def put_row_le put_row_key)
  qed (use w1 in \<open>simp add: settles_found\<close>)
qed

lemma keys_seeded:
  assumes d: "database d M" and r: "ensure_keys M u keys w = Some (Inr x, w')"
  shows "\<exists>i. settles d (\<lambda>t. db_key t u) w w' i"
proof -
  obtain w1 where w1: "tables d w1 = tables d w" "(case db_key (tables d w) u of
       None \<Rightarrow> chk [] (new_uuid M) (\<lambda>i. chk ''create encryption keys: '' (exec_sql M insert_key ([i, u] @ keys)) ret)
     | Some _ \<Rightarrow> chk ''create encryption keys: '' (exec_sql M update_key (keys @ [u])) ret) w1 = Some (Inr x, w')"
    by (rule query_then [OF d _ r [unfolded ensure_keys_def]]) (simp_all add: selects_def row_lookups that)
  show ?thesis
  proof (cases "db_key (tables d w) u")
    case None
    obtain i w2 where w2: "tables d w2 = tables d w1"
        "chk ''create encryption keys: '' (exec_sql M insert_key ([i, u] @ keys)) ret w2 = Some (Inr x, w')"
      by (rule uuid_then [OF w1(2) [unfolded None option.case]]) (rule that)
    from inserted_unit [OF w2(2), of d] show ?thesis
      using None w1(1) w2(1) by (intro exI [of _ i] settles_made) (simp_all add: row_inserts extends_def put_row_le put_row_key)
  next
    case (Some j)
    from inserted_unit [OF w1(2) [unfolded Some option.case], of d] show ?thesis
      using Some w1(1) by (intro exI [of _ j] settles_found) (simp_all add: row_inserts)
  qed
qed

lemma membership_seeded:
  assumes d: "database d M" and r: "ensure_membership M u g now w = Some (Inr x, w')"
  shows "\<exists>i. settles d (\<lambda>t. db_member t (u, g)) w w' i"
proof -
  obtain w1 where w1: "tables d w1 = tables d w" "(case db_member (tables d w) (u, g) of
       Some _ \<Rightarrow> ret ()
     | None \<Rightarrow> chk [] (new_uuid M) (\<lambda>i. chk ''create membership: '' (exec_sql M insert_member [i, u, g, now, now]) ret)) w1 = Some (Inr x, w')"
    by (rule query_then [OF d _ r [unfolded ensure_membership_def]]) (simp_all add: selects_def row_lookups that)
  show ?thesis
  proof (cases "db_member (tables d w) (u, g)")
    case None
    obtain i w2 where w2: "tables d w2 = tables d w1"
        "chk ''create membership: '' (exec_sql M insert_member [i, u, g, now, now]) ret w2 = Some (Inr x, w')"
      by (rule uuid_then [OF w1(2) [unfolded None option.case]]) (rule that)
    from inserted_unit [OF w2(2), of d] show ?thesis
      using None w1(1) w2(1) by (intro exI [of _ i] settles_made) (simp_all add: row_inserts extends_def put_row_le put_row_key)
  next
    case (Some j)
    with w1 show ?thesis by (intro exI [of _ j] settles_found) simp_all
  qed
qed

lemma session_seeded:
  assumes d: "database d M" and r: "ensure_session M u now w = Some (Inr s, w')"
  shows "settles d (\<lambda>t. db_session t u) w w' s"
proof -
  obtain w1 where w1: "tables d w1 = tables d w" "(case db_session (tables d w) u of
       Some i \<Rightarrow> ret i
     | None \<Rightarrow> chk [] (new_uuid M) (\<lambda>i. chk ''create session: '' (exec_sql M insert_session [i, u, now, now, now]) (\<lambda>_. ret i))) w1 = Some (Inr s, w')"
    by (rule query_then [OF d _ r [unfolded ensure_session_def]]) (simp_all add: selects_def row_lookups that)
  show ?thesis
  proof (cases "db_session (tables d w) u")
    case None
    obtain i w2 where w2: "tables d w2 = tables d w1"
        "chk ''create session: '' (exec_sql M insert_session [i, u, now, now, now]) (\<lambda>_. ret i) w2 = Some (Inr s, w')"
      by (rule uuid_then [OF w1(2) [unfolded None option.case]]) (rule that)
    from inserted [OF w2(2), of d] show ?thesis
      using None w1(1) w2(1) by (intro settles_made) (simp_all add: row_inserts extends_def put_row_le put_row_key)
  qed (use w1 in \<open>simp add: settles_found\<close>)
qed

text \<open>The role makes no row that is counted, whatever comes of it.\<close>

fun no_counted_row :: "hcmd \<Rightarrow> bool" where
  "no_counted_row (HSql q args) \<longleftrightarrow> q \<notin> set inserts \<or> q = insert_role"
| "no_counted_row _ \<longleftrightarrow> True"

lemma no_counted_row_step: "no_counted_row c \<Longrightarrow> db_rows (db_step d (c, a)) = db_rows d"
proof (cases c)
  case (HSql q args)
  assume "no_counted_row c"
  then show ?thesis using statements
    by (cases "q = insert_role") (simp_all add: HSql db_step_def apply_other, simp add: apply_sql_def inserts_def)
qed (simp_all add: db_step_def)

lemma no_counted_row_after: "\<forall>(c, a) \<in> set xs. no_counted_row c \<Longrightarrow> db_rows (db_after d xs) = db_rows d"
proof (induction xs arbitrary: d)
  case (Cons x xs)
  then show ?case using no_counted_row_step by (cases x) (simp add: db_after_def)
qed (simp add: db_after_def)

lemma grown:
  assumes "does P m" "m w = Some (r, w')"
  obtains xs where "tables d w' = db_after (tables d w) xs" "\<forall>(c, a) \<in> set xs. P c"
proof -
  obtain xs where x: "hw_log w' = hw_log w @ xs" "\<And>c a. (c, a) \<in> set xs \<Longrightarrow> P c"
    by (rule meetsE [OF assms]) (rule that)
  have "tables d w' = db_after (tables d w) xs" unfolding tables_def x(1) db_after_append ..
  then show thesis using x(2) that by blast
qed

lemma query_does: "P (HSql q args) \<Longrightarrow> does P (query_row M q args)"
  unfolding query_row_def by (intro meets_attempt [OF does_ask] does_ret)

lemma exec_does: "P (HSql q args) \<Longrightarrow> does P (exec_sql M q args)"
  unfolding exec_sql_def by (intro does_chk does_call does_ret)

lemma uuid_does: "P (HMeasure ''uuid.New'') \<Longrightarrow> does P (new_uuid M)"
  unfolding new_uuid_def by (intro does_chk does_ask does_ret)

lemma role_seeded:
  assumes "ensure_role M u g now w = Some (r, w')"
  shows "extends (tables d w) (tables d w') \<and> db_rows (tables d w') = db_rows (tables d w)"
proof -
  have "does no_counted_row (ensure_role M u g now)"
    unfolding ensure_role_def using statements
    by (auto intro!: does_chk query_does exec_does uuid_does meets_ignoring does_ret simp: selects_def inserts_def split: option.split)
  from grown [OF this assms] obtain xs where "tables d w' = db_after (tables d w) xs" "\<forall>(c, a) \<in> set xs. no_counted_row c" by metis
  then show ?thesis using db_after_extends no_counted_row_after by simp
qed

definition complete :: "infisical_db \<Rightarrow> string \<Rightarrow> string \<Rightarrow> string \<Rightarrow> string \<Rightarrow> bool" where
  "complete t email u g s \<longleftrightarrow> db_org t = Some g \<and> db_user t email = Some u \<and> db_key t u \<noteq> None \<and> db_member t (u, g) \<noteq> None \<and>
     db_session t u = Some s"

lemma complete_extends: "complete t e u g s \<Longrightarrow> extends t t' \<Longrightarrow> complete t' e u g s"
  by (auto simp: complete_def extends_def map_le_def dom_def)

lemma rows_seeded:
  assumes d: "database d M" and r: "seed_rows M c fresh keys w = Some (Inr (u, g, s), w')"
  shows "complete (tables d w') (sd_Email c) u g s"
    "complete (tables d w) (sd_Email c) u0 g0 s0 \<Longrightarrow> u = u0 \<and> g = g0 \<and> s = s0 \<and> db_rows (tables d w') = db_rows (tables d w)"
proof -
  obtain t w0 where t: "ask M (HMeasure ''time.Now'') w = Some (Inr t, w0)"
      and r1: "chk [] (ensure_org M c (text_of t)) (\<lambda>orgID.
     chk [] (ensure_user M c fresh (text_of t)) (\<lambda>userID.
     chk [] (ensure_keys M userID keys) (\<lambda>_.
     chk [] (ensure_membership M userID orgID (text_of t)) (\<lambda>_.
     chk [] (ensure_role M userID orgID (text_of t)) (\<lambda>_.
     chk [] (ensure_session M userID (text_of t)) (\<lambda>sessionID.
     ret (userID, orgID, sessionID))))))) w0 = Some (Inr (u, g, s), w')"
    using r unfolding seed_rows_def Let_def by (rule chk_InrE)
  obtain w1 w2 w3 w4 w5 where steps: "ensure_org M c (text_of t) w0 = Some (Inr g, w1)"
      "ensure_user M c fresh (text_of t) w1 = Some (Inr u, w2)" "ensure_keys M u keys w2 = Some (Inr (), w3)"
      "ensure_membership M u g (text_of t) w3 = Some (Inr (), w4)" "ensure_role M u g (text_of t) w4 = Some (Inr (), w5)"
      "ensure_session M u (text_of t) w5 = Some (Inr s, w')"
    using r1 by (auto elim!: chk_InrE)
  have w0: "tables d w0 = tables d w"
    using t by (intro does_no_row [OF does_ask]) (simp_all add: fun_eq_iff)
  obtain k where k: "settles d (\<lambda>t. db_key t u) w2 w3 k" using keys_seeded [OF d steps(3)] by blast
  obtain m where m: "settles d (\<lambda>t. db_member t (u, g)) w3 w4 m" using membership_seeded [OF d steps(4)] by blast
  note all = org_seeded [OF d steps(1)] user_seeded [OF d steps(2)] k m role_seeded [OF steps(5), of d] session_seeded [OF d steps(6)]
  have e: "extends (tables d w) (tables d w1)" "extends (tables d w1) (tables d w2)" "extends (tables d w2) (tables d w3)"
      "extends (tables d w3) (tables d w4)" "extends (tables d w4) (tables d w5)" "extends (tables d w5) (tables d w')"
    using all w0 by (simp_all add: settles_def)
  have l: "db_org (tables d w1) = Some g" "db_user (tables d w2) (sd_Email c) = Some u" "db_key (tables d w3) u = Some k"
      "db_member (tables d w4) (u, g) = Some m" "db_session (tables d w') u = Some s"
    using all by (simp_all add: settles_def)
  show "complete (tables d w') (sd_Email c) u g s"
  proof -
    have x: "extends (tables d w4) (tables d w')" using e(5,6) by (rule extends_trans)
    have y: "extends (tables d w3) (tables d w')" using e(4) x by (rule extends_trans)
    have z: "extends (tables d w2) (tables d w')" using e(3) y by (rule extends_trans)
    have "extends (tables d w1) (tables d w')" using e(2) z by (rule extends_trans)
    with x y z show ?thesis using l extends_found by (simp add: complete_def)
  qed
  show "u = u0 \<and> g = g0 \<and> s = s0 \<and> db_rows (tables d w') = db_rows (tables d w)"
    if c0: "complete (tables d w) (sd_Email c) u0 g0 s0"
  proof -
    have c: "complete (tables d w1) (sd_Email c) u0 g0 s0" "complete (tables d w2) (sd_Email c) u0 g0 s0"
        "complete (tables d w3) (sd_Email c) u0 g0 s0" "complete (tables d w4) (sd_Email c) u0 g0 s0"
        "complete (tables d w5) (sd_Email c) u0 g0 s0"
      using c0 e complete_extends by blast+
    note looks = c [unfolded complete_def] c0 [unfolded complete_def] and steps' = all [unfolded settles_def]
    have g: "g = g0" "u = u0" "s = s0" using steps' looks w0 by simp_all
    have "db_rows (tables d w1) = db_rows (tables d w)" "db_rows (tables d w2) = db_rows (tables d w1)"
        "db_rows (tables d w3) = db_rows (tables d w2)" "db_rows (tables d w4) = db_rows (tables d w3)"
        "db_rows (tables d w5) = db_rows (tables d w4)" "db_rows (tables d w') = db_rows (tables d w5)"
      using steps' looks w0 unfolding g by simp_all
    with g show ?thesis by simp
  qed
qed

lemma does_poll: "does P m \<Longrightarrow> does P (poll n m)"
proof (induction n)
  case (Suc n)
  have "poll (Suc n) m = chk [] m (\<lambda>ok. if ok then ret True else poll n m)" by (rule ext) simp
  with Suc show ?case by (auto intro!: does_chk does_ret)
qed (simp add: does_ret)

lemma Seed_rows:
  assumes "Seed E c w = Some (Inr r, w')"
  obtains fresh keys w1 where "tables d w1 = tables d w"
    "seed_rows (te_machine E) c fresh keys w1 = Some (Inr (se_UserID r, se_OrgID r, se_SessionID r), w')"
proof -
  let ?M = "te_machine E"
  obtain a w1 where o: "call ?M (HSql ''open'' [sd_PGDSN c]) w = Some (Inr a, w1)" and k1: "chk [] (infisical_ready ?M) (\<lambda>ready.
      if \<not> ready then fail ''infisical not ready after 4 minutes''
      else
        chk ''generate nacl keys: '' (names ?M (HMeasure ''box.GenerateKey'')) (\<lambda>ks.
        let publicKey = StdEncode (case ks of a # _ \<Rightarrow> a | [] \<Rightarrow> []); privateKey = StdEncode (case ks of _ # b # _ \<Rightarrow> b | _ \<Rightarrow> []) in
        chk ''encrypt private key: '' (Encrypt ?M (te_ciphers E) privateKey (PadPasswordTo32 (sd_Password c))) (\<lambda>(enc, iv, tag).
        chk [] (randomBytes ?M 32) (\<lambda>salt.
        chk [] (randomBytes ?M 128) (\<lambda>verifier.
        chk [] (new_uuid ?M) (\<lambda>fresh.
        chk [] (seed_rows ?M c fresh [publicKey, enc, iv, tag, hexEncode salt, hexEncode verifier]) (\<lambda>(userID, orgID, sessionID).
        ret \<lparr>se_UserID = userID, se_OrgID = orgID, se_SessionID = sessionID, se_PublicKey = publicKey, se_PrivateKey = privateKey\<rparr>))))))) w1
      = Some (Inr r, w')"
    using assms unfolding Seed_def Let_def by (rule chk_InrE)
  then obtain w2 ks w3 enc iv tag w4 salt w5 ver w6 fresh w7 pub where steps:
      "infisical_ready ?M w1 = Some (Inr True, w2)" "names ?M (HMeasure ''box.GenerateKey'') w2 = Some (Inr ks, w3)"
      "Encrypt ?M (te_ciphers E) (StdEncode (case ks of _ # b # _ \<Rightarrow> b | _ \<Rightarrow> [])) (PadPasswordTo32 (sd_Password c)) w3 = Some (Inr (enc, iv, tag), w4)"
      "randomBytes ?M 32 w4 = Some (Inr salt, w5)" "randomBytes ?M 128 w5 = Some (Inr ver, w6)" "new_uuid ?M w6 = Some (Inr fresh, w7)"
      "seed_rows ?M c fresh [pub, enc, iv, tag, hexEncode salt, hexEncode ver] w7 =
         Some (Inr (se_UserID r, se_OrgID r, se_SessionID r), w')"
    by (auto elim!: chk_InrE simp: Let_def split: if_splits prod.splits)
  have n: "''open'' \<notin> set inserts" using statements by simp
  have "tables d w1 = tables d w" by (rule does_no_row [OF does_call o]) (use n in simp)
  moreover have "tables d w2 = tables d w1"
    by (rule does_no_row [where m = "infisical_ready ?M", OF _ steps(1)]) (auto simp: infisical_ready_def intro!: does_poll does_chk does_ask does_ret)
  moreover have "tables d w3 = tables d w2"
    by (rule does_no_row [where m = "names ?M (HMeasure ''box.GenerateKey'')", OF _ steps(2)]) (auto simp: names_def intro!: does_chk does_ask does_ret does_fail split: hans.splits)
  moreover have "tables d w4 = tables d w3"
    by (rule does_no_row [where m = "Encrypt ?M _ _ _", OF _ steps(3)]) (auto simp: Encrypt_def intro!: does_chk does_call does_ret does_fail split: option.split)
  moreover have "tables d w5 = tables d w4" "tables d w6 = tables d w5"
    by (rule does_no_row [where m = "randomBytes ?M 32", OF _ steps(4)] does_no_row [where m = "randomBytes ?M 128", OF _ steps(5)];
        auto simp: randomBytes_def or_else_def intro!: meets_attempt [OF does_call] does_ret)+
  moreover have "tables d w7 = tables d w6" by (rule uuid_tables [OF steps(6)])
  ultimately show thesis using that [of w7] steps(7) by simp
qed


subsection \<open>What a service gets\<close>

lemma update_keys_distinct: "distinct (map fst m) \<Longrightarrow> distinct (map fst (foldl (\<lambda>m (k, v). AList.update k v m) m l))"
  by (induction l arbitrary: m) (auto simp: distinct_update)

lemma secrets_distinct: "distinct (map fst (secrets_of j))"
proof -
  have "distinct (map fst (foldl (\<lambda>m x. AList.update (f x) (g x) m) m l))" if "distinct (map fst m)"
    for f g :: "jval \<Rightarrow> string" and m l
    using that by (induction l arbitrary: m) (auto simp: distinct_update)
  then show ?thesis by (simp add: secrets_of_def)
qed

lemma map_of_updates: "map_of (foldl (\<lambda>m (k, v). AList.update k v m) m l) = map_of m ++ map_of (rev l)"
proof (induction l arbitrary: m)
  case (Cons x l)
  obtain k v where x: "x = (k, v)" by (cases x)
  show ?case by (simp add: x Cons.IH update_conv' map_add_def fun_eq_iff split: option.split)
qed simp

lemma texts_read: "text_members (map (\<lambda>(k, v). (k, JStr v)) l) = Some l"
  by (induction l) auto

text \<open>The texts that the server sends are the ones the client reads.\<close>

lemma secrets_read:
  assumes "distinct (map fst m)"
  shows "\<exists>m'. decode_secrets (Some (secrets_json m)) = Some m' \<and> map_of m' = map_of m \<and> distinct (map fst m')"
proof -
  let ?l = "sort_key fst m"
  have d: "distinct (map fst ?l)"
    using assms by (simp add: distinct_map inj_on_def)
  have "map_of (rev ?l) = map_of ?l" using d by (subst map_of_inject_set) (simp_all add: rev_map [symmetric])
  moreover have "map_of ?l = map_of m" using d assms by (simp add: map_of_inject_set)
  ultimately show ?thesis
    using update_keys_distinct [of "[]" ?l]
    by (simp add: decode_secrets_def secrets_json_def members_of_def texts_read map_of_updates)
qed

definition permutes_maps :: "((string \<times> string) list \<Rightarrow> (string \<times> string) list) \<Rightarrow> bool" where
  "permutes_maps ord \<longleftrightarrow> (\<forall>m. distinct (map fst m) \<longrightarrow> distinct (map fst (ord m)) \<and> set (ord m) = set m)"

definition env_with :: "(string \<Rightarrow> string option) \<Rightarrow> (string \<Rightarrow> string) \<Rightarrow> string \<Rightarrow> string" where
  "env_with m e k = (if e k \<noteq> [] then e k else case m k of Some v \<Rightarrow> if settable k v then v else [] | None \<Rightarrow> [])"

lemma set_missing_env: "set_missing (k, v) w = Some (Inr (), w\<lparr>hw_env := env_with [k \<mapsto> v] (hw_env w)\<rparr>)"
proof -
  have "env_with [k \<mapsto> v] (hw_env w) = (if hw_env w k = [] \<and> settable k v then (hw_env w)(k := v) else hw_env w)"
    by (auto simp: env_with_def fun_eq_iff)
  then show ?thesis by (simp add: set_missing_def chk_def env_def setenv_def ret_def)
qed

lemma set_all_env:
  assumes "distinct (map fst l)"
  shows "\<exists>w'. for_each set_missing l w = Some (Inr (), w') \<and> hw_env w' = env_with (map_of l) (hw_env w) \<and> hw_log w' = hw_log w"
  using assms
proof (induction l arbitrary: w)
  case Nil
  show ?case by (simp add: ret_def env_with_def fun_eq_iff)
next
  case (Cons x l)
  obtain k v where x: "x = (k, v)" by (cases x)
  let ?w = "w\<lparr>hw_env := env_with [k \<mapsto> v] (hw_env w)\<rparr>"
  have "distinct (map fst l)" using Cons.prems by simp
  from Cons.IH [OF this, of ?w] obtain w' where w': "for_each set_missing l ?w = Some (Inr (), w')"
      "hw_env w' = env_with (map_of l) (hw_env ?w)" "hw_log w' = hw_log ?w" by blast
  have "map_of l k = None" using Cons.prems by (simp add: x map_of_eq_None_iff)
  then have "env_with (map_of l) (env_with [k \<mapsto> v] (hw_env w)) = env_with (map_of (x # l)) (hw_env w)"
    by (auto simp: env_with_def fun_eq_iff x)
  with w' show ?case by (simp add: x set_missing_env chk_def fun_upd_def)
qed

text \<open>
  C40: the secrets that the gateway reads from Infisical are those a service starts with: if its request is
  answered with what the gateway's handler answers, then every variable that was set keeps its value, and
  every other one has the value of the secret of its name, whatever the order in which they are set.
\<close>
theorem services_start_with_the_secrets:
  assumes "handleSecrets E S r v = Some (Inr resp, v')" "rs_Code resp = 200"
    and "answers (te_machine E2) (hw_log w) (HHttp ''GET'' url hs None) = HStatus 200 body"
    and "te_json E2 body = Some (rs_Body resp)" "te_url E2 url" "permutes_maps (te_order E2)"
    and "hw_env w ''TAPR_URL'' @ ''/secrets'' = url" "hw_env w ''TAPR_URL'' \<noteq> []"
    and "hs = (if hw_env w ''TAPR_AUTH_TOKEN'' = [] then [] else bearer_header (hw_env w ''TAPR_AUTH_TOKEN''))"
  shows "\<exists>secrets w'. fetchAllSecrets E S v = Some (Inr secrets, v') \<and> MustLoadSecrets E2 cx w = Some (Inr (), w') \<and>
     hw_env w' = env_with (map_of secrets) (hw_env w)"
proof -
  obtain secrets where f: "fetchAllSecrets E S v = Some (Inr secrets, v')" "resp = reply 200 (secrets_json secrets)"
    using assms(1,2) by (auto simp: handleSecrets_def attempt_def ret_def split: if_splits option.splits sum.splits)
  have d: "distinct (map fst secrets)"
    using f(1) secrets_distinct by (auto simp: fetchAllSecrets_def elim!: chk_InrE split: if_splits prod.splits)
  obtain m where m: "decode_secrets (Some (secrets_json secrets)) = Some m" "map_of m = map_of secrets" "distinct (map fst m)"
    using secrets_read [OF d] by blast
  have o: "distinct (map fst (te_order E2 m))" "set (te_order E2 m) = set m"
    using assms(6) m(3) by (auto simp: permutes_maps_def)
  have om: "map_of (te_order E2 m) = map_of secrets"
    using o m(2,3) by (metis map_of_inject_set)
  let ?w = "w\<lparr>hw_log := hw_log w @ [(HHttp ''GET'' url hs None, HStatus 200 body)]\<rparr>"
  let ?c = "\<lparr>sc_url = hw_env w ''TAPR_URL'', sc_authToken = hw_env w ''TAPR_AUTH_TOKEN''\<rparr>"
  have c: "NewClient cx w = Some (Inr ?c, w)"
    using assms(8) by (simp add: NewClient_def chk_def env_def ret_def)
  have "doRequest E2 ?c ''GET'' url = sent E2 (HHttp ''GET'' url hs None)"
    using assms(5) by (simp add: doRequest_def assms(9))
  then have q: "doRequest E2 ?c ''GET'' url w = Some (Inr (200, body), ?w)"
    using assms(3) by (simp add: sent_def chk_def ask_def ret_def Let_def)
  have l: "LoadSecrets E2 ?c w = Some (Inr m, ?w)"
    using q assms(4,7) m(1) f(2) by (simp add: LoadSecrets_def chk_def ret_def)
  obtain w' where w': "for_each set_missing (te_order E2 m) ?w = Some (Inr (), w')" "hw_env w' = env_with (map_of secrets) (hw_env w)"
    using set_all_env [OF o(1), of ?w] om by auto
  show ?thesis
    using f(1) w' by (simp add: MustLoadSecrets_def chk_def attempt_def c l w'(1) sayln_def say_def)
qed

subsection \<open>Instances\<close>

definition demo_db :: infisical_db where
  "demo_db = \<lparr>db_org = None, db_user = \<lambda>_. None, db_key = \<lambda>_. None, db_member = \<lambda>_. None, db_role = \<lambda>_. None,
     db_session = \<lambda>_. None, db_rows = 0\<rparr>"

definition demo_answer :: "hlog \<Rightarrow> hcmd \<Rightarrow> hans" where
  "demo_answer xs c = (case c of
       HSql q args \<Rightarrow>
         if q \<in> set selects then
           (case sql_row (db_after demo_db xs) q args of Some i \<Rightarrow> HNames [i] | None \<Rightarrow> HErr [] ''sql: no rows in result set'')
         else HOk []
     | HHttp m url hs body \<Rightarrow> HStatus 200 (if HasSuffix url ''/workspace'' then ''w'' else if url = ''http://tapr/secrets'' then ''b'' else ''s'')
     | HMeasure what \<Rightarrow> HNames [''5'']
     | _ \<Rightarrow> HOk [])"

definition demo_json :: "string \<Rightarrow> jval option" where
  "demo_json t =
     (if t = ''w'' then Some (JObj [(''workspaces'', JArr [JObj [(''id'', JStr ''1''), (''name'', JStr ''packalares-system'')]])])
      else if t = ''s'' then Some (JObj [(''secrets'', JArr [JObj [(''secretKey'', JStr ''A''), (''secretValue'', JStr ''x'')]])])
      else Some (JObj [(''A'', JStr ''x'')]))"

definition demo_tapr_env :: tapr_env where
  "demo_tapr_env = \<lparr>te_machine = \<lparr>answers = demo_answer, goos = [], goarch = [], pemEncode = \<lambda>_ _. []\<rparr>,
     te_ciphers = \<lparr>ci_seal = \<lambda>k n t. t @ replicate 16 CHR ''0'', ci_open = \<lambda>k n c. Some (take (length c - 16) c),
       ci_box_seal = \<lambda>m n p s. m, ci_box_open = \<lambda>c n p s. Some c, ci_pair = \<lambda>_ _. True\<rparr>,
     te_sign = \<lambda>_ _. Inr ''t'', te_url = \<lambda>_. True, te_order = \<lambda>m. m, te_json = demo_json, te_json_text = \<lambda>_. []\<rparr>"

definition demo_seed :: SeedConfig where
  "demo_seed = \<lparr>sd_PGDSN = ''dsn'', sd_Email = ''admin@a.io'', sd_Username = ''admin'', sd_Password = ''pw'', sd_OrgName = ''Packalares'',
     sd_ProjectName = project_name\<rparr>"

definition demo_tapr :: tapr where
  "demo_tapr = \<lparr>tp_infisicalURL = ''http://infisical'', tp_jwtSecret = ''secret'', tp_userID = [], tp_orgID = [], tp_sessionID = [],
     tp_publicKey = [], tp_privateKey = [], tp_password = [], tp_pgDSN = [], tp_authToken = []\<rparr>"

definition demo_service_host :: host where
  "demo_service_host = \<lparr>hw_log = [], hw_env = (\<lambda>k. if k = ''TAPR_URL'' then ''http://tapr'' else []), hw_out = []\<rparr>"

abbreviation gives_some :: "'a act \<Rightarrow> bool" where
  "gives_some \<equiv> meets (\<lambda>_. True) (gives (\<lambda>_. True))"

lemma gives_then: "gives_some m \<Longrightarrow> (\<And>a. gives_some (f a)) \<Longrightarrow> gives_some (chk msg m f)"
  by (rule meets_chk [where R = "gives (\<lambda>_. True)"]) auto

lemma gives_ask: "gives_some (ask M c)"
  by (rule meets_ask) simp

lemma gives_ret: "gives_some (ret a)"
  by (rule meets_ret) simp

lemma gives_call:
  assumes "\<And>xs. \<not> failed (answers M xs c)"
  shows "gives_some (call M c)"
  unfolding meets_def
proof
  fix w
  show "\<exists>r w' xs. call M c w = Some (r, w') \<and> hw_log w' = hw_log w @ xs \<and> (\<forall>(c, a) \<in> set xs. True) \<and> gives (\<lambda>_. True) r"
    using assms [of "hw_log w"]
    by (cases "answers M (hw_log w) c") (simp_all add: call_def chk_def ask_def ret_def Let_def failed_def)
qed

lemma demo_calls:
  "\<not> failed (answers (te_machine demo_tapr_env) xs (HRandom n))" "\<not> failed (answers (te_machine demo_tapr_env) xs (HMeasure t))"
  "q \<notin> set selects \<Longrightarrow> \<not> failed (answers (te_machine demo_tapr_env) xs (HSql q args))"
  by (simp_all add: demo_tapr_env_def demo_answer_def failed_def)

lemma query_gives: "gives_some (query_row M q args)"
  unfolding query_row_def by (rule meets_attempt [OF does_ask]) (simp_all add: meets_ret)

lemma exec_gives: "q \<notin> set selects \<Longrightarrow> gives_some (exec_sql (te_machine demo_tapr_env) q args)"
  unfolding exec_sql_def by (intro gives_then gives_call gives_ret demo_calls)

lemma not_selected: "insert_org \<notin> set selects" "insert_user \<notin> set selects" "insert_key \<notin> set selects" "insert_member \<notin> set selects"
    "insert_role \<notin> set selects" "insert_session \<notin> set selects" "update_key \<notin> set selects" "''open'' \<notin> set selects"
  using statements by (auto simp: inserts_def)

lemma rows_given: "gives_some (seed_rows (te_machine demo_tapr_env) c fresh keys)"
proof -
  have i: "gives_some (ignoring (exec_sql (te_machine demo_tapr_env) insert_role as) (ret ()))" for as
    unfolding ignoring_def by (rule meets_attempt [OF exec_gives [OF not_selected(5)]]) (simp add: meets_ret)
  show ?thesis
    unfolding seed_rows_def ensure_org_def ensure_user_def ensure_keys_def ensure_membership_def ensure_role_def ensure_session_def
      new_uuid_def Let_def
    by (auto intro!: gives_then gives_ask gives_ret query_gives exec_gives i simp: not_selected split: option.split)
qed

lemma ready_given: "meets (\<lambda>_. True) (gives (\<lambda>b. b)) (infisical_ready (te_machine demo_tapr_env))"
proof -
  have n: "(120 :: nat) = Suc 119" by simp
  have "poll 120 m = chk [] m (\<lambda>ok. if ok then ret True else poll 119 m)" for m
    by (rule ext) (simp only: n poll.simps)
  then show ?thesis
    by (auto simp: infisical_ready_def meets_def chk_def ask_def ret_def Let_def demo_tapr_env_def demo_answer_def)
qed

lemma seed_given: "gives_some (Seed demo_tapr_env c)"
proof -
  have n: "gives_some (names (te_machine demo_tapr_env) (HMeasure t))" for t
    by (auto simp: meets_def names_def chk_def ask_def ret_def Let_def demo_tapr_env_def demo_answer_def)
  have e: "gives_some (Encrypt (te_machine demo_tapr_env) C t (PadPasswordTo32 p))" for C t p
    unfolding Encrypt_def
    by (intro gives_then gives_call demo_calls) (simp add: gcm_encrypt_def padded_key Let_def gives_ret)
  have r: "gives_some (randomBytes (te_machine demo_tapr_env) k)" for k
    unfolding randomBytes_def or_else_def by (rule meets_attempt [OF does_call]) (simp_all add: meets_ret)
  show ?thesis
    unfolding Seed_def Let_def new_uuid_def
    by (intro gives_then gives_call demo_calls not_selected meets_chk [OF ready_given])
      (auto intro!: gives_then n e r gives_ask gives_ret rows_given split: prod.split)
qed


theorem services_start_with_the_secrets_witness:
  "\<exists>w'. MustLoadSecrets demo_tapr_env sample_ctx demo_service_host = Some (Inr (), w') \<and> hw_env w' ''A'' = ''x''"
proof -
  define r where "r = \<lparr>rq_Method = ''GET'', rq_Path = ''/secrets'', rq_Query = [], rq_Host = [], rq_RemoteAddr = [], rq_Header = [],
     rq_Cookies = [], rq_Body = None\<rparr>"
  have "map_option fst (fetchAllSecrets demo_tapr_env demo_tapr demo_service_host) = Some (Inr [(''A'', ''x'')])" by code_simp
  then obtain v' where f: "fetchAllSecrets demo_tapr_env demo_tapr demo_service_host = Some (Inr [(''A'', ''x'')], v')" by auto
  then have h: "handleSecrets demo_tapr_env demo_tapr r demo_service_host = Some (Inr (reply 200 (secrets_json [(''A'', ''x'')])), v')"
    by (simp add: handleSecrets_def attempt_def r_def ret_def)
  have u: "hw_env demo_service_host ''TAPR_URL'' = ''http://tapr''" "hw_env demo_service_host ''TAPR_AUTH_TOKEN'' = []"
    by (simp_all add: demo_service_host_def)
  have a: "answers (te_machine demo_tapr_env) (hw_log demo_service_host) (HHttp ''GET'' ''http://tapr/secrets'' [] None) = HStatus 200 ''b''"
    by code_simp
  have j: "te_json demo_tapr_env ''b'' = Some (rs_Body (reply 200 (secrets_json [(''A'', ''x'')])))" by code_simp
  have t: "te_url demo_tapr_env ''http://tapr/secrets''" "permutes_maps (te_order demo_tapr_env)"
    by (simp_all add: demo_tapr_env_def permutes_maps_def)
  have c: "rs_Code (reply 200 (secrets_json [(''A'', ''x'')])) = 200" by simp
  obtain secrets w' where w': "fetchAllSecrets demo_tapr_env demo_tapr demo_service_host = Some (Inr secrets, v')"
      "MustLoadSecrets demo_tapr_env sample_ctx demo_service_host = Some (Inr (), w')"
      "hw_env w' = env_with (map_of secrets) (hw_env demo_service_host)"
    using services_start_with_the_secrets [OF h c a j t, of sample_ctx] u by auto
  have "hw_env w' ''A'' = ''x''"
    using w'(1,3) f by (simp add: env_with_def demo_service_host_def settable_def)
  with w'(2) show ?thesis by blast
qed

end
