(* ===== verification/L4_Sni.thy ===== *)
theory L4_Sni
  imports Prelude "HOL-Library.Word"
begin

text \<open>
  \<^verbatim>\<open>internal/l4proxy/sni.go\<close>: reading a TLS ClientHello and extracting the SNI host name.
  Every index and slice expression of the code is the checked \<^term>\<open>idx\<close> or
  \<^const>\<open>slice_of\<close>, so \<^term>\<open>None\<close> is a run-time panic; the theorems show it is never the
  result, and that the parser inverts the wire format.
\<close>

type_synonym byte = "8 word"
type_synonym bytes = "byte list"

definition str_of_bytes :: "bytes \<Rightarrow> string" where
  "str_of_bytes bs = map (\<lambda>b. char_of (unat b)) bs"

definition bytes_of_str :: "string \<Rightarrow> bytes" where
  "bytes_of_str s = map (\<lambda>c. of_nat (of_char c)) s"

text \<open>\<^verbatim>\<open>int(data[i])<<8 | int(data[i+1])\<close>, and the three-byte form.\<close>

definition be16 :: "bytes \<Rightarrow> nat \<Rightarrow> nat option" where
  "be16 d i = do { a \<leftarrow> idx d i; b \<leftarrow> idx d (i + 1); Some (unat a * 256 + unat b) }"

definition be24 :: "bytes \<Rightarrow> nat \<Rightarrow> nat option" where
  "be24 d i = do { a \<leftarrow> idx d i; b \<leftarrow> idx d (i + 1); c \<leftarrow> idx d (i + 2);
                   Some (unat a * 65536 + unat b * 256 + unat c) }"

subsection \<open>The SNI extension\<close>

function sni_loop :: "bytes \<Rightarrow> nat \<Rightarrow> nat \<Rightarrow> string option" where
  "sni_loop d listLen pos =
     (if pos + 3 \<le> listLen then do {
        nameType \<leftarrow> idx d pos;
        nameLen \<leftarrow> be16 d (pos + 1);
        let pos = pos + 3;
        if pos + nameLen > listLen then Some []
        else if nameType = 0 then map_option str_of_bytes (slice_of d pos (pos + nameLen))
        else sni_loop d listLen (pos + nameLen)
      } else Some [])"
  by pat_completeness auto
termination
  by (relation "measure (\<lambda>(d, listLen, pos). listLen - pos)") auto

declare sni_loop.simps [simp del]

definition parseSNIExtension :: "bytes \<Rightarrow> string option" where
  "parseSNIExtension d =
     (if length d < 2 then Some []
      else do {
        listLen \<leftarrow> be16 d 0;
        d \<leftarrow> slice_of d 2 (length d);
        let listLen = (if listLen > length d then length d else listLen);
        sni_loop d listLen 0
      })"

subsection \<open>The handshake message\<close>

function ext_loop :: "bytes \<Rightarrow> nat \<Rightarrow> nat \<Rightarrow> string option" where
  "ext_loop d extEnd pos =
     (if pos + 4 \<le> extEnd then do {
        extType \<leftarrow> be16 d pos;
        extDataLen \<leftarrow> be16 d (pos + 2);
        let pos = pos + 4;
        if pos + extDataLen > extEnd then Some []
        else if extType = 0 then slice_of d pos (pos + extDataLen) \<bind> parseSNIExtension
        else ext_loop d extEnd (pos + extDataLen)
      } else Some [])"
  by pat_completeness auto
termination
  by (relation "measure (\<lambda>(d, extEnd, pos). extEnd - pos)") auto

declare ext_loop.simps [simp del]

definition extractSNI :: "bytes \<Rightarrow> string option" where
  "extractSNI d =
     (if length d < 4 then Some []
      else do {
        t \<leftarrow> idx d 0;
        if t \<noteq> 1 then Some []
        else do {
          handshakeLen \<leftarrow> be24 d 1;
          let handshakeLen = (if handshakeLen > length d - 4 then length d - 4 else handshakeLen);
          d \<leftarrow> slice_of d 4 (4 + handshakeLen);
          if length d < 34 then Some []
          else let pos = 34 in
          if pos \<ge> length d then Some []
          else do {
            sessionIDLen \<leftarrow> idx d pos;
            let pos = pos + 1 + unat sessionIDLen;
            if pos + 2 > length d then Some []
            else do {
              cipherLen \<leftarrow> be16 d pos;
              let pos = pos + 2 + cipherLen;
              if pos \<ge> length d then Some []
              else do {
                compLen \<leftarrow> idx d pos;
                let pos = pos + 1 + unat compLen;
                if pos + 2 > length d then Some []
                else do {
                  extLen \<leftarrow> be16 d pos;
                  let pos = pos + 2;
                  let extEnd = (if pos + extLen > length d then length d else pos + extLen);
                  ext_loop d extEnd pos
                }
              }
            }
          }
        }
      })"

subsection \<open>Reading the record\<close>

text \<open>
  \<^verbatim>\<open>io.ReadFull\<close> on a connection that will deliver the bytes \<open>s\<close> and then end: all
  of the \<open>n\<close> bytes, or an error with what there was.
\<close>

definition ReadFull :: "bytes \<Rightarrow> nat \<Rightarrow> bool \<times> bytes \<times> bytes" where
  "ReadFull s n = (n \<le> length s, take n s, drop n s)"

datatype hello_error = HeaderRead | RecordTooLarge nat | PayloadRead

record hello_result =
  sniName :: string
  helloBytes :: bytes
  helloErr :: "hello_error option"

text \<open>The result of \<^verbatim>\<open>readClientHello\<close>, with the bytes left on the connection; \<^term>\<open>None\<close> is a panic.\<close>

definition readClientHello :: "bytes \<Rightarrow> (hello_result \<times> bytes) option" where
  "readClientHello conn =
     (case ReadFull conn 5 of (ok, header, rest) \<Rightarrow>
        if \<not> ok then Some (\<lparr>sniName = [], helloBytes = [], helloErr = Some HeaderRead\<rparr>, rest)
        else do {
          ct \<leftarrow> idx header 0;
          if ct \<noteq> 22 then Some (\<lparr>sniName = [], helloBytes = header, helloErr = None\<rparr>, rest)
          else do {
            recordLen \<leftarrow> be16 header 3;
            if recordLen > 16384
            then Some (\<lparr>sniName = [], helloBytes = header,
                        helloErr = Some (RecordTooLarge recordLen)\<rparr>, rest)
            else (case ReadFull rest recordLen of (ok, payload, rest') \<Rightarrow>
              if \<not> ok
              then Some (\<lparr>sniName = [], helloBytes = header @ payload,
                          helloErr = Some PayloadRead\<rparr>, rest')
              else do {
                sn \<leftarrow> extractSNI payload;
                Some (\<lparr>sniName = sn, helloBytes = header @ payload, helloErr = None\<rparr>, rest')
              })
          }
        })"

subsection \<open>No input makes the parser panic\<close>

lemma be16_Some:
  "i + 1 < length d \<Longrightarrow> be16 d i = Some (unat (d ! i) * 256 + unat (d ! (i + 1)))"
  by (simp add: be16_def idx_Some)

lemma be24_Some:
  "i + 2 < length d \<Longrightarrow>
   be24 d i = Some (unat (d ! i) * 65536 + unat (d ! (i + 1)) * 256 + unat (d ! (i + 2)))"
  by (simp add: be24_def idx_Some)

lemma no_panic_be16 [no_panic]: "i + 1 < length d \<Longrightarrow> be16 d i \<noteq> None"
  by (simp add: be16_Some)

lemma no_panic_be24 [no_panic]: "i + 2 < length d \<Longrightarrow> be24 d i \<noteq> None"
  by (simp add: be24_Some)

lemma sni_loop_no_panic: "listLen \<le> length d \<Longrightarrow> sni_loop d listLen pos \<noteq> None"
proof (induction d listLen pos rule: sni_loop.induct)
  case (1 d listLen pos)
  show ?case
    by (subst sni_loop.simps) (intro no_panic; use 1 in \<open>simp; fail\<close>)
qed

lemma parseSNIExtension_no_panic [no_panic]: "parseSNIExtension d \<noteq> None"
  unfolding parseSNIExtension_def
  by (intro no_panic sni_loop_no_panic) (auto dest: slice_of_SomeD)

lemma ext_loop_no_panic: "extEnd \<le> length d \<Longrightarrow> ext_loop d extEnd pos \<noteq> None"
proof (induction d extEnd pos rule: ext_loop.induct)
  case (1 d extEnd pos)
  show ?case
    by (subst ext_loop.simps) (intro no_panic; use 1 in \<open>simp; fail\<close>)
qed

lemma extractSNI_no_panic [no_panic]: "extractSNI d \<noteq> None"
  unfolding extractSNI_def
  by (intro no_panic ext_loop_no_panic) (auto dest: slice_of_SomeD)

lemma readClientHello_no_panic: "readClientHello conn \<noteq> None"
  unfolding readClientHello_def ReadFull_def by (intro no_panic) auto

subsection \<open>The wire format (RFC 8446, RFC 6066) as an encoder\<close>

text \<open>
  The specification the parser is checked against: a ClientHello as a structure and its
  encoding. \<open>SniExt\<close> is the \<^verbatim>\<open>server_name\<close> extension (type 0) with its list of typed
  names, \<open>OtherExt\<close> any other extension.
\<close>

datatype ext = SniExt "(byte \<times> bytes) list" | OtherExt nat bytes

record hello =
  h_version :: bytes
  h_random :: bytes
  h_session :: bytes
  h_ciphers :: bytes
  h_compression :: bytes
  h_exts :: "ext list"

definition enc16 :: "nat \<Rightarrow> bytes" where
  "enc16 n = [of_nat (n div 256), of_nat n]"

definition enc24 :: "nat \<Rightarrow> bytes" where
  "enc24 n = [of_nat (n div 65536), of_nat (n div 256), of_nat n]"

definition enc_name :: "byte \<times> bytes \<Rightarrow> bytes" where
  "enc_name n = fst n # enc16 (length (snd n)) @ snd n"

definition enc_names :: "(byte \<times> bytes) list \<Rightarrow> bytes" where
  "enc_names ns = concat (map enc_name ns)"

definition sni_body :: "(byte \<times> bytes) list \<Rightarrow> bytes" where
  "sni_body ns = enc16 (length (enc_names ns)) @ enc_names ns"

fun ext_type :: "ext \<Rightarrow> nat" where
  "ext_type (SniExt ns) = 0"
| "ext_type (OtherExt t b) = t"

fun ext_body :: "ext \<Rightarrow> bytes" where
  "ext_body (SniExt ns) = sni_body ns"
| "ext_body (OtherExt t b) = b"

definition enc_ext :: "ext \<Rightarrow> bytes" where
  "enc_ext e = enc16 (ext_type e) @ enc16 (length (ext_body e)) @ ext_body e"

definition enc_exts :: "ext list \<Rightarrow> bytes" where
  "enc_exts es = concat (map enc_ext es)"

definition hello_body :: "hello \<Rightarrow> bytes" where
  "hello_body h =
     h_version h @ h_random h @ of_nat (length (h_session h)) # h_session h @
     enc16 (length (h_ciphers h)) @ h_ciphers h @
     of_nat (length (h_compression h)) # h_compression h @
     enc16 (length (enc_exts (h_exts h))) @ enc_exts (h_exts h)"

definition enc_hello :: "hello \<Rightarrow> bytes" where
  "enc_hello h = 1 # enc24 (length (hello_body h)) @ hello_body h"

fun wf_ext :: "ext \<Rightarrow> bool" where
  "wf_ext (SniExt ns) \<longleftrightarrow> length (sni_body ns) < 65536"
| "wf_ext (OtherExt t b) \<longleftrightarrow> 0 < t \<and> t < 65536 \<and> length b < 65536"

definition wf_hello :: "hello \<Rightarrow> bool" where
  "wf_hello h \<longleftrightarrow>
     length (h_version h) = 2 \<and> length (h_random h) = 32 \<and> length (h_session h) < 256 \<and>
     length (h_ciphers h) < 65536 \<and> length (h_compression h) < 256 \<and>
     length (enc_exts (h_exts h)) < 65536 \<and> list_all wf_ext (h_exts h)"

text \<open>The host the hello names: the first host name (type 0) of the first SNI extension.\<close>

fun first_host :: "(byte \<times> bytes) list \<Rightarrow> string" where
  "first_host [] = []"
| "first_host ((t, n) # ns) = (if t = 0 then str_of_bytes n else first_host ns)"

fun hello_host :: "ext list \<Rightarrow> string" where
  "hello_host [] = []"
| "hello_host (SniExt ns # es) = first_host ns"
| "hello_host (OtherExt t b # es) = hello_host es"

subsection \<open>The parser inverts the encoder\<close>

lemma length_enc16 [simp]: "length (enc16 n) = 2"
  by (simp add: enc16_def)

lemma unat_byte: "unat (of_nat n :: byte) = n mod 256"
  by (simp add: unat_of_nat)

lemma be16_enc16 [simp]: "n < 65536 \<Longrightarrow> be16 (pre @ enc16 n @ post) (length pre) = Some n"
  by (simp add: be16_def idx_append2 enc16_def unat_byte idx_def nth_append)

lemma sni_loop_enc:
  "length (enc_names ns) < 65536 \<Longrightarrow> d = pre @ enc_names ns \<Longrightarrow> p = length pre \<Longrightarrow>
   L = length d \<Longrightarrow> sni_loop d L p = Some (first_host ns)"
proof (induction ns arbitrary: pre p)
  case Nil
  then show ?case by (subst sni_loop.simps) (simp add: enc_names_def)
next
  case (Cons a ns)
  obtain t n where a: "a = (t, n)" by (cases a)
  let ?p = "pre @ t # enc16 (length n) @ n"
  have d: "d = (pre @ [t]) @ enc16 (length n) @ (n @ enc_names ns)" "d = ?p @ enc_names ns"
    using Cons.prems(2) by (simp_all add: enc_names_def enc_name_def a)
  have len: "L = length pre + 3 + length n + length (enc_names ns)"
    using d(1) Cons.prems(4) by simp
  have ln: "length n < 65536" "length (enc_names ns) < 65536"
    using Cons.prems(1) by (simp_all add: enc_names_def enc_name_def a)
  have be: "be16 d (p + 1) = Some (length n)"
    unfolding d(1) Cons.prems(3) using be16_enc16 [OF ln(1), of "pre @ [t]"] by simp
  have ix: "idx d p = Some t"
    unfolding d(2) Cons.prems(3) by (simp add: idx_def nth_append)
  have sl: "slice_of d (p + 3) (p + 3 + length n) = Some n"
    unfolding d(1) Cons.prems(3) by (simp add: enc16_def slice_of_Some)
  have lim: "p + 3 + length n \<le> L" using len Cons.prems(3) by simp
  have rec: "sni_loop d L (p + 3 + length n) = Some (first_host ns)"
    using ln(2) d(2) by (rule Cons.IH) (use Cons.prems in simp_all)
  show ?case
    by (subst sni_loop.simps)
      (use lim in \<open>simp add: ix be [simplified] rec sl a Let_def\<close>)
qed

lemma parseSNIExtension_enc:
  assumes "length (sni_body ns) < 65536"
  shows "parseSNIExtension (sni_body ns) = Some (first_host ns)"
proof -
  have l: "length (enc_names ns) < 65536" using assms by (simp add: sni_body_def)
  have be: "be16 (sni_body ns) 0 = Some (length (enc_names ns))"
    using be16_enc16 [OF l, of "[]" "enc_names ns"] by (simp add: sni_body_def)
  have dr: "drop 2 (sni_body ns) = enc_names ns" by (simp add: sni_body_def)
  show ?thesis
    using sni_loop_enc [OF l, of _ "[]" 0] dr
    by (simp add: parseSNIExtension_def be slice_of_Some) (simp add: sni_body_def)
qed

lemma length_enc_ext: "length (enc_ext e) = 4 + length (ext_body e)"
  by (simp add: enc_ext_def)

lemma ext_loop_enc:
  "list_all wf_ext es \<Longrightarrow> d = pre @ enc_exts es \<Longrightarrow> p = length pre \<Longrightarrow> L = length d \<Longrightarrow>
   ext_loop d L p = Some (hello_host es)"
proof (induction es arbitrary: pre p)
  case Nil
  then show ?case by (subst ext_loop.simps) (simp add: enc_exts_def)
next
  case (Cons e es)
  let ?b = "ext_body e"
  have d: "d = pre @ enc16 (ext_type e) @ (enc16 (length ?b) @ ?b @ enc_exts es)"
    "d = (pre @ enc16 (ext_type e)) @ enc16 (length ?b) @ (?b @ enc_exts es)"
    "d = (pre @ enc_ext e) @ enc_exts es"
    using Cons.prems(2) by (simp_all add: enc_exts_def enc_ext_def)
  have wf: "ext_type e < 65536" "length ?b < 65536" "wf_ext e" "list_all wf_ext es"
    using Cons.prems(1) by (cases e; simp)+
  have len: "L = length pre + 4 + length ?b + length (enc_exts es)"
    using d(1) Cons.prems(4) by simp
  have t: "be16 d p = Some (ext_type e)"
    unfolding d(1) Cons.prems(3) using wf(1) by (rule be16_enc16)
  have l: "be16 d (p + 2) = Some (length ?b)"
    unfolding d(2) Cons.prems(3) using be16_enc16 [OF wf(2), of "pre @ enc16 (ext_type e)"] by simp
  have sl: "slice_of d (p + 4) (p + 4 + length ?b) = Some ?b"
    unfolding d(1) Cons.prems(3) by (simp add: enc16_def slice_of_Some)
  have lim: "p + 4 + length ?b \<le> L" using len Cons.prems(3) by simp
  have rec: "ext_loop d L (p + 4 + length ?b) = Some (hello_host es)"
    using wf(4) d(3) by (rule Cons.IH) (use Cons.prems in \<open>simp_all add: length_enc_ext\<close>)
  have ps: "parseSNIExtension ?b = Some (hello_host (e # es))" if "ext_type e = 0"
    using that wf(3) by (cases e) (simp_all add: parseSNIExtension_enc)
  have hh: "hello_host (e # es) = hello_host es" if "ext_type e \<noteq> 0"
    using that by (cases e) simp_all
  show ?case
    by (subst ext_loop.simps)
      (use lim in \<open>simp add: t l [simplified] sl rec ps hh Let_def\<close>)
qed

lemma be24_enc24: "n < 16777216 \<Longrightarrow> be24 (pre @ enc24 n @ post) (length pre) = Some n"
proof -
  assume "n < 16777216"
  then have a: "n div 65536 mod 256 = n div 65536" by (simp add: less_mult_imp_div_less)
  have b: "n div 65536 * 256 + n div 256 mod 256 = n div 256"
    using div_mult_mod_eq [of "n div 256" 256] by (simp add: div_mult2_eq [symmetric])
  have c: "n div 256 * 256 + n mod 256 = n" by (rule div_mult_mod_eq)
  have "n div 65536 * 65536 + n div 256 mod 256 * 256 + n mod 256 = n"
    using b c by linarith
  then show ?thesis using a
    by (simp add: be24_def idx_append2 enc24_def unat_byte idx_def nth_append)
qed

lemma length_hello_body:
  "wf_hello h \<Longrightarrow> length (hello_body h) =
     40 + length (h_session h) + length (h_ciphers h) + length (h_compression h) +
     length (enc_exts (h_exts h))"
  by (simp add: hello_body_def wf_hello_def)

text \<open>The body after each of its variable parts, as the parser's position moves through it.\<close>

lemma hello_body_parts:
  assumes "wf_hello h"
  defines "d \<equiv> hello_body h"
  defines "p1 \<equiv> 35 + length (h_session h)"
  defines "p2 \<equiv> p1 + 2 + length (h_ciphers h)"
  defines "p3 \<equiv> p2 + 1 + length (h_compression h)"
  shows "idx d 34 = Some (of_nat (length (h_session h)))"
    and "be16 d p1 = Some (length (h_ciphers h))"
    and "idx d p2 = Some (of_nat (length (h_compression h)))"
    and "be16 d p3 = Some (length (enc_exts (h_exts h)))"
    and "ext_loop d (length d) (p3 + 2) = Some (hello_host (h_exts h))"
    and "length d = p3 + 2 + length (enc_exts (h_exts h))"
proof -
  let ?v = "h_version h @ h_random h"
  let ?s = "?v @ of_nat (length (h_session h)) # h_session h"
  let ?c = "?s @ enc16 (length (h_ciphers h)) @ h_ciphers h"
  let ?k = "?c @ of_nat (length (h_compression h)) # h_compression h"
  let ?e = "enc16 (length (enc_exts (h_exts h)))"
  have wf: "length (h_version h) = 2" "length (h_random h) = 32" "length (h_ciphers h) < 65536"
    "length (enc_exts (h_exts h)) < 65536" "list_all wf_ext (h_exts h)"
    using assms(1) by (simp_all add: wf_hello_def)
  have l: "length ?s = p1" "length ?c = p2" "length ?k = p3"
    using wf by (simp_all add: p1_def p2_def p3_def)
  have d: "d = ?v @ of_nat (length (h_session h)) # (h_session h @
        enc16 (length (h_ciphers h)) @ h_ciphers h @
        of_nat (length (h_compression h)) # h_compression h @ ?e @ enc_exts (h_exts h))"
    "d = ?s @ enc16 (length (h_ciphers h)) @
        (h_ciphers h @ of_nat (length (h_compression h)) # h_compression h @ ?e @ enc_exts (h_exts h))"
    "d = ?c @ of_nat (length (h_compression h)) # (h_compression h @ ?e @ enc_exts (h_exts h))"
    "d = ?k @ ?e @ enc_exts (h_exts h)"
    "d = (?k @ ?e) @ enc_exts (h_exts h)"
    by (simp_all add: d_def hello_body_def)
  show "idx d 34 = Some (of_nat (length (h_session h)))"
    unfolding d(1) using wf by (simp add: idx_def nth_append)
  show "be16 d p1 = Some (length (h_ciphers h))"
    unfolding d(2) l(1) [symmetric] using wf(3) by (rule be16_enc16)
  show "idx d p2 = Some (of_nat (length (h_compression h)))"
    unfolding d(3) l(2) [symmetric] by (simp only: idx_append2 le_refl diff_self_eq_0) (simp add: idx_def)
  show "be16 d p3 = Some (length (enc_exts (h_exts h)))"
    unfolding d(4) l(3) [symmetric] using wf(4) by (rule be16_enc16)
  show len: "length d = p3 + 2 + length (enc_exts (h_exts h))"
    unfolding d(4) l(3) [symmetric] by simp
  have p: "p3 + 2 = length (?k @ ?e)" unfolding l(3) [symmetric] by simp
  show "ext_loop d (length d) (p3 + 2) = Some (hello_host (h_exts h))"
    using wf(5) d(5) p refl by (rule ext_loop_enc)
qed

lemma extractSNI_enc_hello:
  assumes "wf_hello h"
  shows "extractSNI (enc_hello h @ junk) = Some (hello_host (h_exts h))"
proof -
  let ?b = "hello_body h"
  have wf: "length (h_session h) < 256" "length (h_ciphers h) < 65536"
    "length (h_compression h) < 256" "length (enc_exts (h_exts h)) < 65536"
    using assms by (simp_all add: wf_hello_def)
  have lb: "length ?b < 16777216" using length_hello_body [OF assms] wf by simp
  have d: "enc_hello h @ junk = [1] @ enc24 (length ?b) @ (?b @ junk)"
    by (simp add: enc_hello_def)
  have b24: "be24 (enc_hello h @ junk) 1 = Some (length ?b)"
    unfolding d using be24_enc24 [OF lb, of "[1]"] by simp
  have sl: "slice_of (enc_hello h @ junk) 4 (4 + length ?b) = Some ?b"
    by (simp add: enc_hello_def enc24_def slice_of_Some)
  have len: "length (enc_hello h @ junk) = 4 + length ?b + length junk"
    by (simp add: enc_hello_def enc24_def)
  have i0: "idx (enc_hello h @ junk) 0 = Some 1" by (simp add: enc_hello_def idx_def)
  have un: "unat (of_nat (length (h_session h)) :: byte) = length (h_session h)"
    "unat (of_nat (length (h_compression h)) :: byte) = length (h_compression h)"
    using wf by (simp_all add: unat_byte)
  note lb' = length_hello_body [OF assms]
  note parts = hello_body_parts [OF assms, simplified lb', simplified]
  show ?thesis
    unfolding extractSNI_def
    using len
    by (simp add: i0 b24 [simplified lb', simplified] sl [simplified lb', simplified] lb' un parts
      Let_def del: append_assoc)
      (use hello_body_parts(5) [OF assms] in \<open>simp add: lb' ac_simps\<close>)
qed

subsection \<open>The connection level\<close>

definition enc_record :: "bytes \<Rightarrow> bytes" where
  "enc_record payload = [22, 3, 1] @ enc16 (length payload) @ payload"

lemma readClientHello_enc:
  assumes "wf_hello h" "length (enc_hello h @ junk) \<le> 16384"
  shows "readClientHello (enc_record (enc_hello h @ junk) @ rest) =
    Some (\<lparr>sniName = hello_host (h_exts h),
           helloBytes = enc_record (enc_hello h @ junk), helloErr = None\<rparr>, rest)"
proof -
  let ?p = "enc_hello h @ junk"
  let ?hd = "[22, 3, 1] @ enc16 (length ?p)"
  have l: "length ?p < 65536" using assms(2) by simp
  have "be16 ([22, 3, 1] @ enc16 (length ?p) @ []) (length [22, 3, 1 :: byte]) = Some (length ?p)"
    using l by (rule be16_enc16)
  then have be: "be16 ?hd 3 = Some (length ?p)" by (simp add: numeral_3_eq_3)
  have rf: "ReadFull (enc_record ?p @ rest) 5 = (True, ?hd, ?p @ rest)"
    "ReadFull (?p @ rest) (length ?p) = (True, ?p, rest)"
    by (simp_all add: ReadFull_def enc_record_def enc16_def)
  have i: "idx ?hd 0 = Some 22" by (simp add: idx_def)
  have er: "?hd @ ?p = enc_record ?p" by (simp add: enc_record_def)
  show ?thesis
    unfolding readClientHello_def rf(1) prod.case i be bind.simps
    using assms(2) rf(2) extractSNI_enc_hello [OF assms(1), of junk]
    by (simp add: er [simplified] del: append_assoc)
qed

text \<open>
  C8: a connection that starts with a TLS handshake record carrying a well-formed
  ClientHello (in at most 16384 bytes, other bytes possibly following it) yields exactly
  the host name the hello carries, and the record's bytes for replay to the upstream.
\<close>
theorem readClientHello_roundtrip:
  assumes "wf_hello h" "length (enc_hello h @ junk) \<le> 16384"
  shows "readClientHello (enc_record (enc_hello h @ junk) @ rest) =
    Some (\<lparr>sniName = hello_host (h_exts h),
           helloBytes = enc_record (enc_hello h @ junk), helloErr = None\<rparr>, rest)"
  using assms by (rule readClientHello_enc)

definition sample_hello :: hello where
  "sample_hello =
     \<lparr>h_version = [3, 3], h_random = replicate 32 7, h_session = [1, 2], h_ciphers = [19, 1],
      h_compression = [0],
      h_exts = [OtherExt 10 [0, 2], SniExt [(0, bytes_of_str ''files.example'')]]\<rparr>"

theorem readClientHello_roundtrip_witness:
  "readClientHello (enc_record (enc_hello sample_hello @ []) @ [23]) =
     Some (\<lparr>sniName = ''files.example'',
            helloBytes = enc_record (enc_hello sample_hello), helloErr = None\<rparr>, [23])"
proof -
  note defs = sample_hello_def wf_hello_def enc_hello_def hello_body_def enc24_def enc_exts_def
    enc_ext_def sni_body_def enc_names_def enc_name_def bytes_of_str_def str_of_bytes_def
  have w: "wf_hello sample_hello" by (simp add: defs)
  have l: "length (enc_hello sample_hello @ []) \<le> 16384" by (simp add: defs)
  have h: "hello_host (h_exts sample_hello) = ''files.example''" by (simp add: defs) code_simp
  show ?thesis using readClientHello_roundtrip [OF w l, of "[23]"] h by simp
qed

lemma take_take_drop: "take a xs @ take b (drop a xs) @ drop (b + a) xs = xs"
  by (metis append_take_drop_id drop_drop)

text \<open>
  C30: no byte sequence makes the reader index or slice out of range, and unless the
  header itself could not be read, the bytes kept for replay followed by the bytes still
  on the connection are exactly what the client sent: the upstream sees every byte once.
\<close>
theorem readClientHello_total_replay:
  "\<exists>r rest. readClientHello conn = Some (r, rest) \<and>
     (helloErr r = Some HeaderRead \<or> helloBytes r @ rest = conn)"
proof -
  obtain r rest where eq: "readClientHello conn = Some (r, rest)"
    using readClientHello_no_panic [of conn] by (cases "readClientHello conn") auto
  then have "helloErr r = Some HeaderRead \<or> helloBytes r @ rest = conn"
    unfolding readClientHello_def ReadFull_def
    by (auto simp: bind_eq_Some_conv take_take_drop split: if_splits)
  with eq show ?thesis by blast
qed

end
