(* ===== verification/L4_Proxy.thy ===== *)
theory L4_Proxy
  imports L4_Sni Go_Net "HOL-Library.Multiset"
begin

text \<open>
  \<^verbatim>\<open>internal/l4proxy/proxy.go\<close> and \<^verbatim>\<open>types.go\<close>: the users the proxy routes for, the
  choice of a user by SNI name, the deny filter, the routing decision for a connection and
  the discovery of users from the cluster. DNS, the cluster's user list, Go's unstable sort
  and the TCP dial are parameters.
\<close>

unbundle bit_operations_syntax

record user =
  Name :: string
  UserNamespace :: string
  DID :: string
  Zone :: string
  IsEphemeral :: string
  BFLIngressSvcHost :: string
  BFLIngressSvcPort :: int
  AccessLevel :: nat
  AllowCIDRs :: "string list"
  DenyAll :: int
  AllowedDomains :: "string list"
  NgxServerNameDomains :: "string list"
  CreateTimestamp :: int
  LocalDomainIP :: string
  LocalDomain :: string

definition Less :: "user \<Rightarrow> user \<Rightarrow> bool" where
  "Less a b \<longleftrightarrow> CreateTimestamp a > CreateTimestamp b"

record Cfg =
  ListenPort :: int
  BFLServicePort :: int
  UserNSPrefix :: string
  CfgLocalDomain :: string

text \<open>The defaults of \<^verbatim>\<open>NewProxy\<close>; the arguments are \<^verbatim>\<open>OLARES_LOCAL_DOMAIN\<close> and the configured domain.\<close>

definition NewProxyCfg :: "string \<Rightarrow> string \<Rightarrow> Cfg \<Rightarrow> Cfg" where
  "NewProxyCfg envLocal dflt cfg =
     (let cfg = (if CfgLocalDomain cfg = []
                 then cfg\<lparr>CfgLocalDomain := (if envLocal = [] then dflt else envLocal)\<rparr> else cfg);
          cfg = (if UserNSPrefix cfg = [] then cfg\<lparr>UserNSPrefix := ''user-space''\<rparr> else cfg);
          cfg = (if BFLServicePort cfg = 0 then cfg\<lparr>BFLServicePort := 443\<rparr> else cfg);
          cfg = (if ListenPort cfg = 0 then cfg\<lparr>ListenPort := 443\<rparr> else cfg)
      in cfg)"

definition bflServiceName :: "string \<Rightarrow> string \<Rightarrow> string" where
  "bflServiceName userNSPrefix userName = ''bfl.'' @ userNSPrefix @ ''-'' @ userName"

subsection \<open>Matching a server name\<close>

text \<open>\<^verbatim>\<open>^[A-Za-z0-9]+-NAME\.ZONE$\<close>\<close>

definition ephemeral_pattern :: "string \<Rightarrow> string \<Rightarrow> string \<Rightarrow> bool" where
  "ephemeral_pattern name zone s =
     (let t = ''-'' @ name @ ''.'' @ zone; p = take (length s - length t) s in
      HasSuffix s t \<and> p \<noteq> [] \<and> list_all is_alnum p)"

text \<open>\<^verbatim>\<open>^[a-zA-Z0-9-]+\.?DOMAIN$\<close>\<close>

definition label_char :: "char \<Rightarrow> bool" where
  "label_char c \<longleftrightarrow> is_alnum c \<or> c = CHR ''-''"

definition subdomain_pattern :: "string \<Rightarrow> string \<Rightarrow> bool" where
  "subdomain_pattern domain s =
     (let p = take (length s - length domain) s in
      HasSuffix s domain \<and>
      ((p \<noteq> [] \<and> list_all label_char p) \<or>
       (p \<noteq> [] \<and> last p = CHR ''.'' \<and> butlast p \<noteq> [] \<and> list_all label_char (butlast p))))"

definition match_ephemeral :: "string \<Rightarrow> string \<Rightarrow> user \<Rightarrow> bool" where
  "match_ephemeral dflt serverName u =
     (ephemeral_pattern (Name u) (Zone u) serverName \<or>
      (let ldomain = (if LocalDomain u = [] then dflt else LocalDomain u) in
       ephemeral_pattern (Name u) ldomain serverName))"

definition match_admin :: "string \<Rightarrow> user \<Rightarrow> bool" where
  "match_admin serverName u =
     list_ex (\<lambda>domain. serverName = domain \<or> subdomain_pattern domain serverName)
       (NgxServerNameDomains u)"

text \<open>\<open>dflt\<close> is \<^verbatim>\<open>defaultLocalDomain()\<close>.\<close>

definition matchUser :: "string \<Rightarrow> string \<Rightarrow> user list \<Rightarrow> user option" where
  "matchUser dflt serverName users =
     (let ephemeral = filter (\<lambda>u. IsEphemeral u = ''yes'') users;
          admin = filter (\<lambda>u. IsEphemeral u \<noteq> ''yes'') users in
      case find (match_ephemeral dflt serverName) ephemeral of
        Some u \<Rightarrow> Some u
      | None \<Rightarrow> find (match_admin serverName) admin)"

subsection \<open>The deny filter\<close>

text \<open>\<^verbatim>\<open>IPNet.Contains\<close> for the network \<open>base/len\<close>.\<close>

definition in_cidr :: "ipv4 \<Rightarrow> nat \<Rightarrow> ipv4 \<Rightarrow> bool" where
  "in_cidr base len ip = (ip AND NOT (mask (32 - len)) = base AND NOT (mask (32 - len)))"

definition vpnCIDR :: "ipv4 \<times> nat" where
  "vpnCIDR = (ip4 100 64 0 0, 10)"

definition privateRanges :: "(ipv4 \<times> nat) list" where
  "privateRanges = [(ip4 10 0 0 0, 8), (ip4 172 16 0 0, 12), (ip4 192 168 0 0, 16),
                    (ip4 127 0 0 0, 8)]"

definition net_contains :: "ipv4 \<times> nat \<Rightarrow> string \<Rightarrow> bool" where
  "net_contains net remoteAddr =
     (case ParseIPv4 remoteAddr of None \<Rightarrow> False | Some ip \<Rightarrow> in_cidr (fst net) (snd net) ip)"

definition denyFilter :: "user \<Rightarrow> string \<Rightarrow> string \<Rightarrow> bool" where
  "denyFilter user serverName remoteAddr =
     (if remoteAddr = LocalDomainIP user then True
      else if net_contains vpnCIDR remoteAddr then True
      else if list_ex (\<lambda>net. net_contains net remoteAddr) privateRanges then True
      else if DenyAll user = 0 then True
      else list_ex (\<lambda>d. d = serverName) (AllowedDomains user))"

subsection \<open>A connection\<close>

datatype outcome =
    DropPanic
  | DropRead hello_error
  | DropNoUsers
  | DropDenied
  | DropDial string
  | DropWrite string
  | Tunnel string bytes

definition upstream_of :: "user \<Rightarrow> string" where
  "upstream_of u = BFLIngressSvcHost u @ '':'' @ int_str (BFLIngressSvcPort u)"

text \<open>The choice of the user for a connection, with the fallback to the first user.\<close>

definition select_user :: "string \<Rightarrow> user list \<Rightarrow> string \<Rightarrow> user option" where
  "select_user dflt users sn =
     (let default = (case users of [] \<Rightarrow> None | u # _ \<Rightarrow> Some u) in
      if sn = [] then default
      else case matchUser dflt sn users of Some u \<Rightarrow> Some u | None \<Rightarrow> default)"

text \<open>
  \<^verbatim>\<open>handleConn\<close> up to the start of the bidirectional copy: the bytes the client sends,
  its address, the current users, whether the upstream can be dialled and written to.
\<close>

definition handleConn ::
    "string \<Rightarrow> (string \<Rightarrow> bool) \<Rightarrow> (string \<Rightarrow> bytes \<Rightarrow> bool) \<Rightarrow> user list \<Rightarrow> string \<Rightarrow> bytes \<Rightarrow> outcome"
  where
  "handleConn dflt dial write users remoteAddr conn =
     (case readClientHello conn of
        None \<Rightarrow> DropPanic
      | Some (r, rest) \<Rightarrow>
          (case helloErr r of
             Some e \<Rightarrow> DropRead e
           | None \<Rightarrow>
               let sn = sniName r in
               case select_user dflt users sn of
                    None \<Rightarrow> DropNoUsers
                  | Some u \<Rightarrow>
                      if \<not> denyFilter u sn remoteAddr then DropDenied
                      else let upstream = upstream_of u in
                        if \<not> dial upstream then DropDial upstream
                        else if \<not> write upstream (helloBytes r) then DropWrite upstream
                        else Tunnel upstream (helloBytes r)))"

subsection \<open>Discovering users\<close>

record kube_user =
  GetName :: string
  GetAnnotations :: "string \<rightharpoonup> string"
  CreationUnix :: int

text \<open>Annotation keys, without the configured group prefix \<^verbatim>\<open><group>/\<close>.\<close>

definition getUserAnno :: "kube_user \<Rightarrow> string \<Rightarrow> string" where
  "getUserAnno u key = (case GetAnnotations u key of None \<Rightarrow> [] | Some v \<Rightarrow> v)"

text \<open>
  The value of \<^verbatim>\<open>strconv.ParseUint(s, 10, 64)\<close> when its error is dropped: 0 on a syntax error, the
  greatest number out of range.
\<close>

definition ParseUint64 :: "string \<Rightarrow> nat" where
  "ParseUint64 s = (case parse_nat s of None \<Rightarrow> 0 | Some n \<Rightarrow> min n (2^64 - 1))"

fun lookup_tries :: "nat \<Rightarrow> (nat \<Rightarrow> string \<Rightarrow> string list option) \<Rightarrow> nat \<Rightarrow> string \<Rightarrow> string option" where
  "lookup_tries 0 dns retry svc = None"
| "lookup_tries (Suc n) dns retry svc =
     (case dns retry svc of
        Some (a # as) \<Rightarrow> Some a
      | _ \<Rightarrow> lookup_tries n dns (Suc retry) svc)"

text \<open>\<^verbatim>\<open>lookupHost\<close>: \<open>dns k\<close> is the resolver's answer at the \<open>k\<close>-th attempt; five attempts.\<close>

definition lookupHost :: "(nat \<Rightarrow> string \<Rightarrow> string list option) \<Rightarrow> string \<Rightarrow> string option" where
  "lookupHost dns svc = lookup_tries 5 dns 0 svc"

definition findUser :: "kube_user list \<Rightarrow> string \<Rightarrow> kube_user option" where
  "findUser items name =
     find (\<lambda>u. GetName u = name \<or> (name = ''cli'' \<and> getUserAnno u ''owner-role'' = ''owner'')) items"

text \<open>One iteration of the loop of \<^verbatim>\<open>listUsers\<close>: \<^term>\<open>None\<close> is \<^verbatim>\<open>continue\<close>.\<close>

definition build_user ::
    "Cfg \<Rightarrow> (string \<Rightarrow> string option) \<Rightarrow> kube_user list \<Rightarrow> kube_user \<Rightarrow> user option" where
  "build_user cfg lookup items item =
     (let isEphemeralAnno = getUserAnno item ''is-ephemeral'';
          did = getUserAnno item ''did'';
          zone = getUserAnno item ''zone'' in
      if did = [] \<and> zone = [] \<and> isEphemeralAnno = [] then None
      else
        (let eph = (if ParseBool isEphemeralAnno = Some True then ''yes'' else ''no'') in
         do {
           (owner, serverNames, localDNSIP) \<leftarrow>
             (if eph = ''no''
              then Some (item, [zone, GetName item @ ''.'' @ CfgLocalDomain cfg],
                         getUserAnno item ''local-domain-dns-record'')
              else (case findUser items (getUserAnno item ''creator'') of
                      None \<Rightarrow> None
                    | Some o' \<Rightarrow> Some (o', [], [])));
           addr \<leftarrow> lookup (bflServiceName (UserNSPrefix cfg) (GetName item));
           let zone = getUserAnno owner ''zone'';
           Some \<lparr>Name = GetName item,
                 UserNamespace = UserNSPrefix cfg @ ''-'' @ GetName item,
                 DID = getUserAnno owner ''did'',
                 Zone = zone,
                 IsEphemeral = eph,
                 BFLIngressSvcHost = addr,
                 BFLIngressSvcPort = BFLServicePort cfg,
                 AccessLevel = ParseUint64 (getUserAnno owner ''launcher-access-level''),
                 AllowCIDRs = split_on CHR '','' (getUserAnno owner ''launcher-allow-cidr''),
                 DenyAll = Atoi (getUserAnno owner ''deny-all''),
                 AllowedDomains = [zone],
                 NgxServerNameDomains = serverNames,
                 CreateTimestamp = CreationUnix item,
                 LocalDomainIP = localDNSIP,
                 LocalDomain = CfgLocalDomain cfg\<rparr>
         }))"

text \<open>\<open>srt\<close> is \<^verbatim>\<open>sort.Sort\<close> on \<^verbatim>\<open>Users\<close>, which is not stable.\<close>

definition go_sort :: "(user list \<Rightarrow> user list) \<Rightarrow> bool" where
  "go_sort srt \<longleftrightarrow>
     (\<forall>us. mset (srt us) = mset us \<and> sorted_wrt (\<lambda>a b. \<not> Less b a) (srt us))"

definition listUsers ::
    "Cfg \<Rightarrow> (string \<Rightarrow> string option) \<Rightarrow> (user list \<Rightarrow> user list) \<Rightarrow> kube_user list \<Rightarrow> user list" where
  "listUsers cfg lookup srt items = srt (List.map_filter (build_user cfg lookup items) items)"

text \<open>\<^verbatim>\<open>refreshUsers\<close>: a failed listing keeps the users the proxy has.\<close>

definition refreshUsers ::
    "Cfg \<Rightarrow> (string \<Rightarrow> string option) \<Rightarrow> (user list \<Rightarrow> user list) \<Rightarrow>
     kube_user list option \<Rightarrow> user list \<Rightarrow> bool \<times> user list" where
  "refreshUsers cfg lookup srt listing users =
     (case listing of None \<Rightarrow> (False, users) | Some items \<Rightarrow> (True, listUsers cfg lookup srt items))"

subsection \<open>What the patterns accept\<close>

lemma suffix_take: "suffix t s \<longleftrightarrow> s = take (length s - length t) s @ t"
  by (auto simp: suffix_def)

lemma ephemeral_pattern_iff:
  "ephemeral_pattern name zone s \<longleftrightarrow>
     (\<exists>p. p \<noteq> [] \<and> list_all is_alnum p \<and> s = p @ ''-'' @ name @ ''.'' @ zone)"
proof
  assume "ephemeral_pattern name zone s"
  then show "\<exists>p. p \<noteq> [] \<and> list_all is_alnum p \<and> s = p @ ''-'' @ name @ ''.'' @ zone"
    unfolding ephemeral_pattern_def Let_def suffix_take by blast
qed (auto simp: ephemeral_pattern_def Let_def suffix_def)

lemma subdomain_pattern_iff:
  "subdomain_pattern domain s \<longleftrightarrow>
     (\<exists>l. l \<noteq> [] \<and> list_all label_char l \<and> (s = l @ domain \<or> s = l @ ''.'' @ domain))"
proof
  assume "subdomain_pattern domain s"
  then obtain p where p: "s = p @ domain"
    "(p \<noteq> [] \<and> list_all label_char p) \<or>
     (p \<noteq> [] \<and> last p = CHR ''.'' \<and> butlast p \<noteq> [] \<and> list_all label_char (butlast p))"
    unfolding subdomain_pattern_def Let_def suffix_take by blast
  then show "\<exists>l. l \<noteq> [] \<and> list_all label_char l \<and> (s = l @ domain \<or> s = l @ ''.'' @ domain)"
  proof (elim disjE)
    assume "p \<noteq> [] \<and> last p = CHR ''.'' \<and> butlast p \<noteq> [] \<and> list_all label_char (butlast p)"
    with p(1) show ?thesis
      by (intro exI [of _ "butlast p"]) (use append_butlast_last_id [of p] in \<open>auto\<close>)
  qed blast
qed (auto simp: subdomain_pattern_def Let_def suffix_def)

text \<open>The ways a user can own a server name, written out.\<close>

definition owns_name :: "string \<Rightarrow> user \<Rightarrow> string \<Rightarrow> bool" where
  "owns_name dflt u sn \<longleftrightarrow>
     (if IsEphemeral u = ''yes''
      then \<exists>p z. p \<noteq> [] \<and> list_all is_alnum p \<and>
             z \<in> {Zone u, if LocalDomain u = [] then dflt else LocalDomain u} \<and>
             sn = p @ ''-'' @ Name u @ ''.'' @ z
      else \<exists>d \<in> set (NgxServerNameDomains u).
             sn = d \<or> (\<exists>l. l \<noteq> [] \<and> list_all label_char l \<and> (sn = l @ d \<or> sn = l @ ''.'' @ d)))"

lemma match_ephemeral_owns:
  "IsEphemeral u = ''yes'' \<Longrightarrow> match_ephemeral dflt sn u = owns_name dflt u sn"
  by (auto simp: match_ephemeral_def owns_name_def ephemeral_pattern_iff Let_def)

lemma match_admin_owns: "IsEphemeral u \<noteq> ''yes'' \<Longrightarrow> match_admin sn u = owns_name dflt u sn"
  by (simp add: match_admin_def owns_name_def subdomain_pattern_iff list_ex_iff)

lemma find_eq_filter: "find P xs = (case filter P xs of [] \<Rightarrow> None | x # _ \<Rightarrow> Some x)"
  by (induction xs) auto

lemma matchUser_eq:
  "matchUser dflt sn us =
     (case filter (\<lambda>u. owns_name dflt u sn) (filter (\<lambda>u. IsEphemeral u = ''yes'') us @
                                            filter (\<lambda>u. IsEphemeral u \<noteq> ''yes'') us) of
        [] \<Rightarrow> None | u # _ \<Rightarrow> Some u)"
proof -
  have "filter (match_ephemeral dflt sn) (filter (\<lambda>u. IsEphemeral u = ''yes'') us) =
        filter (\<lambda>u. owns_name dflt u sn) (filter (\<lambda>u. IsEphemeral u = ''yes'') us)"
    by (rule filter_cong [OF refl]) (simp add: match_ephemeral_owns)
  moreover have "filter (match_admin sn) (filter (\<lambda>u. IsEphemeral u \<noteq> ''yes'') us) =
        filter (\<lambda>u. owns_name dflt u sn) (filter (\<lambda>u. IsEphemeral u \<noteq> ''yes'') us)"
    by (rule filter_cong [OF refl]) (simp add: match_admin_owns [of _ _ dflt])
  ultimately show ?thesis
    by (simp add: matchUser_def Let_def find_eq_filter split: list.splits)
qed

lemma matchUser_SomeD: "matchUser dflt sn us = Some u \<Longrightarrow> u \<in> set us \<and> owns_name dflt u sn"
proof -
  assume "matchUser dflt sn us = Some u"
  then have "u \<in> set (filter (\<lambda>u. owns_name dflt u sn) (filter (\<lambda>u. IsEphemeral u = ''yes'') us @
                       filter (\<lambda>u. IsEphemeral u \<noteq> ''yes'') us))"
    unfolding matchUser_eq by (cases "filter (\<lambda>u. owns_name dflt u sn)
      (filter (\<lambda>u. IsEphemeral u = ''yes'') us @ filter (\<lambda>u. IsEphemeral u \<noteq> ''yes'') us)") auto
  then show ?thesis by auto
qed

lemma matchUser_None_iff: "matchUser dflt sn us = None \<longleftrightarrow> (\<forall>u \<in> set us. \<not> owns_name dflt u sn)"
proof -
  let ?F = "filter (\<lambda>u. owns_name dflt u sn) (filter (\<lambda>u. IsEphemeral u = ''yes'') us @
              filter (\<lambda>u. IsEphemeral u \<noteq> ''yes'') us)"
  have "matchUser dflt sn us = None \<longleftrightarrow> ?F = []"
    unfolding matchUser_eq by (cases ?F) simp_all
  then show ?thesis by (auto simp: filter_empty_conv)
qed

text \<open>
  The user chosen for a server name is the first owner of that name, ephemeral users
  before the others, and there is a result exactly when some user owns the name.
\<close>
lemma matchUser_first_owner:
  "(matchUser dflt sn us = None \<longleftrightarrow> (\<forall>u \<in> set us. \<not> owns_name dflt u sn)) \<and>
   matchUser dflt sn us =
     List.find (\<lambda>u. owns_name dflt u sn)
       (filter (\<lambda>u. IsEphemeral u = ''yes'') us @ filter (\<lambda>u. IsEphemeral u \<noteq> ''yes'') us)"
  using matchUser_None_iff by (simp add: matchUser_eq find_eq_filter)

lemma select_user_SomeD:
  assumes "select_user dflt us sn = Some u"
  shows "u \<in> set us \<and> (owns_name dflt u sn \<or> u = hd us)"
proof (cases "sn = [] \<or> matchUser dflt sn us = None")
  case True
  with assms show ?thesis
    by (auto simp: select_user_def Let_def split: if_splits option.splits list.splits)
next
  case False
  with assms have "matchUser dflt sn us = Some u" by (auto simp: select_user_def Let_def)
  then show ?thesis using matchUser_SomeD by blast
qed

lemma select_user_single: "select_user dflt [u] sn = Some u"
proof (cases "matchUser dflt sn [u]")
  case (Some v)
  then have "v = u" using matchUser_SomeD by fastforce
  with Some show ?thesis by (simp add: select_user_def Let_def)
qed (simp add: select_user_def Let_def)

subsection \<open>The deny filter, by address ranges\<close>

lemma drop_bit_and_not_mask: "drop_bit n (x AND NOT (mask n)) = drop_bit n (x :: ipv4)"
  by (rule bit_word_eqI) (use bit_imp_le_length [of x] in \<open>auto simp: bit_simps\<close>)

lemma push_drop_and_not_mask: "push_bit n (drop_bit n x) = x AND NOT (mask n)" for x :: ipv4
  by (rule bit_word_eqI) (auto simp: bit_simps)

lemma and_not_mask_eq_iff:
  "x AND NOT (mask n) = y AND NOT (mask n) \<longleftrightarrow> drop_bit n x = drop_bit n (y :: ipv4)"
proof
  assume "x AND NOT (mask n) = y AND NOT (mask n)"
  then have "drop_bit n (x AND NOT (mask n)) = drop_bit n (y AND NOT (mask n))" by (rule arg_cong)
  then show "drop_bit n x = drop_bit n y" unfolding drop_bit_and_not_mask .
next
  assume "drop_bit n x = drop_bit n y"
  then have "push_bit n (drop_bit n x) = push_bit n (drop_bit n y)" by (rule arg_cong)
  then show "x AND NOT (mask n) = y AND NOT (mask n)" unfolding push_drop_and_not_mask .
qed

lemma in_cidr_iff: "in_cidr base len ip \<longleftrightarrow> unat ip div 2 ^ (32 - len) = unat base div 2 ^ (32 - len)"
  unfolding in_cidr_def and_not_mask_eq_iff
  unfolding word_unat_eq_iff unat_drop_bit_eq
  unfolding drop_bit_eq_div ..

definition in_between :: "nat \<Rightarrow> nat \<Rightarrow> ipv4 \<Rightarrow> bool" where
  "in_between lo hi ip \<longleftrightarrow> lo \<le> unat ip \<and> unat ip \<le> hi"

text \<open>100.64.0.0--100.127.255.255, 10/8, 172.16/12, 192.168/16 and 127/8 as integers.\<close>

definition trusted_ip :: "ipv4 \<Rightarrow> bool" where
  "trusted_ip ip \<longleftrightarrow>
     in_between 1681915904 1686110207 ip \<or> in_between 167772160 184549375 ip \<or>
     in_between 2886729728 2887778303 ip \<or> in_between 3232235520 3232301055 ip \<or>
     in_between 2130706432 2147483647 ip"

lemma div_eq_range: "0 < k \<Longrightarrow> x div k = q \<longleftrightarrow> q * k \<le> x \<and> x \<le> q * k + (k - 1)" for x k q :: nat
proof
  assume k: "0 < k" and q: "x div k = q"
  from q div_mult_mod_eq [of x k] have "q * k + x mod k = x" by simp
  with mod_less_divisor [OF k, of x] show "q * k \<le> x \<and> x \<le> q * k + (k - 1)" by linarith
next
  assume a: "0 < k" "q * k \<le> x \<and> x \<le> q * k + (k - 1)"
  then have "x < q * k + k" by linarith
  with a show "x div k = q" by (intro div_nat_eqI) (simp_all add: mult.commute add.commute)
qed

lemma trusted_ip_iff:
  "trusted_ip ip \<longleftrightarrow>
     in_cidr (fst vpnCIDR) (snd vpnCIDR) ip \<or>
     (\<exists>net \<in> set privateRanges. in_cidr (fst net) (snd net) ip)"
proof -
  have u: "unat (ip4 100 64 0 0) = 1681915904" "unat (ip4 10 0 0 0) = 167772160"
    "unat (ip4 172 16 0 0) = 2886729728" "unat (ip4 192 168 0 0) = 3232235520"
    "unat (ip4 127 0 0 0) = 2130706432"
    by (simp_all add: ip4_def)
  show ?thesis
    unfolding trusted_ip_def in_between_def in_cidr_iff vpnCIDR_def privateRanges_def
    by (simp add: u div_eq_range disj_assoc)
qed

text \<open>
  C34: a connection passes the deny filter exactly when it comes from the user's local
  address, from the VPN range 100.64.0.0/10 or a private or loopback IPv4 range, when
  deny-all is off, or when the server name is one of the user's allowed domains.
\<close>
theorem denyFilter_iff:
  "denyFilter u sn ra \<longleftrightarrow>
     ra = LocalDomainIP u \<or> (\<exists>ip. ParseIPv4 ra = Some ip \<and> trusted_ip ip) \<or>
     DenyAll u = 0 \<or> sn \<in> set (AllowedDomains u)"
  by (cases "ParseIPv4 ra")
    (auto simp: denyFilter_def net_contains_def trusted_ip_iff list_ex_iff)

subsection \<open>Routing\<close>

text \<open>
  C31: a connection is tunnelled only to the ingress of a user the proxy knows, that user's
  deny filter let it pass, the user owns the SNI name or is the first (newest) user, and
  the bytes replayed are the bytes read off the connection.
\<close>
theorem handleConn_tunnel_safe:
  assumes "handleConn dflt dial write users ra conn = Tunnel up hello"
  shows "\<exists>r rest u. readClientHello conn = Some (r, rest) \<and> u \<in> set users \<and>
    up = upstream_of u \<and> denyFilter u (sniName r) ra \<and> hello @ rest = conn \<and>
    (owns_name dflt u (sniName r) \<or> u = hd users)"
proof -
  obtain r rest where r: "readClientHello conn = Some (r, rest)" "helloErr r = None"
    using assms by (auto simp: handleConn_def split: option.splits)
  have rep: "helloBytes r @ rest = conn"
    using r readClientHello_no_panic [of conn] unfolding readClientHello_def ReadFull_def
    by (auto simp: bind_eq_Some_conv take_take_drop split: if_splits)
  obtain u where u: "select_user dflt users (sniName r) = Some u"
    using assms r by (cases "select_user dflt users (sniName r)") (auto simp: handleConn_def)
  have "up = upstream_of u" "denyFilter u (sniName r) ra" "hello = helloBytes r"
    using assms r u by (auto simp: handleConn_def Let_def split: if_splits)
  with r rep select_user_SomeD [OF u] show ?thesis by blast
qed

definition sample_user :: user where
  "sample_user =
     \<lparr>Name = ''alice'', UserNamespace = ''user-space-alice'', DID = ''d'', Zone = ''example.com'',
      IsEphemeral = ''no'', BFLIngressSvcHost = ''10.0.0.9'', BFLIngressSvcPort = 443,
      AccessLevel = 0, AllowCIDRs = [[]], DenyAll = 1, AllowedDomains = [''example.com''],
      NgxServerNameDomains = [''example.com''], CreateTimestamp = 5, LocalDomainIP = [],
      LocalDomain = []\<rparr>"

lemma matchUser_first_owner_witness:
  "matchUser [] ''example.com'' [sample_user] = Some sample_user"
proof -
  have "owns_name [] sample_user ''example.com''"
    by (simp add: owns_name_def match_admin_def sample_user_def)
  then show ?thesis
    using matchUser_first_owner [of "[]" "''example.com''" "[sample_user]"] by (simp add: sample_user_def)
qed

theorem handleConn_tunnel_safe_witness:
  "\<exists>r rest u. readClientHello (enc_record (enc_hello sample_hello @ []) @ []) = Some (r, rest) \<and>
     u \<in> set [sample_user] \<and> ''10.0.0.9:443'' = upstream_of u"
proof -
  note defs = sample_hello_def wf_hello_def enc_hello_def hello_body_def enc24_def enc_exts_def
    enc_ext_def sni_body_def enc_names_def enc_name_def bytes_of_str_def
  have w: "wf_hello sample_hello" "length (enc_hello sample_hello @ []) \<le> 16384"
    by (simp_all add: defs)
  have u: "upstream_of sample_user = ''10.0.0.9:443''"
    by (simp add: upstream_of_def sample_user_def int_str_def) code_simp
  have d: "denyFilter sample_user sn ''192.168.1.7''" for sn
  proof -
    have "split_on CHR ''.'' ''192.168.1.7'' = [''192'', ''168'', ''1'', ''7'']" by code_simp
    moreover have "parse_octet ''192'' = Some 192" "parse_octet ''168'' = Some 168"
      "parse_octet ''1'' = Some 1" "parse_octet ''7'' = Some 7" by code_simp+
    ultimately have "ParseIPv4 ''192.168.1.7'' = Some (ip4 192 168 1 7)"
      by (simp add: ParseIPv4_def)
    moreover have "trusted_ip (ip4 192 168 1 7)"
      by (simp add: trusted_ip_def in_between_def ip4_def)
    ultimately show ?thesis unfolding denyFilter_iff by blast
  qed
  have "handleConn [] (\<lambda>_. True) (\<lambda>_ _. True) [sample_user] ''192.168.1.7''
      (enc_record (enc_hello sample_hello @ []) @ []) =
    Tunnel ''10.0.0.9:443'' (enc_record (enc_hello sample_hello @ []))"
    unfolding handleConn_def readClientHello_enc [OF w]
    by (simp add: d u Let_def select_user_single)
  from handleConn_tunnel_safe [OF this] show ?thesis by blast
qed

text \<open>
  The pattern for a user's domains makes the dot optional, so a name that merely ends
  in the domain text, with any label characters glued in front (\<^verbatim>\<open>notexample.com\<close> for
  \<^verbatim>\<open>example.com\<close>), is routed to that user.
\<close>
lemma matchUser_glued_label:
  assumes "d \<in> set (NgxServerNameDomains u)" "IsEphemeral u \<noteq> ''yes''"
    and "l \<noteq> []" "list_all label_char l"
  shows "matchUser dflt (l @ d) [u] = Some u"
proof -
  have "owns_name dflt u (l @ d)" using assms by (auto simp: owns_name_def)
  then show ?thesis using assms(2) by (simp add: matchUser_eq)
qed

lemma matchUser_glued_label_witness:
  "matchUser [] (''not'' @ ''example.com'') [sample_user] = Some sample_user"
proof -
  have "''example.com'' \<in> set (NgxServerNameDomains sample_user)"
    "IsEphemeral sample_user \<noteq> ''yes''" by (simp_all add: sample_user_def)
  moreover have "list_all label_char ''not''" by code_simp
  ultimately show ?thesis using matchUser_glued_label [of "''example.com''" sample_user "''not''"] by simp
qed

subsection \<open>User discovery\<close>

lemma lookup_tries_Some:
  "lookup_tries n dns k svc = Some a \<longleftrightarrow>
     (\<exists>j < n. (\<exists>as. dns (k + j) svc = Some (a # as)) \<and>
             (\<forall>i < j. dns (k + i) svc = None \<or> dns (k + i) svc = Some []))"
proof (induction n arbitrary: k)
  case (Suc n)
  consider b bs where "dns k svc = Some (b # bs)" | "dns k svc = None \<or> dns k svc = Some []"
    by (cases "dns k svc"; cases "the (dns k svc)") auto
  then show ?case
  proof cases
    case 1
    have "j = 0" if "\<forall>i < j. dns (k + i) svc = None \<or> dns (k + i) svc = Some []" for j
      using that 1 by (cases j) (auto dest: spec [of _ 0])
    with 1 show ?thesis by fastforce
  next
    case 2
    then have "lookup_tries (Suc n) dns k svc = lookup_tries n dns (Suc k) svc" by auto
    moreover have "(\<exists>j < Suc n. Q j) \<longleftrightarrow> Q 0 \<or> (\<exists>j < n. Q (Suc j))" for Q
      by (auto simp: less_Suc_eq_0_disj)
    moreover have "(\<forall>i < Suc j. Q i) \<longleftrightarrow> Q 0 \<and> (\<forall>i < j. Q (Suc i))" for Q j
      by (auto simp: less_Suc_eq_0_disj)
    ultimately show ?thesis using 2 Suc.IH [of "Suc k"] by auto
  qed
qed simp

text \<open>
  Looking a service up makes at most five attempts and returns the first address of
  the first attempt that answers with one.
\<close>
lemma lookupHost_first_answer:
  "lookupHost dns svc = Some a \<longleftrightarrow>
     (\<exists>j < 5. (\<exists>as. dns j svc = Some (a # as)) \<and>
             (\<forall>i < j. dns i svc = None \<or> dns i svc = Some []))"
  unfolding lookupHost_def lookup_tries_Some by simp

lemma lookupHost_first_answer_witness:
  "lookupHost (\<lambda>k svc. if k = 2 then Some [''10.0.0.4'', ''10.0.0.5''] else None) ''bfl'' =
     Some ''10.0.0.4''"
  by (rule lookupHost_first_answer [THEN iffD2]) (rule exI [of _ 2], simp)

lemma build_user_SomeD:
  assumes "build_user cfg lookup items item = Some u"
  shows "Name u = GetName item" "CreateTimestamp u = CreationUnix item"
    "AllowedDomains u = [Zone u]"
    "lookup (bflServiceName (UserNSPrefix cfg) (GetName item)) = Some (BFLIngressSvcHost u)"
    "\<exists>owner. (owner = item \<or> findUser items (getUserAnno item ''creator'') = Some owner) \<and>
       (IsEphemeral u \<noteq> ''yes'' \<longrightarrow> owner = item) \<and>
       Zone u = getUserAnno owner ''zone'' \<and> DenyAll u = Atoi (getUserAnno owner ''deny-all'')"
  using assms by (auto simp: build_user_def Let_def bind_eq_Some_conv split: if_splits option.splits)

lemma go_sort_set: "go_sort srt \<Longrightarrow> set (srt us) = set us"
  by (metis go_sort_def set_mset_mset)

text \<open>
  The discovered users are sorted newest first; each comes from a user object of the
  cluster whose ingress host resolved, is allowed exactly its own zone, and takes zone and
  deny-all from itself or, if ephemeral, from its creator.
\<close>
lemma listUsers_correct:
  assumes "go_sort srt"
  shows "sorted_wrt (\<lambda>a b. CreateTimestamp a \<ge> CreateTimestamp b) (listUsers cfg lookup srt items) \<and>
    (\<forall>u \<in> set (listUsers cfg lookup srt items).
       \<exists>item \<in> set items. \<exists>owner.
         lookup (bflServiceName (UserNSPrefix cfg) (GetName item)) = Some (BFLIngressSvcHost u) \<and>
         Name u = GetName item \<and> AllowedDomains u = [Zone u] \<and>
         (owner = item \<or> findUser items (getUserAnno item ''creator'') = Some owner) \<and>
         (IsEphemeral u \<noteq> ''yes'' \<longrightarrow> owner = item) \<and>
         Zone u = getUserAnno owner ''zone'' \<and> DenyAll u = Atoi (getUserAnno owner ''deny-all''))"
proof (intro conjI ballI)
  have "sorted_wrt (\<lambda>a b. \<not> Less b a) (listUsers cfg lookup srt items)"
    using assms by (simp add: go_sort_def listUsers_def)
  then show "sorted_wrt (\<lambda>a b. CreateTimestamp a \<ge> CreateTimestamp b) (listUsers cfg lookup srt items)"
    by (simp add: Less_def not_less)
next
  fix u assume "u \<in> set (listUsers cfg lookup srt items)"
  then obtain item where "item \<in> set items" "build_user cfg lookup items item = Some u"
    using go_sort_set [OF assms] by (auto simp: listUsers_def map_filter_def)
  with build_user_SomeD [OF this(2)] show "\<exists>item \<in> set items. \<exists>owner.
         lookup (bflServiceName (UserNSPrefix cfg) (GetName item)) = Some (BFLIngressSvcHost u) \<and>
         Name u = GetName item \<and> AllowedDomains u = [Zone u] \<and>
         (owner = item \<or> findUser items (getUserAnno item ''creator'') = Some owner) \<and>
         (IsEphemeral u \<noteq> ''yes'' \<longrightarrow> owner = item) \<and>
         Zone u = getUserAnno owner ''zone'' \<and> DenyAll u = Atoi (getUserAnno owner ''deny-all'')"
    by blast
qed

text \<open>A sort that meets the specification, and two user objects for the witness.\<close>

definition stable_sort :: "user list \<Rightarrow> user list" where
  "stable_sort us = sort_key (\<lambda>u. - CreateTimestamp u) us"

lemma go_sort_stable_sort: "go_sort stable_sort"
proof -
  have "sorted_wrt (\<lambda>a b. \<not> Less b a) (stable_sort us)" for us
    using sorted_sort_key [of "\<lambda>u. - CreateTimestamp u" us]
    by (simp add: stable_sort_def sorted_map Less_def not_less)
  then show ?thesis by (simp add: go_sort_def stable_sort_def)
qed

definition sample_items :: "kube_user list" where
  "sample_items =
     [\<lparr>GetName = ''alice'', GetAnnotations = [''zone'' \<mapsto> ''a.example'', ''deny-all'' \<mapsto> ''1''],
       CreationUnix = 3\<rparr>,
      \<lparr>GetName = ''guest'', GetAnnotations = [''is-ephemeral'' \<mapsto> ''true'', ''creator'' \<mapsto> ''alice''],
       CreationUnix = 9\<rparr>]"

definition sample_cfg :: Cfg where
  "sample_cfg = \<lparr>ListenPort = 443, BFLServicePort = 443, UserNSPrefix = ''user-space'',
                 CfgLocalDomain = ''olares.local''\<rparr>"

lemma listUsers_correct_witness:
  "map Name (listUsers sample_cfg (\<lambda>_. Some ''10.0.0.1'') stable_sort sample_items) =
     [''guest'', ''alice''] \<and>
   sorted_wrt (\<lambda>a b. CreateTimestamp a \<ge> CreateTimestamp b)
     (listUsers sample_cfg (\<lambda>_. Some ''10.0.0.1'') stable_sort sample_items)"
proof -
  have "map Name (listUsers sample_cfg (\<lambda>_. Some ''10.0.0.1'') stable_sort sample_items) =
     [''guest'', ''alice'']"
    by code_simp
  with listUsers_correct [OF go_sort_stable_sort] show ?thesis by blast
qed

end
