(* ===== verification/Sys_Registry.thy ===== *)
theory Sys_Registry
  imports Keyed_Store
begin

text \<open>
  \<^verbatim>\<open>internal/systemserver/types.go\<close>, \<^verbatim>\<open>registry.go\<close> and \<^verbatim>\<open>permissions.go\<close>: the Application
  objects, the registry of provider endpoints per group, and the permission manager. A Go
  map is an association list whose order is its (arbitrary) enumeration order.
\<close>

record Entrance =
  en_Name :: string
  en_Host :: string
  en_Port :: int
  en_Title :: string
  en_Icon :: string
  en_AuthLevel :: string
  en_Invisible :: bool

record SharedEntrance =
  se_Name :: string
  se_Host :: string
  se_Port :: int
  se_Title :: string
  se_Icon :: string
  se_AuthLevel :: string
  se_Invisible :: bool

record AppPermission =
  pm_Group :: string
  pm_DataType :: string
  pm_Version :: string
  pm_Ops :: "string list"

record SysDataEntry =
  sd_DataType :: string
  sd_AppName :: string
  sd_Svc :: string
  sd_Port :: int
  sd_Group :: string
  sd_Version :: string
  sd_Ops :: "string list"

record ProviderEntry =
  pe_AppName :: string
  pe_ProviderName :: string

record AppPermissionSpec =
  AppData :: bool
  AppCache :: bool
  UserData :: "string list"
  SysData :: "SysDataEntry list"
  Provider :: "ProviderEntry list"

record ApplicationSpec =
  sp_Name :: string
  sp_Namespace :: string
  sp_Owner :: string
  Entrances :: "Entrance list"
  SharedEntrances :: "SharedEntrance list"
  Permissions :: "AppPermission list"
  Permission :: "AppPermissionSpec option"

record Application =
  meta_Name :: string
  meta_Namespace :: string
  Spec :: ApplicationSpec
  StatusState :: string

text \<open>\<^verbatim>\<open>ns := app.Spec.Namespace; if ns == "" { ns = app.Namespace }\<close>\<close>

definition app_ns :: "Application \<Rightarrow> string" where
  "app_ns app = (if sp_Namespace (Spec app) = [] then meta_Namespace app
                 else sp_Namespace (Spec app))"

subsection \<open>The provider registry\<close>

record ProviderEndpoint =
  AppName :: string
  Host :: string
  Port :: int
  Title :: string
  Namespace :: string

type_synonym registry = "(string \<times> ProviderEndpoint list) list"

definition NewProviderRegistry :: registry where
  "NewProviderRegistry = []"

definition GetProviders :: "registry \<Rightarrow> string \<Rightarrow> ProviderEndpoint list" where
  "GetProviders r grp = (case map_of r grp of None \<Rightarrow> [] | Some eps \<Rightarrow> eps)"

definition GetAllProviders :: "registry \<Rightarrow> (string \<times> ProviderEndpoint list) list" where
  "GetAllProviders r = r"

text \<open>The search for an endpoint of the same app, which is overwritten in place, or the append.\<close>

fun upsert :: "ProviderEndpoint \<Rightarrow> ProviderEndpoint list \<Rightarrow> ProviderEndpoint list" where
  "upsert ep [] = [ep]"
| "upsert ep (e # es) = (if AppName e = AppName ep then ep # es else e # upsert ep es)"

definition endpoint_of :: "Application \<Rightarrow> SharedEntrance \<Rightarrow> ProviderEndpoint" where
  "endpoint_of app se =
     (let host = (if se_Host se = [] then sp_Name (Spec app) else se_Host se) in
      \<lparr>AppName = sp_Name (Spec app),
       Host = host @ ''.'' @ app_ns app @ ''.svc.cluster.local'',
       Port = se_Port se, Title = se_Title se, Namespace = app_ns app\<rparr>)"

definition register_one :: "Application \<Rightarrow> registry \<Rightarrow> SharedEntrance \<Rightarrow> registry" where
  "register_one app r se =
     (if se_Name se = [] then r
      else AList.update (se_Name se) (upsert (endpoint_of app se) (GetProviders r (se_Name se))) r)"

definition RegisterProvider :: "registry \<Rightarrow> Application \<Rightarrow> registry" where
  "RegisterProvider r app =
     (if SharedEntrances (Spec app) = [] then r
      else foldl (register_one app) r (SharedEntrances (Spec app)))"

definition unregister_group ::
    "string \<Rightarrow> string \<times> ProviderEndpoint list \<Rightarrow> (string \<times> ProviderEndpoint list) option" where
  "unregister_group appName ge =
     (let filtered = filter (\<lambda>ep. AppName ep \<noteq> appName) (snd ge) in
      if filtered = [] then None else Some (fst ge, filtered))"

definition UnregisterProvider :: "registry \<Rightarrow> string \<Rightarrow> registry" where
  "UnregisterProvider r appName = List.map_filter (unregister_group appName) r"

definition FindConsumers :: "(string \<times> Application) list \<Rightarrow> string \<Rightarrow> Application list" where
  "FindConsumers apps providerGroup =
     filter (\<lambda>app. case Permission (Spec app) of
               None \<Rightarrow> False
             | Some p \<Rightarrow> list_ex (\<lambda>sd. sd_Group sd = providerGroup) (SysData p))
       (map snd apps)"

subsection \<open>The registry's invariant\<close>

definition reg_ok :: "registry \<Rightarrow> bool" where
  "reg_ok r \<longleftrightarrow>
     distinct (map fst r) \<and>
     (\<forall>(g, eps) \<in> set r. g \<noteq> [] \<and> eps \<noteq> [] \<and> distinct (map AppName eps))"

lemma upsert_names:
  "set (map AppName (upsert ep es)) = insert (AppName ep) (set (map AppName es))"
  by (induction es) auto

lemma upsert_distinct: "distinct (map AppName es) \<Longrightarrow> distinct (map AppName (upsert ep es))"
proof (induction es)
  case (Cons e es)
  then show ?case using upsert_names [of ep es] by auto
qed simp

lemma upsert_nonempty [simp]: "upsert ep es \<noteq> []"
  by (cases es) auto

lemma GetProviders_update [go_map]:
  "GetProviders (AList.update g eps r) h = (if h = g then eps else GetProviders r h)"
  by (simp add: GetProviders_def map_of_update)

lemma GetProviders_distinct: "reg_ok r \<Longrightarrow> distinct (map AppName (GetProviders r g))"
  by (auto simp: reg_ok_def GetProviders_def split: option.splits dest!: map_of_SomeD)

lemma reg_ok_update:
  "reg_ok r \<Longrightarrow> g \<noteq> [] \<Longrightarrow> eps \<noteq> [] \<Longrightarrow> distinct (map AppName eps) \<Longrightarrow>
   reg_ok (AList.update g eps r)"
  using set_alist_update_subset [of g eps r] unfolding reg_ok_def
  by (auto intro!: distinct_update)

lemma reg_ok_register_one: "reg_ok r \<Longrightarrow> reg_ok (register_one app r se)"
  by (auto simp: register_one_def intro!: reg_ok_update upsert_distinct GetProviders_distinct)

lemma reg_ok_foldl: "reg_ok r \<Longrightarrow> reg_ok (foldl (register_one app) r ses)"
  by (induction ses arbitrary: r) (auto intro: reg_ok_register_one)

lemma reg_ok_RegisterProvider: "reg_ok r \<Longrightarrow> reg_ok (RegisterProvider r app)"
  by (simp add: RegisterProvider_def reg_ok_foldl)

lemma UnregisterProvider_eq:
  "UnregisterProvider r a =
     filter (\<lambda>(g, eps). eps \<noteq> []) (map (\<lambda>(g, eps). (g, filter (\<lambda>ep. AppName ep \<noteq> a) eps)) r)"
  by (induction r) (auto simp: UnregisterProvider_def unregister_group_def Let_def map_filter_simps)

lemma reg_ok_UnregisterProvider: "reg_ok r \<Longrightarrow> reg_ok (UnregisterProvider r a)"
proof -
  assume ok: "reg_ok r"
  have "map fst (map (\<lambda>(g, eps). (g, filter (\<lambda>ep. AppName ep \<noteq> a) eps)) r) = map fst r"
    by (induction r) auto
  then have "distinct (map fst (map (\<lambda>(g, eps). (g, filter (\<lambda>ep. AppName ep \<noteq> a) eps)) r))"
    using ok unfolding reg_ok_def by metis
  then have "distinct (map fst (UnregisterProvider r a))"
    unfolding UnregisterProvider_eq by (rule distinct_map_filter)
  moreover have "\<forall>(g, eps) \<in> set (UnregisterProvider r a).
      g \<noteq> [] \<and> eps \<noteq> [] \<and> distinct (map AppName eps)"
    using ok unfolding UnregisterProvider_eq reg_ok_def by (auto simp: distinct_map_filter)
  ultimately show ?thesis by (simp add: reg_ok_def)
qed

lemma reg_ok_New: "reg_ok NewProviderRegistry"
  by (simp add: reg_ok_def NewProviderRegistry_def)

subsection \<open>What the registry promises: at most one endpoint per group and app\<close>

definition provides :: "registry \<Rightarrow> string \<Rightarrow> string \<Rightarrow> ProviderEndpoint option" where
  "provides r g a = List.find (\<lambda>ep. AppName ep = a) (GetProviders r g)"

lemma find_upsert:
  "List.find (\<lambda>e. AppName e = a) (upsert ep es) =
     (if a = AppName ep then Some ep else List.find (\<lambda>e. AppName e = a) es)"
  by (induction es) auto

lemma AppName_endpoint_of [simp]: "AppName (endpoint_of app se) = sp_Name (Spec app)"
  by (simp add: endpoint_of_def Let_def)

lemma provides_register_one:
  "provides (register_one app r se) g a =
     (if se_Name se = g \<and> g \<noteq> [] \<and> a = sp_Name (Spec app) then Some (endpoint_of app se)
      else provides r g a)"
  by (auto simp: provides_def register_one_def GetProviders_update find_upsert)

text \<open>The shared entrance that decides a group: the last one of that name.\<close>

definition last_entrance :: "SharedEntrance list \<Rightarrow> string \<Rightarrow> SharedEntrance option" where
  "last_entrance ses g = List.find (\<lambda>se. se_Name se = g \<and> g \<noteq> []) (rev ses)"

lemma provides_foldl:
  "provides (foldl (register_one app) r ses) g a =
     (case last_entrance ses g of
        Some se \<Rightarrow> if a = sp_Name (Spec app) then Some (endpoint_of app se) else provides r g a
      | None \<Rightarrow> provides r g a)"
  by (induction ses rule: rev_induct)
    (auto simp: last_entrance_def provides_register_one split: option.splits)

lemma find_filter_name:
  "List.find (\<lambda>ep. AppName ep = a) (filter (\<lambda>ep. AppName ep \<noteq> b) es) =
     (if a = b then None else List.find (\<lambda>ep. AppName ep = a) es)"
  by (induction es) auto

lemma GetProviders_UnregisterProvider:
  "distinct (map fst r) \<Longrightarrow>
   GetProviders (UnregisterProvider r a) g = filter (\<lambda>ep. AppName ep \<noteq> a) (GetProviders r g)"
proof (induction r)
  case (Cons ge r)
  obtain h eps where ge: "ge = (h, eps)" by (cases ge)
  have no: "h \<notin> fst ` set r" using Cons.prems ge by simp
  then have "h \<notin> fst ` set (UnregisterProvider r a)"
    unfolding UnregisterProvider_eq by force
  then have "map_of (UnregisterProvider r a) h = None" by (simp add: map_of_eq_None_iff)
  with Cons.IH Cons.prems show ?case
    by (auto simp: ge GetProviders_def UnregisterProvider_def unregister_group_def Let_def map_filter_simps)
qed (simp add: UnregisterProvider_eq GetProviders_def)

lemma provides_Unregister:
  "reg_ok r \<Longrightarrow> provides (UnregisterProvider r b) g a = (if a = b then None else provides r g a)"
  by (simp add: provides_def GetProviders_UnregisterProvider reg_ok_def find_filter_name)

text \<open>
  C28: the registry refines a map from group and app to one endpoint. Registering an app
  sets the endpoint of its last shared entrance of each name and leaves every other entry,
  unregistering removes exactly the app's entries, and both keep the invariant (groups
  non-empty, one endpoint per app and grp).
\<close>
theorem registry_refines_map:
  assumes "reg_ok r"
  shows "reg_ok (RegisterProvider r app) \<and> reg_ok (UnregisterProvider r b) \<and>
    provides (RegisterProvider r app) g a =
      (case last_entrance (SharedEntrances (Spec app)) g of
         Some se \<Rightarrow> if a = sp_Name (Spec app) then Some (endpoint_of app se) else provides r g a
       | None \<Rightarrow> provides r g a) \<and>
    provides (UnregisterProvider r b) g a = (if a = b then None else provides r g a)"
proof (intro conjI)
  show "provides (RegisterProvider r app) g a =
      (case last_entrance (SharedEntrances (Spec app)) g of
         Some se \<Rightarrow> if a = sp_Name (Spec app) then Some (endpoint_of app se) else provides r g a
       | None \<Rightarrow> provides r g a)"
    unfolding RegisterProvider_def by (simp add: provides_foldl last_entrance_def)
qed (simp_all add: assms reg_ok_RegisterProvider reg_ok_UnregisterProvider provides_Unregister)

definition sample_se :: "string \<Rightarrow> SharedEntrance" where
  "sample_se host =
     \<lparr>se_Name = ''api.ollama'', se_Host = host, se_Port = 80, se_Title = ''Ollama'',
      se_Icon = [], se_AuthLevel = [], se_Invisible = False\<rparr>"

definition sample_app :: "string \<Rightarrow> SharedEntrance list \<Rightarrow> AppPermission list \<Rightarrow> Application" where
  "sample_app n ses ps =
     \<lparr>meta_Name = n, meta_Namespace = ''user-space-admin'',
      Spec = \<lparr>sp_Name = n, sp_Namespace = [], sp_Owner = ''admin'', Entrances = [],
              SharedEntrances = ses, Permissions = ps, Permission = None\<rparr>,
      StatusState = ''running''\<rparr>"

theorem registry_refines_map_witness:
  "provides (UnregisterProvider (RegisterProvider [] (sample_app ''ollama'' [sample_se ''svc''] [])) ''vllm'')
     ''api.ollama'' ''ollama'' =
   Some \<lparr>AppName = ''ollama'', Host = ''svc.user-space-admin.svc.cluster.local'', Port = 80,
         Title = ''Ollama'', Namespace = ''user-space-admin''\<rparr>"
proof -
  have ok: "reg_ok []" by (simp add: reg_ok_def)
  have ok2: "reg_ok (RegisterProvider [] (sample_app ''ollama'' [sample_se ''svc''] []))"
    using registry_refines_map [OF ok] by blast
  have "provides (RegisterProvider [] (sample_app ''ollama'' [sample_se ''svc''] [])) ''api.ollama'' ''ollama'' =
    Some \<lparr>AppName = ''ollama'', Host = ''svc.user-space-admin.svc.cluster.local'', Port = 80,
         Title = ''Ollama'', Namespace = ''user-space-admin''\<rparr>" by code_simp
  with registry_refines_map [OF ok2, of _ "''vllm''" "''api.ollama''" "''ollama''"] show ?thesis by simp
qed

end
