(* ===== verification/Sys_Permissions.thy ===== *)
theory Sys_Permissions
  imports Sys_Registry
begin

text \<open>
  \<^verbatim>\<open>internal/systemserver/permissions.go\<close>: the permission manager, a map from app name to the
  permission set the app declared. It provides the keyed-store contract.
\<close>

record AppPermissionSet =
  ps_AppName :: string
  ps_AppID :: string
  ps_Key :: string
  ps_Secret :: string
  ps_Perms :: "AppPermission list"

type_synonym permissions = "(string \<times> AppPermissionSet) list"

datatype perm_error =
    NoRegisteredPermissions string
  | PermissionDenied string string string string string

definition NewPermissionManager :: permissions where
  "NewPermissionManager = []"

definition Register :: "string \<Rightarrow> AppPermission list \<Rightarrow> permissions \<Rightarrow> permissions" where
  "Register app perms pm =
     AList.update app
       \<lparr>ps_AppName = app, ps_AppID = [], ps_Key = [], ps_Secret = [], ps_Perms = perms\<rparr> pm"

definition Unregister :: "string \<Rightarrow> permissions \<Rightarrow> permissions" where
  "Unregister app pm = AList.delete app pm"

text \<open>The two nested loops of the check: the rules of the app, then a rule's operations.\<close>

fun ops_loop :: "string list \<Rightarrow> string \<Rightarrow> bool" where
  "ops_loop [] op = False"
| "ops_loop (allowedOp # ops) op = (if allowedOp = op then True else ops_loop ops op)"

fun rules_loop :: "AppPermission list \<Rightarrow> string \<Rightarrow> string \<Rightarrow> string \<Rightarrow> string \<Rightarrow> bool" where
  "rules_loop [] grp dataType version op = False"
| "rules_loop (p # ps) grp dataType version op =
     (if pm_Group p = grp \<and> pm_DataType p = dataType \<and> pm_Version p = version
         \<and> ops_loop (pm_Ops p) op
      then True else rules_loop ps grp dataType version op)"

text \<open>\<^term>\<open>None\<close> is the nil error: the operation is allowed.\<close>

definition CheckPermission ::
    "permissions \<Rightarrow> string \<Rightarrow> string \<Rightarrow> string \<Rightarrow> string \<Rightarrow> string \<Rightarrow> perm_error option" where
  "CheckPermission pm app grp dataType version op = (case map_of pm app of
     None \<Rightarrow> Some (NoRegisteredPermissions app)
   | Some permSet \<Rightarrow>
       if rules_loop (ps_Perms permSet) grp dataType version op then None
       else Some (PermissionDenied app grp dataType version op))"

definition ListApps :: "permissions \<Rightarrow> string list" where
  "ListApps pm = map fst pm"

definition GetPermissions :: "permissions \<Rightarrow> string \<Rightarrow> AppPermission list \<times> bool" where
  "GetPermissions pm app = (case map_of pm app of
     None \<Rightarrow> ([], False)
   | Some permSet \<Rightarrow> (ps_Perms permSet, True))"

subsection \<open>The contract\<close>

definition look_perms :: "permissions \<Rightarrow> string \<Rightarrow> AppPermission list option" where
  "look_perms pm app = (case GetPermissions pm app of (ps, ok) \<Rightarrow> if ok then Some ps else None)"

lemma look_perms_map_of: "look_perms pm app = map_option ps_Perms (map_of pm app)"
  by (simp add: look_perms_def GetPermissions_def split: option.splits)

interpretation perm_store: keyed_store look_perms Register Unregister
  by unfold_locales
    (simp_all add: look_perms_map_of Register_def Unregister_def map_of_update map_of_delete)

definition grants :: "string \<Rightarrow> string \<Rightarrow> string \<Rightarrow> string \<Rightarrow> AppPermission \<Rightarrow> bool" where
  "grants grp dataType version op p \<longleftrightarrow>
     pm_Group p = grp \<and> pm_DataType p = dataType \<and> pm_Version p = version \<and> op \<in> set (pm_Ops p)"

lemma ops_loop_iff: "ops_loop ops op \<longleftrightarrow> op \<in> set ops"
  by (induction ops) auto

lemma rules_loop_iff: "rules_loop ps g d v op \<longleftrightarrow> (\<exists>p \<in> set ps. grants g d v op p)"
  by (induction ps) (auto simp: grants_def ops_loop_iff)

lemma CheckPermission_look:
  "CheckPermission pm app g d v op = None \<longleftrightarrow>
     (\<exists>ps. look_perms pm app = Some ps \<and> (\<exists>p \<in> set ps. grants g d v op p))"
  by (auto simp: CheckPermission_def look_perms_map_of rules_loop_iff split: option.splits)

text \<open>
  After any history of registrations and removals, a check succeeds exactly when the
  last operation on the app registered a rule that names the group, data type and version
  and lists the operation; it fails with the "no permissions" error exactly when the app's
  last operation is not a registration.
\<close>
lemma CheckPermission_history:
  "(CheckPermission (store_run Register Unregister NewPermissionManager xs) app g d v op = None \<longleftrightarrow>
     (\<exists>ps p. last_op app xs = Some (Write app ps) \<and> p \<in> set ps \<and> grants g d v op p)) \<and>
   (CheckPermission (store_run Register Unregister NewPermissionManager xs) app g d v op =
       Some (NoRegisteredPermissions app) \<longleftrightarrow>
     (\<nexists>ps. last_op app xs = Some (Write app ps)))"
proof -
  let ?pm = "store_run Register Unregister NewPermissionManager xs"
  have key: "last_op app xs = Some x \<Longrightarrow> op_key x = app" for x
    by (induction xs) (auto split: option.splits if_splits)
  have "look_perms ?pm app = (case last_op app xs of Some x \<Rightarrow> op_val x | None \<Rightarrow> None)"
    unfolding perm_store.look_run by (simp add: look_perms_map_of NewPermissionManager_def split: option.split)
  then have look: "look_perms ?pm app = Some ps \<longleftrightarrow> last_op app xs = Some (Write app ps)" for ps
    using key by (cases "last_op app xs"; cases "the (last_op app xs)") auto
  have "CheckPermission ?pm app g d v op = Some (NoRegisteredPermissions app) \<longleftrightarrow> look_perms ?pm app = None"
    by (auto simp: CheckPermission_def look_perms_map_of split: option.splits)
  then show ?thesis using look unfolding CheckPermission_look by (metis not_None_eq)
qed

end
