(* ===== verification/Sys_Reconciler.thy ===== *)
theory Sys_Reconciler
  imports Sys_Permissions
begin

text \<open>
  \<^verbatim>\<open>internal/systemserver/reconciler.go\<close>: the environment variables a consumer needs from its
  providers, and their merge into the containers of the consumer's deployments. The
  cluster's API server is a parameter (\<open>kube\<close>): a listing by namespace and label
  selector, and an update that may fail.
\<close>

record EnvVar =
  ev_Name :: string
  ev_Value :: string

record Container =
  ct_Name :: string
  Env :: "EnvVar list"

record Deployment =
  dp_Name :: string
  Containers :: "Container list"

record 'k kube =
  kList :: "'k \<Rightarrow> string \<Rightarrow> string \<Rightarrow> string + Deployment list"
  kUpdate :: "'k \<Rightarrow> string \<Rightarrow> Deployment \<Rightarrow> 'k \<times> string option"

type_synonym env_map = "(string \<times> string) list"

subsection \<open>From the registry to environment variables\<close>

definition groupToEnvVarName :: "string \<Rightarrow> string" where
  "groupToEnvVarName grp =
     (let name = (case LastIndexByte grp CHR ''.'' of None \<Rightarrow> grp | Some i \<Rightarrow> drop (i + 1) grp);
          name = ToUpper name;
          name = ReplaceByte name CHR ''-'' CHR ''_'';
          name = ReplaceByte name CHR ''.'' CHR ''_''
      in name @ ''_BASE_URLS'')"

definition endpoint_url :: "ProviderEndpoint \<Rightarrow> string" where
  "endpoint_url ep = ''http://'' @ Host ep @ '':'' @ int_str (Port ep)"

definition sysdata_env :: "registry \<Rightarrow> Application \<Rightarrow> env_map \<Rightarrow> SysDataEntry \<Rightarrow> env_map" where
  "sysdata_env r consumer envVars sd =
     (if sd_Group sd = [] then envVars
      else let providers = GetProviders r (sd_Group sd) in
        if providers = [] then
          (if sd_Svc sd \<noteq> [] \<and> sd_Port sd > 0 then
             let ns = app_ns consumer;
                 ns = (if sd_AppName sd \<noteq> [] then sp_Namespace (Spec consumer) else ns);
                 url = ''http://'' @ sd_Svc sd @ ''.'' @ ns @ ''.svc.cluster.local:'' @ int_str (sd_Port sd)
             in AList.update (groupToEnvVarName (sd_Group sd)) url envVars
           else envVars)
        else AList.update (groupToEnvVarName (sd_Group sd)) (join '','' (map endpoint_url providers)) envVars)"

definition provider_env :: "registry \<Rightarrow> env_map \<Rightarrow> ProviderEntry \<Rightarrow> env_map" where
  "provider_env r envVars pe =
     (if pe_ProviderName pe = [] then envVars
      else let providers = GetProviders r (pe_ProviderName pe) in
        if providers = [] then envVars
        else AList.update (groupToEnvVarName (pe_ProviderName pe))
               (join '','' (map endpoint_url providers)) envVars)"

definition buildProviderEnvVars :: "registry \<Rightarrow> Application \<Rightarrow> AppPermissionSpec \<Rightarrow> env_map" where
  "buildProviderEnvVars r consumer p =
     foldl (provider_env r) (foldl (sysdata_env r consumer) [] (SysData p)) (Provider p)"

subsection \<open>Merging into a deployment\<close>

text \<open>\<^verbatim>\<open>existingIdx\<close>: later occurrences of a name overwrite earlier ones.\<close>

definition existingIdx :: "EnvVar list \<Rightarrow> string \<Rightarrow> nat option" where
  "existingIdx env = foldl (\<lambda>m (i, ev). m(ev_Name ev \<mapsto> i)) Map.empty (enumerate 0 env)"

definition merge_one ::
    "(string \<Rightarrow> nat option) \<Rightarrow> EnvVar list \<times> bool \<Rightarrow> string \<times> string \<Rightarrow> EnvVar list \<times> bool" where
  "merge_one existing = (\<lambda>(env, changed) (name, value).
     case existing name of
       Some i \<Rightarrow>
         if ev_Value (env ! i) \<noteq> value then (env[i := (env ! i)\<lparr>ev_Value := value\<rparr>], True)
         else (env, changed)
     | None \<Rightarrow> (env @ [\<lparr>ev_Name = name, ev_Value = value\<rparr>], True))"

definition mergeEnvVars :: "Container \<Rightarrow> env_map \<Rightarrow> Container \<times> bool" where
  "mergeEnvVars c envVars =
     (case foldl (merge_one (existingIdx (Env c))) (Env c, False) envVars of
        (env, changed) \<Rightarrow> (c\<lparr>Env := env\<rparr>, changed))"

definition updateDeploymentEnv :: "Deployment \<Rightarrow> env_map \<Rightarrow> Deployment \<times> bool" where
  "updateDeploymentEnv d envVars =
     (let rs = map (\<lambda>c. mergeEnvVars c envVars) (Containers d)
      in (d\<lparr>Containers := map fst rs\<rparr>, list_ex snd rs))"

definition patch_one :: "'k kube \<Rightarrow> string \<Rightarrow> env_map \<Rightarrow> 'k \<Rightarrow> Deployment \<Rightarrow> 'k" where
  "patch_one kube ns envVars k d =
     (case updateDeploymentEnv d envVars of
        (d', changed) \<Rightarrow> if changed then fst (kUpdate kube k ns d') else k)"

text \<open>The first listing, then the fallback selectors while the listing is empty.\<close>

fun fallback_list ::
    "'k kube \<Rightarrow> 'k \<Rightarrow> string \<Rightarrow> string list \<Rightarrow> Deployment list \<Rightarrow> string + Deployment list" where
  "fallback_list kube k ns [] deps = Inr deps"
| "fallback_list kube k ns (sel # sels) deps =
     (if deps \<noteq> [] then Inr deps
      else case kList kube k ns sel of
             Inl e \<Rightarrow> Inl e
           | Inr deps' \<Rightarrow> fallback_list kube k ns sels deps')"

definition list_app_deployments ::
    "'k kube \<Rightarrow> 'k \<Rightarrow> string \<Rightarrow> string \<Rightarrow> string + Deployment list" where
  "list_app_deployments kube k ns appName =
     (case kList kube k ns (''app.kubernetes.io/instance='' @ appName) of
        Inl e \<Rightarrow> Inl e
      | Inr deps \<Rightarrow> fallback_list kube k ns [''app='' @ appName, ''io.kompose.service='' @ appName] deps)"

definition patchDeploymentEnvVars ::
    "'k kube \<Rightarrow> 'k \<Rightarrow> string \<Rightarrow> string \<Rightarrow> env_map \<Rightarrow> 'k \<times> string option" where
  "patchDeploymentEnvVars kube k ns appName envVars =
     (case list_app_deployments kube k ns appName of
        Inl e \<Rightarrow> (k, Some e)
      | Inr deps \<Rightarrow> (foldl (patch_one kube ns envVars) k deps, None))"

subsection \<open>Reconciling\<close>

definition Reconcile :: "'k kube \<Rightarrow> registry \<Rightarrow> 'k \<Rightarrow> Application \<Rightarrow> 'k" where
  "Reconcile kube r k consumer = (case Permission (Spec consumer) of
     None \<Rightarrow> k
   | Some p \<Rightarrow>
       if SysData p = [] then k
       else let envVars = buildProviderEnvVars r consumer p in
         if envVars = [] then k
         else fst (patchDeploymentEnvVars kube k (app_ns consumer) (sp_Name (Spec consumer)) envVars))"

definition is_consumer :: "Application \<Rightarrow> bool" where
  "is_consumer app = (case Permission (Spec app) of None \<Rightarrow> False | Some p \<Rightarrow> SysData p \<noteq> [])"

definition ReconcileAll :: "'k kube \<Rightarrow> registry \<Rightarrow> 'k \<Rightarrow> (string \<times> Application) list \<Rightarrow> 'k" where
  "ReconcileAll kube r k allApps =
     foldl (Reconcile kube r) k (filter is_consumer (map snd allApps))"

text \<open>The groups of a provider, in the order of their first mention.\<close>

definition provider_groups :: "Application \<Rightarrow> string list" where
  "provider_groups provider =
     remdups (filter (\<lambda>g. g \<noteq> []) (map se_Name (SharedEntrances (Spec provider))))"

definition OnProviderChanged ::
    "'k kube \<Rightarrow> registry \<Rightarrow> 'k \<Rightarrow> Application \<Rightarrow> (string \<times> Application) list \<Rightarrow> 'k" where
  "OnProviderChanged kube r k provider allApps =
     (if SharedEntrances (Spec provider) = [] then k
      else foldl (\<lambda>k g. foldl (Reconcile kube r) k (FindConsumers allApps g)) k
             (provider_groups provider))"

subsection \<open>What a container sees: the last entry of a name wins\<close>

definition env_value :: "EnvVar list \<Rightarrow> string \<Rightarrow> string option" where
  "env_value env n = map_of (rev (map (\<lambda>ev. (ev_Name ev, ev_Value ev)) env)) n"

fun last_idx :: "string list \<Rightarrow> string \<Rightarrow> nat option" where
  "last_idx [] n = None"
| "last_idx (x # xs) n =
     (case last_idx xs n of Some i \<Rightarrow> Some (Suc i) | None \<Rightarrow> if x = n then Some 0 else None)"

lemma last_idx_append:
  "last_idx (xs @ ys) n =
     (case last_idx ys n of Some i \<Rightarrow> Some (length xs + i) | None \<Rightarrow> last_idx xs n)"
  by (induction xs) (auto split: option.splits)

lemma last_idx_None_iff [simp]: "last_idx xs n = None \<longleftrightarrow> n \<notin> set xs"
  by (induction xs) (auto split: option.splits)

lemma last_idx_SomeD: "last_idx xs n = Some i \<Longrightarrow> i < length xs \<and> xs ! i = n"
  by (induction xs arbitrary: i) (auto split: option.splits if_splits)

lemma existingIdx_last_idx: "existingIdx env = last_idx (map ev_Name env)"
proof (induction env rule: rev_induct)
  case (snoc e env)
  show ?case
  proof
    fix n
    have "existingIdx (env @ [e]) n = (if n = ev_Name e then Some (length env) else existingIdx env n)"
      by (simp add: existingIdx_def enumerate_append_eq)
    then show "existingIdx (env @ [e]) n = last_idx (map ev_Name (env @ [e])) n"
      by (simp add: snoc.IH last_idx_append)
  qed
qed (simp add: existingIdx_def fun_eq_iff)

lemma env_value_snoc:
  "env_value (env @ [e]) n = (if ev_Name e = n then Some (ev_Value e) else env_value env n)"
  by (simp add: env_value_def)

lemma env_value_last_idx:
  "env_value env n = map_option (\<lambda>i. ev_Value (env ! i)) (last_idx (map ev_Name env) n)"
proof (induction env rule: rev_induct)
  case (snoc e env)
  have "last_idx (map ev_Name env) n = Some i \<Longrightarrow> i < length env" for i
    by (auto dest: last_idx_SomeD)
  with snoc.IH show ?case
    by (cases "last_idx (map ev_Name env) n")
      (auto simp: env_value_snoc last_idx_append nth_append)
qed (simp add: env_value_def)

lemma env_value_None_iff: "env_value env n = None \<longleftrightarrow> n \<notin> ev_Name ` set env"
  by (simp add: env_value_last_idx)

lemma names_update:
  "i < length env \<Longrightarrow> map ev_Name (env[i := (env ! i)\<lparr>ev_Value := v\<rparr>]) = map ev_Name env"
  by (rule nth_equalityI) (auto simp: nth_list_update)

lemma merge_one_step:
  assumes names: "map ev_Name env = names @ extra" and new: "n \<notin> set extra"
    and res: "merge_one (last_idx names) (env, ch) (n, v) = (env', ch')"
  shows "(map ev_Name env' = names @ extra \<or> map ev_Name env' = names @ extra @ [n])
    \<and> (\<forall>j. env_value env' j = (if j = n then Some v else env_value env j))
    \<and> (ch' \<longleftrightarrow> ch \<or> env_value env n \<noteq> Some v)"
proof (cases "last_idx names n")
  case None
  then have "n \<notin> set (names @ extra)" using new by simp
  then have "n \<notin> set (map ev_Name env)" using names by simp
  then have "env_value env n = None" by (simp add: env_value_None_iff)
  then show ?thesis
    using res names None by (auto simp: merge_one_def env_value_snoc)
next
  case (Some i)
  have "last_idx extra n = None" by (subst last_idx_None_iff) (rule new)
  with Some have at_n: "last_idx (map ev_Name env) n = Some i"
    by (simp only: names last_idx_append option.case)
  then have i: "i < length env" "ev_Name (env ! i) = n" by (auto dest: last_idx_SomeD)
  have val: "env_value env n = Some (ev_Value (env ! i))" by (simp add: env_value_last_idx at_n)
  show ?thesis
  proof (cases "ev_Value (env ! i) = v")
    case True
    then show ?thesis using res Some names val by (auto simp: merge_one_def)
  next
    case False
    then have env': "env' = env[i := (env ! i)\<lparr>ev_Value := v\<rparr>]" "ch'"
      using res Some by (auto simp: merge_one_def)
    have "env_value env' j = (if j = n then Some v else env_value env j)" for j
    proof (cases "last_idx (map ev_Name env) j")
      case (Some i')
      then have "i' < length env" "ev_Name (env ! i') = j" by (auto dest: last_idx_SomeD)
      with i Some at_n show ?thesis
        by (auto simp: env_value_last_idx env' names_update nth_list_update)
    next
      case None
      then have "j \<noteq> n" using at_n by (metis option.distinct(1))
      then show ?thesis unfolding env_value_last_idx env' names_update [OF i(1)] None by simp
    qed
    then show ?thesis using env' i names val False by (simp add: names_update)
  qed
qed

lemma merge_fold:
  assumes "map ev_Name env = names @ extra" "distinct (map fst m)" "set (map fst m) \<inter> set extra = {}"
    and "foldl (merge_one (last_idx names)) (env, ch) m = (env', ch')"
  shows "(\<exists>added. map ev_Name env' = names @ extra @ added)
    \<and> (\<forall>n. env_value env' n = (case map_of m n of Some v \<Rightarrow> Some v | None \<Rightarrow> env_value env n))
    \<and> (ch' \<longleftrightarrow> ch \<or> (\<exists>n v. (n, v) \<in> set m \<and> env_value env n \<noteq> Some v))"
  using assms
proof (induction m arbitrary: env extra ch)
  case (Cons nv m)
  obtain n v where nv: "nv = (n, v)" by (cases nv)
  obtain env1 ch1 where step: "merge_one (last_idx names) (env, ch) (n, v) = (env1, ch1)"
    by (cases "merge_one (last_idx names) (env, ch) (n, v)")
  have S: "(map ev_Name env1 = names @ extra \<or> map ev_Name env1 = names @ extra @ [n])
    \<and> (\<forall>j. env_value env1 j = (if j = n then Some v else env_value env j))
    \<and> (ch1 \<longleftrightarrow> ch \<or> env_value env n \<noteq> Some v)"
    by (rule merge_one_step [OF Cons.prems(1) _ step]) (use Cons.prems(3) nv in auto)
  obtain extra1 where e1: "map ev_Name env1 = names @ extra1" "extra1 = extra \<or> extra1 = extra @ [n]"
    using S by auto
  have fold: "foldl (merge_one (last_idx names)) (env1, ch1) m = (env', ch')"
    using Cons.prems(4) by (simp add: nv step)
  have dist: "distinct (map fst m)" "n \<notin> fst ` set m" using Cons.prems(2) nv by auto
  have ins: "set (map fst m) \<inter> insert n (set extra) = {}" using Cons.prems(3) nv dist(2) by simp
  have disj: "set (map fst m) \<inter> set extra1 = {}"
    by (rule disjE [OF e1(2)]) (use ins in simp_all)
  note IH = Cons.IH [OF e1(1) dist(1) disj fold]
  have no: "map_of m n = None" using dist(2) by (simp add: map_of_eq_None_iff)
  have "\<exists>added. map ev_Name env' = names @ extra @ added" using IH e1(2) by auto
  moreover have "env_value env' j = (case map_of (nv # m) j of Some v \<Rightarrow> Some v | None \<Rightarrow> env_value env j)" for j
    using IH S no by (auto simp: nv split: option.splits)
  moreover have "(\<exists>j w. (j, w) \<in> set m \<and> env_value env1 j \<noteq> Some w) \<longleftrightarrow>
      (\<exists>j w. (j, w) \<in> set m \<and> env_value env j \<noteq> Some w)"
    using S dist(2) by (metis fst_conv image_eqI)
  ultimately show ?case using IH S by (auto simp: nv)
qed auto

lemma merge_fold_same:
  "\<forall>(n, v) \<in> set m. env_value env n = Some v \<Longrightarrow>
   foldl (merge_one (last_idx (map ev_Name env))) (env, ch) m = (env, ch)"
  by (induction m) (auto simp: merge_one_def env_value_last_idx)

definition container_has :: "env_map \<Rightarrow> Container \<Rightarrow> bool" where
  "container_has m c \<longleftrightarrow> list_all (\<lambda>(n, v). env_value (Env c) n = Some v) m"

lemma mergeEnvVars_same: "container_has m c \<Longrightarrow> mergeEnvVars c m = (c, False)"
  using merge_fold_same [of m "Env c" False]
  by (simp add: mergeEnvVars_def existingIdx_last_idx container_has_def list_all_iff)

text \<open>
  Merging a set of variables (in whatever order the map enumerates them) gives each of
  them its value and leaves every other variable's value, keeps the existing entries in
  place and only appends, reports a change exactly when some variable did not have its
  value already, and a second merge changes nothing.
\<close>
lemma mergeEnvVars_correct:
  assumes "distinct (map fst m)" and "mergeEnvVars c m = (c', changed)"
  shows "(\<forall>n. env_value (Env c') n =
        (case map_of m n of Some v \<Rightarrow> Some v | None \<Rightarrow> env_value (Env c) n))
    \<and> ct_Name c' = ct_Name c \<and> prefix (map ev_Name (Env c)) (map ev_Name (Env c'))
    \<and> (changed \<longleftrightarrow> \<not> container_has m c) \<and> (\<not> changed \<longrightarrow> c' = c)
    \<and> mergeEnvVars c' m = (c', False)"
proof -
  obtain env' where f: "foldl (merge_one (last_idx (map ev_Name (Env c)))) (Env c, False) m = (env', changed)"
    and c': "c' = c\<lparr>Env := env'\<rparr>"
    using assms(2) by (auto simp: mergeEnvVars_def existingIdx_last_idx split: prod.splits)
  have M: "(\<exists>added. map ev_Name env' = map ev_Name (Env c) @ [] @ added)
    \<and> (\<forall>n. env_value env' n = (case map_of m n of Some v \<Rightarrow> Some v | None \<Rightarrow> env_value (Env c) n))
    \<and> (changed \<longleftrightarrow> False \<or> (\<exists>n v. (n, v) \<in> set m \<and> env_value (Env c) n \<noteq> Some v))"
    by (rule merge_fold [OF _ assms(1) _ f]) simp_all
  have "container_has m c'"
    using M assms(1) by (auto simp: container_has_def list_all_iff c')
  moreover have ch: "changed \<longleftrightarrow> \<not> container_has m c"
    using M by (auto simp: container_has_def list_all_iff)
  moreover have "\<not> changed \<longrightarrow> c' = c" using mergeEnvVars_same [of m c] ch assms(2) by auto
  ultimately show ?thesis using M by (auto simp: c' mergeEnvVars_same prefix_def)
qed

lemma mergeEnvVars_correct_witness:
  "mergeEnvVars \<lparr>ct_Name = ''main'', Env = [\<lparr>ev_Name = ''A'', ev_Value = ''1''\<rparr>]\<rparr> [(''B'', ''2''), (''A'', ''3'')] =
     (\<lparr>ct_Name = ''main'', Env = [\<lparr>ev_Name = ''A'', ev_Value = ''3''\<rparr>, \<lparr>ev_Name = ''B'', ev_Value = ''2''\<rparr>]\<rparr>, True)
   \<and> env_value [\<lparr>ev_Name = ''A'', ev_Value = ''3''\<rparr>, \<lparr>ev_Name = ''B'', ev_Value = ''2''\<rparr>] ''A'' = Some ''3''"
proof -
  have m: "mergeEnvVars \<lparr>ct_Name = ''main'', Env = [\<lparr>ev_Name = ''A'', ev_Value = ''1''\<rparr>]\<rparr> [(''B'', ''2''), (''A'', ''3'')] =
     (\<lparr>ct_Name = ''main'', Env = [\<lparr>ev_Name = ''A'', ev_Value = ''3''\<rparr>, \<lparr>ev_Name = ''B'', ev_Value = ''2''\<rparr>]\<rparr>, True)"
    by code_simp
  have "distinct (map fst [(''B'', ''2''), (''A'', ''3'')])" by simp
  from mergeEnvVars_correct [OF this m] have
    "env_value [\<lparr>ev_Name = ''A'', ev_Value = ''3''\<rparr>, \<lparr>ev_Name = ''B'', ev_Value = ''2''\<rparr>] ''A'' = Some ''3''"
    by simp
  with m show ?thesis by blast
qed

subsection \<open>Patching an app's deployments\<close>

lemma distinct_sysdata_env: "distinct (map fst m) \<Longrightarrow> distinct (map fst (sysdata_env r c m sd))"
  by (auto simp: sysdata_env_def Let_def intro: distinct_update)

lemma distinct_provider_env: "distinct (map fst m) \<Longrightarrow> distinct (map fst (provider_env r m pe))"
  by (auto simp: provider_env_def Let_def intro: distinct_update)

lemma foldl_keeps: "P s \<Longrightarrow> (\<And>s x. P s \<Longrightarrow> P (f s x)) \<Longrightarrow> P (foldl f s xs)"
  by (induction xs arbitrary: s) auto

lemma distinct_buildProviderEnvVars: "distinct (map fst (buildProviderEnvVars r c p))"
  unfolding buildProviderEnvVars_def
  by (intro foldl_keeps [where P = "\<lambda>m. distinct (map fst m)"])
    (auto intro: distinct_sysdata_env distinct_provider_env)

definition deployment_has :: "env_map \<Rightarrow> Deployment \<Rightarrow> bool" where
  "deployment_has m d \<longleftrightarrow> list_all (container_has m) (Containers d)"

lemma mergeEnvVars_has:
  "distinct (map fst m) \<Longrightarrow> container_has m (fst (mergeEnvVars c m))
     \<and> snd (mergeEnvVars c m) = (\<not> container_has m c)"
proof -
  assume d: "distinct (map fst m)"
  obtain env' ch where f: "foldl (merge_one (last_idx (map ev_Name (Env c)))) (Env c, False) m = (env', ch)"
    by (cases "foldl (merge_one (last_idx (map ev_Name (Env c)))) (Env c, False) m")
  have M: "(\<exists>added. map ev_Name env' = map ev_Name (Env c) @ [] @ added)
    \<and> (\<forall>n. env_value env' n = (case map_of m n of Some v \<Rightarrow> Some v | None \<Rightarrow> env_value (Env c) n))
    \<and> (ch \<longleftrightarrow> False \<or> (\<exists>n v. (n, v) \<in> set m \<and> env_value (Env c) n \<noteq> Some v))"
    by (rule merge_fold [OF _ d _ f]) simp_all
  then show ?thesis
    using d by (auto simp: mergeEnvVars_def existingIdx_last_idx f container_has_def list_all_iff)
qed

lemma updateDeploymentEnv_has:
  "distinct (map fst m) \<Longrightarrow>
   deployment_has m (fst (updateDeploymentEnv d m)) \<and> dp_Name (fst (updateDeploymentEnv d m)) = dp_Name d
   \<and> snd (updateDeploymentEnv d m) = (\<not> deployment_has m d)"
  using mergeEnvVars_has [of m]
  by (auto simp: updateDeploymentEnv_def Let_def deployment_has_def list_all_iff list_ex_iff)

lemma updateDeploymentEnv_same: "deployment_has m d \<Longrightarrow> updateDeploymentEnv d m = (d, False)"
proof -
  assume "deployment_has m d"
  then have same: "c \<in> set (Containers d) \<Longrightarrow> mergeEnvVars c m = (c, False)" for c
    by (simp add: deployment_has_def list_all_iff mergeEnvVars_same)
  then have "map fst (map (\<lambda>c. mergeEnvVars c m) (Containers d)) = Containers d"
    by (simp add: map_idI)
  then show ?thesis using same by (auto simp: updateDeploymentEnv_def Let_def list_ex_iff)
qed

text \<open>
  What the code relies on of the API server: an accepted update replaces the object of that
  name in every listing of the namespace.
\<close>

definition kube_laws :: "'k kube \<Rightarrow> bool" where
  "kube_laws kube \<longleftrightarrow>
     (\<forall>k ns d sel ds. kList kube k ns sel = Inr ds \<longrightarrow>
        kList kube (fst (kUpdate kube k ns d)) ns sel =
          Inr (map (\<lambda>x. if dp_Name x = dp_Name d then d else x) ds))"

definition replaced :: "env_map \<Rightarrow> Deployment list \<Rightarrow> Deployment \<Rightarrow> Deployment" where
  "replaced m ds x = foldl (\<lambda>x d. if dp_Name x = dp_Name d \<and> \<not> deployment_has m d
                                   then fst (updateDeploymentEnv d m) else x) x ds"

lemma patch_one_list:
  assumes "kube_laws kube" "distinct (map fst m)" "kList kube k ns sel = Inr L"
  shows "kList kube (patch_one kube ns m k d) ns sel = Inr (map (replaced m [d]) L)"
proof (cases "deployment_has m d")
  case True
  then have "replaced m [d] = (\<lambda>x. x)" by (simp add: replaced_def fun_eq_iff)
  with True assms(3) show ?thesis by (simp add: patch_one_def updateDeploymentEnv_same)
next
  case False
  with assms updateDeploymentEnv_has [of m d] show ?thesis
    by (cases "updateDeploymentEnv d m") (auto simp: patch_one_def kube_laws_def replaced_def)
qed

lemma patch_fold_list:
  assumes "kube_laws kube" "distinct (map fst m)" "kList kube k ns sel = Inr L"
  shows "kList kube (foldl (patch_one kube ns m) k ds) ns sel = Inr (map (replaced m ds) L)"
  using assms(3)
proof (induction ds arbitrary: k L)
  case Nil
  then show ?case by (simp add: replaced_def)
next
  case (Cons d ds)
  have "replaced m (d # ds) x = replaced m ds (replaced m [d] x)" for x
    by (simp add: replaced_def)
  then show ?case
    using Cons.IH [OF patch_one_list [OF assms(1,2) Cons.prems]] by simp
qed

lemma replaced_other: "dp_Name x \<notin> dp_Name ` set ds \<Longrightarrow> replaced m ds x = x"
  by (induction ds) (auto simp: replaced_def)

lemma replaced_member:
  assumes "distinct (map fst m)"
  shows "distinct (map dp_Name ds) \<Longrightarrow> x \<in> set ds \<Longrightarrow> replaced m ds x = fst (updateDeploymentEnv x m)"
proof (induction ds)
  case (Cons d ds)
  have split: "replaced m (d # ds) x = replaced m ds (replaced m [d] x)"
    by (simp add: replaced_def)
  show ?case
  proof (cases "x = d")
    case True
    have "replaced m [d] d = fst (updateDeploymentEnv d m)"
      by (simp add: replaced_def updateDeploymentEnv_same)
    with True split show ?thesis
      using Cons.prems(1) updateDeploymentEnv_has [OF assms, of d] by (simp add: replaced_other)
  next
    case False
    with Cons.prems(2) have "x \<in> set ds" by simp
    moreover from this have "dp_Name x \<noteq> dp_Name d" using Cons.prems(1) by (metis distinct.simps(2) image_eqI list.map(2) list.set_map)
    ultimately have "x \<in> set ds" "dp_Name x \<noteq> dp_Name d" by simp_all
    then have "replaced m [d] x = x" by (simp add: replaced_def)
    with split Cons.IH Cons.prems(1) \<open>x \<in> set ds\<close> show ?thesis by simp
  qed
qed simp

lemma fallback_list_map:
  assumes "\<And>sel L. kList kube k ns sel = Inr L \<Longrightarrow> kList kube k' ns sel = Inr (map f L)"
  shows "fallback_list kube k ns sels ds0 = Inr ds \<Longrightarrow>
    fallback_list kube k' ns sels (map f ds0) = Inr (map f ds)"
  by (induction sels arbitrary: ds0) (auto simp: assms split: sum.splits if_splits)

lemma list_app_deployments_map:
  assumes "\<And>sel L. kList kube k ns sel = Inr L \<Longrightarrow> kList kube k' ns sel = Inr (map f L)"
    and "list_app_deployments kube k ns app = Inr ds"
  shows "list_app_deployments kube k' ns app = Inr (map f ds)"
proof -
  obtain L where L: "kList kube k ns (''app.kubernetes.io/instance='' @ app) = Inr L"
    and f: "fallback_list kube k ns [''app='' @ app, ''io.kompose.service='' @ app] L = Inr ds"
    using assms(2) by (auto simp: list_app_deployments_def split: sum.splits)
  show ?thesis
    using assms(1) [OF L] fallback_list_map [OF assms(1) f] by (simp add: list_app_deployments_def)
qed

lemma patch_fold_same: "list_all (deployment_has m) ds \<Longrightarrow> foldl (patch_one kube ns m) k ds = k"
  by (induction ds) (auto simp: patch_one_def updateDeploymentEnv_same)


text \<open>A cluster for the witnesses: its objects with their namespace and labels.\<close>

definition list_kube :: "(string \<times> Deployment \<times> string list) list kube" where
  "list_kube = \<lparr>
     kList = (\<lambda>k ns sel. Inr (map (\<lambda>(n, d, ls). d) (filter (\<lambda>(n, d, ls). n = ns \<and> sel \<in> set ls) k))),
     kUpdate = (\<lambda>k ns d. (map (\<lambda>(n, x, ls). (n, if n = ns \<and> dp_Name x = dp_Name d then d else x, ls)) k, None))\<rparr>"

lemma kube_laws_list_kube: "kube_laws list_kube"
proof -
  have "map (\<lambda>(n, d, ls). d) (filter (\<lambda>(n, d, ls). n = ns \<and> sel \<in> set ls)
      (map (\<lambda>(n, x, ls). (n, if n = ns \<and> dp_Name x = dp_Name d then d else x, ls)) k)) =
    map (\<lambda>x. if dp_Name x = dp_Name d then d else x)
      (map (\<lambda>(n, d, ls). d) (filter (\<lambda>(n, d, ls). n = ns \<and> sel \<in> set ls) k))" for k ns sel d
    by (induction k) auto
  then show ?thesis by (auto simp: kube_laws_def list_kube_def)
qed

definition sample_consumer :: Application where
  "sample_consumer = (sample_app ''webui'' [] [])\<lparr>Spec := (Spec (sample_app ''webui'' [] []))
     \<lparr>Permission := Some \<lparr>AppData = False, AppCache = False, UserData = [],
        SysData = [\<lparr>sd_DataType = [], sd_AppName = [], sd_Svc = [], sd_Port = 0, sd_Group = ''api.ollama'',
                    sd_Version = [], sd_Ops = []\<rparr>], Provider = []\<rparr>\<rparr>\<rparr>"

definition sample_cluster :: "(string \<times> Deployment \<times> string list) list" where
  "sample_cluster = [(''user-space-admin'',
     \<lparr>dp_Name = ''webui'', Containers = [\<lparr>ct_Name = ''main'', Env = []\<rparr>]\<rparr>, [''app=webui''])]"


lemma sysdata_env_none:
  "sd_Group sd = [] \<or> GetProviders r (sd_Group sd) = [] \<and> (sd_Svc sd = [] \<or> sd_Port sd \<le> 0) \<Longrightarrow>
   sysdata_env r c m sd = m"
  by (auto simp: sysdata_env_def Let_def)

lemma provider_env_none:
  "pe_ProviderName pe = [] \<or> GetProviders r (pe_ProviderName pe) = [] \<Longrightarrow> provider_env r m pe = m"
  by (auto simp: provider_env_def Let_def)

lemma foldl_same: "(\<And>x. x \<in> set xs \<Longrightarrow> f s x = s) \<Longrightarrow> foldl f s xs = s"
  by (induction xs) auto

text \<open>
  When the last provider of every group a consumer reads is gone (and none of its
  entries is static), reconciling it leaves the cluster as it is: the URLs of the removed
  providers stay in its containers.
\<close>
lemma Reconcile_keeps_stale_urls:
  assumes "Permission (Spec app) = Some p"
    and "list_all (\<lambda>sd. GetProviders r (sd_Group sd) = [] \<and> sd_Svc sd = []) (SysData p)"
    and "list_all (\<lambda>pe. GetProviders r (pe_ProviderName pe) = []) (Provider p)"
  shows "Reconcile kube r k app = k"
proof -
  have "buildProviderEnvVars r app p = []"
    using assms(2,3) unfolding buildProviderEnvVars_def
    by (simp add: foldl_same sysdata_env_none provider_env_none list_all_iff)
  with assms(1) show ?thesis by (simp add: Reconcile_def)
qed

lemma Reconcile_keeps_stale_urls_witness:
  "Reconcile list_kube
     (UnregisterProvider (RegisterProvider [] (sample_app ''ollama'' [sample_se ''svc''] [])) ''ollama'')
     (Reconcile list_kube (RegisterProvider [] (sample_app ''ollama'' [sample_se ''svc''] [])) sample_cluster sample_consumer)
     sample_consumer
   = Reconcile list_kube (RegisterProvider [] (sample_app ''ollama'' [sample_se ''svc''] [])) sample_cluster sample_consumer"
proof -
  let ?p = "the (Permission (Spec sample_consumer))"
  let ?r = "UnregisterProvider (RegisterProvider [] (sample_app ''ollama'' [sample_se ''svc''] [])) ''ollama''"
  have p: "Permission (Spec sample_consumer) = Some ?p" by (simp add: sample_consumer_def)
  have r: "?r = []" by code_simp
  have a: "list_all (\<lambda>sd. GetProviders ?r (sd_Group sd) = [] \<and> sd_Svc sd = []) (SysData ?p)"
    unfolding r by (simp add: sample_consumer_def GetProviders_def)
  have b: "list_all (\<lambda>pe. GetProviders ?r (pe_ProviderName pe) = []) (Provider ?p)"
    unfolding r by (simp add: sample_consumer_def)
  show ?thesis by (rule Reconcile_keeps_stale_urls [OF p a b])
qed

end
