(* ===== verification/Sys_Server.thy ===== *)
theory Sys_Server
  imports Sys_Reconciler Go_Net
begin

text \<open>
  \<^verbatim>\<open>internal/systemserver/server.go\<close> and \<^verbatim>\<open>config.go\<close>: the state of the system server, the
  handlers of Application events, the HTTP API and the Host-header routing of the app proxy.
  The parsing of an event's object is part of the event (\<^term>\<open>None\<close> when the object is nil,
  of another type or does not parse).
\<close>

subsection \<open>Configuration\<close>

record Config =
  ListenAddr :: string
  UserZone :: string
  Username :: string
  UserNamespace :: string
  WatchNamespace :: string

definition env_or :: "(string \<Rightarrow> string) \<Rightarrow> string \<Rightarrow> string \<Rightarrow> string" where
  "env_or env key dflt = (if env key \<noteq> [] then env key else dflt)"

definition LoadConfig :: "(string \<Rightarrow> string) \<Rightarrow> string + Config" where
  "LoadConfig env =
     (let cfg = \<lparr>ListenAddr = env_or env ''LISTEN_ADDR'' '':8080'',
                 UserZone = env_or env ''USER_ZONE'' [],
                 Username = env_or env ''USERNAME'' [],
                 UserNamespace = env_or env ''USER_NAMESPACE'' [],
                 WatchNamespace = env_or env ''WATCH_NAMESPACE'' []\<rparr>;
          port = env ''PORT'';
          cfg = (if port \<noteq> [] \<and> AtoiErr port \<noteq> None then cfg\<lparr>ListenAddr := CHR '':'' # port\<rparr> else cfg)
      in if UserZone cfg = [] then Inl ''USER_ZONE is required''
         else if Username cfg = [] then Inl ''USERNAME is required''
         else Inr cfg)"

subsection \<open>State and event handlers\<close>

record 'k server =
  perms :: permissions
  providerReg :: registry
  apps :: "(string \<times> Application) list"
  cluster :: 'k

definition new_server :: "'k \<Rightarrow> 'k server" where
  "new_server k = \<lparr>perms = NewPermissionManager, providerReg = NewProviderRegistry, apps = [], cluster = k\<rparr>"

definition app_key :: "Application \<Rightarrow> string" where
  "app_key app = meta_Namespace app @ ''/'' @ meta_Name app"

definition handleAppCreateOrUpdate :: "'k kube \<Rightarrow> Application \<Rightarrow> 'k server \<Rightarrow> 'k server" where
  "handleAppCreateOrUpdate kube app s =
     (let s = s\<lparr>apps := AList.update (app_key app) app (apps s)\<rparr>;
          s = (if Permissions (Spec app) \<noteq> []
               then s\<lparr>perms := Register (sp_Name (Spec app)) (Permissions (Spec app)) (perms s)\<rparr> else s);
          s = (if SharedEntrances (Spec app) \<noteq> [] then
                 let s = s\<lparr>providerReg := RegisterProvider (providerReg s) app\<rparr>
                 in s\<lparr>cluster := OnProviderChanged kube (providerReg s) (cluster s) app (apps s)\<rparr>
               else s)
      in if is_consumer app then s\<lparr>cluster := Reconcile kube (providerReg s) (cluster s) app\<rparr> else s)"

definition handleAppDelete :: "'k kube \<Rightarrow> Application \<Rightarrow> 'k server \<Rightarrow> 'k server" where
  "handleAppDelete kube app s =
     (let s = (if SharedEntrances (Spec app) \<noteq> [] then
                 let s = s\<lparr>providerReg := UnregisterProvider (providerReg s) (sp_Name (Spec app))\<rparr>
                 in s\<lparr>cluster := OnProviderChanged kube (providerReg s) (cluster s) app (apps s)\<rparr>
               else s);
          s = s\<lparr>apps := AList.delete (app_key app) (apps s)\<rparr>
      in s\<lparr>perms := Unregister (sp_Name (Spec app)) (perms s)\<rparr>)"

datatype event_type = Added | Modified | Deleted | OtherEvent

type_synonym watch_event = "event_type \<times> Application option"

definition watch_step :: "'k kube \<Rightarrow> 'k server \<Rightarrow> watch_event \<Rightarrow> 'k server" where
  "watch_step kube s ev = (case ev of
     (_, None) \<Rightarrow> s
   | (t, Some app) \<Rightarrow>
       (case t of
          Added \<Rightarrow> handleAppCreateOrUpdate kube app s
        | Modified \<Rightarrow> handleAppCreateOrUpdate kube app s
        | Deleted \<Rightarrow> handleAppDelete kube app s
        | OtherEvent \<Rightarrow> s))"

text \<open>The initial listing (\<^term>\<open>None\<close> when it fails), item by item.\<close>

definition reconcileExistingApps ::
    "'k kube \<Rightarrow> Application option list option \<Rightarrow> 'k server \<Rightarrow> 'k server" where
  "reconcileExistingApps kube items s = (case items of
     None \<Rightarrow> s
   | Some items \<Rightarrow> foldl (\<lambda>s item. case item of None \<Rightarrow> s | Some app \<Rightarrow> handleAppCreateOrUpdate kube app s) s items)"

definition watchApplications ::
    "'k kube \<Rightarrow> Application option list option \<Rightarrow> watch_event list \<Rightarrow> 'k server \<Rightarrow> 'k server" where
  "watchApplications kube items events s =
     foldl (watch_step kube) (reconcileExistingApps kube items s) events"

subsection \<open>The HTTP API\<close>

definition method_not_allowed :: http_response where
  "method_not_allowed = reply 405 (JObj [(''error'', JStr ''method not allowed'')])"

definition ok_data :: "jval \<Rightarrow> http_response" where
  "ok_data d = reply 200 (JObj [(''code'', JInt 0), (''data'', d)])"

definition entrance_json :: "Entrance \<Rightarrow> jval" where
  "entrance_json e = JObj [(''name'', JStr (en_Name e)), (''host'', JStr (en_Host e)), (''port'', JInt (en_Port e)),
     (''title'', JStr (en_Title e)), (''icon'', JStr (en_Icon e)), (''authLevel'', JStr (en_AuthLevel e))]"

definition app_summary_json :: "Application \<Rightarrow> jval" where
  "app_summary_json app = JObj [(''name'', JStr (sp_Name (Spec app))), (''namespace'', JStr (sp_Namespace (Spec app))),
     (''owner'', JStr (sp_Owner (Spec app))), (''entrances'', JArr (map entrance_json (Entrances (Spec app)))),
     (''state'', JStr (StatusState app))]"

definition handleListApps :: "'k server \<Rightarrow> http_request \<Rightarrow> http_response" where
  "handleListApps s r =
     (if rq_Method r \<noteq> ''GET'' then method_not_allowed
      else ok_data (JArr (map (app_summary_json \<circ> snd) (apps s))))"

text \<open>The full object goes through \<open>marshal\<close>, the encoding of the custom resource's type.\<close>

definition handleGetApp :: "(Application \<Rightarrow> jval) \<Rightarrow> 'k server \<Rightarrow> http_request \<Rightarrow> http_response option" where
  "handleGetApp marshal s r =
     (if rq_Method r \<noteq> ''GET'' then Some method_not_allowed
      else do {
        appName \<leftarrow> slice_of (rq_Path r) (length ''/api/v1/apps/'') (length (rq_Path r));
        Some (if appName = [] then reply 400 (JObj [(''error'', JStr ''app name required'')])
              else case find (\<lambda>app. sp_Name (Spec app) = appName) (map snd (apps s)) of
                     None \<Rightarrow> reply 404 (JObj [(''error'', JStr ''app not found'')])
                   | Some app \<Rightarrow> ok_data (marshal app)) })"

definition permission_json :: "AppPermission \<Rightarrow> jval" where
  "permission_json p = JObj [(''group'', JStr (pm_Group p)), (''dataType'', JStr (pm_DataType p)),
     (''version'', JStr (pm_Version p)), (''ops'', JArr (map JStr (pm_Ops p)))]"

definition handleListPermissions :: "'k server \<Rightarrow> http_response" where
  "handleListPermissions s =
     ok_data (JObj (map (\<lambda>app. (app, JArr (map permission_json (fst (GetPermissions (perms s) app)))))
                     (ListApps (perms s))))"

definition perm_error_text :: "perm_error \<Rightarrow> string" where
  "perm_error_text e = (case e of
     NoRegisteredPermissions app \<Rightarrow> ''app \"'' @ app @ ''\" has no registered permissions''
   | PermissionDenied app g d v op \<Rightarrow>
       ''app \"'' @ app @ ''\" does not have permission for '' @ g @ ''/'' @ d @ ''/'' @ v @ ''/'' @ op)"

definition handleCheckPermission :: "'k server \<Rightarrow> http_request \<Rightarrow> http_response" where
  "handleCheckPermission s r =
     (if rq_Method r \<noteq> ''POST'' then method_not_allowed
      else case do {
             app \<leftarrow> field_str ''app'' (rq_Body r); g \<leftarrow> field_str ''group'' (rq_Body r);
             d \<leftarrow> field_str ''dataType'' (rq_Body r); v \<leftarrow> field_str ''version'' (rq_Body r);
             op \<leftarrow> field_str ''op'' (rq_Body r);
             Some (app, g, d, v, op) } of
        None \<Rightarrow> reply 400 (JObj [(''error'', JStr ''invalid request'')])
      | Some (app, g, d, v, op) \<Rightarrow>
          (case CheckPermission (perms s) app g d v op of
             Some e \<Rightarrow> reply 403 (JObj [(''code'', JInt 403), (''message'', JStr (perm_error_text e))])
           | None \<Rightarrow> reply 200 (JObj [(''code'', JInt 0), (''message'', JStr ''allowed'')])))"

definition endpoint_json :: "ProviderEndpoint \<Rightarrow> jval" where
  "endpoint_json ep = JObj [(''appName'', JStr (AppName ep)), (''host'', JStr (Host ep)), (''port'', JInt (Port ep)),
     (''title'', JStr (Title ep)), (''namespace'', JStr (Namespace ep))]"

definition handleGetProviders :: "'k server \<Rightarrow> http_request \<Rightarrow> http_response" where
  "handleGetProviders s r =
     (if rq_Method r \<noteq> ''GET'' then method_not_allowed
      else let grp = TrimSuffix (TrimPrefix (rq_Path r) ''/api/v1/providers/'') ''/'' in
        if grp = [] then reply 400 (JObj [(''error'', JStr ''group name required'')])
        else ok_data (JArr (map endpoint_json (GetProviders (providerReg s) grp))))"

definition handleListProviders :: "'k server \<Rightarrow> http_request \<Rightarrow> http_response" where
  "handleListProviders s r =
     (if rq_Method r \<noteq> ''GET'' then method_not_allowed
      else if rq_Path r \<noteq> ''/api/v1/providers'' then handleGetProviders s r
      else ok_data (JObj (map (\<lambda>(g, eps). (g, JArr (map endpoint_json eps))) (GetAllProviders (providerReg s)))))"

definition handleSettings :: "Config \<Rightarrow> http_request \<Rightarrow> http_response" where
  "handleSettings cfg r =
     (if rq_Method r = ''GET'' then
        ok_data (JObj [(''user_zone'', JStr (UserZone cfg)), (''username'', JStr (Username cfg)),
                       (''namespace'', JStr (UserNamespace cfg))])
      else method_not_allowed)"

definition handleHealth :: http_response where
  "handleHealth = reply 200 (JObj [(''status'', JStr ''ok'')])"

subsection \<open>The app proxy\<close>

datatype proxy_result =
    ProxyError http_response
  | ProxyTo string string string bool
    \<comment> \<open>upstream URL, its host part, the Host header sent, whether it is a WebSocket tunnel\<close>

text \<open>The app that answers to a name, with the entrance of that name; apps without entrances
  answer to their own name.\<close>

fun find_app :: "Application list \<Rightarrow> string \<Rightarrow> (Application \<times> Entrance option) option" where
  "find_app [] appName = None"
| "find_app (a # as) appName =
     (if Entrances (Spec a) \<noteq> [] then
        (case find (\<lambda>e. en_Name e = appName) (Entrances (Spec a)) of
           Some e \<Rightarrow> Some (a, Some e)
         | None \<Rightarrow> find_app as appName)
      else if sp_Name (Spec a) = appName then Some (a, None)
      else find_app as appName)"

definition shared_as_entrance :: "SharedEntrance \<Rightarrow> Entrance" where
  "shared_as_entrance se = \<lparr>en_Name = se_Name se, en_Host = se_Host se, en_Port = se_Port se,
     en_Title = [], en_Icon = [], en_AuthLevel = se_AuthLevel se, en_Invisible = False\<rparr>"

definition pick_entrance :: "Application \<Rightarrow> Entrance option \<Rightarrow> SharedEntrance option \<Rightarrow> Entrance" where
  "pick_entrance app matched shared = (case shared of
     Some se \<Rightarrow> shared_as_entrance se
   | None \<Rightarrow> (case matched of
       Some e \<Rightarrow> e
     | None \<Rightarrow> (case find (\<lambda>e. en_AuthLevel e \<noteq> ''internal'' \<and> \<not> en_Invisible e) (Entrances (Spec app)) of
         Some e \<Rightarrow> e
       | None \<Rightarrow> hd (Entrances (Spec app)))))"

definition upstream_host :: "Application \<Rightarrow> Entrance \<Rightarrow> string" where
  "upstream_host app e =
     (let svcHost = (if en_Host e = [] then sp_Name (Spec app) else en_Host e);
          ns = (if sp_Namespace (Spec app) \<noteq> [] then sp_Namespace (Spec app) else meta_Namespace app)
      in if \<not> Contains svcHost ''.'' then svcHost @ ''.'' @ ns @ ''.svc.cluster.local'' else svcHost)"

definition upstream_url :: "Application \<Rightarrow> Entrance \<Rightarrow> string" where
  "upstream_url app e = ''http://'' @ upstream_host app e @ '':'' @ int_str (en_Port e)"

text \<open>\<open>parse_ok\<close> is the verdict of \<^verbatim>\<open>url.Parse\<close> on the upstream URL.\<close>

definition handleAppProxy ::
    "(string \<Rightarrow> bool) \<Rightarrow> string \<Rightarrow> Application list \<Rightarrow> http_request \<Rightarrow> proxy_result" where
  "handleAppProxy parse_ok zone as r =
     (let host = (case SplitHostPort (rq_Host r) of Some (h, _) \<Rightarrow> h | None \<Rightarrow> rq_Host r) in
      case SplitN2 host CHR ''.'' of
        [appName, _] \<Rightarrow>
          (case (case find_app as appName of
                   Some (app, e) \<Rightarrow> Some (app, e, None)
                 | None \<Rightarrow>
                     (case find (\<lambda>a. SharedEntrances (Spec a) \<noteq> []) as of
                        Some a \<Rightarrow> Some (a, None, Some (hd (SharedEntrances (Spec a))))
                      | None \<Rightarrow> None)) of
             None \<Rightarrow> ProxyError (http_error (''app \"'' @ appName @ ''\" not found'') 404)
           | Some (app, matched, shared) \<Rightarrow>
               if Entrances (Spec app) = [] then ProxyError (http_error ''no entrances configured'' 502)
               else
                 let e = pick_entrance app matched shared;
                     upstream = upstream_url app e;
                     publicHost = appName @ ''.'' @ zone;
                     fwd = header_get r ''X-Forwarded-Host'';
                     sent = (if fwd \<noteq> [] then fwd else publicHost)
                 in if \<not> parse_ok upstream then ProxyError (http_error ''bad upstream'' 502)
                    else ProxyTo upstream (upstream_host app e) sent
                           (EqualFold (header_get r ''Upgrade'') ''websocket''))
      | _ \<Rightarrow> ProxyError (http_error ''unknown host'' 404))"

text \<open>\<^verbatim>\<open>strings.Replace(s, old, new, 1)\<close>\<close>

fun ReplaceFirst :: "string \<Rightarrow> string \<Rightarrow> string \<Rightarrow> string" where
  "ReplaceFirst [] old new = (if old = [] then new else [])"
| "ReplaceFirst (c # s) old new =
     (if prefix old (c # s) then new @ drop (length old) (c # s) else c # ReplaceFirst s old new)"

definition rewrite_location :: "string \<Rightarrow> Entrance \<Rightarrow> string \<Rightarrow> string \<Rightarrow> string" where
  "rewrite_location svcHost e publicHost loc =
     (if loc = [] then loc
      else let loc = ReplaceFirst loc (''http://'' @ svcHost) (''https://'' @ publicHost)
           in ReplaceFirst loc (''http://'' @ en_Host e) (''https://'' @ publicHost))"

subsection \<open>The state after a history of events\<close>

interpretation app_store: keyed_store "\<lambda>m k. map_of m k" AList.update AList.delete
  by unfold_locales (simp_all add: map_of_update map_of_delete)

lemma handleAppCreateOrUpdate_fields:
  "apps (handleAppCreateOrUpdate kube app s) = AList.update (app_key app) app (apps s)"
  "perms (handleAppCreateOrUpdate kube app s) =
     (if Permissions (Spec app) \<noteq> [] then Register (sp_Name (Spec app)) (Permissions (Spec app)) (perms s)
      else perms s)"
  "providerReg (handleAppCreateOrUpdate kube app s) = RegisterProvider (providerReg s) app"
  by (simp_all add: handleAppCreateOrUpdate_def Let_def RegisterProvider_def)

lemma handleAppDelete_fields:
  "apps (handleAppDelete kube app s) = AList.delete (app_key app) (apps s)"
  "perms (handleAppDelete kube app s) = Unregister (sp_Name (Spec app)) (perms s)"
  "providerReg (handleAppDelete kube app s) =
     (if SharedEntrances (Spec app) \<noteq> [] then UnregisterProvider (providerReg s) (sp_Name (Spec app))
      else providerReg s)"
  by (simp_all add: handleAppDelete_def Let_def)

text \<open>The writes and removals that an event makes to the app map and to the permissions.\<close>

definition app_ops :: "watch_event \<Rightarrow> Application store_op list" where
  "app_ops ev = (case ev of
     (_, None) \<Rightarrow> []
   | (Deleted, Some app) \<Rightarrow> [Remove (app_key app)]
   | (OtherEvent, Some app) \<Rightarrow> []
   | (_, Some app) \<Rightarrow> [Write (app_key app) app])"

definition perm_ops :: "watch_event \<Rightarrow> AppPermission list store_op list" where
  "perm_ops ev = (case ev of
     (_, None) \<Rightarrow> []
   | (Deleted, Some app) \<Rightarrow> [Remove (sp_Name (Spec app))]
   | (OtherEvent, Some app) \<Rightarrow> []
   | (_, Some app) \<Rightarrow>
       if Permissions (Spec app) \<noteq> [] then [Write (sp_Name (Spec app)) (Permissions (Spec app))] else [])"

lemma store_run_append: "store_run put del s (xs @ ys) = store_run put del (store_run put del s xs) ys"
  by (simp add: store_run_def)

lemma watch_step_fields:
  "apps (watch_step kube s ev) = store_run AList.update AList.delete (apps s) (app_ops ev)"
  "perms (watch_step kube s ev) = store_run Register Unregister (perms s) (perm_ops ev)"
  "reg_ok (providerReg s) \<Longrightarrow> reg_ok (providerReg (watch_step kube s ev))"
  by (cases ev; cases "fst ev"; cases "snd ev";
      simp add: watch_step_def app_ops_def perm_ops_def store_run_def handleAppCreateOrUpdate_fields
        handleAppDelete_fields reg_ok_RegisterProvider reg_ok_UnregisterProvider)+

lemma watch_run_fields:
  "apps (foldl (watch_step kube) s evs) =
     store_run AList.update AList.delete (apps s) (concat (map app_ops evs)) \<and>
   perms (foldl (watch_step kube) s evs) =
     store_run Register Unregister (perms s) (concat (map perm_ops evs)) \<and>
   (reg_ok (providerReg s) \<longrightarrow> reg_ok (providerReg (foldl (watch_step kube) s evs)))"
  by (induction evs arbitrary: s) (simp_all add: watch_step_fields store_run_append, simp add: store_run_def)

text \<open>The initial listing behaves as a run of \<^term>\<open>Added\<close> events before the others.\<close>

definition history :: "Application option list option \<Rightarrow> watch_event list \<Rightarrow> watch_event list" where
  "history items events = (case items of None \<Rightarrow> [] | Some l \<Rightarrow> map (Pair Added) l) @ events"

lemma watchApplications_history:
  "watchApplications kube items events s = foldl (watch_step kube) s (history items events)"
proof -
  have "watch_step kube s (Added, i) = (case i of None \<Rightarrow> s | Some app \<Rightarrow> handleAppCreateOrUpdate kube app s)"
    for s i by (simp add: watch_step_def split: option.splits)
  then have "foldl (watch_step kube) s (map (Pair Added) l) =
      foldl (\<lambda>s i. case i of None \<Rightarrow> s | Some app \<Rightarrow> handleAppCreateOrUpdate kube app s) s l" for s l
    by (induction l arbitrary: s) simp_all
  then show ?thesis
    by (simp add: watchApplications_def reconcileExistingApps_def history_def split: option.splits)
qed

text \<open>
  C27: from an empty server, after any initial listing and any sequence of watch events, the
  app map holds under each key the object of the last event on it (nothing after a deletion),
  the permission manager holds under each name the rules of the last event that declared
  some or deleted the app, and the provider registry satisfies its invariant.
\<close>
theorem server_state_history:
  "map_of (apps (watchApplications kube items events (new_server k))) key =
     (case last_op key (concat (map app_ops (history items events))) of
        Some x \<Rightarrow> op_val x | None \<Rightarrow> None)
   \<and> look_perms (perms (watchApplications kube items events (new_server k))) name =
     (case last_op name (concat (map perm_ops (history items events))) of
        Some x \<Rightarrow> op_val x | None \<Rightarrow> None)
   \<and> reg_ok (providerReg (watchApplications kube items events (new_server k)))"
proof -
  have "look_perms NewPermissionManager name = None"
    by (simp add: look_perms_map_of NewPermissionManager_def)
  then show ?thesis
    using watch_run_fields [of kube "new_server k" "history items events"] reg_ok_New
    by (simp add: watchApplications_history new_server_def app_store.look_run perm_store.look_run
        split: option.split)
qed

lemma CheckPermission_none:
  "look_perms pm app = None \<Longrightarrow> CheckPermission pm app g d v op = Some (NoRegisteredPermissions app)"
  by (auto simp: CheckPermission_def look_perms_map_of split: option.splits)

text \<open>
  Deleting an app revokes everything it held under its name: its object leaves the app
  map, every permission check fails, and (for an app with shared entrances) no group lists
  an endpoint of it; other names keep their rights and endpoints.
\<close>
lemma handleAppDelete_revokes:
  assumes "reg_ok (providerReg s)"
  shows "map_of (apps (handleAppDelete kube app s)) (app_key app) = None
    \<and> CheckPermission (perms (handleAppDelete kube app s)) (sp_Name (Spec app)) g d v op =
        Some (NoRegisteredPermissions (sp_Name (Spec app)))
    \<and> (SharedEntrances (Spec app) \<noteq> [] \<longrightarrow>
        provides (providerReg (handleAppDelete kube app s)) g (sp_Name (Spec app)) = None)
    \<and> (other \<noteq> sp_Name (Spec app) \<longrightarrow>
        look_perms (perms (handleAppDelete kube app s)) other = look_perms (perms s) other \<and>
        provides (providerReg (handleAppDelete kube app s)) g other = provides (providerReg s) g other)"
  using assms
  by (simp add: handleAppDelete_fields map_of_delete CheckPermission_none perm_store.look_del_same
      perm_store.look_other provides_Unregister)

definition sample_rule :: AppPermission where
  "sample_rule = \<lparr>pm_Group = ''g'', pm_DataType = ''t'', pm_Version = ''v1'', pm_Ops = [''read'']\<rparr>"

lemma handleAppDelete_revokes_witness:
  "CheckPermission (perms (handleAppDelete list_kube (sample_app ''ollama'' [] [])
       (handleAppCreateOrUpdate list_kube (sample_app ''ollama'' [] [sample_rule]) (new_server []))))
     ''ollama'' ''g'' ''t'' ''v1'' ''read'' = Some (NoRegisteredPermissions ''ollama'')
   \<and> CheckPermission (perms (handleAppCreateOrUpdate list_kube (sample_app ''ollama'' [] [sample_rule]) (new_server [])))
     ''ollama'' ''g'' ''t'' ''v1'' ''read'' = None"
proof -
  let ?s = "handleAppCreateOrUpdate list_kube (sample_app ''ollama'' [] [sample_rule]) (new_server [])"
  have ok: "reg_ok (providerReg ?s)"
    by (simp add: handleAppCreateOrUpdate_fields reg_ok_RegisterProvider new_server_def reg_ok_New)
  have "CheckPermission (perms ?s) ''ollama'' ''g'' ''t'' ''v1'' ''read'' = None"
    by (simp add: handleAppCreateOrUpdate_fields sample_app_def sample_rule_def new_server_def
        NewPermissionManager_def Register_def CheckPermission_def)
  moreover have "sp_Name (Spec (sample_app ''ollama'' [] [])) = ''ollama''" by (simp add: sample_app_def)
  ultimately show ?thesis
    using handleAppDelete_revokes [OF ok, of list_kube "sample_app ''ollama'' [] []" "''g''" "''t''" "''v1''" "''read''"]
    by simp
qed

text \<open>
  An update does not take rights away. After an update that no longer declares
  permissions, every check on the app's name has the result it had before; after one that
  no longer declares any shared entrance of some name, the app's old endpoint is still
  listed under that group.
\<close>
lemma update_keeps_dropped_rights:
  "(Permissions (Spec app) = [] \<longrightarrow>
      CheckPermission (perms (handleAppCreateOrUpdate kube app s)) name g d v op =
      CheckPermission (perms s) name g d v op)
   \<and> (g \<notin> se_Name ` set (SharedEntrances (Spec app)) \<longrightarrow>
      provides (providerReg (handleAppCreateOrUpdate kube app s)) g name = provides (providerReg s) g name)"
proof -
  have "last_entrance ses g = None" if "g \<notin> se_Name ` set ses" for ses
    using that by (auto simp: last_entrance_def find_None_iff)
  then show ?thesis
    by (auto simp: handleAppCreateOrUpdate_fields RegisterProvider_def provides_foldl)
qed

lemma update_keeps_dropped_rights_witness:
  "CheckPermission (perms (handleAppCreateOrUpdate list_kube (sample_app ''ollama'' [] [])
       (handleAppCreateOrUpdate list_kube (sample_app ''ollama'' [sample_se ''svc''] [sample_rule]) (new_server []))))
     ''ollama'' ''g'' ''t'' ''v1'' ''read'' = None"
proof -
  let ?s = "handleAppCreateOrUpdate list_kube (sample_app ''ollama'' [sample_se ''svc''] [sample_rule]) (new_server [])"
  have "CheckPermission (perms ?s) ''ollama'' ''g'' ''t'' ''v1'' ''read'' = None"
    by (simp add: handleAppCreateOrUpdate_fields sample_app_def sample_rule_def new_server_def
        NewPermissionManager_def Register_def CheckPermission_def)
  moreover have "Permissions (Spec (sample_app ''ollama'' [] [])) = []" by (simp add: sample_app_def)
  ultimately show ?thesis
    using update_keeps_dropped_rights [of "sample_app ''ollama'' [] []" list_kube ?s "''ollama''" "''g''" "''t''" "''v1''" "''read''"]
    by simp
qed

subsection \<open>Where the app proxy sends a request\<close>

lemma find_SomeD_set: "List.find P xs = Some x \<Longrightarrow> x \<in> set xs \<and> P x"
  by (auto simp: find_Some_iff)

definition answers_to :: "string \<Rightarrow> Application \<Rightarrow> bool" where
  "answers_to n a \<longleftrightarrow>
     (if Entrances (Spec a) = [] then sp_Name (Spec a) = n
      else \<exists>e \<in> set (Entrances (Spec a)). en_Name e = n)"

lemma find_app_step:
  "\<not> answers_to n a \<Longrightarrow> find_app (a # as) n = find_app as n"
  "answers_to n a \<Longrightarrow> find_app (a # as) n =
     Some (a, find (\<lambda>e. en_Name e = n) (Entrances (Spec a)))"
proof -
  show "find_app (a # as) n = find_app as n" if "\<not> answers_to n a"
  proof -
    have "find (\<lambda>e. en_Name e = n) (Entrances (Spec a)) = None" if "Entrances (Spec a) \<noteq> []"
      using that \<open>\<not> answers_to n a\<close> by (auto simp: find_None_iff answers_to_def)
    then show ?thesis using that by (auto simp: answers_to_def)
  qed
  show "find_app (a # as) n = Some (a, find (\<lambda>e. en_Name e = n) (Entrances (Spec a)))"
    if "answers_to n a"
  proof (cases "Entrances (Spec a) = []")
    case False
    then have "find (\<lambda>e. en_Name e = n) (Entrances (Spec a)) \<noteq> None"
      using that by (auto simp: find_None_iff answers_to_def)
    then obtain e where "find (\<lambda>e. en_Name e = n) (Entrances (Spec a)) = Some e" by auto
    with False show ?thesis by simp
  qed (use that in \<open>simp add: answers_to_def\<close>)
qed

lemma find_app_find:
  "find_app as n =
     map_option (\<lambda>a. (a, find (\<lambda>e. en_Name e = n) (Entrances (Spec a)))) (find (answers_to n) as)"
  by (induction as) (auto simp: find_app_step simp del: find_app.simps(2))

text \<open>The request's host without its port, and the first label of it.\<close>

definition request_label :: "http_request \<Rightarrow> string option" where
  "request_label r =
     (let host = (case SplitHostPort (rq_Host r) of Some (h, _) \<Rightarrow> h | None \<Rightarrow> rq_Host r)
      in map_option (\<lambda>i. take i host) (IndexByte host CHR ''.''))"

lemma split_label:
  "SplitN2 host CHR ''.'' = (case IndexByte host CHR ''.'' of
     None \<Rightarrow> [host] | Some i \<Rightarrow> [take i host, drop (Suc i) host])"
  by (simp add: SplitN2_def)

definition shared_target :: "Application list \<Rightarrow> string \<Rightarrow> Application \<Rightarrow> Entrance \<Rightarrow> bool" where
  "shared_target as n a e \<longleftrightarrow>
     (\<forall>b \<in> set as. \<not> answers_to n b) \<and> SharedEntrances (Spec a) \<noteq> [] \<and>
     e = shared_as_entrance (hd (SharedEntrances (Spec a)))"

text \<open>
  The proxy forwards a request only to an installed app that declares entrances: to its
  entrance whose name is the first label of the request's host, or, when no app answers to
  that label, to the first shared entrance of an app that has one. An app without entrances
  is never reached, although it answers to its own name.
\<close>
lemma handleAppProxy_target:
  assumes "handleAppProxy parse_ok zone as r = ProxyTo up svc sent ws"
  shows "\<exists>n a e. request_label r = Some n \<and> a \<in> set as \<and> Entrances (Spec a) \<noteq> [] \<and>
    up = upstream_url a e \<and> svc = upstream_host a e \<and>
    (e \<in> set (Entrances (Spec a)) \<and> en_Name e = n \<or> shared_target as n a e)"
proof -
  obtain n where n: "request_label r = Some n"
    using assms by (cases "IndexByte (case SplitHostPort (rq_Host r) of Some (h, _) \<Rightarrow> h | None \<Rightarrow> rq_Host r) CHR ''.''")
      (simp_all add: handleAppProxy_def Let_def split_label request_label_def del: IndexByte_None_iff)
  show ?thesis
  proof (cases "find (answers_to n) as")
    case (Some a)
    then have a: "a \<in> set as" "answers_to n a" by (auto dest: find_SomeD_set)
    obtain m where m: "find (\<lambda>e. en_Name e = n) (Entrances (Spec a)) = m" by blast
    have ne: "Entrances (Spec a) \<noteq> []" "up = upstream_url a (pick_entrance a m None)"
      "svc = upstream_host a (pick_entrance a m None)"
      using assms n Some m
      by (auto simp: handleAppProxy_def Let_def split_label request_label_def find_app_find split: if_splits)
    then obtain e where e: "m = Some e"
      using a(2) m by (cases m) (auto simp: answers_to_def find_None_iff)
    with m have "e \<in> set (Entrances (Spec a))" "en_Name e = n" by (auto dest: find_SomeD_set)
    with n a ne e show ?thesis by (auto simp: pick_entrance_def)
  next
    case None
    then have no: "\<forall>b \<in> set as. \<not> answers_to n b" by (simp add: find_None_iff)
    obtain a where a: "find (\<lambda>a. SharedEntrances (Spec a) \<noteq> []) as = Some a"
      and ne: "Entrances (Spec a) \<noteq> []" "up = upstream_url a (shared_as_entrance (hd (SharedEntrances (Spec a))))"
      "svc = upstream_host a (shared_as_entrance (hd (SharedEntrances (Spec a))))"
      using assms n None
      by (auto simp: handleAppProxy_def Let_def split_label request_label_def find_app_find pick_entrance_def
          split: if_splits option.splits)
    from a have "a \<in> set as" "SharedEntrances (Spec a) \<noteq> []" by (auto dest: find_SomeD_set)
    with n ne no show ?thesis by (auto simp: shared_target_def)
  qed
qed

definition sample_entrance :: "string \<Rightarrow> string \<Rightarrow> Entrance" where
  "sample_entrance n h = \<lparr>en_Name = n, en_Host = h, en_Port = 80, en_Title = [], en_Icon = [],
     en_AuthLevel = [], en_Invisible = False\<rparr>"

definition sample_web_app :: "string \<Rightarrow> Entrance list \<Rightarrow> Application" where
  "sample_web_app n es = (sample_app n [] [])\<lparr>Spec := (Spec (sample_app n [] []))\<lparr>Entrances := es\<rparr>\<rparr>"

definition sample_request :: "string \<Rightarrow> http_request" where
  "sample_request host = \<lparr>rq_Method = ''GET'', rq_Path = ''/'', rq_Query = [], rq_Host = host,
     rq_RemoteAddr = [], rq_Header = [], rq_Cookies = [], rq_Body = None\<rparr>"

lemma handleAppProxy_target_witness:
  "\<exists>n a e. request_label (sample_request ''photos.a.io:80'') = Some n \<and>
     a \<in> set [sample_web_app ''immich'' [sample_entrance ''photos'' ''immich-svc'']] \<and>
     ''http://immich-svc.user-space-admin.svc.cluster.local:80'' = upstream_url a e"
proof -
  have "handleAppProxy (\<lambda>_. True) ''a.io'' [sample_web_app ''immich'' [sample_entrance ''photos'' ''immich-svc'']]
      (sample_request ''photos.a.io:80'') =
    ProxyTo ''http://immich-svc.user-space-admin.svc.cluster.local:80''
      ''immich-svc.user-space-admin.svc.cluster.local'' ''photos.a.io'' False"
    by code_simp
  from handleAppProxy_target [OF this] show ?thesis by blast
qed

lemma ReplaceFirst_prefix: "old \<noteq> [] \<Longrightarrow> ReplaceFirst (old @ s) old new = new @ s"
  by (cases old) auto

text \<open>
  A redirect to the app's service is rewritten to the app's public host. When the
  entrance declares no host, the second replacement looks for \<^verbatim>\<open>"http://"\<close> alone and corrupts
  every other absolute redirect: the public host is glued to the redirect's host.
\<close>
lemma rewrite_location_cases:
  "(en_Host e = [] \<longrightarrow> \<not> Contains (''https://'' @ pub @ rest) ''http://'' \<longrightarrow>
      rewrite_location svc e pub (''http://'' @ svc @ rest) = ''https://'' @ pub @ rest)
   \<and> (en_Host e = [] \<longrightarrow> ReplaceFirst (''http://'' @ host) (''http://'' @ svc) (''https://'' @ pub) = ''http://'' @ host \<longrightarrow>
      rewrite_location svc e pub (''http://'' @ host) = ''https://'' @ pub @ host)"
proof (intro conjI impI)
  have no: "\<not> Contains s old \<Longrightarrow> ReplaceFirst s old new = s" for s old new
    by (induction s) (auto simp: sublist_Cons_right)
  show "rewrite_location svc e pub (''http://'' @ svc @ rest) = ''https://'' @ pub @ rest"
    if "en_Host e = []" "\<not> Contains (''https://'' @ pub @ rest) ''http://''"
    using that no [OF that(2)] ReplaceFirst_prefix [of "''http://'' @ svc" rest "''https://'' @ pub"]
    by (simp add: rewrite_location_def Let_def)
  show "rewrite_location svc e pub (''http://'' @ host) = ''https://'' @ pub @ host"
    if "en_Host e = []" "ReplaceFirst (''http://'' @ host) (''http://'' @ svc) (''https://'' @ pub) = ''http://'' @ host"
    using that ReplaceFirst_prefix [of "''http://''" host "''https://'' @ pub"]
    by (simp add: rewrite_location_def Let_def)
qed

lemma rewrite_location_cases_witness:
  "rewrite_location ''immich.ns.svc.cluster.local'' (sample_entrance ''photos'' []) ''photos.a.io''
     ''http://sso.b.io/login'' = ''https://photos.a.iosso.b.io/login''"
proof -
  have r: "ReplaceFirst (''http://'' @ ''sso.b.io/login'') (''http://'' @ ''immich.ns.svc.cluster.local'')
      (''https://'' @ ''photos.a.io'') = ''http://'' @ ''sso.b.io/login''"
    by code_simp
  have h: "en_Host (sample_entrance ''photos'' []) = []" by (simp add: sample_entrance_def)
  have "rewrite_location ''immich.ns.svc.cluster.local'' (sample_entrance ''photos'' []) ''photos.a.io''
     (''http://'' @ ''sso.b.io/login'') = ''https://'' @ ''photos.a.io'' @ ''sso.b.io/login''"
    using rewrite_location_cases [THEN conjunct2, rule_format, OF h r] .
  then show ?thesis by simp
qed

end
