(* ===== verification/Auth_Session.thy ===== *)
theory Auth_Session
  imports Go_Net Go_Codec
begin

text \<open>
  \<^verbatim>\<open>internal/auth/session.go\<close> and \<^verbatim>\<open>ratelimit.go\<close>: the session store, the session cookies and
  the login rate limiter. Redis is a parameter: a state and the commands the code sends,
  each of which may fail; the JSON codec of a session is a parameter too. Times are
  seconds.
\<close>

subsection \<open>Redis\<close>

datatype redis_reply = Nil | Failed string | Value string

record 'r redis =
  rGet :: "'r \<Rightarrow> string \<Rightarrow> redis_reply"
  rSet :: "'r \<Rightarrow> string \<Rightarrow> string \<Rightarrow> int \<Rightarrow> 'r \<times> bool"
  rDel :: "'r \<Rightarrow> string \<Rightarrow> 'r \<times> bool"
  rExpire :: "'r \<Rightarrow> string \<Rightarrow> int \<Rightarrow> 'r \<times> bool"
  rIncr :: "'r \<Rightarrow> string \<Rightarrow> 'r \<times> bool"
  rScan :: "'r \<Rightarrow> string \<Rightarrow> string list \<times> bool"

text \<open>
  What Redis documents of these commands while it is reachable: a write or a deletion is
  seen by the next read and concerns one key, \<^verbatim>\<open>EXPIRE\<close> with a positive time keeps the value,
  \<^verbatim>\<open>INCR\<close> counts from 0 in decimal, and \<^verbatim>\<open>SCAN\<close> with a prefix pattern finds the keys of that
  prefix.
\<close>

definition redis_laws :: "'r redis \<Rightarrow> bool" where
  "redis_laws R \<longleftrightarrow>
     (\<forall>r k v ttl j. snd (rSet R r k v ttl) \<and>
        rGet R (fst (rSet R r k v ttl)) j = (if j = k then Value v else rGet R r j)) \<and>
     (\<forall>r k j. snd (rDel R r k) \<and> rGet R (fst (rDel R r k)) j = (if j = k then Nil else rGet R r j)) \<and>
     (\<forall>r k t j. 0 < t \<longrightarrow> rGet R (fst (rExpire R r k t)) j = rGet R r j) \<and>
     (\<forall>r k j. j \<noteq> k \<longrightarrow> rGet R (fst (rIncr R r k)) j = rGet R r j) \<and>
     (\<forall>r k. rGet R r k = Nil \<longrightarrow> rGet R (fst (rIncr R r k)) k = Value (int_str 1)) \<and>
     (\<forall>r k n. rGet R r k = Value (int_str n) \<longrightarrow> rGet R (fst (rIncr R r k)) k = Value (int_str (n + 1)))"

lemma redis_set:
  "redis_laws R \<Longrightarrow> rSet R r k v ttl = (r', ok) \<Longrightarrow>
   ok \<and> rGet R r' j = (if j = k then Value v else rGet R r j)"
  unfolding redis_laws_def by (metis fst_conv snd_conv)

lemma redis_get_set:
  "redis_laws R \<Longrightarrow> rGet R (fst (rSet R r k v ttl)) j = (if j = k then Value v else rGet R r j)"
  "redis_laws R \<Longrightarrow> snd (rSet R r k v ttl)"
  by (simp_all add: redis_laws_def)

lemma redis_get_del:
  "redis_laws R \<Longrightarrow> rGet R (fst (rDel R r k)) j = (if j = k then Nil else rGet R r j)"
  "redis_laws R \<Longrightarrow> snd (rDel R r k)"
  by (simp_all add: redis_laws_def)

lemma redis_get_expire:
  "redis_laws R \<Longrightarrow> 0 < t \<Longrightarrow> rGet R (fst (rExpire R r k t)) j = rGet R r j"
  by (simp add: redis_laws_def)

lemma redis_get_incr:
  "redis_laws R \<Longrightarrow> j \<noteq> k \<Longrightarrow> rGet R (fst (rIncr R r k)) j = rGet R r j"
  "redis_laws R \<Longrightarrow> rGet R r k = Nil \<Longrightarrow> rGet R (fst (rIncr R r k)) k = Value (int_str 1)"
  "redis_laws R \<Longrightarrow> rGet R r k = Value (int_str n) \<Longrightarrow> rGet R (fst (rIncr R r k)) k = Value (int_str (n + 1))"
  by (simp_all add: redis_laws_def)

text \<open>An in-memory Redis for the witnesses.\<close>

definition map_redis :: "(string \<times> string) list redis" where
  "map_redis = \<lparr>
     rGet = (\<lambda>r k. case map_of r k of None \<Rightarrow> Nil | Some v \<Rightarrow> Value v),
     rSet = (\<lambda>r k v ttl. (AList.update k v r, True)),
     rDel = (\<lambda>r k. (AList.delete k r, True)),
     rExpire = (\<lambda>r k t. (r, True)),
     rIncr = (\<lambda>r k. (AList.update k (case map_of r k of None \<Rightarrow> int_str 1
        | Some v \<Rightarrow> int_str (the (parse_int v) + 1)) r, True)),
     rScan = (\<lambda>r p. (filter (prefix p) (map fst r), True))\<rparr>"

lemma redis_laws_map_redis: "redis_laws map_redis"
  by (auto simp: redis_laws_def map_redis_def map_of_update map_of_delete parse_int_int_str split: option.splits)

subsection \<open>Sessions\<close>

record SessionData =
  ss_Username :: string
  Groups :: "string list"
  AuthLevel :: int
  TOTPVerified :: bool
  CreatedAt :: int
  LastActivity :: int

record SessionInfo =
  si_ID :: string
  si_FullID :: string
  si_Username :: string
  si_CreatedAt :: int
  si_LastActivity :: int
  si_AuthLevel :: int

definition session_prefix :: string where
  "session_prefix = ''packalares:session:''"

definition session_key :: "string \<Rightarrow> string" where
  "session_key sid = session_prefix @ sid"

text \<open>The random source yields 32 bytes or fails.\<close>

definition generateSessionID :: "string option \<Rightarrow> string option" where
  "generateSessionID rand = map_option hexEncode rand"

definition Create ::
    "'r redis \<Rightarrow> (SessionData \<Rightarrow> string) \<Rightarrow> string option \<Rightarrow> int \<Rightarrow> SessionData \<Rightarrow> int \<Rightarrow> 'r \<Rightarrow> 'r \<times> string option" where
  "Create R enc rand now data ttl r = (case generateSessionID rand of
     None \<Rightarrow> (r, None)
   | Some sid \<Rightarrow>
       let data = data\<lparr>CreatedAt := now, LastActivity := now\<rparr>;
           (r', ok) = rSet R r (session_key sid) (enc data) ttl
       in (r', if ok then Some sid else None))"

definition Get ::
    "'r redis \<Rightarrow> (string \<Rightarrow> SessionData option) \<Rightarrow> 'r \<Rightarrow> string \<Rightarrow> string + SessionData" where
  "Get R dec r sid = (case rGet R r (session_key sid) of
     Nil \<Rightarrow> Inl ''session not found''
   | Failed e \<Rightarrow> Inl e
   | Value v \<Rightarrow> (case dec v of None \<Rightarrow> Inl ''unmarshal session'' | Some data \<Rightarrow> Inr data))"

definition Update ::
    "'r redis \<Rightarrow> (SessionData \<Rightarrow> string) \<Rightarrow> int \<Rightarrow> string \<Rightarrow> SessionData \<Rightarrow> int \<Rightarrow> 'r \<Rightarrow> 'r \<times> bool" where
  "Update R enc now sid data ttl r =
     rSet R r (session_key sid) (enc (data\<lparr>LastActivity := now\<rparr>)) ttl"

definition Delete :: "'r redis \<Rightarrow> string \<Rightarrow> 'r \<Rightarrow> 'r \<times> bool" where
  "Delete R sid r = rDel R r (session_key sid)"

definition Touch :: "'r redis \<Rightarrow> string \<Rightarrow> int \<Rightarrow> 'r \<Rightarrow> 'r \<times> bool" where
  "Touch R sid ttl r = rExpire R r (session_key sid) ttl"

text \<open>The loop over the scanned keys; the display ID slices the first 8 bytes of the ID.\<close>

fun list_loop ::
    "'r redis \<Rightarrow> (string \<Rightarrow> SessionData option) \<Rightarrow> 'r \<Rightarrow> string \<Rightarrow> string list \<Rightarrow> SessionInfo list option" where
  "list_loop R dec r username [] = Some []"
| "list_loop R dec r username (key # keys) =
     (let sid = TrimPrefix key session_prefix in
      case Get R dec r sid of
        Inl _ \<Rightarrow> list_loop R dec r username keys
      | Inr data \<Rightarrow>
          if username \<noteq> [] \<and> ss_Username data \<noteq> username then list_loop R dec r username keys
          else do {
            short \<leftarrow> slice_of sid 0 8;
            rest \<leftarrow> list_loop R dec r username keys;
            Some (\<lparr>si_ID = short @ ''...'', si_FullID = sid, si_Username = ss_Username data,
                   si_CreatedAt = CreatedAt data, si_LastActivity = LastActivity data,
                   si_AuthLevel = AuthLevel data\<rparr> # rest) })"

definition SessionList ::
    "'r redis \<Rightarrow> (string \<Rightarrow> SessionData option) \<Rightarrow> 'r \<Rightarrow> string \<Rightarrow> (string + SessionInfo list) option" where
  "SessionList R dec r username =
     (case rScan R r session_prefix of
        (keys, ok) \<Rightarrow> map_option (\<lambda>infos. if ok then Inr infos else Inl ''scan'') (list_loop R dec r username keys))"

subsection \<open>Cookies\<close>

definition cookie_domain :: "string \<Rightarrow> string" where
  "cookie_domain domain =
     (if domain \<noteq> [] \<and> \<not> ParseIP domain then
        (if \<not> HasPrefix domain ''.'' then CHR ''.'' # domain else domain)
      else [])"

definition SetSessionCookie :: "string \<Rightarrow> string \<Rightarrow> string \<Rightarrow> int \<Rightarrow> string \<Rightarrow> http_cookie" where
  "SetSessionCookie name sid domain maxAge sameSite =
     (let ss = (if ToLower sameSite = ''none'' then ''None''
                else if ToLower sameSite = ''strict'' then ''Strict'' else ''Lax'')
      in \<lparr>ck_Name = name, ck_Value = sid, ck_Path = ''/'', ck_Domain = cookie_domain domain, ck_MaxAge = maxAge,
          ck_HttpOnly = True, ck_Secure = True, ck_SameSite = ss\<rparr>)"

definition ClearSessionCookie :: "string \<Rightarrow> string \<Rightarrow> http_cookie" where
  "ClearSessionCookie name domain =
     \<lparr>ck_Name = name, ck_Value = [], ck_Path = ''/'', ck_Domain = cookie_domain domain, ck_MaxAge = -1,
      ck_HttpOnly = True, ck_Secure = True, ck_SameSite = []\<rparr>"

subsection \<open>The rate limiter\<close>

definition ipKey :: "string \<Rightarrow> string" where
  "ipKey ip = ''packalares:ratelimit:ip:'' @ ip"

definition userKey :: "string \<Rightarrow> string" where
  "userKey username = ''packalares:ratelimit:user:'' @ username"

definition maxAttempts :: int where "maxAttempts = 10"
definition maxDelaySec :: int where "maxDelaySec = 300"
definition blockDuration :: int where "blockDuration = 3600"

definition getFailures :: "'r redis \<Rightarrow> 'r \<Rightarrow> string \<Rightarrow> int" where
  "getFailures R r key = (case rGet R r key of
     Value v \<Rightarrow> (case AtoiErr v of Some n \<Rightarrow> n | None \<Rightarrow> 0)
   | _ \<Rightarrow> 0)"

text \<open>\<^verbatim>\<open>int(math.Min(math.Pow(2, n), max))\<close>: a negative power truncates to 0.\<close>

definition backoff :: "int \<Rightarrow> int" where
  "backoff n = (if n < 0 then 0 else min (2 ^ nat n) maxDelaySec)"

text \<open>\<^term>\<open>None\<close> is the error of a blocked caller.\<close>

definition Check :: "'r redis \<Rightarrow> 'r \<Rightarrow> string \<Rightarrow> string \<Rightarrow> int option" where
  "Check R r ip username =
     (let ipFails = getFailures R r (ipKey ip);
          userFails = getFailures R r (userKey username);
          maxFails = (if userFails > ipFails then userFails else ipFails)
      in if maxFails \<ge> maxAttempts then None
         else if maxFails = 0 then Some 0
         else Some (backoff maxFails))"

definition rl_increment :: "'r redis \<Rightarrow> string \<Rightarrow> 'r \<Rightarrow> 'r" where
  "rl_increment R key r = fst (rExpire R (fst (rIncr R r key)) key blockDuration)"

definition RecordFailure :: "'r redis \<Rightarrow> string \<Rightarrow> string \<Rightarrow> 'r \<Rightarrow> 'r" where
  "RecordFailure R ip username r = rl_increment R (userKey username) (rl_increment R (ipKey ip) r)"

definition Reset :: "'r redis \<Rightarrow> string \<Rightarrow> string \<Rightarrow> 'r \<Rightarrow> 'r" where
  "Reset R ip username r = fst (rDel R (fst (rDel R r (ipKey ip))) (userKey username))"

subsection \<open>Keys do not collide\<close>

lemma keys_distinct [simp]:
  "ipKey a \<noteq> userKey b" "userKey b \<noteq> ipKey a" "ipKey a \<noteq> session_key s" "session_key s \<noteq> ipKey a"
  "userKey a \<noteq> session_key s" "session_key s \<noteq> userKey a"
  by (simp_all add: ipKey_def userKey_def session_key_def session_prefix_def)

lemma keys_inj [simp]:
  "ipKey a = ipKey b \<longleftrightarrow> a = b" "userKey a = userKey b \<longleftrightarrow> a = b" "session_key s = session_key t \<longleftrightarrow> s = t"
  by (simp_all add: ipKey_def userKey_def session_key_def)

subsection \<open>Counting failures\<close>

text \<open>A counter that holds \<open>n\<close>: absent at 0, decimal text after that.\<close>

definition counter :: "'r redis \<Rightarrow> 'r \<Rightarrow> string \<Rightarrow> nat \<Rightarrow> bool" where
  "counter R r key n \<longleftrightarrow> rGet R r key = (if n = 0 then Nil else Value (int_str (int n)))"

lemma counter_increment:
  assumes "redis_laws R" "counter R r j n"
  shows "counter R (rl_increment R key r) j (if j = key then n + 1 else n)"
proof (cases "j = key")
  case True
  have e: "rGet R (rl_increment R key r) j = rGet R (fst (rIncr R r key)) j"
    unfolding rl_increment_def by (rule redis_get_expire [OF assms(1)]) (simp add: blockDuration_def)
  show ?thesis
  proof (cases n)
    case 0
    then show ?thesis using assms True e redis_get_incr(2) [OF assms(1)] by (simp add: counter_def)
  next
    case (Suc m)
    then have "rGet R r key = Value (int_str (int n))" using assms(2) True by (simp add: counter_def)
    from redis_get_incr(3) [OF assms(1) this] show ?thesis
      using True e by (simp add: counter_def add.commute)
  qed
next
  case False
  then show ?thesis
    using assms by (simp add: counter_def rl_increment_def redis_get_expire redis_get_incr blockDuration_def)
qed

lemma counter_failures:
  assumes "redis_laws R" "counter R r (ipKey ip) m" "counter R r (userKey u) n"
  shows "counter R (foldl (\<lambda>r (i, w). RecordFailure R i w r) r fs) (ipKey ip) (m + length (filter (\<lambda>f. fst f = ip) fs))
    \<and> counter R (foldl (\<lambda>r (i, w). RecordFailure R i w r) r fs) (userKey u) (n + length (filter (\<lambda>f. snd f = u) fs))"
  using assms(2,3)
proof (induction fs arbitrary: r m n)
  case (Cons f fs)
  obtain i w where f: "f = (i, w)" by (cases f)
  have "counter R (RecordFailure R i w r) (ipKey ip) (if ip = i then m + 1 else m)"
    unfolding RecordFailure_def
    using counter_increment [OF assms(1) counter_increment [OF assms(1) Cons.prems(1)], of "userKey w" "ipKey i"]
    by (simp split: if_splits)
  moreover have "counter R (RecordFailure R i w r) (userKey u) (if u = w then n + 1 else n)"
    unfolding RecordFailure_def
    using counter_increment [OF assms(1) counter_increment [OF assms(1) Cons.prems(2)], of "userKey w" "ipKey i"]
    by (simp split: if_splits)
  ultimately show ?case using Cons.IH by (fastforce simp: f)
qed simp

lemma getFailures_counter: "counter R r key n \<Longrightarrow> n < 2 ^ 63 \<Longrightarrow> getFailures R r key = int n"
  by (auto simp: counter_def getFailures_def AtoiErr_def parse_int_int_str split: if_splits)

definition fails_of :: "string \<Rightarrow> string \<Rightarrow> (string \<times> string) list \<Rightarrow> nat" where
  "fails_of ip u fs = max (length (filter (\<lambda>f. fst f = ip) fs)) (length (filter (\<lambda>f. snd f = u) fs))"

text \<open>
  While the counters live, after any sequence of failed logins the next attempt is
  judged by the larger of the failures from its address and the failures on its user name:
  none gives no delay, 1 to 9 a delay that doubles up to the 300-second cap, 10 or more a
  block. After a success the counters start again.
\<close>
lemma Check_after_failures:
  assumes "redis_laws R" "rGet R r (ipKey ip) = Nil" "rGet R r (userKey u) = Nil" "length fs < 2 ^ 63"
  shows "Check R (foldl (\<lambda>r (i, w). RecordFailure R i w r) r fs) ip u =
      (if fails_of ip u fs \<ge> 10 then None
       else if fails_of ip u fs = 0 then Some 0 else Some (min (2 ^ fails_of ip u fs) 300))
    \<and> Check R (Reset R ip u (foldl (\<lambda>r (i, w). RecordFailure R i w r) r fs)) ip u = Some 0"
proof -
  let ?r = "foldl (\<lambda>r (i, w). RecordFailure R i w r) r fs"
  have c: "counter R r (ipKey ip) 0" "counter R r (userKey u) 0" using assms(2,3) by (simp_all add: counter_def)
  note C = counter_failures [OF assms(1) c, of fs]
  have b: "length (filter P fs) < 2 ^ 63" for P
    using assms(4) length_filter_le [of P fs] by linarith
  have i: "getFailures R ?r (ipKey ip) = int (length (filter (\<lambda>f. fst f = ip) fs))"
    using C b by (intro getFailures_counter) auto
  have w: "getFailures R ?r (userKey u) = int (length (filter (\<lambda>f. snd f = u) fs))"
    using C b by (intro getFailures_counter) auto
  have "Check R ?r ip u =
      (if fails_of ip u fs \<ge> 10 then None
       else if fails_of ip u fs = 0 then Some 0 else Some (min (2 ^ fails_of ip u fs) 300))"
  proof -
    have m: "(if getFailures R ?r (userKey u) > getFailures R ?r (ipKey ip) then getFailures R ?r (userKey u)
        else getFailures R ?r (ipKey ip)) = int (fails_of ip u fs)"
      by (simp add: i w fails_of_def)
    show ?thesis
      unfolding Check_def Let_def m by (simp add: maxAttempts_def maxDelaySec_def backoff_def)
  qed
  moreover have "rGet R (Reset R ip u ?r) (ipKey ip) = Nil" "rGet R (Reset R ip u ?r) (userKey u) = Nil"
    by (simp_all add: Reset_def redis_get_del assms(1))
  then have "Check R (Reset R ip u ?r) ip u = Some 0"
    by (simp add: Check_def getFailures_def maxAttempts_def)
  ultimately show ?thesis by blast
qed

lemma Check_after_failures_witness:
  "Check map_redis (foldl (\<lambda>r (i, w). RecordFailure map_redis i w r) []
     [(''1.2.3.4'', ''admin''), (''5.6.7.8'', ''admin'')]) ''1.2.3.4'' ''admin'' = Some 4"
proof -
  have r: "rGet map_redis [] k = Nil" for k by (simp add: map_redis_def)
  have l: "length [(''1.2.3.4'', ''admin''), (''5.6.7.8'', ''admin'')] < 2 ^ 63" by simp
  have f: "fails_of ''1.2.3.4'' ''admin'' [(''1.2.3.4'', ''admin''), (''5.6.7.8'', ''admin'')] = 2"
    by (simp add: fails_of_def)
  show ?thesis
    using Check_after_failures [OF redis_laws_map_redis r r l, of "''1.2.3.4''" "''admin''", unfolded f] by simp
qed

end
