(* ===== verification/Auth_Tokens.thy ===== *)
theory Auth_Tokens
  imports Go_Codec
begin

text \<open>
  The signed and encrypted values of the auth server: session-ID signatures
  (\<^verbatim>\<open>internal/auth/session.go\<close>), JWTs (\<^verbatim>\<open>jwt.go\<close>) and the encryption of TOTP secrets
  (\<^verbatim>\<open>crypto.go\<close>). The cryptographic primitives and the JSON codec of the claims are
  parameters; the codecs base64 and hex are those of \<^theory_text>\<open>Go_Codec\<close>.
\<close>

subsection \<open>The contract of a signed token\<close>

locale signed_token =
  fixes sign :: "'m \<Rightarrow> string"
    and verify :: "string \<Rightarrow> 'm option"
    and wf :: "'m \<Rightarrow> bool"
    and genuine :: "string \<Rightarrow> bool"
  assumes verify_sign: "wf m \<Longrightarrow> verify (sign m) = Some m"
    and verify_genuine: "verify t = Some m \<Longrightarrow> genuine t"
begin

lemma sign_inj: "wf m \<Longrightarrow> wf n \<Longrightarrow> sign m = sign n \<Longrightarrow> m = n"
  by (metis option.inject verify_sign)

lemma sign_genuine: "wf m \<Longrightarrow> genuine (sign m)"
  by (rule verify_genuine [OF verify_sign])

lemma forged_rejected: "\<not> genuine t \<Longrightarrow> verify t = None"
  using verify_genuine by (cases "verify t") auto

end

subsection \<open>Session IDs\<close>

text \<open>\<open>mac\<close> is HMAC-SHA256: key, message.\<close>

definition SignSessionID :: "(string \<Rightarrow> string \<Rightarrow> string) \<Rightarrow> string \<Rightarrow> string \<Rightarrow> string" where
  "SignSessionID mac sessionID secret = sessionID @ ''.'' @ hexEncode (mac secret sessionID)"

definition VerifySessionID ::
    "(string \<Rightarrow> string \<Rightarrow> string) \<Rightarrow> string \<Rightarrow> string \<Rightarrow> string \<times> bool" where
  "VerifySessionID mac signed secret = (case SplitN2 signed CHR ''.'' of
     [a, _] \<Rightarrow> if signed = SignSessionID mac a secret then (a, True) else ([], False)
   | _ \<Rightarrow> ([], False))"

definition verify_id :: "(string \<Rightarrow> string \<Rightarrow> string) \<Rightarrow> string \<Rightarrow> string \<Rightarrow> string option" where
  "verify_id mac secret signed =
     (case VerifySessionID mac signed secret of (sid, ok) \<Rightarrow> if ok then Some sid else None)"

definition no_dot :: "string \<Rightarrow> bool" where
  "no_dot s \<longleftrightarrow> CHR ''.'' \<notin> set s"

lemma verify_id_iff:
  "verify_id mac secret signed = Some sid \<longleftrightarrow> no_dot sid \<and> signed = SignSessionID mac sid secret"
proof
  assume "verify_id mac secret signed = Some sid"
  then show "no_dot sid \<and> signed = SignSessionID mac sid secret"
    using SplitN2_cases [of signed "CHR ''.''"]
    by (auto simp: verify_id_def VerifySessionID_def no_dot_def split: if_splits)
next
  assume "no_dot sid \<and> signed = SignSessionID mac sid secret"
  then show "verify_id mac secret signed = Some sid"
    by (simp add: verify_id_def VerifySessionID_def SignSessionID_def no_dot_def)
qed

definition genuine_id :: "(string \<Rightarrow> string \<Rightarrow> string) \<Rightarrow> string \<Rightarrow> string \<Rightarrow> bool" where
  "genuine_id mac secret t \<longleftrightarrow> (\<exists>a b. t = a @ ''.'' @ b \<and> b = hexEncode (mac secret a))"

interpretation session_id: signed_token "\<lambda>sid. SignSessionID mac sid secret" "verify_id mac secret"
    no_dot "genuine_id mac secret" for mac secret
  by unfold_locales (auto simp: verify_id_iff genuine_id_def SignSessionID_def)

text \<open>
  A cookie verifies exactly when it is the signature of an ID without a dot, and then
  the ID returned is that one; a value whose part after the dot is not the MAC of the part
  before it is rejected; two IDs never share a signature.
\<close>
lemma VerifySessionID_iff:
  "(VerifySessionID mac signed secret = (sid, True) \<longleftrightarrow> no_dot sid \<and> signed = SignSessionID mac sid secret)
   \<and> (\<not> genuine_id mac secret signed \<longrightarrow> VerifySessionID mac signed secret = ([], False))
   \<and> (no_dot sid \<and> no_dot sid' \<and> SignSessionID mac sid secret = SignSessionID mac sid' secret \<longrightarrow> sid = sid')"
proof -
  have fail: "VerifySessionID mac signed secret = ([], False) \<longleftrightarrow> verify_id mac secret signed = None"
    by (auto simp: verify_id_def VerifySessionID_def split: list.splits)
  have "VerifySessionID mac signed secret = (sid, True) \<longleftrightarrow> verify_id mac secret signed = Some sid"
    by (auto simp: verify_id_def split: prod.splits)
  then show ?thesis
    using verify_id_iff [of mac secret signed sid] session_id.forged_rejected [of mac secret signed]
      session_id.sign_inj [of sid sid' mac secret] fail by auto
qed

lemma VerifySessionID_iff_witness:
  "VerifySessionID (\<lambda>k m. k @ m) (SignSessionID (\<lambda>k m. k @ m) ''ab'' ''k'') ''k'' = (''ab'', True)
   \<and> VerifySessionID (\<lambda>k m. k @ m) ''ab.00'' ''k'' = ([], False)"
proof -
  have no: "no_dot ''ab''" by (simp add: no_dot_def)
  have "\<not> genuine_id (\<lambda>k m. k @ m) ''k'' ''ab.00''"
  proof
    assume "genuine_id (\<lambda>k m. k @ m) ''k'' ''ab.00''"
    then obtain a b where "''ab.00'' = a @ ''.'' @ b" and b: "b = hexEncode (''k'' @ a)"
      unfolding genuine_id_def by blast
    then have "a = ''ab''" "b = ''00''" by (auto simp: append_eq_Cons_conv Cons_eq_append_conv)
    with b show False by (simp add: hexEncode_def bytes_of_def)
  qed
  with no show ?thesis
    using VerifySessionID_iff [of "\<lambda>k m. k @ m" "SignSessionID (\<lambda>k m. k @ m) ''ab'' ''k''" "''k''" "''ab''" "''ab''"]
      VerifySessionID_iff [of "\<lambda>k m. k @ m" "''ab.00''" "''k''" "''ab''" "''ab''"]
    by blast
qed

subsection \<open>JWTs\<close>

record JWTClaims =
  Subject :: string
  JUsername :: string
  JGroups :: "string list"
  JAuthLevel :: int
  IssuedAt :: int
  ExpiresAt :: int
  Issuer :: string

datatype jwt_error = InvalidFormat | DecodeSignature | InvalidSignature | DecodePayload | UnmarshalClaims | TokenExpired

definition jwtHeaderHS512 :: string where
  "jwtHeaderHS512 = ''{\"alg\":\"HS512\",\"typ\":\"JWT\"}''"

definition with_defaults :: "int \<Rightarrow> JWTClaims \<Rightarrow> JWTClaims" where
  "with_defaults now claims =
     (let claims = (if IssuedAt claims = 0 then claims\<lparr>IssuedAt := now\<rparr> else claims);
          claims = (if ExpiresAt claims = 0 then claims\<lparr>ExpiresAt := now + 15 * 60\<rparr> else claims)
      in if Issuer claims = [] then claims\<lparr>Issuer := ''packalares-auth''\<rparr> else claims)"

text \<open>\<open>mac\<close> is HMAC-SHA512 (key, message), \<open>marshal\<close> the JSON encoding of the claims.\<close>

definition SignJWT ::
    "(string \<Rightarrow> string \<Rightarrow> string) \<Rightarrow> (JWTClaims \<Rightarrow> string option) \<Rightarrow> int \<Rightarrow> JWTClaims \<Rightarrow> string \<Rightarrow> string option" where
  "SignJWT mac marshal now claims secret =
     (let header = base64URLEncode jwtHeaderHS512 in
      case marshal (with_defaults now claims) of
        None \<Rightarrow> None
      | Some payload \<Rightarrow>
          (let signingInput = header @ ''.'' @ base64URLEncode payload;
               signature = mac secret signingInput
           in Some (signingInput @ ''.'' @ base64URLEncode signature)))"

definition ValidateJWT ::
    "(string \<Rightarrow> string \<Rightarrow> string) \<Rightarrow> (string \<Rightarrow> JWTClaims option) \<Rightarrow> int \<Rightarrow> string \<Rightarrow> string \<Rightarrow> jwt_error + JWTClaims" where
  "ValidateJWT mac unmarshal now tokenStr secret = (case split_on CHR ''.'' tokenStr of
     [p0, p1, p2] \<Rightarrow>
       (let signingInput = p0 @ ''.'' @ p1; expectedSig = mac secret signingInput in
        case base64URLDecode p2 of
          None \<Rightarrow> Inl DecodeSignature
        | Some actualSig \<Rightarrow>
            if expectedSig \<noteq> actualSig then Inl InvalidSignature
            else (case base64URLDecode p1 of
                None \<Rightarrow> Inl DecodePayload
              | Some payload \<Rightarrow>
                  (case unmarshal payload of
                     None \<Rightarrow> Inl UnmarshalClaims
                   | Some claims \<Rightarrow> if now > ExpiresAt claims then Inl TokenExpired else Inr claims)))
   | _ \<Rightarrow> Inl InvalidFormat)"

definition genuine_jwt :: "(string \<Rightarrow> string \<Rightarrow> string) \<Rightarrow> string \<Rightarrow> string \<Rightarrow> bool" where
  "genuine_jwt mac secret t \<longleftrightarrow>
     (\<exists>h p s. t = h @ ''.'' @ p @ ''.'' @ s \<and> base64URLDecode s = Some (mac secret (h @ ''.'' @ p)))"

lemma base64URLEncode_no_dot: "CHR ''.'' \<notin> set (base64URLEncode s)"
  using base64URLEncode_set [of s] base64_alphabet(5) by blast

lemma split_on_token:
  "split_on CHR ''.'' (base64URLEncode a @ ''.'' @ base64URLEncode b @ ''.'' @ base64URLEncode c) =
     [base64URLEncode a, base64URLEncode b, base64URLEncode c]"
  by (simp add: split_on_append split_on_id base64URLEncode_no_dot)

lemma ValidateJWT_SignJWT:
  assumes "marshal (with_defaults iat claims) = Some payload"
    and "unmarshal payload = Some (with_defaults iat claims)"
  shows "ValidateJWT mac unmarshal now (the (SignJWT mac marshal iat claims secret)) secret =
    (if now > ExpiresAt (with_defaults iat claims) then Inl TokenExpired else Inr (with_defaults iat claims))"
proof -
  have t: "the (SignJWT mac marshal iat claims secret) =
      base64URLEncode jwtHeaderHS512 @ ''.'' @ base64URLEncode payload @ ''.'' @
      base64URLEncode (mac secret (base64URLEncode jwtHeaderHS512 @ ''.'' @ base64URLEncode payload))"
    by (simp add: SignJWT_def Let_def assms(1))
  show ?thesis
    unfolding t ValidateJWT_def split_on_token by (simp add: Let_def base64URL_roundtrip assms(2))
qed

lemma ValidateJWT_InrD:
  assumes "ValidateJWT mac unmarshal now t secret = Inr claims"
  shows "genuine_jwt mac secret t \<and> now \<le> ExpiresAt claims \<and>
    (\<exists>h p s payload. t = h @ ''.'' @ p @ ''.'' @ s \<and> base64URLDecode p = Some payload \<and> unmarshal payload = Some claims)"
proof -
  obtain h p s where sp: "split_on CHR ''.'' t = [h, p, s]"
    using assms by (auto simp: ValidateJWT_def split: list.splits)
  have t: "t = h @ ''.'' @ p @ ''.'' @ s"
    using join_split_on [of "CHR ''.''" t] by (simp add: sp)
  show ?thesis
    using assms unfolding ValidateJWT_def sp genuine_jwt_def
    by (auto simp: Let_def t split: option.splits if_splits)
qed

interpretation jwt: signed_token "\<lambda>claims. the (SignJWT mac marshal now claims secret)"
    "\<lambda>t. case ValidateJWT mac unmarshal now t secret of Inl _ \<Rightarrow> None | Inr c \<Rightarrow> Some c"
    "\<lambda>claims. with_defaults now claims = claims \<and> now \<le> ExpiresAt claims \<and>
       (\<exists>payload. marshal claims = Some payload \<and> unmarshal payload = Some claims)"
    "genuine_jwt mac secret" for mac marshal unmarshal now secret
proof unfold_locales
  show "(case ValidateJWT mac unmarshal now (the (SignJWT mac marshal now m secret)) secret of
      Inl _ \<Rightarrow> None | Inr c \<Rightarrow> Some c) = Some m"
    if "with_defaults now m = m \<and> now \<le> ExpiresAt m \<and>
       (\<exists>payload. marshal m = Some payload \<and> unmarshal payload = Some m)" for m
    using that ValidateJWT_SignJWT [of marshal now m _ unmarshal mac now secret] by auto
  show "genuine_jwt mac secret t"
    if "(case ValidateJWT mac unmarshal now t secret of Inl _ \<Rightarrow> None | Inr c \<Rightarrow> Some c) = Some m" for t m
    using that ValidateJWT_InrD [of mac unmarshal now t secret] by (auto split: sum.splits)
qed

text \<open>
  C29: a token issued for claims the JSON codec round-trips validates, until it expires, to
  the claims with their defaults filled in; it is refused as expired afterwards; and any
  token that validates carries the MAC of its first two parts and has not expired.
\<close>
theorem JWT_roundtrip_and_soundness:
  assumes "marshal (with_defaults iat claims) = Some payload"
    and "unmarshal payload = Some (with_defaults iat claims)"
  shows "(\<exists>t. SignJWT mac marshal iat claims secret = Some t \<and>
      ValidateJWT mac unmarshal now t secret =
        (if now > ExpiresAt (with_defaults iat claims) then Inl TokenExpired
         else Inr (with_defaults iat claims)))
    \<and> (ValidateJWT mac unmarshal now t' secret = Inr c \<longrightarrow> genuine_jwt mac secret t' \<and> now \<le> ExpiresAt c)"
proof -
  have "\<exists>t. SignJWT mac marshal iat claims secret = Some t" using assms(1) by (simp add: SignJWT_def Let_def)
  then show ?thesis
    using ValidateJWT_SignJWT [of marshal iat claims payload unmarshal mac now secret] assms ValidateJWT_InrD [of mac unmarshal now t' secret c]
    by auto
qed

definition sample_claims :: JWTClaims where
  "sample_claims = \<lparr>Subject = ''u'', JUsername = ''u'', JGroups = [], JAuthLevel = 1, IssuedAt = 0,
     ExpiresAt = 0, Issuer = []\<rparr>"

theorem JWT_roundtrip_and_soundness_witness:
  "\<exists>t. SignJWT (\<lambda>k m. k) (\<lambda>c. Some ''claims'') 1000 sample_claims ''k'' = Some t \<and>
     ValidateJWT (\<lambda>k m. k) (\<lambda>p. Some (with_defaults 1000 sample_claims)) 1900 t ''k'' =
       Inr (with_defaults 1000 sample_claims) \<and>
     ValidateJWT (\<lambda>k m. k) (\<lambda>p. Some (with_defaults 1000 sample_claims)) 1901 t ''k'' = Inl TokenExpired"
proof -
  have e: "ExpiresAt (with_defaults 1000 sample_claims) = 1900"
    by (simp add: with_defaults_def sample_claims_def Let_def)
  note T = JWT_roundtrip_and_soundness [of "\<lambda>c. Some ''claims''" 1000 sample_claims "''claims''"
      "\<lambda>p. Some (with_defaults 1000 sample_claims)" "\<lambda>k m. k" "''k''", OF refl refl, THEN conjunct1]
  show ?thesis using T [of 1900] T [of 1901] by (auto simp: e)
qed

subsection \<open>Encryption of stored secrets\<close>

text \<open>AES-256-GCM, HKDF-SHA256 with the code's info string, and SHA-256.\<close>

record aes =
  hkdfKey :: "string \<Rightarrow> string option"
  sha256Sum :: "string \<Rightarrow> string"
  gcmSeal :: "string \<Rightarrow> string \<Rightarrow> string \<Rightarrow> string"
  gcmOpen :: "string \<Rightarrow> string \<Rightarrow> string \<Rightarrow> string option"

definition nonceSize :: nat where
  "nonceSize = 12"

definition legacyKey :: "aes \<Rightarrow> string \<Rightarrow> string" where
  "legacyKey A secret = sha256Sum A secret"

text \<open>\<open>nonce\<close> is what the random source yields; \<^term>\<open>None\<close> when it fails.\<close>

definition encryptAES :: "aes \<Rightarrow> string option \<Rightarrow> string \<Rightarrow> string \<Rightarrow> string option" where
  "encryptAES A nonce plaintext secret = do {
     key \<leftarrow> hkdfKey A secret;
     nonce \<leftarrow> nonce;
     Some (StdEncode (nonce @ gcmSeal A key nonce plaintext)) }"

definition openGCM :: "aes \<Rightarrow> string \<Rightarrow> string \<Rightarrow> string option" where
  "openGCM A key data =
     (if length data < nonceSize then None
      else gcmOpen A key (take nonceSize data) (drop nonceSize data))"

definition decryptAES :: "aes \<Rightarrow> string \<Rightarrow> string \<Rightarrow> string option" where
  "decryptAES A encrypted secret = do {
     data \<leftarrow> StdDecode encrypted;
     key \<leftarrow> hkdfKey A secret;
     (case openGCM A key data of
        Some plaintext \<Rightarrow> Some plaintext
      | None \<Rightarrow> openGCM A (legacyKey A secret) data) }"

text \<open>What an AEAD promises: it opens what it sealed with the same key and nonce.\<close>

definition aead :: "aes \<Rightarrow> bool" where
  "aead A \<longleftrightarrow> (\<forall>key nonce p. gcmOpen A key nonce (gcmSeal A key nonce p) = Some p)"

lemma decrypt_encrypt:
  assumes "aead A" "length nonce = nonceSize" "encryptAES A (Some nonce) p secret = Some c"
  shows "decryptAES A c secret = Some p"
  using assms
  by (auto simp: encryptAES_def decryptAES_def aead_def openGCM_def Std_roundtrip bind_eq_Some_conv)

text \<open>
  A secret encrypted under the master secret decrypts to itself, and one sealed by an
  earlier build under the bare SHA-256 key still decrypts, unless the current key happens to
  open it too.
\<close>
lemma decryptAES_current_and_legacy:
  assumes "aead A" "length nonce = nonceSize" "hkdfKey A secret = Some key"
  shows "(\<exists>c. encryptAES A (Some nonce) p secret = Some c \<and> decryptAES A c secret = Some p)
    \<and> (gcmOpen A key nonce (gcmSeal A (legacyKey A secret) nonce p) = None \<longrightarrow>
        decryptAES A (StdEncode (nonce @ gcmSeal A (legacyKey A secret) nonce p)) secret = Some p)"
proof -
  have "\<exists>c. encryptAES A (Some nonce) p secret = Some c" using assms(3) by (simp add: encryptAES_def)
  then have "\<exists>c. encryptAES A (Some nonce) p secret = Some c \<and> decryptAES A c secret = Some p"
    using decrypt_encrypt [OF assms(1,2)] by blast
  moreover have "gcmOpen A key nonce (gcmSeal A (legacyKey A secret) nonce p) = None \<Longrightarrow>
      decryptAES A (StdEncode (nonce @ gcmSeal A (legacyKey A secret) nonce p)) secret = Some p"
    using assms by (simp add: decryptAES_def aead_def openGCM_def Std_roundtrip)
  ultimately show ?thesis by blast
qed

definition sample_aes :: aes where
  "sample_aes = \<lparr>hkdfKey = (\<lambda>s. Some (''h'' @ s)), sha256Sum = (\<lambda>s. ''s'' @ s),
     gcmSeal = (\<lambda>k n p. k @ ''|'' @ p),
     gcmOpen = (\<lambda>k n c. if prefix (k @ ''|'') c then Some (drop (length k + 1) c) else None)\<rparr>"

lemma decryptAES_current_and_legacy_witness:
  "decryptAES sample_aes (StdEncode (''0123456789ab'' @ ''sK|totp'')) ''K'' = Some ''totp''"
proof -
  have a: "aead sample_aes" by (simp add: aead_def sample_aes_def)
  have n: "length ''0123456789ab'' = nonceSize" by (simp add: nonceSize_def)
  have k: "hkdfKey sample_aes ''K'' = Some ''hK''" by (simp add: sample_aes_def)
  have o: "gcmOpen sample_aes ''hK'' ''0123456789ab'' (gcmSeal sample_aes (legacyKey sample_aes ''K'') ''0123456789ab'' ''totp'') = None"
    by (simp add: sample_aes_def legacyKey_def)
  have s: "gcmSeal sample_aes (legacyKey sample_aes ''K'') ''0123456789ab'' ''totp'' = ''sK|totp''"
    by (simp add: sample_aes_def legacyKey_def)
  show ?thesis
    using decryptAES_current_and_legacy [OF a n k, THEN conjunct2, rule_format, OF o] unfolding s .
qed

end
