(* ===== verification/Auth_Totp.thy ===== *)
theory Auth_Totp
  imports Go_Codec "HOL-Library.Word"
begin

unbundle bit_operations_syntax

text \<open>
  \<^verbatim>\<open>internal/auth/totp.go\<close>: TOTP secrets and codes. HMAC-SHA1 is a parameter (\<open>mac\<close>: key,
  message, 20 bytes); the clock is the argument \<open>now\<close> in seconds. Slicing is checked, so
  \<^term>\<open>None\<close> is a panic.
\<close>

type_synonym byte = "8 word"

definition totpPeriod :: int where "totpPeriod = 30"
definition totpDigits :: nat where "totpDigits = 6"
definition totpSkew :: int where "totpSkew = 1"

text \<open>\<^verbatim>\<open>binary.BigEndian\<close>: \<open>PutUint64\<close> and \<open>Uint32\<close>.\<close>

definition PutUint64 :: "64 word \<Rightarrow> byte list" where
  "PutUint64 n = map (\<lambda>i. ucast (drop_bit (8 * i) n)) (rev [0..<8])"

definition Uint32 :: "byte list \<Rightarrow> 32 word" where
  "Uint32 bs = foldl (\<lambda>a b. push_bit 8 a OR ucast b) 0 bs"

definition zero_pad :: "nat \<Rightarrow> string \<Rightarrow> string" where
  "zero_pad n s = replicate (n - length s) CHR ''0'' @ s"

definition generateHOTP ::
    "(string \<Rightarrow> byte list \<Rightarrow> byte list) \<Rightarrow> string \<Rightarrow> 64 word \<Rightarrow> string option" where
  "generateHOTP mac key counter =
     (let buf = PutUint64 counter; hash = mac key buf in do {
        last \<leftarrow> (if hash = [] then None else idx hash (length hash - 1));
        let offset = unat (last AND 0x0f);
        window \<leftarrow> slice_of hash offset (offset + 4);
        let code = Uint32 window AND 0x7fffffff;
        let otp = code mod 1000000;
        Some (zero_pad totpDigits (nat_str (unat otp))) })"

text \<open>The loop over the skew; \<^verbatim>\<open>uint64(counter + i)\<close> wraps.\<close>

fun totp_loop ::
    "(string \<Rightarrow> byte list \<Rightarrow> byte list) \<Rightarrow> string \<Rightarrow> int \<Rightarrow> string \<Rightarrow> int list \<Rightarrow> bool option" where
  "totp_loop mac key counter code [] = Some False"
| "totp_loop mac key counter code (i # is) = do {
     expected \<leftarrow> generateHOTP mac key (word_of_int (counter + i));
     if expected = code then Some True else totp_loop mac key counter code is }"

text \<open>\<^verbatim>\<open>now / totpPeriod\<close> on a clock that is not before 1970.\<close>

definition ValidateTOTPCode ::
    "(string \<Rightarrow> byte list \<Rightarrow> byte list) \<Rightarrow> int \<Rightarrow> string \<Rightarrow> string \<Rightarrow> bool option" where
  "ValidateTOTPCode mac now secret code = (case base32Decode secret of
     None \<Rightarrow> Some False
   | Some key \<Rightarrow> totp_loop mac key (now div totpPeriod) code [- totpSkew .. totpSkew])"

text \<open>\<open>rand\<close> is the outcome of the random source: 20 bytes, or \<^term>\<open>None\<close>.\<close>

definition GenerateTOTPSecret :: "string option \<Rightarrow> string \<Rightarrow> string \<Rightarrow> (string \<times> string) option" where
  "GenerateTOTPSecret rand username issuer = (case rand of
     None \<Rightarrow> None
   | Some b \<Rightarrow>
       let secret = base32Encode b in
       Some (secret, ''otpauth://totp/'' @ issuer @ '':'' @ username @ ''?secret='' @ secret @ ''&issuer='' @ issuer
         @ ''&algorithm=SHA1&digits='' @ nat_str totpDigits @ ''&period='' @ int_str totpPeriod))"

subsection \<open>Codes\<close>

definition sha1_length :: "(string \<Rightarrow> byte list \<Rightarrow> byte list) \<Rightarrow> bool" where
  "sha1_length mac \<longleftrightarrow> (\<forall>key m. length (mac key m) = 20)"

lemma length_nat_str: "0 < k \<Longrightarrow> n < 10 ^ k \<Longrightarrow> length (nat_str n) \<le> k"
proof (induction k arbitrary: n)
  case (Suc k)
  show ?case
  proof (cases "n < 10")
    case True
    then show ?thesis by (simp add: nat_str.simps [of n])
  next
    case False
    then have "0 < k" using Suc.prems(2) by (cases k) auto
    moreover have "n div 10 < 10 ^ k" using Suc.prems(2) by (simp add: less_mult_imp_div_less mult.commute)
    ultimately have "length (nat_str (n div 10)) \<le> k" by (rule Suc.IH)
    with False show ?thesis by (subst nat_str.simps) simp
  qed
qed simp

lemma zero_pad_digits:
  "list_all is_digit s \<Longrightarrow> length s \<le> n \<Longrightarrow> length (zero_pad n s) = n \<and> list_all is_digit (zero_pad n s)"
proof -
  assume s: "list_all is_digit s" "length s \<le> n"
  have "is_digit CHR ''0''" by code_simp
  then have "list_all is_digit (replicate (n - length s) CHR ''0'')" by (simp add: list_all_iff)
  with s show ?thesis by (simp add: zero_pad_def)
qed

lemma and_0x0f_less: "unat (b AND 0x0f :: byte) \<le> 15"
proof -
  have "b AND 0x0f \<le> 0x0f" by (rule word_and_le1)
  then show ?thesis by (simp add: word_le_nat_alt)
qed

lemma generateHOTP_total:
  assumes "sha1_length mac"
  shows "\<exists>s. generateHOTP mac key c = Some s \<and> length s = 6 \<and> list_all is_digit s"
proof -
  let ?h = "mac key (PutUint64 c)"
  have len: "length ?h = 20" using assms by (simp add: sha1_length_def)
  then have ne: "?h \<noteq> []" by auto
  obtain l where l: "idx ?h (length ?h - 1) = Some l" using len by (simp add: idx_def)
  have "unat (l AND 0x0f) + 4 \<le> length ?h" using and_0x0f_less [of l] len by simp
  then obtain w where w: "slice_of ?h (unat (l AND 0x0f)) (unat (l AND 0x0f) + 4) = Some w"
    by (simp add: slice_of_def)
  let ?otp = "(Uint32 w AND 0x7fffffff) mod 1000000"
  have "unat ?otp < 10 ^ 6" by (simp add: unat_mod)
  then have "length (nat_str (unat ?otp)) \<le> 6" by (intro length_nat_str) simp_all
  then have "length (zero_pad 6 (nat_str (unat ?otp))) = 6 \<and> list_all is_digit (zero_pad 6 (nat_str (unat ?otp)))"
    by (intro zero_pad_digits nat_str_digits)
  then show ?thesis
    using ne l w by (simp add: generateHOTP_def Let_def totpDigits_def)
qed

lemma totp_loop_iff:
  assumes "sha1_length mac"
  shows "totp_loop mac key counter code is =
    Some (\<exists>i \<in> set is. generateHOTP mac key (word_of_int (counter + i)) = Some code)"
proof (induction "is")
  case (Cons i "is")
  obtain s where "generateHOTP mac key (word_of_int (counter + i)) = Some s"
    using generateHOTP_total [OF assms] by blast
  with Cons.IH show ?case by auto
qed simp

text \<open>
  C32: for a secret the server generated, a code is accepted exactly when it is the HOTP of
  the current 30-second step or of one of its two neighbours; every such HOTP exists (no
  slice is out of range) and has six decimal digits; a secret that is not base32 accepts no
  code.
\<close>
theorem ValidateTOTPCode_window:
  assumes "sha1_length mac"
    and "GenerateTOTPSecret (Some key) username issuer = Some (secret, uri)"
  shows "(ValidateTOTPCode mac now secret code = Some True \<longleftrightarrow>
      (\<exists>i. i \<in> {-1, 0, 1} \<and> generateHOTP mac key (word_of_int (now div 30 + i)) = Some code))
    \<and> ValidateTOTPCode mac now s code \<noteq> None
    \<and> (ValidateTOTPCode mac now s code = Some True \<longrightarrow> length code = 6 \<and> list_all is_digit code)
    \<and> (base32Decode s = None \<longrightarrow> ValidateTOTPCode mac now s code = Some False)"
proof -
  have loop: "ValidateTOTPCode mac now s code = (case base32Decode s of None \<Rightarrow> Some False
      | Some key \<Rightarrow> Some (\<exists>i. i \<in> {-1, 0, 1} \<and> generateHOTP mac key (word_of_int (now div 30 + i)) = Some code))" for s
  proof -
    have r: "[- totpSkew .. totpSkew] = [-1, 0, 1]" by (simp add: totpSkew_def upto.simps)
    show ?thesis
      unfolding ValidateTOTPCode_def r totp_loop_iff [OF assms(1)] totpPeriod_def
      by (simp add: conj_disj_distribR ex_disj_distrib split: option.split)
  qed
  have "base32Decode secret = Some key"
    using assms(2) by (auto simp: GenerateTOTPSecret_def Let_def base32_roundtrip)
  then have "ValidateTOTPCode mac now secret code = Some True \<longleftrightarrow>
      (\<exists>i. i \<in> {-1, 0, 1} \<and> generateHOTP mac key (word_of_int (now div 30 + i)) = Some code)"
    by (simp add: loop)
  moreover have "ValidateTOTPCode mac now s code = Some True \<longrightarrow> length code = 6 \<and> list_all is_digit code"
  proof
    assume "ValidateTOTPCode mac now s code = Some True"
    then obtain k i where "generateHOTP mac k (word_of_int (now div 30 + i)) = Some code"
      unfolding loop by (auto split: option.splits)
    then show "length code = 6 \<and> list_all is_digit code"
      using generateHOTP_total [OF assms(1), of k "word_of_int (now div 30 + i)"] by simp
  qed
  moreover have "ValidateTOTPCode mac now s code \<noteq> None" by (cases "base32Decode s") (simp_all add: loop)
  ultimately show ?thesis by (simp add: loop)
qed

definition sample_mac :: "string \<Rightarrow> byte list \<Rightarrow> byte list" where
  "sample_mac key m = replicate 20 0"

theorem ValidateTOTPCode_window_witness:
  "ValidateTOTPCode sample_mac 59 (base32Encode ''key'') ''000000'' = Some True"
proof -
  have m: "sha1_length sample_mac" by (simp add: sha1_length_def sample_mac_def)
  obtain uri where g: "GenerateTOTPSecret (Some ''key'') ''u'' ''i'' = Some (base32Encode ''key'', uri)"
    by (simp add: GenerateTOTPSecret_def Let_def)
  have h: "idx (sample_mac k b) (length (sample_mac k b) - 1) = Some 0"
    "slice_of (sample_mac k b) (unat (0 AND 0x0f :: byte)) (unat (0 AND 0x0f :: byte) + 4) = Some [0, 0, 0, 0]"
    "sample_mac k b \<noteq> []" for k b
    by (simp_all add: sample_mac_def idx_def slice_of_def numeral_eq_Suc)
  have u: "Uint32 [0, 0, 0, 0] = 0" by (simp add: Uint32_def)
  have "zero_pad 6 (nat_str 0) = ''000000''" by code_simp
  then have "generateHOTP sample_mac ''key'' (word_of_int (59 div 30 + -1)) = Some ''000000''"
    unfolding generateHOTP_def Let_def h(1) bind.bind_lunit h(2) if_not_P [OF h(3)] u totpDigits_def by simp
  then show ?thesis using ValidateTOTPCode_window [OF m g, of 59 "''000000''"] by blast
qed

end
