(* ===== verification/Auth_Lldap.thy ===== *)
theory Auth_Lldap
  imports Go_Net
begin

text \<open>
  \<^verbatim>\<open>internal/auth/lldap.go\<close>: the client of the LLDAP directory. The HTTP transport and the
  LDAP connection are parameters; the requests the client builds, with the escaping of user
  input inside a GraphQL query, and its reading of the answers are modelled.
\<close>

definition replace_char :: "char \<Rightarrow> string \<Rightarrow> string \<Rightarrow> string" where
  "replace_char c t s = concat (map (\<lambda>x. if x = c then t else [x]) s)"

definition escapeGraphQL :: "string \<Rightarrow> string" where
  "escapeGraphQL s =
     (let s = replace_char (CHR 0x5C) [CHR 0x5C, CHR 0x5C] s;
          s = replace_char (CHR 0x22) [CHR 0x5C, CHR 0x22] s;
          s = replace_char (CHR 0x0A) [CHR 0x5C, CHR ''n''] s;
          s = replace_char (CHR 0x0D) [CHR 0x5C, CHR ''r''] s
      in replace_char (CHR 0x09) [CHR 0x5C, CHR ''t''] s)"

record lldap_client =
  lc_host :: string
  lc_port :: int

record lldap_request =
  lq_url :: string
  lq_bearer :: "string option"
  lq_body :: jval

text \<open>\<^term>\<open>None\<close> when the request cannot be made; else the status and the body read as JSON.\<close>

type_synonym transport = "lldap_request \<Rightarrow> (nat \<times> jval option) option"

definition base_url :: "lldap_client \<Rightarrow> string" where
  "base_url l = ''http://'' @ lc_host l @ '':'' @ int_str (lc_port l)"

definition login_request :: "lldap_client \<Rightarrow> string \<Rightarrow> string \<Rightarrow> lldap_request" where
  "login_request l username password =
     \<lparr>lq_url = base_url l @ ''/auth/simple/login'', lq_bearer = None,
      lq_body = JObj [(''username'', JStr username), (''password'', JStr password)]\<rparr>"

datatype lldap_error = RequestFailed | StatusError nat | ParseError | LdapConnect | LdapBind | LdapModify

definition Authenticate :: "transport \<Rightarrow> lldap_client \<Rightarrow> string \<Rightarrow> string \<Rightarrow> lldap_error option" where
  "Authenticate http l username password = (case http (login_request l username password) of
     None \<Rightarrow> Some RequestFailed
   | Some (status, _) \<Rightarrow> if status = 200 then None else Some (StatusError status))"

definition getToken :: "transport \<Rightarrow> lldap_client \<Rightarrow> string \<Rightarrow> string \<Rightarrow> lldap_error + string" where
  "getToken http l username password = (case http (login_request l username password) of
     None \<Rightarrow> Inl RequestFailed
   | Some (status, body) \<Rightarrow>
       if status \<noteq> 200 then Inl (StatusError status)
       else (case field_str ''token'' body of None \<Rightarrow> Inl ParseError | Some t \<Rightarrow> Inr t))"

definition graphql_request :: "lldap_client \<Rightarrow> string \<Rightarrow> string \<Rightarrow> lldap_request" where
  "graphql_request l token query =
     \<lparr>lq_url = base_url l @ ''/api/graphql'', lq_bearer = Some token, lq_body = JObj [(''query'', JStr query)]\<rparr>"

text \<open>A member of a nested struct: the last one of that name, null when absent.\<close>

definition json_member :: "string \<Rightarrow> (string \<times> jval) list \<Rightarrow> jval" where
  "json_member field ms = (case find (\<lambda>(k, v). EqualFold k field) (rev ms) of None \<Rightarrow> JNull | Some (_, v) \<Rightarrow> v)"

definition group_names :: "jval \<Rightarrow> string list option" where
  "group_names j = (case j of
     JNull \<Rightarrow> Some []
   | JArr gs \<Rightarrow> those (map (\<lambda>g. field_str ''displayName'' (Some g)) gs)
   | _ \<Rightarrow> None)"

definition parse_groups :: "jval option \<Rightarrow> string list option" where
  "parse_groups body = do {
     top \<leftarrow> members_of body;
     data \<leftarrow> members_of (Some (json_member ''data'' top));
     user \<leftarrow> members_of (Some (json_member ''user'' data));
     group_names (json_member ''groups'' user) }"

definition quoted :: "string \<Rightarrow> string" where
  "quoted s = [CHR 0x22] @ escapeGraphQL s @ [CHR 0x22]"

definition user_query :: "string \<Rightarrow> string" where
  "user_query username = ''{ user(userId: '' @ quoted username @ '') { groups { displayName } } }''"

definition GetUserGroups ::
    "transport \<Rightarrow> lldap_client \<Rightarrow> string \<Rightarrow> string \<Rightarrow> string \<Rightarrow> lldap_error + string list" where
  "GetUserGroups http l adminUser adminPassword username = (case getToken http l adminUser adminPassword of
     Inl e \<Rightarrow> Inl e
   | Inr adminToken \<Rightarrow>
       (case http (graphql_request l adminToken (user_query username)) of
          None \<Rightarrow> Inl RequestFailed
        | Some (status, body) \<Rightarrow>
            if status \<noteq> 200 then Inl (StatusError status)
            else (case parse_groups body of None \<Rightarrow> Inl ParseError | Some gs \<Rightarrow> Inr gs)))"

definition create_user_query :: "string \<Rightarrow> string \<Rightarrow> string" where
  "create_user_query username displayName =
     ''mutation { createUser(user: {id: '' @ quoted username @ '', email: '' @
     [CHR 0x22] @ escapeGraphQL username @ ''@local'' @ [CHR 0x22] @ '', displayName: '' @ quoted displayName @ ''}) { id } }''"

text \<open>\<open>mentions_exists\<close> is the test of the raw answer for the text "already exists".\<close>

definition CreateUser ::
    "transport \<Rightarrow> (jval option \<Rightarrow> bool) \<Rightarrow> lldap_client \<Rightarrow> string \<Rightarrow> string \<Rightarrow> string \<Rightarrow> string \<Rightarrow> lldap_error option" where
  "CreateUser http mentions_exists l adminUser adminPassword username displayName =
     (case getToken http l adminUser adminPassword of
        Inl e \<Rightarrow> Some e
      | Inr adminToken \<Rightarrow>
          (case http (graphql_request l adminToken (create_user_query username displayName)) of
             None \<Rightarrow> Some RequestFailed
           | Some (status, body) \<Rightarrow>
               if mentions_exists body then None
               else if status \<noteq> 200 then Some (StatusError status) else None))"

definition AddUserToGroup ::
    "transport \<Rightarrow> lldap_client \<Rightarrow> string \<Rightarrow> string \<Rightarrow> string \<Rightarrow> int \<Rightarrow> lldap_error option" where
  "AddUserToGroup http l adminUser adminPassword username groupID =
     (case getToken http l adminUser adminPassword of
        Inl e \<Rightarrow> Some e
      | Inr adminToken \<Rightarrow>
          (case http (graphql_request l adminToken
                   (''mutation { addUserToGroup(userId: '' @ quoted username @ '', groupId: '' @ int_str groupID @ '') { ok } }'')) of
             None \<Rightarrow> Some RequestFailed
           | Some _ \<Rightarrow> None))"

text \<open>The LDAP connection of \<^verbatim>\<open>go-ldap\<close>: dial, bind and password modify, and its filter escaping.\<close>

record 'd ldap =
  dial :: "string \<Rightarrow> bool"
  bind_as :: "'d \<Rightarrow> string \<Rightarrow> string \<Rightarrow> bool"
  modify_password :: "'d \<Rightarrow> string \<Rightarrow> string \<Rightarrow> string \<Rightarrow> 'd option"
  escape_filter :: "string \<Rightarrow> string"

definition user_dn :: "'d ldap \<Rightarrow> string \<Rightarrow> string \<Rightarrow> string" where
  "user_dn L user baseDN = ''uid='' @ escape_filter L user @ '',ou=people,'' @ baseDN"

definition SetPasswordLDAP ::
    "'d ldap \<Rightarrow> lldap_client \<Rightarrow> string \<Rightarrow> string \<Rightarrow> string \<Rightarrow> string \<Rightarrow> string \<Rightarrow> 'd \<Rightarrow> 'd \<times> lldap_error option" where
  "SetPasswordLDAP L l adminUser adminPassword targetUser newPassword baseDN d =
     (if \<not> dial L (lc_host l @ '':3890'') then (d, Some LdapConnect)
      else if \<not> bind_as L d (user_dn L adminUser baseDN) adminPassword then (d, Some LdapBind)
      else case modify_password L d (user_dn L targetUser baseDN) [] newPassword of
             None \<Rightarrow> (d, Some LdapModify)
           | Some d' \<Rightarrow> (d', None))"

definition ChangePasswordLDAP ::
    "'d ldap \<Rightarrow> lldap_client \<Rightarrow> string \<Rightarrow> string \<Rightarrow> string \<Rightarrow> string \<Rightarrow> 'd \<Rightarrow> 'd \<times> lldap_error option" where
  "ChangePasswordLDAP L l username oldPassword newPassword baseDN d =
     (if \<not> dial L (lc_host l @ '':3890'') then (d, Some LdapConnect)
      else if \<not> bind_as L d (user_dn L username baseDN) oldPassword then (d, Some LdapBind)
      else case modify_password L d (user_dn L username baseDN) oldPassword newPassword of
             None \<Rightarrow> (d, Some LdapModify)
           | Some d' \<Rightarrow> (d', None))"

subsection \<open>Reading a GraphQL string back\<close>

text \<open>
  The lexer of a GraphQL string literal, after its opening quote: the value and the text
  after the closing quote. A line break inside the literal or an unknown escape is an error.
\<close>

fun gql_string :: "string \<Rightarrow> (string \<times> string) option" where
  "gql_string [] = None"
| "gql_string (c # s) =
     (if c = CHR 0x22 then Some ([], s)
      else if c = CHR 0x0A \<or> c = CHR 0x0D then None
      else if c = CHR 0x5C then
        (case s of
           [] \<Rightarrow> None
         | e # s' \<Rightarrow>
             (case (if e = CHR ''n'' then Some (CHR 0x0A) else if e = CHR ''r'' then Some (CHR 0x0D)
                    else if e = CHR ''t'' then Some (CHR 0x09)
                    else if e = CHR 0x22 \<or> e = CHR 0x5C \<or> e = CHR ''/'' then Some e else None) of
                None \<Rightarrow> None
              | Some d \<Rightarrow> map_option (\<lambda>(v, r). (d # v, r)) (gql_string s')))
      else map_option (\<lambda>(v, r). (c # v, r)) (gql_string s))"

definition escape1 :: "char \<Rightarrow> string" where
  "escape1 c = (if c = CHR 0x5C then [CHR 0x5C, CHR 0x5C] else if c = CHR 0x22 then [CHR 0x5C, CHR 0x22]
     else if c = CHR 0x0A then [CHR 0x5C, CHR ''n''] else if c = CHR 0x0D then [CHR 0x5C, CHR ''r'']
     else if c = CHR 0x09 then [CHR 0x5C, CHR ''t''] else [c])"

lemma replace_char_simps [simp]:
  "replace_char c t [] = []"
  "replace_char c t (x # s) = (if x = c then t else [x]) @ replace_char c t s"
  "replace_char c t (s @ u) = replace_char c t s @ replace_char c t u"
  by (simp_all add: replace_char_def)

lemma escapeGraphQL_Cons: "escapeGraphQL (c # s) = escape1 c @ escapeGraphQL s"
  by (simp add: escapeGraphQL_def escape1_def Let_def)

lemma escapeGraphQL_Nil: "escapeGraphQL [] = []"
  by (simp add: escapeGraphQL_def Let_def)

lemma gql_string_escape1:
  "gql_string (escape1 c @ s) = map_option (\<lambda>(v, r). (c # v, r)) (gql_string s)"
  by (simp add: escape1_def)

text \<open>
  No injection into the queries. In every query the client builds, the server's lexer
  reads the literal after the opening quote as exactly the user's input and ends it at the
  query's own closing quote, whatever the input contains.
\<close>
lemma escapeGraphQL_no_injection:
  "gql_string (escapeGraphQL s @ [CHR 0x22] @ rest) = Some (s, rest)
   \<and> (\<exists>pre. user_query s = pre @ quoted s @ '') { groups { displayName } } }'' \<and>
        gql_string (tl (quoted s @ '') { groups { displayName } } }'')) = Some (s, '') { groups { displayName } } }''))"
proof -
  have E: "gql_string (escapeGraphQL s @ [CHR 0x22] @ rest) = Some (s, rest)" for s rest
    by (induction s) (simp_all add: escapeGraphQL_Nil escapeGraphQL_Cons gql_string_escape1 del: gql_string.simps, simp)
  show ?thesis
    using E [of s "'') { groups { displayName } } }''"] E [of s rest] by (auto simp: user_query_def quoted_def)
qed

end
