(* ===== verification/Auth_Config.thy ===== *)
theory Auth_Config
  imports Go_Net Pkg_Config
begin

text \<open>
  \<^verbatim>\<open>internal/auth/config.go\<close>, the credential fallback of \<^verbatim>\<open>NewServer\<close> and
  \<^verbatim>\<open>publicdomainwatcher.go\<close>. The vault's answer is an argument (\<^term>\<open>None\<close> when it is not
  available); the file system's answers to a poll are arguments of \<open>reload\<close>.
\<close>

record Config =
  ListenAddr :: string
  AuthUserZone :: string
  CustomDomain :: string
  JWTSecret :: string
  SessionSecret :: string
  RedisAddr :: string
  RedisPassword :: string
  RedisDB :: int
  LLDAPHostName :: string
  LLDAPPortNum :: int
  LLDAPUser :: string
  LLDAPPassword :: string
  LLDAPAdminUser :: string
  LLDAPAdminPassword :: string
  LLDAPBaseDN :: string
  SessionName :: string
  SessionMaxAgeSec :: int
  SessionInactivity :: int
  TOTPIssuer :: string
  PublicDomains :: "string list"
  PublicDomainsFile :: string
  CookieSameSite :: string

definition secret_get :: "(string \<times> string) list option \<Rightarrow> (string \<Rightarrow> string) \<Rightarrow> string \<Rightarrow> string" where
  "secret_get infisical environ key = (case infisical of
     None \<Rightarrow> environ key
   | Some m \<Rightarrow> (case map_of m key of
       Some v \<Rightarrow> if v \<noteq> [] then v else environ key
     | None \<Rightarrow> environ key))"

definition str_or :: "(string \<Rightarrow> string) \<Rightarrow> string \<Rightarrow> string \<Rightarrow> string" where
  "str_or get key dflt = (if get key \<noteq> [] then get key else dflt)"

definition int_or :: "(string \<Rightarrow> string) \<Rightarrow> string \<Rightarrow> int \<Rightarrow> int" where
  "int_or get key dflt =
     (if get key \<noteq> [] then (case AtoiErr (get key) of Some n \<Rightarrow> n | None \<Rightarrow> dflt) else dflt)"

definition read_config :: "ctx \<Rightarrow> (string \<times> string) list option \<Rightarrow> Config" where
  "read_config cx infisical =
     (let get = secret_get infisical (cx_env cx);
          svc = str_or get ''SVC_LLDAP_PASSWORD'' [];
          admin = str_or get ''LLDAP_ADMIN_PASSWORD'' []
      in     \<lparr>ListenAddr = str_or get ''AUTH_LISTEN_ADDR'' '':9091'',
               AuthUserZone = str_or get ''USER_ZONE'' [],
               CustomDomain = str_or get ''CUSTOM_DOMAIN'' [],
               JWTSecret = str_or get ''JWT_SECRET'' [],
               SessionSecret = str_or get ''SESSION_SECRET'' [],
               RedisAddr = str_or get ''REDIS_ADDR'' (KVRocksHost cx @ '':'' @ KVRocksPort cx),
               RedisPassword = str_or get ''REDIS_PASSWORD'' [],
               RedisDB = int_or get ''REDIS_DB'' 0,
               LLDAPHostName = str_or get ''LLDAP_HOST'' (LLDAPHost cx),
               LLDAPPortNum = int_or get ''LLDAP_PORT'' 17170,
               LLDAPUser = str_or get ''LLDAP_USER'' ''svc-packalares'',
               LLDAPPassword = (if svc = [] then admin else svc),
               LLDAPAdminUser = ''admin'',
               LLDAPAdminPassword = admin,
               LLDAPBaseDN = str_or get ''LLDAP_BASE_DN'' ''dc=packalares,dc=local'',
               SessionName = str_or get ''SESSION_NAME'' ''packalares_session'',
               SessionMaxAgeSec = int_or get ''SESSION_MAX_AGE'' 1209600,
               SessionInactivity = 604800,
               TOTPIssuer = str_or get ''TOTP_ISSUER'' ''packalares'',
               PublicDomains = (if get ''PUBLIC_DOMAINS'' \<noteq> []
                 then map TrimSpace (split_on CHR '','' (get ''PUBLIC_DOMAINS'')) else []),
               PublicDomainsFile = str_or get ''PUBLIC_DOMAINS_FILE'' ''/etc/auth-backend/public-domains/domains.txt'',
               CookieSameSite = str_or get ''COOKIE_SAMESITE'' ''none''\<rparr>)"

definition LoadConfig :: "ctx \<Rightarrow> (string \<times> string) list option \<Rightarrow> string + Config" where
  "LoadConfig cx infisical =
     (let c = read_config cx infisical in
         if AuthUserZone c = [] then Inl ''USER_ZONE environment variable is required''
         else if JWTSecret c = [] then Inl ''JWT_SECRET environment variable is required''
         else if SessionSecret c = [] then Inl ''SESSION_SECRET environment variable is required''
         else Inr c)"

text \<open>The first lines of \<^verbatim>\<open>NewServer\<close>: the credentials the directory is queried with.\<close>

definition fallback_credentials :: "Config \<Rightarrow> Config" where
  "fallback_credentials c =
     (if LLDAPPassword c = [] then
        (if LLDAPAdminPassword c \<noteq> [] then
           c\<lparr>LLDAPUser := LLDAPAdminUser c, LLDAPPassword := LLDAPAdminPassword c\<rparr>
         else c)
      else c)"

text \<open>
  A loaded configuration has a zone and both secrets. On an installation without a
  service-account password the server keeps the service account's name and pairs it with
  the administrator's password: the fallback to the administrator's credentials in
  \<^verbatim>\<open>NewServer\<close> never applies, because \<^verbatim>\<open>LoadConfig\<close> has already copied the password.
\<close>
lemma LoadConfig_credentials:
  assumes "LoadConfig cx infisical = Inr c"
  shows "AuthUserZone c \<noteq> [] \<and> JWTSecret c \<noteq> [] \<and> SessionSecret c \<noteq> []
    \<and> fallback_credentials c = c
    \<and> (secret_get infisical (cx_env cx) ''SVC_LLDAP_PASSWORD'' = [] \<longrightarrow>
        LLDAPUser (fallback_credentials c) = str_or (secret_get infisical (cx_env cx)) ''LLDAP_USER'' ''svc-packalares'' \<and>
        LLDAPPassword (fallback_credentials c) = LLDAPAdminPassword c)"
proof -
  let ?get = "secret_get infisical (cx_env cx)"
  have c: "c = read_config cx infisical" "AuthUserZone c \<noteq> []" "JWTSecret c \<noteq> []" "SessionSecret c \<noteq> []"
    using assms by (auto simp: LoadConfig_def Let_def split: if_splits)
  have pw: "LLDAPPassword c = (if str_or ?get ''SVC_LLDAP_PASSWORD'' [] = [] then LLDAPAdminPassword c
      else str_or ?get ''SVC_LLDAP_PASSWORD'' [])"
    and user: "LLDAPUser c = str_or ?get ''LLDAP_USER'' ''svc-packalares''"
    by (simp_all add: c(1) read_config_def Let_def)
  have same: "fallback_credentials c = c"
    using pw by (cases "str_or ?get ''SVC_LLDAP_PASSWORD'' [] = []") (simp_all add: fallback_credentials_def)
  show ?thesis
    using c(2-4) same user pw by (simp add: str_or_def)
qed

definition sample_vault :: "(string \<times> string) list" where
  "sample_vault = [(''USER_ZONE'', ''admin.olares.local''), (''JWT_SECRET'', ''j''), (''SESSION_SECRET'', ''s''),
     (''LLDAP_ADMIN_PASSWORD'', ''hunter2'')]"

lemma LoadConfig_credentials_witness:
  "\<exists>c. LoadConfig sample_ctx (Some sample_vault) = Inr c \<and>
     LLDAPUser (fallback_credentials c) = ''svc-packalares'' \<and>
     LLDAPPassword (fallback_credentials c) = LLDAPAdminPassword c"
proof -
  have get: "secret_get (Some sample_vault) (cx_env sample_ctx) ''USER_ZONE'' = ''admin.olares.local''"
    "secret_get (Some sample_vault) (cx_env sample_ctx) ''JWT_SECRET'' = ''j''"
    "secret_get (Some sample_vault) (cx_env sample_ctx) ''SESSION_SECRET'' = ''s''"
    "secret_get (Some sample_vault) (cx_env sample_ctx) ''SVC_LLDAP_PASSWORD'' = []"
    "secret_get (Some sample_vault) (cx_env sample_ctx) ''LLDAP_USER'' = []"
    by (simp_all add: secret_get_def sample_vault_def sample_ctx_def)
  have "\<exists>c. LoadConfig sample_ctx (Some sample_vault) = Inr c"
    by (simp add: LoadConfig_def read_config_def Let_def str_or_def get)
  then obtain c where c: "LoadConfig sample_ctx (Some sample_vault) = Inr c" by blast
  have "str_or (secret_get (Some sample_vault) (cx_env sample_ctx)) ''LLDAP_USER'' ''svc-packalares'' = ''svc-packalares''"
    by (simp add: str_or_def get)
  with LoadConfig_credentials [OF c] get(4) c show ?thesis by auto
qed

subsection \<open>The public-domain watcher\<close>

datatype file_stat = NotExist | StatFailed | FileInfo int int

record watcher =
  lastMod :: int
  lastSize :: int
  target :: "string list option"

text \<open>\<open>content\<close>: \<^term>\<open>None\<close> when the file does not open, else its lines and whether the scan
  ended without an error.\<close>

definition parse_hosts :: "string list \<Rightarrow> string list" where
  "parse_hosts ls = filter (\<lambda>h. h \<noteq> [] \<and> \<not> HasPrefix h ''#'') (map TrimSpace ls)"

definition reload :: "bool \<Rightarrow> file_stat \<Rightarrow> (string list \<times> bool) option \<Rightarrow> watcher \<Rightarrow> watcher" where
  "reload force stat content w = (case stat of
     NotExist \<Rightarrow> (if target w = None then w\<lparr>target := Some []\<rparr> else w)
   | StatFailed \<Rightarrow> w
   | FileInfo m sz \<Rightarrow>
       if \<not> force \<and> m = lastMod w \<and> sz = lastSize w then w
       else let w = w\<lparr>lastMod := m, lastSize := sz\<rparr> in
         (case content of
            None \<Rightarrow> w
          | Some (ls, ok) \<Rightarrow> if \<not> ok then w else w\<lparr>target := Some (parse_hosts ls)\<rparr>))"

text \<open>The polling loop: a forced read, then one read per tick.\<close>

definition start :: "(file_stat \<times> (string list \<times> bool) option) list \<Rightarrow> watcher \<Rightarrow> watcher" where
  "start polls w = (case polls of
     [] \<Rightarrow> w
   | (s, c) # rest \<Rightarrow> foldl (\<lambda>w (s, c). reload False s c w) (reload True s c w) rest)"

lemma set_parse_hosts: "h \<in> set (parse_hosts ls) \<Longrightarrow> h \<noteq> [] \<and> h \<in> TrimSpace ` set ls"
  by (auto simp: parse_hosts_def)

text \<open>
  A poll that reads the file publishes exactly its host lines; a set once loaded
  survives the file's removal; and a read that fails after the file changed is not retried
  while the file keeps its time and size: the next poll changes nothing.
\<close>
lemma reload_cases:
  "(force \<or> m \<noteq> lastMod w \<or> sz \<noteq> lastSize w \<longrightarrow>
      target (reload force (FileInfo m sz) (Some (ls, True)) w) = Some (parse_hosts ls))
   \<and> (target w \<noteq> None \<longrightarrow> reload force NotExist content w = w)
   \<and> (let w' = reload force (FileInfo m sz) None w in
       target w' = target w \<and> reload False (FileInfo m sz) content w' = w')"
  by (auto simp: reload_def Let_def)

lemma reload_cases_witness:
  "target (reload False (FileInfo 5 10) (Some ([''a.io '', ''# x''], True)) \<lparr>lastMod = 0, lastSize = 0, target = None\<rparr>)
     = Some [''a.io'']"
proof -
  have "parse_hosts [''a.io '', ''# x''] = [''a.io'']" by code_simp
  then show ?thesis
    using reload_cases [of False 5 "\<lparr>lastMod = 0, lastSize = 0, target = None\<rparr>" 10 "[''a.io '', ''# x'']" None]
    by simp
qed

end
