(* ===== verification/Pkg_Validation.thy ===== *)
theory Pkg_Validation
  imports Prelude
begin

text \<open>
  \<^verbatim>\<open>pkg/validation/password.go\<close>. The loop of the code runs over Unicode characters; here over
  the characters of an ASCII password, where \<^verbatim>\<open>unicode.IsPunct || unicode.IsSymbol\<close> is every
  printable character that is not a letter, a digit or the space.
\<close>

datatype password_error = TooShort | NoUpper | NoLower | NoDigit | NoSpecial

definition is_special :: "char \<Rightarrow> bool" where
  "is_special c \<longleftrightarrow> in_range CHR ''!'' CHR ''~'' c \<and> \<not> is_upper c \<and> \<not> is_lower c \<and> \<not> is_digit c"

record char_flags =
  hasUpper :: bool
  hasLower :: bool
  hasDigit :: bool
  hasSpecial :: bool

definition flag_step :: "char_flags \<Rightarrow> char \<Rightarrow> char_flags" where
  "flag_step f c =
     (if is_upper c then f\<lparr>hasUpper := True\<rparr>
      else if is_lower c then f\<lparr>hasLower := True\<rparr>
      else if is_digit c then f\<lparr>hasDigit := True\<rparr>
      else if is_special c then f\<lparr>hasSpecial := True\<rparr>
      else f)"

definition ValidatePassword :: "string \<Rightarrow> password_error option" where
  "ValidatePassword password =
     (if length password < 8 then Some TooShort
      else let f = foldl flag_step \<lparr>hasUpper = False, hasLower = False, hasDigit = False, hasSpecial = False\<rparr> password
        in if \<not> hasUpper f then Some NoUpper
           else if \<not> hasLower f then Some NoLower
           else if \<not> hasDigit f then Some NoDigit
           else if \<not> hasSpecial f then Some NoSpecial
           else None)"

lemma classes_disjoint:
  "is_upper c \<Longrightarrow> \<not> is_lower c \<and> \<not> is_digit c" "is_lower c \<Longrightarrow> \<not> is_digit c"
  by (auto simp: is_upper_def is_lower_def is_digit_def in_range_def)

lemma flags_fold:
  "hasUpper (foldl flag_step f s) = (hasUpper f \<or> list_ex is_upper s) \<and>
   hasLower (foldl flag_step f s) = (hasLower f \<or> list_ex is_lower s) \<and>
   hasDigit (foldl flag_step f s) = (hasDigit f \<or> list_ex is_digit s) \<and>
   hasSpecial (foldl flag_step f s) = (hasSpecial f \<or> list_ex is_special s)"
proof (induction s arbitrary: f)
  case (Cons c s)
  then show ?case
    using classes_disjoint [of c] by (auto simp: flag_step_def is_special_def)
qed simp

text \<open>
  A password is accepted exactly when it has at least 8 characters with an upper-case
  letter, a lower-case letter, a digit and a special character among them.
\<close>
lemma ValidatePassword_iff:
  "ValidatePassword p = None \<longleftrightarrow>
     length p \<ge> 8 \<and> list_ex is_upper p \<and> list_ex is_lower p \<and> list_ex is_digit p \<and> list_ex is_special p"
  using flags_fold [of "\<lparr>hasUpper = False, hasLower = False, hasDigit = False, hasSpecial = False\<rparr>" p]
  by (auto simp: ValidatePassword_def Let_def)

end
