(* ===== verification/Auth_Server.thy ===== *)
theory Auth_Server
  imports Auth_Session Auth_Tokens Auth_Totp Auth_Lldap Auth_Config Pkg_Validation
begin

text \<open>
  \<^verbatim>\<open>internal/auth/server.go\<close>: the handlers of the auth server. The outside world (Redis, the
  directory, the cryptographic primitives and JSON codecs) is the record \<open>world\<close>; what one
  request draws from the clock and the random source is the record \<open>inputs\<close>. A handler maps
  the state to the new state and the response; \<^term>\<open>None\<close> is a run-time panic.
\<close>

record ('r, 'd) world =
  W_redis :: "'r redis"
  W_enc :: "SessionData \<Rightarrow> string"
  W_dec :: "string \<Rightarrow> SessionData option"
  W_mac256 :: "string \<Rightarrow> string \<Rightarrow> string"
  W_mac512 :: "string \<Rightarrow> string \<Rightarrow> string"
  W_mac1 :: "string \<Rightarrow> byte list \<Rightarrow> byte list"
  W_claims :: "JWTClaims \<Rightarrow> string option"
  W_aes :: aes
  W_http :: transport
  W_ldap :: "'d ldap"

record inputs =
  in_now :: int
  in_session :: "string option"
  in_nonce :: "string option"
  in_totp :: "string option"

record server =
  srv_cfg :: Config
  publicDomainSet :: "string list option"

record ('r, 'd) auth_state =
  st_redis :: 'r
  st_dir :: 'd
  st_slept :: int

subsection \<open>Helpers\<close>

definition lldap :: "server \<Rightarrow> lldap_client" where
  "lldap S = \<lparr>lc_host = LLDAPHostName (srv_cfg S), lc_port = LLDAPPortNum (srv_cfg S)\<rparr>"

definition err_json :: "string \<Rightarrow> jval" where
  "err_json msg = JObj [(''status'', JStr ''error''), (''message'', JStr msg)]"

text \<open>The dash of two messages, in UTF-8.\<close>

definition em_dash :: string where
  "em_dash = [CHR 0xE2, CHR 0x80, CHR 0x94]"

definition ok_json :: jval where
  "ok_json = JObj [(''status'', JStr ''OK'')]"

definition getSessionIDFromCookie :: "('r, 'd) world \<Rightarrow> server \<Rightarrow> http_request \<Rightarrow> string" where
  "getSessionIDFromCookie W S r = (case map_of (rq_Cookies r) (SessionName (srv_cfg S)) of
     None \<Rightarrow> []
   | Some v \<Rightarrow>
       (case VerifySessionID (W_mac256 W) v (SessionSecret (srv_cfg S)) of
          (rawID, valid) \<Rightarrow> if \<not> valid then [] else rawID))"

definition getSession ::
    "('r, 'd) world \<Rightarrow> server \<Rightarrow> http_request \<Rightarrow> ('r, 'd) auth_state \<Rightarrow> string + SessionData" where
  "getSession W S r st =
     (let sid = getSessionIDFromCookie W S r in
      if sid = [] then Inl ''no session cookie''
      else Get (W_redis W) (W_dec W) (st_redis st) sid)"

text \<open>\<^verbatim>\<open>err != nil || session == nil || session.AuthLevel < 1\<close>\<close>

definition authed_session ::
    "('r, 'd) world \<Rightarrow> server \<Rightarrow> http_request \<Rightarrow> ('r, 'd) auth_state \<Rightarrow> SessionData option" where
  "authed_session W S r st = (case getSession W S r st of
     Inl _ \<Rightarrow> None
   | Inr d \<Rightarrow> if AuthLevel d < 1 then None else Some d)"

definition isDomainPublic :: "server \<Rightarrow> string \<Rightarrow> bool" where
  "isDomainPublic S domain =
     (if domain = [] then False
      else if list_ex (\<lambda>d. d \<noteq> [] \<and> (d = domain \<or> HasSuffix domain (CHR ''.'' # d))) (PublicDomains (srv_cfg S))
        then True
      else case publicDomainSet S of None \<Rightarrow> False | Some hosts \<Rightarrow> domain \<in> set hosts)"

definition cookieDomainForRequest :: "server \<Rightarrow> http_request \<Rightarrow> string" where
  "cookieDomainForRequest S r =
     (let h = (case SplitHostPort (rq_Host r) of Some (h, _) \<Rightarrow> h | None \<Rightarrow> rq_Host r);
          custom = CustomDomain (srv_cfg S)
      in if ParseIP h then []
         else if custom \<noteq> [] \<and> (h = custom \<or> HasSuffix h (CHR ''.'' # custom)) then custom
         else AuthUserZone (srv_cfg S))"

definition safeRedirect :: "string \<Rightarrow> bool" where
  "safeRedirect rd \<longleftrightarrow> HasPrefix rd ''/'' \<and> \<not> HasPrefix rd ''//''"

definition redirect_of :: "http_request \<Rightarrow> string" where
  "redirect_of r =
     (let rd = first_value (rq_Query r) ''rd'' in
      if rd \<noteq> [] \<and> safeRedirect rd then rd else ''/desktop/'')"

definition extractIP :: "http_request \<Rightarrow> string" where
  "extractIP r =
     (if header_get r ''X-Real-Ip'' \<noteq> [] then header_get r ''X-Real-Ip''
      else let fwd = header_get r ''X-Forwarded-For'' in
        if fwd \<noteq> [] then
          (case IndexByte fwd CHR '','' of
             Some i \<Rightarrow> if i > 0 then TrimSpace (take i fwd) else fwd
           | None \<Rightarrow> fwd)
        else (case SplitHostPort (rq_RemoteAddr r) of Some (h, _) \<Rightarrow> h | None \<Rightarrow> []))"

subsection \<open>TOTP secrets in Redis\<close>

datatype totp_secret = NoSecret | SecretError | Secret string

definition totp_key :: "string \<Rightarrow> string" where
  "totp_key username = ''packalares:totp:'' @ username"

definition pending_key :: "string \<Rightarrow> string" where
  "pending_key username = ''packalares:totp:pending:'' @ username"

definition read_secret :: "('r, 'd) world \<Rightarrow> server \<Rightarrow> string \<Rightarrow> 'r \<Rightarrow> totp_secret" where
  "read_secret W S key r = (case rGet (W_redis W) r key of
     Nil \<Rightarrow> NoSecret
   | Failed _ \<Rightarrow> SecretError
   | Value v \<Rightarrow> (case decryptAES (W_aes W) v (SessionSecret (srv_cfg S)) of
       None \<Rightarrow> SecretError | Some s \<Rightarrow> Secret s))"

definition store_secret ::
    "('r, 'd) world \<Rightarrow> server \<Rightarrow> inputs \<Rightarrow> string \<Rightarrow> string \<Rightarrow> int \<Rightarrow> 'r \<Rightarrow> 'r \<times> bool" where
  "store_secret W S inp key secret ttl r =
     (case encryptAES (W_aes W) (in_nonce inp) secret (SessionSecret (srv_cfg S)) of
        None \<Rightarrow> (r, False)
      | Some v \<Rightarrow> rSet (W_redis W) r key v ttl)"

definition getTOTPSecret :: "('r, 'd) world \<Rightarrow> server \<Rightarrow> string \<Rightarrow> 'r \<Rightarrow> totp_secret" where
  "getTOTPSecret W S username r = read_secret W S (totp_key username) r"

definition storeTOTPSecret ::
    "('r, 'd) world \<Rightarrow> server \<Rightarrow> inputs \<Rightarrow> string \<Rightarrow> string \<Rightarrow> 'r \<Rightarrow> 'r \<times> bool" where
  "storeTOTPSecret W S inp username secret r = store_secret W S inp (totp_key username) secret 0 r"

definition deleteTOTPSecret :: "('r, 'd) world \<Rightarrow> string \<Rightarrow> 'r \<Rightarrow> 'r \<times> bool" where
  "deleteTOTPSecret W username r = rDel (W_redis W) r (totp_key username)"

definition storePendingTOTP ::
    "('r, 'd) world \<Rightarrow> server \<Rightarrow> inputs \<Rightarrow> string \<Rightarrow> string \<Rightarrow> 'r \<Rightarrow> 'r \<times> bool" where
  "storePendingTOTP W S inp username secret r = store_secret W S inp (pending_key username) secret 300 r"

definition getPendingTOTP :: "('r, 'd) world \<Rightarrow> server \<Rightarrow> string \<Rightarrow> 'r \<Rightarrow> totp_secret" where
  "getPendingTOTP W S username r = read_secret W S (pending_key username) r"

definition deletePendingTOTP :: "('r, 'd) world \<Rightarrow> string \<Rightarrow> 'r \<Rightarrow> 'r \<times> bool" where
  "deletePendingTOTP W username r = rDel (W_redis W) r (pending_key username)"

text \<open>The flag and whether there was an error; the callers ignore the second.\<close>

definition hasTOTPConfigured :: "('r, 'd) world \<Rightarrow> server \<Rightarrow> string \<Rightarrow> 'r \<Rightarrow> bool \<times> bool" where
  "hasTOTPConfigured W S username r = (case getTOTPSecret W S username r of
     NoSecret \<Rightarrow> (False, False)
   | SecretError \<Rightarrow> (False, True)
   | Secret s \<Rightarrow> (s \<noteq> [], False))"

subsection \<open>Handlers\<close>

definition request_host :: "http_request \<Rightarrow> string" where
  "request_host r =
     (let h = header_get r ''X-Forwarded-Host'';
          h = (if h = [] then rq_Host r else h)
      in case IndexByte h CHR '':'' of Some i \<Rightarrow> take i h | None \<Rightarrow> h)"

definition handleVerify ::
    "('r, 'd) world \<Rightarrow> server \<Rightarrow> http_request \<Rightarrow> ('r, 'd) auth_state \<Rightarrow> ('r, 'd) auth_state \<times> http_response" where
  "handleVerify W S r st =
     (if isDomainPublic S (request_host r) then (st, reply_status 200)
      else case authed_session W S r st of
        None \<Rightarrow> (st, reply_status 401)
      | Some d \<Rightarrow>
          if fst (hasTOTPConfigured W S (ss_Username d) (st_redis st)) \<and> AuthLevel d < 2
            then (st, reply_status 401)
          else
            let sid = getSessionIDFromCookie W S r;
                st = (if sid \<noteq> [] then
                        st\<lparr>st_redis := fst (Touch (W_redis W) sid (SessionMaxAgeSec (srv_cfg S)) (st_redis st))\<rparr>
                      else st)
            in (st, (reply_status 200)\<lparr>rs_Header :=
                 [(''Remote-User'', ss_Username d), (''Remote-Groups'', join '','' (Groups d)),
                  (''Remote-Auth-Level'', int_str (AuthLevel d))]\<rparr>))"

definition jwt_for :: "('r, 'd) world \<Rightarrow> server \<Rightarrow> inputs \<Rightarrow> string \<Rightarrow> string list \<Rightarrow> int \<Rightarrow> string" where
  "jwt_for W S inp username groups level =
     (case SignJWT (W_mac512 W) (W_claims W) (in_now inp)
             \<lparr>Subject = username, JUsername = username, JGroups = groups, JAuthLevel = level, IssuedAt = 0,
              ExpiresAt = 0, Issuer = []\<rparr> (JWTSecret (srv_cfg S)) of
        None \<Rightarrow> [] | Some t \<Rightarrow> t)"

definition login_json :: "string \<Rightarrow> string \<Rightarrow> jval" where
  "login_json token redirect = JObj [(''token'', JStr token), (''redirect'', JStr redirect)]"

definition start_session ::
    "('r, 'd) world \<Rightarrow> server \<Rightarrow> inputs \<Rightarrow> http_request \<Rightarrow> string \<Rightarrow> bool \<Rightarrow> ('r, 'd) auth_state \<Rightarrow>
     ('r, 'd) auth_state \<times> http_response" where
  "start_session W S inp r username keepMe st =
     (let groups = (case GetUserGroups (W_http W) (lldap S) (LLDAPUser (srv_cfg S)) (LLDAPPassword (srv_cfg S)) username of
            Inl _ \<Rightarrow> [] | Inr gs \<Rightarrow> gs);
          data = \<lparr>ss_Username = username, Groups = groups, AuthLevel = 1, TOTPVerified = False, CreatedAt = 0, LastActivity = 0\<rparr>;
          (r1, sid) = Create (W_redis W) (W_enc W) (in_session inp) (in_now inp) data (SessionMaxAgeSec (srv_cfg S)) (st_redis st)
      in case sid of
           None \<Rightarrow> (st\<lparr>st_redis := r1\<rparr>, reply 500 (err_json ''internal error''))
         | Some sid \<Rightarrow>
             let signedID = SignSessionID (W_mac256 W) sid (SessionSecret (srv_cfg S));
                 maxAge = (if keepMe then SessionMaxAgeSec (srv_cfg S) else 0);
                 ck = SetSessionCookie (SessionName (srv_cfg S)) signedID (cookieDomainForRequest S r) maxAge
                        (CookieSameSite (srv_cfg S));
                 jwt = jwt_for W S inp username groups 1;
                 r2 = Reset (W_redis W) (extractIP r) username r1
             in (st\<lparr>st_redis := r2\<rparr>,
                 (if fst (hasTOTPConfigured W S username r2) then
                    reply 200 (JObj [(''status'', JStr ''OK''), (''data'', login_json jwt []), (''requires_totp'', JBool True)])
                  else reply 200 (JObj [(''status'', JStr ''OK''), (''data'', login_json jwt (redirect_of r))]))
                 \<lparr>rs_Cookies := [ck]\<rparr>))"

definition handleFirstFactor ::
    "('r, 'd) world \<Rightarrow> server \<Rightarrow> inputs \<Rightarrow> http_request \<Rightarrow> ('r, 'd) auth_state \<Rightarrow>
     ('r, 'd) auth_state \<times> http_response" where
  "handleFirstFactor W S inp r st =
     (if rq_Method r \<noteq> ''POST'' then (st, reply 405 (err_json ''method not allowed''))
      else case do { u \<leftarrow> field_str ''username'' (rq_Body r); p \<leftarrow> field_str ''password'' (rq_Body r);
                     k \<leftarrow> field_bool ''keep_me_logged_in'' (rq_Body r); Some (u, p, k) } of
        None \<Rightarrow> (st, reply 400 (err_json ''invalid request body''))
      | Some (username, password, keepMe) \<Rightarrow>
          if username = [] \<or> password = [] then (st, reply 400 (err_json ''username and password required''))
          else case Check (W_redis W) (st_redis st) (extractIP r) username of
            None \<Rightarrow> (st, reply 429 (err_json ''too many failed attempts, try again later''))
          | Some delaySec \<Rightarrow>
              let st = (if delaySec > 0 then st\<lparr>st_slept := st_slept st + delaySec\<rparr> else st) in
              case Authenticate (W_http W) (lldap S) username password of
                Some _ \<Rightarrow>
                  (st\<lparr>st_redis := RecordFailure (W_redis W) (extractIP r) username (st_redis st)\<rparr>,
                   reply 401 (err_json ''invalid credentials''))
              | None \<Rightarrow> start_session W S inp r username keepMe st)"

definition handleSecondFactorTOTP ::
    "('r, 'd) world \<Rightarrow> server \<Rightarrow> inputs \<Rightarrow> http_request \<Rightarrow> ('r, 'd) auth_state \<Rightarrow>
     (('r, 'd) auth_state \<times> http_response) option" where
  "handleSecondFactorTOTP W S inp r st =
     (if rq_Method r \<noteq> ''POST'' then Some (st, reply 405 (err_json ''method not allowed''))
      else case authed_session W S r st of
        None \<Rightarrow> Some (st, reply 401 (err_json ''first factor required''))
      | Some d \<Rightarrow>
          (case field_str ''token'' (rq_Body r) of
             None \<Rightarrow> Some (st, reply 400 (err_json ''invalid request body''))
           | Some token \<Rightarrow>
               (case getTOTPSecret W S (ss_Username d) (st_redis st) of
                  Secret (c # cs) \<Rightarrow> do {
                    valid \<leftarrow> ValidateTOTPCode (W_mac1 W) (in_now inp) (c # cs) token;
                    Some (if \<not> valid then (st, reply 401 (err_json ''invalid TOTP code''))
                      else
                        let d = d\<lparr>AuthLevel := 2, TOTPVerified := True\<rparr>;
                            sid = getSessionIDFromCookie W S r;
                            st = (if sid \<noteq> [] then
                                    st\<lparr>st_redis := fst (Update (W_redis W) (W_enc W) (in_now inp) sid d
                                       (SessionMaxAgeSec (srv_cfg S)) (st_redis st))\<rparr>
                                  else st);
                            jwt = jwt_for W S inp (ss_Username d) (Groups d) 2
                        in (st, reply 200 (JObj [(''status'', JStr ''OK''), (''data'', login_json jwt (redirect_of r))]))) }
                | _ \<Rightarrow> Some (st, reply 400 (err_json ''TOTP not configured for this user'')))))"

definition register_post ::
    "('r, 'd) world \<Rightarrow> server \<Rightarrow> inputs \<Rightarrow> SessionData \<Rightarrow> ('r, 'd) auth_state \<Rightarrow> ('r, 'd) auth_state \<times> http_response" where
  "register_post W S inp d st =
     (case GenerateTOTPSecret (in_totp inp) (ss_Username d) (TOTPIssuer (srv_cfg S)) of
        None \<Rightarrow> (st, reply 500 (err_json ''failed to generate TOTP secret''))
      | Some (secret, uri) \<Rightarrow>
          (case storePendingTOTP W S inp (ss_Username d) secret (st_redis st) of
             (r1, ok) \<Rightarrow>
               (st\<lparr>st_redis := r1\<rparr>,
                if \<not> ok then reply 500 (err_json ''failed to store pending TOTP'')
                else reply 200 (JObj [(''status'', JStr ''OK''),
                  (''data'', JObj [(''secret'', JStr secret), (''otpauth'', JStr uri)])]))))"

definition register_put ::
    "('r, 'd) world \<Rightarrow> server \<Rightarrow> inputs \<Rightarrow> http_request \<Rightarrow> SessionData \<Rightarrow> ('r, 'd) auth_state \<Rightarrow>
     (('r, 'd) auth_state \<times> http_response) option" where
  "register_put W S inp r d st =
     (case field_str ''token'' (rq_Body r) of
        Some (t # ts) \<Rightarrow>
          (case getPendingTOTP W S (ss_Username d) (st_redis st) of
             Secret (c # cs) \<Rightarrow> do {
               valid \<leftarrow> ValidateTOTPCode (W_mac1 W) (in_now inp) (c # cs) (t # ts);
               Some (if \<not> valid then (st, reply 401 (err_json (''invalid code '' @ em_dash @ '' try again'')))
                 else case storeTOTPSecret W S inp (ss_Username d) (c # cs) (st_redis st) of
                   (r1, ok) \<Rightarrow>
                     if \<not> ok then (st\<lparr>st_redis := r1\<rparr>, reply 500 (err_json ''failed to activate TOTP''))
                     else (st\<lparr>st_redis := fst (deletePendingTOTP W (ss_Username d) r1)\<rparr>,
                           reply 200 (JObj [(''status'', JStr ''OK''), (''message'', JStr ''TOTP enabled'')]))) }
           | _ \<Rightarrow> Some (st, reply 400 (err_json (''no pending TOTP setup '' @ em_dash @ '' call POST first''))))
      | _ \<Rightarrow> Some (st, reply 400 (err_json ''token required'')))"

definition register_delete ::
    "('r, 'd) world \<Rightarrow> SessionData \<Rightarrow> ('r, 'd) auth_state \<Rightarrow> ('r, 'd) auth_state \<times> http_response" where
  "register_delete W d st =
     (case deleteTOTPSecret W (ss_Username d) (st_redis st) of
        (r1, ok) \<Rightarrow>
          if \<not> ok then (st\<lparr>st_redis := r1\<rparr>, reply 500 (err_json ''failed to remove TOTP''))
          else (st\<lparr>st_redis := fst (deletePendingTOTP W (ss_Username d) r1)\<rparr>, reply 200 ok_json))"

definition handleTOTPRegister ::
    "('r, 'd) world \<Rightarrow> server \<Rightarrow> inputs \<Rightarrow> http_request \<Rightarrow> ('r, 'd) auth_state \<Rightarrow>
     (('r, 'd) auth_state \<times> http_response) option" where
  "handleTOTPRegister W S inp r st = (case authed_session W S r st of
     None \<Rightarrow> Some (st, reply 401 (err_json ''authentication required''))
   | Some d \<Rightarrow>
       if rq_Method r = ''POST'' then Some (register_post W S inp d st)
       else if rq_Method r = ''PUT'' then register_put W S inp r d st
       else if rq_Method r = ''DELETE'' then Some (register_delete W d st)
       else Some (st, reply 405 (err_json ''method not allowed'')))"

definition handleLogout ::
    "('r, 'd) world \<Rightarrow> server \<Rightarrow> http_request \<Rightarrow> ('r, 'd) auth_state \<Rightarrow> ('r, 'd) auth_state \<times> http_response" where
  "handleLogout W S r st =
     (let sid = getSessionIDFromCookie W S r;
          st = (if sid \<noteq> [] then st\<lparr>st_redis := fst (Delete (W_redis W) sid (st_redis st))\<rparr> else st)
      in (st, (reply 200 ok_json)\<lparr>rs_Cookies := [ClearSessionCookie (SessionName (srv_cfg S)) (cookieDomainForRequest S r)]\<rparr>))"

definition handleState ::
    "('r, 'd) world \<Rightarrow> server \<Rightarrow> http_request \<Rightarrow> ('r, 'd) auth_state \<Rightarrow> http_response" where
  "handleState W S r st = (case getSession W S r st of
     Inl _ \<Rightarrow> reply 200 (JObj [(''status'', JStr ''OK''), (''data'', JObj [(''authenticated'', JBool False)])])
   | Inr d \<Rightarrow> reply 200 (JObj [(''status'', JStr ''OK''), (''data'', JObj [(''authenticated'', JBool True),
       (''username'', JStr (ss_Username d)), (''auth_level'', JInt (AuthLevel d)), (''groups'', JArr (map JStr (Groups d))),
       (''totp_enabled'', JBool (fst (hasTOTPConfigured W S (ss_Username d) (st_redis st))))])]))"

definition info_json :: "SessionInfo \<Rightarrow> jval" where
  "info_json i = JObj [(''id'', JStr (si_ID i)), (''username'', JStr (si_Username i)), (''created_at'', JInt (si_CreatedAt i)),
     (''last_activity'', JInt (si_LastActivity i)), (''auth_level'', JInt (si_AuthLevel i))]"

definition handleSessions ::
    "('r, 'd) world \<Rightarrow> server \<Rightarrow> http_request \<Rightarrow> ('r, 'd) auth_state \<Rightarrow>
     (('r, 'd) auth_state \<times> http_response) option" where
  "handleSessions W S r st = (case authed_session W S r st of
     None \<Rightarrow> Some (st, reply 401 (err_json ''authentication required''))
   | Some d \<Rightarrow>
       if rq_Method r = ''GET'' then do {
         res \<leftarrow> SessionList (W_redis W) (W_dec W) (st_redis st) (ss_Username d);
         Some (st, case res of
             Inl e \<Rightarrow> reply 500 (err_json e)
           | Inr infos \<Rightarrow> reply 200 (JObj [(''status'', JStr ''OK''), (''sessions'', JArr (map info_json infos))])) }
       else if rq_Method r = ''DELETE'' then
         (case field_str ''session_id'' (rq_Body r) of
            Some (c # cs) \<Rightarrow> do {
              res \<leftarrow> SessionList (W_redis W) (W_dec W) (st_redis st) (ss_Username d);
              let infos = (case res of Inl _ \<Rightarrow> [] | Inr infos \<Rightarrow> infos);
              Some (case find (\<lambda>i. si_ID i = c # cs \<or> si_FullID i = c # cs) infos of
                  Some i \<Rightarrow> st\<lparr>st_redis := fst (Delete (W_redis W) (si_FullID i) (st_redis st))\<rparr>
                | None \<Rightarrow> st, reply 200 ok_json) }
          | _ \<Rightarrow> Some (st, reply 400 (err_json ''session_id required'')))
       else Some (st, http_error ''method not allowed'' 405))"

definition password_error_text :: "password_error \<Rightarrow> string" where
  "password_error_text e = (case e of
     TooShort \<Rightarrow> ''password must be at least 8 characters''
   | NoUpper \<Rightarrow> ''password must contain at least one uppercase letter''
   | NoLower \<Rightarrow> ''password must contain at least one lowercase letter''
   | NoDigit \<Rightarrow> ''password must contain at least one number''
   | NoSpecial \<Rightarrow> ''password must contain at least one special character'')"

definition handlePasswordChange ::
    "('r, 'd) world \<Rightarrow> server \<Rightarrow> http_request \<Rightarrow> ('r, 'd) auth_state \<Rightarrow> ('r, 'd) auth_state \<times> http_response" where
  "handlePasswordChange W S r st =
     (if rq_Method r \<noteq> ''POST'' then (st, reply 405 (err_json ''method not allowed''))
      else case authed_session W S r st of
        None \<Rightarrow> (st, reply 401 (err_json ''authentication required''))
      | Some d \<Rightarrow>
          (case do { c \<leftarrow> field_str ''current_password'' (rq_Body r); n \<leftarrow> field_str ''new_password'' (rq_Body r); Some (c, n) } of
             None \<Rightarrow> (st, reply 400 (err_json ''invalid request''))
           | Some (current, new) \<Rightarrow>
               (case ValidatePassword new of
                  Some e \<Rightarrow> (st, reply 400 (err_json (password_error_text e)))
                | None \<Rightarrow>
                    if Authenticate (W_http W) (lldap S) (ss_Username d) current \<noteq> None then
                      (st, reply 401 (err_json ''current password is incorrect''))
                    else case ChangePasswordLDAP (W_ldap W) (lldap S) (ss_Username d) current new (LLDAPBaseDN (srv_cfg S)) (st_dir st) of
                      (dir, Some _) \<Rightarrow> (st\<lparr>st_dir := dir\<rparr>, reply 500 (err_json ''failed to change password''))
                    | (dir, None) \<Rightarrow> (st\<lparr>st_dir := dir\<rparr>, reply 200 ok_json))))"

subsection \<open>Dispatch\<close>

definition route ::
    "('r, 'd) world \<Rightarrow> server \<Rightarrow> inputs \<Rightarrow> http_request \<Rightarrow> ('r, 'd) auth_state \<Rightarrow>
     (('r, 'd) auth_state \<times> http_response) option" where
  "route W S inp r st =
     (let p = rq_Path r in
      if p = ''/api/verify'' then Some (handleVerify W S r st)
      else if p = ''/api/firstfactor'' then Some (handleFirstFactor W S inp r st)
      else if p = ''/api/secondfactor/totp'' then handleSecondFactorTOTP W S inp r st
      else if p = ''/api/secondfactor/totp/register'' then handleTOTPRegister W S inp r st
      else if p = ''/api/logout'' then Some (handleLogout W S r st)
      else if p = ''/api/state'' then Some (st, handleState W S r st)
      else if p = ''/api/health'' then Some (st, reply 200 ok_json)
      else if p = ''/api/auth/password'' then Some (handlePasswordChange W S r st)
      else if p = ''/api/auth/totp/setup'' then handleTOTPRegister W S inp r st
      else if p = ''/api/auth/totp/validate'' then handleSecondFactorTOTP W S inp r st
      else if p = ''/api/auth/sessions'' then handleSessions W S r st
      else Some (st, http_error ''404 page not found'' 404))"

definition ServeHTTP ::
    "('r, 'd) world \<Rightarrow> server \<Rightarrow> inputs \<Rightarrow> http_request \<Rightarrow> ('r, 'd) auth_state \<Rightarrow>
     (('r, 'd) auth_state \<times> http_response) option" where
  "ServeHTTP W S inp r st =
     (if rq_Method r \<in> set [''POST'', ''PUT'', ''PATCH'', ''DELETE''] \<and> header_get r ''X-Requested-With'' = []
      then Some (st, http_error ''CSRF validation failed'' 403)
      else route W S inp r st)"

end
