(* ===== verification/Auth_Safety.thy ===== *)
theory Auth_Safety
  imports Auth_Server
begin

text \<open>
  What the auth server guarantees: who passes the verify endpoint, how sessions come to be,
  rise and end, and where the second factor can be circumvented.
\<close>

subsection \<open>Who is let in\<close>

text \<open>The request carries a cookie that is the signature of a session ID.\<close>

definition presents :: "('r, 'd) world \<Rightarrow> server \<Rightarrow> http_request \<Rightarrow> string \<Rightarrow> bool" where
  "presents W S r sid \<longleftrightarrow> sid \<noteq> [] \<and> no_dot sid \<and>
     map_of (rq_Cookies r) (SessionName (srv_cfg S)) =
       Some (SignSessionID (W_mac256 W) sid (SessionSecret (srv_cfg S)))"

lemma getSessionID_iff: "sid \<noteq> [] \<Longrightarrow> getSessionIDFromCookie W S r = sid \<longleftrightarrow> presents W S r sid"
proof -
  assume ne: "sid \<noteq> []"
  have V: "(case VerifySessionID m v k of (raw, valid) \<Rightarrow> if \<not> valid then [] else raw) =
      (case verify_id m k v of None \<Rightarrow> [] | Some raw \<Rightarrow> raw)" for m v k
    by (auto simp: verify_id_def split: prod.splits)
  have g: "getSessionIDFromCookie W S r = (case map_of (rq_Cookies r) (SessionName (srv_cfg S)) of
      None \<Rightarrow> [] | Some v \<Rightarrow> (case verify_id (W_mac256 W) (SessionSecret (srv_cfg S)) v of None \<Rightarrow> [] | Some raw \<Rightarrow> raw))"
    by (simp only: getSessionIDFromCookie_def V)
  show ?thesis
  proof (cases "map_of (rq_Cookies r) (SessionName (srv_cfg S))")
    case None
    then show ?thesis using ne by (simp add: g presents_def)
  next
    case (Some v)
    have "getSessionIDFromCookie W S r = sid \<longleftrightarrow>
        verify_id (W_mac256 W) (SessionSecret (srv_cfg S)) v = Some sid"
      using ne by (simp add: g Some split: option.split)
    then show ?thesis
      using ne Some by (simp add: verify_id_iff presents_def)
  qed
qed

lemma presents_unique:
  assumes "presents W S r sid" "presents W S r sid'"
  shows "sid' = sid"
proof -
  have "sid \<noteq> []" "sid' \<noteq> []" using assms by (simp_all add: presents_def)
  then show ?thesis
    using assms getSessionID_iff [of sid W S r] getSessionID_iff [of sid' W S r] by metis
qed

definition stored :: "('r, 'd) world \<Rightarrow> ('r, 'd) auth_state \<Rightarrow> string \<Rightarrow> SessionData option" where
  "stored W st sid = (case Get (W_redis W) (W_dec W) (st_redis st) sid of Inl _ \<Rightarrow> None | Inr d \<Rightarrow> Some d)"

lemma authed_session_iff:
  "authed_session W S r st = Some d \<longleftrightarrow>
     1 \<le> AuthLevel d \<and> (\<exists>sid. presents W S r sid \<and> stored W st sid = Some d)"
proof -
  define sid where "sid = getSessionIDFromCookie W S r"
  show ?thesis
  proof (cases "sid = []")
    case True
    then have "\<not> presents W S r x" for x
      using getSessionID_iff [of x W S r] by (auto simp: sid_def presents_def)
    with True show ?thesis by (simp add: authed_session_def getSession_def sid_def)
  next
    case False
    then have p: "presents W S r x \<longleftrightarrow> x = sid" for x
    proof (cases "x = []")
      case True
      with False show ?thesis by (simp add: presents_def)
    next
      case ne: False
      show ?thesis using getSessionID_iff [OF ne, of W S r] by (auto simp: sid_def)
    qed
    have "getSession W S r st = Get (W_redis W) (W_dec W) (st_redis st) sid"
      using False by (simp add: getSession_def Let_def sid_def [symmetric])
    then show ?thesis
      by (cases "Get (W_redis W) (W_dec W) (st_redis st) sid")
        (auto simp: authed_session_def stored_def p)
  qed
qed

definition second_factor_on :: "('r, 'd) world \<Rightarrow> server \<Rightarrow> ('r, 'd) auth_state \<Rightarrow> string \<Rightarrow> bool" where
  "second_factor_on W S st u \<longleftrightarrow> (\<exists>s. getTOTPSecret W S u (st_redis st) = Secret s \<and> s \<noteq> [])"

lemma hasTOTP_iff: "fst (hasTOTPConfigured W S u (st_redis st)) = second_factor_on W S st u"
  by (auto simp: hasTOTPConfigured_def second_factor_on_def split: totp_secret.splits)

definition entitled :: "('r, 'd) world \<Rightarrow> server \<Rightarrow> http_request \<Rightarrow> ('r, 'd) auth_state \<Rightarrow> SessionData \<Rightarrow> bool" where
  "entitled W S r st d \<longleftrightarrow>
     (\<exists>sid. presents W S r sid \<and> stored W st sid = Some d) \<and> 1 \<le> AuthLevel d \<and>
     (second_factor_on W S st (ss_Username d) \<longrightarrow> 2 \<le> AuthLevel d)"

lemma handleVerify_code:
  "rs_Code (snd (handleVerify W S r st)) =
     (if isDomainPublic S (request_host r) \<or> (\<exists>d. entitled W S r st d) then 200 else 401)"
proof (cases "authed_session W S r st")
  case None
  then have "\<not> entitled W S r st d" for d
    using authed_session_iff [of W S r st d] by (auto simp: entitled_def)
  with None show ?thesis by (simp add: handleVerify_def)
next
  case (Some d)
  then have "entitled W S r st d' \<longleftrightarrow> d' = d \<and> (second_factor_on W S st (ss_Username d) \<longrightarrow> 2 \<le> AuthLevel d)" for d'
    using authed_session_iff [of W S r st d] authed_session_iff [of W S r st d'] by (auto simp: entitled_def)
  with Some show ?thesis by (auto simp: handleVerify_def hasTOTP_iff Let_def not_less)
qed

lemma handleVerify_user:
  "\<not> isDomainPublic S (request_host r) \<Longrightarrow> entitled W S r st d \<Longrightarrow>
   map_of (rs_Header (snd (handleVerify W S r st))) ''Remote-User'' = Some (ss_Username d)"
  using authed_session_iff [of W S r st d]
  by (auto simp: handleVerify_def entitled_def hasTOTP_iff Let_def not_less)

text \<open>
  C1: the verify endpoint lets a request through exactly when its host is public, or its
  cookie is the signature of a stored session of level 1 that has no second factor to
  give or of level 2; otherwise it answers 401. The user name it passes on is that of the
  session.
\<close>
theorem handleVerify_iff:
  "(rs_Code (snd (handleVerify W S r st)) = 200 \<longleftrightarrow>
      isDomainPublic S (request_host r) \<or> (\<exists>d. entitled W S r st d))
   \<and> rs_Code (snd (handleVerify W S r st)) \<in> {200, 401}
   \<and> (\<not> isDomainPublic S (request_host r) \<longrightarrow> entitled W S r st d \<longrightarrow>
        map_of (rs_Header (snd (handleVerify W S r st))) ''Remote-User'' = Some (ss_Username d))"
  by (simp add: handleVerify_code handleVerify_user)

subsection \<open>A concrete world for the witnesses\<close>

text \<open>Sessions as text: level, then user name.\<close>

definition toy_enc :: "SessionData \<Rightarrow> string" where
  "toy_enc d = (if AuthLevel d = 2 then ''2'' else ''1'') @ ss_Username d"

definition toy_dec :: "string \<Rightarrow> SessionData option" where
  "toy_dec s = (case s of
     [] \<Rightarrow> None
   | c # u \<Rightarrow> Some \<lparr>ss_Username = u, Groups = [], AuthLevel = (if c = CHR ''2'' then 2 else 1),
                   TOTPVerified = (c = CHR ''2''), CreatedAt = 0, LastActivity = 0\<rparr>)"

definition toy_ldap :: "unit ldap" where
  "toy_ldap = \<lparr>dial = (\<lambda>_. True), bind_as = (\<lambda>_ _ _. True), modify_password = (\<lambda>d _ _ _. Some d), escape_filter = id\<rparr>"

definition toy_world :: "((string \<times> string) list, unit) world" where
  "toy_world = \<lparr>W_redis = map_redis, W_enc = toy_enc, W_dec = toy_dec, W_mac256 = (\<lambda>k m. k), W_mac512 = (\<lambda>k m. k),
     W_mac1 = sample_mac, W_claims = (\<lambda>c. Some ''c''), W_aes = sample_aes, W_http = (\<lambda>q. Some (200, None)),
     W_ldap = toy_ldap\<rparr>"

definition toy_config :: Config where
  "toy_config = \<lparr>ListenAddr = [], AuthUserZone = ''a.io'', CustomDomain = [], JWTSecret = ''j'', SessionSecret = ''k'',
     RedisAddr = [], RedisPassword = [], RedisDB = 0, LLDAPHostName = ''l'', LLDAPPortNum = 1, LLDAPUser = [],
     LLDAPPassword = [], LLDAPAdminUser = [], LLDAPAdminPassword = [], LLDAPBaseDN = [], SessionName = ''s'',
     SessionMaxAgeSec = 60, SessionInactivity = 0, TOTPIssuer = ''p'', PublicDomains = [], PublicDomainsFile = [],
     CookieSameSite = []\<rparr>"

definition toy_server :: server where
  "toy_server = \<lparr>srv_cfg = toy_config, publicDomainSet = None\<rparr>"

definition toy_request :: "string \<Rightarrow> string \<Rightarrow> string \<Rightarrow> http_request" where
  "toy_request m p sid = \<lparr>rq_Method = m, rq_Path = p, rq_Query = [], rq_Host = ''x.a.io'', rq_RemoteAddr = [],
     rq_Header = [(''X-Requested-With'', ''x'')], rq_Cookies = [(''s'', SignSessionID (\<lambda>k m. k) sid ''k'')], rq_Body = None\<rparr>"

definition toy_state :: "(string \<times> string) list \<Rightarrow> ((string \<times> string) list, unit) auth_state" where
  "toy_state m = \<lparr>st_redis = m, st_dir = (), st_slept = 0\<rparr>"

text \<open>A password-only session of a user who has a second factor.\<close>

definition toy_totp :: "((string \<times> string) list, unit) auth_state" where
  "toy_totp = toy_state [(session_key ''ab'', ''1u''), (totp_key ''u'', StdEncode (''0123456789ab'' @ ''hk|S''))]"

lemma toy_presents: "no_dot sid \<Longrightarrow> sid \<noteq> [] \<Longrightarrow> presents toy_world toy_server (toy_request m p sid) sid"
  by (simp add: presents_def toy_world_def toy_server_def toy_config_def toy_request_def)

lemma toy_stored:
  "stored toy_world (toy_state m) sid = (case map_of m (session_key sid) of None \<Rightarrow> None | Some v \<Rightarrow> toy_dec v)"
  by (simp add: stored_def Get_def toy_world_def toy_state_def map_redis_def split: option.split)

lemma toy_not_public: "\<not> isDomainPublic toy_server (request_host (toy_request m p sid))"
  by (simp add: isDomainPublic_def toy_server_def toy_config_def)

lemma toy_second_factor: "second_factor_on toy_world toy_server toy_totp ''u''"
proof -
  have "totp_key ''u'' \<noteq> session_key ''ab''" by (simp add: totp_key_def session_key_def session_prefix_def)
  then show ?thesis
    by (simp add: second_factor_on_def getTOTPSecret_def read_secret_def toy_totp_def toy_world_def toy_server_def
        toy_config_def toy_state_def map_redis_def decryptAES_def Std_roundtrip openGCM_def nonceSize_def sample_aes_def)
qed

theorem handleVerify_iff_witness:
  "rs_Code (snd (handleVerify toy_world toy_server (toy_request ''GET'' ''/api/verify'' ''ab'') toy_totp)) \<noteq> 200
   \<and> map_of (rs_Header (snd (handleVerify toy_world toy_server (toy_request ''GET'' ''/api/verify'' ''ab'')
        (toy_state [(session_key ''ab'', ''1u'')])))) ''Remote-User'' = Some ''u''"
proof -
  let ?r = "toy_request ''GET'' ''/api/verify'' ''ab''"
  have nd: "no_dot ''ab''" by (simp add: no_dot_def)
  have p: "presents toy_world toy_server ?r x \<longleftrightarrow> x = ''ab''" for x
    using getSessionID_iff [of x toy_world toy_server ?r] getSessionID_iff [of "''ab''" toy_world toy_server ?r]
      toy_presents [OF nd] by (cases "x = []") (auto simp: presents_def)
  have s: "stored toy_world toy_totp ''ab'' = toy_dec ''1u''" by (simp add: toy_totp_def toy_stored)
  have "\<not> entitled toy_world toy_server ?r toy_totp d" for d
    using toy_second_factor by (auto simp: entitled_def p s toy_dec_def)
  moreover have "second_factor_on toy_world toy_server (toy_state [(session_key ''ab'', ''1u'')]) u = False" for u
    by (simp add: second_factor_on_def getTOTPSecret_def read_secret_def toy_world_def toy_state_def map_redis_def
        totp_key_def session_key_def session_prefix_def)
  then have "entitled toy_world toy_server ?r (toy_state [(session_key ''ab'', ''1u'')]) (the (toy_dec ''1u''))"
    by (simp add: entitled_def p toy_stored toy_dec_def)
  moreover have "ss_Username (the (toy_dec ''1u'')) = ''u''" by (simp add: toy_dec_def)
  ultimately show ?thesis
    using handleVerify_iff [of toy_world toy_server ?r toy_totp]
      handleVerify_iff [of toy_world toy_server ?r "toy_state [(session_key ''ab'', ''1u'')]" "the (toy_dec ''1u'')"]
      toy_not_public by metis
qed

subsection \<open>What each operation does to the stored sessions\<close>

lemma other_keys [simp]:
  "session_key s \<noteq> totp_key u" "session_key s \<noteq> pending_key u" "totp_key u \<noteq> session_key s"
  "pending_key u \<noteq> session_key s"
  by (simp_all add: session_key_def session_prefix_def totp_key_def pending_key_def)

definition sess :: "('r, 'd) world \<Rightarrow> 'r \<Rightarrow> string \<Rightarrow> redis_reply" where
  "sess W r sid = rGet (W_redis W) r (session_key sid)"

lemma stored_sess:
  "stored W st sid = (case sess W (st_redis st) sid of Value v \<Rightarrow> W_dec W v | _ \<Rightarrow> None)"
  by (simp add: stored_def Get_def sess_def split: redis_reply.split option.split)

lemma sess_increment:
  "redis_laws (W_redis W) \<Longrightarrow> k \<noteq> session_key s \<Longrightarrow> sess W (rl_increment (W_redis W) k r) s = sess W r s"
  by (simp add: sess_def rl_increment_def redis_get_expire redis_get_incr blockDuration_def)

lemma sess_simps:
  assumes "redis_laws (W_redis W)"
  shows "sess W (RecordFailure (W_redis W) ip u r) s = sess W r s"
    and "sess W (Reset (W_redis W) ip u r) s = sess W r s"
    and "0 < ttl \<Longrightarrow> sess W (fst (Touch (W_redis W) sid ttl r)) s = sess W r s"
    and "sess W (fst (Delete (W_redis W) sid r)) s = (if s = sid then Nil else sess W r s)"
    and "sess W (fst (Update (W_redis W) (W_enc W) now sid d ttl r)) s =
      (if s = sid then Value (W_enc W (d\<lparr>LastActivity := now\<rparr>)) else sess W r s)"
    and "sess W (fst (deleteTOTPSecret W u r)) s = sess W r s"
    and "sess W (fst (deletePendingTOTP W u r)) s = sess W r s"
    and "sess W (fst (storeTOTPSecret W S inp u secret r)) s = sess W r s"
    and "sess W (fst (storePendingTOTP W S inp u secret r)) s = sess W r s"
  using assms
  by (simp_all add: RecordFailure_def sess_increment)
    (simp_all add: sess_def Reset_def Touch_def Delete_def Update_def deleteTOTPSecret_def deletePendingTOTP_def
      storeTOTPSecret_def storePendingTOTP_def store_secret_def redis_get_del redis_get_set redis_get_expire
      split: option.splits)

lemma sess_Create:
  assumes "redis_laws (W_redis W)" "Create (W_redis W) (W_enc W) rand now d ttl r = (r', sid)"
  shows "case sid of
      None \<Rightarrow> r' = r
    | Some i \<Rightarrow> generateSessionID rand = Some i \<and>
        sess W r' s = (if s = i then Value (W_enc W (d\<lparr>CreatedAt := now, LastActivity := now\<rparr>)) else sess W r s)"
proof (cases "generateSessionID rand")
  case (Some i)
  obtain r1 ok where e: "rSet (W_redis W) r (session_key i) (W_enc W (d\<lparr>CreatedAt := now, LastActivity := now\<rparr>)) ttl = (r1, ok)"
    by fastforce
  have "ok" and "sess W r1 s = (if s = i then Value (W_enc W (d\<lparr>CreatedAt := now, LastActivity := now\<rparr>)) else sess W r s)"
    using redis_set [OF assms(1) e, of "session_key s"] by (simp_all add: sess_def)
  moreover have "r' = r1" "sid = (if ok then Some i else None)"
    using assms(2) e Some by (simp_all add: Create_def)
  ultimately show ?thesis using Some by simp
qed (use assms(2) in \<open>simp add: Create_def\<close>)

lemma sess_pairs:
  assumes "redis_laws (W_redis W)"
  shows "deleteTOTPSecret W u r = (r1, ok) \<Longrightarrow> sess W r1 s = sess W r s"
    and "deletePendingTOTP W u r = (r1, ok) \<Longrightarrow> sess W r1 s = sess W r s"
    and "storeTOTPSecret W S inp u secret r = (r1, ok) \<Longrightarrow> sess W r1 s = sess W r s"
    and "storePendingTOTP W S inp u secret r = (r1, ok) \<Longrightarrow> sess W r1 s = sess W r s"
  using sess_simps(6-9) [OF assms] by (metis fst_conv)+

lemma sess_handleVerify:
  "redis_laws (W_redis W) \<Longrightarrow> 0 < SessionMaxAgeSec (srv_cfg S) \<Longrightarrow>
   sess W (st_redis (fst (handleVerify W S r st))) s = sess W (st_redis st) s"
  by (simp add: handleVerify_def Let_def sess_simps split: option.split)

lemma sess_handleLogout:
  "redis_laws (W_redis W) \<Longrightarrow>
   sess W (st_redis (fst (handleLogout W S r st))) s =
     (if s = getSessionIDFromCookie W S r \<and> s \<noteq> [] then Nil else sess W (st_redis st) s)"
  by (simp add: handleLogout_def Let_def sess_simps)

lemma sess_handlePasswordChange:
  "sess W (st_redis (fst (handlePasswordChange W S r st))) s = sess W (st_redis st) s"
  by (simp add: handlePasswordChange_def split: option.split prod.split)

lemma sess_handleTOTPRegister:
  assumes "redis_laws (W_redis W)" "handleTOTPRegister W S inp r st = Some (st', resp)"
  shows "sess W (st_redis st') s = sess W (st_redis st) s"
proof (cases "authed_session W S r st")
  case None
  with assms(2) show ?thesis by (simp add: handleTOTPRegister_def)
next
  case (Some d)
  have post: "sess W (st_redis (fst (register_post W S inp d st))) s = sess W (st_redis st) s"
    by (auto simp: register_post_def split: option.split prod.split dest: sess_pairs [OF assms(1)])
  have delete: "sess W (st_redis (fst (register_delete W d st))) s = sess W (st_redis st) s"
    by (auto simp: register_delete_def sess_simps [OF assms(1)] split: prod.split dest: sess_pairs [OF assms(1)])
  have put: "register_put W S inp r d st = Some (st', resp) \<Longrightarrow> sess W (st_redis st') s = sess W (st_redis st) s"
    by (auto simp: register_put_def bind_eq_Some_conv sess_simps [OF assms(1)]
        split: option.splits list.splits totp_secret.splits if_splits prod.splits dest: sess_pairs [OF assms(1)])
  show ?thesis
    using assms(2) Some post delete put by (auto simp: handleTOTPRegister_def split: if_splits)
qed

lemma sess_handleSessions:
  assumes "redis_laws (W_redis W)" "handleSessions W S r st = Some (st', resp)"
  shows "sess W (st_redis st') s = sess W (st_redis st) s \<or> sess W (st_redis st') s = Nil"
  using assms(2)
  by (auto simp: handleSessions_def bind_eq_Some_conv sess_simps [OF assms(1)] Let_def
      split: option.splits if_splits list.splits)

lemma stored_handleFirstFactor:
  assumes "redis_laws (W_redis W)" "\<And>d. W_dec W (W_enc W d) = Some d"
    and "stored W (fst (handleFirstFactor W S inp r st)) sid = Some d"
  shows "stored W st sid = Some d \<or>
    (generateSessionID (in_session inp) = Some sid \<and> rq_Method r = ''POST'' \<and>
     field_str ''username'' (rq_Body r) = Some (ss_Username d) \<and> ss_Username d \<noteq> [] \<and>
     (\<exists>p. field_str ''password'' (rq_Body r) = Some p \<and> Authenticate (W_http W) (lldap S) (ss_Username d) p = None) \<and>
     Check (W_redis W) (st_redis st) (extractIP r) (ss_Username d) \<noteq> None \<and>
     AuthLevel d = 1 \<and> \<not> TOTPVerified d)"
proof -
  have keep: "sess W (st_redis st') sid = sess W (st_redis st) sid \<Longrightarrow> stored W st' sid = stored W st sid" for st'
    by (simp add: stored_sess)
  have sess_start: "stored W (fst (start_session W S inp r u k st0)) sid = Some d \<Longrightarrow>
      st_redis st0 = st_redis st \<Longrightarrow>
      stored W st sid = Some d \<or> (generateSessionID (in_session inp) = Some sid \<and> ss_Username d = u \<and> AuthLevel d = 1 \<and> \<not> TOTPVerified d)"
    for u k st0
  proof -
    let ?d = "\<lparr>ss_Username = u, Groups = (case GetUserGroups (W_http W) (lldap S) (LLDAPUser (srv_cfg S)) (LLDAPPassword (srv_cfg S)) u of
        Inl _ \<Rightarrow> [] | Inr gs \<Rightarrow> gs), AuthLevel = 1, TOTPVerified = False, CreatedAt = 0, LastActivity = 0\<rparr>"
    assume a: "stored W (fst (start_session W S inp r u k st0)) sid = Some d" and e: "st_redis st0 = st_redis st"
    obtain r1 i where c: "Create (W_redis W) (W_enc W) (in_session inp) (in_now inp) ?d (SessionMaxAgeSec (srv_cfg S)) (st_redis st) = (r1, i)"
      by fastforce
    show ?thesis
    proof (cases i)
      case None
      with sess_Create [OF assms(1) c, of sid] have "r1 = st_redis st" by simp
      then show ?thesis using a c None e by (simp add: start_session_def Let_def stored_sess)
    next
      case (Some j)
      note C = sess_Create [OF assms(1) c, of sid, unfolded Some, simplified]
      have "st_redis (fst (start_session W S inp r u k st0)) = Reset (W_redis W) (extractIP r) u r1"
        using c Some e by (simp add: start_session_def Let_def)
      then have "sess W (st_redis (fst (start_session W S inp r u k st0))) sid = sess W r1 sid"
        by (simp add: sess_simps [OF assms(1)])
      then show ?thesis
        using a C assms(2) by (auto simp: stored_sess split: if_splits)
    qed
  qed
  show ?thesis
  proof (cases "rq_Method r = ''POST''")
    case False
    then show ?thesis using assms(3) by (simp add: handleFirstFactor_def)
  next
    case post: True
    show ?thesis
    proof (cases "do { u \<leftarrow> field_str ''username'' (rq_Body r); p \<leftarrow> field_str ''password'' (rq_Body r);
                     k \<leftarrow> field_bool ''keep_me_logged_in'' (rq_Body r); Some (u, p, k) }")
      case None
      then show ?thesis using assms(3) post by (simp add: handleFirstFactor_def)
    next
      case (Some upk)
      obtain u p k where upk: "upk = (u, p, k)" by (cases upk)
      then have fields: "field_str ''username'' (rq_Body r) = Some u" "field_str ''password'' (rq_Body r) = Some p"
        using Some by (auto simp: bind_eq_Some_conv)
      note H = assms(3) [unfolded handleFirstFactor_def Some upk, simplified post, simplified]
      show ?thesis
      proof (cases "u = [] \<or> p = []")
        case True
        then show ?thesis using H by auto
      next
        case ne: False
        show ?thesis
        proof (cases "Check (W_redis W) (st_redis st) (extractIP r) u")
          case None
          then show ?thesis using H ne by simp
        next
          case chk: (Some delay)
          define st0 where "st0 = (if delay > 0 then st\<lparr>st_slept := st_slept st + delay\<rparr> else st)"
          have st0: "st_redis st0 = st_redis st" by (simp add: st0_def)
          show ?thesis
          proof (cases "Authenticate (W_http W) (lldap S) u p")
            case None
            then have "stored W (fst (start_session W S inp r u k st0)) sid = Some d"
              using H ne chk by (simp add: st0_def Let_def)
            from sess_start [OF this st0] show ?thesis using None chk fields ne post by auto
          next
            case (Some e)
            then have "stored W (st0\<lparr>st_redis := RecordFailure (W_redis W) (extractIP r) u (st_redis st0)\<rparr>) sid = Some d"
              using H ne chk by (simp add: st0_def Let_def)
            then show ?thesis using keep sess_simps(1) [OF assms(1)] by (simp add: stored_sess st0)
          qed
        qed
      qed
    qed
  qed
qed

definition upgraded ::
    "('r, 'd) world \<Rightarrow> server \<Rightarrow> inputs \<Rightarrow> http_request \<Rightarrow> ('r, 'd) auth_state \<Rightarrow> string \<Rightarrow> SessionData \<Rightarrow> bool" where
  "upgraded W S inp r st sid d \<longleftrightarrow>
     presents W S r sid \<and> rq_Method r = ''POST'' \<and>
     (\<exists>d0 secret code. stored W st sid = Some d0 \<and> 1 \<le> AuthLevel d0 \<and>
        field_str ''token'' (rq_Body r) = Some code \<and>
        getTOTPSecret W S (ss_Username d0) (st_redis st) = Secret secret \<and>
        ValidateTOTPCode (W_mac1 W) (in_now inp) secret code = Some True \<and>
        d = d0\<lparr>AuthLevel := 2, TOTPVerified := True, LastActivity := in_now inp\<rparr>)"

definition logged_in ::
    "('r, 'd) world \<Rightarrow> server \<Rightarrow> inputs \<Rightarrow> http_request \<Rightarrow> ('r, 'd) auth_state \<Rightarrow> string \<Rightarrow> SessionData \<Rightarrow> bool" where
  "logged_in W S inp r st sid d \<longleftrightarrow>
     generateSessionID (in_session inp) = Some sid \<and> rq_Method r = ''POST'' \<and>
     field_str ''username'' (rq_Body r) = Some (ss_Username d) \<and> ss_Username d \<noteq> [] \<and>
     (\<exists>p. field_str ''password'' (rq_Body r) = Some p \<and> Authenticate (W_http W) (lldap S) (ss_Username d) p = None) \<and>
     Check (W_redis W) (st_redis st) (extractIP r) (ss_Username d) \<noteq> None \<and>
     AuthLevel d = 1 \<and> \<not> TOTPVerified d"

lemma stored_handleSecondFactorTOTP:
  assumes "redis_laws (W_redis W)" "\<And>d. W_dec W (W_enc W d) = Some d"
    and "handleSecondFactorTOTP W S inp r st = Some (st', resp)" "stored W st' sid = Some d"
  shows "stored W st sid = Some d \<or> upgraded W S inp r st sid d"
proof (cases "rq_Method r = ''POST''")
  case False
  then show ?thesis using assms(3,4) by (simp add: handleSecondFactorTOTP_def)
next
  case post: True
  show ?thesis
  proof (cases "authed_session W S r st")
    case None
    then show ?thesis using assms(3,4) post by (simp add: handleSecondFactorTOTP_def)
  next
    case (Some d0)
    then obtain i where i: "1 \<le> AuthLevel d0" "presents W S r i" "stored W st i = Some d0"
      by (auto simp: authed_session_iff)
    then have ne: "i \<noteq> []" by (simp add: presents_def)
    have cookie: "getSessionIDFromCookie W S r = i" using getSessionID_iff [OF ne] i(2) by blast
    let ?d = "d0\<lparr>AuthLevel := 2, TOTPVerified := True\<rparr>"
    let ?st = "st\<lparr>st_redis := fst (Update (W_redis W) (W_enc W) (in_now inp) i ?d (SessionMaxAgeSec (srv_cfg S)) (st_redis st))\<rparr>"
    consider "st' = st" | code secret where "st' = ?st" "field_str ''token'' (rq_Body r) = Some code"
      "getTOTPSecret W S (ss_Username d0) (st_redis st) = Secret secret"
      "ValidateTOTPCode (W_mac1 W) (in_now inp) secret code = Some True"
      using assms(3) post Some cookie ne
      by (auto simp: handleSecondFactorTOTP_def bind_eq_Some_conv Let_def
          split: option.splits totp_secret.splits list.splits if_splits)
    then show ?thesis
    proof cases
      case 1
      then show ?thesis using assms(4) by simp
    next
      case (2 code secret)
      have "sess W (st_redis st') sid = (if sid = i then Value (W_enc W (?d\<lparr>LastActivity := in_now inp\<rparr>)) else sess W (st_redis st) sid)"
        unfolding 2(1) by (simp add: sess_simps [OF assms(1)])
      then show ?thesis
        using assms(2,4) i 2(2-4) post by (auto simp: stored_sess upgraded_def split: if_splits)
    qed
  qed
qed

lemma ServeHTTP_session:
  assumes "redis_laws (W_redis W)" "\<And>d. W_dec W (W_enc W d) = Some d" "0 < SessionMaxAgeSec (srv_cfg S)"
    and "ServeHTTP W S inp r st = Some (st', resp)" "stored W st' sid = Some d"
  shows "stored W st sid = Some d \<or>
    header_get r ''X-Requested-With'' \<noteq> [] \<and> (logged_in W S inp r st sid d \<or> upgraded W S inp r st sid d)"
proof (cases "rq_Method r \<in> set [''POST'', ''PUT'', ''PATCH'', ''DELETE''] \<and> header_get r ''X-Requested-With'' = []")
  case True
  then show ?thesis using assms(4,5) by (simp add: ServeHTTP_def)
next
  case False
  then have rt: "route W S inp r st = Some (st', resp)" using assms(4) by (simp only: ServeHTTP_def if_False)
  have same: "sess W (st_redis s) sid = sess W (st_redis st) sid \<Longrightarrow> stored W s sid = stored W st sid" for s
    by (simp add: stored_sess)
  have post: "rq_Method r = ''POST'' \<Longrightarrow> header_get r ''X-Requested-With'' \<noteq> []" using False by simp
  consider "st' = st" | "st' = fst (handleVerify W S r st)" | "st' = fst (handleFirstFactor W S inp r st)"
    | "handleSecondFactorTOTP W S inp r st = Some (st', resp)" | "handleTOTPRegister W S inp r st = Some (st', resp)"
    | "st' = fst (handleLogout W S r st)" | "st' = fst (handlePasswordChange W S r st)"
    | "handleSessions W S r st = Some (st', resp)"
    using rt unfolding route_def Let_def by (simp split: if_splits)
  then show ?thesis
  proof cases
    case 2
    then show ?thesis using assms(5) same sess_handleVerify [OF assms(1,3)] by metis
  next
    case 3
    then show ?thesis
      using stored_handleFirstFactor [OF assms(1,2)] assms(5) post unfolding logged_in_def by blast
  next
    case 4
    then show ?thesis
      using stored_handleSecondFactorTOTP [OF assms(1,2) 4 assms(5)] post unfolding upgraded_def by blast
  next
    case 5
    then show ?thesis using assms(5) same sess_handleTOTPRegister [OF assms(1) 5] by metis
  next
    case 6
    then show ?thesis
      using assms(5) sess_handleLogout [OF assms(1)] by (auto simp: stored_sess split: if_splits)
  next
    case 7
    then show ?thesis using assms(5) same sess_handlePasswordChange by metis
  next
    case 8
    then show ?thesis using assms(5) sess_handleSessions [OF assms(1) 8, of sid] by (auto simp: stored_sess)
  qed (use assms(5) in simp)
qed

text \<open>
  C6: no request creates or changes a session except two. A session that is stored after a
  request and was not before is either a fresh level-1 session of a user whose password the
  directory accepted and whom the rate limiter did not block, or the caller's own session
  raised to level 2 by a code valid for that user's stored secret; both need the CSRF
  header.
\<close>
theorem session_provenance:
  assumes "redis_laws (W_redis W)" "\<forall>d. W_dec W (W_enc W d) = Some d" "0 < SessionMaxAgeSec (srv_cfg S)"
    and "ServeHTTP W S inp r st = Some (st', resp)" "stored W st' sid = Some d"
  shows "stored W st sid = Some d \<or>
    header_get r ''X-Requested-With'' \<noteq> [] \<and> (logged_in W S inp r st sid d \<or> upgraded W S inp r st sid d)"
  using ServeHTTP_session [OF assms(1) _ assms(3-5)] assms(2) by blast

text \<open>A text codec of sessions for the witnesses.\<close>

definition text_enc :: "SessionData \<Rightarrow> string" where
  "text_enc d = join '','' [base64URLEncode (ss_Username d), join ''.'' (map base64URLEncode ([] # Groups d)),
     int_str (AuthLevel d), if TOTPVerified d then ''t'' else ''f'', int_str (CreatedAt d), int_str (LastActivity d)]"

definition text_dec :: "string \<Rightarrow> SessionData option" where
  "text_dec s = (case split_on CHR '','' s of
     [u, gs, l, t, c, a] \<Rightarrow> do {
       u \<leftarrow> base64URLDecode u; gs \<leftarrow> those (map base64URLDecode (tl (split_on CHR ''.'' gs)));
       l \<leftarrow> parse_int l; c \<leftarrow> parse_int c; a \<leftarrow> parse_int a;
       Some \<lparr>ss_Username = u, Groups = gs, AuthLevel = l, TOTPVerified = (t = ''t''), CreatedAt = c, LastActivity = a\<rparr> }
   | _ \<Rightarrow> None)"

lemma int_str_no_comma: "CHR '','' \<notin> set (int_str i)"
proof -
  have "\<not> is_digit CHR '',''" by code_simp
  then have "CHR '','' \<notin> set (nat_str n)" for n
    using nat_str_digits [of n] by (auto simp: list_all_iff)
  then show ?thesis by (simp add: int_str_def)
qed

lemma base64_no_comma: "CHR '','' \<notin> set (base64URLEncode s)"
proof -
  have "CHR '','' \<notin> set base64_alphabet" by code_simp
  then show ?thesis using base64URLEncode_set by blast
qed

lemma set_join: "set (join sep xs) \<subseteq> set sep \<union> \<Union> (set (map set xs))"
  by (induction sep xs rule: join.induct) auto

lemma those_map_decode: "those (map (base64URLDecode \<circ> base64URLEncode) gs) = Some gs"
  by (induction gs) (auto simp: base64URL_roundtrip)

lemma text_codec: "text_dec (text_enc d) = Some d"
proof -
  let ?g = "map base64URLEncode ([] # Groups d)"
  let ?f = "[base64URLEncode (ss_Username d), join ''.'' ?g, int_str (AuthLevel d), if TOTPVerified d then ''t'' else ''f'',
     int_str (CreatedAt d), int_str (LastActivity d)]"
  have "CHR '','' \<notin> set (join ''.'' ?g)"
    using set_join [of "''.''" ?g] base64_no_comma by auto
  then have "\<forall>x \<in> set ?f. CHR '','' \<notin> set x"
    by (simp add: base64_no_comma int_str_no_comma)
  then have f: "split_on CHR '','' (text_enc d) = ?f"
    unfolding text_enc_def by (intro split_on_join) simp_all
  have "split_on CHR ''.'' (join ''.'' ?g) = ?g"
    by (rule split_on_join) (auto simp: base64URLEncode_no_dot)
  then have g: "tl (split_on CHR ''.'' (join ''.'' ?g)) = map base64URLEncode (Groups d)" by simp
  show ?thesis
    unfolding text_dec_def f by (simp only: list.case g) (simp add: base64URL_roundtrip parse_int_int_str those_map_decode)
qed

definition text_world :: "((string \<times> string) list, unit) world" where
  "text_world = toy_world\<lparr>W_enc := text_enc, W_dec := text_dec\<rparr>"

definition toy_login :: http_request where
  "toy_login = (toy_request ''POST'' ''/api/firstfactor'' [])\<lparr>rq_Body :=
     Some (JObj [(''username'', JStr ''u''), (''password'', JStr ''p'')])\<rparr>"

definition toy_inputs :: inputs where
  "toy_inputs = \<lparr>in_now = 9, in_session = Some ''ab'', in_nonce = Some ''0123456789ab'', in_totp = Some ''key''\<rparr>"

definition toy_session :: SessionData where
  "toy_session = \<lparr>ss_Username = ''u'', Groups = [], AuthLevel = 1, TOTPVerified = False, CreatedAt = 9, LastActivity = 9\<rparr>"

lemma text_world_laws:
  "redis_laws (W_redis text_world)" "\<forall>d. W_dec text_world (W_enc text_world d) = Some d"
  "0 < SessionMaxAgeSec (srv_cfg toy_server)"
  by (simp_all add: text_world_def toy_world_def redis_laws_map_redis text_codec toy_server_def toy_config_def)

lemma toy_login_run:
  "\<exists>st' resp. ServeHTTP text_world toy_server toy_inputs toy_login (toy_state []) = Some (st', resp) \<and>
     stored text_world st' (hexEncode ''ab'') = Some toy_session"
proof -
  let ?W = text_world
  have u: "field_str ''username'' (rq_Body toy_login) = Some ''u''" "field_str ''password'' (rq_Body toy_login) = Some ''p''"
    "field_bool ''keep_me_logged_in'' (rq_Body toy_login) = Some False"
    by (code_simp, code_simp, code_simp)
  have m: "rq_Method toy_login = ''POST''" "rq_Path toy_login = ''/api/firstfactor''"
    "header_get toy_login ''X-Requested-With'' = ''x''"
    by (simp_all add: toy_login_def toy_request_def header_get_def first_value_def)
  have c: "Check (W_redis ?W) (st_redis (toy_state [])) ip v = Some 0" for ip v
    by (simp add: Check_def getFailures_def toy_state_def text_world_def toy_world_def map_redis_def maxAttempts_def)
  have a: "Authenticate (W_http ?W) l v p = None" for l v p
    by (simp add: Authenticate_def text_world_def toy_world_def)
  have g: "GetUserGroups (\<lambda>q. Some (200, None)) l x y v = Inl ParseError" for l x y v
    by (simp add: GetUserGroups_def getToken_def field_str_def members_of_def)
  have run: "ServeHTTP ?W toy_server toy_inputs toy_login (toy_state []) =
      Some (start_session ?W toy_server toy_inputs toy_login ''u'' False (toy_state []))"
    by (simp add: ServeHTTP_def route_def handleFirstFactor_def m u c a)
  have r: "st_redis (fst (start_session ?W toy_server toy_inputs toy_login ''u'' False (toy_state []))) =
      [(session_key (hexEncode ''ab''), text_enc toy_session)]"
    by (simp add: start_session_def g Create_def generateSessionID_def toy_inputs_def Reset_def toy_state_def
        text_world_def toy_world_def map_redis_def Let_def toy_session_def)
  have "stored ?W (fst (start_session ?W toy_server toy_inputs toy_login ''u'' False (toy_state []))) (hexEncode ''ab'') = Some toy_session"
    unfolding stored_sess sess_def r by (simp add: text_world_def toy_world_def map_redis_def text_codec)
  with run show ?thesis by (metis prod.collapse)
qed

lemma toy_nothing_stored: "stored text_world (toy_state []) sid = None"
  by (simp add: stored_sess sess_def text_world_def toy_world_def toy_state_def map_redis_def)

theorem session_provenance_witness:
  "logged_in text_world toy_server toy_inputs toy_login (toy_state []) (hexEncode ''ab'') toy_session
   \<or> upgraded text_world toy_server toy_inputs toy_login (toy_state []) (hexEncode ''ab'') toy_session"
proof -
  obtain st' resp where run: "ServeHTTP text_world toy_server toy_inputs toy_login (toy_state []) = Some (st', resp)"
    and s: "stored text_world st' (hexEncode ''ab'') = Some toy_session"
    using toy_login_run by blast
  from session_provenance [OF text_world_laws run s] toy_nothing_stored show ?thesis by auto
qed

subsection \<open>States the server can reach\<close>

inductive auth_reach :: "('r, 'd) world \<Rightarrow> server \<Rightarrow> ('r, 'd) auth_state \<Rightarrow> bool" for W S where
  start: "(\<And>sid. stored W st sid = None) \<Longrightarrow> auth_reach W S st"
| request: "auth_reach W S st \<Longrightarrow> ServeHTTP W S inp r st = Some (st', resp) \<Longrightarrow> auth_reach W S st'"

inductive_cases auth_reach_cases: "auth_reach W S st"

definition sound_session :: "SessionData \<Rightarrow> bool" where
  "sound_session d \<longleftrightarrow> ss_Username d \<noteq> [] \<and> (AuthLevel d = 1 \<and> \<not> TOTPVerified d \<or> AuthLevel d = 2 \<and> TOTPVerified d)"

text \<open>
  C2: in every state the server reaches from one without sessions, each stored session
  belongs to a named user and has level 1, or level 2 with its second factor verified.
\<close>
theorem reachable_sessions_sound:
  assumes "redis_laws (W_redis W)" "\<forall>d. W_dec W (W_enc W d) = Some d" "0 < SessionMaxAgeSec (srv_cfg S)"
    and "auth_reach W S st" "stored W st sid = Some d"
  shows "sound_session d"
  using assms(4,5)
proof (induction arbitrary: sid d rule: auth_reach.induct)
  case (start st)
  then show ?case by simp
next
  case (request st inp r st' resp)
  from ServeHTTP_session [OF assms(1) _ assms(3) request.hyps(2) request.prems] assms(2)
  consider "stored W st sid = Some d" | "logged_in W S inp r st sid d" | "upgraded W S inp r st sid d" by blast
  then show ?case
  proof cases
    case 1
    then show ?thesis by (rule request.IH)
  next
    case 2
    then show ?thesis by (simp add: logged_in_def sound_session_def)
  next
    case 3
    then obtain d0 where "stored W st sid = Some d0"
      "d = d0\<lparr>AuthLevel := 2, TOTPVerified := True, LastActivity := in_now inp\<rparr>"
      unfolding upgraded_def by blast
    then show ?thesis using request.IH [of sid d0] by (auto simp: sound_session_def)
  qed
qed

theorem reachable_sessions_sound_witness: "sound_session toy_session"
proof -
  obtain st' resp where run: "ServeHTTP text_world toy_server toy_inputs toy_login (toy_state []) = Some (st', resp)"
    and s: "stored text_world st' (hexEncode ''ab'') = Some toy_session"
    using toy_login_run by blast
  have "auth_reach text_world toy_server (toy_state [])" by (rule auth_reach.start) (rule toy_nothing_stored)
  then have "auth_reach text_world toy_server st'" using run by (rule auth_reach.request)
  from reachable_sessions_sound [OF text_world_laws this s] show ?thesis .
qed

subsection \<open>Ending a session, and getting around the second factor\<close>

text \<open>
  Logging out ends the caller's session and no other: its cookie is worth nothing
  afterwards, at the verify endpoint and everywhere a session is asked for.
\<close>
lemma handleLogout_ends_session:
  assumes "redis_laws (W_redis W)" "presents W S r sid"
  shows "stored W (fst (handleLogout W S r st)) sid = None
    \<and> (other \<noteq> sid \<longrightarrow> stored W (fst (handleLogout W S r st)) other = stored W st other)
    \<and> (presents W S req sid \<and> \<not> isDomainPublic S (request_host req) \<longrightarrow>
        rs_Code (snd (handleVerify W S req (fst (handleLogout W S r st)))) = 401)"
proof -
  have ne: "sid \<noteq> []" using assms(2) by (simp add: presents_def)
  have c: "getSessionIDFromCookie W S r = sid" using getSessionID_iff [OF ne] assms(2) by blast
  note L = sess_handleLogout [OF assms(1), of S r st]
  have gone: "stored W (fst (handleLogout W S r st)) sid = None" using L [of sid] c ne by (simp add: stored_sess)
  have "\<not> entitled W S req (fst (handleLogout W S r st)) d" if "presents W S req sid" for d
    using presents_unique [OF that] gone by (auto simp: entitled_def)
  then have "presents W S req sid \<and> \<not> isDomainPublic S (request_host req) \<longrightarrow>
        rs_Code (snd (handleVerify W S req (fst (handleLogout W S r st)))) = 401"
    by (simp add: handleVerify_code)
  moreover have "other \<noteq> sid \<longrightarrow> stored W (fst (handleLogout W S r st)) other = stored W st other"
    using L [of other] c by (simp add: stored_sess)
  ultimately show ?thesis using gone by blast
qed

lemma handleLogout_ends_session_witness:
  "rs_Code (snd (handleVerify toy_world toy_server (toy_request ''GET'' ''/api/verify'' ''ab'')
     (fst (handleLogout toy_world toy_server (toy_request ''POST'' ''/api/logout'' ''ab'') toy_totp)))) = 401"
proof -
  have nd: "no_dot ''ab''" by (simp add: no_dot_def)
  have l: "redis_laws (W_redis toy_world)" by (simp add: toy_world_def redis_laws_map_redis)
  have p: "presents toy_world toy_server (toy_request m q ''ab'') ''ab''" for m q
    by (rule toy_presents [OF nd]) simp
  show ?thesis
    by (rule handleLogout_ends_session [OF l p, THEN conjunct2, THEN conjunct2, rule_format, OF conjI, OF p toy_not_public])
qed

text \<open>
  C35: the second factor can be switched off without giving it. A session that has only
  passed the password is refused by the verify endpoint while the user has a second factor;
  one DELETE request of the same session removes the secret, and then it is let through.
\<close>
theorem second_factor_removed_without_code:
  assumes "redis_laws (W_redis W)" "\<not> isDomainPublic S (request_host r)"
    and "presents W S r sid" "stored W st sid = Some d" "AuthLevel d = 1"
    and "second_factor_on W S st (ss_Username d)"
    and "presents W S del sid" "rq_Method del = ''DELETE''" "rq_Path del = ''/api/auth/totp/setup''"
    and "header_get del ''X-Requested-With'' \<noteq> []"
  shows "rs_Code (snd (handleVerify W S r st)) = 401
    \<and> (\<exists>st' resp. ServeHTTP W S inp del st = Some (st', resp) \<and> rs_Code resp = 200 \<and>
        rs_Code (snd (handleVerify W S r st')) = 200)"
proof -
  note same = presents_unique
  have au: "authed_session W S del st = Some d" using assms(4,5,7) by (auto simp: authed_session_iff)
  let ?r1 = "fst (deleteTOTPSecret W (ss_Username d) (st_redis st))"
  let ?st = "st\<lparr>st_redis := fst (deletePendingTOTP W (ss_Username d) ?r1)\<rparr>"
  have ok: "snd (deleteTOTPSecret W (ss_Username d) (st_redis st))"
    by (simp add: deleteTOTPSecret_def redis_get_del [OF assms(1)])
  have run: "ServeHTTP W S inp del st = Some (?st, reply 200 ok_json)"
    using assms(8-10) au ok
    by (cases "deleteTOTPSecret W (ss_Username d) (st_redis st)")
      (simp add: ServeHTTP_def route_def handleTOTPRegister_def register_delete_def)
  have "rGet (W_redis W) (st_redis ?st) (totp_key (ss_Username d)) = Nil"
    by (simp add: deleteTOTPSecret_def deletePendingTOTP_def redis_get_del [OF assms(1)])
  then have off: "\<not> second_factor_on W S ?st (ss_Username d)"
    by (simp add: second_factor_on_def getTOTPSecret_def read_secret_def)
  have "stored W ?st sid = Some d"
    using assms(4) by (simp add: stored_sess sess_simps [OF assms(1)])
  then have "entitled W S r ?st d" using assms(3,5) off by (auto simp: entitled_def)
  then have "rs_Code (snd (handleVerify W S r ?st)) = 200" unfolding handleVerify_code by auto
  moreover have "\<not> entitled W S r st d'" for d'
  proof
    assume e: "entitled W S r st d'"
    then obtain x where "presents W S r x" "stored W st x = Some d'" by (auto simp: entitled_def)
    then have "d' = d" using same [OF assms(3)] assms(4) by auto
    with e assms(5,6) show False by (simp add: entitled_def)
  qed
  then have "rs_Code (snd (handleVerify W S r st)) = 401" using assms(2) by (simp add: handleVerify_code)
  ultimately show ?thesis using run by auto
qed

theorem second_factor_removed_without_code_witness:
  "\<exists>st' resp. ServeHTTP toy_world toy_server toy_inputs (toy_request ''DELETE'' ''/api/auth/totp/setup'' ''ab'') toy_totp = Some (st', resp) \<and>
     rs_Code (snd (handleVerify toy_world toy_server (toy_request ''GET'' ''/api/verify'' ''ab'') st')) = 200"
proof -
  have nd: "no_dot ''ab''" by (simp add: no_dot_def)
  have l: "redis_laws (W_redis toy_world)" by (simp add: toy_world_def redis_laws_map_redis)
  have p: "presents toy_world toy_server (toy_request m q ''ab'') ''ab''" for m q
    by (rule toy_presents [OF nd]) simp
  have s: "stored toy_world toy_totp ''ab'' = Some (the (toy_dec ''1u''))" by (simp add: toy_totp_def toy_stored toy_dec_def)
  have a: "AuthLevel (the (toy_dec ''1u'')) = 1" by (simp add: toy_dec_def)
  have f: "second_factor_on toy_world toy_server toy_totp (ss_Username (the (toy_dec ''1u'')))"
    using toy_second_factor by (simp add: toy_dec_def)
  have q: "rq_Method (toy_request ''DELETE'' ''/api/auth/totp/setup'' ''ab'') = ''DELETE''"
    "rq_Path (toy_request ''DELETE'' ''/api/auth/totp/setup'' ''ab'') = ''/api/auth/totp/setup''"
    "header_get (toy_request ''DELETE'' ''/api/auth/totp/setup'' ''ab'') ''X-Requested-With'' \<noteq> []"
    by (simp_all add: toy_request_def header_get_def first_value_def)
  from second_factor_removed_without_code [OF l toy_not_public p s a f p q, THEN conjunct2]
  show ?thesis by blast
qed

text \<open>
  The verify endpoint fails open. When the read of the user's TOTP secret fails (or the
  stored value does not decrypt), a session that has only passed the password is let
  through.
\<close>
lemma handleVerify_fails_open:
  assumes "presents W S r sid" "stored W st sid = Some d" "AuthLevel d = 1"
    and "getTOTPSecret W S (ss_Username d) (st_redis st) = SecretError"
  shows "rs_Code (snd (handleVerify W S r st)) = 200"
proof -
  have "entitled W S r st d" using assms by (auto simp: entitled_def second_factor_on_def)
  then show ?thesis by (auto simp: handleVerify_code)
qed

lemma handleVerify_fails_open_witness:
  "rs_Code (snd (handleVerify toy_world toy_server (toy_request ''GET'' ''/api/verify'' ''ab'')
     (toy_state [(session_key ''ab'', ''1u''), (totp_key ''u'', ''%'')]))) = 200"
proof -
  let ?st = "toy_state [(session_key ''ab'', ''1u''), (totp_key ''u'', ''%'')]"
  have nd: "no_dot ''ab''" by (simp add: no_dot_def)
  have p: "presents toy_world toy_server (toy_request ''GET'' ''/api/verify'' ''ab'') ''ab''"
    by (rule toy_presents [OF nd]) simp
  have s: "stored toy_world ?st ''ab'' = Some (the (toy_dec ''1u''))" by (simp add: toy_stored toy_dec_def)
  have a: "AuthLevel (the (toy_dec ''1u'')) = 1" by (simp add: toy_dec_def)
  have "StdDecode ''%'' = None" by code_simp
  then have e: "getTOTPSecret toy_world toy_server (ss_Username (the (toy_dec ''1u''))) (st_redis ?st) = SecretError"
    by (simp add: getTOTPSecret_def read_secret_def toy_world_def toy_state_def map_redis_def toy_dec_def decryptAES_def)
  show ?thesis by (rule handleVerify_fails_open [OF p s a e])
qed

end
