(* ===== verification/Go_Fs.thy ===== *)
theory Go_Fs
  imports Go_Path
begin

unbundle bit_operations_syntax

text \<open>
  The Unix file system as Go's \<^verbatim>\<open>os\<close> and \<^verbatim>\<open>path/filepath\<close> packages show it to a process
  that runs as root: directories, regular files and symbolic links, with the permission bits,
  the kernel's path walk (links followed, at most 40 of them; names of at most 255 bytes, paths
  of less than 4096) and the calls the file manager makes. A location is the list of the names
  on the way from \<^verbatim>\<open>/\<close>; a tree is an association list from locations to nodes. Owners, times,
  hard links, mount points and full disks are outside the model. The paths the program hands
  to these calls are rooted and cleaned, so they are read through \<^const>\<open>path_elems\<close>.
\<close>

datatype fnode = NDir nat | NFile string nat | NLink string

type_synonym fs = "(string list \<times> fnode) list"

datatype errno = ENOENT | ENOTDIR | EISDIR | EEXIST | ELOOP | ENAMETOOLONG | EINVAL | EFBIG | EBUSY | EIO

definition IsNotExist :: "errno \<Rightarrow> bool" where
  "IsNotExist e \<longleftrightarrow> e = ENOENT"

definition fs_at :: "fs \<Rightarrow> string list \<Rightarrow> fnode option" where
  "fs_at fs q = (if q = [] then Some (NDir 493) else map_of fs q)"

definition is_dir :: "fs \<Rightarrow> string list \<Rightarrow> bool" where
  "is_dir fs q = (case fs_at fs q of Some (NDir _) \<Rightarrow> True | _ \<Rightarrow> False)"

definition is_link :: "fs \<Rightarrow> string list \<Rightarrow> bool" where
  "is_link fs q = (case fs_at fs q of Some (NLink _) \<Rightarrow> True | _ \<Rightarrow> False)"

definition fs_put :: "string list \<Rightarrow> fnode \<Rightarrow> fs \<Rightarrow> fs" where
  "fs_put q n fs = AList.update q n fs"

definition fs_del_tree :: "string list \<Rightarrow> fs \<Rightarrow> fs" where
  "fs_del_tree q fs = filter (\<lambda>(k, n). \<not> prefix q k) fs"

definition fs_move :: "string list \<Rightarrow> string list \<Rightarrow> fs \<Rightarrow> fs" where
  "fs_move s d fs =
     filter (\<lambda>(k, n). \<not> prefix s k \<and> \<not> prefix d k) fs
     @ map (\<lambda>(k, n). (d @ drop (length s) k, n)) (filter (\<lambda>(k, n). prefix s k) fs)"

text \<open>Permission bits under the usual umask \<^verbatim>\<open>022\<close>.\<close>

definition umasked :: "nat \<Rightarrow> nat" where
  "umasked m = m - (m AND 18)"

subsection \<open>Walking a path\<close>

definition NAME_MAX :: nat where "NAME_MAX = 255"

definition PATH_MAX :: nat where "PATH_MAX = 4096"

definition MAX_LINKS :: nat where "MAX_LINKS = 40"

text \<open>The names of a link target; a trailing slash asks for a directory, as \<^verbatim>\<open>.\<close> does.\<close>

definition link_elems :: "string \<Rightarrow> string list" where
  "link_elems t =
     filter (\<lambda>e. e \<noteq> []) (split_on slash t) @ (if t \<noteq> [] \<and> last t = slash then [''.''] else [])"

text \<open>
  From the real directory \<open>d\<close>, with \<open>n\<close> links still allowed. The last name may be missing: the
  result is then the location a file of that name would get.
\<close>

function (sequential) walk :: "fs \<Rightarrow> nat \<Rightarrow> string list \<Rightarrow> string list \<Rightarrow> errno + string list" where
  "walk fs n d [] = Inr d"
| "walk fs n d (c # cs) =
     (if length c > NAME_MAX then Inl ENAMETOOLONG
      else if c = ''.'' then walk fs n d cs
      else if c = ''..'' then walk fs n (butlast d) cs
      else
        (case fs_at fs (d @ [c]) of
           None \<Rightarrow> if cs = [] then Inr (d @ [c]) else Inl ENOENT
         | Some (NDir _) \<Rightarrow> walk fs n (d @ [c]) cs
         | Some (NFile _ _) \<Rightarrow> if cs = [] then Inr (d @ [c]) else Inl ENOTDIR
         | Some (NLink t) \<Rightarrow>
             (case n of
                0 \<Rightarrow> Inl ELOOP
              | Suc m \<Rightarrow> walk fs m (if is_rooted t then [] else d) (link_elems t @ cs))))"
  by pat_completeness auto

termination
  by (relation "measures [\<lambda>(fs, n, d, cs). n, \<lambda>(fs, n, d, cs). length cs]") auto

text \<open>\<^verbatim>\<open>filepath.EvalSymlinks\<close>: at most 255 links, and the target must exist.\<close>

definition eval_links :: "fs \<Rightarrow> string list \<Rightarrow> errno + string list" where
  "eval_links fs es =
     (case walk fs 255 [] es of
        Inl e \<Rightarrow> Inl e
      | Inr q \<Rightarrow> if fs_at fs q = None then Inl ENOENT else Inr q)"

definition EvalSymlinks :: "fs \<Rightarrow> string \<Rightarrow> errno + string" where
  "EvalSymlinks fs p =
     (case eval_links fs (path_elems p) of Inl e \<Rightarrow> Inl e | Inr q \<Rightarrow> Inr (unelems True q))"

text \<open>The kernel's walk, with the last name followed (\<open>namei\<close>) or not (\<open>lnamei\<close>).\<close>

definition too_long :: "string list \<Rightarrow> bool" where
  "too_long es \<longleftrightarrow> PATH_MAX \<le> length (unelems True es)"

definition namei :: "fs \<Rightarrow> string list \<Rightarrow> errno + string list" where
  "namei fs es = (if too_long es then Inl ENAMETOOLONG else walk fs MAX_LINKS [] es)"

definition lnamei :: "fs \<Rightarrow> string list \<Rightarrow> errno + string list" where
  "lnamei fs es =
     (if too_long es then Inl ENAMETOOLONG
      else if es = [] then Inr []
      else
        (case walk fs MAX_LINKS [] (butlast es) of
           Inl e \<Rightarrow> Inl e
         | Inr d \<Rightarrow>
             (case fs_at fs d of
                None \<Rightarrow> Inl ENOENT
              | Some (NDir _) \<Rightarrow>
                  if length (last es) > NAME_MAX then Inl ENAMETOOLONG else Inr (d @ [last es])
              | Some _ \<Rightarrow> Inl ENOTDIR)))"

subsection \<open>The calls\<close>

definition stat_at :: "fs \<Rightarrow> string list \<Rightarrow> errno + fnode" where
  "stat_at fs es =
     (case namei fs es of
        Inl e \<Rightarrow> Inl e
      | Inr q \<Rightarrow> (case fs_at fs q of None \<Rightarrow> Inl ENOENT | Some n \<Rightarrow> Inr n))"

definition Stat :: "fs \<Rightarrow> string \<Rightarrow> errno + fnode" where
  "Stat fs p = stat_at fs (path_elems p)"

definition lstat_at :: "fs \<Rightarrow> string list \<Rightarrow> errno + fnode" where
  "lstat_at fs es =
     (case lnamei fs es of
        Inl e \<Rightarrow> Inl e
      | Inr q \<Rightarrow> (case fs_at fs q of None \<Rightarrow> Inl ENOENT | Some n \<Rightarrow> Inr n))"

definition Lstat :: "fs \<Rightarrow> string \<Rightarrow> errno + fnode" where
  "Lstat fs p = lstat_at fs (path_elems p)"

definition node_dir :: "fnode \<Rightarrow> bool" where
  "node_dir n = (case n of NDir _ \<Rightarrow> True | _ \<Rightarrow> False)"

text \<open>\<^verbatim>\<open>os.ReadDir\<close>: the names in a directory, in byte order, each with its own node.\<close>

definition child_names :: "fs \<Rightarrow> string list \<Rightarrow> string list" where
  "child_names fs q =
     sort_uniq (map last (filter (\<lambda>k. k \<noteq> [] \<and> butlast k = q) (map fst fs)))"

definition dir_entries :: "fs \<Rightarrow> string list \<Rightarrow> (string \<times> fnode) list" where
  "dir_entries fs q =
     List.map_filter (\<lambda>c. map_option (Pair c) (fs_at fs (q @ [c]))) (child_names fs q)"

definition ReadDir :: "fs \<Rightarrow> string \<Rightarrow> errno + (string \<times> fnode) list" where
  "ReadDir fs p =
     (case namei fs (path_elems p) of
        Inl e \<Rightarrow> Inl e
      | Inr q \<Rightarrow>
          (case fs_at fs q of
             None \<Rightarrow> Inl ENOENT
           | Some (NDir _) \<Rightarrow> Inr (dir_entries fs q)
           | Some _ \<Rightarrow> Inl ENOTDIR))"

definition mkdir_at :: "fs \<Rightarrow> string list \<Rightarrow> nat \<Rightarrow> errno + fs" where
  "mkdir_at fs es perm =
     (case lnamei fs es of
        Inl e \<Rightarrow> Inl e
      | Inr q \<Rightarrow> if fs_at fs q \<noteq> None then Inl EEXIST else Inr (fs_put q (NDir (umasked perm)) fs))"

text \<open>\<^verbatim>\<open>os.MkdirAll\<close> on the names from the last one to the first.\<close>

fun mkdirs :: "fs \<Rightarrow> string list \<Rightarrow> nat \<Rightarrow> fs \<times> errno option" where
  "mkdirs fs [] perm = (fs, None)"
| "mkdirs fs (c # rs) perm =
     (case stat_at fs (rev (c # rs)) of
        Inr n \<Rightarrow> if node_dir n then (fs, None) else (fs, Some ENOTDIR)
      | Inl _ \<Rightarrow>
          (case mkdirs fs rs perm of
             (fs1, Some e) \<Rightarrow> (fs1, Some e)
           | (fs1, None) \<Rightarrow>
               (case mkdir_at fs1 (rev (c # rs)) perm of
                  Inr fs2 \<Rightarrow> (fs2, None)
                | Inl e \<Rightarrow>
                    (case lstat_at fs1 (rev (c # rs)) of
                       Inr n \<Rightarrow> if node_dir n then (fs1, None) else (fs1, Some e)
                     | Inl _ \<Rightarrow> (fs1, Some e)))))"

definition MkdirAll :: "fs \<Rightarrow> string \<Rightarrow> nat \<Rightarrow> fs \<times> errno option" where
  "MkdirAll fs p perm = mkdirs fs (rev (path_elems p)) perm"

text \<open>
  Opening: \<open>Open_read\<close> is \<^verbatim>\<open>os.Open\<close>, \<open>Create_perm\<close> is \<^verbatim>\<open>os.OpenFile\<close> with
  \<^verbatim>\<open>O_CREATE|O_TRUNC\<close>, \<open>Open_write\<close> has neither flag. An open file is its location.
\<close>

definition Open_read :: "fs \<Rightarrow> string \<Rightarrow> errno + string list" where
  "Open_read fs p =
     (case namei fs (path_elems p) of
        Inl e \<Rightarrow> Inl e
      | Inr q \<Rightarrow> if fs_at fs q = None then Inl ENOENT else Inr q)"

definition Create_perm :: "fs \<Rightarrow> string \<Rightarrow> nat \<Rightarrow> errno + fs \<times> string list" where
  "Create_perm fs p perm =
     (case namei fs (path_elems p) of
        Inl e \<Rightarrow> Inl e
      | Inr q \<Rightarrow>
          (case fs_at fs q of
             None \<Rightarrow> Inr (fs_put q (NFile [] (umasked perm)) fs, q)
           | Some (NFile b m) \<Rightarrow> Inr (fs_put q (NFile [] m) fs, q)
           | Some (NDir _) \<Rightarrow> Inl EISDIR
           | Some (NLink _) \<Rightarrow> Inl ELOOP))"

definition Create :: "fs \<Rightarrow> string \<Rightarrow> errno + fs \<times> string list" where
  "Create fs p = Create_perm fs p 438"

definition Open_write :: "fs \<Rightarrow> string \<Rightarrow> errno + string list" where
  "Open_write fs p =
     (case namei fs (path_elems p) of
        Inl e \<Rightarrow> Inl e
      | Inr q \<Rightarrow>
          (case fs_at fs q of
             None \<Rightarrow> Inl ENOENT
           | Some (NFile _ _) \<Rightarrow> Inr q
           | Some (NDir _) \<Rightarrow> Inl EISDIR
           | Some (NLink _) \<Rightarrow> Inl ELOOP))"

definition read_loc :: "fs \<Rightarrow> string list \<Rightarrow> errno + string" where
  "read_loc fs q =
     (case fs_at fs q of
        Some (NFile b _) \<Rightarrow> Inr b
      | Some (NDir _) \<Rightarrow> Inl EISDIR
      | _ \<Rightarrow> Inl EIO)"

definition overwrite :: "string \<Rightarrow> nat \<Rightarrow> string \<Rightarrow> string" where
  "overwrite b off dat =
     (if dat = [] then b
      else take off b @ replicate (off - length b) (CHR 0x00) @ dat @ drop (off + length dat) b)"

definition write_loc :: "string list \<Rightarrow> nat \<Rightarrow> string \<Rightarrow> fs \<Rightarrow> fs" where
  "write_loc q off dat fs =
     (case fs_at fs q of
        Some (NFile b m) \<Rightarrow> fs_put q (NFile (overwrite b off dat) m) fs
      | _ \<Rightarrow> fs)"

definition Chmod :: "fs \<Rightarrow> string \<Rightarrow> nat \<Rightarrow> errno + fs" where
  "Chmod fs p m =
     (case namei fs (path_elems p) of
        Inl e \<Rightarrow> Inl e
      | Inr q \<Rightarrow>
          (case fs_at fs q of
             None \<Rightarrow> Inl ENOENT
           | Some (NFile b _) \<Rightarrow> Inr (fs_put q (NFile b m) fs)
           | Some (NDir _) \<Rightarrow> Inr (if q = [] then fs else fs_put q (NDir m) fs)
           | Some (NLink _) \<Rightarrow> Inl ELOOP))"

text \<open>\<^verbatim>\<open>os.RemoveAll\<close>: what is not there is no error; the last name is not followed.\<close>

definition RemoveAll :: "fs \<Rightarrow> string \<Rightarrow> fs \<times> errno option" where
  "RemoveAll fs p =
     (case lnamei fs (path_elems p) of
        Inl e \<Rightarrow> (fs, if IsNotExist e then None else Some e)
      | Inr q \<Rightarrow> if q = [] then (fs, Some EBUSY) else (fs_del_tree q fs, None))"

text \<open>
  \<^verbatim>\<open>os.Rename\<close>: Go itself refuses a destination that is a directory; the kernel refuses to
  put a directory into itself or over a file.
\<close>

definition Rename :: "fs \<Rightarrow> string \<Rightarrow> string \<Rightarrow> errno + fs" where
  "Rename fs old new =
     (case Lstat fs new of
        Inr (NDir _) \<Rightarrow> (case Lstat fs old of Inl e \<Rightarrow> Inl e | Inr _ \<Rightarrow> Inl EEXIST)
      | _ \<Rightarrow>
          (case (lnamei fs (path_elems old), lnamei fs (path_elems new)) of
             (Inl e, _) \<Rightarrow> Inl e
           | (_, Inl e) \<Rightarrow> Inl e
           | (Inr s, Inr d) \<Rightarrow>
               (case fs_at fs s of
                  None \<Rightarrow> Inl ENOENT
                | Some n \<Rightarrow>
                    if s = [] then Inl EBUSY
                    else if d = s then Inr fs
                    else if prefix s d then Inl EINVAL
                    else if node_dir n \<and> fs_at fs d \<noteq> None then Inl ENOTDIR
                    else Inr (fs_move s d fs))))"

subsection \<open>Looking up after an update\<close>

lemma fs_at_Nil [simp]: "fs_at fs [] = Some (NDir 493)"
  by (simp add: fs_at_def)

lemma fs_at_put: "q \<noteq> [] \<Longrightarrow> fs_at (fs_put q n fs) p = (if p = q then Some n else fs_at fs p)"
  by (auto simp: fs_at_def fs_put_def map_of_update)

lemma fs_at_del_tree:
  "q \<noteq> [] \<Longrightarrow> fs_at (fs_del_tree q fs) p = (if prefix q p then None else fs_at fs p)"
  by (auto simp: fs_at_def fs_del_tree_def map_of_filter_key)

lemma map_of_move_part:
  "map_of (map (\<lambda>(k, n). (d @ drop (length s) k, n)) (filter (\<lambda>(k, n). prefix s k) fs)) p =
   (if prefix d p then map_of fs (s @ drop (length d) p) else None)"
  by (induction fs) (auto simp: prefix_def)

lemma fs_at_move:
  assumes "s \<noteq> []" "d \<noteq> []"
  shows "fs_at (fs_move s d fs) p =
    (if prefix d p then fs_at fs (s @ drop (length d) p)
     else if prefix s p then None else fs_at fs p)"
  using assms
  by (auto simp: fs_at_def fs_move_def map_add_def map_of_move_part map_of_filter_key
      split: option.splits)

lemma fs_at_write:
  "fs_at (write_loc q off dat fs) p =
     (case fs_at fs q of
        Some (NFile b m) \<Rightarrow> if p = q then Some (NFile (overwrite b off dat) m) else fs_at fs p
      | _ \<Rightarrow> fs_at fs p)"
  by (cases "q = []") (auto simp: write_loc_def fs_at_put split: option.split fnode.split)

end
