(* ===== verification/Go_Fs_Seal.thy ===== *)
theory Go_Fs_Seal
  imports Go_Fs
begin

text \<open>
  Facts on the file-system calls of \<^theory_text>\<open>Go_Fs\<close>: every call keeps the tree well formed
  (\<open>fs_wf\<close>), and when no symbolic link lies in a subtree or leads into it (\<open>sealed\<close>), a call on
  a path of the subtree changes nothing outside (\<open>contained\<close>).
\<close>

named_theorems fs_wf_intros "each call keeps the tree well formed"
named_theorems contained_intros "each call on a path below the root leaves the rest alone"

subsection \<open>Well-formed trees\<close>

definition fs_wf :: "fs \<Rightarrow> bool" where
  "fs_wf fs \<longleftrightarrow>
     (\<forall>q c. fs_at fs (q @ [c]) \<noteq> None \<longrightarrow> is_dir fs q \<and> proper_elem c \<and> c \<noteq> ''..'')"

definition plain_name :: "string \<Rightarrow> bool" where
  "plain_name c \<longleftrightarrow> c \<noteq> [] \<and> slash \<notin> set c"

lemma is_dir_Nil [simp]: "is_dir fs []"
  by (simp add: is_dir_def)

lemma is_dirD: "is_dir fs q \<Longrightarrow> \<exists>m. fs_at fs q = Some (NDir m)"
  by (auto simp: is_dir_def split: option.splits fnode.splits)

lemma fs_wfD: "fs_wf fs \<Longrightarrow> fs_at fs (q @ [c]) = Some n \<Longrightarrow> is_dir fs q \<and> proper_elem c \<and> c \<noteq> ''..''"
  by (auto simp: fs_wf_def)

lemma fs_wf_butlast: "fs_wf fs \<Longrightarrow> is_dir fs q \<Longrightarrow> is_dir fs (butlast q)"
proof (cases q rule: rev_cases)
  case (snoc p c)
  assume "fs_wf fs" "is_dir fs q"
  with snoc have "fs_wf fs" "fs_at fs (p @ [c]) \<noteq> None" by (auto dest: is_dirD)
  with snoc show ?thesis using fs_wfD by fastforce
qed simp

lemma fs_wf_prefix_dir:
  "fs_wf fs \<Longrightarrow> fs_at fs (p @ xs) \<noteq> None \<Longrightarrow> xs \<noteq> [] \<Longrightarrow> is_dir fs p"
proof (induction xs rule: rev_induct)
  case (snoc x xs)
  from snoc.prems have d: "is_dir fs (p @ xs)"
    using fs_wfD [of fs "p @ xs" x] by auto
  show ?case
  proof (cases "xs = []")
    case False
    with d snoc show ?thesis by (auto dest: is_dirD)
  qed (use d in simp)
qed simp

lemma fs_wf_names:
  "fs_wf fs \<Longrightarrow> fs_at fs q \<noteq> None \<Longrightarrow> \<forall>c \<in> set q. proper_elem c \<and> c \<noteq> ''..''"
proof (induction q rule: rev_induct)
  case (snoc c q)
  then have "is_dir fs q" "proper_elem c" "c \<noteq> ''..''" using fs_wfD by blast+
  with snoc show ?case by (auto dest: is_dirD)
qed simp

lemma proper_plain: "proper_elem c \<Longrightarrow> plain_name c"
  by (simp add: proper_elem_def plain_name_def)

lemma link_elems_plain: "c \<in> set (link_elems t) \<Longrightarrow> plain_name c"
  by (auto simp: link_elems_def plain_name_def dest: split_on_no_sep split: if_splits)

text \<open>Where a path can lead: to a directory, or to a file or nothing in one.\<close>

definition landing :: "fs \<Rightarrow> string list \<Rightarrow> bool" where
  "landing fs q \<longleftrightarrow> is_dir fs q \<or>
     (\<exists>p c. q = p @ [c] \<and> is_dir fs p \<and> proper_elem c \<and> c \<noteq> ''..'' \<and> \<not> is_link fs q)"

lemma walk_landing:
  assumes "fs_wf fs"
  shows "walk fs n d es = Inr q \<Longrightarrow> is_dir fs d \<Longrightarrow> \<forall>c \<in> set es. plain_name c \<Longrightarrow> landing fs q"
  using assms
proof (induction fs n d es rule: walk.induct)
  case (1 fs n d)
  then show ?case by (simp add: landing_def)
next
  case (2 fs n d c cs)
  show ?case
  proof (cases "length c > NAME_MAX \<or> c = ''.'' \<or> c = ''..''")
    case True
    with 2 show ?thesis by (auto split: if_splits intro: fs_wf_butlast)
  next
    case False
    with "2.prems"(3) have pe: "proper_elem c" "c \<noteq> ''..''"
      by (auto simp: proper_elem_def plain_name_def)
    show ?thesis
    proof (cases "fs_at fs (d @ [c])")
      case None
      with False 2 pe show ?thesis
        by (auto simp: landing_def is_link_def split: if_splits)
    next
      case (Some x)
      show ?thesis
      proof (cases x)
        case (NDir m)
        then have "is_dir fs (d @ [c])" using Some by (simp add: is_dir_def)
        with NDir Some False 2 show ?thesis by simp
      next
        case (NFile b m)
        with Some False 2 pe show ?thesis
          by (auto simp: landing_def is_link_def split: if_splits)
      next
        case (NLink t)
        with Some False "2.prems" obtain k where n: "n = Suc k"
          and w: "walk fs k (if is_rooted t then [] else d) (link_elems t @ cs) = Inr q"
          by (auto split: nat.splits)
        have "\<forall>a \<in> set (link_elems t @ cs). plain_name a"
          using "2.prems"(3) link_elems_plain by auto
        moreover have "is_dir fs (if is_rooted t then [] else d)" using "2.prems"(2) by simp
        ultimately show ?thesis
          using "2.IH"(4) [OF _ _ _ Some NLink n w] False "2.prems"(4) by blast
      qed
    qed
  qed
qed

lemma path_elems_plain_all: "\<forall>c \<in> set (path_elems p). plain_name c"
  by (auto intro: proper_plain path_elems_proper)

lemma namei_landing:
  "fs_wf fs \<Longrightarrow> namei fs es = Inr q \<Longrightarrow> \<forall>c \<in> set es. plain_name c \<Longrightarrow> landing fs q"
  by (auto simp: namei_def split: if_splits intro: walk_landing)

lemma lnamei_cases:
  assumes "lnamei fs es = Inr q"
  obtains "es = []" "q = []"
  | d c es' where "es = es' @ [c]" "q = d @ [c]" "is_dir fs d" "walk fs MAX_LINKS [] es' = Inr d"
proof (cases es rule: rev_cases)
  case Nil
  with assms that(1) show ?thesis by (auto simp: lnamei_def split: if_splits)
next
  case (snoc es' c)
  with assms that(2) show ?thesis
    by (auto simp: lnamei_def is_dir_def split: if_splits sum.splits option.splits fnode.splits)
qed

lemma walk_no_link: "fs_wf fs \<Longrightarrow> landing fs q \<Longrightarrow> \<not> is_link fs q"
  by (auto simp: landing_def is_dir_def is_link_def split: option.splits fnode.splits)

subsection \<open>Each call keeps the tree well formed\<close>

lemma is_dir_put: "q \<noteq> [] \<Longrightarrow> is_dir (fs_put q n fs) p = (if p = q then node_dir n else is_dir fs p)"
  by (auto simp: is_dir_def node_dir_def fs_at_put)

text \<open>Putting a node where a path leads keeps directories directories.\<close>

lemma fs_wf_put:
  assumes "fs_wf fs" "is_dir fs p" "proper_elem c" "c \<noteq> ''..''"
    and "is_dir fs (p @ [c]) \<Longrightarrow> node_dir n"
  shows "fs_wf (fs_put (p @ [c]) n fs)"
  unfolding fs_wf_def
proof (intro allI impI)
  fix q c' assume at: "fs_at (fs_put (p @ [c]) n fs) (q @ [c']) \<noteq> None"
  show "is_dir (fs_put (p @ [c]) n fs) q \<and> proper_elem c' \<and> c' \<noteq> ''..''"
  proof (cases "q @ [c'] = p @ [c]")
    case True
    with assms show ?thesis by (simp add: is_dir_put)
  next
    case False
    with at have "fs_at fs (q @ [c']) \<noteq> None" by (auto simp: fs_at_put split: if_splits)
    then have "is_dir fs q" "proper_elem c'" "c' \<noteq> ''..''" using assms(1) fs_wfD by blast+
    with assms(5) show ?thesis by (auto simp: is_dir_put)
  qed
qed

lemma fs_wf_put_landing:
  assumes "fs_wf fs" "landing fs q" "q \<noteq> []" "is_dir fs q \<Longrightarrow> node_dir n"
  shows "fs_wf (fs_put q n fs)"
proof -
  obtain p c where q: "q = p @ [c]" using assms(3) by (cases q rule: rev_cases) auto
  have "is_dir fs p \<and> proper_elem c \<and> c \<noteq> ''..''"
    using assms(1,2) q fs_wfD [of fs p c] by (auto simp: landing_def dest: is_dirD)
  with assms q show ?thesis by (auto intro: fs_wf_put)
qed

lemma mkdir_at_wf:
  assumes "fs_wf fs" "mkdir_at fs es perm = Inr fs'" "\<forall>c \<in> set es. proper_elem c \<and> c \<noteq> ''..''"
  shows "fs_wf fs'"
proof -
  obtain q where q: "lnamei fs es = Inr q" "fs_at fs q = None" "fs' = fs_put q (NDir (umasked perm)) fs"
    using assms(2) by (auto simp: mkdir_at_def split: sum.splits if_splits)
  with q(1) show ?thesis
  proof (cases rule: lnamei_cases)
    case (2 d c es')
    then show ?thesis using assms q
      by (auto intro!: fs_wf_put simp: is_dir_def node_dir_def)
  qed (use q in simp)
qed

lemma mkdirs_wf:
  "fs_wf fs \<Longrightarrow> \<forall>c \<in> set rs. proper_elem c \<and> c \<noteq> ''..'' \<Longrightarrow> fs_wf (fst (mkdirs fs rs perm))"
proof (induction rs)
  case (Cons c rs)
  then have wf1: "fs_wf (fst (mkdirs fs rs perm))" by simp
  show ?case
    using Cons.prems wf1 mkdir_at_wf [where es = "rev (c # rs)" and fs = "fst (mkdirs fs rs perm)"]
    by (auto split: sum.split prod.split option.split simp del: rev.simps)
qed simp

lemma MkdirAll_wf [fs_wf_intros]:
  "fs_wf fs \<Longrightarrow> is_rooted p \<Longrightarrow> fs_wf (fst (MkdirAll fs p perm))"
  unfolding MkdirAll_def by (rule mkdirs_wf) (simp_all add: rooted_elems)

lemma Create_perm_wf [fs_wf_intros]:
  assumes "fs_wf fs" "Create_perm fs p perm = Inr (fs', q)"
  shows "fs_wf fs'"
proof -
  from assms(2) have q: "namei fs (path_elems p) = Inr q"
    by (auto simp: Create_perm_def split: sum.splits option.splits fnode.splits)
  then have l: "landing fs q"
    using assms(1) namei_landing path_elems_plain_all by blast
  have nd: "\<not> is_dir fs q"
    using assms(2) q by (auto simp: Create_perm_def is_dir_def split: option.splits fnode.splits)
  then have ne: "q \<noteq> []" by auto
  from assms(2) q obtain n where "fs' = fs_put q n fs"
    by (auto simp: Create_perm_def split: option.splits fnode.splits)
  with fs_wf_put_landing [OF assms(1) l ne] nd show ?thesis by blast
qed

lemma write_loc_wf [fs_wf_intros]: "fs_wf fs \<Longrightarrow> fs_wf (write_loc q off dat fs)"
proof -
  assume wf: "fs_wf fs"
  have "is_dir (write_loc q off dat fs) p = is_dir fs p" for p
    by (auto simp: is_dir_def fs_at_write split: option.splits fnode.splits)
  moreover have "fs_at (write_loc q off dat fs) p = None \<longleftrightarrow> fs_at fs p = None" for p
    by (auto simp: fs_at_write split: option.splits fnode.splits)
  ultimately show ?thesis using wf by (simp add: fs_wf_def)
qed

lemma Chmod_wf [fs_wf_intros]:
  assumes "fs_wf fs" "Chmod fs p m = Inr fs'"
  shows "fs_wf fs'"
proof -
  from assms(2) obtain q where q: "namei fs (path_elems p) = Inr q"
    by (auto simp: Chmod_def split: sum.splits)
  then have l: "landing fs q"
    using assms(1) namei_landing path_elems_plain_all by blast
  from assms(2) q consider "fs' = fs"
    | n where "q \<noteq> []" "fs' = fs_put q n fs" "is_dir fs q \<Longrightarrow> node_dir n"
    by (cases "q = []")
      (auto simp: Chmod_def is_dir_def node_dir_def split: option.splits fnode.splits)
  then show ?thesis
    by cases (use assms(1) l in \<open>auto intro: fs_wf_put_landing\<close>)
qed

lemma RemoveAll_wf [fs_wf_intros]: "fs_wf fs \<Longrightarrow> fs_wf (fst (RemoveAll fs p))"
proof -
  assume wf: "fs_wf fs"
  have "fs_wf (fs_del_tree q fs)" if "q \<noteq> []" for q
    unfolding fs_wf_def
  proof (intro allI impI)
    fix p c assume at: "fs_at (fs_del_tree q fs) (p @ [c]) \<noteq> None"
    then have np: "\<not> prefix q (p @ [c])" and "fs_at fs (p @ [c]) \<noteq> None"
      using that by (auto simp: fs_at_del_tree split: if_splits)
    with wf have "is_dir fs p \<and> proper_elem c \<and> c \<noteq> ''..''" using fs_wfD by blast
    moreover have "\<not> prefix q p" using np by (auto simp: prefix_def)
    ultimately show "is_dir (fs_del_tree q fs) p \<and> proper_elem c \<and> c \<noteq> ''..''"
      using that by (simp add: is_dir_def fs_at_del_tree)
  qed
  with wf show ?thesis by (auto simp: RemoveAll_def split: sum.split)
qed


lemma fs_wf_move:
  assumes wf: "fs_wf fs" and s: "fs_at fs s = Some n" "s \<noteq> []"
    and d: "d = dp @ [c]" "is_dir fs dp" "proper_elem c" "c \<noteq> ''..''"
    and sd: "\<not> prefix s d" "\<not> is_dir fs d"
  shows "fs_wf (fs_move s d fs)"
  unfolding fs_wf_def
proof (intro allI impI)
  let ?fs = "fs_move s d fs"
  have ne: "d \<noteq> []" using d by simp
  note at = fs_at_move [OF s(2) ne]
  fix q c' assume a: "fs_at ?fs (q @ [c']) \<noteq> None"
  show "is_dir ?fs q \<and> proper_elem c' \<and> c' \<noteq> ''..''"
  proof (cases "prefix d (q @ [c'])")
    case True
    show ?thesis
    proof (cases "q @ [c'] = d")
      case True
      have "\<not> prefix d q" using True by (auto simp: prefix_def)
      moreover have "\<not> prefix s q" using True sd(1) by (auto simp: prefix_def)
      ultimately have "is_dir ?fs q = is_dir fs q" by (simp add: is_dir_def at)
      then show ?thesis using True d by simp
    next
      case False
      with True have dq: "prefix d q" by (simp add: prefix_snoc)
      then obtain r where r: "q = d @ r" by (auto simp: prefix_def)
      have "fs_at fs ((s @ r) @ [c']) \<noteq> None" using a r True by (simp add: at)
      with wf have "is_dir fs (s @ r)" "proper_elem c'" "c' \<noteq> ''..''" using fs_wfD by blast+
      then show ?thesis using dq r by (simp add: is_dir_def at)
    qed
  next
    case False
    with a have ns: "\<not> prefix s (q @ [c'])" and "fs_at fs (q @ [c']) \<noteq> None"
      by (auto simp: at split: if_splits)
    with wf have "is_dir fs q" "proper_elem c'" "c' \<noteq> ''..''" using fs_wfD by blast+
    moreover have "\<not> prefix d q" "\<not> prefix s q" using False ns by (auto simp: prefix_def)
    ultimately show ?thesis by (simp add: is_dir_def at)
  qed
qed

lemma Rename_cases:
  assumes "Rename fs old new = Inr fs'"
  obtains (same) "fs' = fs"
  | (move) s d n where "lnamei fs (path_elems old) = Inr s" "lnamei fs (path_elems new) = Inr d"
      "fs_at fs s = Some n" "s \<noteq> []" "d \<noteq> s" "\<not> prefix s d" "fs' = fs_move s d fs"
      "\<not> is_dir fs d"
proof -
  obtain s d n where r: "lnamei fs (path_elems old) = Inr s" "lnamei fs (path_elems new) = Inr d"
    "fs_at fs s = Some n" and nd: "\<not> is_dir fs d"
    using assms by (auto simp: Rename_def Lstat_def lstat_at_def is_dir_def
        split: sum.splits option.splits fnode.splits)
  from nd have "fs' = fs \<or> s \<noteq> [] \<and> d \<noteq> s \<and> \<not> prefix s d \<and> fs' = fs_move s d fs"
    using assms r by (auto simp: Rename_def Lstat_def lstat_at_def
        split: if_splits option.splits fnode.splits)
  with that r nd show thesis by blast
qed

lemma Rename_wf [fs_wf_intros]:
  assumes wf: "fs_wf fs" and r: "Rename fs old new = Inr fs'" and ro: "is_rooted new"
  shows "fs_wf fs'"
  using r
proof (cases rule: Rename_cases)
  case (move s d n)
  from move(2) show ?thesis
  proof (cases rule: lnamei_cases)
    case 1
    with move show ?thesis by simp
  next
    case (2 dp c es')
    then have "proper_elem c" "c \<noteq> ''..''" using rooted_elems [OF ro] by auto
    with 2 move wf show ?thesis by (simp add: fs_wf_move)
  qed
qed (use wf in simp)

text \<open>
  A subtree \<open>R\<close> is sealed when no symbolic link lies in it and none outside points at it, below it or
  above it. Then a path leads into \<open>R\<close> only by its own names, and a call on such a path leaves
  everything outside \<open>R\<close> as it was.
\<close>

text \<open>Where the target of a link at \<open>q\<close> lies, its names read without following further links.\<close>

definition norm_from :: "string list \<Rightarrow> string list \<Rightarrow> string list" where
  "norm_from d es = rev (foldl (clean_elem True) (rev d) es)"

definition link_dest :: "string list \<Rightarrow> string \<Rightarrow> string list" where
  "link_dest q t = norm_from (if is_rooted t then [] else butlast q) (link_elems t)"

definition comparable :: "string list \<Rightarrow> string list \<Rightarrow> bool" where
  "comparable R q \<longleftrightarrow> prefix R q \<or> prefix q R"

definition sealed :: "string list \<Rightarrow> fs \<Rightarrow> bool" where
  "sealed R fs \<longleftrightarrow>
     (\<forall>q. strict_prefix q R \<longrightarrow> is_dir fs q) \<and>
     (\<forall>q t. fs_at fs q = Some (NLink t) \<longrightarrow>
        \<not> prefix R q \<and> clean_list False (link_elems t) \<and> \<not> comparable R (link_dest q t))"

definition contained :: "string list \<Rightarrow> fs \<Rightarrow> fs \<Rightarrow> bool" where
  "contained R fs fs' \<longleftrightarrow>
     (sealed R fs \<longrightarrow> sealed R fs' \<and> (\<forall>q. \<not> prefix R q \<longrightarrow> fs_at fs' q = fs_at fs q))"

definition path_in :: "string list \<Rightarrow> string \<Rightarrow> bool" where
  "path_in R p \<longleftrightarrow> is_rooted p \<and> prefix R (path_elems p)"

definition path_near :: "string list \<Rightarrow> string \<Rightarrow> bool" where
  "path_near R p \<longleftrightarrow> path_in R p \<or> is_rooted p \<and> path_elems p = butlast R"

subsection \<open>Walking towards a sealed subtree\<close>

lemma clean_list_tl: "clean_list False (c # cs) \<Longrightarrow> clean_list False cs"
proof -
  assume "clean_list False (c # cs)"
  then obtain n es' where e: "c # cs = replicate n ''..'' @ es'"
    "\<forall>e \<in> set es'. proper_elem e \<and> e \<noteq> ''..''" by (rule clean_listE)
  show ?thesis
  proof (cases n)
    case 0
    with e clean_listI [of cs False 0] show ?thesis by (cases es') auto
  next
    case (Suc k)
    with e clean_listI [of es' False k] show ?thesis by simp
  qed
qed

lemma clean_list_plain_tl:
  assumes "clean_list False (c # cs)" "c \<noteq> ''..''"
  shows "\<forall>e \<in> set (c # cs). proper_elem e \<and> e \<noteq> ''..''"
proof -
  obtain n es' where e: "c # cs = replicate n ''..'' @ es'"
    "\<forall>e \<in> set es'. proper_elem e \<and> e \<noteq> ''..''" using assms(1) by (rule clean_listE)
  with assms(2) have "n = 0" by (cases n) auto
  with e show ?thesis by simp
qed

lemma clean_list_append_plain:
  "clean_list r es \<Longrightarrow> \<forall>e \<in> set xs. proper_elem e \<and> e \<noteq> ''..'' \<Longrightarrow> clean_list r (es @ xs)"
  by (induction xs rule: rev_induct) (auto intro: clean_list_snoc simp flip: append_assoc)

lemma norm_from_plain:
  "\<forall>e \<in> set es. proper_elem e \<and> e \<noteq> ''..'' \<Longrightarrow> norm_from d es = d @ es"
  by (simp add: norm_from_def foldl_clean_elem_plain)

lemma norm_from_append: "norm_from d (xs @ ys) = norm_from (norm_from d xs) ys"
  by (simp add: norm_from_def)

lemma norm_from_dotdot: "''..'' \<notin> set d \<Longrightarrow> norm_from (butlast d) cs = norm_from d (''..'' # cs)"
  by (cases d rule: rev_cases) (auto simp: norm_from_def clean_elem_def)

lemma comparable_append: "comparable R (q @ xs) \<Longrightarrow> comparable R q"
proof -
  assume "comparable R (q @ xs)"
  then consider "prefix R (q @ xs)" | "prefix (q @ xs) R" by (auto simp: comparable_def)
  then show ?thesis
  proof cases
    case 1
    moreover have "prefix q (q @ xs)" by simp
    ultimately show ?thesis
      using prefix_same_cases [of R "q @ xs" q] by (auto simp: comparable_def)
  qed (auto simp: comparable_def dest: append_prefixD)
qed

text \<open>A walk that ends at, above or below a sealed subtree followed no link.\<close>

lemma walk_sealed:
  "sealed R fs \<Longrightarrow> clean_list False es \<Longrightarrow> ''..'' \<notin> set d \<Longrightarrow> walk fs n d es = Inr q \<Longrightarrow>
   comparable R q \<Longrightarrow> q = norm_from d es"
proof (induction fs n d es rule: walk.induct)
  case (1 fs n d)
  then show ?case by (simp add: norm_from_def)
next
  case (2 fs n d c cs)
  have cl: "clean_list False cs" using "2.prems"(2) by (rule clean_list_tl)
  have len: "\<not> length c > NAME_MAX" using "2.prems"(4) by (auto split: if_splits)
  have dot: "c \<noteq> ''.''" using clean_list_proper [OF "2.prems"(2), of c] by (auto simp: proper_elem_def)
  show ?case
  proof (cases "c = ''..''")
    case True
    have "''..'' \<notin> set (butlast d)" using "2.prems"(3) by (auto dest: in_set_butlastD)
    with "2.IH"(2) [OF len dot True] "2.prems" cl True len have "q = norm_from (butlast d) cs"
      by simp
    with True norm_from_dotdot [OF "2.prems"(3)] show ?thesis by simp
  next
    case False
    have pl: "\<forall>e \<in> set (c # cs). proper_elem e \<and> e \<noteq> ''..''"
      using "2.prems"(2) False by (rule clean_list_plain_tl)
    then have nf: "norm_from d (c # cs) = d @ c # cs" by (rule norm_from_plain)
    have nd: "''..'' \<notin> set (d @ [c])" using "2.prems"(3) False by auto
    show ?thesis
    proof (cases "fs_at fs (d @ [c])")
      case None
      with "2.prems"(4) len dot False nf show ?thesis by (auto split: if_splits)
    next
      case (Some x)
      show ?thesis
      proof (cases x)
        case (NDir m)
        with Some "2.prems"(4) len dot False have w: "walk fs n (d @ [c]) cs = Inr q" by simp
        have "q = norm_from (d @ [c]) cs"
          by (rule "2.IH"(3) [OF len dot False Some NDir "2.prems"(1) cl nd w "2.prems"(5)])
        also have "\<dots> = norm_from d (c # cs)"
          using pl by (simp add: nf norm_from_plain)
        finally show ?thesis .
      next
        case (NFile b m)
        with Some "2.prems"(4) len dot False nf show ?thesis by (auto split: if_splits)
      next
        case (NLink t)
        with Some "2.prems"(4) len dot False obtain k where n: "n = Suc k"
          and w: "walk fs k (if is_rooted t then [] else d) (link_elems t @ cs) = Inr q"
          by (auto split: nat.splits)
        let ?d = "if is_rooted t then [] else d"
        have lt: "clean_list False (link_elems t)" "\<not> comparable R (link_dest (d @ [c]) t)"
          using "2.prems"(1) Some NLink by (auto simp: sealed_def)
        have "clean_list False (link_elems t @ cs)" "''..'' \<notin> set ?d"
          using lt(1) pl "2.prems"(3) by (auto intro: clean_list_append_plain)
        then have "q = norm_from ?d (link_elems t @ cs)"
          using "2.IH"(4) [OF len dot False Some NLink n "2.prems"(1) _ _ w "2.prems"(5)] by blast
        also have "\<dots> = link_dest (d @ [c]) t @ cs"
          using pl by (simp add: norm_from_append norm_from_plain link_dest_def)
        finally show ?thesis using "2.prems"(5) lt(2) comparable_append by blast
      qed
    qed
  qed
qed

text \<open>Along its own names into the subtree, a walk meets no link at all.\<close>

lemma walk_inside:
  "sealed R fs \<Longrightarrow> comparable R (d @ es) \<Longrightarrow> \<forall>e \<in> set es. proper_elem e \<and> e \<noteq> ''..'' \<Longrightarrow>
   walk fs n d es = Inr q \<Longrightarrow> q = d @ es"
proof (induction fs n d es rule: walk.induct)
  case (2 fs n d c cs)
  have pc: "c \<noteq> ''.''" "c \<noteq> ''..''" using "2.prems"(3) by (auto simp: proper_elem_def)
  have len: "\<not> length c > NAME_MAX" using "2.prems"(4) by (auto split: if_splits)
  have cmp: "comparable R ((d @ [c]) @ cs)" using "2.prems"(2) by simp
  then have nl: "fs_at fs (d @ [c]) \<noteq> Some (NLink t)" for t
  proof -
    have "comparable R (d @ [c])" using cmp by (rule comparable_append)
    then have "prefix R (d @ [c]) \<or> strict_prefix (d @ [c]) R"
      by (auto simp: comparable_def strict_prefix_def)
    then show ?thesis
    proof
      assume "prefix R (d @ [c])"
      with "2.prems"(1) show ?thesis unfolding sealed_def by blast
    next
      assume "strict_prefix (d @ [c]) R"
      with "2.prems"(1) have "is_dir fs (d @ [c])" unfolding sealed_def by blast
      then show ?thesis by (auto simp: is_dir_def)
    qed
  qed
  show ?case
  proof (cases "fs_at fs (d @ [c])")
    case (Some x)
    with nl "2.prems"(4) len pc show ?thesis
      using "2.IH"(3) [OF len pc Some _ "2.prems"(1) cmp] "2.prems"(3)
      by (cases x) (auto split: if_splits)
  qed (use "2.prems"(4) len pc in \<open>auto split: if_splits\<close>)
qed simp

lemma butlast_comparable: "comparable R es \<Longrightarrow> comparable R (butlast es)"
  using comparable_append [of R "butlast es" "[last es]"] by (cases "es = []") auto

lemma namei_inside:
  "sealed R fs \<Longrightarrow> comparable R es \<Longrightarrow> \<forall>e \<in> set es. proper_elem e \<and> e \<noteq> ''..'' \<Longrightarrow>
   namei fs es = Inr q \<Longrightarrow> q = es"
  by (auto simp: namei_def split: if_splits dest: walk_inside [where d = "[]"])

lemma lnamei_inside:
  assumes "sealed R fs" "comparable R es" "\<forall>e \<in> set es. proper_elem e \<and> e \<noteq> ''..''"
    and "lnamei fs es = Inr q"
  shows "q = es"
  using assms(4)
proof (cases rule: lnamei_cases)
  case (2 d c es')
  moreover have "comparable R es'" using assms(2) 2(1) butlast_comparable [of R es] by simp
  ultimately show ?thesis using assms(1,3) walk_inside [where d = "[]" and es = es'] by fastforce
qed simp

subsection \<open>Each call changes only the subtree\<close>

lemma contained_refl [contained_intros]: "contained R fs fs"
  by (simp add: contained_def)

lemma contained_trans: "contained R fs fs1 \<Longrightarrow> contained R fs1 fs2 \<Longrightarrow> contained R fs fs2"
  by (auto simp: contained_def)

lemma containedI:
  assumes "sealed R fs \<Longrightarrow> (\<forall>q. \<not> prefix R q \<longrightarrow> fs_at fs' q = fs_at fs q) \<and> (\<forall>q. prefix R q \<longrightarrow> \<not> is_link fs' q)"
  shows "contained R fs fs'"
  unfolding contained_def
proof
  assume s: "sealed R fs"
  note a = assms [OF s]
  have "sealed R fs'"
    unfolding sealed_def
  proof (intro conjI allI impI)
    fix q assume q: "strict_prefix q R"
    then have "\<not> prefix R q" by (auto simp: strict_prefix_def)
    with a q s show "is_dir fs' q" by (simp add: sealed_def is_dir_def)
  next
    fix q t assume l: "fs_at fs' q = Some (NLink t)"
    then have np: "\<not> prefix R q" using a by (auto simp: is_link_def)
    then show "\<not> prefix R q" .
    from l np a have "fs_at fs q = Some (NLink t)" by auto
    with s show "clean_list False (link_elems t)" "\<not> comparable R (link_dest q t)"
      by (auto simp: sealed_def)
  qed
  with a show "sealed R fs' \<and> (\<forall>q. \<not> prefix R q \<longrightarrow> fs_at fs' q = fs_at fs q)" by blast
qed

lemma sealed_no_link: "sealed R fs \<Longrightarrow> prefix R q \<Longrightarrow> \<not> is_link fs q"
  by (auto simp: sealed_def is_link_def split: option.splits fnode.splits)

lemma contained_put:
  "sealed R fs \<Longrightarrow> prefix R q \<Longrightarrow> q \<noteq> [] \<Longrightarrow> (\<forall>t. n \<noteq> NLink t) \<Longrightarrow> contained R fs (fs_put q n fs)"
  by (rule containedI)
    (auto simp: fs_at_put is_link_def dest: sealed_no_link split: fnode.splits option.splits)

lemma contained_sealedI: "(sealed R fs \<Longrightarrow> contained R fs fs') \<Longrightarrow> contained R fs fs'"
  by (auto simp: contained_def)

lemma path_in_elems:
  "path_in R p \<Longrightarrow> comparable R (path_elems p) \<and> (\<forall>e \<in> set (path_elems p). proper_elem e \<and> e \<noteq> ''..'')"
  using rooted_elems [of p] by (simp add: path_in_def comparable_def)

lemma prefix_butlast: "prefix (butlast R) R"
  by (simp add: butlast_conv_take take_is_prefix)

lemma path_near_elems:
  "path_near R p \<Longrightarrow> comparable R (path_elems p) \<and> (\<forall>e \<in> set (path_elems p). proper_elem e \<and> e \<noteq> ''..'')"
  unfolding path_near_def
proof (elim disjE conjE)
  assume p: "is_rooted p" "path_elems p = butlast R"
  show ?thesis using rooted_elems [OF p(1)] prefix_butlast [of R] by (simp add: comparable_def p(2))
qed (rule path_in_elems)

lemma namei_near: "sealed R fs \<Longrightarrow> path_near R p \<Longrightarrow> namei fs (path_elems p) = Inr q \<Longrightarrow> q = path_elems p"
  using namei_inside [of R fs "path_elems p" q] path_near_elems [of R p] by simp

lemma lnamei_near: "sealed R fs \<Longrightarrow> path_near R p \<Longrightarrow> lnamei fs (path_elems p) = Inr q \<Longrightarrow> q = path_elems p"
  using lnamei_inside [of R fs "path_elems p" q] path_near_elems [of R p] by simp

text \<open>A near path that does not lead to a directory is a path of the subtree.\<close>

lemma near_nondir_in:
  assumes "sealed R fs" "path_near R p" "\<not> is_dir fs (path_elems p)"
  shows "prefix R (path_elems p)" "path_elems p \<noteq> []"
proof -
  show "path_elems p \<noteq> []" using assms(3) by auto
  have "strict_prefix (butlast R) R" if "R \<noteq> []"
    using that prefix_butlast [of R] by (cases R rule: rev_cases) (auto simp: strict_prefix_def)
  with assms show "prefix R (path_elems p)"
    by (cases "R = []") (auto simp: path_near_def path_in_def sealed_def)
qed

lemma mkdir_at_contained:
  assumes "comparable R es" "\<forall>e \<in> set es. proper_elem e \<and> e \<noteq> ''..''"
    and "mkdir_at fs es perm = Inr fs'"
  shows "contained R fs fs'"
proof (rule contained_sealedI)
  assume s: "sealed R fs"
  obtain q where q: "lnamei fs es = Inr q" "fs_at fs q = None" "fs' = fs_put q (NDir (umasked perm)) fs"
    using assms(3) by (auto simp: mkdir_at_def split: sum.splits if_splits)
  then have "q = es" using lnamei_inside [OF s assms(1,2)] by blast
  moreover have "\<not> strict_prefix q R" using s q(2) by (auto simp: sealed_def is_dir_def)
  ultimately have "prefix R q" using assms(1) by (auto simp: comparable_def strict_prefix_def)
  moreover have "q \<noteq> []" using q(2) by auto
  ultimately show "contained R fs fs'" using s q(3) by (auto intro: contained_put)
qed

lemma mkdirs_contained:
  "comparable R (rev rs) \<Longrightarrow> \<forall>c \<in> set rs. proper_elem c \<and> c \<noteq> ''..'' \<Longrightarrow>
   contained R fs (fst (mkdirs fs rs perm))"
proof (induction rs)
  case (Cons c rs)
  have "comparable R (rev rs)" using butlast_comparable [OF Cons.prems(1)] by simp
  with Cons have c1: "contained R fs (fst (mkdirs fs rs perm))" by simp
  have c2: "contained R (fst (mkdirs fs rs perm)) fs2"
    if "mkdir_at (fst (mkdirs fs rs perm)) (rev (c # rs)) perm = Inr fs2" for fs2
    using Cons.prems that by (intro mkdir_at_contained) auto
  show ?case
    using c1 c2 contained_refl contained_trans
    by (auto split: sum.split prod.split option.split simp del: rev.simps)
qed (simp add: contained_refl)

lemma MkdirAll_contained [contained_intros]: "path_near R p \<Longrightarrow> contained R fs (fst (MkdirAll fs p perm))"
  unfolding MkdirAll_def by (rule mkdirs_contained) (use path_near_elems in force)+

lemma Create_perm_contained [contained_intros]:
  assumes "path_near R p" "Create_perm fs p perm = Inr (fs', q)"
  shows "contained R fs fs'"
proof (rule contained_sealedI)
  assume s: "sealed R fs"
  from assms(2) have "namei fs (path_elems p) = Inr q"
    by (auto simp: Create_perm_def split: sum.splits option.splits fnode.splits)
  then have qe: "q = path_elems p" and n: "namei fs (path_elems p) = Inr q"
    using namei_near [OF s assms(1)] by auto
  have "\<not> is_dir fs q"
    using assms(2) n by (auto simp: Create_perm_def is_dir_def split: option.splits fnode.splits)
  then have "prefix R q" "q \<noteq> []" using near_nondir_in [OF s assms(1)] qe by auto
  moreover obtain x where "fs' = fs_put q x fs" "\<forall>t. x \<noteq> NLink t"
    using assms(2) n by (auto simp: Create_perm_def split: option.splits fnode.splits)
  ultimately show "contained R fs fs'" using s by (auto intro: contained_put)
qed

lemma write_loc_contained [contained_intros]: "prefix R q \<Longrightarrow> contained R fs (write_loc q off dat fs)"
  by (rule containedI)
    (auto simp: fs_at_write is_link_def dest: sealed_no_link split: option.splits fnode.splits)

lemma Chmod_contained [contained_intros]:
  assumes "path_in R p" "Chmod fs p m = Inr fs'"
  shows "contained R fs fs'"
proof (rule contained_sealedI)
  assume s: "sealed R fs"
  from assms(2) obtain q where n: "namei fs (path_elems p) = Inr q"
    by (auto simp: Chmod_def split: sum.splits)
  then have qe: "q = path_elems p" using namei_near [OF s] assms(1) by (auto simp: path_near_def)
  have "fs' = fs \<or> q \<noteq> [] \<and> (\<exists>x. fs' = fs_put q x fs \<and> (\<forall>t. x \<noteq> NLink t))"
    using assms(2) n by (cases "q = []") (auto simp: Chmod_def split: option.splits fnode.splits)
  with s qe assms(1) show "contained R fs fs'"
    by (auto simp: path_in_def intro: contained_put contained_refl)
qed

lemma RemoveAll_contained [contained_intros]:
  assumes "path_in R p"
  shows "contained R fs (fst (RemoveAll fs p))"
proof (rule contained_sealedI)
  assume s: "sealed R fs"
  have "contained R fs (fs_del_tree q fs)" if "lnamei fs (path_elems p) = Inr q" "q \<noteq> []" for q
  proof -
    have qe: "q = path_elems p"
      using that(1) lnamei_near [OF s] assms by (auto simp: path_near_def)
    with assms have pr: "prefix R q" by (simp add: path_in_def)
    show ?thesis
      using that(2) pr s
      by (intro containedI)
        (auto simp: fs_at_del_tree is_link_def dest: sealed_no_link prefix_order.trans
          split: option.splits fnode.splits)
  qed
  then show "contained R fs (fst (RemoveAll fs p))"
    by (auto simp: RemoveAll_def contained_refl split: sum.split)
qed

lemma Rename_contained [contained_intros]:
  assumes "path_in R old" "path_in R new" "Rename fs old new = Inr fs'"
  shows "contained R fs fs'"
proof (rule contained_sealedI)
  assume s: "sealed R fs"
  show "contained R fs fs'"
    using assms(3)
  proof (cases rule: Rename_cases)
    case (move src d n)
    have e: "src = path_elems old" "d = path_elems new"
      using move(1,2) lnamei_near [OF s] assms(1,2) by (auto simp: path_near_def)
    then have p: "prefix R src" "prefix R d" using assms(1,2) by (auto simp: path_in_def)
    have ne: "d \<noteq> []" using move(8) by auto
    show ?thesis
    proof (rule containedI, intro conjI allI impI)
      fix q assume "\<not> prefix R q"
      then show "fs_at fs' q = fs_at fs q"
        using p move(4,7) ne by (auto simp: fs_at_move dest: prefix_order.trans)
    next
      fix q assume q: "prefix R q"
      have "prefix R (src @ drop (length d) q)" using p by simp
      then show "\<not> is_link fs' q"
        using sealed_no_link [OF s] q move(4,7) ne by (auto simp: fs_at_move is_link_def)
    qed
  qed (simp add: contained_refl)
qed

end
