(* ===== verification/Files_Guard.thy ===== *)
theory Files_Guard
  imports Path_Guard Go_Fs_Seal
begin

text \<open>
  \<^verbatim>\<open>internal/files/handler.go\<close>, the guard: \<^verbatim>\<open>safePath\<close> turns the path of a request into a path
  below the data directory or refuses it, after resolving the symbolic links of the nearest
  ancestor that exists. \<open>WorkDir\<close> is the process's working directory, which
  \<^verbatim>\<open>filepath.Abs\<close> reads.
\<close>

record files_handler =
  DataPath :: string
  MaxUploadSize :: int
  WorkDir :: string

definition NewHandler :: "string \<Rightarrow> string \<Rightarrow> int \<Rightarrow> files_handler" where
  "NewHandler wd dataPath maxUploadSize =
     \<lparr>DataPath = dataPath, MaxUploadSize = maxUploadSize, WorkDir = wd\<rparr>"

definition Abs :: "string \<Rightarrow> string \<Rightarrow> string" where
  "Abs wd p = (if is_rooted p then Clean p else PathJoin wd p)"

datatype guard_error = InvalidPath | TraversalDenied

text \<open>
  The loop of \<^verbatim>\<open>resolveExisting\<close> over a rooted, cleaned path, here the list of its names with the
  last one first: \<^verbatim>\<open>filepath.Base\<close> is the head, \<^verbatim>\<open>filepath.Dir\<close> the tail.
\<close>

fun resolve_up :: "fs \<Rightarrow> string list \<Rightarrow> string \<Rightarrow> errno + string" where
  "resolve_up fs rs rest =
     (case EvalSymlinks fs (unelems True (rev rs)) of
        Inr resolved \<Rightarrow> Inr (if rest = [] then resolved else PathJoin resolved rest)
      | Inl e \<Rightarrow>
          if \<not> IsNotExist e then Inl e
          else (case rs of [] \<Rightarrow> Inl e | c # rs' \<Rightarrow> resolve_up fs rs' (PathJoin c rest)))"

declare resolve_up.simps [simp del]

definition resolveExisting :: "fs \<Rightarrow> string \<Rightarrow> errno + string" where
  "resolveExisting fs path = resolve_up fs (rev (path_elems path)) []"

definition withinDataRoot :: "string \<Rightarrow> string \<Rightarrow> bool" where
  "withinDataRoot path root = (if path = root then True else rel_stays_below root path)"

definition strip_data :: "string \<Rightarrow> string" where
  "strip_data reqPath =
     (let cleaned =
        (if reqPath = ''/data'' then ''/''
         else if HasPrefix reqPath ''/data/'' then TrimPrefix reqPath ''/data''
         else reqPath)
      in if cleaned = [] then ''/'' else cleaned)"

definition realDataAbs :: "files_handler \<Rightarrow> fs \<Rightarrow> string" where
  "realDataAbs h fs =
     (let dataAbs = Abs (WorkDir h) (DataPath h) in
      case EvalSymlinks fs dataAbs of Inr r \<Rightarrow> r | Inl _ \<Rightarrow> dataAbs)"

definition safePath :: "files_handler \<Rightarrow> fs \<Rightarrow> string \<Rightarrow> guard_error + string" where
  "safePath h fs reqPath =
     (let abs = Abs (WorkDir h) (PathJoin (DataPath h) (strip_data reqPath)) in
      case resolveExisting fs abs of
        Inl _ \<Rightarrow> Inl InvalidPath
      | Inr realAbs \<Rightarrow>
          if \<not> withinDataRoot realAbs (realDataAbs h fs) then Inl TraversalDenied
          else Inr abs)"

subsection \<open>Paths as lists of names\<close>

definition tail_str :: "string list \<Rightarrow> string" where
  "tail_str xs = (if xs = [] then [] else join [slash] xs)"

lemma is_rooted_Abs [simp]: "is_rooted wd \<Longrightarrow> is_rooted (Abs wd p)"
  by (simp add: Abs_def)

lemma Clean_Abs [simp]: "is_rooted wd \<Longrightarrow> Clean (Abs wd p) = Abs wd p"
  by (cases wd) (auto simp: Abs_def PathJoin_def is_rooted_def)

lemma split_tail_str: "plain_path xs \<Longrightarrow> xs \<noteq> [] \<Longrightarrow> split_on slash (tail_str xs) = xs"
  by (auto simp: tail_str_def proper_elem_def intro!: split_on_join)

lemma path_elems_Join_tail:
  assumes "is_rooted a" "plain_path xs"
  shows "path_elems (PathJoin a (tail_str xs)) = path_elems a @ xs"
proof (cases "xs = []")
  case True
  from assms(1) have "a \<noteq> []" by (auto simp: is_rooted_def)
  with assms(1) True show ?thesis
    by (simp add: PathJoin_def tail_str_def path_elems_join_gen clean_elem_def)
next
  case False
  from assms(1) have "a \<noteq> []" by (auto simp: is_rooted_def)
  with assms False show ?thesis
    by (simp add: PathJoin_def path_elems_join_gen split_tail_str foldl_clean_elem_plain)
qed

lemma Join_tail:
  assumes "is_rooted a" "plain_path xs"
  shows "PathJoin a (tail_str xs) = unelems True (path_elems a @ xs)"
proof -
  have "PathJoin a (tail_str xs) = Clean (PathJoin a (tail_str xs))" using assms(1) by simp
  also have "\<dots> = unelems True (path_elems (PathJoin a (tail_str xs)))"
    using assms(1) by (simp add: Clean_def)
  finally show ?thesis by (simp add: path_elems_Join_tail assms)
qed

lemma tail_str_Nil_iff [simp]: "plain_path xs \<Longrightarrow> tail_str xs = [] \<longleftrightarrow> xs = []"
proof (cases xs)
  case (Cons x ys)
  assume "plain_path xs"
  with Cons have "x \<noteq> []" by (simp add: proper_elem_def)
  with Cons join_Cons_ex [of "[slash]" x ys] show ?thesis by (auto simp: tail_str_def)
qed (simp add: tail_str_def)

lemma rejoined:
  assumes "r = (if tail_str xs = [] then unelems True q else PathJoin (unelems True q) (tail_str xs))"
    and "plain_path q" "plain_path xs"
  shows "is_rooted r \<and> path_elems r = q @ xs"
  using assms by (simp add: path_elems_Join_tail)

lemma tail_str_Join:
  assumes "plain_path (c # xs)"
  shows "PathJoin c (tail_str xs) = tail_str (c # xs)"
proof -
  have pc: "proper_elem c" using assms by simp
  have c: "c \<noteq> []" "\<not> is_rooted c"
    using pc by (auto simp: proper_elem_def is_rooted_def split: list.splits)
  have "clean_list False (c # xs)" using assms by (intro plain_path_clean) simp
  then have cl: "clean_elems False (c # xs) = c # xs" by (rule clean_elems_clean)
  have r: "\<not> is_rooted (c @ z)" for z using c by (cases c) (auto simp: is_rooted_def)
  show ?thesis
  proof (cases "xs = []")
    case True
    have "split_on slash (c @ [slash]) = [c, []]"
      using pc by (simp add: split_on_append proper_elem_def)
    moreover have "clean_elems False [c, []] = [c]"
      using cl True by (simp add: clean_elems_def clean_elem_def)
    ultimately show ?thesis
      using True c r [of "[slash]"]
      by (simp add: PathJoin_def tail_str_def Clean_def path_elems_def unelems_def)
  next
    case False
    have "split_on slash (c @ slash # tail_str xs) = c # xs"
      using pc assms False by (simp add: split_on_append split_tail_str proper_elem_def)
    with False c r [of "slash # tail_str xs"] cl show ?thesis
      by (simp add: PathJoin_def Clean_def path_elems_def unelems_def tail_str_def join_Cons)
  qed
qed

lemma walk_names:
  "walk fs n d es = Inr q \<Longrightarrow> plain_path d \<Longrightarrow> \<forall>c \<in> set es. plain_name c \<Longrightarrow> plain_path q"
proof (induction fs n d es rule: walk.induct)
  case (2 fs n d c cs)
  show ?case
  proof (cases "length c > NAME_MAX \<or> c = ''.'' \<or> c = ''..''")
    case True
    then consider "length c > NAME_MAX" | "\<not> length c > NAME_MAX" "c = ''.''"
      | "\<not> length c > NAME_MAX" "c \<noteq> ''.''" "c = ''..''" by blast
    then show ?thesis
    proof cases
      case 1
      with "2.prems"(1) show ?thesis by simp
    next
      case 2
      with "2.IH"(1) "2.prems" show ?thesis by simp
    next
      case 3
      have "plain_path (butlast d)" using "2.prems"(2) by (meson in_set_butlastD)
      with 3 "2.IH"(2) "2.prems"(1,3) show ?thesis by simp
    qed
  next
    case False
    with "2.prems"(2,3) have pl: "plain_path (d @ [c])"
      by (auto simp: proper_elem_def plain_name_def)
    show ?thesis
    proof (cases "fs_at fs (d @ [c])")
      case None
      with "2.prems"(1) False pl show ?thesis by (auto split: if_splits)
    next
      case (Some x)
      show ?thesis
      proof (cases x)
        case (NLink t)
        with Some False "2.prems" obtain k where n: "n = Suc k"
          and w: "walk fs k (if is_rooted t then [] else d) (link_elems t @ cs) = Inr q"
          by (auto split: nat.splits)
        have "\<forall>a \<in> set (link_elems t @ cs). plain_name a"
          using "2.prems"(3) link_elems_plain by auto
        moreover have "plain_path (if is_rooted t then [] else d)" using "2.prems"(2) by simp
        ultimately show ?thesis using "2.IH"(4) [OF _ _ _ Some NLink n w] False by blast
      next
        case (NDir m)
        have "walk fs n (d @ [c]) cs = Inr q" using "2.prems"(1) Some NDir False by simp
        moreover have "\<forall>a \<in> set cs. plain_name a" using "2.prems"(3) by simp
        ultimately show ?thesis using "2.IH"(3) [OF _ _ _ Some NDir] pl False by blast
      next
        case (NFile b m)
        with Some "2.prems"(1) False pl show ?thesis by (auto split: if_splits)
      qed
    qed
  qed
qed simp

lemma eval_links_names: "eval_links fs es = Inr q \<Longrightarrow> plain_path es \<Longrightarrow> plain_path q"
  by (auto simp: eval_links_def split: sum.splits if_splits
      dest!: walk_names intro: proper_plain)

lemma EvalSymlinks_root: "plain_path es \<Longrightarrow>
  EvalSymlinks fs (unelems True es) =
    (case eval_links fs es of Inl e \<Rightarrow> Inl e | Inr q \<Rightarrow> Inr (unelems True q))"
  by (simp add: EvalSymlinks_def)

subsection \<open>What \<open>resolveExisting\<close> returns\<close>

text \<open>
  The real location of the longest prefix that exists, and the remaining names below it; every
  longer prefix is missing.
\<close>

lemma resolve_up_spec:
  assumes "resolve_up fs rs (tail_str xs) = Inr r" "plain_path rs" "plain_path xs"
  shows "\<exists>k q. k \<le> length rs \<and> eval_links fs (take k (rev rs)) = Inr q \<and>
     (\<forall>j. k < j \<and> j \<le> length rs \<longrightarrow> eval_links fs (take j (rev rs)) = Inl ENOENT) \<and>
     is_rooted r \<and> path_elems r = q @ drop k (rev rs) @ xs"
  using assms
proof (induction rs arbitrary: xs)
  case Nil
  then obtain q where q: "eval_links fs [] = Inr q"
    and r: "r = (if tail_str xs = [] then unelems True q else PathJoin (unelems True q) (tail_str xs))"
    by (auto simp: resolve_up.simps [of fs "[]"] EvalSymlinks_root split: sum.splits if_splits)
  have "plain_path q" using eval_links_names [OF q] by simp
  then have "is_rooted r \<and> path_elems r = q @ xs" using r Nil.prems(3) by (intro rejoined)
  with q show ?case by simp
next
  case (Cons c rs)
  have pl: "plain_path (rev (c # rs))" using Cons.prems(2) by simp
  have px: "plain_path (c # xs)" using Cons.prems(2,3) by simp
  show ?case
  proof (cases "eval_links fs (rev (c # rs))")
    case (Inr q)
    with Cons.prems(1) pl
    have r: "r = (if tail_str xs = [] then unelems True q else PathJoin (unelems True q) (tail_str xs))"
      by (simp add: resolve_up.simps [of fs "c # rs"] EvalSymlinks_root del: rev.simps)
    have "plain_path q" using eval_links_names [OF Inr pl] .
    then have "is_rooted r \<and> path_elems r = q @ xs" using r Cons.prems(3) by (intro rejoined)
    with Inr show ?thesis by (intro exI [of _ "length (c # rs)"] exI [of _ q]) auto
  next
    case (Inl e)
    with Cons.prems(1) pl have e: "e = ENOENT" and u: "resolve_up fs rs (PathJoin c (tail_str xs)) = Inr r"
      by (auto simp: resolve_up.simps [of fs "c # rs"] EvalSymlinks_root IsNotExist_def
          simp del: rev.simps split: if_splits)
    then have "resolve_up fs rs (tail_str (c # xs)) = Inr r" using px by (simp add: tail_str_Join)
    then obtain k q where k: "k \<le> length rs" "eval_links fs (take k (rev rs)) = Inr q"
      "\<forall>j. k < j \<and> j \<le> length rs \<longrightarrow> eval_links fs (take j (rev rs)) = Inl ENOENT"
      "is_rooted r" "path_elems r = q @ drop k (rev rs) @ c # xs"
      using Cons.IH [of "c # xs"] Cons.prems(2) px by auto
    have "eval_links fs (take j (rev (c # rs))) = Inl ENOENT" if "k < j" "j \<le> length (c # rs)" for j
      using that k(3) Inl e by (cases "j = Suc (length rs)") auto
    with k show ?thesis by (intro exI [of _ k] exI [of _ q]) simp
  qed
qed

lemma resolveExisting_spec:
  assumes "resolveExisting fs p = Inr r" "is_rooted p"
  obtains k q where "k \<le> length (path_elems p)" "eval_links fs (take k (path_elems p)) = Inr q"
    "\<And>j. k < j \<Longrightarrow> j \<le> length (path_elems p) \<Longrightarrow> eval_links fs (take j (path_elems p)) = Inl ENOENT"
    "is_rooted r" "path_elems r = q @ drop k (path_elems p)"
  using assms resolve_up_spec [of fs "rev (path_elems p)" "[]" r] rooted_elems [OF assms(2)]
  by (auto simp: resolveExisting_def tail_str_def)


text \<open>The loop as the source writes it, one ancestor at a time.\<close>

lemma resolve_up_step:
  assumes "plain_path (c # rs)" "eval_links fs (rev (c # rs)) = Inl ENOENT"
  shows "resolve_up fs (c # rs) rest = resolve_up fs rs (PathJoin c rest)"
proof -
  have "plain_path (rev (c # rs))" using assms(1) by simp
  with assms(2) show ?thesis
    by (simp add: resolve_up.simps [of fs "c # rs"] EvalSymlinks_root IsNotExist_def del: rev.simps)
qed

subsection \<open>Confinement\<close>

lemma is_rooted_realDataAbs: "is_rooted (WorkDir h) \<Longrightarrow> is_rooted (realDataAbs h fs)"
  by (auto simp: realDataAbs_def EvalSymlinks_def Let_def split: sum.split)

lemma safePath_Inr:
  assumes "safePath h fs x = Inr p" "is_rooted (WorkDir h)"
  obtains r where "is_rooted p" "resolveExisting fs p = Inr r" "is_rooted r"
    "below (realDataAbs h fs) r"
proof -
  let ?root = "realDataAbs h fs"
  from assms(1) obtain r where p: "p = Abs (WorkDir h) (PathJoin (DataPath h) (strip_data x))"
    and r: "resolveExisting fs p = Inr r" and w: "withinDataRoot r ?root"
    by (auto simp: safePath_def Let_def split: sum.splits if_splits)
  have rp: "is_rooted p" using p assms(2) by simp
  from r rp have rr: "is_rooted r" by (rule resolveExisting_spec)
  have ro: "is_rooted ?root" using assms(2) by (rule is_rooted_realDataAbs)
  from w have "below ?root r"
    using rel_stays_below_iff [OF ro rr] rr by (auto simp: withinDataRoot_def below_def split: if_splits)
  with rp r rr that show thesis by blast
qed

text \<open>The real location a path returned by the guard stands for.\<close>

definition resolved_loc :: "fs \<Rightarrow> string \<Rightarrow> string" where
  "resolved_loc fs p = (case resolveExisting fs p of Inr r \<Rightarrow> r | Inl _ \<Rightarrow> p)"

interpretation file_guard: path_guard
  "\<lambda>(h, fs). safePath h fs" "\<lambda>(h, fs). is_rooted (WorkDir h)"
  "\<lambda>(h, fs). realDataAbs h fs" "\<lambda>(h, fs). resolved_loc fs"
proof
  fix e :: "files_handler \<times> fs" and x p
  obtain h fs where e: "e = (h, fs)" by (cases e)
  assume "case e of (h, fs) \<Rightarrow> is_rooted (WorkDir h)" "(case e of (h, fs) \<Rightarrow> safePath h fs) x = Inr p"
  with e show "below (case e of (h, fs) \<Rightarrow> realDataAbs h fs) ((case e of (h, fs) \<Rightarrow> resolved_loc fs) p)"
    by (auto simp: resolved_loc_def elim!: safePath_Inr)
qed

text \<open>More links allowed, same result; and a walk to a directory can be continued.\<close>

lemma walk_mono: "walk fs n d es = Inr q \<Longrightarrow> n \<le> m \<Longrightarrow> walk fs m d es = Inr q"
proof (induction fs n d es arbitrary: m rule: walk.induct)
  case (2 fs n d c cs)
  show ?case
  proof (cases "length c > NAME_MAX \<or> c = ''.'' \<or> c = ''..''")
    case True
    then consider "length c > NAME_MAX" | "\<not> length c > NAME_MAX" "c = ''.''"
      | "\<not> length c > NAME_MAX" "c \<noteq> ''.''" "c = ''..''" by blast
    then show ?thesis
    proof cases
      case 1
      with "2.prems"(1) show ?thesis by simp
    next
      case 2
      with "2.IH"(1) "2.prems" show ?thesis by simp
    next
      case 3
      with "2.IH"(2) "2.prems" show ?thesis by simp
    qed
  next
    case False
    show ?thesis
    proof (cases "fs_at fs (d @ [c])")
      case None
      with "2.prems" False show ?thesis by (auto split: if_splits)
    next
      case (Some x)
      show ?thesis
      proof (cases x)
        case (NDir m)
        with Some False "2.IH"(3) [OF _ _ _ Some NDir] "2.prems" show ?thesis by simp
      next
        case (NFile b m)
        with Some False "2.prems" show ?thesis by (auto split: if_splits)
      next
        case (NLink t)
        with Some False "2.prems" obtain k where n: "n = Suc k"
          and w: "walk fs k (if is_rooted t then [] else d) (link_elems t @ cs) = Inr q"
          by (auto split: nat.splits)
        obtain l where "m = Suc l" "k \<le> l" using n "2.prems"(2) by (cases m) auto
        with "2.IH"(4) [OF _ _ _ Some NLink n w] False Some NLink show ?thesis by auto
      qed
    qed
  qed
qed simp

lemma walk_snoc:
  "walk fs n d es = Inr q \<Longrightarrow> is_dir fs q \<Longrightarrow> \<exists>k. walk fs n d (es @ xs) = walk fs k q xs"
proof (induction fs n d es rule: walk.induct)
  case (2 fs n d c cs)
  show ?case
  proof (cases "length c > NAME_MAX \<or> c = ''.'' \<or> c = ''..''")
    case True
    with 2 show ?thesis by (auto split: if_splits)
  next
    case False
    show ?thesis
    proof (cases "fs_at fs (d @ [c])")
      case None
      with "2.prems" False show ?thesis by (auto simp: is_dir_def split: if_splits)
    next
      case (Some x)
      show ?thesis
      proof (cases x)
        case (NDir m)
        with Some False 2 show ?thesis by auto
      next
        case (NFile b m)
        with Some False "2.prems" show ?thesis by (auto simp: is_dir_def split: if_splits)
      next
        case (NLink t)
        with Some False "2.prems" obtain k where n: "n = Suc k"
          and w: "walk fs k (if is_rooted t then [] else d) (link_elems t @ cs) = Inr q"
          by (auto split: nat.splits)
        from "2.IH"(4) [OF _ _ _ Some NLink n w "2.prems"(2)] False
        obtain l where "walk fs k (if is_rooted t then [] else d) ((link_elems t @ cs) @ xs) = walk fs l q xs"
          by blast
        with Some NLink n False show ?thesis by auto
      qed
    qed
  qed
qed auto

text \<open>
  What a call on an accepted path reaches. If the path exists, the object it names lies below
  the real data directory; if its last name is free, the object that a create or a mkdir makes
  there does.
\<close>

lemma safePath_existing:
  assumes "safePath h fs x = Inr p" "is_rooted (WorkDir h)"
    and "namei fs (path_elems p) = Inr q" "fs_at fs q \<noteq> None"
  shows "prefix (path_elems (realDataAbs h fs)) q"
proof -
  obtain r where r: "is_rooted p" "resolveExisting fs p = Inr r" "below (realDataAbs h fs) r"
    using assms(1,2) by (rule safePath_Inr)
  have "walk fs 255 [] (path_elems p) = Inr q"
    using assms(3) by (auto simp: namei_def MAX_LINKS_def split: if_splits intro: walk_mono)
  then have ev: "eval_links fs (path_elems p) = Inr q" using assms(4) by (simp add: eval_links_def)
  from r(2,1) obtain k q' where k: "k \<le> length (path_elems p)"
    "eval_links fs (take k (path_elems p)) = Inr q'"
    "\<And>j. k < j \<Longrightarrow> j \<le> length (path_elems p) \<Longrightarrow> eval_links fs (take j (path_elems p)) = Inl ENOENT"
    "path_elems r = q' @ drop k (path_elems p)"
    by (rule resolveExisting_spec) blast
  have "k = length (path_elems p)" using k(3) [of "length (path_elems p)"] ev k(1) by fastforce
  with k ev have "path_elems r = q" by simp
  with r(3) show ?thesis by (simp add: below_def)
qed

lemma safePath_free:
  assumes "safePath h fs x = Inr p" "is_rooted (WorkDir h)"
    and "lnamei fs (path_elems p) = Inr q" "fs_at fs q = None"
  shows "prefix (path_elems (realDataAbs h fs)) q"
proof -
  obtain r where r: "is_rooted p" "resolveExisting fs p = Inr r" "below (realDataAbs h fs) r"
    using assms(1,2) by (rule safePath_Inr)
  from assms(3) show ?thesis
  proof (cases rule: lnamei_cases)
    case 1
    with assms(4) show ?thesis by simp
  next
    case (2 d c es)
    have "plain_path (path_elems p)" using rooted_elems [OF r(1)] .
    with 2(1) have c: "c \<noteq> ''.''" "c \<noteq> ''..''" by (auto simp: proper_elem_def)
    have wd: "walk fs 255 [] es = Inr d" using 2(4) by (auto simp: MAX_LINKS_def intro: walk_mono)
    have evd: "eval_links fs es = Inr d" using wd 2(3) by (auto simp: eval_links_def dest: is_dirD)
    obtain l where l: "walk fs 255 [] (es @ [c]) = walk fs l d [c]"
      using walk_snoc [OF wd 2(3)] by blast
    have "length c \<le> NAME_MAX" using assms(3) 2(1) by (auto simp: lnamei_def split: if_splits sum.splits option.splits fnode.splits)
    with c assms(4) 2(2) l have "walk fs 255 [] (es @ [c]) = Inr (d @ [c])" by simp
    then have evc: "eval_links fs (path_elems p) = Inl ENOENT"
      using 2(1,2) assms(4) by (simp add: eval_links_def)
    from r(2,1) obtain k q' where k: "k \<le> length (path_elems p)"
      "eval_links fs (take k (path_elems p)) = Inr q'"
      "\<And>j. k < j \<Longrightarrow> j \<le> length (path_elems p) \<Longrightarrow> eval_links fs (take j (path_elems p)) = Inl ENOENT"
      "path_elems r = q' @ drop k (path_elems p)"
      by (rule resolveExisting_spec) blast
    have "k = length es"
    proof (rule ccontr)
      assume ne: "k \<noteq> length es"
      show False
      proof (cases "k < length es")
        case True
        with k(3) [of "length es"] evd 2(1) show ?thesis by simp
      next
        case False
        with ne k(1) 2(1) have "k = length (path_elems p)" by simp
        with k(2) evc show ?thesis by simp
      qed
    qed
    with k(2,4) evd 2(1,2) have "path_elems r = q" by simp
    with r(3) show ?thesis by (simp add: below_def)
  qed
qed

lemma realDataAbs_sealed:
  assumes "is_rooted (WorkDir h)" and R: "R = path_elems (Abs (WorkDir h) (DataPath h))"
    and s: "sealed R fs"
  shows "path_elems (realDataAbs h fs) = R"
proof -
  have plR: "plain_path R" unfolding R using assms(1) by (intro rooted_elems) simp
  have qR: "q = R" if "eval_links fs R = Inr q" for q
    using that walk_inside [OF s, of "[]" R] plR
    by (auto simp: eval_links_def comparable_def split: sum.splits if_splits)
  show ?thesis
  proof (cases "eval_links fs R")
    case (Inl e)
    then show ?thesis by (simp add: realDataAbs_def EvalSymlinks_def Let_def R)
  next
    case (Inr q)
    then have "eval_links fs R = Inr R" using qR by simp
    with plR show ?thesis
      unfolding realDataAbs_def EvalSymlinks_def Let_def R [symmetric] by simp
  qed
qed

text \<open>In a sealed data directory an accepted path is one of the directory by its names alone.\<close>

lemma safePath_path_in:
  assumes "safePath h fs x = Inr p" "is_rooted (WorkDir h)"
    and R: "R = path_elems (Abs (WorkDir h) (DataPath h))" and s: "sealed R fs"
  shows "path_in R p"
proof -
  obtain r where r: "is_rooted p" "resolveExisting fs p = Inr r" "below (realDataAbs h fs) r"
    using assms(1,2) by (rule safePath_Inr)
  have rt: "path_elems (realDataAbs h fs) = R" using assms(2) R s by (rule realDataAbs_sealed)
  from r(2,1) obtain k q where k: "eval_links fs (take k (path_elems p)) = Inr q"
    "path_elems r = q @ drop k (path_elems p)"
    by (rule resolveExisting_spec) blast
  have "prefix R (q @ drop k (path_elems p))" using r(3) rt k(2) by (simp add: below_def)
  then have "comparable R (q @ drop k (path_elems p))" by (simp add: comparable_def)
  then have cmp: "comparable R q" by (rule comparable_append)
  have pl: "plain_path (take k (path_elems p))"
    using rooted_elems [OF r(1)] by (meson in_set_takeD)
  have w: "walk fs 255 [] (take k (path_elems p)) = Inr q"
    using k(1) by (auto simp: eval_links_def split: sum.splits if_splits)
  have "q = norm_from [] (take k (path_elems p))"
    using walk_sealed [OF s plain_path_clean [OF pl] _ w cmp] by simp
  also have "\<dots> = take k (path_elems p)" using pl by (simp add: norm_from_plain)
  finally have "path_elems r = path_elems p" using k(2) by simp
  with r(1,3) rt show ?thesis by (simp add: path_in_def below_def)
qed

end
