(* ===== verification/Files_Util.thy ===== *)
theory Files_Util
  imports Files_Guard
begin

text \<open>
  \<^verbatim>\<open>internal/files/util.go\<close>: copying files and trees, the search for a free name, the zip
  archive of a directory, file types. A copy or a walk recurses along ever longer paths, which
  the kernel refuses at \<open>PATH_MAX\<close> bytes; that many levels of recursion is the fuel.
\<close>

subsection \<open>Copying\<close>

definition node_perm :: "fnode \<Rightarrow> nat" where
  "node_perm n = (case n of NDir m \<Rightarrow> m | NFile _ m \<Rightarrow> m | NLink _ \<Rightarrow> 511)"

text \<open>
  The source is opened first and read after the destination was truncated. The last \<open>Stat\<close>
  finds the source, which is still there; its error branch stands for the nil dereference.
\<close>

definition copyFile :: "fs \<Rightarrow> string \<Rightarrow> string \<Rightarrow> fs \<times> errno option" where
  "copyFile fs src dst =
     (case Open_read fs src of
        Inl e \<Rightarrow> (fs, Some e)
      | Inr inl \<Rightarrow>
          (case MkdirAll fs (Dir dst) 493 of
             (fs1, Some e) \<Rightarrow> (fs1, Some e)
           | (fs1, None) \<Rightarrow>
               (case Create fs1 dst of
                  Inl e \<Rightarrow> (fs1, Some e)
                | Inr (fs2, out) \<Rightarrow>
                    (case read_loc fs2 inl of
                       Inl e \<Rightarrow> (fs2, Some e)
                     | Inr dat \<Rightarrow>
                         (let fs3 = write_loc out 0 dat fs2 in
                          case Stat fs3 src of
                            Inl e \<Rightarrow> (fs3, Some e)
                          | Inr n \<Rightarrow>
                              (case Chmod fs3 dst (node_perm n) of
                                 Inl e \<Rightarrow> (fs3, Some e)
                               | Inr fs4 \<Rightarrow> (fs4, None)))))))"

text \<open>The loop over the entries of a directory, given the copy of a subdirectory.\<close>

fun copy_entries :: "(fs \<Rightarrow> string \<Rightarrow> string \<Rightarrow> fs \<times> errno option) \<Rightarrow>
    fs \<Rightarrow> string \<Rightarrow> string \<Rightarrow> (string \<times> fnode) list \<Rightarrow> fs \<times> errno option" where
  "copy_entries rec fs src dst [] = (fs, None)"
| "copy_entries rec fs src dst ((name, n) # es) =
     (let srcPath = PathJoin src name; dstPath = PathJoin dst name in
      case (if node_dir n then rec fs srcPath dstPath else copyFile fs srcPath dstPath) of
        (fs1, Some e) \<Rightarrow> (fs1, Some e)
      | (fs1, None) \<Rightarrow> copy_entries rec fs1 src dst es)"

primrec copyDir :: "nat \<Rightarrow> fs \<Rightarrow> string \<Rightarrow> string \<Rightarrow> fs \<times> errno option" where
  "copyDir 0 fs src dst = (fs, Some ENAMETOOLONG)"
| "copyDir (Suc k) fs src dst =
     (case Stat fs src of
        Inl e \<Rightarrow> (fs, Some e)
      | Inr n \<Rightarrow>
          (case MkdirAll fs dst (node_perm n) of
             (fs1, Some e) \<Rightarrow> (fs1, Some e)
           | (fs1, None) \<Rightarrow>
               (case ReadDir fs1 src of
                  Inl e \<Rightarrow> (fs1, Some e)
                | Inr es \<Rightarrow> copy_entries (copyDir k) fs1 src dst es)))"

definition copyPath :: "fs \<Rightarrow> string \<Rightarrow> string \<Rightarrow> fs \<times> errno option" where
  "copyPath fs src dst =
     (case Stat fs src of
        Inl e \<Rightarrow> (fs, Some e)
      | Inr n \<Rightarrow> if node_dir n then copyDir PATH_MAX fs src dst else copyFile fs src dst)"

subsection \<open>A free name\<close>

definition candidate :: "string \<Rightarrow> string \<Rightarrow> string \<Rightarrow> nat \<Rightarrow> string" where
  "candidate dir base ext i = PathJoin dir (base @ '' ('' @ nat_str i @ '')'' @ ext)"

text \<open>The loop has no exit but a candidate that does not exist: \<^term>\<open>None\<close> is a loop without end.\<close>

partial_function (option) unique_from :: "fs \<Rightarrow> string \<Rightarrow> string \<Rightarrow> string \<Rightarrow> nat \<Rightarrow> string option" where
  "unique_from fs dir base ext i =
     (if (case Stat fs (candidate dir base ext i) of Inl e \<Rightarrow> IsNotExist e | Inr _ \<Rightarrow> False)
      then Some (candidate dir base ext i)
      else unique_from fs dir base ext (Suc i))"

definition generateUniqueName :: "fs \<Rightarrow> string \<Rightarrow> string option" where
  "generateUniqueName fs path =
     unique_from fs (Dir path) (TrimSuffix (Base path) (Ext path)) (Ext path) 1"

subsection \<open>Archives\<close>

type_synonym zip_entries = "(string \<times> string) list"

text \<open>
  The callback of \<^verbatim>\<open>filepath.Walk\<close> on an object that is no directory: the entry is created
  before the file is opened, and opening follows a link.
\<close>

definition zip_file :: "fs \<Rightarrow> string \<Rightarrow> string \<Rightarrow> zip_entries \<times> errno option" where
  "zip_file fs basePath path =
     (case Rel basePath path of
        Inl _ \<Rightarrow> ([], Some EINVAL)
      | Inr relPath \<Rightarrow>
          (case Open_read fs path of
             Inl e \<Rightarrow> ([(relPath, [])], Some e)
           | Inr q \<Rightarrow>
               (case read_loc fs q of
                  Inl e \<Rightarrow> ([(relPath, [])], Some e)
                | Inr dat \<Rightarrow> ([(relPath, dat)], None))))"

fun zip_children :: "(string \<Rightarrow> fnode \<Rightarrow> zip_entries \<times> errno option) \<Rightarrow> fs \<Rightarrow> string \<Rightarrow> string list \<Rightarrow>
    zip_entries \<times> errno option" where
  "zip_children rec fs path [] = ([], None)"
| "zip_children rec fs path (name # names) =
     (let filename = PathJoin path name in
      case Lstat fs filename of
        Inl e \<Rightarrow> ([], Some e)
      | Inr n \<Rightarrow>
          (case rec filename n of
             (zs, Some e) \<Rightarrow> (zs, Some e)
           | (zs, None) \<Rightarrow>
               (case zip_children rec fs path names of (zs', r) \<Rightarrow> (zs @ zs', r))))"

primrec zip_walk :: "nat \<Rightarrow> fs \<Rightarrow> string \<Rightarrow> string \<Rightarrow> fnode \<Rightarrow> zip_entries \<times> errno option" where
  "zip_walk 0 fs basePath path n = ([], Some ENAMETOOLONG)"
| "zip_walk (Suc k) fs basePath path n =
     (if \<not> node_dir n then zip_file fs basePath path
      else
        (case ReadDir fs path of
           Inl e \<Rightarrow> ([], Some e)
         | Inr es \<Rightarrow>
             (case Rel basePath path of
                Inl _ \<Rightarrow> ([], Some EINVAL)
              | Inr relPath \<Rightarrow>
                  (case zip_children (zip_walk k fs basePath) fs path (map fst es) of
                     (zs, r) \<Rightarrow> ((relPath @ ''/'', []) # zs, r)))))"

definition zipDir :: "fs \<Rightarrow> string \<Rightarrow> zip_entries \<times> errno option" where
  "zipDir fs dirPath =
     (case Lstat fs dirPath of
        Inl e \<Rightarrow> ([], Some e)
      | Inr n \<Rightarrow> zip_walk PATH_MAX fs (Dir dirPath) dirPath n)"

subsection \<open>File types\<close>

definition detectFileType :: "string \<Rightarrow> bool \<Rightarrow> string" where
  "detectFileType name isDir =
     (if isDir then ''directory''
      else let ext = ToLower (Ext name) in
        if ext \<in> set [''.jpg'', ''.jpeg'', ''.png'', ''.gif'', ''.bmp'', ''.webp'', ''.svg'', ''.ico'', ''.tiff'']
        then ''image''
        else if ext \<in> set [''.mp4'', ''.avi'', ''.mkv'', ''.mov'', ''.wmv'', ''.flv'', ''.webm'', ''.m4v'']
        then ''video''
        else if ext \<in> set [''.mp3'', ''.wav'', ''.flac'', ''.aac'', ''.ogg'', ''.wma'', ''.m4a'', ''.opus'']
        then ''audio''
        else if ext = ''.pdf'' then ''pdf''
        else if ext \<in> set [''.doc'', ''.docx'', ''.xls'', ''.xlsx'', ''.ppt'', ''.pptx'']
        then ''document''
        else if ext \<in> set [''.zip'', ''.tar'', ''.gz'', ''.bz2'', ''.7z'', ''.rar'', ''.xz'']
        then ''archive''
        else if ext \<in> set [''.txt'', ''.md'', ''.log'', ''.csv'', ''.json'', ''.xml'', ''.yaml'', ''.yml'',
            ''.toml'', ''.ini'', ''.conf'', ''.cfg'', ''.sh'', ''.bash'', ''.zsh'',
            ''.py'', ''.go'', ''.js'', ''.ts'', ''.html'', ''.css'', ''.sql'',
            ''.rb'', ''.rs'', ''.java'', ''.c'', ''.cpp'', ''.h'', ''.hpp'',
            ''.lua'', ''.php'', ''.pl'', ''.r'', ''.swift'', ''.kt'', ''.dart'',
            ''.dockerfile'', ''.makefile'', ''.gitignore'']
        then ''text''
        else ''blob'')"

definition isTextExt :: "string \<Rightarrow> bool" where
  "isTextExt ext \<longleftrightarrow> detectFileType (''file'' @ ext) False = ''text''"

subsection \<open>Copies keep the tree well formed and stay below a sealed root\<close>

lemma path_elems_PathJoin_name:
  "is_rooted a \<Longrightarrow> proper_elem e \<Longrightarrow> e \<noteq> ''..'' \<Longrightarrow> path_elems (PathJoin a e) = path_elems a @ [e]"
  by (rule path_elems_PathJoin)

lemma child_names_at:
  assumes "c \<in> set (child_names fs q)"
  shows "map_of fs (q @ [c]) \<noteq> None"
proof -
  from assms obtain k where k: "k \<in> set (map fst fs)" "k \<noteq> []" "butlast k = q" "last k = c"
    by (auto simp: child_names_def)
  then have "k = q @ [c]" by (metis append_butlast_last_id)
  with k(1) show ?thesis by (auto simp: map_of_eq_None_iff)
qed

lemma dir_entries_at:
  assumes "(c, n) \<in> set (dir_entries fs q)"
  shows "fs_at fs (q @ [c]) = Some n"
  using assms by (auto simp: dir_entries_def List.map_filter_def)

lemma ReadDir_names:
  assumes "fs_wf fs" "ReadDir fs p = Inr es" "(c, n) \<in> set es"
  shows "proper_elem c \<and> c \<noteq> ''..''"
  using assms dir_entries_at fs_wfD
  by (fastforce simp: ReadDir_def split: sum.splits option.splits fnode.splits)

end
