(* ===== verification/Files_Copy.thy ===== *)
theory Files_Copy
  imports Files_Util
begin

text \<open>
  What the helpers of \<^theory_text>\<open>Files_Util\<close> preserve and return: copies keep the tree well formed and
  change only the sealed data directory, the fuel of a copy is never used up, and the search
  for a free name.
\<close>

subsection \<open>Copies keep the tree well formed\<close>

definition clean_path :: "string \<Rightarrow> bool" where
  "clean_path p \<longleftrightarrow> is_rooted p \<and> Clean p = p"

lemma clean_path_Join [intro]: "is_rooted a \<Longrightarrow> clean_path (PathJoin a b)"
  by (simp add: clean_path_def)

lemma clean_path_rooted: "clean_path p \<Longrightarrow> is_rooted p"
  by (simp add: clean_path_def)

lemma clean_path_unelems: "clean_path p \<Longrightarrow> unelems True (path_elems p) = p"
  using unelems_path_elems [of p] by (simp add: clean_path_def)

lemma rooted_Dir: "clean_path p \<Longrightarrow> is_rooted (Dir p)"
  using Dir_elems by (auto simp: clean_path_def)

lemma MkdirAll_wfI [fs_wf_intros]:
  "MkdirAll fs p perm = (fs', r) \<Longrightarrow> fs_wf fs \<Longrightarrow> is_rooted p \<Longrightarrow> fs_wf fs'"
  using MkdirAll_wf [of fs p perm] by simp

lemma Create_wf [fs_wf_intros]: "Create fs p = Inr (fs', q) \<Longrightarrow> fs_wf fs \<Longrightarrow> fs_wf fs'"
  unfolding Create_def by (rule Create_perm_wf)

lemma copyFile_wf [fs_wf_intros]:
  assumes "fs_wf fs" "clean_path dst" "copyFile fs src dst = (fs', r)"
  shows "fs_wf fs'"
proof -
  have m: "fs_wf fs1" if "MkdirAll fs (Dir dst) 493 = (fs1, r1)" for fs1 r1
    using that assms(1) rooted_Dir [OF assms(2)] by (rule MkdirAll_wfI)
  have c: "fs_wf fs2" "fs_wf (write_loc q 0 dat fs2)"
    if "MkdirAll fs (Dir dst) 493 = (fs1, r1)" "Create fs1 dst = Inr (fs2, q)" for fs1 r1 fs2 q dat
    using Create_wf [OF that(2) m [OF that(1)]] by (auto intro: write_loc_wf)
  from assms(3) show ?thesis
    using assms(1)
    by (auto simp: copyFile_def Let_def dest: Chmod_wf [rotated] intro: m c
        split: sum.splits prod.splits option.splits)
qed

lemma copy_entries_wf:
  assumes "\<And>fs src dst fs' r. rec fs src dst = (fs', r) \<Longrightarrow> fs_wf fs \<Longrightarrow> clean_path dst \<Longrightarrow> fs_wf fs'"
  shows "copy_entries rec fs src dst es = (fs', r) \<Longrightarrow> fs_wf fs \<Longrightarrow> clean_path dst \<Longrightarrow> fs_wf fs'"
proof (induction es arbitrary: fs)
  case (Cons x es)
  obtain name n where x: "x = (name, n)" by (cases x)
  let ?r = "if node_dir n then rec fs (PathJoin src name) (PathJoin dst name)
            else copyFile fs (PathJoin src name) (PathJoin dst name)"
  obtain fs1 r1 where r1: "?r = (fs1, r1)" by (cases ?r)
  have "clean_path (PathJoin dst name)" using Cons.prems(3) by (auto dest: clean_path_rooted)
  then have "fs_wf fs1" using r1 Cons.prems(2) assms by (auto split: if_splits intro: copyFile_wf)
  with Cons x r1 show ?case by (auto simp: Let_def split: option.splits)
qed simp

lemma copyDir_wf: "copyDir k fs src dst = (fs', r) \<Longrightarrow> fs_wf fs \<Longrightarrow> clean_path dst \<Longrightarrow> fs_wf fs'"
proof (induction k arbitrary: fs src dst fs' r)
  case (Suc k)
  have m: "fs_wf fs1" if "MkdirAll fs dst m = (fs1, r1)" for m fs1 r1
    using that Suc.prems(2,3) by (blast intro: MkdirAll_wfI clean_path_rooted)
  have e: "fs_wf fs2" if "copy_entries (copyDir k) fs1 src dst es = (fs2, r2)" "fs_wf fs1" for fs1 es fs2 r2
    using copy_entries_wf [OF Suc.IH that Suc.prems(3)] .
  from Suc.prems(1,2) show ?case
    by (auto split: sum.splits prod.splits option.splits intro: m e)
qed simp

lemma copyPath_wf [fs_wf_intros]:
  "copyPath fs src dst = (fs', r) \<Longrightarrow> fs_wf fs \<Longrightarrow> clean_path dst \<Longrightarrow> fs_wf fs'"
  by (auto simp: copyPath_def intro: copyDir_wf copyFile_wf split: sum.splits if_splits)

subsection \<open>Copies stay below a sealed root\<close>

lemma path_in_near: "path_in R p \<Longrightarrow> path_near R p"
  by (simp add: path_near_def)

lemma path_near_Dir:
  assumes "path_in R p" "clean_path p"
  shows "path_near R (Dir p)"
proof -
  have d: "is_rooted (Dir p)" "path_elems (Dir p) = butlast (path_elems p)"
    using Dir_elems assms(2) by (auto simp: clean_path_def)
  show ?thesis
  proof (cases "path_elems p = R")
    case False
    with assms(1) have "prefix R (butlast (path_elems p))"
      by (cases "path_elems p" rule: rev_cases) (auto simp: path_in_def prefix_snoc)
    with d show ?thesis by (simp add: path_near_def path_in_def)
  qed (use d in \<open>simp add: path_near_def\<close>)
qed

lemma path_in_Join:
  "path_in R p \<Longrightarrow> proper_elem c \<Longrightarrow> c \<noteq> ''..'' \<Longrightarrow> path_in R (PathJoin p c)"
  by (simp add: path_in_def path_elems_PathJoin)

lemma MkdirAll_containedI [contained_intros]:
  "MkdirAll fs p perm = (fs', r) \<Longrightarrow> path_near R p \<Longrightarrow> contained R fs fs'"
  using MkdirAll_contained [of R p fs perm] by simp

lemma Create_contained [contained_intros]:
  "Create fs p = Inr (fs', q) \<Longrightarrow> path_near R p \<Longrightarrow> contained R fs fs'"
  unfolding Create_def by (rule Create_perm_contained)

lemma Create_perm_loc:
  "Create_perm fs p perm = Inr (fs', q) \<Longrightarrow> sealed R fs \<Longrightarrow> path_in R p \<Longrightarrow> q = path_elems p"
  by (auto simp: Create_perm_def path_in_near intro: namei_near
      split: sum.splits option.splits fnode.splits)

text \<open>Creating a file and writing it, as every upload and copy does.\<close>

lemma Create_write_contained:
  assumes "Create_perm fs p perm = Inr (fs', q)" "path_in R p"
  shows "contained R fs (write_loc q off dat fs')"
proof (rule contained_sealedI)
  assume "sealed R fs"
  then have "q = path_elems p" using Create_perm_loc assms by blast
  then have "prefix R q" using assms(2) by (simp add: path_in_def)
  moreover have "contained R fs fs'"
    using assms(1) by (rule Create_perm_contained [rotated]) (rule path_in_near [OF assms(2)])
  ultimately show "contained R fs (write_loc q off dat fs')"
    by (blast intro: contained_trans write_loc_contained)
qed

lemma copyFile_contained [contained_intros]:
  assumes "copyFile fs src dst = (fs', r)" "path_in R dst" "clean_path dst"
  shows "contained R fs fs'"
proof -
  have m: "contained R fs fs1" if "MkdirAll fs (Dir dst) 493 = (fs1, r1)" for fs1 r1
    using that path_near_Dir [OF assms(2,3)] by (rule MkdirAll_containedI)
  have c: "contained R fs1 fs2" "contained R fs1 (write_loc q 0 dat fs2)"
    if "Create fs1 dst = Inr (fs2, q)" for fs1 fs2 q dat
    using that Create_write_contained [OF _ assms(2)] Create_contained [OF _ path_in_near [OF assms(2)]]
    by (auto simp: Create_def)
  have ch: "contained R fs1 fs2" if "Chmod fs1 dst p = Inr fs2" for fs1 fs2 p
    using Chmod_contained [OF assms(2) that] .
  show ?thesis
    using assms(1)
    by (auto simp: copyFile_def Let_def contained_refl
        split: sum.splits prod.splits option.splits
        intro: m contained_trans [OF m c(1)] contained_trans [OF m c(2)]
          contained_trans [OF contained_trans [OF m c(2)] ch])
qed

lemma copy_entries_contained:
  assumes rec: "\<And>fs src dst fs' r. rec fs src dst = (fs', r) \<Longrightarrow> path_in R dst \<Longrightarrow> clean_path dst \<Longrightarrow>
      fs_wf fs \<Longrightarrow> contained R fs fs' \<and> fs_wf fs'"
    and dst: "path_in R dst" "clean_path dst"
  shows "copy_entries rec fs src dst es = (fs', r) \<Longrightarrow> fs_wf fs \<Longrightarrow>
    \<forall>(c, n) \<in> set es. proper_elem c \<and> c \<noteq> ''..'' \<Longrightarrow> contained R fs fs'"
proof (induction es arbitrary: fs)
  case (Cons x es)
  obtain name n where x: "x = (name, n)" by (cases x)
  let ?d = "PathJoin dst name"
  let ?r = "if node_dir n then rec fs (PathJoin src name) ?d else copyFile fs (PathJoin src name) ?d"
  obtain fs1 r1 where r1: "?r = (fs1, r1)" by (cases ?r)
  have d: "path_in R ?d" "clean_path ?d"
    using Cons.prems(3) x dst by (auto intro: path_in_Join dest: clean_path_rooted)
  have r: "contained R fs fs1" "fs_wf fs1"
    using r1 rec [OF _ d Cons.prems(2)] d Cons.prems(2)
    by (auto split: if_splits intro: copyFile_contained copyFile_wf)
  show ?case
  proof (cases r1)
    case None
    with Cons.prems x r1 have "copy_entries rec fs1 src dst es = (fs', r)" by (simp add: Let_def)
    with Cons.IH r(2) Cons.prems(3) have "contained R fs1 fs'" by simp
    with r(1) show ?thesis by (rule contained_trans)
  next
    case (Some e)
    with Cons.prems x r1 r show ?thesis by (simp add: Let_def)
  qed
qed (simp add: contained_refl)

lemma copyDir_contained:
  "copyDir k fs src dst = (fs', r) \<Longrightarrow> path_in R dst \<Longrightarrow> clean_path dst \<Longrightarrow> fs_wf fs \<Longrightarrow>
   contained R fs fs'"
proof (induction k arbitrary: fs src dst fs' r)
  case (Suc k)
  have m: "contained R fs fs1" "fs_wf fs1" if "MkdirAll fs dst p = (fs1, r1)" for fs1 r1 p
    using that Suc.prems(2-4) by (auto intro: MkdirAll_wfI MkdirAll_containedI path_in_near clean_path_rooted)
  have e: "contained R fs1 fs2"
    if "copy_entries (copyDir k) fs1 src dst es = (fs2, r2)" "ReadDir fs1 src = Inr es" "fs_wf fs1"
    for fs1 fs2 r2 es
  proof (rule copy_entries_contained [OF _ Suc.prems(2,3) that(1,3)])
    show "\<forall>(c, n) \<in> set es. proper_elem c \<and> c \<noteq> ''..''"
      using ReadDir_names [OF that(3,2)] by blast
  qed (use Suc.IH copyDir_wf in blast)
  from Suc.prems(1) show ?case
    by (auto simp: contained_refl split: sum.splits prod.splits option.splits
        intro: m contained_trans [OF m(1) e])
qed (simp add: contained_refl)

lemma copyPath_contained [contained_intros]:
  "copyPath fs src dst = (fs', r) \<Longrightarrow> path_in R dst \<Longrightarrow> clean_path dst \<Longrightarrow> fs_wf fs \<Longrightarrow> contained R fs fs'"
  by (auto simp: copyPath_def contained_refl intro: copyDir_contained copyFile_contained
      split: sum.splits if_splits)


subsection \<open>The fuel of a copy is never used up\<close>

lemma MkdirAll_too_long: "too_long (path_elems p) \<Longrightarrow> snd (MkdirAll fs p m) \<noteq> None"
proof (cases "path_elems p" rule: rev_cases)
  case Nil
  assume "too_long (path_elems p)"
  with Nil show ?thesis by (simp add: too_long_def unelems_def PATH_MAX_def)
next
  case (snoc es c)
  assume t: "too_long (path_elems p)"
  with snoc have "stat_at fs' (es @ [c]) = Inl ENAMETOOLONG" "mkdir_at fs' (es @ [c]) m = Inl ENAMETOOLONG"
    "lstat_at fs' (es @ [c]) = Inl ENAMETOOLONG" for fs'
    by (simp_all add: stat_at_def namei_def mkdir_at_def lnamei_def lstat_at_def)
  with snoc show ?thesis by (auto simp: MkdirAll_def split: prod.split option.split)
qed

lemma length_Join_name:
  assumes "clean_path p" "proper_elem c" "c \<noteq> ''..''"
  shows "length p < length (PathJoin p c)"
proof -
  have p: "p = unelems True (path_elems p)" using clean_path_unelems [OF assms(1)] by simp
  have j: "PathJoin p c = unelems True (path_elems p @ [c])"
    using Join_tail [of p "[c]"] assms by (simp add: tail_str_def clean_path_def)
  have c: "0 < length c" using assms(2) by (simp add: proper_elem_def)
  have "length (unelems True es) < length (unelems True (es @ [c]))" for es
  proof (cases "es = []")
    case False
    then have "join [slash] (es @ [c]) = join [slash] es @ slash # c"
      by (induction es rule: induct_list012) (simp_all add: join_Cons)
    then show ?thesis by (simp add: unelems_def)
  qed (use c in \<open>simp add: unelems_def\<close>)
  with p j show ?thesis by metis
qed

lemma copy_entries_cong:
  assumes eq: "\<And>fs c src. fs_wf fs \<Longrightarrow> proper_elem c \<Longrightarrow> c \<noteq> ''..'' \<Longrightarrow>
      rec fs src (PathJoin dst c) = rec' fs src (PathJoin dst c)"
    and wf: "\<And>fs src dst fs' r. rec' fs src dst = (fs', r) \<Longrightarrow> fs_wf fs \<Longrightarrow> clean_path dst \<Longrightarrow> fs_wf fs'"
    and "clean_path dst"
  shows "fs_wf fs \<Longrightarrow> \<forall>(c, n) \<in> set es. proper_elem c \<and> c \<noteq> ''..'' \<Longrightarrow>
    copy_entries rec fs src dst es = copy_entries rec' fs src dst es"
proof (induction es arbitrary: fs)
  case (Cons x es)
  obtain name n where x: "x = (name, n)" by (cases x)
  let ?r = "if node_dir n then rec' fs (PathJoin src name) (PathJoin dst name)
            else copyFile fs (PathJoin src name) (PathJoin dst name)"
  obtain fs1 r1 where r1: "?r = (fs1, r1)" by (cases ?r)
  have "clean_path (PathJoin dst name)" using assms(3) by (auto dest: clean_path_rooted)
  then have "fs_wf fs1" using r1 Cons.prems(1) wf by (auto split: if_splits intro: copyFile_wf)
  with Cons x r1 eq [OF Cons.prems(1), of name "PathJoin src name"] show ?case
    by (auto simp: Let_def split: option.splits)
qed simp

lemma copyDir_fuel_enough:
  "fs_wf fs \<Longrightarrow> clean_path dst \<Longrightarrow> PATH_MAX < k + length dst \<Longrightarrow> PATH_MAX < k' + length dst \<Longrightarrow>
   0 < k \<Longrightarrow> 0 < k' \<Longrightarrow> copyDir k fs src dst = copyDir k' fs src dst"
proof (induction k arbitrary: k' fs src dst)
  case (Suc k)
  then obtain j where j: "k' = Suc j" by (cases k') auto
  have p: "unelems True (path_elems dst) = dst" using Suc.prems(2) by (rule clean_path_unelems)
  show ?case
  proof (cases "PATH_MAX \<le> length dst")
    case True
    then have "snd (MkdirAll fs dst m) \<noteq> None" for m
      using p by (intro MkdirAll_too_long) (simp add: too_long_def)
    then have "MkdirAll fs dst m \<noteq> (fs1, None)" for m fs1 by (metis snd_conv)
    then show ?thesis unfolding j by (auto split: sum.split prod.split option.split)
  next
    case False
    have e: "copy_entries (copyDir k) fs1 src dst es = copy_entries (copyDir j) fs1 src dst es"
      if "MkdirAll fs dst m = (fs1, None)" "ReadDir fs1 src = Inr es" for m fs1 es
    proof (rule copy_entries_cong)
      fix fs c src assume c: "fs_wf fs" "proper_elem c" "c \<noteq> ''..''"
      have l: "length dst < length (PathJoin dst c)" using length_Join_name [OF Suc.prems(2) c(2,3)] .
      show "copyDir k fs src (PathJoin dst c) = copyDir j fs src (PathJoin dst c)"
        using Suc.prems(2-4) False l c(1) j
        by (intro Suc.IH) (auto dest: clean_path_rooted)
    next
      show wf1: "fs_wf fs1"
        using that(1) Suc.prems(1,2) by (blast intro: MkdirAll_wfI clean_path_rooted)
      show "\<forall>(c, n) \<in> set es. proper_elem c \<and> c \<noteq> ''..''"
        using ReadDir_names [OF wf1 that(2)] by blast
    qed (use copyDir_wf Suc.prems(2) in blast)+
    then show ?thesis unfolding j by (auto split: sum.split prod.split option.split)
  qed
qed simp

end
