(* ===== verification/Files_Handler.thy ===== *)
theory Files_Handler
  imports Files_Copy Go_Path "HOL-Library.Product_Lexorder"
begin

text \<open>
  \<^verbatim>\<open>internal/files/handler.go\<close>: the HTTP handlers of the file manager. A request carries what the
  handlers read of it; the parsed multipart form is part of it, since parsing it is the work of
  \<^verbatim>\<open>net/http\<close>. The state is the file system and the table \<^verbatim>\<open>uploadsInProgress\<close>. One request is
  handled at a time. A handler that does not return is \<^term>\<open>None\<close>.
\<close>

subsection \<open>Requests and responses\<close>

text \<open>A body: the bytes that arrive, and whether reading fails after them.\<close>

record reader =
  rd_data :: string
  rd_err :: bool

record form =
  form_values :: "(string \<times> string) list"
  form_file :: "(string \<times> reader) option"
  form_rest :: reader

record files_req =
  rq_method :: string
  rq_path :: string
  rq_escaped :: string
  rq_query :: "(string \<times> string) list"
  rq_contentType :: string
  rq_tls :: bool
  rq_host :: string
  rq_body :: reader
  rq_form :: "unit + form"

record uploadState =
  up_absPath :: string
  up_fileSize :: int
  up_offset :: int

record files_state =
  tree :: fs
  uploadsInProgress :: "(string \<times> uploadState) list"

text \<open>
  What a request reads of its surroundings: the clock, the host name, and the image decoder and
  scaler (\<^verbatim>\<open>image.Decode\<close>, \<^verbatim>\<open>scaleDimensions\<close> in floating point, the encoders).
\<close>

record files_env =
  env_now :: nat
  env_hostname :: string
  env_thumbnail :: "string \<Rightarrow> string \<Rightarrow> nat \<Rightarrow> nat \<Rightarrow> string option"

datatype file_info = FileInfo
  (fi_path: string) (fi_name: string) (fi_size: int) (fi_extension: string) (fi_mode: nat)
  (fi_isDir: bool) (fi_isSymlink: bool) (fi_type: string) (fi_content: string)
  (fi_items: "file_info list") (fi_numDirs: nat) (fi_numFiles: nat)

datatype files_resp =
    RError nat string
  | ROk
  | RInfo file_info
  | RFile string
  | RDirList "string list"
  | RRedirect string
  | RZip string zip_entries bool
  | RThumb string string
  | RUpload string int
  | ROffset int
  | RBytes int
  | RText string
  | RNodes string

definition QueryGet :: "files_req \<Rightarrow> string \<Rightarrow> string" where
  "QueryGet r k = (case map_of (rq_query r) k of None \<Rightarrow> [] | Some v \<Rightarrow> v)"

text \<open>\<^verbatim>\<open>r.FormValue\<close> looks at the query first, then at the multipart form.\<close>

definition FormValue :: "files_req \<Rightarrow> form \<Rightarrow> string \<Rightarrow> string" where
  "FormValue r f k = (case map_of (rq_query r @ form_values f) k of None \<Rightarrow> [] | Some v \<Rightarrow> v)"

definition parseInt64 :: "string \<Rightarrow> int" where
  "parseInt64 s =
     (case parse_int s of
        None \<Rightarrow> 0
      | Some i \<Rightarrow> max (- 9223372036854775808) (min 9223372036854775807 i))"

definition limit_reader :: "int \<Rightarrow> reader \<Rightarrow> reader" where
  "limit_reader n rd =
     (if nat n \<le> length (rd_data rd) then \<lparr>rd_data = take (nat n) (rd_data rd), rd_err = False\<rparr>
      else rd)"

definition strip_route :: "string \<Rightarrow> string \<Rightarrow> string" where
  "strip_route path route = (let p = TrimPrefix path route in if p = [] then ''/'' else p)"

definition accessDenied :: files_resp where
  "accessDenied = RError 403 ''access denied''"

definition internalError :: files_resp where
  "internalError = RError 500 ''internal error''"

definition statError :: "errno \<Rightarrow> files_resp" where
  "statError e = (if IsNotExist e then RError 404 ''not found'' else internalError)"

subsection \<open>Listing\<close>

definition node_size :: "fnode \<Rightarrow> int" where
  "node_size n = (case n of NFile b _ \<Rightarrow> int (length b) | NLink t \<Rightarrow> int (length t) | NDir _ \<Rightarrow> 4096)"

definition fileMode :: "fnode \<Rightarrow> nat" where
  "fileMode n =
     (case n of NDir m \<Rightarrow> 2147483648 + m | NFile _ m \<Rightarrow> m | NLink _ \<Rightarrow> 134217728 + 511)"

definition buildFileInfo :: "string \<Rightarrow> string \<Rightarrow> fnode \<Rightarrow> file_info" where
  "buildFileInfo name reqPath n =
     FileInfo reqPath name (node_size n) (TrimPrefix (Ext name) ''.'') (fileMode n)
       (node_dir n) (case n of NLink _ \<Rightarrow> True | _ \<Rightarrow> False) (detectFileType name (node_dir n))
       [] [] 0 0"

text \<open>Directories first, then by lower-case name; \<^verbatim>\<open>sort.Slice\<close> leaves the order of equal ones open.\<close>

definition item_key :: "file_info \<Rightarrow> bool \<times> string" where
  "item_key fi = (\<not> fi_isDir fi, ToLower (fi_name fi))"

definition child_info :: "string \<Rightarrow> string \<times> fnode \<Rightarrow> file_info" where
  "child_info reqPath e =
     (let childPath = PathJoin reqPath (fst e);
          childPath = (if HasPrefix childPath ''/'' then childPath else ''/'' @ childPath)
      in buildFileInfo (fst e) childPath (snd e))"

text \<open>
  \<^verbatim>\<open>http.ServeFile\<close>, conditional and range requests apart: it refuses a URL with a \<^verbatim>\<open>..\<close> in it
  and redirects every URL that ends in \<^verbatim>\<open>/index.html\<close>.
\<close>

definition ServeFile :: "fs \<Rightarrow> string \<Rightarrow> string \<Rightarrow> files_resp" where
  "ServeFile fs urlPath absPath =
     (if containsDotDot urlPath then RError 400 ''invalid URL path''
      else if HasSuffix urlPath ''/index.html'' then RRedirect ''./''
      else
        (case Open_read fs absPath of
           Inl e \<Rightarrow> if IsNotExist e then RError 404 ''404 page not found'' else RError 500 ''500 Internal Server Error''
         | Inr q \<Rightarrow>
             (case fs_at fs q of
                Some (NFile b _) \<Rightarrow> RFile b
              | Some (NDir _) \<Rightarrow>
                  if \<not> HasSuffix urlPath ''/'' then RRedirect (Base urlPath @ ''/'')
                  else
                    (case Open_read fs (PathJoin absPath ''index.html'') of
                       Inr q' \<Rightarrow> (case read_loc fs q' of Inr b \<Rightarrow> RFile b | Inl _ \<Rightarrow> RDirList (child_names fs q))
                     | Inl _ \<Rightarrow> RDirList (child_names fs q))
              | _ \<Rightarrow> RError 500 ''500 Internal Server Error'')))"

definition listOrStat :: "files_handler \<Rightarrow> fs \<Rightarrow> files_req \<Rightarrow> files_resp" where
  "listOrStat h fs r =
     (let reqPath = strip_route (rq_path r) ''/api/resources'' in
      case safePath h fs reqPath of
        Inl _ \<Rightarrow> accessDenied
      | Inr absPath \<Rightarrow>
          (case Stat fs absPath of
             Inl e \<Rightarrow> statError e
           | Inr n \<Rightarrow>
               if \<not> node_dir n \<and> QueryGet r ''stream'' = ''1'' then ServeFile fs (rq_path r) absPath
               else
                 (let fi = buildFileInfo (Base absPath) reqPath n in
                  if node_dir n then
                    (case ReadDir fs absPath of
                       Inl _ \<Rightarrow> internalError
                     | Inr es \<Rightarrow>
                         RInfo (FileInfo (fi_path fi) (fi_name fi) (fi_size fi) (fi_extension fi)
                           (fi_mode fi) (fi_isDir fi) (fi_isSymlink fi) (fi_type fi) []
                           (sort_key item_key (map (child_info reqPath) es))
                           (length (filter (node_dir \<circ> snd) es))
                           (length (filter (Not \<circ> node_dir \<circ> snd) es))))
                  else if isTextExt (ToLower (Ext (Base absPath))) \<and> node_size n < 1048576 then
                    (case Open_read fs absPath of
                       Inl _ \<Rightarrow> RInfo fi
                     | Inr q \<Rightarrow>
                         (case read_loc fs q of
                            Inl _ \<Rightarrow> RInfo fi
                          | Inr dat \<Rightarrow>
                              RInfo (FileInfo (fi_path fi) (fi_name fi) (fi_size fi) (fi_extension fi)
                                (fi_mode fi) (fi_isDir fi) (fi_isSymlink fi) (fi_type fi) dat [] 0 0)))
                  else RInfo fi)))"

subsection \<open>Uploads and edits\<close>

text \<open>Creating a file, then copying a reader into it: what was read before an error stays.\<close>

definition store_file :: "fs \<Rightarrow> string \<Rightarrow> reader \<Rightarrow> fs \<times> files_resp" where
  "store_file fs p rd =
     (case MkdirAll fs (Dir p) 493 of
        (fs1, Some _) \<Rightarrow> (fs1, internalError)
      | (fs1, None) \<Rightarrow>
          (case Create fs1 p of
             Inl _ \<Rightarrow> (fs1, internalError)
           | Inr (fs2, q) \<Rightarrow>
               (let fs3 = write_loc q 0 (rd_data rd) fs2 in
                (fs3, if rd_err rd then internalError else ROk))))"

definition exists_at :: "fs \<Rightarrow> string \<Rightarrow> bool" where
  "exists_at fs p = (case Stat fs p of Inr _ \<Rightarrow> True | Inl _ \<Rightarrow> False)"

definition uploadRawBody :: "files_handler \<Rightarrow> fs \<Rightarrow> reader \<Rightarrow> string \<Rightarrow> bool \<Rightarrow> fs \<times> files_resp" where
  "uploadRawBody h fs body absPath override =
     (if \<not> override \<and> exists_at fs absPath then (fs, RError 409 ''file already exists'')
      else store_file fs absPath (limit_reader (MaxUploadSize h) body))"

definition uploadFile :: "files_handler \<Rightarrow> fs \<Rightarrow> files_req \<Rightarrow> fs \<times> files_resp" where
  "uploadFile h fs r =
     (let reqPath = strip_route (rq_path r) ''/api/resources'' in
      case safePath h fs reqPath of
        Inl _ \<Rightarrow> (fs, accessDenied)
      | Inr absPath \<Rightarrow>
          (let override = (QueryGet r ''override'' = ''true'') in
           if HasPrefix (rq_contentType r) ''multipart/'' then
             (case rq_form r of
                Inl _ \<Rightarrow> (fs, RError 413 ''file too large'')
              | Inr f \<Rightarrow>
                  (case form_file f of
                     None \<Rightarrow> uploadRawBody h fs (form_rest f) absPath override
                   | Some (filename, rd) \<Rightarrow>
                       (let destPath = PathJoin absPath (Base filename) in
                        if \<not> override \<and> exists_at fs destPath
                        then (fs, RError 409 ''file already exists'')
                        else store_file fs destPath rd)))
           else uploadRawBody h fs (rq_body r) absPath override))"

definition createOrUpdate :: "files_handler \<Rightarrow> fs \<Rightarrow> files_req \<Rightarrow> fs \<times> files_resp" where
  "createOrUpdate h fs r =
     (let reqPath = strip_route (rq_path r) ''/api/resources'' in
      case safePath h fs reqPath of
        Inl _ \<Rightarrow> (fs, accessDenied)
      | Inr absPath \<Rightarrow>
          if HasSuffix reqPath ''/'' \<or> rq_contentType r = [] then
            (case MkdirAll fs absPath 493 of
               (fs1, Some _) \<Rightarrow> (fs1, internalError)
             | (fs1, None) \<Rightarrow> (fs1, ROk))
          else
            (case MkdirAll fs (Dir absPath) 493 of
               (fs1, Some _) \<Rightarrow> (fs1, internalError)
             | (fs1, None) \<Rightarrow>
                 (let body = limit_reader (MaxUploadSize h) (rq_body r) in
                  if rd_err body then (fs1, internalError)
                  else
                    (case Create_perm fs1 absPath 420 of
                       Inl _ \<Rightarrow> (fs1, internalError)
                     | Inr (fs2, q) \<Rightarrow> (write_loc q 0 (rd_data body) fs2, ROk)))))"

definition deleteResource :: "files_handler \<Rightarrow> fs \<Rightarrow> files_req \<Rightarrow> fs \<times> files_resp" where
  "deleteResource h fs r =
     (let reqPath = TrimPrefix (rq_path r) ''/api/resources'' in
      if reqPath = [] \<or> reqPath = ''/'' then (fs, RError 403 ''cannot delete root'')
      else
        (case safePath h fs reqPath of
           Inl _ \<Rightarrow> (fs, accessDenied)
         | Inr absPath \<Rightarrow>
             (case RemoveAll fs absPath of
                (fs1, Some _) \<Rightarrow> (fs1, internalError)
              | (fs1, None) \<Rightarrow> (fs1, ROk))))"

subsection \<open>Copy, rename, move\<close>

text \<open>The switch on the action, once the destination is settled.\<close>

definition move_or_copy :: "fs \<Rightarrow> string \<Rightarrow> string \<Rightarrow> string \<Rightarrow> fs \<times> files_resp" where
  "move_or_copy fs action srcPath dstPath =
     (if action = ''copy'' then
        (case copyPath fs srcPath dstPath of
           (fs1, Some _) \<Rightarrow> (fs1, internalError)
         | (fs1, None) \<Rightarrow> (fs1, ROk))
      else
        (case Rename fs srcPath dstPath of
           Inr fs1 \<Rightarrow> (fs1, ROk)
         | Inl _ \<Rightarrow>
             (case copyPath fs srcPath dstPath of
                (fs1, Some _) \<Rightarrow> (fs1, internalError)
              | (fs1, None) \<Rightarrow> (fst (RemoveAll fs1 srcPath), ROk))))"

definition place_at :: "fs \<Rightarrow> string \<Rightarrow> string \<Rightarrow> string \<Rightarrow> fs \<times> files_resp" where
  "place_at fs action srcPath dstPath =
     (case MkdirAll fs (Dir dstPath) 493 of
        (fs1, Some _) \<Rightarrow> (fs1, internalError)
      | (fs1, None) \<Rightarrow> move_or_copy fs1 action srcPath dstPath)"

definition renameMove :: "files_handler \<Rightarrow> fs \<Rightarrow> files_req \<Rightarrow> (fs \<times> files_resp) option" where
  "renameMove h fs r =
     (let reqPath = strip_route (rq_path r) ''/api/resources'';
          action = QueryGet r ''action''; destination = QueryGet r ''destination'';
          override = (QueryGet r ''override'' = ''true''); autoRename = (QueryGet r ''rename'' = ''true'')
      in
      if destination = [] then Some (fs, RError 400 ''missing destination'')
      else
        (case safePath h fs reqPath of
           Inl _ \<Rightarrow> Some (fs, accessDenied)
         | Inr srcPath \<Rightarrow>
             (case safePath h fs destination of
                Inl _ \<Rightarrow> Some (fs, accessDenied)
              | Inr dstPath \<Rightarrow>
                  if \<not> override \<and> exists_at fs dstPath then
                    (if autoRename then
                       map_option (place_at fs action srcPath) (generateUniqueName fs dstPath)
                     else Some (fs, RError 409 ''destination already exists''))
                  else Some (place_at fs action srcPath dstPath))))"

definition methodNotAllowed :: files_resp where
  "methodNotAllowed = RError 405 ''method not allowed''"

text \<open>The path below \<^verbatim>\<open>/api/paste\<close> is computed and dropped: the request itself is passed on.\<close>

definition handlePaste :: "files_handler \<Rightarrow> fs \<Rightarrow> files_req \<Rightarrow> (fs \<times> files_resp) option" where
  "handlePaste h fs r =
     (if rq_method r \<noteq> ''PATCH'' then Some (fs, methodNotAllowed) else renameMove h fs r)"

definition handleResources :: "files_handler \<Rightarrow> fs \<Rightarrow> files_req \<Rightarrow> (fs \<times> files_resp) option" where
  "handleResources h fs r =
     (if rq_method r = ''GET'' then Some (fs, listOrStat h fs r)
      else if rq_method r = ''POST'' then Some (uploadFile h fs r)
      else if rq_method r = ''PUT'' then Some (createOrUpdate h fs r)
      else if rq_method r = ''DELETE'' then Some (deleteResource h fs r)
      else if rq_method r = ''PATCH'' then renameMove h fs r
      else Some (fs, methodNotAllowed))"

subsection \<open>Downloads and previews\<close>

text \<open>
  The archive is written to the response as it is made, so its status is 200 even when an error
  cuts it short (the flag of \<^const>\<open>RZip\<close>). The content type of an inline file is left out.
\<close>

definition handleRaw :: "files_handler \<Rightarrow> fs \<Rightarrow> files_req \<Rightarrow> files_resp" where
  "handleRaw h fs r =
     (let reqPath = strip_route (rq_path r) ''/api/raw'' in
      case safePath h fs reqPath of
        Inl _ \<Rightarrow> accessDenied
      | Inr absPath \<Rightarrow>
          (case Stat fs absPath of
             Inl e \<Rightarrow> statError e
           | Inr n \<Rightarrow>
               if node_dir n then
                 (if QueryGet r ''algo'' = ''zip'' then
                    (case zipDir fs absPath of (zs, e) \<Rightarrow> RZip (Base absPath @ ''.zip'') zs (e \<noteq> None))
                  else RError 400 ''is a directory'')
               else ServeFile fs (rq_path r) absPath))"

definition parseThumbnailSize :: "string \<Rightarrow> nat \<times> nat" where
  "parseThumbnailSize size_name =
     (if size_name = ''small'' then (128, 128)
      else if size_name = ''medium'' then (256, 256)
      else if size_name = ''large'' then (512, 512)
      else (256, 256))"

definition serveThumbnail :: "files_env \<Rightarrow> fs \<Rightarrow> string \<Rightarrow> nat \<Rightarrow> nat \<Rightarrow> files_resp option" where
  "serveThumbnail env fs absPath maxW maxH =
     (let ext = ToLower (Ext absPath) in
      if ext \<notin> set [''.jpg'', ''.jpeg'', ''.png'', ''.gif'', ''.bmp'', ''.webp''] then None
      else
        (case Open_read fs absPath of
           Inl _ \<Rightarrow> None
         | Inr q \<Rightarrow>
             (case read_loc fs q of
                Inl _ \<Rightarrow> None
              | Inr dat \<Rightarrow>
                  map_option (RThumb (if ext = ''.png'' then ''image/png'' else ''image/jpeg''))
                    (env_thumbnail env ext dat maxW maxH))))"

definition handlePreview :: "files_env \<Rightarrow> files_handler \<Rightarrow> fs \<Rightarrow> files_req \<Rightarrow> files_resp" where
  "handlePreview env h fs r =
     (let parts = SplitN2 (TrimPrefix (rq_path r) ''/api/preview/'') slash in
      if length parts < 2 then RError 400 ''invalid preview path''
      else
        (case safePath h fs (''/'' @ parts ! 1) of
           Inl _ \<Rightarrow> accessDenied
         | Inr absPath \<Rightarrow>
             if \<not> exists_at fs absPath then RError 404 ''not found''
             else
               (case parseThumbnailSize (parts ! 0) of
                  (width, height) \<Rightarrow>
                    (case serveThumbnail env fs absPath width height of
                       Some resp \<Rightarrow> resp
                     | None \<Rightarrow> ServeFile fs (rq_path r) absPath))))"

definition handleNodes :: "files_env \<Rightarrow> files_resp" where
  "handleNodes env = RNodes (env_hostname env)"

subsection \<open>Uploads in chunks\<close>

fun hex_str :: "nat \<Rightarrow> string" where
  "hex_str n = (if n < 16 then [''0123456789abcdef'' ! n]
                else hex_str (n div 16) @ [''0123456789abcdef'' ! (n mod 16)])"

declare hex_str.simps [simp del]

definition handleUploadInit ::
  "files_env \<Rightarrow> files_handler \<Rightarrow> files_state \<Rightarrow> files_req \<Rightarrow> files_state \<times> files_resp" where
  "handleUploadInit env h st r =
     (if rq_method r \<noteq> ''POST'' then (st, methodNotAllowed)
      else
        (case rq_form r of
           Inl _ \<Rightarrow> (st, RError 400 ''invalid form'')
         | Inr f \<Rightarrow>
             (let size' = parseInt64 (FormValue r f ''file_size'');
                  fullPath = PathJoin (FormValue r f ''storage_path'') (FormValue r f ''file_relative_path'')
              in
              case safePath h (tree st) fullPath of
                Inl _ \<Rightarrow> (st, accessDenied)
              | Inr p \<Rightarrow>
                  (case MkdirAll (tree st) (Dir p) 493 of
                     (fs1, Some _) \<Rightarrow> (st\<lparr>tree := fs1\<rparr>, internalError)
                   | (fs1, None) \<Rightarrow>
                       (case Create fs1 p of
                          Inl _ \<Rightarrow> (st\<lparr>tree := fs1\<rparr>, internalError)
                        | Inr (fs2, _) \<Rightarrow>
                            (let uploadID = hex_str (env_now env) in
                             (st\<lparr>tree := fs2,
                                 uploadsInProgress :=
                                   AList.update uploadID \<lparr>up_absPath = p, up_fileSize = size', up_offset = 0\<rparr>
                                     (uploadsInProgress st)\<rparr>,
                              RUpload uploadID size')))))))"

text \<open>Beyond the largest file offset a write fails; a negative offset makes \<^verbatim>\<open>Seek\<close> fail.\<close>

definition handleUploadChunk ::
  "files_handler \<Rightarrow> files_state \<Rightarrow> files_req \<Rightarrow> files_state \<times> files_resp" where
  "handleUploadChunk h st r =
     (let uploadID = TrimPrefix (rq_path r) ''/upload/'' in
      if rq_method r \<noteq> ''PATCH'' then (st, methodNotAllowed)
      else if uploadID = [] then (st, RError 400 ''missing upload ID'')
      else
        (case map_of (uploadsInProgress st) uploadID of
           None \<Rightarrow> (st, RError 404 ''unknown upload ID'')
         | Some up \<Rightarrow>
             (case rq_form r of
                Inl _ \<Rightarrow> (st, RError 400 ''invalid form'')
              | Inr f \<Rightarrow>
                  (case form_file f of
                     None \<Rightarrow> (st, RError 400 ''missing file field'')
                   | Some (_, rd) \<Rightarrow>
                       (let off = parseInt64 (FormValue r f ''upload_offset'') in
                        case Open_write (tree st) (up_absPath up) of
                          Inl _ \<Rightarrow> (st, internalError)
                        | Inr q \<Rightarrow>
                            if off < 0 then (st, internalError)
                            else if rd_data rd \<noteq> [] \<and> off + int (length (rd_data rd)) > 9223372036854775807
                            then (st, internalError)
                            else
                              (let st1 = st\<lparr>tree := write_loc q (nat off) (rd_data rd) (tree st)\<rparr>;
                                   newOffset = off + int (length (rd_data rd))
                               in
                               if rd_err rd then (st1, internalError)
                               else
                                 (st1\<lparr>uploadsInProgress :=
                                    (if up_fileSize up \<le> newOffset
                                     then AList.delete uploadID (uploadsInProgress st)
                                     else AList.update uploadID (up\<lparr>up_offset := newOffset\<rparr>)
                                       (uploadsInProgress st))\<rparr>,
                                  ROffset newOffset)))))))"

definition handleUploadLink :: "files_req \<Rightarrow> files_resp" where
  "handleUploadLink r =
     RText ((if rq_tls r then ''https'' else ''http'') @ ''://'' @ rq_host r @ ''/upload'')"

definition handleUploadedBytes :: "files_handler \<Rightarrow> fs \<Rightarrow> files_req \<Rightarrow> files_resp" where
  "handleUploadedBytes h fs r =
     (let parentDir = QueryGet r ''parent_dir''; fileName = QueryGet r ''file_name'' in
      if parentDir = [] \<or> fileName = [] then RError 400 ''missing params''
      else
        (case safePath h fs (PathJoin parentDir fileName) of
           Inl _ \<Rightarrow> accessDenied
         | Inr p \<Rightarrow>
             (case Stat fs p of
                Inl _ \<Rightarrow> RBytes 0
              | Inr n \<Rightarrow> RBytes (node_size n))))"

subsection \<open>Routing\<close>

text \<open>
  The multiplexer: it redirects a request whose (escaped) path is not clean, then takes the
  longest registered pattern. The WebDAV routes go to \<^verbatim>\<open>golang.org/x/net/webdav\<close>.
\<close>

definition notFound :: files_resp where
  "notFound = RError 404 ''404 page not found''"

definition on_fs :: "files_state \<Rightarrow> (fs \<times> files_resp) option \<Rightarrow> (files_state \<times> files_resp) option" where
  "on_fs st res = map_option (\<lambda>(fs', resp). (st\<lparr>tree := fs'\<rparr>, resp)) res"

definition under :: "string \<Rightarrow> string \<Rightarrow> bool" where
  "under route p \<longleftrightarrow> route_exact route p \<or> route_subtree (route @ ''/'') p"

definition files_serve ::
  "files_env \<Rightarrow> files_handler \<Rightarrow> files_state \<Rightarrow> files_req \<Rightarrow> (files_state \<times> files_resp) option" where
  "files_serve env h st r =
     (let p = rq_escaped r; fs = tree st in
      if cleanPath p \<noteq> p then Some (st, RRedirect (cleanPath p))
      else if under ''/api/resources'' p then on_fs st (handleResources h fs r)
      else if under ''/api/raw'' p then Some (st, handleRaw h fs r)
      else if under ''/api/paste'' p then on_fs st (handlePaste h fs r)
      else if route_subtree ''/api/preview/'' p then Some (st, handlePreview env h fs r)
      else if route_subtree ''/api/nodes/'' p then Some (st, handleNodes env)
      else if route_exact ''/upload'' p then Some (handleUploadInit env h st r)
      else if route_subtree ''/upload/upload-link/'' p then Some (st, handleUploadLink r)
      else if route_subtree ''/upload/file-uploaded-bytes/'' p then Some (st, handleUploadedBytes h fs r)
      else if list_ex (\<lambda>pat. route_exact pat p)
        [''/api/preview'', ''/api/nodes'', ''/upload/upload-link'', ''/upload/file-uploaded-bytes'']
      then Some (st, RRedirect (p @ ''/''))
      else if route_subtree ''/upload/'' p then Some (handleUploadChunk h st r)
      else Some (st, notFound))"

text \<open>\<^verbatim>\<open>cmd/files/main.go\<close>: the configuration, and the data directory made at start-up.\<close>

definition files_main :: "(string \<Rightarrow> string) \<Rightarrow> string \<Rightarrow> fs \<Rightarrow> files_handler \<times> files_state" where
  "files_main getenv wd fs =
     (let envOr = (\<lambda>k d. if getenv k \<noteq> [] then getenv k else d);
          dataPath = envOr ''DATA_PATH'' ''/packalares/data'';
          maxUpload = parseInt64 (envOr ''MAX_UPLOAD_SIZE'' ''10737418240'')
      in (NewHandler wd dataPath maxUpload,
          \<lparr>tree = fst (MkdirAll fs (Abs wd dataPath) 493), uploadsInProgress = []\<rparr>))"

end
