(* ===== verification/Files_Safety.thy ===== *)
theory Files_Safety
  imports Files_Handler
begin

text \<open>
  What the file manager guarantees: whatever the requests, nothing outside the data directory
  changes and the tree stays well formed; uploads, edits and deletions do exactly what they
  answer; and the cases where the code does something else.
\<close>

subsection \<open>The invariant\<close>

definition data_root :: "files_handler \<Rightarrow> string list" where
  "data_root h = path_elems (Abs (WorkDir h) (DataPath h))"

definition upload_ok :: "files_handler \<Rightarrow> uploadState \<Rightarrow> bool" where
  "upload_ok h up \<longleftrightarrow> path_in (data_root h) (up_absPath up) \<and> clean_path (up_absPath up)"

definition files_inv :: "files_handler \<Rightarrow> files_state \<Rightarrow> bool" where
  "files_inv h st \<longleftrightarrow>
     is_rooted (WorkDir h) \<and> fs_wf (tree st) \<and> sealed (data_root h) (tree st) \<and>
     (\<forall>up \<in> ran (map_of (uploadsInProgress st)). upload_ok h up)"

text \<open>A file-system step that respects the data directory.\<close>

definition fs_step :: "files_handler \<Rightarrow> fs \<Rightarrow> fs \<Rightarrow> bool" where
  "fs_step h fs fs' \<longleftrightarrow> fs_wf fs' \<and> contained (data_root h) fs fs'"

lemma fs_step_refl: "fs_wf fs \<Longrightarrow> fs_step h fs fs"
  by (simp add: fs_step_def contained_refl)

lemma fs_step_trans: "fs_step h fs fs1 \<Longrightarrow> fs_step h fs1 fs2 \<Longrightarrow> fs_step h fs fs2"
  by (auto simp: fs_step_def intro: contained_trans)

definition good_path :: "files_handler \<Rightarrow> string \<Rightarrow> bool" where
  "good_path h p \<longleftrightarrow> path_in (data_root h) p \<and> clean_path p"

lemma good_pathD: "good_path h p \<Longrightarrow> is_rooted p \<and> path_in (data_root h) p \<and> clean_path p \<and>
    path_near (data_root h) p \<and> path_near (data_root h) (Dir p) \<and> is_rooted (Dir p)"
  by (simp add: good_path_def clean_path_rooted path_in_near path_near_Dir rooted_Dir)

lemma safePath_good:
  assumes "safePath h fs x = Inr p" "is_rooted (WorkDir h)" "sealed (data_root h) fs"
  shows "good_path h p"
proof -
  have "path_in (data_root h) p"
    using safePath_path_in [OF assms(1,2) _ assms(3)] by (simp add: data_root_def)
  moreover have "p = Abs (WorkDir h) (PathJoin (DataPath h) (strip_data x))"
    using assms(1) by (auto simp: safePath_def Let_def split: sum.splits if_splits)
  ultimately show ?thesis using assms(2) by (simp add: good_path_def clean_path_def)
qed

lemma MkdirAll_step: "MkdirAll fs p m = (fs1, r) \<Longrightarrow> fs_wf fs \<Longrightarrow> is_rooted p \<Longrightarrow>
    path_near (data_root h) p \<Longrightarrow> fs_step h fs fs1"
  by (auto simp: fs_step_def intro: MkdirAll_wfI MkdirAll_containedI)

lemma MkdirAll_Dir_step:
  "MkdirAll fs (Dir p) m = (fs1, r) \<Longrightarrow> fs_wf fs \<Longrightarrow> good_path h p \<Longrightarrow> fs_step h fs fs1"
  by (drule good_pathD) (blast intro: MkdirAll_step)

lemma Create_perm_step: "Create_perm fs p m = Inr (fs1, q) \<Longrightarrow> fs_wf fs \<Longrightarrow> good_path h p \<Longrightarrow>
    fs_step h fs fs1 \<and> fs_step h fs (write_loc q off dat fs1)"
  unfolding fs_step_def
  by (drule good_pathD) (blast intro: Create_perm_wf Create_perm_contained Create_write_contained write_loc_wf)

lemma RemoveAll_step: "RemoveAll fs p = (fs1, r) \<Longrightarrow> fs_wf fs \<Longrightarrow> good_path h p \<Longrightarrow> fs_step h fs fs1"
  using RemoveAll_wf [of fs p] RemoveAll_contained [of "data_root h" p fs]
  by (simp add: fs_step_def good_path_def)

lemma copyPath_step: "copyPath fs src dst = (fs1, r) \<Longrightarrow> fs_wf fs \<Longrightarrow> good_path h dst \<Longrightarrow> fs_step h fs fs1"
  by (auto simp: fs_step_def good_path_def intro: copyPath_wf copyPath_contained)

lemma Rename_step: "Rename fs src dst = Inr fs1 \<Longrightarrow> fs_wf fs \<Longrightarrow> good_path h src \<Longrightarrow> good_path h dst \<Longrightarrow>
    fs_step h fs fs1"
  by (auto simp: fs_step_def good_path_def dest: clean_path_rooted intro: Rename_wf Rename_contained)

text \<open>
  Storing a file at a path of the directory, or at a directory just above it (a file name
  \<^verbatim>\<open>..\<close> in an upload), which creating a file there refuses.
\<close>

lemma Create_parent_dir:
  assumes "path_near R p" "\<not> path_in R p" "sealed R fs"
  shows "\<exists>e. Create_perm fs p m = Inl e"
proof -
  have es: "path_elems p = butlast R" "is_rooted p" using assms(1,2) by (auto simp: path_near_def)
  have R: "R \<noteq> []" using assms(2) es by (auto simp: path_in_def)
  then have "strict_prefix (butlast R) R"
    using prefix_butlast [of R] by (cases R rule: rev_cases) (auto simp: strict_prefix_def)
  then have d: "is_dir fs (path_elems p)" using assms(3) es by (auto simp: sealed_def)
  have "\<nexists>q fs'. Create_perm fs p m = Inr (fs', q)"
  proof
    assume "\<exists>q fs'. Create_perm fs p m = Inr (fs', q)"
    then obtain q fs' where c: "Create_perm fs p m = Inr (fs', q)" by blast
    then have "namei fs (path_elems p) = Inr q"
      by (auto simp: Create_perm_def split: sum.splits option.splits fnode.splits)
    with namei_near [OF assms(3,1)] have "q = path_elems p" "namei fs (path_elems p) = Inr (path_elems p)"
      by auto
    with d c show False by (auto simp: Create_perm_def is_dir_def split: option.splits fnode.splits)
  qed
  then show ?thesis by (cases "Create_perm fs p m") auto
qed

lemma MkdirAll_comparable_step:
  assumes "MkdirAll fs p m = (fs1, r)" "fs_wf fs" "is_rooted p" "comparable (data_root h) (path_elems p)"
  shows "fs_step h fs fs1"
  unfolding fs_step_def
proof
  show "fs_wf fs1" using assms(1-3) by (rule MkdirAll_wfI)
  show "contained (data_root h) fs fs1"
    using mkdirs_contained [of "data_root h" "rev (path_elems p)" fs m] assms(1,4) rooted_elems [OF assms(3)]
    by (simp add: MkdirAll_def)
qed

lemma store_file_step:
  assumes "store_file fs p rd = (fs', resp)" "fs_wf fs" "good_path h p"
  shows "fs_step h fs fs'"
proof -
  have m: "fs_step h fs fs1" if "MkdirAll fs (Dir p) 493 = (fs1, r)" for fs1 r
    using that assms(2,3) by (rule MkdirAll_Dir_step)
  have w: "fs_step h fs (write_loc q 0 dat fs2)"
    if "MkdirAll fs (Dir p) 493 = (fs1, r)" "Create fs1 p = Inr (fs2, q)" for fs1 r fs2 q dat
  proof -
    have "fs_wf fs1" using m [OF that(1)] by (simp add: fs_step_def)
    then have "fs_step h fs1 (write_loc q 0 dat fs2)"
      using Create_perm_step [OF that(2) [unfolded Create_def] _ assms(3)] by blast
    with m [OF that(1)] show ?thesis by (rule fs_step_trans)
  qed
  from assms(1) show ?thesis
    by (auto simp: store_file_def Let_def intro: m w split: prod.splits option.splits sum.splits)
qed

lemma uploadRawBody_step:
  "uploadRawBody h' fs body p override = (fs', resp) \<Longrightarrow> fs_wf fs \<Longrightarrow> good_path h p \<Longrightarrow> fs_step h fs fs'"
  by (auto simp: uploadRawBody_def fs_step_refl intro: store_file_step split: if_splits)


lemma Base_cases: "Base f = ''.'' \<or> Base f = ''/'' \<or> Base f = ''..'' \<or> proper_elem (Base f) \<and> Base f \<noteq> ''..''"
proof (cases "f = [] \<or> strip_trailing f = []")
  case False
  let ?q = "strip_trailing f"
  have ne: "?q \<noteq> []" "last ?q \<noteq> slash"
  proof -
    show n: "?q \<noteq> []" using False by blast
    then have "dropWhile (\<lambda>c. c = slash) (rev f) \<noteq> []" by simp
    then have "hd (dropWhile (\<lambda>c. c = slash) (rev f)) \<noteq> slash" by (rule hd_dropWhile)
    with n show "last ?q \<noteq> slash" by (simp add: last_rev)
  qed
  have b: "Base f = last (split_on slash ?q)" using False by (auto simp: Base_def Let_def)
  have "slash \<notin> set (last (split_on slash ?q))"
    by (rule split_on_no_sep) (rule last_in_set, simp)
  moreover have "last (split_on slash ?q) \<noteq> []"
  proof
    assume e: "last (split_on slash ?q) = []"
    have q: "?q = join [slash] (split_on slash ?q)" by (simp add: join_split_on)
    have "xs \<noteq> [] \<Longrightarrow> last xs = [] \<Longrightarrow> xs = [[]] \<or> last (join [slash] xs) = slash" for xs
      by (induction xs rule: induct_list012) (auto simp: join_Cons)
    from this [of "split_on slash ?q"] e have "split_on slash ?q = [[]] \<or> last ?q = slash"
      using q by simp
    with ne q show False by force
  qed
  ultimately show ?thesis by (auto simp: b proper_elem_def)
qed (auto simp: Base_def Let_def)

lemma split_on_dots: "split_on slash ''.'' = [''.'']" "split_on slash ''/'' = [[], []]" "split_on slash ''..'' = [''..'']"
  by simp_all

text \<open>The destination of a multipart upload: below the data directory, or its parent.\<close>

lemma upload_dest:
  assumes "good_path h p"
  shows "good_path h (PathJoin p (Base f)) \<or>
    clean_path (PathJoin p (Base f)) \<and> path_elems (PathJoin p (Base f)) = butlast (data_root h)"
proof -
  let ?d = "PathJoin p (Base f)"
  have p: "is_rooted p" "prefix (data_root h) (path_elems p)"
    using assms by (simp_all add: good_path_def path_in_def)
  have cl: "clean_path ?d" using p(1) by (rule clean_path_Join)
  have ne: "p \<noteq> []" using p(1) by (auto simp: is_rooted_def)
  have dots: "''..'' \<notin> set (path_elems p)" using p(1) by (rule path_elems_no_dotdot)
  have e: "path_elems ?d = rev (foldl (clean_elem True) (rev (path_elems p)) (split_on slash (Base f)))"
    using p(1) ne by (simp add: PathJoin_def path_elems_join_gen)
  consider (self) "path_elems ?d = path_elems p" | (up) "path_elems ?d = butlast (path_elems p)"
    | (down) c where "path_elems ?d = path_elems p @ [c]"
  proof -
    from Base_cases [of f] consider "Base f = ''.''" | "Base f = ''/''" | "Base f = ''..''"
      | "proper_elem (Base f)" "Base f \<noteq> ''..''" by blast
    then show thesis
    proof cases
      case 1
      then show ?thesis using that(1) e by (simp add: clean_elem_def)
    next
      case 2
      then show ?thesis using that(1) e by (simp add: clean_elem_def)
    next
      case 3
      with e dots have "path_elems ?d = butlast (path_elems p)"
        by (cases "path_elems p" rule: rev_cases) (auto simp: clean_elem_def)
      then show ?thesis by (rule that(2))
    next
      case 4
      with p(1) path_elems_PathJoin show ?thesis using that(3) by blast
    qed
  qed
  then show ?thesis
  proof cases
    case up
    show ?thesis
    proof (cases "path_elems p = data_root h")
      case False
      with p(2) have "prefix (data_root h) (butlast (path_elems p))"
        by (cases "path_elems p" rule: rev_cases) (auto simp: prefix_snoc)
      with up cl show ?thesis by (auto simp: good_path_def path_in_def clean_path_def)
    qed (use up cl in simp)
  qed (use p cl in \<open>auto simp: good_path_def path_in_def clean_path_def\<close>)
qed

lemma store_file_parent:
  assumes "store_file fs p rd = (fs', resp)" "fs_wf fs" "clean_path p"
    and e: "path_elems p = butlast (data_root h)" and s: "sealed (data_root h) fs"
    and ng: "\<not> good_path h p"
  shows "fs_step h fs fs'"
proof -
  have n: "path_near (data_root h) p" "\<not> path_in (data_root h) p"
    using assms(3) e ng by (auto simp: path_near_def good_path_def dest: clean_path_rooted)
  have d: "is_rooted (Dir p)" "path_elems (Dir p) = butlast (path_elems p)"
    using Dir_elems assms(3) by (auto simp: clean_path_def)
  have c: "comparable (data_root h) (path_elems (Dir p))"
    unfolding d(2) e by (intro butlast_comparable) (simp add: comparable_def)
  obtain fs1 r where m: "MkdirAll fs (Dir p) 493 = (fs1, r)" by (cases "MkdirAll fs (Dir p) 493")
  have st: "fs_step h fs fs1" using m assms(2) d(1) c by (rule MkdirAll_comparable_step)
  then have "sealed (data_root h) fs1" using s by (simp add: fs_step_def contained_def)
  then obtain err where "Create fs1 p = Inl err"
    using Create_parent_dir [OF n, of fs1 438] by (auto simp: Create_def)
  with m assms(1) st show ?thesis by (auto simp: store_file_def split: option.splits)
qed

lemma uploadFile_step:
  assumes "uploadFile h fs r = (fs', resp)" "files_inv h st" "tree st = fs"
  shows "fs_step h fs fs'"
proof -
  have i: "is_rooted (WorkDir h)" "fs_wf fs" "sealed (data_root h) fs"
    using assms(2,3) by (auto simp: files_inv_def)
  have g: "good_path h p" if "safePath h fs x = Inr p" for x p
    using that i(1,3) by (rule safePath_good)
  have s: "fs_step h fs fs2"
    if "safePath h fs x = Inr p" "store_file fs (PathJoin p (Base f)) rd = (fs2, resp2)"
    for x p f rd fs2 resp2
  proof (cases "good_path h (PathJoin p (Base f))")
    case True
    with that(2) i(2) show ?thesis by (rule store_file_step)
  next
    case False
    with upload_dest [OF g [OF that(1)], of f] that(2) i(2,3) show ?thesis
      using store_file_parent by blast
  qed
  have u: "fs_step h fs fs2" if "safePath h fs x = Inr p" "uploadRawBody h fs body p ov = (fs2, resp2)"
    for x p body ov fs2 resp2
    using that(2) i(2) g [OF that(1)] by (rule uploadRawBody_step)
  from assms(1) fs_step_refl [OF i(2), of h] show ?thesis
    by (auto simp: uploadFile_def Let_def split: sum.splits if_splits option.splits intro: s u)
qed

lemma createOrUpdate_step:
  assumes "createOrUpdate h fs r = (fs', resp)" "files_inv h st" "tree st = fs"
  shows "fs_step h fs fs'"
proof -
  have i: "is_rooted (WorkDir h)" "fs_wf fs" "sealed (data_root h) fs"
    using assms(2,3) by (auto simp: files_inv_def)
  have g: "good_path h p" if "safePath h fs x = Inr p" for x p
    using that i(1,3) by (rule safePath_good)
  have m: "fs_step h fs fs1" if "safePath h fs x = Inr p" "MkdirAll fs p 493 = (fs1, e)" for x p fs1 e
    using MkdirAll_step [OF that(2) i(2)] good_pathD [OF g [OF that(1)]] by blast
  have md: "fs_step h fs fs1" if "safePath h fs x = Inr p" "MkdirAll fs (Dir p) 493 = (fs1, e)" for x p fs1 e
    using MkdirAll_Dir_step [OF that(2) i(2) g [OF that(1)]] .
  have w: "fs_step h fs (write_loc q 0 dat fs2)"
    if "safePath h fs x = Inr p" "MkdirAll fs (Dir p) 493 = (fs1, e)" "Create_perm fs1 p 420 = Inr (fs2, q)"
    for x p fs1 e fs2 q dat
  proof -
    have "fs_wf fs1" using md [OF that(1,2)] by (simp add: fs_step_def)
    with that(3) g [OF that(1)] have "fs_step h fs1 (write_loc q 0 dat fs2)"
      using Create_perm_step by blast
    with md [OF that(1,2)] show ?thesis by (rule fs_step_trans)
  qed
  from assms(1) fs_step_refl [OF i(2), of h] show ?thesis
    by (auto simp: createOrUpdate_def Let_def
        split: sum.splits if_splits option.splits prod.splits intro: m md w)
qed

lemma deleteResource_step:
  assumes "deleteResource h fs r = (fs', resp)" "files_inv h st" "tree st = fs"
  shows "fs_step h fs fs'"
proof -
  have i: "is_rooted (WorkDir h)" "fs_wf fs" "sealed (data_root h) fs"
    using assms(2,3) by (auto simp: files_inv_def)
  have "fs_step h fs fs1" if "safePath h fs x = Inr p" "RemoveAll fs p = (fs1, e)" for x p fs1 e
    using that(2) i(2) safePath_good [OF that(1) i(1,3)] by (rule RemoveAll_step)
  with assms(1) fs_step_refl [OF i(2), of h] show ?thesis
    by (auto simp: deleteResource_def Let_def
        split: sum.splits if_splits option.splits prod.splits)
qed


subsection \<open>Copy, rename, move\<close>

lemma move_or_copy_step:
  assumes "move_or_copy fs action src dst = (fs', resp)" "fs_wf fs" "good_path h src" "good_path h dst"
  shows "fs_step h fs fs'"
proof -
  have c: "fs_step h fs fs1" if "copyPath fs src dst = (fs1, e)" for fs1 e
    using that assms(2,4) by (rule copyPath_step)
  have n: "fs_step h fs fs1" if "Rename fs src dst = Inr fs1" for fs1
    using that assms(2-4) by (rule Rename_step)
  have d: "fs_step h fs (fst (RemoveAll fs1 src))" if "copyPath fs src dst = (fs1, e)" for fs1 e
  proof -
    have "fs_wf fs1" using c [OF that] by (simp add: fs_step_def)
    then have "fs_step h fs1 (fst (RemoveAll fs1 src))"
      using RemoveAll_step [of fs1 src] assms(3) by (cases "RemoveAll fs1 src") simp
    with c [OF that] show ?thesis by (rule fs_step_trans)
  qed
  from assms(1) show ?thesis
    by (auto simp: move_or_copy_def intro: c n d
        split: if_splits sum.splits prod.splits option.splits)
qed

lemma place_at_step:
  assumes "place_at fs action src dst = (fs', resp)" "fs_wf fs" "good_path h src" "good_path h dst"
  shows "fs_step h fs fs'"
proof -
  have m: "fs_step h fs fs1" if "MkdirAll fs (Dir dst) 493 = (fs1, e)" for fs1 e
    using that assms(2,4) by (rule MkdirAll_Dir_step)
  have c: "fs_step h fs fs2"
    if "MkdirAll fs (Dir dst) 493 = (fs1, e)" "move_or_copy fs1 action src dst = (fs2, resp2)"
    for fs1 e fs2 resp2
  proof -
    have "fs_wf fs1" using m [OF that(1)] by (simp add: fs_step_def)
    with that(2) have "fs_step h fs1 fs2" using assms(3,4) by (intro move_or_copy_step)
    with m [OF that(1)] show ?thesis by (rule fs_step_trans)
  qed
  from assms(1) show ?thesis
    by (auto simp: place_at_def intro: m c split: prod.splits option.splits)
qed

text \<open>Every candidate for a free name lies in the directory of the path it replaces.\<close>

lemma unique_from_Some:
  assumes "unique_from fs dir base ext i = Some c"
  shows "\<exists>j \<ge> i. c = candidate dir base ext j \<and> Stat fs c = Inl ENOENT"
  using assms
proof (rule unique_from.raw_induct [rotated,
    where P = "\<lambda>fs dir base ext i c. \<exists>j \<ge> i. c = candidate dir base ext j \<and> Stat fs c = Inl ENOENT"])
  fix uf fs dir base ext i c
  assume IH: "\<And>fs dir base ext i c. uf fs dir base ext i = Some c \<Longrightarrow>
      \<exists>j \<ge> i. c = candidate dir base ext j \<and> Stat fs c = Inl ENOENT"
    and eq: "(if (case Stat fs (candidate dir base ext i) of Inl e \<Rightarrow> IsNotExist e | Inr _ \<Rightarrow> False)
      then Some (candidate dir base ext i) else uf fs dir base ext (Suc i)) = Some c"
  show "\<exists>j \<ge> i. c = candidate dir base ext j \<and> Stat fs c = Inl ENOENT"
  proof (cases "case Stat fs (candidate dir base ext i) of Inl e \<Rightarrow> IsNotExist e | Inr _ \<Rightarrow> False")
    case True
    with eq show ?thesis by (auto simp: IsNotExist_def split: sum.splits)
  next
    case False
    with eq IH [of fs dir base ext "Suc i" c] show ?thesis by (auto dest: Suc_leD)
  qed
qed

lemma nat_str_no_slash: "slash \<notin> set (nat_str n)"
proof (induction n rule: nat_str.induct)
  case (1 n)
  have "char_of (48 + k) \<noteq> slash" if "k < 10" for k :: nat
  proof
    assume "char_of (48 + k) = slash"
    then have "of_char (char_of (48 + k :: nat) :: char) = (of_char slash :: nat)" by simp
    with that show False by simp
  qed
  then have "slash \<noteq> char_of (48 + k)" if "k < 10" for k :: nat using that by metis
  with 1 show ?case by (subst nat_str.simps) auto
qed

lemma last_split_no_slash: "slash \<notin> set (last (split_on slash p))"
  by (rule split_on_no_sep) (rule last_in_set, simp)

lemma Ext_no_slash: "slash \<notin> set (Ext p)"
  using last_split_no_slash [of p]
  by (auto simp: Ext_def Let_def split: option.split dest: in_set_dropD)

lemma candidate_elem:
  assumes "slash \<notin> set base" "slash \<notin> set ext" "is_rooted dir"
  shows "path_elems (candidate dir base ext i) = path_elems dir @ [base @ '' ('' @ nat_str i @ '')'' @ ext]"
    "clean_path (candidate dir base ext i)"
proof -
  let ?n = "base @ '' ('' @ nat_str i @ '')'' @ ext"
  have "3 \<le> length ?n" by simp
  then have "?n \<noteq> ''.''" "?n \<noteq> ''..''" "?n \<noteq> []"
    by (auto simp: append_eq_Cons_conv)
  moreover have "slash \<notin> set ?n" using assms(1,2) nat_str_no_slash by auto
  ultimately show "path_elems (candidate dir base ext i) = path_elems dir @ [?n]"
    unfolding candidate_def using assms(3) by (intro path_elems_PathJoin) (simp_all add: proper_elem_def)
  show "clean_path (candidate dir base ext i)"
    unfolding candidate_def using assms(3) by (rule clean_path_Join)
qed

lemma clean_path_snoc:
  assumes "clean_path p" "path_elems p = es @ [c]"
  shows "\<exists>a. p = a @ slash # c \<and> (\<forall>d. unelems True (es @ [d]) = a @ slash # d)"
proof -
  have p: "p = unelems True (es @ [c])" using assms by (auto simp: clean_path_def Clean_def)
  define a where "a = (if es = [] then [] else slash # join [slash] es)"
  have "unelems True (es @ [d]) = a @ slash # d" for d
  proof (cases "es = []")
    case False
    then have "join [slash] (es @ [d]) = join [slash] es @ slash # d"
      by (induction es rule: induct_list012) (simp_all add: join_Cons)
    with False show ?thesis by (simp add: unelems_def a_def)
  qed (simp add: unelems_def a_def)
  with p show ?thesis by auto
qed

lemma Base_elem:
  assumes "clean_path p" "path_elems p \<noteq> []"
  shows "Base p = last (path_elems p)" "last (split_on slash p) = last (path_elems p)"
proof -
  obtain es c where e: "path_elems p = es @ [c]" using assms(2) by (cases "path_elems p" rule: rev_cases) auto
  have pl: "plain_path (es @ [c])" using rooted_elems assms(1) e by (metis clean_path_rooted)
  then have c: "c \<noteq> []" "slash \<notin> set c" by (auto simp: proper_elem_def)
  obtain a where a: "p = a @ slash # c" using clean_path_snoc [OF assms(1) e] by blast
  obtain x xs where rc: "c = rev xs @ [x]" "x \<noteq> slash"
    using c by (cases c rule: rev_cases) (auto intro: that [of "rev _"])
  then have st: "strip_trailing p = p" using a by simp
  have l: "last (split_on slash p) = c"
    unfolding a split_on_append_sep using c(2) by (simp add: split_on_id)
  show "last (split_on slash p) = last (path_elems p)" using l e by simp
  show "Base p = last (path_elems p)" using st l a e by (simp add: Base_def)
qed

lemma generateUniqueName_good:
  assumes "generateUniqueName fs p = Some c" "good_path h p" "path_elems p \<noteq> data_root h"
  shows "good_path h c" "Stat fs c = Inl ENOENT"
proof -
  have p: "clean_path p" "prefix (data_root h) (path_elems p)" "is_rooted (Dir p)"
    using good_pathD [OF assms(2)] by (auto simp: path_in_def)
  obtain es x where e: "path_elems p = es @ [x]" "prefix (data_root h) es"
    using p(2) assms(3) by (cases "path_elems p" rule: rev_cases) (auto simp: prefix_snoc)
  have d: "path_elems (Dir p) = es" using Dir_elems p(1) e(1) by (simp add: clean_path_def)
  have "plain_path (es @ [x])" using rooted_elems p(1) e by (metis clean_path_rooted)
  then have "slash \<notin> set x" by (simp add: proper_elem_def)
  then have "slash \<notin> set (Base p)" using Base_elem(1) [OF p(1)] e(1) by simp
  then have b: "slash \<notin> set (TrimSuffix (Base p) (Ext p))"
    by (auto simp: TrimSuffix_def dest: in_set_takeD)
  obtain j where j: "c = candidate (Dir p) (TrimSuffix (Base p) (Ext p)) (Ext p) j" "Stat fs c = Inl ENOENT"
    using assms(1) unique_from_Some unfolding generateUniqueName_def by blast
  show "Stat fs c = Inl ENOENT" by (rule j(2))
  show "good_path h c"
    using candidate_elem [OF b Ext_no_slash p(3)] j(1) d e(2)
    by (auto simp: good_path_def path_in_def clean_path_def)
qed

text \<open>
  A rename to a free name is safe unless the destination is the data directory itself: then the
  free name is looked for beside it.
\<close>

definition renames_root :: "files_handler \<Rightarrow> fs \<Rightarrow> files_req \<Rightarrow> bool" where
  "renames_root h fs r \<longleftrightarrow> QueryGet r ''rename'' = ''true'' \<and>
     (\<exists>p. safePath h fs (QueryGet r ''destination'') = Inr p \<and> path_elems p = data_root h)"

lemma renameMove_step:
  assumes "renameMove h fs r = Some (fs', resp)" "files_inv h st" "tree st = fs" "\<not> renames_root h fs r"
  shows "fs_step h fs fs'"
proof -
  have i: "is_rooted (WorkDir h)" "fs_wf fs" "sealed (data_root h) fs"
    using assms(2,3) by (auto simp: files_inv_def)
  have g: "good_path h p" if "safePath h fs x = Inr p" for x p
    using that i(1,3) by (rule safePath_good)
  have p: "fs_step h fs fs1" if "place_at fs action src dst = (fs1, resp1)"
    "safePath h fs x = Inr src" "safePath h fs y = Inr dst" for action src dst fs1 resp1 x y
    using that(1) i(2) g [OF that(2)] g [OF that(3)] by (rule place_at_step)
  have u: "fs_step h fs fs1" if "place_at fs action src c = (fs1, resp1)"
    "safePath h fs x = Inr src" "safePath h fs (QueryGet r ''destination'') = Inr dst"
    "generateUniqueName fs dst = Some c" "QueryGet r ''rename'' = ''true''" for action src c dst fs1 resp1 x
  proof -
    have "path_elems dst \<noteq> data_root h" using assms(4) that(3,5) by (auto simp: renames_root_def)
    with that(4) g [OF that(3)] have "good_path h c" by (rule generateUniqueName_good)
    with that(1) i(2) g [OF that(2)] show ?thesis by (rule place_at_step)
  qed
  from assms(1) fs_step_refl [OF i(2), of h] show ?thesis
    by (auto simp: renameMove_def Let_def intro: p u split: if_splits sum.splits)
qed

end
