(* ===== verification/Files_Store.thy ===== *)
theory Files_Store
  imports Files_Safety
begin

text \<open>
  Every request keeps the invariant of the file manager: the chunked uploads, the multiplexer,
  and the states any sequence of requests reaches.
\<close>

lemma fs_step_inv:
  assumes "files_inv h st" "fs_step h (tree st) fs'"
  shows "files_inv h (st\<lparr>tree := fs'\<rparr>)"
  using assms by (auto simp: files_inv_def fs_step_def contained_def)

lemma ran_upd: "up' \<in> ran (m(k \<mapsto> up)) \<Longrightarrow> up' = up \<or> up' \<in> ran m"
  by (auto simp: ran_def split: if_splits)

lemma ran_del: "up' \<in> ran (m(k := None)) \<Longrightarrow> up' \<in> ran m"
  by (auto simp: ran_def split: if_splits)

definition st_step :: "files_handler \<Rightarrow> files_state \<Rightarrow> files_state \<Rightarrow> bool" where
  "st_step h st st' \<longleftrightarrow> fs_step h (tree st) (tree st') \<and>
     (\<forall>up \<in> ran (map_of (uploadsInProgress st')). upload_ok h up)"

lemma st_step_inv: "files_inv h st \<Longrightarrow> st_step h st st' \<Longrightarrow> files_inv h st'"
  by (auto simp: files_inv_def fs_step_def st_step_def contained_def)

lemma st_step_outside:
  "files_inv h st \<Longrightarrow> st_step h st st' \<Longrightarrow> \<not> prefix (data_root h) q \<Longrightarrow>
   fs_at (tree st') q = fs_at (tree st) q"
  by (auto simp: files_inv_def fs_step_def st_step_def contained_def)

lemma st_step_refl: "files_inv h st \<Longrightarrow> st_step h st st"
  by (auto simp: st_step_def files_inv_def fs_step_refl)

lemma st_step_fs: "files_inv h st \<Longrightarrow> fs_step h (tree st) fs' \<Longrightarrow> st_step h st (st\<lparr>tree := fs'\<rparr>)"
  by (auto simp: st_step_def files_inv_def)

lemma handleUploadInit_step:
  assumes "handleUploadInit env h st r = (st', resp)" "files_inv h st"
  shows "st_step h st st'"
proof -
  have i: "is_rooted (WorkDir h)" "fs_wf (tree st)" "sealed (data_root h) (tree st)"
    using assms(2) by (auto simp: files_inv_def)
  have g: "good_path h p" if "safePath h (tree st) x = Inr p" for x p
    using that i(1,3) by (rule safePath_good)
  have m: "fs_step h (tree st) fs1"
    if "safePath h (tree st) x = Inr p" "MkdirAll (tree st) (Dir p) 493 = (fs1, e)" for x p fs1 e
    using that(2) i(2) g [OF that(1)] by (rule MkdirAll_Dir_step)
  have c: "fs_step h (tree st) fs2"
    if "safePath h (tree st) x = Inr p" "MkdirAll (tree st) (Dir p) 493 = (fs1, e)"
      "Create fs1 p = Inr (fs2, q)" for x p fs1 e fs2 q
  proof -
    have "fs_wf fs1" using m [OF that(1,2)] by (simp add: fs_step_def)
    then have "fs_step h fs1 fs2"
      using Create_perm_step [OF that(3) [unfolded Create_def] _ g [OF that(1)]] by blast
    with m [OF that(1,2)] show ?thesis by (rule fs_step_trans)
  qed
  have t: "st_step h st (st\<lparr>tree := fs2, uploadsInProgress :=
      AList.update k \<lparr>up_absPath = p, up_fileSize = s, up_offset = 0\<rparr> (uploadsInProgress st)\<rparr>)"
    if "safePath h (tree st) x = Inr p" "fs_step h (tree st) fs2" for x p fs2 k s
    using assms(2) that g [OF that(1)]
    by (auto simp: st_step_def files_inv_def map_of_update upload_ok_def good_path_def dest!: ran_upd)
  from assms(1) st_step_refl [OF assms(2)] show ?thesis
    by (auto simp: handleUploadInit_def Let_def
        intro: st_step_fs [OF assms(2)] m c t
        split: if_splits sum.splits prod.splits option.splits)
qed

lemma Open_write_loc:
  assumes "Open_write fs p = Inr q" "sealed R fs" "path_in R p"
  shows "prefix R q"
proof -
  have "namei fs (path_elems p) = Inr q"
    using assms(1) by (auto simp: Open_write_def split: sum.splits option.splits fnode.splits)
  then have "q = path_elems p" using namei_near assms(2,3) path_in_near by blast
  with assms(3) show ?thesis by (simp add: path_in_def)
qed

lemma handleUploadChunk_step:
  assumes "handleUploadChunk h st r = (st', resp)" "files_inv h st"
  shows "st_step h st st'"
proof -
  have i: "fs_wf (tree st)" "sealed (data_root h) (tree st)"
    using assms(2) by (auto simp: files_inv_def)
  have up: "upload_ok h up" if "map_of (uploadsInProgress st) k = Some up" for k up
    using assms(2) that by (auto simp: files_inv_def intro: ranI)
  have w: "fs_step h (tree st) (write_loc q n dat (tree st))"
    if "map_of (uploadsInProgress st) k = Some up" "Open_write (tree st) (up_absPath up) = Inr q"
    for k up q n dat
  proof -
    have "prefix (data_root h) q"
      using that(2) i(2) up [OF that(1)] by (auto simp: upload_ok_def intro: Open_write_loc)
    with i(1) show ?thesis by (simp add: fs_step_def write_loc_wf write_loc_contained)
  qed
  have t: "st_step h st (st\<lparr>tree := write_loc q n dat (tree st), uploadsInProgress := ups\<rparr>)"
    if "map_of (uploadsInProgress st) k = Some up" "Open_write (tree st) (up_absPath up) = Inr q"
      "ups = AList.delete k (uploadsInProgress st) \<or>
       ups = AList.update k (up\<lparr>up_offset := off\<rparr>) (uploadsInProgress st)"
    for k up q n dat ups off
    using that(3) w [OF that(1,2)] assms(2) up [OF that(1)]
    by (auto simp: st_step_def files_inv_def map_of_update map_of_delete upload_ok_def
        dest!: ran_upd ran_del)
  from assms(1) st_step_refl [OF assms(2)] show ?thesis
    by (auto simp: handleUploadChunk_def Let_def
        intro: st_step_fs [OF assms(2)] w t
        split: if_splits sum.splits prod.splits option.splits)
qed

lemma on_fs_step:
  assumes "on_fs st res = Some (st', resp)" "files_inv h st"
    and "\<And>fs'. res = Some (fs', resp) \<Longrightarrow> fs_step h (tree st) fs'"
  shows "st_step h st st'"
  using assms by (auto simp: on_fs_def intro: st_step_fs)

lemma handleResources_step:
  assumes "handleResources h (tree st) r = Some (fs', resp)" "files_inv h st"
    and "\<not> renames_root h (tree st) r"
  shows "fs_step h (tree st) fs'"
  using assms(1)
  by (auto simp: handleResources_def
      intro: uploadFile_step [OF _ assms(2) refl] createOrUpdate_step [OF _ assms(2) refl]
        deleteResource_step [OF _ assms(2) refl] renameMove_step [OF _ assms(2) refl assms(3)]
        fs_step_refl assms(2) [unfolded files_inv_def, THEN conjunct2, THEN conjunct1]
      split: if_splits)

lemma handlePaste_step:
  assumes "handlePaste h (tree st) r = Some (fs', resp)" "files_inv h st"
    and "\<not> renames_root h (tree st) r"
  shows "fs_step h (tree st) fs'"
  using assms(1)
  by (auto simp: handlePaste_def
      intro: renameMove_step [OF _ assms(2) refl assms(3)]
        fs_step_refl assms(2) [unfolded files_inv_def, THEN conjunct2, THEN conjunct1]
      split: if_splits)

lemma files_serve_step:
  assumes "files_serve env h st r = Some (st', resp)" "files_inv h st"
    and "\<not> renames_root h (tree st) r"
  shows "st_step h st st'"
proof -
  have p: "st_step h st st'" if "on_fs st (handlePaste h (tree st) r) = Some (st', resp)"
    using that assms(2) handlePaste_step [OF _ assms(2,3)] by (rule on_fs_step)
  have s: "st_step h st st'" if "on_fs st (handleResources h (tree st) r) = Some (st', resp)"
    using that assms(2) handleResources_step [OF _ assms(2,3)] by (rule on_fs_step)
  have n: "st_step h st st" using assms(2) by (rule st_step_refl)
  have u: "st_step h st st'" if "handleUploadInit env h st r = (st', resp)"
    using that assms(2) by (rule handleUploadInit_step)
  have c: "st_step h st st'" if "handleUploadChunk h st r = (st', resp)"
    using that assms(2) by (rule handleUploadChunk_step)
  from assms(1) n show ?thesis
    unfolding files_serve_def Let_def
    by (auto split: if_splits elim: p s intro: u c)
qed

text \<open>The states a sequence of requests reaches.\<close>

inductive files_reach :: "files_handler \<Rightarrow> files_state \<Rightarrow> files_state \<Rightarrow> bool"
  for h :: files_handler and st0 :: files_state where
  reach_start: "files_reach h st0 st0"
| reach_request: "files_reach h st0 st \<Longrightarrow> \<not> renames_root h (tree st) r \<Longrightarrow>
    files_serve env h st r = Some (st', resp) \<Longrightarrow> files_reach h st0 st'"

lemma files_reach_inv:
  assumes "files_reach h st0 st" "files_inv h st0"
  shows "files_inv h st \<and> (\<forall>q. \<not> prefix (data_root h) q \<longrightarrow> fs_at (tree st) q = fs_at (tree st0) q)"
  using assms
proof (induction rule: files_reach.induct)
  case (reach_request st r env st' resp)
  then have "st_step h st st'" by (blast intro: files_serve_step)
  with reach_request st_step_inv st_step_outside show ?case by metis
qed simp

text \<open>
  Files that are written and read back: storing a file makes exactly that file, a request for it
  finds it, and directories made on the way add nothing else.
\<close>

subsection \<open>A walk does not notice what is in the file it ends at\<close>

lemma walk_put_file:
  "walk fs n d es = Inr q \<Longrightarrow> \<not> is_dir fs q \<Longrightarrow> \<not> is_link fs q \<Longrightarrow> q \<noteq> [] \<Longrightarrow>
   walk (fs_put q (NFile b m) fs) n d es = Inr q"
proof (induction fs n d es rule: walk.induct)
  case (2 fs n d c cs)
  show ?case
  proof (cases "length c > NAME_MAX \<or> c = ''.'' \<or> c = ''..''")
    case True
    then consider "length c > NAME_MAX" | "\<not> length c > NAME_MAX" "c = ''.''"
      | "\<not> length c > NAME_MAX" "c \<noteq> ''.''" "c = ''..''" by blast
    then show ?thesis
    proof cases
      case 1
      with "2.prems"(1) show ?thesis by simp
    next
      case 2
      with "2.IH"(1) "2.prems" show ?thesis by simp
    next
      case 3
      with "2.IH"(2) "2.prems" show ?thesis by simp
    qed
  next
    case False
    show ?thesis
    proof (cases "fs_at fs (d @ [c])")
      case None
      with "2.prems" False show ?thesis by (auto simp: fs_at_put split: if_splits)
    next
      case (Some x)
      show ?thesis
      proof (cases x)
        case (NDir k)
        then have "q \<noteq> d @ [c]" using Some "2.prems"(2) by (auto simp: is_dir_def)
        with NDir Some False "2.IH"(3) [OF _ _ _ Some NDir] "2.prems" show ?thesis
          by (simp add: fs_at_put)
      next
        case (NFile b' k)
        with Some False "2.prems" show ?thesis by (auto simp: fs_at_put split: if_splits)
      next
        case (NLink t)
        then have "q \<noteq> d @ [c]" using Some "2.prems"(3) by (auto simp: is_link_def)
        moreover from NLink Some False "2.prems"(1) obtain k where "n = Suc k"
          "walk fs k (if is_rooted t then [] else d) (link_elems t @ cs) = Inr q"
          by (auto split: nat.splits)
        ultimately show ?thesis
          using NLink Some False "2.IH"(4) [OF _ _ _ Some NLink] "2.prems" by (simp add: fs_at_put)
      qed
    qed
  qed
qed simp

lemma namei_put_file:
  "namei fs es = Inr q \<Longrightarrow> \<not> is_dir fs q \<Longrightarrow> \<not> is_link fs q \<Longrightarrow> q \<noteq> [] \<Longrightarrow>
   namei (fs_put q (NFile b m) fs) es = Inr q"
  by (auto simp: namei_def walk_put_file split: if_splits)

lemma namei_write_loc:
  "namei fs es = Inr q \<Longrightarrow> fs_at fs q = Some (NFile b m) \<Longrightarrow> namei (write_loc q off dat fs) es = Inr q"
  by (auto simp: write_loc_def is_dir_def is_link_def intro!: namei_put_file)

text \<open>After creating a file and writing it from the start, the path names exactly what was written.\<close>

lemma create_write_read_empty:
  assumes "Create_perm fs p perm = Inr (fs1, q)"
  shows "namei fs1 (path_elems p) = Inr q \<and> (\<exists>m. fs_at fs1 q = Some (NFile [] m))"
proof -
  have n: "namei fs (path_elems p) = Inr q"
    using assms by (auto simp: Create_perm_def split: sum.splits option.splits fnode.splits)
  have q: "\<not> is_dir fs q" "\<not> is_link fs q"
    using assms n by (auto simp: Create_perm_def is_dir_def is_link_def split: option.splits fnode.splits)
  then have ne: "q \<noteq> []" by auto
  obtain m where m: "fs1 = fs_put q (NFile [] m) fs"
    using assms n by (auto simp: Create_perm_def split: option.splits fnode.splits)
  have "fs_at fs1 q = Some (NFile [] m)" using m ne by (simp add: fs_at_put)
  moreover have "namei fs1 (path_elems p) = Inr q" unfolding m by (rule namei_put_file [OF n q ne])
  ultimately show ?thesis by blast
qed

lemma create_write_read:
  assumes "Create_perm fs p perm = Inr (fs1, q)"
  shows "namei (write_loc q 0 dat fs1) (path_elems p) = Inr q"
    "\<exists>m. fs_at (write_loc q 0 dat fs1) q = Some (NFile dat m)"
  using create_write_read_empty [OF assms]
  by (auto intro: namei_write_loc simp: fs_at_write overwrite_def)

subsection \<open>A path that was accepted and exists is accepted again\<close>

lemma safePath_again:
  assumes "safePath h fs x = Inr p" "is_rooted (WorkDir h)" "sealed (data_root h) fs'" "good_path h p"
    and "namei fs' (path_elems p) = Inr q" "fs_at fs' q \<noteq> None"
  shows "safePath h fs' x = Inr p"
proof -
  have p: "p = Abs (WorkDir h) (PathJoin (DataPath h) (strip_data x))"
    using assms(1) by (auto simp: safePath_def Let_def split: sum.splits if_splits)
  have g: "is_rooted p" "prefix (data_root h) (path_elems p)" "clean_path p" "path_near (data_root h) p"
    using good_pathD [OF assms(4)] by (auto simp: path_in_def)
  have q: "q = path_elems p" using namei_near [OF assms(3) g(4) assms(5)] .
  have "walk fs' 255 [] (path_elems p) = Inr q"
    using assms(5) by (auto simp: namei_def MAX_LINKS_def split: if_splits intro: walk_mono)
  then have ev: "eval_links fs' (path_elems p) = Inr (path_elems p)"
    using q assms(6) by (simp add: eval_links_def)
  have "EvalSymlinks fs' p = Inr p"
    using ev clean_path_unelems [OF g(3)] by (simp add: EvalSymlinks_def)
  then have r: "resolveExisting fs' p = Inr p"
    using clean_path_unelems [OF g(3)]
    by (simp add: resolveExisting_def resolve_up.simps [of fs' "rev (path_elems p)"])
  have root: "is_rooted (realDataAbs h fs')" "path_elems (realDataAbs h fs') = data_root h"
    using is_rooted_realDataAbs realDataAbs_sealed assms(2,3) by (auto simp: data_root_def)
  have "withinDataRoot p (realDataAbs h fs')"
    using rel_stays_below_iff [OF root(1) g(1)] root(2) g(2) by (simp add: withinDataRoot_def)
  with r p show ?thesis by (simp add: safePath_def Let_def)
qed

subsection \<open>Saving a file and downloading it\<close>

lemma createOrUpdate_saved:
  assumes "createOrUpdate h fs r = (fs', ROk)" "files_inv h st" "tree st = fs"
    and "x = strip_route (rq_path r) ''/api/resources''" "\<not> HasSuffix x ''/''" "rq_contentType r \<noteq> []"
  obtains p q m where "safePath h fs x = Inr p" "good_path h p" "namei fs' (path_elems p) = Inr q"
    "fs_at fs' q = Some (NFile (take (nat (MaxUploadSize h)) (rd_data (rq_body r))) m)"
    "sealed (data_root h) fs'"
proof -
  have i: "is_rooted (WorkDir h)" "sealed (data_root h) fs" using assms(2,3) by (auto simp: files_inv_def)
  let ?dat = "rd_data (limit_reader (MaxUploadSize h) (rq_body r))"
  obtain p fs1 fs2 q where p: "safePath h fs x = Inr p" "MkdirAll fs (Dir p) 493 = (fs1, None)"
    "Create_perm fs1 p 420 = Inr (fs2, q)" "fs' = write_loc q 0 ?dat fs2"
    "\<not> rd_err (limit_reader (MaxUploadSize h) (rq_body r))"
    using assms(1,4-6)
    by (auto simp: createOrUpdate_def Let_def accessDenied_def internalError_def
        split: sum.splits if_splits prod.splits option.splits)
  have d: "?dat = take (nat (MaxUploadSize h)) (rd_data (rq_body r))"
    using p(5) by (auto simp: limit_reader_def split: if_splits)
  have "fs_step h fs fs'" using createOrUpdate_step [OF assms(1-3)] .
  then have s: "sealed (data_root h) fs'" using i(2) by (simp add: fs_step_def contained_def)
  show thesis
    using that [OF p(1) safePath_good [OF p(1) i] _ _ s] create_write_read [OF p(3), of ?dat]
    unfolding p(4) d by blast
qed

lemma handleRaw_file:
  assumes "safePath h fs (strip_route (rq_path r) ''/api/raw'') = Inr p"
    and "namei fs (path_elems p) = Inr q" "fs_at fs q = Some (NFile b m)"
    and "\<not> containsDotDot (rq_path r)" "\<not> HasSuffix (rq_path r) ''/index.html''"
  shows "handleRaw h fs r = RFile b"
  using assms
  by (simp add: handleRaw_def Stat_def stat_at_def ServeFile_def Open_read_def node_dir_def)

subsection \<open>Making directories adds directories only\<close>

lemma mkdir_at_adds:
  "mkdir_at fs es perm = Inr fs' \<Longrightarrow> fs_at fs q = Some n \<Longrightarrow> fs_at fs' q = Some n"
  by (auto simp: mkdir_at_def fs_at_put split: sum.splits if_splits elim!: lnamei_cases)

lemma mkdirs_adds: "fs_at fs q = Some n \<Longrightarrow> fs_at (fst (mkdirs fs rs perm)) q = Some n"
proof (induction rs)
  case (Cons c rs)
  then have "fs_at (fst (mkdirs fs rs perm)) q = Some n" by simp
  then show ?case
    using Cons.prems mkdir_at_adds
    by (auto split: sum.split prod.split option.split simp del: rev.simps)
qed simp

lemma MkdirAll_adds: "MkdirAll fs p perm = (fs', r) \<Longrightarrow> fs_at fs q = Some n \<Longrightarrow> fs_at fs' q = Some n"
  using mkdirs_adds [of fs q n "rev (path_elems p)" perm] by (simp add: MkdirAll_def)

lemma walk_name_len: "walk fs n d es = Inr q \<Longrightarrow> \<forall>c \<in> set es. length c \<le> NAME_MAX"
proof (induction fs n d es rule: walk.induct)
  case (2 fs n d c cs)
  show ?case
  proof (cases "length c > NAME_MAX \<or> c = ''.'' \<or> c = ''..''")
    case True
    then consider "length c > NAME_MAX" | "\<not> length c > NAME_MAX" "c = ''.''"
      | "\<not> length c > NAME_MAX" "c \<noteq> ''.''" "c = ''..''" by blast
    then show ?thesis
      by cases (use "2.IH"(1,2) "2.prems" in auto)
  next
    case False
    then show ?thesis
      using "2.IH"(3,4) "2.prems" by (force split: option.splits fnode.splits nat.splits if_splits)
  qed
qed simp

text \<open>A location whose names are short enough is where its own path leads.\<close>

lemma walk_to:
  assumes "fs_wf fs"
  shows "fs_at fs (d @ es) \<noteq> None \<Longrightarrow> \<not> is_link fs (d @ es) \<Longrightarrow> \<forall>c \<in> set es. length c \<le> NAME_MAX \<Longrightarrow>
    walk fs n d es = Inr (d @ es)"
proof (induction es arbitrary: d)
  case (Cons c cs)
  have "fs_at fs ((d @ [c]) @ cs) \<noteq> None" using Cons.prems(1) by simp
  then have c: "c \<noteq> ''.''" "c \<noteq> ''..''"
    using fs_wf_names [OF assms Cons.prems(1)] by (auto simp: proper_elem_def)
  have len: "\<not> length c > NAME_MAX" using Cons.prems(3) by simp
  show ?case
  proof (cases "cs = []")
    case True
    with c len Cons.prems show ?thesis by (auto simp: is_link_def split: fnode.splits)
  next
    case False
    then have "is_dir fs (d @ [c])"
      using fs_wf_prefix_dir [OF assms, of "d @ [c]" cs] Cons.prems(1) by simp
    then obtain m where "fs_at fs (d @ [c]) = Some (NDir m)" by (auto dest: is_dirD)
    moreover have "walk fs n (d @ [c]) cs = Inr ((d @ [c]) @ cs)"
      by (rule Cons.IH) (use Cons.prems in auto)
    ultimately show ?thesis using c len by simp
  qed
qed simp

text \<open>An upload that may not overwrite leaves every file there was.\<close>

lemma store_file_keeps:
  assumes "store_file fs p rd = (fs', resp)" "\<not> exists_at fs p" "fs_wf fs"
    and s: "sealed (data_root h) fs" and g: "good_path h p"
    and f: "fs_at fs q = Some (NFile b m)"
  shows "fs_at fs' q = Some (NFile b m)"
proof -
  obtain fs1 e where m: "MkdirAll fs (Dir p) 493 = (fs1, e)" by (cases "MkdirAll fs (Dir p) 493")
  have f1: "fs_at fs1 q = Some (NFile b m)" using MkdirAll_adds [OF m f] .
  have s1: "sealed (data_root h) fs1"
    using MkdirAll_Dir_step [OF m assms(3) g] s by (simp add: fs_step_def contained_def)
  show ?thesis
  proof (cases "\<exists>fs2 q'. e = None \<and> Create fs1 p = Inr (fs2, q')")
    case False
    with m f1 assms(1) show ?thesis by (auto simp: store_file_def split: option.splits sum.splits)
  next
    case True
    then obtain fs2 q' where c: "Create_perm fs1 p 438 = Inr (fs2, q')" "e = None"
      by (auto simp: Create_def)
    have fs': "fs' = write_loc q' 0 (rd_data rd) fs2"
      using assms(1) m c by (simp add: store_file_def Create_def Let_def)
    have n: "namei fs1 (path_elems p) = Inr q'"
      using c(1) by (auto simp: Create_perm_def split: sum.splits option.splits fnode.splits)
    then have q': "q' = path_elems p" using namei_near [OF s1 _ n] good_pathD [OF g] by blast
    have "q \<noteq> q'"
    proof
      assume eq: "q = q'"
      have "\<forall>c \<in> set (path_elems p). length c \<le> NAME_MAX" "\<not> too_long (path_elems p)"
        using n walk_name_len by (auto simp: namei_def split: if_splits)
      then have "namei fs (path_elems p) = Inr (path_elems p)"
        using walk_to [OF assms(3), of "[]" "path_elems p" MAX_LINKS] f eq q'
        by (simp add: namei_def is_link_def)
      with f eq q' assms(2) show False by (simp add: exists_at_def Stat_def stat_at_def)
    qed
    moreover obtain x where "fs2 = fs_put q' x fs1" "q' \<noteq> []"
      using c(1) n by (cases "q' = []") (auto simp: Create_perm_def split: option.splits fnode.splits)
    ultimately show ?thesis using f1
      by (auto simp: fs' fs_at_write fs_at_put split: option.split fnode.split)
  qed
qed

text \<open>The same for an upload named after the parent directory, which is refused.\<close>

lemma store_file_parent_keeps:
  assumes "store_file fs p rd = (fs', resp)" "fs_wf fs" "clean_path p"
    and e: "path_elems p = butlast (data_root h)" and s: "sealed (data_root h) fs"
    and ng: "\<not> good_path h p" and f: "fs_at fs q = Some n"
  shows "fs_at fs' q = Some n"
proof -
  have n: "path_near (data_root h) p" "\<not> path_in (data_root h) p"
    using assms(3) e ng by (auto simp: path_near_def good_path_def dest: clean_path_rooted)
  have d: "is_rooted (Dir p)" "path_elems (Dir p) = butlast (path_elems p)"
    using Dir_elems assms(3) by (auto simp: clean_path_def)
  have c: "comparable (data_root h) (path_elems (Dir p))"
    unfolding d(2) e by (intro butlast_comparable) (simp add: comparable_def)
  obtain fs1 r where m: "MkdirAll fs (Dir p) 493 = (fs1, r)" by (cases "MkdirAll fs (Dir p) 493")
  have "fs_step h fs fs1" using m assms(2) d(1) c by (rule MkdirAll_comparable_step)
  then have "sealed (data_root h) fs1" using s by (simp add: fs_step_def contained_def)
  then obtain err where "Create fs1 p = Inl err"
    using Create_parent_dir [OF n, of fs1 438] by (auto simp: Create_def)
  with m assms(1) MkdirAll_adds [OF m f] show ?thesis by (auto simp: store_file_def split: option.splits)
qed

end
