(* ===== verification/Files_Chunks.thy ===== *)
theory Files_Chunks
  imports Files_Store
begin

text \<open>
  Chunked uploads sent in order, the search for a free name, and what a listing shows.
\<close>

subsection \<open>Chunks in order\<close>

definition is_chunk :: "files_req \<Rightarrow> string \<Rightarrow> nat \<Rightarrow> string \<Rightarrow> bool" where
  "is_chunk r uploadID off dat \<longleftrightarrow>
     rq_method r = ''PATCH'' \<and> TrimPrefix (rq_path r) ''/upload/'' = uploadID \<and>
     (\<exists>f fname. rq_form r = Inr f \<and> form_file f = Some (fname, \<lparr>rd_data = dat, rd_err = False\<rparr>) \<and>
        parseInt64 (FormValue r f ''upload_offset'') = int off)"

fun in_order :: "string \<Rightarrow> nat \<Rightarrow> (files_req \<times> string) list \<Rightarrow> bool" where
  "in_order uploadID off [] = True"
| "in_order uploadID off ((r, dat) # cs) =
     (is_chunk r uploadID off dat \<and> dat \<noteq> [] \<and> in_order uploadID (off + length dat) cs)"

fun send_chunks :: "files_handler \<Rightarrow> files_state \<Rightarrow> files_req list \<Rightarrow> files_state" where
  "send_chunks h st [] = st"
| "send_chunks h st (r # rs) = send_chunks h (fst (handleUploadChunk h st r)) rs"

text \<open>The state between two chunks: \<open>sofar\<close> has arrived and more is expected.\<close>

definition receiving :: "files_state \<Rightarrow> string \<Rightarrow> uploadState \<Rightarrow> string list \<Rightarrow> string \<Rightarrow> bool" where
  "receiving st uploadID up q sofar \<longleftrightarrow>
     map_of (uploadsInProgress st) uploadID = Some up \<and>
     namei (tree st) (path_elems (up_absPath up)) = Inr q \<and>
     (\<exists>m. fs_at (tree st) q = Some (NFile sofar m))"

lemma overwrite_end: "overwrite b (length b) dat = b @ dat"
  by (simp add: overwrite_def)

lemma chunk_received:
  assumes "receiving st uploadID up q sofar" "is_chunk r uploadID (length sofar) dat"
    and "uploadID \<noteq> []" "int (length sofar) + int (length dat) \<le> up_fileSize up"
    and "up_fileSize up \<le> 9223372036854775807"
  shows "fst (handleUploadChunk h st r) =
    st\<lparr>tree := write_loc q (length sofar) dat (tree st),
       uploadsInProgress :=
         (if up_fileSize up \<le> int (length sofar) + int (length dat)
          then AList.delete uploadID (uploadsInProgress st)
          else AList.update uploadID (up\<lparr>up_offset := int (length sofar) + int (length dat)\<rparr>)
            (uploadsInProgress st))\<rparr>"
proof -
  obtain m where r: "map_of (uploadsInProgress st) uploadID = Some up"
    "namei (tree st) (path_elems (up_absPath up)) = Inr q" "fs_at (tree st) q = Some (NFile sofar m)"
    using assms(1) by (auto simp: receiving_def)
  then have "Open_write (tree st) (up_absPath up) = Inr q" by (simp add: Open_write_def)
  with r assms(2-5) show ?thesis by (auto simp: is_chunk_def handleUploadChunk_def Let_def)
qed

lemma written_end:
  assumes "namei fs es = Inr q" "fs_at fs q = Some (NFile sofar m)"
  shows "namei (write_loc q (length sofar) dat fs) es = Inr q"
    "fs_at (write_loc q (length sofar) dat fs) q = Some (NFile (sofar @ dat) m)"
  using namei_write_loc [OF assms] assms(2) by (simp_all add: fs_at_write overwrite_end)

lemma send_chunks_all:
  "receiving st uploadID up q sofar \<Longrightarrow> in_order uploadID (length sofar) cs \<Longrightarrow> cs \<noteq> [] \<Longrightarrow>
   uploadID \<noteq> [] \<Longrightarrow> up_fileSize up = int (length sofar) + int (length (concat (map snd cs))) \<Longrightarrow>
   up_fileSize up \<le> 9223372036854775807 \<Longrightarrow>
   (\<exists>m. fs_at (tree (send_chunks h st (map fst cs))) q = Some (NFile (sofar @ concat (map snd cs)) m)) \<and>
   map_of (uploadsInProgress (send_chunks h st (map fst cs))) uploadID = None"
proof (induction cs arbitrary: st up sofar)
  case (Cons x cs)
  obtain r dat where x: "x = (r, dat)" by (cases x)
  have c: "is_chunk r uploadID (length sofar) dat" using Cons.prems(2) x by simp
  obtain m where rc: "map_of (uploadsInProgress st) uploadID = Some up"
    "namei (tree st) (path_elems (up_absPath up)) = Inr q" "fs_at (tree st) q = Some (NFile sofar m)"
    using Cons.prems(1) by (auto simp: receiving_def)
  have sz: "int (length sofar) + int (length dat) \<le> up_fileSize up" using Cons.prems(5) x by simp
  let ?st = "fst (handleUploadChunk h st r)"
  note st1 = chunk_received [OF Cons.prems(1) c Cons.prems(4) sz Cons.prems(6), of h]
  note w = written_end [OF rc(2,3), of dat]
  show ?case
  proof (cases "cs = []")
    case True
    with w x st1 Cons.prems(5) show ?thesis by (simp add: map_of_delete)
  next
    case False
    then obtain y ys where y: "cs = y # ys" by (cases cs) auto
    then have "snd y \<noteq> []" using Cons.prems(2) x by (cases y) auto
    then have "0 < int (length (snd y))" by simp
    then have more: "\<not> up_fileSize up \<le> int (length sofar) + int (length dat)"
      using Cons.prems(5) x y by (simp del: length_greater_0_conv of_nat_0_less_iff)
    let ?up = "up\<lparr>up_offset := int (length sofar) + int (length dat)\<rparr>"
    have "receiving ?st uploadID ?up q (sofar @ dat)"
      unfolding receiving_def st1 using w more by (simp add: map_of_update)
    moreover have "in_order uploadID (length (sofar @ dat)) cs" using Cons.prems(2) x by simp
    ultimately have "(\<exists>m. fs_at (tree (send_chunks h ?st (map fst cs))) q =
          Some (NFile ((sofar @ dat) @ concat (map snd cs)) m)) \<and>
        map_of (uploadsInProgress (send_chunks h ?st (map fst cs))) uploadID = None"
      using Cons.prems(4-6) x False by (intro Cons.IH [where up = ?up]) simp_all
    then show ?thesis using x by simp
  qed
qed simp

lemma handleUploadInit_receiving:
  assumes "handleUploadInit env h st r = (st1, RUpload uploadID size')"
  obtains p q f where "rq_form r = Inr f" "uploadID = hex_str (env_now env)"
    "safePath h (tree st) (PathJoin (FormValue r f ''storage_path'') (FormValue r f ''file_relative_path'')) = Inr p"
    "size' = parseInt64 (FormValue r f ''file_size'')"
    "receiving st1 uploadID \<lparr>up_absPath = p, up_fileSize = size', up_offset = 0\<rparr> q []"
proof -
  obtain f p fs1 fs2 q where f: "rq_form r = Inr f" "uploadID = hex_str (env_now env)"
    "safePath h (tree st) (PathJoin (FormValue r f ''storage_path'') (FormValue r f ''file_relative_path'')) = Inr p"
    "size' = parseInt64 (FormValue r f ''file_size'')"
    "Create_perm fs1 p 438 = Inr (fs2, q)"
    "st1 = st\<lparr>tree := fs2, uploadsInProgress :=
       AList.update uploadID \<lparr>up_absPath = p, up_fileSize = size', up_offset = 0\<rparr> (uploadsInProgress st)\<rparr>"
    using assms
    by (auto simp: handleUploadInit_def Let_def methodNotAllowed_def accessDenied_def internalError_def
        Create_def split: if_splits sum.splits prod.splits option.splits)
  have "receiving st1 uploadID \<lparr>up_absPath = p, up_fileSize = size', up_offset = 0\<rparr> q []"
    using create_write_read_empty [OF f(5)] unfolding f(6) receiving_def by (simp add: map_of_update)
  with f show thesis by (intro that)
qed


subsection \<open>A free name is found\<close>

lemma walk_unsnoc:
  assumes "fs_wf fs"
  shows "walk fs n d (es @ [c]) = Inr q \<Longrightarrow> is_dir fs d \<Longrightarrow> c \<noteq> ''.'' \<Longrightarrow>
    \<exists>k e. walk fs n d es = Inr e \<and> is_dir fs e \<and> (\<forall>xs. walk fs n d (es @ xs) = walk fs k e xs)"
  using assms
proof (induction fs n d es rule: walk.induct)
  case (1 fs n d)
  then show ?case by auto
next
  case (2 fs n d a cs)
  show ?case
  proof (cases "length a > NAME_MAX \<or> a = ''.'' \<or> a = ''..''")
    case True
    then consider "length a > NAME_MAX" | "\<not> length a > NAME_MAX" "a = ''.''"
      | "\<not> length a > NAME_MAX" "a \<noteq> ''.''" "a = ''..''" by blast
    then show ?thesis
    proof cases
      case 1
      with "2.prems"(1) show ?thesis by simp
    next
      case 2
      with "2.IH"(1) "2.prems" show ?thesis by simp
    next
      case 3
      with "2.IH"(2) "2.prems" fs_wf_butlast show ?thesis by simp
    qed
  next
    case False
    show ?thesis
    proof (cases "fs_at fs (d @ [a])")
      case None
      with "2.prems"(1) False show ?thesis by simp
    next
      case (Some x)
      show ?thesis
      proof (cases x)
        case (NDir k)
        then have "is_dir fs (d @ [a])" using Some by (simp add: is_dir_def)
        with NDir Some False "2.IH"(3) [OF _ _ _ Some NDir] "2.prems" show ?thesis by simp
      next
        case (NFile b k)
        with Some False "2.prems"(1) show ?thesis by simp
      next
        case (NLink t)
        with Some False "2.prems"(1) obtain k where n: "n = Suc k"
          and w: "walk fs k (if is_rooted t then [] else d) ((link_elems t @ cs) @ [c]) = Inr q"
          by (auto split: nat.splits)
        have "is_dir fs (if is_rooted t then [] else d)" using "2.prems"(2) by simp
        with "2.IH"(4) [OF _ _ _ Some NLink n w _ "2.prems"(3,4)] False
        obtain k' e where "walk fs k (if is_rooted t then [] else d) (link_elems t @ cs) = Inr e"
          "is_dir fs e"
          "\<forall>xs. walk fs k (if is_rooted t then [] else d) ((link_elems t @ cs) @ xs) = walk fs k' e xs"
          by blast
        with NLink Some False n show ?thesis by auto
      qed
    qed
  qed
qed

lemma nat_str_length_mono: "m \<le> n \<Longrightarrow> length (nat_str m) \<le> length (nat_str n)"
proof (induction n arbitrary: m rule: nat_str.induct)
  case (1 n)
  show ?case
  proof (cases "n < 10")
    case True
    with 1(2) show ?thesis by (simp add: nat_str.simps [of m] nat_str.simps [of n])
  next
    case False
    show ?thesis
    proof (cases "m < 10")
      case True
      with False show ?thesis by (simp add: nat_str.simps [of m] nat_str.simps [of n])
    next
      case False
      with \<open>\<not> n < 10\<close> 1 show ?thesis
        by (simp add: nat_str.simps [of m] nat_str.simps [of n] div_le_mono)
    qed
  qed
qed

lemma digit_inj: "j < 10 \<Longrightarrow> k < 10 \<Longrightarrow> char_of (48 + j :: nat) = (char_of (48 + k :: nat) :: char) \<Longrightarrow> j = k"
proof -
  assume jk: "j < 10" "k < 10" and e: "char_of (48 + j :: nat) = (char_of (48 + k :: nat) :: char)"
  from e have "of_char (char_of (48 + j :: nat) :: char) = (of_char (char_of (48 + k :: nat) :: char) :: nat)"
    by simp
  with jk show "j = k" by simp
qed

lemma nat_str_inj: "nat_str m = nat_str n \<Longrightarrow> m = n"
proof (induction n arbitrary: m rule: nat_str.induct)
  case (1 n)
  have ne: "nat_str k \<noteq> []" "[] \<noteq> nat_str k" for k by (subst nat_str.simps, simp)+
  show ?case
  proof (cases "n < 10")
    case True
    with 1(2) ne have "m < 10" by (cases "m < 10") (simp_all add: nat_str.simps [of m] nat_str.simps [of n])
    with True 1(2) show ?thesis
      by (simp add: nat_str.simps [of m] nat_str.simps [of n] digit_inj)
  next
    case False
    with 1(2) ne have m: "\<not> m < 10"
      by (cases "m < 10") (auto simp: nat_str.simps [of m] nat_str.simps [of n] append_eq_Cons_conv)
    with False 1(2) have "nat_str (m div 10) = nat_str (n div 10)"
      "char_of (48 + m mod 10 :: nat) = (char_of (48 + n mod 10 :: nat) :: char)"
      by (simp_all add: nat_str.simps [of m] nat_str.simps [of n])
    with 1(1) False have "m div 10 = n div 10" "m mod 10 = n mod 10"
      using digit_inj [of "m mod 10" "n mod 10"] by simp_all
    then show ?thesis by (metis div_mult_mod_eq)
  qed
qed

lemma unique_from_finds:
  "Stat fs (candidate dir base ext (i + k)) = Inl ENOENT \<Longrightarrow> unique_from fs dir base ext i \<noteq> None"
proof (induction k arbitrary: i)
  case 0
  then show ?case by (subst unique_from.simps) (simp add: IsNotExist_def)
next
  case (Suc k)
  then have "unique_from fs dir base ext (Suc i) \<noteq> None" by simp
  then show ?case by (subst unique_from.simps) auto
qed

end
