(* ===== verification/Files_Properties.thy ===== *)
theory Files_Properties
  imports Files_Chunks "HOL-Library.Multiset"
begin

text \<open>
  The statements on the file manager as a whole, with an example for each, and the places where
  the code departs from what it means to do.
\<close>

subsection \<open>The search for a free name\<close>

lemma Ext_suffix:
  assumes "clean_path p" "path_elems p \<noteq> []"
  shows "length (TrimSuffix (Base p) (Ext p)) + length (Ext p) = length (Base p)"
proof -
  have "suffix (Ext p) (Base p)"
    using Base_elem [OF assms] by (auto simp: Ext_def Let_def suffix_drop split: option.split)
  then show ?thesis by (auto simp: TrimSuffix_def suffix_length_le dest: suffix_length_le)
qed

lemma lookup_key: "fs_at fs q \<noteq> None \<Longrightarrow> q \<noteq> [] \<Longrightarrow> q \<in> set (map fst fs)"
  by (simp add: fs_at_def map_of_eq_None_iff)

text \<open>The directory of a path that exists, and where a name in it leads.\<close>

lemma exists_parent:
  assumes "fs_wf fs" "clean_path p" "exists_at fs p" "path_elems p = es @ [x]"
  shows "\<exists>k e. is_dir fs e \<and> (\<forall>c. walk fs MAX_LINKS [] (es @ [c]) = walk fs k e [c])"
proof -
  have "plain_path (es @ [x])" using rooted_elems assms(2,4) by (metis clean_path_rooted)
  then have x: "x \<noteq> ''.''" by (simp add: proper_elem_def)
  obtain q where "walk fs MAX_LINKS [] (es @ [x]) = Inr q"
    using assms(3,4) by (auto simp: exists_at_def Stat_def stat_at_def namei_def split: sum.splits if_splits)
  from walk_unsnoc [OF assms(1) this _ x] show ?thesis by (simp del: walk.simps) blast
qed

lemma candidate_lookup:
  assumes "clean_path p" "path_elems p = es @ [x]" "is_dir fs e"
    and "\<forall>c. walk fs MAX_LINKS [] (es @ [c]) = walk fs k e [c]"
  defines "b \<equiv> TrimSuffix (Base p) (Ext p)"
  defines "n \<equiv> \<lambda>i. b @ '' ('' @ nat_str i @ '')'' @ Ext p"
  shows "path_elems (candidate (Dir p) b (Ext p) i) = es @ [n i]"
    and "NAME_MAX < length (n i) \<Longrightarrow> Stat fs (candidate (Dir p) b (Ext p) i) \<noteq> Inl ENOENT"
    and "length (n i) \<le> NAME_MAX \<Longrightarrow> \<not> too_long (es @ [n i]) \<Longrightarrow>
      Stat fs (candidate (Dir p) b (Ext p) i) \<noteq> Inl ENOENT \<Longrightarrow> e @ [n i] \<in> set (map fst fs)"
    and "length (n i) = length x + 3 + length (nat_str i)"
    and "too_long (es @ [n i]) \<longleftrightarrow> PATH_MAX \<le> length p + 3 + length (nat_str i)"
proof -
  have ne: "path_elems p \<noteq> []" using assms(2) by simp
  have pl: "plain_path (es @ [x])" using rooted_elems assms(1,2) by (metis clean_path_rooted)
  have bx: "Base p = x" using Base_elem(1) [OF assms(1) ne] assms(2) by simp
  have d: "is_rooted (Dir p)" "path_elems (Dir p) = es"
    using Dir_elems assms(1,2) by (auto simp: clean_path_def)
  have sb: "slash \<notin> set b" using pl bx by (auto simp: b_def TrimSuffix_def proper_elem_def dest: in_set_takeD)
  show e1: "path_elems (candidate (Dir p) b (Ext p) i) = es @ [n i]"
    using candidate_elem(1) [OF sb Ext_no_slash d(1), where i = i] d(2) by (simp add: n_def)
  have len: "3 \<le> length (n i)" by (simp add: n_def)
  then have nd: "n i \<noteq> ''.''" "n i \<noteq> ''..''" by auto
  have st: "Stat fs (candidate (Dir p) b (Ext p) i) =
      (if too_long (es @ [n i]) then Inl ENAMETOOLONG
       else case walk fs k e [n i] of Inl er \<Rightarrow> Inl er
         | Inr q \<Rightarrow> (case fs_at fs q of None \<Rightarrow> Inl ENOENT | Some m \<Rightarrow> Inr m))"
    using assms(4) by (simp add: Stat_def stat_at_def namei_def e1)
  show "NAME_MAX < length (n i) \<Longrightarrow> Stat fs (candidate (Dir p) b (Ext p) i) \<noteq> Inl ENOENT"
    unfolding st by simp
  show "length (n i) \<le> NAME_MAX \<Longrightarrow> \<not> too_long (es @ [n i]) \<Longrightarrow>
      Stat fs (candidate (Dir p) b (Ext p) i) \<noteq> Inl ENOENT \<Longrightarrow> e @ [n i] \<in> set (map fst fs)"
    unfolding st using nd by (intro lookup_key) (auto split: option.splits)
  show ln: "length (n i) = length x + 3 + length (nat_str i)"
    using Ext_suffix [OF assms(1) ne] bx by (simp add: n_def b_def)
  obtain a where "p = a @ slash # x" "\<forall>c. unelems True (es @ [c]) = a @ slash # c"
    using clean_path_snoc [OF assms(1,2)] by blast
  with ln show "too_long (es @ [n i]) \<longleftrightarrow> PATH_MAX \<le> length p + 3 + length (nat_str i)"
    by (auto simp: too_long_def)
qed

text \<open>
  Looking for a free name beside an existing path ends, with a path in the same directory that
  is free, whenever the name with the largest number tried stays within the limits of the
  kernel; one more candidate than the tree has nodes is enough.
\<close>

lemma unique_name_found:
  assumes "fs_wf fs" "clean_path p" "exists_at fs p" "path_elems p \<noteq> []"
    and "length (Base p) + 3 + length (nat_str (Suc (length fs))) \<le> NAME_MAX"
    and "length p + 3 + length (nat_str (Suc (length fs))) < PATH_MAX"
  shows "\<exists>c. generateUniqueName fs p = Some c \<and> Stat fs c = Inl ENOENT \<and>
    butlast (path_elems c) = butlast (path_elems p)"
proof -
  obtain es x where e: "path_elems p = es @ [x]" using assms(4) by (cases "path_elems p" rule: rev_cases) auto
  have bx: "Base p = x" using Base_elem(1) [OF assms(2,4)] e by simp
  obtain k d where d: "is_dir fs d" "\<forall>c. walk fs MAX_LINKS [] (es @ [c]) = walk fs k d [c]"
    using exists_parent [OF assms(1-3) e] by blast
  let ?c = "candidate (Dir p) (TrimSuffix (Base p) (Ext p)) (Ext p)"
  let ?n = "\<lambda>i. TrimSuffix (Base p) (Ext p) @ '' ('' @ nat_str i @ '')'' @ Ext p"
  note c = candidate_lookup [OF assms(2) e d]
  have "\<exists>i \<in> {1..Suc (length fs)}. Stat fs (?c i) = Inl ENOENT"
  proof (rule ccontr)
    assume none: "\<not> ?thesis"
    have "d @ [?n i] \<in> set (map fst fs)" if "i \<in> {1..Suc (length fs)}" for i
    proof (rule c(3))
      have "length (nat_str i) \<le> length (nat_str (Suc (length fs)))"
        using that by (intro nat_str_length_mono) simp
      then show "length (?n i) \<le> NAME_MAX" "\<not> too_long (es @ [?n i])"
        unfolding c(4) c(5) using assms(5,6) bx by auto
      show "Stat fs (?c i) \<noteq> Inl ENOENT" using none that by blast
    qed
    then have "(\<lambda>i. d @ [?n i]) ` {1..Suc (length fs)} \<subseteq> set (map fst fs)" by blast
    moreover have "inj_on (\<lambda>i. d @ [?n i]) {1..Suc (length fs)}"
      by (auto simp: inj_on_def intro: nat_str_inj)
    ultimately have "Suc (length fs) \<le> card (set (map fst fs))"
      using card_inj_on_le [of "\<lambda>i. d @ [?n i]" "{1..Suc (length fs)}" "set (map fst fs)"] by simp
    also have "\<dots> \<le> length (map fst fs)" by (rule card_length)
    finally show False by simp
  qed
  then obtain j where "Stat fs (?c (1 + j)) = Inl ENOENT"
    by (metis atLeastAtMost_iff le_Suc_ex)
  then have "generateUniqueName fs p \<noteq> None"
    unfolding generateUniqueName_def by (rule unique_from_finds)
  then obtain cn where cn: "generateUniqueName fs p = Some cn" by blast
  then obtain i where "cn = ?c i" "Stat fs cn = Inl ENOENT"
    using unique_from_Some unfolding generateUniqueName_def by blast
  with cn e c(1) show ?thesis by auto
qed

text \<open>With a name of 252 bytes or more no candidate fits, and the search never ends.\<close>

lemma unique_name_never_found:
  assumes "fs_wf fs" "clean_path p" "exists_at fs p" "path_elems p \<noteq> []" "252 \<le> length (Base p)"
  shows "generateUniqueName fs p = None"
proof (rule ccontr)
  assume "generateUniqueName fs p \<noteq> None"
  then obtain i where i: "Stat fs (candidate (Dir p) (TrimSuffix (Base p) (Ext p)) (Ext p) i) = Inl ENOENT"
    using unique_from_Some unfolding generateUniqueName_def by blast
  obtain es x where e: "path_elems p = es @ [x]" using assms(4) by (cases "path_elems p" rule: rev_cases) auto
  have bx: "Base p = x" using Base_elem(1) [OF assms(2,4)] e by simp
  obtain k d where d: "is_dir fs d" "\<forall>c. walk fs MAX_LINKS [] (es @ [c]) = walk fs k d [c]"
    using exists_parent [OF assms(1-3) e] by blast
  note c = candidate_lookup [OF assms(2) e d]
  have "nat_str i \<noteq> []" by (subst nat_str.simps) simp
  then have "1 \<le> length (nat_str i)" by (cases "nat_str i") auto
  with assms(5) bx c(2) c(4) i show False by (simp add: NAME_MAX_def)
qed

subsection \<open>Listings\<close>

lemma set_child_names: "set (child_names fs q) = {c. fs_at fs (q @ [c]) \<noteq> None}"
proof -
  have "c \<in> set (child_names fs q)" if "map_of fs (q @ [c]) \<noteq> None" for c
  proof -
    from that have "q @ [c] \<in> set (map fst fs)" by (simp add: map_of_eq_None_iff)
    then show ?thesis by (force simp: child_names_def)
  qed
  with child_names_at show ?thesis by (fastforce simp: fs_at_def)
qed

lemma dir_entries_names: "map fst (dir_entries fs q) = child_names fs q"
proof -
  have "map fst (List.map_filter (\<lambda>c. map_option (Pair c) (fs_at fs (q @ [c]))) cs) = cs"
    if "set cs \<subseteq> {c. fs_at fs (q @ [c]) \<noteq> None}" for cs
    using that by (induction cs) (auto simp: List.map_filter_def)
  then show ?thesis unfolding dir_entries_def using set_child_names by blast
qed

lemma child_info_fields [simp]:
  "fi_name (child_info rp e) = fst e" "fi_isDir (child_info rp e) = node_dir (snd e)"
  by (simp_all add: child_info_def buildFileInfo_def Let_def)

lemma length_filter_perm: "mset xs = mset ys \<Longrightarrow> length (filter P xs) = length (filter P ys)"
  by (metis mset_filter size_mset)

text \<open>
  Listing a directory shows each of its entries once, directories first and each group by
  lower-case name, and the two counters count the directories and the rest.
\<close>

lemma listing_complete_and_sorted:
  assumes "listOrStat h fs r = RInfo fi" "safePath h fs (strip_route (rq_path r) ''/api/resources'') = Inr p"
    and "namei fs (path_elems p) = Inr q" "is_dir fs q"
  shows "set (map fi_name (fi_items fi)) = {c. fs_at fs (q @ [c]) \<noteq> None} \<and>
    distinct (map fi_name (fi_items fi)) \<and> sorted (map item_key (fi_items fi)) \<and>
    (\<forall>it \<in> set (fi_items fi). fi_isDir it = is_dir fs (q @ [fi_name it])) \<and>
    fi_numDirs fi = length (filter fi_isDir (fi_items fi)) \<and>
    fi_numFiles fi = length (filter (Not \<circ> fi_isDir) (fi_items fi))"
proof -
  obtain m where m: "fs_at fs q = Some (NDir m)" using assms(4) by (auto dest: is_dirD)
  let ?es = "dir_entries fs q"
  let ?rp = "strip_route (rq_path r) ''/api/resources''"
  let ?its = "map (child_info ?rp) ?es"
  have fi: "fi_items fi = sort_key item_key ?its" "fi_numDirs fi = length (filter (node_dir \<circ> snd) ?es)"
    "fi_numFiles fi = length (filter (Not \<circ> node_dir \<circ> snd) ?es)"
    using assms(1-3) m
    by (auto simp: listOrStat_def Let_def Stat_def stat_at_def node_dir_def ReadDir_def)
  have names: "map fi_name ?its = child_names fs q" by (simp add: dir_entries_names comp_def)
  have pm: "mset (fi_items fi) = mset ?its" by (simp add: fi(1))
  then have st: "set (fi_items fi) = set ?its" by (rule mset_eq_setD)
  have "mset (map fi_name (fi_items fi)) = mset (map fi_name ?its)"
    using arg_cong [OF pm, of "image_mset fi_name"] by (simp only: mset_map)
  then have ms: "mset (map fi_name (fi_items fi)) = mset (child_names fs q)" by (simp only: names)
  have "set (map fi_name (fi_items fi)) = set (child_names fs q)" using ms by (rule mset_eq_setD)
  moreover have "distinct (map fi_name (fi_items fi))"
    using mset_eq_imp_distinct_iff [OF ms] by (simp add: child_names_def)
  moreover have dirs: "fi_isDir it = is_dir fs (q @ [fi_name it])" if "it \<in> set (fi_items fi)" for it
  proof -
    from that st obtain c n where c: "(c, n) \<in> set ?es" "it = child_info ?rp (c, n)" by auto
    then have "fs_at fs (q @ [c]) = Some n" by (simp add: dir_entries_at)
    then show ?thesis unfolding c(2) by (cases n) (simp_all add: is_dir_def node_dir_def)
  qed
  moreover have "length (filter fi_isDir (fi_items fi)) = length (filter fi_isDir ?its)"
    "length (filter (Not \<circ> fi_isDir) (fi_items fi)) = length (filter (Not \<circ> fi_isDir) ?its)"
    using length_filter_perm [OF pm] by blast+
  ultimately show ?thesis
    by (simp add: fi(2,3) set_child_names filter_map comp_def)
      (simp add: fi(1))
qed

text \<open>
  The properties of the file manager with an example for each, and the requests on which it does
  something else than it means to.
\<close>

subsection \<open>An example\<close>

definition sample_handler :: files_handler where
  "sample_handler = NewHandler ''/'' ''/d'' 8"

definition sample_tree :: fs where
  "sample_tree = [([''d''], NDir 493), ([''d'', ''a.txt''], NFile ''old'' 420), ([''d'', ''B''], NDir 493)]"

definition sample_state :: files_state where
  "sample_state = \<lparr>tree = sample_tree, uploadsInProgress = []\<rparr>"

definition sample_req :: "string \<Rightarrow> string \<Rightarrow> (string \<times> string) list \<Rightarrow> string \<Rightarrow> string \<Rightarrow> files_req" where
  "sample_req meth path query ctype body =
     \<lparr>rq_method = meth, rq_path = path, rq_escaped = path, rq_query = query, rq_contentType = ctype,
      rq_tls = False, rq_host = ''h'', rq_body = \<lparr>rd_data = body, rd_err = False\<rparr>, rq_form = Inl ()\<rparr>"

definition sample_form :: "string \<Rightarrow> string \<Rightarrow> (string \<times> string) list \<Rightarrow> (string \<times> string) option \<Rightarrow> files_req" where
  "sample_form meth path vals file =
     (sample_req meth path [] ''multipart/form-data'' [])
       \<lparr>rq_form := Inr \<lparr>form_values = vals,
          form_file = map_option (\<lambda>(n, d). (n, \<lparr>rd_data = d, rd_err = False\<rparr>)) file,
          form_rest = \<lparr>rd_data = [], rd_err = False\<rparr>\<rparr>\<rparr>"

definition sample_env :: files_env where
  "sample_env = \<lparr>env_now = 7, env_hostname = ''n'', env_thumbnail = (\<lambda>e d w h. None)\<rparr>"

lemma sample_lookup: "fs_at sample_tree q \<noteq> None \<longleftrightarrow>
    q = [] \<or> q = [''d''] \<or> q = [''d'', ''a.txt''] \<or> q = [''d'', ''B'']"
  by (auto simp: fs_at_def sample_tree_def)

lemma sample_root: "data_root sample_handler = [''d'']" "is_rooted (WorkDir sample_handler)"
  by code_simp+

lemma sample_wf: "fs_wf sample_tree"
  unfolding fs_wf_def sample_lookup
  by (auto simp: append_eq_Cons_conv is_dir_def fs_at_def sample_tree_def proper_elem_def)

lemma sample_no_link: "\<not> is_link sample_tree q"
  by (auto simp: is_link_def fs_at_def sample_tree_def split: option.splits if_splits)

lemma sample_sealed: "sealed [''d''] sample_tree"
proof -
  have "strict_prefix q [''d''] \<longleftrightarrow> q = []" for q
    by (cases q) (auto simp: strict_prefix_def)
  moreover have "fs_at sample_tree q \<noteq> Some (NLink t)" for q t
    using sample_no_link [of q] by (auto simp: is_link_def)
  ultimately show ?thesis by (simp add: sealed_def)
qed

lemma sample_inv: "files_inv sample_handler sample_state"
  by (simp add: files_inv_def sample_root sample_wf sample_sealed sample_state_def)

subsection \<open>Confinement\<close>

text \<open>
  C3: whatever requests arrive (none of them a rename with automatic name onto the data directory
  itself), the tree stays well formed, no symbolic link appears in the data directory, every
  upload in progress stays in it, and no node outside of it changes, appears or disappears.
\<close>

theorem requests_stay_in_data_root:
  assumes "files_inv h st0" "files_reach h st0 st"
  shows "files_inv h st \<and> (\<forall>q. \<not> prefix (data_root h) q \<longrightarrow> fs_at (tree st) q = fs_at (tree st0) q)"
  using assms files_reach_inv by blast

lemma sample_put: "files_serve sample_env sample_handler sample_state
    (sample_req ''PUT'' ''/api/resources/B/c.md'' [] ''text/plain'' ''0123456789'')
  = Some (\<lparr>tree = sample_tree @ [([''d'', ''B'', ''c.md''], NFile ''01234567'' 420)],
           uploadsInProgress = []\<rparr>, ROk)"
  by code_simp

theorem requests_stay_in_data_root_witness:
  "\<not> prefix [''d''] [''etc''] \<and>
     fs_at (sample_tree @ [([''d'', ''B'', ''c.md''], NFile ''01234567'' 420)]) [''etc'']
       = fs_at sample_tree [''etc'']"
proof -
  have "\<not> renames_root sample_handler (tree sample_state)
      (sample_req ''PUT'' ''/api/resources/B/c.md'' [] ''text/plain'' ''0123456789'')"
    by (simp add: renames_root_def QueryGet_def sample_req_def)
  then have "files_reach sample_handler sample_state
      \<lparr>tree = sample_tree @ [([''d'', ''B'', ''c.md''], NFile ''01234567'' 420)], uploadsInProgress = []\<rparr>"
    using reach_request [OF reach_start _ sample_put] by blast
  from requests_stay_in_data_root [OF sample_inv this] show ?thesis
    by (simp add: sample_root sample_state_def)
qed

text \<open>
  C4: with any symbolic links in the tree, a path the guard accepts leads, when it is opened, to an
  object below the real data directory; and when its last name is free, the object made there
  is below it too.
\<close>

theorem safePath_confines:
  assumes "safePath h fs x = Inr p" "is_rooted (WorkDir h)"
    and "Open_read fs p = Inr q \<or> (lnamei fs (path_elems p) = Inr q \<and> fs_at fs q = None)"
  shows "prefix (path_elems (realDataAbs h fs)) q"
  using assms(3)
proof
  assume "Open_read fs p = Inr q"
  then have "namei fs (path_elems p) = Inr q" "fs_at fs q \<noteq> None"
    by (auto simp: Open_read_def split: sum.splits if_splits)
  with assms(1,2) show ?thesis by (rule safePath_existing)
qed (use safePath_free [OF assms(1,2)] in blast)

text \<open>The data directory behind a link, and a link out of it that is refused.\<close>

definition linked_tree :: fs where
  "linked_tree = [([''d''], NLink ''mnt/x''), ([''mnt''], NDir 493), ([''mnt'', ''x''], NDir 493),
     ([''mnt'', ''x'', ''f''], NFile ''1'' 420), ([''mnt'', ''x'', ''out''], NLink ''/etc''),
     ([''etc''], NDir 493), ([''etc'', ''passwd''], NFile ''s'' 420)]"

theorem safePath_confines_witness:
  "safePath sample_handler linked_tree ''/data/f'' = Inr ''/d/f'' \<and>
   prefix (path_elems (realDataAbs sample_handler linked_tree)) [''mnt'', ''x'', ''f''] \<and>
   safePath sample_handler linked_tree ''/out/passwd'' = Inl TraversalDenied"
proof (intro conjI)
  show a: "safePath sample_handler linked_tree ''/data/f'' = Inr ''/d/f''" by code_simp
  have "Open_read linked_tree ''/d/f'' = Inr [''mnt'', ''x'', ''f'']" by code_simp
  with a sample_root(2) show "prefix (path_elems (realDataAbs sample_handler linked_tree)) [''mnt'', ''x'', ''f'']"
    by (intro safePath_confines) auto
  show "safePath sample_handler linked_tree ''/out/passwd'' = Inl TraversalDenied" by code_simp
qed

subsection \<open>Saving, uploading, reading back\<close>

text \<open>
  A file saved by \<^verbatim>\<open>PUT /api/resources\<close> with the answer ok is what \<^verbatim>\<open>GET /api/raw\<close> of the same
  path returns: the body up to the upload limit.
\<close>

lemma saved_file_is_served:
  assumes "files_inv h st" "createOrUpdate h (tree st) r = (fs', ROk)"
    and "strip_route (rq_path r) ''/api/resources'' = x" "\<not> HasSuffix x ''/''" "rq_contentType r \<noteq> []"
    and "strip_route (rq_path r') ''/api/raw'' = x"
    and "\<not> containsDotDot (rq_path r')" "\<not> HasSuffix (rq_path r') ''/index.html''"
  shows "handleRaw h fs' r' = RFile (take (nat (MaxUploadSize h)) (rd_data (rq_body r)))"
proof -
  obtain p q m where p: "safePath h (tree st) x = Inr p" "good_path h p" "namei fs' (path_elems p) = Inr q"
    "fs_at fs' q = Some (NFile (take (nat (MaxUploadSize h)) (rd_data (rq_body r))) m)"
    "sealed (data_root h) fs'"
    using createOrUpdate_saved [OF assms(2,1) refl assms(3) [symmetric] assms(4,5)] by blast
  have "is_rooted (WorkDir h)" using assms(1) by (simp add: files_inv_def)
  then have "safePath h fs' x = Inr p" using safePath_again [OF p(1) _ p(5,2,3)] p(4) by simp
  with assms(6) p(3,4) assms(7,8) show ?thesis by (intro handleRaw_file) simp_all
qed

lemma saved_file_is_served_witness:
  "handleRaw sample_handler (sample_tree @ [([''d'', ''B'', ''c.md''], NFile ''01234567'' 420)])
     (sample_req ''GET'' ''/api/raw/B/c.md'' [] [] []) = RFile ''01234567''"
proof -
  let ?r = "sample_req ''PUT'' ''/api/resources/B/c.md'' [] ''text/plain'' ''0123456789''"
  let ?r' = "sample_req ''GET'' ''/api/raw/B/c.md'' [] [] []"
  have c: "createOrUpdate sample_handler (tree sample_state) ?r =
      (sample_tree @ [([''d'', ''B'', ''c.md''], NFile ''01234567'' 420)], ROk)" by code_simp
  have s: "strip_route (rq_path ?r) ''/api/resources'' = ''/B/c.md''" "\<not> HasSuffix ''/B/c.md'' ''/''"
    "rq_contentType ?r \<noteq> []" "strip_route (rq_path ?r') ''/api/raw'' = ''/B/c.md''"
    "\<not> containsDotDot (rq_path ?r')" "\<not> HasSuffix (rq_path ?r') ''/index.html''"
    by code_simp+
  have "take (nat (MaxUploadSize sample_handler)) (rd_data (rq_body ?r)) = ''01234567''" by code_simp
  with saved_file_is_served [OF sample_inv c s] show ?thesis by simp
qed

text \<open>
  C20: the chunks of an upload, sent in order and of the announced total size, leave exactly their
  concatenation at the path of the upload, and close the upload.
\<close>

theorem chunks_assemble:
  assumes "handleUploadInit env h st r0 = (st1, RUpload uploadID announced)"
    and "in_order uploadID 0 cs" "cs \<noteq> []" "announced = int (length (concat (map snd cs)))"
  shows "\<exists>p q m f. rq_form r0 = Inr f \<and>
    safePath h (tree st) (PathJoin (FormValue r0 f ''storage_path'') (FormValue r0 f ''file_relative_path'')) = Inr p \<and>
    namei (tree st1) (path_elems p) = Inr q \<and>
    fs_at (tree (send_chunks h st1 (map fst cs))) q = Some (NFile (concat (map snd cs)) m) \<and>
    map_of (uploadsInProgress (send_chunks h st1 (map fst cs))) uploadID = None"
proof -
  obtain p q f where i: "rq_form r0 = Inr f" "uploadID = hex_str (env_now env)"
    "safePath h (tree st) (PathJoin (FormValue r0 f ''storage_path'') (FormValue r0 f ''file_relative_path'')) = Inr p"
    "announced = parseInt64 (FormValue r0 f ''file_size'')"
    "receiving st1 uploadID \<lparr>up_absPath = p, up_fileSize = announced, up_offset = 0\<rparr> q []"
    using assms(1) by (rule handleUploadInit_receiving)
  have "uploadID \<noteq> []" unfolding i(2) by (subst hex_str.simps) simp
  moreover have "announced \<le> 9223372036854775807"
    unfolding i(4) by (auto simp: parseInt64_def split: option.split)
  ultimately have "(\<exists>m. fs_at (tree (send_chunks h st1 (map fst cs))) q =
      Some (NFile ([] @ concat (map snd cs)) m)) \<and>
    map_of (uploadsInProgress (send_chunks h st1 (map fst cs))) uploadID = None"
    using assms(2-4) by (intro send_chunks_all [OF i(5)]) simp_all
  moreover have "namei (tree st1) (path_elems p) = Inr q" using i(5) by (simp add: receiving_def)
  ultimately show ?thesis using i(1,3) by auto
qed

definition sample_init :: files_req where
  "sample_init = sample_form ''POST'' ''/upload''
     [(''storage_path'', ''/B''), (''file_relative_path'', ''n.bin''), (''file_size'', ''5'')] None"

definition sample_chunks :: "(files_req \<times> string) list" where
  "sample_chunks =
     [(sample_form ''PATCH'' ''/upload/7'' [(''upload_offset'', ''0'')] (Some (''c'', ''abc'')), ''abc''),
      (sample_form ''PATCH'' ''/upload/7'' [(''upload_offset'', ''3'')] (Some (''c'', ''de'')), ''de'')]"

theorem chunks_assemble_witness:
  "\<exists>q m. fs_at (tree (send_chunks sample_handler
       (fst (handleUploadInit sample_env sample_handler sample_state sample_init)) (map fst sample_chunks))) q
     = Some (NFile ''abcde'' m)"
proof -
  have i: "handleUploadInit sample_env sample_handler sample_state sample_init =
      (fst (handleUploadInit sample_env sample_handler sample_state sample_init), RUpload ''7'' 5)"
    by code_simp
  have f: "is_chunk (sample_form ''PATCH'' ''/upload/7'' [(''upload_offset'', off)] (Some (''c'', dat))) ''7'' n dat"
    if "parseInt64 off = int n" for off n dat
    using that
    by (auto simp: is_chunk_def sample_form_def sample_req_def FormValue_def TrimPrefix_def)
  have "in_order ''7'' 0 sample_chunks"
    unfolding sample_chunks_def in_order.simps
    by (intro conjI f) code_simp+
  from chunks_assemble [OF i this] show ?thesis by (auto simp: sample_chunks_def)
qed

text \<open>
  An upload that does not ask to overwrite leaves the contents of every existing file.\<close>

lemma upload_without_override_keeps:
  assumes "files_inv h st" "uploadFile h (tree st) r = (fs', resp)" "QueryGet r ''override'' \<noteq> ''true''"
    and "fs_at (tree st) q = Some (NFile b m)"
  shows "fs_at fs' q = Some (NFile b m)"
proof -
  have i: "is_rooted (WorkDir h)" "fs_wf (tree st)" "sealed (data_root h) (tree st)"
    using assms(1) by (auto simp: files_inv_def)
  have g: "good_path h p" if "safePath h (tree st) x = Inr p" for x p
    using that i(1,3) by (rule safePath_good)
  have k: "fs_at fs2 q = Some (NFile b m)"
    if "store_file (tree st) p rd = (fs2, resp2)" "\<not> exists_at (tree st) p" "good_path h p"
    for p rd fs2 resp2
    using that(1,2) i(2,3) that(3) assms(4) by (rule store_file_keeps)
  have u: "fs_at fs2 q = Some (NFile b m)"
    if "safePath h (tree st) x = Inr p" "uploadRawBody h (tree st) body p False = (fs2, resp2)"
    for x p body fs2 resp2
    using that(2) k g [OF that(1)] assms(4) by (auto simp: uploadRawBody_def split: if_splits)
  have n: "fs_at fs2 q = Some (NFile b m)"
    if "safePath h (tree st) x = Inr p" "store_file (tree st) (PathJoin p (Base fn)) rd = (fs2, resp2)"
      "\<not> exists_at (tree st) (PathJoin p (Base fn))" for x p fn rd fs2 resp2
  proof (cases "good_path h (PathJoin p (Base fn))")
    case True
    with that show ?thesis using k by blast
  next
    case False
    with upload_dest [OF g [OF that(1)], of fn] that(2) i(2,3) assms(4) show ?thesis
      using store_file_parent_keeps by blast
  qed
  from assms(2-4) show ?thesis
    by (auto simp: uploadFile_def Let_def split: sum.splits if_splits option.splits intro: u n)
qed

lemma upload_without_override_keeps_witness:
  "fs_at (fst (uploadFile sample_handler (tree sample_state)
      (sample_req ''POST'' ''/api/resources/B/x'' [] ''text/plain'' ''new''))) [''d'', ''a.txt'']
    = Some (NFile ''old'' 420)"
proof -
  let ?r = "sample_req ''POST'' ''/api/resources/B/x'' [] ''text/plain'' ''new''"
  have q: "QueryGet ?r ''override'' \<noteq> ''true''" by code_simp
  have f: "fs_at (tree sample_state) [''d'', ''a.txt''] = Some (NFile ''old'' 420)" by code_simp
  show ?thesis
    using upload_without_override_keeps [OF sample_inv _ q f] by (metis prod.collapse)
qed

theorem unique_name_found_witness:
  "\<exists>c. generateUniqueName sample_tree ''/d/a.txt'' = Some c \<and> Stat sample_tree c = Inl ENOENT"
proof -
  have a: "clean_path ''/d/a.txt''" "exists_at sample_tree ''/d/a.txt''" "path_elems ''/d/a.txt'' \<noteq> []"
    by code_simp+
  have l: "length (Base ''/d/a.txt'') = 5" "length (nat_str (Suc (length sample_tree))) = 1"
    by code_simp+
  have "length (Base ''/d/a.txt'') + 3 + length (nat_str (Suc (length sample_tree))) \<le> NAME_MAX"
    "length ''/d/a.txt'' + 3 + length (nat_str (Suc (length sample_tree))) < PATH_MAX"
    unfolding l by (simp_all add: NAME_MAX_def PATH_MAX_def)
  with unique_name_found [OF sample_wf a] show ?thesis by blast
qed

theorem listing_complete_and_sorted_witness:
  "\<exists>fi. listOrStat sample_handler sample_tree (sample_req ''GET'' ''/api/resources/'' [] [] []) = RInfo fi \<and>
     set (map fi_name (fi_items fi)) = {c. fs_at sample_tree ([''d''] @ [c]) \<noteq> None} \<and>
     sorted (map item_key (fi_items fi)) \<and> fi_numFiles fi = 1"
proof -
  let ?r = "sample_req ''GET'' ''/api/resources/'' [] [] []"
  have e: "Stat sample_tree ''/d'' = Inr (NDir 493)"
    "ReadDir sample_tree ''/d'' = Inr [(''B'', NDir 493), (''a.txt'', NFile ''old'' 420)]"
    by code_simp+
  have s: "safePath sample_handler sample_tree (strip_route (rq_path ?r) ''/api/resources'') = Inr ''/d''"
    "namei sample_tree (path_elems ''/d'') = Inr [''d'']" "is_dir sample_tree [''d'']"
    by code_simp+
  have "\<exists>fi. listOrStat sample_handler sample_tree ?r = RInfo fi \<and> fi_numFiles fi = 1"
    by (simp add: listOrStat_def Let_def s(1) e node_dir_def)
  then obtain fi where fi: "listOrStat sample_handler sample_tree ?r = RInfo fi" "fi_numFiles fi = 1"
    by blast
  from listing_complete_and_sorted [OF fi(1) s] fi show ?thesis by blast
qed

text \<open>
  Requests on which the file manager does something else than it means to, each evaluated on a
  small tree.
\<close>

text \<open>The guard against deleting the root compares the path before \<^verbatim>\<open>/data\<close> is stripped from it.\<close>

lemma delete_data_removes_root:
  "deleteResource sample_handler sample_tree (sample_req ''DELETE'' ''/api/resources/data'' [] [] [])
   = ([], ROk)"
  by code_simp

text \<open>A free name for the data directory itself lies beside it, outside of what was checked.\<close>

lemma rename_to_root_escapes:
  "\<exists>fs'. renameMove sample_handler sample_tree
      (sample_req ''PATCH'' ''/api/resources/a.txt'' [(''destination'', ''/''), (''rename'', ''true'')] [] [])
    = Some (fs', ROk) \<and> fs_at fs' [''d (1)''] = Some (NFile ''old'' 420)"
proof -
  let ?r = "sample_req ''PATCH'' ''/api/resources/a.txt'' [(''destination'', ''/''), (''rename'', ''true'')] [] []"
  have u: "generateUniqueName sample_tree ''/d'' = Some ''/d (1)''"
    unfolding generateUniqueName_def by (subst unique_from.simps) code_simp
  have s: "safePath sample_handler sample_tree ''/a.txt'' = Inr ''/d/a.txt''"
    "safePath sample_handler sample_tree ''/'' = Inr ''/d''" "exists_at sample_tree ''/d''"
    "strip_route (rq_path ?r) ''/api/resources'' = ''/a.txt''"
    "QueryGet ?r ''destination'' = ''/''" "QueryGet ?r ''rename'' = ''true''"
    "QueryGet ?r ''override'' = []" "QueryGet ?r ''action'' = []"
    by code_simp+
  have p: "place_at sample_tree [] ''/d/a.txt'' ''/d (1)'' =
      ([([''d''], NDir 493), ([''d'', ''B''], NDir 493), ([''d (1)''], NFile ''old'' 420)], ROk)"
    by code_simp
  show ?thesis by (simp add: renameMove_def Let_def s u p) code_simp
qed

text \<open>
  A directory moved onto itself with \<^verbatim>\<open>override\<close>: the rename is refused, the fallback copies
  every file onto itself, which empties it, and then removes the source.
\<close>

definition full_tree :: fs where
  "full_tree = [([''d''], NDir 493), ([''d'', ''B''], NDir 493), ([''d'', ''B'', ''f''], NFile ''1'' 420)]"

lemma move_onto_itself_deletes:
  "renameMove sample_handler full_tree
      (sample_req ''PATCH'' ''/api/resources/B'' [(''destination'', ''/B''), (''override'', ''true'')] [] [])
    = Some ([([''d''], NDir 493)], ROk)"
proof -
  let ?r = "sample_req ''PATCH'' ''/api/resources/B'' [(''destination'', ''/B''), (''override'', ''true'')] [] []"
  let ?emptied = "[([''d''], NDir 493), ([''d'', ''B''], NDir 493), ([''d'', ''B'', ''f''], NFile [] 420)]"
  have s: "safePath sample_handler full_tree ''/B'' = Inr ''/d/B''"
    "strip_route (rq_path ?r) ''/api/resources'' = ''/B''" "QueryGet ?r ''destination'' = ''/B''"
    "QueryGet ?r ''override'' = ''true''" "QueryGet ?r ''action'' = []"
    "MkdirAll full_tree (Dir ''/d/B'') 493 = (full_tree, None)"
    "Rename full_tree ''/d/B'' ''/d/B'' = Inl EEXIST" "RemoveAll ?emptied ''/d/B'' = ([([''d''], NDir 493)], None)"
    by code_simp+
  have c: "Stat full_tree ''/d/B'' = Inr (NDir 493)" "MkdirAll full_tree ''/d/B'' 493 = (full_tree, None)"
    "ReadDir full_tree ''/d/B'' = Inr [(''f'', NFile ''1'' 420)]"
    "copyFile full_tree (PathJoin ''/d/B'' ''f'') (PathJoin ''/d/B'' ''f'') = (?emptied, None)"
    by code_simp+
  obtain k where k: "PATH_MAX = Suc (Suc k)" using that [of 4094] by (simp add: PATH_MAX_def)
  have "copyPath full_tree ''/d/B'' ''/d/B'' = (?emptied, None)"
    unfolding copyPath_def k by (simp add: c node_dir_def node_perm_def)
  then show ?thesis
    by (simp add: renameMove_def Let_def s place_at_def move_or_copy_def)
qed

text \<open>A file copied onto itself loses its content, and the answer is ok.\<close>

lemma copy_onto_itself_empties:
  "renameMove sample_handler sample_tree
      (sample_req ''PATCH'' ''/api/resources/a.txt''
        [(''action'', ''copy''), (''destination'', ''/a.txt''), (''override'', ''true'')] [] [])
    = Some ([([''d''], NDir 493), ([''d'', ''a.txt''], NFile [] 420), ([''d'', ''B''], NDir 493)], ROk)"
proof -
  let ?r = "sample_req ''PATCH'' ''/api/resources/a.txt''
        [(''action'', ''copy''), (''destination'', ''/a.txt''), (''override'', ''true'')] [] []"
  have s: "safePath sample_handler sample_tree ''/a.txt'' = Inr ''/d/a.txt''"
    "strip_route (rq_path ?r) ''/api/resources'' = ''/a.txt''" "QueryGet ?r ''destination'' = ''/a.txt''"
    "QueryGet ?r ''override'' = ''true''" "QueryGet ?r ''action'' = ''copy''"
    "MkdirAll sample_tree (Dir ''/d/a.txt'') 493 = (sample_tree, None)"
    "Stat sample_tree ''/d/a.txt'' = Inr (NFile ''old'' 420)"
    "copyFile sample_tree ''/d/a.txt'' ''/d/a.txt'' =
       ([([''d''], NDir 493), ([''d'', ''a.txt''], NFile [] 420), ([''d'', ''B''], NDir 493)], None)"
    by code_simp+
  show ?thesis
    by (simp add: renameMove_def Let_def s place_at_def move_or_copy_def copyPath_def node_dir_def)
qed

text \<open>A link in the data directory whose target does not exist yet lets a write land outside.\<close>

lemma dangling_link_escapes:
  "fst (createOrUpdate sample_handler [([''d''], NDir 493), ([''out''], NDir 493), ([''d'', ''l''], NLink ''/out/x'')]
      (sample_req ''PUT'' ''/api/resources/l'' [] ''text/plain'' ''v''))
    = [([''d''], NDir 493), ([''out''], NDir 493), ([''d'', ''l''], NLink ''/out/x''), ([''out'', ''x''], NFile ''v'' 420)]"
  by code_simp

text \<open>A file called \<^verbatim>\<open>index.html\<close> cannot be downloaded: the answer is a redirect to its directory.\<close>

lemma index_html_not_served:
  "handleRaw sample_handler [([''d''], NDir 493), ([''d'', ''index.html''], NFile ''1'' 420)]
     (sample_req ''GET'' ''/api/raw/index.html'' [] [] []) = RRedirect ''./''"
  by code_simp

text \<open>The upload limit (8 bytes here) does not bound a multipart upload; a raw one it cuts silently.\<close>

lemma multipart_upload_unlimited:
  "uploadFile sample_handler [([''d''], NDir 493)]
     (sample_form ''POST'' ''/api/resources/'' [] (Some (''n'', ''0123456789'')))
   = ([([''d''], NDir 493), ([''d'', ''n''], NFile ''0123456789'' 420)], ROk)"
  by code_simp

lemma raw_upload_cut:
  "uploadFile sample_handler [([''d''], NDir 493)]
     (sample_req ''POST'' ''/api/resources/n'' [] [] ''0123456789'')
   = ([([''d''], NDir 493), ([''d'', ''n''], NFile ''01234567'' 420)], ROk)"
  by code_simp

text \<open>The offset of the client decides when an upload is complete: one byte at the end is enough.\<close>

lemma chunk_offset_trusted:
  "handleUploadChunk sample_handler
     \<lparr>tree = [([''d''], NDir 493), ([''d'', ''n''], NFile [] 420)],
      uploadsInProgress = [(''7'', \<lparr>up_absPath = ''/d/n'', up_fileSize = 5, up_offset = 0\<rparr>)]\<rparr>
     (sample_form ''PATCH'' ''/upload/7'' [(''upload_offset'', ''4'')] (Some (''c'', ''x'')))
   = (\<lparr>tree = [([''d''], NDir 493), ([''d'', ''n''],
          NFile [CHR 0x00, CHR 0x00, CHR 0x00, CHR 0x00, CHR ''x''] 420)],
       uploadsInProgress = []\<rparr>, ROffset 5)"
  by code_simp

end
