(* ===== verification/Mw_Text.thy ===== *)
theory Mw_Text
  imports Prelude Go_Net
begin

text \<open>
  \<^verbatim>\<open>internal/middleware/postgres.go\<close>, the texts: how names and passwords are written into SQL,
  and what PostgreSQL's lexer reads there. The lexer is the documented one (chapter 4.1 of its
  manual, \<^verbatim>\<open>standard_conforming_strings\<close> on) on the fragment these statements use:
  words, quoted identifiers and string literals.
\<close>

subsection \<open>What the code writes\<close>

definition ReplaceAll1 :: "char \<Rightarrow> string \<Rightarrow> string \<Rightarrow> string" where
  "ReplaceAll1 c new s = concat (map (\<lambda>x. if x = c then new else [x]) s)"

abbreviation dquote :: char where "dquote \<equiv> CHR 0x22"
abbreviation squote :: char where "squote \<equiv> CHR 0x27"
abbreviation bslash :: char where "bslash \<equiv> CHR 0x5C"

definition quoteIdent :: "string \<Rightarrow> string" where
  "quoteIdent s = [dquote] @ ReplaceAll1 dquote [dquote, dquote] s @ [dquote]"

definition escapePostgresLiteral :: "string \<Rightarrow> string" where
  "escapePostgresLiteral s =
     (let s = ReplaceAll1 bslash [bslash, bslash] s in ReplaceAll1 squote [squote, squote] s)"

definition GetDatabaseName :: "string \<Rightarrow> string \<Rightarrow> string" where
  "GetDatabaseName appNamespace dbName =
     (let ns = ReplaceByte appNamespace CHR ''-'' CHR ''_'';
          name = ReplaceByte dbName CHR ''-'' CHR ''_''
      in ns @ ''_'' @ name)"

definition alter_role_sql :: "string \<Rightarrow> string \<Rightarrow> string" where
  "alter_role_sql username password =
     ''ALTER ROLE '' @ quoteIdent username @ '' WITH PASSWORD '' @
     [squote] @ escapePostgresLiteral password @ [squote]"

definition create_role_sql :: "string \<Rightarrow> string \<Rightarrow> string" where
  "create_role_sql username password =
     ''CREATE ROLE '' @ quoteIdent username @ '' WITH LOGIN PASSWORD '' @
     [squote] @ escapePostgresLiteral password @ [squote]"

definition create_database_sql :: "string \<Rightarrow> string \<Rightarrow> string" where
  "create_database_sql realName owner =
     ''CREATE DATABASE '' @ quoteIdent realName @ '' OWNER '' @ quoteIdent owner"

definition create_extension_sql :: "string \<Rightarrow> string" where
  "create_extension_sql ext = ''CREATE EXTENSION IF NOT EXISTS '' @ quoteIdent ext"

definition drop_database_sql :: "string \<Rightarrow> string" where
  "drop_database_sql realName = ''DROP DATABASE IF EXISTS '' @ quoteIdent realName"

definition drop_role_sql :: "string \<Rightarrow> string" where
  "drop_role_sql username = ''DROP ROLE IF EXISTS '' @ quoteIdent username"

subsection \<open>What PostgreSQL reads\<close>

datatype sql_token = Word string | Ident string | Str string

text \<open>The rest of a quoted token: a doubled quote stands for one, a single one ends it.\<close>

fun lex_quoted :: "char \<Rightarrow> string \<Rightarrow> (string \<times> string) option" where
  "lex_quoted q [] = None"
| "lex_quoted q (c # cs) =
     (if c = q then
        (case cs of
           d # ds \<Rightarrow> if d = q then map_option (\<lambda>(s, r). (q # s, r)) (lex_quoted q ds) else Some ([], cs)
         | [] \<Rightarrow> Some ([], []))
      else map_option (\<lambda>(s, r). (c # s, r)) (lex_quoted q cs))"

lemma lex_quoted_shorter: "lex_quoted q s = Some (t, r) \<Longrightarrow> length r < length s"
  by (induction q s arbitrary: t r rule: lex_quoted.induct)
    (fastforce split: if_splits list.splits)+

definition is_letter :: "char \<Rightarrow> bool" where
  "is_letter c \<longleftrightarrow> is_lower c \<or> is_upper c"

function (sequential) sql_lex :: "string \<Rightarrow> sql_token list option" where
  "sql_lex [] = Some []"
| "sql_lex (c # cs) =
     (if c = CHR '' '' then sql_lex cs
      else if c = dquote then
        (case lex_quoted dquote cs of
           None \<Rightarrow> None | Some (s, r) \<Rightarrow> map_option (Cons (Ident s)) (sql_lex r))
      else if c = squote then
        (case lex_quoted squote cs of
           None \<Rightarrow> None | Some (s, r) \<Rightarrow> map_option (Cons (Str s)) (sql_lex r))
      else if is_letter c then
        map_option (Cons (Word (c # takeWhile is_letter cs))) (sql_lex (dropWhile is_letter cs))
      else None)"
  by pat_completeness auto

termination
  by (relation "measure length") (auto dest: lex_quoted_shorter simp: le_imp_less_Suc length_dropWhile_le)

subsection \<open>One token for each name\<close>

lemma lex_quoted_escaped:
  "lex_quoted q (ReplaceAll1 q [q, q] s @ q # r) =
     (case r of d # ds \<Rightarrow> if d = q then lex_quoted q (ReplaceAll1 q [q, q] s @ q # r) else Some (s, r)
      | [] \<Rightarrow> Some (s, []))"
proof (induction s)
  case Nil
  then show ?case by (cases r) (auto simp: ReplaceAll1_def)
next
  case (Cons c s)
  then show ?case by (cases r) (auto simp: ReplaceAll1_def)
qed

lemma lex_ident: "\<not> HasPrefix r [dquote] \<Longrightarrow> sql_lex (quoteIdent s @ r) = map_option (Cons (Ident s)) (sql_lex r)"
  using lex_quoted_escaped [of dquote s r]
  by (cases r) (auto simp: quoteIdent_def)

definition double_backslash :: "string \<Rightarrow> string" where
  "double_backslash s = ReplaceAll1 bslash [bslash, bslash] s"

lemma lex_literal:
  "lex_quoted squote (escapePostgresLiteral p @ [squote]) = Some (double_backslash p, [])"
  using lex_quoted_escaped [of squote "double_backslash p" "[]"]
  by (simp add: escapePostgresLiteral_def double_backslash_def)

lemmas letter_simps = is_letter_def is_lower_def is_upper_def in_range_def

lemma sql_create_role:
  "sql_lex (create_role_sql u p) = Some [Word ''CREATE'', Word ''ROLE'', Ident u, Word ''WITH'', Word ''LOGIN'',
     Word ''PASSWORD'', Str (double_backslash p)]"
  by (simp add: create_role_sql_def letter_simps lex_ident lex_literal)

lemma sql_alter_role:
  "sql_lex (alter_role_sql u p) = Some [Word ''ALTER'', Word ''ROLE'', Ident u, Word ''WITH'',
     Word ''PASSWORD'', Str (double_backslash p)]"
  by (simp add: alter_role_sql_def letter_simps lex_ident lex_literal)

lemma sql_create_database:
  "sql_lex (create_database_sql d u) = Some [Word ''CREATE'', Word ''DATABASE'', Ident d, Word ''OWNER'', Ident u]"
  by (simp add: create_database_sql_def letter_simps lex_ident lex_ident [of "[]", simplified])

lemma sql_create_extension:
  "sql_lex (create_extension_sql x) = Some [Word ''CREATE'', Word ''EXTENSION'', Word ''IF'', Word ''NOT'',
     Word ''EXISTS'', Ident x]"
  by (simp add: create_extension_sql_def letter_simps lex_ident [of "[]", simplified])

lemma sql_drop_database:
  "sql_lex (drop_database_sql d) = Some [Word ''DROP'', Word ''DATABASE'', Word ''IF'', Word ''EXISTS'', Ident d]"
  by (simp add: drop_database_sql_def letter_simps lex_ident [of "[]", simplified])

lemma sql_drop_role:
  "sql_lex (drop_role_sql u) = Some [Word ''DROP'', Word ''ROLE'', Word ''IF'', Word ''EXISTS'', Ident u]"
  by (simp add: drop_role_sql_def letter_simps lex_ident [of "[]", simplified])

lemmas sql_statements = sql_create_role sql_alter_role sql_create_database sql_create_extension
  sql_drop_database sql_drop_role

subsection \<open>Database names\<close>

text \<open>
  Two apps can be given one database: dashes and underscores are not told apart, and the
  separator is one of them. Without either in the namespaces, the names differ.
\<close>

lemma database_names_collide:
  "GetDatabaseName ''user-app'' ''db'' = GetDatabaseName ''user'' ''app-db''"
  by code_simp

lemma GetDatabaseName_inj:
  assumes "GetDatabaseName a b = GetDatabaseName c d"
    and "CHR ''-'' \<notin> set a" "CHR ''_'' \<notin> set a" "CHR ''-'' \<notin> set c" "CHR ''_'' \<notin> set c"
  shows "a = c \<and> ReplaceByte b CHR ''-'' CHR ''_'' = ReplaceByte d CHR ''-'' CHR ''_''"
proof -
  have id: "ReplaceByte x CHR ''-'' CHR ''_'' = x" if "CHR ''-'' \<notin> set x" for x
    using that by (induction x) (auto simp: ReplaceByte_def)
  have "a @ CHR ''_'' # ReplaceByte b CHR ''-'' CHR ''_'' = c @ CHR ''_'' # ReplaceByte d CHR ''-'' CHR ''_''"
    using assms(1) by (simp add: GetDatabaseName_def Let_def id assms(2,4))
  then show ?thesis using assms(3,5)
    by (metis IndexByte_append append_eq_append_conv list.inject option.inject)
qed

text \<open>
  A backslash is no escape inside a standard-conforming literal: a password with one is stored
  with two, and no longer is the password in the Secret of the app.
\<close>

lemma double_backslash_id_iff: "double_backslash p = p \<longleftrightarrow> bslash \<notin> set p"
proof
  assume e: "double_backslash p = p"
  have "length (double_backslash p) = length p + length (filter (\<lambda>c. c = bslash) p)"
    by (induction p) (auto simp: double_backslash_def ReplaceAll1_def)
  with e have "filter (\<lambda>c. c = bslash) p = []" by simp
  then show "bslash \<notin> set p" by (auto simp: filter_empty_conv)
next
  show "bslash \<notin> set p \<Longrightarrow> double_backslash p = p"
    by (induction p) (auto simp: double_backslash_def ReplaceAll1_def)
qed

text \<open>
  \<^verbatim>\<open>internal/middleware/redis.go\<close>: the commands as bytes on the connection, and the reading of
  one reply. A connection's input is the list of bytes that will arrive; after them reading
  fails. \<open>resp_parse\<close> is the server's side of the protocol (the RESP specification: an array of
  bulk strings), against which the encoding is checked.
\<close>

definition crlf :: string where "crlf = [CHR 0x0D, CHR 0x0A]"

definition bulk :: "string \<Rightarrow> string" where
  "bulk arg = ''$'' @ nat_str (length arg) @ crlf @ arg @ crlf"

definition sendCommand_bytes :: "string list \<Rightarrow> string" where
  "sendCommand_bytes args = ''*'' @ nat_str (length args) @ crlf @ concat (map bulk args)"

datatype redis_error = ReadFailed | EmptyResponse | RedisError string

fun readLine_loop :: "string \<Rightarrow> string \<Rightarrow> (string \<times> string) option" where
  "readLine_loop buf [] = None"
| "readLine_loop buf (b # bs) =
     (if b = CHR 0x0A then
        Some (if buf \<noteq> [] \<and> last buf = CHR 0x0D then butlast buf else buf, bs)
      else readLine_loop (buf @ [b]) bs)"

definition readLine :: "string \<Rightarrow> (string \<times> string) option" where
  "readLine inp = readLine_loop [] inp"

text \<open>\<^verbatim>\<open>n, _ := strconv.Atoi(s)\<close>: zero on a syntax error, the nearest integer out of range.\<close>

definition Atoi_value :: "string \<Rightarrow> int" where
  "Atoi_value s = (case parse_int s of None \<Rightarrow> 0 | Some i \<Rightarrow> max (- (2^63)) (min (2^63 - 1) i))"

text \<open>
  The reply and what is left of the input; a bulk reply is read and dropped. \<^term>\<open>None\<close> is the
  panic of \<^verbatim>\<open>make([]byte, n+2)\<close>, whose length is at most \<^term>\<open>2^48\<close> bytes on amd64 (and negative
  where the addition wraps).
\<close>

definition readResponse :: "string \<Rightarrow> ((redis_error + unit) \<times> string) option" where
  "readResponse inp =
     (case readLine inp of
        None \<Rightarrow> Some (Inl ReadFailed, [])
      | Some (line, rest) \<Rightarrow>
          (case line of
             [] \<Rightarrow> Some (Inl EmptyResponse, rest)
           | c # cs \<Rightarrow>
               if c = CHR ''+'' \<or> c = CHR '':'' then Some (Inr (), rest)
               else if c = CHR ''-'' then Some (Inl (RedisError cs), rest)
               else if c = CHR ''$'' then
                 (let n = Atoi_value cs in
                  if n + 2 > 2^48 then None
                  else Some (Inr (), if n > 0 then drop (nat n + 2) rest else rest))
               else Some (Inr (), rest)))"

subsection \<open>The server's side\<close>

definition parse_line :: "char \<Rightarrow> string \<Rightarrow> (nat \<times> string) option" where
  "parse_line c inp =
     (case inp of
        [] \<Rightarrow> None
      | x # xs \<Rightarrow>
          if x \<noteq> c then None
          else (case IndexByte xs CHR 0x0D of
                  None \<Rightarrow> None
                | Some i \<Rightarrow>
                    (case (parse_nat (take i xs), drop i xs) of
                       (Some n, a # b # r) \<Rightarrow> if b = CHR 0x0A then Some (n, r) else None
                     | _ \<Rightarrow> None)))"

fun parse_bulks :: "nat \<Rightarrow> string \<Rightarrow> (string list \<times> string) option" where
  "parse_bulks 0 inp = Some ([], inp)"
| "parse_bulks (Suc k) inp =
     (case parse_line CHR ''$'' inp of
        None \<Rightarrow> None
      | Some (n, r) \<Rightarrow>
          if length r < n + 2 \<or> take 2 (drop n r) \<noteq> crlf then None
          else (case parse_bulks k (drop (n + 2) r) of
                  None \<Rightarrow> None | Some (as, r') \<Rightarrow> Some (take n r # as, r')))"

definition resp_parse :: "string \<Rightarrow> (string list \<times> string) option" where
  "resp_parse inp = (case parse_line CHR ''*'' inp of None \<Rightarrow> None | Some (n, r) \<Rightarrow> parse_bulks n r)"

subsection \<open>Reading back\<close>

lemma parse_line_str: "parse_line c (c # nat_str n @ crlf @ r) = Some (n, r)"
proof -
  have "CHR 0x0D \<notin> set (nat_str n)"
    using nat_str_digits [of n] by (auto simp: is_digit_def in_range_def list_all_iff)
  then have "IndexByte (nat_str n @ CHR 0x0D # CHR 0x0A # r) CHR 0x0D = Some (length (nat_str n))"
    by (rule IndexByte_append)
  then show ?thesis by (simp add: parse_line_def crlf_def parse_nat_nat_str)
qed

lemma parse_bulks_encoded: "parse_bulks (length args) (concat (map bulk args) @ r) = Some (args, r)"
proof (induction args)
  case (Cons a args)
  have "parse_line CHR ''$'' (bulk a @ concat (map bulk args) @ r) =
      Some (length a, a @ crlf @ concat (map bulk args) @ r)"
    using parse_line_str [of "CHR ''$''" "length a" "a @ crlf @ concat (map bulk args) @ r"]
    by (simp add: bulk_def)
  with Cons show ?case by (simp add: crlf_def)
qed simp

lemma resp_parse_sent: "resp_parse (sendCommand_bytes args @ r) = Some (args, r)"
  using parse_line_str [of "CHR ''*''" "length args" "concat (map bulk args) @ r"]
  by (simp add: resp_parse_def sendCommand_bytes_def parse_bulks_encoded)

subsection \<open>Replies\<close>

lemma readLine_loop_crlf:
  "CHR 0x0A \<notin> set line \<Longrightarrow> readLine_loop buf (line @ crlf @ r) = Some (buf @ line, r)"
  by (induction line arbitrary: buf) (auto simp: crlf_def)

lemma readLine_crlf: "CHR 0x0A \<notin> set line \<Longrightarrow> readLine (line @ crlf @ r) = Some (line, r)"
  by (simp add: readLine_def readLine_loop_crlf)

text \<open>
  A client that has the connection to itself gets a status reply back whole, and the next reply
  starts where it ended; a bulk reply of a printable length is skipped exactly.
\<close>

lemma readResponse_status:
  "CHR 0x0A \<notin> set msg \<Longrightarrow> readResponse (''+'' @ msg @ crlf @ r) = Some (Inr (), r)"
  "CHR 0x0A \<notin> set msg \<Longrightarrow> readResponse (''-'' @ msg @ crlf @ r) = Some (Inl (RedisError msg), r)"
  using readLine_crlf [of "''+'' @ msg" r] readLine_crlf [of "''-'' @ msg" r]
  by (simp_all add: readResponse_def)

lemma readResponse_bulk:
  assumes "0 < length v" "length v < 2 ^ 47"
  shows "readResponse (bulk v @ r) = Some (Inr (), r)"
proof -
  have "CHR 0x0A \<notin> set (''$'' @ nat_str (length v))"
    using nat_str_digits [of "length v"] by (auto simp: is_digit_def in_range_def list_all_iff)
  then have "readLine ((''$'' @ nat_str (length v)) @ crlf @ (v @ crlf @ r)) = Some (''$'' @ nat_str (length v), v @ crlf @ r)"
    by (rule readLine_crlf)
  moreover have "parse_int (nat_str (length v)) = Some (int (length v))"
    using parse_int_int_str [of "int (length v)"] by (simp add: int_str_def)
  moreover have "int (length v) < 2 ^ 47" using assms(2) by (metis of_nat_less_numeral_power_cancel_iff)
  ultimately show ?thesis
    using assms(1) by (simp add: readResponse_def bulk_def Atoi_value_def crlf_def)
qed

end
