(* ===== verification/Mw_Types.thy ===== *)
theory Mw_Types
  imports Go_Ops Mw_Text Pkg_Config
begin

text \<open>
  \<^verbatim>\<open>internal/middleware\<close>: the operator that gives apps their databases, Redis namespaces and NATS
  streams. An operation is a function of the world that returns its error or value and the new
  world, or \<^term>\<open>None\<close> when the process panics; the servers and the Kubernetes API are the fields of
  \<open>services\<close>, an argument of every definition.
\<close>

subsection \<open>The custom resource\<close>

datatype MiddlewareType = TypePostgreSQL | TypeRedis | TypeNats | OtherType string

record SecretKeyRef =
  refName :: string
  refKey :: string

text \<open>\<open>ValueFrom\<close> is a pointer to a struct that holds a pointer.\<close>

record PasswordVar =
  pvValue :: string
  pvValueFrom :: "SecretKeyRef option option"

record RedisSpec =
  redisPassword :: PasswordVar
  redisNamespace :: string

record PGDatabase =
  pgName :: string
  pgDistributed :: bool
  pgExtensions :: "string list"

record PostgreSQLSpec =
  pgUser :: string
  pgPassword :: PasswordVar
  pgDatabases :: "PGDatabase list"

record Subject =
  subjectName :: string
  subjectPub :: string
  subjectSub :: string

record NatsSpec =
  natsUser :: string
  natsPassword :: PasswordVar
  natsSubjects :: "Subject list"

record MiddlewareSpec =
  specApp :: string
  specAppNamespace :: string
  specMiddleware :: MiddlewareType
  specRedis :: "RedisSpec option"
  specPostgreSQL :: "PostgreSQLSpec option"
  specNats :: "NatsSpec option"

record MiddlewareRequest =
  reqNamespace :: string
  reqName :: string
  reqSpec :: MiddlewareSpec
  reqState :: string

subsection \<open>Configuration\<close>

record Config =
  PGHost :: string
  PGPort :: int
  PGAdminUser :: string
  PGAdminPassword :: string
  RedisHost :: string
  RedisPort :: int
  RedisPassword :: string
  NATSHost :: string
  NATSPort :: int
  PlatformNS :: string
  WatchNamespace :: string

definition env_string :: "(string \<Rightarrow> string) \<Rightarrow> string \<Rightarrow> string \<Rightarrow> string" where
  "env_string env k d = (if env k \<noteq> [] then env k else d)"

definition env_int :: "(string \<Rightarrow> string) \<Rightarrow> string \<Rightarrow> int \<Rightarrow> int" where
  "env_int env k d = (if env k \<noteq> [] then (case AtoiErr (env k) of Some n \<Rightarrow> n | None \<Rightarrow> d) else d)"

definition LoadConfig :: "ctx \<Rightarrow> (string \<Rightarrow> string) \<Rightarrow> string + Config" where
  "LoadConfig c env =
     (let cfg = \<lparr>PGHost = env_string env ''PG_HOST'' (CitusHost c), PGPort = env_int env ''PG_PORT'' 5432,
            PGAdminUser = env_string env ''PG_ADMIN_USER'' (CitusUser c),
            PGAdminPassword = env_string env ''PG_ADMIN_PASSWORD'' [],
            RedisHost = env_string env ''REDIS_HOST'' (KVRocksHost c), RedisPort = env_int env ''REDIS_PORT'' 6379,
            RedisPassword = env_string env ''REDIS_PASSWORD'' [],
            NATSHost = env_string env ''NATS_HOST'' (Pkg_Config.NATSHost c),
            NATSPort = env_int env ''NATS_PORT'' 4222,
            PlatformNS = env_string env ''PLATFORM_NAMESPACE'' (PlatformNamespace c),
            WatchNamespace = env_string env ''WATCH_NAMESPACE'' []\<rparr>;
          cfg = (if PGAdminPassword cfg = []
                 then cfg\<lparr>PGAdminPassword := env_string env ''PG_PASSWORD'' (PGAdminPassword cfg)\<rparr> else cfg)
      in if PGAdminPassword cfg = [] then Inl ''PG_ADMIN_PASSWORD (or PG_PASSWORD) is required'' else Inr cfg)"

subsection \<open>The servers and the API\<close>

text \<open>
  \<open>pgOpen\<close> is the error of \<^verbatim>\<open>sql.Open\<close> on a connection string; the queries and statements take
  that string, the text and the arguments. A Redis connection is an address; a write gives the
  bytes that arrive in answer. The boolean of \<open>natsDelete\<close>'s error tells \<^verbatim>\<open>ErrStreamNotFound\<close>.
\<close>

type_synonym secret_data = "(string \<times> string) list"

record 'w services =
  pgOpen :: "string \<Rightarrow> string option"
  pgExists :: "string \<Rightarrow> string \<Rightarrow> string \<Rightarrow> ('w, bool) op"
  pgList :: "string \<Rightarrow> string \<Rightarrow> string \<Rightarrow> ('w, string list) op"
  pgExec :: "string \<Rightarrow> string \<Rightarrow> string list \<Rightarrow> ('w, unit) op"
  rdDial :: "string \<Rightarrow> ('w, unit) op"
  rdWrite :: "string \<Rightarrow> string \<Rightarrow> ('w, string) op"
  natsConnect :: "string \<Rightarrow> ('w, unit) op"
  natsJetStream :: "string \<Rightarrow> ('w, unit) op"
  natsInfo :: "string \<Rightarrow> string \<Rightarrow> 'w \<Rightarrow> bool"
  natsUpdate :: "string \<Rightarrow> string \<Rightarrow> string list \<Rightarrow> ('w, unit) op"
  natsAdd :: "string \<Rightarrow> string \<Rightarrow> string list \<Rightarrow> ('w, unit) op"
  natsDelete :: "string \<Rightarrow> string \<Rightarrow> 'w \<Rightarrow> ((string \<times> bool) option \<times> 'w)"
  secGet :: "string \<Rightarrow> string \<Rightarrow> ('w, secret_data) op"
  secUpdate :: "string \<Rightarrow> string \<Rightarrow> secret_data \<Rightarrow> ('w, unit) op"
  secCreate :: "string \<Rightarrow> string \<Rightarrow> secret_data \<Rightarrow> ('w, unit) op"
  secDelete :: "string \<Rightarrow> string \<Rightarrow> ('w, unit) op"
  mrGet :: "string \<Rightarrow> string \<Rightarrow> ('w, unit) op"
  mrUpdateStatus :: "string \<Rightarrow> string \<Rightarrow> (string \<times> string) list \<Rightarrow> ('w, unit) op"
  mrUpdate :: "string \<Rightarrow> string \<Rightarrow> (string \<times> string) list \<Rightarrow> ('w, unit) op"
  mrNow :: "'w \<Rightarrow> string"

end
