(* ===== verification/Mw_Controller.thy ===== *)
theory Mw_Controller
  imports Mw_Types
begin

text \<open>
  The provisioners and the controller of \<^verbatim>\<open>internal/middleware\<close>: users, databases and extensions
  (\<^verbatim>\<open>postgres.go\<close>), namespaces (\<^verbatim>\<open>redis.go\<close>), streams (\<^verbatim>\<open>nats.go\<close>), credentials (\<^verbatim>\<open>secrets.go\<close>) and
  the dispatch on requests and watch events (\<^verbatim>\<open>controller.go\<close>).
\<close>

subsection \<open>PostgreSQL\<close>

definition pg_dsn :: "Config \<Rightarrow> string \<Rightarrow> string" where
  "pg_dsn cfg database =
     (let database = (if database = [] then ''postgres'' else database)
      in ''host='' @ PGHost cfg @ '' port='' @ int_str (PGPort cfg) @ '' user='' @ PGAdminUser cfg @
         '' password='' @ PGAdminPassword cfg @ '' dbname='' @ database @ '' sslmode=disable'')"

text \<open>\<^verbatim>\<open>sql.Open\<close> only reads the connection string; it touches no server.\<close>

definition pg_connect :: "'w services \<Rightarrow> Config \<Rightarrow> string \<Rightarrow> ('w, string) op" where
  "pg_connect E cfg database =
     (case pgOpen E (pg_dsn cfg database) of None \<Rightarrow> ret (pg_dsn cfg database) | Some e \<Rightarrow> fail e)"

definition role_query :: string where
  "role_query = ''SELECT EXISTS(SELECT 1 FROM pg_roles WHERE rolname = $1)''"

definition database_query :: string where
  "database_query = ''SELECT EXISTS(SELECT 1 FROM pg_database WHERE datname = $1)''"

definition owner_query :: string where
  "owner_query =
     ''SELECT datname FROM pg_database d JOIN pg_roles r ON d.datdba = r.oid WHERE r.rolname = $1''"

definition terminate_sql :: string where
  "terminate_sql =
     ''SELECT pg_terminate_backend(pid) FROM pg_stat_activity WHERE datname = $1 AND pid <> pg_backend_pid()''"

definition CreateOrUpdateUser :: "'w services \<Rightarrow> Config \<Rightarrow> string \<Rightarrow> string \<Rightarrow> ('w, unit) op" where
  "CreateOrUpdateUser E cfg username password =
     chk ''connect to postgres: '' (pg_connect E cfg []) (\<lambda>db.
     chk ''check user exists: '' (pgExists E db role_query username) (\<lambda>exists.
       if exists
       then chk ''alter user password: '' (pgExec E db (alter_role_sql username password) []) ret
       else chk ''create user: '' (pgExec E db (create_role_sql username password) []) ret))"

definition CreateDatabase :: "'w services \<Rightarrow> Config \<Rightarrow> string \<Rightarrow> string \<Rightarrow> string \<Rightarrow> ('w, unit) op" where
  "CreateDatabase E cfg appNamespace dbName owner =
     chk ''connect to postgres: '' (pg_connect E cfg []) (\<lambda>db.
       let realName = GetDatabaseName appNamespace dbName in
     chk ''check database exists: '' (pgExists E db database_query realName) (\<lambda>exists.
       if exists then ret ()
       else chk (''create database \"'' @ realName @ ''\": '')
              (pgExec E db (create_database_sql realName owner) []) ret))"

definition CreateExtensions :: "'w services \<Rightarrow> Config \<Rightarrow> string \<Rightarrow> string \<Rightarrow> string list \<Rightarrow> ('w, unit) op" where
  "CreateExtensions E cfg appNamespace dbName extensions =
     (let realName = GetDatabaseName appNamespace dbName in
      chk (''connect to database \"'' @ realName @ ''\": '') (pg_connect E cfg realName) (\<lambda>db.
        for_each (\<lambda>x. chk (''create extension \"'' @ x @ ''\" in \"'' @ realName @ ''\": '')
          (pgExec E db (create_extension_sql x) []) ret) extensions))"

definition DropDatabase :: "'w services \<Rightarrow> Config \<Rightarrow> string \<Rightarrow> string \<Rightarrow> ('w, unit) op" where
  "DropDatabase E cfg appNamespace dbName =
     chk ''connect to postgres: '' (pg_connect E cfg []) (\<lambda>db.
       let realName = GetDatabaseName appNamespace dbName in
     attempt (pgExec E db terminate_sql [realName]) (\<lambda>_.
     chk (''drop database \"'' @ realName @ ''\": '') (pgExec E db (drop_database_sql realName) []) ret))"

definition DropUser :: "'w services \<Rightarrow> Config \<Rightarrow> string \<Rightarrow> ('w, unit) op" where
  "DropUser E cfg username =
     chk ''connect to postgres: '' (pg_connect E cfg []) (\<lambda>db.
     chk (''drop user \"'' @ username @ ''\": '') (pgExec E db (drop_role_sql username) []) ret)"

definition ListDatabasesByOwner :: "'w services \<Rightarrow> Config \<Rightarrow> string \<Rightarrow> ('w, string list) op" where
  "ListDatabasesByOwner E cfg owner =
     chk ''connect to postgres: '' (pg_connect E cfg []) (\<lambda>db.
     chk ''list databases by owner: '' (pgList E db owner_query owner) ret)"

subsection \<open>Redis\<close>

definition redis_addr :: "Config \<Rightarrow> string" where
  "redis_addr cfg = RedisHost cfg @ '':'' @ int_str (RedisPort cfg)"

fun redis_msg :: "redis_error \<Rightarrow> string" where
  "redis_msg ReadFailed = ''EOF''"
| "redis_msg EmptyResponse = ''empty response''"
| "redis_msg (RedisError s) = ''redis error: '' @ s"

text \<open>The value is what has arrived on the connection and is not read yet.\<close>

definition sendCommand :: "'w services \<Rightarrow> string \<Rightarrow> string \<Rightarrow> string list \<Rightarrow> ('w, string) op" where
  "sendCommand E conn unread args =
     chk [] (rdWrite E conn (sendCommand_bytes args)) (\<lambda>reply w.
       case readResponse (unread @ reply) of
         None \<Rightarrow> None
       | Some (Inl e, rest) \<Rightarrow> fail (redis_msg e) w
       | Some (Inr _, rest) \<Rightarrow> ret rest w)"

definition redis_connect :: "'w services \<Rightarrow> Config \<Rightarrow> ('w, string \<times> string) op" where
  "redis_connect E cfg =
     chk [] (rdDial E (redis_addr cfg)) (\<lambda>_.
       if RedisPassword cfg \<noteq> []
       then chk ''redis AUTH: '' (sendCommand E (redis_addr cfg) [] [''AUTH'', RedisPassword cfg])
              (\<lambda>unread. ret (redis_addr cfg, unread))
       else ret (redis_addr cfg, []))"

definition redis_key :: "string \<Rightarrow> string" where
  "redis_key namespace = ''packalares:redis:ns:'' @ namespace"

definition CreateNamespace :: "'w services \<Rightarrow> Config \<Rightarrow> string \<Rightarrow> string \<Rightarrow> ('w, unit) op" where
  "CreateNamespace E cfg namespace token =
     chk ''connect to redis: '' (redis_connect E cfg) (\<lambda>(conn, unread).
     chk ''store redis namespace: '' (sendCommand E conn unread [''SET'', redis_key namespace, token]) (\<lambda>_. ret ()))"

definition DeleteNamespace :: "'w services \<Rightarrow> Config \<Rightarrow> string \<Rightarrow> ('w, unit) op" where
  "DeleteNamespace E cfg namespace =
     chk ''connect to redis: '' (redis_connect E cfg) (\<lambda>(conn, unread).
     chk ''delete redis namespace: '' (sendCommand E conn unread [''DEL'', redis_key namespace]) (\<lambda>_. ret ()))"

subsection \<open>NATS\<close>

definition nats_url :: "Config \<Rightarrow> string" where
  "nats_url cfg = ''nats://'' @ NATSHost cfg @ '':'' @ int_str (NATSPort cfg)"

definition stream_name :: "string \<Rightarrow> string \<Rightarrow> string" where
  "stream_name appNamespace appName = appNamespace @ ''_'' @ appName"

definition subject_names :: "string \<Rightarrow> Subject list \<Rightarrow> string list" where
  "subject_names appNamespace subjects = map (\<lambda>s. appNamespace @ ''.'' @ subjectName s) subjects"

definition CreateStream :: "'w services \<Rightarrow> Config \<Rightarrow> string \<Rightarrow> string \<Rightarrow> Subject list \<Rightarrow> ('w, unit) op" where
  "CreateStream E cfg appNamespace appName subjects =
     chk ''connect to nats: '' (natsConnect E (nats_url cfg)) (\<lambda>_.
     chk ''get jetstream context: '' (natsJetStream E (nats_url cfg)) (\<lambda>_ w.
       let streamName = stream_name appNamespace appName;
           subjectNames = subject_names appNamespace subjects
       in if subjectNames = [] then ret () w
          else if natsInfo E (nats_url cfg) streamName w
          then chk (''update stream \"'' @ streamName @ ''\": '') (natsUpdate E (nats_url cfg) streamName subjectNames) ret w
          else chk (''create stream \"'' @ streamName @ ''\": '') (natsAdd E (nats_url cfg) streamName subjectNames) ret w))"

definition DeleteStream :: "'w services \<Rightarrow> Config \<Rightarrow> string \<Rightarrow> string \<Rightarrow> ('w, unit) op" where
  "DeleteStream E cfg appNamespace appName =
     chk ''connect to nats: '' (natsConnect E (nats_url cfg)) (\<lambda>_.
     chk ''get jetstream context: '' (natsJetStream E (nats_url cfg)) (\<lambda>_ w.
       let streamName = stream_name appNamespace appName
       in case natsDelete E (nats_url cfg) streamName w of
            (None, w') \<Rightarrow> ret () w'
          | (Some (e, notFound), w') \<Rightarrow>
              if notFound then ret () w' else fail (''delete stream \"'' @ streamName @ ''\": '' @ e) w'))"

subsection \<open>Secrets\<close>

definition ResolvePassword :: "'w services \<Rightarrow> PasswordVar \<Rightarrow> string \<Rightarrow> ('w, string) op" where
  "ResolvePassword E pv namespace =
     (if pvValue pv \<noteq> [] then ret (pvValue pv)
      else case pvValueFrom pv of
        Some (Some ref) \<Rightarrow>
          chk (''get secret '' @ namespace @ ''/'' @ refName ref @ '': '') (secGet E namespace (refName ref)) (\<lambda>data.
            case map_of data (refKey ref) of
              None \<Rightarrow> fail (''key \"'' @ refKey ref @ ''\" not found in secret '' @ namespace @ ''/'' @ refName ref)
            | Some v \<Rightarrow> ret v)
      | _ \<Rightarrow> fail ''no password value or reference provided'')"

definition StoreCredentials :: "'w services \<Rightarrow> string \<Rightarrow> string \<Rightarrow> secret_data \<Rightarrow> ('w, unit) op" where
  "StoreCredentials E namespace name data =
     attempt (secGet E namespace name) (\<lambda>r.
       case r of
         Inr _ \<Rightarrow> chk (''update secret '' @ namespace @ ''/'' @ name @ '': '') (secUpdate E namespace name data) ret
       | Inl _ \<Rightarrow> chk (''create secret '' @ namespace @ ''/'' @ name @ '': '') (secCreate E namespace name data) ret)"

definition DeleteCredentials :: "'w services \<Rightarrow> string \<Rightarrow> string \<Rightarrow> ('w, unit) op" where
  "DeleteCredentials E namespace name =
     chk (''delete secret '' @ namespace @ ''/'' @ name @ '': '') (secDelete E namespace name) ret"

subsection \<open>Requests\<close>

definition pg_secret_name :: "MiddlewareRequest \<Rightarrow> string" where
  "pg_secret_name req = specApp (reqSpec req) @ ''-pg-credentials''"

text \<open>The credentials are a Go map: a later database of the same name overwrites its own entry.\<close>

definition pg_credentials :: "Config \<Rightarrow> string \<Rightarrow> PostgreSQLSpec \<Rightarrow> string \<Rightarrow> secret_data" where
  "pg_credentials cfg appNamespace spec password =
     (let d = [(''host'', PGHost cfg), (''port'', int_str (PGPort cfg)), (''username'', pgUser spec), (''password'', password)];
          d = foldl (\<lambda>d db. AList.update (''database_'' @ pgName db) (GetDatabaseName appNamespace (pgName db)) d)
                d (pgDatabases spec)
      in case pgDatabases spec of
           [] \<Rightarrow> d
         | db # _ \<Rightarrow> AList.update ''database'' (GetDatabaseName appNamespace (pgName db)) d)"

definition provision_database :: "'w services \<Rightarrow> Config \<Rightarrow> string \<Rightarrow> string \<Rightarrow> PGDatabase \<Rightarrow> ('w, unit) op" where
  "provision_database E cfg appNamespace user db =
     chk (''create pg database \"'' @ pgName db @ ''\": '') (CreateDatabase E cfg appNamespace (pgName db) user) (\<lambda>_.
       if pgExtensions db \<noteq> []
       then chk (''create extensions for \"'' @ pgName db @ ''\": '')
              (CreateExtensions E cfg appNamespace (pgName db) (pgExtensions db)) ret
       else ret ())"

definition handlePostgreSQL :: "'w services \<Rightarrow> Config \<Rightarrow> MiddlewareRequest \<Rightarrow> ('w, unit) op" where
  "handlePostgreSQL E cfg req =
     (case specPostgreSQL (reqSpec req) of
        None \<Rightarrow> fail ''postgreSQL spec is nil''
      | Some spec \<Rightarrow>
          let ns = specAppNamespace (reqSpec req) in
          chk ''resolve pg password: '' (ResolvePassword E (pgPassword spec) (reqNamespace req)) (\<lambda>password.
          chk ''create pg user: '' (CreateOrUpdateUser E cfg (pgUser spec) password) (\<lambda>_.
          chk [] (for_each (provision_database E cfg ns (pgUser spec)) (pgDatabases spec)) (\<lambda>_.
            StoreCredentials E (reqNamespace req) (pg_secret_name req) (pg_credentials cfg ns spec password)))))"

definition deletePostgreSQL :: "'w services \<Rightarrow> Config \<Rightarrow> MiddlewareRequest \<Rightarrow> ('w, unit) op" where
  "deletePostgreSQL E cfg req =
     (case specPostgreSQL (reqSpec req) of
        None \<Rightarrow> ret ()
      | Some spec \<Rightarrow>
          attempt (for_all (\<lambda>db. DropDatabase E cfg (specAppNamespace (reqSpec req)) (pgName db)) (pgDatabases spec)) (\<lambda>_.
          attempt (ListDatabasesByOwner E cfg (pgUser spec)) (\<lambda>dbs.
          attempt (case dbs of Inl _ \<Rightarrow> ret () | Inr dbs \<Rightarrow> for_all (DropDatabase E cfg []) dbs) (\<lambda>_.
          attempt (DropUser E cfg (pgUser spec)) (\<lambda>_.
          attempt (DeleteCredentials E (reqNamespace req) (pg_secret_name req)) (\<lambda>_. ret ()))))))"

definition redis_request_namespace :: "MiddlewareRequest \<Rightarrow> RedisSpec \<Rightarrow> string" where
  "redis_request_namespace req spec = reqNamespace req @ ''_'' @ redisNamespace spec"

definition redis_secret_name :: "MiddlewareRequest \<Rightarrow> string" where
  "redis_secret_name req = specApp (reqSpec req) @ ''-redis-credentials''"

definition handleRedis :: "'w services \<Rightarrow> Config \<Rightarrow> MiddlewareRequest \<Rightarrow> ('w, unit) op" where
  "handleRedis E cfg req =
     (case specRedis (reqSpec req) of
        None \<Rightarrow> fail ''redis spec is nil''
      | Some spec \<Rightarrow>
          chk ''resolve redis password: '' (ResolvePassword E (redisPassword spec) (reqNamespace req)) (\<lambda>password.
            let namespace = redis_request_namespace req spec in
          chk ''create redis namespace: '' (CreateNamespace E cfg namespace password) (\<lambda>_.
            StoreCredentials E (reqNamespace req) (redis_secret_name req)
              [(''host'', RedisHost cfg), (''port'', int_str (RedisPort cfg)), (''password'', password),
               (''namespace'', namespace)])))"

definition deleteRedis :: "'w services \<Rightarrow> Config \<Rightarrow> MiddlewareRequest \<Rightarrow> ('w, unit) op" where
  "deleteRedis E cfg req =
     (case specRedis (reqSpec req) of
        None \<Rightarrow> ret ()
      | Some spec \<Rightarrow>
          attempt (DeleteNamespace E cfg (redis_request_namespace req spec)) (\<lambda>_.
          attempt (DeleteCredentials E (reqNamespace req) (redis_secret_name req)) (\<lambda>_. ret ())))"

definition nats_secret_name :: "MiddlewareRequest \<Rightarrow> string" where
  "nats_secret_name req = specApp (reqSpec req) @ ''-nats-credentials''"

definition handleNATS :: "'w services \<Rightarrow> Config \<Rightarrow> MiddlewareRequest \<Rightarrow> ('w, unit) op" where
  "handleNATS E cfg req =
     (case specNats (reqSpec req) of
        None \<Rightarrow> fail ''nats spec is nil''
      | Some spec \<Rightarrow>
          chk ''create nats stream: ''
            (CreateStream E cfg (specAppNamespace (reqSpec req)) (specApp (reqSpec req)) (natsSubjects spec)) (\<lambda>_.
          attempt (ResolvePassword E (natsPassword spec) (reqNamespace req)) (\<lambda>r.
            let password = (case r of Inl _ \<Rightarrow> [] | Inr p \<Rightarrow> p) in
            StoreCredentials E (reqNamespace req) (nats_secret_name req)
              [(''host'', NATSHost cfg), (''port'', int_str (NATSPort cfg)), (''user'', natsUser spec),
               (''password'', password)])))"

definition deleteNATS :: "'w services \<Rightarrow> Config \<Rightarrow> MiddlewareRequest \<Rightarrow> ('w, unit) op" where
  "deleteNATS E cfg req =
     (case specNats (reqSpec req) of
        None \<Rightarrow> ret ()
      | Some spec \<Rightarrow>
          attempt (DeleteStream E cfg (specAppNamespace (reqSpec req)) (specApp (reqSpec req))) (\<lambda>_.
          attempt (DeleteCredentials E (reqNamespace req) (nats_secret_name req)) (\<lambda>_. ret ())))"

definition updateStatus :: "'w services \<Rightarrow> MiddlewareRequest \<Rightarrow> string \<Rightarrow> string \<Rightarrow> ('w, unit) op" where
  "updateStatus E req state message =
     chk ''get resource for status update: '' (mrGet E (reqNamespace req) (reqName req)) (\<lambda>_ w.
       let status = [(''state'', state), (''updateTime'', mrNow E w)] @
                    (if message \<noteq> [] then [(''message'', message)] else [])
       in attempt (mrUpdateStatus E (reqNamespace req) (reqName req) status) (\<lambda>r.
            case r of
              Inr _ \<Rightarrow> ret ()
            | Inl _ \<Rightarrow> chk ''update status: '' (mrUpdate E (reqNamespace req) (reqName req) status) ret) w)"

definition provision :: "'w services \<Rightarrow> Config \<Rightarrow> MiddlewareRequest \<Rightarrow> ('w, unit) op option" where
  "provision E cfg req =
     (case specMiddleware (reqSpec req) of
        TypePostgreSQL \<Rightarrow> Some (handlePostgreSQL E cfg req)
      | TypeRedis \<Rightarrow> Some (handleRedis E cfg req)
      | TypeNats \<Rightarrow> Some (handleNATS E cfg req)
      | OtherType _ \<Rightarrow> None)"

definition handleCreateOrUpdate :: "'w services \<Rightarrow> Config \<Rightarrow> MiddlewareRequest \<Rightarrow> ('w, unit) op" where
  "handleCreateOrUpdate E cfg req =
     (if reqState req = ''ready'' then ret ()
      else case provision E cfg req of
        None \<Rightarrow> ret ()
      | Some op \<Rightarrow>
          attempt op (\<lambda>r.
            case r of
              Inl e \<Rightarrow> attempt (updateStatus E req ''failed'' e) (\<lambda>_. fail e)
            | Inr _ \<Rightarrow> updateStatus E req ''ready'' []))"

definition handleDelete :: "'w services \<Rightarrow> Config \<Rightarrow> MiddlewareRequest \<Rightarrow> ('w, unit) op" where
  "handleDelete E cfg req =
     (case specMiddleware (reqSpec req) of
        TypePostgreSQL \<Rightarrow> deletePostgreSQL E cfg req
      | TypeRedis \<Rightarrow> deleteRedis E cfg req
      | TypeNats \<Rightarrow> deleteNATS E cfg req
      | OtherType _ \<Rightarrow> ret ())"

subsection \<open>The watch\<close>

text \<open>
  The objects of a list or an event are read by \<open>parse\<close> (JSON of the whole object, \<^term>\<open>None\<close> an
  error). \<open>NoObject\<close> is an event without one, or with an object of another type.
\<close>

datatype 'o event = Added 'o | Modified 'o | Deleted 'o | Bookmark 'o | WatchError | NoObject

definition reconcile_items :: "'w services \<Rightarrow> Config \<Rightarrow> ('o \<Rightarrow> MiddlewareRequest option) \<Rightarrow> 'o list \<Rightarrow> ('w, unit) op" where
  "reconcile_items E cfg parse items =
     for_all (\<lambda>o'. case parse o' of None \<Rightarrow> ret () | Some req \<Rightarrow> handleCreateOrUpdate E cfg req) items"

text \<open>The resource version of the list, empty when it failed.\<close>

definition reconcileExisting ::
  "'w services \<Rightarrow> Config \<Rightarrow> ('o \<Rightarrow> MiddlewareRequest option) \<Rightarrow> string + ('o list \<times> string) \<Rightarrow> ('w, string) op" where
  "reconcileExisting E cfg parse listed =
     (case listed of
        Inl e \<Rightarrow> fail (''list middleware requests: '' @ e)
      | Inr (items, version) \<Rightarrow> attempt (reconcile_items E cfg parse items) (\<lambda>_. ret version))"

definition handle_event :: "'w services \<Rightarrow> Config \<Rightarrow> ('o \<Rightarrow> MiddlewareRequest option) \<Rightarrow> 'o event \<Rightarrow> ('w, unit) op" where
  "handle_event E cfg parse ev =
     (case ev of
        Added o' \<Rightarrow> (case parse o' of None \<Rightarrow> ret () | Some req \<Rightarrow> handleCreateOrUpdate E cfg req)
      | Modified o' \<Rightarrow> (case parse o' of None \<Rightarrow> ret () | Some req \<Rightarrow> handleCreateOrUpdate E cfg req)
      | Deleted o' \<Rightarrow> (case parse o' of None \<Rightarrow> ret () | Some req \<Rightarrow> handleDelete E cfg req)
      | _ \<Rightarrow> ret ())"

text \<open>The events until the channel closes, and why the loop ends.\<close>

fun watch_events :: "'w services \<Rightarrow> Config \<Rightarrow> ('o \<Rightarrow> MiddlewareRequest option) \<Rightarrow> 'o event list \<Rightarrow> ('w, unit) op" where
  "watch_events E cfg parse [] = fail ''watch channel closed''"
| "watch_events E cfg parse (ev # evs) =
     (case ev of
        WatchError \<Rightarrow> fail ''watch error event received''
      | _ \<Rightarrow> attempt (handle_event E cfg parse ev) (\<lambda>_. watch_events E cfg parse evs))"

definition watchLoop ::
  "'w services \<Rightarrow> Config \<Rightarrow> ('o \<Rightarrow> MiddlewareRequest option) \<Rightarrow> string + ('o list \<times> string) \<Rightarrow>
   (string \<Rightarrow> string + 'o event list) \<Rightarrow> ('w, unit) op" where
  "watchLoop E cfg parse listed watch =
     attempt (reconcileExisting E cfg parse listed) (\<lambda>r.
       let version = (case r of Inl _ \<Rightarrow> [] | Inr v \<Rightarrow> v) in
       case watch version of
         Inl e \<Rightarrow> fail (''watch middleware requests: '' @ e)
       | Inr evs \<Rightarrow> watch_events E cfg parse evs)"

end
