(* ===== verification/Mw_Outcomes.thy ===== *)
theory Mw_Outcomes
  imports Mw_Controller
begin

text \<open>
  What the operator relies on: the documented behaviour of PostgreSQL, Redis, JetStream and the
  Kubernetes API, stated on a view of the world. \<open>cluster\<close> is an instance that answers every
  request; the samples and the witnesses run on it.
\<close>

subsection \<open>The view\<close>

text \<open>Roles with their passwords, databases with their owners, extensions by connection string.\<close>

record view =
  roles :: "(string \<times> string) list"
  databases :: "(string \<times> string) list"
  extensions :: "(string \<times> string) list"
  redis_data :: "(string \<times> string) list"
  streams :: "(string \<times> string list) list"
  secrets :: "((string \<times> string) \<times> secret_data) list"
  statuses :: "((string \<times> string) \<times> (string \<times> string) list) list"

text \<open>One statement; \<^term>\<open>None\<close> is an error of the server.\<close>

fun pg_words :: "sql_token list \<Rightarrow> string list" where
  "pg_words [] = []"
| "pg_words (Word x # ts) = x # pg_words ts"
| "pg_words (_ # ts) = pg_words ts"

fun pg_operands :: "sql_token list \<Rightarrow> string list" where
  "pg_operands [] = []"
| "pg_operands (Word x # ts) = pg_operands ts"
| "pg_operands (Ident x # ts) = x # pg_operands ts"
| "pg_operands (Str x # ts) = x # pg_operands ts"

definition pg_step :: "string \<Rightarrow> sql_token list \<Rightarrow> view \<Rightarrow> view option" where
  "pg_step dsn toks v =
     (let ws = pg_words toks in
      case pg_operands toks of
        [x] \<Rightarrow>
          if ws = [''CREATE'', ''EXTENSION'', ''IF'', ''NOT'', ''EXISTS''] then Some (v\<lparr>extensions := List.insert (dsn, x) (extensions v)\<rparr>)
          else if ws = [''DROP'', ''DATABASE'', ''IF'', ''EXISTS''] then Some (v\<lparr>databases := AList.delete x (databases v)\<rparr>)
          else if ws = [''DROP'', ''ROLE'', ''IF'', ''EXISTS''] then
            (if \<exists>d \<in> set (databases v). map_of (databases v) (fst d) = Some x then None else Some (v\<lparr>roles := AList.delete x (roles v)\<rparr>))
          else None
      | [x, y] \<Rightarrow>
          if ws = [''CREATE'', ''ROLE'', ''WITH'', ''LOGIN'', ''PASSWORD''] then
            (if x \<in> fst ` set (roles v) then None else Some (v\<lparr>roles := AList.update x y (roles v)\<rparr>))
          else if ws = [''ALTER'', ''ROLE'', ''WITH'', ''PASSWORD''] then
            (if x \<in> fst ` set (roles v) then Some (v\<lparr>roles := AList.update x y (roles v)\<rparr>) else None)
          else if ws = [''CREATE'', ''DATABASE'', ''OWNER''] then
            (if x \<in> fst ` set (databases v) \<or> y \<notin> fst ` set (roles v) then None
             else Some (v\<lparr>databases := AList.update x y (databases v)\<rparr>))
          else None
      | _ \<Rightarrow> None)"

lemma pg_step_create_role:
  "pg_step dsn [Word ''CREATE'', Word ''ROLE'', Ident u, Word ''WITH'', Word ''LOGIN'', Word ''PASSWORD'', Str p] v =
     (if u \<in> fst ` set (roles v) then None else Some (v\<lparr>roles := AList.update u p (roles v)\<rparr>))"
  by (simp add: pg_step_def)

lemma pg_step_alter_role:
  "pg_step dsn [Word ''ALTER'', Word ''ROLE'', Ident u, Word ''WITH'', Word ''PASSWORD'', Str p] v =
     (if u \<in> fst ` set (roles v) then Some (v\<lparr>roles := AList.update u p (roles v)\<rparr>) else None)"
  by (simp add: pg_step_def)

lemma pg_step_create_database:
  "pg_step dsn [Word ''CREATE'', Word ''DATABASE'', Ident d, Word ''OWNER'', Ident u] v =
     (if d \<in> fst ` set (databases v) \<or> u \<notin> fst ` set (roles v) then None
      else Some (v\<lparr>databases := AList.update d u (databases v)\<rparr>))"
  by (simp add: pg_step_def)

lemma pg_step_extension:
  "pg_step dsn [Word ''CREATE'', Word ''EXTENSION'', Word ''IF'', Word ''NOT'', Word ''EXISTS'', Ident x] v =
     Some (v\<lparr>extensions := List.insert (dsn, x) (extensions v)\<rparr>)"
  by (simp add: pg_step_def)

lemma pg_step_drop_database:
  "pg_step dsn [Word ''DROP'', Word ''DATABASE'', Word ''IF'', Word ''EXISTS'', Ident d] v =
     Some (v\<lparr>databases := AList.delete d (databases v)\<rparr>)"
  by (simp add: pg_step_def)

lemma pg_step_drop_role:
  "pg_step dsn [Word ''DROP'', Word ''ROLE'', Word ''IF'', Word ''EXISTS'', Ident u] v =
     (if u \<in> ran (map_of (databases v)) then None else Some (v\<lparr>roles := AList.delete u (roles v)\<rparr>))"
proof -
  have "(\<exists>d \<in> set (databases v). map_of (databases v) (fst d) = Some u) \<longleftrightarrow> u \<in> ran (map_of (databases v))"
    by (auto simp: ran_def) (metis fst_conv map_of_SomeD)
  then show ?thesis by (simp add: pg_step_def)
qed

lemmas pg_step_simps = pg_step_create_role pg_step_alter_role pg_step_create_database pg_step_extension
  pg_step_drop_database pg_step_drop_role

definition redis_step :: "string list \<Rightarrow> view \<Rightarrow> view" where
  "redis_step args v =
     (case args of
        [c, k] \<Rightarrow> if c = ''DEL'' then v\<lparr>redis_data := AList.delete k (redis_data v)\<rparr> else v
      | [c, k, x] \<Rightarrow> if c = ''SET'' then v\<lparr>redis_data := AList.update k x (redis_data v)\<rparr> else v
      | _ \<Rightarrow> v)"

subsection \<open>The laws\<close>

text \<open>
  A statement that succeeds has run, one that is told to end connections changes nothing here; a
  query reads the catalogue; a Redis command that is not answered by an error has run, and its
  answer is one line; a call of the API or of JetStream that succeeds has its effect. What a
  failing call leaves is not said.
\<close>

definition pg_laws :: "'w services \<Rightarrow> ('w \<Rightarrow> view) \<Rightarrow> bool" where
  "pg_laws E vw \<longleftrightarrow>
     (\<forall>dsn sql args w w'. pgExec E dsn sql args w = Some (Inr (), w') \<and> sql \<noteq> terminate_sql \<longrightarrow>
        (\<exists>toks. sql_lex sql = Some toks \<and> pg_step dsn toks (vw w) = Some (vw w'))) \<and>
     (\<forall>dsn args w r w'. pgExec E dsn terminate_sql args w = Some (r, w') \<longrightarrow> vw w' = vw w) \<and>
     (\<forall>dsn x w b w'. pgExists E dsn role_query x w = Some (Inr b, w') \<longrightarrow>
        (b \<longleftrightarrow> x \<in> fst ` set (roles (vw w))) \<and> vw w' = vw w) \<and>
     (\<forall>dsn x w b w'. pgExists E dsn database_query x w = Some (Inr b, w') \<longrightarrow>
        (b \<longleftrightarrow> x \<in> fst ` set (databases (vw w))) \<and> vw w' = vw w) \<and>
     (\<forall>dsn x w ds w'. pgList E dsn owner_query x w = Some (Inr ds, w') \<longrightarrow>
        set ds = {d. map_of (databases (vw w)) d = Some x} \<and> vw w' = vw w)"

definition redis_command_laws :: "'w services \<Rightarrow> ('w \<Rightarrow> view) \<Rightarrow> bool" where
  "redis_command_laws E vw \<longleftrightarrow>
     (\<forall>a w w'. rdDial E a w = Some (Inr (), w') \<longrightarrow> vw w' = vw w) \<and>
     (\<forall>a bytes args w reply w'.
        rdWrite E a bytes w = Some (Inr reply, w') \<and> resp_parse bytes = Some (args, []) \<longrightarrow>
        (\<exists>msg. CHR 0x0A \<notin> set msg \<and>
           (reply = ''+'' @ msg @ crlf \<and> vw w' = redis_step args (vw w) \<or>
            reply = ''-'' @ msg @ crlf \<and> vw w' = vw w)))"

definition nats_laws :: "'w services \<Rightarrow> ('w \<Rightarrow> view) \<Rightarrow> bool" where
  "nats_laws E vw \<longleftrightarrow>
     (\<forall>a w w'. natsConnect E a w = Some (Inr (), w') \<longrightarrow> vw w' = vw w) \<and>
     (\<forall>a w w'. natsJetStream E a w = Some (Inr (), w') \<longrightarrow> vw w' = vw w) \<and>
     (\<forall>a n ss w w'. natsUpdate E a n ss w = Some (Inr (), w') \<or> natsAdd E a n ss w = Some (Inr (), w') \<longrightarrow>
        vw w' = (vw w)\<lparr>streams := AList.update n ss (streams (vw w))\<rparr>) \<and>
     (\<forall>a n w w'. natsDelete E a n w = (None, w') \<longrightarrow>
        vw w' = (vw w)\<lparr>streams := AList.delete n (streams (vw w))\<rparr>)"

definition secret_laws :: "'w services \<Rightarrow> ('w \<Rightarrow> view) \<Rightarrow> bool" where
  "secret_laws E vw \<longleftrightarrow>
     (\<forall>ns n w r w'. secGet E ns n w = Some (r, w') \<longrightarrow>
        vw w' = vw w \<and> (\<forall>d. r = Inr d \<longrightarrow> map_of (secrets (vw w)) (ns, n) = Some d)) \<and>
     (\<forall>ns n d w w'. secUpdate E ns n d w = Some (Inr (), w') \<or> secCreate E ns n d w = Some (Inr (), w') \<longrightarrow>
        vw w' = (vw w)\<lparr>secrets := AList.update (ns, n) d (secrets (vw w))\<rparr>) \<and>
     (\<forall>ns n w w'. secDelete E ns n w = Some (Inr (), w') \<longrightarrow>
        vw w' = (vw w)\<lparr>secrets := AList.delete (ns, n) (secrets (vw w))\<rparr>)"

definition status_laws :: "'w services \<Rightarrow> ('w \<Rightarrow> view) \<Rightarrow> bool" where
  "status_laws E vw \<longleftrightarrow>
     (\<forall>ns n w r w'. mrGet E ns n w = Some (r, w') \<longrightarrow> vw w' = vw w) \<and>
     (\<forall>ns n s w w'. mrUpdateStatus E ns n s w = Some (Inr (), w') \<or> mrUpdate E ns n s w = Some (Inr (), w') \<longrightarrow>
        vw w' = (vw w)\<lparr>statuses := AList.update (ns, n) s (statuses (vw w))\<rparr>) \<and>
     (\<forall>ns n s w e w'. mrUpdateStatus E ns n s w = Some (Inl e, w') \<longrightarrow> vw w' = vw w) \<and>
     (\<forall>ns n s w e w'. mrUpdate E ns n s w = Some (Inl e, w') \<longrightarrow> vw w' = vw w)"

definition mw_laws :: "'w services \<Rightarrow> ('w \<Rightarrow> view) \<Rightarrow> bool" where
  "mw_laws E vw \<longleftrightarrow>
     pg_laws E vw \<and> redis_command_laws E vw \<and> nats_laws E vw \<and> secret_laws E vw \<and> status_laws E vw"

subsection \<open>An instance\<close>

definition pg_exec :: "string \<Rightarrow> string \<Rightarrow> string list \<Rightarrow> (view, unit) op" where
  "pg_exec dsn sql args v =
     (if sql = terminate_sql then ret () v
      else case sql_lex sql of
        None \<Rightarrow> fail ''syntax error'' v
      | Some toks \<Rightarrow> (case pg_step dsn toks v of None \<Rightarrow> fail ''rejected'' v | Some v' \<Rightarrow> ret () v'))"

definition ok_line :: string where
  "ok_line = ''+OK'' @ crlf"

definition cluster :: "view services" where
  "cluster = \<lparr>
     pgOpen = (\<lambda>_. None),
     pgExists = (\<lambda>dsn sql x v. ret (if sql = role_query then x \<in> fst ` set (roles v)
                                    else x \<in> fst ` set (databases v)) v),
     pgList = (\<lambda>dsn sql x v. ret (map fst (filter (\<lambda>(d, u). u = x) (AList.clearjunk (databases v)))) v),
     pgExec = pg_exec,
     rdDial = (\<lambda>a. ret ()),
     rdWrite = (\<lambda>a bytes v. case resp_parse bytes of
        Some (args, []) \<Rightarrow> ret ok_line (redis_step args v) | _ \<Rightarrow> ret (''-ERR'' @ crlf) v),
     natsConnect = (\<lambda>a. ret ()),
     natsJetStream = (\<lambda>a. ret ()),
     natsInfo = (\<lambda>a n v. n \<in> fst ` set (streams v)),
     natsUpdate = (\<lambda>a n ss v. ret () (v\<lparr>streams := AList.update n ss (streams v)\<rparr>)),
     natsAdd = (\<lambda>a n ss v. ret () (v\<lparr>streams := AList.update n ss (streams v)\<rparr>)),
     natsDelete = (\<lambda>a n v. if n \<in> fst ` set (streams v)
        then (None, v\<lparr>streams := AList.delete n (streams v)\<rparr>) else (Some (''not found'', True), v)),
     secGet = (\<lambda>ns n v. case map_of (secrets v) (ns, n) of None \<Rightarrow> fail ''not found'' v | Some d \<Rightarrow> ret d v),
     secUpdate = (\<lambda>ns n d v. ret () (v\<lparr>secrets := AList.update (ns, n) d (secrets v)\<rparr>)),
     secCreate = (\<lambda>ns n d v. ret () (v\<lparr>secrets := AList.update (ns, n) d (secrets v)\<rparr>)),
     secDelete = (\<lambda>ns n v. ret () (v\<lparr>secrets := AList.delete (ns, n) (secrets v)\<rparr>)),
     mrGet = (\<lambda>ns n. ret ()),
     mrUpdateStatus = (\<lambda>ns n s v. ret () (v\<lparr>statuses := AList.update (ns, n) s (statuses v)\<rparr>)),
     mrUpdate = (\<lambda>ns n s v. ret () (v\<lparr>statuses := AList.update (ns, n) s (statuses v)\<rparr>)),
     mrNow = (\<lambda>_. ''2025-01-01T00:00:00Z'')\<rparr>"

lemma queries_differ [simp]: "role_query \<noteq> database_query" "database_query \<noteq> role_query"
  by (simp_all add: role_query_def database_query_def)

lemma owned_databases:
  "set (map fst (filter (\<lambda>(d, u). u = x) (AList.clearjunk ds))) = {d. map_of ds d = Some x}"
proof -
  have "map_of ds d = Some x \<longleftrightarrow> (d, x) \<in> set (AList.clearjunk ds)" for d
    by (simp add: map_of_eq_Some_iff [symmetric] map_of_clearjunk)
  then show ?thesis by force
qed

lemma cluster_exec:
  "pgExec cluster dsn sql args v = Some (Inr (), v') \<Longrightarrow> sql \<noteq> terminate_sql \<Longrightarrow>
   \<exists>toks. sql_lex sql = Some toks \<and> pg_step dsn toks v = Some v'"
  by (simp add: cluster_def pg_exec_def split: option.splits)

lemma cluster_pg: "pg_laws cluster id"
proof -
  have "pgExec cluster dsn terminate_sql args v = Some (r, v') \<Longrightarrow> v' = v" for dsn args v r v'
    by (simp add: cluster_def pg_exec_def)
  moreover have "pgExists cluster dsn role_query x v = Some (Inr b, v') \<Longrightarrow> (b \<longleftrightarrow> x \<in> fst ` set (roles v)) \<and> v' = v"
    for dsn x v b v' by (simp add: cluster_def)
  moreover have "pgExists cluster dsn database_query x v = Some (Inr b, v') \<Longrightarrow>
      (b \<longleftrightarrow> x \<in> fst ` set (databases v)) \<and> v' = v" for dsn x v b v'
    by (simp add: cluster_def)
  moreover have "pgList cluster dsn owner_query x v = Some (Inr ds, v') \<Longrightarrow>
      set ds = {d. map_of (databases v) d = Some x} \<and> v' = v" for dsn x v ds v'
    using owned_databases [of x "databases v"] by (simp add: cluster_def)
  ultimately show ?thesis
    unfolding pg_laws_def id_apply using cluster_exec by - (intro conjI allI impI; (elim conjE)?; metis)
qed

lemma cluster_redis: "redis_command_laws cluster id"
proof -
  have "CHR 0x0A \<notin> set ''OK''" "CHR 0x0A \<notin> set ''ERR''" by simp_all
  then show ?thesis
    unfolding redis_command_laws_def
    by (auto simp: cluster_def ok_line_def split: option.splits list.splits prod.splits)
qed

lemma cluster_nats: "nats_laws cluster id"
  by (auto simp: nats_laws_def cluster_def split: if_splits)

lemma cluster_secret: "secret_laws cluster id"
  by (auto simp: secret_laws_def cluster_def split: option.splits)

lemma cluster_status: "status_laws cluster id"
  by (auto simp: status_laws_def cluster_def)

lemma cluster_laws: "mw_laws cluster id"
  by (simp add: mw_laws_def cluster_pg cluster_redis cluster_nats cluster_secret cluster_status)

text \<open>
  What the operator's operations do to the view: each successful operation is a function of the
  view (\<open>pg_provisioned\<close>, \<open>redis_provisioned\<close>, \<open>nats_provisioned\<close>), and on servers that answer, it does succeed.
\<close>

subsection \<open>The laws as rules\<close>

lemma pg_exec_law:
  assumes "mw_laws E vw" "pgExec E dsn sql args w = Some (Inr (), w')" "sql \<noteq> terminate_sql"
    and "sql_lex sql = Some toks"
  shows "pg_step dsn toks (vw w) = Some (vw w')"
  using assms unfolding mw_laws_def pg_laws_def by fastforce

lemma pg_terminate_law:
  assumes "mw_laws E vw" "pgExec E dsn terminate_sql args w = Some (r, w')"
  shows "vw w' = vw w"
  using assms unfolding mw_laws_def pg_laws_def by blast

lemma pg_role_query_law:
  assumes "mw_laws E vw" "pgExists E dsn role_query x w = Some (Inr b, w')"
  shows "(b \<longleftrightarrow> x \<in> fst ` set (roles (vw w))) \<and> vw w' = vw w"
  using assms(2) assms(1) [unfolded mw_laws_def pg_laws_def] by metis

lemma pg_database_query_law:
  assumes "mw_laws E vw" "pgExists E dsn database_query x w = Some (Inr b, w')"
  shows "(b \<longleftrightarrow> x \<in> fst ` set (databases (vw w))) \<and> vw w' = vw w"
  using assms(2) assms(1) [unfolded mw_laws_def pg_laws_def] by metis

lemma pg_list_law:
  assumes "mw_laws E vw" "pgList E dsn owner_query x w = Some (Inr ds, w')"
  shows "set ds = {d. map_of (databases (vw w)) d = Some x} \<and> vw w' = vw w"
  using assms(2) assms(1) [unfolded mw_laws_def pg_laws_def] by metis

lemma secret_get_law:
  assumes "mw_laws E vw" "secGet E ns n w = Some (r, w')"
  shows "vw w' = vw w" "r = Inr d \<Longrightarrow> map_of (secrets (vw w)) (ns, n) = Some d"
  using assms unfolding mw_laws_def secret_laws_def by (blast, blast)

lemma secret_write_law:
  assumes "mw_laws E vw" "secUpdate E ns n d w = Some (Inr (), w') \<or> secCreate E ns n d w = Some (Inr (), w')"
  shows "vw w' = (vw w)\<lparr>secrets := AList.update (ns, n) d (secrets (vw w))\<rparr>"
  using assms unfolding mw_laws_def secret_laws_def by blast

lemma secret_delete_law:
  assumes "mw_laws E vw" "secDelete E ns n w = Some (Inr (), w')"
  shows "vw w' = (vw w)\<lparr>secrets := AList.delete (ns, n) (secrets (vw w))\<rparr>"
  using assms unfolding mw_laws_def secret_laws_def by blast

lemma statement_texts:
  "create_role_sql u p \<noteq> terminate_sql" "alter_role_sql u p \<noteq> terminate_sql"
  "create_database_sql d u \<noteq> terminate_sql" "create_extension_sql x \<noteq> terminate_sql"
  "drop_database_sql d \<noteq> terminate_sql" "drop_role_sql u \<noteq> terminate_sql"
  by (simp_all add: create_role_sql_def alter_role_sql_def create_database_sql_def create_extension_sql_def
      drop_database_sql_def drop_role_sql_def terminate_sql_def)

subsection \<open>PostgreSQL, on the view\<close>

definition database_provisioned :: "Config \<Rightarrow> string \<Rightarrow> string \<Rightarrow> PGDatabase \<Rightarrow> view \<Rightarrow> view" where
  "database_provisioned cfg ns u db v =
     (let d = GetDatabaseName ns (pgName db);
          v = (if d \<in> fst ` set (databases v) then v else v\<lparr>databases := AList.update d u (databases v)\<rparr>)
      in v\<lparr>extensions := fold (\<lambda>x. List.insert (pg_dsn cfg d, x)) (pgExtensions db) (extensions v)\<rparr>)"

text \<open>The password a request names, as the Secrets stand.\<close>

definition password_of :: "PasswordVar \<Rightarrow> string \<Rightarrow> view \<Rightarrow> string option" where
  "password_of pv ns v =
     (if pvValue pv \<noteq> [] then Some (pvValue pv)
      else case pvValueFrom pv of
        Some (Some ref) \<Rightarrow>
          (case map_of (secrets v) (ns, refName ref) of None \<Rightarrow> None | Some d \<Rightarrow> map_of d (refKey ref))
      | _ \<Rightarrow> None)"

definition pg_provisioned :: "Config \<Rightarrow> MiddlewareRequest \<Rightarrow> PostgreSQLSpec \<Rightarrow> string \<Rightarrow> view \<Rightarrow> view" where
  "pg_provisioned cfg req spec password v =
     (let ns = specAppNamespace (reqSpec req);
          v = v\<lparr>roles := AList.update (pgUser spec) (double_backslash password) (roles v)\<rparr>;
          v = fold (database_provisioned cfg ns (pgUser spec)) (pgDatabases spec) v
      in v\<lparr>secrets := AList.update (reqNamespace req, pg_secret_name req)
             (pg_credentials cfg ns spec password) (secrets v)\<rparr>)"

lemma pg_connect_ok: "pg_connect E cfg d w = Some (Inr db, w') \<Longrightarrow> db = pg_dsn cfg d \<and> w' = w"
  by (auto simp: pg_connect_def split: option.splits)

lemma CreateOrUpdateUser_ok:
  assumes L: "mw_laws E vw" and "CreateOrUpdateUser E cfg u p w = Some (Inr r, w')"
  shows "vw w' = (vw w)\<lparr>roles := AList.update u (double_backslash p) (roles (vw w))\<rparr>"
proof -
  from assms(2) obtain db w1 b w2 where
    w1: "pg_connect E cfg [] w = Some (Inr db, w1)" and w2: "pgExists E db role_query u w1 = Some (Inr b, w2)"
    and w3: "(if b then chk ''alter user password: '' (pgExec E db (alter_role_sql u p) []) ret
        else chk ''create user: '' (pgExec E db (create_role_sql u p) []) ret) w2 = Some (Inr r, w')"
    unfolding CreateOrUpdateUser_def by (elim chk_InrE) blast
  have "vw w2 = vw w" using pg_connect_ok [OF w1] pg_role_query_law [OF L w2] by simp
  moreover have "pgExec E db (alter_role_sql u p) [] w2 = Some (Inr (), w') \<or>
      pgExec E db (create_role_sql u p) [] w2 = Some (Inr (), w')"
    using w3 by (auto elim!: chk_InrE split: if_splits)
  ultimately show ?thesis
    using pg_exec_law [OF L _ statement_texts(1)] pg_exec_law [OF L _ statement_texts(2)] sql_statements
    by (fastforce simp: pg_step_create_role pg_step_alter_role split: if_splits)
qed

lemma CreateDatabase_ok:
  assumes L: "mw_laws E vw" and "CreateDatabase E cfg ns n u w = Some (Inr r, w')"
  shows "vw w' = (if GetDatabaseName ns n \<in> fst ` set (databases (vw w)) then vw w
                  else (vw w)\<lparr>databases := AList.update (GetDatabaseName ns n) u (databases (vw w))\<rparr>)"
proof -
  let ?d = "GetDatabaseName ns n"
  from assms(2) obtain db w1 b w2 where
    w1: "pg_connect E cfg [] w = Some (Inr db, w1)" and w2: "pgExists E db database_query ?d w1 = Some (Inr b, w2)"
    and w3: "(if b then ret () else chk (''create database \"'' @ ?d @ ''\": '')
        (pgExec E db (create_database_sql ?d u) []) ret) w2 = Some (Inr r, w')"
    unfolding CreateDatabase_def Let_def by (elim chk_InrE) blast
  have v: "vw w2 = vw w" "b \<longleftrightarrow> ?d \<in> fst ` set (databases (vw w))"
    using pg_connect_ok [OF w1] pg_database_query_law [OF L w2] by simp_all
  show ?thesis
  proof (cases b)
    case True
    with w3 v show ?thesis by simp
  next
    case False
    with w3 have "pgExec E db (create_database_sql ?d u) [] w2 = Some (Inr (), w')" by (auto elim!: chk_InrE)
    then have "pg_step db [Word ''CREATE'', Word ''DATABASE'', Ident ?d, Word ''OWNER'', Ident u] (vw w2) = Some (vw w')"
      by (rule pg_exec_law [OF L _ statement_texts(3)]) (simp add: sql_statements)
    with False v show ?thesis by (simp add: pg_step_create_database split: if_splits)
  qed
qed

lemma extension_loop_ok:
  assumes L: "mw_laws E vw"
    and "for_each (\<lambda>x. chk (msg x) (pgExec E dsn (create_extension_sql x) []) ret) xs w = Some (Inr r, w')"
  shows "vw w' = (vw w)\<lparr>extensions := fold (\<lambda>x. List.insert (dsn, x)) xs (extensions (vw w))\<rparr>"
  using assms(2)
proof (induction xs arbitrary: w)
  case (Cons x xs)
  from Cons.prems obtain w1 where
    w1: "pgExec E dsn (create_extension_sql x) [] w = Some (Inr (), w1)"
    and w2: "for_each (\<lambda>x. chk (msg x) (pgExec E dsn (create_extension_sql x) []) ret) xs w1 = Some (Inr r, w')"
    by (auto elim!: chk_InrE)
  have "pg_step dsn [Word ''CREATE'', Word ''EXTENSION'', Word ''IF'', Word ''NOT'', Word ''EXISTS'', Ident x] (vw w) = Some (vw w1)"
    by (rule pg_exec_law [OF L w1 statement_texts(4)]) (simp add: sql_statements)
  then have "vw w1 = (vw w)\<lparr>extensions := List.insert (dsn, x) (extensions (vw w))\<rparr>"
    by (simp add: pg_step_extension)
  with Cons.IH [OF w2] show ?case by simp
qed simp

lemma provision_database_ok:
  assumes L: "mw_laws E vw" and "provision_database E cfg ns u db w = Some (Inr r, w')"
  shows "vw w' = database_provisioned cfg ns u db (vw w)"
proof -
  let ?d = "GetDatabaseName ns (pgName db)"
  from assms(2) obtain a w1 where w1: "CreateDatabase E cfg ns (pgName db) u w = Some (Inr a, w1)"
    and w2: "(if pgExtensions db \<noteq> [] then chk (''create extensions for \"'' @ pgName db @ ''\": '')
        (CreateExtensions E cfg ns (pgName db) (pgExtensions db)) ret else ret ()) w1 = Some (Inr r, w')"
    unfolding provision_database_def by (elim chk_InrE) blast
  have "vw w' = (vw w1)\<lparr>extensions := fold (\<lambda>x. List.insert (pg_dsn cfg ?d, x)) (pgExtensions db) (extensions (vw w1))\<rparr>"
  proof (cases "pgExtensions db = []")
    case True
    with w2 show ?thesis by simp
  next
    case False
    with w2 have "CreateExtensions E cfg ns (pgName db) (pgExtensions db) w1 = Some (Inr (), w')"
      by (auto elim!: chk_InrE)
    then obtain w3 where "for_each (\<lambda>x. chk (''create extension \"'' @ x @ ''\" in \"'' @ ?d @ ''\": '')
          (pgExec E (pg_dsn cfg ?d) (create_extension_sql x) []) ret) (pgExtensions db) w3 = Some (Inr (), w')" "w3 = w1"
      unfolding CreateExtensions_def Let_def by (elim chk_InrE) (auto dest!: pg_connect_ok)
    then show ?thesis by (auto dest: extension_loop_ok [OF L])
  qed
  then show ?thesis
    using CreateDatabase_ok [OF L w1] by (simp add: database_provisioned_def Let_def)
qed

lemma for_each_view:
  assumes "\<And>x w r w'. f x w = Some (Inr r, w') \<Longrightarrow> vw w' = g x (vw w)"
    and "for_each f xs w = Some (Inr r, w')"
  shows "vw w' = fold g xs (vw w)"
  using assms(2)
proof (induction xs arbitrary: w)
  case (Cons x xs)
  then obtain w1 where "f x w = Some (Inr (), w1)" "for_each f xs w1 = Some (Inr r, w')"
    by (auto elim!: chk_InrE)
  with Cons.IH assms(1) show ?case by fastforce
qed simp

lemma StoreCredentials_ok:
  assumes L: "mw_laws E vw" and "StoreCredentials E ns n d w = Some (Inr r, w')"
  shows "vw w' = (vw w)\<lparr>secrets := AList.update (ns, n) d (secrets (vw w))\<rparr>"
proof -
  from assms(2) obtain s w1 where w1: "secGet E ns n w = Some (s, w1)"
    and w2: "(case s of Inr _ \<Rightarrow> chk (''update secret '' @ ns @ ''/'' @ n @ '': '') (secUpdate E ns n d) ret
       | Inl _ \<Rightarrow> chk (''create secret '' @ ns @ ''/'' @ n @ '': '') (secCreate E ns n d) ret) w1 = Some (Inr r, w')"
    unfolding StoreCredentials_def by (elim attemptE) blast
  have "secUpdate E ns n d w1 = Some (Inr (), w') \<or> secCreate E ns n d w1 = Some (Inr (), w')"
    using w2 by (auto split: sum.splits elim!: chk_InrE)
  then show ?thesis using secret_write_law [OF L] secret_get_law(1) [OF L w1] by metis
qed

lemma ResolvePassword_ok:
  assumes L: "mw_laws E vw" and "ResolvePassword E pv ns w = Some (Inr p, w')"
  shows "password_of pv ns (vw w) = Some p \<and> vw w' = vw w"
proof (cases "pvValue pv = []")
  case True
  with assms(2) obtain ref where ref: "pvValueFrom pv = Some (Some ref)"
    by (auto simp: ResolvePassword_def split: option.splits)
  with True assms(2) obtain d where "secGet E ns (refName ref) w = Some (Inr d, w')" "map_of d (refKey ref) = Some p"
    by (auto simp: ResolvePassword_def elim!: chk_InrE split: option.splits)
  then show ?thesis using secret_get_law [OF L] ref True by (fastforce simp: password_of_def)
next
  case False
  with assms(2) show ?thesis by (auto simp: ResolvePassword_def password_of_def)
qed

lemma handlePostgreSQL_ok:
  assumes L: "mw_laws E vw" and spec: "specPostgreSQL (reqSpec req) = Some spec"
    and "handlePostgreSQL E cfg req w = Some (Inr r, w')"
  obtains p where "password_of (pgPassword spec) (reqNamespace req) (vw w) = Some p"
    "vw w' = pg_provisioned cfg req spec p (vw w)"
proof -
  let ?ns = "specAppNamespace (reqSpec req)"
  from assms(3) spec obtain p w1 a w2 b w3 where
    w1: "ResolvePassword E (pgPassword spec) (reqNamespace req) w = Some (Inr p, w1)"
    and w2: "CreateOrUpdateUser E cfg (pgUser spec) p w1 = Some (Inr a, w2)"
    and w3: "for_each (provision_database E cfg ?ns (pgUser spec)) (pgDatabases spec) w2 = Some (Inr b, w3)"
    and w4: "StoreCredentials E (reqNamespace req) (pg_secret_name req) (pg_credentials cfg ?ns spec p) w3 = Some (Inr r, w')"
    unfolding handlePostgreSQL_def Let_def by (auto elim!: chk_InrE)
  have "vw w3 = fold (database_provisioned cfg ?ns (pgUser spec)) (pgDatabases spec) (vw w2)"
    using provision_database_ok [OF L] w3 by (rule for_each_view)
  then have "vw w' = pg_provisioned cfg req spec p (vw w)"
    using ResolvePassword_ok [OF L w1] CreateOrUpdateUser_ok [OF L w2] StoreCredentials_ok [OF L w4]
    by (simp add: pg_provisioned_def Let_def)
  with ResolvePassword_ok [OF L w1] that show ?thesis by simp
qed

subsection \<open>Redis and NATS, on the view\<close>

lemma redis_write_law:
  assumes "mw_laws E vw" "rdWrite E a (sendCommand_bytes args) w = Some (Inr answer, w')"
  obtains (done_) msg where "CHR 0x0A \<notin> set msg" "answer = ''+'' @ msg @ crlf" "vw w' = redis_step args (vw w)"
  | (refused) msg where "CHR 0x0A \<notin> set msg" "answer = ''-'' @ msg @ crlf" "vw w' = vw w"
proof -
  have "resp_parse (sendCommand_bytes args) = Some (args, [])"
    using resp_parse_sent [of args "[]"] by simp
  then show ?thesis
    using assms(2) assms(1) [unfolded mw_laws_def redis_command_laws_def] that by metis
qed

lemma sendCommand_ok:
  assumes L: "mw_laws E vw" and "sendCommand E a [] args w = Some (Inr rest, w')"
  shows "rest = [] \<and> vw w' = redis_step args (vw w)"
proof -
  from assms(2) obtain answer w1 where w1: "rdWrite E a (sendCommand_bytes args) w = Some (Inr answer, w1)"
    and w2: "(case readResponse answer of None \<Rightarrow> None | Some (Inl e, rest) \<Rightarrow> fail (redis_msg e) w1
       | Some (Inr _, rest) \<Rightarrow> ret rest w1) = Some (Inr rest, w')"
    unfolding sendCommand_def by (elim chk_InrE) simp
  from L w1 show ?thesis
  proof (cases rule: redis_write_law)
    case (done_ msg)
    with w2 show ?thesis using readResponse_status(1) [of msg "[]"] by simp
  next
    case (refused msg)
    with w2 show ?thesis using readResponse_status(2) [of msg "[]"] by simp
  qed
qed

text \<open>On lawful servers no answer makes the operator panic.\<close>

lemma sendCommand_no_panic:
  assumes L: "mw_laws E vw" and "rdWrite E a (sendCommand_bytes args) w \<noteq> None"
  shows "sendCommand E a [] args w \<noteq> None"
proof -
  obtain r w1 where w1: "rdWrite E a (sendCommand_bytes args) w = Some (r, w1)" using assms(2) by auto
  show ?thesis
  proof (cases r)
    case (Inl e)
    with w1 show ?thesis by (simp add: sendCommand_def chk_def)
  next
    case (Inr answer)
    with w1 have "rdWrite E a (sendCommand_bytes args) w = Some (Inr answer, w1)" by simp
    with L show ?thesis
      by (cases rule: redis_write_law)
        (use w1 Inr readResponse_status [of _ "[]"] in \<open>simp_all add: sendCommand_def chk_def ret_def fail_def\<close>)
  qed
qed

lemma redis_step_AUTH: "redis_step [''AUTH'', p] v = v"
  by (simp add: redis_step_def)

lemma redis_connect_ok:
  assumes L: "mw_laws E vw" and "redis_connect E cfg w = Some (Inr (conn, unread), w')"
  shows "conn = redis_addr cfg \<and> unread = [] \<and> vw w' = vw w"
proof -
  from assms(2) obtain w1 where w1: "rdDial E (redis_addr cfg) w = Some (Inr (), w1)"
    and w2: "(if RedisPassword cfg \<noteq> []
       then chk ''redis AUTH: '' (sendCommand E (redis_addr cfg) [] [''AUTH'', RedisPassword cfg])
              (\<lambda>unread. ret (redis_addr cfg, unread))
       else ret (redis_addr cfg, [])) w1 = Some (Inr (conn, unread), w')"
    unfolding redis_connect_def by (elim chk_InrE) simp
  have "vw w1 = vw w" using L w1 unfolding mw_laws_def redis_command_laws_def by blast
  then show ?thesis
    using w2 sendCommand_ok [OF L] by (auto elim!: chk_InrE split: if_splits simp: redis_step_AUTH)
qed

lemma CreateNamespace_ok:
  assumes L: "mw_laws E vw" and "CreateNamespace E cfg n p w = Some (Inr r, w')"
  shows "vw w' = (vw w)\<lparr>redis_data := AList.update (redis_key n) p (redis_data (vw w))\<rparr>"
proof -
  from assms(2) obtain conn unread w1 rest where w1: "redis_connect E cfg w = Some (Inr (conn, unread), w1)"
    and w2: "sendCommand E conn unread [''SET'', redis_key n, p] w1 = Some (Inr rest, w')"
    unfolding CreateNamespace_def by (auto elim!: chk_InrE)
  have "unread = []" "vw w1 = vw w" using redis_connect_ok [OF L w1] by simp_all
  with sendCommand_ok [OF L] w2 show ?thesis by (auto simp: redis_step_def)
qed

lemma DeleteNamespace_ok:
  assumes L: "mw_laws E vw" and "DeleteNamespace E cfg n w = Some (Inr r, w')"
  shows "vw w' = (vw w)\<lparr>redis_data := AList.delete (redis_key n) (redis_data (vw w))\<rparr>"
proof -
  from assms(2) obtain conn unread w1 rest where w1: "redis_connect E cfg w = Some (Inr (conn, unread), w1)"
    and w2: "sendCommand E conn unread [''DEL'', redis_key n] w1 = Some (Inr rest, w')"
    unfolding DeleteNamespace_def by (auto elim!: chk_InrE)
  have "unread = []" "vw w1 = vw w" using redis_connect_ok [OF L w1] by simp_all
  with sendCommand_ok [OF L] w2 show ?thesis by (auto simp: redis_step_def)
qed

definition redis_provisioned :: "Config \<Rightarrow> MiddlewareRequest \<Rightarrow> RedisSpec \<Rightarrow> string \<Rightarrow> view \<Rightarrow> view" where
  "redis_provisioned cfg req spec p v =
     (let n = redis_request_namespace req spec in
      v\<lparr>redis_data := AList.update (redis_key n) p (redis_data v),
        secrets := AList.update (reqNamespace req, redis_secret_name req)
          [(''host'', RedisHost cfg), (''port'', int_str (RedisPort cfg)), (''password'', p), (''namespace'', n)]
          (secrets v)\<rparr>)"

lemma handleRedis_ok:
  assumes L: "mw_laws E vw" and spec: "specRedis (reqSpec req) = Some spec"
    and "handleRedis E cfg req w = Some (Inr r, w')"
  obtains p where "password_of (redisPassword spec) (reqNamespace req) (vw w) = Some p"
    "vw w' = redis_provisioned cfg req spec p (vw w)"
proof -
  let ?n = "redis_request_namespace req spec"
  from assms(3) spec obtain p w1 a w2 where
    w1: "ResolvePassword E (redisPassword spec) (reqNamespace req) w = Some (Inr p, w1)"
    and w2: "CreateNamespace E cfg ?n p w1 = Some (Inr a, w2)"
    and w3: "StoreCredentials E (reqNamespace req) (redis_secret_name req)
       [(''host'', RedisHost cfg), (''port'', int_str (RedisPort cfg)), (''password'', p), (''namespace'', ?n)] w2 = Some (Inr r, w')"
    unfolding handleRedis_def Let_def by (auto elim!: chk_InrE)
  have "vw w' = redis_provisioned cfg req spec p (vw w)"
    using ResolvePassword_ok [OF L w1] CreateNamespace_ok [OF L w2] StoreCredentials_ok [OF L w3]
    by (simp add: redis_provisioned_def Let_def)
  with ResolvePassword_ok [OF L w1] that show ?thesis by simp
qed

definition stream_provisioned :: "string \<Rightarrow> string \<Rightarrow> Subject list \<Rightarrow> view \<Rightarrow> view" where
  "stream_provisioned ns app ss v =
     (if ss = [] then v
      else v\<lparr>streams := AList.update (stream_name ns app) (subject_names ns ss) (streams v)\<rparr>)"

lemma CreateStream_ok:
  assumes L: "mw_laws E vw" and "CreateStream E cfg ns app ss w = Some (Inr r, w')"
  shows "vw w' = stream_provisioned ns app ss (vw w)"
proof -
  let ?n = "stream_name ns app" and ?ss = "subject_names ns ss" and ?u = "nats_url cfg"
  from assms(2) obtain w1 w2 where w1: "natsConnect E ?u w = Some (Inr (), w1)"
    and w2: "natsJetStream E ?u w1 = Some (Inr (), w2)"
    and w3: "?ss = [] \<and> w' = w2 \<or> ?ss \<noteq> [] \<and>
      (natsUpdate E ?u ?n ?ss w2 = Some (Inr (), w') \<or> natsAdd E ?u ?n ?ss w2 = Some (Inr (), w'))"
    unfolding CreateStream_def Let_def by (auto elim!: chk_InrE split: if_splits)
  have "vw w2 = vw w" using L w1 w2 unfolding mw_laws_def nats_laws_def by metis
  moreover have "vw w' = (vw w2)\<lparr>streams := AList.update ?n ?ss (streams (vw w2))\<rparr>" if "?ss \<noteq> []"
    using that w3 L unfolding mw_laws_def nats_laws_def by blast
  moreover have "?ss = [] \<longleftrightarrow> ss = []" by (simp add: subject_names_def)
  ultimately show ?thesis using w3 by (auto simp: stream_provisioned_def)
qed

text \<open>
  A NATS password that cannot be resolved is the empty one; that a Secret was unreadable for a
  moment cannot be told from there being none.
\<close>

definition nats_provisioned :: "Config \<Rightarrow> MiddlewareRequest \<Rightarrow> NatsSpec \<Rightarrow> string \<Rightarrow> view \<Rightarrow> view" where
  "nats_provisioned cfg req spec p v =
     (let v = stream_provisioned (specAppNamespace (reqSpec req)) (specApp (reqSpec req)) (natsSubjects spec) v in
      v\<lparr>secrets := AList.update (reqNamespace req, nats_secret_name req)
          [(''host'', NATSHost cfg), (''port'', int_str (NATSPort cfg)), (''user'', natsUser spec), (''password'', p)]
          (secrets v)\<rparr>)"

lemma ResolvePassword_view:
  assumes L: "mw_laws E vw" and "ResolvePassword E pv ns w = Some (r, w')"
  shows "vw w' = vw w"
  using assms(2) secret_get_law(1) [OF L]
  by (auto simp: ResolvePassword_def chk_def split: option.splits if_splits sum.splits)

lemma handleNATS_ok:
  assumes L: "mw_laws E vw" and spec: "specNats (reqSpec req) = Some spec"
    and "handleNATS E cfg req w = Some (Inr r, w')"
  obtains p where "password_of (natsPassword spec) (reqNamespace req) (vw w) = Some p \<or> p = []"
    "vw w' = nats_provisioned cfg req spec p (vw w)"
proof -
  let ?ns = "specAppNamespace (reqSpec req)" and ?app = "specApp (reqSpec req)"
  from assms(3) spec obtain a w1 q w2 where
    w1: "CreateStream E cfg ?ns ?app (natsSubjects spec) w = Some (Inr a, w1)"
    and w2: "ResolvePassword E (natsPassword spec) (reqNamespace req) w1 = Some (q, w2)"
    and w3: "StoreCredentials E (reqNamespace req) (nats_secret_name req)
       [(''host'', NATSHost cfg), (''port'', int_str (NATSPort cfg)), (''user'', natsUser spec),
        (''password'', case q of Inl _ \<Rightarrow> [] | Inr p \<Rightarrow> p)] w2 = Some (Inr r, w')"
    unfolding handleNATS_def Let_def by (auto elim!: chk_InrE attemptE)
  let ?p = "case q of Inl _ \<Rightarrow> [] | Inr p \<Rightarrow> p"
  have v1: "vw w1 = stream_provisioned ?ns ?app (natsSubjects spec) (vw w)" by (rule CreateStream_ok [OF L w1])
  then have "secrets (vw w1) = secrets (vw w)" by (simp add: stream_provisioned_def)
  then have "password_of (natsPassword spec) (reqNamespace req) (vw w) = Some ?p \<or> ?p = []"
  proof (cases q)
    case (Inr p)
    have "password_of (natsPassword spec) (reqNamespace req) (vw w1) =
        password_of (natsPassword spec) (reqNamespace req) (vw w)"
      using \<open>secrets (vw w1) = secrets (vw w)\<close> by (simp add: password_of_def split: option.split)
    with ResolvePassword_ok [OF L w2 [unfolded Inr]] Inr show ?thesis by simp
  qed simp
  moreover have "vw w' = nats_provisioned cfg req spec ?p (vw w)"
    using StoreCredentials_ok [OF L w3] ResolvePassword_view [OF L w2] v1
    by (simp add: nats_provisioned_def Let_def)
  ultimately show ?thesis using that by blast
qed

subsection \<open>The status\<close>

definition status_set :: "MiddlewareRequest \<Rightarrow> (string \<times> string) list \<Rightarrow> view \<Rightarrow> view" where
  "status_set req s v = v\<lparr>statuses := AList.update (reqNamespace req, reqName req) s (statuses v)\<rparr>"

definition status_fields :: "string \<Rightarrow> string \<Rightarrow> string \<Rightarrow> (string \<times> string) list" where
  "status_fields state t message =
     [(''state'', state), (''updateTime'', t)] @ (if message \<noteq> [] then [(''message'', message)] else [])"

lemma updateStatus_effect:
  assumes L: "mw_laws E vw" and "updateStatus E req state msg w = Some (r, w')"
  shows "(\<exists>e. r = Inl e) \<and> vw w' = vw w \<or> r = Inr () \<and> (\<exists>t. vw w' = status_set req (status_fields state t msg) (vw w))"
proof -
  let ?ns = "reqNamespace req" and ?n = "reqName req"
  have read: "mrGet E ?ns ?n w = Some (x, w1) \<Longrightarrow> vw w1 = vw w" for x w1
    using L unfolding mw_laws_def status_laws_def by metis
  have wrote: "mrUpdateStatus E ?ns ?n s v = Some (Inr (), v') \<or> mrUpdate E ?ns ?n s v = Some (Inr (), v') \<Longrightarrow>
      vw v' = status_set req s (vw v)" for s v v'
    using L unfolding mw_laws_def status_laws_def status_set_def by metis
  have miss: "mrUpdateStatus E ?ns ?n s v = Some (Inl e, v') \<or> mrUpdate E ?ns ?n s v = Some (Inl e, v') \<Longrightarrow>
      vw v' = vw v" for s v e v'
    using L unfolding mw_laws_def status_laws_def by metis
  show ?thesis
  proof (cases "mrGet E ?ns ?n w")
    case (Some p)
    then obtain x w1 where g: "mrGet E ?ns ?n w = Some (x, w1)" by (cases p) auto
    show ?thesis
    proof (cases x)
      case (Inl e)
      with g assms(2) read show ?thesis by (auto simp: updateStatus_def chk_def)
    next
      case (Inr u)
      let ?s = "status_fields state (mrNow E w1) msg"
      have "attempt (mrUpdateStatus E ?ns ?n ?s) (\<lambda>r. case r of Inr _ \<Rightarrow> ret ()
              | Inl _ \<Rightarrow> chk ''update status: '' (mrUpdate E ?ns ?n ?s) ret) w1 = Some (r, w')"
        using assms(2) unfolding updateStatus_def chk_Inr [of "mrGet E (reqNamespace req) (reqName req)", OF g [unfolded Inr]]
          Let_def status_fields_def .
      then show ?thesis
        using read [OF g] wrote miss by (elim attemptE) (fastforce split: sum.splits elim!: chk_SomeE)
    qed
  qed (use assms(2) in \<open>simp add: updateStatus_def chk_def\<close>)
qed

end
