(* ===== verification/Mw_Properties.thy ===== *)
theory Mw_Properties
  imports Mw_Outcomes
begin

text \<open>
  The operator on servers that answer: provisioning succeeds, removal succeeds, and removal
  undoes provisioning.
\<close>

subsection \<open>Servers that answer\<close>

definition answers :: "'w services \<Rightarrow> ('w \<Rightarrow> view) \<Rightarrow> bool" where
  "answers E vw \<longleftrightarrow>
     (\<forall>s. pgOpen E s = None) \<and>
     (\<forall>dsn q x w. \<exists>b w'. pgExists E dsn q x w = Some (Inr b, w')) \<and>
     (\<forall>dsn sql args w toks v. sql_lex sql = Some toks \<and> pg_step dsn toks (vw w) = Some v \<longrightarrow>
        (\<exists>w'. pgExec E dsn sql args w = Some (Inr (), w'))) \<and>
     (\<forall>dsn args w. \<exists>r w'. pgExec E dsn terminate_sql args w = Some (r, w')) \<and>
     (\<forall>dsn q x w. \<exists>ds w'. pgList E dsn q x w = Some (Inr ds, w')) \<and>
     (\<forall>ns n w. \<exists>r w'. secGet E ns n w = Some (r, w') \<and>
        (\<forall>d. map_of (secrets (vw w)) (ns, n) = Some d \<longrightarrow> r = Inr d)) \<and>
     (\<forall>ns n d w. \<exists>w'. secUpdate E ns n d w = Some (Inr (), w')) \<and>
     (\<forall>ns n d w. \<exists>w'. secCreate E ns n d w = Some (Inr (), w')) \<and>
     (\<forall>ns n w. (ns, n) \<in> fst ` set (secrets (vw w)) \<longrightarrow> (\<exists>w'. secDelete E ns n w = Some (Inr (), w')))"

lemma answers_open: "answers E vw \<Longrightarrow> pg_connect E cfg d w = Some (Inr (pg_dsn cfg d), w)"
  by (simp add: answers_def pg_connect_def)

lemma answers_exists: "answers E vw \<Longrightarrow> \<exists>b w'. pgExists E dsn q x w = Some (Inr b, w')"
  by (simp add: answers_def)

lemma answers_exec:
  "answers E vw \<Longrightarrow> sql_lex sql = Some toks \<Longrightarrow> pg_step dsn toks (vw w) \<noteq> None \<Longrightarrow>
   \<exists>w'. pgExec E dsn sql [] w = Some (Inr (), w')"
  by (auto simp: answers_def)

lemma answers_terminate: "answers E vw \<Longrightarrow> \<exists>r w'. pgExec E dsn terminate_sql args w = Some (r, w')"
  by (simp add: answers_def)

lemma answers_list: "answers E vw \<Longrightarrow> \<exists>ds w'. pgList E dsn q x w = Some (Inr ds, w')"
  by (simp add: answers_def)

lemma answers_get:
  "answers E vw \<Longrightarrow> \<exists>r w'. secGet E ns n w = Some (r, w') \<and> (\<forall>d. map_of (secrets (vw w)) (ns, n) = Some d \<longrightarrow> r = Inr d)"
  by (simp add: answers_def)

lemma answers_store:
  "answers E vw \<Longrightarrow> \<exists>w'. secUpdate E ns n d w = Some (Inr (), w')"
  "answers E vw \<Longrightarrow> \<exists>w'. secCreate E ns n d w = Some (Inr (), w')"
  by (simp_all add: answers_def)

lemma answers_delete:
  "answers E vw \<Longrightarrow> (ns, n) \<in> fst ` set (secrets (vw w)) \<Longrightarrow> \<exists>w'. secDelete E ns n w = Some (Inr (), w')"
  by (simp add: answers_def)

lemma cluster_answers: "answers cluster id"
proof -
  have exec: "\<exists>v'. pgExec cluster dsn sql args v = Some (Inr (), v')"
    if "sql_lex sql = Some toks" "pg_step dsn toks v = Some v1" for dsn sql args v toks v1
    using that by (cases "sql = terminate_sql") (simp_all add: cluster_def pg_exec_def)
  show ?thesis
    unfolding answers_def id_apply
    by (intro conjI allI impI; (elim conjE)?; (rule exec; assumption)?)
      (auto simp: cluster_def pg_exec_def split: option.split)
qed

subsection \<open>Provisioning succeeds\<close>

lemma in_keys_update: "x \<in> fst ` set (AList.update k v al) \<longleftrightarrow> x = k \<or> x \<in> fst ` set al"
  using dom_update [of k v al] by (auto simp: image_iff)

lemma CreateOrUpdateUser_total:
  assumes L: "mw_laws E vw" and A: "answers E vw"
  shows "\<exists>w'. CreateOrUpdateUser E cfg u p w = Some (Inr (), w')"
proof -
  let ?db = "pg_dsn cfg []"
  obtain b w1 where w1: "pgExists E ?db role_query u w = Some (Inr b, w1)" using answers_exists [OF A] by blast
  have b: "b \<longleftrightarrow> u \<in> fst ` set (roles (vw w1))" using pg_role_query_law [OF L w1] by simp
  show ?thesis
  proof (cases b)
    case True
    with b obtain w2 where "pgExec E ?db (alter_role_sql u p) [] w1 = Some (Inr (), w2)"
      using answers_exec [OF A sql_alter_role, of ?db u p w1] by (auto simp: pg_step_alter_role)
    with True w1 show ?thesis by (simp add: CreateOrUpdateUser_def chk_def answers_open [OF A])
  next
    case False
    with b obtain w2 where "pgExec E ?db (create_role_sql u p) [] w1 = Some (Inr (), w2)"
      using answers_exec [OF A sql_create_role, of ?db u p w1] by (auto simp: pg_step_create_role)
    with False w1 show ?thesis by (simp add: CreateOrUpdateUser_def chk_def answers_open [OF A])
  qed
qed

lemma CreateDatabase_total:
  assumes L: "mw_laws E vw" and A: "answers E vw" and u: "u \<in> fst ` set (roles (vw w))"
  shows "\<exists>w'. CreateDatabase E cfg ns n u w = Some (Inr (), w')"
proof -
  let ?db = "pg_dsn cfg []" and ?d = "GetDatabaseName ns n"
  obtain b w1 where w1: "pgExists E ?db database_query ?d w = Some (Inr b, w1)" using answers_exists [OF A] by blast
  have b: "b \<longleftrightarrow> ?d \<in> fst ` set (databases (vw w1))" "vw w1 = vw w" using pg_database_query_law [OF L w1] by simp_all
  show ?thesis
  proof (cases b)
    case True
    with w1 show ?thesis by (simp add: CreateDatabase_def Let_def chk_def answers_open [OF A])
  next
    case False
    with b u obtain w2 where "pgExec E ?db (create_database_sql ?d u) [] w1 = Some (Inr (), w2)"
      using answers_exec [OF A sql_create_database, of ?db ?d u w1] by (auto simp: pg_step_create_database)
    with False w1 show ?thesis by (simp add: CreateDatabase_def Let_def chk_def answers_open [OF A])
  qed
qed

lemma extension_loop_total:
  assumes A: "answers E vw"
  shows "\<exists>w'. for_each (\<lambda>x. chk (msg x) (pgExec E dsn (create_extension_sql x) []) ret) xs w = Some (Inr (), w')"
proof (induction xs arbitrary: w)
  case (Cons x xs)
  obtain w1 where "pgExec E dsn (create_extension_sql x) [] w = Some (Inr (), w1)"
    using answers_exec [OF A sql_create_extension, of dsn x w] by (auto simp: pg_step_extension)
  with Cons.IH [of w1] show ?case by (simp add: chk_def ret_def)
qed simp

lemma provision_database_total:
  assumes L: "mw_laws E vw" and A: "answers E vw" and u: "u \<in> fst ` set (roles (vw w))"
  shows "\<exists>w'. provision_database E cfg ns u db w = Some (Inr (), w')"
proof -
  obtain w1 where w1: "CreateDatabase E cfg ns (pgName db) u w = Some (Inr (), w1)"
    using CreateDatabase_total [OF L A u] by blast
  let ?d = "GetDatabaseName ns (pgName db)"
  obtain w2 where "for_each (\<lambda>x. chk (''create extension \"'' @ x @ ''\" in \"'' @ ?d @ ''\": '')
      (pgExec E (pg_dsn cfg ?d) (create_extension_sql x) []) ret) (pgExtensions db) w1 = Some (Inr (), w2)"
    using extension_loop_total [OF A, of "\<lambda>x. ''create extension \"'' @ x @ ''\" in \"'' @ ?d @ ''\": ''"] by blast
  then have "CreateExtensions E cfg ns (pgName db) (pgExtensions db) w1 = Some (Inr (), w2)"
    by (simp add: CreateExtensions_def Let_def chk_def answers_open [OF A])
  with w1 show ?thesis by (simp add: provision_database_def chk_def ret_def)
qed

lemma database_provisioned_roles [simp]: "roles (database_provisioned cfg ns u db v) = roles v"
  by (simp add: database_provisioned_def Let_def)

lemma provision_databases_total:
  assumes L: "mw_laws E vw" and A: "answers E vw" and "u \<in> fst ` set (roles (vw w))"
  shows "\<exists>w'. for_each (provision_database E cfg ns u) dbs w = Some (Inr (), w')"
  using assms(3)
proof (induction dbs arbitrary: w)
  case (Cons db dbs)
  obtain w1 where w1: "provision_database E cfg ns u db w = Some (Inr (), w1)"
    using provision_database_total [OF L A Cons.prems] by blast
  with provision_database_ok [OF L w1] Cons.prems have "u \<in> fst ` set (roles (vw w1))" by simp
  with Cons.IH w1 show ?case by (simp add: chk_def)
qed simp

lemma ResolvePassword_total:
  assumes L: "mw_laws E vw" and A: "answers E vw" and "password_of pv ns (vw w) = Some p"
  shows "\<exists>w'. ResolvePassword E pv ns w = Some (Inr p, w')"
proof (cases "pvValue pv = []")
  case True
  with assms(3) obtain ref d where ref: "pvValueFrom pv = Some (Some ref)"
    and d: "map_of (secrets (vw w)) (ns, refName ref) = Some d" "map_of d (refKey ref) = Some p"
    by (auto simp: password_of_def split: option.splits)
  then obtain w1 where "secGet E ns (refName ref) w = Some (Inr d, w1)"
    using answers_get [OF A, of ns "refName ref" w] by auto
  with True ref d show ?thesis by (simp add: ResolvePassword_def chk_def ret_def)
next
  case False
  with assms(3) show ?thesis by (simp add: ResolvePassword_def password_of_def ret_def)
qed

lemma StoreCredentials_total:
  assumes A: "answers E vw"
  shows "\<exists>w'. StoreCredentials E ns n d w = Some (Inr (), w')"
proof -
  obtain r w1 where w1: "secGet E ns n w = Some (r, w1)" using answers_get [OF A] by blast
  obtain w2 w3 where "secUpdate E ns n d w1 = Some (Inr (), w2)" "secCreate E ns n d w1 = Some (Inr (), w3)"
    using answers_store [OF A] by blast
  with w1 show ?thesis by (cases r) (simp_all add: StoreCredentials_def attempt_def chk_def ret_def)
qed

lemma handlePostgreSQL_total:
  assumes L: "mw_laws E vw" and A: "answers E vw" and spec: "specPostgreSQL (reqSpec req) = Some spec"
    and p: "password_of (pgPassword spec) (reqNamespace req) (vw w) = Some p"
  shows "\<exists>w'. handlePostgreSQL E cfg req w = Some (Inr (), w') \<and> vw w' = pg_provisioned cfg req spec p (vw w)"
proof -
  let ?ns = "specAppNamespace (reqSpec req)"
  obtain w1 where w1: "ResolvePassword E (pgPassword spec) (reqNamespace req) w = Some (Inr p, w1)"
    using ResolvePassword_total [OF L A p] by blast
  obtain w2 where w2: "CreateOrUpdateUser E cfg (pgUser spec) p w1 = Some (Inr (), w2)"
    using CreateOrUpdateUser_total [OF L A] by blast
  have "pgUser spec \<in> fst ` set (roles (vw w2))"
    using CreateOrUpdateUser_ok [OF L w2] by (simp add: in_keys_update)
  then obtain w3 where w3: "for_each (provision_database E cfg ?ns (pgUser spec)) (pgDatabases spec) w2 = Some (Inr (), w3)"
    using provision_databases_total [OF L A] by blast
  obtain w4 where w4: "StoreCredentials E (reqNamespace req) (pg_secret_name req) (pg_credentials cfg ?ns spec p) w3 = Some (Inr (), w4)"
    using StoreCredentials_total [OF A] by blast
  have h: "handlePostgreSQL E cfg req w = Some (Inr (), w4)"
    using w1 w2 w3 w4 spec by (simp add: handlePostgreSQL_def Let_def chk_def)
  obtain q where "password_of (pgPassword spec) (reqNamespace req) (vw w) = Some q"
    "vw w4 = pg_provisioned cfg req spec q (vw w)"
    using handlePostgreSQL_ok [OF L spec h] by blast
  with h p show ?thesis by simp
qed

subsection \<open>Removal\<close>

definition pg_removed :: "MiddlewareRequest \<Rightarrow> PostgreSQLSpec \<Rightarrow> view \<Rightarrow> view" where
  "pg_removed req spec v =
     v\<lparr>databases := fold (\<lambda>db. AList.delete (GetDatabaseName (specAppNamespace (reqSpec req)) (pgName db)))
          (pgDatabases spec) (databases v),
       roles := AList.delete (pgUser spec) (roles v),
       secrets := AList.delete (reqNamespace req, pg_secret_name req) (secrets v)\<rparr>"

lemma DropDatabase_total:
  assumes L: "mw_laws E vw" and A: "answers E vw"
  shows "\<exists>w'. DropDatabase E cfg ns n w = Some (Inr (), w') \<and>
     vw w' = (vw w)\<lparr>databases := AList.delete (GetDatabaseName ns n) (databases (vw w))\<rparr>"
proof -
  let ?db = "pg_dsn cfg []" and ?d = "GetDatabaseName ns n"
  obtain r w1 where w1: "pgExec E ?db terminate_sql [?d] w = Some (r, w1)" using answers_terminate [OF A] by blast
  obtain w2 where w2: "pgExec E ?db (drop_database_sql ?d) [] w1 = Some (Inr (), w2)"
    using answers_exec [OF A sql_drop_database, of ?db ?d w1] by (auto simp: pg_step_drop_database)
  have "pg_step ?db [Word ''DROP'', Word ''DATABASE'', Word ''IF'', Word ''EXISTS'', Ident ?d] (vw w1) = Some (vw w2)"
    by (rule pg_exec_law [OF L w2 statement_texts(5) sql_drop_database])
  with pg_terminate_law [OF L w1] have "vw w2 = (vw w)\<lparr>databases := AList.delete ?d (databases (vw w))\<rparr>"
    by (simp add: pg_step_drop_database)
  moreover have "DropDatabase E cfg ns n w = Some (Inr (), w2)"
    using w1 w2 by (simp add: DropDatabase_def Let_def chk_def attempt_def answers_open [OF A])
  ultimately show ?thesis by blast
qed

lemma DropDatabases_total:
  assumes L: "mw_laws E vw" and A: "answers E vw"
  shows "\<exists>w'. for_all (\<lambda>db. DropDatabase E cfg ns (pgName db)) dbs w = Some (Inr (), w') \<and>
     vw w' = (vw w)\<lparr>databases := fold (\<lambda>db. AList.delete (GetDatabaseName ns (pgName db))) dbs (databases (vw w))\<rparr>"
proof (induction dbs arbitrary: w)
  case (Cons db dbs)
  obtain w1 where w1: "DropDatabase E cfg ns (pgName db) w = Some (Inr (), w1)"
    "vw w1 = (vw w)\<lparr>databases := AList.delete (GetDatabaseName ns (pgName db)) (databases (vw w))\<rparr>"
    using DropDatabase_total [OF L A] by blast
  with Cons.IH [of w1] show ?case by (auto simp: attempt_def)
qed simp

lemma map_of_deletes:
  "map_of (fold (\<lambda>x. AList.delete (f x)) xs al) k = (if k \<in> f ` set xs then None else map_of al k)"
  by (induction xs arbitrary: al) (auto simp: delete_conv')

text \<open>When the request names every database of its user, nothing of it is left.\<close>

lemma deletePostgreSQL_total:
  assumes L: "mw_laws E vw" and A: "answers E vw" and spec: "specPostgreSQL (reqSpec req) = Some spec"
    and owned: "\<And>d. map_of (databases (vw w)) d = Some (pgUser spec) \<Longrightarrow>
      d \<in> (\<lambda>db. GetDatabaseName (specAppNamespace (reqSpec req)) (pgName db)) ` set (pgDatabases spec)"
    and secret: "(reqNamespace req, pg_secret_name req) \<in> fst ` set (secrets (vw w))"
  shows "\<exists>w'. deletePostgreSQL E cfg req w = Some (Inr (), w') \<and> vw w' = pg_removed req spec (vw w)"
proof -
  let ?ns = "specAppNamespace (reqSpec req)" and ?u = "pgUser spec"
  let ?dbs = "fold (\<lambda>db. AList.delete (GetDatabaseName ?ns (pgName db))) (pgDatabases spec) (databases (vw w))"
  obtain w1 where w1: "for_all (\<lambda>db. DropDatabase E cfg ?ns (pgName db)) (pgDatabases spec) w = Some (Inr (), w1)"
    and v1: "vw w1 = (vw w)\<lparr>databases := ?dbs\<rparr>"
    using DropDatabases_total [OF L A] by blast
  have free: "map_of ?dbs d \<noteq> Some ?u" for d using owned by (auto simp: map_of_deletes split: if_splits)
  obtain ds w2 where w2: "pgList E (pg_dsn cfg []) owner_query ?u w1 = Some (Inr ds, w2)"
    using answers_list [OF A] by blast
  have v2: "ds = []" "vw w2 = vw w1" using pg_list_law [OF L w2] v1 free by auto
  have nr: "?u \<notin> ran (map_of (databases (vw w2)))" using v1 v2 free by (auto simp: ran_def)
  then obtain w3 where w3: "pgExec E (pg_dsn cfg []) (drop_role_sql ?u) [] w2 = Some (Inr (), w3)"
    using answers_exec [OF A sql_drop_role, of "pg_dsn cfg []" ?u w2] by (auto simp: pg_step_drop_role)
  have "pg_step (pg_dsn cfg []) [Word ''DROP'', Word ''ROLE'', Word ''IF'', Word ''EXISTS'', Ident ?u] (vw w2) = Some (vw w3)"
    by (rule pg_exec_law [OF L w3 statement_texts(6) sql_drop_role])
  with nr have v3: "vw w3 = (vw w2)\<lparr>roles := AList.delete ?u (roles (vw w2))\<rparr>" by (simp add: pg_step_drop_role)
  obtain w4 where w4: "secDelete E (reqNamespace req) (pg_secret_name req) w3 = Some (Inr (), w4)"
    using answers_delete [OF A, of "reqNamespace req" "pg_secret_name req" w3] secret v1 v2 v3 by auto
  have "deletePostgreSQL E cfg req w = Some (Inr (), w4)"
    using spec w1 w2 w3 w4 v2
    by (simp add: deletePostgreSQL_def ListDatabasesByOwner_def DropUser_def DeleteCredentials_def attempt_def
        chk_def ret_def answers_open [OF A])
  moreover have "vw w4 = pg_removed req spec (vw w)"
    using secret_delete_law [OF L w4] v1 v2 v3 by (simp add: pg_removed_def)
  ultimately show ?thesis by blast
qed

subsection \<open>What provisioning leaves alone\<close>

lemma provisioned_roles [simp]:
  "roles (fold (database_provisioned cfg ns u) dbs v) = roles v"
  by (induction dbs arbitrary: v) auto

lemma provisioned_secrets [simp]:
  "secrets (fold (database_provisioned cfg ns u) dbs v) = secrets v"
  by (induction dbs arbitrary: v) (auto simp: database_provisioned_def Let_def)

lemma database_provisioned_databases:
  "map_of (databases (database_provisioned cfg ns u db v)) d =
     (case map_of (databases v) d of
        Some x \<Rightarrow> Some x | None \<Rightarrow> if d = GetDatabaseName ns (pgName db) then Some u else None)"
proof (cases "map_of (databases v) (GetDatabaseName ns (pgName db))")
  case None
  then have "GetDatabaseName ns (pgName db) \<notin> fst ` set (databases v)" by (simp add: map_of_eq_None_iff)
  with None show ?thesis by (auto simp: database_provisioned_def Let_def go_map split: option.split)
next
  case (Some x)
  then have "GetDatabaseName ns (pgName db) \<in> fst ` set (databases v)"
    by (metis map_of_eq_None_iff option.distinct(1))
  with Some show ?thesis by (auto simp: database_provisioned_def Let_def split: option.split)
qed

lemma provisioned_databases:
  "map_of (databases (fold (database_provisioned cfg ns u) dbs v)) d =
     (case map_of (databases v) d of
        Some x \<Rightarrow> Some x
      | None \<Rightarrow> if d \<in> (\<lambda>db. GetDatabaseName ns (pgName db)) ` set dbs then Some u else None)"
  by (induction dbs arbitrary: v) (auto simp: database_provisioned_databases split: option.splits)

lemma pg_provisioned_fields:
  "roles (pg_provisioned cfg req spec p v) = AList.update (pgUser spec) (double_backslash p) (roles v)"
  "secrets (pg_provisioned cfg req spec p v) = AList.update (reqNamespace req, pg_secret_name req)
     (pg_credentials cfg (specAppNamespace (reqSpec req)) spec p) (secrets v)"
  "map_of (databases (pg_provisioned cfg req spec p v)) d =
     (case map_of (databases v) d of
        Some x \<Rightarrow> Some x
      | None \<Rightarrow> if d \<in> (\<lambda>db. GetDatabaseName (specAppNamespace (reqSpec req)) (pgName db)) ` set (pgDatabases spec)
                then Some (pgUser spec) else None)"
  by (simp_all add: pg_provisioned_def Let_def provisioned_databases)

text \<open>
  What the middleware operator promises, on every request, and examples on \<open>cluster\<close> where it does
  less than its comments say.
\<close>

subsection \<open>A handled request\<close>

definition request_provisioned :: "Config \<Rightarrow> MiddlewareRequest \<Rightarrow> view \<Rightarrow> view \<Rightarrow> bool" where
  "request_provisioned cfg req v v' \<longleftrightarrow>
     (let ns = reqNamespace req in
      case specMiddleware (reqSpec req) of
        TypePostgreSQL \<Rightarrow>
          (case specPostgreSQL (reqSpec req) of
             None \<Rightarrow> False
           | Some spec \<Rightarrow> (case password_of (pgPassword spec) ns v of
                 None \<Rightarrow> False | Some p \<Rightarrow> v' = pg_provisioned cfg req spec p v))
      | TypeRedis \<Rightarrow>
          (case specRedis (reqSpec req) of
             None \<Rightarrow> False
           | Some spec \<Rightarrow> (case password_of (redisPassword spec) ns v of
                 None \<Rightarrow> False | Some p \<Rightarrow> v' = redis_provisioned cfg req spec p v))
      | TypeNats \<Rightarrow>
          (case specNats (reqSpec req) of
             None \<Rightarrow> False
           | Some spec \<Rightarrow> v' = nats_provisioned cfg req spec [] v \<or>
               (case password_of (natsPassword spec) ns v of
                  None \<Rightarrow> False | Some p \<Rightarrow> v' = nats_provisioned cfg req spec p v))
      | OtherType _ \<Rightarrow> False)"

lemma provision_ok:
  assumes L: "mw_laws E vw" and "provision E cfg req = Some op" "op w = Some (Inr r, w')"
  shows "request_provisioned cfg req (vw w) (vw w')"
proof (cases "specMiddleware (reqSpec req)")
  case TypePostgreSQL
  with assms have h: "handlePostgreSQL E cfg req w = Some (Inr r, w')" by (simp add: provision_def)
  then obtain spec where s: "specPostgreSQL (reqSpec req) = Some spec"
    by (auto simp: handlePostgreSQL_def split: option.splits)
  from L s h show ?thesis by (rule handlePostgreSQL_ok) (auto simp: request_provisioned_def TypePostgreSQL s)
next
  case TypeRedis
  with assms have h: "handleRedis E cfg req w = Some (Inr r, w')" by (simp add: provision_def)
  then obtain spec where s: "specRedis (reqSpec req) = Some spec"
    by (auto simp: handleRedis_def split: option.splits)
  from L s h show ?thesis by (rule handleRedis_ok) (auto simp: request_provisioned_def TypeRedis s)
next
  case TypeNats
  with assms have h: "handleNATS E cfg req w = Some (Inr r, w')" by (simp add: provision_def)
  then obtain spec where s: "specNats (reqSpec req) = Some spec"
    by (auto simp: handleNATS_def split: option.splits)
  from L s h show ?thesis by (rule handleNATS_ok) (auto simp: request_provisioned_def TypeNats s)
qed (use assms in \<open>simp add: provision_def\<close>)

subsection \<open>Samples\<close>

definition sample_config :: Config where
  "sample_config = \<lparr>PGHost = ''citus'', PGPort = 54, PGAdminUser = ''postgres'', PGAdminPassword = ''s3cret'',
     RedisHost = ''kvrocks'', RedisPort = 6379, RedisPassword = ''rp'', NATSHost = ''nats'', NATSPort = 4222,
     PlatformNS = ''os-platform'', WatchNamespace = []\<rparr>"

definition sample_spec :: PostgreSQLSpec where
  "sample_spec = \<lparr>pgUser = ''wiki'', pgPassword = \<lparr>pvValue = ''pw'', pvValueFrom = None\<rparr>,
     pgDatabases = [\<lparr>pgName = ''db'', pgDistributed = False, pgExtensions = [''citext'']\<rparr>]\<rparr>"

definition sample_request :: MiddlewareRequest where
  "sample_request = \<lparr>reqNamespace = ''user-space-alice'', reqName = ''wiki-pg'',
     reqSpec = \<lparr>specApp = ''wiki'', specAppNamespace = ''wiki-alice'', specMiddleware = TypePostgreSQL,
       specRedis = None, specPostgreSQL = Some sample_spec, specNats = None\<rparr>, reqState = []\<rparr>"

definition sample_view :: view where
  "sample_view = \<lparr>roles = [(''postgres'', ''s3cret'')], databases = [(''postgres'', ''postgres'')], extensions = [],
     redis_data = [], streams = [], secrets = [], statuses = []\<rparr>"

lemmas sample_defs = sample_config_def sample_spec_def sample_request_def sample_view_def

subsection \<open>Properties\<close>


lemma sample_handled:
  "map_option fst (handleCreateOrUpdate cluster sample_config sample_request sample_view) = Some (Inr ())"
  by code_simp


text \<open>
  On servers that answer, a PostgreSQL request with a password succeeds, and removing it
  again, when its user, databases and Secret were not there before, restores the roles, the
  databases and the Secrets.
\<close>

lemma postgres_removal_undoes_provisioning:
  assumes L: "mw_laws E vw" and A: "answers E vw" and spec: "specPostgreSQL (reqSpec req) = Some spec"
    and p: "password_of (pgPassword spec) (reqNamespace req) (vw w) = Some p"
    and fresh: "pgUser spec \<notin> fst ` set (roles (vw w))" "pgUser spec \<notin> ran (map_of (databases (vw w)))"
      "(reqNamespace req, pg_secret_name req) \<notin> fst ` set (secrets (vw w))"
      "list_all (\<lambda>db. GetDatabaseName (specAppNamespace (reqSpec req)) (pgName db) \<notin> fst ` set (databases (vw w)))
         (pgDatabases spec)"
  shows "\<exists>w1 w2. handlePostgreSQL E cfg req w = Some (Inr (), w1) \<and> deletePostgreSQL E cfg req w1 = Some (Inr (), w2) \<and>
     map_of (roles (vw w2)) = map_of (roles (vw w)) \<and> map_of (databases (vw w2)) = map_of (databases (vw w)) \<and>
     map_of (secrets (vw w2)) = map_of (secrets (vw w))"
proof -
  let ?f = "\<lambda>db. GetDatabaseName (specAppNamespace (reqSpec req)) (pgName db)"
  obtain w1 where w1: "handlePostgreSQL E cfg req w = Some (Inr (), w1)"
    and v1: "vw w1 = pg_provisioned cfg req spec p (vw w)"
    using handlePostgreSQL_total [OF L A spec p] by blast
  have owned: "d \<in> ?f ` set (pgDatabases spec)" if "map_of (databases (vw w1)) d = Some (pgUser spec)" for d
    using that fresh(2) by (auto simp: v1 pg_provisioned_fields ran_def split: option.splits if_splits)
  have "(reqNamespace req, pg_secret_name req) \<in> fst ` set (secrets (vw w1))"
    by (simp add: v1 pg_provisioned_fields in_keys_update)
  with deletePostgreSQL_total [OF L A spec owned] obtain w2
    where w2: "deletePostgreSQL E cfg req w1 = Some (Inr (), w2)" and v2: "vw w2 = pg_removed req spec (vw w1)"
    by blast
  have keys: "map_of (databases (vw w)) d = None" if "d \<in> ?f ` set (pgDatabases spec)" for d
    using that fresh(4) by (auto simp: list_all_iff map_of_eq_None_iff)
  have "map_of (databases (vw w2)) = map_of (databases (vw w))"
    by (rule ext) (auto simp: v2 v1 pg_removed_def map_of_deletes pg_provisioned_fields keys split: option.split)
  moreover have "map_of (roles (vw w2)) = map_of (roles (vw w))" "map_of (secrets (vw w2)) = map_of (secrets (vw w))"
    using fresh(1,3) by (simp_all add: v2 v1 pg_removed_def pg_provisioned_fields go_map fun_upd_idem map_of_eq_None_iff)
  ultimately show ?thesis using w1 w2 by blast
qed


lemma postgres_removal_undoes_provisioning_witness:
  "\<exists>w1 w2. handlePostgreSQL cluster sample_config sample_request sample_view = Some (Inr (), w1) \<and>
     deletePostgreSQL cluster sample_config sample_request w1 = Some (Inr (), w2) \<and>
     map_of (roles w2) = map_of (roles sample_view)"
proof -
  have "specPostgreSQL (reqSpec sample_request) = Some sample_spec"
    "password_of (pgPassword sample_spec) (reqNamespace sample_request) (id sample_view) = Some ''pw''"
    "pgUser sample_spec \<notin> fst ` set (roles (id sample_view))"
    "pgUser sample_spec \<notin> ran (map_of (databases (id sample_view)))"
    "(reqNamespace sample_request, pg_secret_name sample_request) \<notin> fst ` set (secrets (id sample_view))"
    "list_all (\<lambda>db. GetDatabaseName (specAppNamespace (reqSpec sample_request)) (pgName db)
       \<notin> fst ` set (databases (id sample_view))) (pgDatabases sample_spec)"
    by (simp_all add: sample_defs password_of_def GetDatabaseName_def ReplaceByte_def ran_def)
  from postgres_removal_undoes_provisioning [OF cluster_laws cluster_answers this, of sample_config]
  show ?thesis by auto
qed

text \<open>
  C23: every statement the operator sends reads as the fixed words of the statement with one
  identifier per name and one literal for the password, whatever they contain: nothing in them
  is read as SQL.
\<close>

theorem statements_have_no_injection:
  "sql_lex (create_role_sql u p) = Some [Word ''CREATE'', Word ''ROLE'', Ident u, Word ''WITH'', Word ''LOGIN'',
     Word ''PASSWORD'', Str (double_backslash p)] \<and>
   sql_lex (alter_role_sql u p) = Some [Word ''ALTER'', Word ''ROLE'', Ident u, Word ''WITH'',
     Word ''PASSWORD'', Str (double_backslash p)] \<and>
   sql_lex (create_database_sql d u) = Some [Word ''CREATE'', Word ''DATABASE'', Ident d, Word ''OWNER'', Ident u] \<and>
   sql_lex (create_extension_sql x) = Some [Word ''CREATE'', Word ''EXTENSION'', Word ''IF'', Word ''NOT'',
     Word ''EXISTS'', Ident x] \<and>
   sql_lex (drop_database_sql d) = Some [Word ''DROP'', Word ''DATABASE'', Word ''IF'', Word ''EXISTS'', Ident d] \<and>
   sql_lex (drop_role_sql u) = Some [Word ''DROP'', Word ''ROLE'', Word ''IF'', Word ''EXISTS'', Ident u]"
  by (simp add: sql_statements)

text \<open>
  Whatever bytes the arguments contain, the Redis server reads from a sent command exactly
  those arguments, and nothing after them is taken for a part of it.
\<close>

lemma sendCommand_roundtrip: "resp_parse (sendCommand_bytes args @ r) = Some (args, r)"
  by (rule resp_parse_sent)

subsection \<open>What goes wrong\<close>

text \<open>
  The comment in \<open>deletePostgreSQL\<close> says that the databases the user still owns are dropped by
  their raw name; the name gets an underscore in front, nothing is dropped, and the role, which
  still owns a database, stays.
\<close>

definition leftover_view :: view where
  "leftover_view = sample_view\<lparr>roles := [(''wiki'', ''pw'')], databases := [(''extra'', ''wiki'')]\<rparr>"

lemma leftover_databases_stay:
  "map_option (\<lambda>(r, v). (r, map_of (databases v) ''extra'', map_of (roles v) ''wiki''))
     (deletePostgreSQL cluster sample_config sample_request leftover_view) =
   Some (Inr (), Some ''wiki'', Some ''pw'')"
  by code_simp

text \<open>
  Two apps whose names meet in one database name: the second request is told ready although its
  user does not own the database, and removing it drops the first app's database.
\<close>

definition owner_request :: MiddlewareRequest where
  "owner_request = sample_request\<lparr>reqSpec := (reqSpec sample_request)\<lparr>specAppNamespace := ''user-app''\<rparr>\<rparr>"

definition intruder_request :: MiddlewareRequest where
  "intruder_request = sample_request\<lparr>reqName := ''other'', reqSpec := (reqSpec sample_request)
     \<lparr>specAppNamespace := ''user'', specPostgreSQL := Some
       \<lparr>pgUser = ''mallory'', pgPassword = \<lparr>pvValue = ''x'', pvValueFrom = None\<rparr>,
        pgDatabases = [\<lparr>pgName = ''app-db'', pgDistributed = False, pgExtensions = []\<rparr>]\<rparr>\<rparr>\<rparr>"

definition owner_view :: view where
  "owner_view = sample_view\<lparr>roles := [(''postgres'', ''s3cret''), (''wiki'', ''pw'')],
     databases := [(''postgres'', ''postgres''), (''user_app_db'', ''wiki'')]\<rparr>"

lemma owner_is_provisioned:
  "map_option (\<lambda>(r, v). (r, v\<lparr>extensions := [], secrets := []\<rparr>))
     (handlePostgreSQL cluster sample_config owner_request sample_view) = Some (Inr (), owner_view)"
  by code_simp

definition intruder_view :: view where
  "intruder_view = owner_view\<lparr>roles := (roles owner_view) @ [(''mallory'', ''x'')]\<rparr>"

lemma intruder_shares_the_database:
  "map_option (\<lambda>(r, v). (r, v\<lparr>secrets := []\<rparr>))
     (handlePostgreSQL cluster sample_config intruder_request owner_view) = Some (Inr (), intruder_view)"
  by code_simp

lemma intruder_drops_the_database:
  "map_of (databases intruder_view) ''user_app_db'' = Some ''wiki''"
  "map_option (\<lambda>(r, v). (r, map_of (databases v) ''user_app_db''))
     (handleDelete cluster sample_config intruder_request intruder_view) = Some (Inr (), None)"
  by (code_simp, code_simp)

text \<open>A request that is ready once is never looked at again: a later change of its spec does nothing.\<close>

lemma ready_requests_are_skipped: "reqState req = ''ready'' \<Longrightarrow> handleCreateOrUpdate E cfg req w = Some (Inr (), w)"
  by (simp add: handleCreateOrUpdate_def ret_def)

text \<open>A password with a backslash: the role gets another one than the Secret says.\<close>

definition backslash_request :: MiddlewareRequest where
  "backslash_request = sample_request\<lparr>reqSpec := (reqSpec sample_request)\<lparr>specPostgreSQL := Some
     (sample_spec\<lparr>pgPassword := \<lparr>pvValue = ''a'' @ [bslash] @ ''b'', pvValueFrom = None\<rparr>\<rparr>)\<rparr>\<rparr>"

lemma password_and_secret_differ:
  "map_option (\<lambda>(r, v). (map_of (roles v) ''wiki'',
       map_option (\<lambda>d. map_of d ''password'') (map_of (secrets v) (''user-space-alice'', ''wiki-pg-credentials''))))
     (handlePostgreSQL cluster sample_config backslash_request sample_view) =
   Some (Some (''a'' @ [bslash, bslash] @ ''b''), Some (Some (''a'' @ [bslash] @ ''b'')))"
  by code_simp

end
