(* ===== verification/Mk_Types.thy ===== *)
theory Mk_Types
  imports Mk_Text Go_Net
begin

text \<open>
  The data of the market (\<^verbatim>\<open>internal/market/types.go\<close>) and the reading of an app's manifest
  (\<^verbatim>\<open>manifest.go\<close>). The fields of an app that the code only carries from its source to the answer
  are one association list by their JSON names. The YAML decoder is a parameter.
\<close>

subsection \<open>Types\<close>

record Entrance =
  enName :: string
  enHost :: string
  enPort :: int
  enIcon :: string
  enTitle :: string
  enAuthLevel :: string
  enInvisible :: bool
  enOpenMethod :: string

record AppPermission =
  apAppData :: bool
  apAppCache :: bool
  apUserData :: "string list"

record Dependency =
  dpName :: string
  dpVersion :: string
  dpType :: string

record License =
  liName :: string
  liURL :: string

record MarketApp =
  maName :: string
  maChartName :: string
  maTitle :: string
  maDescription :: string
  maCategories :: "string list"
  maEntrances :: "Entrance list"
  maPermission :: "AppPermission option"
  maDependencies :: "Dependency list"
  maLicense :: "License list"
  maHasCredentials :: bool
  maLoginType :: string
  maHasChart :: bool
  maCarried :: "(string \<times> jval) list"

record Category =
  ctName :: string
  ctCount :: nat

text \<open>Of the curation only the recommendation groups are read.\<close>

record RecommendGroup =
  rgName :: string
  rgAppIDs :: "string list"

record Curation =
  cuRecommendations :: "(string \<times> RecommendGroup) list"

subsection \<open>Manifests\<close>

text \<open>
  The decoded document; \<open>mfText\<close> and \<open>mfLists\<close> give the texts and lists that are only carried, by
  their path in the document, empty where there is none.
\<close>

record olaresManifest =
  mfType :: string
  mfName :: string
  mfTitle :: string
  mfDescription :: string
  mfCategories :: "string list"
  mfEntrances :: "Entrance list"
  mfPermission :: "AppPermission option"
  mfLicense :: "License list"
  mfDependencies :: "Dependency list"
  mfText :: "string \<Rightarrow> string"
  mfLists :: "string \<Rightarrow> string list"

definition carried_texts :: "(string \<times> string) list" where
  "carried_texts =
     [(''icon'', ''metadata.icon''), (''fullDescription'', ''spec.fullDescription''),
      (''upgradeDescription'', ''spec.upgradeDescription''), (''promoteVideo'', ''spec.promoteVideo''),
      (''developer'', ''spec.developer''), (''target'', ''metadata.target''), (''version'', ''metadata.version''),
      (''versionName'', ''spec.versionName''), (''requiredMemory'', ''spec.requiredMemory''),
      (''requiredDisk'', ''spec.requiredDisk''), (''requiredGpu'', ''spec.requiredGpu''),
      (''requiredCpu'', ''spec.requiredCpu''), (''limitedMemory'', ''spec.limitedMemory''),
      (''limitedCPU'', ''spec.limitedCpu''), (''doc'', ''spec.doc''), (''website'', ''spec.website''),
      (''sourceCode'', ''spec.sourceCode'')]"

definition carried_lists :: "(string \<times> string) list" where
  "carried_lists = [(''promoteImage'', ''spec.promoteImage''), (''supportArch'', ''spec.supportArch''),
     (''locale'', ''spec.locale'')]"

definition default_name :: "string \<Rightarrow> Entrance \<Rightarrow> Entrance" where
  "default_name name e = (if enName e = [] then e\<lparr>enName := name\<rparr> else e)"

definition manifest_app :: "olaresManifest \<Rightarrow> string \<Rightarrow> MarketApp option" where
  "manifest_app m fallbackName =
     (let name = (if mfName m = [] then fallbackName else mfName m);
          appType = (if mfType m = [] then ''app'' else mfType m)
      in if name = [] then None
         else Some \<lparr>maName = name, maChartName = name,
            maTitle = (if mfTitle m = [] then name else mfTitle m),
            maDescription = mfDescription m, maCategories = cleanCategories (mfCategories m),
            maEntrances = map (default_name name) (mfEntrances m), maPermission = mfPermission m,
            maDependencies = mfDependencies m, maLicense = mfLicense m,
            maHasCredentials = False, maLoginType = [], maHasChart = False,
            maCarried = map (\<lambda>(k, p). (k, JStr (mfText m p))) carried_texts @
              map (\<lambda>(k, p). (k, JArr (map JStr (mfLists m p)))) carried_lists @
              [(''namespace'', JStr ''user-space''), (''type'', JStr appType), (''status'', JStr ''active''),
               (''source'', JStr ''olares''), (''cfgType'', JStr (mfType m))]\<rparr>)"

definition parseOlaresManifest :: "(string \<Rightarrow> olaresManifest) \<Rightarrow> string \<Rightarrow> string \<Rightarrow> MarketApp option" where
  "parseOlaresManifest unmarshal data fallbackName =
     manifest_app (unmarshal (cleaned_manifest data)) fallbackName"

end
