(* ===== verification/Mk_Catalog.thy ===== *)
theory Mk_Catalog
  imports Mk_Types Go_Path
begin

text \<open>
  \<^verbatim>\<open>internal/market/catalog.go\<close>: the index of the charts directory, the cache of parsed apps in
  front of it, and the queries. The disk is read through \<open>disk\<close>; the decoders of JSON, gzip with tar
  and YAML and the LRU cache are the fields of \<open>mk_env\<close>. One request sees one instant.
\<close>

subsection \<open>The disk and the libraries\<close>

record dirent =
  deName :: string
  deIsDir :: bool
  deMtime :: "int option"

record disk =
  dkReadDir :: "string \<Rightarrow> dirent list option"
  dkStat :: "string \<Rightarrow> int option"
  dkRead :: "string \<Rightarrow> string option"

record tar_entry =
  teName :: string
  teIsReg :: bool
  teIsDir :: bool
  teData :: string
  teComplete :: bool

record 'c mk_env =
  mkSidecar :: "string \<Rightarrow> MarketApp option"
  mkCuration :: "string \<Rightarrow> Curation option"
  mkUntar :: "string \<Rightarrow> tar_entry list option"
  mkYaml :: "string \<Rightarrow> olaresManifest"
  lruNew :: 'c
  lruGet :: "'c \<Rightarrow> string \<Rightarrow> MarketApp option \<times> 'c"
  lruAdd :: "'c \<Rightarrow> string \<Rightarrow> MarketApp \<Rightarrow> 'c"
  lruRemove :: "'c \<Rightarrow> string \<Rightarrow> 'c"

subsection \<open>The index\<close>

record chartEntry =
  sidecarPath :: string
  sidecarMtime :: int
  tgzPath :: string
  tgzMtime :: int
  kind :: string

text \<open>A missing mtime is Go's zero time.\<close>

definition zero_time :: int where
  "zero_time = - 62135596800000000000"

definition chart_stem :: "string \<Rightarrow> string" where
  "chart_stem stem =
     (case LastIndexByte stem CHR ''-'' of
        Some dash \<Rightarrow> if dash > 0 then take dash stem else stem
      | None \<Rightarrow> stem)"

definition tgz_step :: "string \<Rightarrow> (string \<times> string \<times> int) list \<Rightarrow> dirent \<Rightarrow> (string \<times> string \<times> int) list" where
  "tgz_step dir m e =
     (if deIsDir e \<or> \<not> HasSuffix (deName e) ''.tgz'' then m
      else case deMtime e of
        None \<Rightarrow> m
      | Some t \<Rightarrow>
          let appName = chart_stem (TrimSuffix (deName e) ''.tgz'') in
          (case map_of m appName of
             Some (_, t0) \<Rightarrow> if t > t0 then AList.update appName (PathJoin dir (deName e), t) m else m
           | None \<Rightarrow> AList.update appName (PathJoin dir (deName e), t) m))"

definition index_step ::
  "string \<Rightarrow> string \<Rightarrow> (string \<times> string \<times> int) list \<Rightarrow> (string \<times> chartEntry) list \<Rightarrow> dirent \<Rightarrow> (string \<times> chartEntry) list" where
  "index_step dir knd tgzByApp ix e =
     (if deIsDir e \<or> \<not> HasSuffix (deName e) ''.json'' then ix
      else case deMtime e of
        None \<Rightarrow> ix
      | Some t \<Rightarrow>
          let appName = TrimSuffix (deName e) ''.json'';
              (p, pt) = (case map_of tgzByApp appName of None \<Rightarrow> ([], zero_time) | Some x \<Rightarrow> x)
          in AList.update appName
               \<lparr>sidecarPath = PathJoin dir (deName e), sidecarMtime = t, tgzPath = p, tgzMtime = pt, kind = knd\<rparr> ix)"

definition scanDir :: "disk \<Rightarrow> string \<Rightarrow> string \<Rightarrow> (string \<times> chartEntry) list \<Rightarrow> (string \<times> chartEntry) list" where
  "scanDir dk dir knd ix =
     (case dkReadDir dk dir of
        None \<Rightarrow> ix
      | Some entries \<Rightarrow> foldl (index_step dir knd (foldl (tgz_step dir) [] entries)) ix entries)"

record 'c Catalog =
  chartsDir :: string
  curationPath :: string
  indexedAt :: "int option"
  chartIndex :: "(string \<times> chartEntry) list"
  parsed :: 'c
  curation :: "Curation option"
  curationMtime :: int

definition NewCatalog :: "'c mk_env \<Rightarrow> string \<Rightarrow> string \<Rightarrow> 'c Catalog" where
  "NewCatalog E dir cur = \<lparr>chartsDir = dir, curationPath = cur, indexedAt = None, chartIndex = [],
     parsed = lruNew E, curation = None, curationMtime = zero_time\<rparr>"

definition scan_all :: "disk \<Rightarrow> string \<Rightarrow> (string \<times> chartEntry) list" where
  "scan_all dk dir = scanDir dk (PathJoin dir ''models'') ''model'' (scanDir dk dir ''app'' [])"

definition drifted :: "(string \<times> chartEntry) list \<Rightarrow> string \<times> chartEntry \<Rightarrow> bool" where
  "drifted newIndex p =
     (case map_of newIndex (fst p) of
        None \<Rightarrow> True
      | Some e \<Rightarrow> sidecarMtime e \<noteq> sidecarMtime (snd p) \<or> tgzMtime e \<noteq> tgzMtime (snd p) \<or> tgzPath e \<noteq> tgzPath (snd p))"

definition rescan :: "'c mk_env \<Rightarrow> int \<Rightarrow> disk \<Rightarrow> 'c Catalog \<Rightarrow> 'c Catalog" where
  "rescan E now dk c =
     (let newIndex = scan_all dk (chartsDir c);
          cache = foldl (\<lambda>cache p. if drifted newIndex p then lruRemove E cache (fst p) else cache)
                    (parsed c) (chartIndex c);
          cache = foldl (\<lambda>cache p. if map_of (chartIndex c) (fst p) = None then lruRemove E cache (fst p) else cache)
                    cache newIndex
      in c\<lparr>parsed := cache, chartIndex := newIndex, indexedAt := Some now\<rparr>)"

definition Load :: "'c mk_env \<Rightarrow> int \<Rightarrow> disk \<Rightarrow> 'c Catalog \<Rightarrow> 'c Catalog" where
  "Load = rescan"

text \<open>Times are in nanoseconds; the zero time is long ago.\<close>

definition rescanInterval :: int where
  "rescanInterval = 5000000000"

definition ensureFresh :: "'c mk_env \<Rightarrow> int \<Rightarrow> disk \<Rightarrow> 'c Catalog \<Rightarrow> 'c Catalog" where
  "ensureFresh E now dk c =
     (case indexedAt c of
        Some t \<Rightarrow> if now - t \<le> rescanInterval then c else rescan E now dk c
      | None \<Rightarrow> rescan E now dk c)"

subsection \<open>One app\<close>

definition readOlaresManifestFromTGZ :: "'c mk_env \<Rightarrow> disk \<Rightarrow> string \<Rightarrow> string option" where
  "readOlaresManifestFromTGZ E dk path =
     (case dkRead dk path of
        None \<Rightarrow> None
      | Some data \<Rightarrow> (case mkUntar E data of
            None \<Rightarrow> None
          | Some entries \<Rightarrow> (case List.find (\<lambda>e. Base (teName e) = ''OlaresManifest.yaml'' \<and> teIsReg e) entries of
                None \<Rightarrow> None
              | Some e \<Rightarrow> if teComplete e then Some (teData e) else None)))"

definition live_entrances :: "'c mk_env \<Rightarrow> disk \<Rightarrow> chartEntry \<Rightarrow> string \<Rightarrow> MarketApp \<Rightarrow> MarketApp" where
  "live_entrances E dk entry name app =
     (if tgzPath entry = [] then app
      else case readOlaresManifestFromTGZ E dk (tgzPath entry) of
        None \<Rightarrow> app
      | Some m \<Rightarrow> (case parseOlaresManifest (mkYaml E) m name of
            None \<Rightarrow> app | Some p \<Rightarrow> app\<lparr>maEntrances := maEntrances p\<rparr>))"

definition read_app :: "'c mk_env \<Rightarrow> disk \<Rightarrow> chartEntry \<Rightarrow> string \<Rightarrow> MarketApp option" where
  "read_app E dk entry name =
     (case dkRead dk (sidecarPath entry) of
        None \<Rightarrow> None
      | Some data \<Rightarrow> (case mkSidecar E data of
            None \<Rightarrow> None
          | Some app \<Rightarrow>
              Some (live_entrances E dk entry name (app\<lparr>maCategories := cleanCategories (maCategories app)\<rparr>))))"

definition on_disk_unchanged :: "disk \<Rightarrow> chartEntry \<Rightarrow> bool" where
  "on_disk_unchanged dk entry \<longleftrightarrow>
     dkStat dk (sidecarPath entry) = Some (sidecarMtime entry) \<and>
     (tgzPath entry = [] \<or> dkStat dk (tgzPath entry) = Some (tgzMtime entry))"

definition loadOne :: "'c mk_env \<Rightarrow> disk \<Rightarrow> 'c Catalog \<Rightarrow> string \<Rightarrow> MarketApp option \<times> 'c Catalog" where
  "loadOne E dk c name =
     (case map_of (chartIndex c) name of
        None \<Rightarrow> (None, c)
      | Some entry \<Rightarrow>
          let (hit, cache) = lruGet E (parsed c) name in
          if hit \<noteq> None \<and> on_disk_unchanged dk entry then (hit, c\<lparr>parsed := cache\<rparr>)
          else
            let cache = (if hit \<noteq> None then lruRemove E cache name else cache) in
            case read_app E dk entry name of
              None \<Rightarrow> (None, c\<lparr>parsed := cache\<rparr>)
            | Some app \<Rightarrow> (Some app, c\<lparr>parsed := lruAdd E cache name app\<rparr>))"

subsection \<open>Queries\<close>

fun load_all :: "'c mk_env \<Rightarrow> disk \<Rightarrow> 'c Catalog \<Rightarrow> string list \<Rightarrow> MarketApp list \<times> 'c Catalog" where
  "load_all E dk c [] = ([], c)"
| "load_all E dk c (n # ns) =
     (let (app, c) = loadOne E dk c n; (apps, c) = load_all E dk c ns
      in ((case app of None \<Rightarrow> apps | Some a \<Rightarrow> a # apps), c))"

definition ListApps :: "'c mk_env \<Rightarrow> int \<Rightarrow> disk \<Rightarrow> 'c Catalog \<Rightarrow> MarketApp list \<times> 'c Catalog" where
  "ListApps E now dk c =
     (let c = ensureFresh E now dk c in load_all E dk c (sort (map fst (chartIndex c))))"

definition GetApp :: "'c mk_env \<Rightarrow> int \<Rightarrow> disk \<Rightarrow> 'c Catalog \<Rightarrow> string \<Rightarrow> MarketApp option \<times> 'c Catalog" where
  "GetApp E now dk c name = loadOne E dk (ensureFresh E now dk c) name"

definition GetAppDetail :: "'c mk_env \<Rightarrow> int \<Rightarrow> disk \<Rightarrow> 'c Catalog \<Rightarrow> string \<Rightarrow> MarketApp option \<times> 'c Catalog" where
  "GetAppDetail = GetApp"

definition count_step :: "(string \<times> nat) list \<Rightarrow> string \<Rightarrow> (string \<times> nat) list" where
  "count_step m cat = AList.update cat ((case map_of m cat of None \<Rightarrow> 0 | Some n \<Rightarrow> n) + 1) m"

definition categories_of :: "MarketApp list \<Rightarrow> Category list" where
  "categories_of apps =
     sort_key ctName (map (\<lambda>(n, k). \<lparr>ctName = n, ctCount = k\<rparr>) (foldl count_step [] (concat (map maCategories apps))))"

definition ListCategories :: "'c mk_env \<Rightarrow> int \<Rightarrow> disk \<Rightarrow> 'c Catalog \<Rightarrow> Category list \<times> 'c Catalog" where
  "ListCategories E now dk c = (let (apps, c) = ListApps E now dk c in (categories_of apps, c))"

definition matchesCategory :: "string list \<Rightarrow> string \<Rightarrow> bool" where
  "matchesCategory categories query = list_ex (\<lambda>cat. Contains (ToLower cat) query) categories"

definition app_matches :: "string \<Rightarrow> MarketApp \<Rightarrow> bool" where
  "app_matches q app \<longleftrightarrow>
     Contains (ToLower (maName app)) q \<or> Contains (ToLower (maTitle app)) q \<or>
     Contains (ToLower (maDescription app)) q \<or> matchesCategory (maCategories app) q"

definition Search :: "'c mk_env \<Rightarrow> int \<Rightarrow> disk \<Rightarrow> 'c Catalog \<Rightarrow> string \<Rightarrow> MarketApp list \<times> 'c Catalog" where
  "Search E now dk c query =
     (let (all, c) = ListApps E now dk c
      in (if query = [] then all else filter (app_matches (ToLower query)) all, c))"

definition loadCuration :: "'c mk_env \<Rightarrow> disk \<Rightarrow> 'c Catalog \<Rightarrow> Curation option \<times> 'c Catalog" where
  "loadCuration E dk c =
     (let cur = curation c; fi = dkStat dk (curationPath c) in
      if fi \<noteq> None \<and> cur \<noteq> None \<and> fi = Some (curationMtime c) then (cur, c)
      else if fi = None \<and> cur \<noteq> None then (cur, c)
      else case dkRead dk (curationPath c) of
        None \<Rightarrow> (cur, c)
      | Some data \<Rightarrow> (case mkCuration E data of
            None \<Rightarrow> (cur, c)
          | Some new \<Rightarrow> (Some new, c\<lparr>curation := Some new,
              curationMtime := (case fi of None \<Rightarrow> curationMtime c | Some t \<Rightarrow> t)\<rparr>)))"

fun get_all :: "'c mk_env \<Rightarrow> int \<Rightarrow> disk \<Rightarrow> 'c Catalog \<Rightarrow> string list \<Rightarrow> MarketApp list \<times> 'c Catalog" where
  "get_all E now dk c [] = ([], c)"
| "get_all E now dk c (n # ns) =
     (let (app, c) = GetApp E now dk c n; (apps, c) = get_all E now dk c ns
      in ((case app of None \<Rightarrow> apps | Some a \<Rightarrow> a # apps), c))"

fun recommend :: "'c mk_env \<Rightarrow> int \<Rightarrow> disk \<Rightarrow> 'c Catalog \<Rightarrow> (string \<times> RecommendGroup) list \<Rightarrow>
    (string \<times> MarketApp list) list \<times> 'c Catalog" where
  "recommend E now dk c [] = ([], c)"
| "recommend E now dk c ((g, rec) # gs) =
     (let (apps, c) = get_all E now dk c (rgAppIDs rec); (rest, c) = recommend E now dk c gs
      in ((if apps \<noteq> [] then (g, apps) # rest else rest), c))"

definition ListRecommendations ::
  "'c mk_env \<Rightarrow> int \<Rightarrow> disk \<Rightarrow> 'c Catalog \<Rightarrow> (string \<times> MarketApp list) list \<times> 'c Catalog" where
  "ListRecommendations E now dk c =
     (let (cur, c) = loadCuration E dk c in
      case cur of
        None \<Rightarrow> ([], c)
      | Some cu \<Rightarrow> recommend E now dk c (cuRecommendations cu))"

end
