(* ===== verification/Mk_Handler.thy ===== *)
theory Mk_Handler
  imports Mk_Catalog Go_Path Go_Fs
begin

text \<open>
  \<^verbatim>\<open>internal/market/handler.go\<close>: the HTTP API of the market. A handler reads the disk and may refresh
  the catalogue. \<^verbatim>\<open>http.ServeFile\<close> is an answer of its own, with the path it is told to serve; the
  directory into which a chart is unpacked is a small file system (\<open>Go_Fs\<close>).
\<close>

subsection \<open>Requests and answers\<close>

record mk_req =
  mqMethod :: string
  mqPath :: string
  mqQuery :: "(string \<times> string) list"

record AppCredentials =
  acUsername :: string
  acEmail :: string
  acPassword :: string

record AppDetailEnriched =
  adApp :: MarketApp
  adVolumeMounts :: "VolumeMount list"
  adResources :: "ContainerResources list"
  adEnvVars :: "ContainerEnvVar list"
  adChartLabels :: "(string \<times> string) list"
  adChartImages :: "string list"
  adCredentials :: "AppCredentials option"
  adLiveServices :: "jval list"

datatype mk_data =
    DApps "MarketApp list"
  | DApp MarketApp
  | DDetail AppDetailEnriched
  | DCategories "Category list"
  | DRecommendations "(string \<times> MarketApp list) list"

datatype mk_resp =
    MJson mk_data
  | MError nat string
  | MServeFile string
  | MIndex "(string \<times> string \<times> string) list"
  | MOk
  | MRedirect string
  | MNotFound

text \<open>The app service and the decoders of its answers; the name \<^verbatim>\<open>os.MkdirTemp\<close> makes up.\<close>

record mk_client =
  mcGet :: "string \<Rightarrow> (nat \<times> string) option"
  mcCredentials :: "string \<Rightarrow> AppCredentials option"
  mcServices :: "string \<Rightarrow> jval list option"
  mcTempDir :: "string option"

record mk_handler =
  mhDataDir :: string
  mhAppServiceURL :: string

definition NewHandler :: "string \<Rightarrow> mk_handler" where
  "NewHandler dataDir =
     \<lparr>mhDataDir = (if dataDir = [] then ''/data/market'' else dataDir), mhAppServiceURL = ''http://app-service:6755''\<rparr>"

definition query_value :: "mk_req \<Rightarrow> string \<Rightarrow> string" where
  "query_value r k = (case map_of (mqQuery r) k of None \<Rightarrow> [] | Some v \<Rightarrow> v)"

fun trim_first :: "string list \<Rightarrow> string \<Rightarrow> string" where
  "trim_first [] p = p"
| "trim_first (x # xs) p = (if HasPrefix p x then TrimPrefix p x else trim_first xs p)"

definition not_allowed :: mk_resp where
  "not_allowed = MError 405 ''method not allowed''"

subsection \<open>Apps\<close>

definition in_category :: "string \<Rightarrow> MarketApp \<Rightarrow> bool" where
  "in_category category app = list_ex (\<lambda>cat. EqualFold cat category) (maCategories app)"

definition handleListApps :: "'c mk_env \<Rightarrow> int \<Rightarrow> disk \<Rightarrow> 'c Catalog \<Rightarrow> mk_req \<Rightarrow> mk_resp \<times> 'c Catalog" where
  "handleListApps E now dk c r =
     (if mqMethod r \<noteq> ''GET'' then (not_allowed, c)
      else
        let category = query_value r ''category'';
            (all, c) = ListApps E now dk c;
            apps = (if category \<noteq> [] then filter (in_category category) all else all)
        in (MJson (DApps (map (\<lambda>a. a\<lparr>maHasChart := True\<rparr>) apps)), c))"

definition handleGetApp :: "'c mk_env \<Rightarrow> int \<Rightarrow> disk \<Rightarrow> 'c Catalog \<Rightarrow> mk_req \<Rightarrow> mk_resp \<times> 'c Catalog" where
  "handleGetApp E now dk c r =
     (if mqMethod r \<noteq> ''GET'' then (not_allowed, c)
      else
        let name = TrimSuffix (trim_first [''/market/v1/apps/'', ''/api/v1/apps/''] (mqPath r)) ''/'' in
        if name = [] then handleListApps E now dk c r
        else (case GetApp E now dk c name of
            (None, c) \<Rightarrow> (MError 404 (''app not found: '' @ name), c)
          | (Some app, c) \<Rightarrow> (MJson (DApp app), c)))"

subsection \<open>Chart templates\<close>

definition yaml_files :: "dirent list \<Rightarrow> string list" where
  "yaml_files es = map deName (filter (\<lambda>e. \<not> deIsDir e \<and> HasSuffix (deName e) ''.yaml'') es)"

definition unpack_entry :: "string \<Rightarrow> fs \<Rightarrow> tar_entry \<Rightarrow> fs" where
  "unpack_entry destDir tmp e =
     (let target = PathJoin destDir (teName e) in
      if \<not> HasPrefix (Clean target) (Clean destDir) then tmp
      else if teIsDir e then fst (MkdirAll tmp target 493)
      else if teIsReg e then
        (let tmp = fst (MkdirAll tmp (Dir target) 493) in
         case Create tmp target of
           Inl _ \<Rightarrow> tmp
         | Inr (tmp, q) \<Rightarrow> write_loc q 0 (teData e) tmp)
      else tmp)"

definition unpackTGZToDir :: "'c mk_env \<Rightarrow> disk \<Rightarrow> string \<Rightarrow> string \<Rightarrow> fs \<Rightarrow> fs option" where
  "unpackTGZToDir E dk path destDir tmp =
     (case dkRead dk path of
        None \<Rightarrow> None
      | Some data \<Rightarrow> (case mkUntar E data of
            None \<Rightarrow> None
          | Some entries \<Rightarrow> Some (foldl (unpack_entry destDir) tmp entries)))"

fun templates_in :: "fs \<Rightarrow> string \<Rightarrow> (string \<times> fnode) list \<Rightarrow> string option list" where
  "templates_in tmp d [] = []"
| "templates_in tmp d ((n, node) # es) =
     (if node_dir node then
        (case ReadDir tmp (PathJoin (PathJoin d n) ''templates'') of
           Inr files \<Rightarrow>
             map (\<lambda>f. case Open_read tmp (PathJoin (PathJoin (PathJoin d n) ''templates'') (fst f)) of
                        Inl _ \<Rightarrow> None | Inr q \<Rightarrow> (case read_loc tmp q of Inl _ \<Rightarrow> None | Inr b \<Rightarrow> Some b))
               (filter (\<lambda>f. \<not> node_dir (snd f) \<and> HasSuffix (fst f) ''.yaml'') files)
         | Inl _ \<Rightarrow> templates_in tmp d es)
      else templates_in tmp d es)"

definition chart_archive :: "string \<Rightarrow> dirent list \<Rightarrow> dirent option" where
  "chart_archive chartName es =
     List.find (\<lambda>e. HasPrefix (deName e) (chartName @ ''-'') \<and> HasSuffix (deName e) ''.tgz'') es"

text \<open>The contents of the chart's templates, \<^term>\<open>None\<close> for one that cannot be read.\<close>

definition getChartTemplateFiles ::
  "'c mk_env \<Rightarrow> mk_client \<Rightarrow> mk_handler \<Rightarrow> disk \<Rightarrow> string \<Rightarrow> string option list" where
  "getChartTemplateFiles E cl h dk chartName =
     (let charts = PathJoin (mhDataDir h) ''charts'';
          templatesDir = PathJoin (PathJoin charts chartName) ''templates'';
          raw = (case dkReadDir dk templatesDir of None \<Rightarrow> [] | Some es \<Rightarrow> yaml_files es)
      in if raw \<noteq> [] then map (\<lambda>f. dkRead dk (PathJoin templatesDir f)) raw
         else case dkReadDir dk charts of
           None \<Rightarrow> []
         | Some es \<Rightarrow> (case chart_archive chartName es of
               None \<Rightarrow> []
             | Some e \<Rightarrow> (case mcTempDir cl of
                   None \<Rightarrow> []
                 | Some tmpDir \<Rightarrow>
                     (case unpackTGZToDir E dk (PathJoin charts (deName e)) tmpDir
                             (fst (MkdirAll [] tmpDir 448)) of
                        None \<Rightarrow> []
                      | Some tmp \<Rightarrow> (case ReadDir tmp tmpDir of
                            Inl _ \<Rightarrow> [] | Inr ds \<Rightarrow> templates_in tmp tmpDir ds)))))"

subsection \<open>Details\<close>

definition fetchAppCredentials :: "mk_client \<Rightarrow> mk_handler \<Rightarrow> string \<Rightarrow> string \<Rightarrow> AppCredentials option" where
  "fetchAppCredentials cl h appName loginType =
     (let url = mhAppServiceURL h @ ''/app-service/v1/app-credentials/'' @ appName;
          url = (if loginType \<noteq> [] then url @ ''?loginType='' @ loginType else url)
      in case mcGet cl url of
           None \<Rightarrow> None
         | Some (code, body) \<Rightarrow>
             if code \<noteq> 200 then None
             else (case mcCredentials cl body of
                 None \<Rightarrow> None
               | Some cr \<Rightarrow> if acUsername cr = [] \<and> acPassword cr = [] then None else Some cr))"

definition fetchLiveServices :: "mk_client \<Rightarrow> mk_handler \<Rightarrow> string \<Rightarrow> jval list" where
  "fetchLiveServices cl h appName =
     (case mcGet cl (mhAppServiceURL h @ ''/app-service/v1/app-services/'' @ appName) of
        None \<Rightarrow> []
      | Some (code, body) \<Rightarrow>
          if code \<noteq> 200 then [] else (case mcServices cl body of None \<Rightarrow> [] | Some ss \<Rightarrow> ss))"

definition enrich :: "'c mk_env \<Rightarrow> mk_client \<Rightarrow> mk_handler \<Rightarrow> disk \<Rightarrow> string \<Rightarrow> MarketApp \<Rightarrow> AppDetailEnriched" where
  "enrich E cl h dk name app =
     (let chartName = (if maChartName app = [] then maName app else maChartName app);
          files = getChartTemplateFiles E cl h dk chartName
      in \<lparr>adApp = app, adVolumeMounts = parseAllVolumeMounts files, adResources = parseAllResources files,
          adEnvVars = parseAllEnvVars files, adChartLabels = parseAllLabels files,
          adChartImages = parseAllImages files,
          adCredentials = (if maHasCredentials app then fetchAppCredentials cl h name (maLoginType app) else None),
          adLiveServices = fetchLiveServices cl h name\<rparr>)"

definition handleGetAppDetail ::
  "'c mk_env \<Rightarrow> mk_client \<Rightarrow> mk_handler \<Rightarrow> int \<Rightarrow> disk \<Rightarrow> 'c Catalog \<Rightarrow> mk_req \<Rightarrow> mk_resp \<times> 'c Catalog" where
  "handleGetAppDetail E cl h now dk c r =
     (if mqMethod r \<noteq> ''GET'' then (not_allowed, c)
      else
        let name = TrimSuffix (trim_first [''/market/v1/app/'', ''/api/v1/app/''] (mqPath r)) ''/'' in
        if name = [] then (MError 400 ''app name required'', c)
        else (case GetAppDetail E now dk c name of
            (None, c) \<Rightarrow> (MError 404 (''app not found: '' @ name), c)
          | (Some app, c) \<Rightarrow> (MJson (DDetail (enrich E cl h dk name app)), c)))"

definition handleCategories :: "'c mk_env \<Rightarrow> int \<Rightarrow> disk \<Rightarrow> 'c Catalog \<Rightarrow> mk_req \<Rightarrow> mk_resp \<times> 'c Catalog" where
  "handleCategories E now dk c r =
     (if mqMethod r \<noteq> ''GET'' then (not_allowed, c)
      else (case ListCategories E now dk c of (cats, c) \<Rightarrow> (MJson (DCategories cats), c)))"

definition handleSearch :: "'c mk_env \<Rightarrow> int \<Rightarrow> disk \<Rightarrow> 'c Catalog \<Rightarrow> mk_req \<Rightarrow> mk_resp \<times> 'c Catalog" where
  "handleSearch E now dk c r =
     (if mqMethod r \<noteq> ''GET'' then (not_allowed, c)
      else (case Search E now dk c (query_value r ''q'') of (apps, c) \<Rightarrow> (MJson (DApps apps), c)))"

definition handleRecommendations :: "'c mk_env \<Rightarrow> int \<Rightarrow> disk \<Rightarrow> 'c Catalog \<Rightarrow> mk_req \<Rightarrow> mk_resp \<times> 'c Catalog" where
  "handleRecommendations E now dk c r =
     (if mqMethod r \<noteq> ''GET'' then (not_allowed, c)
      else (case ListRecommendations E now dk c of (recs, c) \<Rightarrow> (MJson (DRecommendations recs), c)))"

subsection \<open>Files\<close>

definition number_part :: "string \<Rightarrow> bool" where
  "number_part s \<longleftrightarrow> s \<noteq> [] \<and> list_all is_digit s"

text \<open>
  \<^verbatim>\<open>^(.+?)-(\d+\.\d+\.\d+)\.tgz$\<close>: the version holds no dash, so the name ends at the last one.
\<close>

definition chart_file :: "string \<Rightarrow> (string \<times> string) option" where
  "chart_file f =
     (if \<not> HasSuffix f ''.tgz'' then None
      else
        let stem = TrimSuffix f ''.tgz'' in
        case LastIndexByte stem CHR ''-'' of
          None \<Rightarrow> None
        | Some i \<Rightarrow>
            let name = take i stem; version = drop (Suc i) stem; parts = split_on CHR ''.'' version in
            if name \<noteq> [] \<and> CHR 0x0A \<notin> set name \<and> length parts = 3 \<and> list_all number_part parts
            then Some (name, version) else None)"

text \<open>Name, version and file of each chart; Go prints them grouped by name, in no fixed order.\<close>

definition serveChartIndex :: "mk_handler \<Rightarrow> disk \<Rightarrow> mk_resp" where
  "serveChartIndex h dk =
     (case dkReadDir dk (PathJoin (mhDataDir h) ''charts'') of
        None \<Rightarrow> MError 500 ''cannot read charts directory''
      | Some es \<Rightarrow> MIndex (List.map_filter (\<lambda>e. case chart_file (deName e) of
            None \<Rightarrow> None | Some (n, v) \<Rightarrow> Some (n, v, deName e)) es))"

definition handleServeChart :: "mk_handler \<Rightarrow> disk \<Rightarrow> mk_req \<Rightarrow> mk_resp" where
  "handleServeChart h dk r =
     (if mqMethod r \<noteq> ''GET'' then not_allowed
      else
        let filename = Base (TrimPrefix (mqPath r) ''/charts/'') in
        if filename = [] \<or> filename = ''.'' then MError 400 ''filename required''
        else if filename = ''index.yaml'' then serveChartIndex h dk
        else
          let charts = PathJoin (mhDataDir h) ''charts''; filePath = PathJoin charts filename;
              filePath = (if dkStat dk filePath = None then
                  (case chart_archive filename (case dkReadDir dk charts of None \<Rightarrow> [] | Some es \<Rightarrow> es) of
                     None \<Rightarrow> filePath | Some e \<Rightarrow> PathJoin charts (deName e))
                else filePath)
          in MServeFile filePath)"

definition handleServeIcon :: "mk_handler \<Rightarrow> mk_req \<Rightarrow> mk_resp" where
  "handleServeIcon h r =
     (if mqMethod r \<noteq> ''GET'' then not_allowed
      else
        let filename = Base (trim_first [''/api/market/icons/'', ''/market/v1/icons/'', ''/icons/''] (mqPath r)) in
        if filename = [] \<or> filename = ''.'' then MError 400 ''filename required''
        else MServeFile (PathJoin (PathJoin (mhDataDir h) ''icons'') filename))"

definition handleServeScreenshot :: "mk_handler \<Rightarrow> mk_req \<Rightarrow> mk_resp" where
  "handleServeScreenshot h r =
     (if mqMethod r \<noteq> ''GET'' then not_allowed
      else
        let pathSuffix = trim_first [''/api/market/screenshots/'', ''/market/v1/screenshots/''] (mqPath r) in
        case SplitN2 pathSuffix slash of
          [a, b] \<Rightarrow>
            if a = [] \<or> b = [] then MError 400 ''path format: /screenshots/{appname}/{filename}''
            else MServeFile (PathJoin (PathJoin (PathJoin (mhDataDir h) ''screenshots'') (Base a)) (Base b))
        | _ \<Rightarrow> MError 400 ''path format: /screenshots/{appname}/{filename}'')"

subsection \<open>Routes\<close>

definition market_serve ::
  "'c mk_env \<Rightarrow> mk_client \<Rightarrow> mk_handler \<Rightarrow> int \<Rightarrow> disk \<Rightarrow> 'c Catalog \<Rightarrow> string \<Rightarrow> mk_req \<Rightarrow> mk_resp \<times> 'c Catalog" where
  "market_serve E cl h now dk c escaped r =
     (let p = escaped in
      if cleanPath p \<noteq> p then (MRedirect (cleanPath p), c)
      else if route_exact ''/market/v1/apps'' p \<or> route_exact ''/api/v1/apps'' p then handleListApps E now dk c r
      else if route_subtree ''/market/v1/apps/'' p \<or> route_subtree ''/api/v1/apps/'' p then handleGetApp E now dk c r
      else if route_subtree ''/market/v1/app/'' p \<or> route_subtree ''/api/v1/app/'' p then handleGetAppDetail E cl h now dk c r
      else if route_exact ''/market/v1/categories'' p \<or> route_exact ''/api/v1/categories'' p then handleCategories E now dk c r
      else if route_exact ''/market/v1/search'' p \<or> route_exact ''/api/v1/search'' p then handleSearch E now dk c r
      else if route_exact ''/market/v1/recommendations'' p \<or> route_exact ''/api/v1/recommendations'' p then handleRecommendations E now dk c r
      else if route_subtree ''/charts/'' p then (handleServeChart h dk r, c)
      else if route_subtree ''/icons/'' p \<or> route_subtree ''/market/v1/icons/'' p \<or> route_subtree ''/api/market/icons/'' p
      then (handleServeIcon h r, c)
      else if route_subtree ''/market/v1/screenshots/'' p \<or> route_subtree ''/api/market/screenshots/'' p
      then (handleServeScreenshot h r, c)
      else if route_exact ''/market/healthz'' p then (MOk, c)
      else if list_ex (\<lambda>pat. route_exact pat p) [''/charts'', ''/icons'', ''/market/v1/app'', ''/market/v1/icons'', ''/market/v1/screenshots'',
          ''/api/v1/app'', ''/api/market/screenshots'', ''/api/market/icons'']
      then (MRedirect (p @ ''/''), c)
      else (MNotFound, c))"

subsection \<open>Start-up\<close>

record market_config =
  cfgChartsDir :: string
  cfgIconsDir :: string
  cfgScreenshotsDir :: string
  cfgCurationPath :: string
  cfgListenAddr :: string

definition env_or :: "(string \<Rightarrow> string) \<Rightarrow> string \<Rightarrow> string \<Rightarrow> string" where
  "env_or env k d = (if env k \<noteq> [] then env k else d)"

definition DefaultConfig :: "(string \<Rightarrow> string) \<Rightarrow> market_config" where
  "DefaultConfig env =
     \<lparr>cfgChartsDir = env_or env ''CHARTS_DIR'' ''/data/market/charts'',
      cfgIconsDir = env_or env ''ICONS_DIR'' ''/data/market/icons'',
      cfgScreenshotsDir = env_or env ''SCREENSHOTS_DIR'' ''/data/market/screenshots'',
      cfgCurationPath = env_or env ''CURATION_PATH'' ''/data/market/curation.json'',
      cfgListenAddr = env_or env ''MARKET_LISTEN_ADDR'' '':6756''\<rparr>"

definition market_main ::
  "'c mk_env \<Rightarrow> (string \<Rightarrow> string) \<Rightarrow> int \<Rightarrow> disk \<Rightarrow> mk_handler \<times> 'c Catalog" where
  "market_main E env now dk =
     (let cfg = DefaultConfig env;
          c = Load E now dk (NewCatalog E (cfgChartsDir cfg) (cfgCurationPath cfg))
      in (NewHandler (env_or env ''MARKET_DATA_DIR'' ''/data/market''), c))"

end
