(* ===== verification/Mk_Histories.thy ===== *)
theory Mk_Histories
  imports Mk_Catalog Mk_Handler Path_Guard
begin

text \<open>
  The catalogue's cache: an invariant of every history of disk writes and queries says that a cached
  app whose files are unchanged is what a fresh read would give, so that no answer is stale.
\<close>

subsection \<open>The cache as a map\<close>

text \<open>An LRU cache may forget; what it gives back is what was put last under the key.\<close>

definition lru_laws :: "'c mk_env \<Rightarrow> ('c \<Rightarrow> string \<Rightarrow> MarketApp option) \<Rightarrow> bool" where
  "lru_laws E view \<longleftrightarrow>
     view (lruNew E) = Map.empty \<and>
     (\<forall>c k. fst (lruGet E c k) = view c k \<and> view (snd (lruGet E c k)) = view c) \<and>
     (\<forall>c k v. view (lruAdd E c k v) \<subseteq>\<^sub>m (view c)(k \<mapsto> v)) \<and>
     (\<forall>c k. view (lruRemove E c k) = (view c)(k := None))"

lemma lru_get: "lru_laws E view \<Longrightarrow> lruGet E c k = (r, c') \<Longrightarrow> r = view c k \<and> view c' = view c"
  by (metis lru_laws_def fst_conv snd_conv)

lemma lru_add: "lru_laws E view \<Longrightarrow> view (lruAdd E c k v) n = Some a \<Longrightarrow> (if n = k then a = v else view c n = Some a)"
  unfolding lru_laws_def map_le_def by (metis domI fun_upd_apply option.inject)

lemma lru_remove: "lru_laws E view \<Longrightarrow> view (lruRemove E c k) = (view c)(k := None)"
  by (simp add: lru_laws_def)

lemma remove_all:
  assumes L: "lru_laws E view"
  shows "view (foldl (\<lambda>cache p. if P p then lruRemove E cache (fst p) else cache) cache ps) n =
     (if \<exists>p \<in> set ps. P p \<and> fst p = n then None else view cache n)"
  by (induction ps arbitrary: cache) (auto simp: lru_remove [OF L])

subsection \<open>The invariant\<close>

definition cache_sound :: "'c mk_env \<Rightarrow> ('c \<Rightarrow> string \<Rightarrow> MarketApp option) \<Rightarrow> disk \<Rightarrow> 'c Catalog \<Rightarrow> bool" where
  "cache_sound E view dk c \<longleftrightarrow>
     (\<forall>n a e. view (parsed c) n = Some a \<and> map_of (chartIndex c) n = Some e \<and> on_disk_unchanged dk e \<longrightarrow>
        read_app E dk e n = Some a)"

lemma loadOne_index: "chartIndex (snd (loadOne E dk c n)) = chartIndex c"
  by (auto simp: loadOne_def Let_def split: option.splits prod.splits)

lemma loadOne_fields:
  "indexedAt (snd (loadOne E dk c n)) = indexedAt c" "chartsDir (snd (loadOne E dk c n)) = chartsDir c"
  "curationPath (snd (loadOne E dk c n)) = curationPath c"
  by (auto simp: loadOne_def Let_def split: option.splits prod.splits)

lemma loadOne_sound:
  assumes L: "lru_laws E view" and S: "cache_sound E view dk c"
  shows "fst (loadOne E dk c n) = (case map_of (chartIndex c) n of None \<Rightarrow> None | Some e \<Rightarrow> read_app E dk e n)"
    and "cache_sound E view dk (snd (loadOne E dk c n))"
proof -
  have "fst (loadOne E dk c n) = (case map_of (chartIndex c) n of None \<Rightarrow> None | Some e \<Rightarrow> read_app E dk e n) \<and>
      cache_sound E view dk (snd (loadOne E dk c n))"
  proof (cases "map_of (chartIndex c) n")
    case None
    with S show ?thesis by (simp add: loadOne_def)
  next
    case (Some e)
    obtain hit cache where g: "lruGet E (parsed c) n = (hit, cache)" by fastforce
    have v: "hit = view (parsed c) n" "view cache = view (parsed c)" using lru_get [OF L g] by simp_all
    show ?thesis
    proof (cases "hit \<noteq> None \<and> on_disk_unchanged dk e")
      case True
      then obtain a where "hit = Some a" by auto
      with True S Some v have "read_app E dk e n = hit" by (auto simp: cache_sound_def)
      with True Some g v S show ?thesis by (auto simp: loadOne_def cache_sound_def)
    next
      case False
      let ?cache = "if hit \<noteq> None then lruRemove E cache n else cache"
      have sub: "view ?cache m = Some a \<Longrightarrow> view (parsed c) m = Some a" for m a
        using v by (auto simp: lru_remove [OF L] split: if_splits)
      show ?thesis
      proof (cases "read_app E dk e n")
        case None
        with False Some g S sub show ?thesis by (auto simp: loadOne_def Let_def cache_sound_def)
      next
        case (Some a)
        have "cache_sound E view dk (c\<lparr>parsed := lruAdd E ?cache n a\<rparr>)"
          unfolding cache_sound_def
        proof (intro allI impI, elim conjE)
          fix m b e'
          assume m: "view (parsed (c\<lparr>parsed := lruAdd E ?cache n a\<rparr>)) m = Some b"
            and e': "map_of (chartIndex (c\<lparr>parsed := lruAdd E ?cache n a\<rparr>)) m = Some e'" "on_disk_unchanged dk e'"
          show "read_app E dk e' m = Some b"
          proof (cases "m = n")
            case True
            with m lru_add [OF L, of ?cache n a m b] have "b = a" by simp
            moreover have "e' = e" using True e'(1) \<open>map_of (chartIndex c) n = Some e\<close> by simp
            ultimately show ?thesis using True Some by simp
          next
            case mn: False
            then have "view (parsed c) m = Some b" using m lru_add [OF L, of ?cache n a m b] sub by auto
            with S e' show ?thesis by (simp add: cache_sound_def)
          qed
        qed
        with False Some g \<open>map_of (chartIndex c) n = Some e\<close> show ?thesis by (auto simp: loadOne_def Let_def)
      qed
    qed
  qed
  then show "fst (loadOne E dk c n) = (case map_of (chartIndex c) n of None \<Rightarrow> None | Some e \<Rightarrow> read_app E dk e n)"
    and "cache_sound E view dk (snd (loadOne E dk c n))" by blast+
qed

subsection \<open>Rescans\<close>

text \<open>Each app has one directory: \<open>home\<close> gives it for every sidecar that a directory lists.\<close>

definition one_place :: "(string \<Rightarrow> string) \<Rightarrow> string \<Rightarrow> disk \<Rightarrow> bool" where
  "one_place home dir dk \<longleftrightarrow>
     (\<forall>d \<in> {dir, PathJoin dir ''models''}. \<forall>es. dkReadDir dk d = Some es \<longrightarrow>
        (\<forall>e \<in> set es. HasSuffix (deName e) ''.json'' \<longrightarrow> home (TrimSuffix (deName e) ''.json'') = d))"

definition indexed_at_home :: "(string \<Rightarrow> string) \<Rightarrow> (string \<times> chartEntry) list \<Rightarrow> bool" where
  "indexed_at_home home ix \<longleftrightarrow>
     (\<forall>n e. map_of ix n = Some e \<longrightarrow> sidecarPath e = PathJoin (home n) (n @ ''.json''))"

lemma suffix_TrimSuffix: "HasSuffix s p \<Longrightarrow> TrimSuffix s p @ p = s"
  by (auto simp: TrimSuffix_def suffix_def)

lemma index_step_home:
  assumes "indexed_at_home home ix" "HasSuffix (deName e) ''.json'' \<longrightarrow> home (TrimSuffix (deName e) ''.json'') = d"
  shows "indexed_at_home home (index_step d k m ix e)"
proof (cases "deIsDir e \<or> \<not> HasSuffix (deName e) ''.json'' \<or> deMtime e = None")
  case True
  with assms(1) show ?thesis by (auto simp: index_step_def)
next
  case False
  then have "PathJoin d (deName e) =
      PathJoin (home (TrimSuffix (deName e) ''.json'')) (TrimSuffix (deName e) ''.json'' @ ''.json'')"
    using assms(2) suffix_TrimSuffix [where s = "deName e" and p = "''.json''"] by simp
  with False assms(1) show ?thesis
    by (auto simp: index_step_def indexed_at_home_def go_map Let_def split: option.splits prod.splits)
qed

lemma scanDir_home:
  assumes "indexed_at_home home ix"
    and "\<forall>es. dkReadDir dk d = Some es \<longrightarrow> (\<forall>e \<in> set es. HasSuffix (deName e) ''.json'' \<longrightarrow>
      home (TrimSuffix (deName e) ''.json'') = d)"
  shows "indexed_at_home home (scanDir dk d k ix)"
proof -
  have "indexed_at_home home (foldl (index_step d k m) ix es)"
    if "\<forall>e \<in> set es. HasSuffix (deName e) ''.json'' \<longrightarrow> home (TrimSuffix (deName e) ''.json'') = d"
      "indexed_at_home home ix" for m es ix
    using that by (induction es arbitrary: ix) (auto intro: index_step_home)
  with assms show ?thesis by (auto simp: scanDir_def split: option.split)
qed

lemma scan_all_home: "one_place home dir dk \<Longrightarrow> indexed_at_home home (scan_all dk dir)"
  unfolding scan_all_def one_place_def
  by (intro scanDir_home) (auto simp: indexed_at_home_def)

lemma rescan_sound:
  assumes L: "lru_laws E view" and S: "cache_sound E view dk c"
    and "indexed_at_home home (chartIndex c)" "one_place home (chartsDir c) dk"
  shows "cache_sound E view dk (rescan E now dk c)"
  unfolding cache_sound_def
proof (intro allI impI, elim conjE)
  let ?new = "scan_all dk (chartsDir c)"
  fix n a e
  assume a: "view (parsed (rescan E now dk c)) n = Some a" and e: "map_of (chartIndex (rescan E now dk c)) n = Some e"
    and u: "on_disk_unchanged dk e"
  have e1: "map_of ?new n = Some e" using e by (simp add: rescan_def Let_def)
  have keep: "\<not> (\<exists>p \<in> set ?new. map_of (chartIndex c) (fst p) = None \<and> fst p = n)"
    "\<not> (\<exists>p \<in> set (chartIndex c). drifted ?new p \<and> fst p = n)" "view (parsed c) n = Some a"
    using a by (auto simp: rescan_def Let_def remove_all [OF L] split: if_splits)
  then obtain o' where o: "map_of (chartIndex c) n = Some o'" using e1 map_of_SomeD by fastforce
  then have "\<not> drifted ?new (n, o')" using keep(2) map_of_SomeD by fastforce
  with e1 have same: "sidecarMtime e = sidecarMtime o'" "tgzMtime e = tgzMtime o'" "tgzPath e = tgzPath o'"
    by (auto simp: drifted_def)
  moreover have "sidecarPath e = sidecarPath o'"
    using assms(3) scan_all_home [OF assms(4)] e1 o by (simp add: indexed_at_home_def)
  ultimately have "on_disk_unchanged dk o'" "read_app E dk e n = read_app E dk o' n"
    using u by (auto simp: on_disk_unchanged_def read_app_def live_entrances_def split: option.split)
  with S keep(3) o show "read_app E dk e n = Some a" by (simp add: cache_sound_def)
qed

lemma rescan_fields [simp]:
  "chartIndex (rescan E now dk c) = scan_all dk (chartsDir c)" "chartsDir (rescan E now dk c) = chartsDir c"
  "indexedAt (rescan E now dk c) = Some now"
  by (simp_all add: rescan_def Let_def)

subsection \<open>Times\<close>

text \<open>
  A clock bounds every time on the disk; a file that is written gets a later time than any before.
  (A copy that keeps an old time, or a second write within the resolution of the clock, is not
  covered, and the code relies on there being none.)
\<close>

definition times_before :: "int \<Rightarrow> disk \<Rightarrow> bool" where
  "times_before clk dk \<longleftrightarrow>
     zero_time \<le> clk \<and> (\<forall>d es e t. dkReadDir dk d = Some es \<and> e \<in> set es \<and> deMtime e = Some t \<longrightarrow> t \<le> clk)"

definition fresh_write :: "int \<Rightarrow> disk \<Rightarrow> disk \<Rightarrow> bool" where
  "fresh_write clk dk dk' \<longleftrightarrow>
     (\<forall>p. dkStat dk' p = dkStat dk p \<and> dkRead dk' p = dkRead dk p \<or> (\<forall>t. dkStat dk' p = Some t \<longrightarrow> clk < t))"

definition indexed_before :: "int \<Rightarrow> (string \<times> chartEntry) list \<Rightarrow> bool" where
  "indexed_before clk ix \<longleftrightarrow> (\<forall>p \<in> set ix. sidecarMtime (snd p) \<le> clk \<and> tgzMtime (snd p) \<le> clk)"

lemma indexed_before_update:
  "indexed_before clk ix \<Longrightarrow> sidecarMtime e \<le> clk \<Longrightarrow> tgzMtime e \<le> clk \<Longrightarrow> indexed_before clk (AList.update n e ix)"
  unfolding indexed_before_def using set_alist_update_subset [of n e ix] by fastforce

lemma tgz_times:
  assumes "\<forall>e \<in> set es. \<forall>t. deMtime e = Some t \<longrightarrow> t \<le> clk" "\<forall>x \<in> set m. snd (snd x) \<le> clk"
  shows "\<forall>x \<in> set (foldl (tgz_step d) m es). snd (snd x) \<le> clk"
  using assms
proof (induction es arbitrary: m)
  case (Cons e es)
  have up: "t \<le> clk \<Longrightarrow> x \<in> set (AList.update k (p, t) m) \<Longrightarrow> snd (snd x) \<le> clk" for k p t x
    using set_alist_update_subset [of k "(p, t)" m] Cons.prems(2) by fastforce
  have "deMtime e = Some t \<Longrightarrow> t \<le> clk" for t using Cons.prems(1) by simp
  then have "\<forall>x \<in> set (tgz_step d m e). snd (snd x) \<le> clk"
    using Cons.prems(2) by (intro ballI) (fastforce simp: tgz_step_def Let_def split: option.splits if_splits dest: up)
  with Cons show ?case by simp
qed simp

lemma index_times:
  assumes "\<forall>e \<in> set es. \<forall>t. deMtime e = Some t \<longrightarrow> t \<le> clk" "\<forall>x \<in> set m. snd (snd x) \<le> clk" "zero_time \<le> clk"
    and "indexed_before clk ix"
  shows "indexed_before clk (foldl (index_step d k m) ix es)"
  using assms(1,4)
proof (induction es arbitrary: ix)
  case (Cons e es)
  have m: "map_of m n = Some (p, t) \<Longrightarrow> t \<le> clk" for n p t using assms(2) map_of_SomeD by fastforce
  have "indexed_before clk (index_step d k m ix e)"
    using Cons.prems assms(3) m
    by (auto simp: index_step_def Let_def split: option.splits prod.splits intro!: indexed_before_update)
  with Cons show ?case by simp
qed simp

lemma scanDir_times:
  assumes "times_before clk dk" "indexed_before clk ix"
  shows "indexed_before clk (scanDir dk d k ix)"
proof (cases "dkReadDir dk d")
  case (Some es)
  with assms(1) have t: "\<forall>e \<in> set es. \<forall>t. deMtime e = Some t \<longrightarrow> t \<le> clk" "zero_time \<le> clk"
    by (auto simp: times_before_def)
  then have "\<forall>x \<in> set (foldl (tgz_step d) [] es). snd (snd x) \<le> clk" by (intro tgz_times) simp_all
  with Some t assms(2) show ?thesis by (simp add: scanDir_def index_times)
qed (use assms(2) in \<open>simp add: scanDir_def\<close>)

lemma scan_all_times: "times_before clk dk \<Longrightarrow> indexed_before clk (scan_all dk dir)"
  unfolding scan_all_def by (intro scanDir_times) (auto simp: indexed_before_def)

lemma write_sound:
  assumes "cache_sound E view dk c" "indexed_before clk (chartIndex c)" "fresh_write clk dk dk'"
  shows "cache_sound E view dk' c"
  unfolding cache_sound_def
proof (intro allI impI, elim conjE)
  fix n a e
  assume a: "view (parsed c) n = Some a" and e: "map_of (chartIndex c) n = Some e" and u: "on_disk_unchanged dk' e"
  have t: "sidecarMtime e \<le> clk" "tgzMtime e \<le> clk"
    using assms(2) map_of_SomeD [OF e] by (auto simp: indexed_before_def)
  have side: "dkStat dk' (sidecarPath e) = dkStat dk (sidecarPath e) \<and> dkRead dk' (sidecarPath e) = dkRead dk (sidecarPath e)"
    using assms(3) u t(1) unfolding fresh_write_def on_disk_unchanged_def by (meson linorder_not_less)
  have tgz: "dkStat dk' (tgzPath e) = dkStat dk (tgzPath e) \<and> dkRead dk' (tgzPath e) = dkRead dk (tgzPath e)"
    if "tgzPath e \<noteq> []"
    using assms(3) u t(2) that unfolding fresh_write_def on_disk_unchanged_def by (meson linorder_not_less)
  have "on_disk_unchanged dk e" using u side tgz unfolding on_disk_unchanged_def by metis
  with assms(1) a e have "read_app E dk e n = Some a" by (simp add: cache_sound_def)
  moreover have "read_app E dk' e n = read_app E dk e n"
    using side tgz by (auto simp: read_app_def live_entrances_def readOlaresManifestFromTGZ_def split: option.split)
  ultimately show "read_app E dk' e n = Some a" by simp
qed

text \<open>
  Every history of the market: disk writes, reloads and requests in any order. The invariant
  of the cache holds throughout, so the answers are those of a catalogue without a cache.
\<close>

subsection \<open>Lists of apps\<close>

definition fresh_apps :: "'c mk_env \<Rightarrow> disk \<Rightarrow> (string \<times> chartEntry) list \<Rightarrow> string list \<Rightarrow> MarketApp list" where
  "fresh_apps E dk ix ns =
     List.map_filter (\<lambda>n. case map_of ix n of None \<Rightarrow> None | Some e \<Rightarrow> read_app E dk e n) ns"

definition same_index :: "'c Catalog \<Rightarrow> 'c Catalog \<Rightarrow> bool" where
  "same_index c c' \<longleftrightarrow> chartIndex c' = chartIndex c \<and> indexedAt c' = indexedAt c \<and> chartsDir c' = chartsDir c"

lemma same_index_refl [simp]: "same_index c c"
  by (simp add: same_index_def)

lemma same_index_trans: "same_index a b \<Longrightarrow> same_index b c \<Longrightarrow> same_index a c"
  by (simp add: same_index_def)

lemma loadOne_same: "same_index c (snd (loadOne E dk c n))"
  by (simp add: same_index_def loadOne_index loadOne_fields)

lemma load_all_sound:
  assumes L: "lru_laws E view" and "cache_sound E view dk c"
  shows "fst (load_all E dk c ns) = fresh_apps E dk (chartIndex c) ns \<and>
     cache_sound E view dk (snd (load_all E dk c ns)) \<and> same_index c (snd (load_all E dk c ns))"
  using assms(2)
proof (induction ns arbitrary: c)
  case (Cons n ns)
  obtain app c1 where a: "loadOne E dk c n = (app, c1)" by fastforce
  obtain apps c2 where as: "load_all E dk c1 ns = (apps, c2)" by fastforce
  have 1: "app = (case map_of (chartIndex c) n of None \<Rightarrow> None | Some e \<Rightarrow> read_app E dk e n)"
    "cache_sound E view dk c1" "same_index c c1"
    using loadOne_sound [OF L Cons.prems, of n] loadOne_same [of c E dk n] a by simp_all
  then have "apps = fresh_apps E dk (chartIndex c1) ns" "cache_sound E view dk c2" "same_index c1 c2"
    using Cons.IH [OF 1(2)] as by simp_all
  with 1 a as show ?case
    by (auto simp: fresh_apps_def map_filter_simps same_index_def split: option.split)
qed (simp add: fresh_apps_def map_filter_simps)

subsection \<open>Histories\<close>

datatype mk_query = QLoad | QList | QGet string | QCategories | QSearch string | QRecommend

definition run_query :: "'c mk_env \<Rightarrow> int \<Rightarrow> disk \<Rightarrow> mk_query \<Rightarrow> 'c Catalog \<Rightarrow> 'c Catalog" where
  "run_query E now dk q c =
     (case q of
        QLoad \<Rightarrow> Load E now dk c
      | QList \<Rightarrow> snd (ListApps E now dk c)
      | QGet n \<Rightarrow> snd (GetApp E now dk c n)
      | QCategories \<Rightarrow> snd (ListCategories E now dk c)
      | QSearch s \<Rightarrow> snd (Search E now dk c s)
      | QRecommend \<Rightarrow> snd (ListRecommendations E now dk c))"

inductive market_reach :: "'c mk_env \<Rightarrow> (string \<Rightarrow> string) \<Rightarrow> string \<Rightarrow> disk \<Rightarrow> int \<Rightarrow> 'c Catalog \<Rightarrow> bool"
  for E home dir where
  start: "times_before clk dk \<Longrightarrow> one_place home dir dk \<Longrightarrow> market_reach E home dir dk clk (NewCatalog E dir cur)"
| write_: "market_reach E home dir dk clk c \<Longrightarrow> fresh_write clk dk dk' \<Longrightarrow> clk \<le> clk' \<Longrightarrow> times_before clk' dk' \<Longrightarrow>
    one_place home dir dk' \<Longrightarrow> market_reach E home dir dk' clk' c"
| query: "market_reach E home dir dk clk c \<Longrightarrow> market_reach E home dir dk clk (run_query E now dk q c)"

definition catalog_inv ::
  "'c mk_env \<Rightarrow> ('c \<Rightarrow> string \<Rightarrow> MarketApp option) \<Rightarrow> (string \<Rightarrow> string) \<Rightarrow> string \<Rightarrow> disk \<Rightarrow> int \<Rightarrow> 'c Catalog \<Rightarrow> bool" where
  "catalog_inv E view home dir dk clk c \<longleftrightarrow>
     cache_sound E view dk c \<and> indexed_at_home home (chartIndex c) \<and> indexed_before clk (chartIndex c) \<and>
     chartsDir c = dir \<and> times_before clk dk \<and> one_place home dir dk"

lemma rescan_inv:
  assumes L: "lru_laws E view" and I: "catalog_inv E view home dir dk clk c"
  shows "catalog_inv E view home dir dk clk (rescan E now dk c)"
  using I rescan_sound [OF L, of dk c home now] scan_all_home [of home dir dk] scan_all_times [of clk dk dir]
  by (auto simp: catalog_inv_def)

lemma ensureFresh_inv:
  assumes L: "lru_laws E view" and I: "catalog_inv E view home dir dk clk c"
  shows "catalog_inv E view home dir dk clk (ensureFresh E now dk c)"
  using I rescan_inv [OF L I] by (auto simp: ensureFresh_def split: option.split)

lemma inv_same_index:
  "catalog_inv E view home dir dk clk c \<Longrightarrow> cache_sound E view dk c' \<Longrightarrow> same_index c c' \<Longrightarrow>
   catalog_inv E view home dir dk clk c'"
  by (simp add: catalog_inv_def same_index_def)

lemma inv_sound: "catalog_inv E view home dir dk clk c \<Longrightarrow> cache_sound E view dk c"
  by (simp add: catalog_inv_def)

lemma ListApps_inv:
  assumes L: "lru_laws E view" and I: "catalog_inv E view home dir dk clk c"
  shows "catalog_inv E view home dir dk clk (snd (ListApps E now dk c))"
proof -
  let ?c = "ensureFresh E now dk c"
  note J = ensureFresh_inv [OF L I, of now]
  note R = load_all_sound [OF L inv_sound [OF J], of "sort (map fst (chartIndex ?c))"]
  show ?thesis using inv_same_index [OF J] R by (simp add: ListApps_def Let_def)
qed

lemma GetApp_inv:
  assumes L: "lru_laws E view" and I: "catalog_inv E view home dir dk clk c"
  shows "catalog_inv E view home dir dk clk (snd (GetApp E now dk c n))"
  using ensureFresh_inv [OF L I, of now] loadOne_sound(2) [OF L] loadOne_same inv_same_index inv_sound
  by (metis GetApp_def)

lemma get_all_inv:
  assumes L: "lru_laws E view"
  shows "catalog_inv E view home dir dk clk c \<Longrightarrow> catalog_inv E view home dir dk clk (snd (get_all E now dk c ns))"
proof (induction ns arbitrary: c)
  case (Cons n ns)
  have "catalog_inv E view home dir dk clk (snd (GetApp E now dk c n))" by (rule GetApp_inv [OF L Cons.prems])
  with Cons.IH show ?case by (simp add: split_beta Let_def)
qed simp

lemma recommend_inv:
  assumes L: "lru_laws E view"
  shows "catalog_inv E view home dir dk clk c \<Longrightarrow> catalog_inv E view home dir dk clk (snd (recommend E now dk c gs))"
proof (induction gs arbitrary: c)
  case (Cons g gs)
  obtain nm rg where g: "g = (nm, rg)" by fastforce
  have "catalog_inv E view home dir dk clk (snd (get_all E now dk c (rgAppIDs rg)))"
    by (rule get_all_inv [OF L Cons.prems])
  with Cons.IH g show ?case by (simp add: split_beta Let_def)
qed simp

lemma loadCuration_same: "same_index c (snd (loadCuration E dk c)) \<and> parsed (snd (loadCuration E dk c)) = parsed c"
  by (auto simp: loadCuration_def Let_def same_index_def split: option.split)

lemma loadCuration_inv:
  "catalog_inv E view home dir dk clk c \<Longrightarrow> catalog_inv E view home dir dk clk (snd (loadCuration E dk c))"
  using loadCuration_same [of c E dk] by (simp add: catalog_inv_def same_index_def cache_sound_def)

lemma run_query_inv:
  assumes L: "lru_laws E view" and I: "catalog_inv E view home dir dk clk c"
  shows "catalog_inv E view home dir dk clk (run_query E now dk q c)"
proof (cases q)
  case QRecommend
  obtain cu c1 where l: "loadCuration E dk c = (cu, c1)" by fastforce
  have J: "catalog_inv E view home dir dk clk c1" using loadCuration_inv [OF I] l by (metis snd_conv)
  with l QRecommend recommend_inv [OF L J] show ?thesis
    by (simp add: run_query_def ListRecommendations_def split: option.split)
qed (use rescan_inv [OF L I] ListApps_inv [OF L I] GetApp_inv [OF L I] in
      \<open>simp_all add: run_query_def Load_def ListCategories_def Search_def split_beta Let_def\<close>)

lemma reach_inv:
  assumes L: "lru_laws E view"
  shows "market_reach E home dir dk clk c \<Longrightarrow> catalog_inv E view home dir dk clk c"
proof (induction rule: market_reach.induct)
  case (start clk dk cur)
  then show ?case
    using L by (simp add: catalog_inv_def NewCatalog_def cache_sound_def indexed_at_home_def indexed_before_def)
next
  case (write_ dk clk c dk' clk')
  then have "cache_sound E view dk' c" by (auto simp: catalog_inv_def intro: write_sound)
  moreover have "indexed_before clk' (chartIndex c)"
    using write_ by (force simp: catalog_inv_def indexed_before_def)
  ultimately show ?case using write_ by (simp add: catalog_inv_def)
next
  case (query dk clk c now q)
  then show ?case by (intro run_query_inv [OF L])
qed

subsection \<open>The index\<close>

lemma index_step_keys:
  "map_of (index_step d k m ix e) n \<noteq> None \<longleftrightarrow>
     map_of ix n \<noteq> None \<or> \<not> deIsDir e \<and> deMtime e \<noteq> None \<and> deName e = n @ ''.json''"
proof (cases "deIsDir e \<or> \<not> HasSuffix (deName e) ''.json'' \<or> deMtime e = None")
  case True
  then show ?thesis by (auto simp: index_step_def suffix_def)
next
  case False
  then have "deName e = n @ ''.json'' \<longleftrightarrow> TrimSuffix (deName e) ''.json'' = n"
    using suffix_TrimSuffix [where s = "deName e" and p = "''.json''"] by auto
  with False show ?thesis
    by (auto simp: index_step_def go_map Let_def split: option.splits prod.splits)
qed

definition lists_sidecar :: "disk \<Rightarrow> string \<Rightarrow> string \<Rightarrow> bool" where
  "lists_sidecar dk d n \<longleftrightarrow>
     (case dkReadDir dk d of
        None \<Rightarrow> False
      | Some es \<Rightarrow> list_ex (\<lambda>e. \<not> deIsDir e \<and> deMtime e \<noteq> None \<and> deName e = n @ ''.json'') es)"

lemma scanDir_keys:
  "map_of (scanDir dk d k ix) n \<noteq> None \<longleftrightarrow> map_of ix n \<noteq> None \<or> lists_sidecar dk d n"
proof -
  have "map_of (foldl (index_step d k m) ix es) n \<noteq> None \<longleftrightarrow>
      map_of ix n \<noteq> None \<or> list_ex (\<lambda>e. \<not> deIsDir e \<and> deMtime e \<noteq> None \<and> deName e = n @ ''.json'') es" for m es
  proof (induction es arbitrary: ix)
    case (Cons e es)
    show ?case unfolding foldl.simps Cons.IH index_step_keys by auto
  qed simp
  then show ?thesis by (simp add: scanDir_def lists_sidecar_def split: option.split)
qed

lemma scan_all_keys:
  "map_of (scan_all dk dir) n \<noteq> None \<longleftrightarrow> lists_sidecar dk dir n \<or> lists_sidecar dk (PathJoin dir ''models'') n"
  by (simp only: scan_all_def scanDir_keys) simp

subsection \<open>The newest chart\<close>

definition charts_of :: "string \<Rightarrow> dirent list \<Rightarrow> int list" where
  "charts_of n es =
     List.map_filter (\<lambda>e. if \<not> deIsDir e \<and> HasSuffix (deName e) ''.tgz'' \<and> chart_stem (TrimSuffix (deName e) ''.tgz'') = n
       then deMtime e else None) es"

lemma tgz_fold_newest:
  "(case map_of (foldl (tgz_step d) m es) n of None \<Rightarrow> [] | Some (p, t) \<Rightarrow> [t]) =
   (case (case map_of m n of None \<Rightarrow> [] | Some (p, t) \<Rightarrow> [t]) @ charts_of n es of [] \<Rightarrow> [] | x # xs \<Rightarrow> [Max (set (x # xs))])"
proof (induction es arbitrary: m)
  case Nil
  show ?case by (auto simp: charts_of_def map_filter_simps split: option.split)
next
  case (Cons e es)
  let ?n = "chart_stem (TrimSuffix (deName e) ''.tgz'')"
  show ?case
  proof (cases "deIsDir e \<or> \<not> HasSuffix (deName e) ''.tgz'' \<or> deMtime e = None \<or> ?n \<noteq> n")
    case True
    then have "map_of (tgz_step d m e) n = map_of m n"
      by (auto simp: tgz_step_def Let_def go_map split: option.split)
    moreover have "charts_of n (e # es) = charts_of n es"
      using True by (auto simp: charts_of_def map_filter_simps split: option.split)
    ultimately show ?thesis using Cons.IH [of "tgz_step d m e"] by simp
  next
    case False
    then obtain t where t: "deMtime e = Some t" by auto
    have ch: "charts_of n (e # es) = t # charts_of n es"
      using False t by (simp add: charts_of_def map_filter_simps)
    show ?thesis
    proof (cases "map_of m n")
      case None
      then have "map_of (tgz_step d m e) n = Some (PathJoin d (deName e), t)"
        using False t by (auto simp: tgz_step_def go_map)
      with None ch Cons.IH [of "tgz_step d m e"] show ?thesis by simp
    next
      case (Some x)
      obtain p0 t0 where x: "x = (p0, t0)" by fastforce
      have "map_of (tgz_step d m e) n = Some (if t > t0 then (PathJoin d (deName e), t) else (p0, t0))"
        using False t Some x by (auto simp: tgz_step_def go_map)
      moreover have "Max (insert t0 (insert t S)) = Max (insert (if t > t0 then t else t0) S)" if "finite S" for S
        using that by (cases "S = {}") (auto simp: max_def)
      ultimately show ?thesis using Some x ch Cons.IH [of "tgz_step d m e"] by (auto split: if_splits)
    qed
  qed
qed

end
