(* ===== verification/Mk_Properties.thy ===== *)
theory Mk_Properties
  imports Mk_Histories "HOL-Library.Multiset"
begin

text \<open>
  What the market promises, its file routes as an instance of \<open>path_guard\<close>, and inputs on which it
  does less than its comments say.
\<close>

subsection \<open>Files are served from their own directory\<close>

lemma dotdot_element: "''..'' \<in> set (split_on slash p) \<Longrightarrow> containsDotDot p"
  unfolding containsDotDot_def by (force simp: split_on_id)

lemma trim_elements:
  assumes "\<forall>x \<in> set xs. \<exists>y. x = y @ [slash]"
  shows "set (split_on slash (trim_first xs p)) \<subseteq> set (split_on slash p)"
  using assms
proof (induction xs)
  case (Cons x xs)
  show ?case
  proof (cases "HasPrefix p x")
    case True
    obtain y where y: "x = y @ [slash]" using Cons.prems by auto
    with True obtain s where "p = y @ slash # s" by (auto simp: prefix_def)
    with True y show ?thesis by (auto simp: TrimPrefix_def split_on_append_sep)
  qed (use Cons in auto)
qed simp

definition file_answer :: "string \<Rightarrow> mk_handler \<Rightarrow> disk \<Rightarrow> mk_req \<Rightarrow> mk_resp" where
  "file_answer k h dk r =
     (if k = ''charts'' then handleServeChart h dk r
      else if k = ''icons'' then handleServeIcon h r else handleServeScreenshot h r)"

text \<open>A request as \<open>http.ServeFile\<close> takes it: it refuses a URL with a \<open>..\<close> element.\<close>

fun market_guard :: "mk_handler \<times> disk \<times> string \<Rightarrow> string \<Rightarrow> mk_resp + string" where
  "market_guard (h, dk, k) p =
     (if containsDotDot p then Inl (MError 400 ''invalid URL path'')
      else case file_answer k h dk \<lparr>mqMethod = ''GET'', mqPath = p, mqQuery = []\<rparr> of
        MServeFile f \<Rightarrow> Inr f | x \<Rightarrow> Inl x)"

definition names_proper :: "disk \<Rightarrow> bool" where
  "names_proper dk \<longleftrightarrow>
     (\<forall>d es. dkReadDir dk d = Some es \<longrightarrow> (\<forall>e \<in> set es. proper_elem (deName e) \<and> deName e \<noteq> ''..''))"

fun market_ok :: "mk_handler \<times> disk \<times> string \<Rightarrow> bool" where
  "market_ok (h, dk, k) \<longleftrightarrow> is_rooted (mhDataDir h) \<and> names_proper dk \<and> k \<in> set [''charts'', ''icons'', ''screenshots'']"

fun market_base :: "mk_handler \<times> disk \<times> string \<Rightarrow> string" where
  "market_base (h, dk, k) = PathJoin (mhDataDir h) k"

lemma Base_no_dotdot: "set (split_on slash s) \<subseteq> set (split_on slash p) \<Longrightarrow> \<not> containsDotDot p \<Longrightarrow> Base s \<noteq> ''..''"
  using Base_last_element [of s] dotdot_element by auto

lemma chart_below:
  assumes "is_rooted (mhDataDir h)" "names_proper dk" "\<not> containsDotDot (mqPath r)"
    and "handleServeChart h dk r = MServeFile f"
  shows "below (PathJoin (mhDataDir h) ''charts'') f"
proof -
  let ?d = "PathJoin (mhDataDir h) ''charts''" and ?n = "Base (TrimPrefix (mqPath r) ''/charts/'')"
  have "set (split_on slash (TrimPrefix (mqPath r) ''/charts/'')) \<subseteq> set (split_on slash (mqPath r))"
    using trim_elements [of "[''/charts/'']" "mqPath r"] by (auto split: if_splits simp: TrimPrefix_def)
  then have n: "?n \<noteq> ''..''" using assms(3) by (rule Base_no_dotdot)
  have r: "is_rooted ?d" using assms(1) by simp
  obtain es where es: "es = (case dkReadDir dk ?d of None \<Rightarrow> [] | Some es \<Rightarrow> es)" by simp
  have proper: "proper_elem (deName e) \<and> deName e \<noteq> ''..''" if "chart_archive ?n es = Some e" for e
  proof -
    have "e \<in> set es" using that by (auto simp: chart_archive_def find_Some_iff)
    then show ?thesis using assms(2) unfolding names_proper_def es by (force split: option.splits)
  qed
  have "f = PathJoin ?d ?n \<or> (\<exists>e. chart_archive ?n es = Some e \<and> f = PathJoin ?d (deName e))"
    using assms(4) by (auto simp: handleServeChart_def Let_def not_allowed_def serveChartIndex_def es
        split: if_splits option.splits)
  then show ?thesis
    using PathJoin_Base_below [OF r n] proper r by (auto simp: below_def path_elems_PathJoin)
qed

lemma icon_below:
  assumes "is_rooted (mhDataDir h)" "\<not> containsDotDot (mqPath r)" "handleServeIcon h r = MServeFile f"
  shows "below (PathJoin (mhDataDir h) ''icons'') f"
proof -
  let ?s = "trim_first [''/api/market/icons/'', ''/market/v1/icons/'', ''/icons/''] (mqPath r)"
  have "set (split_on slash ?s) \<subseteq> set (split_on slash (mqPath r))"
    by (rule trim_elements) (simp; metis append_Cons append_Nil)
  then have "Base ?s \<noteq> ''..''" using assms(2) by (rule Base_no_dotdot)
  moreover have "f = PathJoin (PathJoin (mhDataDir h) ''icons'') (Base ?s)"
    using assms(3) by (auto simp: handleServeIcon_def Let_def not_allowed_def split: if_splits)
  ultimately show ?thesis using PathJoin_Base_below assms(1) by simp
qed

lemma screenshot_below:
  assumes "is_rooted (mhDataDir h)" "\<not> containsDotDot (mqPath r)" "handleServeScreenshot h r = MServeFile f"
  shows "below (PathJoin (mhDataDir h) ''screenshots'') f"
proof -
  let ?s = "trim_first [''/api/market/screenshots/'', ''/market/v1/screenshots/''] (mqPath r)"
  let ?d = "PathJoin (mhDataDir h) ''screenshots''"
  have sub: "set (split_on slash ?s) \<subseteq> set (split_on slash (mqPath r))"
    by (rule trim_elements) (simp; metis append_Cons append_Nil)
  obtain a b where ab: "SplitN2 ?s slash = [a, b]" and f: "f = PathJoin (PathJoin ?d (Base a)) (Base b)"
    using assms(3) by (auto simp: handleServeScreenshot_def Let_def not_allowed_def split: if_splits list.splits)
  have s: "?s = a @ slash # b" using ab SplitN2_cases [of ?s slash] by auto
  then have "set (split_on slash a) \<subseteq> set (split_on slash (mqPath r))" "set (split_on slash b) \<subseteq> set (split_on slash (mqPath r))"
    using sub by (auto simp: split_on_append_sep)
  then have "Base a \<noteq> ''..''" "Base b \<noteq> ''..''" using assms(2) Base_no_dotdot by blast+
  then have "below ?d (PathJoin ?d (Base a))" "below (PathJoin ?d (Base a)) f"
    using assms(1) f PathJoin_Base_below by simp_all
  then show ?thesis by (rule below_trans)
qed

interpretation market_file: path_guard market_guard market_ok market_base "\<lambda>_ p. p"
proof
  fix e :: "mk_handler \<times> disk \<times> string" and x p
  assume ok: "market_ok e" and g: "market_guard e x = Inr p"
  obtain h dk k where e: "e = (h, dk, k)" by (metis prod_cases3)
  let ?r = "\<lparr>mqMethod = ''GET'', mqPath = x, mqQuery = []\<rparr>"
  have a: "file_answer k h dk ?r = MServeFile p" "\<not> containsDotDot x"
    using g e by (auto split: if_splits mk_resp.splits)
  have r: "is_rooted (mhDataDir h)" "names_proper dk" "k = ''charts'' \<or> k = ''icons'' \<or> k = ''screenshots''"
    using ok e by auto
  then show "below (market_base e) p"
    using a chart_below [of h dk ?r p] icon_below [of h ?r p] screenshot_below [of h ?r p]
    by (auto simp: e file_answer_def)
qed

lemma file_answer_guard:
  assumes "file_answer k h dk r = MServeFile f" "\<not> containsDotDot (mqPath r)"
  shows "market_guard (h, dk, k) (mqPath r) = Inr f"
proof -
  let ?r = "\<lparr>mqMethod = ''GET'', mqPath = mqPath r, mqQuery = []\<rparr>"
  have "mqMethod r = ''GET''"
    using assms(1) by (auto simp: file_answer_def handleServeChart_def handleServeIcon_def handleServeScreenshot_def
        not_allowed_def split: if_splits)
  then have "file_answer k h dk ?r = file_answer k h dk r"
    by (simp add: file_answer_def handleServeChart_def handleServeIcon_def handleServeScreenshot_def)
  with assms show ?thesis by simp
qed

lemma json_only:
  "fst (handleListApps E now dk c r) \<noteq> MServeFile f" "fst (handleGetApp E now dk c r) \<noteq> MServeFile f"
  "fst (handleGetAppDetail E cl h now dk c r) \<noteq> MServeFile f" "fst (handleCategories E now dk c r) \<noteq> MServeFile f"
  "fst (handleSearch E now dk c r) \<noteq> MServeFile f" "fst (handleRecommendations E now dk c r) \<noteq> MServeFile f"
  by (auto simp: handleListApps_def handleGetApp_def handleGetAppDetail_def handleCategories_def handleSearch_def
      handleRecommendations_def not_allowed_def Let_def split: prod.split option.split if_splits)

lemma json_only_pair:
  "handleListApps E now dk c r \<noteq> (MServeFile f, c')" "handleGetApp E now dk c r \<noteq> (MServeFile f, c')"
  "handleGetAppDetail E cl h now dk c r \<noteq> (MServeFile f, c')" "handleCategories E now dk c r \<noteq> (MServeFile f, c')"
  "handleSearch E now dk c r \<noteq> (MServeFile f, c')" "handleRecommendations E now dk c r \<noteq> (MServeFile f, c')"
  using json_only by (metis fst_conv)+

lemma market_serve_file:
  "market_serve E cl h now dk c escaped r = (MServeFile f, c') \<Longrightarrow>
   \<exists>k \<in> set [''charts'', ''icons'', ''screenshots'']. file_answer k h dk r = MServeFile f"
  unfolding market_serve_def Let_def by (simp add: json_only_pair file_answer_def split: if_splits)

text \<open>
  Whatever URL a request has, the file it is answered with lies in the directory of its route,
  the charts, the icons or the screenshots.
\<close>

lemma served_files_stay_in_their_directory:
  assumes "is_rooted (mhDataDir h)" "names_proper dk" "\<not> containsDotDot (mqPath r)"
    and "market_serve E cl h now dk c escaped r = (MServeFile f, c')"
  shows "below (PathJoin (mhDataDir h) ''charts'') f \<or> below (PathJoin (mhDataDir h) ''icons'') f \<or>
     below (PathJoin (mhDataDir h) ''screenshots'') f"
proof -
  obtain k where k: "k \<in> set [''charts'', ''icons'', ''screenshots'']" "file_answer k h dk r = MServeFile f"
    using market_serve_file [OF assms(4)] by blast
  then have "market_ok (h, dk, k)" using assms by simp
  moreover have "market_guard (h, dk, k) (mqPath r) = Inr f" using k assms(3) by (intro file_answer_guard)
  ultimately have "below (market_base (h, dk, k)) f" by (rule market_file.guard_below)
  with k show ?thesis by auto
qed

subsection \<open>The index of charts\<close>

lemma LastIndexByte_SomeD: "LastIndexByte s c = Some i \<Longrightarrow> i < length s \<and> s ! i = c"
  by (auto simp: LastIndexByte_def rev_nth dest: IndexByte_SomeD)

lemma chart_file_iff:
  "chart_file f = Some (n, v) \<longleftrightarrow>
     f = n @ ''-'' @ v @ ''.tgz'' \<and> n \<noteq> [] \<and> CHR 0x0A \<notin> set n \<and>
     length (split_on CHR ''.'' v) = 3 \<and> list_all number_part (split_on CHR ''.'' v)"
proof
  assume c: "chart_file f = Some (n, v)"
  then have s: "HasSuffix f ''.tgz''" by (auto simp: chart_file_def split: if_splits)
  from c obtain i where i: "LastIndexByte (TrimSuffix f ''.tgz'') CHR ''-'' = Some i"
    by (auto simp: chart_file_def Let_def split: if_splits option.splits)
  from c s i have n: "n = take i (TrimSuffix f ''.tgz'')" "v = drop (Suc i) (TrimSuffix f ''.tgz'')"
    "n \<noteq> []" "CHR 0x0A \<notin> set n" "length (split_on CHR ''.'' v) = 3" "list_all number_part (split_on CHR ''.'' v)"
    by (auto simp: chart_file_def Let_def split: if_splits)
  have "TrimSuffix f ''.tgz'' = n @ CHR ''-'' # v"
    using LastIndexByte_SomeD [OF i] n(1,2) id_take_nth_drop [of i "TrimSuffix f ''.tgz''"] by simp
  then have "f = n @ ''-'' @ v @ ''.tgz''" using suffix_TrimSuffix [OF s] by simp
  with n show "f = n @ ''-'' @ v @ ''.tgz'' \<and> n \<noteq> [] \<and> CHR 0x0A \<notin> set n \<and>
     length (split_on CHR ''.'' v) = 3 \<and> list_all number_part (split_on CHR ''.'' v)" by blast
next
  assume a: "f = n @ ''-'' @ v @ ''.tgz'' \<and> n \<noteq> [] \<and> CHR 0x0A \<notin> set n \<and>
     length (split_on CHR ''.'' v) = 3 \<and> list_all number_part (split_on CHR ''.'' v)"
  have "CHR ''-'' \<notin> set v"
  proof
    assume d: "CHR ''-'' \<in> set v"
    have js: "set (join ''.'' es) \<subseteq> insert CHR ''.'' (\<Union> (set ` set es))" for es
      by (induction es rule: induct_list012) auto
    have "v = join ''.'' (split_on CHR ''.'' v)" by (simp add: join_split_on)
    then have "set v \<subseteq> insert CHR ''.'' (\<Union> (set ` set (split_on CHR ''.'' v)))"
      using js [of "split_on CHR ''.'' v"] by simp
    with d obtain x where "x \<in> set (split_on CHR ''.'' v)" "CHR ''-'' \<in> set x" by auto
    then have "is_digit CHR ''-''" using a by (auto simp: list_all_iff number_part_def)
    then show False by (simp add: is_digit_def in_range_def)
  qed
  then have "LastIndexByte (n @ CHR ''-'' # v) CHR ''-'' = Some (length n)" by (rule LastIndexByte_append)
  moreover have "TrimSuffix f ''.tgz'' = n @ CHR ''-'' # v" "HasSuffix f ''.tgz''"
    using a TrimSuffix_append [of "n @ ''-'' @ v" "''.tgz''"] by (auto simp: suffix_def)
  ultimately show "chart_file f = Some (n, v)" using a by (simp add: chart_file_def)
qed

text \<open>
  The repository index lists a name, a version and a file exactly when the charts directory
  has a file of that name, a dash, a version of three numbers and the ending \<open>.tgz\<close>.
\<close>

lemma chart_index_is_exact:
  assumes "dkReadDir dk (PathJoin (mhDataDir h) ''charts'') = Some es"
  shows "\<exists>ix. serveChartIndex h dk = MIndex ix \<and>
     ((n, v, f) \<in> set ix \<longleftrightarrow>
        f \<in> deName ` set es \<and> f = n @ ''-'' @ v @ ''.tgz'' \<and> n \<noteq> [] \<and> CHR 0x0A \<notin> set n \<and>
        length (split_on CHR ''.'' v) = 3 \<and> list_all number_part (split_on CHR ''.'' v))"
proof -
  let ?g = "\<lambda>e. case chart_file (deName e) of None \<Rightarrow> None | Some (n, v) \<Rightarrow> Some (n, v, deName e)"
  have "(n, v, f) \<in> set (List.map_filter ?g es) \<longleftrightarrow> (\<exists>e \<in> set es. ?g e = Some (n, v, f))"
    by (force simp: map_filter_def)
  moreover have "?g e = Some (n, v, f) \<longleftrightarrow> deName e = f \<and> chart_file f = Some (n, v)" for e
    by (auto split: option.splits)
  ultimately have "(n, v, f) \<in> set (List.map_filter ?g es) \<longleftrightarrow> f \<in> deName ` set es \<and> chart_file f = Some (n, v)"
    by auto
  then show ?thesis using assms by (simp add: serveChartIndex_def chart_file_iff)
qed

text \<open>
  The answers of the catalogue in every history, the categories, and the pairing of an app with its
  newest chart; then a sample market on which the witnesses and the cases that go wrong run.
\<close>

subsection \<open>Answers\<close>

definition indexed_names :: "'c mk_env \<Rightarrow> int \<Rightarrow> disk \<Rightarrow> 'c Catalog \<Rightarrow> string list" where
  "indexed_names E now dk c = sort (map fst (chartIndex (ensureFresh E now dk c)))"

definition fresh_app :: "'c mk_env \<Rightarrow> int \<Rightarrow> disk \<Rightarrow> 'c Catalog \<Rightarrow> string \<Rightarrow> MarketApp option" where
  "fresh_app E now dk c n =
     (case map_of (chartIndex (ensureFresh E now dk c)) n of None \<Rightarrow> None | Some e \<Rightarrow> read_app E dk e n)"


lemma count_fold:
  "map_of (foldl count_step m cs) c =
     (if c \<in> set cs then Some ((case map_of m c of None \<Rightarrow> 0 | Some n \<Rightarrow> n) + length (filter (\<lambda>x. x = c) cs))
      else map_of m c)"
  by (induction cs arbitrary: m) (auto simp: count_step_def go_map filter_empty_conv split: option.splits)

lemma count_fold_distinct: "distinct (map fst m) \<Longrightarrow> distinct (map fst (foldl count_step m cs))"
  by (induction cs arbitrary: m) (auto simp: count_step_def distinct_update)

lemma clean_loop_distinct: "distinct (clean_loop seen cs) \<and> set (clean_loop seen cs) \<inter> set seen = {}"
  by (induction seen cs rule: clean_loop.induct) (auto simp: Let_def)

lemma count_once:
  assumes "\<forall>a \<in> set apps. distinct (maCategories a)"
  shows "length (filter (\<lambda>x. x = c) (concat (map maCategories apps))) = length (filter (\<lambda>a. c \<in> set (maCategories a)) apps)"
  using assms
proof (induction apps)
  case (Cons a apps)
  have "length (filter (\<lambda>x. x = c) xs) = (if c \<in> set xs then 1 else 0)" if "distinct xs" for xs :: "string list"
    using that by (induction xs) auto
  with Cons show ?case by simp
qed simp

text \<open>
  The categories are listed once each, in the order of their names, with the number of apps
  that have them, and no category of an app is missing.
\<close>

lemma categories_count_apps:
  assumes "\<forall>a \<in> set apps. \<exists>cs. maCategories a = cleanCategories cs"
  shows "sorted (map ctName (categories_of apps)) \<and> distinct (map ctName (categories_of apps)) \<and>
     set (categories_of apps) =
       (\<lambda>c. \<lparr>ctName = c, ctCount = length (filter (\<lambda>a. c \<in> set (maCategories a)) apps)\<rparr>) ` (\<Union>a \<in> set apps. set (maCategories a))"
proof -
  let ?cs = "concat (map maCategories apps)"
  let ?m = "foldl count_step [] ?cs"
  have d: "distinct (map fst ?m)" by (rule count_fold_distinct) simp
  have dc: "\<forall>a \<in> set apps. distinct (maCategories a)"
    using assms clean_loop_distinct by (auto simp: cleanCategories_def)
  have m: "(c, k) \<in> set ?m \<longleftrightarrow> c \<in> set ?cs \<and> k = length (filter (\<lambda>a. c \<in> set (maCategories a)) apps)" for c k
    using count_fold [of "[]" ?cs c] count_once [OF dc, of c] map_of_eq_Some_iff [OF d, of c k] by (auto split: if_splits)
  let ?cats = "map (\<lambda>(n, k). \<lparr>ctName = n, ctCount = k\<rparr>) ?m"
  have "mset (map ctName (categories_of apps)) = mset (map ctName ?cats)"
    by (simp only: categories_of_def mset_map mset_sort)
  also have "map ctName ?cats = map fst ?m" by (simp add: split_beta)
  finally have "distinct (map ctName (categories_of apps))" using d by (metis mset_eq_imp_distinct_iff)
  moreover have "sorted (map ctName (categories_of apps))" by (simp add: categories_of_def)
  moreover have "set (categories_of apps) =
       (\<lambda>c. \<lparr>ctName = c, ctCount = length (filter (\<lambda>a. c \<in> set (maCategories a)) apps)\<rparr>) ` (\<Union>a \<in> set apps. set (maCategories a))"
  proof -
    have "set ?m = (\<lambda>c. (c, length (filter (\<lambda>a. c \<in> set (maCategories a)) apps))) ` set ?cs"
      using m by auto
    then show ?thesis by (simp add: categories_of_def image_image)
  qed
  ultimately show ?thesis by blast
qed

subsection \<open>The index\<close>

lemma index_step_entry:
  assumes "map_of (index_step d k m ix e) n = Some x" "map_of ix n \<noteq> Some x"
  shows "deName e = n @ ''.json'' \<and> (case map_of m n of None \<Rightarrow> tgzPath x = [] | Some (p, t) \<Rightarrow> tgzPath x = p \<and> tgzMtime x = t)"
proof (cases "deIsDir e \<or> \<not> HasSuffix (deName e) ''.json'' \<or> deMtime e = None")
  case False
  with assms show ?thesis
    using suffix_TrimSuffix [where s = "deName e" and p = "''.json''"]
    by (auto simp: index_step_def go_map Let_def split: option.splits prod.splits if_splits)
qed (use assms in \<open>auto simp: index_step_def split: if_splits option.splits\<close>)

lemma scanDir_entry:
  assumes "map_of (scanDir dk d k ix) n = Some x" "map_of ix n = None" "dkReadDir dk d = Some es"
  shows "case map_of (foldl (tgz_step d) [] es) n of None \<Rightarrow> tgzPath x = [] | Some (p, t) \<Rightarrow> tgzPath x = p \<and> tgzMtime x = t"
proof -
  have "map_of (foldl (index_step d k m) jx js) n = Some x \<Longrightarrow>
      map_of jx n \<noteq> Some x \<Longrightarrow>
      (case map_of m n of None \<Rightarrow> tgzPath x = [] | Some (p, t) \<Rightarrow> tgzPath x = p \<and> tgzMtime x = t)" for m jx js
  proof (induction js arbitrary: jx)
    case (Cons e js)
    show ?case
    proof (cases "map_of (index_step d k m jx e) n = Some x")
      case True
      with Cons.prems index_step_entry show ?thesis by blast
    next
      case False
      with Cons show ?thesis by simp
    qed
  qed simp
  with assms show ?thesis by (simp add: scanDir_def)
qed

text \<open>
  A scan indexes exactly the sidecars of the directory, and pairs each with a chart that has the
  latest time of all charts of that name, or with none when there is none.
\<close>

lemma scan_pairs_newest_chart:
  assumes "dkReadDir dk d = Some es"
  shows "(map_of (scanDir dk d k []) n \<noteq> None \<longleftrightarrow> lists_sidecar dk d n) \<and>
     (case map_of (scanDir dk d k []) n of
        None \<Rightarrow> True
      | Some x \<Rightarrow> if charts_of n es = [] then tgzPath x = [] else tgzMtime x = Max (set (charts_of n es)))"
proof -
  note newest = tgz_fold_newest [of d "[]" es n]
  have "if charts_of n es = [] then tgzPath x = [] else tgzMtime x = Max (set (charts_of n es))"
    if "map_of (scanDir dk d k []) n = Some x" for x
  proof (cases "map_of (foldl (tgz_step d) [] es) n")
    case None
    with newest have "charts_of n es = []" by (cases "charts_of n es") simp_all
    with None scanDir_entry [OF that _ assms] show ?thesis by simp
  next
    case (Some y)
    obtain p t where y: "y = (p, t)" by fastforce
    with Some newest have "charts_of n es \<noteq> []" "t = Max (set (charts_of n es))"
      by (cases "charts_of n es"; simp)+
    with Some y scanDir_entry [OF that _ assms] show ?thesis by simp
  qed
  then show ?thesis using scanDir_keys [of dk d k "[]" n] by (auto split: option.split)
qed

text \<open>
  A sample market: the witnesses of the properties, and evaluated cases in which the market does
  less than it means to.
\<close>

subsection \<open>Samples\<close>

definition plain_app :: "string \<Rightarrow> MarketApp" where
  "plain_app n = \<lparr>maName = n, maChartName = n, maTitle = n, maDescription = [], maCategories = [''AI_v112'', ''AI''],
     maEntrances = [], maPermission = None, maDependencies = [], maLicense = [], maHasCredentials = False,
     maLoginType = [], maHasChart = False, maCarried = []\<rparr>"

definition empty_manifest :: olaresManifest where
  "empty_manifest = \<lparr>mfType = [], mfName = [], mfTitle = [], mfDescription = [], mfCategories = [], mfEntrances = [],
     mfPermission = None, mfLicense = [], mfDependencies = [], mfText = (\<lambda>_. []), mfLists = (\<lambda>_. [])\<rparr>"

text \<open>A cache that never evicts; sidecars hold the name of the app, charts cannot be read.\<close>

definition sample_env :: "(string \<times> MarketApp) list mk_env" where
  "sample_env = \<lparr>mkSidecar = (\<lambda>s. Some (plain_app s)), mkCuration = (\<lambda>_. None), mkUntar = (\<lambda>_. None),
     mkYaml = (\<lambda>_. empty_manifest), lruNew = [], lruGet = (\<lambda>c k. (map_of c k, c)),
     lruAdd = (\<lambda>c k v. AList.update k v c), lruRemove = (\<lambda>c k. AList.delete k c)\<rparr>"

lemma sample_lru: "lru_laws sample_env map_of"
  by (simp add: lru_laws_def sample_env_def go_map)

definition sample_file :: "string \<Rightarrow> int \<Rightarrow> dirent" where
  "sample_file n t = \<lparr>deName = n, deIsDir = False, deMtime = Some t\<rparr>"

text \<open>A disk given by its directories and by its files with their times and contents.\<close>

definition sample_disk :: "(string \<times> dirent list) list \<Rightarrow> (string \<times> int \<times> string) list \<Rightarrow> disk" where
  "sample_disk ds fs = \<lparr>dkReadDir = map_of ds, dkStat = (\<lambda>p. map_option fst (map_of fs p)),
     dkRead = (\<lambda>p. map_option snd (map_of fs p))\<rparr>"

definition one_app_disk :: disk where
  "one_app_disk = sample_disk [(''/m/charts'', [sample_file ''a.json'' 5, sample_file ''a-1.0.0.tgz'' 4])]
     [(''/m/charts/a.json'', 5, ''a''), (''/m/charts/a-1.0.0.tgz'', 4, ''T'')]"

definition sample_catalog :: "(string \<times> MarketApp) list Catalog" where
  "sample_catalog = NewCatalog sample_env ''/m/charts'' ''/m/curation.json''"

definition sample_handler :: mk_handler where
  "sample_handler = NewHandler ''/m''"

definition get :: "string \<Rightarrow> mk_req" where
  "get p = \<lparr>mqMethod = ''GET'', mqPath = p, mqQuery = []\<rparr>"

subsection \<open>Witnesses\<close>

lemma sample_reach: "market_reach sample_env (\<lambda>_. ''/m/charts'') ''/m/charts'' one_app_disk 10 sample_catalog"
  unfolding sample_catalog_def
proof (rule start)
  show "times_before 10 one_app_disk"
    by (auto simp: times_before_def one_app_disk_def sample_disk_def sample_file_def zero_time_def split: if_splits)
  have "PathJoin ''/m/charts'' ''models'' = ''/m/charts/models''" by code_simp
  moreover have "TrimSuffix ''a.json'' ''.json'' = ''a''" by code_simp
  ultimately show "one_place (\<lambda>_. ''/m/charts'') ''/m/charts'' one_app_disk"
    by (auto simp: one_place_def one_app_disk_def sample_disk_def)
qed


lemma served_files_stay_in_their_directory_witness:
  "\<exists>f. market_serve sample_env undefined sample_handler 1 one_app_disk sample_catalog ''/icons/a.png'' (get ''/icons/a.png'')
     = (MServeFile f, sample_catalog) \<and>
     (below ''/m/charts'' f \<or> below ''/m/icons'' f \<or> below ''/m/screenshots'' f)"
proof -
  have s: "market_serve sample_env undefined sample_handler 1 one_app_disk sample_catalog ''/icons/a.png'' (get ''/icons/a.png'')
     = (MServeFile ''/m/icons/a.png'', sample_catalog)"
  proof -
    have "handleServeIcon sample_handler (get ''/icons/a.png'') = MServeFile ''/m/icons/a.png''" by code_simp
    moreover have "cleanPath ''/icons/a.png'' = ''/icons/a.png''" "route_segments ''/icons/a.png'' = ['''', ''icons'', ''a.png'']"
      by code_simp+
    ultimately show ?thesis by (simp add: market_serve_def route_exact_def route_subtree_def)
  qed
  have "is_rooted (mhDataDir sample_handler)" "\<not> containsDotDot (mqPath (get ''/icons/a.png''))" by code_simp+
  moreover have "names_proper one_app_disk"
    by (auto simp: names_proper_def one_app_disk_def sample_disk_def sample_file_def proper_elem_def split: if_splits)
  ultimately have "below (PathJoin (mhDataDir sample_handler) ''charts'') ''/m/icons/a.png'' \<or>
      below (PathJoin (mhDataDir sample_handler) ''icons'') ''/m/icons/a.png'' \<or>
      below (PathJoin (mhDataDir sample_handler) ''screenshots'') ''/m/icons/a.png''"
    using s by (intro served_files_stay_in_their_directory)
  moreover have "PathJoin (mhDataDir sample_handler) ''charts'' = ''/m/charts''"
    "PathJoin (mhDataDir sample_handler) ''icons'' = ''/m/icons''"
    "PathJoin (mhDataDir sample_handler) ''screenshots'' = ''/m/screenshots''" by code_simp+
  ultimately show ?thesis using s by auto
qed

theorem chart_index_is_exact_witness:
  "\<exists>ix. serveChartIndex sample_handler one_app_disk = MIndex ix \<and> (''a'', ''1.0.0'', ''a-1.0.0.tgz'') \<in> set ix"
proof -
  have d: "dkReadDir one_app_disk (PathJoin (mhDataDir sample_handler) ''charts'') =
      Some [sample_file ''a.json'' 5, sample_file ''a-1.0.0.tgz'' 4]"
    by code_simp
  have "length (split_on CHR ''.'' ''1.0.0'') = 3 \<and> list_all number_part (split_on CHR ''.'' ''1.0.0'')" by code_simp
  then show ?thesis
    using chart_index_is_exact [OF d, of "''a''" "''1.0.0''" "''a-1.0.0.tgz''"] by (auto simp: sample_file_def)
qed

lemma categories_count_apps_witness:
  "sorted (map ctName (categories_of [(plain_app ''a'')\<lparr>maCategories := cleanCategories [''AI_v112'', ''AI'']\<rparr>]))"
  using categories_count_apps [of "[(plain_app ''a'')\<lparr>maCategories := cleanCategories [''AI_v112'', ''AI'']\<rparr>]"]
  by auto

theorem scan_pairs_newest_chart_witness:
  "lists_sidecar one_app_disk ''/m/charts'' ''a'' \<and>
   map_of (scanDir one_app_disk ''/m/charts'' ''app'' []) ''a'' \<noteq> None"
proof -
  have d: "dkReadDir one_app_disk ''/m/charts'' = Some [sample_file ''a.json'' 5, sample_file ''a-1.0.0.tgz'' 4]"
    by code_simp
  have "lists_sidecar one_app_disk ''/m/charts'' ''a''" by code_simp
  then show ?thesis using scan_pairs_newest_chart [OF d, of "''app''" "''a''"] by blast
qed

subsection \<open>What goes wrong\<close>

text \<open>A request for an app's chart is answered with the chart of another app whose name goes on after a dash.\<close>

lemma chart_of_another_app:
  "handleServeChart sample_handler
     (sample_disk [(''/m/charts'', [sample_file ''ollama-webui-1.0.0.tgz'' 1])] [(''/m/charts/ollama-webui-1.0.0.tgz'', 1, [])])
     (get ''/charts/ollama'') = MServeFile ''/m/charts/ollama-webui-1.0.0.tgz''"
  by code_simp

text \<open>Of several versions the first in byte order is served, not the newest, which the catalogue shows.\<close>

definition two_versions :: disk where
  "two_versions = sample_disk [(''/m/charts'', [sample_file ''a-1.10.0.tgz'' 9, sample_file ''a-1.9.0.tgz'' 5, sample_file ''a.json'' 1])]
     [(''/m/charts/a-1.10.0.tgz'', 9, []), (''/m/charts/a-1.9.0.tgz'', 10, []), (''/m/charts/a.json'', 1, ''a'')]"

definition newer_second :: disk where
  "newer_second = sample_disk [(''/m/charts'', [sample_file ''a-1.0.0.tgz'' 5, sample_file ''a-1.1.0.tgz'' 9, sample_file ''a.json'' 1])]
     [(''/m/charts/a-1.0.0.tgz'', 5, []), (''/m/charts/a-1.1.0.tgz'', 9, []), (''/m/charts/a.json'', 1, ''a'')]"

lemma old_version_is_served:
  "handleServeChart sample_handler newer_second (get ''/charts/a'') = MServeFile ''/m/charts/a-1.0.0.tgz'' \<and>
   map_option tgzPath (map_of (scan_all newer_second ''/m/charts'') ''a'') = Some ''/m/charts/a-1.1.0.tgz''"
  by code_simp

text \<open>A chart of a pre-release version is never paired with its app.\<close>

lemma prerelease_is_not_paired:
  "map_option tgzPath (map_of (scan_all (sample_disk
     [(''/m/charts'', [sample_file ''a-1.0.0-rc1.tgz'' 9, sample_file ''a.json'' 1])] []) ''/m/charts'') ''a'') = Some []"
  by code_simp

text \<open>An encoded slash asks \<open>http.ServeFile\<close> for the whole directory.\<close>

lemma encoded_slash_lists_charts:
  "handleServeChart sample_handler (sample_disk [] [(''/m/charts'', 1, [])]) (get ''/charts//'') = MServeFile ''/m/charts''"
  by code_simp

text \<open>The archive's entry leaves the directory it is unpacked into: only a raw prefix of its name is compared.\<close>

lemma unpacking_escapes:
  "map fst (unpack_entry ''/tmp/chart-1'' (fst (MkdirAll [] ''/tmp/chart-1'' 0))
     \<lparr>teName = ''../chart-12/x'', teIsReg = True, teIsDir = False, teData = [], teComplete = True\<rparr>) =
   [[''tmp''], [''tmp'', ''chart-1''], [''tmp'', ''chart-12''], [''tmp'', ''chart-12'', ''x'']]"
  by code_simp

text \<open>
  An app that moves between the two directories with its time kept (as in an image whose files all
  have one time) is served from the cache, with what the other file said.
\<close>

definition both_disk :: disk where
  "both_disk = sample_disk
     [(''/m/charts'', [sample_file ''a.json'' 5]), (''/m/charts/models'', [sample_file ''a.json'' 5])]
     [(''/m/charts/a.json'', 5, ''app''), (''/m/charts/models/a.json'', 5, ''model'')]"

definition app_disk :: disk where
  "app_disk = sample_disk [(''/m/charts'', [sample_file ''a.json'' 5])] [(''/m/charts/a.json'', 5, ''app'')]"

lemma moved_sidecar_is_stale:
  "map_option maName (fst (GetApp sample_env 10000000000 app_disk
     (snd (GetApp sample_env 1 both_disk sample_catalog ''a'')) ''a'')) = Some ''model''"
  by code_simp

text \<open>An else-block with a block inside is cut at the inner end: the rest of the fallback stays.\<close>

lemma nested_else_survives:
  "strip_else ''{{ else }}a{{ if .x }}b{{ end }}c{{ end }}'' = ''c{{ end }}''"
  by code_simp

end
