(* ===== verification/Bfl_Types.thy ===== *)
theory Bfl_Types
  imports Go_Ops Go_Net Go_Path Pkg_Config Pkg_Validation
begin

text \<open>
  \<^verbatim>\<open>internal/bfl\<close>, the user back end: its data and its outside world. The cluster, Redis, the LDAP
  server, other services, commands and files are one partner that is asked: a \<open>cmd\<close> is a call, an
  answer may depend on everything asked before, and the world of an operation is the log of the
  calls with their answers. What the partner promises is only assumed where a theorem says so.
\<close>

subsection \<open>Objects\<close>

text \<open>A user: its annotations, and the other members of the object as JSON.\<close>

record User =
  uName :: string
  uUID :: string
  uCreated :: int
  uAnnotations :: "(string \<times> string) list"
  uObject :: "(string \<times> jval) list"

type_synonym kv = "(string \<times> string) list"

datatype data_kind = Secret | ConfigMap

datatype wl_kind = Deployment | DaemonSet

text \<open>Where the value of a variable comes from, when not from its text: name, key and whether it is optional.\<close>

datatype env_source = EnvSecret string string bool | EnvOther

record container =
  cnName :: string
  cnImage :: string
  cnCapabilities :: "string list"
  cnEnv :: "(string \<times> string \<times> env_source option) list"
  cnMounts :: "(string \<times> string) list"
  cnRequests :: kv
  cnLimits :: kv

record workload =
  wlName :: string
  wlNamespace :: string
  wlLabels :: kv
  wlReplicas :: int
  wlSelector :: "string option"
  wlAnnotations :: kv
  wlHostNetwork :: bool
  wlDNSPolicy :: string
  wlServiceAccount :: string
  wlInit :: "container list"
  wlContainers :: "container list"
  wlVolumes :: "(string \<times> string) list"

record container_status =
  csImage :: string
  csImageID :: string
  csWaiting :: "string option"

record pod =
  pdName :: string
  pdPhase :: string
  pdDeleting :: bool
  pdInit :: "container_status list"
  pdContainers :: "container_status list"

text \<open>A role binding: its subjects' names (\<^term>\<open>None\<close> for one that is no object) and its role.\<close>

record role_binding =
  rbSubjects :: "string option list option"
  rbRole :: string

text \<open>A certificate to be issued.\<close>

record cert_template =
  ctCommonName :: string
  ctDNSNames :: "string list"
  ctIPs :: "string list"

subsection \<open>Calls and answers\<close>

datatype (plugins only: code size) cmd =
    UserGet string
  | UserList
  | UserUpdate User
  | RoleBindingList
  | AppList
  | DataGet data_kind string string
  | DataCreate data_kind string string kv
  | DataUpdate data_kind string string kv
  | DataDelete data_kind string string
  | WorkloadGet wl_kind string string
  | WorkloadList wl_kind string
  | WorkloadCreate wl_kind workload
  | WorkloadUpdate wl_kind string workload
  | WorkloadDelete wl_kind string string
  | PodList string string
  | PodDelete string string
  | PodDeleteCollection string string
  | PodExec string string string "string list"
  | ServiceDelete string string
  | NamespaceList
  | NodeList
  | Metrics
  | HttpDo string string kv "string option"
  | RedisKeys string
  | RedisGet string
  | RedisSet string string
  | RedisDel string
  | LdapDial string
  | LdapBind string string
  | LdapModify string string string
  | MkdirTemp string
  | RemoveAll string
  | ReadFile string
  | WriteFile string string nat
  | Exec string "string list"
  | IssueCert cert_template

datatype (plugins only: code size) res =
    ADone
  | AUser User
  | AUsers "User list"
  | ABindings "role_binding list"
  | AObjects "(string \<times> jval) list list"
  | AData kv
  | AWorkload workload
  | AWorkloads "workload list"
  | APods "pod list"
  | ANames "string list"
  | ANodes "(string \<times> string) list list"
  | AText string
  | AJson jval
  | AHttp nat kv string
  | ACert string string

type_synonym log = "(cmd \<times> (string + res)) list"

type_synonym 'a bfl = "(log, 'a) op"

text \<open>
  The process: its partner, its settings and environment, the namespace and the user it serves;
  the texts of decoding errors, the JSON codec, the clock, \<open>expired now start\<close>, whether a start that
  parses lies more than five minutes back, and the names and the end of a certificate in PEM.
\<close>

record bfl_env =
  answer :: "log \<Rightarrow> cmd \<Rightarrow> string + res"
  beConfig :: ctx
  getenv :: "string \<Rightarrow> string"
  beNamespace :: string
  beUsername :: string
  decodeError :: "jval option \<Rightarrow> string"
  marshal :: "jval \<Rightarrow> string"
  unmarshal :: "string \<Rightarrow> jval option"
  clock :: "log \<Rightarrow> string"
  tenYears :: "log \<Rightarrow> string"
  expired :: "string \<Rightarrow> string \<Rightarrow> bool"
  parseTime :: "string \<Rightarrow> int option"
  parseCert :: "string \<Rightarrow> (string list \<times> string) option"
  escapeFilter :: "string \<Rightarrow> string"

text \<open>A call, and its answer read as a value; an answer of another kind counts as an error.\<close>

definition ask_as :: "(res \<Rightarrow> 'a option) \<Rightarrow> bfl_env \<Rightarrow> cmd \<Rightarrow> 'a bfl" where
  "ask_as f E c l =
     (let r = answer E l c in
      Some (case r of Inl e \<Rightarrow> Inl e | Inr a \<Rightarrow> (case f a of None \<Rightarrow> Inl [] | Some x \<Rightarrow> Inr x), l @ [(c, r)]))"

definition panic :: "'a bfl" where
  "panic l = None"

definition now :: "bfl_env \<Rightarrow> string bfl" where
  "now E l = Some (Inr (clock E l), l)"

definition as_done :: "res \<Rightarrow> unit option" where
  "as_done a = (case a of ADone \<Rightarrow> Some () | _ \<Rightarrow> None)"

definition as_user :: "res \<Rightarrow> User option" where
  "as_user a = (case a of AUser u \<Rightarrow> Some u | _ \<Rightarrow> None)"

definition as_users :: "res \<Rightarrow> User list option" where
  "as_users a = (case a of AUsers us \<Rightarrow> Some us | _ \<Rightarrow> None)"

definition as_data :: "res \<Rightarrow> kv option" where
  "as_data a = (case a of AData d \<Rightarrow> Some d | _ \<Rightarrow> None)"

definition as_workload :: "res \<Rightarrow> workload option" where
  "as_workload a = (case a of AWorkload w \<Rightarrow> Some w | _ \<Rightarrow> None)"

definition as_workloads :: "res \<Rightarrow> workload list option" where
  "as_workloads a = (case a of AWorkloads ws \<Rightarrow> Some ws | _ \<Rightarrow> None)"

definition as_pods :: "res \<Rightarrow> pod list option" where
  "as_pods a = (case a of APods ps \<Rightarrow> Some ps | _ \<Rightarrow> None)"

definition as_names :: "res \<Rightarrow> string list option" where
  "as_names a = (case a of ANames ns \<Rightarrow> Some ns | _ \<Rightarrow> None)"

definition as_text :: "res \<Rightarrow> string option" where
  "as_text a = (case a of AText t \<Rightarrow> Some t | _ \<Rightarrow> None)"

abbreviation do_call :: "bfl_env \<Rightarrow> cmd \<Rightarrow> unit bfl" where
  "do_call \<equiv> ask_as as_done"

lemmas as_simps = as_done_def as_user_def as_users_def as_data_def as_workload_def as_workloads_def
  as_pods_def as_names_def as_text_def

subsection \<open>Annotations\<close>

definition anno :: "bfl_env \<Rightarrow> string \<Rightarrow> string" where
  "anno E key = APIGroup (beConfig E) @ ''/'' @ key"

definition value_of :: "kv \<Rightarrow> string \<Rightarrow> string" where
  "value_of m k = (case map_of m k of None \<Rightarrow> [] | Some v \<Rightarrow> v)"

definition GetUserAnnotation :: "User \<Rightarrow> string \<Rightarrow> string" where
  "GetUserAnnotation u key = value_of (uAnnotations u) key"

definition SetUserAnnotation :: "string \<Rightarrow> string \<Rightarrow> User \<Rightarrow> User" where
  "SetUserAnnotation key v u = u\<lparr>uAnnotations := AList.update key v (uAnnotations u)\<rparr>"

definition DeleteUserAnnotation :: "string \<Rightarrow> User \<Rightarrow> User" where
  "DeleteUserAnnotation key u = u\<lparr>uAnnotations := AList.delete key (uAnnotations u)\<rparr>"

lemma value_of_update [simp]: "value_of (AList.update k v m) k' = (if k' = k then v else value_of m k')"
  by (auto simp: value_of_def update_conv')

lemma value_of_delete [simp]: "value_of (AList.delete k m) k' = (if k' = k then [] else value_of m k')"
  by (auto simp: value_of_def delete_conv')

lemma GetUserAnnotation_Set [simp]:
  "GetUserAnnotation (SetUserAnnotation k v u) k' = (if k' = k then v else GetUserAnnotation u k')"
  by (simp add: GetUserAnnotation_def SetUserAnnotation_def)

lemma GetUserAnnotation_Delete [simp]:
  "GetUserAnnotation (DeleteUserAnnotation k u) k' = (if k' = k then [] else GetUserAnnotation u k')"
  by (simp add: GetUserAnnotation_def DeleteUserAnnotation_def)

lemma uName_annotations [simp]:
  "uName (SetUserAnnotation k v u) = uName u" "uName (DeleteUserAnnotation k u) = uName u"
  by (simp_all add: SetUserAnnotation_def DeleteUserAnnotation_def)

lemma anno_eq [simp]: "anno E a = anno E b \<longleftrightarrow> a = b"
  by (simp add: anno_def)

definition GetTerminusName :: "bfl_env \<Rightarrow> User \<Rightarrow> string" where
  "GetTerminusName E u = GetUserAnnotation u (anno E ''terminus-name'')"

definition GetUserZone :: "bfl_env \<Rightarrow> User \<Rightarrow> string" where
  "GetUserZone E u = GetUserAnnotation u (anno E ''zone'')"

subsection \<open>The wizard\<close>

definition WaitActivateVault :: string where "WaitActivateVault = ''wait_activate_vault''"
definition WaitActivateSystem :: string where "WaitActivateSystem = ''wait_activate_system''"
definition NetworkActivating :: string where "NetworkActivating = ''network_activating''"
definition NetworkActivateFailed :: string where "NetworkActivateFailed = ''network_activate_failed''"
definition WaitResetPassword :: string where "WaitResetPassword = ''wait_reset_password''"
definition Completed :: string where "Completed = ''completed''"

lemmas wizard_texts = WaitActivateVault_def WaitActivateSystem_def NetworkActivating_def
  NetworkActivateFailed_def WaitResetPassword_def Completed_def

definition GetWizardStatus :: "bfl_env \<Rightarrow> User \<Rightarrow> string" where
  "GetWizardStatus E u =
     (let s = GetUserAnnotation u (anno E ''wizard-status'') in if s = [] then WaitActivateVault else s)"

definition IsWizardComplete :: "bfl_env \<Rightarrow> User \<Rightarrow> bool" where
  "IsWizardComplete E u =
     (let s = GetWizardStatus E u in s = Completed \<or> s = WaitResetPassword)"

subsection \<open>Names\<close>

definition NewTerminusName :: "string \<Rightarrow> string \<Rightarrow> string" where
  "NewTerminusName user domain = user @ ''@'' @ domain"

definition UserName :: "string \<Rightarrow> string" where
  "UserName t = (case IndexByte t CHR ''@'' of None \<Rightarrow> t | Some i \<Rightarrow> take i t)"

definition DomainPart :: "string \<Rightarrow> string" where
  "DomainPart t = (case IndexByte t CHR ''@'' of None \<Rightarrow> [] | Some i \<Rightarrow> drop (i + 1) t)"

definition UserZone :: "string \<Rightarrow> string" where
  "UserZone t = (let u = UserName t; d = DomainPart t in if d = [] then u else u @ ''.'' @ d)"

lemma UserZone_NewTerminusName:
  "CHR ''@'' \<notin> set user \<Longrightarrow> domain \<noteq> [] \<Longrightarrow> UserZone (NewTerminusName user domain) = user @ ''.'' @ domain"
  by (simp add: UserZone_def UserName_def DomainPart_def NewTerminusName_def IndexByte_append [of _ _ domain, simplified])

subsection \<open>Requests and answers\<close>

text \<open>The work a handler leaves to a goroutine.\<close>

datatype job = JTailscaleEnabled | JVPNEnabled string string | JVPNDisabled | JRestartProxy | JDeleteWizard

type_synonym answered = "http_response \<times> job list"

definition respondJSON :: "jval \<Rightarrow> http_response" where
  "respondJSON data = reply 200 (JObj [(''code'', JInt 0), (''message'', JStr ''success''), (''data'', data)])"

definition respondError :: "string \<Rightarrow> http_response" where
  "respondError msg = reply 200 (JObj [(''code'', JInt 1), (''message'', JStr msg)])"

definition respondSuccess :: http_response where
  "respondSuccess = reply 200 (JObj [(''code'', JInt 0), (''message'', JStr ''success'')])"

definition finish :: "http_response \<Rightarrow> answered bfl" where
  "finish r = ret (r, [])"

definition refuse :: "string \<Rightarrow> answered bfl" where
  "refuse msg = finish (respondError msg)"

text \<open>\<^verbatim>\<open>if err != nil { respondError(w, fmt.Sprintf("...: %v", err)); return }\<close>\<close>

definition orError :: "string \<Rightarrow> 'a bfl \<Rightarrow> ('a \<Rightarrow> answered bfl) \<Rightarrow> answered bfl" where
  "orError msg m f = attempt m (\<lambda>r. case r of Inl e \<Rightarrow> refuse (msg @ e) | Inr a \<Rightarrow> f a)"

text \<open>The value of an operation whose error is dropped.\<close>

definition orElse :: "'a \<Rightarrow> 'a bfl \<Rightarrow> ('a \<Rightarrow> 'b bfl) \<Rightarrow> 'b bfl" where
  "orElse d m f = attempt m (\<lambda>r. case r of Inl _ \<Rightarrow> f d | Inr a \<Rightarrow> f a)"

definition ignore :: "'a bfl \<Rightarrow> 'b bfl \<Rightarrow> 'b bfl" where
  "ignore m k = attempt m (\<lambda>_. k)"

definition method_guard :: "string \<Rightarrow> http_request \<Rightarrow> answered bfl \<Rightarrow> answered bfl" where
  "method_guard m r k = (if rq_Method r = m then k else refuse ''method not allowed'')"

definition NewListResult :: "jval list \<Rightarrow> jval" where
  "NewListResult items = JObj [(''items'', JArr items), (''totalItems'', JInt (int (length items)))]"

text \<open>\<^verbatim>\<open>json.Decode\<close> into a list of texts, and into a nested struct: its members, or none for \<^verbatim>\<open>null\<close>.\<close>

fun members_strs :: "string \<Rightarrow> (string \<times> jval) list \<Rightarrow> string list \<Rightarrow> string list option" where
  "members_strs field [] v = Some v"
| "members_strs field ((k, j) # ms) v =
     (if EqualFold k field then
        (case j of
           JArr js \<Rightarrow>
             (if list_all (\<lambda>x. case x of JStr _ \<Rightarrow> True | JNull \<Rightarrow> True | _ \<Rightarrow> False) js
              then members_strs field ms (map (\<lambda>x. case x of JStr s \<Rightarrow> s | _ \<Rightarrow> []) js) else None)
         | JNull \<Rightarrow> members_strs field ms []
         | _ \<Rightarrow> None)
      else members_strs field ms v)"

fun members_obj :: "string \<Rightarrow> (string \<times> jval) list \<Rightarrow> (string \<times> jval) list option" where
  "members_obj field [] = Some []"
| "members_obj field ((k, j) # ms) =
     (if EqualFold k field then
        (case j of
           JObj m \<Rightarrow> map_option (\<lambda>rest. m @ rest) (members_obj field ms)
         | JNull \<Rightarrow> members_obj field ms
         | _ \<Rightarrow> None)
      else members_obj field ms)"

end
