(* ===== verification/Bfl_Kube.thy ===== *)
theory Bfl_Kube
  imports Bfl_Types
begin

text \<open>
  \<^verbatim>\<open>internal/bfl/k8s.go\<close>: users and their settings, secrets, roles and apps in the cluster. A user is
  read and written as a whole object; of an unstructured object the members that are asked for are
  JSON values. The float arithmetic of \<^verbatim>\<open>GetClusterMetrics\<close> is left out.
\<close>

subsection \<open>The client\<close>

definition NewK8sClient :: "ctx \<Rightarrow> (string \<Rightarrow> string) \<Rightarrow> string \<times> string" where
  "NewK8sClient cx env =
     (let user = (if env ''OWNER'' \<noteq> [] then env ''OWNER'' else env ''USER_NAME'');
          ns = (if env ''BFL_NAMESPACE'' \<noteq> [] then env ''BFL_NAMESPACE'' else env ''NAMESPACE'')
      in (if ns \<noteq> [] then ns else if user \<noteq> [] then ''user-space-'' @ user else UserNamespace (Username cx),
          if user = [] then ''admin'' else user))"

definition GetUser :: "bfl_env \<Rightarrow> string \<Rightarrow> User bfl" where
  "GetUser E name = ask_as as_user E (UserGet (if name = [] then beUsername E else name))"

definition ListUsers :: "bfl_env \<Rightarrow> User list bfl" where
  "ListUsers E = ask_as as_users E UserList"

definition UpdateUser :: "bfl_env \<Rightarrow> User \<Rightarrow> unit bfl" where
  "UpdateUser E user = do_call E (UserUpdate user)"

definition get_data :: "bfl_env \<Rightarrow> data_kind \<Rightarrow> string \<Rightarrow> string \<Rightarrow> kv bfl" where
  "get_data E k ns name = ask_as as_data E (DataGet k ns name)"

definition GetDomain :: "bfl_env \<Rightarrow> string bfl" where
  "GetDomain E =
     (if getenv E ''OLARES_DOMAIN'' \<noteq> [] then ret (getenv E ''OLARES_DOMAIN'')
      else orElse [] (get_data E ConfigMap (PlatformNamespace (beConfig E)) ''user-config'') (\<lambda>d.
        ret (if value_of d ''domain'' \<noteq> [] then value_of d ''domain'' else ''local.packalares.io'')))"

definition GetOSVersion :: "bfl_env \<Rightarrow> string bfl" where
  "GetOSVersion E =
     (if getenv E ''OLARES_VERSION'' \<noteq> [] then ret (getenv E ''OLARES_VERSION'')
      else orElse [] (get_data E ConfigMap (PlatformNamespace (beConfig E)) ''os-config'') (\<lambda>d.
        ret (case map_of d ''version'' of Some v \<Rightarrow> v | None \<Rightarrow> ''unknown'')))"

subsection \<open>Secrets and config maps\<close>

text \<open>Read an object: create it when that fails, else replace its data.\<close>

definition write_data :: "bfl_env \<Rightarrow> data_kind \<Rightarrow> string \<Rightarrow> string \<Rightarrow> kv \<Rightarrow> unit bfl" where
  "write_data E k ns name d =
     attempt (get_data E k ns name) (\<lambda>r. case r of
        Inl _ \<Rightarrow> do_call E (DataCreate k ns name d)
      | Inr _ \<Rightarrow> do_call E (DataUpdate k ns name d))"

text \<open>The same where the code sets some of the entries of an object and makes its map if there is none.\<close>

definition set_entries :: "kv \<Rightarrow> kv \<Rightarrow> kv" where
  "set_entries es d = foldl (\<lambda>d (k, v). AList.update k v d) d es"

definition put_entries :: "bfl_env \<Rightarrow> data_kind \<Rightarrow> string \<Rightarrow> string \<Rightarrow> kv \<Rightarrow> unit bfl" where
  "put_entries E k ns name es =
     attempt (get_data E k ns name) (\<lambda>r. case r of
        Inl _ \<Rightarrow> do_call E (DataCreate k ns name es)
      | Inr d \<Rightarrow> do_call E (DataUpdate k ns name (set_entries es d)))"

definition SSLSecretName :: string where
  "SSLSecretName = ''zone-ssl-config''"

definition ssl_data :: "bfl_env \<Rightarrow> log \<Rightarrow> string \<Rightarrow> string \<Rightarrow> string \<Rightarrow> kv" where
  "ssl_data E l zone certPEM keyPEM =
     [(''zone'', zone), (''cert'', certPEM), (''key'', keyPEM), (''expired_at'', tenYears E l)]"

definition GetSSLSecret :: "bfl_env \<Rightarrow> kv bfl" where
  "GetSSLSecret E = get_data E Secret (beNamespace E) SSLSecretName"

definition EnsureSSLSecret :: "bfl_env \<Rightarrow> string \<Rightarrow> string \<Rightarrow> string \<Rightarrow> unit bfl" where
  "EnsureSSLSecret E zone certPEM keyPEM l =
     write_data E Secret (beNamespace E) SSLSecretName (ssl_data E l zone certPEM keyPEM) l"

definition ReverseProxyConfigMap :: string where
  "ReverseProxyConfigMap = ''reverse-proxy-config''"

definition GetReverseProxyConfig :: "bfl_env \<Rightarrow> kv bfl" where
  "GetReverseProxyConfig E = get_data E ConfigMap (beNamespace E) ReverseProxyConfigMap"

definition WriteReverseProxyConfig :: "bfl_env \<Rightarrow> kv \<Rightarrow> unit bfl" where
  "WriteReverseProxyConfig E d = write_data E ConfigMap (beNamespace E) ReverseProxyConfigMap d"

subsection \<open>Members of objects\<close>

text \<open>A type assertion on a member: the empty text when it is missing or of another type.\<close>

definition str_member :: "(string \<times> jval) list \<Rightarrow> string \<Rightarrow> string" where
  "str_member ms k = (case map_of ms k of Some (JStr s) \<Rightarrow> s | _ \<Rightarrow> [])"

definition obj_member :: "(string \<times> jval) list \<Rightarrow> string \<Rightarrow> (string \<times> jval) list option" where
  "obj_member ms k = (case map_of ms k of Some (JObj m) \<Rightarrow> Some m | _ \<Rightarrow> None)"

definition extractUserSpec :: "User \<Rightarrow> string \<times> string \<times> string \<times> string" where
  "extractUserSpec user =
     (case obj_member (uObject user) ''spec'' of
        None \<Rightarrow> ([], [], [], [])
      | Some spec \<Rightarrow>
          (str_member spec ''displayName'', str_member spec ''description'', str_member spec ''email'',
           (case obj_member (uObject user) ''status'' of None \<Rightarrow> [] | Some st \<Rightarrow> str_member st ''state'')))"

text \<open>The JSON of the cluster has integers as \<^verbatim>\<open>int64\<close>, which is none of the cases here.\<close>

definition extractLastLoginTime :: "bfl_env \<Rightarrow> User \<Rightarrow> int option" where
  "extractLastLoginTime E user =
     (case obj_member (uObject user) ''status'' of
        None \<Rightarrow> None
      | Some st \<Rightarrow> (case map_of st ''lastLoginTime'' of Some (JStr s) \<Rightarrow> parseTime E s | _ \<Rightarrow> None))"

subsection \<open>Roles and apps\<close>

definition binds :: "string \<Rightarrow> role_binding \<Rightarrow> bool" where
  "binds username rb = (case rbSubjects rb of None \<Rightarrow> False | Some ss \<Rightarrow> Some username \<in> set ss)"

definition GetUserRoles :: "bfl_env \<Rightarrow> string \<Rightarrow> string list bfl" where
  "GetUserRoles E username =
     chk [] (ask_as (\<lambda>a. case a of ABindings bs \<Rightarrow> Some bs | _ \<Rightarrow> None) E RoleBindingList) (\<lambda>bs.
       ret (remdups (map rbRole (filter (binds username) bs))))"

record AppInfo =
  aiName :: string
  aiAppid :: string
  aiNamespace :: string
  aiOwner :: string
  aiURL :: string
  aiIcon :: string
  aiState :: string

definition app_info :: "(string \<times> jval) list \<Rightarrow> (string \<times> jval) list \<Rightarrow> string \<Rightarrow> AppInfo" where
  "app_info object spec zone =
     (let appid = str_member spec ''appid'' in
      \<lparr>aiName = str_member spec ''name'', aiAppid = appid, aiNamespace = str_member spec ''namespace'',
       aiOwner = str_member spec ''owner'',
       aiURL = (if zone \<noteq> [] \<and> appid \<noteq> [] then ''https://'' @ appid @ ''.'' @ zone else []),
       aiIcon = str_member spec ''icon'',
       aiState = (case obj_member object ''status'' of
           None \<Rightarrow> ''running''
         | Some st \<Rightarrow> (case map_of st ''state'' of Some (JStr s) \<Rightarrow> s | _ \<Rightarrow> ''running''))\<rparr>)"

text \<open>The user is read again for every app.\<close>

fun list_apps :: "bfl_env \<Rightarrow> (string \<times> jval) list list \<Rightarrow> AppInfo list bfl" where
  "list_apps E [] = ret []"
| "list_apps E (object # objects) =
     (case obj_member object ''spec'' of
        None \<Rightarrow> list_apps E objects
      | Some spec \<Rightarrow>
          if str_member spec ''owner'' \<noteq> beUsername E then list_apps E objects
          else attempt (GetUser E (beUsername E)) (\<lambda>r.
            let zone = (case r of Inl _ \<Rightarrow> [] | Inr user \<Rightarrow> GetUserAnnotation user (anno E ''zone'')) in
            chk [] (list_apps E objects) (\<lambda>apps. ret (app_info object spec zone # apps))))"

definition ListUserApps :: "bfl_env \<Rightarrow> AppInfo list bfl" where
  "ListUserApps E =
     chk [] (ask_as (\<lambda>a. case a of AObjects os \<Rightarrow> Some os | _ \<Rightarrow> None) E AppList) (list_apps E)"

subsection \<open>Settings of a user\<close>

record SysConfig =
  scLanguage :: string
  scLocation :: string
  scTheme :: string

definition GetSysConfig :: "bfl_env \<Rightarrow> User \<Rightarrow> SysConfig" where
  "GetSysConfig E user =
     \<lparr>scLanguage = GetUserAnnotation user (anno E ''language''),
      scLocation = GetUserAnnotation user (anno E ''location''),
      scTheme = GetUserAnnotation user (anno E ''theme'')\<rparr>"

definition set_if :: "string \<Rightarrow> string \<Rightarrow> User \<Rightarrow> User" where
  "set_if key v user = (if v \<noteq> [] then SetUserAnnotation key v user else user)"

definition SaveSysConfig :: "bfl_env \<Rightarrow> SysConfig \<Rightarrow> User \<Rightarrow> User" where
  "SaveSysConfig E c user =
     SetUserAnnotation (anno E ''theme'') (if scTheme c = [] then ''light'' else scTheme c)
       (set_if (anno E ''location'') (scLocation c) (set_if (anno E ''language'') (scLanguage c) user))"

definition sys_config_json :: "SysConfig \<Rightarrow> jval" where
  "sys_config_json c =
     JObj [(''language'', JStr (scLanguage c)), (''location'', JStr (scLocation c)), (''theme'', JStr (scTheme c))]"

definition UserSysConfigJSON :: "bfl_env \<Rightarrow> User \<Rightarrow> string" where
  "UserSysConfigJSON E user = marshal E (sys_config_json (GetSysConfig E user))"

lemma GetUserAnnotation_set_if [simp]:
  "GetUserAnnotation (set_if k v u) k' = (if k' = k \<and> v \<noteq> [] then v else GetUserAnnotation u k')"
  by (simp add: set_if_def)

lemma uName_set_if [simp]: "uName (set_if k v u) = uName u"
  by (simp add: set_if_def)

end
