(* ===== verification/Bfl_Nginx.thy ===== *)
theory Bfl_Nginx
  imports Prelude "HOL-Library.Multiset"
begin

text \<open>
  \<^verbatim>\<open>pkg/nginx/builder.go\<close>: the configuration of the reverse proxy from its template. The
  replacements are kept in a Go map, so they are made in any order: \<open>Build\<close> takes the order as an
  argument, and \<open>Build_segments\<close> shows that the result does not depend on it.
\<close>

subsection \<open>The builder\<close>

record Params =
  npZone :: string
  npServerIP :: string
  npVPNIP :: string
  npCustomDomain :: string
  npFrameworkNS :: string
  npUserNS :: string
  npResolver :: string

definition joinWithPrefix :: "string \<Rightarrow> string list \<Rightarrow> string" where
  "joinWithPrefix p domains = join '' '' (map (\<lambda>d. p @ d) domains)"

definition buildSysAppNames :: "string list \<Rightarrow> string" where
  "buildSysAppNames domains =
     join '' '' (concat (map (\<lambda>d. [''market.'' @ d, ''settings.'' @ d, ''files.'' @ d, ''dashboard.'' @ d]) domains))"

definition escDots :: "string \<Rightarrow> string" where
  "escDots s = ReplaceAll s ''.'' (bslash @ ''.'')"

definition cors_exact :: "string \<Rightarrow> string" where
  "cors_exact host = [CHR 0x22] @ ''https://'' @ host @ [CHR 0x22] @ '' $http_origin;''"

definition cors_below :: "string \<Rightarrow> string" where
  "cors_below host = ''~^https://[a-zA-Z0-9'' @ bslash @ ''-]+'' @ bslash @ ''.'' @ escDots host @ ''$ $http_origin;''"

definition buildCORSEntries :: "Params \<Rightarrow> string" where
  "buildCORSEntries p =
     ''    '' @ join (nl @ ''    '')
       ([cors_exact (npZone p), cors_below (npZone p)] @
        (if npServerIP p \<noteq> [] then [cors_exact (npServerIP p)] else []) @
        (if npVPNIP p \<noteq> [] then [cors_exact (npVPNIP p)] else []) @
        (if npCustomDomain p \<noteq> [] then [cors_exact (npCustomDomain p), cors_below (npCustomDomain p)] else []))"

definition redirect_lines :: "string \<Rightarrow> Params \<Rightarrow> string" where
  "redirect_lines kind p =
     (let d = kind @ ''.'' @ npCustomDomain p @ '';'' @ nl in
      ''    default                      '' @ kind @ ''.'' @ npZone p @ '';'' @ nl @
      ''    ~'' @ bslash @ ''.'' @ escDots (npCustomDomain p) @ ''$                       '' @ d @
      ''    '' @ npCustomDomain p @ ''                           '' @ d @ ''  }'')"

definition redirect_map :: "string \<Rightarrow> Params \<Rightarrow> string" where
  "redirect_map kind p = ''  map $host $'' @ kind @ ''_domain {'' @ nl @ redirect_lines kind p"

definition buildRedirectMaps :: "Params \<Rightarrow> string" where
  "buildRedirectMaps p =
     (if npCustomDomain p = [] then [] else redirect_map ''auth'' p @ nl @ redirect_map ''desktop'' p)"

definition authRedirect :: "Params \<Rightarrow> string" where
  "authRedirect p = (if npCustomDomain p \<noteq> [] then ''$auth_domain'' else ''auth.'' @ npZone p)"

definition desktopRedirect :: "Params \<Rightarrow> string" where
  "desktopRedirect p = (if npCustomDomain p \<noteq> [] then ''$desktop_domain'' else ''desktop.'' @ npZone p)"

definition placeholder :: "string \<Rightarrow> string" where
  "placeholder k = ''{{'' @ k @ ''}}''"

definition domains_of :: "Params \<Rightarrow> string list" where
  "domains_of p = npZone p # (if npCustomDomain p \<noteq> [] then [npCustomDomain p] else [])"

definition ipNames :: "Params \<Rightarrow> string list" where
  "ipNames p =
     (let ips = (if npServerIP p \<noteq> [] then [npServerIP p] else []) @ (if npVPNIP p \<noteq> [] then [npVPNIP p] else [])
      in if ips = [] then [''_''] else ips)"

text \<open>The names and values of the replacements; the key of a name is its \<open>placeholder\<close>.\<close>

definition replacements :: "Params \<Rightarrow> (string \<times> string) list" where
  "replacements p =
     [(''ZONE'', npZone p),
      (''SERVER_NAMES_IP'', join '' '' (ipNames p)),
      (''SERVER_NAMES_ZONE'', joinWithPrefix [] (domains_of p)),
      (''SERVER_NAMES_API'', joinWithPrefix ''api.'' (domains_of p)),
      (''SERVER_NAMES_DESKTOP'', joinWithPrefix ''desktop.'' (domains_of p)),
      (''SERVER_NAMES_AUTH'', joinWithPrefix ''auth.'' (domains_of p)),
      (''SERVER_NAMES_SYSAPPS'', buildSysAppNames (domains_of p)),
      (''SERVER_NAMES_WILDCARD'', joinWithPrefix ''*.'' (domains_of p)),
      (''CORS_ENTRIES'', buildCORSEntries p),
      (''REDIRECT_MAPS'', buildRedirectMaps p),
      (''AUTH_REDIRECT'', authRedirect p),
      (''DESKTOP_REDIRECT'', desktopRedirect p),
      (''FRAMEWORK_NAMESPACE'', npFrameworkNS p),
      (''USER_NAMESPACE'', npUserNS p),
      (''RESOLVER'', npResolver p)]"

definition replace_step :: "string \<Rightarrow> string \<times> string \<Rightarrow> string" where
  "replace_step s kv = ReplaceAll s (placeholder (fst kv)) (snd kv)"

definition Build :: "((string \<times> string) list \<Rightarrow> (string \<times> string) list) \<Rightarrow> string \<Rightarrow> Params \<Rightarrow> string" where
  "Build order tmpl p = foldl replace_step tmpl (order (replacements p))"

subsection \<open>Templates as texts with holes\<close>

datatype seg = Text string | Hole string

fun source :: "seg \<Rightarrow> string" where
  "source (Text t) = t"
| "source (Hole k) = placeholder k"

text \<open>A text without opening braces of a placeholder; a name without any.\<close>

definition plain :: "string \<Rightarrow> bool" where
  "plain s \<longleftrightarrow> \<not> Contains s ''{{'' \<and> (s \<noteq> [] \<longrightarrow> last s \<noteq> CHR ''{'')"

definition hole_name :: "string \<Rightarrow> bool" where
  "hole_name k \<longleftrightarrow> CHR ''{'' \<notin> set k \<and> CHR ''}'' \<notin> set k"

fun wf_seg :: "seg \<Rightarrow> bool" where
  "wf_seg (Text t) = plain t"
| "wf_seg (Hole k) = hole_name k"

fun fill :: "(string \<Rightarrow> string option) \<Rightarrow> seg \<Rightarrow> seg" where
  "fill f (Text t) = Text t"
| "fill f (Hole k) = (case f k of None \<Rightarrow> Hole k | Some v \<Rightarrow> Text v)"

lemma plain_Nil [simp]: "plain []"
  by (simp add: plain_def)

lemma plain_append: "plain a \<Longrightarrow> plain b \<Longrightarrow> plain (a @ b)"
proof -
  assume a: "plain a" and b: "plain b"
  have "\<not> sublist ''{{'' (a @ b)"
  proof
    assume "sublist ''{{'' (a @ b)"
    then obtain xs1 xs2 where "sublist ''{{'' a \<or> sublist ''{{'' b \<or>
        (''{{'' = xs1 @ xs2 \<and> suffix xs1 a \<and> prefix xs2 b)"
      by (auto simp: sublist_append)
    then obtain xs1 xs2 where x: "''{{'' = xs1 @ xs2" "suffix xs1 a"
      "\<not> sublist ''{{'' a" "\<not> sublist ''{{'' b" "prefix xs2 b"
      using a b by (auto simp: plain_def)
    show False
    proof (cases xs1)
      case Nil
      with x show False by (auto dest: prefix_imp_sublist)
    next
      case (Cons c cs)
      then have "last xs1 = CHR ''{''" using x(1) by (cases cs; cases "tl cs") auto
      moreover have "a \<noteq> []" "last xs1 = last a" using x(2) Cons by (auto simp: suffix_def)
      ultimately show False using a by (auto simp: plain_def)
    qed
  qed
  moreover have "last (a @ b) \<noteq> CHR ''{''" if "a @ b \<noteq> []"
    using a b that by (cases "b = []") (auto simp: plain_def)
  ultimately show ?thesis by (simp add: plain_def)
qed

lemma plain_Cons_tl: "plain (c # t) \<Longrightarrow> plain t"
  by (auto simp: plain_def sublist_Cons_right split: if_splits)

lemma plain_no_brace: "CHR ''{'' \<notin> set s \<Longrightarrow> plain s"
  by (auto simp: plain_def sublist_def) (metis last_in_set)

lemma plain_join: "plain sep \<Longrightarrow> (\<And>x. x \<in> set xs \<Longrightarrow> plain x) \<Longrightarrow> plain (join sep xs)"
  by (induction sep xs rule: join.induct) (auto intro!: plain_append)

text \<open>The replacement passes over a plain text and over the other placeholders.\<close>

lemma replace_over_plain:
  "plain t \<Longrightarrow> replace_from 0 (placeholder k) v (t @ r) = t @ replace_from 0 (placeholder k) v r"
proof (induction t)
  case (Cons c t)
  have "\<not> prefix (placeholder k) (c # t @ r)"
  proof
    assume p: "prefix (placeholder k) (c # t @ r)"
    then have c: "c = CHR ''{''" and r: "prefix (CHR ''{'' # k @ ''}}'') (t @ r)"
      by (auto simp: placeholder_def)
    have "t \<noteq> []" using Cons.prems c by (auto simp: plain_def)
    then obtain d t' where "t = d # t'" by (cases t) auto
    with r c have "c # t = ''{{'' @ t'" by auto
    then have "sublist ''{{'' (c # t)" by (metis sublist_append_rightI)
    then show False using Cons.prems by (simp add: plain_def)
  qed
  with Cons show ?case using plain_Cons_tl by simp
qed simp

lemma replace_skip: "replace_from (length xs) old new (xs @ ys) = replace_from 0 old new ys"
  by (induction xs) auto

lemma replace_hole_same:
  "replace_from 0 (placeholder k) v (placeholder k @ r) = v @ replace_from 0 (placeholder k) v r"
  using replace_skip [of "tl (placeholder k)" "placeholder k" v r]
  by (simp add: placeholder_def)

lemma placeholder_prefix:
  assumes "hole_name k" "hole_name n" "prefix (placeholder k) (placeholder n @ r)"
  shows "k = n"
proof -
  from assms(3) have "prefix (k @ ''}}'') (n @ ''}}'' @ r)" by (simp add: placeholder_def)
  then obtain zs where e: "k @ CHR ''}'' # (CHR ''}'' # zs) = n @ CHR ''}'' # (CHR ''}'' # r)"
    by (auto simp: prefix_def)
  then have "takeWhile (\<lambda>c. c \<noteq> CHR ''}'') (k @ CHR ''}'' # (CHR ''}'' # zs)) =
      takeWhile (\<lambda>c. c \<noteq> CHR ''}'') (n @ CHR ''}'' # (CHR ''}'' # r))" by simp
  moreover have "takeWhile (\<lambda>c. c \<noteq> CHR ''}'') (x @ CHR ''}'' # ys) = x" if "hole_name x" for x ys
    using that by (subst takeWhile_append2) (auto simp: hole_name_def)
  ultimately show ?thesis using assms by simp
qed

lemma replace_hole_other:
  assumes "hole_name k" "hole_name n" "k \<noteq> n"
  shows "replace_from 0 (placeholder k) v (placeholder n @ r) = placeholder n @ replace_from 0 (placeholder k) v r"
proof -
  have np: "\<not> prefix (placeholder k) (placeholder n @ r)" using placeholder_prefix assms by blast
  have n: "CHR ''{'' \<notin> set (n @ ''}}'')" using assms(2) by (simp add: hole_name_def)
  then have "\<not> prefix (CHR ''{'' # []) (n @ ''}}'')" by (cases n) auto
  then have "\<not> sublist ''{{'' (CHR ''{'' # n @ ''}}'')"
    using plain_no_brace [OF n] by (auto simp: plain_def sublist_Cons_right)
  then have pl: "plain (CHR ''{'' # n @ ''}}'')" by (simp add: plain_def)
  have e: "placeholder n @ r = CHR ''{'' # (CHR ''{'' # n @ ''}}'') @ r" by (simp add: placeholder_def)
  have "replace_from 0 (placeholder k) v (placeholder n @ r) =
      CHR ''{'' # replace_from 0 (placeholder k) v ((CHR ''{'' # n @ ''}}'') @ r)"
    using np unfolding e by simp
  also have "\<dots> = CHR ''{'' # (CHR ''{'' # n @ ''}}'') @ replace_from 0 (placeholder k) v r"
    using replace_over_plain [OF pl] by simp
  finally show ?thesis by (simp add: placeholder_def)
qed

lemma replace_segments:
  assumes "hole_name k" "\<forall>x \<in> set segs. wf_seg x"
  shows "replace_step (concat (map source segs)) (k, v) = concat (map (source \<circ> fill [k \<mapsto> v]) segs)"
  using assms(2)
proof (induction segs)
  case (Cons x segs)
  then show ?case
    using assms(1)
    by (cases x) (auto simp: replace_step_def ReplaceAll_def replace_over_plain replace_hole_same replace_hole_other)
qed (simp add: replace_step_def ReplaceAll_def)

lemma fill_wf: "plain v \<Longrightarrow> wf_seg x \<Longrightarrow> wf_seg (fill [k \<mapsto> v] x)"
  by (cases x) auto

lemma fill_fill: "fill (map_of kvs) (fill [k \<mapsto> v] x) = fill (map_of ((k, v) # kvs)) x"
  by (cases x) auto

lemma fold_segments:
  "\<forall>(k, v) \<in> set kvs. hole_name k \<and> plain v \<Longrightarrow> \<forall>x \<in> set segs. wf_seg x \<Longrightarrow>
   foldl replace_step (concat (map source segs)) kvs = concat (map (source \<circ> fill (map_of kvs)) segs)"
proof (induction kvs arbitrary: segs)
  case Nil
  have "source (fill Map.empty x) = source x" for x by (cases x) auto
  then show ?case by (simp add: comp_def)
next
  case (Cons kv kvs)
  obtain k v where kv: "kv = (k, v)" by (cases kv)
  have h: "hole_name k" "plain v" using Cons.prems(1) kv by auto
  have "foldl replace_step (concat (map source segs)) (kv # kvs) =
      foldl replace_step (concat (map source (map (fill [k \<mapsto> v]) segs))) kvs"
    using replace_segments [OF h(1) Cons.prems(2)] by (simp add: kv comp_def)
  also have "\<dots> = concat (map (source \<circ> fill (map_of kvs)) (map (fill [k \<mapsto> v]) segs))"
    using Cons.prems fill_wf [OF h(2)] by (intro Cons.IH) auto
  finally show ?case by (simp add: kv comp_def fill_fill del: map_of.simps)
qed

subsection \<open>The values are plain\<close>

definition no_braces :: "Params \<Rightarrow> bool" where
  "no_braces p \<longleftrightarrow>
     CHR ''{'' \<notin> set (npZone p @ npServerIP p @ npVPNIP p @ npCustomDomain p @ npFrameworkNS p @ npUserNS p @ npResolver p)"

lemma replace_from_chars: "set (replace_from k old new s) \<subseteq> set new \<union> set s"
  by (induction k old new s rule: replace_from.induct) (auto split: if_splits)

lemma escDots_plain: "CHR ''{'' \<notin> set s \<Longrightarrow> CHR ''{'' \<notin> set (escDots s)"
  using replace_from_chars [of 0 "''.''" "bslash @ ''.''" s] by (auto simp: escDots_def ReplaceAll_def bslash_def)

lemma redirect_map_plain:
  assumes "no_braces p" "CHR ''{'' \<notin> set kind"
  shows "plain (redirect_map kind p)"
proof -
  have 1: "plain (''_domain {'' @ nl)"
    by (simp add: plain_def nl_def sublist_Cons_right)
  have z: "CHR ''{'' \<notin> set (npZone p)" "CHR ''{'' \<notin> set (npCustomDomain p)" "CHR ''{'' \<notin> set (escDots (npCustomDomain p))"
    using assms(1) escDots_plain by (auto simp: no_braces_def)
  have "redirect_map kind p = (''  map $host $'' @ kind) @ (''_domain {'' @ nl) @ redirect_lines kind p"
    by (simp add: redirect_map_def)
  moreover have "plain (redirect_lines kind p)"
    using z assms(2) by (intro plain_no_brace) (simp add: redirect_lines_def Let_def bslash_def nl_def)
  moreover have "plain (''  map $host $'' @ kind)" using assms(2) by (intro plain_no_brace) simp
  ultimately show ?thesis using 1 plain_append by metis
qed

lemma replacements_plain:
  assumes "no_braces p"
  shows "\<forall>(k, v) \<in> set (replacements p). hole_name k \<and> plain v"
proof -
  have z: "CHR ''{'' \<notin> set (npZone p)" "CHR ''{'' \<notin> set (npCustomDomain p)" "CHR ''{'' \<notin> set (npServerIP p)"
      "CHR ''{'' \<notin> set (npVPNIP p)" "CHR ''{'' \<notin> set (npFrameworkNS p)" "CHR ''{'' \<notin> set (npUserNS p)"
      "CHR ''{'' \<notin> set (npResolver p)"
    using assms by (auto simp: no_braces_def)
  have d: "CHR ''{'' \<notin> set d" if "d \<in> set (domains_of p)" for d
    using that z by (auto simp: domains_of_def split: if_splits)
  have jp: "plain (joinWithPrefix q (domains_of p))" if "CHR ''{'' \<notin> set q" for q
    unfolding joinWithPrefix_def using that d by (intro plain_join) (auto intro!: plain_no_brace)
  have jps: "plain (joinWithPrefix [] (domains_of p))" "plain (joinWithPrefix ''api.'' (domains_of p))"
    "plain (joinWithPrefix ''desktop.'' (domains_of p))" "plain (joinWithPrefix ''auth.'' (domains_of p))"
    "plain (joinWithPrefix ''*.'' (domains_of p))"
    by (simp_all add: jp)
  have sys: "plain (buildSysAppNames (domains_of p))"
    unfolding buildSysAppNames_def
  proof (rule plain_join)
    show "plain '' ''" by (rule plain_no_brace) simp
  next
    fix x assume "x \<in> set (concat (map (\<lambda>d. [''market.'' @ d, ''settings.'' @ d, ''files.'' @ d, ''dashboard.'' @ d]) (domains_of p)))"
    then obtain d' where d': "d' \<in> set (domains_of p)" "x \<in> {''market.'' @ d', ''settings.'' @ d', ''files.'' @ d', ''dashboard.'' @ d'}"
      by auto
    with d [OF d'(1)] have "CHR ''{'' \<notin> set x" by auto
    then show "plain x" by (rule plain_no_brace)
  qed
  have ips: "plain (join '' '' (ipNames p))"
    using z by (intro plain_join) (auto simp: ipNames_def Let_def intro!: plain_no_brace split: if_splits)
  have ex: "plain (cors_exact h)" "plain (cors_below h)" if "CHR ''{'' \<notin> set h" for h
    using that escDots_plain [OF that]
    by (simp_all add: cors_exact_def cors_below_def bslash_def plain_no_brace)
  have sep: "plain (nl @ ''    '')" "plain ''    ''" by (rule plain_no_brace, simp add: nl_def)+
  let ?ls = "[cors_exact (npZone p), cors_below (npZone p)] @
        (if npServerIP p \<noteq> [] then [cors_exact (npServerIP p)] else []) @
        (if npVPNIP p \<noteq> [] then [cors_exact (npVPNIP p)] else []) @
        (if npCustomDomain p \<noteq> [] then [cors_exact (npCustomDomain p), cors_below (npCustomDomain p)] else [])"
  have "plain x" if "x \<in> set ?ls" for x
    using that z ex by (simp split: if_splits) blast+
  then have cors: "plain (buildCORSEntries p)"
    unfolding buildCORSEntries_def by (intro plain_append [OF sep(2) plain_join [OF sep(1)]])
  have nlp: "plain nl" by (rule plain_no_brace) (simp add: nl_def)
  have red: "plain (buildRedirectMaps p)"
  proof (cases "npCustomDomain p = []")
    case False
    then show ?thesis
      unfolding buildRedirectMaps_def
      using redirect_map_plain [OF assms, of "''auth''"] redirect_map_plain [OF assms, of "''desktop''"] nlp
      by (simp add: plain_append)
  qed (simp add: buildRedirectMaps_def)
  have red2: "plain (authRedirect p)" "plain (desktopRedirect p)"
    using z by (auto simp: authRedirect_def desktopRedirect_def intro!: plain_no_brace)
  have "list_all (\<lambda>kv. plain (snd kv)) (replacements p)"
    using jps sys ips cors red red2 z [THEN plain_no_brace]
    by (simp only: replacements_def list.pred_inject snd_conv simp_thms)
  moreover have "list_all (\<lambda>kv. hole_name (fst kv)) (replacements p)"
    by (simp add: replacements_def hole_name_def)
  ultimately show ?thesis by (auto simp: list_all_iff)
qed

lemma replacements_distinct: "distinct (map fst (replacements p))"
  by (simp add: replacements_def)

lemma map_of_permuted:
  assumes "distinct (map fst xs)" "mset ys = mset xs"
  shows "map_of ys = map_of xs"
proof -
  have "distinct (map fst ys)" using assms by (metis mset_eq_imp_distinct_iff mset_map)
  then show ?thesis using assms by (intro map_of_inject_set [THEN iffD2]) (auto dest: mset_eq_setD)
qed

text \<open>
  Whatever order the replacements are made in, the configuration is the template with every
  placeholder filled by its value, once; a name without a value stays.
\<close>

lemma nginx_template_filled:
  assumes "no_braces p" "\<forall>x \<in> set segs. wf_seg x" "mset (order (replacements p)) = mset (replacements p)"
  shows "Build order (concat (map source segs)) p = concat (map (source \<circ> fill (map_of (replacements p))) segs)"
proof -
  have "\<forall>(k, v) \<in> set (order (replacements p)). hole_name k \<and> plain v"
    using replacements_plain [OF assms(1)] assms(3) by (metis mset_eq_setD)
  then show ?thesis
    using fold_segments assms(2) map_of_permuted [OF replacements_distinct assms(3)] by (simp add: Build_def)
qed

definition sample_params :: Params where
  "sample_params = \<lparr>npZone = ''a.b'', npServerIP = ''1.2.3.4'', npVPNIP = [], npCustomDomain = [],
     npFrameworkNS = ''fw'', npUserNS = ''us'', npResolver = ''r''\<rparr>"

lemma nginx_template_filled_witness:
  "Build rev ''server {host {{SERVER_NAMES_API}};{{OTHER}}'' sample_params = ''server {host api.a.b;{{OTHER}}''"
proof -
  let ?segs = "[Text ''server {host '', Hole ''SERVER_NAMES_API'', Text '';'', Hole ''OTHER'']"
  have "\<forall>x \<in> set ?segs. wf_seg x" by (simp add: plain_def hole_name_def sublist_Cons_right)
  moreover have "no_braces sample_params" by (simp add: no_braces_def sample_params_def)
  ultimately have "Build rev (concat (map source ?segs)) sample_params =
      concat (map (source \<circ> fill (map_of (replacements sample_params))) ?segs)"
    by (intro nginx_template_filled) simp_all
  then show ?thesis
    by (simp add: placeholder_def replacements_def joinWithPrefix_def domains_of_def sample_params_def)
qed

end
