(* ===== verification/Bfl_Tls.thy ===== *)
theory Bfl_Tls
  imports Bfl_Kube Bfl_Nginx
begin

text \<open>
  \<^verbatim>\<open>internal/bfl/tls.go\<close>, \<^verbatim>\<open>certgen.go\<close> and the state of the VPN in \<^verbatim>\<open>vpn.go\<close>: addresses of the node
  and of the VPN, the custom domain, the certificate of the zone, the configuration of the proxy, and
  what is renewed when the VPN changes. The iteration order of the Go map of replacements is an
  argument of \<open>regenerateNginxConfig\<close>.
\<close>

subsection \<open>Self-signed certificates\<close>

definition cert_for :: "bfl_env \<Rightarrow> string \<Rightarrow> string \<Rightarrow> cert_template" where
  "cert_for E zone terminusName =
     (let localDomain = getenv E ''OLARES_LOCAL_DOMAIN''; username = UserName terminusName in
      \<lparr>ctCommonName = ''*.'' @ zone,
       ctDNSNames = [zone, ''*.'' @ zone] @
         (if localDomain \<noteq> [] \<and> localDomain \<noteq> zone
          then [username @ ''.'' @ localDomain, ''*.'' @ username @ ''.'' @ localDomain] else []),
       ctIPs = [''127.0.0.1'', ''::1'']\<rparr>)"

definition GenerateSelfSignedCert :: "bfl_env \<Rightarrow> string \<Rightarrow> string \<Rightarrow> (string \<times> string) bfl" where
  "GenerateSelfSignedCert E zone terminusName =
     ask_as (\<lambda>a. case a of ACert c k \<Rightarrow> Some (c, k) | _ \<Rightarrow> None) E (IssueCert (cert_for E zone terminusName))"

subsection \<open>Addresses and domains\<close>

definition node_ip :: "(string \<times> string) list list \<Rightarrow> string" where
  "node_ip nodes = (case nodes of [] \<Rightarrow> [] | addrs # _ \<Rightarrow> value_of addrs ''InternalIP'')"

definition getNodeIP :: "bfl_env \<Rightarrow> string bfl" where
  "getNodeIP E =
     orElse [] (ask_as (\<lambda>a. case a of ANodes ns \<Rightarrow> Some ns | _ \<Rightarrow> None) E NodeList) (\<lambda>nodes. ret (node_ip nodes))"

definition list_pods :: "bfl_env \<Rightarrow> string \<Rightarrow> string \<Rightarrow> pod list bfl" where
  "list_pods E ns label = ask_as as_pods E (PodList ns label)"

definition execInPod :: "bfl_env \<Rightarrow> string \<Rightarrow> string \<Rightarrow> string \<Rightarrow> string list \<Rightarrow> string bfl" where
  "execInPod E podName ns container command =
     orElse [] (ask_as as_text E (PodExec ns podName container command)) ret"

definition running_pod :: "pod list \<Rightarrow> string option" where
  "running_pod pods = (case pods of [] \<Rightarrow> None | p # _ \<Rightarrow> if pdPhase p = ''Running'' then Some (pdName p) else None)"

definition host_tailscale_ip :: "bfl_env \<Rightarrow> string bfl" where
  "host_tailscale_ip E =
     orElse [] (ask_as as_text E (Exec ''tailscale'' [''ip'', ''-4''])) (\<lambda>out. ret (TrimSpace out))"

definition getTailscaleIP :: "bfl_env \<Rightarrow> string bfl" where
  "getTailscaleIP E =
     (let ns = FrameworkNamespace (beConfig E) in
      orElse [] (list_pods E ns ''app=tailscale'') (\<lambda>pods.
        case running_pod pods of
          None \<Rightarrow> host_tailscale_ip E
        | Some p \<Rightarrow> chk [] (execInPod E p ns ''tailscale'' [''tailscale'', ''ip'', ''-4'']) (\<lambda>out.
            if TrimSpace out \<noteq> [] then ret (TrimSpace out) else host_tailscale_ip E)))"

definition getCustomDomain :: "bfl_env \<Rightarrow> string bfl" where
  "getCustomDomain E =
     orElse [] (get_data E ConfigMap (FrameworkNamespace (beConfig E)) ''packalares-network'') (\<lambda>d.
       ret (value_of d ''custom_domain''))"

definition setCustomDomain :: "bfl_env \<Rightarrow> string \<Rightarrow> unit bfl" where
  "setCustomDomain E domain =
     put_entries E ConfigMap (FrameworkNamespace (beConfig E)) ''packalares-network'' [(''custom_domain'', domain)]"

definition getClusterDNS :: "bfl_env \<Rightarrow> string bfl" where
  "getClusterDNS E =
     attempt (ask_as as_text E (ReadFile ''/etc/resolv.conf'')) (\<lambda>r.
       ret (case r of
           Inl _ \<Rightarrow> ''10.233.0.10''
         | Inr d \<Rightarrow>
             (case List.find (\<lambda>line. HasPrefix line ''nameserver '') (split_on CHR 0x0A d) of
                None \<Rightarrow> ''10.233.0.10''
              | Some line \<Rightarrow> TrimPrefix line ''nameserver '')))"

subsection \<open>The state of the VPN\<close>

definition VPNNone :: string where "VPNNone = ''none''"
definition VPNTailscale :: string where "VPNTailscale = ''tailscale''"
definition VPNWireGuard :: string where "VPNWireGuard = ''wireguard''"

definition getVPNState :: "bfl_env \<Rightarrow> (string \<times> string) bfl" where
  "getVPNState E =
     attempt (get_data E ConfigMap (FrameworkNamespace (beConfig E)) ''packalares-network'') (\<lambda>r.
       ret (case r of
           Inl _ \<Rightarrow> (VPNNone, [])
         | Inr d \<Rightarrow> (if value_of d ''vpn_type'' = [] then VPNNone else value_of d ''vpn_type'', value_of d ''vpn_ip'')))"

definition setVPNState :: "bfl_env \<Rightarrow> string \<Rightarrow> string \<Rightarrow> unit bfl" where
  "setVPNState E vpnType vpnIP =
     put_entries E ConfigMap (FrameworkNamespace (beConfig E)) ''packalares-network''
       [(''vpn_type'', vpnType), (''vpn_ip'', vpnIP)]"

definition getActiveVPNIP :: "bfl_env \<Rightarrow> string bfl" where
  "getActiveVPNIP E =
     chk [] (getVPNState E) (\<lambda>(vpnType, vpnIP).
       if vpnType = VPNTailscale then
         chk [] (getTailscaleIP E) (\<lambda>live. ret (if live \<noteq> [] then live else vpnIP))
       else if vpnType = VPNWireGuard then ret vpnIP
       else getTailscaleIP E)"

subsection \<open>The certificate of the zone\<close>

definition cert_sans :: "string \<Rightarrow> string \<Rightarrow> string \<Rightarrow> string \<Rightarrow> string list" where
  "cert_sans serverIP vpnIP zone customDomain =
     [''DNS:'' @ zone, ''DNS:*.'' @ zone, ''DNS:localhost'', ''IP:127.0.0.1'', ''IP:::1''] @
     (if serverIP \<noteq> [] then [''IP:'' @ serverIP] else []) @
     (if vpnIP \<noteq> [] then [''IP:'' @ vpnIP] else []) @
     (if customDomain \<noteq> [] then [''DNS:'' @ customDomain, ''DNS:*.'' @ customDomain] else [])"

definition san_content :: "string list \<Rightarrow> string" where
  "san_content sans =
     ''[v3_ext]'' @ nl @ ''subjectAltName='' @ join '','' sans @ nl @ ''basicConstraints=CA:FALSE'' @ nl @
     ''keyUsage=digitalSignature,keyEncipherment'' @ nl @ ''extendedKeyUsage=serverAuth'' @ nl"

definition read_file :: "bfl_env \<Rightarrow> string \<Rightarrow> string bfl" where
  "read_file E p = ask_as as_text E (ReadFile p)"

definition ca_from_cluster :: "bfl_env \<Rightarrow> (string \<times> string) bfl" where
  "ca_from_cluster E =
     (let ns = FrameworkNamespace (beConfig E) in
      chk ''CA key not found on disk or in K8s secret packalares-ca-key: '' (get_data E Secret ns ''packalares-ca-key'') (\<lambda>d.
        let key = value_of d ''ca.key'' in
        if key = [] then fail ''CA key is empty in secret packalares-ca-key''
        else chk ''CA cert ConfigMap packalares-ca not found: '' (get_data E ConfigMap ns ''packalares-ca'') (\<lambda>d.
          let cert = value_of d ''ca.crt'' in
          if cert = [] then fail ''CA cert is empty in ConfigMap packalares-ca'' else ret (key, cert))))"

definition read_ca :: "bfl_env \<Rightarrow> (string \<times> string) bfl" where
  "read_ca E =
     attempt (read_file E ''/etc/packalares/ssl/ca.key'') (\<lambda>k.
     attempt (read_file E ''/etc/packalares/ssl/ca.crt'') (\<lambda>c.
       case (k, c) of (Inr key, Inr cert) \<Rightarrow> ret (key, cert) | _ \<Rightarrow> ca_from_cluster E))"

definition sign_cert :: "bfl_env \<Rightarrow> string \<Rightarrow> string \<Rightarrow> string \<times> string \<Rightarrow> string \<Rightarrow> (string \<times> string) bfl" where
  "sign_cert E certDir zone ca sans =
     (let caKeyFile = certDir @ ''/ca.key''; caCertFile = certDir @ ''/ca.crt''; keyFile = certDir @ ''/tls.key'';
          csrFile = certDir @ ''/tls.csr''; certFile = certDir @ ''/tls.crt''; sanConf = certDir @ ''/san.cnf'' in
      chk ''write CA key: '' (do_call E (WriteFile caKeyFile (fst ca) 384)) (\<lambda>_.
      chk ''write CA cert: '' (do_call E (WriteFile caCertFile (snd ca) 420)) (\<lambda>_.
      chk ''openssl csr: '' (ask_as as_text E (Exec ''openssl'' [''req'', ''-nodes'', ''-newkey'', ''ec'', ''-pkeyopt'',
          ''ec_paramgen_curve:prime256v1'', ''-keyout'', keyFile, ''-out'', csrFile, ''-subj'',
          ''/CN=*.'' @ zone @ ''/O=Packalares''])) (\<lambda>_.
      chk ''write SAN config: '' (do_call E (WriteFile sanConf sans 420)) (\<lambda>_.
      chk ''openssl sign: '' (ask_as as_text E (Exec ''openssl'' [''x509'', ''-req'', ''-days'', ''3650'', ''-in'', csrFile,
          ''-CA'', caCertFile, ''-CAkey'', caKeyFile, ''-CAcreateserial'', ''-out'', certFile, ''-extfile'', sanConf,
          ''-extensions'', ''v3_ext''])) (\<lambda>_.
      chk ''read cert: '' (read_file E certFile) (\<lambda>newCert.
      chk ''read key: '' (read_file E keyFile) (\<lambda>newKey. ret (newCert @ snd ca, newKey)))))))))"

text \<open>Writing into the entries of an existing secret without data is a write to a nil map.\<close>

definition store_tls :: "bfl_env \<Rightarrow> string \<Rightarrow> string \<Rightarrow> unit bfl" where
  "store_tls E certChain newKey =
     (let ns = FrameworkNamespace (beConfig E); name = TLSSecretName (beConfig E);
          es = [(''tls.crt'', certChain), (''tls.key'', newKey)] in
      attempt (get_data E Secret ns name) (\<lambda>r. case r of
          Inl _ \<Rightarrow> chk ''create TLS secret: '' (do_call E (DataCreate Secret ns name es)) ret
        | Inr d \<Rightarrow> if d = [] then panic
            else chk ''update TLS secret: '' (do_call E (DataUpdate Secret ns name (set_entries es d))) ret))"

definition regenerateTLSCert :: "bfl_env \<Rightarrow> string \<Rightarrow> string \<Rightarrow> string \<Rightarrow> string \<Rightarrow> unit bfl" where
  "regenerateTLSCert E serverIP vpnIP zone customDomain =
     chk ''create temp dir: '' (ask_as as_text E (MkdirTemp ''packalares-tls-*'')) (\<lambda>certDir.
       attempt
         (chk [] (read_ca E) (\<lambda>ca.
          chk [] (sign_cert E certDir zone ca (san_content (cert_sans serverIP vpnIP zone customDomain))) (\<lambda>(certChain, newKey).
          chk [] (store_tls E certChain newKey) (\<lambda>_.
            ignore (EnsureSSLSecret E zone certChain newKey) (ret ())))))
         (\<lambda>r. ignore (do_call E (RemoveAll certDir)) (case r of Inl e \<Rightarrow> fail e | Inr _ \<Rightarrow> ret ())))"

text \<open>The names and the end of the certificate in force.\<close>

definition getCertInfo :: "bfl_env \<Rightarrow> (string list \<times> string) bfl" where
  "getCertInfo E =
     orElse [] (get_data E Secret (FrameworkNamespace (beConfig E)) (TLSSecretName (beConfig E))) (\<lambda>d.
       ret (if value_of d ''tls.crt'' = [] then ([], [])
            else case parseCert E (value_of d ''tls.crt'') of None \<Rightarrow> ([], []) | Some info \<Rightarrow> info))"

subsection \<open>The proxy\<close>

definition nginx_params :: "bfl_env \<Rightarrow> Params bfl" where
  "nginx_params E =
     chk [] (getNodeIP E) (\<lambda>serverIP.
     chk [] (getActiveVPNIP E) (\<lambda>vpnIP.
     chk [] (getCustomDomain E) (\<lambda>domain.
     chk [] (getClusterDNS E) (\<lambda>dns.
       ret \<lparr>npZone = Pkg_Config.UserZone (beConfig E), npServerIP = serverIP, npVPNIP = vpnIP, npCustomDomain = domain,
            npFrameworkNS = FrameworkNamespace (beConfig E), npUserNS = UserNamespace (Username (beConfig E)),
            npResolver = dns\<rparr>))))"

definition regenerateNginxConfig ::
  "((string \<times> string) list \<Rightarrow> (string \<times> string) list) \<Rightarrow> bfl_env \<Rightarrow> unit bfl" where
  "regenerateNginxConfig order E =
     (let ns = FrameworkNamespace (beConfig E) in
      chk ''get proxy-config-template: '' (get_data E ConfigMap ns ''proxy-config-template'') (\<lambda>tmpls.
      chk [] (nginx_params E) (\<lambda>p.
      chk ''get proxy-config: '' (get_data E ConfigMap ns ''proxy-config'') (\<lambda>_.
      chk ''update proxy-config: ''
        (do_call E (DataUpdate ConfigMap ns ''proxy-config'' (map (\<lambda>(k, t). (k, Build order t p)) tmpls))) ret))))"

fun delete_pods :: "bfl_env \<Rightarrow> string \<Rightarrow> pod list \<Rightarrow> unit bfl" where
  "delete_pods E ns [] = ret ()"
| "delete_pods E ns (p # ps) = ignore (do_call E (PodDelete ns (pdName p))) (delete_pods E ns ps)"

definition restartProxy :: "bfl_env \<Rightarrow> unit bfl" where
  "restartProxy E =
     (let ns = FrameworkNamespace (beConfig E) in orElse [] (list_pods E ns ''app=proxy'') (delete_pods E ns))"

text \<open>The first entry of the name gets the value; its source, if it has one, stays beside it.\<close>

fun set_env ::
  "string \<Rightarrow> string \<Rightarrow> (string \<times> string \<times> env_source option) list \<Rightarrow> (string \<times> string \<times> env_source option) list" where
  "set_env key v [] = [(key, v, None)]"
| "set_env key v ((k, x, s) # es) = (if k = key then (k, v, s) # es else (k, x, s) # set_env key v es)"

definition restarted :: "bfl_env \<Rightarrow> log \<Rightarrow> workload \<Rightarrow> workload" where
  "restarted E l dep =
     dep\<lparr>wlAnnotations := AList.update ''kubectl.kubernetes.io/restartedAt'' (clock E l) (wlAnnotations dep)\<rparr>"

definition get_workload :: "bfl_env \<Rightarrow> wl_kind \<Rightarrow> string \<Rightarrow> string \<Rightarrow> workload bfl" where
  "get_workload E k ns name = ask_as as_workload E (WorkloadGet k ns name)"

definition restart_workload :: "bfl_env \<Rightarrow> wl_kind \<Rightarrow> string \<Rightarrow> workload \<Rightarrow> unit bfl" where
  "restart_workload E k ns dep l = do_call E (WorkloadUpdate k ns (restarted E l dep)) l"

definition setDeploymentEnv :: "bfl_env \<Rightarrow> string \<Rightarrow> string \<Rightarrow> string \<Rightarrow> unit bfl" where
  "setDeploymentEnv E name key v =
     (let ns = FrameworkNamespace (beConfig E) in
      attempt (get_workload E Deployment ns name) (\<lambda>r. case r of
          Inl _ \<Rightarrow> ret ()
        | Inr dep \<Rightarrow>
            (case wlContainers dep of
               [] \<Rightarrow> panic
             | c # cs \<Rightarrow>
                 ignore (restart_workload E Deployment ns
                   (dep\<lparr>wlContainers := c\<lparr>cnEnv := set_env key v (cnEnv c)\<rparr> # cs\<rparr>)) (ret ()))))"

definition setCustomDomainOnServices :: "bfl_env \<Rightarrow> string \<Rightarrow> unit bfl" where
  "setCustomDomainOnServices E domain =
     chk [] (setDeploymentEnv E ''auth'' ''CUSTOM_DOMAIN'' domain) (\<lambda>_.
       setDeploymentEnv E ''app-service'' ''CUSTOM_DOMAIN'' domain)"

subsection \<open>After a change of the VPN\<close>

definition current_zone :: "bfl_env \<Rightarrow> string bfl" where
  "current_zone E = attempt (GetUser E []) (\<lambda>r. ret (case r of Inl _ \<Rightarrow> [] | Inr user \<Rightarrow> GetUserZone E user))"

definition renew ::
  "((string \<times> string) list \<Rightarrow> (string \<times> string) list) \<Rightarrow> bfl_env \<Rightarrow> string \<Rightarrow> unit bfl" where
  "renew order E vpnIP =
     chk [] (getNodeIP E) (\<lambda>serverIP.
     chk [] (current_zone E) (\<lambda>zone.
       if zone = [] then ret ()
       else chk [] (getCustomDomain E) (\<lambda>customDomain.
         attempt (regenerateTLSCert E serverIP vpnIP zone customDomain) (\<lambda>r. case r of
             Inl _ \<Rightarrow> ret ()
           | Inr _ \<Rightarrow> ignore (regenerateNginxConfig order E) (restartProxy E)))))"

definition afterVPNEnabled ::
  "((string \<times> string) list \<Rightarrow> (string \<times> string) list) \<Rightarrow> bfl_env \<Rightarrow> string \<Rightarrow> string \<Rightarrow> unit bfl" where
  "afterVPNEnabled order E vpnType vpnIP = ignore (setVPNState E vpnType vpnIP) (renew order E vpnIP)"

definition afterVPNDisabled ::
  "((string \<times> string) list \<Rightarrow> (string \<times> string) list) \<Rightarrow> bfl_env \<Rightarrow> unit bfl" where
  "afterVPNDisabled order E = ignore (setVPNState E VPNNone []) (renew order E [])"

fun poll_tailscale :: "nat \<Rightarrow> bfl_env \<Rightarrow> string bfl" where
  "poll_tailscale 0 E = ret []"
| "poll_tailscale (Suc n) E = chk [] (getTailscaleIP E) (\<lambda>ip. if ip \<noteq> [] then ret ip else poll_tailscale n E)"

definition afterTailscaleEnabled ::
  "((string \<times> string) list \<Rightarrow> (string \<times> string) list) \<Rightarrow> bfl_env \<Rightarrow> unit bfl" where
  "afterTailscaleEnabled order E =
     chk [] (poll_tailscale 15 E) (\<lambda>ip.
       if ip = [] then ret () else afterVPNEnabled order E VPNTailscale ip)"

fun await_no_pods :: "nat \<Rightarrow> bfl_env \<Rightarrow> string \<Rightarrow> string \<Rightarrow> unit bfl" where
  "await_no_pods 0 E ns label = ret ()"
| "await_no_pods (Suc n) E ns label =
     orElse [] (list_pods E ns label) (\<lambda>pods. if pods = [] then ret () else await_no_pods n E ns label)"

definition disableTailscale :: "bfl_env \<Rightarrow> unit bfl" where
  "disableTailscale E =
     (let ns = FrameworkNamespace (beConfig E) in
      attempt (do_call E (WorkloadDelete Deployment ns ''tailscale'')) (\<lambda>r. case r of
          Inl _ \<Rightarrow> ret ()
        | Inr _ \<Rightarrow> await_no_pods 15 E ns ''app=tailscale''))"

end
