(* ===== verification/Bfl_Vpn.thy ===== *)
theory Bfl_Vpn
  imports Bfl_Tls
begin

text \<open>
  The requests of \<^verbatim>\<open>internal/bfl/network.go\<close> and \<^verbatim>\<open>vpn.go\<close>: the state of Tailscale and WireGuard,
  switching between them, and the custom domain. WireGuard itself is run by the host control
  service.
\<close>

subsection \<open>Tailscale\<close>

record TailscalePeer =
  tpName :: string
  tpIP :: string
  tpOnline :: bool
  tpLastSeen :: string

record TailscaleStatusResponse =
  tsEnabled :: bool
  tsConnected :: bool
  tsIP :: string
  tsHostname :: string
  tsPeers :: "TailscalePeer list"
  tsAcceptRoutes :: bool

definition first_of :: "string list \<Rightarrow> string" where
  "first_of xs = (case xs of [] \<Rightarrow> [] | x # _ \<Rightarrow> x)"

definition peer_of :: "jval \<Rightarrow> TailscalePeer option" where
  "peer_of j =
     (let body = Some j in do {
        ms \<leftarrow> members_of body;
        host \<leftarrow> members_str ''HostName'' ms [];
        ips \<leftarrow> members_strs ''TailscaleIPs'' ms [];
        online \<leftarrow> members_bool ''Online'' ms False;
        seen \<leftarrow> members_str ''LastSeen'' ms [];
        Some \<lparr>tpName = host, tpIP = first_of ips, tpOnline = online, tpLastSeen = seen\<rparr> })"

fun peers_of :: "(string \<times> jval) list \<Rightarrow> (string \<times> TailscalePeer) list \<Rightarrow> (string \<times> TailscalePeer) list option" where
  "peers_of [] ps = Some ps"
| "peers_of ((k, j) # ms) ps =
     (case peer_of j of None \<Rightarrow> None | Some p \<Rightarrow> peers_of ms (AList.update k p ps))"

definition parseTailscaleStatus :: "bfl_env \<Rightarrow> string \<Rightarrow> TailscaleStatusResponse option" where
  "parseTailscaleStatus E data = do {
     ms \<leftarrow> members_of (unmarshal E data);
     self \<leftarrow> members_obj ''Self'' ms;
     ips \<leftarrow> members_strs ''TailscaleIPs'' self [];
     host \<leftarrow> members_str ''HostName'' self [];
     _ \<leftarrow> members_bool ''Online'' self False;
     peerMembers \<leftarrow> members_obj ''Peer'' ms;
     peers \<leftarrow> peers_of peerMembers [];
     tailnet \<leftarrow> members_obj ''CurrentTailnet'' ms;
     _ \<leftarrow> members_str ''Name'' tailnet [];
     state \<leftarrow> members_str ''BackendState'' ms [];
     Some \<lparr>tsEnabled = True, tsConnected = (state = ''Running''), tsIP = first_of ips, tsHostname = host,
           tsPeers = map snd peers, tsAcceptRoutes = False\<rparr> }"

definition getTailscaleStatus :: "bfl_env \<Rightarrow> TailscaleStatusResponse option bfl" where
  "getTailscaleStatus E =
     (let ns = FrameworkNamespace (beConfig E) in
      orElse [] (list_pods E ns ''app=tailscale'') (\<lambda>pods.
        case running_pod pods of
          None \<Rightarrow> ret None
        | Some p \<Rightarrow> chk [] (execInPod E p ns ''tailscale'' [''tailscale'', ''status'', ''--json'']) (\<lambda>out.
            ret (if out = [] then None else parseTailscaleStatus E out))))"

definition peer_json :: "TailscalePeer \<Rightarrow> jval" where
  "peer_json p = JObj [(''name'', JStr (tpName p)), (''ip'', JStr (tpIP p)), (''online'', JBool (tpOnline p)),
     (''lastSeen'', JStr (tpLastSeen p))]"

definition tailscale_json :: "TailscaleStatusResponse \<Rightarrow> jval" where
  "tailscale_json s = JObj [(''enabled'', JBool (tsEnabled s)), (''connected'', JBool (tsConnected s)), (''ip'', JStr (tsIP s)),
     (''hostname'', JStr (tsHostname s)), (''peers'', JArr (map peer_json (tsPeers s))),
     (''acceptRoutes'', JBool (tsAcceptRoutes s))]"

definition handleTailscaleStatus :: "bfl_env \<Rightarrow> http_request \<Rightarrow> answered bfl" where
  "handleTailscaleStatus E r =
     method_guard ''GET'' r (chk [] (getTailscaleStatus E) (\<lambda>status.
       finish (respondJSON (tailscale_json (case status of
           None \<Rightarrow> \<lparr>tsEnabled = False, tsConnected = False, tsIP = [], tsHostname = [], tsPeers = [], tsAcceptRoutes = False\<rparr>
         | Some s \<Rightarrow> s)))))"

subsection \<open>The network and the custom domain\<close>

definition handleNetworkInfo :: "bfl_env \<Rightarrow> http_request \<Rightarrow> answered bfl" where
  "handleNetworkInfo E r =
     method_guard ''GET'' r
       (chk [] (getNodeIP E) (\<lambda>serverIP.
        chk [] (getActiveVPNIP E) (\<lambda>vpnIP.
        chk [] (getCustomDomain E) (\<lambda>customDomain.
        chk [] (current_zone E) (\<lambda>zone.
        chk [] (getCertInfo E) (\<lambda>(sans, expiry).
          finish (respondJSON (JObj [(''serverIP'', JStr serverIP), (''vpnIP'', JStr vpnIP), (''tailscaleIP'', JStr vpnIP),
            (''zone'', JStr zone), (''customDomain'', JStr customDomain), (''certSANs'', JArr (map JStr sans)),
            (''certExpiry'', JStr expiry)]))))))))"

definition handleCustomDomain ::
  "((string \<times> string) list \<Rightarrow> (string \<times> string) list) \<Rightarrow> bfl_env \<Rightarrow> http_request \<Rightarrow> answered bfl" where
  "handleCustomDomain order E r =
     method_guard ''POST'' r
       (case field_str ''domain'' (rq_Body r) of
          None \<Rightarrow> refuse (''invalid request: '' @ decodeError E (rq_Body r))
        | Some d \<Rightarrow>
            let domain = TrimSuffix (TrimSpace d) ''.'' in
            orError ''save custom domain: '' (setCustomDomain E domain) (\<lambda>_.
            chk [] (getNodeIP E) (\<lambda>serverIP.
            chk [] (getActiveVPNIP E) (\<lambda>vpnIP.
            chk [] (current_zone E) (\<lambda>zone.
              if zone = [] then refuse ''zone not configured''
              else orError ''regenerate TLS cert: '' (regenerateTLSCert E serverIP vpnIP zone domain) (\<lambda>_.
                ignore (regenerateNginxConfig order E)
                  (chk [] (setCustomDomainOnServices E domain) (\<lambda>_.
                    ret (respondSuccess, [JRestartProxy])))))))))"

subsection \<open>Host control\<close>

definition hostctlToken :: "bfl_env \<Rightarrow> string bfl" where
  "hostctlToken E =
     orElse [] (get_data E Secret (FrameworkNamespace (beConfig E)) ''hostctl-secret'') (\<lambda>d. ret (value_of d ''token''))"

definition http_call :: "bfl_env \<Rightarrow> string \<Rightarrow> string \<Rightarrow> kv \<Rightarrow> string option \<Rightarrow> (nat \<times> kv \<times> string) bfl" where
  "http_call E m url headers body =
     ask_as (\<lambda>a. case a of AHttp c hs b \<Rightarrow> Some (c, hs, b) | _ \<Rightarrow> None) E (HttpDo m url headers body)"

definition hostctlRequest :: "bfl_env \<Rightarrow> string \<Rightarrow> string \<Rightarrow> string option \<Rightarrow> string bfl" where
  "hostctlRequest E m path body =
     (let url = ''http://hostctl-svc.'' @ FrameworkNamespace (beConfig E) @ ''.svc.cluster.local:9199'' @ path in
      chk [] (hostctlToken E) (\<lambda>token.
      chk ''request failed: '' (http_call E m url
          ((''Authorization'', ''Bearer '' @ token) # (if body \<noteq> None then [(''Content-Type'', ''application/json'')] else [])) body)
        (\<lambda>(code, _, answer). if code \<ge> 400 then fail (''hostctl returned '' @ nat_str code @ '': '' @ answer) else ret answer)))"

record WGStatusDetail =
  wgActive :: bool
  wgIP :: string
  wgPublicKey :: string
  wgEndpoint :: string
  wgHandshake :: string
  wgTransfer :: string
  wgMode :: string
  wgKillSwitch :: bool

definition parse_wireguard :: "bfl_env \<Rightarrow> string \<Rightarrow> WGStatusDetail option" where
  "parse_wireguard E data = do {
     ms \<leftarrow> members_of (unmarshal E data);
     act \<leftarrow> members_bool ''active'' ms False;
     ip \<leftarrow> members_str ''ip'' ms [];
     pub \<leftarrow> members_str ''publicKey'' ms [];
     ep \<leftarrow> members_str ''endpoint'' ms [];
     hs \<leftarrow> members_str ''latestHandshake'' ms [];
     tr \<leftarrow> members_str ''transfer'' ms [];
     mode \<leftarrow> members_str ''mode'' ms [];
     ks \<leftarrow> members_bool ''killSwitch'' ms False;
     Some \<lparr>wgActive = act, wgIP = ip, wgPublicKey = pub, wgEndpoint = ep, wgHandshake = hs, wgTransfer = tr,
           wgMode = mode, wgKillSwitch = ks\<rparr> }"

definition getWireGuardStatus :: "bfl_env \<Rightarrow> WGStatusDetail option bfl" where
  "getWireGuardStatus E =
     attempt (hostctlRequest E ''GET'' ''/wireguard/status'' None) (\<lambda>r.
       ret (case r of Inl _ \<Rightarrow> None | Inr body \<Rightarrow> parse_wireguard E body))"

definition wireguard_json :: "WGStatusDetail \<Rightarrow> jval" where
  "wireguard_json w = JObj [(''active'', JBool (wgActive w)), (''ip'', JStr (wgIP w)), (''publicKey'', JStr (wgPublicKey w)),
     (''endpoint'', JStr (wgEndpoint w)), (''latestHandshake'', JStr (wgHandshake w)), (''transfer'', JStr (wgTransfer w)),
     (''mode'', JStr (wgMode w)), (''killSwitch'', JBool (wgKillSwitch w))]"

definition vpn_json :: "string \<Rightarrow> string \<Rightarrow> bool \<Rightarrow> (string \<times> jval) list \<Rightarrow> jval" where
  "vpn_json t ip connected extra =
     JObj ([(''type'', JStr t), (''ip'', JStr ip), (''connected'', JBool connected)] @ extra)"

definition handleVPNStatus :: "bfl_env \<Rightarrow> http_request \<Rightarrow> answered bfl" where
  "handleVPNStatus E r =
     method_guard ''GET'' r
       (chk [] (getVPNState E) (\<lambda>(vpnType, vpnIP).
          if vpnType = VPNTailscale then
            chk [] (getTailscaleStatus E) (\<lambda>ts. finish (respondJSON (case ts of
                None \<Rightarrow> vpn_json vpnType vpnIP False []
              | Some s \<Rightarrow> vpn_json vpnType (tsIP s) True [(''tailscale'', tailscale_json s)])))
          else if vpnType = VPNWireGuard then
            chk [] (getWireGuardStatus E) (\<lambda>wg. finish (respondJSON (case wg of
                None \<Rightarrow> vpn_json vpnType vpnIP False []
              | Some w \<Rightarrow> if wgActive w then vpn_json vpnType (wgIP w) True [(''wireguard'', wireguard_json w)]
                         else vpn_json vpnType vpnIP False [])))
          else
            chk [] (getTailscaleIP E) (\<lambda>ip. finish (respondJSON
              (if ip \<noteq> [] then vpn_json VPNTailscale ip True [] else vpn_json vpnType vpnIP False [])))))"

subsection \<open>Switching\<close>

text \<open>What host control answers to \<^verbatim>\<open>/wireguard/enable\<close>: success, address and error; nothing when it is no JSON.\<close>

definition enable_result :: "bfl_env \<Rightarrow> string \<Rightarrow> bool \<times> string \<times> string" where
  "enable_result E data =
     (case members_of (unmarshal E data) of
        None \<Rightarrow> (False, [], [])
      | Some ms \<Rightarrow>
          (case (members_bool ''success'' ms False, members_str ''ip'' ms [], members_str ''error'' ms []) of
             (s, ip, e) \<Rightarrow> (s = Some True, (case ip of None \<Rightarrow> [] | Some x \<Rightarrow> x), (case e of None \<Rightarrow> [] | Some x \<Rightarrow> x))))"

definition handleWireGuardEnable :: "bfl_env \<Rightarrow> http_request \<Rightarrow> answered bfl" where
  "handleWireGuardEnable E r =
     method_guard ''POST'' r
       (case (field_str ''config'' (rq_Body r), field_str ''mode'' (rq_Body r), field_bool ''killSwitch'' (rq_Body r)) of
          (Some config, Some mode, Some killSwitch) \<Rightarrow>
            chk [] (getVPNState E) (\<lambda>(vpnType, _).
            chk [] (if vpnType = VPNTailscale then disableTailscale E else ret ()) (\<lambda>_.
            orError ''hostctl wireguard enable: ''
              (hostctlRequest E ''POST'' ''/wireguard/enable'' (Some (marshal E
                (JObj [(''config'', JStr config), (''mode'', JStr mode), (''killSwitch'', JBool killSwitch)])))) (\<lambda>answer.
              case enable_result E answer of (success, ip, err) \<Rightarrow>
                if \<not> success \<and> err \<noteq> [] then refuse err
                else ret (respondJSON (JObj [(''ip'', JStr ip), (''status'', JStr ''OK'')]), [JVPNEnabled VPNWireGuard ip]))))
        | _ \<Rightarrow> refuse (''invalid request: '' @ decodeError E (rq_Body r)))"

definition handleWireGuardDisable :: "bfl_env \<Rightarrow> http_request \<Rightarrow> answered bfl" where
  "handleWireGuardDisable E r =
     method_guard ''POST'' r
       (ignore (hostctlRequest E ''POST'' ''/wireguard/disable'' None)
         (ret (respondJSON (JObj [(''status'', JStr ''OK'')]), [JVPNDisabled])))"

definition handleTailscaleDisable :: "bfl_env \<Rightarrow> http_request \<Rightarrow> answered bfl" where
  "handleTailscaleDisable E r =
     method_guard ''POST'' r
       (chk [] (disableTailscale E) (\<lambda>_. ret (respondJSON (JObj [(''status'', JStr ''OK'')]), [JVPNDisabled])))"

end
