(* ===== verification/Bfl_Server.thy ===== *)
theory Bfl_Server
  imports Bfl_Vpn
begin

text \<open>
  \<^verbatim>\<open>internal/bfl/server.go\<close>: the requests of the user back end. A handler answers and may leave work to
  goroutines; \<open>run_job\<close> is that work. \<open>bfl_serve\<close> is the check of the header against forged requests and the
  multiplexer.
\<close>

subsection \<open>Information\<close>

definition findOwnerUser :: "bfl_env \<Rightarrow> User option bfl" where
  "findOwnerUser E =
     orElse [] (ListUsers E) (\<lambda>users.
       ret (List.find (\<lambda>u. GetUserAnnotation u (anno E ''owner-role'') = ''owner'') users))"

definition user_info :: "bfl_env \<Rightarrow> User \<Rightarrow> string \<Rightarrow> string \<Rightarrow> jval" where
  "user_info E user creator serverIP =
     (let ephemeral = GetUserAnnotation user (anno E ''is-ephemeral'');
          level = GetUserAnnotation user (anno E ''launcher-access-level'') in
      JObj ([(''name'', JStr (beUsername E)), (''owner_role'', JStr (GetUserAnnotation user (anno E ''owner-role''))),
         (''terminusName'', JStr (GetTerminusName E user)), (''is_ephemeral'', JBool (ParseBool ephemeral = Some True)),
         (''zone'', JStr (GetUserZone E user)), (''created_user'', JStr creator),
         (''wizard_complete'', JBool (IsWizardComplete E user))] @
        (case AtoiErr level of None \<Rightarrow> [] | Some l \<Rightarrow> [(''access_level'', JInt l)]) @
        (if serverIP \<noteq> [] then [(''server_ip'', JStr serverIP)] else [])))"

definition handleUserInfo :: "bfl_env \<Rightarrow> http_request \<Rightarrow> answered bfl" where
  "handleUserInfo E r =
     method_guard ''GET'' r
       (orError ''get user: '' (GetUser E []) (\<lambda>user.
          let creator = GetUserAnnotation user (anno E ''creator'') in
          chk [] (if creator = ''cli'' then findOwnerUser E else ret None) (\<lambda>owner.
          chk [] (getNodeIP E) (\<lambda>serverIP.
            finish (respondJSON (user_info E user (case owner of None \<Rightarrow> creator | Some u \<Rightarrow> uName u) serverIP))))))"

definition tailscale_enabled :: "bfl_env \<Rightarrow> User \<Rightarrow> bool" where
  "tailscale_enabled E user \<longleftrightarrow> Atoi (GetUserAnnotation user (anno E ''deny-all'')) = 1"

definition handleTerminusInfo :: "bfl_env \<Rightarrow> http_request \<Rightarrow> answered bfl" where
  "handleTerminusInfo E r =
     method_guard ''GET'' r
       (orError ''get user: '' (GetUser E []) (\<lambda>user.
        chk [] (GetOSVersion E) (\<lambda>version.
          let a = (\<lambda>k. JStr (GetUserAnnotation user (anno E k))) in
          finish (respondJSON (JObj [(''terminusName'', JStr (GetTerminusName E user)),
            (''wizardStatus'', JStr (GetWizardStatus E user)), (''selfhosted'', JBool True),
            (''tailScaleEnable'', JBool (tailscale_enabled E user)), (''osVersion'', JStr version),
            (''loginBackground'', a ''login-background''), (''avatar'', a ''avatar''), (''terminusId'', JStr []),
            (''did'', a ''user-did''), (''reverseProxy'', a ''reverse-proxy-type''), (''terminusd'', JStr ''0''),
            (''style'', a ''login-background-style'')])))))"

definition handleOlaresInfo :: "bfl_env \<Rightarrow> http_request \<Rightarrow> answered bfl" where
  "handleOlaresInfo E r =
     method_guard ''GET'' r
       (orError ''get user: '' (GetUser E []) (\<lambda>user.
        chk [] (GetOSVersion E) (\<lambda>version.
          let a = (\<lambda>k. JStr (GetUserAnnotation user (anno E k))) in
          finish (respondJSON (JObj [(''olaresId'', JStr (GetTerminusName E user)),
            (''wizardStatus'', JStr (GetWizardStatus E user)), (''enableReverseProxy'', JBool True),
            (''tailScaleEnable'', JBool (tailscale_enabled E user)), (''osVersion'', JStr version),
            (''loginBackground'', a ''login-background''), (''avatar'', a ''avatar''), (''id'', JStr []),
            (''did'', a ''user-did''), (''olaresd'', JStr ''0''), (''style'', a ''login-background-style'')])))))"

definition handleReDownloadCert :: "bfl_env \<Rightarrow> http_request \<Rightarrow> answered bfl" where
  "handleReDownloadCert E r =
     method_guard ''GET'' r
       (if header_get r ''X-From-Cronjob'' = [] \<and> first_value (rq_Query r) ''force'' \<noteq> ''true''
        then refuse ''re-download certificate: not allowed''
        else orError ''re-download cert: get user: '' (GetUser E (beUsername E)) (\<lambda>user.
          let tn = GetTerminusName E user; zone = UserZone tn in
          if tn = [] then refuse ''no olares name bound''
          else orError ''generate cert: '' (GenerateSelfSignedCert E zone tn) (\<lambda>(certPEM, keyPEM).
            orError ''update ssl secret: '' (EnsureSSLSecret E zone certPEM keyPEM) (\<lambda>_. finish respondSuccess))))"

definition app_json :: "AppInfo \<Rightarrow> jval" where
  "app_json a = JObj [(''name'', JStr (aiName a)), (''appid'', JStr (aiAppid a)), (''namespace'', JStr (aiNamespace a)),
     (''owner'', JStr (aiOwner a)), (''url'', JStr (aiURL a)), (''icon'', JStr (aiIcon a)), (''state'', JStr (aiState a))]"

definition handleMyApps :: "bfl_env \<Rightarrow> http_request \<Rightarrow> answered bfl" where
  "handleMyApps E r =
     method_guard ''POST'' r
       (orError ''list apps: '' (ListUserApps E) (\<lambda>apps.
          finish (respondJSON (NewListResult (map app_json apps)))))"

definition handleClusterMetrics :: "bfl_env \<Rightarrow> http_request \<Rightarrow> answered bfl" where
  "handleClusterMetrics E r =
     method_guard ''GET'' r
       (orElse JNull (ask_as (\<lambda>a. case a of AJson j \<Rightarrow> Some j | _ \<Rightarrow> None) E Metrics) (\<lambda>j. finish (respondJSON j)))"

definition handleGetSysConfig :: "bfl_env \<Rightarrow> http_request \<Rightarrow> answered bfl" where
  "handleGetSysConfig E r =
     method_guard ''GET'' r
       (orError ''get sys config: '' (GetUser E (beUsername E)) (\<lambda>user.
          finish (respondJSON (sys_config_json (GetSysConfig E user)))))"

subsection \<open>The wizard\<close>

definition handleBindingZone :: "bfl_env \<Rightarrow> http_request \<Rightarrow> answered bfl" where
  "handleBindingZone E r =
     method_guard ''POST'' r
       (case (field_str ''jws_signature'' (rq_Body r), field_str ''did'' (rq_Body r)) of
          (Some jws, Some did) \<Rightarrow>
            orError ''binding zone: get user: '' (GetUser E (beUsername E)) (\<lambda>user.
              let status = GetWizardStatus E user in
              if status \<noteq> WaitActivateVault \<and> status \<noteq> [] then refuse (''user wizard status invalid: '' @ status)
              else orError ''get domain: '' (GetDomain E) (\<lambda>domain.
                let user = SetUserAnnotation (anno E ''terminus-name'') (NewTerminusName (beUsername E) domain) user;
                    user = set_if (anno E ''jws-token-signature'') jws user;
                    user = set_if (anno E ''user-did'') did user;
                    user = SetUserAnnotation (anno E ''wizard-status'') WaitActivateSystem user in
                orError ''binding zone: update user: '' (UpdateUser E user) (\<lambda>_. finish respondSuccess)))
        | _ \<Rightarrow> refuse (''binding zone: '' @ decodeError E (rq_Body r)))"

definition handleUnbindZone :: "bfl_env \<Rightarrow> http_request \<Rightarrow> answered bfl" where
  "handleUnbindZone E r =
     method_guard ''GET'' r
       (orError ''unbind zone: get user: '' (GetUser E []) (\<lambda>user.
          let user = DeleteUserAnnotation (anno E ''task-enable-ssl'') (DeleteUserAnnotation (anno E ''zone'')
                (DeleteUserAnnotation (anno E ''terminus-name'') user)) in
          orError ''unbind zone: update user: '' (UpdateUser E user) (\<lambda>_.
            ignore (do_call E (DataDelete Secret (beNamespace E) SSLSecretName)) (finish respondSuccess))))"

definition activated_user :: "bfl_env \<Rightarrow> string \<Rightarrow> User \<Rightarrow> User" where
  "activated_user E userZone user =
     (let user = SetUserAnnotation (anno E ''zone'') userZone user;
          user = (if GetUserAnnotation user (anno E ''launcher-access-level'') = []
                  then SetUserAnnotation (anno E ''launcher-auth-policy'') ''two_factor''
                    (SetUserAnnotation (anno E ''launcher-allow-cidr'') ''0.0.0.0/0''
                      (SetUserAnnotation (anno E ''launcher-access-level'') ''1'' user))
                  else user)
      in SetUserAnnotation (anno E ''wizard-status'') WaitResetPassword user)"

definition locale_settings :: "bfl_env \<Rightarrow> string \<Rightarrow> string \<Rightarrow> string \<Rightarrow> User \<Rightarrow> User" where
  "locale_settings E language location theme user =
     SetUserAnnotation (anno E ''theme'') (if theme = [] then ''light'' else theme)
       (set_if (anno E ''location'') location (set_if (anno E ''language'') language user))"

definition activate_new :: "bfl_env \<Rightarrow> http_request \<Rightarrow> string \<Rightarrow> User \<Rightarrow> answered bfl" where
  "activate_new E r terminusName user =
     (case (field_str ''language'' (rq_Body r), field_str ''location'' (rq_Body r), field_str ''theme'' (rq_Body r)) of
        (Some language, Some location, Some theme) \<Rightarrow>
          let user = locale_settings E language location theme user; userZone = UserZone terminusName in
          orError ''activate: generate cert: '' (GenerateSelfSignedCert E userZone terminusName) (\<lambda>(certPEM, keyPEM).
          orError ''activate: store cert: '' (EnsureSSLSecret E userZone certPEM keyPEM) (\<lambda>_.
          orError ''activate: update user: '' (UpdateUser E (activated_user E userZone user)) (\<lambda>_.
            finish respondSuccess)))
      | _ \<Rightarrow> refuse (''activate: parse request: '' @ decodeError E (rq_Body r)))"

definition handleActivate :: "bfl_env \<Rightarrow> http_request \<Rightarrow> answered bfl" where
  "handleActivate E r =
     method_guard ''POST'' r
       (orError ''activate: get user: '' (GetUser E []) (\<lambda>user.
          let terminusName = GetTerminusName E user;
              zone = GetUserAnnotation user (anno E ''zone''); status = GetWizardStatus E user in
          if terminusName = [] then refuse ''activate: no olares name bound''
          else if zone \<noteq> [] \<or> status = NetworkActivating then finish respondSuccess
          else if status = NetworkActivateFailed then
            orError ''activate: update status: ''
              (UpdateUser E (SetUserAnnotation (anno E ''wizard-status'') NetworkActivating user))
              (\<lambda>_. finish respondSuccess)
          else activate_new E r terminusName user))"

definition handleConfigSystem :: "bfl_env \<Rightarrow> http_request \<Rightarrow> answered bfl" where
  "handleConfigSystem E r =
     (if rq_Method r = ''GET'' then handleGetSysConfig E r
      else if rq_Method r = ''POST'' then
        (case (field_str ''language'' (rq_Body r), field_str ''location'' (rq_Body r), field_str ''theme'' (rq_Body r)) of
           (Some language, Some location, Some theme) \<Rightarrow>
             orError ''config system: get user: '' (GetUser E (beUsername E)) (\<lambda>user.
             orError ''config system: update user: ''
               (UpdateUser E (SaveSysConfig E \<lparr>scLanguage = language, scLocation = location, scTheme = theme\<rparr> user))
               (\<lambda>_. finish respondSuccess))
         | _ \<Rightarrow> refuse (''config system: '' @ decodeError E (rq_Body r)))
      else refuse ''method not allowed'')"

subsection \<open>Tailscale\<close>

definition tailscale_container :: container where
  "tailscale_container =
     \<lparr>cnName = ''tailscale'', cnImage = ''ghcr.io/packalares/tailscale:stable'', cnCapabilities = [''NET_ADMIN'', ''NET_RAW''],
      cnEnv = [(''TS_KUBE_SECRET'', ''tailscale-state'', None), (''TS_USERSPACE'', ''false'', None),
        (''TS_AUTH_KEY'', [], Some (EnvSecret ''tailscale-config'' ''auth-key'' True)),
        (''TS_HOSTNAME'', [], Some (EnvSecret ''tailscale-config'' ''hostname'' True)),
        (''TS_EXTRA_ARGS'', [], Some (EnvSecret ''tailscale-config'' ''extra-args'' True))],
      cnMounts = [(''dev-tun'', ''/dev/net/tun''), (''state'', ''/var/lib/tailscale'')],
      cnRequests = [(''cpu'', ''10m''), (''memory'', ''32Mi'')], cnLimits = [(''cpu'', ''200m''), (''memory'', ''128Mi'')]\<rparr>"

definition createTailscaleDeployment :: "bfl_env \<Rightarrow> string \<Rightarrow> unit bfl" where
  "createTailscaleDeployment E ns =
     do_call E (WorkloadCreate Deployment
       \<lparr>wlName = ''tailscale'', wlNamespace = ns, wlLabels = [(''app'', ''tailscale'')], wlReplicas = 1,
        wlSelector = Some ''app=tailscale'', wlAnnotations = [], wlHostNetwork = True,
        wlDNSPolicy = ''ClusterFirstWithHostNet'', wlServiceAccount = ''packalares-admin'', wlInit = [],
        wlContainers = [tailscale_container],
        wlVolumes = [(''dev-tun'', ''/dev/net/tun''), (''state'', ''/var/lib/packalares/tailscale-state'')]\<rparr>)"

definition control_url :: "string \<Rightarrow> string" where
  "control_url extraArgs =
     foldl (\<lambda>u part. if HasPrefix part ''--login-server='' then TrimPrefix part ''--login-server='' else u) [] (Fields extraArgs)"

definition tailscale_entries :: "string \<Rightarrow> string \<Rightarrow> string \<Rightarrow> kv" where
  "tailscale_entries authKey hostname controlURL =
     [(''auth-key'', authKey), (''hostname'', if hostname = [] then ''packalares'' else hostname),
      (''extra-args'', join '' '' (''--accept-routes'' # (if controlURL \<noteq> [] then [''--login-server='' @ controlURL] else [])))]"

definition save_tailscale :: "bfl_env \<Rightarrow> string \<Rightarrow> kv \<Rightarrow> (unit \<Rightarrow> answered bfl) \<Rightarrow> answered bfl" where
  "save_tailscale E ns es k =
     attempt (get_data E Secret ns ''tailscale-config'') (\<lambda>r. case r of
         Inl _ \<Rightarrow> orError ''create secret: '' (do_call E (DataCreate Secret ns ''tailscale-config'' es)) (\<lambda>_.
           ignore (do_call E (DataCreate Secret ns ''tailscale-state'' [])) (k ()))
       | Inr d \<Rightarrow> orError ''update secret: '' (do_call E (DataUpdate Secret ns ''tailscale-config'' (set_entries es d))) k)"

definition deploy_tailscale :: "bfl_env \<Rightarrow> string \<Rightarrow> unit bfl" where
  "deploy_tailscale E ns =
     attempt (get_workload E Deployment ns ''tailscale'') (\<lambda>r. case r of
         Inl _ \<Rightarrow> ignore (createTailscaleDeployment E ns) (ret ())
       | Inr _ \<Rightarrow> attempt (get_workload E Deployment ns ''tailscale'') (\<lambda>r. case r of
             Inl _ \<Rightarrow> ret ()
           | Inr dep \<Rightarrow> ignore (restart_workload E Deployment ns dep) (ret ())))"

definition handleTailscaleSettings :: "bfl_env \<Rightarrow> http_request \<Rightarrow> answered bfl" where
  "handleTailscaleSettings E r =
     (let ns = FrameworkNamespace (beConfig E) in
      if rq_Method r = ''GET'' then
        attempt (get_data E Secret ns ''tailscale-config'') (\<lambda>s.
          finish (respondJSON (case s of
              Inl _ \<Rightarrow> JObj [(''auth_key'', JStr []), (''control_url'', JStr []), (''hostname'', JStr ''packalares'')]
            | Inr d \<Rightarrow> JObj [(''auth_key'', JStr (value_of d ''auth-key'')),
                (''control_url'', JStr (control_url (value_of d ''extra-args''))), (''hostname'', JStr (value_of d ''hostname''))])))
      else if rq_Method r = ''POST'' then
        (case (field_str ''auth_key'' (rq_Body r), field_str ''hostname'' (rq_Body r), field_str ''control_url'' (rq_Body r)) of
           (Some authKey, Some hostname, Some controlURL) \<Rightarrow>
             save_tailscale E ns (tailscale_entries authKey hostname controlURL) (\<lambda>_.
             chk [] (deploy_tailscale E ns) (\<lambda>_.
               ret (respondJSON (JObj [(''message'', JStr ''Tailscale config updated, restarting...''), (''status'', JStr ''OK'')]),
                 [JTailscaleEnabled])))
         | _ \<Rightarrow> refuse ''invalid request'')
      else finish (http_error ''method not allowed'' 405))"

subsection \<open>IP access\<close>

definition ip_marker :: string where
  "ip_marker = ''# IP_ACCESS_BLOCK''"

definition blockLine :: string where
  "blockLine = ip_marker @ nl @ ''    return 403 '' @ [CHR 0x27] @ ''IP access is disabled. Use your domain instead.'' @ [CHR 0x27] @ '';'' @ nl"

text \<open>\<^verbatim>\<open># === IP ACCESS ===\<close> with the three bars as the bytes of the box-drawing character U+2550.\<close>

definition bars :: string where
  "bars = concat (replicate 3 [CHR 0xE2, CHR 0x95, CHR 0x90])"

definition ip_section :: string where
  "ip_section = ''# '' @ bars @ '' IP ACCESS '' @ bars"

definition listenLine :: string where
  "listenLine = ''listen 443 ssl default_server;''"

definition block_ip :: "string \<Rightarrow> string" where
  "block_ip conf =
     (if Contains conf ip_marker then conf
      else case IndexStr conf ip_section of
          None \<Rightarrow> conf
        | Some i \<Rightarrow> (case IndexStr (drop i conf) listenLine of
              None \<Rightarrow> conf
            | Some j \<Rightarrow>
                let insertAt = i + j + length listenLine in
                (case IndexStr (drop insertAt conf) nl of
                   None \<Rightarrow> conf
                 | Some k \<Rightarrow>
                     let at = insertAt + k + 1 in take at conf @ ''    '' @ blockLine @ drop at conf)))"

definition unblock_ip :: "string \<Rightarrow> string" where
  "unblock_ip conf = ReplaceAll conf blockLine []"

definition set_proxy_conf :: "bfl_env \<Rightarrow> string \<Rightarrow> (string \<Rightarrow> string) \<Rightarrow> (unit \<Rightarrow> answered bfl) \<Rightarrow> answered bfl" where
  "set_proxy_conf E ns f k =
     orError ''read proxy config: '' (get_data E ConfigMap ns ''proxy-config'') (\<lambda>d.
       if d = [] then panic
       else orError ''update proxy config: ''
         (do_call E (DataUpdate ConfigMap ns ''proxy-config'' (AList.update ''nginx.conf'' (f (value_of d ''nginx.conf'')) d))) k)"

definition handleIPAccess :: "bfl_env \<Rightarrow> http_request \<Rightarrow> answered bfl" where
  "handleIPAccess E r =
     (let ns = FrameworkNamespace (beConfig E) in
      if rq_Method r = ''GET'' then
        attempt (get_data E ConfigMap ns ''packalares-settings'') (\<lambda>s.
          finish (respondJSON (JObj [(''enabled'', JBool (case s of
              Inl _ \<Rightarrow> True | Inr d \<Rightarrow> map_of d ''ip_access_enabled'' \<noteq> Some ''false''))])))
      else if rq_Method r = ''POST'' then
        (case field_bool ''enabled'' (rq_Body r) of
           None \<Rightarrow> refuse ''invalid request''
         | Some enabled \<Rightarrow>
             orError ''save setting: '' (put_entries E ConfigMap ns ''packalares-settings''
                 [(''ip_access_enabled'', if enabled then ''true'' else ''false'')]) (\<lambda>_.
             set_proxy_conf E ns (if enabled then unblock_ip else block_ip) (\<lambda>_.
               ret (respondJSON (JObj [(''enabled'', JBool enabled)]), [JRestartProxy]))))
      else refuse ''method not allowed'')"

end
