(* ===== verification/Bfl_Admin.thy ===== *)
theory Bfl_Admin
  imports Bfl_Server
begin

text \<open>
  \<^verbatim>\<open>internal/bfl/server.go\<close>, second part: the SSH settings of the host, updates of the system's
  workloads, users and passwords, and the routes.
\<close>

subsection \<open>SSH\<close>

definition envOrDefault :: "bfl_env \<Rightarrow> string \<Rightarrow> string \<Rightarrow> string" where
  "envOrDefault E key d = (if getenv E key \<noteq> [] then getenv E key else d)"

definition ssh_auth :: "bfl_env \<Rightarrow> kv" where
  "ssh_auth E = (let token = getenv E ''HOSTCTL_TOKEN'' in
     if token \<noteq> [] then [(''Authorization'', ''Bearer '' @ token)] else [])"

definition ssh_state :: "jval option \<Rightarrow> jval option" where
  "ssh_state body = do {
     enabled \<leftarrow> field_bool ''enabled'' body;
     port \<leftarrow> field_int ''port'' body;
     Some (JObj [(''enabled'', JBool enabled), (''port'', JInt port), (''read_only'', JBool False)]) }"

definition handleSSHSettings :: "bfl_env \<Rightarrow> http_request \<Rightarrow> answered bfl" where
  "handleSSHSettings E r =
     (let url = envOrDefault E ''HOSTCTL_URL'' ''http://hostctl-svc:9199'' in
      if rq_Method r = ''GET'' then
        orError ''ssh status: hostctl unreachable: '' (http_call E ''GET'' (url @ ''/ssh/status'') (ssh_auth E) None) (\<lambda>(_, _, body).
          (case ssh_state (unmarshal E body) of
             None \<Rightarrow> refuse (''ssh status: decode: '' @ decodeError E (unmarshal E body))
           | Some s \<Rightarrow> finish (respondJSON s)))
      else if rq_Method r = ''POST'' then
        (case (field_bool ''enabled'' (rq_Body r), field_int ''port'' (rq_Body r)) of
           (Some enabled, Some port) \<Rightarrow>
             orError ''ssh config: hostctl unreachable: ''
               (http_call E ''POST'' (url @ ''/ssh/config'') ((''Content-Type'', ''application/json'') # ssh_auth E)
                 (Some (marshal E (JObj [(''enabled'', JBool enabled), (''port'', JInt port)])))) (\<lambda>(code, _, body).
               if code \<noteq> 200 then refuse (''ssh config: hostctl error: '' @ body)
               else (case ssh_state (unmarshal E body) of
                   None \<Rightarrow> refuse (''ssh config: decode: '' @ decodeError E (unmarshal E body))
                 | Some s \<Rightarrow> finish (respondJSON s)))
         | _ \<Rightarrow> refuse (''ssh config: '' @ decodeError E (rq_Body r)))
      else refuse ''method not allowed'')"

subsection \<open>Updates\<close>

definition parseImageTag :: "string \<Rightarrow> string \<times> string" where
  "parseImageTag img =
     (case IndexByte img CHR ''@'' of
        Some i \<Rightarrow> (take i img, drop (i + 1) img)
      | None \<Rightarrow>
          (case LastIndexByte img CHR '':'' of
             Some i \<Rightarrow>
               if CHR ''/'' \<notin> set (drop (i + 1) img) then (take i img, drop (i + 1) img)
               else (img, ''latest'')
           | None \<Rightarrow> (img, ''latest'')))"

record DeploymentUpdateInfo =
  duName :: string
  duNamespace :: string
  duCurrentImage :: string
  duCurrentTag :: string
  duCurrentDigest :: string
  duRemoteDigest :: string
  duUpdateAvailable :: bool
  duPodStatus :: string
  duType :: string
  duUpdateStatus :: string

record updateStateEntry =
  usName :: string
  usNamespace :: string
  usStartedAt :: string
  usStatus :: string

definition updateKeyPrefix :: string where
  "updateKeyPrefix = ''packalares:update:''"

definition entry_json :: "updateStateEntry \<Rightarrow> jval" where
  "entry_json e = JObj [(''name'', JStr (usName e)), (''namespace'', JStr (usNamespace e)),
     (''startedAt'', JStr (usStartedAt e)), (''status'', JStr (usStatus e))]"

definition parse_entry :: "jval option \<Rightarrow> updateStateEntry option" where
  "parse_entry body = do {
     n \<leftarrow> field_str ''name'' body; ns \<leftarrow> field_str ''namespace'' body;
     t \<leftarrow> field_str ''startedAt'' body; s \<leftarrow> field_str ''status'' body;
     Some \<lparr>usName = n, usNamespace = ns, usStartedAt = t, usStatus = s\<rparr> }"

definition pod_status :: "pod \<Rightarrow> string" where
  "pod_status p =
     (if pdDeleting p then ''Terminating''
      else foldl (\<lambda>s cs. case csWaiting cs of Some reason \<Rightarrow> reason | None \<Rightarrow> s) (pdPhase p) (pdContainers p))"

definition pod_digests :: "string \<Rightarrow> pod list \<Rightarrow> (string \<times> string \<times> string) list \<Rightarrow> (string \<times> string \<times> string) list" where
  "pod_digests ns pods m =
     foldl (\<lambda>m p. foldl (\<lambda>m cs.
         if Contains (csImageID cs) ''@sha256:''
         then AList.update (ns @ ''/'' @ csImage cs) (SplitN2 (csImageID cs) CHR ''@'' ! 1, pod_status p) m else m)
       m (pdInit p @ pdContainers p)) m pods"

fun all_digests :: "bfl_env \<Rightarrow> string list \<Rightarrow> (string \<times> string \<times> string) list \<Rightarrow> (string \<times> string \<times> string) list bfl" where
  "all_digests E [] m = ret m"
| "all_digests E (ns # nss) m =
     orElse [] (list_pods E ns []) (\<lambda>pods. all_digests E nss (pod_digests ns pods m))"

definition list_workloads :: "bfl_env \<Rightarrow> wl_kind \<Rightarrow> string \<Rightarrow> workload list bfl" where
  "list_workloads E k ns = ask_as as_workloads E (WorkloadList k ns)"

fun all_workloads :: "bfl_env \<Rightarrow> string list \<Rightarrow> workload list bfl" where
  "all_workloads E [] = ret []"
| "all_workloads E (ns # nss) =
     orElse [] (list_workloads E Deployment ns) (\<lambda>ds.
     orElse [] (list_workloads E DaemonSet ns) (\<lambda>dss.
     chk [] (all_workloads E nss) (\<lambda>rest. ret (ds @ dss @ rest))))"

fun update_states :: "bfl_env \<Rightarrow> string list \<Rightarrow> (string \<times> updateStateEntry) list \<Rightarrow> (string \<times> updateStateEntry) list bfl" where
  "update_states E [] m = ret m"
| "update_states E (key # keys) m =
     attempt (ask_as as_text E (RedisGet key)) (\<lambda>r. case r of
         Inl _ \<Rightarrow> update_states E keys m
       | Inr v \<Rightarrow> (case parse_entry (unmarshal E v) of
             None \<Rightarrow> update_states E keys m
           | Some e \<Rightarrow> chk [] (now E) (\<lambda>t.
               if expired E t (usStartedAt e) then ignore (do_call E (RedisDel key)) (update_states E keys m)
               else update_states E keys (AList.update (usNamespace e @ ''/'' @ usName e) e m))))"

definition remote_digest :: "bfl_env \<Rightarrow> string \<Rightarrow> string \<Rightarrow> string bfl" where
  "remote_digest E shortName tag =
     attempt (http_call E ''GET'' (''https://ghcr.io/token?scope=repository:packalares/'' @ shortName @ '':pull'') [] None) (\<lambda>r.
       let token = (case r of Inl _ \<Rightarrow> []
           | Inr (_, _, body) \<Rightarrow> (case field_str ''token'' (unmarshal E body) of None \<Rightarrow> [] | Some t \<Rightarrow> t)) in
       attempt (http_call E ''HEAD'' (''https://ghcr.io/v2/packalares/'' @ shortName @ ''/manifests/'' @ tag)
           ((''Accept'', ''application/vnd.docker.distribution.manifest.v2+json'') #
             (if token \<noteq> [] then [(''Authorization'', ''Bearer '' @ token)] else [])) None) (\<lambda>r.
         ret (case r of Inl _ \<Rightarrow> []
           | Inr (code, hs, _) \<Rightarrow> if code = 200 then first_value hs ''Docker-Content-Digest'' else [])))"

definition own_image :: "container \<Rightarrow> bool" where
  "own_image c \<longleftrightarrow> HasPrefix (cnImage c) ''ghcr.io/packalares/''"

definition or_text :: "string \<Rightarrow> string \<Rightarrow> string" where
  "or_text s d = (if s = [] then d else s)"

definition check_container ::
  "bfl_env \<Rightarrow> (string \<times> string \<times> string) list \<Rightarrow> (string \<times> updateStateEntry) list \<Rightarrow> workload \<Rightarrow> container \<Rightarrow> DeploymentUpdateInfo bfl" where
  "check_container E digests states wl c =
     (case parseImageTag (cnImage c) of (currentImage, currentTag) \<Rightarrow>
      let shortName = TrimPrefix currentImage ''ghcr.io/packalares/'';
          imageType = (if currentTag = ''latest'' then ''packalares'' else ''infrastructure'');
          key = wlNamespace wl @ ''/'' @ wlName wl;
          pi = (case map_of digests (wlNamespace wl @ ''/'' @ cnImage c) of None \<Rightarrow> ([], []) | Some p \<Rightarrow> p);
          currentDigest = or_text (fst pi) ''unknown''; podStatus = or_text (snd pi) ''Unknown'' in
      chk [] (if imageType = ''packalares'' then remote_digest E shortName currentTag else ret []) (\<lambda>remoteDigest.
        let updateAvailable = (imageType = ''packalares'' \<and> remoteDigest \<noteq> [] \<and> currentDigest \<noteq> ''unknown'' \<and> remoteDigest \<noteq> currentDigest);
            status = (case map_of states key of None \<Rightarrow> [] | Some e \<Rightarrow> usStatus e);
            finished = (podStatus = ''Running'' \<and> (status = ''restarting'' \<or> status = ''pulling'')) in
        ignore (if finished then do_call E (RedisDel (updateKeyPrefix @ key)) else ret ())
          (ret \<lparr>duName = wlName wl, duNamespace = wlNamespace wl, duCurrentImage = currentImage, duCurrentTag = currentTag,
             duCurrentDigest = take 19 currentDigest, duRemoteDigest = take 19 remoteDigest,
             duUpdateAvailable = updateAvailable, duPodStatus = podStatus, duType = imageType,
             duUpdateStatus = (if finished then ''complete'' else status)\<rparr>)))"

text \<open>One entry per workload, for its first image of the system; \<open>seen\<close> holds the workloads that have one.\<close>

fun check_workloads ::
  "bfl_env \<Rightarrow> (string \<times> string \<times> string) list \<Rightarrow> (string \<times> updateStateEntry) list \<Rightarrow> string list \<Rightarrow> workload list \<Rightarrow>
   DeploymentUpdateInfo list bfl" where
  "check_workloads E digests states seen [] = ret []"
| "check_workloads E digests states seen (wl # wls) =
     (let key = wlNamespace wl @ ''/'' @ wlName wl in
      case List.find own_image (wlInit wl @ wlContainers wl) of
        None \<Rightarrow> check_workloads E digests states seen wls
      | Some c \<Rightarrow>
          if key \<in> set seen then check_workloads E digests states seen wls
          else chk [] (check_container E digests states wl c) (\<lambda>info.
            chk [] (check_workloads E digests states (key # seen) wls) (\<lambda>infos. ret (info # infos))))"

definition update_json :: "DeploymentUpdateInfo \<Rightarrow> jval" where
  "update_json u = JObj [(''name'', JStr (duName u)), (''namespace'', JStr (duNamespace u)),
     (''currentImage'', JStr (duCurrentImage u)), (''currentTag'', JStr (duCurrentTag u)),
     (''currentDigest'', JStr (duCurrentDigest u)), (''remoteDigest'', JStr (duRemoteDigest u)),
     (''updateAvailable'', JBool (duUpdateAvailable u)), (''podStatus'', JStr (duPodStatus u)),
     (''type'', JStr (duType u)), (''updateStatus'', JStr (duUpdateStatus u))]"

definition handleUpdates :: "bfl_env \<Rightarrow> http_request \<Rightarrow> answered bfl" where
  "handleUpdates E r =
     method_guard ''GET'' r
       (orError ''list namespaces: '' (ask_as as_names E NamespaceList) (\<lambda>nss.
        chk [] (all_digests E nss []) (\<lambda>digests.
        chk [] (all_workloads E nss) (\<lambda>wls.
        orElse [] (ask_as as_names E (RedisKeys (updateKeyPrefix @ ''*''))) (\<lambda>keys.
        chk [] (update_states E keys []) (\<lambda>states.
        chk [] (check_workloads E digests states [] wls) (\<lambda>infos.
          finish (respondJSON (JArr (map update_json infos))))))))))"

definition set_state :: "bfl_env \<Rightarrow> string \<Rightarrow> string \<Rightarrow> string \<Rightarrow> unit bfl" where
  "set_state E ns name status l =
     do_call E (RedisSet (updateKeyPrefix @ ns @ ''/'' @ name)
       (marshal E (entry_json \<lparr>usName = name, usNamespace = ns, usStartedAt = clock E l, usStatus = status\<rparr>))) l"

definition restart_found :: "bfl_env \<Rightarrow> wl_kind \<Rightarrow> string \<Rightarrow> string \<Rightarrow> workload \<Rightarrow> answered bfl" where
  "restart_found E k ns name wl =
     ignore (case wlSelector wl of Some sel \<Rightarrow> do_call E (PodDeleteCollection ns sel) | None \<Rightarrow> ret ())
       (attempt (restart_workload E k ns wl) (\<lambda>r. case r of
            Inl e \<Rightarrow> ignore (set_state E ns name ''failed'') (refuse (''rollout restart failed: '' @ e))
          | Inr _ \<Rightarrow> ignore (set_state E ns name ''pulling'')
              (finish (respondJSON (JObj [(''message'', JStr (''Rolling restart triggered for '' @ ns @ ''/'' @ name)),
                 (''name'', JStr name), (''namespace'', JStr ns), (''status'', JStr ''restarting''),
                 (''updateStatus'', JStr ''pulling'')])))))"

definition update_target :: "bfl_env \<Rightarrow> string \<Rightarrow> string \<times> string" where
  "update_target E path =
     (case SplitN2 path CHR ''/'' of [ns, name] \<Rightarrow> (ns, name) | _ \<Rightarrow> (FrameworkNamespace (beConfig E), path))"

definition handleUpdateRestart :: "bfl_env \<Rightarrow> http_request \<Rightarrow> answered bfl" where
  "handleUpdateRestart E r =
     method_guard ''POST'' r
       (let path = TrimSuffix (TrimPrefix (rq_Path r) ''/api/settings/updates/'') ''/'' in
        if path = [] then refuse ''deployment name is required''
        else case update_target E path of (ns, name) \<Rightarrow>
          ignore (set_state E ns name ''restarting'')
            (attempt (get_workload E Deployment ns name) (\<lambda>r. case r of
                Inr dep \<Rightarrow> restart_found E Deployment ns name dep
              | Inl _ \<Rightarrow> attempt (get_workload E DaemonSet ns name) (\<lambda>r. case r of
                    Inr ds \<Rightarrow> restart_found E DaemonSet ns name ds
                  | Inl _ \<Rightarrow> ignore (do_call E (RedisDel (updateKeyPrefix @ ns @ ''/'' @ name)))
                      (refuse (''workload '' @ [CHR 0x22] @ name @ [CHR 0x22] @ '' not found in '' @ ns))))))"

subsection \<open>Users\<close>

definition iam_user :: "bfl_env \<Rightarrow> User \<Rightarrow> string list \<Rightarrow> jval" where
  "iam_user E u roles =
     (case extractUserSpec u of (displayName, description, email, state) \<Rightarrow>
      let a = (\<lambda>k. JStr (GetUserAnnotation u (anno E k))) in
      JObj [(''uid'', JStr (uUID u)), (''name'', JStr (uName u)), (''display_name'', JStr displayName),
        (''description'', JStr description), (''email'', JStr email), (''state'', JStr state),
        (''last_login_time'', case extractLastLoginTime E u of None \<Rightarrow> JNull | Some t \<Rightarrow> JInt t),
        (''creation_timestamp'', JInt (uCreated u)), (''avatar'', a ''avatar''), (''terminusName'', a ''terminus-name''),
        (''wizard_complete'', JBool (IsWizardComplete E u)), (''roles'', JArr (map JStr roles)),
        (''memory_limit'', a ''user-memory-limit''), (''cpu_limit'', a ''user-cpu-limit'')])"

fun iam_users :: "bfl_env \<Rightarrow> User list \<Rightarrow> jval list bfl" where
  "iam_users E [] = ret []"
| "iam_users E (u # us) =
     orElse [] (GetUserRoles E (uName u)) (\<lambda>roles.
     chk [] (iam_users E us) (\<lambda>rest. ret (iam_user E u roles # rest)))"

definition handleListUsers :: "bfl_env \<Rightarrow> http_request \<Rightarrow> answered bfl" where
  "handleListUsers E r =
     method_guard ''GET'' r
       (orError ''list users: '' (ListUsers E) (\<lambda>users.
        chk [] (iam_users E users) (\<lambda>js. finish (respondJSON (NewListResult js)))))"

definition handleListRoles :: "http_request \<Rightarrow> answered bfl" where
  "handleListRoles r =
     method_guard ''GET'' r (finish (respondJSON (NewListResult (map JStr [''owner'', ''admin'', ''owner'']))))"

text \<open>The texts of \<^verbatim>\<open>pkg/validation/password.go\<close>.\<close>

fun validation_text :: "password_error \<Rightarrow> string" where
  "validation_text TooShort = ''password must be at least 8 characters''"
| "validation_text NoUpper = ''password must contain at least one uppercase letter''"
| "validation_text NoLower = ''password must contain at least one lowercase letter''"
| "validation_text NoDigit = ''password must contain at least one number''"
| "validation_text NoSpecial = ''password must contain at least one special character''"

definition baseDN :: string where
  "baseDN = ''dc=packalares,dc=local''"

definition people_dn :: "string \<Rightarrow> string" where
  "people_dn uid = ''uid='' @ uid @ '',ou=people,'' @ baseDN"

definition ldap_addr :: "bfl_env \<Rightarrow> string" where
  "ldap_addr E = or_text (getenv E ''LLDAP_HOST'') (''lldap-svc.'' @ PlatformNamespace (beConfig E)) @ '':3890''"

definition change_password :: "bfl_env \<Rightarrow> string \<Rightarrow> string \<Rightarrow> string \<Rightarrow> User \<Rightarrow> answered bfl" where
  "change_password E userName current password user =
     (let userDN = people_dn (escapeFilter E userName) in
      if \<not> IsWizardComplete E user then
        orError ''reset password: admin bind: '' (do_call E (LdapBind (people_dn ''admin'') (getenv E ''LLDAP_ADMIN_PASSWORD''))) (\<lambda>_.
        orError ''reset password: ldap modify: '' (do_call E (LdapModify userDN [] password)) (\<lambda>_.
          ignore (UpdateUser E (SetUserAnnotation (anno E ''wizard-status'') Completed user))
            (ret (respondSuccess, [JDeleteWizard]))))
      else
        attempt (do_call E (LdapBind userDN current)) (\<lambda>r. case r of
            Inl _ \<Rightarrow> refuse ''reset password: current password is incorrect''
          | Inr _ \<Rightarrow> orError ''reset password: ldap modify: '' (do_call E (LdapModify userDN current password)) (\<lambda>_.
              finish respondSuccess)))"

definition handleResetPassword :: "bfl_env \<Rightarrow> http_request \<Rightarrow> string \<Rightarrow> answered bfl" where
  "handleResetPassword E r userName =
     (case (field_str ''current_password'' (rq_Body r), field_str ''password'' (rq_Body r)) of
        (Some current, Some password) \<Rightarrow>
          (case ValidatePassword password of
             Some e \<Rightarrow> refuse (''reset password: '' @ validation_text e)
           | None \<Rightarrow>
               if password = current then refuse ''reset password: passwords must be different''
               else orError ''reset password: get user: '' (GetUser E userName) (\<lambda>user.
                 orError ''reset password: ldap connect: '' (do_call E (LdapDial (ldap_addr E))) (\<lambda>_.
                   change_password E userName current password user)))
      | _ \<Rightarrow> refuse (''reset password: '' @ decodeError E (rq_Body r)))"

definition handleUserRoutes :: "bfl_env \<Rightarrow> http_request \<Rightarrow> answered bfl" where
  "handleUserRoutes E r =
     (case SplitN2 (TrimPrefix (rq_Path r) ''/bfl/iam/v1alpha1/users/'') CHR ''/'' of
        [userName, subPath] \<Rightarrow>
          if subPath = ''password'' \<and> rq_Method r = ''PUT'' then handleResetPassword E r userName
          else if subPath = ''login-records'' \<and> rq_Method r = ''GET'' then finish (respondJSON (NewListResult []))
          else if subPath = ''metrics'' \<and> rq_Method r = ''GET'' then finish (respondJSON (JObj []))
          else refuse ''not found''
      | _ \<Rightarrow> refuse ''invalid user route'')"

subsection \<open>Goroutines\<close>

definition deleteWizard :: "bfl_env \<Rightarrow> unit bfl" where
  "deleteWizard E =
     (let ns = UserNamespace (Username (beConfig E)) in
      ignore (do_call E (WorkloadDelete Deployment ns ''wizard''))
        (ignore (do_call E (ServiceDelete ns ''wizard-svc'')) (ret ())))"

fun run_job :: "((string \<times> string) list \<Rightarrow> (string \<times> string) list) \<Rightarrow> bfl_env \<Rightarrow> job \<Rightarrow> unit bfl" where
  "run_job order E JTailscaleEnabled = afterTailscaleEnabled order E"
| "run_job order E (JVPNEnabled t ip) = afterVPNEnabled order E t ip"
| "run_job order E JVPNDisabled = afterVPNDisabled order E"
| "run_job order E JRestartProxy = restartProxy E"
| "run_job order E JDeleteWizard = deleteWizard E"

subsection \<open>Routes\<close>

text \<open>The handler of a path, as \<^verbatim>\<open>registerRoutes\<close> lists them; \<open>p\<close> is the escaped path.\<close>

definition bfl_routes ::
  "((string \<times> string) list \<Rightarrow> (string \<times> string) list) \<Rightarrow> bfl_env \<Rightarrow> (string \<times> (http_request \<Rightarrow> answered bfl)) list" where
  "bfl_routes order E =
     [(''/bfl/backend/v1/user-info'', handleUserInfo E),
      (''/bfl/backend/v1/terminus-info'', handleTerminusInfo E),
      (''/bfl/backend/v1/olares-info'', handleOlaresInfo E),
      (''/bfl/backend/v1/re-download-cert'', handleReDownloadCert E),
      (''/bfl/backend/v1/myapps'', handleMyApps E),
      (''/bfl/backend/v1/cluster'', handleClusterMetrics E),
      (''/bfl/backend/v1/config-system'', handleGetSysConfig E),
      (''/bfl/backend/v1/tailscale/status'', handleTailscaleStatus E),
      (''/bfl/backend/v1/network/domain'', handleCustomDomain order E),
      (''/bfl/backend/v1/network/info'', handleNetworkInfo E),
      (''/bfl/info/v1/olares-info'', handleOlaresInfo E),
      (''/bfl/settings/v1alpha1/activate'', handleActivate E),
      (''/bfl/settings/v1alpha1/binding-zone'', handleBindingZone E),
      (''/bfl/settings/v1alpha1/unbind-zone'', handleUnbindZone E),
      (''/bfl/settings/v1alpha1/config-system'', handleConfigSystem E),
      (''/api/settings/tailscale'', handleTailscaleSettings E),
      (''/api/settings/vpn/status'', handleVPNStatus E),
      (''/api/settings/vpn/wireguard/enable'', handleWireGuardEnable E),
      (''/api/settings/vpn/wireguard/disable'', handleWireGuardDisable E),
      (''/api/settings/vpn/tailscale/disable'', handleTailscaleDisable E),
      (''/api/settings/ssh'', handleSSHSettings E),
      (''/api/settings/ip-access'', handleIPAccess E),
      (''/api/settings/updates'', handleUpdates E),
      (''/bfl/iam/v1alpha1/users'', handleListUsers E),
      (''/bfl/iam/v1alpha1/roles'', handleListRoles),
      (''/healthz'', \<lambda>_. finish (reply_status 200))]"

definition bfl_mux ::
  "((string \<times> string) list \<Rightarrow> (string \<times> string) list) \<Rightarrow> bfl_env \<Rightarrow> string \<Rightarrow> http_request \<Rightarrow> answered bfl" where
  "bfl_mux order E p r =
     (if cleanPath p \<noteq> p then finish (reply_status 301)
      else case List.find (\<lambda>(pat, _). route_exact pat p) (bfl_routes order E) of
          Some (_, h) \<Rightarrow> h r
        | None \<Rightarrow>
            if route_subtree ''/api/settings/updates/'' p then handleUpdateRestart E r
            else if route_subtree ''/bfl/iam/v1alpha1/users/'' p then handleUserRoutes E r
            else finish (http_error ''404 page not found'' 404))"

definition mutating :: "string \<Rightarrow> bool" where
  "mutating m \<longleftrightarrow> m \<in> set [''POST'', ''PUT'', ''PATCH'', ''DELETE'']"

definition csrfProtect :: "(http_request \<Rightarrow> answered bfl) \<Rightarrow> http_request \<Rightarrow> answered bfl" where
  "csrfProtect h r =
     (if mutating (rq_Method r) \<and> header_get r ''X-Requested-With'' = []
      then finish (http_error ''CSRF validation failed'' 403) else h r)"

definition bfl_serve ::
  "((string \<times> string) list \<Rightarrow> (string \<times> string) list) \<Rightarrow> bfl_env \<Rightarrow> string \<Rightarrow> http_request \<Rightarrow> answered bfl" where
  "bfl_serve order E p = csrfProtect (bfl_mux order E p)"

end
