(* ===== verification/Bfl_Calls.thy ===== *)
theory Bfl_Calls
  imports Bfl_Admin
begin

text \<open>
  Reasoning about the calls an operation makes, whatever they are answered. \<open>only C m\<close>: every call of \<open>m\<close>
  is in \<open>C\<close>. \<open>wp G Q m l\<close>: started after the calls \<open>l\<close>, each call of \<open>m\<close> is allowed by \<open>G\<close> in the light of
  the calls before it, and the result and the calls up to it satisfy \<open>Q\<close>.
\<close>

named_theorems only_rules "the calls of an operation are in a set"
named_theorems wp_rules "weakest preconditions of operations"

subsection \<open>Calls in a set\<close>

definition only :: "(cmd \<Rightarrow> bool) \<Rightarrow> 'a bfl \<Rightarrow> bool" where
  "only C m \<longleftrightarrow> (\<forall>l r l'. m l = Some (r, l') \<longrightarrow> (\<exists>t. l' = l @ t \<and> list_all (\<lambda>e. C (fst e)) t))"

lemma onlyI: "(\<And>l r l'. m l = Some (r, l') \<Longrightarrow> \<exists>t. l' = l @ t \<and> list_all (\<lambda>e. C (fst e)) t) \<Longrightarrow> only C m"
  by (simp add: only_def)

lemma onlyD: "only C m \<Longrightarrow> m l = Some (r, l') \<Longrightarrow> \<exists>t. l' = l @ t \<and> list_all (\<lambda>e. C (fst e)) t"
  by (simp add: only_def)

lemma only_mono:
  assumes "only C m" "\<And>c. C c \<Longrightarrow> D c"
  shows "only D m"
proof (rule onlyI)
  fix l r l' assume "m l = Some (r, l')"
  from onlyD [OF assms(1) this] obtain t where "l' = l @ t" "list_all (\<lambda>e. C (fst e)) t" by blast
  then show "\<exists>t. l' = l @ t \<and> list_all (\<lambda>e. D (fst e)) t" using assms(2) by (auto simp: list_all_iff)
qed

lemma only_ret [only_rules]: "only C (ret a)" "only C (fail e)" "only C (now E)" "only C panic"
  by (auto simp: only_def now_def panic_def)

lemma only_ask [only_rules]: "C c \<Longrightarrow> only C (ask_as f E c)"
  by (auto simp: only_def ask_as_def Let_def)

lemma only_bind:
  assumes "only C m" "\<And>r. only C (f r)" "m l = Some (r, l')" "f r l' = Some (r', l'')"
  shows "\<exists>t. l'' = l @ t \<and> list_all (\<lambda>e. C (fst e)) t"
proof -
  obtain t where t: "l' = l @ t" "list_all (\<lambda>e. C (fst e)) t" using onlyD [OF assms(1,3)] by blast
  obtain t' where "l'' = l' @ t'" "list_all (\<lambda>e. C (fst e)) t'" using onlyD [OF assms(2,4)] by blast
  with t have "l'' = l @ t @ t'" "list_all (\<lambda>e. C (fst e)) (t @ t')" by simp_all
  then show ?thesis by blast
qed

lemma only_attempt [only_rules]: "only C m \<Longrightarrow> (\<And>r. only C (f r)) \<Longrightarrow> only C (attempt m f)"
  by (rule onlyI) (metis attemptE only_bind)

lemma chk_attempt: "chk msg m f = attempt m (\<lambda>r. case r of Inl e \<Rightarrow> fail (msg @ e) | Inr a \<Rightarrow> f a)"
  by (rule ext) (auto simp: chk_def attempt_def fail_def split: option.splits sum.splits)

lemma only_chk [only_rules]:
  assumes "only C m" "\<And>a. only C (f a)"
  shows "only C (chk msg m f)"
proof -
  have "only C (case r of Inl e \<Rightarrow> fail (msg @ e) | Inr a \<Rightarrow> f a)" for r
    using assms(2) by (auto simp: only_ret split: sum.splits)
  then show ?thesis unfolding chk_attempt using assms(1) by (auto intro: only_attempt)
qed

lemma only_derived [only_rules]:
  "only C (finish x)" "only C (refuse msg)"
  "only C m \<Longrightarrow> (\<And>a. only C (g a)) \<Longrightarrow> only C (orError msg m g)"
  "only C n \<Longrightarrow> (\<And>a. only C (h a)) \<Longrightarrow> only C (orElse d n h)"
  "only C n \<Longrightarrow> only C k \<Longrightarrow> only C (ignore n k)"
  "(rq_Method r = mth \<Longrightarrow> only C k') \<Longrightarrow> only C (method_guard mth r k')"
  by (auto simp: finish_def refuse_def orError_def orElse_def ignore_def method_guard_def
      intro!: only_rules split: sum.splits)

lemma only_if [only_rules]: "(b \<Longrightarrow> only C m) \<Longrightarrow> (\<not> b \<Longrightarrow> only C n) \<Longrightarrow> only C (if b then m else n)"
  by simp

lemma only_option [only_rules]:
  "only C m \<Longrightarrow> (\<And>a. only C (f a)) \<Longrightarrow> only C (case x of None \<Rightarrow> m | Some a \<Rightarrow> f a)"
  by (auto split: option.splits)

lemma only_sum [only_rules]:
  "(\<And>e. only C (f e)) \<Longrightarrow> (\<And>a. only C (g a)) \<Longrightarrow> only C (case x of Inl e \<Rightarrow> f e | Inr a \<Rightarrow> g a)"
  by (auto split: sum.splits)

lemma only_prod [only_rules]: "(\<And>a b. only C (f a b)) \<Longrightarrow> only C (case x of (a, b) \<Rightarrow> f a b)"
  by (auto split: prod.splits)

lemma only_let [only_rules]: "(\<And>x. only C (f x)) \<Longrightarrow> only C (let x = e in f x)"
  by (simp add: Let_def)

lemma only_log: "(\<And>l. only C (m l)) \<Longrightarrow> only C (\<lambda>l. m l l)"
  by (fastforce simp: only_def)

subsection \<open>Guarded calls\<close>

definition calls_ok :: "(log \<Rightarrow> cmd \<Rightarrow> bool) \<Rightarrow> log \<Rightarrow> log \<Rightarrow> bool" where
  "calls_ok G l l' \<longleftrightarrow> (\<exists>t. l' = l @ t \<and> (\<forall>i < length t. G (l @ take i t) (fst (t ! i))))"

definition wp :: "(log \<Rightarrow> cmd \<Rightarrow> bool) \<Rightarrow> (string + 'a \<Rightarrow> log \<Rightarrow> bool) \<Rightarrow> 'a bfl \<Rightarrow> log \<Rightarrow> bool" where
  "wp G Q m l \<longleftrightarrow> (\<forall>r l'. m l = Some (r, l') \<longrightarrow> calls_ok G l l' \<and> Q r l')"

lemma calls_ok_refl [simp]: "calls_ok G l l"
  by (simp add: calls_ok_def)

lemma calls_ok_trans: "calls_ok G l l' \<Longrightarrow> calls_ok G l' l'' \<Longrightarrow> calls_ok G l l''"
proof -
  assume "calls_ok G l l'" "calls_ok G l' l''"
  then obtain t t' where t: "l' = l @ t" "\<forall>i < length t. G (l @ take i t) (fst (t ! i))"
    "l'' = l' @ t'" "\<forall>i < length t'. G (l' @ take i t') (fst (t' ! i))"
    by (auto simp: calls_ok_def)
  have "G (l @ take i (t @ t')) (fst ((t @ t') ! i))" if "i < length (t @ t')" for i
  proof (cases "i < length t")
    case True
    then show ?thesis using t(2) by (simp add: nth_append)
  next
    case False
    then show ?thesis using t(1,4) that by (auto simp: nth_append dest: spec [of _ "i - length t"])
  qed
  with t show ?thesis by (auto simp: calls_ok_def)
qed

lemma wp_mono: "wp G Q m l \<Longrightarrow> (\<And>r l'. calls_ok G l l' \<Longrightarrow> Q r l' \<Longrightarrow> Q' r l') \<Longrightarrow> wp G Q' m l"
  by (auto simp: wp_def)

lemma wp_ret [wp_rules]:
  "Q (Inr a) l \<Longrightarrow> wp G Q (ret a) l" "Q' (Inl e) l \<Longrightarrow> wp G Q' (fail e) l" "Q'' (Inr (clock E l)) l \<Longrightarrow> wp G Q'' (now E) l"
  by (auto simp: wp_def now_def)

lemma wp_panic [wp_rules]: "wp G Q panic l"
  by (simp add: wp_def panic_def)

lemma wp_attempt [wp_rules]:
  assumes "wp G (\<lambda>r l'. wp G Q (f r) l') m l"
  shows "wp G Q (attempt m f) l"
  unfolding wp_def
proof (intro allI impI)
  fix r'' l'' assume "attempt m f l = Some (r'', l'')"
  then obtain r l' where m: "m l = Some (r, l')" "f r l' = Some (r'', l'')" by (rule attemptE)
  with assms have "calls_ok G l l'" "wp G Q (f r) l'" by (auto simp: wp_def)
  with m(2) show "calls_ok G l l'' \<and> Q r'' l''" using calls_ok_trans by (auto simp: wp_def)
qed

lemma wp_chk [wp_rules]:
  assumes "wp G (\<lambda>r l'. case r of Inl e \<Rightarrow> Q (Inl (msg @ e)) l' | Inr a \<Rightarrow> wp G Q (f a) l') m l"
  shows "wp G Q (chk msg m f) l"
  unfolding chk_attempt using assms
  by (intro wp_attempt) (erule wp_mono, auto intro: wp_ret split: sum.splits)

lemma wp_ask [wp_rules]:
  assumes "G l c"
    and "\<And>e. answer E l c = Inl e \<Longrightarrow> Q (Inl e) (l @ [(c, Inl e)])"
    and "\<And>a. answer E l c = Inr a \<Longrightarrow> f a = None \<Longrightarrow> Q (Inl []) (l @ [(c, Inr a)])"
    and "\<And>a x. answer E l c = Inr a \<Longrightarrow> f a = Some x \<Longrightarrow> Q (Inr x) (l @ [(c, Inr a)])"
  shows "wp G Q (ask_as f E c) l"
proof -
  have "calls_ok G l (l @ [(c, r)])" for r using assms(1) by (auto simp: calls_ok_def)
  then show ?thesis
    using assms(2-) by (cases "answer E l c") (auto simp: wp_def ask_as_def Let_def split: option.splits)
qed

lemma wp_derived [wp_rules]:
  "Q (Inr (x, [])) l \<Longrightarrow> wp G Q (finish x) l"
  "Q (Inr (respondError msg, [])) l \<Longrightarrow> wp G Q (refuse msg) l"
  "wp G (\<lambda>r l'. case r of Inl e \<Rightarrow> Q (Inr (respondError (msg @ e), [])) l' | Inr a \<Rightarrow> wp G Q (g a) l') m l \<Longrightarrow>
   wp G Q (orError msg m g) l"
  "wp G (\<lambda>r l'. case r of Inl e \<Rightarrow> wp G Q' (h d) l' | Inr a \<Rightarrow> wp G Q' (h a) l') n l \<Longrightarrow> wp G Q' (orElse d n h) l"
  "wp G (\<lambda>r l'. wp G Q' k l') n l \<Longrightarrow> wp G Q' (ignore n k) l"
  by (auto simp: finish_def refuse_def orError_def orElse_def ignore_def split: sum.splits
      intro!: wp_rules elim!: wp_mono)

lemma wp_guard [wp_rules]:
  "(rq_Method r = m \<Longrightarrow> wp G Q k l) \<Longrightarrow> Q (Inr (respondError ''method not allowed'', [])) l \<Longrightarrow>
   wp G Q (method_guard m r k) l"
  by (auto simp: method_guard_def intro!: wp_rules)

lemma wp_if [wp_rules]: "(b \<Longrightarrow> wp G Q m l) \<Longrightarrow> (\<not> b \<Longrightarrow> wp G Q n l) \<Longrightarrow> wp G Q (if b then m else n) l"
  by simp

lemma wp_option [wp_rules]:
  "(x = None \<Longrightarrow> wp G Q m l) \<Longrightarrow> (\<And>a. x = Some a \<Longrightarrow> wp G Q (f a) l) \<Longrightarrow> wp G Q (case x of None \<Rightarrow> m | Some a \<Rightarrow> f a) l"
  by (auto split: option.splits)

lemma wp_sum [wp_rules]:
  "(\<And>e. x = Inl e \<Longrightarrow> wp G Q (f e) l) \<Longrightarrow> (\<And>a. x = Inr a \<Longrightarrow> wp G Q (g a) l) \<Longrightarrow>
   wp G Q (case x of Inl e \<Rightarrow> f e | Inr a \<Rightarrow> g a) l"
  by (auto split: sum.splits)

lemma wp_prod [wp_rules]: "(\<And>a b. x = (a, b) \<Longrightarrow> wp G Q (f a b) l) \<Longrightarrow> wp G Q (case x of (a, b) \<Rightarrow> f a b) l"
  by (auto split: prod.splits)

lemma wp_let [wp_rules]: "(\<And>x. x = e \<Longrightarrow> wp G Q (f x) l) \<Longrightarrow> wp G Q (let x = e in f x) l"
  by (simp add: Let_def)

text \<open>Calls that are allowed in any history.\<close>

lemma only_wp:
  assumes "only C m" "\<And>l c. C c \<Longrightarrow> G l c"
  shows "wp G (\<lambda>_ _. True) m l"
proof -
  have "calls_ok G l l'" if m: "m l = Some (r, l')" for r l'
  proof -
    obtain t where "l' = l @ t" "list_all (\<lambda>e. C (fst e)) t" using onlyD [OF assms(1) m] by blast
    then show ?thesis using assms(2) by (auto simp: calls_ok_def list_all_iff)
  qed
  then show ?thesis by (simp add: wp_def)
qed

text \<open>
  What the requests of the user back end do to the outside: reading requests only read, users are
  written along the steps of the wizard, and passwords are changed with the right credentials.
\<close>

subsection \<open>Reading\<close>

fun is_read :: "cmd \<Rightarrow> bool" where
  "is_read (UserGet _) = True"
| "is_read UserList = True"
| "is_read RoleBindingList = True"
| "is_read AppList = True"
| "is_read (DataGet _ _ _) = True"
| "is_read (WorkloadGet _ _ _) = True"
| "is_read (WorkloadList _ _) = True"
| "is_read (PodList _ _) = True"
| "is_read (PodExec _ _ _ args) = (args \<in> {[''tailscale'', ''ip'', ''-4''], [''tailscale'', ''status'', ''--json'']})"
| "is_read NamespaceList = True"
| "is_read NodeList = True"
| "is_read Metrics = True"
| "is_read (HttpDo m _ _ _) = (m \<in> {''GET'', ''HEAD''})"
| "is_read (RedisKeys _) = True"
| "is_read (RedisGet _) = True"
| "is_read (ReadFile _) = True"
| "is_read (Exec prog args) = (prog = ''tailscale'' \<and> args = [''ip'', ''-4''])"
| "is_read _ = False"

lemma reads_basic [only_rules]:
  "only is_read (GetUser E n)" "only is_read (ListUsers E)" "only is_read (get_data E k ns n)"
  "only is_read (get_workload E wk ns n)" "only is_read (list_pods E ns lb)" "only is_read (list_workloads E wk ns)"
  "only is_read (read_file E p)"
  by (auto simp: GetUser_def ListUsers_def get_data_def get_workload_def list_pods_def list_workloads_def read_file_def
      intro!: only_rules)

lemma reads_kube [only_rules]:
  "only is_read (GetOSVersion E)" "only is_read (GetDomain E)" "only is_read (GetUserRoles E n)"
  "only is_read (list_apps E os)" "only is_read (ListUserApps E)"
proof -
  show a: "only is_read (list_apps E os)" for os
    by (induction os) (auto simp: Let_def intro!: only_rules)
  show "only is_read (GetOSVersion E)" "only is_read (GetDomain E)" "only is_read (GetUserRoles E n)"
    by (auto simp: GetOSVersion_def GetDomain_def GetUserRoles_def intro!: only_rules)
  show "only is_read (ListUserApps E)"
    using a by (auto simp: ListUserApps_def intro!: only_rules)
qed

lemma reads_exec [only_rules]:
  "cmd \<in> {[''tailscale'', ''ip'', ''-4''], [''tailscale'', ''status'', ''--json'']} \<Longrightarrow> only is_read (execInPod E p ns c cmd)"
  "only is_read (host_tailscale_ip E)"
  by (auto simp: execInPod_def host_tailscale_ip_def intro!: only_rules)

lemma reads_tls [only_rules]:
  "only is_read (getNodeIP E)" "only is_read (getTailscaleIP E)" "only is_read (getCustomDomain E)"
  "only is_read (getVPNState E)" "only is_read (getActiveVPNIP E)" "only is_read (getCertInfo E)"
  "only is_read (current_zone E)" "only is_read (getTailscaleStatus E)" "only is_read (hostctlToken E)"
proof -
  show t: "only is_read (getTailscaleIP E)"
    unfolding getTailscaleIP_def Let_def by (intro only_rules) auto
  show v: "only is_read (getVPNState E)"
    unfolding getVPNState_def by (intro only_rules)
  show "only is_read (getActiveVPNIP E)"
    unfolding getActiveVPNIP_def by (intro only_rules t v)
  show "only is_read (getTailscaleStatus E)"
    unfolding getTailscaleStatus_def Let_def by (intro only_rules) auto
  show "only is_read (getNodeIP E)" "only is_read (getCustomDomain E)" "only is_read (getCertInfo E)"
    "only is_read (current_zone E)" "only is_read (hostctlToken E)"
    by (auto simp: getNodeIP_def getCustomDomain_def getCertInfo_def current_zone_def hostctlToken_def intro!: only_rules)
qed

lemma reads_http [only_rules]:
  "m \<in> {''GET'', ''HEAD''} \<Longrightarrow> only is_read (http_call E m url hs b)"
  "m \<in> {''GET'', ''HEAD''} \<Longrightarrow> only is_read (hostctlRequest E m path b)"
proof -
  assume m: "m \<in> {''GET'', ''HEAD''}"
  show h: "only is_read (http_call E m url hs b)" for url hs b
    unfolding http_call_def by (intro only_ask) (use m in simp)
  show "only is_read (hostctlRequest E m path b)"
    unfolding hostctlRequest_def Let_def by (intro only_rules h)
qed

lemma reads_wireguard [only_rules]: "only is_read (getWireGuardStatus E)"
  unfolding getWireGuardStatus_def by (intro only_rules) simp

lemma reads_iam [only_rules]: "only is_read (iam_users E us)"
  by (induction us) (auto intro!: only_rules)

lemma not_mutating: "\<not> mutating m \<Longrightarrow> m \<noteq> ''POST'' \<and> m \<noteq> ''PUT'' \<and> m \<noteq> ''PATCH'' \<and> m \<noteq> ''DELETE''"
  by (auto simp: mutating_def)

lemma handlers_read:
  assumes "\<not> mutating (rq_Method r)"
  shows "only is_read (handleUserInfo E r)" "only is_read (handleTerminusInfo E r)" "only is_read (handleOlaresInfo E r)"
    "only is_read (handleMyApps E r)" "only is_read (handleClusterMetrics E r)" "only is_read (handleGetSysConfig E r)"
    "only is_read (handleTailscaleStatus E r)" "only is_read (handleCustomDomain order E r)"
    "only is_read (handleNetworkInfo E r)" "only is_read (handleActivate E r)" "only is_read (handleBindingZone E r)"
    "only is_read (handleConfigSystem E r)" "only is_read (handleTailscaleSettings E r)" "only is_read (handleVPNStatus E r)"
    "only is_read (handleWireGuardEnable E r)" "only is_read (handleWireGuardDisable E r)"
    "only is_read (handleTailscaleDisable E r)" "only is_read (handleSSHSettings E r)" "only is_read (handleIPAccess E r)"
    "only is_read (handleListUsers E r)" "only is_read (handleListRoles r)" "only is_read (handleUpdateRestart E r)"
    "only is_read (handleUserRoutes E r)"
proof -
  note m = not_mutating [OF assms]
  show g: "only is_read (handleGetSysConfig E r)"
    unfolding handleGetSysConfig_def by (intro only_rules)
  show "only is_read (handleUserInfo E r)" unfolding handleUserInfo_def Let_def findOwnerUser_def by (intro only_rules)
  show "only is_read (handleTerminusInfo E r)" unfolding handleTerminusInfo_def Let_def by (intro only_rules)
  show "only is_read (handleOlaresInfo E r)" unfolding handleOlaresInfo_def Let_def by (intro only_rules)
  show "only is_read (handleMyApps E r)" unfolding handleMyApps_def by (intro only_rules)
  show "only is_read (handleClusterMetrics E r)" unfolding handleClusterMetrics_def by (intro only_rules) simp
  show "only is_read (handleTailscaleStatus E r)" unfolding handleTailscaleStatus_def by (intro only_rules)
  show "only is_read (handleNetworkInfo E r)" unfolding handleNetworkInfo_def by (intro only_rules)
  show "only is_read (handleVPNStatus E r)" unfolding handleVPNStatus_def by (intro only_rules)
  show "only is_read (handleListUsers E r)" unfolding handleListUsers_def by (intro only_rules)
  show "only is_read (handleListRoles r)" unfolding handleListRoles_def by (intro only_rules)
  show "only is_read (handleCustomDomain order E r)" "only is_read (handleActivate E r)" "only is_read (handleBindingZone E r)"
    "only is_read (handleWireGuardEnable E r)" "only is_read (handleWireGuardDisable E r)"
    "only is_read (handleTailscaleDisable E r)" "only is_read (handleUpdateRestart E r)"
    using m by (simp_all add: handleCustomDomain_def handleActivate_def handleBindingZone_def handleWireGuardEnable_def
        handleWireGuardDisable_def handleTailscaleDisable_def handleUpdateRestart_def method_guard_def only_derived)
  show "only is_read (handleConfigSystem E r)"
    unfolding handleConfigSystem_def using m g by (auto intro!: only_rules)
  show "only is_read (handleTailscaleSettings E r)"
    unfolding handleTailscaleSettings_def Let_def using m by (auto intro!: only_rules)
  show "only is_read (handleIPAccess E r)"
    unfolding handleIPAccess_def Let_def using m by (auto intro!: only_rules)
  show "only is_read (handleSSHSettings E r)"
    unfolding handleSSHSettings_def Let_def using m by (auto intro!: only_rules)
  show "only is_read (handleUserRoutes E r)"
    unfolding handleUserRoutes_def using m by (auto intro!: only_rules split: list.splits)
qed

definition writing_gets :: "string list" where
  "writing_gets = [''/bfl/backend/v1/re-download-cert'', ''/bfl/settings/v1alpha1/unbind-zone'', ''/api/settings/updates'']"

lemma route_exact_unique: "route_exact a p \<Longrightarrow> route_exact b p \<Longrightarrow> a = b"
  by (metis join_split_on route_exact_def)

lemma routes_read:
  assumes "\<not> mutating (rq_Method r)" "(pat, h) \<in> set (bfl_routes order E)" "pat \<notin> set writing_gets"
  shows "only is_read (h r)"
  using assms(2,3) handlers_read [OF assms(1)]
  by (simp add: bfl_routes_def writing_gets_def) (elim disjE; simp add: only_derived)

lemma mux_reads:
  assumes "\<not> mutating (rq_Method r)" "\<not> list_ex (\<lambda>pat. route_exact pat p) writing_gets"
  shows "only is_read (bfl_mux order E p r)"
proof (cases "List.find (\<lambda>(pat, _). route_exact pat p) (bfl_routes order E)")
  case None
  then show ?thesis
    using handlers_read [OF assms(1)] by (auto simp: bfl_mux_def intro!: only_rules)
next
  case (Some ph)
  obtain pat h where ph: "ph = (pat, h)" by (cases ph)
  have f: "(pat, h) \<in> set (bfl_routes order E)" "route_exact pat p"
    using Some ph by (auto simp: find_Some_iff) (metis nth_mem)
  have "pat \<notin> set writing_gets" using f(2) assms(2) by (auto simp: list_ex_iff)
  then have "only is_read (h r)" using routes_read assms(1) f(1) by blast
  then show ?thesis using Some ph by (auto simp: bfl_mux_def intro!: only_rules)
qed

text \<open>
  C12: a request without the header \<^verbatim>\<open>X-Requested-With\<close>, which a foreign page cannot set, only reads,
  whatever is asked and whatever the cluster answers; except at three addresses.
\<close>

theorem forged_requests_only_read:
  assumes "header_get r ''X-Requested-With'' = []" "\<not> list_ex (\<lambda>pat. route_exact pat p) writing_gets"
    and "bfl_serve order E p r l = Some (res, l')"
  shows "\<exists>t. l' = l @ t \<and> list_all (\<lambda>e. is_read (fst e)) t"
proof -
  have "only is_read (bfl_serve order E p r)"
    using assms(1) mux_reads [OF _ assms(2)] by (auto simp: bfl_serve_def csrfProtect_def intro: only_rules)
  then show ?thesis using assms(3) by (rule onlyD)
qed

end
