(* ===== verification/Bfl_Wizard.thy ===== *)
theory Bfl_Wizard
  imports Bfl_Calls
begin

text \<open>
  The two kinds of calls that matter most: writes of a user object, which move the setup wizard, and
  changes of a password in the directory. Every other call is \<open>plain\<close>.
\<close>

inductive wizard_step :: "bfl_env \<Rightarrow> User \<Rightarrow> User \<Rightarrow> bool" for E where
  keep: "GetWizardStatus E u' = GetWizardStatus E u \<Longrightarrow> GetUserZone E u' = GetUserZone E u \<Longrightarrow>
    GetTerminusName E u' = GetTerminusName E u \<Longrightarrow> wizard_step E u u'"
| bind: "GetWizardStatus E u = WaitActivateVault \<Longrightarrow> GetWizardStatus E u' = WaitActivateSystem \<Longrightarrow>
    GetUserZone E u' = GetUserZone E u \<Longrightarrow> GetTerminusName E u' \<noteq> [] \<Longrightarrow> wizard_step E u u'"
| unbind: "GetWizardStatus E u' = GetWizardStatus E u \<Longrightarrow> GetUserZone E u' = [] \<Longrightarrow> GetTerminusName E u' = [] \<Longrightarrow>
    wizard_step E u u'"
| retry: "GetWizardStatus E u = NetworkActivateFailed \<Longrightarrow> GetWizardStatus E u' = NetworkActivating \<Longrightarrow>
    GetUserZone E u' = GetUserZone E u \<Longrightarrow> GetTerminusName E u' = GetTerminusName E u \<Longrightarrow> wizard_step E u u'"
| activate: "GetUserZone E u = [] \<Longrightarrow> GetTerminusName E u \<noteq> [] \<Longrightarrow>
    GetWizardStatus E u \<notin> {NetworkActivating, NetworkActivateFailed} \<Longrightarrow> GetWizardStatus E u' = WaitResetPassword \<Longrightarrow>
    GetUserZone E u' = UserZone (GetTerminusName E u) \<Longrightarrow> GetTerminusName E u' = GetTerminusName E u \<Longrightarrow> wizard_step E u u'"
| complete: "\<not> IsWizardComplete E u \<Longrightarrow> GetWizardStatus E u' = Completed \<Longrightarrow>
    GetUserZone E u' = GetUserZone E u \<Longrightarrow> GetTerminusName E u' = GetTerminusName E u \<Longrightarrow> wizard_step E u u'"

inductive_cases wizard_stepE: "wizard_step E u u'"

text \<open>Allowed after the calls of this request so far, which begin behind the first \<open>k\<close>.\<close>

fun allowed :: "bfl_env \<Rightarrow> nat \<Rightarrow> log \<Rightarrow> cmd \<Rightarrow> bool" where
  "allowed E k l (UserUpdate u') \<longleftrightarrow>
     (\<exists>n u. (UserGet n, Inr (AUser u)) \<in> set (drop k l) \<and> uName u' = uName u \<and> wizard_step E u u')"
| "allowed E k l (LdapModify dn old new) \<longleftrightarrow>
     (\<exists>n u. (UserGet (if n = [] then beUsername E else n), Inr (AUser u)) \<in> set (drop k l) \<and>
        dn = people_dn (escapeFilter E n) \<and> ValidatePassword new = None \<and>
        (if IsWizardComplete E u then old \<noteq> new \<and> (LdapBind dn old, Inr ADone) \<in> set (drop k l)
         else old = [] \<and> (LdapBind (people_dn ''admin'') (getenv E ''LLDAP_ADMIN_PASSWORD''), Inr ADone) \<in> set (drop k l)))"
| "allowed E k l c \<longleftrightarrow> True"

definition plain_call :: "cmd \<Rightarrow> bool" where
  "plain_call c \<longleftrightarrow> (case c of UserUpdate _ \<Rightarrow> False | LdapModify _ _ _ \<Rightarrow> False | _ \<Rightarrow> True)"

lemma plain_allowed: "plain_call c \<Longrightarrow> allowed E k l c"
  by (cases c) (auto simp: plain_call_def)

lemma plain_read: "is_read c \<Longrightarrow> plain_call c"
  by (cases c) (auto simp: plain_call_def)

lemma plain_of_read: "only is_read m \<Longrightarrow> only plain_call m"
  using only_mono plain_read by blast

lemma wp_plain:
  assumes "only plain_call m" "\<And>r t. Q r (l @ t)"
  shows "wp (allowed E k) Q m l"
proof -
  have "wp (allowed E k) (\<lambda>_ _. True) m l" using only_wp assms(1) plain_allowed by blast
  then show ?thesis using assms(2) by (auto simp: wp_def calls_ok_def)
qed

subsection \<open>Plain operations\<close>

named_theorems plain_rules "operations without a write of a user or a password"

lemmas plain_reads [plain_rules] = reads_basic [THEN plain_of_read] reads_kube [THEN plain_of_read]
  reads_tls [THEN plain_of_read] reads_wireguard [THEN plain_of_read] reads_iam [THEN plain_of_read]
  reads_exec(2) [THEN plain_of_read]

lemma plain_http [plain_rules]:
  "only plain_call (http_call E m url hs b)" "only plain_call (hostctlRequest E m path b)"
proof -
  show h: "only plain_call (http_call E m url hs b)" for url hs
    unfolding http_call_def by (intro only_ask) (simp add: plain_call_def)
  show "only plain_call (hostctlRequest E m path b)"
    unfolding hostctlRequest_def Let_def by (intro only_rules plain_rules h)
qed

lemma plain_data [plain_rules]:
  "only plain_call (write_data E kd ns n d)" "only plain_call (put_entries E kd ns n d)"
  "only plain_call (EnsureSSLSecret E z c ky)" "only plain_call (WriteReverseProxyConfig E d)"
proof -
  show w: "only plain_call (write_data E kd ns n d)" for kd ns n d
    unfolding write_data_def by (intro only_rules plain_rules) (simp_all add: plain_call_def)
  show "only plain_call (put_entries E kd ns n d)"
    unfolding put_entries_def by (intro only_rules plain_rules) (simp_all add: plain_call_def)
  show "only plain_call (EnsureSSLSecret E z c ky)"
    unfolding EnsureSSLSecret_def [abs_def] by (rule only_log) (rule w)
  show "only plain_call (WriteReverseProxyConfig E d)" unfolding WriteReverseProxyConfig_def by (rule w)
qed

lemma plain_workload [plain_rules]:
  "only plain_call (restart_workload E kd ns dep)" "only plain_call (set_state E ns n st)"
  unfolding restart_workload_def [abs_def] set_state_def [abs_def]
  by (rule only_log, rule only_ask, simp add: plain_call_def)+

lemma plain_cert [plain_rules]:
  "only plain_call (GenerateSelfSignedCert E z tn)" "only plain_call (read_ca E)" "only plain_call (sign_cert E dir z ca sans)"
  "only plain_call (store_tls E c ky)" "only plain_call (regenerateTLSCert E a b c d)"
proof -
  show "only plain_call (GenerateSelfSignedCert E z tn)"
    unfolding GenerateSelfSignedCert_def by (intro only_ask) (simp add: plain_call_def)
  show r: "only plain_call (read_ca E)"
    unfolding read_ca_def ca_from_cluster_def Let_def by (intro only_rules plain_rules)
  show s: "only plain_call (sign_cert E dir z ca sans)" for dir z ca sans
    unfolding sign_cert_def Let_def by (intro only_rules plain_rules) (simp_all add: plain_call_def)
  show t: "only plain_call (store_tls E c ky)" for c ky
    unfolding store_tls_def Let_def by (intro only_rules plain_rules) (simp_all add: plain_call_def)
  show "only plain_call (regenerateTLSCert E a b c d)"
    unfolding regenerateTLSCert_def by (intro only_rules plain_rules r s t) (simp_all add: plain_call_def)
qed

lemma plain_proxy [plain_rules]:
  "only plain_call (regenerateNginxConfig order E)" "only plain_call (restartProxy E)"
  "only plain_call (setDeploymentEnv E n ky v)" "only plain_call (setCustomDomainOnServices E dm)"
  "only plain_call (disableTailscale E)"
proof -
  have n: "only plain_call (nginx_params E)"
    unfolding nginx_params_def getClusterDNS_def by (intro only_rules plain_rules) (simp add: plain_call_def)
  show "only plain_call (regenerateNginxConfig order E)"
    unfolding regenerateNginxConfig_def Let_def by (intro only_rules plain_rules n) (simp add: plain_call_def)
  have d: "only plain_call (delete_pods E ns ps)" for ns ps
    by (induction ps) (auto simp: plain_call_def intro!: only_rules)
  show "only plain_call (restartProxy E)"
    unfolding restartProxy_def Let_def by (intro only_rules plain_rules d)
  show s: "only plain_call (setDeploymentEnv E n ky v)" for n ky v
    unfolding setDeploymentEnv_def Let_def by (auto intro!: only_rules plain_rules split: list.splits)
  show "only plain_call (setCustomDomainOnServices E dm)"
    unfolding setCustomDomainOnServices_def by (intro only_rules s)
  have a: "only plain_call (await_no_pods k E ns lb)" for k ns lb
    by (induction k) (auto intro!: only_rules plain_rules)
  show "only plain_call (disableTailscale E)"
    unfolding disableTailscale_def Let_def by (intro only_rules a) (simp add: plain_call_def)
qed

lemma plain_updates [plain_rules]:
  "only plain_call (all_digests E nss m)" "only plain_call (all_workloads E nss)" "only plain_call (update_states E ks us)"
  "only plain_call (check_workloads E ds st seen wls)"
proof -
  show "only plain_call (all_digests E nss m)"
    by (induction nss arbitrary: m) (auto intro!: only_rules plain_rules)
  show "only plain_call (all_workloads E nss)"
    by (induction nss) (auto intro!: only_rules plain_rules)
  show "only plain_call (update_states E ks us)"
    by (induction ks arbitrary: us) (auto simp: plain_call_def intro!: only_rules plain_rules)
  have r: "only plain_call (remote_digest E n tg)" for n tg
    unfolding remote_digest_def Let_def by (intro only_rules plain_rules)
  have c: "only plain_call (check_container E ds st wl c)" for wl c
    unfolding check_container_def Let_def by (intro only_rules plain_rules r) (simp add: plain_call_def)
  show "only plain_call (check_workloads E ds st seen wls)"
    by (induction wls arbitrary: seen) (auto simp: Let_def intro!: only_rules c)
qed

lemma plain_handlers:
  "only plain_call (handleUserInfo E r)" "only plain_call (handleTerminusInfo E r)" "only plain_call (handleOlaresInfo E r)"
  "only plain_call (handleReDownloadCert E r)" "only plain_call (handleMyApps E r)" "only plain_call (handleClusterMetrics E r)"
  "only plain_call (handleGetSysConfig E r)" "only plain_call (handleTailscaleStatus E r)"
  "only plain_call (handleCustomDomain order E r)" "only plain_call (handleNetworkInfo E r)"
  "only plain_call (handleTailscaleSettings E r)" "only plain_call (handleVPNStatus E r)"
  "only plain_call (handleWireGuardEnable E r)" "only plain_call (handleWireGuardDisable E r)"
  "only plain_call (handleTailscaleDisable E r)" "only plain_call (handleSSHSettings E r)"
  "only plain_call (handleIPAccess E r)" "only plain_call (handleUpdates E r)" "only plain_call (handleListUsers E r)"
  "only plain_call (handleListRoles r)" "only plain_call (handleUpdateRestart E r)"
proof -
  show "only plain_call (handleUserInfo E r)" unfolding handleUserInfo_def Let_def findOwnerUser_def by (intro only_rules plain_rules)
  show "only plain_call (handleTerminusInfo E r)" unfolding handleTerminusInfo_def Let_def by (intro only_rules plain_rules)
  show "only plain_call (handleOlaresInfo E r)" unfolding handleOlaresInfo_def Let_def by (intro only_rules plain_rules)
  show "only plain_call (handleReDownloadCert E r)" unfolding handleReDownloadCert_def Let_def by (intro only_rules plain_rules)
  show "only plain_call (handleMyApps E r)" unfolding handleMyApps_def by (intro only_rules plain_rules)
  show "only plain_call (handleClusterMetrics E r)"
    unfolding handleClusterMetrics_def by (intro only_rules) (simp add: plain_call_def)
  show "only plain_call (handleGetSysConfig E r)" unfolding handleGetSysConfig_def by (intro only_rules plain_rules)
  show "only plain_call (handleTailscaleStatus E r)" unfolding handleTailscaleStatus_def by (intro only_rules plain_rules)
  show "only plain_call (handleCustomDomain order E r)"
    unfolding handleCustomDomain_def setCustomDomain_def Let_def by (intro only_rules plain_rules)
  show "only plain_call (handleNetworkInfo E r)" unfolding handleNetworkInfo_def by (intro only_rules plain_rules)
  have d: "only plain_call (deploy_tailscale E ns)" for ns
    unfolding deploy_tailscale_def createTailscaleDeployment_def
    by (intro only_rules plain_rules) (simp add: plain_call_def)
  have s: "only plain_call (save_tailscale E ns es k)" if "\<And>u. only plain_call (k u)" for ns es k
    unfolding save_tailscale_def by (intro only_rules plain_rules that) (simp_all add: plain_call_def)
  show "only plain_call (handleTailscaleSettings E r)"
    unfolding handleTailscaleSettings_def Let_def by (intro only_rules plain_rules d s)
  show "only plain_call (handleVPNStatus E r)" unfolding handleVPNStatus_def by (intro only_rules plain_rules)
  show "only plain_call (handleWireGuardEnable E r)" unfolding handleWireGuardEnable_def by (intro only_rules plain_rules)
  show "only plain_call (handleWireGuardDisable E r)" unfolding handleWireGuardDisable_def by (intro only_rules plain_rules)
  show "only plain_call (handleTailscaleDisable E r)" unfolding handleTailscaleDisable_def by (intro only_rules plain_rules)
  show "only plain_call (handleSSHSettings E r)" unfolding handleSSHSettings_def Let_def by (intro only_rules plain_rules)
  have p: "only plain_call (set_proxy_conf E ns f k)" if "\<And>u. only plain_call (k u)" for ns f k
    unfolding set_proxy_conf_def by (intro only_rules plain_rules that) (simp add: plain_call_def)
  show "only plain_call (handleIPAccess E r)" unfolding handleIPAccess_def Let_def by (intro only_rules plain_rules p)
  show "only plain_call (handleUpdates E r)"
    unfolding handleUpdates_def by (intro only_rules plain_rules) (simp_all add: plain_call_def)
  show "only plain_call (handleListUsers E r)" unfolding handleListUsers_def by (intro only_rules plain_rules)
  show "only plain_call (handleListRoles r)" unfolding handleListRoles_def by (intro only_rules)
  have f: "only plain_call (restart_found E kd ns n wl)" for kd ns n wl
    unfolding restart_found_def by (intro only_rules plain_rules) (simp add: plain_call_def)
  show "only plain_call (handleUpdateRestart E r)"
    unfolding handleUpdateRestart_def Let_def by (intro only_rules plain_rules f) (simp add: plain_call_def)
qed

subsection \<open>The writing handlers\<close>

lemma as_user_Some: "as_user a = Some u \<longleftrightarrow> a = AUser u"
  by (auto simp: as_user_def split: res.splits)

lemma as_done_Some: "as_done a = Some () \<longleftrightarrow> a = ADone"
  by (auto simp: as_done_def split: res.splits)

lemma wp_get_user:
  assumes "\<And>e a. Q (Inl e) (l @ [(UserGet (if n = [] then beUsername E else n), a)])"
    and "\<And>u. Q (Inr u) (l @ [(UserGet (if n = [] then beUsername E else n), Inr (AUser u))])"
  shows "wp (allowed E k) Q (GetUser E n) l"
  unfolding GetUser_def by (intro wp_ask) (use assms in \<open>auto simp: as_user_Some\<close>)

lemma wp_update_user:
  assumes "allowed E k l (UserUpdate u)" "\<And>r x. Q r (l @ [(UserUpdate u, x)])"
  shows "wp (allowed E k) Q (UpdateUser E u) l"
  unfolding UpdateUser_def by (intro wp_ask assms)

lemma annotation_reads:
  "GetWizardStatus E (SetUserAnnotation (anno E k) v u) =
     (if k = ''wizard-status'' then (if v = [] then WaitActivateVault else v) else GetWizardStatus E u)"
  "GetUserZone E (SetUserAnnotation (anno E k) v u) = (if k = ''zone'' then v else GetUserZone E u)"
  "GetTerminusName E (SetUserAnnotation (anno E k) v u) = (if k = ''terminus-name'' then v else GetTerminusName E u)"
  "k \<noteq> ''wizard-status'' \<Longrightarrow> GetWizardStatus E (set_if (anno E k) v u) = GetWizardStatus E u"
  "k \<noteq> ''zone'' \<Longrightarrow> GetUserZone E (set_if (anno E k) v u) = GetUserZone E u"
  "k \<noteq> ''terminus-name'' \<Longrightarrow> GetTerminusName E (set_if (anno E k) v u) = GetTerminusName E u"
  "k \<noteq> ''wizard-status'' \<Longrightarrow> GetWizardStatus E (DeleteUserAnnotation (anno E k) u) = GetWizardStatus E u"
  "GetUserZone E (DeleteUserAnnotation (anno E k) u) = (if k = ''zone'' then [] else GetUserZone E u)"
  "GetTerminusName E (DeleteUserAnnotation (anno E k) u) = (if k = ''terminus-name'' then [] else GetTerminusName E u)"
  by (auto simp: GetWizardStatus_def GetUserZone_def GetTerminusName_def Let_def)

lemma allowed_update:
  "(UserGet n, Inr (AUser u)) \<in> set (drop k l) \<Longrightarrow> uName u' = uName u \<Longrightarrow> wizard_step E u u' \<Longrightarrow>
   allowed E k l (UserUpdate u')"
  by auto

lemma wp_write_user:
  assumes "wizard_step E u u'" "uName u' = uName u"
    and "\<And>r x. Q r (l @ (UserGet n, Inr (AUser u)) # t @ [(UserUpdate u', x)])"
  shows "wp (allowed E (length l)) Q (UpdateUser E u') (l @ (UserGet n, Inr (AUser u)) # t)"
  using assms by (intro wp_update_user allowed_update [of n u]) auto

lemma wp_config_system: "wp (allowed E (length l)) (\<lambda>_ _. True) (handleConfigSystem E r) l"
proof -
  have step: "wizard_step E u (SaveSysConfig E c u)" "uName (SaveSysConfig E c u) = uName u" for u c
    by (auto intro!: wizard_step.keep simp: SaveSysConfig_def annotation_reads)
  show ?thesis
    unfolding handleConfigSystem_def
    by (auto simp: step finish_def intro!: wp_rules wp_get_user wp_write_user wp_plain [OF plain_handlers(7)] split: sum.splits)
qed

lemma wp_binding: "wp (allowed E (length l)) (\<lambda>_ _. True) (handleBindingZone E r) l"
proof -
  define bound where "bound u domain jws did = SetUserAnnotation (anno E ''wizard-status'') WaitActivateSystem
    (set_if (anno E ''user-did'') did (set_if (anno E ''jws-token-signature'') jws
      (SetUserAnnotation (anno E ''terminus-name'') (NewTerminusName (beUsername E) domain) u)))" for u domain jws did
  have step: "wizard_step E u (bound u domain jws did)"
    if "GetWizardStatus E u \<noteq> WaitActivateVault \<longrightarrow> GetWizardStatus E u = []" for u domain jws did
    using that by (intro wizard_step.bind)
      (auto simp: bound_def annotation_reads NewTerminusName_def wizard_texts GetWizardStatus_def Let_def split: if_splits)
  have nm: "uName (bound u domain jws did) = uName u" for u domain jws did by (simp add: bound_def)
  show ?thesis
    unfolding handleBindingZone_def Let_def bound_def [symmetric] finish_def
    by (auto simp: step nm intro!: wp_rules wp_get_user wp_write_user wp_plain [OF plain_reads(9)] split: sum.splits)
qed

lemma wp_unbind: "wp (allowed E (length l)) (\<lambda>_ _. True) (handleUnbindZone E r) l"
proof -
  define unbound where "unbound u = DeleteUserAnnotation (anno E ''task-enable-ssl'') (DeleteUserAnnotation (anno E ''zone'')
      (DeleteUserAnnotation (anno E ''terminus-name'') u))" for u
  have step: "wizard_step E u (unbound u)" "uName (unbound u) = uName u" for u
    by (auto intro!: wizard_step.unbind simp: unbound_def annotation_reads)
  show ?thesis
    unfolding handleUnbindZone_def Let_def unbound_def [symmetric]
    by (auto simp: step intro!: wp_rules wp_get_user wp_write_user split: sum.splits)
qed

lemma wp_activate: "wp (allowed E (length l)) (\<lambda>_ _. True) (handleActivate E r) l"
proof -
  have retry: "wizard_step E u (SetUserAnnotation (anno E ''wizard-status'') NetworkActivating u)"
    if "GetWizardStatus E u = NetworkActivateFailed" for u
    using that by (intro wizard_step.retry) (auto simp: annotation_reads wizard_texts)
  have act: "wizard_step E u (activated_user E (UserZone (GetTerminusName E u)) (locale_settings E a b c u))"
    if "GetUserAnnotation u (anno E ''zone'') = []" "GetTerminusName E u \<noteq> []" "GetWizardStatus E u \<noteq> NetworkActivating"
      "GetWizardStatus E u \<noteq> NetworkActivateFailed" for u a b c
    using that by (intro wizard_step.activate)
      (auto simp: activated_user_def locale_settings_def annotation_reads Let_def GetUserZone_def [of E u] wizard_texts)
  have nm: "uName (activated_user E z (locale_settings E a b c u)) = uName u" for z a b c u
    by (simp add: activated_user_def locale_settings_def Let_def)
  show ?thesis
    unfolding handleActivate_def activate_new_def Let_def finish_def
    by (auto simp: retry act nm intro!: wp_rules wp_get_user wp_write_user wp_plain [OF plain_cert(1)] wp_plain [OF plain_data(3)]
        split: sum.splits)
qed

lemma wp_modify:
  assumes "\<And>r x. Q r (l @ [(LdapModify dn old new, x)])" "allowed E k l (LdapModify dn old new)"
  shows "wp (allowed E k) Q (do_call E (LdapModify dn old new)) l"
  using assms by (intro wp_ask) auto

lemma wp_call:
  assumes "plain_call c" "\<And>e x. Q (Inl e) (l @ [(c, x)])" "Q (Inr ()) (l @ [(c, Inr ADone)])"
  shows "wp (allowed E k) Q (do_call E c) l"
  using assms plain_allowed [OF assms(1)] by (intro wp_ask) (auto simp: as_done_Some)

lemma allowed_modify:
  assumes "(UserGet nm, Inr (AUser u)) \<in> set (drop k l)" "nm = (if n = [] then beUsername E else n)"
    and "ValidatePassword new = None"
    and "if IsWizardComplete E u then old \<noteq> new \<and> (LdapBind (people_dn (escapeFilter E n)) old, Inr ADone) \<in> set (drop k l)
      else old = [] \<and> (LdapBind (people_dn ''admin'') (getenv E ''LLDAP_ADMIN_PASSWORD''), Inr ADone) \<in> set (drop k l)"
  shows "allowed E k l (LdapModify (people_dn (escapeFilter E n)) old new)"
  using assms by (simp only: allowed.simps) blast

lemma wp_change_password:
  assumes "ValidatePassword password = None" "password \<noteq> current" "nm = (if n = [] then beUsername E else n)"
  shows "wp (allowed E (length l)) (\<lambda>_ _. True) (change_password E n current password u)
    (l @ [(UserGet nm, Inr (AUser u)), (LdapDial a, Inr ADone)])"
proof (cases "IsWizardComplete E u")
  case True
  have "allowed E (length l) (l @ [(UserGet nm, Inr (AUser u)), (LdapDial a, Inr ADone),
      (LdapBind (people_dn (escapeFilter E n)) current, Inr ADone)])
      (LdapModify (people_dn (escapeFilter E n)) current password)"
    using assms True by (intro allowed_modify [of nm u]) auto
  then show ?thesis
    using True unfolding change_password_def Let_def
    by (auto intro!: wp_rules wp_call wp_modify simp: plain_call_def split: sum.splits simp del: allowed.simps)
next
  case False
  let ?pre = "l @ [(UserGet nm, Inr (AUser u)), (LdapDial a, Inr ADone),
      (LdapBind (people_dn ''admin'') (getenv E ''LLDAP_ADMIN_PASSWORD''), Inr ADone)]"
  have m: "allowed E (length l) ?pre (LdapModify (people_dn (escapeFilter E n)) [] password)"
    using assms False by (intro allowed_modify [of nm u]) auto
  have step: "wizard_step E u (SetUserAnnotation (anno E ''wizard-status'') Completed u)"
    using False by (intro wizard_step.complete) (auto simp: annotation_reads wizard_texts)
  have w: "allowed E (length l) (?pre @ t) (UserUpdate (SetUserAnnotation (anno E ''wizard-status'') Completed u))" for t
    using step by (intro allowed_update [of nm u]) auto
  show ?thesis
    using False m w [of "[x]" for x] unfolding change_password_def Let_def
    by (auto intro!: wp_rules wp_call wp_modify wp_update_user simp: plain_call_def split: sum.splits simp del: allowed.simps)
qed

lemma wp_reset: "wp (allowed E (length l)) (\<lambda>_ _. True) (handleResetPassword E r n) l"
  unfolding handleResetPassword_def
  by (auto intro!: wp_rules wp_get_user wp_call wp_change_password simp: plain_call_def
      split: sum.splits simp del: allowed.simps)

lemma wp_routes:
  assumes "(pat, h) \<in> set (bfl_routes order E)"
  shows "wp (allowed E (length l)) (\<lambda>_ _. True) (h r) l"
  using assms plain_handlers [THEN wp_plain, where Q = "\<lambda>_ _. True"] wp_config_system wp_binding wp_unbind wp_activate
  by (simp add: bfl_routes_def) (elim disjE; simp add: wp_derived)

lemma wp_serve: "wp (allowed E (length l)) (\<lambda>_ _. True) (bfl_serve order E p r) l"
proof -
  have "wp (allowed E (length l)) (\<lambda>_ _. True) (bfl_mux order E p r) l"
  proof (cases "List.find (\<lambda>(pat, _). route_exact pat p) (bfl_routes order E)")
    case None
    have "wp (allowed E (length l)) (\<lambda>_ _. True) (handleUserRoutes E r) l"
      unfolding handleUserRoutes_def by (auto intro!: wp_rules wp_reset split: list.splits)
    with None show ?thesis
      unfolding bfl_mux_def by (auto intro!: wp_rules wp_plain [OF plain_handlers(21)])
  next
    case (Some ph)
    obtain pat h where ph: "ph = (pat, h)" by (cases ph)
    then have "(pat, h) \<in> set (bfl_routes order E)" using Some by (auto simp: find_Some_iff) (metis nth_mem)
    with Some ph wp_routes show ?thesis unfolding bfl_mux_def by (auto intro!: wp_rules)
  qed
  then show ?thesis unfolding bfl_serve_def csrfProtect_def by (auto intro!: wp_rules)
qed

lemma serve_calls_allowed:
  assumes "bfl_serve order E p r l = Some (res, l @ t)" "i < length t"
  shows "allowed E (length l) (l @ take i t) (fst (t ! i))"
  using wp_serve [of E l order p r] assms by (auto simp: wp_def calls_ok_def)

text \<open>
  C10: whatever is asked and answered, a request writes a user only after it has read one of that
  name, and the write moves the setup wizard by one of its steps: it keeps the state, binds a name,
  unbinds it, retries, activates the zone of a bound name, or completes.
\<close>

theorem user_writes_follow_wizard:
  assumes "bfl_serve order E p r l = Some (res, l @ t)" "i < length t" "fst (t ! i) = UserUpdate u'"
  shows "\<exists>n u. (UserGet n, Inr (AUser u)) \<in> set (take i t) \<and> uName u' = uName u \<and> wizard_step E u u'"
  using serve_calls_allowed [OF assms(1,2)] assms(3) by simp

text \<open>
  C9: a request changes a password only to a valid one, after reading the user it is for; when the
  wizard of that user is complete, it has bound with the user's name and the old password, which
  differs from the new one; else it has bound as the administrator.
\<close>

theorem password_changes_are_authorised:
  assumes "bfl_serve order E p r l = Some (res, l @ t)" "i < length t" "fst (t ! i) = LdapModify dn old new"
  shows "\<exists>n u. (UserGet (if n = [] then beUsername E else n), Inr (AUser u)) \<in> set (take i t) \<and>
    dn = people_dn (escapeFilter E n) \<and> ValidatePassword new = None \<and>
    (if IsWizardComplete E u then old \<noteq> new \<and> (LdapBind dn old, Inr ADone) \<in> set (take i t)
     else old = [] \<and> (LdapBind (people_dn ''admin'') (getenv E ''LLDAP_ADMIN_PASSWORD''), Inr ADone) \<in> set (take i t))"
proof -
  have d: "drop (length l) (l @ take i t) = take i t" by simp
  show ?thesis using serve_calls_allowed [OF assms(1,2)] unfolding assms(3) allowed.simps d .
qed

end
