(* ===== verification/Bfl_Setup.thy ===== *)
theory Bfl_Setup
  imports Bfl_Wizard
begin

text \<open>
  The setup of a user over several requests. The cluster is only assumed to be truthful about the
  user: a read gives what was written last. From this the end of the wizard follows for any requests,
  and with a cluster that also accepts the writes, binding and activation lead there.
\<close>

subsection \<open>Requests one after the other\<close>

fun serve_all ::
  "((string \<times> string) list \<Rightarrow> (string \<times> string) list) \<Rightarrow> bfl_env \<Rightarrow> (string \<times> http_request) list \<Rightarrow> answered list bfl" where
  "serve_all order E [] = ret []"
| "serve_all order E ((p, r) # rs) =
     chk [] (bfl_serve order E p r) (\<lambda>a. chk [] (serve_all order E rs) (\<lambda>as. ret (a # as)))"

text \<open>The user as it was written last.\<close>

fun user_after :: "User \<Rightarrow> cmd \<times> (string + res) \<Rightarrow> User" where
  "user_after u (UserUpdate u', Inr ADone) = (if uName u' = uName u then u' else u)"
| "user_after u e = u"

definition user_now :: "User \<Rightarrow> log \<Rightarrow> User" where
  "user_now u l = foldl user_after u l"

definition truthful :: "User \<Rightarrow> log \<Rightarrow> bool" where
  "truthful u0 l \<longleftrightarrow>
     (\<forall>i < length l. \<forall>n u. l ! i = (UserGet n, Inr (AUser u)) \<longrightarrow> uName u = uName u0 \<longrightarrow>
        u = user_now u0 (take i l))"

lemma uName_user_after [simp]: "uName (user_after u e) = uName u"
  by (cases "(u, e)" rule: user_after.cases) auto

lemma uName_user_now [simp]: "uName (user_now u l) = uName u"
  unfolding user_now_def by (induction l arbitrary: u) auto

lemma user_now_append [simp]: "user_now u (l @ [e]) = user_after (user_now u l) e"
  by (simp add: user_now_def)

lemma user_after_cases:
  obtains u' where "e = (UserUpdate u', Inr ADone)" "uName u' = uName u" "user_after u e = u'"
  | "user_after u e = u"
  by (cases "(u, e)" rule: user_after.cases) (auto, metis)

lemma truthful_read:
  "truthful u0 l \<Longrightarrow> i < length l \<Longrightarrow> l ! i = (UserGet n, Inr (AUser u)) \<Longrightarrow> uName u = uName u0 \<Longrightarrow>
   u = user_now u0 (take i l)"
  unfolding truthful_def by blast

subsection \<open>The end of the wizard\<close>

text \<open>In a request, what holds of the user when it starts and is kept by the steps of the wizard holds throughout.\<close>

lemma request_keeps:
  assumes calls: "\<And>i. i < length t \<Longrightarrow> allowed E (length l) (l @ take i t) (fst (t ! i))"
    and truth: "truthful u0 (l @ t)" and start: "P (user_now u0 l)"
    and step: "\<And>u u'. P u \<Longrightarrow> wizard_step E u u' \<Longrightarrow> P u'"
  shows "k \<le> length t \<Longrightarrow> P (user_now u0 (l @ take k t))"
proof (induction k rule: less_induct)
  case (less k)
  show ?case
  proof (cases k)
    case 0
    then show ?thesis using start by simp
  next
    case (Suc i)
    then have i: "i < length t" "i < k" using less.prems by simp_all
    let ?u = "user_now u0 (l @ take i t)"
    have eq: "user_now u0 (l @ take k t) = user_after ?u (t ! i)"
      using i(1) user_now_append [of u0 "l @ take i t" "t ! i"] by (simp add: Suc take_Suc_conv_app_nth)
    show ?thesis
    proof (cases rule: user_after_cases [of "t ! i" ?u])
      case (1 u')
      then obtain n u where read: "(UserGet n, Inr (AUser u)) \<in> set (take i t)" "uName u' = uName u" "wizard_step E u u'"
        using calls [OF i(1)] by auto
      from read(1) obtain j where j: "j < i" "t ! j = (UserGet n, Inr (AUser u))"
        using i(1) by (auto simp: in_set_conv_nth)
      have "u = user_now u0 (take (length l + j) (l @ t))"
        using truth i(1) j read(2) 1(2)
        by (intro truthful_read [of u0 "l @ t" "length l + j" n u]) (simp_all add: nth_append)
      then have "P u" using less.IH [of j] j(1) i by simp
      then show ?thesis using step read(3) 1(3) eq by simp
    next
      case 2
      then show ?thesis using less.IH [OF i(2)] i(1) eq by simp
    qed
  qed
qed

lemma truthful_append: "truthful u0 (l @ t) \<Longrightarrow> truthful u0 l"
  unfolding truthful_def
proof (intro allI impI)
  fix i n u
  assume t: "\<forall>i < length (l @ t). \<forall>n u. (l @ t) ! i = (UserGet n, Inr (AUser u)) \<longrightarrow> uName u = uName u0 \<longrightarrow>
      u = user_now u0 (take i (l @ t))"
    and i: "i < length l" "l ! i = (UserGet n, Inr (AUser u))" "uName u = uName u0"
  then have "u = user_now u0 (take i (l @ t))" using t [rule_format, of i n u] by (simp add: nth_append)
  then show "u = user_now u0 (take i l)" using i(1) by simp
qed

lemma serve_extends: "bfl_serve order E p r l = Some (res, l') \<Longrightarrow> \<exists>t. l' = l @ t"
  using wp_serve [of E l order p r] by (auto simp: wp_def calls_ok_def)

lemma serve_all_extends: "serve_all order E rs l = Some (res, l') \<Longrightarrow> \<exists>t. l' = l @ t"
proof (induction rs arbitrary: l res)
  case Nil
  then show ?case by simp
next
  case (Cons pr rs)
  obtain p r where "pr = (p, r)" by (cases pr)
  with Cons.prems show ?case
    by (auto elim!: chk_SomeE dest!: serve_extends Cons.IH)
qed

lemma serve_all_keeps:
  assumes step: "\<And>u u'. P u \<Longrightarrow> wizard_step E u u' \<Longrightarrow> P u'"
  shows "serve_all order E rs l = Some (res, l') \<Longrightarrow> truthful u0 l' \<Longrightarrow> P (user_now u0 l) \<Longrightarrow> P (user_now u0 l')"
proof (induction rs arbitrary: l res)
  case Nil
  then show ?case by simp
next
  case (Cons pr rs)
  obtain p r where pr: "pr = (p, r)" by (cases pr)
  have one: "P (user_now u0 m)"
    if served: "bfl_serve order E p r l = Some (a, m)" and truth: "truthful u0 m" for a m
  proof -
    obtain t where m: "m = l @ t" using serve_extends [OF served] by blast
    have "allowed E (length l) (l @ take i t) (fst (t ! i))" if "i < length t" for i
      using serve_calls_allowed served that unfolding m by blast
    then have "P (user_now u0 (l @ take (length t) t))"
      using request_keeps [where P = P and k = "length t" and t = t] truth [unfolded m] Cons.prems(3) step by blast
    then show ?thesis by (simp add: m)
  qed
  show ?case
    using Cons.prems(1) unfolding pr serve_all.simps
  proof (cases rule: chk_SomeE)
    case (err e)
    then show ?thesis using one Cons.prems(2) by blast
  next
    case (ok a m)
    obtain res' where rest: "serve_all order E rs m = Some (res', l')"
      using ok(2) by (auto elim!: chk_SomeE)
    then obtain t where "l' = m @ t" using serve_all_extends by blast
    then show ?thesis using Cons.IH [OF rest Cons.prems(2)] one [OF ok(1)] truthful_append Cons.prems(2) by blast
  qed
qed


lemma waiting_step:
  "GetWizardStatus E u = WaitResetPassword \<Longrightarrow> wizard_step E u u' \<Longrightarrow> GetWizardStatus E u' = WaitResetPassword"
  by (erule wizard_step.cases) (auto simp: wizard_texts IsWizardComplete_def)

text \<open>
  Once a zone is activated, the wizard waits for the first password, and no request ever makes it
  complete: with a cluster that reads back what was written last, no sequence of requests leaves that state.
\<close>

lemma activated_never_completed:
  assumes "serve_all order E rs l = Some (res, l')" "truthful u0 l'"
    and "GetWizardStatus E (user_now u0 l) = WaitResetPassword"
  shows "GetWizardStatus E (user_now u0 l') = WaitResetPassword"
  using serve_all_keeps [where P = "\<lambda>u. GetWizardStatus E u = WaitResetPassword"] waiting_step assms by blast

subsection \<open>A cluster that works\<close>

definition working :: "bfl_env \<Rightarrow> User \<Rightarrow> bool" where
  "working E u0 \<longleftrightarrow>
     (\<forall>l. answer E l (UserGet (uName u0)) = Inr (AUser (user_now u0 l))) \<and>
     (\<forall>l u. answer E l (UserUpdate u) = Inr ADone) \<and>
     (\<forall>l t. \<exists>cert key. answer E l (IssueCert t) = Inr (ACert cert key)) \<and>
     (\<forall>l k ns n d. answer E l (DataCreate k ns n d) = Inr ADone \<and> answer E l (DataUpdate k ns n d) = Inr ADone)"

lemma workingD:
  assumes "working E u0"
  shows "answer E l (UserGet (uName u0)) = Inr (AUser (user_now u0 l))"
    "answer E l (UserUpdate u) = Inr ADone"
    "\<exists>cert key. answer E l (IssueCert t) = Inr (ACert cert key)"
    "answer E l (DataCreate k ns n d) = Inr ADone" "answer E l (DataUpdate k ns n d) = Inr ADone"
  using assms unfolding working_def by auto

lemma user_now_other: "(\<And>u. c \<noteq> UserUpdate u) \<Longrightarrow> user_now u0 (l @ [(c, r)]) = user_now u0 l"
  by (cases c) auto

lemma GetDomain_gives:
  "\<exists>domain l'. GetDomain E l = Some (Inr domain, l') \<and> domain \<noteq> [] \<and> user_now u0 l' = user_now u0 l"
  by (auto simp: GetDomain_def orElse_def attempt_def get_data_def ask_as_def Let_def user_now_def
      split: option.splits sum.splits)

lemma binding_works:
  assumes "working E u0" "uName u0 = beUsername E" "beUsername E \<noteq> []" "rq_Method r = ''POST''"
    and "field_str ''jws_signature'' (rq_Body r) = Some jws" "field_str ''did'' (rq_Body r) = Some did"
    and "GetWizardStatus E (user_now u0 l) = WaitActivateVault"
  shows "\<exists>domain l' u. handleBindingZone E r l = Some (Inr (respondSuccess, []), l') \<and> domain \<noteq> [] \<and>
    user_now u0 l' = u \<and> GetTerminusName E u = NewTerminusName (beUsername E) domain \<and>
    GetWizardStatus E u = WaitActivateSystem \<and> GetUserZone E u = GetUserZone E (user_now u0 l)"
proof -
  let ?u = "user_now u0 l" and ?l = "l @ [(UserGet (beUsername E), Inr (AUser (user_now u0 l)))]"
  have get: "GetUser E (beUsername E) l = Some (Inr ?u, ?l)"
    using workingD(1) [OF assms(1), of l] assms(2,3) by (simp add: GetUser_def ask_as_def as_simps)
  obtain domain l' where dom: "GetDomain E ?l = Some (Inr domain, l')" "domain \<noteq> []" "user_now u0 l' = ?u"
    using GetDomain_gives [of E ?l u0] by auto
  show ?thesis
    using get dom assms(2,4-7) workingD(2) [OF assms(1)]
    by (auto simp: handleBindingZone_def method_guard_def orError_def attempt_Some Let_def UpdateUser_def ask_as_def as_simps
        finish_def ret_def GetTerminusName_def GetWizardStatus_def GetUserZone_def wizard_texts)
qed

definition stored :: "bfl_env \<Rightarrow> string \<Rightarrow> log \<Rightarrow> bool" where
  "stored E zone l \<longleftrightarrow>
     (\<exists>c d. (c, Inr ADone) \<in> set l \<and> value_of d ''zone'' = zone \<and>
        c \<in> {DataCreate Secret (beNamespace E) SSLSecretName d, DataUpdate Secret (beNamespace E) SSLSecretName d})"

lemma EnsureSSLSecret_works:
  assumes "working E u0"
  shows "\<exists>t. EnsureSSLSecret E zone cert key l = Some (Inr (), l @ t) \<and> stored E zone t \<and> user_now u0 (l @ t) = user_now u0 l"
proof -
  let ?d = "ssl_data E l zone cert key"
  have z: "value_of ?d ''zone'' = zone" by (simp add: ssl_data_def value_of_def)
  show ?thesis
    using workingD(4,5) [OF assms] z
    by (auto simp: EnsureSSLSecret_def write_data_def get_data_def attempt_def ask_as_def as_simps Let_def stored_def
        user_now_def split: sum.splits option.splits)
qed

lemma activation_works:
  assumes "working E u0" "uName u0 = beUsername E" "rq_Method r = ''POST''"
    and "field_str ''language'' (rq_Body r) = Some language" "field_str ''location'' (rq_Body r) = Some location"
      "field_str ''theme'' (rq_Body r) = Some theme"
    and "GetTerminusName E (user_now u0 l) \<noteq> []" "GetUserZone E (user_now u0 l) = []"
    and "GetWizardStatus E (user_now u0 l) = WaitActivateSystem"
  shows "\<exists>l'. handleActivate E r l = Some (Inr (respondSuccess, []), l') \<and> GetWizardStatus E (user_now u0 l') = WaitResetPassword \<and>
    GetTerminusName E (user_now u0 l') = GetTerminusName E (user_now u0 l) \<and>
    GetUserZone E (user_now u0 l') = UserZone (GetTerminusName E (user_now u0 l)) \<and> stored E (GetUserZone E (user_now u0 l')) l'"
proof -
  let ?u = "user_now u0 l" and ?zone = "UserZone (GetTerminusName E (user_now u0 l))"
  obtain l1 where get: "GetUser E [] l = Some (Inr ?u, l1)" "user_now u0 l1 = ?u"
    using workingD(1) [OF assms(1), of l] assms(2) by (simp add: GetUser_def ask_as_def as_simps user_now_def)
  obtain cert key l2 where issue: "GenerateSelfSignedCert E ?zone (GetTerminusName E ?u) l1 = Some (Inr (cert, key), l2)"
    "user_now u0 l2 = ?u"
    using workingD(3) [OF assms(1), of l1 "cert_for E ?zone (GetTerminusName E ?u)"] get(2)
    by (auto simp: GenerateSelfSignedCert_def ask_as_def user_now_def)
  obtain t where store: "EnsureSSLSecret E ?zone cert key l2 = Some (Inr (), l2 @ t)" "stored E ?zone t"
    "user_now u0 (l2 @ t) = ?u"
    using EnsureSSLSecret_works [OF assms(1), of ?zone cert key l2] issue(2) by auto
  let ?v = "activated_user E ?zone (locale_settings E language location theme ?u)"
  have v: "uName ?v = uName u0" "GetWizardStatus E ?v = WaitResetPassword" "GetUserZone E ?v = ?zone"
    "GetTerminusName E ?v = GetTerminusName E ?u"
    by (simp_all add: activated_user_def locale_settings_def Let_def GetWizardStatus_def GetUserZone_def GetTerminusName_def
        wizard_texts)
  have "activate_new E r (GetTerminusName E ?u) ?u l1 = Some (Inr (respondSuccess, []), (l2 @ t) @ [(UserUpdate ?v, Inr ADone)])"
    using issue(1) store(1) assms(4-6) workingD(2) [OF assms(1)]
    by (simp add: activate_new_def orError_def attempt_Some UpdateUser_def ask_as_def as_simps finish_def ret_def Let_def)
  then have run: "handleActivate E r l = Some (Inr (respondSuccess, []), (l2 @ t) @ [(UserUpdate ?v, Inr ADone)])"
    using get(1) assms(3,7-9)
    by (simp add: handleActivate_def method_guard_def orError_def attempt_Some GetUserZone_def wizard_texts)
  have now: "user_now u0 ((l2 @ t) @ [(UserUpdate ?v, Inr ADone)]) = ?v"
    using v(1) store(3) by (simp only: user_now_append user_after.simps uName_user_now) simp
  have "stored E ?zone ((l2 @ t) @ [(UserUpdate ?v, Inr ADone)])"
    using store(2) by (auto simp: stored_def)
  with run now v show ?thesis by (intro exI [of _ "(l2 @ t) @ [(UserUpdate ?v, Inr ADone)]"]) simp
qed

lemma routed:
  "bfl_mux order E ''/bfl/settings/v1alpha1/binding-zone'' r = handleBindingZone E r"
  "bfl_mux order E ''/bfl/settings/v1alpha1/activate'' r = handleActivate E r"
proof -
  have c: "cleanPath ''/bfl/settings/v1alpha1/binding-zone'' = ''/bfl/settings/v1alpha1/binding-zone''"
    "cleanPath ''/bfl/settings/v1alpha1/activate'' = ''/bfl/settings/v1alpha1/activate''"
    "route_segments ''/bfl/settings/v1alpha1/binding-zone'' = [[], ''bfl'', ''settings'', ''v1alpha1'', ''binding-zone'']"
    "route_segments ''/bfl/settings/v1alpha1/activate'' = [[], ''bfl'', ''settings'', ''v1alpha1'', ''activate'']"
    by code_simp+
  then show "bfl_mux order E ''/bfl/settings/v1alpha1/binding-zone'' r = handleBindingZone E r"
    "bfl_mux order E ''/bfl/settings/v1alpha1/activate'' r = handleActivate E r"
    by (simp_all add: bfl_mux_def bfl_routes_def route_exact_def)
qed

definition binding_path :: string where "binding_path = ''/bfl/settings/v1alpha1/binding-zone''"
definition activate_path :: string where "activate_path = ''/bfl/settings/v1alpha1/activate''"

lemma serve_posts:
  assumes "rq_Method r = ''POST''" "header_get r ''X-Requested-With'' \<noteq> []"
  shows "bfl_serve order E binding_path r = handleBindingZone E r" "bfl_serve order E activate_path r = handleActivate E r"
  using assms by (simp_all add: bfl_serve_def csrfProtect_def binding_path_def activate_path_def routed)


text \<open>
  A small cluster that remembers what is written, the properties of the user back end on it, and
  what the model shows beside them.
\<close>

subsection \<open>A cluster with one user\<close>

fun data_after :: "(data_kind \<Rightarrow> string \<Rightarrow> string \<Rightarrow> kv option) \<Rightarrow> cmd \<times> (string + res) \<Rightarrow> data_kind \<Rightarrow> string \<Rightarrow> string \<Rightarrow> kv option" where
  "data_after D (DataCreate k ns n d, Inr ADone) = (\<lambda>k' ns' n'. if k' = k \<and> ns' = ns \<and> n' = n then Some d else D k' ns' n')"
| "data_after D (DataUpdate k ns n d, Inr ADone) = (\<lambda>k' ns' n'. if k' = k \<and> ns' = ns \<and> n' = n then Some d else D k' ns' n')"
| "data_after D (DataDelete k ns n, Inr ADone) = (\<lambda>k' ns' n'. if k' = k \<and> ns' = ns \<and> n' = n then None else D k' ns' n')"
| "data_after D e = D"

definition cluster :: "User \<Rightarrow> (data_kind \<Rightarrow> string \<Rightarrow> string \<Rightarrow> kv option) \<Rightarrow> log \<Rightarrow> cmd \<Rightarrow> string + res" where
  "cluster u0 D l c =
     (case c of
        UserGet n \<Rightarrow> if n = uName u0 then Inr (AUser (user_now u0 l)) else Inl ''no user''
      | DataGet k ns n \<Rightarrow> (case foldl data_after D l k ns n of None \<Rightarrow> Inl ''not found'' | Some d \<Rightarrow> Inr (AData d))
      | UserUpdate _ \<Rightarrow> Inr ADone
      | DataCreate _ _ _ _ \<Rightarrow> Inr ADone
      | DataUpdate _ _ _ _ \<Rightarrow> Inr ADone
      | DataDelete _ _ _ \<Rightarrow> Inr ADone
      | IssueCert _ \<Rightarrow> Inr (ACert ''C'' ''K'')
      | LdapDial _ \<Rightarrow> Inr ADone
      | LdapBind _ _ \<Rightarrow> Inr ADone
      | LdapModify _ _ _ \<Rightarrow> Inr ADone
      | _ \<Rightarrow> Inl ''refused'')"

definition ann :: "(string \<times> string) list \<Rightarrow> User" where
  "ann as = \<lparr>uName = ''ann'', uUID = ''1'', uCreated = 0, uAnnotations = map (\<lambda>(k, v). (''packalares.io/'' @ k, v)) as, uObject = []\<rparr>"

definition bfl_of :: "User \<Rightarrow> (data_kind \<Rightarrow> string \<Rightarrow> string \<Rightarrow> kv option) \<Rightarrow> bfl_env" where
  "bfl_of u D =
     \<lparr>answer = cluster u D, beConfig = \<lparr>cx_yaml = [], cx_env = \<lambda>_. []\<rparr>,
      getenv = (\<lambda>k. if k = ''LLDAP_ADMIN_PASSWORD'' then ''adm'' else []),
      beNamespace = ''user-space-ann'', beUsername = ''ann'', decodeError = \<lambda>_. [], marshal = \<lambda>_. [], unmarshal = \<lambda>_. None,
      clock = \<lambda>_. ''t'', tenYears = \<lambda>_. ''t10'', expired = \<lambda>_ _. False, parseTime = \<lambda>_. Some 0, parseCert = \<lambda>_. None,
      escapeFilter = \<lambda>s. s\<rparr>"

definition no_data :: "data_kind \<Rightarrow> string \<Rightarrow> string \<Rightarrow> kv option" where
  "no_data k ns n = None"

definition request :: "string \<Rightarrow> string \<Rightarrow> (string \<times> string) list \<Rightarrow> jval \<Rightarrow> http_request" where
  "request m p hs body = \<lparr>rq_Method = m, rq_Path = p, rq_Query = [], rq_Host = [], rq_RemoteAddr = [], rq_Header = hs,
     rq_Cookies = [], rq_Body = Some body\<rparr>"

abbreviation post :: "string \<Rightarrow> jval \<Rightarrow> http_request" where
  "post p body \<equiv> request ''POST'' p [(''X-Requested-With'', ''x'')] body"

lemma cluster_simps [simp]:
  "answer (bfl_of u D) = cluster u D" "beUsername (bfl_of u D) = ''ann''"
  "anno (bfl_of u D) k = ''packalares.io/'' @ k"
proof -
  show "anno (bfl_of u D) k = ''packalares.io/'' @ k"
  proof -
    have "APIGroup \<lparr>cx_yaml = [], cx_env = \<lambda>_. []\<rparr> = ''packalares.io''" by code_simp
    then show ?thesis by (simp add: anno_def bfl_of_def)
  qed
qed (simp_all add: bfl_of_def)

lemma bfl_of_works: "uName u = ''ann'' \<Longrightarrow> working (bfl_of u D) u"
  by (simp add: working_def cluster_def)

lemma truthful_nil: "truthful u []"
  by (simp add: truthful_def)

subsection \<open>The properties at an input\<close>

lemma paths: "cleanPath binding_path = binding_path" "cleanPath activate_path = activate_path"
  by code_simp+


definition waiting :: User where
  "waiting = ann [(''wizard-status'', ''wait_reset_password''), (''terminus-name'', ''ann@x.io''), (''zone'', ''ann.x.io'')]"

definition password_path :: string where
  "password_path = ''/bfl/iam/v1alpha1/users/ann/password''"

definition new_password :: "string \<Rightarrow> http_request" where
  "new_password old = request ''PUT'' password_path [(''X-Requested-With'', ''x'')]
     (JObj [(''current_password'', JStr old), (''password'', JStr ''Secret-99'')])"

definition log_of :: "((string + 'a) \<times> log) option \<Rightarrow> log" where
  "log_of x = (case x of None \<Rightarrow> [] | Some (_, l) \<Rightarrow> l)"

lemma log_of_Some: "m l = Some (r, l') \<Longrightarrow> log_of (m l) = l'"
  by (simp add: log_of_def)

text \<open>The calls of a user who changes the first password after activation, and of one who sets it before.\<close>

definition change_calls :: log where
  "change_calls = [(UserGet ''ann'', Inr (AUser waiting)), (LdapDial ''lldap-svc.os-system:3890'', Inr ADone),
     (LdapBind (people_dn ''ann'') ''Old-1'', Inr ADone), (LdapModify (people_dn ''ann'') ''Old-1'' ''Secret-99'', Inr ADone)]"

definition set_calls :: log where
  "set_calls = [(UserGet ''ann'', Inr (AUser (ann []))), (LdapDial ''lldap-svc.os-system:3890'', Inr ADone),
     (LdapBind (people_dn ''admin'') ''adm'', Inr ADone), (LdapModify (people_dn ''ann'') [] ''Secret-99'', Inr ADone),
     (UserUpdate (ann [(''wizard-status'', ''completed'')]), Inr ADone)]"

lemma changed_waiting:
  "bfl_serve id (bfl_of waiting no_data) password_path (new_password ''Old-1'') [] =
     Some (Inr (respondSuccess, []), [] @ change_calls)"
  by code_simp

lemma changed_new:
  "bfl_serve id (bfl_of (ann []) no_data) password_path (new_password []) [] =
     Some (Inr (respondSuccess, [JDeleteWizard]), [] @ set_calls)"
  by code_simp

theorem user_writes_follow_wizard_witness:
  "\<exists>n u. (UserGet n, Inr (AUser u)) \<in> set (take 4 set_calls) \<and> uName (ann [(''wizard-status'', ''completed'')]) = uName u \<and>
     wizard_step (bfl_of (ann []) no_data) u (ann [(''wizard-status'', ''completed'')])"
proof (rule user_writes_follow_wizard [OF changed_new])
  show "4 < length set_calls" "fst (set_calls ! 4) = UserUpdate (ann [(''wizard-status'', ''completed'')])"
    by (simp_all add: set_calls_def)
qed

theorem password_changes_are_authorised_witness:
  "\<exists>n u. (UserGet (if n = [] then beUsername (bfl_of waiting no_data) else n), Inr (AUser u)) \<in> set (take 3 change_calls) \<and>
    people_dn ''ann'' = people_dn (escapeFilter (bfl_of waiting no_data) n) \<and> ValidatePassword ''Secret-99'' = None \<and>
    (if IsWizardComplete (bfl_of waiting no_data) u
     then ''Old-1'' \<noteq> ''Secret-99'' \<and> (LdapBind (people_dn ''ann'') ''Old-1'', Inr ADone) \<in> set (take 3 change_calls)
     else ''Old-1'' = [] \<and> (LdapBind (people_dn ''admin'') (getenv (bfl_of waiting no_data) ''LLDAP_ADMIN_PASSWORD''), Inr ADone)
       \<in> set (take 3 change_calls))"
proof (rule password_changes_are_authorised [OF changed_waiting])
  show "3 < length change_calls" "fst (change_calls ! 3) = LdapModify (people_dn ''ann'') ''Old-1'' ''Secret-99''"
    by (simp_all add: change_calls_def)
qed

lemma activated_never_completed_witness:
  "GetWizardStatus (bfl_of waiting no_data) (user_now waiting change_calls) = WaitResetPassword"
proof (rule activated_never_completed)
  show "serve_all id (bfl_of waiting no_data) [(password_path, new_password ''Old-1'')] [] =
     Some (Inr [(respondSuccess, [])], change_calls)"
    by (simp add: changed_waiting chk_Inr ret_def)
  have "user_now waiting [] = waiting" by (simp add: user_now_def)
  then show "truthful waiting change_calls"
    by (auto simp: truthful_def change_calls_def nth_Cons')
  show "GetWizardStatus (bfl_of waiting no_data) (user_now waiting []) = WaitResetPassword"
    by code_simp
qed

definition unbind_path :: string where
  "unbind_path = ''/bfl/settings/v1alpha1/unbind-zone''"

definition info_path :: string where
  "info_path = ''/bfl/info/v1/olares-info''"

theorem forged_requests_only_read_witness:
  "\<exists>res l'. bfl_serve id (bfl_of waiting no_data) info_path (request ''GET'' info_path [] JNull) [] = Some (res, l') \<and>
     l' \<noteq> [] \<and> list_all (\<lambda>e. is_read (fst e)) l'"
proof -
  have "(case bfl_serve id (bfl_of waiting no_data) info_path (request ''GET'' info_path [] JNull) [] of
      None \<Rightarrow> False | Some (_, l') \<Rightarrow> l' \<noteq> [])" by code_simp
  then obtain res l' where s: "bfl_serve id (bfl_of waiting no_data) info_path (request ''GET'' info_path [] JNull) [] = Some (res, l')"
    "l' \<noteq> []" by (auto split: option.splits)
  have "header_get (request ''GET'' info_path [] JNull) ''X-Requested-With'' = []"
    "\<not> list_ex (\<lambda>pat. route_exact pat info_path) writing_gets" by code_simp+
  from forged_requests_only_read [OF this s(1)] s show ?thesis by auto
qed

subsection \<open>Findings\<close>

text \<open>A page that makes a browser fetch this address unbinds the name: no header is asked for.\<close>

lemma unbind_by_get:
  "bfl_serve id (bfl_of waiting no_data) unbind_path (request ''GET'' unbind_path [] JNull) [] =
     Some (Inr (respondSuccess, []), [(UserGet ''ann'', Inr (AUser waiting)),
       (UserUpdate (ann [(''wizard-status'', ''wait_reset_password'')]), Inr ADone),
       (DataDelete Secret ''user-space-ann'' ''zone-ssl-config'', Inr ADone)])"
  by code_simp

text \<open>The wizard only binds a name in its first state, so a name that was unbound is never bound again.\<close>

lemma unbind_is_final:
  assumes "GetUser E (beUsername E) l = Some (Inr u, l')" "GetWizardStatus E u \<noteq> WaitActivateVault"
    "GetWizardStatus E u \<noteq> []" "rq_Method r = ''POST''"
  shows "\<exists>msg. handleBindingZone E r l = Some (Inr (respondError msg, []), l') \<or> handleBindingZone E r l = Some (Inr (respondError msg, []), l)"
  using assms by (auto simp: handleBindingZone_def method_guard_def orError_def attempt_Some refuse_def finish_def ret_def
      Let_def split: option.splits)

text \<open>The roles are listed with the owner twice.\<close>

lemma roles_list_owner_twice:
  "handleListRoles (request ''GET'' p [] JNull) l =
     Some (Inr (respondJSON (NewListResult [JStr ''owner'', JStr ''admin'', JStr ''owner'']), []), l)"
  by (simp add: handleListRoles_def method_guard_def request_def finish_def ret_def)

text \<open>An answer of host control that cannot be read counts as success, with an empty address.\<close>

lemma unreadable_answer_is_success:
  "unmarshal E data = None \<Longrightarrow> enable_result E data = (False, [], [])"
  by (simp add: enable_result_def members_of_def)

text \<open>The cluster's integers are no case of the type switch: the last login is dropped.\<close>

lemma last_login_integers_dropped:
  "extractLastLoginTime E (u\<lparr>uObject := [(''status'', JObj [(''lastLoginTime'', JInt t)])]\<rparr>) = None"
  by (simp add: extractLastLoginTime_def obj_member_def)

text \<open>Switching the access by address off and on again leaves the indentation of the removed line behind.\<close>

definition ip_conf :: string where
  "ip_conf = ip_section @ nl @ listenLine @ nl @ ''x''"

lemma ip_access_leaves_blanks:
  "unblock_ip (block_ip ip_conf) = ip_section @ nl @ listenLine @ nl @ ''    x''"
  "block_ip (unblock_ip (block_ip ip_conf)) \<noteq> block_ip ip_conf"
  by code_simp+

text \<open>
  A renewal writes the proxy's configuration from the template alone: a block of the access by
  address in the old one is dropped, while the setting stays.
\<close>

lemma renewal_ignores_old_config:
  assumes "get_data E ConfigMap ns ''proxy-config-template'' l = Some (Inr tmpls, l1)" "ns = FrameworkNamespace (beConfig E)"
    "nginx_params E l1 = Some (Inr p, l2)" "get_data E ConfigMap ns ''proxy-config'' l2 = Some (Inr old, l3)"
    "answer E l3 (DataUpdate ConfigMap ns ''proxy-config'' (map (\<lambda>(k, t). (k, Build order t p)) tmpls)) = Inr ADone"
  shows "regenerateNginxConfig order E l =
    Some (Inr (), l3 @ [(DataUpdate ConfigMap ns ''proxy-config'' (map (\<lambda>(k, t). (k, Build order t p)) tmpls), Inr ADone)])"
  using assms by (simp add: regenerateNginxConfig_def Let_def chk_Inr ask_as_def as_simps ret_def)

end
