(* ===== verification/Hostctl.thy ===== *)
theory Hostctl
  imports Host_Ops Go_Net Go_Path
begin

text \<open>
  \<^verbatim>\<open>cmd/hostctl/main.go\<close>: the service that runs commands in the name spaces of the host: it reads and
  changes the SSH daemon and brings the WireGuard tunnel up and down. Every route but the health check
  asks for the token. The deadline of a command is part of the machine's answer; what is written to
  the log of the process is left out.
\<close>

record hostctl =
  hc_machine :: machine
  hc_token :: string
  hc_decode_error :: "http_request \<Rightarrow> string"
  hc_set_order :: "string list \<Rightarrow> string list"

type_synonym handler = "http_request \<Rightarrow> http_response act"

definition nsenterPrefix :: "string list" where
  "nsenterPrefix = [''/usr/bin/nsenter'', ''-t'', ''1'', ''-m'', ''-u'', ''-n'', ''-i'', ''--'']"

definition respondErr :: "nat \<Rightarrow> string \<Rightarrow> http_response act" where
  "respondErr code msg = ret (reply code (JObj [(''error'', JStr msg)]))"

definition respondJSON :: "nat \<Rightarrow> jval \<Rightarrow> http_response act" where
  "respondJSON code data = ret (reply code data)"

definition with_error :: "nat \<Rightarrow> string \<Rightarrow> 'a act \<Rightarrow> ('a \<Rightarrow> http_response act) \<Rightarrow> http_response act" where
  "with_error code msg m k = attempt m (\<lambda>r. case r of Inl e \<Rightarrow> respondErr code (msg @ e) | Inr a \<Rightarrow> k a)"

definition method_is :: "string \<Rightarrow> http_request \<Rightarrow> http_response act \<Rightarrow> http_response act" where
  "method_is m r k = (if rq_Method r \<noteq> m then respondErr 405 ''method not allowed'' else k)"

definition withAuth :: "string \<Rightarrow> handler \<Rightarrow> handler" where
  "withAuth token h r =
     (let auth = header_get r ''Authorization'' in
      if auth = [] \<or> \<not> HasPrefix auth ''Bearer '' then respondErr 401 ''missing or invalid authorization header''
      else if TrimPrefix auth ''Bearer '' \<noteq> token then respondErr 403 ''invalid token''
      else h r)"

subsection \<open>Commands on the host\<close>

definition in_host :: "string list \<Rightarrow> hcmd" where
  "in_host args = HRun (nsenterPrefix @ args) None"

definition nsenterRun :: "machine \<Rightarrow> string list \<Rightarrow> unit act" where
  "nsenterRun M args =
     chk [] (ask M (in_host args)) (\<lambda>a. case error_of a of
         None \<Rightarrow> ret ()
       | Some e \<Rightarrow> fail (join '' '' args @ '': '' @ TrimSpace (text_of a) @ '' ('' @ e @ '')''))"

definition nsenterWrite :: "machine \<Rightarrow> string \<Rightarrow> string \<Rightarrow> unit act" where
  "nsenterWrite M path content =
     chk [] (ask M (HRun (nsenterPrefix @ [''tee'', path]) (Some content))) (\<lambda>a. case error_of a of
         None \<Rightarrow> ret ()
       | Some e \<Rightarrow> fail (''write '' @ path @ '': '' @ TrimSpace (text_of a) @ '' ('' @ e @ '')''))"

text \<open>The output, trimmed, and the error.\<close>

definition nsenterOutput :: "machine \<Rightarrow> string list \<Rightarrow> (string \<times> string option) act" where
  "nsenterOutput M args = chk [] (ask M (in_host args)) (\<lambda>a. ret (TrimSpace (text_of a), error_of a))"

fun nsenter_all :: "machine \<Rightarrow> string list list \<Rightarrow> unit act" where
  "nsenter_all M [] = ret ()"
| "nsenter_all M (args # cmds) = ignoring (nsenterRun M args) (nsenter_all M cmds)"

subsection \<open>SSH\<close>

record SSHStatus =
  ssEnabled :: bool
  ssPort :: int

definition ssh_json :: "SSHStatus \<Rightarrow> jval" where
  "ssh_json s = JObj [(''enabled'', JBool (ssEnabled s)), (''port'', JInt (ssPort s))]"

definition sshServiceName :: "machine \<Rightarrow> string act" where
  "sshServiceName M =
     chk [] (ask M (in_host [''systemctl'', ''list-unit-files'', ''ssh.service''])) (\<lambda>a.
     ret (if Contains (text_of a) ''ssh.service'' then ''ssh'' else ''sshd''))"

definition port_line :: "int \<Rightarrow> string \<Rightarrow> int" where
  "port_line p l =
     (let line = TrimSpace l in
      if HasPrefix line ''#'' then p
      else if HasPrefix line ''Port '' \<or> HasPrefix line (''Port'' @ tab)
        then (case Fields line of
                _ # v # _ \<Rightarrow> (case AtoiErr v of None \<Rightarrow> p | Some i \<Rightarrow> i)
              | _ \<Rightarrow> p)
        else p)"

definition ssh_port :: "string \<Rightarrow> int" where
  "ssh_port cfg = foldl port_line 22 (split_on (CHR 0x0A) cfg)"

definition getSSHStatus :: "machine \<Rightarrow> SSHStatus act" where
  "getSSHStatus M =
     chk [] (sshServiceName M) (\<lambda>svc.
     chk [] (nsenterOutput M [''systemctl'', ''is-active'', svc]) (\<lambda>(out, e).
     chk [] (if e = None \<and> out = ''active'' then ret True
             else chk [] (nsenterOutput M [''systemctl'', ''is-active'', ''ssh.socket'']) (\<lambda>(out, _). ret (out = ''active''))) (\<lambda>enabled.
     chk [] (ask M (in_host [''cat'', ''/etc/ssh/sshd_config''])) (\<lambda>a.
     ret \<lparr>ssEnabled = enabled, ssPort = (if failed a then 22 else ssh_port (text_of a))\<rparr>))))"

definition handleSSHStatus :: "hostctl \<Rightarrow> handler" where
  "handleSSHStatus H r =
     method_is ''GET'' r (chk [] (getSSHStatus (hc_machine H)) (\<lambda>s. respondJSON 200 (ssh_json s)))"

definition setSSHPort :: "machine \<Rightarrow> int \<Rightarrow> unit act" where
  "setSSHPort M port = nsenterRun M [''sed'', ''-i'', ''s/^#*Port .*/Port '' @ int_str port @ ''/'', ''/etc/ssh/sshd_config'']"

text \<open>What follows once the port is written: both the service and its socket are switched.\<close>

definition switch_ssh :: "machine \<Rightarrow> bool \<Rightarrow> http_response act" where
  "switch_ssh M enabled =
     chk [] (sshServiceName M) (\<lambda>svc.
     if enabled then
       ignoring (nsenterRun M [''systemctl'', ''enable'', svc])
        (with_error 500 (''failed to restart '' @ svc @ '': '') (nsenterRun M [''systemctl'', ''restart'', svc]) (\<lambda>_.
         chk [] (getSSHStatus M) (\<lambda>s. respondJSON 200 (ssh_json s))))
     else
       chk [] (nsenter_all M [[''systemctl'', ''stop'', ''ssh.socket''], [''systemctl'', ''disable'', ''ssh.socket''],
            [''systemctl'', ''stop'', svc], [''systemctl'', ''disable'', svc]]) (\<lambda>_.
       chk [] (getSSHStatus M) (\<lambda>s. respondJSON 200 (ssh_json s))))"

definition handleSSHConfig :: "hostctl \<Rightarrow> handler" where
  "handleSSHConfig H r =
     (let M = hc_machine H in
      method_is ''POST'' r
       (case (field_bool ''enabled'' (rq_Body r), field_int ''port'' (rq_Body r)) of
          (Some enabled, Some port) \<Rightarrow>
            (if port \<noteq> 22 \<and> (port < 1024 \<or> 65535 < port) then respondErr 400 ''port must be 22 or in range 1024-65535''
             else with_error 500 ''failed to set SSH port: '' (setSSHPort M port) (\<lambda>_. switch_ssh M enabled))
        | _ \<Rightarrow> respondErr 400 (''invalid request body: '' @ hc_decode_error H r)))"

subsection \<open>The text of a WireGuard configuration\<close>

text \<open>The trimmed value of the first line that starts with the key (in any case) and has an equals sign.\<close>

definition wg_value :: "string \<Rightarrow> string \<Rightarrow> string option" where
  "wg_value key config =
     (case List.find (\<lambda>l. HasPrefix (ToLower (TrimSpace l)) key \<and> CHR ''='' \<in> set l) (split_on (CHR 0x0A) config) of
        None \<Rightarrow> None
      | Some l \<Rightarrow> Some (TrimSpace (SplitN2 (TrimSpace l) (CHR ''='') ! 1)))"

text \<open>What stands before the first separator, if that is not the first character.\<close>

definition cut_at :: "char \<Rightarrow> string \<Rightarrow> string" where
  "cut_at c s = (case IndexByte s c of Some i \<Rightarrow> if 0 < i then take i s else s | None \<Rightarrow> s)"

definition parseWGAddress :: "string \<Rightarrow> string" where
  "parseWGAddress config = (case wg_value ''address'' config of None \<Rightarrow> [] | Some v \<Rightarrow> cut_at slash v)"

definition parseWGDNS :: "string \<Rightarrow> string" where
  "parseWGDNS config =
     (case wg_value ''dns'' config of
        None \<Rightarrow> []
      | Some v \<Rightarrow> if cut_at (CHR '','') v = v then v else TrimSpace (cut_at (CHR '','') v))"

definition parseWGEndpoint :: "string \<Rightarrow> string \<times> string" where
  "parseWGEndpoint config =
     (case wg_value ''endpoint'' config of
        None \<Rightarrow> ([], [])
      | Some ep \<Rightarrow> (case LastIndexByte ep (CHR '':'') of
            Some i \<Rightarrow> if 0 < i then (take i ep, drop (i + 1) ep) else (ep, ''51820'')
          | None \<Rightarrow> (ep, ''51820'')))"

text \<open>Whether the \<^verbatim>\<open>[Interface]\<close> section has a line for the key.\<close>

fun has_field :: "string \<Rightarrow> bool \<Rightarrow> string list \<Rightarrow> bool" where
  "has_field k inInterface [] = False"
| "has_field k inInterface (l # ls) =
     (let t = TrimSpace l in
      if t = ''[Interface]'' then has_field k True ls
      else if HasPrefix t ''['' then has_field k False ls
      else if \<not> inInterface then has_field k inInterface ls
      else if HasPrefix (ToLower t) (k @ '' '') \<or> HasPrefix (ToLower t) (k @ ''='') then True
      else has_field k inInterface ls)"

fun add_field :: "string \<Rightarrow> string list \<Rightarrow> string list" where
  "add_field line [] = []"
| "add_field line (l # ls) = (if TrimSpace l = ''[Interface]'' then l # line # ls else l # add_field line ls)"

definition ensureInterfaceField :: "string \<Rightarrow> string \<Rightarrow> string \<Rightarrow> string" where
  "ensureInterfaceField config key val =
     (let lines = split_on (CHR 0x0A) config in
      if has_field (ToLower key) False lines then config
      else join [CHR 0x0A] (add_field (key @ '' = '' @ val) lines))"

definition rewriteAllowedIPs :: "string \<Rightarrow> string \<Rightarrow> string" where
  "rewriteAllowedIPs config newAllowed =
     join [CHR 0x0A] (map (\<lambda>l. if HasPrefix (TrimSpace l) ''AllowedIPs'' then ''AllowedIPs = '' @ newAllowed else l)
       (split_on (CHR 0x0A) config))"

fun inject_scripts :: "string list \<Rightarrow> string list" where
  "inject_scripts [] = []"
| "inject_scripts (l # ls) =
     (if TrimSpace l = ''[Peer]''
      then [''PostUp = /usr/local/bin/wg0-up.sh'', ''PostDown = /usr/local/bin/wg0-down.sh'', [], l] @ ls
      else l # inject_scripts ls)"

definition isValidCIDR :: "string \<Rightarrow> bool" where
  "isValidCIDR s0 =
     (let s = TrimSpace s0; ip = hd (split_on slash s) in
      Contains s ''/'' \<and> Contains s ''.'' \<and> ip \<noteq> ''0.0.0.0'' \<and> ip \<noteq> [] \<and> is_digit (hd ip))"

definition trim_set :: "char set \<Rightarrow> string \<Rightarrow> string" where
  "trim_set cs s = rev (dropWhile (\<lambda>c. c \<in> cs) (rev (dropWhile (\<lambda>c. c \<in> cs) s)))"

definition config_cidr :: "string \<Rightarrow> string option" where
  "config_cidr l =
     (let line = TrimSpace l in
      if HasPrefix line ''service-cidr:'' \<or> HasPrefix line ''cluster-cidr:''
      then (let c = trim_set (set (dquote @ squote @ '' '')) (TrimSpace (SplitN2 line (CHR '':'') ! 1)) in
            if isValidCIDR c then Some c else None)
      else None)"

definition route_cidr :: "string \<Rightarrow> string option" where
  "route_cidr l =
     (if HasPrefix l ''blackhole '' then
        (case Fields l of _ # c # _ \<Rightarrow> if isValidCIDR c then Some c else None | _ \<Rightarrow> None)
      else None)"

definition parent_cidr :: "string \<Rightarrow> string option" where
  "parent_cidr c =
     (case split_on (CHR ''.'') (hd (split_on slash c)) of
        a # b # _ \<Rightarrow> (let p = a @ ''.'' @ b @ ''.0.0/16'' in if isValidCIDR p then Some p else None)
      | _ \<Rightarrow> None)"

text \<open>
  The set of the ranges, in any order: the loop over the Go map that adds the parents may or may not
  meet them, and the parent of a parent is itself.
\<close>

definition cluster_cidrs :: "string option \<Rightarrow> string \<Rightarrow> string list" where
  "cluster_cidrs cfg routes =
     (let found = (case cfg of None \<Rightarrow> [] | Some t \<Rightarrow> List.map_filter config_cidr (split_on (CHR 0x0A) t)) @
                  List.map_filter route_cidr (split_on (CHR 0x0A) routes)
      in remdups (found @ List.map_filter parent_cidr found))"

definition detectClusterCIDRs :: "hostctl \<Rightarrow> string list act" where
  "detectClusterCIDRs H =
     chk [] (nsenterOutput (hc_machine H) [''cat'', ''/etc/rancher/k3s/config.yaml'']) (\<lambda>(cfg, e).
     chk [] (nsenterOutput (hc_machine H) [''ip'', ''route'', ''show'', ''table'', ''main'']) (\<lambda>(routes, _).
     ret (hc_set_order H (cluster_cidrs (if e = None then Some cfg else None) routes))))"

subsection \<open>The scripts\<close>

definition snapshotResolv :: string where
  "snapshotResolv = unlines
      [''# Snapshot original /etc/resolv.conf (preserve symlink target if any)'',
       ''if [ -L /etc/resolv.conf ]; then'',
       ''  readlink /etc/resolv.conf > /etc/resolv.conf.pre-wg-link 2>/dev/null'', ''else'',
       ''  cp -f /etc/resolv.conf /etc/resolv.conf.pre-wg 2>/dev/null'', ''fi'', ''rm -f /etc/resolv.conf'']"

definition dns_block :: "string \<Rightarrow> string \<Rightarrow> bool \<Rightarrow> string" where
  "dns_block dns mode killSwitch =
     (if dns = [] then []
      else if mode = ''dns-only'' \<and> killSwitch then
     unlines
      [''# DNS: strict (tunnel resolver + cluster DNS only '' @ [CHR 0xE2, CHR 0x80, CHR 0x94] @ '' killswitch ON in dns-only mode)''] @ snapshotResolv @
     unlines
      [''cat > /etc/resolv.conf <<'' @ squote @ ''EOF'' @ squote, ''nameserver '' @ dns, ''nameserver 10.233.0.10'',
       ''EOF'']
      else
     unlines
      [''# DNS: tunnel DNS + public fallback + cluster DNS for *.cluster.local''] @ snapshotResolv @
     unlines
      [''cat > /etc/resolv.conf <<'' @ squote @ ''EOF'' @ squote, ''nameserver '' @ dns, ''nameserver 10.233.0.10'',
       ''nameserver 1.1.1.1'', ''nameserver 8.8.8.8'', ''EOF''])"

definition dns_nat_block :: "string \<Rightarrow> string \<Rightarrow> string" where
  "dns_nat_block dns mode =
     (if mode \<noteq> ''dns-only'' then []
      else let t = (if dns = [] then ''10.8.0.1'' else dns) in
     unlines
      [''# DNS NAT pin: redirect all :53 to the WG-side filtered resolver'',
       ''# (cluster CIDR 10.233.0.0/16 exempted so kube-proxy can DNAT the cluster DNS VIP)'',
       ''iptables -t nat -N WG_DNS_REDIRECT 2>/dev/null; iptables -t nat -F WG_DNS_REDIRECT'',
       ''iptables -t nat -A WG_DNS_REDIRECT -p udp --dport 53 -j DNAT --to-destination '' @ t @ '':53'',
       ''iptables -t nat -A WG_DNS_REDIRECT -p tcp --dport 53 -j DNAT --to-destination '' @ t @ '':53'',
       ''iptables -t nat -C OUTPUT -p udp --dport 53 ! -d 10.233.0.0/16 -j WG_DNS_REDIRECT 2>/dev/null || iptables -t nat -I OUTPUT 1 -p udp --dport 53 ! -d 10.233.0.0/16 -j WG_DNS_REDIRECT'',
       ''iptables -t nat -C OUTPUT -p tcp --dport 53 ! -d 10.233.0.0/16 -j WG_DNS_REDIRECT 2>/dev/null || iptables -t nat -I OUTPUT 1 -p tcp --dport 53 ! -d 10.233.0.0/16 -j WG_DNS_REDIRECT''])"

definition endpoint_accept :: "string \<times> string \<Rightarrow> string" where
  "endpoint_accept ep =
     (if fst ep \<noteq> [] then ''iptables -A WG_OUT -d '' @ fst ep @ '' -p udp --dport '' @ snd ep @ '' -j ACCEPT'' @ nl else [])"

definition kill_switch_block :: "string \<Rightarrow> string \<Rightarrow> bool \<Rightarrow> string" where
  "kill_switch_block config mode killSwitch =
     (if \<not> (killSwitch \<and> mode \<noteq> ''dns-only'') then []
      else
     unlines
      [''# Kill-switch (iptables)'', ''iptables -N WG_OUT 2>/dev/null; iptables -F WG_OUT'',
       ''iptables -A WG_OUT -o lo -j ACCEPT'', ''iptables -A WG_OUT -d 10.0.0.0/8 -j ACCEPT'',
       ''iptables -A WG_OUT -d 172.16.0.0/12 -j ACCEPT'', ''iptables -A WG_OUT -d 192.168.0.0/16 -j ACCEPT'',
       ''iptables -A WG_OUT -o wg0 -j ACCEPT''] @ endpoint_accept (parseWGEndpoint config) @
     unlines
      [''iptables -A WG_OUT -j REJECT'', ''iptables -C OUTPUT -j WG_OUT 2>/dev/null || iptables -I OUTPUT -j WG_OUT''])"

definition mode_marker :: "string \<Rightarrow> bool \<Rightarrow> string" where
  "mode_marker mode killSwitch =
     unlines [''echo '' @ (if mode = [] then ''full'' else mode) @ '' > /etc/wireguard/wg0.mode'',
              ''echo '' @ (if killSwitch then ''1'' else ''0'') @ '' > /etc/wireguard/wg0.killswitch'']"

definition throw_routes :: "string list \<Rightarrow> string" where
  "throw_routes cidrs = unlines (map (\<lambda>c. ''ip route add throw '' @ c @ '' table $WG_TABLE 2>/dev/null'') cidrs)"

definition up_script :: "string \<Rightarrow> string \<Rightarrow> string list \<Rightarrow> string \<Rightarrow> bool \<Rightarrow> string" where
  "up_script dns config cidrs mode killSwitch =
     unlines
      [''#!/bin/bash'', ''# Get wg-quick'' @ squote @ ''s routing table from the fwmark it set'',
       ''WG_TABLE=$(wg show wg0 fwmark 2>/dev/null)'',
       ''[ -z '' @ dquote @ ''$WG_TABLE'' @ dquote @ '' ] && WG_TABLE=51820''] @ mode_marker mode killSwitch @
     ''# Add throw routes so cluster traffic bypasses WG tunnel'' @ nl @ throw_routes cidrs @ nl @
     dns_block dns mode killSwitch @ dns_nat_block dns mode @ kill_switch_block config mode killSwitch"

definition down_script :: string where
  "down_script = unlines
      [''#!/bin/bash'', ''rm -f /etc/resolv.conf'', ''if [ -f /etc/resolv.conf.pre-wg-link ]; then'',
       ''  ln -sf '' @ dquote @ ''$(cat /etc/resolv.conf.pre-wg-link)'' @ dquote @ '' /etc/resolv.conf'',
       ''  rm -f /etc/resolv.conf.pre-wg-link'', ''elif [ -f /etc/resolv.conf.pre-wg ]; then'',
       ''  mv /etc/resolv.conf.pre-wg /etc/resolv.conf'', ''else'',
       ''  # Safety net: re-link to systemd-resolved stub if neither snapshot exists.'',
       ''  ln -sf /run/systemd/resolve/stub-resolv.conf /etc/resolv.conf'', ''fi'']"

text \<open>The configuration that is written: \<open>user_part\<close> is what the user's becomes before the scripts are injected.\<close>

definition user_part :: "string \<Rightarrow> string \<Rightarrow> string" where
  "user_part userConfig mode =
     (let c = ensureInterfaceField userConfig ''ListenPort'' ''51820'' in
      if mode = ''dns-only'' then rewriteAllowedIPs c ''10.8.0.0/24'' else c)"

definition final_config :: "string \<Rightarrow> string \<Rightarrow> string" where
  "final_config userConfig mode = join [CHR 0x0A] (inject_scripts (split_on (CHR 0x0A) (user_part userConfig mode)))"

definition buildWGConfig :: "hostctl \<Rightarrow> string \<Rightarrow> string \<Rightarrow> bool \<Rightarrow> string act" where
  "buildWGConfig H userConfig mode killSwitch =
     (let M = hc_machine H in
      chk [] (detectClusterCIDRs H) (\<lambda>cidrs.
      let dns = parseWGDNS (ensureInterfaceField userConfig ''ListenPort'' ''51820'') in
      ignoring (nsenterWrite M ''/usr/local/bin/wg0-up.sh'' (up_script dns (user_part userConfig mode) cidrs mode killSwitch))
     (ignoring (nsenterWrite M ''/usr/local/bin/wg0-down.sh'' down_script)
     (ignoring (nsenterRun M [''chmod'', ''+x'', ''/usr/local/bin/wg0-up.sh'', ''/usr/local/bin/wg0-down.sh''])
     (ret (final_config userConfig mode))))))"

subsection \<open>The WireGuard handlers\<close>

definition handleWGEnable :: "hostctl \<Rightarrow> handler" where
  "handleWGEnable H r =
     (let M = hc_machine H; body = rq_Body r in
      method_is ''POST'' r
       (case (field_str ''config'' body, field_str ''mode'' body, field_bool ''killSwitch'' body) of
          (Some config, Some mode, Some killSwitch) \<Rightarrow>
            (if \<not> Contains config ''[Interface]'' \<or> \<not> Contains config ''[Peer]''
             then respondErr 400 ''config must contain [Interface] and [Peer] sections''
             else if parseWGAddress config = [] then respondErr 400 ''could not parse Address from config''
             else
               chk [] (nsenterOutput M [''which'', ''wg'']) (\<lambda>(_, e).
               with_error 500 ''failed to install wireguard-tools: ''
                 (if e = None then ret () else nsenterRun M [''apt-get'', ''install'', ''-y'', ''wireguard-tools'']) (\<lambda>_.
               ignoring (nsenterRun M [''wg-quick'', ''down'', ''wg0''])
              (chk [] (buildWGConfig H config mode killSwitch) (\<lambda>finalConfig.
               with_error 500 ''failed to create /etc/wireguard: '' (nsenterRun M [''mkdir'', ''-p'', ''/etc/wireguard'']) (\<lambda>_.
               with_error 500 ''failed to write wg0.conf: '' (nsenterWrite M ''/etc/wireguard/wg0.conf'' finalConfig) (\<lambda>_.
               ignoring (nsenterRun M [''chmod'', ''600'', ''/etc/wireguard/wg0.conf''])
              (chk [] (nsenterOutput M [''wg-quick'', ''up'', ''wg0'']) (\<lambda>(out, e).
               case e of
                 Some e \<Rightarrow> respondErr 500 (''wg-quick up failed: '' @ out @ '' ('' @ e @ '')'')
               | None \<Rightarrow>
                   ignoring (nsenterRun M [''systemctl'', ''enable'', ''wg-quick@wg0''])
                    (respondJSON 200 (JObj [(''success'', JBool True), (''ip'', JStr (parseWGAddress config))])))))))))))
        | _ \<Rightarrow> respondErr 400 (''invalid request: '' @ hc_decode_error H r)))"

definition removeWGKillSwitch :: "machine \<Rightarrow> unit act" where
  "removeWGKillSwitch M =
     nsenter_all M
       [[''iptables'', ''-D'', ''OUTPUT'', ''-j'', ''WG_OUT''], [''iptables'', ''-F'', ''WG_OUT''], [''iptables'', ''-X'', ''WG_OUT''],
        [''iptables'', ''-t'', ''nat'', ''-D'', ''OUTPUT'', ''-j'', ''WG_DNS_REDIRECT''],
        [''iptables'', ''-t'', ''nat'', ''-F'', ''WG_DNS_REDIRECT''], [''iptables'', ''-t'', ''nat'', ''-X'', ''WG_DNS_REDIRECT'']]"

definition handleWGDisable :: "hostctl \<Rightarrow> handler" where
  "handleWGDisable H r =
     (let M = hc_machine H in
      method_is ''POST'' r
       (ignoring (nsenterRun M [''wg-quick'', ''down'', ''wg0''])
       (chk [] (removeWGKillSwitch M) (\<lambda>_.
        chk [] (nsenter_all M
          [[''bash'', ''-c'', ''[ -f /etc/resolv.conf.pre-wg ] && mv /etc/resolv.conf.pre-wg /etc/resolv.conf || ln -sf /run/systemd/resolve/stub-resolv.conf /etc/resolv.conf''],
           [''systemctl'', ''restart'', ''systemd-resolved''], [''systemctl'', ''disable'', ''wg-quick@wg0''],
           [''rm'', ''-f'', ''/etc/wireguard/wg0.conf'', ''/etc/wireguard/wg0.env'', ''/etc/wireguard/wg0.mode'',
            ''/etc/wireguard/wg0.killswitch''],
           [''rm'', ''-f'', ''/usr/local/bin/wg0-up.sh'', ''/usr/local/bin/wg0-down.sh'']]) (\<lambda>_.
        respondJSON 200 (JObj [(''status'', JStr ''disabled'')]))))))"

record WGStatus =
  wsActive :: bool
  wsIP :: string
  wsPublicKey :: string
  wsEndpoint :: string
  wsHandshake :: string
  wsTransfer :: string
  wsMode :: string
  wsKillSwitch :: bool

definition no_tunnel :: WGStatus where
  "no_tunnel = \<lparr>wsActive = False, wsIP = [], wsPublicKey = [], wsEndpoint = [], wsHandshake = [], wsTransfer = [],
     wsMode = [], wsKillSwitch = False\<rparr>"

definition wg_json :: "WGStatus \<Rightarrow> jval" where
  "wg_json s =
     JObj [(''active'', JBool (wsActive s)), (''ip'', JStr (wsIP s)), (''publicKey'', JStr (wsPublicKey s)),
       (''endpoint'', JStr (wsEndpoint s)), (''latestHandshake'', JStr (wsHandshake s)), (''transfer'', JStr (wsTransfer s)),
       (''mode'', JStr (wsMode s)), (''killSwitch'', JBool (wsKillSwitch s))]"

definition after_key :: "string \<Rightarrow> string \<Rightarrow> string" where
  "after_key k line = TrimSpace (TrimPrefix line k)"

definition show_line :: "WGStatus \<Rightarrow> string \<Rightarrow> WGStatus" where
  "show_line s l =
     (let line = TrimSpace l in
      if HasPrefix line ''public key:'' then s\<lparr>wsPublicKey := after_key ''public key:'' line\<rparr>
      else if HasPrefix line ''endpoint:'' then s\<lparr>wsEndpoint := after_key ''endpoint:'' line\<rparr>
      else if HasPrefix line ''latest handshake:'' then s\<lparr>wsHandshake := after_key ''latest handshake:'' line\<rparr>
      else if HasPrefix line ''transfer:'' then s\<lparr>wsTransfer := after_key ''transfer:'' line\<rparr>
      else s)"

definition addr_line :: "WGStatus \<Rightarrow> string \<Rightarrow> WGStatus" where
  "addr_line s l =
     (if HasPrefix (TrimSpace l) ''inet ''
      then (case Fields (TrimSpace l) of _ # a # _ \<Rightarrow> s\<lparr>wsIP := cut_at slash a\<rparr> | _ \<Rightarrow> s)
      else s)"

definition handleWGStatus :: "hostctl \<Rightarrow> handler" where
  "handleWGStatus H r =
     (let M = hc_machine H in
      method_is ''GET'' r
       (chk [] (nsenterOutput M [''wg'', ''show'', ''wg0'']) (\<lambda>(out, e).
        if e \<noteq> None then respondJSON 200 (wg_json no_tunnel)
        else
          (let s = foldl show_line (no_tunnel\<lparr>wsActive := True\<rparr>) (split_on (CHR 0x0A) out) in
           chk [] (nsenterOutput M [''ip'', ''-4'', ''addr'', ''show'', ''wg0'']) (\<lambda>(ipOut, e).
           let s = (if e = None then foldl addr_line s (split_on (CHR 0x0A) ipOut) else s) in
           chk [] (nsenterOutput M [''cat'', ''/etc/wireguard/wg0.mode'']) (\<lambda>(modeOut, e).
           let m = (if e = None then modeOut else []); s = s\<lparr>wsMode := (if m = [] then ''full'' else m)\<rparr> in
           chk [] (nsenterOutput M [''cat'', ''/etc/wireguard/wg0.killswitch'']) (\<lambda>(ksOut, e).
           chk [] (if e = None then ret (ksOut = ''1'')
                   else chk [] (nsenterOutput M [''iptables'', ''-L'', ''WG_OUT'', ''-n'']) (\<lambda>(iptOut, _).
                     ret (Contains iptOut ''REJECT''))) (\<lambda>ks.
           respondJSON 200 (wg_json (s\<lparr>wsKillSwitch := ks\<rparr>))))))))))"

subsection \<open>The server\<close>

definition hostctl_routes :: "hostctl \<Rightarrow> (string \<times> handler) list" where
  "hostctl_routes H =
     [(''/ssh/status'', withAuth (hc_token H) (handleSSHStatus H)), (''/ssh/config'', withAuth (hc_token H) (handleSSHConfig H)),
      (''/wireguard/enable'', withAuth (hc_token H) (handleWGEnable H)),
      (''/wireguard/disable'', withAuth (hc_token H) (handleWGDisable H)),
      (''/wireguard/status'', withAuth (hc_token H) (handleWGStatus H)),
      (''/healthz'', \<lambda>_. ret (http_error ''ok'' 200))]"

definition hostctl_mux :: "hostctl \<Rightarrow> string \<Rightarrow> handler" where
  "hostctl_mux H p r =
     (if cleanPath p \<noteq> p then ret (reply_status 301)
      else case List.find (\<lambda>(pat, _). route_exact pat p) (hostctl_routes H) of
          Some (_, h) \<Rightarrow> h r
        | None \<Rightarrow> ret (http_error ''404 page not found'' 404))"

text \<open>The server starts only with a token.\<close>

definition hostctl_main :: "hostctl \<Rightarrow> string \<Rightarrow> handler" where
  "hostctl_main H p r =
     (if hc_token H = [] then fail ''HOSTCTL_TOKEN environment variable is required'' else hostctl_mux H p r)"

end
