(* ===== verification/Hostctl_Props.thy ===== *)
theory Hostctl_Props
  imports Hostctl
begin

text \<open>
  What the host service promises: nothing is run without the token, and the configuration of a tunnel
  that is written has a fixed port and, in the mode for names only, routes nothing but the mesh.
\<close>

subsection \<open>Authorisation\<close>

lemma withAuth_refuses:
  assumes "header_get r ''Authorization'' \<noteq> ''Bearer '' @ token"
  shows "\<exists>resp. withAuth token h r w = Some (Inr resp, w) \<and> rs_Code resp \<in> {401, 403}"
proof (cases "HasPrefix (header_get r ''Authorization'') ''Bearer ''")
  case True
  then have "TrimPrefix (header_get r ''Authorization'') ''Bearer '' \<noteq> token"
    using assms by (auto simp: TrimPrefix_def prefix_def)
  then show ?thesis using True by (simp add: withAuth_def respondErr_def ret_def Let_def)
next
  case False
  then show ?thesis by (simp add: withAuth_def respondErr_def ret_def Let_def)
qed

text \<open>
  A request without the token of the service is answered without any command being run: the state
  of the host is the one before, and the only answer that is no refusal is that of the health check.
\<close>

lemma hostctl_needs_token:
  assumes "header_get r ''Authorization'' \<noteq> ''Bearer '' @ hc_token H"
  shows "\<exists>resp. hostctl_mux H p r w = Some (Inr resp, w) \<and>
           (rs_Code resp \<in> {301, 401, 403, 404} \<or> rs_Code resp = 200 \<and> route_exact ''/healthz'' p)"
proof (cases "cleanPath p = p")
  case False
  then show ?thesis by (simp add: hostctl_mux_def ret_def)
next
  case True
  show ?thesis
  proof (cases "List.find (\<lambda>(pat, _). route_exact pat p) (hostctl_routes H)")
    case None
    then show ?thesis using True by (simp add: hostctl_mux_def ret_def)
  next
    case (Some ph)
    then have m: "ph \<in> set (hostctl_routes H)" and e: "route_exact (fst ph) p"
      by (auto simp: find_Some_iff split_beta)
    have s: "hostctl_mux H p r = snd ph r" using True Some by (simp add: hostctl_mux_def split_beta)
    from m consider h where "snd ph = withAuth (hc_token H) h" | "fst ph = ''/healthz''" "snd ph = (\<lambda>_. ret (http_error ''ok'' 200))"
      unfolding hostctl_routes_def by auto
    then show ?thesis
    proof cases
      case 1
      then show ?thesis using withAuth_refuses [OF assms, of h w] s by auto
    next
      case 2
      then show ?thesis using e s by (simp add: ret_def)
    qed
  qed
qed

definition stranger :: http_request where
  "stranger = \<lparr>rq_Method = ''POST'', rq_Path = ''/wireguard/enable'', rq_Query = [], rq_Host = [], rq_RemoteAddr = [],
     rq_Header = [(''Authorization'', ''Bearer guess'')], rq_Cookies = [], rq_Body = Some JNull\<rparr>"

definition quiet_host :: hostctl where
  "quiet_host = \<lparr>hc_machine = \<lparr>answers = (\<lambda>_ _. HOk []), goos = ''linux'', goarch = ''amd64'', pemEncode = (\<lambda>_ d. d)\<rparr>,
     hc_token = ''s3cret'', hc_decode_error = (\<lambda>_. []), hc_set_order = (\<lambda>xs. xs)\<rparr>"

lemma hostctl_needs_token_witness:
  "\<exists>resp. hostctl_mux quiet_host ''/wireguard/enable'' stranger \<lparr>hw_log = [], hw_env = (\<lambda>_. []), hw_out = []\<rparr> =
     Some (Inr resp, \<lparr>hw_log = [], hw_env = (\<lambda>_. []), hw_out = []\<rparr>)"
  using hostctl_needs_token [of stranger quiet_host "''/wireguard/enable''" "\<lparr>hw_log = [], hw_env = (\<lambda>_. []), hw_out = []\<rparr>"]
  by (auto simp: stranger_def quiet_host_def header_get_def first_value_def)

subsection \<open>The port of the SSH daemon\<close>

lemma nsenterRun_logs:
  "\<exists>r a. nsenterRun M args w = Some (r, w\<lparr>hw_log := hw_log w @ [(in_host args, a)]\<rparr>)"
  by (auto simp: nsenterRun_def chk_def ask_def Let_def ret_def fail_def split: option.splits)

definition log_grows :: "'a act \<Rightarrow> bool" where
  "log_grows m \<longleftrightarrow> (\<forall>w r w'. m w = Some (r, w') \<longrightarrow> prefix (hw_log w) (hw_log w'))"

lemma log_grows_basic: "log_grows (ret a)" "log_grows (ask M c)" "log_grows (respondErr n t)" "log_grows (respondJSON n j)"
  by (auto simp: log_grows_def ret_def ask_def Let_def respondErr_def respondJSON_def)

lemma log_grows_attempt: "log_grows m \<Longrightarrow> (\<And>r. log_grows (g r)) \<Longrightarrow> log_grows (attempt m g)"
  unfolding log_grows_def attempt_def by (auto split: option.splits) (blast intro: prefix_order.trans)

lemma log_grows_chk:
  assumes "log_grows m" "\<And>a. log_grows (f a)"
  shows "log_grows (chk msg m f)"
  unfolding log_grows_def
proof (intro allI impI)
  fix w r w'
  assume c: "chk msg m f w = Some (r, w')"
  show "prefix (hw_log w) (hw_log w')"
  proof (cases "m w")
    case (Some x)
    then obtain res w1 where m: "m w = Some (res, w1)" by (cases x) auto
    have "prefix (hw_log w1) (hw_log w')"
      using c m assms(2) by (cases res) (auto simp: chk_def log_grows_def)
    then show ?thesis using assms(1) m unfolding log_grows_def by (blast intro: prefix_order.trans)
  qed (use c in \<open>simp add: chk_def\<close>)
qed

lemma log_grows_ignoring: "log_grows m \<Longrightarrow> log_grows k \<Longrightarrow> log_grows (ignoring m k)"
  unfolding ignoring_def by (rule log_grows_attempt)

lemmas log_grows_rules = log_grows_basic log_grows_attempt log_grows_chk log_grows_ignoring

lemma log_grows_run: "log_grows (nsenterRun M args)"
  unfolding log_grows_def
proof (intro allI impI)
  fix w r w'
  assume "nsenterRun M args w = Some (r, w')"
  moreover obtain r' a where "nsenterRun M args w = Some (r', w\<lparr>hw_log := hw_log w @ [(in_host args, a)]\<rparr>)"
    using nsenterRun_logs by blast
  ultimately show "prefix (hw_log w) (hw_log w')" by auto
qed

lemma log_grows_with_error: "log_grows m \<Longrightarrow> (\<And>a. log_grows (f a)) \<Longrightarrow> log_grows (with_error n t m f)"
  unfolding with_error_def by (rule log_grows_attempt) (auto intro: log_grows_basic split: sum.splits)

lemma log_grows_all: "log_grows (nsenter_all M cmds)"
  by (induction cmds) (auto intro!: log_grows_rules log_grows_run)

lemma log_grows_service: "log_grows (sshServiceName M)"
  unfolding sshServiceName_def by (intro log_grows_rules)

lemma log_grows_output: "log_grows (nsenterOutput M args)"
  unfolding nsenterOutput_def by (intro log_grows_rules)

lemma log_grows_status: "log_grows (getSSHStatus M)"
  unfolding getSSHStatus_def by (auto intro!: log_grows_rules log_grows_service log_grows_output simp: split_beta)

lemma log_grows_switch: "log_grows (switch_ssh M enabled)"
  unfolding switch_ssh_def
  by (auto intro!: log_grows_rules log_grows_service log_grows_run log_grows_all log_grows_status log_grows_with_error)

text \<open>
  C36: A request to configure the SSH daemon touches the host only when its body has a port that is 22
  or from 1024 to 65535, and the first thing it does is to write just this port.
\<close>

theorem ssh_port_in_range:
  assumes "handleSSHConfig H r w = Some (resp, w')" "hw_log w' \<noteq> hw_log w"
  shows "\<exists>port a rest. field_int ''port'' (rq_Body r) = Some port \<and> (port = 22 \<or> 1024 \<le> port \<and> port \<le> 65535) \<and>
           hw_log w' = hw_log w @ (in_host [''sed'', ''-i'', ''s/^#*Port .*/Port '' @ int_str port @ ''/'', ''/etc/ssh/sshd_config''], a) # rest"
proof -
  obtain enabled port where b: "field_bool ''enabled'' (rq_Body r) = Some enabled" "field_int ''port'' (rq_Body r) = Some port"
    and p: "port = 22 \<or> 1024 \<le> port \<and> port \<le> 65535" and m: "rq_Method r = ''POST''"
    using assms by (auto simp: handleSSHConfig_def method_is_def respondErr_def ret_def Let_def split: option.splits if_splits)
  define args where "args = [''sed'', ''-i'', ''s/^#*Port .*/Port '' @ int_str port @ ''/'', ''/etc/ssh/sshd_config'']"
  define msg where "msg = ''failed to set SSH port: ''"
  define k where "k = (\<lambda>_::unit. switch_ssh (hc_machine H) enabled)"
  have h: "handleSSHConfig H r = with_error 500 msg (nsenterRun (hc_machine H) args) k"
    unfolding msg_def handleSSHConfig_def method_is_def b m Let_def setSSHPort_def args_def k_def using p by auto
  have k: "log_grows (k a)" for a unfolding k_def by (rule log_grows_switch)
  obtain res a where n: "nsenterRun (hc_machine H) args w = Some (res, w\<lparr>hw_log := hw_log w @ [(in_host args, a)]\<rparr>)"
    using nsenterRun_logs by blast
  have "log_grows (case res of Inl e \<Rightarrow> respondErr 500 (msg @ e) | Inr a \<Rightarrow> k a)"
    using k by (auto intro: log_grows_rules split: sum.splits)
  moreover have "(case res of Inl e \<Rightarrow> respondErr 500 (msg @ e) | Inr a \<Rightarrow> k a)
      (w\<lparr>hw_log := hw_log w @ [(in_host args, a)]\<rparr>) = Some (resp, w')"
    using assms(1) n unfolding h by (simp add: with_error_def attempt_def)
  ultimately have "prefix (hw_log w @ [(in_host args, a)]) (hw_log w')" unfolding log_grows_def by fastforce
  then show ?thesis using b p unfolding args_def by (auto simp: prefix_def)
qed

definition port_request :: http_request where
  "port_request = stranger\<lparr>rq_Path := ''/ssh/config'', rq_Body := Some (JObj [(''enabled'', JBool True), (''port'', JInt 2222)])\<rparr>"

definition empty_host :: host where
  "empty_host = \<lparr>hw_log = [], hw_env = (\<lambda>_. []), hw_out = []\<rparr>"

lemma port_request_runs: "case handleSSHConfig quiet_host port_request empty_host of None \<Rightarrow> False | Some (_, w) \<Rightarrow> hw_log w \<noteq> []"
  by code_simp

lemma port_request_port: "field_int ''port'' (rq_Body port_request) = Some 2222" "int_str 2222 = ''2222''"
  by code_simp+

theorem ssh_port_in_range_witness:
  "\<exists>resp w' a rest. handleSSHConfig quiet_host port_request empty_host = Some (resp, w') \<and>
     hw_log w' = (in_host [''sed'', ''-i'', ''s/^#*Port .*/Port 2222/'', ''/etc/ssh/sshd_config''], a) # rest"
proof -
  obtain resp w' where h: "handleSSHConfig quiet_host port_request empty_host = Some (resp, w')" "hw_log w' \<noteq> []"
    using port_request_runs by (auto split: option.splits)
  then show ?thesis
    using ssh_port_in_range [OF h(1)] by (auto simp: empty_host_def port_request_port)
qed

subsection \<open>The configuration of the tunnel\<close>

definition lines_of :: "string \<Rightarrow> string list" where
  "lines_of s = split_on (CHR 0x0A) s"

lemma lines_of_join:
  "ls \<noteq> [] \<Longrightarrow> (\<And>l. l \<in> set ls \<Longrightarrow> CHR 0x0A \<notin> set l) \<Longrightarrow> lines_of (join [CHR 0x0A] ls) = ls"
  unfolding lines_of_def by (rule split_on_join) auto

lemma lines_of_no_sep: "l \<in> set (lines_of s) \<Longrightarrow> CHR 0x0A \<notin> set l"
  unfolding lines_of_def by (rule split_on_no_sep)

lemma set_add_field: "set (add_field x ls) \<subseteq> insert x (set ls)"
  by (induction ls) auto

lemma has_field_add:
  assumes "\<not> HasPrefix (TrimSpace x) ''[''" "HasPrefix (ToLower (TrimSpace x)) (k @ '' '')"
  shows "\<exists>l \<in> set ls. TrimSpace l = ''[Interface]'' \<Longrightarrow> has_field k b (add_field x ls)"
proof (induction ls arbitrary: b)
  case (Cons l ls)
  have "TrimSpace x \<noteq> ''[Interface]''" using assms(1) by auto
  then show ?case using Cons assms by (auto simp: Let_def)
qed simp

definition port_entry :: string where "port_entry = ''ListenPort = 51820''"

lemma port_entry:
  "\<not> HasPrefix (TrimSpace port_entry) ''[''" "HasPrefix (ToLower (TrimSpace port_entry)) (''listenport'' @ '' '')"
  "CHR 0x0A \<notin> set port_entry" "''ListenPort = 51820'' = port_entry" "ToLower ''ListenPort'' = ''listenport''"
  by code_simp+

lemma lines_ensure:
  "lines_of (ensureInterfaceField c ''ListenPort'' ''51820'') =
     (if has_field ''listenport'' False (lines_of c) then lines_of c else add_field port_entry (lines_of c))"
proof -
  have ne: "add_field port_entry (lines_of c) \<noteq> []" by (cases "lines_of c") (auto simp: lines_of_def)
  have "CHR 0x0A \<notin> set l" if "l \<in> set (add_field port_entry (lines_of c))" for l
    using that set_add_field [of port_entry "lines_of c"] port_entry(3) lines_of_no_sep by auto
  then show ?thesis
    by (simp add: ensureInterfaceField_def Let_def port_entry lines_of_def [symmetric] lines_of_join [OF ne])
qed

definition mesh_line :: "string \<Rightarrow> string" where
  "mesh_line l = (if HasPrefix (TrimSpace l) ''AllowedIPs'' then ''AllowedIPs = 10.8.0.0/24'' else l)"

lemma mesh_text: "TrimSpace ''AllowedIPs = 10.8.0.0/24'' = ''AllowedIPs = 10.8.0.0/24''"
  "ToLower ''AllowedIPs = 10.8.0.0/24'' = ''allowedips = 10.8.0.0/24''" "CHR 0x0A \<notin> set ''AllowedIPs = 10.8.0.0/24''"
  "ToLower ''AllowedIPs'' = ''allowedips''"
  by code_simp+

lemma ToLower_append: "ToLower (a @ b) = ToLower a @ ToLower b"
  by (simp add: ToLower_def)

lemma has_field_mesh: "has_field ''listenport'' b (map mesh_line ls) = has_field ''listenport'' b ls"
proof (induction ls arbitrary: b)
  case (Cons l ls)
  show ?case
  proof (cases "HasPrefix (TrimSpace l) ''AllowedIPs''")
    case True
    then obtain t where t: "TrimSpace l = ''AllowedIPs'' @ t" by (auto simp: prefix_def)
    have "\<not> HasPrefix (ToLower (TrimSpace l)) (''listenport'' @ x)" for x
      unfolding t ToLower_append mesh_text by simp
    from this [of "'' ''"] this [of "''=''"] show ?thesis using Cons True by (simp add: mesh_line_def mesh_text Let_def) (simp add: t)
  next
    case False
    then show ?thesis using Cons by (simp add: mesh_line_def Let_def)
  qed
qed simp

lemma lines_user_part:
  "lines_of (user_part c mode) =
     (let ls = lines_of (ensureInterfaceField c ''ListenPort'' ''51820'') in if mode = ''dns-only'' then map mesh_line ls else ls)"
proof -
  let ?c = "ensureInterfaceField c ''ListenPort'' ''51820''"
  have r: "rewriteAllowedIPs ?c ''10.8.0.0/24'' = join [CHR 0x0A] (map mesh_line (lines_of ?c))"
    unfolding rewriteAllowedIPs_def lines_of_def
    by (rule arg_cong [of _ _ "join _"], rule map_cong [OF refl]) (simp add: mesh_line_def)
  have "lines_of (join [CHR 0x0A] (map mesh_line (lines_of ?c))) = map mesh_line (lines_of ?c)"
    by (rule lines_of_join) (use lines_of_no_sep mesh_text in \<open>auto simp: mesh_line_def lines_of_def\<close>)
  then show ?thesis by (simp add: user_part_def Let_def r)
qed

text \<open>The scripts are injected into the lines and nothing is taken out.\<close>

lemma inject_keeps: "subseq ls (inject_scripts ls)"
  by (induction ls) auto

lemma set_inject:
  "set (inject_scripts ls) \<subseteq>
     set ls \<union> {''PostUp = /usr/local/bin/wg0-up.sh'', ''PostDown = /usr/local/bin/wg0-down.sh'', []}"
  by (induction ls) auto

lemma inject_iff: "''PostUp = /usr/local/bin/wg0-up.sh'' \<in> set (inject_scripts ls) \<longleftrightarrow>
    (\<exists>l \<in> set ls. TrimSpace l = ''[Peer]'') \<or> ''PostUp = /usr/local/bin/wg0-up.sh'' \<in> set ls"
  by (induction ls) auto

lemma lines_final: "lines_of (final_config c mode) = inject_scripts (lines_of (user_part c mode))"
proof -
  have "CHR 0x0A \<notin> set l" if "l \<in> set (inject_scripts (lines_of (user_part c mode)))" for l
    using that set_inject [of "lines_of (user_part c mode)"] lines_of_no_sep by auto
  moreover have "inject_scripts (lines_of (user_part c mode)) \<noteq> []"
    by (cases "lines_of (user_part c mode)") (auto simp: lines_of_def)
  ultimately show ?thesis unfolding final_config_def lines_of_def [symmetric] by (intro lines_of_join)
qed

lemma script_lines:
  "\<not> HasPrefix (TrimSpace ''PostUp = /usr/local/bin/wg0-up.sh'') ''AllowedIPs''"
  "\<not> HasPrefix (TrimSpace ''PostDown = /usr/local/bin/wg0-down.sh'') ''AllowedIPs''"
  "\<not> HasPrefix (TrimSpace []) ''AllowedIPs''"
  by code_simp+

text \<open>
  The configuration that is written keeps the user's lines in their order, apart from what a mode
  rewrites; an interface has a fixed port afterwards; in the mode for names only, every
  \<^verbatim>\<open>AllowedIPs\<close> line is the one of the mesh.
\<close>

lemma tunnel_configuration:
  assumes "l \<in> set (lines_of c)" "TrimSpace l = ''[Interface]''"
  shows "subseq (lines_of (user_part c mode)) (lines_of (final_config c mode)) \<and>
         has_field ''listenport'' False (lines_of (user_part c mode)) \<and>
         (\<forall>x \<in> set (lines_of (final_config c ''dns-only'')).
            HasPrefix (TrimSpace x) ''AllowedIPs'' \<longrightarrow> x = ''AllowedIPs = 10.8.0.0/24'')"
proof (intro conjI)
  show "subseq (lines_of (user_part c mode)) (lines_of (final_config c mode))"
    unfolding lines_final by (rule inject_keeps)
  have "has_field ''listenport'' False (lines_of (ensureInterfaceField c ''ListenPort'' ''51820''))"
    unfolding lines_ensure using has_field_add [OF port_entry(1,2), of "lines_of c" False] assms by auto
  then show "has_field ''listenport'' False (lines_of (user_part c mode))"
    by (simp add: lines_user_part Let_def has_field_mesh)
  have "x = ''AllowedIPs = 10.8.0.0/24''"
    if x: "x \<in> set (lines_of (final_config c ''dns-only''))" and p: "HasPrefix (TrimSpace x) ''AllowedIPs''" for x
  proof -
    have "x \<in> set (lines_of (user_part c ''dns-only''))"
      using x p set_inject [of "lines_of (user_part c ''dns-only'')"] script_lines unfolding lines_final by auto
    then obtain y where "x = mesh_line y" by (auto simp: lines_user_part Let_def)
    then show ?thesis using p by (auto simp: mesh_line_def split: if_splits)
  qed
  then show "\<forall>x \<in> set (lines_of (final_config c ''dns-only'')).
      HasPrefix (TrimSpace x) ''AllowedIPs'' \<longrightarrow> x = ''AllowedIPs = 10.8.0.0/24''" by blast
qed

definition user_tunnel :: string where
  "user_tunnel = join nl [''[Interface]'', ''Address = 10.8.0.2/24'', ''[Peer]'', ''AllowedIPs = 0.0.0.0/0'']"

lemma tunnel_configuration_witness:
  "has_field ''listenport'' False (lines_of (user_part user_tunnel ''dns-only''))"
proof -
  have "''[Interface]'' \<in> set (lines_of user_tunnel)" "TrimSpace ''[Interface]'' = ''[Interface]''" by code_simp+
  from tunnel_configuration [OF this, of "''dns-only''"] show ?thesis by blast
qed

subsection \<open>Where a configuration escapes\<close>

text \<open>
  A section header in a comment passes the check of the handler, but no script is injected before it:
  the tunnel comes up without the kill switch that was asked for.
\<close>

definition commented_tunnel :: string where
  "commented_tunnel = join nl [''[Interface]'', ''Address = 10.8.0.2/24'', ''[Peer] # home'', ''AllowedIPs = 0.0.0.0/0'']"

lemma header_with_comment:
  "Contains commented_tunnel ''[Interface]'' \<and> Contains commented_tunnel ''[Peer]'' \<and> parseWGAddress commented_tunnel \<noteq> [] \<and>
   \<not> Contains (final_config commented_tunnel ''full'') ''PostUp''"
  by (intro conjI; code_simp)

text \<open>The keys are read in any case, but only one spelling of the allowed addresses is rewritten.\<close>

definition lower_tunnel :: string where
  "lower_tunnel = join nl [''[Interface]'', ''Address = 10.8.0.2/24'', ''[Peer]'', ''allowedips = 0.0.0.0/0'']"

lemma lower_case_key: "''allowedips = 0.0.0.0/0'' \<in> set (lines_of (final_config lower_tunnel ''dns-only''))"
  by code_simp


end
