(* ===== verification/Inst_Options.thy ===== *)
theory Inst_Options
  imports Host_Ops Go_Codec Pkg_Config
begin

text \<open>
  \<^verbatim>\<open>pkg/installer/phases/options.go\<close> and \<^verbatim>\<open>events.go\<close>: the options of an installation, the state it
  leaves on disk so that a later run can go on, and the writer that turns the output of a phase into
  log events. The JSON codec of the state and the order in which a Go map is gone through are
  parameters.
\<close>

subsection \<open>Options\<close>

definition DefaultDomain :: string where "DefaultDomain = ''olares.local''"
definition DefaultBaseDir :: string where "DefaultBaseDir = ''/opt/packalares''"
definition ReleaseFile :: string where "ReleaseFile = ''/etc/packalares/release''"
definition StateFilePath :: string where "StateFilePath = ''/etc/packalares/install-state.json''"
definition ETCDCertDir :: string where "ETCDCertDir = ''/etc/ssl/etcd/ssl''"
definition KubeConfigDir :: string where "KubeConfigDir = ''/etc/kubernetes''"
definition ContainerdCfgDir :: string where "ContainerdCfgDir = ''/etc/containerd''"
definition SystemdDir :: string where "SystemdDir = ''/etc/systemd/system''"
definition GPUMethodUbuntu :: string where "GPUMethodUbuntu = ''ubuntu''"

record InstallOptions =
  ioUsername :: string
  ioPassword :: string
  ioDomain :: string
  ioBaseDir :: string
  ioRegistry :: string
  ioCertMode :: string
  ioAcmeEmail :: string
  ioAcmeDNSProvider :: string
  ioTailscaleAuthKey :: string
  ioTailscaleControlURL :: string
  ioSkipPrecheck :: bool
  ioGPUMethod :: string
  ioHostname :: string
  ioTimezone :: string
  ioNetworkType :: string
  ioWifiSSID :: string
  ioWifiPassword :: string
  ioStaticIP :: bool

definition first_text :: "string list \<Rightarrow> string" where
  "first_text ts = (case dropWhile (\<lambda>t. t = []) ts of [] \<Rightarrow> [] | t # _ \<Rightarrow> t)"

definition applyDefaults :: "(string \<Rightarrow> string) \<Rightarrow> InstallOptions \<Rightarrow> InstallOptions" where
  "applyDefaults e opts =
     opts\<lparr>ioDomain := first_text [ioDomain opts, e ''PACKALARES_DOMAIN'', DefaultDomain],
          ioBaseDir := first_text [ioBaseDir opts, e ''PACKALARES_BASE_DIR'', DefaultBaseDir],
          ioRegistry := first_text [ioRegistry opts, e ''PACKALARES_REGISTRY''],
          ioCertMode := first_text [ioCertMode opts, e ''OLARES_CERT_MODE'', ''local''],
          ioAcmeEmail := first_text [ioAcmeEmail opts, e ''OLARES_ACME_EMAIL''],
          ioAcmeDNSProvider := first_text [ioAcmeDNSProvider opts, e ''OLARES_ACME_DNS_PROVIDER''],
          ioTailscaleAuthKey := first_text [ioTailscaleAuthKey opts, e ''OLARES_TAILSCALE_AUTH_KEY''],
          ioTailscaleControlURL := first_text [ioTailscaleControlURL opts, e ''OLARES_TAILSCALE_CONTROL_URL''],
          ioUsername := first_text [ioUsername opts, e ''PACKALARES_USERNAME''],
          ioPassword := first_text [ioPassword opts, e ''PACKALARES_PASSWORD'']\<rparr>"

definition validate :: "InstallOptions \<Rightarrow> string option" where
  "validate opts =
     (if ioCertMode opts = ''acme'' then
        (if ioAcmeEmail opts = [] then Some ''--acme-email is required when cert-mode=acme''
         else if ioAcmeDNSProvider opts = [] then Some ''--acme-dns-provider is required when cert-mode=acme''
         else if ioDomain opts = DefaultDomain
           then Some (''a real domain is required for cert-mode=acme (not '' @ DefaultDomain @ '')'')
         else None)
      else None)"

definition resolvedDirs :: "InstallOptions \<Rightarrow> string \<times> string" where
  "resolvedDirs opts =
     (let installerDir = PathJoin (ioBaseDir opts) ''installer'' in (installerDir, PathJoin installerDir ''wizard''))"

text \<open>The slice panics when fewer characters than asked for are there, which never happens.\<close>

definition generatePassword :: "machine \<Rightarrow> nat \<Rightarrow> (string \<times> string) act" where
  "generatePassword M n =
     chk ''generate random password: '' (call M (HRandom n)) (\<lambda>b.
       let plain = take n (hexEncode b) in
       chk ''generate salt: '' (call M (HRandom 16)) (\<lambda>_.
       chk ''hash password: '' (call M (HBcrypt plain)) (\<lambda>hashed. ret (plain, hashed))))"

definition config_replacements :: "InstallOptions \<Rightarrow> (string \<times> string) list" where
  "config_replacements opts =
     [(''{{DOMAIN}}'', ioDomain opts), (''{{USERNAME}}'', ioUsername opts),
      (''{{TAILSCALE_ENABLED}}'', if ioTailscaleAuthKey opts \<noteq> [] then ''true'' else ''false''),
      (''{{TAILSCALE_AUTH_KEY}}'', ioTailscaleAuthKey opts)]"

definition replace_all_in :: "(string \<times> string) list \<Rightarrow> string \<Rightarrow> string" where
  "replace_all_in rs t = foldl (\<lambda>t (k, v). ReplaceAll t k v) t rs"

definition registryImage :: "string \<Rightarrow> string \<Rightarrow> string" where
  "registryImage registry img =
     (if registry = [] then img
      else case SplitN2 img slash of
          [_, rest] \<Rightarrow> registry @ ''/'' @ rest
        | _ \<Rightarrow> registry @ ''/'' @ img)"

subsection \<open>The state on disk\<close>

record InstallState =
  isCompletedPhases :: "string list"
  isOptions :: InstallOptions
  isRebootReason :: string

text \<open>
  What the installer uses of its libraries and embedded files: the codecs (the time stamp of a state
  is left to the encoder), the order of a Go map, the document that \<^verbatim>\<open>pkg/config\<close> has loaded, the
  embedded manifests, and the text of the time between two moments.
\<close>

record installer =
  im_machine :: machine
  encodeState :: "hlog \<Rightarrow> InstallState \<Rightarrow> string"
  decodeState :: "string \<Rightarrow> string + InstallState"
  map_order :: "(string \<times> string) list \<Rightarrow> (string \<times> string) list"
  ConfigTemplate :: string
  decodeYAML :: "string \<Rightarrow> string + (string \<times> yaml) list option"
  encodeYAML :: "(string \<times> yaml) list \<Rightarrow> string"
  configYAML :: "(string \<times> yaml) list"
  Manifests :: "string \<Rightarrow> string + string"
  encodeJSON :: "(string \<times> string) list \<Rightarrow> string"
  decodeToken :: "string \<Rightarrow> string + string"
  EscapeFilter :: "string \<Rightarrow> string"
  elapsed :: "hlog \<Rightarrow> hlog \<Rightarrow> string"

definition settings :: "installer \<Rightarrow> ctx act" where
  "settings I w = Some (Inr \<lparr>cx_yaml = configYAML I, cx_env = hw_env w\<rparr>, w)"

definition writeConfigYAML :: "installer \<Rightarrow> InstallOptions \<Rightarrow> string act" where
  "writeConfigYAML I opts =
     call (im_machine I) (HWrite ''/etc/packalares/config.yaml''
       (replace_all_in (map_order I (config_replacements opts)) (ConfigTemplate I)) 384)"

text \<open>A missing file is an error whose text says so.\<close>

definition not_exist :: string where
  "not_exist = ''no such file or directory''"

definition IsNotExist :: "string \<Rightarrow> bool" where
  "IsNotExist e = HasSuffix e not_exist"

definition loadInstallState :: "installer \<Rightarrow> InstallState option act" where
  "loadInstallState I =
     attempt (call (im_machine I) (HRead StateFilePath)) (\<lambda>r. case r of
         Inl e \<Rightarrow> if IsNotExist e then ret None else fail (''read state file: '' @ e)
       | Inr data \<Rightarrow> (case decodeState I data of
             Inl e \<Rightarrow> fail (''parse state file: '' @ e)
           | Inr st \<Rightarrow> ret (Some st)))"

definition saveInstallState :: "installer \<Rightarrow> InstallState \<Rightarrow> unit act" where
  "saveInstallState I st w =
     (let data = encodeState I (hw_log w) st in
      chk ''create state dir: '' (call (im_machine I) (HMkdir (Dir StateFilePath) 493)) (\<lambda>_.
        chk [] (call (im_machine I) (HWrite StateFilePath data 384)) (\<lambda>_. ret ())) w)"

definition removeInstallState :: "installer \<Rightarrow> unit act" where
  "removeInstallState I = ignoring (call (im_machine I) (HRemove StateFilePath)) (ret ())"

definition HasInstallState :: "installer \<Rightarrow> bool act" where
  "HasInstallState I = succeeds (call (im_machine I) (HStat StateFilePath))"

subsection \<open>Events\<close>

datatype event =
    EventPhaseStart string nat nat
  | EventPhaseLog string nat nat string
  | EventPhaseComplete string nat nat string
  | EventPhaseFailed string nat nat string string
  | EventPhaseSkipped string nat nat
  | EventInstallComplete nat
  | EventRebootRequired string nat nat string string

text \<open>\<^verbatim>\<open>eventWriter\<close>: the bytes of a line that is not finished yet, and the lines it has sent.\<close>

fun TrimRight :: "char list \<Rightarrow> string \<Rightarrow> string" where
  "TrimRight cs s = rev (dropWhile (\<lambda>c. c \<in> set cs) (rev s))"

definition sent_line :: "string \<Rightarrow> string list" where
  "sent_line l = (let l = TrimRight [CHR 0x0D] l in if l = [] then [] else [l])"

function take_lines :: "string \<Rightarrow> string list \<times> string" where
  "take_lines buf =
     (case IndexByte buf (CHR 0x0A) of
        None \<Rightarrow> ([], buf)
      | Some i \<Rightarrow>
          (let r = take_lines (drop (i + 1) buf) in (sent_line (take i buf) @ fst r, snd r)))"
  by pat_completeness auto
termination by (relation "measure length") (auto dest: IndexByte_SomeD)

declare take_lines.simps [simp del]

definition Write :: "string \<Rightarrow> string list \<times> string \<Rightarrow> string list \<times> string" where
  "Write p ew = (let r = take_lines (snd ew @ p) in (fst ew @ fst r, snd r))"

definition flush :: "string list \<times> string \<Rightarrow> string list \<times> string" where
  "flush ew =
     (if snd ew = [] then ew
      else let line = TrimRight [CHR 0x0D, CHR 0x0A] (snd ew) in (fst ew @ (if line = [] then [] else [line]), []))"

definition writer_lines :: "string list \<Rightarrow> string list" where
  "writer_lines ps = fst (flush (foldl (\<lambda>ew p. Write p ew) ([], []) ps))"

subsection \<open>The writer does not depend on how its input is cut\<close>

lemma take_lines_split:
  "take_lines buf = (concat (map sent_line (butlast (split_on (CHR 0x0A) buf))), last (split_on (CHR 0x0A) buf))"
proof (induction buf rule: take_lines.induct)
  case (1 buf)
  show ?case
  proof (cases "IndexByte buf (CHR 0x0A)")
    case None
    have "take_lines buf = ([], buf)" by (subst take_lines.simps) (simp only: None option.case)
    moreover have "split_on (CHR 0x0A) buf = [buf]" using None by (simp add: split_on_id)
    ultimately show ?thesis by simp
  next
    case (Some i)
    then have i: "i < length buf" "buf ! i = CHR 0x0A" "CHR 0x0A \<notin> set (take i buf)"
      by (auto dest: IndexByte_SomeD)
    then have "buf = take i buf @ CHR 0x0A # drop (i + 1) buf" using id_take_nth_drop [of i buf] by simp
    then have "split_on (CHR 0x0A) buf = take i buf # split_on (CHR 0x0A) (drop (i + 1) buf)"
      using split_on_append [OF i(3), of "drop (i + 1) buf"] by simp
    then show ?thesis using Some 1 take_lines.simps [of buf] by (simp add: Let_def)
  qed
qed

lemma split_on_later: "split_on c (a @ b) = butlast (split_on c a) @ split_on c (last (split_on c a) @ b)"
  by (induction a) (auto split: list.splits)

lemma foldl_Write:
  "CHR 0x0A \<notin> set buf \<Longrightarrow> foldl (\<lambda>ew p. Write p ew) (ls, buf) ps =
     (ls @ fst (take_lines (buf @ concat ps)), snd (take_lines (buf @ concat ps)))"
proof (induction ps arbitrary: ls buf)
  case Nil
  then show ?case by (simp add: take_lines_split split_on_id)
next
  case (Cons p ps)
  let ?rest = "last (split_on (CHR 0x0A) (buf @ p))"
  have "CHR 0x0A \<notin> set ?rest" using split_on_no_sep [of ?rest "CHR 0x0A" "buf @ p"] by simp
  then show ?case
    using Cons.IH split_on_later [of "CHR 0x0A" "buf @ p" "concat ps"]
    by (simp add: Write_def Let_def take_lines_split butlast_append)
qed

lemma sent_line_flush:
  assumes "CHR 0x0A \<notin> set l"
  shows "(let t = TrimRight [CHR 0x0D, CHR 0x0A] l in if t = [] then [] else [t]) = sent_line l"
proof -
  have "dropWhile (\<lambda>c. c \<in> set [CHR 0x0D, CHR 0x0A]) (rev l) = dropWhile (\<lambda>c. c \<in> set [CHR 0x0D]) (rev l)"
    using assms by (intro dropWhile_cong) auto
  then show ?thesis by (simp add: sent_line_def)
qed

theorem writer_lines_complete: "writer_lines ps = concat (map sent_line (split_on (CHR 0x0A) (concat ps)))"
proof -
  let ?ls = "split_on (CHR 0x0A) (concat ps)"
  have last: "CHR 0x0A \<notin> set (last ?ls)" using split_on_no_sep [of "last ?ls" "CHR 0x0A" "concat ps"] by simp
  have "writer_lines ps = concat (map sent_line (butlast ?ls)) @ sent_line (last ?ls)"
    using sent_line_flush [OF last]
    by (auto simp: writer_lines_def foldl_Write take_lines_split flush_def sent_line_def Let_def)
  also have "\<dots> = concat (map sent_line (butlast ?ls @ [last ?ls]))"
    by (simp only: map_append concat_append list.map concat.simps append_Nil2)
  also have "butlast ?ls @ [last ?ls] = ?ls" by (simp only: append_butlast_last_id split_on_nonempty not_False_eq_True)
  finally show ?thesis .
qed

end
