(* ===== verification/Inst_System.thy ===== *)
theory Inst_System
  imports Inst_Options
begin

text \<open>
  \<^verbatim>\<open>pkg/installer/phases/system.go\<close>: the first phase (host name, time zone, static address, name
  resolution), the netplan file, the wireless network, and the login hook that resumes an
  installation. Waiting between two tries is not modelled.
\<close>

subsection \<open>The netplan file\<close>

definition findNetplanFile :: "machine \<Rightarrow> string act" where
  "findNetplanFile M =
     chk [] (or_else [] (names M (HGlob ''/etc/netplan/*.yaml''))) (\<lambda>ms.
     chk [] (if ms = [] then or_else [] (names M (HGlob ''/etc/netplan/*.yml'')) else ret ms) (\<lambda>ms.
     ret (case ms of m # _ \<Rightarrow> m | [] \<Rightarrow> ''/etc/netplan/01-netcfg.yaml'')))"

definition fresh_netplan :: "(string \<times> yaml) list" where
  "fresh_netplan = [(''network'', YMap [(''version'', YInt 2)])]"

text \<open>The document of an empty file is a nil map.\<close>

definition readNetplan :: "installer \<Rightarrow> ((string \<times> yaml) list option \<times> string) act" where
  "readNetplan I =
     chk [] (findNetplanFile (im_machine I)) (\<lambda>path.
     attempt (call (im_machine I) (HRead path)) (\<lambda>r. case r of
         Inl _ \<Rightarrow> ret (Some fresh_netplan, path)
       | Inr data \<Rightarrow> (case decodeYAML I data of
             Inl _ \<Rightarrow> ret (Some fresh_netplan, path)
           | Inr config \<Rightarrow> ret (config, path))))"

definition writeNetplan :: "installer \<Rightarrow> (string \<times> yaml) list \<Rightarrow> string \<Rightarrow> unit act" where
  "writeNetplan I config path =
     chk ''write netplan: '' (call (im_machine I) (HWrite path (encodeYAML I config) 384)) (\<lambda>_.
     chk ''netplan apply: '' (run_with '' '' (im_machine I) [''netplan'', ''apply''] None) (\<lambda>_. ret ()))"

text \<open>
  The section is changed in place: the function gives the network and the section as they are
  then. Writing to a nil map panics.
\<close>

definition map_at :: "(string \<times> yaml) list \<Rightarrow> string \<Rightarrow> (string \<times> yaml) list option" where
  "map_at m k = (case map_of m k of Some (YMap v) \<Rightarrow> Some v | _ \<Rightarrow> None)"

definition getNetworkSection ::
    "(string \<times> yaml) list option \<Rightarrow> string \<Rightarrow> ((string \<times> yaml) list \<times> (string \<times> yaml) list) option" where
  "getNetworkSection config section =
     (case map_at (case config of None \<Rightarrow> [] | Some c \<Rightarrow> c) ''network'' of
        None \<Rightarrow> (if config = None then None else Some ([(''version'', YInt 2)], []))
      | Some network \<Rightarrow> Some (network, case map_at network section of None \<Rightarrow> [] | Some s \<Rightarrow> s))"

definition put_section :: "(string \<times> yaml) list option \<Rightarrow> string \<Rightarrow> string \<Rightarrow> ((string \<times> yaml) list \<Rightarrow> yaml) \<Rightarrow> (string \<times> yaml) list option" where
  "put_section config section iface f =
     (case getNetworkSection config section of
        None \<Rightarrow> None
      | Some (network, s) \<Rightarrow>
          Some (AList.update ''network''
            (YMap (AList.update section (YMap (AList.update iface (f s) s)) network)) (the config)))"

subsection \<open>Wireless network\<close>

definition DetectWifi :: "machine \<Rightarrow> bool act" where
  "DetectWifi M =
     chk [] (or_else [] (names M (HGlob ''/sys/class/net/*/wireless''))) (\<lambda>ms. ret (0 < length ms))"

definition getWifiInterface :: "machine \<Rightarrow> string act" where
  "getWifiInterface M =
     chk [] (or_else [] (names M (HGlob ''/sys/class/net/*/wireless''))) (\<lambda>ms.
     ret (case ms of [] \<Rightarrow> [] | m # _ \<Rightarrow> Base (Dir m)))"

text \<open>The first address of a listing; the lines are tested with \<open>p\<close>.\<close>

definition address_in :: "(string \<Rightarrow> bool) \<Rightarrow> string \<Rightarrow> string option" where
  "address_in p out =
     (case List.find (\<lambda>l. p l \<and> 2 \<le> length (Fields l)) (split_on (CHR 0x0A) out) of
        None \<Rightarrow> None
      | Some l \<Rightarrow> Some (hd (split_on slash (Fields l ! 1))))"

fun wait_wifi :: "machine \<Rightarrow> string \<Rightarrow> string \<Rightarrow> nat \<Rightarrow> nat \<Rightarrow> bool act" where
  "wait_wifi M ssid iface i 0 = ret False"
| "wait_wifi M ssid iface i (Suc n) =
     chk [] (say ([CHR 0x0D] @ ''  Waiting for WiFi connection ... '' @ nat_str (i + 1) @ ''s/'' @ nat_str 30 @ ''s'')) (\<lambda>_.
     attempt (run M [''ip'', ''-4'', ''addr'', ''show'', iface]) (\<lambda>r.
       case (case r of Inl _ \<Rightarrow> None | Inr out \<Rightarrow> address_in (\<lambda>l. Contains l ''inet '') out) of
         Some ip \<Rightarrow> chk [] (say ([CHR 0x0D] @ ''  WiFi connected: '' @ ssid @ '' ('' @ ip @ '')                '' @ nl)) (\<lambda>_. ret True)
       | None \<Rightarrow> wait_wifi M ssid iface (i + 1) n))"

definition ConnectWifi :: "installer \<Rightarrow> string \<Rightarrow> string \<Rightarrow> unit act" where
  "ConnectWifi I ssid password =
     chk [] (getWifiInterface (im_machine I)) (\<lambda>iface.
     if iface = [] then fail ''no wifi interface found''
     else
       chk [] (say (''  Configuring WiFi: '' @ ssid @ '' on '' @ iface @ '' ...'' @ nl)) (\<lambda>_.
       chk [] (readNetplan I) (\<lambda>(config, path).
       case put_section config ''wifis'' iface (\<lambda>_. YMap [(''dhcp4'', YBool True),
              (''access-points'', YMap [(ssid, YMap [(''password'', YStr password)])])]) of
         None \<Rightarrow> (\<lambda>_. None)
       | Some config \<Rightarrow>
           ignoring (call (im_machine I) (HRemove ''/etc/netplan/99-packalares.yaml''))
            (chk [] (writeNetplan I config path) (\<lambda>_.
             chk [] (wait_wifi (im_machine I) ssid iface 0 30) (\<lambda>ok.
             if ok then ret ()
             else chk [] (say nl) (\<lambda>_. fail (''no IP received after '' @ nat_str 30 @ ''s''))))))))"

definition InstallWifiDeps :: "machine \<Rightarrow> unit act" where
  "InstallWifiDeps M =
     chk [] (say (''  Installing WiFi dependencies (iw, wpasupplicant) ...'' @ nl)) (\<lambda>_.
     chk [] (ask M (HRun [''apt-get'', ''install'', ''-y'', ''-qq'', ''iw'', ''wpasupplicant''] None)) (\<lambda>a.
     chk [] (say (text_of a)) (\<lambda>_. case error_of a of None \<Rightarrow> ret () | Some e \<Rightarrow> fail e)))"

record WifiNetwork =
  wnSSID :: string
  wnSignal :: string
  wnSecurity :: string

definition no_network :: WifiNetwork where
  "no_network = \<lparr>wnSSID = [], wnSignal = [], wnSecurity = []\<rparr>"

definition note_network :: "WifiNetwork \<times> WifiNetwork list \<Rightarrow> WifiNetwork list" where
  "note_network st =
     (if wnSSID (fst st) \<noteq> [] \<and> wnSSID (fst st) \<notin> wnSSID ` set (snd st) then snd st @ [fst st] else snd st)"

definition scan_line :: "WifiNetwork \<times> WifiNetwork list \<Rightarrow> string \<Rightarrow> WifiNetwork \<times> WifiNetwork list" where
  "scan_line st l =
     (let line = TrimSpace l;
          st = (if HasPrefix line ''BSS '' then (no_network, note_network st) else st);
          c = fst st;
          c = (if HasPrefix line ''SSID: '' then c\<lparr>wnSSID := TrimPrefix line ''SSID: ''\<rparr> else c);
          c = (if HasPrefix line ''signal: '' then c\<lparr>wnSignal := TrimSuffix (TrimPrefix line ''signal: '') '' dBm''\<rparr> else c);
          c = (if Contains line ''WPA'' \<or> Contains line ''RSN'' then c\<lparr>wnSecurity := ''WPA''\<rparr> else c)
      in (c, snd st))"

definition parseScan :: "string \<Rightarrow> WifiNetwork list" where
  "parseScan out = note_network (foldl scan_line (no_network, []) (split_on (CHR 0x0A) out))"

definition ScanWifiNetworks :: "machine \<Rightarrow> WifiNetwork list act" where
  "ScanWifiNetworks M =
     chk [] (getWifiInterface M) (\<lambda>iface.
     if iface = [] then fail ''no wifi interface found''
     else ignoring (run M [''ip'', ''link'', ''set'', iface, ''up''])
       (chk ''wifi scan failed: '' (run M [''iw'', ''dev'', iface, ''scan'']) (\<lambda>out. ret (parseScan out))))"

subsection \<open>Addresses\<close>

fun last_after :: "string \<Rightarrow> string list \<Rightarrow> string \<Rightarrow> string" where
  "last_after k (p # q # ps) d = last_after k (q # ps) (if p = k then q else d)"
| "last_after k _ d = d"

definition inet_line :: "string \<Rightarrow> bool" where
  "inet_line l = HasPrefix (TrimSpace l) ''inet ''"

definition detectNetworkInfo :: "machine \<Rightarrow> (string \<times> string \<times> string) act" where
  "detectNetworkInfo M =
     chk ''ip route: '' (run M [''ip'', ''route'', ''show'', ''default'']) (\<lambda>out.
     let gateway = last_after ''via'' (Fields out) []; iface = last_after ''dev'' (Fields out) [] in
     if iface = [] then fail ''no default interface found''
     else chk ''ip addr: '' (run M [''ip'', ''-4'', ''addr'', ''show'', iface]) (\<lambda>out.
       case address_in inet_line out of
         None \<Rightarrow> fail (''no IP found on '' @ iface)
       | Some ip \<Rightarrow> if ip = [] then fail (''no IP found on '' @ iface) else ret (iface, ip, gateway)))"

definition dns_line :: "string \<Rightarrow> string option" where
  "dns_line l = (case SplitN2 l (CHR '':'') of
      [_, rest] \<Rightarrow> (let servers = TrimSpace rest in if servers = [] then None else Some (ReplaceAll servers '' '' '', ''))
    | _ \<Rightarrow> None)"

definition detectDNS :: "machine \<Rightarrow> string act" where
  "detectDNS M =
     chk [] (ask M (HRun [''resolvectl'', ''dns''] None)) (\<lambda>a.
     ret (case List.map_filter dns_line (split_on (CHR 0x0A) (text_of a)) of
            s # _ \<Rightarrow> s | [] \<Rightarrow> ''1.1.1.1, 8.8.8.8''))"

definition GetCurrentIP :: "machine \<Rightarrow> string act" where
  "GetCurrentIP M = or_else [] (chk [] (detectNetworkInfo M) (\<lambda>(_, ip, _). ret ip))"

definition GetWifiIP :: "machine \<Rightarrow> string act" where
  "GetWifiIP M =
     chk [] (getWifiInterface M) (\<lambda>iface.
     if iface = [] then ret []
     else attempt (run M [''ip'', ''-4'', ''addr'', ''show'', iface]) (\<lambda>r. case r of
         Inl _ \<Rightarrow> ret []
       | Inr out \<Rightarrow> ret (case address_in inet_line out of None \<Rightarrow> [] | Some ip \<Rightarrow> ip)))"

text \<open>\<^verbatim>\<open>strings.Split(dns, ", ")\<close>.\<close>

function split_str :: "string \<Rightarrow> string \<Rightarrow> string list" where
  "split_str s sep =
     (if sep = [] then map (\<lambda>c. [c]) s
      else case IndexStr s sep of
        None \<Rightarrow> [s]
      | Some i \<Rightarrow> take i s # split_str (drop (i + length sep) s) sep)"
  by pat_completeness auto
termination
proof (relation "measure (length o fst)")
  show "wf (measure (length \<circ> fst))" by simp
  fix s sep :: string and i
  assume sep: "sep \<noteq> []" and i: "IndexStr s sep = Some i"
  have "s \<noteq> []" using sep i by (auto simp: IndexStr.simps)
  then show "((drop (i + length sep) s, sep), s, sep) \<in> measure (length \<circ> fst)" using sep by simp
qed

declare split_str.simps [simp del]

definition static_config :: "string \<Rightarrow> string \<Rightarrow> string \<Rightarrow> (string \<times> yaml) list" where
  "static_config ip gateway dns =
     [(''dhcp4'', YBool False), (''addresses'', YList [YStr (ip @ ''/24'')]),
      (''routes'', YList [YMap [(''to'', YStr ''default''), (''via'', YStr gateway)]]),
      (''nameservers'', YMap [(''addresses'', YList (map YStr (split_str dns '', '')))])]"

definition configureStaticIP :: "installer \<Rightarrow> InstallOptions \<Rightarrow> unit act" where
  "configureStaticIP I opts =
     chk [] (detectNetworkInfo (im_machine I)) (\<lambda>(iface, ip, gateway).
     chk [] (detectDNS (im_machine I)) (\<lambda>dns.
     chk [] (say (''  Configuring static IP: '' @ ip @ '' on '' @ iface @ '' (gateway: '' @ gateway @ '')'' @ nl)) (\<lambda>_.
     chk [] (readNetplan I) (\<lambda>(config, path).
     chk [] (getWifiInterface (im_machine I)) (\<lambda>wifi.
     let static = static_config ip gateway dns;
         new = (if ioNetworkType opts = ''wifi'' \<and> iface = wifi
                then put_section config ''wifis'' iface (\<lambda>wifis.
                       case map_at wifis iface of
                         None \<Rightarrow> YMap static
                       | Some existing \<Rightarrow> (case map_of existing ''access-points'' of
                             None \<Rightarrow> YMap static
                           | Some ap \<Rightarrow> YMap (static @ [(''access-points'', ap)])))
                else put_section config ''ethernets'' iface (\<lambda>_. YMap static))
     in case new of None \<Rightarrow> (\<lambda>_. None) | Some config \<Rightarrow> writeNetplan I config path)))))"

subsection \<open>The first phase\<close>

text \<open>The wait for name resolution: \<open>n\<close> tries are left.\<close>

fun wait_dns :: "machine \<Rightarrow> bool \<Rightarrow> nat \<Rightarrow> unit act" where
  "wait_dns M first 0 = say ('' ready'' @ nl)"
| "wait_dns M first (Suc n) =
     chk [] (succeeds (run M [''host'', ''-W'', ''2'', ''github.com''])) (\<lambda>ok.
     if ok then ret ()
     else chk [] (if first then say ''  Waiting for DNS '' else ret ()) (\<lambda>_.
       chk [] (say ''.'') (\<lambda>_. wait_dns M False n)))"

definition waitForDNS :: "machine \<Rightarrow> unit act" where
  "waitForDNS M = wait_dns M True 15"

text \<open>A message and the rest, whatever the error was.\<close>

definition warn :: "'a act \<Rightarrow> (string \<Rightarrow> string) \<Rightarrow> unit act" where
  "warn m f = attempt m (\<lambda>r. case r of Inl e \<Rightarrow> say (f e) | Inr _ \<Rightarrow> ret ())"

definition configureSystem :: "installer \<Rightarrow> InstallOptions \<Rightarrow> unit act" where
  "configureSystem I opts =
     (let M = im_machine I in
     chk [] (if ioHostname opts = [] then ret ()
             else chk [] (or_else [] (call M HHostname)) (\<lambda>current.
               if ioHostname opts \<noteq> current
               then chk [] (say (''  Setting hostname to '' @ ioHostname opts @ '' ...'' @ nl)) (\<lambda>_.
                    chk ''set hostname: '' (run M [''hostnamectl'', ''set-hostname'', ioHostname opts]) (\<lambda>_. ret ()))
               else say (''  Hostname already set to '' @ ioHostname opts @ nl))) (\<lambda>_.
     chk [] (if ioTimezone opts = [] then ret ()
             else chk [] (say (''  Setting timezone to '' @ ioTimezone opts @ '' ...'' @ nl)) (\<lambda>_.
                  chk ''set timezone: '' (run M [''timedatectl'', ''set-timezone'', ioTimezone opts]) (\<lambda>_. ret ()))) (\<lambda>_.
     chk [] (if ioStaticIP opts
             then warn (configureStaticIP I opts) (\<lambda>e. ''  Warning: static IP config failed: '' @ e @ nl)
             else ret ()) (\<lambda>_.
     chk [] (succeeds (call M (HLookPath ''wg''))) (\<lambda>found.
     chk [] (if found then ret ()
             else chk [] (say (''  Installing wireguard-tools...'' @ nl)) (\<lambda>_.
               warn (run M [''apt-get'', ''install'', ''-y'', ''-qq'', ''wireguard-tools''])
                 (\<lambda>e. ''  Warning: wireguard-tools install failed: '' @ e @ '' (non-fatal)'' @ nl))) (\<lambda>_.
     waitForDNS M))))))"

subsection \<open>The login hook\<close>

definition hook_marker :: string where
  "hook_marker = ''# packalares-install-resume''"

fun outside_hook :: "bool \<Rightarrow> string list \<Rightarrow> string list" where
  "outside_hook inBlock [] = []"
| "outside_hook inBlock (l # ls) =
     (if Contains l hook_marker then outside_hook (\<not> inBlock) ls
      else if inBlock then outside_hook inBlock ls
      else l # outside_hook inBlock ls)"

definition without_hook :: "string \<Rightarrow> string" where
  "without_hook s = (if Contains s hook_marker then join [CHR 0x0A] (outside_hook False (split_on (CHR 0x0A) s)) else s)"

definition removeLoginHook :: "machine \<Rightarrow> unit act" where
  "removeLoginHook M =
     attempt (call M (HRead ''/root/.bashrc'')) (\<lambda>r. case r of
         Inl _ \<Rightarrow> ret ()
       | Inr s \<Rightarrow> if \<not> Contains s hook_marker then ret ()
           else ignoring (call M (HWrite ''/root/.bashrc'' (without_hook s) 420))
                 (ignoring (call M (HRemove ''/etc/profile.d/packalares-resume.sh'')) (ret ())))"

definition hook_text :: string where
  "hook_text = unlines
      [[], ''# packalares-install-resume'', ''if [ -f /etc/packalares/install-state.json ]; then'',
       ''    echo '' @ dquote @ dquote, ''    echo '' @ dquote @ ''  Resuming Packalares installation...'' @ dquote,
       ''    echo '' @ dquote @ dquote, ''    packalares install'', ''fi'', ''# packalares-install-resume'']"

definition CreateLoginHook :: "machine \<Rightarrow> unit act" where
  "CreateLoginHook M =
     chk [] (or_else [] (call M (HRead ''/root/.bashrc''))) (\<lambda>existing.
     if Contains existing hook_marker then ret ()
     else chk ''open .bashrc: '' (call M (HAppend ''/root/.bashrc'' [] 420)) (\<lambda>_.
          chk [] (call M (HAppend ''/root/.bashrc'' hook_text 420)) (\<lambda>_. ret ())))"

end
