(* ===== verification/Inst_Cluster.thy ===== *)
theory Inst_Cluster
  imports Inst_System
begin

text \<open>
  The phases of \<^verbatim>\<open>pkg/installer\<close> that set up the machine and the cluster: the kernel settings, etcd
  with its certificates, K3s, Calico, OpenEBS, KVRocks, the binaries and Helm. Go's map of kernel
  settings is gone through in the order \<open>map_order\<close> gives; deadlines and waiting are part of the
  answers of the machine.
\<close>

text \<open>The commands run one after the other; the first that fails ends the loop.\<close>

fun run_each :: "machine \<Rightarrow> string list list \<Rightarrow> unit act" where
  "run_each M [] = ret ()"
| "run_each M (args # cmds) =
     chk (''run '' @ show_args args @ '': '') (exec M args None) (\<lambda>_. run_each M cmds)"

definition missing_file :: "machine \<Rightarrow> string \<Rightarrow> bool act" where
  "missing_file M p =
     attempt (call M (HStat p)) (\<lambda>r. ret (case r of Inl e \<Rightarrow> IsNotExist e | Inr _ \<Rightarrow> False))"

definition start_service :: "string \<Rightarrow> string list list" where
  "start_service s = [[''systemctl'', ''daemon-reload''], [''systemctl'', ''enable'', s], [''systemctl'', ''start'', s]]"

definition kubectl_apply :: "machine \<Rightarrow> string \<Rightarrow> string act" where
  "kubectl_apply M manifest = exec M [''kubectl'', ''apply'', ''-f'', ''-''] (Some manifest)"

subsection \<open>Kernel\<close>

definition requiredModules :: "string list" where
  "requiredModules =
     [''br_netfilter'', ''overlay'', ''vxlan'', ''ip_vs'', ''ip_vs_rr'', ''ip_vs_wrr'', ''ip_vs_sh'', ''nf_conntrack'']"

definition sysctlSettings :: "(string \<times> string) list" where
  "sysctlSettings = [(''net.bridge.bridge-nf-call-iptables'', ''1''),
      (''net.bridge.bridge-nf-call-ip6tables'', ''1''),
      (''net.ipv4.ip_forward'', ''1''),
      (''net.ipv4.conf.all.forwarding'', ''1''),
      (''net.ipv6.conf.all.forwarding'', ''1''),
      (''net.ipv4.tcp_tw_reuse'', ''1''),
      (''net.ipv4.tcp_fin_timeout'', ''30''),
      (''net.ipv4.tcp_keepalive_time'', ''600''),
      (''net.ipv4.tcp_keepalive_probes'', ''5''),
      (''net.ipv4.tcp_keepalive_intvl'', ''15''),
      (''net.core.somaxconn'', ''32768''),
      (''net.ipv4.tcp_max_syn_backlog'', ''8192''),
      (''net.core.netdev_max_backlog'', ''16384''),
      (''vm.max_map_count'', ''262144''),
      (''fs.inotify.max_user_instances'', ''8192''),
      (''fs.inotify.max_user_watches'', ''524288''),
      (''fs.file-max'', ''2097152''),
      (''vm.swappiness'', ''10'')]"

fun load_each :: "machine \<Rightarrow> string list \<Rightarrow> unit act" where
  "load_each M [] = ret ()"
| "load_each M (m # ms) =
     chk [] (ask M (HRun [''modprobe'', m] None)) (\<lambda>a.
     chk [] (if failed a then sayln (''  Warning: could not load module '' @ m @ '': '' @ TrimSpace (text_of a)) else ret ()) (\<lambda>_.
     load_each M ms))"

definition LoadModules :: "machine \<Rightarrow> unit act" where
  "LoadModules M =
     chk [] (sayln ''  Loading kernel modules ...'') (\<lambda>_.
     chk ''create modules-load.d: '' (call M (HMkdir ''/etc/modules-load.d'' 493)) (\<lambda>_.
     chk ''write modules config: '' (call M (HWrite ''/etc/modules-load.d/packalares.conf'' (unlines requiredModules) 420)) (\<lambda>_.
     load_each M requiredModules)))"

definition sysctl_text :: "(string \<times> string) list \<Rightarrow> string" where
  "sysctl_text kvs =
     ''# Packalares sysctl tuning'' @ nl @ join nl (map (\<lambda>(k, v). k @ '' = '' @ v) kvs) @ nl"

definition ApplySysctl :: "installer \<Rightarrow> unit act" where
  "ApplySysctl I =
     (let M = im_machine I in
     chk [] (sayln ''  Applying sysctl settings ...'') (\<lambda>_.
     chk ''create sysctl.d: '' (call M (HMkdir ''/etc/sysctl.d'' 493)) (\<lambda>_.
     chk ''write sysctl config: '' (call M (HWrite ''/etc/sysctl.d/99-packalares.conf'' (sysctl_text (map_order I sysctlSettings)) 420)) (\<lambda>_.
     chk ''apply sysctl: '' (exec M [''sysctl'', ''--system''] None) (\<lambda>_. ret ())))))"

subsection \<open>etcd\<close>

definition etcdService :: string where
  "etcdService = unlines
      [''[Unit]'', ''Description=etcd key-value store'', ''Documentation=https://etcd.io/docs/'',
       ''After=network.target'', [], ''[Service]'', ''Type=notify'', ''ExecStart=/usr/local/bin/etcd '' @ bslash,
       ''  --name=packalares-etcd '' @ bslash, ''  --data-dir=/var/lib/etcd '' @ bslash,
       ''  --listen-client-urls=https://0.0.0.0:2379 '' @ bslash,
       ''  --advertise-client-urls=https://127.0.0.1:2379 '' @ bslash,
       ''  --listen-peer-urls=https://0.0.0.0:2380 '' @ bslash,
       ''  --initial-advertise-peer-urls=https://127.0.0.1:2380 '' @ bslash,
       ''  --initial-cluster=packalares-etcd=https://127.0.0.1:2380 '' @ bslash,
       ''  --initial-cluster-token=packalares-etcd-token '' @ bslash, ''  --initial-cluster-state=new '' @ bslash,
       ''  --client-cert-auth=true '' @ bslash, ''  --trusted-ca-file=/etc/ssl/etcd/ssl/ca.pem '' @ bslash,
       ''  --cert-file=/etc/ssl/etcd/ssl/server.pem '' @ bslash,
       ''  --key-file=/etc/ssl/etcd/ssl/server-key.pem '' @ bslash, ''  --peer-client-cert-auth=true '' @ bslash,
       ''  --peer-trusted-ca-file=/etc/ssl/etcd/ssl/ca.pem '' @ bslash,
       ''  --peer-cert-file=/etc/ssl/etcd/ssl/peer.pem '' @ bslash,
       ''  --peer-key-file=/etc/ssl/etcd/ssl/peer-key.pem'', ''Restart=always'', ''RestartSec=5'',
       ''LimitNOFILE=65536'', [], ''[Install]'', ''WantedBy=multi-user.target'']"

definition writePEM :: "machine \<Rightarrow> string \<Rightarrow> string \<Rightarrow> string \<Rightarrow> unit act" where
  "writePEM M path pemType data =
     chk (''create '' @ path @ '': '') (call M (HWrite path [] 384)) (\<lambda>_.
     chk [] (call M (HAppend path (pemEncode M pemType data) 384)) (\<lambda>_. ret ()))"

text \<open>The key and certificate library is asked by name: to generate a key, to sign, parse and write.\<close>

definition generateNodeCert :: "machine \<Rightarrow> string \<Rightarrow> string \<Rightarrow> string \<Rightarrow> string \<Rightarrow> unit act" where
  "generateNodeCert M caCert caKey name dir =
     chk (''generate '' @ name @ '' key: '') (call M (HCert ''GenerateKey P256'' [])) (\<lambda>key.
     chk (''create '' @ name @ '' cert: '') (call M (HCert ''CreateCertificate''
          [''O=Packalares'', ''CN=packalares-etcd-'' @ name, ''DNS=localhost'', ''DNS=packalares-etcd'',
           ''IP=127.0.0.1'', ''IP=::1'', ''ServerAuth,ClientAuth'', caCert, key, caKey])) (\<lambda>der.
     chk [] (writePEM M (dir @ ''/'' @ name @ ''.pem'') ''CERTIFICATE'' der) (\<lambda>_.
     chk (''marshal '' @ name @ '' key: '') (call M (HCert ''MarshalECPrivateKey'' [key])) (\<lambda>keyDER.
     writePEM M (dir @ ''/'' @ name @ ''-key.pem'') ''EC PRIVATE KEY'' keyDER))))"

definition generateCerts :: "machine \<Rightarrow> unit act" where
  "generateCerts M =
     chk ''generate CA key: '' (call M (HCert ''GenerateKey P256'' [])) (\<lambda>caKey.
     chk ''create CA cert: '' (call M (HCert ''CreateCertificate''
          [''O=Packalares'', ''CN=Packalares etcd CA'', ''CA'', caKey, caKey])) (\<lambda>caDER.
     chk ''parse CA cert: '' (call M (HCert ''ParseCertificate'' [caDER])) (\<lambda>caCert.
     chk [] (writePEM M (ETCDCertDir @ ''/ca.pem'') ''CERTIFICATE'' caDER) (\<lambda>_.
     chk ''marshal CA key: '' (call M (HCert ''MarshalECPrivateKey'' [caKey])) (\<lambda>keyDER.
     chk [] (writePEM M (ETCDCertDir @ ''/ca-key.pem'') ''EC PRIVATE KEY'' keyDER) (\<lambda>_.
     chk [] (generateNodeCert M caCert caKey ''server'' ETCDCertDir) (\<lambda>_.
     generateNodeCert M caCert caKey ''peer'' ETCDCertDir)))))))"

fun make_dirs :: "machine \<Rightarrow> (string \<Rightarrow> string) \<Rightarrow> string list \<Rightarrow> unit act" where
  "make_dirs M msg [] = ret ()"
| "make_dirs M msg (d # ds) = chk (msg d) (call M (HMkdir d 493)) (\<lambda>_. make_dirs M msg ds)"

definition etcd_Install :: "machine \<Rightarrow> unit act" where
  "etcd_Install M =
     chk [] (missing_file M ''/usr/local/bin/etcd'') (\<lambda>missing.
     if missing then fail (''etcd binary not found '' @ [CHR 0xE2, CHR 0x80, CHR 0x94] @ '' run download phase first'')
     else
       chk [] (make_dirs M (\<lambda>d. ''create dir '' @ d @ '': '') [ETCDCertDir, ''/var/lib/etcd'']) (\<lambda>_.
       chk [] (sayln ''  Generating etcd TLS certificates ...'') (\<lambda>_.
       chk ''generate etcd certs: '' (generateCerts M) (\<lambda>_.
       chk ''write etcd service: '' (call M (HWrite ''/etc/systemd/system/etcd.service'' etcdService 420)) (\<lambda>_.
       chk [] (run_each M (start_service ''etcd'')) (\<lambda>_.
       chk [] (sayln ''  Waiting for etcd to be healthy ...'') (\<lambda>_.
       chk [] (poll 30 (succeeds (run M
           [''/usr/local/bin/etcdctl'', ''--cacert'', ETCDCertDir @ ''/ca.pem'', ''--cert'', ETCDCertDir @ ''/server.pem'',
            ''--key'', ETCDCertDir @ ''/server-key.pem'', ''--endpoints'', ''https://127.0.0.1:2379'', ''endpoint'', ''health'']))) (\<lambda>ok.
       if ok then sayln ''  etcd is healthy'' else fail ''etcd did not become healthy in time''))))))))"

subsection \<open>K3s\<close>

definition generateK3sService :: "string \<Rightarrow> string" where
  "generateK3sService registry = unlines
      [''[Unit]'', ''Description=Lightweight Kubernetes (K3s)'', ''Documentation=https://k3s.io'',
       ''After=network-online.target etcd.service containerd.service'', ''Wants=network-online.target'', [],
       ''[Service]'', ''Type=notify'', ''EnvironmentFile=-/etc/systemd/system/k3s.service.d/env.conf'',
       ''ExecStart=/usr/local/bin/k3s server --config /etc/rancher/k3s/config.yaml'', ''KillMode=process'',
       ''Delegate=yes'', ''LimitNOFILE=1048576'', ''LimitNPROC=infinity'', ''LimitCORE=infinity'',
       ''TasksMax=infinity'', ''TimeoutStartSec=0'', ''Restart=always'', ''RestartSec=5s'', [], ''[Install]'',
       ''WantedBy=multi-user.target'']"

definition generateK3sEnv :: string where
  "generateK3sEnv = unlines
      [''[Service]'', ''Environment='' @ dquote @ ''K3S_KUBECONFIG_MODE=644'' @ dquote]"

definition generateK3sConfig :: "string \<Rightarrow> string" where
  "generateK3sConfig registry =
     unlines
      [''# K3s configuration for Packalares'', ''write-kubeconfig-mode: '' @ squote @ ''0644'' @ squote, ''disable:'',
       ''  - traefik'', ''  - servicelb'', ''  - local-storage'', ''flannel-backend: none'',
       ''disable-network-policy: true'', ''cluster-cidr: '' @ squote @ ''10.233.64.0/18'' @ squote,
       ''service-cidr: '' @ squote @ ''10.233.0.0/18'' @ squote,
       ''cluster-dns: '' @ squote @ ''10.233.0.10'' @ squote,
       ''resolv-conf: '' @ squote @ ''/etc/rancher/k3s/resolv.conf'' @ squote,
       ''datastore-endpoint: '' @ squote @ ''https://127.0.0.1:2379'' @ squote,
       ''datastore-cafile: '' @ squote @ ''/etc/ssl/etcd/ssl/ca.pem'' @ squote,
       ''datastore-certfile: '' @ squote @ ''/etc/ssl/etcd/ssl/server.pem'' @ squote,
       ''datastore-keyfile: '' @ squote @ ''/etc/ssl/etcd/ssl/server-key.pem'' @ squote, ''kubelet-arg:'',
       ''  - '' @ squote @ ''max-pods=220'' @ squote, ''  - '' @ squote @ ''serialize-image-pulls=false'' @ squote,
       ''  - '' @ squote @ ''image-gc-high-threshold=85'' @ squote,
       ''  - '' @ squote @ ''image-gc-low-threshold=80'' @ squote] @
     (if registry \<noteq> [] then ''# Private registry: '' @ registry @ nl else [])"

definition crictl_config :: string where
  "crictl_config = unlines
      [''runtime-endpoint: unix:///run/k3s/containerd/containerd.sock'',
       ''image-endpoint: unix:///run/k3s/containerd/containerd.sock'', ''timeout: 5'']"

fun link_each :: "machine \<Rightarrow> string list \<Rightarrow> unit act" where
  "link_each M [] = ret ()"
| "link_each M (l # ls) =
     chk [] (missing_file M (''/usr/local/bin/'' @ l)) (\<lambda>missing.
     ignoring (if missing then call M (HSymlink ''/usr/local/bin/k3s'' (''/usr/local/bin/'' @ l)) else ret [])
       (link_each M ls))"

definition k3s_Install :: "machine \<Rightarrow> string \<Rightarrow> unit act" where
  "k3s_Install M registry =
     chk [] (missing_file M ''/usr/local/bin/k3s'') (\<lambda>missing.
     if missing then fail (''k3s binary not found '' @ [CHR 0xE2, CHR 0x80, CHR 0x94] @ '' run download phase first'')
     else
       chk [] (link_each M [''kubectl'', ''crictl'', ''ctr'']) (\<lambda>_.
       ignoring (call M (HWrite ''/etc/crictl.yaml'' crictl_config 420))
      (chk ''write k3s service: '' (call M (HWrite ''/etc/systemd/system/k3s.service'' (generateK3sService registry) 420)) (\<lambda>_.
       ignoring (call M (HMkdir ''/etc/systemd/system/k3s.service.d'' 493))
      (chk ''write k3s env: '' (call M (HWrite ''/etc/systemd/system/k3s.service.d/env.conf'' generateK3sEnv 420)) (\<lambda>_.
       ignoring (call M (HMkdir ''/etc/rancher/k3s'' 493))
      (chk ''write k3s config: '' (call M (HWrite ''/etc/rancher/k3s/config.yaml'' (generateK3sConfig registry) 420)) (\<lambda>_.
       chk ''write k3s resolv.conf: '' (call M (HWrite ''/etc/rancher/k3s/resolv.conf''
            (unlines [''nameserver 8.8.8.8'', ''nameserver 1.1.1.1'']) 420)) (\<lambda>_.
       chk [] (run_each M (start_service ''k3s'')) (\<lambda>_.
       chk [] (sayln ''  Waiting for K3s to be ready ...'') (\<lambda>_.
       chk [] (poll 60 (succeeds (run M [''kubectl'', ''--kubeconfig'', ''/etc/rancher/k3s/k3s.yaml'', ''get'', ''nodes'']))) (\<lambda>_.
       chk [] (env ''HOME'') (\<lambda>home.
       ignoring (call M (HMkdir (home @ ''/.kube'') 493))
      (ignoring (run M [''cp'', ''/etc/rancher/k3s/k3s.yaml'', home @ ''/.kube/config''])
      (ignoring (run M [''chmod'', ''600'', home @ ''/.kube/config''])
      (sayln ''  K3s installed and running''))))))))))))))))"

subsection \<open>Calico\<close>

definition calicoVersion :: string where "calicoVersion = ''v3.27.2''"

definition calicoCustomResource :: string where
  "calicoCustomResource = unlines
      [''apiVersion: operator.tigera.io/v1'', ''kind: Installation'', ''metadata:'', ''  name: default'', ''spec:'',
       ''  calicoNetwork:'', ''    ipPools:'', ''    - blockSize: 24'', ''      cidr: 10.233.64.0/18'',
       ''      encapsulation: VXLANCrossSubnet'', ''      natOutgoing: Enabled'', ''      nodeSelector: all()'',
       ''---'', ''apiVersion: operator.tigera.io/v1'', ''kind: APIServer'', ''metadata:'', ''  name: default'',
       ''spec: {}'']"

fun lines_from :: "string \<Rightarrow> string \<Rightarrow> string list" where
  "lines_from cur [] = (if cur = [] then [] else [cur])"
| "lines_from cur (c # cs) = (if c = CHR 0x0A then cur # lines_from [] cs else lines_from (cur @ [c]) cs)"

definition splitLines :: "string \<Rightarrow> string list" where
  "splitLines s = lines_from [] s"

definition containsNotReady :: "string \<Rightarrow> bool" where
  "containsNotReady out =
     list_ex (\<lambda>l. l \<noteq> [] \<and> (Contains l ''0/'' \<or> Contains l ''Pending'' \<or> Contains l ''Init'' \<or> Contains l ''ContainerCreating''))
       (splitLines out)"

definition answers_text :: "machine \<Rightarrow> string list \<Rightarrow> (string \<Rightarrow> bool) \<Rightarrow> bool act" where
  "answers_text M args p =
     attempt (run M args) (\<lambda>r. ret (case r of Inl _ \<Rightarrow> False | Inr out \<Rightarrow> p out))"

definition DeployCalico :: "machine \<Rightarrow> unit act" where
  "DeployCalico M =
     chk [] (sayln ''  Deploying Calico CNI ...'') (\<lambda>_.
     chk ''apply calico operator: '' (exec M [''kubectl'', ''apply'', ''--server-side'', ''--force-conflicts'', ''-f'',
          ''https://raw.githubusercontent.com/projectcalico/calico/'' @ calicoVersion @ ''/manifests/tigera-operator.yaml''] None) (\<lambda>_.
     chk [] (sayln ''  Waiting for Calico CRDs ...'') (\<lambda>_.
     chk [] (poll 60 (answers_text M [''kubectl'', ''get'', ''crd'', ''installations.operator.tigera.io'', ''--no-headers'']
                        (\<lambda>out. out \<noteq> []))) (\<lambda>found.
     if \<not> found then fail ''calico CRDs not registered after 5 minutes''
     else
       chk ''apply calico CR: '' (kubectl_apply M calicoCustomResource) (\<lambda>_.
       chk [] (sayln ''  Waiting for Calico to be ready ...'') (\<lambda>_.
       chk [] (poll 60 (answers_text M [''kubectl'', ''get'', ''pods'', ''-n'', ''calico-system'', ''--no-headers'']
                          (\<lambda>out. out \<noteq> [] \<and> \<not> containsNotReady out))) (\<lambda>ready.
       sayln (if ready then ''  Calico CNI deployed'' else ''  Warning: Calico not fully ready yet, continuing ...''))))))))"

subsection \<open>OpenEBS\<close>

definition openebs_text :: "string \<Rightarrow> string \<Rightarrow> string" where
  "openebs_text provisioner utils =
     unlines
      [''---'', ''apiVersion: storage.k8s.io/v1'', ''kind: StorageClass'', ''metadata:'', ''  name: local'',
       ''  annotations:'', ''    storageclass.kubernetes.io/is-default-class: '' @ dquote @ ''true'' @ dquote,
       ''    openebs.io/cas-type: local'', ''    cas.openebs.io/config: |'', ''      - name: StorageType'',
       ''        value: '' @ dquote @ ''hostpath'' @ dquote, ''      - name: BasePath'',
       ''        value: '' @ dquote @ ''/var/openebs/local/'' @ dquote, ''provisioner: openebs.io/local'',
       ''volumeBindingMode: WaitForFirstConsumer'', ''reclaimPolicy: Delete'', ''---'', ''apiVersion: v1'',
       ''kind: ServiceAccount'', ''metadata:'', ''  name: openebs-maya-operator'', ''  namespace: kube-system'',
       ''---'', ''apiVersion: rbac.authorization.k8s.io/v1'', ''kind: ClusterRole'', ''metadata:'',
       ''  name: openebs-maya-operator'', ''rules:'', ''- apiGroups: ['' @ dquote @ ''*'' @ dquote @ '']'',
       ''  resources: ['' @ dquote @ ''nodes'' @ dquote @ '', '' @ dquote @ ''nodes/proxy'' @ dquote @ '']'',
       ''  verbs: ['' @ dquote @ ''*'' @ dquote @ '']'', ''- apiGroups: ['' @ dquote @ ''*'' @ dquote @ '']'',
       ''  resources: ['' @ dquote @ ''namespaces'' @ dquote @ '', '' @ dquote @ ''services'' @ dquote @ '', '' @ dquote @ ''pods'' @ dquote @ '', '' @ dquote @ ''pods/exec'' @ dquote @ '', '' @ dquote @ ''deployments'' @ dquote @ '', '' @ dquote @ ''deployments/finalizers'' @ dquote @ '', '' @ dquote @ ''replicationcontrollers'' @ dquote @ '', '' @ dquote @ ''replicasets'' @ dquote @ '', '' @ dquote @ ''events'' @ dquote @ '', '' @ dquote @ ''endpoints'' @ dquote @ '', '' @ dquote @ ''configmaps'' @ dquote @ '', '' @ dquote @ ''secrets'' @ dquote @ '', '' @ dquote @ ''jobs'' @ dquote @ '', '' @ dquote @ ''cronjobs'' @ dquote @ '']'',
       ''  verbs: ['' @ dquote @ ''*'' @ dquote @ '']'', ''- apiGroups: ['' @ dquote @ ''*'' @ dquote @ '']'',
       ''  resources: ['' @ dquote @ ''statefulsets'' @ dquote @ '', '' @ dquote @ ''daemonsets'' @ dquote @ '']'',
       ''  verbs: ['' @ dquote @ ''*'' @ dquote @ '']'', ''- apiGroups: ['' @ dquote @ ''*'' @ dquote @ '']'',
       ''  resources: ['' @ dquote @ ''resourcequotas'' @ dquote @ '', '' @ dquote @ ''limitranges'' @ dquote @ '']'',
       ''  verbs: ['' @ dquote @ ''list'' @ dquote @ '', '' @ dquote @ ''watch'' @ dquote @ '']'',
       ''- apiGroups: ['' @ dquote @ ''*'' @ dquote @ '']'',
       ''  resources: ['' @ dquote @ ''storageclasses'' @ dquote @ '', '' @ dquote @ ''persistentvolumeclaims'' @ dquote @ '', '' @ dquote @ ''persistentvolumes'' @ dquote @ '']'',
       ''  verbs: ['' @ dquote @ ''*'' @ dquote @ '']'',
       ''- apiGroups: ['' @ dquote @ ''apiextensions.k8s.io'' @ dquote @ '']'',
       ''  resources: ['' @ dquote @ ''customresourcedefinitions'' @ dquote @ '']'',
       ''  verbs: ['' @ dquote @ ''get'' @ dquote @ '', '' @ dquote @ ''list'' @ dquote @ '', '' @ dquote @ ''create'' @ dquote @ '', '' @ dquote @ ''update'' @ dquote @ '', '' @ dquote @ ''delete'' @ dquote @ '', '' @ dquote @ ''patch'' @ dquote @ '']'',
       ''- apiGroups: ['' @ dquote @ ''openebs.io'' @ dquote @ '']'',
       ''  resources: ['' @ dquote @ ''*'' @ dquote @ '']'', ''  verbs: ['' @ dquote @ ''*'' @ dquote @ '']'',
       ''- nonResourceURLs: ['' @ dquote @ ''/metrics'' @ dquote @ '']'',
       ''  verbs: ['' @ dquote @ ''get'' @ dquote @ '']'', ''---'', ''apiVersion: rbac.authorization.k8s.io/v1'',
       ''kind: ClusterRoleBinding'', ''metadata:'', ''  name: openebs-maya-operator'', ''subjects:'',
       ''- kind: ServiceAccount'', ''  name: openebs-maya-operator'', ''  namespace: kube-system'', ''roleRef:'',
       ''  kind: ClusterRole'', ''  name: openebs-maya-operator'', ''  apiGroup: rbac.authorization.k8s.io'', ''---'',
       ''apiVersion: apps/v1'', ''kind: Deployment'', ''metadata:'', ''  name: openebs-localpv-provisioner'',
       ''  namespace: kube-system'', ''  labels:'', ''    name: openebs-localpv-provisioner'',
       ''    openebs.io/component-name: openebs-localpv-provisioner'', ''    openebs.io/version: 3.3.0'', ''spec:'',
       ''  selector:'', ''    matchLabels:'', ''      name: openebs-localpv-provisioner'',
       ''      openebs.io/component-name: openebs-localpv-provisioner'', ''  replicas: 1'', ''  strategy:'',
       ''    type: Recreate'', ''  template:'', ''    metadata:'', ''      labels:'',
       ''        name: openebs-localpv-provisioner'',
       ''        openebs.io/component-name: openebs-localpv-provisioner'', ''        openebs.io/version: 3.3.0'',
       ''    spec:'', ''      serviceAccountName: openebs-maya-operator'', ''      containers:'',
       ''      - name: openebs-provisioner-hostpath'', ''        imagePullPolicy: IfNotPresent'',
       ''        image: '' @ provisioner, ''        env:'', ''        - name: NODE_NAME'', ''          valueFrom:'',
       ''            fieldRef:'', ''              fieldPath: spec.nodeName'', ''        - name: OPENEBS_NAMESPACE'',
       ''          valueFrom:'', ''            fieldRef:'', ''              fieldPath: metadata.namespace'',
       ''        - name: OPENEBS_SERVICE_ACCOUNT'', ''          valueFrom:'', ''            fieldRef:'',
       ''              fieldPath: spec.serviceAccountName'', ''        - name: OPENEBS_IO_ENABLE_ANALYTICS'',
       ''          value: '' @ dquote @ ''false'' @ dquote, ''        - name: OPENEBS_IO_INSTALLER_TYPE'',
       ''          value: '' @ dquote @ ''openebs-operator-lite'' @ dquote,
       ''        - name: OPENEBS_IO_HELPER_IMAGE'', ''          value: '' @ dquote @ utils @ dquote,
       ''        livenessProbe:'', ''          exec:'', ''            command:'', ''            - sh'',
       ''            - -c'',
       ''            - test $(pgrep -c '' @ dquote @ ''^provisioner-loc.*'' @ dquote @ '') = 1'',
       ''          initialDelaySeconds: 30'', ''          periodSeconds: 60'']"

definition generateOpenEBSManifest :: "string \<Rightarrow> string" where
  "generateOpenEBSManifest registry =
     (let p = ''ghcr.io/packalares/openebs-provisioner:3.3.0'';
          u = ''ghcr.io/packalares/openebs-linux-utils:3.3.0''
      in if registry \<noteq> [] then openebs_text (registry @ ''/'' @ p) (registry @ ''/'' @ u) else openebs_text p u)"

definition phase_of_pod :: "machine \<Rightarrow> string \<Rightarrow> string \<Rightarrow> bool act" where
  "phase_of_pod M ns label =
     answers_text M [''kubectl'', ''get'', ''pods'', ''-n'', ns, ''-l'', label, ''-o'', ''jsonpath={.items[0].status.phase}'']
       (\<lambda>out. out = ''Running'')"

definition DeployOpenEBS :: "machine \<Rightarrow> string \<Rightarrow> unit act" where
  "DeployOpenEBS M registry =
     chk [] (sayln ''  Deploying OpenEBS storage ...'') (\<lambda>_.
     chk ''apply openebs: '' (kubectl_apply M (generateOpenEBSManifest registry)) (\<lambda>_.
     chk [] (sayln ''  Waiting for OpenEBS provisioner ...'') (\<lambda>_.
     chk [] (poll 30 (phase_of_pod M ''kube-system'' ''name=openebs-localpv-provisioner'')) (\<lambda>_.
     sayln ''  OpenEBS deployed with default StorageClass''))))"

subsection \<open>KVRocks\<close>

definition kvrocksManifest :: string where
  "kvrocksManifest = unlines
      [''apiVersion: apps/v1'', ''kind: Deployment'', ''metadata:'', ''  name: kvrocks'',
       ''  namespace: {{NAMESPACE}}'', ''  labels:'', ''    app: kvrocks'', ''spec:'', ''  replicas: 1'',
       ''  selector:'', ''    matchLabels:'', ''      app: kvrocks'', ''  template:'', ''    metadata:'',
       ''      labels:'', ''        app: kvrocks'', ''    spec:'', ''      containers:'', ''      - name: kvrocks'',
       ''        image: ghcr.io/packalares/kvrocks:2.15.0'', ''        ports:'', ''        - containerPort: 6666'',
       ''        command: ['' @ dquote @ ''kvrocks'' @ dquote @ '']'', ''        args:'', ''        - --bind'',
       ''        - '' @ dquote @ ''0.0.0.0'' @ dquote, ''        - --port'',
       ''        - '' @ dquote @ ''6666'' @ dquote, ''        - --requirepass'',
       ''        - '' @ dquote @ ''{{PASSWORD}}'' @ dquote, ''        - --dir'', ''        - /data'',
       ''        - --log-dir'', ''        - stdout'', ''        volumeMounts:'', ''        - name: data'',
       ''          mountPath: /data'', ''        resources:'', ''          requests:'', ''            cpu: 50m'',
       ''            memory: 32Mi'', ''          limits:'', ''            cpu: 500m'', ''            memory: 256Mi'',
       ''        readinessProbe:'', ''          tcpSocket:'', ''            port: 6666'',
       ''          initialDelaySeconds: 5'', ''          periodSeconds: 10'', ''      volumes:'',
       ''      - name: data'', ''        emptyDir: {}'', ''---'', ''apiVersion: v1'', ''kind: Service'',
       ''metadata:'', ''  name: kvrocks-svc'', ''  namespace: {{NAMESPACE}}'', ''spec:'', ''  selector:'',
       ''    app: kvrocks'', ''  ports:'', ''  - port: 6379'', ''    targetPort: 6666'']"

text \<open>The configuration that \<^verbatim>\<open>config.*()\<close> reads is the file the run has written and the environment.\<close>

definition redis_Install :: "machine \<Rightarrow> ctx \<Rightarrow> unit act" where
  "redis_Install M cx =
     (let ns = PlatformNamespace cx in
     chk [] (env ''REDIS_PASSWORD'') (\<lambda>password.
     if password = [] then fail (''REDIS_PASSWORD not set '' @ [CHR 0xE2, CHR 0x80, CHR 0x94] @ '' GenerateSecrets must run before KVRocks deploy'')
     else
       chk [] (sayln ''  Deploying KVRocks in Kubernetes ...'') (\<lambda>_.
       chk ''deploy kvrocks: '' (kubectl_apply M
            (ReplaceAll (ReplaceAll kvrocksManifest ''{{NAMESPACE}}'' ns) ''{{PASSWORD}}'' password)) (\<lambda>_.
       chk [] (sayln ''  Waiting for KVRocks to be ready ...'') (\<lambda>_.
       chk [] (poll 30 (phase_of_pod M ns ''app=kvrocks'')) (\<lambda>ok.
       if ok then sayln ''  KVRocks deployed and running'' else fail ''kvrocks did not become ready in 90s''))))))"

subsection \<open>Binaries and Helm\<close>

definition K3sVersion :: string where "K3sVersion = ''v1.29.3+k3s1''"
definition EtcdVersion :: string where "EtcdVersion = ''v3.5.12''"
definition HelmVersion :: string where "HelmVersion = ''v3.14.3''"
definition CrictlVersion :: string where "CrictlVersion = ''v1.29.0''"

definition downloadFile :: "machine \<Rightarrow> string \<Rightarrow> string \<Rightarrow> unit act" where
  "downloadFile M url dest =
     chk (''GET '' @ url @ '': '') (chk [] (ask M (HHttp ''GET'' url [] None)) (\<lambda>a.
         case a of HErr _ e \<Rightarrow> fail e | HStatus n body \<Rightarrow> ret (n, body) | _ \<Rightarrow> ret (200, text_of a))) (\<lambda>(status, body).
     if status \<noteq> 200 then fail (''GET '' @ url @ '': status '' @ nat_str status)
     else create_file M dest body (''create '' @ dest @ '': '') (''write '' @ dest @ '': ''))"

definition copyAndChmod :: "machine \<Rightarrow> string \<Rightarrow> string \<Rightarrow> nat \<Rightarrow> unit act" where
  "copyAndChmod M src dst mode =
     chk (''read '' @ src @ '': '') (call M (HRead src)) (\<lambda>data.
     chk (''write '' @ dst @ '': '') (call M (HWrite dst data mode)) (\<lambda>_.
     chk [] (call M (HChmod dst mode)) (\<lambda>_. ret ())))"

definition extractTarGz :: "machine \<Rightarrow> string \<Rightarrow> string \<Rightarrow> unit act" where
  "extractTarGz M tarFile destDir =
     chk ''tar extract: '' (exec M [''tar'', ''-xzf'', tarFile, ''-C'', destDir] None) (\<lambda>_. ret ())"

text \<open>A deferred call: whatever the outcome, it runs last.\<close>

definition deferring :: "hcmd \<Rightarrow> machine \<Rightarrow> 'a act \<Rightarrow> 'a act" where
  "deferring c M m = attempt m (\<lambda>r. ignoring (call M c) (case r of Inl e \<Rightarrow> fail e | Inr a \<Rightarrow> ret a))"

definition binary_url :: "string \<Rightarrow> string \<Rightarrow> string" where
  "binary_url name arch =
     (if name = ''k3s'' then ''https://github.com/k3s-io/k3s/releases/download/'' @ ReplaceAll K3sVersion ''+'' ''%2B'' @
        ''/k3s'' @ (if arch = ''arm64'' then ''-arm64'' else [])
      else if name = ''etcd'' then ''https://github.com/etcd-io/etcd/releases/download/'' @ EtcdVersion @ ''/etcd-'' @
        EtcdVersion @ ''-linux-'' @ arch @ ''.tar.gz''
      else ''https://github.com/kubernetes-sigs/cri-tools/releases/download/'' @ CrictlVersion @ ''/crictl-'' @
        CrictlVersion @ ''-linux-'' @ arch @ ''.tar.gz'')"

definition extract_binary :: "machine \<Rightarrow> string \<Rightarrow> string \<Rightarrow> string \<Rightarrow> string \<Rightarrow> unit act" where
  "extract_binary M name baseDir arch dl =
     (if name = ''k3s'' then copyAndChmod M dl ''/usr/local/bin/k3s'' 493
      else if name = ''etcd'' then
        (let tmp = PathJoin (PathJoin baseDir ''downloads'') ''etcd-extract'' in
         ignoring (call M (HMkdir tmp 493)) (deferring (HRemoveAll tmp) M
          (chk [] (extractTarGz M dl tmp) (\<lambda>_.
           for_each (\<lambda>bin. chk (''install '' @ bin @ '': '')
               (copyAndChmod M (PathJoin (PathJoin tmp (''etcd-'' @ EtcdVersion @ ''-linux-'' @ arch)) bin)
                  (PathJoin ''/usr/local/bin'' bin) 493) ret) [''etcd'', ''etcdctl'', ''etcdutl'']))))
      else extractTarGz M dl ''/usr/local/bin'')"

definition DownloadAll :: "machine \<Rightarrow> string \<Rightarrow> string \<Rightarrow> unit act" where
  "DownloadAll M baseDir arch =
     (let dlDir = PathJoin baseDir ''downloads'' in
     chk ''create download dir: '' (call M (HMkdir dlDir 493)) (\<lambda>_.
     for_each (\<lambda>name.
       let url = binary_url name arch;
           dl = PathJoin dlDir (name @ (if HasSuffix url ''.tar.gz'' then ''.tar.gz'' else [])) in
       chk [] (sayln (''  Downloading '' @ name @ '' ...'')) (\<lambda>_.
       chk (''download '' @ name @ '': '') (downloadFile M url dl) (\<lambda>_.
       chk [] (sayln (''  Installing '' @ name @ '' ...'')) (\<lambda>_.
       chk (''extract '' @ name @ '': '') (extract_binary M name baseDir arch dl) ret))))
       [''k3s'', ''etcd'', ''crictl'']))"

definition helm_Install :: "machine \<Rightarrow> string \<Rightarrow> string \<Rightarrow> unit act" where
  "helm_Install M baseDir arch =
     chk [] (succeeds (call M (HLookPath ''helm''))) (\<lambda>found.
     if found then sayln ''  Helm already installed''
     else
       (let dlDir = PathJoin baseDir ''downloads'';
            tarPath = PathJoin dlDir ''helm.tar.gz'';
            tmpDir = PathJoin dlDir ''helm-extract'' in
       chk [] (sayln ''  Downloading Helm ...'') (\<lambda>_.
       ignoring (call M (HMkdir dlDir 493))
      (chk ''download helm: '' (exec M [''curl'', ''-fsSL'', ''-o'', tarPath,
            ''https://get.helm.sh/helm-'' @ HelmVersion @ ''-linux-'' @ arch @ ''.tar.gz''] None) (\<lambda>_.
       ignoring (call M (HMkdir tmpDir 493)) (deferring (HRemoveAll tmpDir) M
        (chk ''extract helm: '' (exec M [''tar'', ''-xzf'', tarPath, ''-C'', tmpDir] None) (\<lambda>_.
         chk ''read helm binary: '' (call M (HRead (PathJoin (PathJoin tmpDir (''linux-'' @ arch)) ''helm''))) (\<lambda>data.
         chk ''write helm binary: '' (call M (HWrite ''/usr/local/bin/helm'' data 493)) (\<lambda>_.
         sayln ''  Helm installed''))))))))))"

end
