(* ===== verification/Inst_Precheck.thy ===== *)
theory Inst_Precheck
  imports Inst_Cluster Go_Net
begin

text \<open>
  \<^verbatim>\<open>pkg/installer/precheck/precheck.go\<close>: the checks before an installation and the table that
  reports them. The numbers come from the machine; a size is kept below \<open>2 ^ 64\<close>, as in the code.
\<close>

record CheckResult =
  crName :: string
  crPassed :: bool
  crMessage :: string

record PrecheckReport =
  prPassed :: bool
  prChecks :: "CheckResult list"

definition MinCPUCores :: nat where "MinCPUCores = 4"
definition MinRAMMB :: nat where "MinRAMMB = 7500"
definition MinDiskGB :: nat where "MinDiskGB = 30"
definition MinKernelMajor :: int where "MinKernelMajor = 5"
definition MinKernelMinor :: int where "MinKernelMinor = 4"

definition check_ok :: "string \<Rightarrow> string \<Rightarrow> CheckResult" where
  "check_ok name msg = \<lparr>crName = name, crPassed = True, crMessage = msg\<rparr>"

definition check_bad :: "string \<Rightarrow> string \<Rightarrow> CheckResult" where
  "check_bad name msg = \<lparr>crName = name, crPassed = False, crMessage = msg\<rparr>"

subsection \<open>The checks\<close>

definition trim_char :: "char \<Rightarrow> string \<Rightarrow> string" where
  "trim_char c s = rev (dropWhile (\<lambda>d. d = c) (rev (dropWhile (\<lambda>d. d = c) s)))"

definition detectDistro :: "machine \<Rightarrow> string act" where
  "detectDistro M =
     attempt (call M (HRead ''/etc/os-release'')) (\<lambda>r. ret (case r of
         Inl _ \<Rightarrow> ''unknown''
       | Inr data \<Rightarrow> (case List.find (\<lambda>l. HasPrefix l ''PRETTY_NAME='') (split_on (CHR 0x0A) data) of
             None \<Rightarrow> ''unknown''
           | Some l \<Rightarrow> trim_char (CHR 0x22) (TrimPrefix l ''PRETTY_NAME=''))))"

definition checkOS :: "machine \<Rightarrow> CheckResult act" where
  "checkOS M =
     (if goos M \<noteq> ''linux''
      then ret (check_bad ''Operating System'' (''unsupported OS: '' @ goos M @ '' (requires linux)''))
      else chk [] (detectDistro M) (\<lambda>distro. ret (check_ok ''Operating System''
        (if list_ex (Contains (ToLower distro)) [''ubuntu'', ''debian'', ''centos'', ''rhel'', ''fedora'', ''raspbian'']
         then distro else distro @ '' (not officially supported but may work)''))))"

definition checkArch :: "machine \<Rightarrow> CheckResult act" where
  "checkArch M =
     ret (if goarch M \<in> {''amd64'', ''arm64''} then check_ok ''Architecture'' (goarch M)
          else check_bad ''Architecture'' (''unsupported architecture: '' @ goarch M @ '' (requires amd64 or arm64)''))"

definition checkCPU :: "machine \<Rightarrow> CheckResult act" where
  "checkCPU M =
     attempt (measure_of M ''cpu'') (\<lambda>r. ret (case r of
         Inl e \<Rightarrow> check_bad ''CPU Cores'' (''could not detect CPU: '' @ e)
       | Inr ns \<Rightarrow> (let cores = num ns 0 in
           if cores < MinCPUCores
           then check_bad ''CPU Cores'' (nat_str cores @ '' cores (minimum '' @ nat_str MinCPUCores @ '' required)'')
           else check_ok ''CPU Cores'' (nat_str cores @ '' cores''))))"

definition checkRAM :: "machine \<Rightarrow> CheckResult act" where
  "checkRAM M =
     attempt (measure_of M ''memory'') (\<lambda>r. ret (case r of
         Inl e \<Rightarrow> check_bad ''Memory'' (''could not detect memory: '' @ e)
       | Inr ns \<Rightarrow> (let totalMB = num ns 0 div (1024 * 1024) in
           if totalMB < MinRAMMB
           then check_bad ''Memory'' (nat_str totalMB @ '' MB (minimum '' @ nat_str MinRAMMB @ '' MB required)'')
           else check_ok ''Memory'' (nat_str totalMB @ '' MB''))))"

text \<open>The subtraction wraps around.\<close>

definition free_bytes :: "nat \<Rightarrow> nat \<Rightarrow> nat" where
  "free_bytes t u = (t + 2 ^ 64 - u) mod 2 ^ 64"

definition checkDisk :: "machine \<Rightarrow> CheckResult act" where
  "checkDisk M =
     attempt (measure_of M ''disk /'') (\<lambda>r. ret (case r of
         Inl e \<Rightarrow> check_bad ''Disk Space'' (''could not check disk: '' @ e)
       | Inr ns \<Rightarrow> (let freeGB = free_bytes (num ns 0) (num ns 1) div (1024 * 1024 * 1024) in
           if freeGB < MinDiskGB
           then check_bad ''Disk Space'' (nat_str freeGB @ '' GB free (minimum '' @ nat_str MinDiskGB @ '' GB required)'')
           else check_ok ''Disk Space'' (nat_str freeGB @ '' GB free''))))"

definition kernel_result :: "string \<Rightarrow> CheckResult" where
  "kernel_result ver =
     (case split_on (CHR ''.'') ver of
        maj # mid # _ \<Rightarrow>
          (let major = Atoi maj; minor = Atoi (hd (split_on (CHR ''-'') mid)) in
           if major < MinKernelMajor \<or> major = MinKernelMajor \<and> minor < MinKernelMinor
           then check_bad ''Kernel Version''
                  (ver @ '' (minimum '' @ int_str MinKernelMajor @ ''.'' @ int_str MinKernelMinor @ '' required)'')
           else check_ok ''Kernel Version'' ver)
      | _ \<Rightarrow> check_bad ''Kernel Version'' (''could not parse kernel version: '' @ ver))"

definition checkKernel :: "machine \<Rightarrow> CheckResult act" where
  "checkKernel M =
     attempt (run M [''uname'', ''-r'']) (\<lambda>r. ret (case r of
         Inl e \<Rightarrow> check_bad ''Kernel Version'' (''could not check kernel: '' @ e)
       | Inr out \<Rightarrow> kernel_result (TrimSpace out)))"

text \<open>The elements for which the call fails.\<close>

fun failing :: "('a \<Rightarrow> bool act) \<Rightarrow> 'a list \<Rightarrow> 'a list act" where
  "failing f [] = ret []"
| "failing f (x # xs) = chk [] (f x) (\<lambda>ok. chk [] (failing f xs) (\<lambda>ys. ret (if ok then ys else x # ys)))"

definition checkPorts :: "machine \<Rightarrow> CheckResult act" where
  "checkPorts M =
     chk [] (failing (\<lambda>p. succeeds (call M (HListen ('':'' @ p))))
         [''80'', ''443'', ''6443'', ''2379'', ''2380'', ''10250'', ''30000'']) (\<lambda>inUse.
     ret (if inUse \<noteq> [] then check_bad ''Required Ports'' (''ports already in use: '' @ join '', '' inUse)
          else check_ok ''Required Ports'' ''all required ports available''))"

definition checkSwap :: "machine \<Rightarrow> CheckResult act" where
  "checkSwap M =
     attempt (measure_of M ''swap'') (\<lambda>r. ret (check_ok ''Swap'' (case r of
         Inl _ \<Rightarrow> ''could not check (proceeding anyway)''
       | Inr ns \<Rightarrow> if 0 < num ns 0
           then ''swap enabled ('' @ nat_str (num ns 0 div (1024 * 1024)) @ '' MB) '' @ [CHR 0xE2, CHR 0x80, CHR 0x94] @ '' K3s will manage this''
           else ''no swap configured'')))"

definition checkCommands :: "machine \<Rightarrow> CheckResult act" where
  "checkCommands M =
     chk [] (failing (\<lambda>c. succeeds (call M (HLookPath c))) [''curl'', ''tar'', ''iptables'', ''modprobe'', ''systemctl'']) (\<lambda>missing.
     ret (if missing \<noteq> [] then check_bad ''Required Commands'' (''missing commands: '' @ join '', '' missing)
          else check_ok ''Required Commands'' ''all present''))"

definition isModuleLoaded :: "machine \<Rightarrow> string \<Rightarrow> bool act" where
  "isModuleLoaded M name =
     attempt (call M (HRead ''/proc/modules'')) (\<lambda>r. ret (case r of
         Inl _ \<Rightarrow> False
       | Inr data \<Rightarrow> list_ex (\<lambda>l. HasPrefix l (name @ '' '')) (split_on (CHR 0x0A) data)))"

definition checkModules :: "machine \<Rightarrow> CheckResult act" where
  "checkModules M =
     chk [] (failing (isModuleLoaded M) [''br_netfilter'', ''overlay'']) (\<lambda>missing.
     ret (check_ok ''Kernel Modules''
       (if missing \<noteq> [] then ''not loaded (will be loaded during install): '' @ join '', '' missing else ''all loaded'')))"

definition checkUser :: "machine \<Rightarrow> CheckResult act" where
  "checkUser M =
     chk [] (or_else [] (measure_of M ''euid'')) (\<lambda>ns.
     ret (if num ns 0 \<noteq> 0
          then check_bad ''Running as root'' ''not running as root (root required for installation)''
          else check_ok ''Running as root'' ''yes''))"

subsection \<open>The report\<close>

definition all_checks :: "machine \<Rightarrow> CheckResult act list" where
  "all_checks M =
     [checkOS M, checkArch M, checkCPU M, checkRAM M, checkDisk M, checkKernel M, checkPorts M, checkSwap M,
      checkCommands M, checkModules M, checkUser M]"

fun run_checks :: "CheckResult act list \<Rightarrow> PrecheckReport \<Rightarrow> PrecheckReport act" where
  "run_checks [] report = ret report"
| "run_checks (c # cs) report =
     chk [] c (\<lambda>r. run_checks cs \<lparr>prPassed = (prPassed report \<and> crPassed r), prChecks = prChecks report @ [r]\<rparr>)"

definition RunPrecheck :: "machine \<Rightarrow> PrecheckReport act" where
  "RunPrecheck M = run_checks (all_checks M) \<lparr>prPassed = True, prChecks = []\<rparr>"

text \<open>\<^verbatim>\<open>tabwriter\<close> with padding 2: a cell that a tab ends is as wide as the widest of its column.\<close>

definition pad_to :: "nat \<Rightarrow> string \<Rightarrow> string" where
  "pad_to n s = s @ replicate (n + 2 - length s) (CHR '' '')"

definition table :: "(string \<times> string \<times> string) list \<Rightarrow> string" where
  "table rows =
     (let a = foldl max 0 (map (length \<circ> fst) rows); b = foldl max 0 (map (length \<circ> fst \<circ> snd) rows)
      in unlines (map (\<lambda>(x, y, z). pad_to a x @ pad_to b y @ z) rows))"

definition PrintReport :: "PrecheckReport \<Rightarrow> unit act" where
  "PrintReport report =
     chk [] (say (nl @ ''=== Packalares System Precheck ==='' @ nl @ nl)) (\<lambda>_.
     chk [] (say (table ([(''CHECK'', ''STATUS'', ''DETAILS''), (''-----'', ''------'', ''-------'')] @
       map (\<lambda>c. (crName c, if crPassed c then ''PASS'' else ''FAIL'', crMessage c)) (prChecks report)))) (\<lambda>_.
     say nl))"

lemma run_checks_passed:
  "run_checks cs report w = Some (Inr r, w') \<Longrightarrow>
     prPassed report = list_all crPassed (prChecks report) \<Longrightarrow> prPassed r = list_all crPassed (prChecks r)"
  by (induction cs arbitrary: report w) (auto elim!: chk_InrE)

end
