(* ===== verification/Inst_Deploy.thy ===== *)
theory Inst_Deploy
  imports Inst_Cluster Bfl_Nginx
begin

text \<open>
  \<^verbatim>\<open>deploy.go\<close>, \<^verbatim>\<open>infisical.go\<close>, \<^verbatim>\<open>lldap.go\<close> and \<^verbatim>\<open>tls.go\<close> of \<^verbatim>\<open>pkg/installer/phases\<close>: the
  manifests of the services with their placeholders, the secrets (in the environment of the process,
  and on disk until they are stored), the service account of the directory and the certificate.
\<close>

subsection \<open>Manifests\<close>

definition kubectlApply :: "machine \<Rightarrow> string \<Rightarrow> unit act" where
  "kubectlApply M y = chk ''kubectl apply: '' (kubectl_apply M y) (\<lambda>_. ret ())"

definition helmInstallOrUpgrade :: "installer \<Rightarrow> string \<Rightarrow> string \<Rightarrow> string \<Rightarrow> (string \<times> string) list \<Rightarrow> unit act" where
  "helmInstallOrUpgrade I name chart namespace values =
     chk (''helm install '' @ name @ '': '') (exec (im_machine I)
       ([''helm'', ''upgrade'', ''--install'', name, chart, ''--namespace'', namespace, ''--create-namespace'', ''--wait'',
         ''--timeout'', ''10m''] @ concat (map (\<lambda>(k, v). [''--set'', k @ ''='' @ v]) (map_order I values))) None) (\<lambda>_. ret ())"

definition manifest_values :: "InstallOptions \<Rightarrow> ctx \<Rightarrow> (string \<times> string) list" where
  "manifest_values opts cx =
     (let e = cx_env cx in
       [(''{{API_GROUP}}'', APIGroup cx),
        (''{{TLS_SECRET_NAME}}'', TLSSecretName cx),
        (''{{PLATFORM_NAMESPACE}}'', PlatformNamespace cx),
        (''{{FRAMEWORK_NAMESPACE}}'', FrameworkNamespace cx),
        (''{{MONITORING_NAMESPACE}}'', MonitoringNamespace cx),
        (''{{USER_NAMESPACE}}'', UserNamespace (ioUsername opts)),
        (''{{USERNAME}}'', Username cx),
        (''{{USER_ZONE}}'', UserZone cx),
        (''{{DOMAIN}}'', Domain cx),
        (''{{PG_USER}}'', CitusUser cx),
        (''{{PG_PASSWORD}}'', CitusPassword cx),
        (''{{REDIS_PASSWORD}}'', e ''REDIS_PASSWORD''),
        (''{{JWT_SECRET}}'', e ''JWT_SECRET''),
        (''{{SESSION_SECRET}}'', e ''SESSION_SECRET''),
        (''{{LLDAP_ADMIN_PASSWORD}}'', e ''LLDAP_ADMIN_PASSWORD''),
        (''{{LLDAP_JWT_SECRET}}'', e ''LLDAP_JWT_SECRET''),
        (''{{ENCRYPTION_KEY}}'', e ''ENCRYPTION_KEY''),
        (''{{AUTH_SECRET}}'', e ''AUTH_SECRET''),
        (''{{SAMBA_PASSWORD}}'', e ''SAMBA_PASSWORD''),
        (''{{SERVER_IP}}'', e ''SERVER_IP''),
        (''{{COREDNS_CLUSTER_IP}}'', e ''COREDNS_CLUSTER_IP''),
        (''{{HOSTCTL_TOKEN_B64}}'', (if e ''HOSTCTL_TOKEN'' = [] then [] else StdEncode (e ''HOSTCTL_TOKEN''))),
        (''{{TAPR_AUTH_TOKEN}}'', e ''TAPR_AUTH_TOKEN'')])"

definition replaceConfigPlaceholders :: "installer \<Rightarrow> string \<Rightarrow> InstallOptions \<Rightarrow> string act" where
  "replaceConfigPlaceholders I manifest opts =
     chk [] (settings I) (\<lambda>cx. ret (replace_all_in (map_order I (manifest_values opts cx)) manifest))"

definition applyManifestFile :: "installer \<Rightarrow> string \<Rightarrow> InstallOptions \<Rightarrow> unit act" where
  "applyManifestFile I path opts =
     (case Manifests I (TrimPrefix path ''deploy/'') of
        Inl e \<Rightarrow> fail (''read '' @ path @ '': '' @ e)
      | Inr data \<Rightarrow> chk [] (replaceConfigPlaceholders I data opts) (kubectlApply (im_machine I)))"

definition generateHostctlToken :: "machine \<Rightarrow> string act" where
  "generateHostctlToken M =
     attempt (call M (HRandom 32)) (\<lambda>r. ret (case r of Inl _ \<Rightarrow> ''fallback-token-replace-me'' | Inr b \<Rightarrow> hexEncode b))"

definition user_crd :: "InstallOptions \<Rightarrow> ctx \<Rightarrow> string" where
  "user_crd opts cx =
     unlines [''apiVersion: iam.kubesphere.io/v1alpha2'', ''kind: User'', ''metadata:'', ''  name: '' @ ioUsername opts,
       ''  annotations:'', ''    '' @ APIGroup cx @ ''/owner-role: platform-admin'',
       ''    '' @ APIGroup cx @ ''/zone: '' @ UserZone cx, ''spec:'', ''  displayName: '' @ ioUsername opts,
       ''  email: '' @ ioUsername opts @ ''@'' @ Domain cx, ''  lang: en'', ''  groups:'', ''  - admins'']"

definition deployCRDsAndNamespaces :: "installer \<Rightarrow> InstallOptions \<Rightarrow> unit act" where
  "deployCRDsAndNamespaces I opts =
     (let M = im_machine I; userNS = UserNamespace (ioUsername opts) in
     chk [] (sayln ''  Creating namespaces, CRDs, and RBAC ...'') (\<lambda>_.
     chk ''apply CRDs: '' (applyManifestFile I ''deploy/crds/crds-and-namespaces.yaml'' opts) (\<lambda>_.
     chk [] (warn (kubectlApply M (unlines [''apiVersion: v1'', ''kind: Namespace'', ''metadata:'', ''  name: '' @ userNS]))
         (\<lambda>e. ''  Warning: create namespace '' @ userNS @ '': '' @ e @ nl)) (\<lambda>_.
     chk [] (settings I) (\<lambda>cx.
     chk [] (warn (kubectlApply M (user_crd opts cx)) (\<lambda>e. ''  Warning: create User CRD: '' @ e @ nl)) (\<lambda>_.
     sayln (''  Namespaces: '' @ PlatformNamespace cx @ '', '' @ FrameworkNamespace cx @ '', '' @ ''monitoring'' @ '', '' @ userNS)))))))"

definition deploy_one :: "installer \<Rightarrow> InstallOptions \<Rightarrow> string \<Rightarrow> string \<Rightarrow> unit act" where
  "deploy_one I opts name path =
     chk [] (sayln (''  Deploying '' @ name @ '' ...'')) (\<lambda>_.
     chk (''deploy '' @ name @ '': '') (applyManifestFile I path opts) ret)"

definition manifest_name :: "string \<Rightarrow> string \<Rightarrow> string" where
  "manifest_name dir path = TrimSuffix (TrimPrefix path dir) ''.yaml''"

definition deployPlatformCharts :: "installer \<Rightarrow> InstallOptions \<Rightarrow> unit act" where
  "deployPlatformCharts I opts =
     for_each (\<lambda>path. deploy_one I opts (manifest_name ''deploy/platform/'' path) path)
       [''deploy/platform/citus.yaml'', ''deploy/platform/nats.yaml'', ''deploy/platform/lldap.yaml'',
        ''deploy/platform/infisical.yaml'']"

subsection \<open>The proxy\<close>

definition getInstallerClusterDNS :: "machine \<Rightarrow> string act" where
  "getInstallerClusterDNS M =
     attempt (run M [''kubectl'', ''get'', ''svc'', ''-n'', ''kube-system'', ''kube-dns'', ''-o'', ''jsonpath={.spec.clusterIP}''])
       (\<lambda>r. ret (case r of Inl _ \<Rightarrow> ''10.233.0.10'' | Inr out \<Rightarrow> if out \<noteq> [] then TrimSpace out else ''10.233.0.10''))"

definition buildConfigMapYAML :: "string \<Rightarrow> string \<Rightarrow> (string \<times> string) list \<Rightarrow> string" where
  "buildConfigMapYAML name namespace data =
     unlines ([''apiVersion: v1'', ''kind: ConfigMap'', ''metadata:'', ''  name: '' @ name, ''  namespace: '' @ namespace, ''data:''] @
       concat (map (\<lambda>(k, v). (''  '' @ k @ '': |'') # map (\<lambda>l. ''    '' @ l) (split_on (CHR 0x0A) v)) data))"

definition includeFiles :: "string list" where
  "includeFiles =
     map (\<lambda>f. ''proxy/includes/'' @ f)
       [''upstreams.conf'', ''auth-subrequest.conf'', ''public-api.conf'', ''protected-api.conf'', ''websocket.conf'',
        ''static-assets.conf'', ''cors.conf'']"

definition config_key :: "string \<Rightarrow> string" where
  "config_key path =
     (if path = ''proxy/nginx.conf.tmpl'' then ''nginx.conf'' else ''includes_'' @ TrimPrefix path ''proxy/includes/'')"

fun read_templates :: "installer \<Rightarrow> string list \<Rightarrow> string + (string \<times> string) list" where
  "read_templates I [] = Inr []"
| "read_templates I (p # ps) =
     (case Manifests I p of
        Inl e \<Rightarrow> Inl (''read '' @ p @ '': '' @ e)
      | Inr t \<Rightarrow> (case read_templates I ps of Inl e \<Rightarrow> Inl e | Inr kts \<Rightarrow> Inr ((config_key p, t) # kts)))"

definition deployProxyConfig :: "installer \<Rightarrow> InstallOptions \<Rightarrow> unit act" where
  "deployProxyConfig I opts =
     (let M = im_machine I in
     chk [] (settings I) (\<lambda>cx.
     let ns = FrameworkNamespace cx in
     case read_templates I (''proxy/nginx.conf.tmpl'' # includeFiles) of
       Inl e \<Rightarrow> fail e
     | Inr tmpl \<Rightarrow>
         chk [] (sayln ''  Creating proxy-config-template ...'') (\<lambda>_.
         chk ''apply proxy-config-template: '' (kubectlApply M
              (buildConfigMapYAML ''proxy-config-template'' ns (map_order I tmpl))) (\<lambda>_.
         chk [] (getInstallerClusterDNS M) (\<lambda>dns.
         let p = \<lparr>npZone = UserZone cx, npServerIP = cx_env cx ''SERVER_IP'', npVPNIP = [], npCustomDomain = [],
                  npFrameworkNS = ns, npUserNS = UserNamespace (ioUsername opts), npResolver = dns\<rparr> in
         chk [] (sayln ''  Creating proxy-config ...'') (\<lambda>_.
         chk ''apply proxy-config: '' (kubectlApply M (buildConfigMapYAML ''proxy-config'' ns
              (map_order I (map (\<lambda>(k, t). (k, Build (map_order I) t p)) tmpl)))) (\<lambda>_.
         chk [] (sayln ''  Deploying proxy ...'') (\<lambda>_.
         applyManifestFile I ''deploy/proxy/proxy-deployment.yaml'' opts))))))))"

definition default_dirs :: "string list" where
  "default_dirs =
     [''/packalares/data/Home'', ''/packalares/data/Home/Documents'', ''/packalares/data/Home/Downloads'',
      ''/packalares/data/Home/Pictures'', ''/packalares/data/Home/Videos'', ''/packalares/data/Home/Music'',
      ''/packalares/data/Mounts'']"

definition createDefaultDirs :: "machine \<Rightarrow> unit act" where
  "createDefaultDirs M =
     chk [] (run_all M (map (\<lambda>d. HMkdir d 493) default_dirs @
       map (\<lambda>d. HRun [''chown'', ''-R'', ''100:101'', d] None) default_dirs)) (\<lambda>_.
     sayln ''  Created default user directories'')"

definition framework_manifests :: "string list" where
  "framework_manifests =
     map (\<lambda>f. ''deploy/framework/'' @ f)
       [''hostctl.yaml'', ''auth.yaml'', ''bfl-deployment.yaml'', ''appservice/deployment.yaml'', ''systemserver.yaml'',
        ''middleware.yaml'', ''files/files-server.yaml'', ''market/deployment.yaml'', ''monitor/monitoring-server.yaml'',
        ''mounts/mounts-server.yaml'', ''kubesphere.yaml'', ''samba/samba-server.yaml'', ''tailscale.yaml'', ''mdns.yaml'']"

definition deployFrameworkCharts :: "installer \<Rightarrow> InstallOptions \<Rightarrow> unit act" where
  "deployFrameworkCharts I opts =
     (let M = im_machine I in
     chk [] (env ''HOSTCTL_TOKEN'') (\<lambda>t.
     chk [] (if t \<noteq> [] then ret ()
             else chk [] (generateHostctlToken M) (\<lambda>token.
                  chk [] (setenv ''HOSTCTL_TOKEN'' token) (\<lambda>_. sayln ''  Generated hostctl authentication token''))) (\<lambda>_.
     chk [] (for_each (\<lambda>path.
         if path = ''deploy/framework/tailscale.yaml'' \<and> ioTailscaleAuthKey opts = []
         then sayln ''  Skipping tailscale (no auth key configured)''
         else deploy_one I opts (manifest_name ''deploy/framework/'' path) path) framework_manifests) (\<lambda>_.
     chk ''deploy proxy: '' (deployProxyConfig I opts) (\<lambda>_.
     createDefaultDirs M)))))"

definition ensureNamespace :: "machine \<Rightarrow> string \<Rightarrow> unit act" where
  "ensureNamespace M name =
     run_all M [HRun [''kubectl'', ''create'', ''namespace'', name, ''--dry-run=client'', ''-o'', ''yaml''] None,
                HRun [''kubectl'', ''create'', ''namespace'', name] None]"

definition deployAppCharts :: "installer \<Rightarrow> InstallOptions \<Rightarrow> unit act" where
  "deployAppCharts I opts =
     chk [] (ensureNamespace (im_machine I) (UserNamespace (ioUsername opts))) (\<lambda>_.
     for_each (\<lambda>path. deploy_one I opts (manifest_name ''deploy/apps/'' path) path)
       [''deploy/apps/desktop.yaml'', ''deploy/apps/wizard.yaml''])"

definition deployMonitoring :: "installer \<Rightarrow> InstallOptions \<Rightarrow> unit act" where
  "deployMonitoring I opts =
     for_each (\<lambda>(name, path). deploy_one I opts name path)
       [(''Prometheus + node-exporter + kube-state-metrics'', ''deploy/framework/monitoring.yaml''),
        (''Loki (log aggregation)'', ''deploy/framework/loki.yaml''),
        (''Promtail (log collector)'', ''deploy/framework/promtail.yaml'')]"

subsection \<open>Waiting for the pods\<close>

definition pods_ready :: "string \<Rightarrow> bool" where
  "pods_ready out =
     (let lines = split_on (CHR 0x0A) (TrimSpace out) in
      lines = [[]] \<or> list_all (\<lambda>l. TrimSpace l \<in> {''Running'', ''Succeeded''}) lines)"

definition arePodsReady :: "machine \<Rightarrow> string \<Rightarrow> bool act" where
  "arePodsReady M ns =
     answers_text M [''kubectl'', ''get'', ''pods'', ''-n'', ns, ''--no-headers'', ''-o'', ''custom-columns=STATUS:.status.phase'']
       pods_ready"

fun all_ready :: "machine \<Rightarrow> string list \<Rightarrow> bool act" where
  "all_ready M [] = ret True"
| "all_ready M (ns # nss) = chk [] (arePodsReady M ns) (\<lambda>ok. if ok then all_ready M nss else ret False)"

fun wait_pods :: "machine \<Rightarrow> string list \<Rightarrow> nat \<Rightarrow> nat \<Rightarrow> unit act" where
  "wait_pods M nss i 0 = fail (''timed out waiting for pods after '' @ nat_str 60 @ '' attempts'')"
| "wait_pods M nss i (Suc n) =
     chk [] (all_ready M nss) (\<lambda>ok.
     if ok then ret ()
     else chk [] (if i mod 10 = 0
                  then sayln (''  Still waiting for pods (attempt '' @ nat_str (i + 1) @ ''/'' @ nat_str 60 @ '') ...'') else ret ())
            (\<lambda>_. wait_pods M nss (i + 1) n))"

definition waitForAllPods :: "installer \<Rightarrow> unit act" where
  "waitForAllPods I =
     chk [] (sayln ''  Waiting for all pods to be ready ...'') (\<lambda>_.
     chk [] (settings I) (\<lambda>cx.
     wait_pods (im_machine I)
       [PlatformNamespace cx, FrameworkNamespace cx, MonitoringNamespace cx, UserNamespace (Username cx), ''kube-system''] 0 60))"

end
