(* ===== verification/Inst_Secrets.thy ===== *)
theory Inst_Secrets
  imports Inst_Deploy
begin

text \<open>
  \<^verbatim>\<open>infisical.go\<close>, \<^verbatim>\<open>lldap.go\<close> and \<^verbatim>\<open>tls.go\<close> of \<^verbatim>\<open>pkg/installer/phases\<close>: the secrets (in the
  environment of the process, and on disk until they are stored), the service account of the
  directory and the certificate of the zone.
\<close>

subsection \<open>Secrets\<close>

definition generateSecret :: "machine \<Rightarrow> nat \<Rightarrow> string act" where
  "generateSecret M n =
     attempt (call M (HRandom n)) (\<lambda>r. ret (hexEncode (case r of Inl _ \<Rightarrow> replicate n (CHR 0x00) | Inr b \<Rightarrow> b)))"

text \<open>The secrets in the order in which they are drawn; one is the password of the user.\<close>

definition secret_sizes :: "(string \<times> nat option) list" where
  "secret_sizes =
     [(''JWT_SECRET'', Some 32), (''SESSION_SECRET'', Some 32), (''PG_PASSWORD'', Some 16), (''REDIS_PASSWORD'', Some 16),
      (''LLDAP_ADMIN_PASSWORD'', None), (''LLDAP_JWT_SECRET'', Some 32), (''ENCRYPTION_KEY'', Some 16),
      (''AUTH_SECRET'', Some 32), (''SAMBA_PASSWORD'', Some 16), (''TAPR_AUTH_TOKEN'', Some 32),
      (''SVC_LLDAP_PASSWORD'', Some 16)]"

fun draw_secrets :: "machine \<Rightarrow> string \<Rightarrow> (string \<times> nat option) list \<Rightarrow> (string \<times> string) list act" where
  "draw_secrets M password [] = ret []"
| "draw_secrets M password ((k, n) # ks) =
     chk [] (case n of None \<Rightarrow> ret password | Some n \<Rightarrow> generateSecret M n) (\<lambda>v.
     chk [] (draw_secrets M password ks) (\<lambda>kvs. ret ((k, v) # kvs)))"

definition detectServerIP :: "machine \<Rightarrow> string act" where
  "detectServerIP M =
     chk [] (run M [''sh'', ''-c'', ''ip route get 1.1.1.1 2>/dev/null | grep -oP '' @ squote @ ''src '' @ bslash @ ''K[^ ]+'' @ squote]) (\<lambda>out.
     let ip = TrimSpace out in if ip = [] then fail ''no IP found'' else ret ip)"

definition detectCoreDNSIP :: "machine \<Rightarrow> string act" where
  "detectCoreDNSIP M =
     chk [] (run M [''kubectl'', ''get'', ''svc'', ''kube-dns'', ''-n'', ''kube-system'', ''-o'', ''jsonpath={.spec.clusterIP}'']) (\<lambda>out.
     let ip = TrimSpace out in if ip = [] then fail ''no CoreDNS IP found'' else ret ip)"

fun setenvs :: "(string \<times> string) list \<Rightarrow> unit act" where
  "setenvs [] = ret ()"
| "setenvs ((k, v) # kvs) = chk [] (setenv k v) (\<lambda>_. setenvs kvs)"

definition detect_into :: "string \<Rightarrow> string \<Rightarrow> string act \<Rightarrow> unit act" where
  "detect_into k what m =
     chk [] (env k) (\<lambda>old.
     if old \<noteq> [] then ret ()
     else attempt m (\<lambda>r. case r of Inl _ \<Rightarrow> ret ()
       | Inr ip \<Rightarrow> chk [] (setenv k ip) (\<lambda>_. sayln (''  Detected '' @ what @ '' IP: '' @ ip))))"

definition GenerateSecrets :: "installer \<Rightarrow> InstallOptions \<Rightarrow> unit act" where
  "GenerateSecrets I opts =
     (let M = im_machine I; stateDir = PathJoin (ioBaseDir opts) ''state'' in
     chk [] (sayln ''  Generating system secrets ...'') (\<lambda>_.
     chk [] (draw_secrets M (ioPassword opts) secret_sizes) (\<lambda>drawn.
     chk [] (env ''PG_USER'') (\<lambda>pg.
     let secrets = drawn @ (if pg = [] then [(''PG_USER'', ''packalares'')] else []) in
     ignoring (call M (HMkdir stateDir 448))
    (chk [] (run_all M (map (\<lambda>(k, v). HWrite (PathJoin stateDir k) v 384) (map_order I secrets))) (\<lambda>_.
     chk [] (setenvs (map_order I secrets)) (\<lambda>_.
     chk [] (detect_into ''SERVER_IP'' ''server'' (detectServerIP M)) (\<lambda>_.
     chk [] (detect_into ''COREDNS_CLUSTER_IP'' ''CoreDNS'' (detectCoreDNSIP M)) (\<lambda>_.
     sayln (''  Secrets generated and saved to '' @ stateDir))))))))))"

text \<open>
  The sidecar is asked every five seconds for at most five minutes: 61 tries are enough, and whether
  the time is over is asked of the machine.
\<close>

fun wait_tapr :: "machine \<Rightarrow> string \<Rightarrow> nat \<Rightarrow> unit act" where
  "wait_tapr M ns 0 = fail ''tapr not ready after 5 minutes''"
| "wait_tapr M ns (Suc n) =
     chk [] (succeeds (call M (HMeasure ''five minutes''))) (\<lambda>in_time.
     if \<not> in_time then fail ''tapr not ready after 5 minutes''
     else chk [] (answers_text M [''kubectl'', ''exec'', ''-n'', ns, ''deploy/infisical'', ''-c'', ''tapr'', ''--'',
                      ''wget'', ''-q'', ''-O-'', ''http://localhost:8081/healthz''] (\<lambda>out. Contains out ''ok'')) (\<lambda>ok.
       if ok then sayln ''  Tapr is ready'' else wait_tapr M ns n))"

definition stored_secrets :: "string list" where
  "stored_secrets =
     [''REDIS_PASSWORD'', ''PG_PASSWORD'', ''PG_USER'', ''JWT_SECRET'', ''SESSION_SECRET'', ''LLDAP_JWT_SECRET'',
      ''ENCRYPTION_KEY'', ''AUTH_SECRET'', ''SAMBA_PASSWORD'', ''LLDAP_ADMIN_PASSWORD'', ''SVC_LLDAP_PASSWORD'',
      ''TAPR_AUTH_TOKEN'']"

definition SeedInfisical :: "installer \<Rightarrow> InstallOptions \<Rightarrow> unit act" where
  "SeedInfisical I opts =
     (let M = im_machine I in
     chk [] (settings I) (\<lambda>cx.
     let ns = PlatformNamespace cx; e = cx_env cx in
     chk [] (sayln ''  Waiting for tapr secrets gateway ...'') (\<lambda>_.
     chk [] (wait_tapr M ns 61) (\<lambda>_.
     chk [] (sayln ''  Storing secrets in Infisical via tapr ...'') (\<lambda>_.
     chk [] (ask M (HRun [''kubectl'', ''exec'', ''-n'', ns, ''deploy/infisical'', ''-c'', ''tapr'', ''--'',
              ''wget'', ''-q'', ''-O-'', ''--post-data'', encodeJSON I (map (\<lambda>k. (k, e k)) stored_secrets),
              ''--header'', ''Content-Type: application/json'',
              ''--header'', ''Authorization: Bearer '' @ e ''TAPR_AUTH_TOKEN'', ''http://localhost:8081/secrets''] None)) (\<lambda>a.
     case error_of a of
       Some err \<Rightarrow> fail (''store secrets in Infisical: '' @ err @ nl @ text_of a)
     | None \<Rightarrow>
         (let stateDir = PathJoin (ioBaseDir opts) ''state'';
              email = Username cx @ ''@'' @ Domain cx in
         chk [] (sayln (''  Stored '' @ nat_str 12 @ '' secrets in Infisical'')) (\<lambda>_.
         ignoring (call M (HWrite (PathJoin stateDir ''infisical_admin_email'') email 384))
        (chk [] (sayln ''  Cleaning up plain-text secrets from disk ...'') (\<lambda>_.
         chk [] (or_else [] (names M (HReadDir stateDir))) (\<lambda>entries.
         chk [] (run_all M (map (\<lambda>n. HRemove (PathJoin stateDir n)) (filter (\<lambda>n. n \<noteq> ''infisical_admin_email'') entries))) (\<lambda>_.
         sayln (''  Infisical admin: '' @ email)))))))))))))"

subsection \<open>The service account of the directory\<close>

definition escapeGQL :: "string \<Rightarrow> string" where
  "escapeGQL s = ReplaceAll (ReplaceAll s bslash (bslash @ bslash)) dquote (bslash @ dquote)"

definition http_call :: "machine \<Rightarrow> string \<Rightarrow> string \<Rightarrow> (string \<times> string) list \<Rightarrow> string option \<Rightarrow> (nat \<times> string) act" where
  "http_call M method url headers body =
     chk [] (ask M (HHttp method url headers body)) (\<lambda>a. case a of
         HErr _ e \<Rightarrow> fail e
       | HStatus n t \<Rightarrow> ret (n, t)
       | _ \<Rightarrow> ret (200, text_of a))"

definition lldapLogin :: "installer \<Rightarrow> string \<Rightarrow> string \<Rightarrow> string \<Rightarrow> string act" where
  "lldapLogin I baseURL username password =
     chk [] (http_call (im_machine I) ''POST'' (baseURL @ ''/auth/simple/login'') [(''Content-Type'', ''application/json'')]
         (Some (encodeJSON I [(''username'', username), (''password'', password)]))) (\<lambda>(status, body).
     if status \<noteq> 200 then fail (''login failed with status '' @ nat_str status @ '': '' @ take 1024 body)
     else case decodeToken I body of Inl e \<Rightarrow> fail e | Inr t \<Rightarrow> ret t)"

definition gql_headers :: "string \<Rightarrow> (string \<times> string) list" where
  "gql_headers token = [(''Content-Type'', ''application/json''), (''Authorization'', ''Bearer '' @ token)]"

definition lldapCreateUser :: "installer \<Rightarrow> string \<Rightarrow> string \<Rightarrow> string \<Rightarrow> string \<Rightarrow> unit act" where
  "lldapCreateUser I baseURL token username displayName =
     (let q = ''mutation { createUser(user: {id: '' @ dquote @ escapeGQL username @ dquote @ '', email: '' @ dquote @
              escapeGQL username @ ''@local'' @ dquote @ '', displayName: '' @ dquote @ escapeGQL displayName @ dquote @ ''}) { id } }''
      in chk [] (http_call (im_machine I) ''POST'' (baseURL @ ''/api/graphql'') (gql_headers token)
           (Some (encodeJSON I [(''query'', q)]))) (\<lambda>(status, reply).
       let body = take 4096 reply in
       if Contains body ''already exists'' then ret ()
       else if status \<noteq> 200 then fail (''create user: '' @ body) else ret ()))"

definition lldapAddToGroup :: "installer \<Rightarrow> string \<Rightarrow> string \<Rightarrow> string \<Rightarrow> int \<Rightarrow> unit act" where
  "lldapAddToGroup I baseURL token username groupID =
     (let q = ''mutation { addUserToGroup(userId: '' @ dquote @ escapeGQL username @ dquote @ '', groupId: '' @ int_str groupID @ '') { ok } }''
      in chk [] (http_call (im_machine I) ''POST'' (baseURL @ ''/api/graphql'') (gql_headers token)
           (Some (encodeJSON I [(''query'', q)]))) (\<lambda>_. ret ()))"

definition people_dn :: "installer \<Rightarrow> string \<Rightarrow> string \<Rightarrow> string" where
  "people_dn I user base = ''uid='' @ EscapeFilter I user @ '',ou=people,'' @ base"

definition lldapSetPassword :: "installer \<Rightarrow> string \<Rightarrow> string \<Rightarrow> string \<Rightarrow> string \<Rightarrow> string \<Rightarrow> string \<Rightarrow> unit act" where
  "lldapSetPassword I ldapAddr adminUser adminPassword targetUser newPassword base =
     (let M = im_machine I in
     chk ''ldap connect: '' (call M (HLdap [''dial'', ldapAddr])) (\<lambda>_.
     deferring (HLdap [''close'']) M
      (chk ''ldap bind: '' (call M (HLdap [''bind'', people_dn I adminUser base, adminPassword])) (\<lambda>_.
       chk [] (call M (HLdap [''passwd'', people_dn I targetUser base, [], newPassword])) (\<lambda>_. ret ())))))"

definition createLLDAPServiceAccount :: "installer \<Rightarrow> unit act" where
  "createLLDAPServiceAccount I =
     (let M = im_machine I; svc = ''svc-packalares'' in
     chk [] (settings I) (\<lambda>cx.
     let ns = PlatformNamespace cx; admin = cx_env cx ''LLDAP_ADMIN_PASSWORD''; pw = cx_env cx ''SVC_LLDAP_PASSWORD'' in
     chk [] (attempt (run M [''kubectl'', ''get'', ''svc'', ''lldap-svc'', ''-n'', ns, ''-o'', ''jsonpath={.spec.clusterIP}''])
         (\<lambda>r. ret (case r of Inl _ \<Rightarrow> ''lldap-svc.'' @ ns
                 | Inr out \<Rightarrow> if out \<noteq> [] then TrimSpace out else ''lldap-svc.'' @ ns))) (\<lambda>host.
     if admin = [] then fail ''LLDAP_ADMIN_PASSWORD not set''
     else if pw = [] then fail ''SVC_LLDAP_PASSWORD not set''
     else
       (let url = ''http://'' @ host @ '':'' @ nat_str 17170 in
       chk [] (sayln ''  Waiting for LLDAP ...'') (\<lambda>_.
       chk [] (poll 60 (succeeds (http_call M ''GET'' (url @ ''/api/graphql'') [] None))) (\<lambda>_.
       chk [] (sayln ''  Creating service account ...'') (\<lambda>_.
       chk ''admin login: '' (lldapLogin I url ''admin'' admin) (\<lambda>token.
       chk ''create user: '' (lldapCreateUser I url token svc ''Service Account'') (\<lambda>_.
       ignoring (lldapAddToGroup I url token svc 1)
      (chk ''set password: '' (lldapSetPassword I (host @ '':'' @ nat_str 3890) ''admin'' admin svc pw ''dc=packalares,dc=local'') (\<lambda>_.
       sayln (''  Service account '' @ dquote @ svc @ dquote @ '' created''))))))))))))"

subsection \<open>The certificate of the zone\<close>

definition openssl_ca :: "string \<Rightarrow> string \<Rightarrow> string list" where
  "openssl_ca key cert =
     [''openssl'', ''req'', ''-x509'', ''-nodes'', ''-days'', ''3650'', ''-newkey'', ''ec'', ''-pkeyopt'',
      ''ec_paramgen_curve:prime256v1'', ''-keyout'', key, ''-out'', cert, ''-subj'', ''/CN=Packalares CA/O=Packalares'']"

definition san_text :: "string \<Rightarrow> string \<Rightarrow> string" where
  "san_text zone ip =
     ''[v3_ext]'' @ nl @ ''subjectAltName=DNS:'' @ zone @ '',DNS:*.'' @ zone @ '',DNS:localhost,IP:127.0.0.1,IP:::1'' @
     (if ip \<noteq> [] then '',IP:'' @ ip else []) @ nl @
     unlines [''basicConstraints=CA:FALSE'', ''keyUsage=digitalSignature,keyEncipherment'', ''extendedKeyUsage=serverAuth'']"

definition ssl_file :: "string \<Rightarrow> string" where
  "ssl_file n = ''/etc/packalares/ssl/'' @ n"

definition new_zone_cert :: "machine \<Rightarrow> string \<Rightarrow> string \<Rightarrow> unit act" where
  "new_zone_cert M zone ip =
     chk [] (sayln (''  Generating Packalares CA and TLS certificate for *.'' @ zone @ '' ...'')) (\<lambda>_.
     chk ''openssl ca: '' (exec M (openssl_ca (ssl_file ''ca.key'') (ssl_file ''ca.crt'')) None) (\<lambda>_.
     chk ''openssl csr: '' (exec M
         [''openssl'', ''req'', ''-nodes'', ''-newkey'', ''ec'', ''-pkeyopt'', ''ec_paramgen_curve:prime256v1'', ''-keyout'',
          ssl_file ''tls.key'', ''-out'', ssl_file ''tls.csr'', ''-subj'', ''/CN=*.'' @ zone @ ''/O=Packalares''] None) (\<lambda>_.
     ignoring (call M (HWrite (ssl_file ''san.cnf'') (san_text zone ip) 420))
    (chk ''openssl sign: '' (exec M
         [''openssl'', ''x509'', ''-req'', ''-days'', ''3650'', ''-in'', ssl_file ''tls.csr'', ''-CA'', ssl_file ''ca.crt'',
          ''-CAkey'', ssl_file ''ca.key'', ''-CAcreateserial'', ''-out'', ssl_file ''tls.crt'', ''-extfile'', ssl_file ''san.cnf'',
          ''-extensions'', ''v3_ext''] None) (\<lambda>_.
     run_all M [HChmod (ssl_file ''tls.key'') 384, HChmod (ssl_file ''tls.crt'') 420, HChmod (ssl_file ''ca.crt'') 420,
                HRemove (ssl_file ''tls.csr''), HRemove (ssl_file ''san.cnf''), HRemove (ssl_file ''ca.srl'')])))))"

definition old_zone_cert :: "machine \<Rightarrow> unit act" where
  "old_zone_cert M =
     chk [] (sayln ''  TLS certificate already exists'') (\<lambda>_.
     chk [] (missing_file M (ssl_file ''ca.crt'')) (\<lambda>missing.
     if \<not> missing then ret ()
     else chk [] (sayln ''  CA certificate missing, regenerating ...'') (\<lambda>_.
       warn (run_with '' '' M (openssl_ca (ssl_file ''ca.key'') (ssl_file ''ca.crt'')) None)
         (\<lambda>e. ''  Warning: CA regeneration failed: '' @ e @ nl))))"

text \<open>What a command prints is applied, if the command worked.\<close>

definition apply_output :: "machine \<Rightarrow> string list \<Rightarrow> unit act" where
  "apply_output M args =
     attempt (run M args) (\<lambda>r. case r of
         Inl _ \<Rightarrow> ret ()
       | Inr y \<Rightarrow> ignoring (kubectl_apply M y) (ret ()))"

definition generateTLSCert :: "installer \<Rightarrow> unit act" where
  "generateTLSCert I =
     (let M = im_machine I in
     ignoring (call M (HMkdir ''/etc/packalares/ssl'' 493))
    (chk [] (settings I) (\<lambda>cx.
     let zone = UserZone cx; ns = FrameworkNamespace cx; secretName = TLSSecretName cx in
     chk [] (missing_file M (ssl_file ''tls.crt'')) (\<lambda>missing.
     chk [] (if missing then new_zone_cert M zone (cx_env cx ''SERVER_IP'') else old_zone_cert M) (\<lambda>_.
     chk [] (sayln (''  Creating K8s Secret '' @ secretName @ '' in '' @ ns @ '' ...'')) (\<lambda>_.
     chk ''create secret yaml: '' (run M [''kubectl'', ''create'', ''secret'', ''tls'', secretName,
         ''--cert='' @ ssl_file ''tls.crt'', ''--key='' @ ssl_file ''tls.key'', ''-n'', ns, ''--dry-run=client'', ''-o'', ''yaml'']) (\<lambda>y.
     chk ''apply tls secret: '' (kubectl_apply M y) (\<lambda>_.
     chk [] (succeeds (call M (HStat (ssl_file ''ca.crt'')))) (\<lambda>found.
     chk [] (if \<not> found then ret ()
             else chk [] (or_else [] (call M (HRead (ssl_file ''ca.crt'')))) (\<lambda>ca.
               if ca = [] then ret ()
               else apply_output M [''kubectl'', ''create'', ''configmap'', ''packalares-ca'',
                      ''--from-file=ca.crt='' @ ssl_file ''ca.crt'', ''-n'', ns, ''--dry-run=client'', ''-o'', ''yaml''])) (\<lambda>_.
     chk [] (succeeds (call M (HStat (ssl_file ''ca.key'')))) (\<lambda>found.
     chk [] (if \<not> found then ret ()
             else apply_output M [''kubectl'', ''create'', ''secret'', ''generic'', ''packalares-ca-key'',
                    ''--from-file=ca.key='' @ ssl_file ''ca.key'', ''-n'', ns, ''--dry-run=client'', ''-o'', ''yaml'']) (\<lambda>_.
     sayln (''  TLS certificate ready for *.'' @ zone)))))))))))))"

text \<open>
  \<^verbatim>\<open>pkg/installer/phases/gpu.go\<close>: the graphics driver, its container runtime, and the restart of the
  machine that a new driver may need.
\<close>

text \<open>How a phase ends when it does not fail: it is finished, or the machine must be restarted first.\<close>

datatype outcome = Finished | Reboot string

definition ErrRebootRequired :: string where
  "ErrRebootRequired = ''reboot required''"

definition DetectGPU :: "machine \<Rightarrow> bool act" where
  "DetectGPU M = answers_text M [''lspci''] (\<lambda>out. Contains (ToLower out) ''nvidia'')"

definition gpu_line :: "string \<Rightarrow> string option" where
  "gpu_line l =
     (if Contains (ToLower l) ''nvidia'' \<and> (Contains (ToLower l) ''vga'' \<or> Contains (ToLower l) ''3d controller'')
      then map_option (\<lambda>i. TrimSpace (drop (i + 2) l)) (IndexStr l '': '') else None)"

definition GetGPUName :: "machine \<Rightarrow> string act" where
  "GetGPUName M =
     ignoring (run M [''update-pciids''])
      (attempt (run M [''lspci'']) (\<lambda>r. ret (case r of
         Inl _ \<Rightarrow> ''Unknown NVIDIA GPU''
       | Inr out \<Rightarrow> (case List.map_filter gpu_line (split_on (CHR 0x0A) out) of
             n # _ \<Rightarrow> n | [] \<Rightarrow> ''Unknown NVIDIA GPU''))))"

text \<open>What a command prints goes to the log.\<close>

fun run_shown :: "machine \<Rightarrow> string list list \<Rightarrow> unit act" where
  "run_shown M [] = ret ()"
| "run_shown M (args # cmds) =
     chk [] (ask M (HRun args None)) (\<lambda>a.
     chk [] (say (text_of a)) (\<lambda>_.
     case error_of a of Some e \<Rightarrow> fail (hd args @ '' failed: '' @ e) | None \<Rightarrow> run_shown M cmds))"

definition driver_line :: "string \<Rightarrow> string option" where
  "driver_line out = List.find (\<lambda>l. Contains l ''Driver Version'') (split_on (CHR 0x0A) out)"

text \<open>The result is whether a restart is needed.\<close>

definition verifyDriverOrReboot :: "machine \<Rightarrow> bool act" where
  "verifyDriverOrReboot M =
     attempt (run M [''nvidia-smi'']) (\<lambda>r. case r of
         Inr out \<Rightarrow> (case driver_line out of
             Some l \<Rightarrow> chk [] (sayln (''  '' @ TrimSpace l)) (\<lambda>_. ret False)
           | None \<Rightarrow> ret False)
       | Inl _ \<Rightarrow>
           chk [] (sayln ''  GPU driver installed but kernel module not loaded.'') (\<lambda>_.
           chk [] (sayln ''  A reboot is required before GPU setup can continue.'') (\<lambda>_. ret True)))"

definition ubuntuVersionCode :: "machine \<Rightarrow> string act" where
  "ubuntuVersionCode M =
     attempt (run M [''bash'', ''-c'', ''. /etc/os-release && echo '' @ dquote @ ''$VERSION_ID'' @ dquote]) (\<lambda>r. ret (case r of
         Inl _ \<Rightarrow> ''2404'' | Inr out \<Rightarrow> TrimSpace (ReplaceAll out ''.'' [])))"

definition installDriverCUDA :: "machine \<Rightarrow> bool act" where
  "installDriverCUDA M =
     chk [] (sayln ''  Installing NVIDIA driver via CUDA repo (nvidia-open) ...'') (\<lambda>_.
     chk [] (ubuntuVersionCode M) (\<lambda>ver.
     let arch = (if goarch M = ''amd64'' then ''x86_64'' else if goarch M = ''arm64'' then ''sbsa'' else goarch M);
         url = ''https://developer.download.nvidia.com/compute/cuda/repos/ubuntu'' @ ver @ ''/'' @ arch @ ''/cuda-keyring_1.1-1_all.deb''
     in chk [] (run_shown M [[''bash'', ''-c'', ''wget -q '' @ url @ '' -O /tmp/cuda-keyring.deb''],
             [''dpkg'', ''-i'', ''/tmp/cuda-keyring.deb''], [''apt-get'', ''update'', ''-qq''],
             [''apt-get'', ''install'', ''-y'', ''-qq'', ''nvidia-open'']]) (\<lambda>_.
        ignoring (call M (HRemove ''/tmp/cuda-keyring.deb'')) (verifyDriverOrReboot M))))"

definition installDriverUbuntu :: "machine \<Rightarrow> bool act" where
  "installDriverUbuntu M =
     chk [] (sayln ''  Installing NVIDIA driver via ubuntu-drivers autoinstall ...'') (\<lambda>_.
     chk [] (run_shown M [[''apt-get'', ''update'', ''-qq''],
          [''apt-get'', ''install'', ''-y'', ''-qq'', ''ubuntu-drivers-common''], [''ubuntu-drivers'', ''autoinstall'']]) (\<lambda>_.
     verifyDriverOrReboot M))"

definition installNVIDIADriver :: "machine \<Rightarrow> string \<Rightarrow> bool act" where
  "installNVIDIADriver M method =
     chk [] (succeeds (run M [''nvidia-smi''])) (\<lambda>ok.
     if ok then chk [] (sayln ''  NVIDIA driver already installed'') (\<lambda>_. ret False)
     else if method = GPUMethodUbuntu then installDriverUbuntu M
     else installDriverCUDA M)"

fun run_quiet :: "machine \<Rightarrow> string list list \<Rightarrow> unit act" where
  "run_quiet M [] = ret ()"
| "run_quiet M (args # cmds) = chk (show_args args @ '': '') (exec M args None) (\<lambda>_. run_quiet M cmds)"

definition installContainerToolkit :: "machine \<Rightarrow> unit act" where
  "installContainerToolkit M =
     chk [] (succeeds (call M (HLookPath ''nvidia-container-runtime''))) (\<lambda>found.
     if found then sayln ''  NVIDIA container toolkit already installed''
     else chk [] (sayln ''  Installing NVIDIA container toolkit ...'') (\<lambda>_.
       run_quiet M
         [[''bash'', ''-c'', ''curl -fsSL https://nvidia.github.io/libnvidia-container/gpgkey | gpg --dearmor -o /usr/share/keyrings/nvidia-container-toolkit-keyring.gpg''],
          [''bash'', ''-c'', ''curl -s -L https://nvidia.github.io/libnvidia-container/stable/deb/nvidia-container-toolkit.list | sed '' @
            squote @
            ''s#deb https://#deb [signed-by=/usr/share/keyrings/nvidia-container-toolkit-keyring.gpg] https://#g'' @
            squote @ '' | tee /etc/apt/sources.list.d/nvidia-container-toolkit.list''],
          [''apt-get'', ''update'', ''-qq''], [''apt-get'', ''install'', ''-y'', ''-qq'', ''nvidia-container-toolkit'']]))"

definition nvidiaConfig :: string where
  "nvidiaConfig = unlines
      [''version = 2'', [], ''[plugins.'' @ dquote @ ''io.containerd.grpc.v1.cri'' @ dquote @ ''.containerd]'',
       ''  default_runtime_name = '' @ dquote @ ''runc'' @ dquote, [],
       ''[plugins.'' @ dquote @ ''io.containerd.grpc.v1.cri'' @ dquote @ ''.containerd.runtimes.runc]'',
       ''  runtime_type = '' @ dquote @ ''io.containerd.runc.v2'' @ dquote, [],
       ''[plugins.'' @ dquote @ ''io.containerd.grpc.v1.cri'' @ dquote @ ''.containerd.runtimes.runc.options]'',
       ''  SystemdCgroup = true'', [],
       ''[plugins.'' @ dquote @ ''io.containerd.grpc.v1.cri'' @ dquote @ ''.containerd.runtimes.nvidia]'',
       ''  privileged_without_host_devices = false'',
       ''  runtime_type = '' @ dquote @ ''io.containerd.runc.v2'' @ dquote, [],
       ''[plugins.'' @ dquote @ ''io.containerd.grpc.v1.cri'' @ dquote @ ''.containerd.runtimes.nvidia.options]'',
       ''  BinaryName = '' @ dquote @ ''/usr/bin/nvidia-container-runtime'' @ dquote, ''  SystemdCgroup = true'']"

definition nvidia_template :: string where
  "nvidia_template = unlines
      [''imports = ['' @ dquote @ ''/etc/containerd/conf.d/*.toml'' @ dquote @ '']'']"

definition runtimeClass :: string where
  "runtimeClass = unlines
      [''apiVersion: node.k8s.io/v1'', ''kind: RuntimeClass'', ''metadata:'', ''  name: nvidia'', ''handler: nvidia'']"

definition configureContainerdNvidia :: "machine \<Rightarrow> unit act" where
  "configureContainerdNvidia M =
     chk [] (sayln ''  Configuring K3s containerd for NVIDIA runtime ...'') (\<lambda>_.
     ignoring (call M (HMkdir ''/etc/containerd/conf.d'' 493))
    (chk ''write nvidia runtime config: '' (call M (HWrite ''/etc/containerd/conf.d/99-nvidia.toml'' nvidiaConfig 420)) (\<lambda>_.
     ignoring (call M (HMkdir ''/var/lib/rancher/k3s/agent/etc/containerd'' 493))
    (chk ''write containerd template: ''
       (call M (HWrite ''/var/lib/rancher/k3s/agent/etc/containerd/config.toml.tmpl'' nvidia_template 420)) (\<lambda>_.
     chk [] (sayln ''  Creating nvidia RuntimeClass ...'') (\<lambda>_.
     chk [] (ask M (HRun [''kubectl'', ''apply'', ''-f'', ''-''] (Some runtimeClass))) (\<lambda>a.
     chk [] (if failed a then sayln (''  Warning: RuntimeClass creation failed: '' @ text_of a @ '' (non-fatal)'') else ret ()) (\<lambda>_.
     chk [] (sayln ''  Restarting K3s ...'') (\<lambda>_.
     chk ''restart k3s: '' (run M [''systemctl'', ''restart'', ''k3s'']) (\<lambda>_.
     chk [] (sayln ''  Waiting for K3s ...'') (\<lambda>_.
     chk [] (poll 30 (succeeds (run M [''kubectl'', ''get'', ''nodes'']))) (\<lambda>_. ret ()))))))))))))"

definition gpu_patch :: string where
  "gpu_patch =
     ''[{'' @ dquote @ ''op'' @ dquote @ '':'' @ dquote @ ''add'' @ dquote @ '','' @ dquote @ ''path'' @ dquote @
     '':'' @ dquote @ ''/spec/template/spec/runtimeClassName'' @ dquote @ '','' @ dquote @ ''value'' @ dquote @ '':'' @
     dquote @ ''nvidia'' @ dquote @ ''},{'' @ dquote @ ''op'' @ dquote @ '':'' @ dquote @ ''add'' @ dquote @ '','' @
     dquote @ ''path'' @ dquote @ '':'' @ dquote @ ''/spec/template/spec/containers/0/securityContext'' @ dquote @
     '','' @ dquote @ ''value'' @ dquote @ '':{'' @ dquote @ ''privileged'' @ dquote @ '':true}},{'' @ dquote @
     ''op'' @ dquote @ '':'' @ dquote @ ''add'' @ dquote @ '','' @ dquote @ ''path'' @ dquote @ '':'' @ dquote @
     ''/spec/template/spec/containers/0/env/-'' @ dquote @ '','' @ dquote @ ''value'' @ dquote @ '':{'' @ dquote @
     ''name'' @ dquote @ '':'' @ dquote @ ''NVIDIA_VISIBLE_DEVICES'' @ dquote @ '','' @ dquote @ ''value'' @ dquote @
     '':'' @ dquote @ ''all'' @ dquote @ ''}}]''"

definition InstallGPU :: "installer \<Rightarrow> InstallOptions \<Rightarrow> outcome act" where
  "InstallGPU I opts =
     (let M = im_machine I in
     chk [] (DetectGPU M) (\<lambda>gpu.
     if \<not> gpu then chk [] (sayln ''  No NVIDIA GPU detected, skipping'') (\<lambda>_. ret Finished)
     else
       chk [] (GetGPUName M) (\<lambda>name.
       chk [] (sayln (''  NVIDIA GPU detected: '' @ name)) (\<lambda>_.
       chk ''install nvidia driver: '' (installNVIDIADriver M (ioGPUMethod opts)) (\<lambda>reboot.
       if reboot then ret (Reboot (''install nvidia driver: '' @ ErrRebootRequired))
       else
         chk ''install container toolkit: '' (installContainerToolkit M) (\<lambda>_.
         chk ''configure containerd: '' (configureContainerdNvidia M) (\<lambda>_.
         chk [] (warn (applyManifestFile I ''deploy/framework/dcgm-exporter.yaml'' opts)
             (\<lambda>e. ''  Warning: DCGM exporter failed: '' @ e @ '' (non-fatal)'' @ nl)) (\<lambda>_.
         chk [] (sayln ''  Patching monitoring-server for GPU access...'') (\<lambda>_.
         chk [] (settings I) (\<lambda>cx.
         chk [] (ask M (HRun [''kubectl'', ''patch'', ''deploy'', ''-n'', FrameworkNamespace cx, ''monitoring-server'',
              ''--type=json'', ''-p'', gpu_patch] None)) (\<lambda>a.
         chk [] (if failed a then sayln (''  Warning: monitoring-server GPU patch failed: '' @ text_of a @ '' (non-fatal)'') else ret ()) (\<lambda>_.
         chk [] (sayln ''  GPU setup complete'') (\<lambda>_. ret Finished)))))))))))))"

end
