(* ===== verification/Inst_Run.thy ===== *)
theory Inst_Run
  imports Inst_Precheck Inst_Secrets
begin

text \<open>
  \<^verbatim>\<open>pkg/installer/phases/install.go\<close>: the phases of an installation and the loop that runs them, with
  the events it sends and the state it saves after each phase, and the printer of the events.
\<close>

type_synonym phase = "string \<times> outcome act"

definition plain :: "unit act \<Rightarrow> outcome act" where
  "plain m = chk [] m (\<lambda>_. ret Finished)"

definition precheck_phase :: "installer \<Rightarrow> InstallOptions \<Rightarrow> unit act" where
  "precheck_phase I opts =
     (if ioSkipPrecheck opts then sayln ''Skipping precheck (--skip-precheck)''
      else chk [] (RunPrecheck (im_machine I)) (\<lambda>r.
        chk [] (PrintReport r) (\<lambda>_. if prPassed r then ret () else fail ''precheck failed'')))"

definition writeReleaseFile :: "installer \<Rightarrow> InstallOptions \<Rightarrow> unit act" where
  "writeReleaseFile I opts =
     chk [] (call (im_machine I) (HWrite ReleaseFile
       (unlines [''PACKALARES_VERSION=1.0.0'', ''PACKALARES_BASE_DIR='' @ ioBaseDir opts,
                 ''PACKALARES_NAME='' @ ioUsername opts @ ''@'' @ ioDomain opts]) 420)) (\<lambda>_. ret ())"

definition buildPhases :: "installer \<Rightarrow> InstallOptions \<Rightarrow> string \<Rightarrow> phase list" where
  "buildPhases I opts arch =
     (let M = im_machine I in
      [(''Configure system'', plain (configureSystem I opts)),
       (''Precheck'', plain (precheck_phase I opts)),
       (''Download binaries'', plain (DownloadAll M (ioBaseDir opts) arch)),
       (''Configure kernel'', plain (chk [] (LoadModules M) (\<lambda>_. ApplySysctl I))),
       (''Install etcd'', plain (etcd_Install M)),
       (''Install K3s'', plain (k3s_Install M (ioRegistry opts))),
       (''Deploy Calico CNI'', plain (DeployCalico M)),
       (''Deploy OpenEBS'', plain (DeployOpenEBS M (ioRegistry opts))),
       (''Setup Kubernetes management'', plain (deployCRDsAndNamespaces I opts)),
       (''Generate secrets'', plain (GenerateSecrets I opts)),
       (''Deploy KVRocks'', plain (chk [] (settings I) (redis_Install M))),
       (''Install Helm'', plain (helm_Install M (ioBaseDir opts) arch)),
       (''Deploy platform services'', plain (deployPlatformCharts I opts)),
       (''Deploy framework services'', plain (deployFrameworkCharts I opts)),
       (''Generate TLS certificate'', plain (generateTLSCert I)),
       (''Seed Infisical'', plain (SeedInfisical I opts)),
       (''Create LLDAP service account'', plain (createLLDAPServiceAccount I)),
       (''Deploy user apps'', plain (deployAppCharts I opts)),
       (''Deploy monitoring'', plain (deployMonitoring I opts)),
       (''Setup GPU'', InstallGPU I opts),
       (''Wait for pods'', plain (waitForAllPods I)),
       (''Write release info'', plain (writeReleaseFile I opts))])"

definition no_options :: InstallOptions where
  "no_options =
     \<lparr>ioUsername = [], ioPassword = [], ioDomain = [], ioBaseDir = [], ioRegistry = [], ioCertMode = [], ioAcmeEmail = [],
      ioAcmeDNSProvider = [], ioTailscaleAuthKey = [], ioTailscaleControlURL = [], ioSkipPrecheck = False, ioGPUMethod = [],
      ioHostname = [], ioTimezone = [], ioNetworkType = [], ioWifiSSID = [], ioWifiPassword = [], ioStaticIP = False\<rparr>"

definition PhaseNames :: "installer \<Rightarrow> string list" where
  "PhaseNames I = map fst (buildPhases I no_options ''amd64'')"

subsection \<open>The loop\<close>

text \<open>A phase writes to its own writer, which sends the log events.\<close>

definition run_phase :: "nat \<Rightarrow> nat \<Rightarrow> phase \<Rightarrow> host \<Rightarrow> ((string + outcome) \<times> event list \<times> host) option" where
  "run_phase i n p w =
     (case snd p (w\<lparr>hw_out := []\<rparr>) of
        None \<Rightarrow> None
      | Some (r, w') \<Rightarrow>
          Some (r, map (EventPhaseLog (fst p) i n) (writer_lines (hw_out w')), w'\<lparr>hw_out := hw_out w\<rparr>))"

text \<open>Saving is an attempt; the result of a run is its error, the events, the state it has reached and the world.\<close>

definition world_after :: "unit act \<Rightarrow> host \<Rightarrow> host" where
  "world_after m w = (case m w of None \<Rightarrow> w | Some (_, w') \<Rightarrow> w')"

type_synonym run = "string option \<times> event list \<times> InstallState \<times> host"

definition send :: "event list \<Rightarrow> run option \<Rightarrow> run option" where
  "send evs r = (case r of None \<Rightarrow> None | Some (err, evs', rest) \<Rightarrow> Some (err, evs @ evs', rest))"

fun run_phases :: "installer \<Rightarrow> nat \<Rightarrow> nat \<Rightarrow> string list \<Rightarrow> phase list \<Rightarrow> InstallState \<Rightarrow> host \<Rightarrow> run option" where
  "run_phases I i n completed [] st w =
     Some (None, [EventInstallComplete n], st,
           world_after (chk [] (removeInstallState I) (\<lambda>_. removeLoginHook (im_machine I))) w)"
| "run_phases I i n completed (p # ps) st w =
     (if fst p \<in> set completed
      then send [EventPhaseSkipped (fst p) i n] (run_phases I (i + 1) n completed ps st w)
      else case run_phase i n p w of
          None \<Rightarrow> None
        | Some (r, logs, w') \<Rightarrow>
            send (EventPhaseStart (fst p) i n # logs)
             (let dur = elapsed I (hw_log w) (hw_log w') in
              case r of
                Inl e \<Rightarrow>
                  Some (Some (''phase '' @ dquote @ fst p @ dquote @ '' failed: '' @ e),
                        [EventPhaseFailed (fst p) i n dur e], st, world_after (saveInstallState I st) w')
              | Inr (Reboot reason) \<Rightarrow>
                  (let st = st\<lparr>isRebootReason := reason\<rparr> in
                   Some (Some ErrRebootRequired, [EventRebootRequired (fst p) i n dur reason], st,
                         world_after (saveInstallState I st) w'))
              | Inr Finished \<Rightarrow>
                  (let st = st\<lparr>isCompletedPhases := isCompletedPhases st @ [fst p]\<rparr> in
                   send [EventPhaseComplete (fst p) i n dur]
                     (run_phases I (i + 1) n completed ps st (world_after (saveInstallState I st) w')))))"

text \<open>The options as they are after the defaults and the two things that are filled in.\<close>

definition prepare :: "installer \<Rightarrow> InstallOptions \<Rightarrow> (InstallOptions \<times> event list) act" where
  "prepare I opts =
     (let M = im_machine I;
          installer = PathJoin (ioBaseDir opts) ''installer'' in
      chk [] (make_dirs M (\<lambda>d. ''create directory '' @ d @ '': '')
           [ioBaseDir opts, installer, PathJoin installer ''wizard'', ''/etc/packalares'']) (\<lambda>_.
      let opts = (if ioUsername opts = [] then opts\<lparr>ioUsername := ''admin''\<rparr> else opts) in
      if ioPassword opts \<noteq> [] then ret (opts, [])
      else chk ''generate password: '' (generatePassword M 12) (\<lambda>(pw, _).
        ret (opts\<lparr>ioPassword := pw\<rparr>, [EventPhaseLog [] 0 0 (''Generated admin password: '' @ pw)]))))"

definition RunInstallWithEvents :: "installer \<Rightarrow> InstallOptions \<Rightarrow> host \<Rightarrow> run option" where
  "RunInstallWithEvents I opts w =
     (let st0 = \<lparr>isCompletedPhases = [], isOptions = opts, isRebootReason = []\<rparr> in
      case loadInstallState I w of
        None \<Rightarrow> None
      | Some (Inl e, w) \<Rightarrow> Some (Some (''load install state: '' @ e), [], st0, w)
      | Some (Inr saved, w) \<Rightarrow>
          (let completed = (case saved of None \<Rightarrow> [] | Some st \<Rightarrow> isCompletedPhases st);
               opts = applyDefaults (hw_env w) (case saved of None \<Rightarrow> opts | Some st \<Rightarrow> isOptions st) in
           case validate opts of
             Some e \<Rightarrow> Some (Some e, [], st0, w)
           | None \<Rightarrow>
               (case prepare I opts w of
                  None \<Rightarrow> None
                | Some (Inl e, w) \<Rightarrow> Some (Some e, [], st0, w)
                | Some (Inr (opts, evs), w) \<Rightarrow>
                    send evs
                     (case writeConfigYAML I opts w of
                        None \<Rightarrow> None
                      | Some (Inl e, w) \<Rightarrow> Some (Some (''write config.yaml: '' @ e), [], st0, w)
                      | Some (Inr _, w) \<Rightarrow>
                          (let phases = buildPhases I opts (goarch (im_machine I)) in
                           run_phases I 0 (length phases) completed phases
                             \<lparr>isCompletedPhases = completed, isOptions = opts, isRebootReason = []\<rparr> w)))))"

subsection \<open>The printer\<close>

definition of_phases :: "nat \<Rightarrow> nat \<Rightarrow> string" where
  "of_phases i n = ''['' @ nat_str (i + 1) @ ''/'' @ nat_str n @ ''] ''"

fun print_event :: "event \<Rightarrow> string" where
  "print_event (EventPhaseStart p i n) = nl @ of_phases i n @ p @ '' ...'' @ nl"
| "print_event (EventPhaseLog p i n m) = m @ nl"
| "print_event (EventPhaseComplete p i n d) = of_phases i n @ p @ '' completed in '' @ d @ nl"
| "print_event (EventPhaseFailed p i n d e) = of_phases i n @ p @ '' FAILED after '' @ d @ '': '' @ e @ nl"
| "print_event (EventPhaseSkipped p i n) = nl @ of_phases i n @ p @ '' ... already completed'' @ nl"
| "print_event (EventRebootRequired p i n d e) =
     unlines [[], ''========================================'', ''  Reboot required to continue install.'',
       ''  After reboot, run: packalares install'', ''========================================'']"
| "print_event (EventInstallComplete n) = []"

definition RunInstall :: "installer \<Rightarrow> InstallOptions \<Rightarrow> host \<Rightarrow> (string option \<times> host) option" where
  "RunInstall I opts w =
     map_option (\<lambda>(err, evs, _, w'). (err, w'\<lparr>hw_out := hw_out w' @ map print_event evs\<rparr>))
       (RunInstallWithEvents I opts w)"

text \<open>
  \<^verbatim>\<open>pkg/installer/phases/uninstall.go\<close>: the steps that take everything away again. No step fails: the
  errors of their commands are dropped or printed.
\<close>

definition removeGlob :: "machine \<Rightarrow> string \<Rightarrow> unit act" where
  "removeGlob M pattern =
     attempt (names M (HGlob pattern)) (\<lambda>r. case r of Inl _ \<Rightarrow> ret () | Inr ms \<Rightarrow> run_all M (map HRemoveAll ms))"

definition HDo :: "string list \<Rightarrow> hcmd" where
  "HDo args = HRun args None"

definition unit_off :: "string \<Rightarrow> hcmd list" where
  "unit_off s = [HDo [''systemctl'', ''stop'', s], HDo [''systemctl'', ''disable'', s]]"

definition run_if_there :: "machine \<Rightarrow> string \<Rightarrow> unit act" where
  "run_if_there M p =
     chk [] (succeeds (call M (HStat p))) (\<lambda>found. if found then run_all M [HDo [p]] else ret ())"

definition stopK3s :: "machine \<Rightarrow> unit act" where
  "stopK3s M = chk [] (run_if_there M ''/usr/local/bin/k3s-killall.sh'') (\<lambda>_. run_all M (unit_off ''k3s''))"

definition stopEtcd :: "machine \<Rightarrow> unit act" where
  "stopEtcd M = run_all M (unit_off ''etcd'')"

definition stopContainerd :: "machine \<Rightarrow> unit act" where
  "stopContainerd M = run_all M (unit_off ''containerd'')"

definition in_bin :: "string \<Rightarrow> string" where
  "in_bin n = ''/usr/local/bin/'' @ n"

definition removeK3s :: "machine \<Rightarrow> unit act" where
  "removeK3s M =
     chk [] (run_if_there M ''/usr/local/bin/k3s-uninstall.sh'') (\<lambda>_.
     run_all M (map (HRemove \<circ> in_bin) [''k3s'', ''kubectl'', ''crictl'', ''ctr'', ''k3s-killall.sh'', ''k3s-uninstall.sh''] @
       map HRemoveAll [''/etc/rancher'', ''/var/lib/rancher'', ''/run/k3s''] @ [HRemove ''/etc/crictl.yaml'']))"

definition removeEtcd :: "machine \<Rightarrow> unit act" where
  "removeEtcd M =
     run_all M ([HRemove (PathJoin SystemdDir ''etcd.service'')] @
       map HRemoveAll [''/var/lib/etcd'', ''/var/backups/kube_etcd'', ETCDCertDir] @
       map (HRemove \<circ> in_bin) [''etcd'', ''etcdctl'', ''etcdutl'', ''kube-scripts/etcd-backup.sh''] @
       [HRemoveAll ''/usr/local/bin/kube-scripts''])"

definition removeContainerd :: "machine \<Rightarrow> unit act" where
  "removeContainerd M =
     run_all M (map HRemoveAll [''/var/lib/containerd'', ''/run/containerd'', ContainerdCfgDir] @
       [HRemove (PathJoin SystemdDir ''containerd.service'')])"

definition cleanNetworking :: "machine \<Rightarrow> unit act" where
  "cleanNetworking M =
     run_all M (concat (map (\<lambda>c. map HDo [[c, ''-F''], [c, ''-t'', ''nat'', ''-F''], [c, ''-t'', ''mangle'', ''-F''], [c, ''-X'']])
           [''iptables'', ''ip6tables'']) @
       map (\<lambda>i. HDo [''ip'', ''link'', ''delete'', i])
         [''cni0'', ''flannel.1'', ''vxlan.calico'', ''tunl0'', ''cali+'', ''veth+'', ''docker0''] @
       map HRemoveAll [''/var/lib/cni'', ''/etc/cni'', ''/run/flannel'', ''/var/lib/calico'', ''/var/run/calico''])"

definition purge_text :: string where
  "purge_text = ''dpkg -l | grep -E '' @ squote @ ''nvidia|cuda|libnvidia'' @ squote @ '' | awk '' @ squote @ ''{print $2}'' @ squote @ '' | xargs -r apt-get remove --purge -y''"

definition removeGPUDrivers :: "machine \<Rightarrow> unit act" where
  "removeGPUDrivers M =
     chk [] (succeeds (run M [''dpkg'', ''-l'', ''nvidia-open''])) (\<lambda>open_driver.
     chk [] (if open_driver then ret True else succeeds (run M [''dpkg'', ''-l'', ''nvidia-driver-*''])) (\<lambda>found.
     if \<not> found then sayln ''  No GPU drivers found''
     else
       chk [] (sayln ''  Removing NVIDIA drivers and toolkit ...'') (\<lambda>_.
       chk [] (run_all M (map HDo
           [[''apt-get'', ''remove'', ''--purge'', ''--autoremove'', ''-y'', ''nvidia-open'', ''cuda-keyring'', ''nvidia-container-toolkit''],
            [''bash'', ''-c'', purge_text]])) (\<lambda>_.
       chk [] (for_each (removeGlob M)
           [''/etc/apt/sources.list.d/cuda*'', ''/etc/apt/sources.list.d/nvidia*'', ''/usr/share/keyrings/nvidia-*'']) (\<lambda>_.
       run_all M [HRemoveAll ''/etc/containerd/conf.d'', HRemove ''/var/lib/rancher/k3s/agent/etc/containerd/config.toml.tmpl'',
                  HDo [''apt-get'', ''update'', ''-qq'']])))))"

definition base_dir_of :: "string \<Rightarrow> string" where
  "base_dir_of release =
     (case List.find (\<lambda>l. HasPrefix l ''PACKALARES_BASE_DIR='') (split_on (CHR 0x0A) release) of
        None \<Rightarrow> DefaultBaseDir
      | Some l \<Rightarrow> TrimPrefix l ''PACKALARES_BASE_DIR='')"

definition data_dirs :: "string \<Rightarrow> string list" where
  "data_dirs base =
     [base, ''/etc/packalares'', ''/var/lib/packalares'', ''/var/lib/kubelet'', ''/var/lib/openebs'', ''/var/openebs'',
      KubeConfigDir, ''/root/.kube'', ''/root/.helm'', ''/root/.config/helm'', ''/root/.cache/helm'']"

fun remove_dirs :: "machine \<Rightarrow> string list \<Rightarrow> unit act" where
  "remove_dirs M [] = ret ()"
| "remove_dirs M (d # ds) =
     chk [] (warn (call M (HRemoveAll d)) (\<lambda>e. ''  Warning: could not remove '' @ d @ '': '' @ e @ nl)) (\<lambda>_. remove_dirs M ds)"

definition removeData :: "machine \<Rightarrow> unit act" where
  "removeData M =
     attempt (call M (HRead ReleaseFile)) (\<lambda>r.
     remove_dirs M (data_dirs (case r of Inl _ \<Rightarrow> DefaultBaseDir | Inr data \<Rightarrow> base_dir_of data)))"

definition removeBinaries :: "machine \<Rightarrow> unit act" where
  "removeBinaries M = run_all M [HRemove ''/usr/local/bin/helm'', HRemove ''/usr/local/bin/packalares'']"

definition removeSystemdUnits :: "machine \<Rightarrow> unit act" where
  "removeSystemdUnits M =
     attempt (names M (HReadDir SystemdDir)) (\<lambda>r. case r of
         Inl _ \<Rightarrow> ret ()
       | Inr ns \<Rightarrow> run_all M
           (map (\<lambda>n. HRemove (PathJoin SystemdDir n))
              (filter (\<lambda>n. list_ex (Contains n) [''packalares'', ''olares'', ''k3s'', ''etcd'']) ns) @
            [HDo [''systemctl'', ''daemon-reload''], HDo [''systemctl'', ''reset-failed'']]))"

definition removeKernelConfig :: "machine \<Rightarrow> unit act" where
  "removeKernelConfig M =
     chk [] (for_each (removeGlob M)
       [''/etc/modules-load.d/packalares*'', ''/etc/modules-load.d/k8s*'', ''/etc/sysctl.d/99-packalares*'',
        ''/etc/sysctl.d/99-k8s*'', ''/etc/netplan/99-packalares*'']) (\<lambda>_.
     run_all M [HDo [''netplan'', ''apply''], HDo [''sysctl'', ''--system'']])"

definition removeInstallFiles :: "machine \<Rightarrow> unit act" where
  "removeInstallFiles M = run_all M (map HRemove [StateFilePath, ReleaseFile, ''/etc/profile.d/packalares-resume.sh''])"

definition cleanLogs :: "machine \<Rightarrow> unit act" where
  "cleanLogs M =
     chk [] (run_all M [HDo [''journalctl'', ''--vacuum-time=1d'']]) (\<lambda>_.
     for_each (removeGlob M)
       [''/var/log/*.gz'', ''/var/log/*.1'', ''/var/log/*.old'', ''/var/log/pods/*'', ''/var/log/containers/*''])"

definition cleanAptCache :: "machine \<Rightarrow> unit act" where
  "cleanAptCache M = run_all M [HDo [''apt-get'', ''clean''], HDo [''apt-get'', ''autoremove'', ''-y'']]"

definition uninstall_steps :: "machine \<Rightarrow> (string \<times> unit act) list" where
  "uninstall_steps M =
     [(''Stop K3s'', stopK3s M), (''Stop etcd'', stopEtcd M), (''Stop containerd'', stopContainerd M),
      (''Remove K3s'', removeK3s M), (''Remove etcd'', removeEtcd M), (''Remove containerd'', removeContainerd M),
      (''Clean networking'', cleanNetworking M), (''Remove GPU drivers'', removeGPUDrivers M), (''Remove data'', removeData M),
      (''Remove binaries'', removeBinaries M), (''Remove systemd units'', removeSystemdUnits M),
      (''Remove kernel config'', removeKernelConfig M), (''Remove install state'', removeInstallFiles M),
      (''Clean logs'', cleanLogs M), (''Clean apt cache'', cleanAptCache M)]"

fun run_steps :: "nat \<Rightarrow> nat \<Rightarrow> (string \<times> unit act) list \<Rightarrow> unit act" where
  "run_steps i n [] = ret ()"
| "run_steps i n ((name, f) # ss) =
     chk [] (sayln (of_phases i n @ name @ '' ...'')) (\<lambda>_.
     chk [] (warn f (\<lambda>e. ''  Warning: '' @ e @ '' (continuing)'' @ nl)) (\<lambda>_. run_steps (i + 1) n ss))"

definition read_line :: "machine \<Rightarrow> string act" where
  "read_line M = chk [] (ask M HStdin) (\<lambda>a. ret (text_of a))"

definition RunUninstall :: "machine \<Rightarrow> unit act" where
  "RunUninstall M =
     chk [] (say (nl @ ''  This will remove ALL Packalares components. Are you sure? [y/N]: '')) (\<lambda>_.
     chk [] (read_line M) (\<lambda>input.
     if TrimSpace (ToLower input) \<noteq> ''y'' then sayln ''  Aborted.''
     else
       chk [] (say nl) (\<lambda>_.
       chk [] (run_steps 0 (length (uninstall_steps M)) (uninstall_steps M)) (\<lambda>_.
       chk [] (say (nl @ ''  Packalares has been removed.'' @ nl @ nl @ ''  Press Enter to reboot (or Ctrl+C to skip): '')) (\<lambda>_.
       chk [] (read_line M) (\<lambda>_.
       ignoring (run M [''reboot'']) (ret ())))))))"

definition RunUpgrade :: "string \<Rightarrow> unit act" where
  "RunUpgrade targetVersion =
     fail (''upgrade not yet implemented for version '' @ targetVersion @
       '' '' @ [CHR 0xE2, CHR 0x80, CHR 0x94] @ '' download from https://github.com/packalares/packalares/releases'')"

end
