(* ===== verification/Inst_Cli.thy ===== *)
theory Inst_Cli
  imports Inst_Run
begin

text \<open>
  \<^verbatim>\<open>cmd/cli/commands\<close>: the command line of the installer. The prompts read lines of the standard input;
  the display of a running installation is a state that the events and the keys change. What its
  library draws, and the scheduling of its messages, are not modelled. A command that ends the program
  with an error is a failing operation.
\<close>

subsection \<open>Prompts\<close>

definition prompt :: "machine \<Rightarrow> string \<Rightarrow> string \<Rightarrow> string act" where
  "prompt M label def =
     chk [] (say (label @ '' ['' @ def @ '']: '')) (\<lambda>_.
     chk [] (read_line M) (\<lambda>input. ret (if TrimSpace input = [] then def else TrimSpace input)))"

definition getCurrentTimezone :: "machine \<Rightarrow> string act" where
  "getCurrentTimezone M =
     attempt (run M [''timedatectl'', ''show'', ''--property=Timezone'', ''--value'']) (\<lambda>r. ret (case r of
         Inl _ \<Rightarrow> ''UTC'' | Inr out \<Rightarrow> if TrimSpace out \<noteq> [] then TrimSpace out else ''UTC''))"

definition say_found :: "machine \<Rightarrow> string list \<Rightarrow> (string \<Rightarrow> string) \<Rightarrow> unit act" where
  "say_found M args f =
     attempt (run M args) (\<lambda>r. case r of
         Inl _ \<Rightarrow> ret ()
       | Inr out \<Rightarrow> if TrimSpace out \<noteq> [] then say (f (TrimSpace out)) else ret ())"

text \<open>The third part of a line of \<^verbatim>\<open>lspci\<close>.\<close>

definition third_part :: "string \<Rightarrow> string option" where
  "third_part l =
     (case IndexStr l '': '' of
        None \<Rightarrow> None
      | Some i \<Rightarrow> (let r = drop (i + 2) l in map_option (\<lambda>j. TrimSpace (drop (j + 2) r)) (IndexStr r '': '')))"

definition npu_text :: "string \<Rightarrow> string option" where
  "npu_text out =
     (case List.find (\<lambda>l. Contains (ToLower l) ''npu'' \<or> Contains (ToLower l) ''processing accelerator'') (split_on (CHR 0x0A) out) of
        None \<Rightarrow> None
      | Some l \<Rightarrow> map_option (\<lambda>n. ''    NPU     '' @ n @ nl) (third_part l))"

definition net_text :: "string \<Rightarrow> string option" where
  "net_text l =
     (case third_part l of
        None \<Rightarrow> None
      | Some n \<Rightarrow>
          (if Contains (ToLower l) ''ethernet'' then Some (''    Net     '' @ n @ nl)
           else if Contains (ToLower l) ''network controller'' \<or> Contains (ToLower l) ''wi-fi'' then Some (''    WiFi    '' @ n @ nl)
           else None))"

fun say_all :: "string list \<Rightarrow> unit act" where
  "say_all [] = ret ()"
| "say_all (t # ts) = chk [] (say t) (\<lambda>_. say_all ts)"

definition printHardwareInfo :: "machine \<Rightarrow> unit act" where
  "printHardwareInfo M =
     chk [] (say (''  Hardware'' @ nl @ nl)) (\<lambda>_.
     chk [] (or_else [] (measure_of M ''cpu'')) (\<lambda>cpus.
     chk [] (say_found M [''bash'', ''-c'', ''lscpu | grep '' @ dquote @ ''Model name'' @ dquote @ '' | head -1 | sed '' @ squote @ ''s/.*: *//'' @ squote]
         (\<lambda>n. ''    CPU     '' @ n @ '' ('' @ nat_str (num cpus 0) @ '' cores)'' @ nl)) (\<lambda>_.
     chk [] (say_found M [''bash'', ''-c'', ''free -h | awk '' @ squote @ ''/^Mem:/{print $2}'' @ squote] (\<lambda>n. ''    Memory  '' @ n @ nl)) (\<lambda>_.
     chk [] (say_found M [''bash'', ''-c'', ''df -h / | awk '' @ squote @ ''NR==2{print $2 '' @ dquote @ '' total, '' @ dquote @ '' $4 '' @ dquote @ '' free'' @ dquote @ ''}'' @ squote]
         (\<lambda>n. ''    Disk    '' @ n @ nl)) (\<lambda>_.
     chk [] (DetectGPU M) (\<lambda>gpu.
     chk [] (if gpu then chk [] (GetGPUName M) (\<lambda>n. say (''    GPU     '' @ n @ nl)) else ret ()) (\<lambda>_.
     chk [] (attempt (run M [''lspci'']) (\<lambda>r. case r of
         Inl _ \<Rightarrow> ret () | Inr out \<Rightarrow> (case npu_text out of None \<Rightarrow> ret () | Some t \<Rightarrow> say t))) (\<lambda>_.
     chk [] (attempt (run M [''lspci'']) (\<lambda>r. case r of
         Inl _ \<Rightarrow> ret () | Inr out \<Rightarrow> say_all (List.map_filter net_text (split_on (CHR 0x0A) out)))) (\<lambda>_.
     say nl)))))))))"

fun network_lines :: "nat \<Rightarrow> WifiNetwork list \<Rightarrow> string list" where
  "network_lines i [] = []"
| "network_lines i (n # ns) =
     (''    '' @ nat_str (i + 1) @ '') '' @ wnSSID n @ '' ('' @ (if wnSecurity n = [] then ''Open'' else wnSecurity n) @
       '', signal: '' @ wnSignal n @ '' dBm)'' @ nl) # network_lines (i + 1) ns"

definition promptWifi :: "machine \<Rightarrow> InstallOptions \<Rightarrow> InstallOptions act" where
  "promptWifi M opts =
     chk [] (say (nl @ ''  Installing WiFi dependencies ...'' @ nl)) (\<lambda>_.
     attempt (InstallWifiDeps M) (\<lambda>r. case r of
       Inl e \<Rightarrow>
         chk [] (say (''  Failed to install WiFi dependencies: '' @ e @ nl @ ''  Falling back to Ethernet.'' @ nl)) (\<lambda>_.
         ret (opts\<lparr>ioNetworkType := ''ethernet''\<rparr>))
     | Inr _ \<Rightarrow>
         chk [] (sayln ''  Scanning WiFi networks ...'') (\<lambda>_.
         attempt (ScanWifiNetworks M) (\<lambda>r.
         let networks = (case r of Inl _ \<Rightarrow> [] | Inr ns \<Rightarrow> ns) in
         if networks = [] then
           chk [] (say (''  No WiFi networks found.'' @ (case r of Inl e \<Rightarrow> '' ('' @ e @ '')'' | Inr _ \<Rightarrow> []) @ nl)) (\<lambda>_.
           ret (opts\<lparr>ioNetworkType := ''ethernet''\<rparr>))
         else
           chk [] (say_all (network_lines 0 networks @
             [''    '' @ nat_str (length networks + 1) @ '') Enter SSID manually'' @ nl @ nl])) (\<lambda>_.
           chk [] (prompt M ''  Select network'' ''1'') (\<lambda>choice.
           let i = Atoi (TrimSpace choice) in
           chk [] (if 1 \<le> i \<and> i \<le> int (length networks) then ret (wnSSID (networks ! (nat i - 1))) else prompt M ''  SSID'' []) (\<lambda>ssid.
           if ssid = [] then ret (opts\<lparr>ioWifiSSID := ssid\<rparr>)
           else chk [] (prompt M ''  Password'' []) (\<lambda>pw. ret (opts\<lparr>ioWifiSSID := ssid, ioWifiPassword := pw\<rparr>)))))))))"

text \<open>
  The loop that connects may ask for ever: its operation has no result (as for a panic) when it has
  not ended after \<open>n\<close> rounds.
\<close>

fun connect_loop :: "installer \<Rightarrow> nat \<Rightarrow> InstallOptions \<Rightarrow> InstallOptions act" where
  "connect_loop I 0 opts = (\<lambda>_. None)"
| "connect_loop I (Suc n) opts =
     (let M = im_machine I in
      if ioNetworkType opts \<noteq> ''wifi'' \<or> ioWifiSSID opts = [] then ret opts
      else chk [] (say nl) (\<lambda>_.
        attempt (ConnectWifi I (ioWifiSSID opts) (ioWifiPassword opts)) (\<lambda>r. case r of
          Inr _ \<Rightarrow>
            chk [] (GetWifiIP M) (\<lambda>ip.
            chk [] (sayln (''  WiFi connected successfully. IP: '' @ ip)) (\<lambda>_. ret opts))
        | Inl e \<Rightarrow>
            chk [] (say_all [''  WiFi connection failed: '' @ e @ nl, nl, ''    1) Re-enter password'' @ nl,
               ''    2) Choose different network'' @ nl, ''    3) Continue with Ethernet'' @ nl, nl]) (\<lambda>_.
            chk [] (prompt M ''  Select [1/2/3]'' ''1'') (\<lambda>retry.
            if retry = ''2'' then chk [] (promptWifi M opts) (connect_loop I n)
            else if retry = ''3'' then connect_loop I n (opts\<lparr>ioNetworkType := ''ethernet'', ioWifiSSID := []\<rparr>)
            else chk [] (prompt M ''  Password'' []) (\<lambda>pw. connect_loop I n (opts\<lparr>ioWifiPassword := pw\<rparr>)))))))"

definition prompt_gpu :: "machine \<Rightarrow> InstallOptions \<Rightarrow> InstallOptions act" where
  "prompt_gpu M opts =
     (if ioGPUMethod opts \<noteq> [] then ret opts
      else chk [] (DetectGPU M) (\<lambda>gpu.
        if \<not> gpu then ret opts
        else chk [] (GetGPUName M) (\<lambda>n.
          chk [] (say_all [nl, ''  NVIDIA GPU detected: '' @ n @ nl, nl, ''  GPU driver install method:'' @ nl,
             ''    1) NVIDIA CUDA repo (nvidia-open, latest driver) [recommended]'' @ nl,
             ''    2) Ubuntu drivers (ubuntu-drivers autoinstall)'' @ nl, nl]) (\<lambda>_.
          chk [] (prompt M ''  Select [1/2]'' ''1'') (\<lambda>c.
          ret (opts\<lparr>ioGPUMethod := (if c = ''2'' then GPUMethodUbuntu else ''cuda'')\<rparr>))))))"

definition prompt_network :: "machine \<Rightarrow> InstallOptions \<Rightarrow> InstallOptions act" where
  "prompt_network M opts =
     chk [] (DetectWifi M) (\<lambda>wifi.
     if \<not> wifi then ret opts
     else
       chk [] (say_all [nl, ''  Network connection:'' @ nl, ''    1) Ethernet (keep current)'' @ nl, ''    2) WiFi'' @ nl, nl]) (\<lambda>_.
       chk [] (prompt M ''  Select [1/2]'' ''1'') (\<lambda>c.
       if c = ''2'' then promptWifi M (opts\<lparr>ioNetworkType := ''wifi''\<rparr>)
       else ret (opts\<lparr>ioNetworkType := ''ethernet''\<rparr>))))"

definition promptInstallOptions :: "installer \<Rightarrow> nat \<Rightarrow> InstallOptions \<Rightarrow> InstallOptions act" where
  "promptInstallOptions I rounds opts =
     (let M = im_machine I in
     chk [] (env ''PACKALARES_DOMAIN'') (\<lambda>d.
     let opts = opts\<lparr>ioUsername := first_text [ioUsername opts, ''admin''], ioDomain := first_text [ioDomain opts, d, ''olares.local'']\<rparr> in
     chk [] (say (nl @ ''  Packalares Installer'' @ nl @ nl)) (\<lambda>_.
     chk [] (printHardwareInfo M) (\<lambda>_.
     chk [] (prompt M ''  Username'' (ioUsername opts)) (\<lambda>username.
     chk [] (prompt M ''  Domain'' (ioDomain opts)) (\<lambda>domain.
     chk [] (say nl) (\<lambda>_.
     chk [] (or_else [] (call M HHostname)) (\<lambda>h.
     chk [] (prompt M ''  Hostname'' (first_text [h, ''packalares''])) (\<lambda>hostname.
     chk [] (getCurrentTimezone M) (\<lambda>tz.
     chk [] (prompt M ''  Timezone'' tz) (\<lambda>timezone.
     chk [] (prompt_gpu M (opts\<lparr>ioUsername := username, ioDomain := domain, ioHostname := hostname, ioTimezone := timezone\<rparr>)) (\<lambda>opts.
     chk [] (prompt_network M opts) (\<lambda>opts.
     chk [] (connect_loop I rounds opts) (\<lambda>opts.
     chk [] (GetCurrentIP M) (\<lambda>ip.
     chk [] (if ip = [] then ret opts
             else chk [] (say (nl @ ''  Current IP: '' @ ip @ nl)) (\<lambda>_.
                  chk [] (prompt M ''  Configure static IP? [y/n]'' ''n'') (\<lambda>c.
                  ret (if c = ''y'' \<or> c = ''Y'' then opts\<lparr>ioStaticIP := True\<rparr> else opts)))) (\<lambda>opts.
     chk [] (if ioNetworkType opts \<noteq> ''wifi'' then ret ()
             else chk [] (GetWifiIP M) (\<lambda>ip.
                  if ip = [] then ret () else say (nl @ ''  Server will be accessible via WiFi at: '' @ ip @ nl))) (\<lambda>_.
     chk [] (say nl) (\<lambda>_. ret opts))))))))))))))))))"

subsection \<open>The display of a running installation\<close>

datatype phaseStatus = statusPending | statusRunning | statusDone | statusFailed | statusSkipped

record phaseInfo =
  piName :: string
  piStatus :: phaseStatus
  piDuration :: string

record installModel =
  tmPhases :: "phaseInfo list"
  tmCurrentPhase :: int
  tmLogs :: "string list"
  tmWidth :: int
  tmHeight :: int
  tmDone :: bool
  tmErr :: "string option"
  tmReboot :: bool
  tmErrMsg :: string
  tmPassword :: string

datatype tui_msg = KeyMsg string | WindowSizeMsg int int | TickMsg | FrameMsg | PhaseEventMsg event | ChannelClosed

datatype tui_cmd = Quit | QuitLater | WaitForEvent | SetPercent nat nat | Animate

definition maxLogLines :: nat where "maxLogLines = 200"

definition newInstallModel :: "string list \<Rightarrow> installModel" where
  "newInstallModel ps =
     \<lparr>tmPhases = map (\<lambda>n. \<lparr>piName = n, piStatus = statusPending, piDuration = []\<rparr>) ps, tmCurrentPhase = - 1, tmLogs = [],
      tmWidth = 80, tmHeight = 24, tmDone = False, tmErr = None, tmReboot = False, tmErrMsg = [], tmPassword = []\<rparr>"

definition set_phase :: "nat \<Rightarrow> (phaseInfo \<Rightarrow> phaseInfo) \<Rightarrow> installModel \<Rightarrow> installModel" where
  "set_phase i f m =
     (if i < length (tmPhases m) then m\<lparr>tmPhases := (tmPhases m)[i := f (tmPhases m ! i)]\<rparr> else m)"

definition password_mark :: string where "password_mark = ''Generated admin password: ''"

fun handlePhaseEvent :: "installModel \<Rightarrow> event \<Rightarrow> installModel \<times> tui_cmd list" where
  "handlePhaseEvent m (EventPhaseStart p i n) =
     ((set_phase i (\<lambda>q. q\<lparr>piStatus := statusRunning\<rparr>)
        (if i < length (tmPhases m) then m\<lparr>tmCurrentPhase := int i\<rparr> else m))\<lparr>tmLogs := []\<rparr>, [])"
| "handlePhaseEvent m (EventPhaseLog p i n msg) =
     (let m = (if HasPrefix msg password_mark then m\<lparr>tmPassword := TrimPrefix msg password_mark\<rparr> else m);
          logs = tmLogs m @ [msg]
      in (m\<lparr>tmLogs := (if maxLogLines < length logs then drop (length logs - maxLogLines) logs else logs)\<rparr>, []))"
| "handlePhaseEvent m (EventPhaseComplete p i n d) =
     (set_phase i (\<lambda>q. q\<lparr>piStatus := statusDone, piDuration := d\<rparr>) m, [SetPercent (i + 1) n])"
| "handlePhaseEvent m (EventPhaseFailed p i n d e) =
     ((set_phase i (\<lambda>q. q\<lparr>piStatus := statusFailed, piDuration := d\<rparr>) m)
        \<lparr>tmErr := Some e, tmErrMsg := ''Phase '' @ dquote @ p @ dquote @ '' failed: '' @ e, tmDone := True\<rparr>, [Quit])"
| "handlePhaseEvent m (EventPhaseSkipped p i n) = (set_phase i (\<lambda>q. q\<lparr>piStatus := statusSkipped\<rparr>) m, [])"
| "handlePhaseEvent m (EventRebootRequired p i n d e) = (m\<lparr>tmReboot := True, tmDone := True\<rparr>, [Quit])"
| "handlePhaseEvent m (EventInstallComplete n) = (m\<lparr>tmDone := True\<rparr>, [SetPercent 1 1, QuitLater])"

fun Update :: "installModel \<Rightarrow> tui_msg \<Rightarrow> installModel \<times> tui_cmd list" where
  "Update m (KeyMsg k) = (m, if k = ''q'' \<or> k = ''ctrl+c'' then [Quit] else [])"
| "Update m (WindowSizeMsg w h) = (m\<lparr>tmWidth := w, tmHeight := h\<rparr>, [])"
| "Update m TickMsg = (m, [Animate])"
| "Update m FrameMsg = (m, [Animate])"
| "Update m (PhaseEventMsg ev) =
     (let (m, cmds) = handlePhaseEvent m ev in (m, cmds @ (if tmDone m then [] else [WaitForEvent])))"
| "Update m ChannelClosed = (m\<lparr>tmDone := True\<rparr>, [Quit])"

definition logViewportSize :: "installModel \<Rightarrow> int \<times> int" where
  "logViewportSize m =
     (let available = tmHeight m - 2 - int (length (tmPhases m) + 1) - 3 - 4 in
      (max 20 (tmWidth m - 6), min 15 (max 3 available)))"

text \<open>A duration is its number of nanoseconds, rounded half up.\<close>

definition formatDuration :: "nat \<Rightarrow> string" where
  "formatDuration d =
     (let s = (d + 500000000) div 1000000000 in
      if s < 60 then nat_str s @ ''s''
      else if s mod 60 = 0 then nat_str (s div 60) @ ''m''
      else nat_str (s div 60) @ ''m'' @ nat_str (s mod 60) @ ''s'')"

text \<open>The messages are handled until one of them ends the program.\<close>

fun tui_run :: "installModel \<Rightarrow> tui_msg list \<Rightarrow> installModel" where
  "tui_run m [] = m"
| "tui_run m (msg # msgs) =
     (case Update m msg of (m', cmds) \<Rightarrow> if Quit \<in> set cmds then m' else tui_run m' msgs)"

text \<open>\<open>installErr\<close> is what the installation has returned when the display ends; nothing while it still runs.\<close>

definition runInstallTUI :: "string list \<Rightarrow> tui_msg list \<Rightarrow> string option \<Rightarrow> string option \<times> string" where
  "runInstallTUI ps msgs installErr =
     (let m = tui_run (newInstallModel ps) msgs in
      (if tmReboot m then Some ErrRebootRequired
       else if installErr \<noteq> None then installErr
       else tmErr m,
       if tmPassword m \<noteq> [] then nl @ ''  Generated admin password: '' @ tmPassword m @ nl else []))"

subsection \<open>The commands\<close>

text \<open>The options as the flags give them when no flag is set.\<close>

definition flag_options :: InstallOptions where
  "flag_options = no_options\<lparr>ioCertMode := ''local''\<rparr>"

definition install_end :: "string option \<Rightarrow> unit act" where
  "install_end err =
     (case err of
        None \<Rightarrow> sayln (nl @ ''Packalares installation complete.'')
      | Some e \<Rightarrow> if e = ErrRebootRequired then ret () else fail (''installation failed: '' @ e))"

text \<open>The command without a terminal: \<open>asked\<close> says that a flag has set the user name or the domain.\<close>

definition install_cmd :: "installer \<Rightarrow> nat \<Rightarrow> bool \<Rightarrow> InstallOptions \<Rightarrow> unit act" where
  "install_cmd I rounds asked opts =
     chk [] (HasInstallState I) (\<lambda>resuming.
     chk [] (if \<not> resuming \<and> \<not> asked then promptInstallOptions I rounds opts else ret opts) (\<lambda>opts w.
       case RunInstall I opts w of None \<Rightarrow> None | Some (err, w') \<Rightarrow> install_end err w'))"

definition precheck_cmd :: "machine \<Rightarrow> unit act" where
  "precheck_cmd M =
     chk [] (RunPrecheck M) (\<lambda>r.
     chk [] (PrintReport r) (\<lambda>_.
     if \<not> prPassed r then fail (''precheck failed '' @ [CHR 0xE2, CHR 0x80, CHR 0x94] @ '' fix the issues above before installing'')
     else sayln (nl @ ''All checks passed. System is ready for installation.'')))"

definition getServiceStatus :: "machine \<Rightarrow> string \<Rightarrow> string act" where
  "getServiceStatus M name =
     attempt (run M [''systemctl'', ''is-active'', name]) (\<lambda>r. ret (case r of
         Inl _ \<Rightarrow> ''not installed'' | Inr out \<Rightarrow> TrimSpace out))"

definition findKubectl :: "machine \<Rightarrow> string act" where
  "findKubectl M =
     chk [] (succeeds (call M (HStat ''/usr/local/bin/kubectl''))) (\<lambda>a.
     if a then ret ''/usr/local/bin/kubectl''
     else chk [] (succeeds (call M (HStat ''/usr/bin/kubectl''))) (\<lambda>b.
       if b then ret ''/usr/bin/kubectl'' else or_else [] (call M (HLookPath ''kubectl''))))"

fun status_rows :: "machine \<Rightarrow> string list \<Rightarrow> (string \<times> string) list act" where
  "status_rows M [] = ret []"
| "status_rows M (s # ss) =
     chk [] (getServiceStatus M s) (\<lambda>st. chk [] (status_rows M ss) (\<lambda>rows. ret ((s, st) # rows)))"

definition table2 :: "(string \<times> string) list \<Rightarrow> string" where
  "table2 rows = (let a = foldl max 0 (map (length \<circ> fst) rows) in unlines (map (\<lambda>(x, y). pad_to a x @ y) rows))"

fun show_pods :: "machine \<Rightarrow> string \<Rightarrow> string list \<Rightarrow> unit act" where
  "show_pods M kubectl [] = ret ()"
| "show_pods M kubectl (ns # nss) =
     attempt (run M [kubectl, ''get'', ''pods'', ''-n'', ns, ''--no-headers'', ''-o'',
        ''custom-columns=NAME:.metadata.name,STATUS:.status.phase,READY:.status.conditions[?(@.type=='' @ squote @ ''Ready'' @ squote @
        '')].status'']) (\<lambda>r.
     chk [] (case r of
         Inl _ \<Rightarrow> ret ()
       | Inr out \<Rightarrow> if TrimSpace out = [] then ret ()
           else say (''--- '' @ ns @ '' ---'' @ nl @ TrimSpace out @ nl @ nl)) (\<lambda>_. show_pods M kubectl nss))"

definition showStatus :: "installer \<Rightarrow> unit act" where
  "showStatus I =
     (let M = im_machine I in
     chk [] (say (''=== Packalares System Status ==='' @ nl @ nl)) (\<lambda>_.
     chk [] (status_rows M [''k3s'', ''etcd'']) (\<lambda>rows.
     chk [] (say (table2 ([(''SERVICE'', ''STATUS''), (''-------'', ''------'')] @ rows) @ nl)) (\<lambda>_.
     chk [] (findKubectl M) (\<lambda>kubectl.
     if kubectl = [] then sayln (''kubectl not found '' @ [CHR 0xE2, CHR 0x80, CHR 0x94] @ '' cannot check pod status'')
     else
       chk [] (say (''=== Kubernetes Pods ==='' @ nl @ nl)) (\<lambda>_.
       chk [] (settings I) (\<lambda>cx.
       chk [] (show_pods M kubectl [PlatformNamespace cx, FrameworkNamespace cx, MonitoringNamespace cx,
                 UserNamespace (Username cx), ''kube-system'']) (\<lambda>_.
       attempt (call M (HRead ReleaseFile)) (\<lambda>r. case r of
           Inl _ \<Rightarrow> ret ()
         | Inr data \<Rightarrow> say (''=== Release Info ==='' @ nl @ data @ nl))))))))))"

definition scan_word :: "string \<Rightarrow> string" where
  "scan_word l = (case Fields l of [] \<Rightarrow> [] | w # _ \<Rightarrow> w)"

definition uninstall_cmd :: "machine \<Rightarrow> bool \<Rightarrow> unit act" where
  "uninstall_cmd M force =
     chk [] (if force then ret True
             else chk [] (say ''This will remove ALL Packalares components. Are you sure? [y/N]: '') (\<lambda>_.
                  chk [] (read_line M) (\<lambda>l. ret (scan_word l = ''y'' \<or> scan_word l = ''Y'')))) (\<lambda>ok.
     if \<not> ok then sayln ''Aborted.''
     else chk ''uninstall failed: '' (RunUninstall M) (\<lambda>_. sayln (nl @ ''Packalares has been uninstalled.'')))"

definition upgrade_cmd :: "string \<Rightarrow> unit act" where
  "upgrade_cmd targetVersion =
     (if targetVersion = [] then fail ''--version is required''
      else chk ''upgrade failed: '' (RunUpgrade targetVersion) (\<lambda>_.
        sayln (nl @ ''Packalares upgraded to '' @ targetVersion @ ''.'')))"

end
