(* ===== verification/Inst_Props.thy ===== *)
theory Inst_Props
  imports Inst_Cli
begin

text \<open>
  What an installation promises: it goes through its phases in order, it saves what it has finished,
  and a later run takes up where it stopped. The remaining lemmas show where the code breaks a promise.
\<close>

subsection \<open>Runs of the phases\<close>

text \<open>The phases that the events say were started and finished.\<close>

fun start_of :: "event \<Rightarrow> string option" where
  "start_of (EventPhaseStart p i n) = Some p"
| "start_of _ = None"

fun finish_of :: "event \<Rightarrow> string option" where
  "finish_of (EventPhaseComplete p i n d) = Some p"
| "finish_of _ = None"

definition started :: "event list \<Rightarrow> string list" where
  "started evs = List.map_filter start_of evs"

definition finished :: "event list \<Rightarrow> string list" where
  "finished evs = List.map_filter finish_of evs"

lemma map_filter_append: "List.map_filter f (xs @ ys) = List.map_filter f xs @ List.map_filter f ys"
  by (induction xs) (auto simp: List.map_filter_simps split: option.splits)

lemma map_filter_none: "(\<And>x. x \<in> set xs \<Longrightarrow> f x = None) \<Longrightarrow> List.map_filter f xs = []"
  by (induction xs) (auto simp: List.map_filter_simps)

named_theorems inst_run

lemma started_simps [inst_run]:
  "started [] = []" "started (e # evs) = (case start_of e of None \<Rightarrow> [] | Some p \<Rightarrow> [p]) @ started evs"
  "started (evs @ evs') = started evs @ started evs'"
  by (auto simp: started_def List.map_filter_simps map_filter_append split: option.splits)

lemma finished_simps [inst_run]:
  "finished [] = []" "finished (e # evs) = (case finish_of e of None \<Rightarrow> [] | Some p \<Rightarrow> [p]) @ finished evs"
  "finished (evs @ evs') = finished evs @ finished evs'"
  by (auto simp: finished_def List.map_filter_simps map_filter_append split: option.splits)

lemma run_phase_logs:
  assumes "run_phase i n p w = Some (r, logs, w')"
  shows "started logs = []" "finished logs = []"
  using assms by (auto simp: run_phase_def started_def finished_def split: option.splits prod.splits intro!: map_filter_none)

lemma send_SomeE:
  assumes "send evs r = Some (err, evs'', rest)"
  obtains evs' where "r = Some (err, evs', rest)" "evs'' = evs @ evs'"
  using assms by (auto simp: send_def split: option.splits)

definition todo :: "string list \<Rightarrow> phase list \<Rightarrow> string list" where
  "todo c ps = filter (\<lambda>p. p \<notin> set c) (map fst ps)"

lemma todo_simps [inst_run]:
  "todo c [] = []" "todo c (p # ps) = (if fst p \<in> set c then [] else [fst p]) @ todo c ps"
  by (auto simp: todo_def)

text \<open>A run goes through what is left to do and stops at the first phase that does not finish.\<close>

definition went_through :: "string list \<Rightarrow> string option \<Rightarrow> event list \<Rightarrow> bool" where
  "went_through ts err evs =
     (case err of
        None \<Rightarrow> started evs = ts \<and> finished evs = ts
      | Some _ \<Rightarrow> (\<exists>p rest. ts = finished evs @ p # rest \<and> started evs = finished evs @ [p]))"

lemma run_phases_went:
  "run_phases I i n c ps st w = Some (err, evs, st', w') \<Longrightarrow>
     went_through (todo c ps) err evs \<and> isCompletedPhases st' = isCompletedPhases st @ finished evs"
proof (induction ps arbitrary: i st w evs)
  case Nil
  then show ?case by (auto simp: went_through_def inst_run)
next
  case (Cons p ps)
  show ?case
  proof (cases "fst p \<in> set c")
    case True
    then obtain evs' where r: "run_phases I (i + 1) n c ps st w = Some (err, evs', st', w')"
      and e: "evs = [EventPhaseSkipped (fst p) i n] @ evs'"
      using Cons.prems by (auto elim!: send_SomeE)
    show ?thesis using Cons.IH [OF r] True by (simp add: e inst_run went_through_def cong: option.case_cong)
  next
    case False
    then obtain r logs w1 where p: "run_phase i n p w = Some (r, logs, w1)"
      using Cons.prems by (auto split: option.splits)
    note l = run_phase_logs [OF p]
    show ?thesis
    proof (cases r)
      case (Inl e)
      then show ?thesis using Cons.prems False p l
        by (auto simp: Let_def went_through_def inst_run elim!: send_SomeE)
    next
      case (Inr oc)
      show ?thesis
      proof (cases oc)
        case (Reboot reason)
        then show ?thesis using Cons.prems False p l Inr
          by (auto simp: Let_def went_through_def inst_run elim!: send_SomeE)
      next
        case Finished
        let ?st = "st\<lparr>isCompletedPhases := isCompletedPhases st @ [fst p]\<rparr>"
        obtain evs' where r: "run_phases I (i + 1) n c ps ?st (world_after (saveInstallState I ?st) w1) = Some (err, evs', st', w')"
          and e: "started evs = fst p # started evs'" "finished evs = fst p # finished evs'"
          using Cons.prems False p l Inr Finished by (auto simp: Let_def inst_run elim!: send_SomeE)
        show ?thesis using Cons.IH [OF r] False by (simp add: e inst_run went_through_def split: option.splits)
      qed
    qed
  qed
qed

subsection \<open>A small installation\<close>

text \<open>A machine on which every question has an empty answer, and two phases of which the second fails.\<close>

definition quiet_machine :: machine where
  "quiet_machine = \<lparr>answers = (\<lambda>_ _. HOk []), goos = ''linux'', goarch = ''amd64'', pemEncode = (\<lambda>_ d. d)\<rparr>"

definition small_installer :: installer where
  "small_installer =
     \<lparr>im_machine = quiet_machine, encodeState = (\<lambda>_ st. join [CHR '',''] (isCompletedPhases st)),
      decodeState = (\<lambda>_. Inl []), map_order = (\<lambda>kvs. kvs), ConfigTemplate = [], decodeYAML = (\<lambda>_. Inr (Some [])),
      encodeYAML = (\<lambda>_. []), configYAML = [], Manifests = (\<lambda>_. Inr []), encodeJSON = (\<lambda>_. []), decodeToken = (\<lambda>_. Inr []),
      EscapeFilter = (\<lambda>s. s), elapsed = (\<lambda>_ _. [])\<rparr>"

definition small_phases :: "phase list" where
  "small_phases = [(''a'', plain (say (''one'' @ nl))), (''b'', fail ''broken'')]"

definition small_state :: InstallState where
  "small_state = \<lparr>isCompletedPhases = [], isOptions = no_options, isRebootReason = []\<rparr>"

definition small_world :: host where
  "small_world = \<lparr>hw_log = [], hw_env = (\<lambda>_. []), hw_out = []\<rparr>"

lemmas small_defs =
  small_installer_def quiet_machine_def small_phases_def small_state_def small_world_def saveInstallState_def world_after_def
  call_def ask_def chk_def ret_def fail_def attempt_def plain_def say_def run_phase_def text_of_def

definition small_error :: string where
  "small_error = ''phase '' @ dquote @ ''b'' @ dquote @ '' failed: broken''"

definition small_events :: "event list" where
  "small_events =
     [EventPhaseStart ''a'' 0 2, EventPhaseLog ''a'' 0 2 ''one'', EventPhaseComplete ''a'' 0 2 [],
      EventPhaseStart ''b'' 1 2, EventPhaseFailed ''b'' 1 2 [] ''broken'']"

definition small_end :: InstallState where
  "small_end = small_state\<lparr>isCompletedPhases := [''a'']\<rparr>"

definition small_save :: hlog where
  "small_save = [(HMkdir (Dir StateFilePath) 493, HOk []), (HWrite StateFilePath ''a'' 384, HOk [])]"

definition small_after :: host where
  "small_after = small_world\<lparr>hw_log := small_save @ small_save\<rparr>"

lemma writer_one: "writer_lines [CHR ''o'' # CHR ''n'' # CHR ''e'' # nl] = [''one'']"
  unfolding writer_lines_complete by (simp add: nl_def sent_line_def Let_def)

lemma writer_none: "writer_lines [] = []"
  unfolding writer_lines_complete by (simp add: sent_line_def Let_def)

lemma small_run:
  "run_phases small_installer 0 2 [] small_phases small_state small_world = Some (Some small_error, small_events, small_end, small_after)"
  by (simp add: small_defs small_error_def small_events_def small_end_def small_after_def small_save_def Let_def send_def
      writer_one writer_none)

text \<open>The second run, from the state that the first has left.\<close>

definition small_events_2 :: "event list" where
  "small_events_2 =
     [EventPhaseSkipped ''a'' 0 2, EventPhaseStart ''b'' 1 2, EventPhaseFailed ''b'' 1 2 [] ''broken'']"

definition small_after_2 :: host where
  "small_after_2 = small_world\<lparr>hw_log := small_save\<rparr>"

lemma small_run_2:
  "run_phases small_installer 0 2 (isCompletedPhases small_end) small_phases small_end small_world =
     Some (Some small_error, small_events_2, small_end, small_after_2)"
  by (simp add: small_defs small_error_def small_events_2_def small_end_def small_after_2_def small_save_def Let_def send_def
      writer_one writer_none)

lemma small_finished: "finished small_events = [''a'']"
  by (simp add: small_events_def finished_simps)

subsection \<open>Order, state and resumption\<close>

text \<open>
  C13: A run goes through the phases that are not completed yet, in their order: without an error it
  has started and finished all of them; with one it has finished those before a phase that was
  started last, and started none after it. The completed phases of its state grow by just those it
  has finished.
\<close>

theorem run_goes_in_order:
  assumes "run_phases I i n c ps st w = Some (err, evs, st', w')"
  shows "went_through (todo c ps) err evs \<and> isCompletedPhases st' = isCompletedPhases st @ finished evs"
  using run_phases_went [OF assms] .

theorem run_goes_in_order_witness:
  "went_through [''a'', ''b''] (Some small_error) small_events \<and> isCompletedPhases small_end = [''a'']"
  using run_goes_in_order [OF small_run] by (simp add: todo_def small_phases_def small_finished small_state_def)

lemma save_logs:
  "\<exists>m a. hw_log (world_after (saveInstallState I st) w) =
     hw_log w @ [(HMkdir (Dir StateFilePath) 493, m)] @
       (if failed m then [] else [(HWrite StateFilePath (encodeState I (hw_log w) st) 384, a)])"
  by (auto simp: world_after_def saveInstallState_def call_def ask_def chk_def Let_def ret_def fail_def failed_def
      split: hans.splits)

text \<open>
  C14: When a run stops with an error, saving its state is the last thing it does: it makes the
  directory and writes the encoding of the state, which lists just what was finished before and in
  this run.
\<close>

theorem stopped_run_is_saved:
  assumes "run_phases I i n c ps st w = Some (Some e, evs, st', w')"
  shows "\<exists>l m a. hw_log w' = l @ [(HMkdir (Dir StateFilePath) 493, m)] @
           (if failed m then [] else [(HWrite StateFilePath (encodeState I l st') 384, a)]) \<and>
         isCompletedPhases st' = isCompletedPhases st @ finished evs"
proof -
  have "run_phases I i n c ps st w = Some (Some e, evs, st', w') \<Longrightarrow> \<exists>w0. w' = world_after (saveInstallState I st') w0"
    for i st w evs
  proof (induction ps arbitrary: i st w evs)
    case (Cons p ps)
    then show ?case
      by (auto simp: Let_def elim!: send_SomeE split: if_splits option.splits sum.splits outcome.splits; blast)
  qed simp
  then show ?thesis using assms save_logs run_phases_went [OF assms] by metis
qed

theorem stopped_run_is_saved_witness:
  "\<exists>l m a. hw_log small_after = l @ [(HMkdir (Dir StateFilePath) 493, m)] @
     (if failed m then [] else [(HWrite StateFilePath (encodeState small_installer l small_end) 384, a)])"
  using stopped_run_is_saved [OF small_run] by blast

lemma went_through_prefix:
  assumes "went_through (t # ts) err evs"
  shows "\<exists>rest. started evs = t # rest"
proof (cases err)
  case (Some e)
  then obtain p rest where "t # ts = finished evs @ p # rest" "started evs = finished evs @ [p]"
    using assms by (auto simp: went_through_def)
  then show ?thesis by (cases "finished evs") auto
qed (use assms in \<open>simp add: went_through_def\<close>)

lemma went_through_subset: "went_through ts err evs \<Longrightarrow> set (started evs) \<subseteq> set ts"
  by (auto simp: went_through_def split: option.splits)

text \<open>
  A run that continues from the state of a run that stopped starts with the phase at which that
  run stopped, and never starts a phase again that was finished before.
\<close>

lemma resume_takes_up:
  assumes "run_phases I i n c ps st w = Some (Some e, evs, st', w')" "isCompletedPhases st = c" "distinct (map fst ps)"
    and "run_phases J i n (isCompletedPhases st') ps st2 w2 = Some (err2, evs2, st2', w2')"
  shows "(\<exists>p rest. started evs = finished evs @ [p] \<and> started evs2 = p # rest) \<and>
         set (started evs2) \<inter> set (c @ finished evs) = {}"
proof -
  obtain p rest where t: "todo c ps = finished evs @ p # rest" and s: "started evs = finished evs @ [p]"
    and c: "isCompletedPhases st' = c @ finished evs"
    using run_phases_went [OF assms(1)] assms(2) by (auto simp: went_through_def)
  have "distinct (todo c ps)" using assms(3) by (simp add: todo_def)
  then have "filter (\<lambda>q. q \<notin> set (finished evs)) (todo c ps) = p # rest"
    unfolding t by (auto simp: filter_empty_conv intro!: filter_True)
  moreover have "todo (isCompletedPhases st') ps = filter (\<lambda>q. q \<notin> set (finished evs)) (todo c ps)"
    unfolding c todo_def filter_filter by (rule filter_cong) auto
  ultimately have t2: "todo (isCompletedPhases st') ps = p # rest" by simp
  have went: "went_through (todo (isCompletedPhases st') ps) err2 evs2" using run_phases_went [OF assms(4)] by simp
  have "set (started evs2) \<inter> set (c @ finished evs) = {}"
    using went_through_subset [OF went] unfolding c by (auto simp: todo_def)
  then show ?thesis using went_through_prefix [OF went [unfolded t2]] s by blast
qed

lemma resume_takes_up_witness: "\<exists>rest. started small_events_2 = ''b'' # rest"
  using resume_takes_up [OF small_run _ _ small_run_2]
  by (simp add: small_state_def small_phases_def small_events_def started_simps small_finished)

subsection \<open>The login hook\<close>

lemma outside_hook_append:
  "(\<And>l. l \<in> set xs \<Longrightarrow> \<not> Contains l hook_marker) \<Longrightarrow> outside_hook False (xs @ ys) = xs @ outside_hook False ys"
  by (induction xs) auto

lemma sublist_split_on: "l \<in> set (split_on c s) \<Longrightarrow> sublist l s"
proof (induction s arbitrary: l)
  case (Cons d s)
  show ?case
  proof (cases "c = d")
    case True
    then show ?thesis using Cons by (auto simp: sublist_Cons_right)
  next
    case False
    obtain h t where ht: "split_on c s = h # t" by (cases "split_on c s") auto
    have "prefix h s" using join_split_on [of c s] unfolding ht by (cases t) (auto simp: prefix_def)
    then have "sublist (d # h) (d # s)" by (intro prefix_imp_sublist) simp
    then show ?thesis using False Cons ht by (auto simp: sublist_Cons_right)
  qed
qed simp

lemma join_snoc: "xs \<noteq> [] \<Longrightarrow> join c (xs @ [y]) = join c xs @ c @ y"
proof (induction xs rule: list_nonempty_induct)
  case (cons x xs)
  then show ?case by (cases xs) auto
qed simp

lemma outside_hook_lines: "outside_hook False (split_on (CHR 0x0A) (tl hook_text)) = [[]]"
  by code_simp

text \<open>
  Removing the login hook undoes adding it: from a file without the marker, the lines of the hook
  are all that is taken out; the line break that stands before them stays.
\<close>

lemma login_hook_removed:
  assumes "\<not> Contains s hook_marker"
  shows "without_hook (s @ hook_text) = s @ nl"
proof -
  let ?n = "CHR 0x0A"
  have h: "hook_text = ?n # tl hook_text" by code_simp
  have "Contains hook_text hook_marker" by code_simp
  then have c: "Contains (s @ hook_text) hook_marker" by (rule sublist_order.order.trans) simp
  have plain: "\<not> Contains l hook_marker" if "l \<in> set (split_on ?n s)" for l
    using assms sublist_split_on [OF that] sublist_order.order.trans by blast
  have "outside_hook False (split_on ?n (s @ hook_text)) = split_on ?n s @ [[]]"
    unfolding arg_cong [OF h, of "\<lambda>t. split_on ?n (s @ t)"] split_on_append_sep
    using outside_hook_append [of "split_on ?n s" "split_on ?n (tl hook_text)", OF plain] by (simp only: outside_hook_lines)
  then show ?thesis using c by (simp add: without_hook_def join_snoc join_split_on nl_def)
qed

lemma login_hook_removed_witness: "without_hook (''PATH=/bin'' @ hook_text) = ''PATH=/bin'' @ nl"
proof (rule login_hook_removed)
  show "\<not> Contains ''PATH=/bin'' hook_marker" by code_simp
qed

subsection \<open>Where the code breaks its promises\<close>

text \<open>The options of a resumed run are those that were saved; the ones of the command line have no effect.\<close>

lemma resumed_options:
  assumes "loadInstallState I w = Some (Inr (Some st), w1)"
  shows "map_option (\<lambda>(e, evs, _, w'). (e, evs, w')) (RunInstallWithEvents I opts w) =
         map_option (\<lambda>(e, evs, _, w'). (e, evs, w')) (RunInstallWithEvents I opts' w)"
  using assms by (auto simp: RunInstallWithEvents_def Let_def send_def split: option.splits sum.splits prod.splits)

text \<open>
  The secrets are kept in the environment of the process that drew them: a run that is resumed between
  \<^verbatim>\<open>Generate secrets\<close> and \<^verbatim>\<open>Deploy KVRocks\<close> fails at once, and so does every further one.
\<close>

definition before_kvrocks :: "string list" where
  "before_kvrocks =
     [''Configure system'', ''Precheck'', ''Download binaries'', ''Configure kernel'', ''Install etcd'', ''Install K3s'',
      ''Deploy Calico CNI'', ''Deploy OpenEBS'', ''Setup Kubernetes management'', ''Generate secrets'']"

lemma resumed_without_secrets:
  assumes "hw_env w ''REDIS_PASSWORD'' = []"
  shows "map_option (finished \<circ> fst \<circ> snd) (run_phases I 0 22 before_kvrocks (buildPhases I opts arch) st w) = Some [] \<and>
         map_option fst (run_phases I 0 22 before_kvrocks (buildPhases I opts arch) st w) \<noteq> Some None"
  using assms
  by (simp add: buildPhases_def before_kvrocks_def Let_def send_def run_phase_def plain_def chk_def settings_def redis_Install_def
      env_def fail_def writer_none finished_simps)

text \<open>A key that ends the display ends the command with the message of a complete installation.\<close>

lemma quit_says_complete:
  "runInstallTUI ps [KeyMsg ''q''] None = (None, []) \<and>
   install_end (fst (runInstallTUI ps [KeyMsg ''q''] None)) = sayln (nl @ ''Packalares installation complete.'')"
  by (simp add: runInstallTUI_def newInstallModel_def install_end_def)

text \<open>The flag has a default, so that the environment is never asked for the kind of certificate.\<close>

lemma cert_mode_of_environment: "ioCertMode (applyDefaults e flag_options) = ''local''"
  by (simp add: applyDefaults_def flag_options_def first_text_def)

text \<open>\<^verbatim>\<open>--force\<close> leaves the second question, and a no to it is reported as a removal.\<close>

lemma no_means_no: "TrimSpace (ToLower ''n'') = ''n''"
  by code_simp

lemma forced_uninstall_asks:
  assumes "answers M (hw_log w) HStdin = HOk ''n''"
  shows "\<exists>w'. uninstall_cmd M True w = Some (Inr (), w') \<and> hw_log w' = hw_log w @ [(HStdin, HOk ''n'')] \<and>
              last (hw_out w') = nl @ ''Packalares has been uninstalled.'' @ nl"
  using assms no_means_no
  by (simp add: uninstall_cmd_def RunUninstall_def chk_def ret_def say_def sayln_def read_line_def ask_def text_of_def Let_def)

text \<open>At the end of the input, without a wireless interface, the connection is tried for ever.\<close>

lemma connect_for_ever:
  assumes eof: "\<And>l. answers M l HStdin = HErr [] ''EOF''" and nowifi: "\<And>l. answers M l (HGlob ''/sys/class/net/*/wireless'') = HNames []"
    and "im_machine I = M" "ioNetworkType opts = ''wifi''" "ioWifiSSID opts \<noteq> []"
  shows "connect_loop I n opts w = None"
  using assms(3-)
proof (induction n arbitrary: opts w)
  case (Suc n)
  then show ?case
    by (simp add: Let_def chk_def say_def attempt_def ConnectWifi_def getWifiInterface_def or_else_def names_def ask_def nowifi
        ret_def fail_def prompt_def read_line_def eof text_of_def TrimSpace_def)
qed simp

text \<open>The display keeps at most 200 lines.\<close>

lemma tui_logs_bounded: "length (tmLogs m) \<le> maxLogLines \<Longrightarrow> length (tmLogs (fst (Update m msg))) \<le> maxLogLines"
  by (cases msg; simp add: Let_def split_beta; rename_tac e; case_tac e) (auto simp: set_phase_def Let_def maxLogLines_def)

end
